(* ===== verification/Prelude.thy ===== *)
theory Prelude
  imports Main "HOL-Library.Word"
begin

unbundle bit_operations_syntax

text \<open>
  Shared ground of the development: the C integer types as fixed width words, the conversions
  between them, the result type of the instruction executors, the collections of rewrite rules
  the components add to, and the word lemmas several components need.

  Signed and unsigned C integers of one width are one word type; the signed reading is \<open>sint\<close>,
  the unsigned one \<open>uint\<close> or \<open>unat\<close>.  A widening conversion from a signed type is \<open>scast\<close>, from
  an unsigned type \<open>ucast\<close>; every narrowing conversion is \<open>ucast\<close>.  The build passes
  \<^verbatim>\<open>-fwrapv\<close>, so signed addition, subtraction and multiplication wrap.
\<close>

named_theorems flag_simps \<open>reading a PSW flag or a register after an update\<close>
named_theorems chk_forms \<open>the flag helpers as conditional flag updates\<close>
named_theorems exec_defs \<open>definitions of the instruction executors\<close>

type_synonym u8 = "8 word"
type_synonym u16 = "16 word"
type_synonym u32 = "32 word"
type_synonym u64 = "64 word"

text \<open>
  What the C language leaves undefined and the host turns into a crash or an arbitrary access:
  a division the processor refuses, a shift by the width or more, an index outside an array.
\<close>

datatype host_fault = DivFault | ShiftFault | IndexFault

text \<open>
  The result of an executor over a state \<open>'s\<close>: \<open>Ret0\<close> is \<^verbatim>\<open>return 0\<close>, \<open>RetErr\<close> is
  \<^verbatim>\<open>return -1\<close> with the state as far as the code had changed it, \<open>Fault\<close> is undefined
  behaviour.
\<close>

datatype 's outcome = Ret0 's | RetErr 's | Fault host_fault

section \<open>Words\<close>

lemma uint_ucast_32_64 [simp]: "uint (ucast (x :: u32) :: u64) = uint x"
  by (simp add: uint_up_ucast is_up)

lemma sint_scast_32_64 [simp]: "sint (scast (x :: u32) :: u64) = sint x"
  by (simp add: sint_up_scast is_up)

lemma uint_range32: "0 \<le> uint (x :: u32)" "uint (x :: u32) < 4294967296"
  using uint_bounded [of x] by simp_all

lemma sint32_alt:
  "sint (x :: u32) = (if uint x < 2147483648 then uint x else uint x - 4294967296)"
proof -
  note r = uint_range32 [of x]
  have "bit (uint x) 31 \<longleftrightarrow> odd (uint x div 2147483648)" by (simp add: bit_iff_odd)
  also have "\<dots> \<longleftrightarrow> \<not> uint x < 2147483648"
  proof (cases "uint x < 2147483648")
    case False
    then have "uint x div 2147483648 = 1" using r by (simp add: div_pos_geq)
    then show ?thesis using False by simp
  qed (use r in \<open>simp add: div_pos_pos_trivial\<close>)
  finally show ?thesis
    using r by (simp add: sint_uint signed_take_bit_eq_take_bit_minus take_bit_int_eq_self_iff)
qed

lemma sint_range32: "- 2147483648 \<le> sint (x :: u32)" "sint (x :: u32) < 2147483648"
  unfolding sint32_alt by (auto intro: order_trans [OF _ uint_range32(1) [of x]])
     (use uint_range32 [of x] in linarith)+

lemma unat_inc:
  assumes "a < (e :: 'a::len word)"
  shows "unat (a + 1) = Suc (unat a)"
proof -
  have "unat a < unat e" using assms by (simp add: word_less_nat_alt)
  moreover have "unat e < 2 ^ LENGTH('a)" by (rule unsigned_less)
  ultimately have "Suc (unat a) < 2 ^ LENGTH('a)" by linarith
  then show ?thesis by (simp add: unat_word_ariths)
qed

lemma sint64_of_int:
  "- (2 ^ 63) \<le> k \<Longrightarrow> k < 2 ^ 63 \<Longrightarrow> sint (word_of_int k :: u64) = k"
  by (simp add: sint_sbintrunc' signed_take_bit_int_eq_self)

lemma sint_add64:
  "- (2 ^ 63) \<le> sint a + sint b \<Longrightarrow> sint a + sint b < 2 ^ 63 \<Longrightarrow>
   sint (a + b :: u64) = sint a + sint b"
  by (simp add: sint_word_ariths signed_take_bit_int_eq_self)

lemma sint_minus64:
  "- (2 ^ 63) < sint a \<Longrightarrow> sint (- a :: u64) = - sint a"
  using sint_less [of a] by (simp add: sint_word_ariths signed_take_bit_int_eq_self)

lemma uint_eq_iff_sint: "(a :: u32) = b \<longleftrightarrow> sint a = sint b"
  by (simp add: word_eq_iff_signed)

end
