(* ===== verification/Op_Format.thy ===== *)
theory Op_Format
  imports Prelude
begin

text \<open>
  The instruction formats of \<^verbatim>\<open>cpu_dec/op_format.h\<close>, one record per format, the decoded
  instruction of \<^verbatim>\<open>op_dec_types.h\<close> that holds one of each, and the field decoders
  \<^verbatim>\<open>OpDecode1\<close> to \<^verbatim>\<open>OpDecode14\<close> and \<^verbatim>\<open>OpDecode_f\<close> of \<^verbatim>\<open>cpu_dec/op_dec.c\<close>.

  Fields carry the prefix of their format.  A decoder reads up to three half words of code, here
  a function from the index, and overwrites the record of its own format only, as the C code
  does with the statically allocated or cached decoded instruction.
\<close>

datatype OpCodeFormatId =
    OP_CODE_FORMAT_1 | OP_CODE_FORMAT_2 | OP_CODE_FORMAT_3 | OP_CODE_FORMAT_4
  | OP_CODE_FORMAT_5 | OP_CODE_FORMAT_6 | OP_CODE_FORMAT_7 | OP_CODE_FORMAT_8
  | OP_CODE_FORMAT_9 | OP_CODE_FORMAT_10 | OP_CODE_FORMAT_11 | OP_CODE_FORMAT_12
  | OP_CODE_FORMAT_13 | OP_CODE_FORMAT_14 | OP_CODE_FORMAT_F | OP_CODE_FORMAT_UNKNOWN

record OpCodeFormatType1 =
  t1_opcode :: u16
  t1_reg1 :: u16
  t1_reg2 :: u16

record OpCodeFormatType2 =
  t2_opcode :: u16
  t2_imm :: u32
  t2_reg2 :: u16

record OpCodeFormatType3 =
  t3_opcode :: u16
  t3_disp :: u32
  t3_cond :: u16

record OpCodeFormatType4_1 =
  t4_1_opcode :: u16
  t4_1_disp :: u32
  t4_1_reg2 :: u16
  t4_1_gen :: u32

record OpCodeFormatType4_2 =
  t4_2_opcode :: u16
  t4_2_disp :: u32
  t4_2_reg2 :: u16

record OpCodeFormatType5 =
  t5_opcode :: u16
  t5_disp :: u32
  t5_reg2 :: u16

record OpCodeFormatType6 =
  t6_opcode :: u16
  t6_imm :: u32
  t6_reg1 :: u16
  t6_reg2 :: u16

record OpCodeFormatType7 =
  t7_opcode :: u16
  t7_disp :: u32
  t7_reg1 :: u16
  t7_reg2 :: u16
  t7_gen :: u32

record OpCodeFormatType8 =
  t8_opcode :: u16
  t8_sub :: u16
  t8_bit :: u16
  t8_reg1 :: u16
  t8_disp :: u16

record OpCodeFormatType9 =
  t9_opcode :: u16
  t9_sub :: u16
  t9_gen :: u16
  t9_reg2 :: u16
  t9_rfu2 :: u16
  t9_rfu1 :: u16

record OpCodeFormatType10 =
  t10_opcode :: u16
  t10_gen1 :: u16
  t10_gen2 :: u32
  t10_sub :: u16
  t10_rfu1 :: u16
  t10_rfu2 :: u16
  t10_rfu3 :: u16

record OpCodeFormatType11 =
  t11_opcode :: u16
  t11_reg1 :: u16
  t11_reg2 :: u16
  t11_reg3 :: u16
  t11_sub1 :: u16
  t11_sub2 :: u16
  t11_rfu :: u16

record OpCodeFormatType12 =
  t12_opcode :: u16
  t12_reg2 :: u16
  t12_reg3 :: u16
  t12_imml :: u32
  t12_immh :: u32
  t12_sub1 :: u16
  t12_sub2 :: u16

record OpCodeFormatType13 =
  t13_opcode :: u16
  t13_imm :: u32
  t13_list :: "nat \<Rightarrow> u8"
  t13_gen :: u16
  t13_rfu :: u16

record OpCodeFormatType14 =
  t14_sub1 :: u16
  t14_opcode :: u16
  t14_reg1 :: u16
  t14_reg3 :: u16
  t14_disp_low :: u32
  t14_sub2 :: u16
  t14_disp_high :: u32

record OpCodeFormatType_f =
  tf_reg2 :: u16
  tf_opcode :: u16
  tf_reg1 :: u16
  tf_reg3 :: u16
  tf_subopcode :: u32

record OpDecodedCodeType =
  type_id :: OpCodeFormatId
  type1 :: OpCodeFormatType1
  type2 :: OpCodeFormatType2
  type3 :: OpCodeFormatType3
  type4_1 :: OpCodeFormatType4_1
  type4_2 :: OpCodeFormatType4_2
  type5 :: OpCodeFormatType5
  type6 :: OpCodeFormatType6
  type7 :: OpCodeFormatType7
  type8 :: OpCodeFormatType8
  type9 :: OpCodeFormatType9
  type10 :: OpCodeFormatType10
  type11 :: OpCodeFormatType11
  type12 :: OpCodeFormatType12
  type13 :: OpCodeFormatType13
  type14 :: OpCodeFormatType14
  type_f :: OpCodeFormatType_f

end
