(* ===== verification/Cpu_State.thy ===== *)
theory Cpu_State
  imports Op_Format
begin

text \<open>
  The processor state of \<^verbatim>\<open>cpu/target_cpu.h\<close> and the protection unit state of
  \<^verbatim>\<open>cpu/mpu/target/target_mpu_common.h\<close>, with the accessors the executors use.

  The register array \<open>regs\<close> and the system register banks \<open>grp\<close> are functions from the C index,
  so cells at and above \<open>CPU_GREG_NUM\<close> stand for memory outside the array.  The decoder yields
  five bit register numbers (theory \<open>Op_Dec\<close>), and the development proves that no executor
  writes a cell outside the array for such numbers.  \<open>ext\<close> is everything outside this repository
  that a bus access may read or change: memory, devices, the emulator core.
\<close>

abbreviation (input) CPU_GREG_NUM :: u32 where "CPU_GREG_NUM \<equiv> 32"
abbreviation (input) CPU_REG_SP :: u32 where "CPU_REG_SP \<equiv> 3"
abbreviation (input) CPU_REG_EP :: u32 where "CPU_REG_EP \<equiv> 30"
abbreviation (input) CPU_REG_PLUS_MAX :: int where "CPU_REG_PLUS_MAX \<equiv> 2147483647"
abbreviation (input) CPU_REG_MINUS_MAX :: int where "CPU_REG_MINUS_MAX \<equiv> - 2147483648"
abbreviation (input) CPU_REG_UINT_MAX :: u64 where "CPU_REG_UINT_MAX \<equiv> 0xFFFFFFFF"

abbreviation (input) SYS_GRP_CPU :: u32 where "SYS_GRP_CPU \<equiv> 0"
abbreviation (input) SYS_GRP_1 :: u32 where "SYS_GRP_1 \<equiv> 1"
abbreviation (input) SYS_GRP_2 :: u32 where "SYS_GRP_2 \<equiv> 2"
abbreviation (input) SYS_GRP_5 :: u32 where "SYS_GRP_5 \<equiv> 5"
abbreviation (input) SYS_GRP_6 :: u32 where "SYS_GRP_6 \<equiv> 6"
abbreviation (input) SYS_GRP_7 :: u32 where "SYS_GRP_7 \<equiv> 7"
abbreviation (input) SYS_GRP_NUM :: u32 where "SYS_GRP_NUM \<equiv> 8"
abbreviation (input) SYS_GRP_CPU_BNK_0 :: u32 where "SYS_GRP_CPU_BNK_0 \<equiv> 0"

abbreviation (input) SYS_REG_EIPC :: u32 where "SYS_REG_EIPC \<equiv> 0"
abbreviation (input) SYS_REG_EIPSW :: u32 where "SYS_REG_EIPSW \<equiv> 1"
abbreviation (input) SYS_REG_FEPC :: u32 where "SYS_REG_FEPC \<equiv> 2"
abbreviation (input) SYS_REG_FEPSW :: u32 where "SYS_REG_FEPSW \<equiv> 3"
abbreviation (input) SYS_REG_PSW :: u32 where "SYS_REG_PSW \<equiv> 5"
abbreviation (input) SYS_REG_FPSR :: u32 where "SYS_REG_FPSR \<equiv> 6"
abbreviation (input) SYS_REG_EIIC :: u32 where "SYS_REG_EIIC \<equiv> 13"
abbreviation (input) SYS_REG_ECR :: u32 where "SYS_REG_ECR \<equiv> 13"
abbreviation (input) SYS_REG_FEIC :: u32 where "SYS_REG_FEIC \<equiv> 14"
abbreviation (input) SYS_REG_MCTL :: u32 where "SYS_REG_MCTL \<equiv> 5"
abbreviation (input) SYS_REG_SCCFG :: u32 where "SYS_REG_SCCFG \<equiv> 11"
abbreviation (input) SYS_REG_SCBP :: u32 where "SYS_REG_SCBP \<equiv> 12"
abbreviation (input) SYS_REG_HTCFG0 :: u32 where "SYS_REG_HTCFG0 \<equiv> 0"
abbreviation (input) SYS_REG_MEA :: u32 where "SYS_REG_MEA \<equiv> 6"
abbreviation (input) SYS_REG_ASID :: u32 where "SYS_REG_ASID \<equiv> 7"
abbreviation (input) SYS_REG_MEI :: u32 where "SYS_REG_MEI \<equiv> 8"
abbreviation (input) SYS_REG_ISPR :: u32 where "SYS_REG_ISPR \<equiv> 10"
abbreviation (input) SYS_REG_INTCFG :: u32 where "SYS_REG_INTCFG \<equiv> 13"
abbreviation (input) SYS_REG_MPM :: u32 where "SYS_REG_MPM \<equiv> 0"
abbreviation (input) SYS_REG_MPRC :: u32 where "SYS_REG_MPRC \<equiv> 1"
abbreviation (input) SYS_REG_MPBRGN :: u32 where "SYS_REG_MPBRGN \<equiv> 4"
abbreviation (input) SYS_REG_MPTRGN :: u32 where "SYS_REG_MPTRGN \<equiv> 5"
abbreviation (input) SYS_REG_MCA :: u32 where "SYS_REG_MCA \<equiv> 8"
abbreviation (input) SYS_REG_MCS :: u32 where "SYS_REG_MCS \<equiv> 9"
abbreviation (input) SYS_REG_MCC :: u32 where "SYS_REG_MCC \<equiv> 10"
abbreviation (input) SYS_REG_MCR :: u32 where "SYS_REG_MCR \<equiv> 11"

datatype ExceptionIdType =
    ExceptionId_RESET | ExceptionId_FENMI | ExceptionId_SYSERR1 | ExceptionId_FEINT
  | ExceptionId_FPI | ExceptionId_UserIntr | ExceptionId_MIP | ExceptionId_SYSERR2
  | ExceptionId_RIE | ExceptionId_UCPOP | ExceptionId_PIE | ExceptionId_MAE
  | ExceptionId_MDP | ExceptionId_FPP | ExceptionId_SYSCALL | ExceptionId_FETRAP
  | ExceptionId_TRAP0 | ExceptionId_TRAP1 | ExceptionId_Num

record CodeExceptionType =
  is_code_exception :: bool
  exception_type :: ExceptionIdType

section \<open>Protection unit state\<close>

datatype TargetMpuAccessType =
    MPU_TARGET_ACCESS_NONE | MPU_TARGET_ACCESS_READ | MPU_TARGET_ACCESS_WRITE
  | MPU_TARGET_ACCESS_EXEC

datatype TargetMpuExceptionErrorCodeType =
    TARGET_MPU_EXCEPTION_ERROR_CODE_NONE | TARGET_MPU_EXCEPTION_ERROR_CODE_MIP
  | TARGET_MPU_EXCEPTION_ERROR_CODE_MDP

record TargetMpuEnableAccessType =
  acc_read :: bool
  acc_write :: bool
  acc_exec :: bool

record TargetMpuExceptionErrorintcInfoType =
  access_type :: TargetMpuAccessType
  exception_error_code :: TargetMpuExceptionErrorCodeType
  is_sv_mode :: bool
  is_bl_error :: bool
  is_ms_error :: bool
  is_rmw_error :: bool

record TargetMpuExceptionErrorInfoType =
  intc_error_info :: TargetMpuExceptionErrorintcInfoType
  error_addr :: u32
  op_codeid :: nat
  is_error_occurred :: bool

record TargetMpuConfigType =
  addr_start :: u32
  addr_end :: u32
  is_enable :: bool
  is_enable_access_sv :: TargetMpuEnableAccessType
  is_enable_access_um :: TargetMpuEnableAccessType
  is_enable_apply_config :: bool
  cfg_asid :: u16

record TargetMpuType =
  excption_error_info :: TargetMpuExceptionErrorInfoType
  permission_region :: "TargetMpuConfigType list"
  is_enable_mpu :: bool
  is_enable_sv :: bool
  is_enable_outside_protection_region :: TargetMpuEnableAccessType

section \<open>Processor state\<close>

record CpuSystemRegisterType =
  current_grp :: u32
  current_bnk :: u32
  grp :: "u32 \<Rightarrow> u32 \<Rightarrow> u32 \<Rightarrow> u32"

record CpuRegisterType =
  pc :: u32
  regs :: "u32 \<Rightarrow> u32"
  sys :: CpuSystemRegisterType

record 'b TargetCoreType =
  real_elaps :: u32
  core_id :: u32
  reg :: CpuRegisterType
  is_halt :: bool
  decoded_code :: OpDecodedCodeType
  current_code_exception :: CodeExceptionType
  fatal_error :: bool
  mpu :: TargetMpuType
  ext :: 'b

text \<open>
  \<open>cpu_get_sysreg2\<close> and \<open>sys_get_cpu_base\<close> return pointers; here each is a read and a write of
  the cell pointed to.
\<close>

definition get_sys_cell :: "u32 \<Rightarrow> u32 \<Rightarrow> u32 \<Rightarrow> CpuRegisterType \<Rightarrow> u32" where
  "get_sys_cell s b i g = grp (sys g) s b i"

definition set_sys_cell :: "u32 \<Rightarrow> u32 \<Rightarrow> u32 \<Rightarrow> u32 \<Rightarrow> CpuRegisterType \<Rightarrow> CpuRegisterType" where
  "set_sys_cell s b i v g = g\<lparr>sys := (sys g)\<lparr>grp :=
     (grp (sys g))(s := (grp (sys g) s)(b := (grp (sys g) s b)(i := v)))\<rparr>\<rparr>"

definition cpu_get_sysreg2 :: "u32 \<Rightarrow> u32 \<Rightarrow> CpuRegisterType \<Rightarrow> u32" where
  "cpu_get_sysreg2 selid regid g = get_sys_cell selid (current_bnk (sys g)) regid g"

definition cpu_set_sysreg2 :: "u32 \<Rightarrow> u32 \<Rightarrow> u32 \<Rightarrow> CpuRegisterType \<Rightarrow> CpuRegisterType" where
  "cpu_set_sysreg2 selid regid v g = set_sys_cell selid (current_bnk (sys g)) regid v g"

definition cpu_base :: "u32 \<Rightarrow> CpuRegisterType \<Rightarrow> u32" where
  "cpu_base i g = get_sys_cell SYS_GRP_CPU SYS_GRP_CPU_BNK_0 i g"

definition set_cpu_base :: "u32 \<Rightarrow> u32 \<Rightarrow> CpuRegisterType \<Rightarrow> CpuRegisterType" where
  "set_cpu_base i v g = set_sys_cell SYS_GRP_CPU SYS_GRP_CPU_BNK_0 i v g"

text \<open>\<open>cpu->reg.r[i] = v\<close> and \<open>cpu->reg.pc += n\<close>.\<close>

definition set_r :: "u32 \<Rightarrow> u32 \<Rightarrow> CpuRegisterType \<Rightarrow> CpuRegisterType" where
  "set_r i v g = g\<lparr>regs := (regs g)(i := v)\<rparr>"

definition add_pc :: "u32 \<Rightarrow> CpuRegisterType \<Rightarrow> CpuRegisterType" where
  "add_pc n g = g\<lparr>pc := pc g + n\<rparr>"

lemma set_r_simps [simp, flag_simps]:
  "regs (set_r i v g) = (regs g)(i := v)"
  "pc (set_r i v g) = pc g"
  "sys (set_r i v g) = sys g"
  by (simp_all add: set_r_def)

lemma add_pc_simps [simp, flag_simps]:
  "regs (add_pc n g) = regs g"
  "pc (add_pc n g) = pc g + n"
  "sys (add_pc n g) = sys g"
  by (simp_all add: add_pc_def)

lemma set_sys_cell_simps [simp, flag_simps]:
  "regs (set_sys_cell s b i v g) = regs g"
  "pc (set_sys_cell s b i v g) = pc g"
  "current_bnk (sys (set_sys_cell s b i v g)) = current_bnk (sys g)"
  "current_grp (sys (set_sys_cell s b i v g)) = current_grp (sys g)"
  by (simp_all add: set_sys_cell_def)

lemma get_set_sys_cell [simp, flag_simps]:
  "get_sys_cell s b i (set_sys_cell s' b' i' v g) =
     (if s = s' \<and> b = b' \<and> i = i' then v else get_sys_cell s b i g)"
  by (simp add: get_sys_cell_def set_sys_cell_def)

lemma get_sys_cell_frame [simp, flag_simps]:
  "get_sys_cell s b i (set_r j w g) = get_sys_cell s b i g"
  "get_sys_cell s b i (add_pc n g) = get_sys_cell s b i g"
  by (simp_all add: get_sys_cell_def)

lemma set_cpu_base_simps [simp, flag_simps]:
  "regs (set_cpu_base i v g) = regs g"
  "pc (set_cpu_base i v g) = pc g"
  "cpu_base j (set_cpu_base i v g) = (if j = i then v else cpu_base j g)"
  "cpu_base j (set_r k w g) = cpu_base j g"
  "cpu_base j (add_pc n g) = cpu_base j g"
  by (simp_all add: set_cpu_base_def cpu_base_def)

end
