(* ===== verification/Cpu_Ops.thy ===== *)
theory Cpu_Ops
  imports Cpu_State
begin

text \<open>
  The PSW flags and the shared arithmetic helpers: the macros and inline functions of
  \<^verbatim>\<open>cpu_common/cpu_ops.h\<close> and the flag helpers \<^verbatim>\<open>op_chk_and_set_*\<close> of
  \<^verbatim>\<open>cpu_exec/op_exec_arithm.c\<close>.  Every helper of the C code that takes a
  \<^verbatim>\<open>CpuRegisterType *\<close> is a function on the register record.
\<close>

section \<open>PSW flags\<close>

abbreviation (input) CPU_PSW_Z :: u32 where "CPU_PSW_Z \<equiv> 0x1"
abbreviation (input) CPU_PSW_S :: u32 where "CPU_PSW_S \<equiv> 0x2"
abbreviation (input) CPU_PSW_OV :: u32 where "CPU_PSW_OV \<equiv> 0x4"
abbreviation (input) CPU_PSW_CY :: u32 where "CPU_PSW_CY \<equiv> 0x8"
abbreviation (input) CPU_PSW_SAT :: u32 where "CPU_PSW_SAT \<equiv> 0x10"
abbreviation (input) CPU_PSW_ID :: u32 where "CPU_PSW_ID \<equiv> 0x20"
abbreviation (input) CPU_PSW_EP :: u32 where "CPU_PSW_EP \<equiv> 0x40"
abbreviation (input) CPU_PSW_NP :: u32 where "CPU_PSW_NP \<equiv> 0x80"
abbreviation (input) CPU_PSW_EBV :: u32 where "CPU_PSW_EBV \<equiv> 0x8000"
abbreviation (input) CPU_PSW_UM :: u32 where "CPU_PSW_UM \<equiv> 0x40000000"

text \<open>The macros \<open>CPU_SET_x\<close>, \<open>CPU_CLR_x\<close> and \<open>CPU_ISSET_x\<close>, over the mask of flag \<open>x\<close>.\<close>

definition CPU_SET :: "u32 \<Rightarrow> CpuRegisterType \<Rightarrow> CpuRegisterType" where
  "CPU_SET m g = set_cpu_base SYS_REG_PSW (cpu_base SYS_REG_PSW g OR m) g"

definition CPU_CLR :: "u32 \<Rightarrow> CpuRegisterType \<Rightarrow> CpuRegisterType" where
  "CPU_CLR m g = set_cpu_base SYS_REG_PSW (cpu_base SYS_REG_PSW g AND NOT m) g"

definition CPU_ISSET :: "u32 \<Rightarrow> CpuRegisterType \<Rightarrow> bool" where
  "CPU_ISSET m g = (cpu_base SYS_REG_PSW g AND m = m)"

text \<open>One flag set or cleared by a condition: the shape of every \<open>if ... SET else ... CLR\<close>.\<close>

definition put_flag :: "u32 \<Rightarrow> bool \<Rightarrow> CpuRegisterType \<Rightarrow> CpuRegisterType" where
  "put_flag m b g = (if b then CPU_SET m g else CPU_CLR m g)"

lemma put_flag_if [chk_forms]:
  "(if b then CPU_SET m g else CPU_CLR m g) = put_flag m b g"
  "(if b then CPU_CLR m g else CPU_SET m g) = put_flag m (\<not> b) g"
  "CPU_SET m g = put_flag m True g"
  "CPU_CLR m g = put_flag m False g"
  by (simp_all add: put_flag_def)

lemma put_flag_simps [simp, flag_simps]:
  "regs (put_flag m b g) = regs g"
  "pc (put_flag m b g) = pc g"
  "current_bnk (sys (put_flag m b g)) = current_bnk (sys g)"
  "current_grp (sys (put_flag m b g)) = current_grp (sys g)"
  by (simp_all add: put_flag_def CPU_SET_def CPU_CLR_def set_cpu_base_def)

lemma cpu_base_put_flag [simp, flag_simps]:
  "cpu_base i (put_flag m b g) =
     (if i = SYS_REG_PSW
      then (if b then cpu_base SYS_REG_PSW g OR m else cpu_base SYS_REG_PSW g AND NOT m)
      else cpu_base i g)"
  by (simp add: put_flag_def CPU_SET_def CPU_CLR_def)

lemma get_sys_cell_put_flag [simp, flag_simps]:
  "\<not> (s = SYS_GRP_CPU \<and> n = SYS_GRP_CPU_BNK_0 \<and> i = SYS_REG_PSW) \<Longrightarrow>
   get_sys_cell s n i (put_flag m b g) = get_sys_cell s n i g"
  by (auto simp: put_flag_def CPU_SET_def CPU_CLR_def set_cpu_base_def)

lemma isset_put_flag_same [simp, flag_simps]:
  "m \<noteq> 0 \<Longrightarrow> CPU_ISSET m (put_flag m b g) = b"
  by (auto simp: CPU_ISSET_def bit_eq_iff bit_simps)

lemma mask_disjoint:
  assumes "m AND m' = (0 :: u32)"
  shows "(p OR m') AND m = p AND m" and "(p AND NOT m') AND m = p AND m"
proof -
  have d: "\<not> (bit m n \<and> bit m' n)" for n
    using assms by (metis bit_and_iff bit_0_eq bot_apply bot_bool_def)
  show "(p OR m') AND m = p AND m" and "(p AND NOT m') AND m = p AND m"
    using d by (auto intro!: bit_word_eqI simp: bit_simps)
qed

lemma isset_put_flag_other [simp, flag_simps]:
  "m AND m' = 0 \<Longrightarrow> CPU_ISSET m (put_flag m' b g) = CPU_ISSET m g"
  by (simp add: CPU_ISSET_def mask_disjoint)

lemma isset_frame [simp, flag_simps]:
  "CPU_ISSET m (set_r i v g) = CPU_ISSET m g"
  "CPU_ISSET m (add_pc n g) = CPU_ISSET m g"
  by (simp_all add: CPU_ISSET_def)

section \<open>Flag helpers\<close>

definition op_chk_and_set_carry :: "u32 \<Rightarrow> u32 \<Rightarrow> CpuRegisterType \<Rightarrow> CpuRegisterType" where
  "op_chk_and_set_carry a32 b32 cpu =
     (let tmp1 = ucast a32 :: u64; tmp2 = ucast b32 :: u64; result = tmp1 + tmp2 in
      if result > CPU_REG_UINT_MAX then CPU_SET CPU_PSW_CY cpu else CPU_CLR CPU_PSW_CY cpu)"

definition op_chk_and_set_carry3 :: "u32 \<Rightarrow> u32 \<Rightarrow> u32 \<Rightarrow> CpuRegisterType \<Rightarrow> CpuRegisterType" where
  "op_chk_and_set_carry3 a32 b32 c32 cpu =
     (let tmp1 = ucast a32 :: u64; tmp2 = ucast b32 :: u64; tmp3 = ucast c32 :: u64;
          result = tmp1 + tmp2 + tmp3 in
      if result > CPU_REG_UINT_MAX then CPU_SET CPU_PSW_CY cpu else CPU_CLR CPU_PSW_CY cpu)"

definition op_chk_and_set_borrow :: "u32 \<Rightarrow> u32 \<Rightarrow> CpuRegisterType \<Rightarrow> CpuRegisterType" where
  "op_chk_and_set_borrow a32 b32 cpu =
     (let tmp1 = ucast a32 :: u64; tmp2 = ucast b32 :: u64; result = tmp1 - tmp2 in
      if result AND 0x100000000 \<noteq> 0 then CPU_SET CPU_PSW_CY cpu else CPU_CLR CPU_PSW_CY cpu)"

definition op_chk_and_set_borrow3 :: "u32 \<Rightarrow> u32 \<Rightarrow> u32 \<Rightarrow> CpuRegisterType \<Rightarrow> CpuRegisterType" where
  "op_chk_and_set_borrow3 a32 b32 c32 cpu =
     (let tmp1 = ucast a32 :: u64; tmp2 = ucast b32 :: u64; tmp3 = ucast c32 :: u64;
          result = tmp1 - tmp2 - tmp3 in
      if result AND 0x100000000 \<noteq> 0 then CPU_SET CPU_PSW_CY cpu else CPU_CLR CPU_PSW_CY cpu)"

definition op_chk_and_set_overflow :: "u64 \<Rightarrow> u64 \<Rightarrow> CpuRegisterType \<Rightarrow> CpuRegisterType" where
  "op_chk_and_set_overflow a64 b64 cpu =
     (let result = a64 + b64 in
      if sint result > CPU_REG_PLUS_MAX then CPU_SET CPU_PSW_OV cpu
      else if sint result < CPU_REG_MINUS_MAX then CPU_SET CPU_PSW_OV cpu
      else CPU_CLR CPU_PSW_OV cpu)"

definition op_chk_and_set_overflow3 :: "u64 \<Rightarrow> u64 \<Rightarrow> u64 \<Rightarrow> CpuRegisterType \<Rightarrow> CpuRegisterType" where
  "op_chk_and_set_overflow3 a64 b64 c64 cpu =
     (let result = a64 + b64 + c64 in
      if sint result > CPU_REG_PLUS_MAX then CPU_SET CPU_PSW_OV cpu
      else if sint result < CPU_REG_MINUS_MAX then CPU_SET CPU_PSW_OV cpu
      else CPU_CLR CPU_PSW_OV cpu)"

definition op_chk_and_set_zero :: "u32 \<Rightarrow> CpuRegisterType \<Rightarrow> CpuRegisterType" where
  "op_chk_and_set_zero result cpu =
     (if result = 0 then CPU_SET CPU_PSW_Z cpu else CPU_CLR CPU_PSW_Z cpu)"

definition op_chk_and_set_sign :: "u32 \<Rightarrow> CpuRegisterType \<Rightarrow> CpuRegisterType" where
  "op_chk_and_set_sign result cpu =
     (if sint result < 0 then CPU_SET CPU_PSW_S cpu else CPU_CLR CPU_PSW_S cpu)"

text \<open>What the helpers decide, as statements about integers.\<close>

definition in_sint32 :: "int \<Rightarrow> bool" where
  "in_sint32 k = (CPU_REG_MINUS_MAX \<le> k \<and> k \<le> CPU_REG_PLUS_MAX)"

lemma carry_form [chk_forms]:
  "op_chk_and_set_carry a b g = put_flag CPU_PSW_CY (2 ^ 32 \<le> uint a + uint b) g"
proof -
  have "uint ((ucast a :: u64) + ucast b) = uint a + uint b"
    using uint_range32 [of a] uint_range32 [of b] by (simp add: uint_word_ariths)
  then have "((ucast a :: u64) + ucast b > CPU_REG_UINT_MAX) = (2 ^ 32 \<le> uint a + uint b)"
    by (simp add: word_less_def) linarith
  then show ?thesis
    by (simp add: op_chk_and_set_carry_def put_flag_if)
qed

lemma carry3_form [chk_forms]:
  "op_chk_and_set_carry3 a b c g = put_flag CPU_PSW_CY (2 ^ 32 \<le> uint a + uint b + uint c) g"
proof -
  have "uint ((ucast a :: u64) + ucast b + ucast c) = uint a + uint b + uint c"
    using uint_range32 [of a] uint_range32 [of b] uint_range32 [of c]
    by (simp add: uint_word_ariths)
  then have "((ucast a :: u64) + ucast b + ucast c > CPU_REG_UINT_MAX)
      = (2 ^ 32 \<le> uint a + uint b + uint c)"
    by (simp add: word_less_def) linarith
  then show ?thesis
    by (simp add: op_chk_and_set_carry3_def put_flag_if)
qed

lemma bit32_of_neg:
  assumes "- 4294967296 \<le> k" and "k < 4294967296"
  shows "(word_of_int k AND 0x100000000 \<noteq> (0 :: u64)) \<longleftrightarrow> k < 0"
proof -
  have "(word_of_int k AND 0x100000000 \<noteq> (0 :: u64)) \<longleftrightarrow> bit (word_of_int k :: u64) 32"
    using and_exp_eq_0_iff_not_bit [of "word_of_int k :: u64" 32] by simp
  also have "\<dots> \<longleftrightarrow> bit k 32" by (simp add: bit_word_of_int_iff)
  also have "\<dots> \<longleftrightarrow> odd (k div 4294967296)" by (simp add: bit_iff_odd)
  also have "\<dots> \<longleftrightarrow> k < 0"
  proof (cases "k < 0")
    case True
    then have "k div 4294967296 = - 1" using assms by (simp add: div_pos_neg_trivial)
    then show ?thesis using True by simp
  qed (use assms in \<open>simp add: div_pos_pos_trivial\<close>)
  finally show ?thesis .
qed

lemma borrow_form [chk_forms]:
  "op_chk_and_set_borrow a b g = put_flag CPU_PSW_CY (uint a < uint b) g"
proof -
  have e: "(ucast a :: u64) - ucast b = word_of_int (uint a - uint b)"
    by (simp only: ucast_eq wi_hom_sub)
  have "((ucast a :: u64) - ucast b AND 0x100000000 \<noteq> 0) \<longleftrightarrow> uint a - uint b < 0"
    unfolding e using uint_range32 [of a] uint_range32 [of b]
    by (intro bit32_of_neg) linarith+
  also have "\<dots> \<longleftrightarrow> uint a < uint b" by linarith
  finally show ?thesis
    unfolding op_chk_and_set_borrow_def Let_def put_flag_def by (simp only:)
qed

lemma borrow3_form [chk_forms]:
  assumes "uint c \<le> 1"
  shows "op_chk_and_set_borrow3 a b c g = put_flag CPU_PSW_CY (uint a < uint b + uint c) g"
proof -
  have e: "(ucast a :: u64) - ucast b - ucast c = word_of_int (uint a - uint b - uint c)"
    by (simp only: ucast_eq wi_hom_sub)
  have "((ucast a :: u64) - ucast b - ucast c AND 0x100000000 \<noteq> 0)
      \<longleftrightarrow> uint a - uint b - uint c < 0"
    unfolding e using assms uint_range32 [of a] uint_range32 [of b] uint_range32 [of c]
    by (intro bit32_of_neg) linarith+
  also have "\<dots> \<longleftrightarrow> uint a < uint b + uint c" by linarith
  finally show ?thesis
    unfolding op_chk_and_set_borrow3_def Let_def put_flag_def by (simp only:)
qed

lemma overflow_form:
  assumes "- (2 ^ 63) \<le> sint a + sint b" and "sint a + sint b < 2 ^ 63"
  shows "op_chk_and_set_overflow a b g = put_flag CPU_PSW_OV (\<not> in_sint32 (sint a + sint b)) g"
  using sint_add64 [OF assms]
  by (auto simp: op_chk_and_set_overflow_def in_sint32_def put_flag_def)

lemma overflow_form_add [chk_forms]:
  "op_chk_and_set_overflow (scast a) (scast b) g =
     put_flag CPU_PSW_OV (\<not> in_sint32 (sint (a :: u32) + sint (b :: u32))) g"
  using sint_range32 [of a] sint_range32 [of b] by (simp add: overflow_form)

lemma overflow_form_sub [chk_forms]:
  "op_chk_and_set_overflow (scast a) (- scast b) g =
     put_flag CPU_PSW_OV (\<not> in_sint32 (sint (a :: u32) - sint (b :: u32))) g"
  using sint_range32 [of a] sint_range32 [of b] by (simp add: overflow_form sint_minus64)

lemma overflow3_form:
  assumes "\<bar>sint a\<bar> < 2 ^ 60" and "\<bar>sint b\<bar> < 2 ^ 60" and "\<bar>sint c\<bar> < 2 ^ 60"
  shows "op_chk_and_set_overflow3 a b c g =
           put_flag CPU_PSW_OV (\<not> in_sint32 (sint a + sint b + sint c)) g"
proof -
  have "sint (a + b) = sint a + sint b" using assms by (simp add: sint_add64)
  then have "sint (a + b + c) = sint a + sint b + sint c"
    using assms by (simp add: sint_add64)
  then show ?thesis
    by (auto simp: op_chk_and_set_overflow3_def in_sint32_def put_flag_def)
qed

lemma overflow3_form_add [chk_forms]:
  "op_chk_and_set_overflow3 (scast a) (scast b) (scast c) g =
     put_flag CPU_PSW_OV (\<not> in_sint32 (sint (a :: u32) + sint (b :: u32) + sint (c :: u32))) g"
  using sint_range32 [of a] sint_range32 [of b] sint_range32 [of c] by (simp add: overflow3_form)

lemma overflow3_form_sub [chk_forms]:
  "op_chk_and_set_overflow3 (scast a) (- scast b) (- scast c) g =
     put_flag CPU_PSW_OV (\<not> in_sint32 (sint (a :: u32) - sint (b :: u32) - sint (c :: u32))) g"
  using sint_range32 [of a] sint_range32 [of b] sint_range32 [of c]
  by (simp add: overflow3_form sint_minus64)

lemma zero_form [chk_forms]: "op_chk_and_set_zero v g = put_flag CPU_PSW_Z (v = 0) g"
  by (simp add: op_chk_and_set_zero_def put_flag_def)

lemma sign_form [chk_forms]: "op_chk_and_set_sign v g = put_flag CPU_PSW_S (sint v < 0) g"
  by (simp add: op_chk_and_set_sign_def put_flag_def)

section \<open>Sign and zero extension\<close>

text \<open>The two \<open>for (i = bit; i < 32; i++)\<close> loops, as folds over the index range.\<close>

definition op_sign_extend :: "nat \<Rightarrow> u32 \<Rightarrow> u32" where
  "op_sign_extend b data =
     (if data AND push_bit b 1 \<noteq> 0
      then fold (\<lambda>i d. d OR push_bit i 1) [b..<32] data
      else data)"

definition op_zero_extend :: "nat \<Rightarrow> u32 \<Rightarrow> u32" where
  "op_zero_extend b data = fold (\<lambda>i d. d AND NOT (push_bit i 1)) [b..<32] data"

lemma bit_fold_set:
  "bit (fold (\<lambda>i d. d OR 2 ^ i) xs (d :: 'a::len word)) k \<longleftrightarrow>
     k < LENGTH('a) \<and> (bit d k \<or> k \<in> set xs)"
  by (induction xs arbitrary: d) (auto simp: bit_simps dest: bit_imp_le_length)

lemma bit_fold_clear:
  "bit (fold (\<lambda>i d. d AND NOT (2 ^ i)) xs (d :: 'a::len word)) k \<longleftrightarrow>
     bit d k \<and> k \<notin> set xs"
  by (induction xs arbitrary: d) (auto simp: bit_simps dest: bit_imp_le_length)

lemma and_two_power: "(d AND 2 ^ b \<noteq> 0) \<longleftrightarrow> bit (d :: 'a::len word) b"
  by (simp add: and_exp_eq_0_iff_not_bit)

lemma op_zero_extend_eq: "op_zero_extend n d = take_bit n d"
  by (rule bit_word_eqI) (auto simp: op_zero_extend_def bit_fold_clear bit_take_bit_iff)

lemma op_sign_extend_eq:
  assumes "n < 32" and "take_bit (Suc n) d = d"
  shows "op_sign_extend n d = signed_take_bit n d"
proof (rule bit_word_eqI)
  fix k assume k: "k < LENGTH(32)"
  have hi: "bit d k \<Longrightarrow> k \<le> n"
    using assms(2) by (metis bit_take_bit_iff less_Suc_eq_le)
  have "bit (op_sign_extend n d) k = (if bit d n then bit d k \<or> n \<le> k else bit d k)"
    using k by (auto simp: op_sign_extend_def and_exp_eq_0_iff_not_bit bit_fold_set)
  also have "\<dots> = bit (signed_take_bit n d) k"
    using k hi assms(1) by (auto simp: bit_signed_take_bit_iff min_def)
  finally show "bit (op_sign_extend n d) k = bit (signed_take_bit n d) k" .
qed

section \<open>Inline arithmetic of the executors\<close>

definition op_addi :: "u32 \<Rightarrow> u32 \<Rightarrow> CpuRegisterType \<Rightarrow> u32 \<times> CpuRegisterType" where
  "op_addi imm_data reg1_data cpu =
     (let result = reg1_data + imm_data;
          cpu = op_chk_and_set_carry imm_data reg1_data cpu;
          cpu = op_chk_and_set_overflow (scast imm_data) (scast reg1_data) cpu;
          cpu = op_chk_and_set_zero result cpu;
          cpu = op_chk_and_set_sign result cpu
      in (result, cpu))"

definition op_andi :: "u32 \<Rightarrow> u32 \<Rightarrow> CpuRegisterType \<Rightarrow> u32 \<times> CpuRegisterType" where
  "op_andi imm_data reg1_data cpu =
     (let result = reg1_data AND imm_data;
          cpu = op_chk_and_set_zero result cpu;
          cpu = op_chk_and_set_sign result cpu;
          cpu = CPU_CLR CPU_PSW_OV cpu
      in (result, cpu))"

definition op_and :: "u32 \<Rightarrow> u32 \<Rightarrow> CpuRegisterType \<Rightarrow> u32 \<times> CpuRegisterType" where
  "op_and reg2_data reg1_data cpu =
     (let result = reg1_data AND reg2_data;
          cpu = op_chk_and_set_zero result cpu;
          cpu = op_chk_and_set_sign result cpu;
          cpu = CPU_CLR CPU_PSW_OV cpu
      in (result, cpu))"

definition op_or :: "u32 \<Rightarrow> u32 \<Rightarrow> CpuRegisterType \<Rightarrow> u32 \<times> CpuRegisterType" where
  "op_or reg2_data reg1_data cpu =
     (let result = reg1_data OR reg2_data;
          cpu = op_chk_and_set_zero result cpu;
          cpu = op_chk_and_set_sign result cpu;
          cpu = CPU_CLR CPU_PSW_OV cpu
      in (result, cpu))"

definition op_movea :: "u32 \<Rightarrow> u32 \<Rightarrow> u32" where
  "op_movea imm_data reg1_data = reg1_data + imm_data"

definition op_movhi :: "u32 \<Rightarrow> u32 \<Rightarrow> u32" where
  "op_movhi imm_data reg1_data = reg1_data + push_bit 16 imm_data"

definition op_mulhi :: "u32 \<Rightarrow> u32 \<Rightarrow> u32" where
  "op_mulhi imm_data reg1_data = reg1_data * imm_data"

definition op_ori :: "u16 \<Rightarrow> u32 \<Rightarrow> CpuRegisterType \<Rightarrow> u32 \<times> CpuRegisterType" where
  "op_ori imm_data reg1_data cpu =
     (let ret = reg1_data OR ucast imm_data;
          cpu = (if ret = 0 then CPU_SET CPU_PSW_Z cpu else CPU_CLR CPU_PSW_Z cpu);
          cpu = (if ret AND 0x80000000 \<noteq> 0 then CPU_SET CPU_PSW_S cpu else CPU_CLR CPU_PSW_S cpu)
      in (ret, cpu))"

definition op_xori :: "u16 \<Rightarrow> u32 \<Rightarrow> CpuRegisterType \<Rightarrow> u32 \<times> CpuRegisterType" where
  "op_xori imm_data reg1_data cpu =
     (let ret = reg1_data XOR ucast imm_data;
          cpu = (if ret = 0 then CPU_SET CPU_PSW_Z cpu else CPU_CLR CPU_PSW_Z cpu);
          cpu = (if sint ret < 0 then CPU_SET CPU_PSW_S cpu else CPU_CLR CPU_PSW_S cpu);
          cpu = CPU_CLR CPU_PSW_OV cpu
      in (ret, cpu))"

text \<open>
  \<open>op_satadd\<close> takes its right operand as 64 bits, so that a negated register never overflows;
  the carry helper sees its low word.
\<close>

definition op_satadd :: "u32 \<Rightarrow> u64 \<Rightarrow> CpuRegisterType \<Rightarrow> u32 \<times> CpuRegisterType" where
  "op_satadd data_l data_r cpu =
     (let data_r64 = data_r;
          data_l64 = scast data_l :: u64;
          ret64 = data_l64 + data_r64;
          cpu = op_chk_and_set_carry data_l (ucast data_r) cpu;
          cpu = op_chk_and_set_overflow (scast data_l) data_r cpu;
          (ret, cpu) =
            (if sint ret64 > CPU_REG_PLUS_MAX
             then (word_of_int CPU_REG_PLUS_MAX, CPU_SET CPU_PSW_SAT cpu)
             else if sint ret64 < CPU_REG_MINUS_MAX
             then (word_of_int CPU_REG_MINUS_MAX, CPU_SET CPU_PSW_SAT cpu)
             else (ucast ret64, cpu));
          cpu = (if sint ret64 < 0 then CPU_SET CPU_PSW_S cpu else CPU_CLR CPU_PSW_S cpu);
          cpu = (if ret64 = 0 then CPU_SET CPU_PSW_Z cpu else CPU_CLR CPU_PSW_Z cpu)
      in (ret, cpu))"

definition clamp32 :: "int \<Rightarrow> int" where
  "clamp32 k = max CPU_REG_MINUS_MAX (min CPU_REG_PLUS_MAX k)"

lemma sint_word_of_int32: "in_sint32 k \<Longrightarrow> sint (word_of_int k :: u32) = k"
  by (simp add: in_sint32_def sint_sbintrunc' signed_take_bit_int_eq_self)

lemma ucast_u64_of_sint: "(ucast (w :: u64) :: u32) = word_of_int (sint w)"
  by (rule bit_word_eqI) (simp add: bit_simps min_def)

lemma op_satadd_value:
  assumes "\<bar>sint b\<bar> \<le> 2 ^ 32"
  shows "sint (fst (op_satadd a b g)) = clamp32 (sint a + sint b)"
proof -
  have s: "sint ((scast a :: u64) + b) = sint a + sint b"
    using assms sint_range32 [of a] by (simp add: sint_add64)
  show ?thesis
    unfolding op_satadd_def Let_def s
    by (auto simp: clamp32_def sint_word_of_int32 in_sint32_def ucast_u64_of_sint s
        simp del: of_int_add)
qed

text \<open>The flags \<open>op_satadd\<close> leaves: SAT is sticky, OV, S and Z describe the exact sum.\<close>

lemma op_satadd_flags:
  fixes a :: u32 and b :: u64 and g :: CpuRegisterType
  assumes "\<bar>sint b\<bar> \<le> 2 ^ 32"
  defines "k \<equiv> sint a + sint b" and "g' \<equiv> snd (op_satadd a b g)"
  shows "CPU_ISSET CPU_PSW_SAT g' \<longleftrightarrow> CPU_ISSET CPU_PSW_SAT g \<or> \<not> in_sint32 k"
    and "CPU_ISSET CPU_PSW_OV g' \<longleftrightarrow> \<not> in_sint32 k"
    and "CPU_ISSET CPU_PSW_S g' \<longleftrightarrow> k < 0"
    and "CPU_ISSET CPU_PSW_Z g' \<longleftrightarrow> k = 0"
    and "CPU_ISSET CPU_PSW_CY g' \<longleftrightarrow> 2 ^ 32 \<le> uint a + uint (ucast b :: u32)"
    and "regs g' = regs g" and "pc g' = pc g"
proof -
  have s: "sint ((scast a :: u64) + b) = sint a + sint b"
    using assms(1) sint_range32 [of a] by (simp add: sint_add64)
  have z: "(scast a :: u64) + b = 0 \<longleftrightarrow> sint a + sint b = 0"
    using s by (metis signed_0 word_eq_iff_signed)
  have o: "op_chk_and_set_overflow (scast a) b h = put_flag CPU_PSW_OV (\<not> in_sint32 k) h" for h
    using assms(1) sint_range32 [of a] unfolding k_def by (simp add: overflow_form)
  show "CPU_ISSET CPU_PSW_SAT g' \<longleftrightarrow> CPU_ISSET CPU_PSW_SAT g \<or> \<not> in_sint32 k"
    and "CPU_ISSET CPU_PSW_OV g' \<longleftrightarrow> \<not> in_sint32 k"
    and "CPU_ISSET CPU_PSW_S g' \<longleftrightarrow> k < 0"
    and "CPU_ISSET CPU_PSW_Z g' \<longleftrightarrow> k = 0"
    and "CPU_ISSET CPU_PSW_CY g' \<longleftrightarrow> 2 ^ 32 \<le> uint a + uint (ucast b :: u32)"
    and "regs g' = regs g" and "pc g' = pc g"
    unfolding g'_def op_satadd_def Let_def s z o
    by (auto simp: chk_forms in_sint32_def k_def)
qed

end
