(* ===== verification/Exec_Base.thy ===== *)
theory Exec_Base
  imports Cpu_Ops
begin

text \<open>
  What all instruction executors share: the contract of the executors that touch nothing but
  registers and arithmetic flags (locale \<open>alu_executor\<close>), and the interface to the bus.

  The bus (\<^verbatim>\<open>bus.h\<close>), the stack checker and the pointer accesses of the emulator core are
  not part of this repository: they are the fields of the record \<open>bus_ops\<close>, an argument of
  every executor that uses them.  A bus operation takes the whole machine, since it calls back
  into the protection unit, which may record an error in it.
\<close>

section \<open>The unprivileged view of a register update\<close>

text \<open>
  \<open>priv_same g g'\<close>: the system registers of \<open>g\<close> and \<open>g'\<close> are the same, but for the
  arithmetic flags Z, S, OV, CY and SAT of the PSW.
\<close>

definition priv_same :: "CpuRegisterType \<Rightarrow> CpuRegisterType \<Rightarrow> bool" where
  "priv_same g g' \<longleftrightarrow>
     current_grp (sys g') = current_grp (sys g) \<and> current_bnk (sys g') = current_bnk (sys g) \<and>
     (\<forall>s n i. \<not> (s = SYS_GRP_CPU \<and> n = SYS_GRP_CPU_BNK_0 \<and> i = SYS_REG_PSW) \<longrightarrow>
        get_sys_cell s n i g' = get_sys_cell s n i g) \<and>
     cpu_base SYS_REG_PSW g' AND NOT 0x1F = cpu_base SYS_REG_PSW g AND NOT 0x1F"

lemma priv_same_refl [simp, intro]: "priv_same g g"
  by (simp add: priv_same_def)

lemma priv_same_trans: "priv_same a b \<Longrightarrow> priv_same b c \<Longrightarrow> priv_same a c"
  by (simp add: priv_same_def)

lemma priv_same_set_r [simp]: "priv_same a (set_r i v g) = priv_same a g"
  by (simp add: priv_same_def)

lemma priv_same_add_pc [simp]: "priv_same a (add_pc n g) = priv_same a g"
  by (simp add: priv_same_def)

lemma priv_same_set_pc [simp]: "priv_same a (g\<lparr>pc := p\<rparr>) = priv_same a g"
  by (simp add: priv_same_def get_sys_cell_def cpu_base_def)

lemma mask_keep:
  assumes "m AND k = (0 :: u32)"
  shows "(p OR m) AND k = p AND k" and "(p AND NOT m) AND k = p AND k"
proof -
  have d: "\<not> (bit m n \<and> bit k n)" for n
    using assms by (metis bit_and_iff bit_0_eq bot_apply bot_bool_def)
  show "(p OR m) AND k = p AND k" and "(p AND NOT m) AND k = p AND k"
    using d by (auto intro!: bit_word_eqI simp: bit_simps)
qed

lemma and_not_of_disjoint:
  assumes "m AND k = (0 :: u32)"
  shows "m AND NOT k = m"
proof -
  have "\<not> (bit m n \<and> bit k n)" for n
    using assms by (metis bit_and_iff bit_0_eq bot_apply bot_bool_def)
  then show ?thesis by (auto intro!: bit_word_eqI simp: bit_simps)
qed

lemma priv_same_put_flag [simp]:
  "m AND NOT 0x1F = 0 \<Longrightarrow> priv_same a (put_flag m b g) = priv_same a g"
  by (simp add: priv_same_def mask_keep cpu_base_put_flag)

lemma priv_same_isset:
  "priv_same g g' \<Longrightarrow> m AND 0x1F = 0 \<Longrightarrow> CPU_ISSET m g' = CPU_ISSET m g"
proof -
  assume p: "priv_same g g'" and m: "m AND 0x1F = 0"
  have k: "m AND NOT 0x1F = m" by (rule and_not_of_disjoint [OF m])
  have "x AND m = (x AND NOT 0x1F) AND m" for x :: u32
    using k by (metis and.assoc and.commute)
  then show ?thesis
    using p unfolding CPU_ISSET_def priv_same_def by metis
qed

text \<open>The flags an executor leaves, named once.\<close>

definition zs_post :: "u32 \<Rightarrow> CpuRegisterType \<Rightarrow> bool" where
  "zs_post v g \<longleftrightarrow> CPU_ISSET CPU_PSW_Z g = (v = 0) \<and> CPU_ISSET CPU_PSW_S g = (sint v < 0)"

definition alu_post :: "u32 \<Rightarrow> bool \<Rightarrow> bool \<Rightarrow> CpuRegisterType \<Rightarrow> bool" where
  "alu_post v cy ov g \<longleftrightarrow>
     zs_post v g \<and> CPU_ISSET CPU_PSW_CY g = cy \<and> CPU_ISSET CPU_PSW_OV g = ov"

section \<open>The contract of the register executors\<close>

text \<open>
  \<open>wr d\<close> is the set of register numbers the executor may write for the decoded instruction \<open>d\<close>.
\<close>

locale alu_executor =
  fixes exec :: "'b TargetCoreType \<Rightarrow> 'b TargetCoreType outcome"
    and wr :: "OpDecodedCodeType \<Rightarrow> u32 set"
  assumes ret0: "exec cpu = Ret0 cpu' \<Longrightarrow>
      cpu' = cpu\<lparr>reg := reg cpu'\<rparr> \<and> priv_same (reg cpu) (reg cpu') \<and>
      (\<forall>i. i \<notin> wr (decoded_code cpu) \<longrightarrow> regs (reg cpu') i = regs (reg cpu) i)"
    and reterr: "exec cpu = RetErr cpu' \<Longrightarrow> cpu' = cpu"
begin

lemma keeps_ext: "exec cpu = Ret0 cpu' \<Longrightarrow> ext cpu' = ext cpu"
  using ret0 [of cpu cpu'] by (metis TargetCoreType.select_convs(9) TargetCoreType.surjective TargetCoreType.update_convs(3))

lemma keeps_mpu: "exec cpu = Ret0 cpu' \<Longrightarrow> mpu cpu' = mpu cpu"
  using ret0 [of cpu cpu'] by (metis TargetCoreType.select_convs(8) TargetCoreType.surjective TargetCoreType.update_convs(3))

lemma keeps_exception:
  "exec cpu = Ret0 cpu' \<Longrightarrow> current_code_exception cpu' = current_code_exception cpu"
  using ret0 [of cpu cpu'] by (metis TargetCoreType.select_convs(6) TargetCoreType.surjective TargetCoreType.update_convs(3))

lemma keeps_mode:
  assumes "exec cpu = Ret0 cpu'"
  shows "CPU_ISSET CPU_PSW_UM (reg cpu') = CPU_ISSET CPU_PSW_UM (reg cpu)"
    and "CPU_ISSET CPU_PSW_ID (reg cpu') = CPU_ISSET CPU_PSW_ID (reg cpu)"
    and "CPU_ISSET CPU_PSW_NP (reg cpu') = CPU_ISSET CPU_PSW_NP (reg cpu)"
  using ret0 [OF assms] by (auto intro!: priv_same_isset)

lemma keeps_register:
  "exec cpu = Ret0 cpu' \<Longrightarrow> i \<notin> wr (decoded_code cpu) \<Longrightarrow> regs (reg cpu') i = regs (reg cpu) i"
  using ret0 by blast

lemma stays_in_array:
  assumes "exec cpu = Ret0 cpu' \<or> exec cpu = RetErr cpu'"
    and "wr (decoded_code cpu) \<subseteq> {..<CPU_GREG_NUM}" and "CPU_GREG_NUM \<le> i"
  shows "regs (reg cpu') i = regs (reg cpu) i"
proof -
  have "i \<notin> wr (decoded_code cpu)" using assms(2,3) by (meson lessThan_iff not_le subsetD)
  then show ?thesis using assms(1) ret0 [of cpu cpu'] reterr [of cpu cpu'] by blast
qed

end

section \<open>The bus\<close>

record 'b bus_ops =
  bus_get_data8 :: "u32 \<Rightarrow> u32 \<Rightarrow> 'b TargetCoreType \<Rightarrow> u8 option \<times> 'b TargetCoreType"
  bus_get_data16 :: "u32 \<Rightarrow> u32 \<Rightarrow> 'b TargetCoreType \<Rightarrow> u16 option \<times> 'b TargetCoreType"
  bus_get_data32 :: "u32 \<Rightarrow> u32 \<Rightarrow> 'b TargetCoreType \<Rightarrow> u32 option \<times> 'b TargetCoreType"
  bus_put_data8 :: "u32 \<Rightarrow> u32 \<Rightarrow> u8 \<Rightarrow> 'b TargetCoreType \<Rightarrow> bool \<times> 'b TargetCoreType"
  bus_put_data16 :: "u32 \<Rightarrow> u32 \<Rightarrow> u16 \<Rightarrow> 'b TargetCoreType \<Rightarrow> bool \<times> 'b TargetCoreType"
  bus_put_data32 :: "u32 \<Rightarrow> u32 \<Rightarrow> u32 \<Rightarrow> 'b TargetCoreType \<Rightarrow> bool \<times> 'b TargetCoreType"
  bus_get_pointer :: "u32 \<Rightarrow> u32 \<Rightarrow> 'b TargetCoreType \<Rightarrow> bool \<times> 'b TargetCoreType"
  ptr_load16 :: "u32 \<Rightarrow> u32 \<Rightarrow> 'b TargetCoreType \<Rightarrow> u16"
  ptr_load32 :: "u32 \<Rightarrow> u32 \<Rightarrow> 'b TargetCoreType \<Rightarrow> u32"
  ptr_store32 :: "u32 \<Rightarrow> u32 \<Rightarrow> u32 \<Rightarrow> 'b TargetCoreType \<Rightarrow> 'b TargetCoreType"
  cpu_may_store_on_stack_overflow :: "u32 \<Rightarrow> u32 \<Rightarrow> 'b TargetCoreType \<Rightarrow> bool"
  intc_clr_ei :: "u32 \<Rightarrow> 'b TargetCoreType \<Rightarrow> 'b TargetCoreType"
  intc_clr_fe :: "u32 \<Rightarrow> 'b TargetCoreType \<Rightarrow> 'b TargetCoreType"

text \<open>
  A bus access followed by \<^verbatim>\<open>if (err != STD_E_OK) return -1;\<close>: the continuation gets the
  value read and the machine after the access.
\<close>

definition get8 :: "'b bus_ops \<Rightarrow> u32 \<Rightarrow> 'b TargetCoreType \<Rightarrow>
    (u8 \<Rightarrow> 'b TargetCoreType \<Rightarrow> 'b TargetCoreType outcome) \<Rightarrow> 'b TargetCoreType outcome" where
  "get8 B addr cpu k =
     (case bus_get_data8 B (core_id cpu) addr cpu of
        (None, cpu') \<Rightarrow> RetErr cpu' | (Some v, cpu') \<Rightarrow> k v cpu')"

definition get16 :: "'b bus_ops \<Rightarrow> u32 \<Rightarrow> 'b TargetCoreType \<Rightarrow>
    (u16 \<Rightarrow> 'b TargetCoreType \<Rightarrow> 'b TargetCoreType outcome) \<Rightarrow> 'b TargetCoreType outcome" where
  "get16 B addr cpu k =
     (case bus_get_data16 B (core_id cpu) addr cpu of
        (None, cpu') \<Rightarrow> RetErr cpu' | (Some v, cpu') \<Rightarrow> k v cpu')"

definition get32 :: "'b bus_ops \<Rightarrow> u32 \<Rightarrow> 'b TargetCoreType \<Rightarrow>
    (u32 \<Rightarrow> 'b TargetCoreType \<Rightarrow> 'b TargetCoreType outcome) \<Rightarrow> 'b TargetCoreType outcome" where
  "get32 B addr cpu k =
     (case bus_get_data32 B (core_id cpu) addr cpu of
        (None, cpu') \<Rightarrow> RetErr cpu' | (Some v, cpu') \<Rightarrow> k v cpu')"

definition put8 :: "'b bus_ops \<Rightarrow> u32 \<Rightarrow> u8 \<Rightarrow> 'b TargetCoreType \<Rightarrow>
    ('b TargetCoreType \<Rightarrow> 'b TargetCoreType outcome) \<Rightarrow> 'b TargetCoreType outcome" where
  "put8 B addr v cpu k =
     (let (ok, cpu') = bus_put_data8 B (core_id cpu) addr v cpu in
      if ok then k cpu' else RetErr cpu')"

definition put16 :: "'b bus_ops \<Rightarrow> u32 \<Rightarrow> u16 \<Rightarrow> 'b TargetCoreType \<Rightarrow>
    ('b TargetCoreType \<Rightarrow> 'b TargetCoreType outcome) \<Rightarrow> 'b TargetCoreType outcome" where
  "put16 B addr v cpu k =
     (let (ok, cpu') = bus_put_data16 B (core_id cpu) addr v cpu in
      if ok then k cpu' else RetErr cpu')"

definition put32 :: "'b bus_ops \<Rightarrow> u32 \<Rightarrow> u32 \<Rightarrow> 'b TargetCoreType \<Rightarrow>
    ('b TargetCoreType \<Rightarrow> 'b TargetCoreType outcome) \<Rightarrow> 'b TargetCoreType outcome" where
  "put32 B addr v cpu k =
     (let (ok, cpu') = bus_put_data32 B (core_id cpu) addr v cpu in
      if ok then k cpu' else RetErr cpu')"

definition getp :: "'b bus_ops \<Rightarrow> u32 \<Rightarrow> 'b TargetCoreType \<Rightarrow>
    ('b TargetCoreType \<Rightarrow> 'b TargetCoreType outcome) \<Rightarrow> 'b TargetCoreType outcome" where
  "getp B addr cpu k =
     (let (ok, cpu') = bus_get_pointer B (core_id cpu) addr cpu in
      if ok then k cpu' else RetErr cpu')"

lemmas bus_defs = get8_def get16_def get32_def put8_def put16_def put32_def getp_def

end
