(* ===== verification/Exec_Branch.thy ===== *)
theory Exec_Branch
  imports Exec_Base
begin

text \<open>
  The condition test and the branch instructions: \<^verbatim>\<open>op_exec_branch.c\<close> and
  \<^verbatim>\<open>op_exec_branch_rh850.c\<close>.
\<close>

section \<open>Condition codes\<close>

text \<open>
  The flags are read into integers that are 0 or 1, so \<open>^\<close> and \<open>|\<close> on them are \<open>\<noteq>\<close> and
  \<open>\<or>\<close> here.
\<close>

definition op_exec_cond :: "'b TargetCoreType \<Rightarrow> u16 \<Rightarrow> bool" where
  "op_exec_cond cpu cond =
     (let flg_s = CPU_ISSET CPU_PSW_S (reg cpu);
          flg_ov = CPU_ISSET CPU_PSW_OV (reg cpu);
          flg_z = CPU_ISSET CPU_PSW_Z (reg cpu);
          flg_cy = CPU_ISSET CPU_PSW_CY (reg cpu);
          flg_sat = CPU_ISSET CPU_PSW_SAT (reg cpu)
      in if cond = 0b1110 then (flg_s \<noteq> flg_ov) = False
         else if cond = 0b1111 then ((flg_s \<noteq> flg_ov) \<or> flg_z) = False
         else if cond = 0b0111 then (flg_s \<noteq> flg_ov) \<or> flg_z
         else if cond = 0b0110 then flg_s \<noteq> flg_ov
         else if cond = 0b1011 then (flg_cy \<or> flg_z) = False
         else if cond = 0b0001 then flg_cy
         else if cond = 0b0011 then flg_cy \<or> flg_z
         else if cond = 0b1001 then flg_cy = False
         else if cond = 0b0010 then flg_z
         else if cond = 0b1010 then flg_z = False
         else if cond = 0b0100 then flg_s
         else if cond = 0b1000 then flg_ov = False
         else if cond = 0b1100 then flg_s = False
         else if cond = 0b0101 then True
         else if cond = 0b1101 then flg_sat
         else if cond = 0b0000 then flg_ov
         else False)"

text \<open>\<open>setf_chk_cond\<close> of \<^verbatim>\<open>op_exec_arithm.c\<close>, the second copy of the test.\<close>

definition setf_chk_cond :: "'b TargetCoreType \<Rightarrow> u16 \<Rightarrow> bool" where
  "setf_chk_cond cpu cond =
     (let flg_s = CPU_ISSET CPU_PSW_S (reg cpu);
          flg_ov = CPU_ISSET CPU_PSW_OV (reg cpu);
          flg_z = CPU_ISSET CPU_PSW_Z (reg cpu);
          flg_cy = CPU_ISSET CPU_PSW_CY (reg cpu);
          flg_sat = CPU_ISSET CPU_PSW_SAT (reg cpu)
      in if cond = 0b0000 then flg_ov
         else if cond = 0b0001 then flg_cy
         else if cond = 0b0010 then flg_z
         else if cond = 0b0011 then flg_cy \<or> flg_z
         else if cond = 0b0100 then flg_s
         else if cond = 0b0101 then True
         else if cond = 0b0110 then flg_s \<noteq> flg_ov
         else if cond = 0b0111 then (flg_s \<noteq> flg_ov) \<or> flg_z
         else if cond = 0b1000 then flg_ov = False
         else if cond = 0b1001 then flg_cy = False
         else if cond = 0b1010 then flg_z = False
         else if cond = 0b1011 then (flg_cy \<or> flg_z) = False
         else if cond = 0b1100 then flg_s = False
         else if cond = 0b1101 then flg_sat = False
         else if cond = 0b1110 then (flg_s \<noteq> flg_ov) = False
         else if cond = 0b1111 then ((flg_s \<noteq> flg_ov) \<or> flg_z) = False
         else False)"

text \<open>
  The reference: the low three bits choose a test, bit 3 negates it, and the test with number 5
  is the constant true, with SAT in place of its negation.
\<close>

definition cond_base :: "CpuRegisterType \<Rightarrow> nat \<Rightarrow> bool" where
  "cond_base g n =
     [CPU_ISSET CPU_PSW_OV g, CPU_ISSET CPU_PSW_CY g, CPU_ISSET CPU_PSW_Z g,
      CPU_ISSET CPU_PSW_CY g \<or> CPU_ISSET CPU_PSW_Z g, CPU_ISSET CPU_PSW_S g, True,
      CPU_ISSET CPU_PSW_S g \<noteq> CPU_ISSET CPU_PSW_OV g,
      (CPU_ISSET CPU_PSW_S g \<noteq> CPU_ISSET CPU_PSW_OV g) \<or> CPU_ISSET CPU_PSW_Z g] ! n"

definition cond_spec :: "CpuRegisterType \<Rightarrow> u16 \<Rightarrow> bool" where
  "cond_spec g c =
     (c < 16 \<and>
      (if c = 13 then CPU_ISSET CPU_PSW_SAT g
       else cond_base g (unat (c AND 7)) = (\<not> bit c 3)))"

lemma u16_less_16:
  assumes "c < (16 :: u16)"
  obtains "c = 0" | "c = 1" | "c = 2" | "c = 3" | "c = 4" | "c = 5" | "c = 6" | "c = 7"
    | "c = 8" | "c = 9" | "c = 10" | "c = 11" | "c = 12" | "c = 13" | "c = 14" | "c = 15"
proof -
  have "unat c < 16" using assms by (simp add: word_less_nat_alt)
  then have "unat c \<in> set [0..<16]" by simp
  then have "word_of_nat (unat c) \<in> (word_of_nat ` set [0..<16] :: u16 set)" by blast
  then show ?thesis using that by (auto simp: upt_rec)
qed

lemma u16_ge_16:
  assumes "\<not> c < (16 :: u16)"
  shows "c \<noteq> 0" "c \<noteq> 1" "c \<noteq> 2" "c \<noteq> 3" "c \<noteq> 4" "c \<noteq> 5" "c \<noteq> 6" "c \<noteq> 7"
    "c \<noteq> 8" "c \<noteq> 9" "c \<noteq> 10" "c \<noteq> 11" "c \<noteq> 12" "c \<noteq> 13" "c \<noteq> 14" "c \<noteq> 15"
  using assms by auto

lemma op_exec_cond_spec: "op_exec_cond cpu c = cond_spec (reg cpu) c"
proof (cases "c < 16")
  case True
  then show ?thesis
    by (rule u16_less_16) (auto simp: op_exec_cond_def cond_spec_def cond_base_def)
next
  case False
  then show ?thesis
    by (simp add: op_exec_cond_def cond_spec_def Let_def u16_ge_16)
qed

lemma setf_chk_cond_eq:
  "setf_chk_cond cpu c = (if c = 13 then \<not> op_exec_cond cpu c else op_exec_cond cpu c)"
proof (cases "c < 16")
  case True
  then show ?thesis
    by (rule u16_less_16) (auto simp: op_exec_cond_def setf_chk_cond_def)
next
  case False
  then show ?thesis
    by (simp add: op_exec_cond_def setf_chk_cond_def Let_def u16_ge_16)
qed

lemma op_exec_cond_reg [simp]: "op_exec_cond (cpu\<lparr>reg := g\<rparr>) c = cond_spec g c"
  by (simp add: op_exec_cond_spec)

section \<open>Branches\<close>

definition op_exec_bcond :: "'b TargetCoreType \<Rightarrow> u16 \<Rightarrow> u32 \<Rightarrow> u32 \<Rightarrow> 'b TargetCoreType" where
  "op_exec_bcond cpu cond disp code_size =
     (if op_exec_cond cpu cond
      then cpu\<lparr>reg := (reg cpu)\<lparr>pc := pc (reg cpu) + disp\<rparr>\<rparr>
      else cpu\<lparr>reg := (reg cpu)\<lparr>pc := pc (reg cpu) + code_size\<rparr>\<rparr>)"

definition op_exec_jmp :: "'b TargetCoreType \<Rightarrow> 'b TargetCoreType outcome" where
  "op_exec_jmp cpu =
     (let reg1 = ucast (t1_reg1 (type1 (decoded_code cpu))) :: u32;
          g = reg cpu
      in if reg1 \<ge> CPU_GREG_NUM then RetErr cpu
         else Ret0 (cpu\<lparr>reg := g\<lparr>pc := regs g reg1\<rparr>\<rparr>))"

definition op_exec_bcond_3 :: "'b TargetCoreType \<Rightarrow> 'b TargetCoreType outcome" where
  "op_exec_bcond_3 cpu =
     (let cond = t3_cond (type3 (decoded_code cpu));
          disp_u = push_bit 1 (t3_disp (type3 (decoded_code cpu)));
          disp = op_sign_extend 8 disp_u
      in Ret0 (op_exec_bcond cpu cond disp 2))"

definition op_exec_bcond_7 :: "'b TargetCoreType \<Rightarrow> 'b TargetCoreType outcome" where
  "op_exec_bcond_7 cpu =
     (let d = type7 (decoded_code cpu);
          cond = t7_reg1 d AND 0x0F;
          disp_u = t7_disp d;
          disp_D = ucast (drop_bit 4 (t7_reg1 d AND 0x10)) :: u32;
          disp_u = push_bit 1 (push_bit 15 disp_D OR disp_u);
          disp = op_sign_extend 16 disp_u
      in Ret0 (op_exec_bcond cpu cond disp 4))"

definition op_exec_jr :: "'b TargetCoreType \<Rightarrow> 'b TargetCoreType outcome" where
  "op_exec_jr cpu =
     (let d = type5 (decoded_code cpu);
          reg2 = ucast (t5_reg2 d) :: u32;
          g = reg cpu;
          p = pc g;
          g = (if reg2 > 0 then set_r reg2 (pc g + 4) g else g);
          disp = op_sign_extend 21 (t5_disp d);
          p = p + disp
      in Ret0 (cpu\<lparr>reg := g\<lparr>pc := p\<rparr>\<rparr>))"

text \<open>
  The 32 bit displacement of format 6: the high half word is fetched from the code at
  \<^verbatim>\<open>pc + 4\<close>.
\<close>

definition op_exec_parse_jmp_addr_fmt6 ::
    "'b bus_ops \<Rightarrow> 'b TargetCoreType \<Rightarrow>
     (u32 \<Rightarrow> 'b TargetCoreType \<Rightarrow> 'b TargetCoreType outcome) \<Rightarrow> 'b TargetCoreType outcome" where
  "op_exec_parse_jmp_addr_fmt6 B cpu k =
     (let disp = t6_imm (type6 (decoded_code cpu));
          imm_high_addr = pc (reg cpu) + 4
      in get16 B imm_high_addr cpu (\<lambda>imm_high16 cpu.
           let imm_high = ucast imm_high16 :: u32
           in k (push_bit 16 imm_high OR disp) cpu))"

definition op_exec_jmp_6 :: "'b bus_ops \<Rightarrow> 'b TargetCoreType \<Rightarrow> 'b TargetCoreType outcome" where
  "op_exec_jmp_6 B cpu =
     (let reg1 = ucast (t6_reg1 (type6 (decoded_code cpu))) :: u32
      in if reg1 \<ge> CPU_GREG_NUM then RetErr cpu
         else op_exec_parse_jmp_addr_fmt6 B cpu (\<lambda>disp cpu.
           Ret0 (cpu\<lparr>reg := (reg cpu)\<lparr>pc := regs (reg cpu) reg1 + disp\<rparr>\<rparr>)))"

definition op_exec_jarl_6 :: "'b bus_ops \<Rightarrow> 'b TargetCoreType \<Rightarrow> 'b TargetCoreType outcome" where
  "op_exec_jarl_6 B cpu =
     (let reg1 = ucast (t6_reg1 (type6 (decoded_code cpu))) :: u32;
          p = pc (reg cpu)
      in op_exec_parse_jmp_addr_fmt6 B cpu (\<lambda>disp cpu.
           let p = p + disp;
               g = set_r reg1 (pc (reg cpu) + 6) (reg cpu)
           in Ret0 (cpu\<lparr>reg := g\<lparr>pc := p\<rparr>\<rparr>)))"

definition op_exec_jr_6 :: "'b bus_ops \<Rightarrow> 'b TargetCoreType \<Rightarrow> 'b TargetCoreType outcome" where
  "op_exec_jr_6 B cpu =
     (let p = pc (reg cpu)
      in op_exec_parse_jmp_addr_fmt6 B cpu (\<lambda>disp cpu.
           Ret0 (cpu\<lparr>reg := (reg cpu)\<lparr>pc := p + disp\<rparr>\<rparr>)))"

definition op_exec_jarl_11 :: "'b TargetCoreType \<Rightarrow> 'b TargetCoreType outcome" where
  "op_exec_jarl_11 cpu =
     (let reg1 = ucast (t11_reg1 (type11 (decoded_code cpu))) :: u32;
          reg3 = ucast (t11_reg3 (type11 (decoded_code cpu))) :: u32;
          g = reg cpu;
          p = regs g reg1;
          g = set_r reg3 (pc g + 4) g
      in Ret0 (cpu\<lparr>reg := g\<lparr>pc := p\<rparr>\<rparr>))"

text \<open>
  \<open>op_exec_loop_7\<close> passes \<^verbatim>\<open>uint32\<close> operands to the overflow helper, whose parameters are
  64 bits wide: the conversion is a zero extension.
\<close>

definition op_exec_loop_7 :: "'b TargetCoreType \<Rightarrow> 'b TargetCoreType outcome" where
  "op_exec_loop_7 cpu =
     (let reg1 = ucast (t7_reg1 (type7 (decoded_code cpu))) :: u32;
          g = reg cpu;
          reg1_data = regs g reg1;
          add_data = 0xFFFFFFFF;
          result = reg1_data + add_data;
          (p, g) =
            (if result = 0 then (pc g + 4, CPU_CLR CPU_PSW_CY g)
             else let disp = op_zero_extend 16 (push_bit 1 (t7_disp (type7 (decoded_code cpu))))
                  in (pc g - disp, op_chk_and_set_carry reg1_data add_data g));
          g = op_chk_and_set_overflow (ucast reg1_data) (ucast add_data) g;
          g = op_chk_and_set_zero result g;
          g = op_chk_and_set_sign result g;
          g = set_r reg1 result g
      in Ret0 (cpu\<lparr>reg := g\<lparr>pc := p\<rparr>\<rparr>))"

section \<open>Contract of the executors\<close>

text \<open>
  Each executor above writes only the registers listed, keeps every system register apart from
  the arithmetic flags, and touches nothing else of the machine.
\<close>

interpretation jmp_ex: alu_executor op_exec_jmp "\<lambda>d. {}"
  by unfold_locales (auto simp: op_exec_jmp_def Let_def chk_forms split: if_splits prod.splits)

interpretation bcond_3_ex: alu_executor op_exec_bcond_3 "\<lambda>d. {}"
  by unfold_locales (auto simp: op_exec_bcond_3_def op_exec_bcond_def Let_def chk_forms split: if_splits prod.splits)

interpretation bcond_7_ex: alu_executor op_exec_bcond_7 "\<lambda>d. {}"
  by unfold_locales (auto simp: op_exec_bcond_7_def op_exec_bcond_def Let_def chk_forms split: if_splits prod.splits)

interpretation jr_ex: alu_executor op_exec_jr "\<lambda>d. {ucast (t5_reg2 (type5 d))}"
  by unfold_locales (auto simp: op_exec_jr_def Let_def chk_forms split: if_splits prod.splits)

interpretation jarl_11_ex: alu_executor op_exec_jarl_11 "\<lambda>d. {ucast (t11_reg3 (type11 d))}"
  by unfold_locales (auto simp: op_exec_jarl_11_def Let_def chk_forms split: if_splits prod.splits)

interpretation loop_7_ex: alu_executor op_exec_loop_7 "\<lambda>d. {ucast (t7_reg1 (type7 d))}"
  by unfold_locales (auto simp: op_exec_loop_7_def op_chk_and_set_overflow_def Let_def chk_forms split: if_splits prod.splits)

end
