(* ===== verification/Exec_Arith.thy ===== *)
theory Exec_Arith
  imports Exec_Branch "HOL-Library.Signed_Division"
begin

text \<open>
  The arithmetic instructions of \<^verbatim>\<open>op_exec_arithm.c\<close> and \<^verbatim>\<open>op_exec_arithm_rh850.c\<close>.
  A register number is checked against \<open>CPU_GREG_NUM\<close> where the code checks it.
\<close>

section \<open>Addition, subtraction, comparison, moves\<close>

definition op_exec_sub :: "'b TargetCoreType \<Rightarrow> 'b TargetCoreType outcome" where
  "op_exec_sub cpu =
     (let d = type1 (decoded_code cpu);
          reg1 = ucast (t1_reg1 d) :: u32;
          reg2 = ucast (t1_reg2 d) :: u32;
          g = reg cpu
      in if reg1 \<ge> CPU_GREG_NUM then RetErr cpu
         else if reg2 \<ge> CPU_GREG_NUM then RetErr cpu
         else let reg2_data = regs g reg2;
               reg1_data = regs g reg1;
               result = reg2_data - reg1_data;
               g = set_r reg2 result g;
               g = op_chk_and_set_borrow reg2_data reg1_data g;
               g = op_chk_and_set_overflow (scast reg2_data) (- scast reg1_data) g;
               g = op_chk_and_set_zero result g;
               g = op_chk_and_set_sign result g
           in Ret0 (cpu\<lparr>reg := add_pc 2 g\<rparr>))"

definition op_exec_subr :: "'b TargetCoreType \<Rightarrow> 'b TargetCoreType outcome" where
  "op_exec_subr cpu =
     (let d = type1 (decoded_code cpu);
          reg1 = ucast (t1_reg1 d) :: u32;
          reg2 = ucast (t1_reg2 d) :: u32;
          g = reg cpu
      in if reg1 \<ge> CPU_GREG_NUM then RetErr cpu
         else if reg2 \<ge> CPU_GREG_NUM then RetErr cpu
         else let reg2_data = regs g reg2;
               reg1_data = regs g reg1;
               result = reg1_data - reg2_data;
               g = set_r reg2 result g;
               g = op_chk_and_set_borrow reg1_data reg2_data g;
               g = op_chk_and_set_overflow (scast reg1_data) (- scast reg2_data) g;
               g = op_chk_and_set_zero result g;
               g = op_chk_and_set_sign result g
           in Ret0 (cpu\<lparr>reg := add_pc 2 g\<rparr>))"

definition op_exec_cmp_1 :: "'b TargetCoreType \<Rightarrow> 'b TargetCoreType outcome" where
  "op_exec_cmp_1 cpu =
     (let d = type1 (decoded_code cpu);
          reg1 = ucast (t1_reg1 d) :: u32;
          reg2 = ucast (t1_reg2 d) :: u32;
          g = reg cpu
      in if reg1 \<ge> CPU_GREG_NUM then RetErr cpu
         else if reg2 \<ge> CPU_GREG_NUM then RetErr cpu
         else let reg2_data = regs g reg2;
               reg1_data = regs g reg1;
               result = reg2_data - reg1_data;
               g = op_chk_and_set_borrow reg2_data reg1_data g;
               g = op_chk_and_set_overflow (scast reg2_data) (- scast reg1_data) g;
               g = op_chk_and_set_zero result g;
               g = op_chk_and_set_sign result g
           in Ret0 (cpu\<lparr>reg := add_pc 2 g\<rparr>))"

definition op_exec_add_1 :: "'b TargetCoreType \<Rightarrow> 'b TargetCoreType outcome" where
  "op_exec_add_1 cpu =
     (let d = type1 (decoded_code cpu);
          reg1 = ucast (t1_reg1 d) :: u32;
          reg2 = ucast (t1_reg2 d) :: u32;
          g = reg cpu
      in if reg1 \<ge> CPU_GREG_NUM then RetErr cpu
         else if reg2 \<ge> CPU_GREG_NUM then RetErr cpu
         else let reg2_data = regs g reg2;
               reg1_data = regs g reg1;
               result = reg2_data + reg1_data;
               g = set_r reg2 result g;
               g = op_chk_and_set_carry reg2_data reg1_data g;
               g = op_chk_and_set_overflow (scast reg2_data) (scast reg1_data) g;
               g = op_chk_and_set_zero result g;
               g = op_chk_and_set_sign result g
           in Ret0 (cpu\<lparr>reg := add_pc 2 g\<rparr>))"

definition op_exec_mov_1 :: "'b TargetCoreType \<Rightarrow> 'b TargetCoreType outcome" where
  "op_exec_mov_1 cpu =
     (let d = type1 (decoded_code cpu);
          reg1 = ucast (t1_reg1 d) :: u32;
          reg2 = ucast (t1_reg2 d) :: u32;
          g = reg cpu
      in if reg1 \<ge> CPU_GREG_NUM then RetErr cpu
         else if reg2 \<ge> CPU_GREG_NUM then RetErr cpu
         else let g = set_r reg2 (regs g reg1) g
           in Ret0 (cpu\<lparr>reg := add_pc 2 g\<rparr>))"

definition op_exec_mulh_1 :: "'b TargetCoreType \<Rightarrow> 'b TargetCoreType outcome" where
  "op_exec_mulh_1 cpu =
     (let d = type1 (decoded_code cpu);
          reg1 = ucast (t1_reg1 d) :: u32;
          reg2 = ucast (t1_reg2 d) :: u32;
          g = reg cpu
      in if reg1 \<ge> CPU_GREG_NUM then RetErr cpu
         else if reg2 \<ge> CPU_GREG_NUM then RetErr cpu
         else let tmp1 = ucast (regs g reg1) :: u16;
               tmp2 = ucast (regs g reg2) :: u16;
               result = scast tmp1 * scast tmp2 :: u32;
               g = set_r reg2 result g
           in Ret0 (cpu\<lparr>reg := add_pc 2 g\<rparr>))"

definition op_exec_cmp_2 :: "'b TargetCoreType \<Rightarrow> 'b TargetCoreType outcome" where
  "op_exec_cmp_2 cpu =
     (let d = type2 (decoded_code cpu);
          reg2 = ucast (t2_reg2 d) :: u32;
          g = reg cpu
      in if reg2 \<ge> CPU_GREG_NUM then RetErr cpu
         else let reg2_data = regs g reg2;
               imm_data = op_sign_extend 4 (t2_imm d);
               result = reg2_data - imm_data;
               g = op_chk_and_set_borrow reg2_data imm_data g;
               g = op_chk_and_set_overflow (scast reg2_data) (- scast imm_data) g;
               g = op_chk_and_set_zero result g;
               g = op_chk_and_set_sign result g
           in Ret0 (cpu\<lparr>reg := add_pc 2 g\<rparr>))"

definition op_exec_add_2 :: "'b TargetCoreType \<Rightarrow> 'b TargetCoreType outcome" where
  "op_exec_add_2 cpu =
     (let d = type2 (decoded_code cpu);
          reg2 = ucast (t2_reg2 d) :: u32;
          g = reg cpu
      in if reg2 \<ge> CPU_GREG_NUM then RetErr cpu
         else let reg2_data = regs g reg2;
               imm_data = op_sign_extend 4 (t2_imm d);
               result = reg2_data + imm_data;
               g = set_r reg2 result g;
               g = op_chk_and_set_carry reg2_data imm_data g;
               g = op_chk_and_set_overflow (scast reg2_data) (scast imm_data) g;
               g = op_chk_and_set_zero result g;
               g = op_chk_and_set_sign result g
           in Ret0 (cpu\<lparr>reg := add_pc 2 g\<rparr>))"

definition op_exec_mov_2 :: "'b TargetCoreType \<Rightarrow> 'b TargetCoreType outcome" where
  "op_exec_mov_2 cpu =
     (let d = type2 (decoded_code cpu);
          reg2 = ucast (t2_reg2 d) :: u32;
          g = reg cpu
      in if reg2 \<ge> CPU_GREG_NUM then RetErr cpu
         else let imm_data = op_sign_extend 4 (t2_imm d);
               g = set_r reg2 imm_data g
           in Ret0 (cpu\<lparr>reg := add_pc 2 g\<rparr>))"

definition op_exec_mulh_2 :: "'b TargetCoreType \<Rightarrow> 'b TargetCoreType outcome" where
  "op_exec_mulh_2 cpu =
     (let d = type2 (decoded_code cpu);
          reg2 = ucast (t2_reg2 d) :: u32;
          g = reg cpu
      in if reg2 \<ge> CPU_GREG_NUM then RetErr cpu
         else let imm_data = op_sign_extend 4 (t2_imm d);
               tmp2 = ucast (regs g reg2) :: u16;
               result = imm_data * scast tmp2;
               g = set_r reg2 result g
           in Ret0 (cpu\<lparr>reg := add_pc 2 g\<rparr>))"

definition op_exec_addi :: "'b TargetCoreType \<Rightarrow> 'b TargetCoreType outcome" where
  "op_exec_addi cpu =
     (let d = type6 (decoded_code cpu);
          reg1 = ucast (t6_reg1 d) :: u32;
          reg2 = ucast (t6_reg2 d) :: u32;
          imm_data = op_sign_extend 15 (t6_imm d);
          g = reg cpu
      in if reg1 \<ge> CPU_GREG_NUM then RetErr cpu
         else if reg2 \<ge> CPU_GREG_NUM then RetErr cpu
         else let (result, g) = op_addi imm_data (regs g reg1) g;
               g = set_r reg2 result g
           in Ret0 (cpu\<lparr>reg := add_pc 4 g\<rparr>))"

definition op_exec_movea :: "'b TargetCoreType \<Rightarrow> 'b TargetCoreType outcome" where
  "op_exec_movea cpu =
     (let d = type6 (decoded_code cpu);
          reg1 = ucast (t6_reg1 d) :: u32;
          reg2 = ucast (t6_reg2 d) :: u32;
          imm_data = op_sign_extend 15 (t6_imm d);
          g = reg cpu
      in if reg1 \<ge> CPU_GREG_NUM then RetErr cpu
         else if reg2 \<ge> CPU_GREG_NUM then RetErr cpu
         else let result = op_movea imm_data (regs g reg1);
               g = set_r reg2 result g
           in Ret0 (cpu\<lparr>reg := add_pc 4 g\<rparr>))"

definition op_exec_mov_6 :: "'b bus_ops \<Rightarrow> 'b TargetCoreType \<Rightarrow> 'b TargetCoreType outcome" where
  "op_exec_mov_6 B cpu =
     (let d = type6 (decoded_code cpu);
          reg1 = ucast (t6_reg1 d) :: u32;
          imm_data = t6_imm d
      in if reg1 \<ge> CPU_GREG_NUM then RetErr cpu
         else let imm_high_addr = pc (reg cpu) + 4
              in get16 B imm_high_addr cpu (\<lambda>imm_high16 cpu.
                   let imm_high = ucast imm_high16 :: u32;
                       imm_data = imm_data OR push_bit 16 imm_high;
                       g = set_r reg1 imm_data (reg cpu)
                   in Ret0 (cpu\<lparr>reg := add_pc 6 g\<rparr>)))"

definition op_exec_movhi :: "'b TargetCoreType \<Rightarrow> 'b TargetCoreType outcome" where
  "op_exec_movhi cpu =
     (let d = type6 (decoded_code cpu);
          reg1 = ucast (t6_reg1 d) :: u32;
          reg2 = ucast (t6_reg2 d) :: u32;
          imm_data = op_sign_extend 15 (t6_imm d);
          g = reg cpu
      in if reg1 \<ge> CPU_GREG_NUM then RetErr cpu
         else if reg2 \<ge> CPU_GREG_NUM then RetErr cpu
         else let result = op_movhi imm_data (regs g reg1);
               g = set_r reg2 result g
           in Ret0 (cpu\<lparr>reg := add_pc 4 g\<rparr>))"

definition op_exec_mulhi :: "'b TargetCoreType \<Rightarrow> 'b TargetCoreType outcome" where
  "op_exec_mulhi cpu =
     (let d = type6 (decoded_code cpu);
          reg1 = ucast (t6_reg1 d) :: u32;
          reg2 = ucast (t6_reg2 d) :: u32;
          imm_data = op_sign_extend 15 (t6_imm d);
          g = reg cpu
      in if reg1 \<ge> CPU_GREG_NUM then RetErr cpu
         else if reg2 \<ge> CPU_GREG_NUM then RetErr cpu
         else let result = op_mulhi imm_data (scast (ucast (regs g reg1) :: u16));
               g = set_r reg2 result g
           in Ret0 (cpu\<lparr>reg := add_pc 4 g\<rparr>))"

section \<open>Condition results\<close>

definition op_exec_setf :: "'b TargetCoreType \<Rightarrow> 'b TargetCoreType outcome" where
  "op_exec_setf cpu =
     (let d = type9 (decoded_code cpu);
          reg2 = ucast (t9_reg2 d) :: u32;
          cond = t9_gen d;
          g = reg cpu
      in if reg2 \<ge> CPU_GREG_NUM then RetErr cpu
         else let result = (if setf_chk_cond cpu cond then 1 else 0);
               g = set_r reg2 result g
           in Ret0 (cpu\<lparr>reg := add_pc 4 g\<rparr>))"

definition op_exec_sasf_9 :: "'b TargetCoreType \<Rightarrow> 'b TargetCoreType outcome" where
  "op_exec_sasf_9 cpu =
     (let d = type9 (decoded_code cpu);
          reg2 = ucast (t9_reg2 d) :: u32;
          cond = t9_gen d;
          g = reg cpu
      in if reg2 \<ge> CPU_GREG_NUM then RetErr cpu
         else let result = push_bit 1 (regs g reg2);
               result = (if op_exec_cond cpu cond then result OR 1 else result);
               g = set_r reg2 result g
           in Ret0 (cpu\<lparr>reg := add_pc 4 g\<rparr>))"

definition op_exec_cmov_11 :: "'b TargetCoreType \<Rightarrow> 'b TargetCoreType outcome" where
  "op_exec_cmov_11 cpu =
     (let d = type11 (decoded_code cpu);
          reg1 = ucast (t11_reg1 d) :: u32;
          reg2 = ucast (t11_reg2 d) :: u32;
          reg3 = ucast (t11_reg3 d) :: u32;
          cond = push_bit 1 (t11_rfu d) OR t11_sub2 d;
          g = reg cpu
      in if reg1 \<ge> CPU_GREG_NUM then RetErr cpu
         else if reg2 \<ge> CPU_GREG_NUM then RetErr cpu
         else if reg3 \<ge> CPU_GREG_NUM then RetErr cpu
         else let g = set_r reg3 (if setf_chk_cond cpu cond then regs g reg1 else regs g reg2) g
           in Ret0 (cpu\<lparr>reg := add_pc 4 g\<rparr>))"

definition op_exec_cmov_12 :: "'b TargetCoreType \<Rightarrow> 'b TargetCoreType outcome" where
  "op_exec_cmov_12 cpu =
     (let d = type12 (decoded_code cpu);
          reg2 = ucast (t12_reg2 d) :: u32;
          reg3 = ucast (t12_reg3 d) :: u32;
          imm_data = op_sign_extend 4 (t12_imml d);
          cond = ucast (push_bit 1 (t12_immh d AND 0x07)) OR t12_sub2 d;
          g = reg cpu
      in if reg2 \<ge> CPU_GREG_NUM then RetErr cpu
         else if reg3 \<ge> CPU_GREG_NUM then RetErr cpu
         else let g = set_r reg3 (if setf_chk_cond cpu cond then imm_data else regs g reg2) g
           in Ret0 (cpu\<lparr>reg := add_pc 4 g\<rparr>))"

definition op_exec_adf_11 :: "'b TargetCoreType \<Rightarrow> 'b TargetCoreType outcome" where
  "op_exec_adf_11 cpu =
     (let d = type11 (decoded_code cpu);
          reg1 = ucast (t11_reg1 d) :: u32;
          reg2 = ucast (t11_reg2 d) :: u32;
          reg3 = ucast (t11_reg3 d) :: u32;
          cond = push_bit 1 (t11_rfu d) OR t11_sub2 d;
          g = reg cpu
      in if reg1 \<ge> CPU_GREG_NUM then RetErr cpu
         else if reg2 \<ge> CPU_GREG_NUM then RetErr cpu
         else if reg3 \<ge> CPU_GREG_NUM then RetErr cpu
         else let reg1_data = regs g reg1;
               reg2_data = regs g reg2;
               add_data = (if op_exec_cond cpu cond then 1 else 0);
               result = reg2_data + reg1_data + add_data;
               g = set_r reg3 result g;
               g = op_chk_and_set_carry3 reg2_data reg1_data add_data g;
               g = op_chk_and_set_overflow3 (scast reg2_data) (scast reg1_data) (scast add_data) g;
               g = op_chk_and_set_zero result g;
               g = op_chk_and_set_sign result g
           in Ret0 (cpu\<lparr>reg := add_pc 4 g\<rparr>))"

definition op_exec_sbf_11 :: "'b TargetCoreType \<Rightarrow> 'b TargetCoreType outcome" where
  "op_exec_sbf_11 cpu =
     (let d = type11 (decoded_code cpu);
          reg1 = ucast (t11_reg1 d) :: u32;
          reg2 = ucast (t11_reg2 d) :: u32;
          reg3 = ucast (t11_reg3 d) :: u32;
          cond = push_bit 1 (t11_rfu d) OR t11_sub2 d;
          g = reg cpu
      in if reg1 \<ge> CPU_GREG_NUM then RetErr cpu
         else if reg2 \<ge> CPU_GREG_NUM then RetErr cpu
         else if reg3 \<ge> CPU_GREG_NUM then RetErr cpu
         else let add_data = (if op_exec_cond cpu cond then 1 else 0);
               reg2_data = regs g reg2;
               reg1_data = regs g reg1;
               result = reg2_data - reg1_data - add_data;
               g = set_r reg3 result g;
               g = op_chk_and_set_borrow3 reg2_data reg1_data add_data g;
               g = op_chk_and_set_overflow3 (scast reg2_data) (- scast reg1_data) (- scast add_data) g;
               g = op_chk_and_set_zero result g;
               g = op_chk_and_set_sign result g
           in Ret0 (cpu\<lparr>reg := add_pc 4 g\<rparr>))"

section \<open>Division\<close>

text \<open>
  C's signed division and remainder truncate towards zero.  The processor the emulator runs on
  refuses a zero divisor and the quotient of the most negative number by \<open>-1\<close>.
\<close>

definition sdiv_refused :: "u32 \<Rightarrow> u32 \<Rightarrow> bool" where
  "sdiv_refused a b = (b = 0 \<or> (a = 0x80000000 \<and> b = 0xFFFFFFFF))"

definition c_sdiv :: "u32 \<Rightarrow> u32 \<Rightarrow> u32" where
  "c_sdiv a b = word_of_int (sint a sdiv sint b)"

definition c_smod :: "u32 \<Rightarrow> u32 \<Rightarrow> u32" where
  "c_smod a b = word_of_int (sint a smod sint b)"

definition op_exec_divh_1 :: "'b TargetCoreType \<Rightarrow> 'b TargetCoreType outcome" where
  "op_exec_divh_1 cpu =
     (let d = type1 (decoded_code cpu);
          reg1 = ucast (t1_reg1 d) :: u32;
          reg2 = ucast (t1_reg2 d) :: u32;
          g = reg cpu;
          reg1_data = regs g reg1;
          reg2_data = regs g reg2
      in if reg1 \<ge> CPU_GREG_NUM then RetErr cpu
         else if reg2 \<ge> CPU_GREG_NUM then RetErr cpu
         else
           let divisor = scast (ucast reg1_data :: u16) :: u32;
               finish = (\<lambda>g. let g = op_chk_and_set_zero (regs g reg2) g;
                                 g = op_chk_and_set_sign (regs g reg2) g
                             in Ret0 (cpu\<lparr>reg := add_pc 2 g\<rparr>))
           in if reg1_data = 0 then finish (CPU_SET CPU_PSW_OV g)
              else if sdiv_refused reg2_data divisor then Fault DivFault
              else let g = CPU_CLR CPU_PSW_OV g;
                       g = set_r reg2 (c_sdiv reg2_data divisor) g
                   in finish g)"

definition op_exec_divu :: "'b TargetCoreType \<Rightarrow> 'b TargetCoreType outcome" where
  "op_exec_divu cpu =
     (let d = type11 (decoded_code cpu);
          reg1 = ucast (t11_reg1 d) :: u32;
          reg2 = ucast (t11_reg2 d) :: u32;
          reg3 = ucast (t11_reg3 d) :: u32;
          g = reg cpu;
          reg1_data = regs g reg1;
          reg2_data = regs g reg2
      in if reg1 \<ge> CPU_GREG_NUM then RetErr cpu
         else if reg2 \<ge> CPU_GREG_NUM then RetErr cpu
         else if reg3 \<ge> CPU_GREG_NUM then RetErr cpu
         else
           let divisor = reg1_data;
               finish = (\<lambda>g. let g = op_chk_and_set_zero (regs g reg2) g;
                                 g = op_chk_and_set_sign (regs g reg2) g
                             in Ret0 (cpu\<lparr>reg := add_pc 4 g\<rparr>))
           in if reg1_data = 0 then finish (CPU_SET CPU_PSW_OV g)
              else if divisor = 0 then Fault DivFault
              else let g = CPU_CLR CPU_PSW_OV g;
                       g = set_r reg2 (reg2_data div divisor) g;
                       g = set_r reg3 (reg2_data mod divisor) g
                   in finish g)"

definition op_exec_divhu :: "'b TargetCoreType \<Rightarrow> 'b TargetCoreType outcome" where
  "op_exec_divhu cpu =
     (let d = type11 (decoded_code cpu);
          reg1 = ucast (t11_reg1 d) :: u32;
          reg2 = ucast (t11_reg2 d) :: u32;
          reg3 = ucast (t11_reg3 d) :: u32;
          g = reg cpu;
          reg1_data = regs g reg1;
          reg2_data = regs g reg2
      in if reg1 \<ge> CPU_GREG_NUM then RetErr cpu
         else if reg2 \<ge> CPU_GREG_NUM then RetErr cpu
         else if reg3 \<ge> CPU_GREG_NUM then RetErr cpu
         else
           let divisor = ucast (ucast reg1_data :: u16) :: u32;
               finish = (\<lambda>g. let g = op_chk_and_set_zero (regs g reg2) g;
                                 g = op_chk_and_set_sign (regs g reg2) g
                             in Ret0 (cpu\<lparr>reg := add_pc 4 g\<rparr>))
           in if reg1_data = 0 then finish (CPU_SET CPU_PSW_OV g)
              else if divisor = 0 then Fault DivFault
              else let g = CPU_CLR CPU_PSW_OV g;
                       g = set_r reg2 (reg2_data div divisor) g;
                       g = set_r reg3 (reg2_data mod divisor) g
                   in finish g)"

definition op_exec_divqu_11 :: "'b TargetCoreType \<Rightarrow> 'b TargetCoreType outcome" where
  "op_exec_divqu_11 cpu =
     (let d = type11 (decoded_code cpu);
          reg1 = ucast (t11_reg1 d) :: u32;
          reg2 = ucast (t11_reg2 d) :: u32;
          reg3 = ucast (t11_reg3 d) :: u32;
          g = reg cpu;
          reg1_data = regs g reg1;
          reg2_data = regs g reg2
      in if reg1 \<ge> CPU_GREG_NUM then RetErr cpu
         else if reg2 \<ge> CPU_GREG_NUM then RetErr cpu
         else if reg3 \<ge> CPU_GREG_NUM then RetErr cpu
         else
           let divisor = reg1_data;
               finish = (\<lambda>g. let g = op_chk_and_set_zero (regs g reg2) g;
                                 g = op_chk_and_set_sign (regs g reg2) g
                             in Ret0 (cpu\<lparr>reg := add_pc 4 g\<rparr>))
           in if reg1_data = 0 then finish (CPU_SET CPU_PSW_OV g)
              else if divisor = 0 then Fault DivFault
              else let g = CPU_CLR CPU_PSW_OV g;
                       g = set_r reg2 (reg2_data div divisor) g;
                       g = set_r reg3 (reg2_data mod divisor) g
                   in finish g)"

definition op_exec_divh_11 :: "'b TargetCoreType \<Rightarrow> 'b TargetCoreType outcome" where
  "op_exec_divh_11 cpu =
     (let d = type11 (decoded_code cpu);
          reg1 = ucast (t11_reg1 d) :: u32;
          reg2 = ucast (t11_reg2 d) :: u32;
          reg3 = ucast (t11_reg3 d) :: u32;
          g = reg cpu;
          reg1_data = regs g reg1;
          reg2_data = regs g reg2
      in if reg1 \<ge> CPU_GREG_NUM then RetErr cpu
         else if reg2 \<ge> CPU_GREG_NUM then RetErr cpu
         else if reg3 \<ge> CPU_GREG_NUM then RetErr cpu
         else
           let divisor = scast (ucast reg1_data :: u16) :: u32;
               finish = (\<lambda>g. let g = op_chk_and_set_zero (regs g reg2) g;
                                 g = op_chk_and_set_sign (regs g reg2) g
                             in Ret0 (cpu\<lparr>reg := add_pc 4 g\<rparr>))
           in if reg1_data = 0 then finish (CPU_SET CPU_PSW_OV g)
              else if sdiv_refused reg2_data divisor then Fault DivFault
              else let g = CPU_CLR CPU_PSW_OV g;
                       g = set_r reg2 (c_sdiv reg2_data divisor) g;
                       g = set_r reg3 (c_smod reg2_data divisor) g
                   in finish g)"

text \<open>\<open>isq\<close> only chooses the name that is printed.\<close>

definition op_exec_div_common :: "bool \<Rightarrow> 'b TargetCoreType \<Rightarrow> 'b TargetCoreType outcome" where
  "op_exec_div_common isq cpu =
     (let d = type11 (decoded_code cpu);
          reg1 = ucast (t11_reg1 d) :: u32;
          reg2 = ucast (t11_reg2 d) :: u32;
          reg3 = ucast (t11_reg3 d) :: u32;
          g = reg cpu;
          reg1_data = regs g reg1;
          reg2_data = regs g reg2
      in if reg1 \<ge> CPU_GREG_NUM then RetErr cpu
         else if reg2 \<ge> CPU_GREG_NUM then RetErr cpu
         else if reg3 \<ge> CPU_GREG_NUM then RetErr cpu
         else
           let divisor = reg1_data;
               finish = (\<lambda>g. let g = op_chk_and_set_zero (regs g reg2) g;
                                 g = op_chk_and_set_sign (regs g reg2) g
                             in Ret0 (cpu\<lparr>reg := add_pc 4 g\<rparr>))
           in if reg1_data = 0 then finish (CPU_SET CPU_PSW_OV g)
              else if sdiv_refused reg2_data divisor then Fault DivFault
              else let g = (if reg1_data = 0xFFFFFFFF \<and> reg2_data = 0x80000000
                            then CPU_SET CPU_PSW_OV g else CPU_CLR CPU_PSW_OV g);
                       g = set_r reg2 (c_sdiv reg2_data divisor) g;
                       g = set_r reg3 (c_smod reg2_data divisor) g
                   in finish g)"

definition op_exec_div :: "'b TargetCoreType \<Rightarrow> 'b TargetCoreType outcome" where
  "op_exec_div cpu = op_exec_div_common False cpu"

definition op_exec_divq :: "'b TargetCoreType \<Rightarrow> 'b TargetCoreType outcome" where
  "op_exec_divq cpu = op_exec_div_common True cpu"

section \<open>Multiplication\<close>

definition op_exec_mul :: "'b TargetCoreType \<Rightarrow> 'b TargetCoreType outcome" where
  "op_exec_mul cpu =
     (let d = type11 (decoded_code cpu);
          reg1 = ucast (t11_reg1 d) :: u32;
          reg2 = ucast (t11_reg2 d) :: u32;
          reg3 = ucast (t11_reg3 d) :: u32;
          g = reg cpu;
          reg1_data = scast (regs g reg1) :: u64;
          reg2_data = scast (regs g reg2) :: u64
      in if reg1 \<ge> CPU_GREG_NUM then RetErr cpu
         else if reg2 \<ge> CPU_GREG_NUM then RetErr cpu
         else if reg3 \<ge> CPU_GREG_NUM then RetErr cpu
         else let result = reg1_data * reg2_data;
               g = set_r reg2 (ucast result) g;
               g = set_r reg3 (ucast (drop_bit 32 result)) g
           in Ret0 (cpu\<lparr>reg := add_pc 4 g\<rparr>))"

definition op_exec_mulu :: "'b TargetCoreType \<Rightarrow> 'b TargetCoreType outcome" where
  "op_exec_mulu cpu =
     (let d = type11 (decoded_code cpu);
          reg1 = ucast (t11_reg1 d) :: u32;
          reg2 = ucast (t11_reg2 d) :: u32;
          reg3 = ucast (t11_reg3 d) :: u32;
          g = reg cpu;
          reg1_data = ucast (regs g reg1) :: u64;
          reg2_data = ucast (regs g reg2) :: u64
      in if reg1 \<ge> CPU_GREG_NUM then RetErr cpu
         else if reg2 \<ge> CPU_GREG_NUM then RetErr cpu
         else if reg3 \<ge> CPU_GREG_NUM then RetErr cpu
         else let result = reg1_data * reg2_data;
               g = set_r reg2 (ucast result) g;
               g = set_r reg3 (ucast (drop_bit 32 result)) g
           in Ret0 (cpu\<lparr>reg := add_pc 4 g\<rparr>))"

definition op_exec_mulu_12 :: "'b TargetCoreType \<Rightarrow> 'b TargetCoreType outcome" where
  "op_exec_mulu_12 cpu =
     (let d = type12 (decoded_code cpu);
          reg2 = ucast (t12_reg2 d) :: u32;
          reg3 = ucast (t12_reg3 d) :: u32;
          g = reg cpu
      in if reg2 \<ge> CPU_GREG_NUM then RetErr cpu
         else if reg3 \<ge> CPU_GREG_NUM then RetErr cpu
         else let imm9_low = t12_imml d;
               imm9_high = t12_immh d AND 0xF;
               imm9 = ucast (push_bit 5 imm9_high OR imm9_low) :: u64;
               reg2_data = ucast (regs g reg2) :: u64;
               result = reg2_data * imm9;
               result_low = ucast result;
               result_high = ucast (drop_bit 32 result);
               g = set_r reg2 result_low g;
               g = set_r reg3 result_high g
           in Ret0 (cpu\<lparr>reg := add_pc 4 g\<rparr>))"

definition op_exec_mul_12 :: "'b TargetCoreType \<Rightarrow> 'b TargetCoreType outcome" where
  "op_exec_mul_12 cpu =
     (let d = type12 (decoded_code cpu);
          reg2 = ucast (t12_reg2 d) :: u32;
          reg3 = ucast (t12_reg3 d) :: u32;
          g = reg cpu
      in if reg2 \<ge> CPU_GREG_NUM then RetErr cpu
         else if reg3 \<ge> CPU_GREG_NUM then RetErr cpu
         else let imm9_low = t12_imml d;
               imm9_high = t12_immh d AND 0xF;
               imm9_32bit = push_bit 5 imm9_high OR imm9_low;
               imm9 = scast (op_sign_extend 8 imm9_32bit) :: u64;
               reg2_data = scast (regs g reg2) :: u64;
               result = reg2_data * imm9;
               result_low = ucast result;
               result_high = ucast (signed_drop_bit 32 result);
               g = set_r reg2 result_low g;
               g = set_r reg3 result_high g
           in Ret0 (cpu\<lparr>reg := add_pc 4 g\<rparr>))"

text \<open>
  The 64 bit result is read back as an array of two words: the host is little endian.
\<close>

definition op_exec_mac_11 :: "'b TargetCoreType \<Rightarrow> 'b TargetCoreType outcome" where
  "op_exec_mac_11 cpu =
     (let d = type11 (decoded_code cpu);
          reg1 = ucast (t11_reg1 d) :: u32;
          reg2 = ucast (t11_reg2 d) :: u32;
          reg3 = ucast (t11_reg3 d) :: u32;
          reg4 = push_bit 1 (push_bit 1 (ucast (t11_rfu d)) OR ucast (t11_sub2 d)) :: u32;
          reg3plus1 = reg3 + 1;
          reg4plus1 = reg4 + 1;
          g = reg cpu;
          reg1_data = scast (regs g reg1) :: u64;
          reg2_data = scast (regs g reg2) :: u64;
          reg3plus1_data = scast (regs g reg3plus1) :: u64;
          reg3_data = scast (regs g reg3) :: u64
      in if reg1 \<ge> CPU_GREG_NUM then RetErr cpu
         else if reg2 \<ge> CPU_GREG_NUM then RetErr cpu
         else if reg3 \<ge> CPU_GREG_NUM then RetErr cpu
         else if reg4 \<ge> CPU_GREG_NUM then RetErr cpu
         else if reg3 mod 2 \<noteq> 0 then RetErr cpu
         else if reg4 mod 2 \<noteq> 0 then RetErr cpu
         else
           let result1 = reg2_data * reg1_data;
               result2 = push_bit 32 reg3plus1_data OR reg3_data;
               result = result1 + result2;
               g = set_r reg4 (ucast result) g;
               g = set_r reg4plus1 (ucast (drop_bit 32 result)) g
           in Ret0 (cpu\<lparr>reg := add_pc 4 g\<rparr>))"

definition op_exec_macu_11 :: "'b TargetCoreType \<Rightarrow> 'b TargetCoreType outcome" where
  "op_exec_macu_11 cpu =
     (let d = type11 (decoded_code cpu);
          reg1 = ucast (t11_reg1 d) :: u32;
          reg2 = ucast (t11_reg2 d) :: u32;
          reg3 = ucast (t11_reg3 d) :: u32;
          reg4 = push_bit 1 (push_bit 1 (ucast (t11_rfu d)) OR ucast (t11_sub2 d)) :: u32;
          reg3plus1 = reg3 + 1;
          reg4plus1 = reg4 + 1;
          g = reg cpu;
          reg1_data = ucast (regs g reg1) :: u64;
          reg2_data = ucast (regs g reg2) :: u64;
          reg3plus1_data = ucast (regs g reg3plus1) :: u64;
          reg3_data = ucast (regs g reg3) :: u64
      in if reg1 \<ge> CPU_GREG_NUM then RetErr cpu
         else if reg2 \<ge> CPU_GREG_NUM then RetErr cpu
         else if reg3 \<ge> CPU_GREG_NUM then RetErr cpu
         else if reg4 \<ge> CPU_GREG_NUM then RetErr cpu
         else if reg3 mod 2 \<noteq> 0 then RetErr cpu
         else if reg4 mod 2 \<noteq> 0 then RetErr cpu
         else
           let result1 = reg2_data * reg1_data;
               result2 = push_bit 32 reg3plus1_data OR reg3_data;
               result = result1 + result2;
               g = set_r reg4 (ucast result) g;
               g = set_r reg4plus1 (ucast (drop_bit 32 result)) g
           in Ret0 (cpu\<lparr>reg := add_pc 4 g\<rparr>))"

section \<open>Bit insertion and rotation\<close>

text \<open>
  The loop \<^verbatim>\<open>for (i = lsb; i <= msb; i++)\<close>.  A shift by 32 or more is undefined; the counters
  are at most 31 here, so the range is a list of numbers.
\<close>

definition bins_loop :: "u32 \<Rightarrow> nat \<Rightarrow> nat \<Rightarrow> u32 \<Rightarrow> u32" where
  "bins_loop reg1_data lsb msb reg2_data =
     fold (\<lambda>i r. if reg1_data AND push_bit (i - lsb) 1 \<noteq> 0
                 then r OR push_bit i 1 else r AND NOT (push_bit i 1))
       [lsb..<Suc msb] reg2_data"

definition op_exec_bins_9 :: "'b TargetCoreType \<Rightarrow> 'b TargetCoreType outcome" where
  "op_exec_bins_9 cpu =
     (let d = type9 (decoded_code cpu);
          chk = ucast (t9_sub d) :: u32;
          reg1 = ucast (t9_gen d) :: u32;
          reg2 = ucast (t9_reg2 d) :: u32;
          msb = ucast (drop_bit 1 (t9_rfu2 d)) :: u32;
          lsb = push_bit 3 (ucast (t9_rfu2 d AND 0x01)) OR ucast (t9_rfu1 d AND 0x07) :: u32;
          g = reg cpu;
          reg2_data = regs g reg2;
          (msb, lsb) =
            (if chk = 0b100 then (msb + 16, lsb + 16)
             else if chk = 0b101 then (msb + 16, lsb)
             else (msb, lsb))
      in if lsb \<le> msb \<and> msb \<ge> 32 then Fault ShiftFault
         else
           let reg2_data = bins_loop (regs g reg1) (unat lsb) (unat msb) reg2_data;
               g = set_r reg2 reg2_data g;
               g = CPU_CLR CPU_PSW_OV g;
               g = op_chk_and_set_sign (regs g reg2) g;
               g = op_chk_and_set_zero (regs g reg2) g
           in Ret0 (cpu\<lparr>reg := add_pc 4 g\<rparr>))"

text \<open>
  The rotation loop shifts once per step and brings bit \<open>31 - i\<close> of the original in; from the
  33rd step on \<open>31U - i\<close> wraps and the shift is undefined.
\<close>

definition rotl_loop :: "u32 \<Rightarrow> nat \<Rightarrow> u32" where
  "rotl_loop org n =
     fold (\<lambda>i r. let r = push_bit 1 r in
                 if org AND push_bit (31 - i) 1 \<noteq> 0 then r OR 0x01 else r) [0..<n] org"

definition op_exec_rotl_7 :: "'b TargetCoreType \<Rightarrow> 'b TargetCoreType outcome" where
  "op_exec_rotl_7 cpu =
     (let d = type7 (decoded_code cpu);
          reg2 = ucast (t7_reg2 d) :: u32;
          reg3 = drop_bit 10 (t7_disp d) AND 0x1F;
          chk = t7_disp d AND 0x03FF;
          g = reg cpu;
          reg2_data = regs g reg2;
          rotate_size =
            (if chk = 0b0001100010 then op_zero_extend 5 (ucast (t7_reg1 d))
             else if chk = 0b0001100011 then regs g (ucast (t7_reg1 d))
             else 0)
      in if rotate_size > 32 then Fault ShiftFault
         else
           let reg2_data = rotl_loop reg2_data (unat rotate_size);
               g = set_r reg3 reg2_data g;
               g = (if rotate_size > 0 \<and> regs g reg3 AND 0x01 = 0x01
                    then CPU_SET CPU_PSW_CY g else CPU_CLR CPU_PSW_CY g);
               g = CPU_CLR CPU_PSW_OV g;
               g = op_chk_and_set_sign (regs g reg3) g;
               g = op_chk_and_set_zero (regs g reg3) g
           in Ret0 (cpu\<lparr>reg := add_pc 4 g\<rparr>))"

section \<open>Contract of the executors\<close>

text \<open>
  Each executor above writes only the registers listed, keeps every system register apart from
  the arithmetic flags, and touches nothing else of the machine.
\<close>

interpretation sub_ex: alu_executor op_exec_sub "\<lambda>d. {ucast (t1_reg2 (type1 d))}"
  by unfold_locales (auto simp: op_exec_sub_def Let_def chk_forms split: if_splits prod.splits)

interpretation subr_ex: alu_executor op_exec_subr "\<lambda>d. {ucast (t1_reg2 (type1 d))}"
  by unfold_locales (auto simp: op_exec_subr_def Let_def chk_forms split: if_splits prod.splits)

interpretation cmp_1_ex: alu_executor op_exec_cmp_1 "\<lambda>d. {}"
  by unfold_locales (auto simp: op_exec_cmp_1_def Let_def chk_forms split: if_splits prod.splits)

interpretation add_1_ex: alu_executor op_exec_add_1 "\<lambda>d. {ucast (t1_reg2 (type1 d))}"
  by unfold_locales (auto simp: op_exec_add_1_def Let_def chk_forms split: if_splits prod.splits)

interpretation mov_1_ex: alu_executor op_exec_mov_1 "\<lambda>d. {ucast (t1_reg2 (type1 d))}"
  by unfold_locales (auto simp: op_exec_mov_1_def Let_def chk_forms split: if_splits prod.splits)

interpretation mulh_1_ex: alu_executor op_exec_mulh_1 "\<lambda>d. {ucast (t1_reg2 (type1 d))}"
  by unfold_locales (auto simp: op_exec_mulh_1_def Let_def chk_forms split: if_splits prod.splits)

interpretation cmp_2_ex: alu_executor op_exec_cmp_2 "\<lambda>d. {}"
  by unfold_locales (auto simp: op_exec_cmp_2_def Let_def chk_forms split: if_splits prod.splits)

interpretation add_2_ex: alu_executor op_exec_add_2 "\<lambda>d. {ucast (t2_reg2 (type2 d))}"
  by unfold_locales (auto simp: op_exec_add_2_def Let_def chk_forms split: if_splits prod.splits)

interpretation mov_2_ex: alu_executor op_exec_mov_2 "\<lambda>d. {ucast (t2_reg2 (type2 d))}"
  by unfold_locales (auto simp: op_exec_mov_2_def Let_def chk_forms split: if_splits prod.splits)

interpretation mulh_2_ex: alu_executor op_exec_mulh_2 "\<lambda>d. {ucast (t2_reg2 (type2 d))}"
  by unfold_locales (auto simp: op_exec_mulh_2_def Let_def chk_forms split: if_splits prod.splits)

interpretation addi_ex: alu_executor op_exec_addi "\<lambda>d. {ucast (t6_reg2 (type6 d))}"
  by unfold_locales (auto simp: op_exec_addi_def op_addi_def Let_def chk_forms split: if_splits prod.splits)

interpretation movea_ex: alu_executor op_exec_movea "\<lambda>d. {ucast (t6_reg2 (type6 d))}"
  by unfold_locales (auto simp: op_exec_movea_def op_movea_def Let_def chk_forms split: if_splits prod.splits)

interpretation movhi_ex: alu_executor op_exec_movhi "\<lambda>d. {ucast (t6_reg2 (type6 d))}"
  by unfold_locales (auto simp: op_exec_movhi_def Let_def chk_forms split: if_splits prod.splits)

interpretation mulhi_ex: alu_executor op_exec_mulhi "\<lambda>d. {ucast (t6_reg2 (type6 d))}"
  by unfold_locales (auto simp: op_exec_mulhi_def Let_def chk_forms split: if_splits prod.splits)

interpretation setf_ex: alu_executor op_exec_setf "\<lambda>d. {ucast (t9_reg2 (type9 d))}"
  by unfold_locales (auto simp: op_exec_setf_def Let_def chk_forms split: if_splits prod.splits)

interpretation sasf_9_ex: alu_executor op_exec_sasf_9 "\<lambda>d. {ucast (t9_reg2 (type9 d))}"
  by unfold_locales (auto simp: op_exec_sasf_9_def Let_def chk_forms split: if_splits prod.splits)

interpretation cmov_11_ex: alu_executor op_exec_cmov_11 "\<lambda>d. {ucast (t11_reg3 (type11 d))}"
  by unfold_locales (auto simp: op_exec_cmov_11_def Let_def chk_forms split: if_splits prod.splits)

interpretation cmov_12_ex: alu_executor op_exec_cmov_12 "\<lambda>d. {ucast (t12_reg3 (type12 d))}"
  by unfold_locales (auto simp: op_exec_cmov_12_def Let_def chk_forms split: if_splits prod.splits)

interpretation adf_11_ex: alu_executor op_exec_adf_11 "\<lambda>d. {ucast (t11_reg3 (type11 d))}"
  by unfold_locales (auto simp: op_exec_adf_11_def Let_def chk_forms split: if_splits prod.splits)

interpretation sbf_11_ex: alu_executor op_exec_sbf_11 "\<lambda>d. {ucast (t11_reg3 (type11 d))}"
  by unfold_locales (auto simp: op_exec_sbf_11_def Let_def chk_forms split: if_splits prod.splits)

interpretation divh_1_ex: alu_executor op_exec_divh_1 "\<lambda>d. {ucast (t1_reg2 (type1 d))}"
  by unfold_locales (auto simp: op_exec_divh_1_def Let_def chk_forms split: if_splits prod.splits)

interpretation divu_ex: alu_executor op_exec_divu "\<lambda>d. {ucast (t11_reg2 (type11 d)), ucast (t11_reg3 (type11 d))}"
  by unfold_locales (auto simp: op_exec_divu_def Let_def chk_forms split: if_splits prod.splits)

interpretation divhu_ex: alu_executor op_exec_divhu "\<lambda>d. {ucast (t11_reg2 (type11 d)), ucast (t11_reg3 (type11 d))}"
  by unfold_locales (auto simp: op_exec_divhu_def Let_def chk_forms split: if_splits prod.splits)

interpretation divqu_11_ex: alu_executor op_exec_divqu_11 "\<lambda>d. {ucast (t11_reg2 (type11 d)), ucast (t11_reg3 (type11 d))}"
  by unfold_locales (auto simp: op_exec_divqu_11_def Let_def chk_forms split: if_splits prod.splits)

interpretation divh_11_ex: alu_executor op_exec_divh_11 "\<lambda>d. {ucast (t11_reg2 (type11 d)), ucast (t11_reg3 (type11 d))}"
  by unfold_locales (auto simp: op_exec_divh_11_def Let_def chk_forms split: if_splits prod.splits)

interpretation div_ex: alu_executor op_exec_div "\<lambda>d. {ucast (t11_reg2 (type11 d)), ucast (t11_reg3 (type11 d))}"
  by unfold_locales (auto simp: op_exec_div_def op_exec_div_common_def Let_def chk_forms split: if_splits prod.splits)

interpretation divq_ex: alu_executor op_exec_divq "\<lambda>d. {ucast (t11_reg2 (type11 d)), ucast (t11_reg3 (type11 d))}"
  by unfold_locales (auto simp: op_exec_divq_def op_exec_div_common_def Let_def chk_forms split: if_splits prod.splits)

interpretation mul_ex: alu_executor op_exec_mul "\<lambda>d. {ucast (t11_reg2 (type11 d)), ucast (t11_reg3 (type11 d))}"
  by unfold_locales (auto simp: op_exec_mul_def Let_def chk_forms split: if_splits prod.splits)

interpretation mulu_ex: alu_executor op_exec_mulu "\<lambda>d. {ucast (t11_reg2 (type11 d)), ucast (t11_reg3 (type11 d))}"
  by unfold_locales (auto simp: op_exec_mulu_def Let_def chk_forms split: if_splits prod.splits)

interpretation mulu_12_ex: alu_executor op_exec_mulu_12 "\<lambda>d. {ucast (t12_reg2 (type12 d)), ucast (t12_reg3 (type12 d))}"
  by unfold_locales (auto simp: op_exec_mulu_12_def Let_def chk_forms split: if_splits prod.splits)

interpretation mul_12_ex: alu_executor op_exec_mul_12 "\<lambda>d. {ucast (t12_reg2 (type12 d)), ucast (t12_reg3 (type12 d))}"
  by unfold_locales (auto simp: op_exec_mul_12_def Let_def chk_forms split: if_splits prod.splits)

interpretation mac_11_ex: alu_executor op_exec_mac_11 "\<lambda>d. {push_bit 1 (push_bit 1 (ucast (t11_rfu (type11 d))) OR ucast (t11_sub2 (type11 d))), push_bit 1 (push_bit 1 (ucast (t11_rfu (type11 d))) OR ucast (t11_sub2 (type11 d))) + 1}"
  by unfold_locales (auto simp: op_exec_mac_11_def Let_def chk_forms split: if_splits prod.splits)

interpretation macu_11_ex: alu_executor op_exec_macu_11 "\<lambda>d. {push_bit 1 (push_bit 1 (ucast (t11_rfu (type11 d))) OR ucast (t11_sub2 (type11 d))), push_bit 1 (push_bit 1 (ucast (t11_rfu (type11 d))) OR ucast (t11_sub2 (type11 d))) + 1}"
  by unfold_locales (auto simp: op_exec_macu_11_def Let_def chk_forms split: if_splits prod.splits)

interpretation bins_9_ex: alu_executor op_exec_bins_9 "\<lambda>d. {ucast (t9_reg2 (type9 d))}"
  by unfold_locales (auto simp: op_exec_bins_9_def Let_def chk_forms split: if_splits prod.splits)

interpretation rotl_7_ex: alu_executor op_exec_rotl_7 "\<lambda>d. {drop_bit 10 (t7_disp (type7 d)) AND 0x1F}"
  by unfold_locales (auto simp: op_exec_rotl_7_def Let_def chk_forms split: if_splits prod.splits)

end
