(* ===== verification/Mpu.thy ===== *)
theory Mpu
  imports Cpu_Ops Op_CodeId
begin

text \<open>
  The memory protection unit: \<^verbatim>\<open>mpu/target/target_mpu_common.c\<close> and
  \<^verbatim>\<open>mpu/target/rh850f1k/target_mpu.c\<close>.  The region container holds
  \<open>TARGET_MPU_CONFIG_NUM\<close> regions; it is a list here.
\<close>

section \<open>Initialisation and configuration\<close>

abbreviation (input) TARGET_MPU_CONFIG_NUM :: nat where "TARGET_MPU_CONFIG_NUM \<equiv> 16"

text \<open>
  \<open>mpu_init\<close> clears the control registers and the attribute registers \<open>MPAT0\<close> to \<open>MPAT15\<close>,
  which are the registers 2, 6, .. 30 of groups 6 and 7.
\<close>

definition mpat_regs :: "(u32 \<times> u32) list" where
  "mpat_regs =
     [(SYS_GRP_6, 2), (SYS_GRP_6, 6), (SYS_GRP_6, 10), (SYS_GRP_6, 14),
      (SYS_GRP_6, 18), (SYS_GRP_6, 22), (SYS_GRP_6, 26), (SYS_GRP_6, 30),
      (SYS_GRP_7, 2), (SYS_GRP_7, 6), (SYS_GRP_7, 10), (SYS_GRP_7, 14),
      (SYS_GRP_7, 18), (SYS_GRP_7, 22), (SYS_GRP_7, 26), (SYS_GRP_7, 30)]"

definition mpu_init :: "CpuRegisterType \<Rightarrow> CpuRegisterType" where
  "mpu_init g =
     (let g = cpu_set_sysreg2 SYS_GRP_5 SYS_REG_MPM 0x00 g;
          g = cpu_set_sysreg2 SYS_GRP_5 SYS_REG_MPRC 0x00 g;
          g = cpu_set_sysreg2 SYS_GRP_5 SYS_REG_MPBRGN 0x00 g;
          g = cpu_set_sysreg2 SYS_GRP_5 SYS_REG_MPTRGN 0x10 g;
          g = fold (\<lambda>(selid, regid) g. cpu_set_sysreg2 selid regid 0x00 g) mpat_regs g
      in cpu_set_sysreg2 SYS_GRP_5 SYS_REG_MCC 0x00 g)"

definition sysreg_is_bit_set :: "u32 \<Rightarrow> u32 \<Rightarrow> bool" where
  "sysreg_is_bit_set v b = (v AND b = b)"

text \<open>The system register group and the first register of protection region \<open>index\<close>.\<close>

definition mpu_region_selid :: "nat \<Rightarrow> u32" where
  "mpu_region_selid index = (if index < 8 then SYS_GRP_6 else SYS_GRP_7)"

definition mpu_region_base :: "nat \<Rightarrow> u32" where
  "mpu_region_base index = of_nat ((if index < 8 then index - 0 else index - 8) * 4)"

definition mpu_region_config :: "CpuRegisterType \<Rightarrow> nat \<Rightarrow> TargetMpuConfigType" where
  "mpu_region_config g index =
     (let selid = mpu_region_selid index;
          base = mpu_region_base index;
          mpla = cpu_get_sysreg2 selid base g;
          mpua = cpu_get_sysreg2 selid (base + 1) g;
          mpat = cpu_get_sysreg2 selid (base + 2) g
      in \<lparr>addr_start = mpla AND 0xFFFFFFFC,
          addr_end = mpua OR 0x3,
          is_enable = sysreg_is_bit_set mpat 0x0080,
          is_enable_access_sv =
            \<lparr>acc_read = sysreg_is_bit_set mpat 0x0008, acc_write = sysreg_is_bit_set mpat 0x0010,
             acc_exec = sysreg_is_bit_set mpat 0x0020\<rparr>,
          is_enable_access_um =
            \<lparr>acc_read = sysreg_is_bit_set mpat 0x0001, acc_write = sysreg_is_bit_set mpat 0x0002,
             acc_exec = sysreg_is_bit_set mpat 0x0004\<rparr>,
          is_enable_apply_config = sysreg_is_bit_set mpat 0x0040,
          cfg_asid = ucast (drop_bit 16 (mpat AND 0x03FF0000))\<rparr>)"

definition mpu_set_config :: "'b TargetCoreType \<Rightarrow> 'b TargetCoreType" where
  "mpu_set_config cpu =
     (let g = reg cpu;
          mpm = cpu_get_sysreg2 SYS_GRP_5 SYS_REG_MPM g
      in cpu\<lparr>mpu := (mpu cpu)\<lparr>
           is_enable_mpu := sysreg_is_bit_set mpm 0x0001,
           is_enable_sv := sysreg_is_bit_set mpm 0x0002,
           is_enable_outside_protection_region :=
             \<lparr>acc_read = False, acc_write = False, acc_exec = False\<rparr>,
           permission_region := map (mpu_region_config g) [0..<TARGET_MPU_CONFIG_NUM]\<rparr>\<rparr>)"

definition target_mpu_set_config :: "'b TargetCoreType \<Rightarrow> 'b TargetCoreType" where
  "target_mpu_set_config cpu = mpu_set_config cpu"

definition target_mpu_init :: "'b TargetCoreType \<Rightarrow> 'b TargetCoreType" where
  "target_mpu_init cpu =
     (let cpu = cpu\<lparr>reg := mpu_init (reg cpu)\<rparr>;
          cpu = mpu_set_config cpu
      in cpu\<lparr>mpu := (mpu cpu)\<lparr>excption_error_info :=
           \<lparr>intc_error_info =
              \<lparr>access_type = MPU_TARGET_ACCESS_NONE,
               exception_error_code = TARGET_MPU_EXCEPTION_ERROR_CODE_NONE,
               is_sv_mode = False, is_bl_error = False, is_ms_error = False, is_rmw_error = False\<rparr>,
            error_addr = 0, op_codeid = OpCodeId_Num, is_error_occurred = False\<rparr>\<rparr>\<rparr>)"

section \<open>Permission checks\<close>

definition mpu_is_enable_protection_region :: "TargetMpuConfigType \<Rightarrow> bool" where
  "mpu_is_enable_protection_region c =
     (if \<not> is_enable c then False
      else if addr_end c < addr_start c then False
      else True)"

definition mpu_is_apply_protection_region :: "CpuRegisterType \<Rightarrow> TargetMpuConfigType \<Rightarrow> bool" where
  "mpu_is_apply_protection_region g c =
     (if \<not> is_enable_apply_config c then False
      else if ucast (cfg_asid c) = cpu_get_sysreg2 SYS_GRP_2 SYS_REG_ASID g then True
      else False)"

definition mpu_has_permission_access_type ::
    "CpuRegisterType \<Rightarrow> TargetMpuAccessType \<Rightarrow> TargetMpuConfigType \<Rightarrow> bool" where
  "mpu_has_permission_access_type g at c =
     (let acc = (if CPU_ISSET CPU_PSW_UM g then is_enable_access_um c else is_enable_access_sv c)
      in case at of
           MPU_TARGET_ACCESS_READ \<Rightarrow> acc_read acc
         | MPU_TARGET_ACCESS_WRITE \<Rightarrow> acc_write acc
         | MPU_TARGET_ACCESS_EXEC \<Rightarrow> acc_exec acc
         | MPU_TARGET_ACCESS_NONE \<Rightarrow> False)"

fun mpu_has_permission_access_region_mdp :: "u32 \<Rightarrow> u32 \<Rightarrow> TargetMpuConfigType list \<Rightarrow> bool" where
  "mpu_has_permission_access_region_mdp addr sz [] = False"
| "mpu_has_permission_access_region_mdp addr sz (c # cs) =
     (if addr_start c \<le> addr \<and> addr + sz - 1 \<le> addr_end c then True
      else mpu_has_permission_access_region_mdp addr sz cs)"

text \<open>
  The byte loop \<^verbatim>\<open>for (check_addr = addr; check_addr < addr + size; check_addr++)\<close>, with the
  end computed modulo \<open>2 ^ 32\<close> as the C code does.
\<close>

function mip_loop :: "u32 \<Rightarrow> u32 \<Rightarrow> TargetMpuConfigType list \<Rightarrow> bool" where
  "mip_loop check_addr end_addr cs =
     (if check_addr < end_addr
      then if list_ex (\<lambda>c. addr_start c \<le> check_addr \<and> check_addr \<le> addr_end c) cs
           then mip_loop (check_addr + 1) end_addr cs
           else False
      else True)"
  by pat_completeness auto
termination
proof (relation "measure (\<lambda>(a, e, _). unat e - unat a)")
  fix a e :: u32 and cs :: "TargetMpuConfigType list"
  assume "a < e"
  then have "unat (a + 1) = Suc (unat a)" and "unat a < unat e"
    by (simp_all add: unat_inc word_less_nat_alt)
  then show "((a + 1, e, cs), a, e, cs) \<in> measure (\<lambda>(a, e, _). unat e - unat a)" by simp
qed simp

declare mip_loop.simps [simp del]

definition mpu_has_permission_access_region_mip :: "u32 \<Rightarrow> u32 \<Rightarrow> TargetMpuConfigType list \<Rightarrow> bool" where
  "mpu_has_permission_access_region_mip addr sz cs = mip_loop addr (addr + sz) cs"

definition mpu_has_permission_access_region ::
    "TargetMpuAccessType \<Rightarrow> u32 \<Rightarrow> u32 \<Rightarrow> TargetMpuConfigType list \<Rightarrow> bool" where
  "mpu_has_permission_access_region at addr sz cs =
     (if at = MPU_TARGET_ACCESS_EXEC
      then mpu_has_permission_access_region_mip addr sz cs
      else mpu_has_permission_access_region_mdp addr sz cs)"

definition target_mpu_has_permission_set_error ::
    "'b TargetCoreType \<Rightarrow> TargetMpuAccessType \<Rightarrow> u32 \<Rightarrow> 'b TargetCoreType" where
  "target_mpu_has_permission_set_error cpu at addr =
     (let e = excption_error_info (mpu cpu);
          i = (intc_error_info e)\<lparr>
                access_type := at,
                exception_error_code :=
                  (if at = MPU_TARGET_ACCESS_EXEC then TARGET_MPU_EXCEPTION_ERROR_CODE_MIP
                   else TARGET_MPU_EXCEPTION_ERROR_CODE_MDP),
                is_sv_mode := (if CPU_ISSET CPU_PSW_UM (reg cpu) then False else True)\<rparr>
      in cpu\<lparr>mpu := (mpu cpu)\<lparr>excption_error_info :=
           e\<lparr>error_addr := addr, intc_error_info := i\<rparr>\<rparr>\<rparr>)"

definition set_error_occurred :: "bool \<Rightarrow> 'b TargetCoreType \<Rightarrow> 'b TargetCoreType" where
  "set_error_occurred b cpu = cpu\<lparr>mpu := (mpu cpu)\<lparr>excption_error_info :=
     (excption_error_info (mpu cpu))\<lparr>is_error_occurred := b\<rparr>\<rparr>\<rparr>"

text \<open>The regions the first loop collects.\<close>

definition enable_region_config ::
    "'b TargetCoreType \<Rightarrow> TargetMpuAccessType \<Rightarrow> TargetMpuConfigType list" where
  "enable_region_config cpu at =
     filter (\<lambda>c. mpu_is_enable_protection_region c \<and> mpu_is_apply_protection_region (reg cpu) c \<and>
                 mpu_has_permission_access_type (reg cpu) at c) (permission_region (mpu cpu))"

definition target_mpu_has_permission ::
    "'b TargetCoreType \<Rightarrow> TargetMpuAccessType \<Rightarrow> u32 \<Rightarrow> u32 \<Rightarrow> bool \<times> 'b TargetCoreType" where
  "target_mpu_has_permission cpu at addr sz =
     (if \<not> is_enable_mpu (mpu cpu) then (True, cpu)
      else if \<not> CPU_ISSET CPU_PSW_UM (reg cpu) \<and> \<not> is_enable_sv (mpu cpu) then (True, cpu)
      else if mpu_has_permission_access_region at addr sz (enable_region_config cpu at)
      then (True, set_error_occurred False cpu)
      else (False, target_mpu_has_permission_set_error (set_error_occurred True cpu) at addr))"

section \<open>Reporting an error\<close>

definition mpu_set_error :: "'b TargetCoreType \<Rightarrow> 'b TargetCoreType" where
  "mpu_set_error cpu =
     (let e = excption_error_info (mpu cpu);
          cpu = cpu\<lparr>reg := cpu_set_sysreg2 SYS_GRP_2 SYS_REG_MEA (error_addr e) (reg cpu)\<rparr>
      in if access_type (intc_error_info e) = MPU_TARGET_ACCESS_EXEC then cpu
         else
           let m = memory_error_info (op_codeid e);
               data = (if mei_reg m \<le> TARGET_MPU_MEI_REG_3 then push_bit 16 (ucast (mei_reg m)) else 0) :: u32;
               data = data OR push_bit 9 (ucast (mei_data_type m));
               data = data OR push_bit 8 (ucast (mei_sign m));
               data = data OR push_bit 1 (ucast (mei_itype m));
               data = data OR push_bit 0 (ucast (mei_rw m))
           in cpu\<lparr>reg := cpu_set_sysreg2 SYS_GRP_2 SYS_REG_MEI data (reg cpu)\<rparr>)"

definition target_mpu_set_error :: "'b TargetCoreType \<Rightarrow> 'b TargetCoreType" where
  "target_mpu_set_error cpu =
     (let e = excption_error_info (mpu cpu);
          code_id = op_codeid e;
          i = (intc_error_info e)\<lparr>
                is_bl_error := code_id \<in> {OpCodeId_PREPARE_13, OpCodeId_DISPOSE_13,
                                          OpCodeId_PUSHSP_11, OpCodeId_POPSP_11},
                is_rmw_error := code_id \<in> {OpCodeId_SET1_8, OpCodeId_SET1_9, OpCodeId_NOT1_8,
                                           OpCodeId_NOT1_9, OpCodeId_CLR1_8, OpCodeId_CLR1_9},
                is_ms_error := False\<rparr>
      in mpu_set_error (cpu\<lparr>mpu := (mpu cpu)\<lparr>excption_error_info := e\<lparr>intc_error_info := i\<rparr>\<rparr>\<rparr>))"

section \<open>The check instruction\<close>

definition mpu_check_permission ::
    "TargetMpuEnableAccessType \<Rightarrow> TargetMpuEnableAccessType \<Rightarrow> TargetMpuEnableAccessType" where
  "mpu_check_permission permission result =
     (let result = (if acc_exec permission then result\<lparr>acc_exec := True\<rparr> else result);
          result = (if acc_read permission then result\<lparr>acc_read := True\<rparr> else result)
      in (if acc_write permission then result\<lparr>acc_write := True\<rparr> else result))"

definition mpu_check_ov :: "u32 \<Rightarrow> u32 \<Rightarrow> bool" where
  "mpu_check_ov s e =
     (if s > e then True
      else if s \<le> 0x7FFFFFFF \<and> e > 0x7FFFFFFF then True
      else False)"

text \<open>
  \<^verbatim>\<open>TARGET_MPU_CHECK_SET(b)\<close> is \<^verbatim>\<open>(b) ? 1U : 0U\<close> without outer parentheses, so in
  \<^verbatim>\<open>(TARGET_MPU_CHECK_SET(b) << n)\<close> the shift applies to the \<^verbatim>\<open>0U\<close> only.
\<close>

definition set_mcr_bit :: "bool \<Rightarrow> nat \<Rightarrow> u32" where
  "set_mcr_bit b n = (if b then 1 else push_bit n 0)"

definition mpu_check :: "'b TargetCoreType \<Rightarrow> 'b TargetCoreType" where
  "mpu_check cpu =
     (let g = reg cpu;
          s = cpu_get_sysreg2 SYS_GRP_2 SYS_REG_MCA g;
          e = cpu_get_sysreg2 SYS_GRP_2 SYS_REG_MCA g + cpu_get_sysreg2 SYS_GRP_2 SYS_REG_MCS g;
          none = \<lparr>acc_read = False, acc_write = False, acc_exec = False\<rparr>;
          (sv, um) = fold (\<lambda>c (sv, um).
             if (\<not> (addr_start c \<le> s)) \<and> e \<le> addr_end c then (sv, um)
             else (mpu_check_permission (is_enable_access_sv c) sv,
                   mpu_check_permission (is_enable_access_um c) um))
             (permission_region (mpu cpu)) (none, none);
          data = set_mcr_bit (mpu_check_ov s e) 8 OR set_mcr_bit (acc_exec sv) 5 OR
                 set_mcr_bit (acc_read sv) 3 OR set_mcr_bit (acc_write sv) 4 OR
                 set_mcr_bit (acc_exec um) 2 OR set_mcr_bit (acc_read um) 0 OR
                 set_mcr_bit (acc_write um) 1
      in cpu\<lparr>reg := cpu_set_sysreg2 SYS_GRP_2 SYS_REG_MCR data g\<rparr>)"

definition target_mpu_check :: "'b TargetCoreType \<Rightarrow> 'b TargetCoreType" where
  "target_mpu_check cpu = mpu_check cpu"

section \<open>Access hooks of the protection registers\<close>

text \<open>\<open>mpu_hook_access_read\<close> changes only the data, the write hooks only other registers.\<close>

definition mpu_hook_access_read :: "u32 \<Rightarrow> u8 \<Rightarrow> u8 \<Rightarrow> u32" where
  "mpu_hook_access_read data regid selid =
     (if selid = 5 \<and> regid = 4 then 0
      else if selid = 5 \<and> regid = 5 then 16
      else if (selid = 6 \<or> selid = 7) \<and> regid mod 4 = 0 then data AND 0xFFFFFFFC
      else if (selid = 6 \<or> selid = 7) \<and> regid mod 4 = 1 then data AND 0xFFFFFFFC
      else if selid = 5 \<and> regid = 10 then 0
      else data)"

definition mpu_hook_access_write_mprc :: "u32 \<Rightarrow> CpuRegisterType \<Rightarrow> CpuRegisterType" where
  "mpu_hook_access_write_mprc data g =
     fold (\<lambda>index g.
       let selid = mpu_region_selid index;
           regid = mpu_region_base index + 2;
           v = cpu_get_sysreg2 selid regid g
       in if data AND push_bit index 1 \<noteq> 0
          then cpu_set_sysreg2 selid regid (v OR push_bit 7 1) g
          else cpu_set_sysreg2 selid regid (v AND NOT (push_bit 7 1)) g)
       [0..<TARGET_MPU_CONFIG_NUM] g"

definition mpu_hook_access_write_mpta_get_config_index :: "u8 \<Rightarrow> u8 \<Rightarrow> u8" where
  "mpu_hook_access_write_mpta_get_config_index regid selid =
     (let base = (if selid = 6 then 0 else 8) in base + regid div 4)"

definition mpu_hook_access_write_mpta :: "u32 \<Rightarrow> u8 \<Rightarrow> u8 \<Rightarrow> CpuRegisterType \<Rightarrow> CpuRegisterType" where
  "mpu_hook_access_write_mpta data regid selid g =
     (let v = cpu_get_sysreg2 SYS_GRP_5 SYS_REG_MPRC g;
          value = ucast (drop_bit 7 (data AND 0x0080)) :: u8;
          index = unat (mpu_hook_access_write_mpta_get_config_index regid selid)
      in if value = 0
         then cpu_set_sysreg2 SYS_GRP_5 SYS_REG_MPRC (v AND NOT (push_bit index 1)) g
         else cpu_set_sysreg2 SYS_GRP_5 SYS_REG_MPRC (v OR push_bit index 1) g)"

definition mpu_hook_access_write :: "u32 \<Rightarrow> u8 \<Rightarrow> u8 \<Rightarrow> CpuRegisterType \<Rightarrow> CpuRegisterType" where
  "mpu_hook_access_write data regid selid g =
     (if selid = 5 \<and> regid = 1 then mpu_hook_access_write_mprc data g
      else if (selid = 6 \<or> selid = 7) \<and> regid mod 4 = 2
      then mpu_hook_access_write_mpta data regid selid g
      else g)"

text \<open>Argument order as in C: register number, then group.\<close>

definition mpu_hook_access ::
    "'b TargetCoreType \<Rightarrow> u32 \<Rightarrow> TargetMpuAccessType \<Rightarrow> u8 \<Rightarrow> u8 \<Rightarrow> u32 \<times> 'b TargetCoreType" where
  "mpu_hook_access cpu data at regid selid =
     (if at = MPU_TARGET_ACCESS_READ
      then (mpu_hook_access_read data regid selid, cpu)
      else (data, cpu\<lparr>reg := mpu_hook_access_write data regid selid (reg cpu)\<rparr>))"

definition target_mpu_hook_access ::
    "'b TargetCoreType \<Rightarrow> u32 \<Rightarrow> TargetMpuAccessType \<Rightarrow> u8 \<Rightarrow> u8 \<Rightarrow> u32 \<times> 'b TargetCoreType" where
  "target_mpu_hook_access cpu data at regid selid = mpu_hook_access cpu data at regid selid"

end
