(* ===== verification/Samples.thy ===== *)
theory Samples
  imports Exec_Base Mpu
begin

text \<open>
  Concrete machines on which the theorems with hypotheses are instantiated: a decoded
  instruction with all fields zero, a core with given registers, and a flat byte memory behind
  the bus interface.
\<close>

definition blank_code :: OpDecodedCodeType where
  "blank_code = \<lparr>type_id = OP_CODE_FORMAT_1,
     type1 = \<lparr>t1_opcode = 0, t1_reg1 = 0, t1_reg2 = 0\<rparr>,
     type2 = \<lparr>t2_opcode = 0, t2_imm = 0, t2_reg2 = 0\<rparr>,
     type3 = \<lparr>t3_opcode = 0, t3_disp = 0, t3_cond = 0\<rparr>,
     type4_1 = \<lparr>t4_1_opcode = 0, t4_1_disp = 0, t4_1_reg2 = 0, t4_1_gen = 0\<rparr>,
     type4_2 = \<lparr>t4_2_opcode = 0, t4_2_disp = 0, t4_2_reg2 = 0\<rparr>,
     type5 = \<lparr>t5_opcode = 0, t5_disp = 0, t5_reg2 = 0\<rparr>,
     type6 = \<lparr>t6_opcode = 0, t6_imm = 0, t6_reg1 = 0, t6_reg2 = 0\<rparr>,
     type7 = \<lparr>t7_opcode = 0, t7_disp = 0, t7_reg1 = 0, t7_reg2 = 0, t7_gen = 0\<rparr>,
     type8 = \<lparr>t8_opcode = 0, t8_sub = 0, t8_bit = 0, t8_reg1 = 0, t8_disp = 0\<rparr>,
     type9 = \<lparr>t9_opcode = 0, t9_sub = 0, t9_gen = 0, t9_reg2 = 0, t9_rfu2 = 0, t9_rfu1 = 0\<rparr>,
     type10 = \<lparr>t10_opcode = 0, t10_gen1 = 0, t10_gen2 = 0, t10_sub = 0, t10_rfu1 = 0,
               t10_rfu2 = 0, t10_rfu3 = 0\<rparr>,
     type11 = \<lparr>t11_opcode = 0, t11_reg1 = 0, t11_reg2 = 0, t11_reg3 = 0, t11_sub1 = 0,
               t11_sub2 = 0, t11_rfu = 0\<rparr>,
     type12 = \<lparr>t12_opcode = 0, t12_reg2 = 0, t12_reg3 = 0, t12_imml = 0, t12_immh = 0,
               t12_sub1 = 0, t12_sub2 = 0\<rparr>,
     type13 = \<lparr>t13_opcode = 0, t13_imm = 0, t13_list = (\<lambda>_. 0), t13_gen = 0, t13_rfu = 0\<rparr>,
     type14 = \<lparr>t14_sub1 = 0, t14_opcode = 0, t14_reg1 = 0, t14_reg3 = 0, t14_disp_low = 0,
               t14_sub2 = 0, t14_disp_high = 0\<rparr>,
     type_f = \<lparr>tf_reg2 = 0, tf_opcode = 0, tf_reg1 = 0, tf_reg3 = 0, tf_subopcode = 0\<rparr>\<rparr>"

definition blank_access :: TargetMpuEnableAccessType where
  "blank_access = \<lparr>acc_read = False, acc_write = False, acc_exec = False\<rparr>"

definition blank_mpu :: TargetMpuType where
  "blank_mpu = \<lparr>
     excption_error_info =
       \<lparr>intc_error_info =
          \<lparr>access_type = MPU_TARGET_ACCESS_NONE,
           exception_error_code = TARGET_MPU_EXCEPTION_ERROR_CODE_NONE,
           is_sv_mode = False, is_bl_error = False, is_ms_error = False, is_rmw_error = False\<rparr>,
        error_addr = 0, op_codeid = OpCodeId_Num, is_error_occurred = False\<rparr>,
     permission_region = [], is_enable_mpu = False, is_enable_sv = False,
     is_enable_outside_protection_region = blank_access\<rparr>"

text \<open>A core at address 0 with the given registers, PSW, decoded instruction and outer state.\<close>

definition sample_core :: "OpDecodedCodeType \<Rightarrow> (u32 \<Rightarrow> u32) \<Rightarrow> u32 \<Rightarrow> 'b \<Rightarrow> 'b TargetCoreType" where
  "sample_core d rf psw e =
     \<lparr>real_elaps = 0, core_id = 0,
      reg = \<lparr>pc = 0, regs = rf,
             sys = \<lparr>current_grp = 0, current_bnk = 0,
                    grp = (\<lambda>_ _ _. 0)(0 := (\<lambda>_ _. 0)(0 := (\<lambda>_. 0)(SYS_REG_PSW := psw)))\<rparr>\<rparr>,
      is_halt = False, decoded_code = d,
      current_code_exception = \<lparr>is_code_exception = False, exception_type = ExceptionId_Num\<rparr>,
      fatal_error = False, mpu = blank_mpu, ext = e\<rparr>"

lemma sample_core_simps [simp]:
  "regs (reg (sample_core d rf psw e)) = rf"
  "pc (reg (sample_core d rf psw e)) = 0"
  "decoded_code (sample_core d rf psw e) = d"
  "core_id (sample_core d rf psw e) = 0"
  "real_elaps (sample_core d rf psw e) = 0"
  "is_halt (sample_core d rf psw e) = False"
  "fatal_error (sample_core d rf psw e) = False"
  "mpu (sample_core d rf psw e) = blank_mpu"
  "ext (sample_core d rf psw e) = e"
  "cpu_base SYS_REG_PSW (reg (sample_core d rf psw e)) = psw"
  by (simp_all add: sample_core_def cpu_base_def get_sys_cell_def)

text \<open>Flat memory: the outer state is a function from addresses to bytes.\<close>

type_synonym memory = "u32 \<Rightarrow> u8"

definition mem_read16 :: "memory \<Rightarrow> u32 \<Rightarrow> u16" where
  "mem_read16 m a = push_bit 8 (ucast (m (a + 1))) OR ucast (m a)"

definition mem_read32 :: "memory \<Rightarrow> u32 \<Rightarrow> u32" where
  "mem_read32 m a =
     push_bit 24 (ucast (m (a + 3))) OR push_bit 16 (ucast (m (a + 2))) OR
     push_bit 8 (ucast (m (a + 1))) OR ucast (m a)"

definition mem_write16 :: "u32 \<Rightarrow> u16 \<Rightarrow> memory \<Rightarrow> memory" where
  "mem_write16 a v m = m(a := ucast v, a + 1 := ucast (drop_bit 8 v))"

definition mem_write32 :: "u32 \<Rightarrow> u32 \<Rightarrow> memory \<Rightarrow> memory" where
  "mem_write32 a v m = m(a := ucast v, a + 1 := ucast (drop_bit 8 v),
     a + 2 := ucast (drop_bit 16 v), a + 3 := ucast (drop_bit 24 v))"

definition flat_bus :: "memory bus_ops" where
  "flat_bus = \<lparr>
     bus_get_data8 = (\<lambda>_ a c. (Some (ext c a), c)),
     bus_get_data16 = (\<lambda>_ a c. (Some (mem_read16 (ext c) a), c)),
     bus_get_data32 = (\<lambda>_ a c. (Some (mem_read32 (ext c) a), c)),
     bus_put_data8 = (\<lambda>_ a v c. (True, c\<lparr>ext := (ext c)(a := v)\<rparr>)),
     bus_put_data16 = (\<lambda>_ a v c. (True, c\<lparr>ext := mem_write16 a v (ext c)\<rparr>)),
     bus_put_data32 = (\<lambda>_ a v c. (True, c\<lparr>ext := mem_write32 a v (ext c)\<rparr>)),
     bus_get_pointer = (\<lambda>_ _ c. (True, c)),
     ptr_load16 = (\<lambda>_ a c. mem_read16 (ext c) a),
     ptr_load32 = (\<lambda>_ a c. mem_read32 (ext c) a),
     ptr_store32 = (\<lambda>_ a v c. c\<lparr>ext := mem_write32 a v (ext c)\<rparr>),
     cpu_may_store_on_stack_overflow = (\<lambda>_ _ _. False),
     intc_clr_ei = (\<lambda>_ c. c), intc_clr_fe = (\<lambda>_ c. c)\<rparr>"

lemma flat_bus_simps [simp]:
  "bus_get_data8 flat_bus k a c = (Some (ext c a), c)"
  "bus_get_data16 flat_bus k a c = (Some (mem_read16 (ext c) a), c)"
  "bus_get_data32 flat_bus k a c = (Some (mem_read32 (ext c) a), c)"
  "bus_put_data8 flat_bus k a v c = (True, c\<lparr>ext := (ext c)(a := v)\<rparr>)"
  "bus_put_data16 flat_bus k a v' c = (True, c\<lparr>ext := mem_write16 a v' (ext c)\<rparr>)"
  "bus_put_data32 flat_bus k a w c = (True, c\<lparr>ext := mem_write32 a w (ext c)\<rparr>)"
  "bus_get_pointer flat_bus k a c = (True, c)"
  "ptr_load16 flat_bus k a c = mem_read16 (ext c) a"
  "ptr_load32 flat_bus k a c = mem_read32 (ext c) a"
  "ptr_store32 flat_bus k a w c = c\<lparr>ext := mem_write32 a w (ext c)\<rparr>"
  "cpu_may_store_on_stack_overflow flat_bus x y c = False"
  "intc_clr_ei flat_bus k c = c" "intc_clr_fe flat_bus k c = c"
  by (simp_all add: flat_bus_def)

lemma join16: "push_bit 8 (ucast (ucast (drop_bit 8 v) :: u8)) OR ucast (ucast v :: u8) = (v :: u16)"
  apply (rule bit_word_eqI)
  subgoal for n
    apply (simp only: bit_or_iff bit_push_bit_iff bit_ucast_iff bit_drop_bit_eq o_apply)
    apply (auto simp: not_le dest: less_imp_le)
    done
  done

lemma join32:
  "push_bit 24 (ucast (ucast (drop_bit 24 v) :: u8)) OR push_bit 16 (ucast (ucast (drop_bit 16 v) :: u8)) OR
   push_bit 8 (ucast (ucast (drop_bit 8 v) :: u8)) OR ucast (ucast v :: u8) = (v :: u32)"
  apply (rule bit_word_eqI)
  subgoal for n
    apply (simp only: bit_or_iff bit_push_bit_iff bit_ucast_iff bit_drop_bit_eq o_apply)
    apply (cases "n < 8"; cases "n < 16"; cases "n < 24"; auto)
    done
  done

lemma mem_read_write:
  "mem_read16 (mem_write16 a v m) a = v"
  "mem_read32 (mem_write32 a w m) a = w"
proof -
  have d: "a + 1 \<noteq> a" "a + 2 \<noteq> a" "a + 3 \<noteq> a" "a + 1 \<noteq> a + 2" "a + 1 \<noteq> a + 3" "a + 2 \<noteq> a + 3"
    by simp_all
  show "mem_read16 (mem_write16 a v m) a = v"
    unfolding mem_read16_def mem_write16_def
    by (simp only: fun_upd_apply d d [symmetric] if_True if_False simp_thms join16)
  show "mem_read32 (mem_write32 a w m) a = w"
    unfolding mem_read32_def mem_write32_def
    by (simp only: fun_upd_apply d d [symmetric] if_True if_False simp_thms join32)
qed

end
