(* ===== verification/Spec_Base.thy ===== *)
theory Spec_Base
  imports Samples
begin

text \<open>
  The vocabulary of the instruction properties: an executor that returns 0 having changed nothing
  but the register record, the register it wrote, and the flags it left.
\<close>

definition returns :: "'b TargetCoreType outcome \<Rightarrow> 'b TargetCoreType \<Rightarrow> (CpuRegisterType \<Rightarrow> bool) \<Rightarrow> bool" where
  "returns out cpu P \<longleftrightarrow> (\<exists>g. out = Ret0 (cpu\<lparr>reg := g\<rparr>) \<and> P g)"

text \<open>\<open>wrote r v n g g'\<close>: register \<open>r\<close> of \<open>g\<close> got \<open>v\<close>, no other changed, and the program counter
  advanced by \<open>n\<close>.\<close>

definition wrote :: "u32 \<Rightarrow> u32 \<Rightarrow> u32 \<Rightarrow> CpuRegisterType \<Rightarrow> CpuRegisterType \<Rightarrow> bool" where
  "wrote r v n g g' \<longleftrightarrow> regs g' = (regs g)(r := v) \<and> pc g' = pc g + n"

definition kept :: "u32 \<Rightarrow> CpuRegisterType \<Rightarrow> CpuRegisterType \<Rightarrow> bool" where
  "kept n g g' \<longleftrightarrow> regs g' = regs g \<and> pc g' = pc g + n"

lemma reg_update_inject [simp]: "cpu\<lparr>reg := g\<rparr> = cpu\<lparr>reg := g'\<rparr> \<longleftrightarrow> g = g'"
  by (metis TargetCoreType.select_convs(3) TargetCoreType.surjective TargetCoreType.update_convs(3))

lemma reg_update_same [simp]: "cpu\<lparr>reg := reg cpu\<rparr> = cpu"
  by (cases cpu) simp

lemma returns_simps [simp]:
  "returns (Ret0 (cpu\<lparr>reg := g\<rparr>)) cpu P \<longleftrightarrow> P g"
  "\<not> returns (RetErr cpu') cpu P"
  "\<not> returns (Fault h) cpu P"
  by (auto simp: returns_def)

lemma wrote_simps [simp]:
  "wrote r v n g (add_pc n' g') \<longleftrightarrow> regs g' = (regs g)(r := v) \<and> pc g' + n' = pc g + n"
  by (simp add: wrote_def)

lemma kept_simps [simp]:
  "kept n g (add_pc n' g') \<longleftrightarrow> regs g' = regs g \<and> pc g' + n' = pc g + n"
  by (simp add: kept_def)

lemma alu_post_add_pc [simp]: "alu_post v cy ov (add_pc n g) = alu_post v cy ov g"
  by (simp add: alu_post_def zs_post_def)

lemma zs_post_add_pc [simp]: "zs_post v (add_pc n g) = zs_post v g"
  by (simp add: zs_post_def)

text \<open>The flag chains of the additions, subtractions and logical operations.\<close>

lemma zs_chain [simp]:
  "zs_post v (op_chk_and_set_sign v (op_chk_and_set_zero v g))"
  "zs_post v (op_chk_and_set_zero v (op_chk_and_set_sign v g))"
  by (simp_all add: zs_post_def chk_forms)

lemma alu_post_add [simp]:
  "alu_post (b + a) (4294967296 \<le> uint b + uint a) (\<not> in_sint32 (sint b + sint a))
     (op_chk_and_set_sign (b + a) (op_chk_and_set_zero (b + a)
       (op_chk_and_set_overflow (scast b) (scast a) (op_chk_and_set_carry b a g))))"
  by (simp add: alu_post_def zs_post_def chk_forms)

lemma alu_post_sub [simp]:
  "alu_post (b - a) (uint b < uint a) (\<not> in_sint32 (sint b - sint a))
     (op_chk_and_set_sign (b - a) (op_chk_and_set_zero (b - a)
       (op_chk_and_set_overflow (scast b) (- scast a) (op_chk_and_set_borrow b a g))))"
  by (simp add: alu_post_def zs_post_def chk_forms)

lemma chk_frame [simp]:
  "regs (op_chk_and_set_sign v g) = regs g" "pc (op_chk_and_set_sign v g) = pc g"
  "regs (op_chk_and_set_zero v g) = regs g" "pc (op_chk_and_set_zero v g) = pc g"
  "regs (op_chk_and_set_carry a b g) = regs g" "pc (op_chk_and_set_carry a b g) = pc g"
  "regs (op_chk_and_set_borrow a b g) = regs g" "pc (op_chk_and_set_borrow a b g) = pc g"
  "regs (op_chk_and_set_overflow x y g) = regs g" "pc (op_chk_and_set_overflow x y g) = pc g"
  by (simp_all add: op_chk_and_set_sign_def op_chk_and_set_zero_def op_chk_and_set_carry_def
      op_chk_and_set_borrow_def op_chk_and_set_overflow_def put_flag_if Let_def)

text \<open>One instruction after another: the second runs with its own decoded code.\<close>

definition then_exec :: "'b TargetCoreType outcome \<Rightarrow> OpDecodedCodeType \<Rightarrow>
    ('b TargetCoreType \<Rightarrow> 'b TargetCoreType outcome) \<Rightarrow> 'b TargetCoreType outcome" where
  "then_exec out d f = (case out of Ret0 cpu \<Rightarrow> f (cpu\<lparr>decoded_code := d\<rparr>) | _ \<Rightarrow> out)"

lemma then_exec_Ret0 [simp]: "then_exec (Ret0 cpu) d f = f (cpu\<lparr>decoded_code := d\<rparr>)"
  by (simp add: then_exec_def)

text \<open>A register number widened to the index type.\<close>

lemma ucast_u16_less: "(ucast (x :: u16) :: u32) < 32 \<longleftrightarrow> x < 32"
proof -
  have "unat x < 2 ^ LENGTH(16)" by (rule unsigned_less)
  then have "unat x < 2 ^ 32" by simp
  then have "take_bit 32 (unat x) = unat x" by (rule take_bit_nat_eq_self)
  then show ?thesis by (simp add: word_less_nat_alt unsigned_ucast_eq)
qed

lemma ucast_u16_eq:
  "(ucast (x :: u16) :: u32) = 0 \<longleftrightarrow> x = 0" "(ucast x :: u32) = 1 \<longleftrightarrow> x = 1"
  "(ucast x :: u32) = 5 \<longleftrightarrow> x = 5"
  by (simp_all add: word_uint_eq_iff uint_up_ucast is_up)

end
