(* ===== verification/Arith_Props.thy ===== *)
theory Arith_Props
  imports Exec_Arith Spec_Base
begin

text \<open>
  Correctness of the arithmetic instructions: results and flags of addition, subtraction and
  comparison as statements about integers, multiword addition, division with the exact condition
  under which the host division is refused, products, bit insertion and rotation.
\<close>

section \<open>Addition, subtraction, comparison\<close>

text \<open>ADD reg1, reg2 writes the sum modulo 2 ^ 32 to reg2, sets CY on an unsigned and OV on
  a signed overflow, Z and S from the result, and advances the program counter by 2.\<close>

lemma add_1_correct:
  fixes cpu :: "'b TargetCoreType"
  defines "r1 \<equiv> ucast (t1_reg1 (type1 (decoded_code cpu))) :: u32"
    and "r2 \<equiv> ucast (t1_reg2 (type1 (decoded_code cpu))) :: u32"
  defines "a \<equiv> regs (reg cpu) r1" and "b \<equiv> regs (reg cpu) r2"
  assumes "r1 < CPU_GREG_NUM" and "r2 < CPU_GREG_NUM"
  shows "returns (op_exec_add_1 cpu) cpu (\<lambda>g. wrote r2 (b + a) 2 (reg cpu) g \<and>
      alu_post (b + a) (2 ^ 32 \<le> uint b + uint a) (\<not> in_sint32 (sint b + sint a)) g)"
  using assms by (simp add: op_exec_add_1_def Let_def not_le)

definition sample_add :: "nat TargetCoreType" where
  "sample_add = sample_core (blank_code\<lparr>type1 := \<lparr>t1_opcode = 0xE, t1_reg1 = 10, t1_reg2 = 11\<rparr>\<rparr>)
     ((\<lambda>_. 0)(10 := 0x7FFFFFFF, 11 := 1)) 0 (0 :: nat)"

lemma add_1_correct_witness:
  "returns (op_exec_add_1 sample_add) sample_add (\<lambda>g.
      wrote 11 0x80000000 2 (reg sample_add) g \<and> alu_post 0x80000000 False True g)"
  using add_1_correct [of sample_add] by (simp add: sample_add_def in_sint32_def)

text \<open>The signed reading of a difference, by how far it leaves the range.\<close>

lemma signed_wrap32:
  fixes k :: int
  assumes "- 4294967296 < k" and "k < 4294967296"
  shows "signed_take_bit 31 k =
     (if 2147483648 \<le> k then k - 4294967296 else if k < - 2147483648 then k + 4294967296 else k)"
proof -
  let ?x = "k + 2147483648" and ?n = "4294967296 :: int"
  have m: "?x mod ?n = (if 2147483648 \<le> k then ?x - ?n else if k < - 2147483648 then ?x + ?n else ?x)"
  proof -
    have "?x mod ?n = (?x - ?n) mod ?n" "?x mod ?n = (?x + ?n) mod ?n"
      by (simp_all only: minus_mod_self2 mod_add_self2)
    moreover have "2147483648 \<le> k \<Longrightarrow> (?x - ?n) mod ?n = ?x - ?n"
      and "k < - 2147483648 \<Longrightarrow> (?x + ?n) mod ?n = ?x + ?n"
      and "- 2147483648 \<le> k \<Longrightarrow> k < 2147483648 \<Longrightarrow> ?x mod ?n = ?x"
      using assms by (intro mod_pos_pos_trivial; linarith)+
    ultimately show ?thesis by (metis linorder_not_le)
  qed
  have "signed_take_bit 31 k = ?x mod ?n - 2147483648"
    by (simp add: signed_take_bit_eq_take_bit_shift take_bit_eq_mod)
  then show ?thesis unfolding m by simp
qed

lemma sint_sub_wrap:
  "sint (b - a :: u32) =
     (let k = sint b - sint a in
      if 2147483648 \<le> k then k - 4294967296 else if k < - 2147483648 then k + 4294967296 else k)"
proof -
  have "sint (b - a) = signed_take_bit 31 (sint b - sint a)" by (simp add: sint_word_ariths)
  then show ?thesis
    using sint_range32 [of a] sint_range32 [of b] by (simp add: signed_wrap32 Let_def)
qed

lemma less_by_flags:
  "(sint (b - a :: u32) < 0) \<noteq> (\<not> in_sint32 (sint b - sint a)) \<longleftrightarrow> sint b < sint a"
  using sint_range32 [of a] sint_range32 [of b] by (auto simp: sint_sub_wrap in_sint32_def Let_def)

text \<open>The conditions that tests after a comparison use, by the flags they read.\<close>

lemma op_exec_cond_values:
  "op_exec_cond cpu 0b0110 \<longleftrightarrow> CPU_ISSET CPU_PSW_S (reg cpu) \<noteq> CPU_ISSET CPU_PSW_OV (reg cpu)"
  "op_exec_cond cpu 0b1110 \<longleftrightarrow> \<not> (CPU_ISSET CPU_PSW_S (reg cpu) \<noteq> CPU_ISSET CPU_PSW_OV (reg cpu))"
  "op_exec_cond cpu 0b0111 \<longleftrightarrow>
     (CPU_ISSET CPU_PSW_S (reg cpu) \<noteq> CPU_ISSET CPU_PSW_OV (reg cpu)) \<or> CPU_ISSET CPU_PSW_Z (reg cpu)"
  "op_exec_cond cpu 0b1111 \<longleftrightarrow>
     \<not> ((CPU_ISSET CPU_PSW_S (reg cpu) \<noteq> CPU_ISSET CPU_PSW_OV (reg cpu)) \<or> CPU_ISSET CPU_PSW_Z (reg cpu))"
  "op_exec_cond cpu 0b0001 \<longleftrightarrow> CPU_ISSET CPU_PSW_CY (reg cpu)"
  "op_exec_cond cpu 0b1001 \<longleftrightarrow> \<not> CPU_ISSET CPU_PSW_CY (reg cpu)"
  "op_exec_cond cpu 0b0011 \<longleftrightarrow> CPU_ISSET CPU_PSW_CY (reg cpu) \<or> CPU_ISSET CPU_PSW_Z (reg cpu)"
  "op_exec_cond cpu 0b1011 \<longleftrightarrow> \<not> (CPU_ISSET CPU_PSW_CY (reg cpu) \<or> CPU_ISSET CPU_PSW_Z (reg cpu))"
  "op_exec_cond cpu 0b0010 \<longleftrightarrow> CPU_ISSET CPU_PSW_Z (reg cpu)"
  "op_exec_cond cpu 0b1010 \<longleftrightarrow> \<not> CPU_ISSET CPU_PSW_Z (reg cpu)"
  by (simp_all add: op_exec_cond_def)

text \<open>C35: After CMP reg1, reg2 the branch conditions decide the order of the two registers:
  LT, GE, LE, GT as signed and L, NL, NH, H as unsigned numbers, Z and NZ equality.\<close>

lemma cmp_then_cond:
  fixes cpu :: "'b TargetCoreType"
  defines "r1 \<equiv> ucast (t1_reg1 (type1 (decoded_code cpu))) :: u32"
    and "r2 \<equiv> ucast (t1_reg2 (type1 (decoded_code cpu))) :: u32"
  defines "a \<equiv> regs (reg cpu) r1" and "b \<equiv> regs (reg cpu) r2"
  assumes "r1 < CPU_GREG_NUM" and "r2 < CPU_GREG_NUM"
  shows "\<exists>cpu'. op_exec_cmp_1 cpu = Ret0 cpu' \<and> kept 2 (reg cpu) (reg cpu') \<and>
      (op_exec_cond cpu' 0b0110 \<longleftrightarrow> sint b < sint a) \<and> (op_exec_cond cpu' 0b1110 \<longleftrightarrow> sint a \<le> sint b) \<and>
      (op_exec_cond cpu' 0b0111 \<longleftrightarrow> sint b \<le> sint a) \<and> (op_exec_cond cpu' 0b1111 \<longleftrightarrow> sint a < sint b) \<and>
      (op_exec_cond cpu' 0b0001 \<longleftrightarrow> uint b < uint a) \<and> (op_exec_cond cpu' 0b1001 \<longleftrightarrow> uint a \<le> uint b) \<and>
      (op_exec_cond cpu' 0b0011 \<longleftrightarrow> uint b \<le> uint a) \<and> (op_exec_cond cpu' 0b1011 \<longleftrightarrow> uint a < uint b) \<and>
      (op_exec_cond cpu' 0b0010 \<longleftrightarrow> b = a) \<and> (op_exec_cond cpu' 0b1010 \<longleftrightarrow> b \<noteq> a)"
proof -
  let ?g = "add_pc 2 (op_chk_and_set_sign (b - a) (op_chk_and_set_zero (b - a)
      (op_chk_and_set_overflow (scast b) (- scast a) (op_chk_and_set_borrow b a (reg cpu)))))"
  let ?cpu = "cpu\<lparr>reg := ?g\<rparr>"
  have x: "op_exec_cmp_1 cpu = Ret0 ?cpu" using assms by (simp add: op_exec_cmp_1_def Let_def not_le)
  have p: "alu_post (b - a) (uint b < uint a) (\<not> in_sint32 (sint b - sint a)) (reg ?cpu)"
    by simp
  note f = p [unfolded alu_post_def zs_post_def]
  have lt: "CPU_ISSET CPU_PSW_S (reg ?cpu) \<noteq> CPU_ISSET CPU_PSW_OV (reg ?cpu) \<longleftrightarrow> sint b < sint a"
    using f less_by_flags [of b a] by blast
  have z: "CPU_ISSET CPU_PSW_Z (reg ?cpu) \<longleftrightarrow> b = a" using f by simp
  have cy: "CPU_ISSET CPU_PSW_CY (reg ?cpu) \<longleftrightarrow> uint b < uint a" using f by blast
  have le: "sint b < sint a \<or> b = a \<longleftrightarrow> sint b \<le> sint a" "uint b < uint a \<or> b = a \<longleftrightarrow> uint b \<le> uint a"
    by (auto simp: uint_eq_iff_sint) (auto simp: word_uint_eq_iff uint_eq_iff_sint [symmetric])
  have k: "kept 2 (reg cpu) (reg ?cpu)" by simp
  show ?thesis
    by (intro exI [of _ ?cpu] conjI x k; simp only: op_exec_cond_values lt z cy le not_le not_less)
qed

lemma cmp_then_cond_witness:
  "\<exists>cpu'. op_exec_cmp_1 sample_add = Ret0 cpu' \<and> op_exec_cond cpu' 0b0110 \<and> op_exec_cond cpu' 0b0001"
proof -
  obtain cpu' where "op_exec_cmp_1 sample_add = Ret0 cpu'"
      and "op_exec_cond cpu' 0b0110 \<longleftrightarrow> sint (1 :: u32) < sint (0x7FFFFFFF :: u32)"
      and "op_exec_cond cpu' 0b0001 \<longleftrightarrow> uint (1 :: u32) < uint (0x7FFFFFFF :: u32)"
    using cmp_then_cond [of sample_add] by (auto simp: sample_add_def)
  then show ?thesis by auto
qed

section \<open>Double word addition and subtraction\<close>

definition u64_of :: "u32 \<Rightarrow> u32 \<Rightarrow> int" where
  "u64_of hi lo = uint hi * 4294967296 + uint lo"

definition s64_of :: "u32 \<Rightarrow> u32 \<Rightarrow> int" where
  "s64_of hi lo = sint hi * 4294967296 + uint lo"

definition in_sint64 :: "int \<Rightarrow> bool" where
  "in_sint64 k = (- 9223372036854775808 \<le> k \<and> k < 9223372036854775808)"

lemma uint_add_carry:
  "uint (b + a :: u32) = (if 4294967296 \<le> uint b + uint a
     then uint b + uint a - 4294967296 else uint b + uint a)"
  using uint_range32 [of a] uint_range32 [of b] by (simp add: uint_plus_if')

lemma uint_sub_borrow:
  "uint (b - a :: u32) = (if uint b < uint a
     then uint b - uint a + 4294967296 else uint b - uint a)"
  using uint_range32 [of a] uint_range32 [of b] by (simp add: uint_sub_if')

lemma mod_wrap: "0 \<le> k \<Longrightarrow> k < 2 * n \<Longrightarrow> k mod n = (if n \<le> k then k - n else (k :: int))"
  by (metis diff_ge_0_iff_ge diff_less_eq minus_mod_self2 mod_pos_pos_trivial mult_2 not_le)

lemma mod_wrap_neg: "- n \<le> k \<Longrightarrow> k < n \<Longrightarrow> k mod n = (if k < 0 then k + n else (k :: int))"
  by (metis add.commute add_mono_thms_linordered_field(1) add_neg_numeral_special(7) le_minus_iff
      linorder_not_le minus_le_iff mod_add_self2 mod_pos_pos_trivial add.inverse_inverse
      add.left_inverse add_le_cancel_left add_less_cancel_left add.right_neutral)

text \<open>The carry of the low words and the high words with it give the double word sum.\<close>

lemma add_double:
  fixes h1 l1 h2 l2 :: u32
  defines "c \<equiv> if 4294967296 \<le> uint l2 + uint l1 then 1 else 0 :: u32"
  defines "x \<equiv> u64_of h2 l2" and "y \<equiv> u64_of h1 l1"
  shows "u64_of (h2 + h1 + c) (l2 + l1) = (x + y) mod 18446744073709551616"
    and "4294967296 \<le> uint h2 + uint h1 + uint c \<longleftrightarrow> 18446744073709551616 \<le> x + y"
    and "in_sint32 (sint h2 + sint h1 + sint c) \<longleftrightarrow> in_sint64 (s64_of h2 l2 + s64_of h1 l1)"
proof -
  note r = uint_range32 [of h1] uint_range32 [of l1] uint_range32 [of h2] uint_range32 [of l2]
  consider (carry) "4294967296 \<le> uint l2 + uint l1" "uint c = 1" "sint c = 1"
    | (none) "uint l2 + uint l1 < 4294967296" "uint c = 0" "sint c = 0"
    unfolding c_def by (cases "4294967296 \<le> uint l2 + uint l1") auto
  note c = this
  have "uint (h2 + h1 + c) = (uint h2 + uint h1 + uint c) mod 4294967296"
    by (simp add: uint_word_ariths mod_add_left_eq)
  also have "\<dots> = (if 4294967296 \<le> uint h2 + uint h1 + uint c
      then uint h2 + uint h1 + uint c - 4294967296 else uint h2 + uint h1 + uint c)"
    by (rule c; rule mod_wrap; use r in linarith)
  finally have n: "uint (h2 + h1 + c) = (if 4294967296 \<le> uint h2 + uint h1 + uint c
      then uint h2 + uint h1 + uint c - 4294967296 else uint h2 + uint h1 + uint c)" .
  have "0 \<le> x + y" "x + y < 2 * 18446744073709551616"
    using r unfolding x_def y_def u64_of_def by linarith+
  then have m: "(x + y) mod 18446744073709551616 =
      (if 18446744073709551616 \<le> x + y then x + y - 18446744073709551616 else x + y)"
    by (rule mod_wrap)
  show cy: "4294967296 \<le> uint h2 + uint h1 + uint c \<longleftrightarrow> 18446744073709551616 \<le> x + y"
    by (rule c; use r in \<open>unfold x_def y_def u64_of_def, linarith\<close>)
  show "in_sint32 (sint h2 + sint h1 + sint c) \<longleftrightarrow> in_sint64 (s64_of h2 l2 + s64_of h1 l1)"
    by (rule c; use r in \<open>unfold s64_of_def in_sint64_def in_sint32_def, linarith\<close>)
  have l: "uint (l2 + l1) = uint l2 + uint l1 - uint c * 4294967296"
    by (rule c; simp add: uint_add_carry)
  show "u64_of (h2 + h1 + c) (l2 + l1) = (x + y) mod 18446744073709551616"
    unfolding m cy [symmetric] unfolding u64_of_def n l x_def y_def by auto
qed

text \<open>The borrow likewise.\<close>

lemma sub_double:
  fixes h1 l1 h2 l2 :: u32
  defines "c \<equiv> if uint l2 < uint l1 then 1 else 0 :: u32"
  defines "x \<equiv> u64_of h2 l2" and "y \<equiv> u64_of h1 l1"
  shows "u64_of (h2 - h1 - c) (l2 - l1) = (x - y) mod 18446744073709551616"
    and "uint h2 < uint h1 + uint c \<longleftrightarrow> x < y"
    and "in_sint32 (sint h2 - sint h1 - sint c) \<longleftrightarrow> in_sint64 (s64_of h2 l2 - s64_of h1 l1)"
proof -
  note r = uint_range32 [of h1] uint_range32 [of l1] uint_range32 [of h2] uint_range32 [of l2]
  consider (borrow) "uint l2 < uint l1" "uint c = 1" "sint c = 1"
    | (none) "uint l1 \<le> uint l2" "uint c = 0" "sint c = 0"
    unfolding c_def by (cases "uint l2 < uint l1") auto
  note c = this
  have d: "uint h2 < uint h1 + uint c \<longleftrightarrow> uint h2 - uint h1 - uint c < 0" by linarith
  have "uint (h2 - h1 - c) = (uint h2 - uint h1 - uint c) mod 4294967296"
    by (simp add: uint_word_ariths mod_diff_left_eq)
  also have "\<dots> = (if uint h2 < uint h1 + uint c
      then uint h2 - uint h1 - uint c + 4294967296 else uint h2 - uint h1 - uint c)"
    unfolding d by (rule c; rule mod_wrap_neg; use r in linarith)
  finally have n: "uint (h2 - h1 - c) = (if uint h2 < uint h1 + uint c
      then uint h2 - uint h1 - uint c + 4294967296 else uint h2 - uint h1 - uint c)" .
  have "- 18446744073709551616 \<le> x - y" "x - y < 18446744073709551616"
    using r unfolding x_def y_def u64_of_def by linarith+
  then have m: "(x - y) mod 18446744073709551616 =
      (if x < y then x - y + 18446744073709551616 else x - y)"
    by (simp only: mod_wrap_neg diff_less_0_iff_less)
  show cy: "uint h2 < uint h1 + uint c \<longleftrightarrow> x < y"
    by (rule c; use r in \<open>unfold x_def y_def u64_of_def, linarith\<close>)
  show "in_sint32 (sint h2 - sint h1 - sint c) \<longleftrightarrow> in_sint64 (s64_of h2 l2 - s64_of h1 l1)"
    by (rule c; use r in \<open>unfold s64_of_def in_sint64_def in_sint32_def, linarith\<close>)
  have l: "uint (l2 - l1) = uint l2 - uint l1 + uint c * 4294967296"
    by (rule c; simp add: uint_sub_borrow)
  show "u64_of (h2 - h1 - c) (l2 - l1) = (x - y) mod 18446744073709551616"
    unfolding m cy [symmetric] unfolding u64_of_def n l x_def y_def by auto
qed

text \<open>C36: ADD on the low words followed by ADF with the carry condition on the high words adds
  64 bit numbers: the register pair holds the sum modulo 2 ^ 64, CY its carry, OV its signed
  overflow.\<close>

lemma add_adf_64:
  fixes cpu :: "'b TargetCoreType" and d :: OpDecodedCodeType
  defines "l1 \<equiv> ucast (t1_reg1 (type1 (decoded_code cpu))) :: u32"
    and "l2 \<equiv> ucast (t1_reg2 (type1 (decoded_code cpu))) :: u32"
    and "h1 \<equiv> ucast (t11_reg1 (type11 d)) :: u32"
    and "h2 \<equiv> ucast (t11_reg2 (type11 d)) :: u32"
    and "h3 \<equiv> ucast (t11_reg3 (type11 d)) :: u32"
  defines "r \<equiv> regs (reg cpu)"
  assumes "{l1, l2, h1, h2, h3} \<subseteq> {..<CPU_GREG_NUM}" and "l2 \<notin> {h1, h2, h3}"
    and "push_bit 1 (t11_rfu (type11 d)) OR t11_sub2 (type11 d) = 0b0001"
  shows "\<exists>cpu'. then_exec (op_exec_add_1 cpu) d op_exec_adf_11 = Ret0 cpu' \<and>
      u64_of (regs (reg cpu') h3) (regs (reg cpu') l2) =
        (u64_of (r h2) (r l2) + u64_of (r h1) (r l1)) mod 18446744073709551616 \<and>
      (CPU_ISSET CPU_PSW_CY (reg cpu') \<longleftrightarrow>
        18446744073709551616 \<le> u64_of (r h2) (r l2) + u64_of (r h1) (r l1)) \<and>
      (CPU_ISSET CPU_PSW_OV (reg cpu') \<longleftrightarrow> \<not> in_sint64 (s64_of (r h2) (r l2) + s64_of (r h1) (r l1)))"
proof -
  define c :: u32 where "c = (if 4294967296 \<le> uint (r l2) + uint (r l1) then 1 else 0)"
  note d = add_double [where ?l1.0 = "r l1" and ?l2.0 = "r l2" and ?h1.0 = "r h1" and ?h2.0 = "r h2", folded c_def]
  obtain cpu1 where 1: "op_exec_add_1 cpu = Ret0 cpu1" "regs (reg cpu1) = r(l2 := r l2 + r l1)"
      "CPU_ISSET CPU_PSW_CY (reg cpu1) \<longleftrightarrow> 4294967296 \<le> uint (r l2) + uint (r l1)"
    using assms by (simp add: op_exec_add_1_def Let_def not_le chk_forms)
  let ?g = "add_pc 4 (op_chk_and_set_sign (r h2 + r h1 + c) (op_chk_and_set_zero (r h2 + r h1 + c)
      (op_chk_and_set_overflow3 (scast (r h2)) (scast (r h1)) (scast c)
        (op_chk_and_set_carry3 (r h2) (r h1) c (set_r h3 (r h2 + r h1 + c) (reg cpu1))))))"
  have "op_exec_adf_11 (cpu1\<lparr>decoded_code := d\<rparr>) = Ret0 (cpu1\<lparr>decoded_code := d, reg := ?g\<rparr>)"
    using assms 1 unfolding c_def
    by (auto simp add: op_exec_adf_11_def Let_def not_le op_exec_cond_values simp flip: not_less)
  then show ?thesis
    using d assms(8) by (simp add: 1 chk_forms)
qed

definition sample_wide :: "nat TargetCoreType" where
  "sample_wide = sample_core (blank_code\<lparr>type1 := \<lparr>t1_opcode = 0xE, t1_reg1 = 10, t1_reg2 = 12\<rparr>\<rparr>)
     ((\<lambda>_. 0)(10 := 0xFFFFFFF0, 11 := 1, 12 := 0x20, 13 := 2)) 0 (0 :: nat)"

definition sample_high :: OpDecodedCodeType where
  "sample_high = blank_code\<lparr>type11 := \<lparr>t11_opcode = 0x3F, t11_reg1 = 11, t11_reg2 = 13, t11_reg3 = 13,
     t11_sub1 = 0, t11_sub2 = 1, t11_rfu = 0\<rparr>\<rparr>"

lemma add_adf_64_witness:
  "\<exists>cpu'. then_exec (op_exec_add_1 sample_wide) sample_high op_exec_adf_11 = Ret0 cpu' \<and>
     u64_of (regs (reg cpu') 13) (regs (reg cpu') 12) = 0x400000010"
  using add_adf_64 [of sample_wide sample_high]
  by (auto simp: sample_wide_def sample_high_def u64_of_def)

text \<open>SUB on the low words followed by SBF with the carry condition on the high words
  subtracts 64 bit numbers: the pair holds the difference modulo 2 ^ 64, CY its borrow, OV its
  signed overflow.\<close>

lemma sub_sbf_64:
  fixes cpu :: "'b TargetCoreType" and d :: OpDecodedCodeType
  defines "l1 \<equiv> ucast (t1_reg1 (type1 (decoded_code cpu))) :: u32"
    and "l2 \<equiv> ucast (t1_reg2 (type1 (decoded_code cpu))) :: u32"
    and "h1 \<equiv> ucast (t11_reg1 (type11 d)) :: u32"
    and "h2 \<equiv> ucast (t11_reg2 (type11 d)) :: u32"
    and "h3 \<equiv> ucast (t11_reg3 (type11 d)) :: u32"
  defines "r \<equiv> regs (reg cpu)"
  assumes "{l1, l2, h1, h2, h3} \<subseteq> {..<CPU_GREG_NUM}" and "l2 \<notin> {h1, h2, h3}"
    and "push_bit 1 (t11_rfu (type11 d)) OR t11_sub2 (type11 d) = 0b0001"
  shows "\<exists>cpu'. then_exec (op_exec_sub cpu) d op_exec_sbf_11 = Ret0 cpu' \<and>
      u64_of (regs (reg cpu') h3) (regs (reg cpu') l2) =
        (u64_of (r h2) (r l2) - u64_of (r h1) (r l1)) mod 18446744073709551616 \<and>
      (CPU_ISSET CPU_PSW_CY (reg cpu') \<longleftrightarrow>
        u64_of (r h2) (r l2) < u64_of (r h1) (r l1)) \<and>
      (CPU_ISSET CPU_PSW_OV (reg cpu') \<longleftrightarrow> \<not> in_sint64 (s64_of (r h2) (r l2) - s64_of (r h1) (r l1)))"
proof -
  define c :: u32 where "c = (if uint (r l2) < uint (r l1) then 1 else 0)"
  have c1: "uint c \<le> 1" by (simp add: c_def)
  note d = sub_double [where ?l1.0 = "r l1" and ?l2.0 = "r l2" and ?h1.0 = "r h1" and ?h2.0 = "r h2", folded c_def]
  obtain cpu1 where 1: "op_exec_sub cpu = Ret0 cpu1" "regs (reg cpu1) = r(l2 := r l2 - r l1)"
      "CPU_ISSET CPU_PSW_CY (reg cpu1) \<longleftrightarrow> uint (r l2) < uint (r l1)"
    using assms by (simp add: op_exec_sub_def Let_def not_le chk_forms)
  let ?g = "add_pc 4 (op_chk_and_set_sign (r h2 - r h1 - c) (op_chk_and_set_zero (r h2 - r h1 - c)
      (op_chk_and_set_overflow3 (scast (r h2)) (- scast (r h1)) (- scast c)
        (op_chk_and_set_borrow3 (r h2) (r h1) c (set_r h3 (r h2 - r h1 - c) (reg cpu1))))))"
  have "op_exec_sbf_11 (cpu1\<lparr>decoded_code := d\<rparr>) = Ret0 (cpu1\<lparr>decoded_code := d, reg := ?g\<rparr>)"
    using assms 1 unfolding c_def
    by (auto simp add: op_exec_sbf_11_def Let_def not_le op_exec_cond_values simp flip: not_less)
  then show ?thesis
    using d assms(8) by (simp add: 1 chk_forms c1)
qed

lemma sub_sbf_64_witness:
  "\<exists>cpu'. then_exec (op_exec_sub sample_wide) sample_high op_exec_sbf_11 = Ret0 cpu' \<and>
     u64_of (regs (reg cpu') 13) (regs (reg cpu') 12) = 0x30"
  using sub_sbf_64 [of sample_wide sample_high]
  by (auto simp: sample_wide_def sample_high_def u64_of_def)

section \<open>Conditions\<close>

text \<open>Both condition tests of the code compute the reference condition, except that SETF and
  CMOV test condition 13 for a clear SAT flag where the branches test it for a set one.\<close>

lemma cond_tests_agree:
  "op_exec_cond cpu c = cond_spec (reg cpu) c \<and>
   setf_chk_cond cpu c =
     (if c = 13 then \<not> CPU_ISSET CPU_PSW_SAT (reg cpu) else cond_spec (reg cpu) c)"
  by (auto simp: op_exec_cond_spec setf_chk_cond_eq cond_spec_def)

section \<open>Division\<close>

lemma sint_c_sdiv:
  assumes "\<not> sdiv_refused a b"
  shows "sint (c_sdiv a b) = sint a sdiv sint b"
proof -
  have "b \<noteq> 0" "\<not> (sint a = - 2147483648 \<and> sint b = - 1)"
    using assms by (auto simp: sdiv_refused_def uint_eq_iff_sint)
  have "\<bar>sint a sdiv sint b\<bar> \<le> \<bar>sint a\<bar>"
    using sdiv_int_range [of "sint a" "sint b"] by auto
  moreover have "sint a sdiv sint b \<noteq> 2147483648"
  proof
    assume e: "sint a sdiv sint b = 2147483648"
    then have "sint a = - 2147483648 \<or> sint a = 2147483648"
      using \<open>\<bar>sint a sdiv sint b\<bar> \<le> \<bar>sint a\<bar>\<close> sint_range32 [of a] by auto
    then have a: "sint a = - 2147483648" using sint_range32 [of a] by auto
    then have "sint a sdiv sint b = - sint a" using e by simp
    then have "sint b = - 1"
      using a by (intro int_sdiv_negated_is_minus1 [THEN iffD1, of "sint a"]) simp_all
    then show False using a \<open>\<not> (sint a = - 2147483648 \<and> sint b = - 1)\<close> by blast
  qed
  ultimately have "in_sint32 (sint a sdiv sint b)"
    using sint_range32 [of a] unfolding in_sint32_def by linarith
  then show ?thesis unfolding c_sdiv_def by (rule sint_word_of_int32)
qed

lemma smod_sgn:
  assumes "(b :: int) \<noteq> 0"
  shows "a smod b = 0 \<or> sgn (a smod b) = sgn a"
proof (cases "\<bar>a\<bar> mod \<bar>b\<bar> = 0")
  case False
  moreover have "0 \<le> \<bar>a\<bar> mod \<bar>b\<bar>" using assms by simp
  ultimately have "sgn (\<bar>a\<bar> mod \<bar>b\<bar>) = 1" by simp
  then show ?thesis by (simp add: smod_int_alt_def sgn_mult)
qed (simp add: smod_int_alt_def)

lemma sint_c_smod:
  assumes "b \<noteq> 0"
  shows "sint (c_smod a b) = sint a smod sint b"
proof -
  have "sint b \<noteq> 0" using assms by (simp add: uint_eq_iff_sint)
  then have "\<bar>sint a smod sint b\<bar> < \<bar>sint b\<bar>"
    using smod_int_range [of "sint b" "sint a"] by auto
  then have "in_sint32 (sint a smod sint b)"
    using sint_range32 [of b] unfolding in_sint32_def by linarith
  then show ?thesis unfolding c_smod_def by (rule sint_word_of_int32)
qed

text \<open>C37: DIV leaves a quotient and a remainder of the sign of the dividend with
  \<open>dividend = quotient * divisor + remainder\<close> and clears OV; a zero divisor sets OV and keeps the
  registers; the most negative number divided by minus one makes the host division trap.\<close>

lemma div_correct:
  fixes cpu :: "'b TargetCoreType"
  defines "r1 \<equiv> ucast (t11_reg1 (type11 (decoded_code cpu))) :: u32"
    and "r2 \<equiv> ucast (t11_reg2 (type11 (decoded_code cpu))) :: u32"
    and "r3 \<equiv> ucast (t11_reg3 (type11 (decoded_code cpu))) :: u32"
  defines "b \<equiv> regs (reg cpu) r1" and "a \<equiv> regs (reg cpu) r2"
  assumes "{r1, r2, r3} \<subseteq> {..<CPU_GREG_NUM}"
  shows "if b = 0 then returns (op_exec_div cpu) cpu (\<lambda>g. kept 4 (reg cpu) g \<and>
            CPU_ISSET CPU_PSW_OV g \<and> zs_post a g)
         else if a = 0x80000000 \<and> b = 0xFFFFFFFF then op_exec_div cpu = Fault DivFault
         else returns (op_exec_div cpu) cpu (\<lambda>g. \<exists>q m. regs g = (regs (reg cpu))(r2 := q, r3 := m) \<and>
            sint a = sint q * sint b + sint m \<and> \<bar>sint m\<bar> < \<bar>sint b\<bar> \<and>
            (sint m = 0 \<or> sgn (sint m) = sgn (sint a)) \<and>
            \<not> CPU_ISSET CPU_PSW_OV g \<and> zs_post (regs g r2) g \<and> pc g = pc (reg cpu) + 4)"
proof -
  consider (zero) "b = 0" | (trap) "b \<noteq> 0" "a = 0x80000000" "b = 0xFFFFFFFF"
    | (ok) "b \<noteq> 0" "\<not> sdiv_refused a b"
    unfolding sdiv_refused_def by blast
  then show ?thesis
  proof cases
    case zero
    then show ?thesis
      using assms by (simp add: op_exec_div_def op_exec_div_common_def Let_def not_le put_flag_if
          zs_post_def chk_forms)
  next
    case trap
    then show ?thesis
      using assms by (simp add: op_exec_div_def op_exec_div_common_def Let_def not_le sdiv_refused_def)
  next
    case ok
    have n: "\<not> (a = 0x80000000 \<and> b = 0xFFFFFFFF)" using ok by (simp add: sdiv_refused_def)
    have i: "sint a = sint (c_sdiv a b) * sint b + sint (c_smod a b)"
      using ok by (simp add: sint_c_sdiv sint_c_smod sdiv_mult_smod_eq)
    have l: "\<bar>sint (c_smod a b)\<bar> < \<bar>sint b\<bar>"
      using ok smod_int_range [of "sint b" "sint a"] by (auto simp: sint_c_smod uint_eq_iff_sint)
    have s: "sint (c_smod a b) = 0 \<or> sgn (sint (c_smod a b)) = sgn (sint a)"
      using ok smod_sgn [of "sint b" "sint a"] by (simp add: sint_c_smod uint_eq_iff_sint)
    let ?h = "set_r r3 (c_smod a b) (set_r r2 (c_sdiv a b) (CPU_CLR CPU_PSW_OV (reg cpu)))"
    have "op_exec_div cpu = Ret0 (cpu\<lparr>reg := add_pc 4 (op_chk_and_set_sign (regs ?h r2)
        (op_chk_and_set_zero (regs ?h r2) ?h))\<rparr>)"
      using assms(6) ok n
      unfolding op_exec_div_def op_exec_div_common_def Let_def a_def [symmetric] b_def [symmetric]
        r1_def [symmetric] r2_def [symmetric] r3_def [symmetric] a_def [symmetric] b_def [symmetric]
      by (auto simp: not_le)
    then show ?thesis
      using ok(1) n i l s
      by (simp only: returns_simps if_False)
         (intro exI [of _ "c_sdiv a b"] exI [of _ "c_smod a b"] conjI; simp add: chk_forms zs_post_def)
  qed
qed

definition sample_div :: "u32 \<Rightarrow> u32 \<Rightarrow> nat TargetCoreType" where
  "sample_div a b = sample_core (blank_code\<lparr>type11 := \<lparr>t11_opcode = 0x3F, t11_reg1 = 10, t11_reg2 = 11,
     t11_reg3 = 12, t11_sub1 = 0, t11_sub2 = 0, t11_rfu = 0\<rparr>\<rparr>) ((\<lambda>_. 0)(10 := b, 11 := a)) 0 (0 :: nat)"

lemma sample_div_simps [simp]:
  "t11_reg1 (type11 (decoded_code (sample_div a b))) = 10"
  "t11_reg2 (type11 (decoded_code (sample_div a b))) = 11"
  "t11_reg3 (type11 (decoded_code (sample_div a b))) = 12"
  "regs (reg (sample_div a b)) = (\<lambda>_. 0)(10 := b, 11 := a)"
  "pc (reg (sample_div a b)) = 0"
  by (simp_all add: sample_div_def)

lemma div_correct_witness:
  "op_exec_div (sample_div 0x80000000 0xFFFFFFFF) = Fault DivFault \<and>
   returns (op_exec_div (sample_div 7 2)) (sample_div 7 2)
     (\<lambda>g. sint (regs g 11) * 2 + sint (regs g 12) = 7 \<and> \<not> CPU_ISSET CPU_PSW_OV g)"
  using div_correct [of "sample_div 0x80000000 0xFFFFFFFF"] div_correct [of "sample_div 7 2"]
  by (force simp: returns_def)

lemma ucast_u16_eq_0: "(ucast (x :: u16) :: u32) = 0 \<longleftrightarrow> x = 0"
  by (simp add: word_uint_eq_iff uint_up_ucast is_up)

lemma scast_u16_eq_iff:
  "(scast (x :: u16) :: u32) = 0 \<longleftrightarrow> x = 0" "(scast (x :: u16) :: u32) = 0xFFFFFFFF \<longleftrightarrow> x = 0xFFFF"
proof -
  have s: "sint (scast z :: u32) = sint z" for z :: u16 by (simp add: sint_up_scast is_up)
  have i: "(scast x :: u32) = scast y \<longleftrightarrow> x = y" for y :: u16
    by (metis s word_eq_iff_signed)
  show "(scast x :: u32) = 0 \<longleftrightarrow> x = 0" using i [of 0] by simp
  have scast_ffff: "(scast (0xFFFF :: u16) :: u32) = 0xFFFFFFFF" by (simp add: s word_eq_iff_signed)
  show "(scast x :: u32) = 0xFFFFFFFF \<longleftrightarrow> x = 0xFFFF" using i [of "0xFFFF"] scast_ffff by metis
qed


text \<open>DIVU and DIVQU leave the unsigned quotient and remainder.\<close>

lemma divu_correct:
  fixes cpu :: "'b TargetCoreType"
  defines "r1 \<equiv> ucast (t11_reg1 (type11 (decoded_code cpu))) :: u32"
    and "r2 \<equiv> ucast (t11_reg2 (type11 (decoded_code cpu))) :: u32"
    and "r3 \<equiv> ucast (t11_reg3 (type11 (decoded_code cpu))) :: u32"
  defines "b \<equiv> regs (reg cpu) r1" and "a \<equiv> regs (reg cpu) r2"
  assumes "{r1, r2, r3} \<subseteq> {..<CPU_GREG_NUM}" and "r2 \<noteq> r3" and "b \<noteq> 0"
    and "exec = op_exec_divu \<or> exec = op_exec_divqu_11"
  shows "returns (exec cpu) cpu (\<lambda>g. uint (regs g r2) = uint a div uint b \<and>
      uint (regs g r3) = uint a mod uint b \<and> (\<forall>i. i \<notin> {r2, r3} \<longrightarrow> regs g i = regs (reg cpu) i) \<and>
      \<not> CPU_ISSET CPU_PSW_OV g \<and> zs_post (regs g r2) g \<and> pc g = pc (reg cpu) + 4)"
proof -
  let ?h = "set_r r3 (a mod b) (set_r r2 (a div b) (CPU_CLR CPU_PSW_OV (reg cpu)))"
  have "exec cpu = Ret0 (cpu\<lparr>reg := add_pc 4 (op_chk_and_set_sign (regs ?h r2)
      (op_chk_and_set_zero (regs ?h r2) ?h))\<rparr>)"
    using assms(6,8,9)
    unfolding op_exec_divu_def op_exec_divqu_11_def Let_def a_def [symmetric] b_def [symmetric]
      r1_def [symmetric] r2_def [symmetric] r3_def [symmetric] a_def [symmetric] b_def [symmetric]
    by (auto simp: not_le op_exec_divu_def op_exec_divqu_11_def Let_def a_def b_def r1_def r2_def r3_def)
  then show ?thesis
    using assms(7) by (simp add: chk_forms zs_post_def uint_div uint_mod)
qed

lemma divu_correct_witness:
  "returns (op_exec_divu (sample_div 100 7)) (sample_div 100 7) (\<lambda>g. uint (regs g 11) = 14 \<and> uint (regs g 12) = 2)"
  using divu_correct [of "sample_div 100 7" op_exec_divu] by (auto simp: returns_def)

section \<open>Multiplication\<close>

lemma sint64_alt:
  "sint (x :: u64) = (if uint x < 9223372036854775808 then uint x else uint x - 18446744073709551616)"
proof -
  have r: "0 \<le> uint x" "uint x < 18446744073709551616" using uint_bounded [of x] by simp_all
  have "bit (uint x) 63 \<longleftrightarrow> odd (uint x div 9223372036854775808)" by (simp add: bit_iff_odd)
  also have "\<dots> \<longleftrightarrow> \<not> uint x < 9223372036854775808"
  proof (cases "uint x < 9223372036854775808")
    case False
    then have "uint x div 9223372036854775808 = 1" using r by (simp add: div_pos_geq)
    then show ?thesis using False by simp
  qed (use r in \<open>simp add: div_pos_pos_trivial\<close>)
  finally show ?thesis
    using r by (simp add: sint_uint signed_take_bit_eq_take_bit_minus take_bit_int_eq_self_iff)
qed

lemma word64_halves:
  fixes x :: u64
  shows "u64_of (ucast (drop_bit 32 x)) (ucast x) = uint x"
    and "s64_of (ucast (drop_bit 32 x)) (ucast x) = sint x"
proof -
  have lo: "uint (ucast x :: u32) = uint x mod 4294967296"
    by (simp add: unsigned_ucast_eq take_bit_eq_mod)
  have "uint x div 4294967296 < 4294967296" "0 \<le> uint x div 4294967296"
    using uint_bounded [of x] by (simp_all add: pos_imp_zdiv_nonneg_iff)
  then have hi: "uint (ucast (drop_bit 32 x) :: u32) = uint x div 4294967296"
    by (simp add: unsigned_ucast_eq take_bit_eq_mod drop_bit_eq_div uint_div mod_pos_pos_trivial)
  show u: "u64_of (ucast (drop_bit 32 x)) (ucast x) = uint x"
    unfolding u64_of_def lo hi by simp
  have "uint (ucast (drop_bit 32 x) :: u32) < 2147483648 \<longleftrightarrow> uint x < 9223372036854775808"
    unfolding hi using div_mult_mod_eq [of "uint x" 4294967296]
      pos_mod_bound [of 4294967296 "uint x"] pos_mod_sign [of 4294967296 "uint x"] by linarith
  then show "s64_of (ucast (drop_bit 32 x)) (ucast x) = sint x"
    using u unfolding s64_of_def u64_of_def sint32_alt sint64_alt by auto
qed

lemma mult_range32:
  fixes a b :: int
  assumes "\<bar>a\<bar> \<le> 2147483648" and "\<bar>b\<bar> \<le> 2147483648"
  shows "\<bar>a * b\<bar> \<le> 4611686018427387904"
  using mult_mono [OF assms] by (simp add: abs_mult)

lemma sint_mult64: "sint (scast (a :: u32) * scast (b :: u32) :: u64) = sint a * sint b"
proof -
  have "\<bar>sint a * sint b\<bar> \<le> 4611686018427387904"
    using sint_range32 [of a] sint_range32 [of b] by (intro mult_range32) auto
  then have "signed_take_bit 63 (sint a * sint b) = sint a * sint b"
    by (intro signed_take_bit_int_eq_self) auto
  then show ?thesis by (simp add: sint_word_ariths)
qed

lemma uint_mult64: "uint (ucast (a :: u32) * ucast (b :: u32) :: u64) = uint a * uint b"
proof -
  have "uint a * uint b < 4294967296 * 4294967296"
    using uint_range32 [of a] uint_range32 [of b] by (intro mult_strict_mono) auto
  then show ?thesis by (simp add: uint_word_ariths mod_pos_pos_trivial)
qed

text \<open>MUL and MULU leave the exact 64 bit product, its low word in reg2 and its high word in
  reg3, and no other register or flag changes.\<close>

lemma mul_correct:
  fixes cpu :: "'b TargetCoreType"
  defines "r1 \<equiv> ucast (t11_reg1 (type11 (decoded_code cpu))) :: u32"
    and "r2 \<equiv> ucast (t11_reg2 (type11 (decoded_code cpu))) :: u32"
    and "r3 \<equiv> ucast (t11_reg3 (type11 (decoded_code cpu))) :: u32"
  defines "a \<equiv> regs (reg cpu) r1" and "b \<equiv> regs (reg cpu) r2"
  assumes "{r1, r2, r3} \<subseteq> {..<CPU_GREG_NUM}" and "r2 \<noteq> r3"
  shows "returns (op_exec_mul cpu) cpu (\<lambda>g. s64_of (regs g r3) (regs g r2) = sint a * sint b \<and>
           (\<forall>i. i \<notin> {r2, r3} \<longrightarrow> regs g i = regs (reg cpu) i) \<and> sys g = sys (reg cpu) \<and> pc g = pc (reg cpu) + 4) \<and>
         returns (op_exec_mulu cpu) cpu (\<lambda>g. u64_of (regs g r3) (regs g r2) = uint a * uint b \<and>
           (\<forall>i. i \<notin> {r2, r3} \<longrightarrow> regs g i = regs (reg cpu) i) \<and> sys g = sys (reg cpu) \<and> pc g = pc (reg cpu) + 4)"
proof
  have "op_exec_mul cpu = Ret0 (cpu\<lparr>reg := add_pc 4 (set_r r3 (ucast (drop_bit 32 (scast a * scast b :: u64)))
      (set_r r2 (ucast (scast a * scast b :: u64)) (reg cpu)))\<rparr>)"
    using assms by (simp add: op_exec_mul_def Let_def not_le)
  then show "returns (op_exec_mul cpu) cpu (\<lambda>g. s64_of (regs g r3) (regs g r2) = sint a * sint b \<and>
      (\<forall>i. i \<notin> {r2, r3} \<longrightarrow> regs g i = regs (reg cpu) i) \<and> sys g = sys (reg cpu) \<and> pc g = pc (reg cpu) + 4)"
    using assms(7) by (simp only: returns_simps) (simp add: word64_halves sint_mult64)
  have "op_exec_mulu cpu = Ret0 (cpu\<lparr>reg := add_pc 4 (set_r r3 (ucast (drop_bit 32 (ucast a * ucast b :: u64)))
      (set_r r2 (ucast (ucast a * ucast b :: u64)) (reg cpu)))\<rparr>)"
    using assms by (simp add: op_exec_mulu_def Let_def not_le)
  then show "returns (op_exec_mulu cpu) cpu (\<lambda>g. u64_of (regs g r3) (regs g r2) = uint a * uint b \<and>
      (\<forall>i. i \<notin> {r2, r3} \<longrightarrow> regs g i = regs (reg cpu) i) \<and> sys g = sys (reg cpu) \<and> pc g = pc (reg cpu) + 4)"
    using assms(7) by (simp only: returns_simps) (simp add: word64_halves uint_mult64)
qed

lemma mul_correct_witness:
  "returns (op_exec_mul (sample_div 0xFFFFFFFE 3)) (sample_div 0xFFFFFFFE 3) (\<lambda>g. s64_of (regs g 12) (regs g 11) = - 6)"
  using mul_correct [of "sample_div 0xFFFFFFFE 3"] by (auto simp: returns_def)

text \<open>The accumulator word that MAC and MACU build from the register pair.\<close>

lemma acc_word_unsigned:
  "uint (push_bit 32 (ucast (hi :: u32)) OR ucast (lo :: u32) :: u64) = u64_of hi lo"
proof -
  let ?x = "push_bit 32 (ucast hi) OR ucast lo :: u64"
  have "ucast (drop_bit 32 ?x) = hi" "ucast ?x = lo"
    by (rule bit_word_eqI, simp only: bit_simps o_apply, auto dest: bit_imp_le_length)+
  then show ?thesis using word64_halves(1) [of ?x] by simp
qed

lemma acc_word_signed:
  "sint (push_bit 32 (scast (hi :: u32)) OR scast (lo :: u32) :: u64) =
     (if 0 \<le> sint lo then s64_of hi lo else sint lo)"
proof (cases "0 \<le> sint lo")
  case True
  then have b: "\<not> bit lo 31" using bit_last_iff [of lo] by simp
  have e: "n < 32 \<Longrightarrow> 31 \<le> n \<Longrightarrow> n = 31" for n :: nat by simp
  let ?x = "push_bit 32 (scast hi) OR scast lo :: u64"
  have "ucast (drop_bit 32 ?x) = hi" "ucast ?x = lo"
    by (rule bit_word_eqI, simp only: bit_simps o_apply, insert b, auto dest: bit_imp_le_length e simp: min_def)+
  then show ?thesis using True word64_halves(2) [of ?x] by simp
next
  case False
  then have b: "bit lo 31" using bit_last_iff [of lo] by simp
  have "push_bit 32 (scast hi) OR scast lo = (scast lo :: u64)"
    using b by (intro bit_word_eqI; simp only: bit_simps o_apply; auto simp: min_def)
  then show ?thesis using False by simp
qed

lemma uint_add64_signed: "uint (x + y :: u64) = (sint x + sint y) mod 18446744073709551616"
proof -
  have "uint (word_of_int k :: u64) = k mod 18446744073709551616" for k
    by (simp add: uint_word_of_int_eq take_bit_eq_mod)
  moreover have "x + y = word_of_int (sint x + sint y)" by simp
  ultimately show ?thesis by metis
qed

text \<open>MACU adds the exact unsigned product to the accumulator pair modulo 2 ^ 64.  MAC does
  so for signed numbers when the low accumulator word is not negative as a signed number;
  otherwise the sign extension of the low word hides the high word and the product is added to
  the low word alone.\<close>

lemma mac_correct:
  fixes cpu :: "'b TargetCoreType"
  defines "r1 \<equiv> ucast (t11_reg1 (type11 (decoded_code cpu))) :: u32"
    and "r2 \<equiv> ucast (t11_reg2 (type11 (decoded_code cpu))) :: u32"
    and "r3 \<equiv> ucast (t11_reg3 (type11 (decoded_code cpu))) :: u32"
    and "r4 \<equiv> push_bit 1 (push_bit 1 (ucast (t11_rfu (type11 (decoded_code cpu)))) OR
                 ucast (t11_sub2 (type11 (decoded_code cpu)))) :: u32"
  defines "r \<equiv> regs (reg cpu)"
  assumes "{r1, r2, r3, r4} \<subseteq> {..<CPU_GREG_NUM}" and "r3 mod 2 = 0" and "r4 mod 2 = 0"
  shows "returns (op_exec_macu_11 cpu) cpu (\<lambda>g.
           u64_of (regs g (r4 + 1)) (regs g r4) =
             (uint (r r1) * uint (r r2) + u64_of (r (r3 + 1)) (r r3)) mod 18446744073709551616) \<and>
         returns (op_exec_mac_11 cpu) cpu (\<lambda>g.
           u64_of (regs g (r4 + 1)) (regs g r4) =
             (sint (r r1) * sint (r r2) +
              (if 0 \<le> sint (r r3) then s64_of (r (r3 + 1)) (r r3) else sint (r r3)))
             mod 18446744073709551616)"
proof
  let ?acc = "push_bit 32 (ucast (r (r3 + 1))) OR ucast (r r3) :: u64"
  let ?x = "ucast (r r2) * ucast (r r1) + ?acc :: u64"
  have "op_exec_macu_11 cpu = Ret0 (cpu\<lparr>reg := add_pc 4 (set_r (r4 + 1) (ucast (drop_bit 32 ?x))
      (set_r r4 (ucast ?x) (reg cpu)))\<rparr>)"
    using assms(6-8) unfolding op_exec_macu_11_def Let_def r1_def r2_def r3_def r4_def r_def by (simp add: not_le)
  moreover have "uint ?x = (uint (r r1) * uint (r r2) + u64_of (r (r3 + 1)) (r r3)) mod 18446744073709551616"
    using acc_word_unsigned [of "r (r3 + 1)" "r r3"] uint_mult64 [of "r r2" "r r1"]
    by (simp only: uint_word_ariths) (simp add: mult.commute)
  ultimately show "returns (op_exec_macu_11 cpu) cpu (\<lambda>g. u64_of (regs g (r4 + 1)) (regs g r4) =
      (uint (r r1) * uint (r r2) + u64_of (r (r3 + 1)) (r r3)) mod 18446744073709551616)"
    using word64_halves(1) [of ?x] by (simp only: returns_simps) simp
next
  let ?acc = "push_bit 32 (scast (r (r3 + 1))) OR scast (r r3) :: u64"
  let ?x = "scast (r r2) * scast (r r1) + ?acc :: u64"
  have "op_exec_mac_11 cpu = Ret0 (cpu\<lparr>reg := add_pc 4 (set_r (r4 + 1) (ucast (drop_bit 32 ?x))
      (set_r r4 (ucast ?x) (reg cpu)))\<rparr>)"
    using assms(6-8) unfolding op_exec_mac_11_def Let_def r1_def r2_def r3_def r4_def r_def by (simp add: not_le)
  moreover have "uint ?x = (sint (r r1) * sint (r r2) +
      (if 0 \<le> sint (r r3) then s64_of (r (r3 + 1)) (r r3) else sint (r r3))) mod 18446744073709551616"
    by (simp only: uint_add64_signed acc_word_signed sint_mult64 mult.commute)
  ultimately show "returns (op_exec_mac_11 cpu) cpu (\<lambda>g. u64_of (regs g (r4 + 1)) (regs g r4) =
      (sint (r r1) * sint (r r2) + (if 0 \<le> sint (r r3) then s64_of (r (r3 + 1)) (r r3) else sint (r r3)))
      mod 18446744073709551616)"
    using word64_halves(1) [of ?x] by (simp only: returns_simps) simp
qed

definition sample_mac :: "nat TargetCoreType" where
  "sample_mac = sample_core (blank_code\<lparr>type11 := \<lparr>t11_opcode = 0x3F, t11_reg1 = 10, t11_reg2 = 11,
     t11_reg3 = 12, t11_sub1 = 0, t11_sub2 = 1, t11_rfu = 3\<rparr>\<rparr>)
     ((\<lambda>_. 0)(10 := 2, 11 := 3, 12 := 0x80000000, 13 := 5)) 0 (0 :: nat)"

lemma mac_correct_witness:
  "returns (op_exec_macu_11 sample_mac) sample_mac (\<lambda>g. u64_of (regs g 15) (regs g 14) = 0x580000006) \<and>
   returns (op_exec_mac_11 sample_mac) sample_mac (\<lambda>g. u64_of (regs g 15) (regs g 14) = 0xFFFFFFFF80000006)"
  using mac_correct [of sample_mac] by (simp add: sample_mac_def u64_of_def)

section \<open>Bit insertion and rotation\<close>

lemma bins_fold:
  "k < 32 \<Longrightarrow>
   bit (fold (\<lambda>i r. if (src :: u32) AND push_bit (i - lsb) 1 \<noteq> 0 then r OR push_bit i 1
                   else r AND NOT (push_bit i 1)) xs (r :: u32)) k =
     (if k \<in> set xs then bit src (k - lsb) else bit r k)"
  by (induction xs arbitrary: r) (auto simp: bit_simps and_exp_eq_0_iff_not_bit)

lemma bit_bins_loop:
  "k < 32 \<Longrightarrow> bit (bins_loop src lsb msb r) k =
     (if lsb \<le> k \<and> k \<le> msb then bit src (k - lsb) else bit r k)"
  unfolding bins_loop_def by (subst bins_fold) auto

lemma lsb_bound:
  "unat (push_bit 3 (ucast ((x :: u16) AND 0x01)) OR ucast ((y :: u16) AND 0x07) :: u32) < 16"
proof -
  let ?v = "push_bit 3 (ucast (take_bit 1 x)) OR ucast (take_bit 3 y) :: u32"
  have f: "x AND 0x01 = take_bit 1 x" "y AND 0x07 = take_bit 3 y"
    by (simp_all add: take_bit_eq_mask mask_eq_exp_minus_1)
  have t: "?v = take_bit 4 ?v"
    by (rule bit_word_eqI) (simp only: bit_or_iff bit_push_bit_iff bit_take_bit_iff bit_ucast_iff, auto)
  have "unat (take_bit 4 z) < 16" for z :: u32
    by (simp add: take_bit_eq_mod unat_mod)
  then show ?thesis unfolding f by (subst t)
qed

text \<open>BINS copies the low bits of reg1 into the field of reg2 that the instruction names and
  leaves the other bits; the field ends are taken from the operand as the three encodings say.\<close>

lemma bins_correct:
  fixes cpu :: "'b TargetCoreType"
  defines "d \<equiv> type9 (decoded_code cpu)"
  defines "a \<equiv> regs (reg cpu) (ucast (t9_gen d))" and "r2 \<equiv> ucast (t9_reg2 d) :: u32"
    and "chk \<equiv> ucast (t9_sub d) :: u32"
  defines "msb \<equiv> unat (drop_bit 1 (t9_rfu2 d)) + (if chk = 0b100 \<or> chk = 0b101 then 16 else 0)"
    and "lsb \<equiv> unat (push_bit 3 (ucast (t9_rfu2 d AND 0x01)) OR ucast (t9_rfu1 d AND 0x07) :: u32) +
          (if chk = 0b100 then 16 else 0)"
  assumes "t9_rfu2 d < 32"
  shows "returns (op_exec_bins_9 cpu) cpu (\<lambda>g.
      (\<forall>k<32. bit (regs g r2) k =
         (if lsb \<le> k \<and> k \<le> msb then bit a (k - lsb) else bit (regs (reg cpu) r2) k)) \<and>
      (\<forall>i. i \<noteq> r2 \<longrightarrow> regs g i = regs (reg cpu) i) \<and> pc g = pc (reg cpu) + 4 \<and>
      zs_post (regs g r2) g \<and> \<not> CPU_ISSET CPU_PSW_OV g)"
proof -
  let ?m = "ucast (drop_bit 1 (t9_rfu2 d)) :: u32"
  let ?l = "push_bit 3 (ucast (t9_rfu2 d AND 0x01)) OR ucast (t9_rfu1 d AND 0x07) :: u32"
  have "unat (t9_rfu2 d) < 32" using assms(7) by (simp add: word_less_nat_alt)
  then have m: "unat ?m = unat (drop_bit 1 (t9_rfu2 d))" "unat ?m < 16"
    by (simp_all add: unsigned_ucast_eq take_bit_eq_mod drop_bit_eq_div unat_div)
  have l: "unat ?l < 16" by (rule lsb_bound)
  let ?msb = "if chk = 0b100 \<or> chk = 0b101 then ?m + 16 else ?m"
  let ?lsb = "if chk = 0b100 then ?l + 16 else ?l"
  have "unat (x + 16) = unat x + 16" if "unat x < 16" for x :: u32
    using that by (subst unat_add_lem [THEN iffD1]) auto
  then have n: "unat ?msb = msb" "unat ?lsb = lsb" "msb < 32"
    using m l by (auto simp: msb_def lsb_def)
  then have "?msb < 32" by (simp only: word_less_nat_alt) simp
  let ?h = "CPU_CLR CPU_PSW_OV (set_r r2 (bins_loop a lsb msb (regs (reg cpu) r2)) (reg cpu))"
  have pr: "(if chk = 0b100 then (?m + 16, ?l + 16) else if chk = 0b101 then (?m + 16, ?l) else (?m, ?l))
      = (?msb, ?lsb)" by simp
  have "op_exec_bins_9 cpu = Ret0 (cpu\<lparr>reg := add_pc 4 (op_chk_and_set_zero (regs ?h r2)
      (op_chk_and_set_sign (regs ?h r2) ?h))\<rparr>)"
    using \<open>?msb < 32\<close> unfolding op_exec_bins_9_def Let_def d_def [symmetric]
      chk_def [symmetric] r2_def [symmetric] a_def [symmetric] pr prod.case n(1,2)
    by (simp only: not_le [symmetric] simp_thms if_False) simp
  then show ?thesis
    using bit_bins_loop [of _ a lsb msb "regs (reg cpu) r2"] by (simp add: chk_forms zs_post_def)
qed

text \<open>The rotation loop is the rotation of the word library.\<close>

lemma rotl_loop_Suc:
  "rotl_loop org (Suc n) =
     (let r = push_bit 1 (rotl_loop org n) in
      if org AND push_bit (31 - n) 1 \<noteq> 0 then r OR 0x01 else r)"
  by (simp add: rotl_loop_def Let_def)

lemma bit_rotl_loop:
  "n \<le> 32 \<Longrightarrow> k < 32 \<Longrightarrow> bit (rotl_loop org n) k = bit org ((k + (32 - n)) mod 32)"
proof (induction n arbitrary: k)
  case 0
  then show ?case by (simp add: rotl_loop_def)
next
  case (Suc n)
  show ?case
  proof (cases k)
    case 0
    then show ?thesis using Suc.prems
      by (auto simp: rotl_loop_Suc Let_def bit_simps and_exp_eq_0_iff_not_bit bit_0 even_or_iff)
  next
    case (Suc j)
    then have "bit (rotl_loop org n) j = bit org ((j + (32 - n)) mod 32)" using Suc.IH \<open>Suc n \<le> 32\<close> \<open>k < 32\<close> by simp
    moreover have "bit (rotl_loop org (Suc n)) (Suc j) = bit (rotl_loop org n) j"
      using Suc Suc.prems unfolding rotl_loop_Suc Let_def
      by (simp only: bit_or_iff bit_push_bit_iff bit_1_iff split: if_splits) simp
    moreover have "Suc j + (32 - Suc n) = j + (32 - n)" using \<open>Suc n \<le> 32\<close> by simp
    ultimately show ?thesis unfolding \<open>k = Suc j\<close> by (simp only:)
  qed
qed

lemma rotl_loop_eq: "n \<le> 32 \<Longrightarrow> rotl_loop org n = word_rotl n org"
  by (rule bit_word_eqI, cases "n = 32") (simp_all add: bit_rotl_loop bit_word_rotl_iff)

definition sample_bins :: "nat TargetCoreType" where
  "sample_bins = sample_core (blank_code\<lparr>type9 := \<lparr>t9_opcode = 0x3F, t9_sub = 5, t9_gen = 10, t9_reg2 = 11,
     t9_rfu2 = 7, t9_rfu1 = 4\<rparr>\<rparr>) ((\<lambda>_. 0)(10 := 0xFF, 11 := 0)) 0 (0 :: nat)"

lemma bins_correct_witness:
  "returns (op_exec_bins_9 sample_bins) sample_bins (\<lambda>g. \<forall>k<32. bit (regs g 11) k =
     (12 \<le> k \<and> k \<le> 19 \<and> bit (0xFF :: u32) (k - 12)))"
  using bins_correct [of sample_bins] by (auto simp: sample_bins_def returns_def)

text \<open>ROTL rotates left by the immediate count or by a register count of at most 32, and puts
  the last bit rotated in into CY; a register count above 32, which is not reduced, makes the shift
  amount of the loop wrap.\<close>

lemma rotl_correct:
  fixes cpu :: "'b TargetCoreType"
  defines "d \<equiv> type7 (decoded_code cpu)"
  defines "a \<equiv> regs (reg cpu) (ucast (t7_reg2 d))" and "r3 \<equiv> drop_bit 10 (t7_disp d) AND 0x1F"
    and "n \<equiv> regs (reg cpu) (ucast (t7_reg1 d))"
  assumes "t7_disp d AND 0x3FF = 0b0001100011"
  shows "if n \<le> 32
    then returns (op_exec_rotl_7 cpu) cpu (\<lambda>g. wrote r3 (word_rotl (unat n) a) 4 (reg cpu) g \<and>
           zs_post (regs g r3) g \<and> \<not> CPU_ISSET CPU_PSW_OV g \<and>
           (CPU_ISSET CPU_PSW_CY g \<longleftrightarrow> 0 < n \<and> bit (word_rotl (unat n) a) 0))
    else op_exec_rotl_7 cpu = Fault ShiftFault"
proof (cases "n \<le> 32")
  case True
  then have e: "rotl_loop a (unat n) = word_rotl (unat n) a"
    by (intro rotl_loop_eq) (simp add: word_le_nat_alt)
  have o: "(x AND 0x01 = 0x01) = bit x 0" for x :: u32
    by (simp add: and_one_eq bit_0 odd_iff_mod_2_eq_one)
  show ?thesis
    using True assms(5) unfolding op_exec_rotl_7_def Let_def d_def [symmetric] a_def [symmetric]
      r3_def [symmetric] n_def [symmetric]
    by (simp add: e o chk_forms zs_post_def not_less)
next
  case False
  then show ?thesis
    using assms(5) unfolding op_exec_rotl_7_def Let_def d_def [symmetric] n_def [symmetric]
    by (simp add: not_le)
qed

definition sample_rotl :: "nat TargetCoreType" where
  "sample_rotl = sample_core (blank_code\<lparr>type7 := \<lparr>t7_opcode = 0x3F, t7_disp = 0x3063, t7_reg1 = 10,
     t7_reg2 = 11, t7_gen = 0\<rparr>\<rparr>) ((\<lambda>_. 0)(10 := 8, 11 := 0x12345678)) 0 (0 :: nat)"

lemma rotl_correct_witness:
  "returns (op_exec_rotl_7 sample_rotl) sample_rotl (\<lambda>g. wrote 12 (word_rotl 8 0x12345678) 4 (reg sample_rotl) g)"
  using rotl_correct [of sample_rotl] by (auto simp: sample_rotl_def returns_def)

end
