(* ===== verification/Exec_Logic.thy ===== *)
theory Exec_Logic
  imports Exec_Base
begin

text \<open>
  The logical, shift and byte order instructions of \<^verbatim>\<open>op_exec_logic.c\<close> and the saturating
  arithmetic of \<^verbatim>\<open>op_exec_sat.c\<close>.
\<close>

section \<open>Logical operations\<close>

definition op_exec_or :: "'b TargetCoreType \<Rightarrow> 'b TargetCoreType outcome" where
  "op_exec_or cpu =
     (let d = type1 (decoded_code cpu);
          reg1 = ucast (t1_reg1 d) :: u32;
          reg2 = ucast (t1_reg2 d) :: u32;
          g = reg cpu
      in if reg1 \<ge> CPU_GREG_NUM then RetErr cpu
         else if reg2 \<ge> CPU_GREG_NUM then RetErr cpu
         else let (result, g) = op_or (regs g reg2) (regs g reg1) g;
               g = set_r reg2 result g
           in Ret0 (cpu\<lparr>reg := add_pc 2 g\<rparr>))"

definition op_exec_zxb :: "'b TargetCoreType \<Rightarrow> 'b TargetCoreType outcome" where
  "op_exec_zxb cpu =
     (let d = type1 (decoded_code cpu);
          reg1 = ucast (t1_reg1 d) :: u32;
          g = reg cpu
      in if reg1 \<ge> CPU_GREG_NUM then RetErr cpu
         else let data = ucast (regs g reg1) :: u8;
               result = ucast data;
               g = set_r reg1 result g
           in Ret0 (cpu\<lparr>reg := add_pc 2 g\<rparr>))"

definition op_exec_zxh :: "'b TargetCoreType \<Rightarrow> 'b TargetCoreType outcome" where
  "op_exec_zxh cpu =
     (let d = type1 (decoded_code cpu);
          reg1 = ucast (t1_reg1 d) :: u32;
          g = reg cpu
      in if reg1 \<ge> CPU_GREG_NUM then RetErr cpu
         else let data = ucast (regs g reg1) :: u16;
               result = ucast data;
               g = set_r reg1 result g
           in Ret0 (cpu\<lparr>reg := add_pc 2 g\<rparr>))"

definition op_exec_tst :: "'b TargetCoreType \<Rightarrow> 'b TargetCoreType outcome" where
  "op_exec_tst cpu =
     (let d = type1 (decoded_code cpu);
          reg1 = ucast (t1_reg1 d) :: u32;
          reg2 = ucast (t1_reg2 d) :: u32;
          g = reg cpu
      in if reg1 \<ge> CPU_GREG_NUM then RetErr cpu
         else if reg2 \<ge> CPU_GREG_NUM then RetErr cpu
         else let (result, g) = op_and (regs g reg2) (regs g reg1) g
           in Ret0 (cpu\<lparr>reg := add_pc 2 g\<rparr>))"

definition op_exec_and :: "'b TargetCoreType \<Rightarrow> 'b TargetCoreType outcome" where
  "op_exec_and cpu =
     (let d = type1 (decoded_code cpu);
          reg1 = ucast (t1_reg1 d) :: u32;
          reg2 = ucast (t1_reg2 d) :: u32;
          g = reg cpu
      in if reg1 \<ge> CPU_GREG_NUM then RetErr cpu
         else if reg2 \<ge> CPU_GREG_NUM then RetErr cpu
         else let (result, g) = op_and (regs g reg2) (regs g reg1) g;
               g = set_r reg2 result g
           in Ret0 (cpu\<lparr>reg := add_pc 2 g\<rparr>))"

definition op_exec_not :: "'b TargetCoreType \<Rightarrow> 'b TargetCoreType outcome" where
  "op_exec_not cpu =
     (let d = type1 (decoded_code cpu);
          reg1 = ucast (t1_reg1 d) :: u32;
          reg2 = ucast (t1_reg2 d) :: u32;
          g = reg cpu
      in if reg1 \<ge> CPU_GREG_NUM then RetErr cpu
         else if reg2 \<ge> CPU_GREG_NUM then RetErr cpu
         else let result = NOT (regs g reg1);
               g = set_r reg2 result g;
               g = op_chk_and_set_zero (regs g reg2) g;
               g = op_chk_and_set_sign (regs g reg2) g;
               g = CPU_CLR CPU_PSW_OV g
           in Ret0 (cpu\<lparr>reg := add_pc 2 g\<rparr>))"

definition op_exec_xor :: "'b TargetCoreType \<Rightarrow> 'b TargetCoreType outcome" where
  "op_exec_xor cpu =
     (let d = type1 (decoded_code cpu);
          reg1 = ucast (t1_reg1 d) :: u32;
          reg2 = ucast (t1_reg2 d) :: u32;
          g = reg cpu
      in if reg1 \<ge> CPU_GREG_NUM then RetErr cpu
         else if reg2 \<ge> CPU_GREG_NUM then RetErr cpu
         else let result = regs g reg2 XOR regs g reg1;
               g = set_r reg2 result g;
               g = op_chk_and_set_zero (regs g reg2) g;
               g = op_chk_and_set_sign (regs g reg2) g;
               g = CPU_CLR CPU_PSW_OV g
           in Ret0 (cpu\<lparr>reg := add_pc 2 g\<rparr>))"

definition op_exec_sxh :: "'b TargetCoreType \<Rightarrow> 'b TargetCoreType outcome" where
  "op_exec_sxh cpu =
     (let d = type1 (decoded_code cpu);
          reg1 = ucast (t1_reg1 d) :: u32;
          g = reg cpu
      in if reg1 \<ge> CPU_GREG_NUM then RetErr cpu
         else let tmp = ucast (regs g reg1) :: u16;
               g = set_r reg1 (scast tmp) g
           in Ret0 (cpu\<lparr>reg := add_pc 2 g\<rparr>))"

definition op_exec_sxb :: "'b TargetCoreType \<Rightarrow> 'b TargetCoreType outcome" where
  "op_exec_sxb cpu =
     (let d = type1 (decoded_code cpu);
          reg1 = ucast (t1_reg1 d) :: u32;
          g = reg cpu
      in if reg1 \<ge> CPU_GREG_NUM then RetErr cpu
         else let tmp = ucast (regs g reg1) :: u8;
               g = set_r reg1 (scast tmp) g
           in Ret0 (cpu\<lparr>reg := add_pc 2 g\<rparr>))"

definition op_exec_andi :: "'b TargetCoreType \<Rightarrow> 'b TargetCoreType outcome" where
  "op_exec_andi cpu =
     (let d = type6 (decoded_code cpu);
          reg1 = ucast (t6_reg1 d) :: u32;
          reg2 = ucast (t6_reg2 d) :: u32;
          imm_data = op_zero_extend 16 (t6_imm d);
          g = reg cpu
      in if reg1 \<ge> CPU_GREG_NUM then RetErr cpu
         else if reg2 \<ge> CPU_GREG_NUM then RetErr cpu
         else let (result, g) = op_andi imm_data (regs g reg1) g;
               g = set_r reg2 result g
           in Ret0 (cpu\<lparr>reg := add_pc 4 g\<rparr>))"

definition op_exec_ori :: "'b TargetCoreType \<Rightarrow> 'b TargetCoreType outcome" where
  "op_exec_ori cpu =
     (let d = type6 (decoded_code cpu);
          reg1 = ucast (t6_reg1 d) :: u32;
          reg2 = ucast (t6_reg2 d) :: u32;
          imm_data = op_zero_extend 16 (t6_imm d);
          g = reg cpu
      in if reg1 \<ge> CPU_GREG_NUM then RetErr cpu
         else if reg2 \<ge> CPU_GREG_NUM then RetErr cpu
         else let (result, g) = op_ori (ucast imm_data) (regs g reg1) g;
               g = set_r reg2 result g
           in Ret0 (cpu\<lparr>reg := add_pc 4 g\<rparr>))"

definition op_exec_xori :: "'b TargetCoreType \<Rightarrow> 'b TargetCoreType outcome" where
  "op_exec_xori cpu =
     (let d = type6 (decoded_code cpu);
          reg1 = ucast (t6_reg1 d) :: u32;
          reg2 = ucast (t6_reg2 d) :: u32;
          imm_data = op_zero_extend 16 (t6_imm d);
          g = reg cpu
      in if reg1 \<ge> CPU_GREG_NUM then RetErr cpu
         else if reg2 \<ge> CPU_GREG_NUM then RetErr cpu
         else let (result, g) = op_xori (ucast imm_data) (regs g reg1) g;
               g = set_r reg2 result g
           in Ret0 (cpu\<lparr>reg := add_pc 4 g\<rparr>))"

section \<open>Shifts\<close>

text \<open>
  The counts are at most 31 (five bits of an immediate or a register), so the shifts below stay
  within the width; \<^verbatim>\<open>1 << 31\<close> has only its top bit set.
\<close>

definition op_chk_and_set_shl_carry :: "u32 \<Rightarrow> u32 \<Rightarrow> CpuRegisterType \<Rightarrow> CpuRegisterType" where
  "op_chk_and_set_shl_carry data sh cpu =
     (if sh > 0
      then if data AND push_bit (unat (32 - sh)) 1 \<noteq> 0 then CPU_SET CPU_PSW_CY cpu
           else CPU_CLR CPU_PSW_CY cpu
      else CPU_CLR CPU_PSW_CY cpu)"

definition op_chk_and_set_shr_carry :: "u32 \<Rightarrow> u32 \<Rightarrow> CpuRegisterType \<Rightarrow> CpuRegisterType" where
  "op_chk_and_set_shr_carry data sh cpu =
     (if sh > 0
      then if data AND push_bit (unat (sh - 1)) 1 \<noteq> 0 then CPU_SET CPU_PSW_CY cpu
           else CPU_CLR CPU_PSW_CY cpu
      else CPU_CLR CPU_PSW_CY cpu)"

definition op_exec_shl_2 :: "'b TargetCoreType \<Rightarrow> 'b TargetCoreType outcome" where
  "op_exec_shl_2 cpu =
     (let d = type2 (decoded_code cpu);
          reg2 = ucast (t2_reg2 d) :: u32;
          g = reg cpu
      in if reg2 \<ge> CPU_GREG_NUM then RetErr cpu
         else let reg2_data = regs g reg2;
               imm_data = op_zero_extend 5 (t2_imm d);
               result = push_bit (unat imm_data) reg2_data;
               g = set_r reg2 result g;
               g = CPU_CLR CPU_PSW_OV g;
               g = op_chk_and_set_shl_carry reg2_data imm_data g;
               g = op_chk_and_set_zero (regs g reg2) g;
               g = op_chk_and_set_sign (regs g reg2) g
           in Ret0 (cpu\<lparr>reg := add_pc 2 g\<rparr>))"

definition op_exec_shr_2 :: "'b TargetCoreType \<Rightarrow> 'b TargetCoreType outcome" where
  "op_exec_shr_2 cpu =
     (let d = type2 (decoded_code cpu);
          reg2 = ucast (t2_reg2 d) :: u32;
          g = reg cpu
      in if reg2 \<ge> CPU_GREG_NUM then RetErr cpu
         else let reg2_data = regs g reg2;
               imm_data = op_zero_extend 5 (t2_imm d);
               result = drop_bit (unat imm_data) reg2_data;
               g = set_r reg2 result g;
               g = CPU_CLR CPU_PSW_OV g;
               g = op_chk_and_set_shr_carry reg2_data imm_data g;
               g = op_chk_and_set_zero (regs g reg2) g;
               g = op_chk_and_set_sign (regs g reg2) g
           in Ret0 (cpu\<lparr>reg := add_pc 2 g\<rparr>))"

definition op_exec_sar_2 :: "'b TargetCoreType \<Rightarrow> 'b TargetCoreType outcome" where
  "op_exec_sar_2 cpu =
     (let d = type2 (decoded_code cpu);
          reg2 = ucast (t2_reg2 d) :: u32;
          g = reg cpu
      in if reg2 \<ge> CPU_GREG_NUM then RetErr cpu
         else let reg2_data = regs g reg2;
               imm_data = op_zero_extend 5 (t2_imm d);
               result = signed_drop_bit (unat imm_data) reg2_data;
               g = set_r reg2 result g;
               g = CPU_CLR CPU_PSW_OV g;
               g = op_chk_and_set_shr_carry reg2_data imm_data g;
               g = op_chk_and_set_zero (regs g reg2) g;
               g = op_chk_and_set_sign (regs g reg2) g
           in Ret0 (cpu\<lparr>reg := add_pc 2 g\<rparr>))"

definition op_exec_shl_9 :: "'b TargetCoreType \<Rightarrow> 'b TargetCoreType outcome" where
  "op_exec_shl_9 cpu =
     (let d = type9 (decoded_code cpu);
          reg2 = ucast (t9_reg2 d) :: u32;
          reg1 = ucast (t9_gen d) :: u32;
          g = reg cpu
      in if reg1 \<ge> CPU_GREG_NUM then RetErr cpu
         else if reg2 \<ge> CPU_GREG_NUM then RetErr cpu
         else let reg2_data = regs g reg2;
               reg1_data = regs g reg1 AND 0x0000001F;
               result = push_bit (unat reg1_data) reg2_data;
               g = set_r reg2 result g;
               g = CPU_CLR CPU_PSW_OV g;
               g = op_chk_and_set_shl_carry reg2_data reg1_data g;
               g = op_chk_and_set_zero (regs g reg2) g;
               g = op_chk_and_set_sign (regs g reg2) g
           in Ret0 (cpu\<lparr>reg := add_pc 4 g\<rparr>))"

definition op_exec_shr_9 :: "'b TargetCoreType \<Rightarrow> 'b TargetCoreType outcome" where
  "op_exec_shr_9 cpu =
     (let d = type9 (decoded_code cpu);
          reg2 = ucast (t9_reg2 d) :: u32;
          reg1 = ucast (t9_gen d) :: u32;
          g = reg cpu
      in if reg1 \<ge> CPU_GREG_NUM then RetErr cpu
         else if reg2 \<ge> CPU_GREG_NUM then RetErr cpu
         else let reg2_data = regs g reg2;
               reg1_data = regs g reg1 AND 0x0000001F;
               result = drop_bit (unat reg1_data) reg2_data;
               g = set_r reg2 result g;
               g = CPU_CLR CPU_PSW_OV g;
               g = op_chk_and_set_shr_carry reg2_data reg1_data g;
               g = op_chk_and_set_zero (regs g reg2) g;
               g = op_chk_and_set_sign (regs g reg2) g
           in Ret0 (cpu\<lparr>reg := add_pc 4 g\<rparr>))"

definition op_exec_sar_9 :: "'b TargetCoreType \<Rightarrow> 'b TargetCoreType outcome" where
  "op_exec_sar_9 cpu =
     (let d = type9 (decoded_code cpu);
          reg2 = ucast (t9_reg2 d) :: u32;
          reg1 = ucast (t9_gen d) :: u32;
          g = reg cpu
      in if reg1 \<ge> CPU_GREG_NUM then RetErr cpu
         else if reg2 \<ge> CPU_GREG_NUM then RetErr cpu
         else let reg2_data = regs g reg2;
               reg1_data = regs g reg1 AND 0x0000001F;
               result = signed_drop_bit (unat reg1_data) reg2_data;
               g = set_r reg2 result g;
               g = CPU_CLR CPU_PSW_OV g;
               g = op_chk_and_set_shr_carry reg2_data reg1_data g;
               g = op_chk_and_set_zero (regs g reg2) g;
               g = op_chk_and_set_sign (regs g reg2) g
           in Ret0 (cpu\<lparr>reg := add_pc 4 g\<rparr>))"

definition op_exec_shl_11 :: "'b TargetCoreType \<Rightarrow> 'b TargetCoreType outcome" where
  "op_exec_shl_11 cpu =
     (let d = type11 (decoded_code cpu);
          reg1 = ucast (t11_reg1 d) :: u32;
          reg2 = ucast (t11_reg2 d) :: u32;
          reg3 = ucast (t11_reg3 d) :: u32;
          g = reg cpu
      in if reg1 \<ge> CPU_GREG_NUM then RetErr cpu
         else if reg2 \<ge> CPU_GREG_NUM then RetErr cpu
         else if reg3 \<ge> CPU_GREG_NUM then RetErr cpu
         else let reg2_data = regs g reg2;
               reg1_data = regs g reg1 AND 0x0000001F;
               result = push_bit (unat reg1_data) reg2_data;
               g = set_r reg3 result g;
               g = CPU_CLR CPU_PSW_OV g;
               g = op_chk_and_set_shl_carry reg2_data reg1_data g;
               g = op_chk_and_set_zero (regs g reg2) g;
               g = op_chk_and_set_sign (regs g reg2) g
           in Ret0 (cpu\<lparr>reg := add_pc 4 g\<rparr>))"

definition op_exec_shr_11 :: "'b TargetCoreType \<Rightarrow> 'b TargetCoreType outcome" where
  "op_exec_shr_11 cpu =
     (let d = type11 (decoded_code cpu);
          reg1 = ucast (t11_reg1 d) :: u32;
          reg2 = ucast (t11_reg2 d) :: u32;
          reg3 = ucast (t11_reg3 d) :: u32;
          g = reg cpu
      in if reg1 \<ge> CPU_GREG_NUM then RetErr cpu
         else if reg2 \<ge> CPU_GREG_NUM then RetErr cpu
         else if reg3 \<ge> CPU_GREG_NUM then RetErr cpu
         else let reg2_data = regs g reg2;
               reg1_data = regs g reg1 AND 0x0000001F;
               result = drop_bit (unat reg1_data) reg2_data;
               g = set_r reg3 result g;
               g = CPU_CLR CPU_PSW_OV g;
               g = op_chk_and_set_shr_carry reg2_data reg1_data g;
               g = op_chk_and_set_zero (regs g reg2) g;
               g = op_chk_and_set_sign (regs g reg2) g
           in Ret0 (cpu\<lparr>reg := add_pc 4 g\<rparr>))"

text \<open>
  \<open>op_exec_sar_11\<close> declares its operands \<^verbatim>\<open>uint32\<close>: the shift is logical.
\<close>

definition op_exec_sar_11 :: "'b TargetCoreType \<Rightarrow> 'b TargetCoreType outcome" where
  "op_exec_sar_11 cpu =
     (let d = type11 (decoded_code cpu);
          reg1 = ucast (t11_reg1 d) :: u32;
          reg2 = ucast (t11_reg2 d) :: u32;
          reg3 = ucast (t11_reg3 d) :: u32;
          g = reg cpu
      in if reg1 \<ge> CPU_GREG_NUM then RetErr cpu
         else if reg2 \<ge> CPU_GREG_NUM then RetErr cpu
         else if reg3 \<ge> CPU_GREG_NUM then RetErr cpu
         else let reg2_data = regs g reg2;
               reg1_data = regs g reg1 AND 0x0000001F;
               result = drop_bit (unat reg1_data) reg2_data;
               g = set_r reg3 result g;
               g = CPU_CLR CPU_PSW_OV g;
               g = op_chk_and_set_shr_carry reg2_data reg1_data g;
               g = op_chk_and_set_zero (regs g reg2) g;
               g = op_chk_and_set_sign (regs g reg2) g
           in Ret0 (cpu\<lparr>reg := add_pc 4 g\<rparr>))"

section \<open>Byte and half word order\<close>

definition op_exec_hsh_12 :: "'b TargetCoreType \<Rightarrow> 'b TargetCoreType outcome" where
  "op_exec_hsh_12 cpu =
     (let d = type12 (decoded_code cpu);
          reg2 = ucast (t12_reg2 d) :: u32;
          reg3 = ucast (t12_reg3 d) :: u32;
          g = reg cpu
      in let g = (if regs g reg2 AND 0x0000FFFF = 0 then CPU_SET CPU_PSW_Z (CPU_SET CPU_PSW_CY g)
                    else CPU_CLR CPU_PSW_Z (CPU_CLR CPU_PSW_CY g));
               g = CPU_CLR CPU_PSW_OV g;
               g = (if regs g reg2 AND 0x80000000 = 0x80000000 then CPU_SET CPU_PSW_S g else CPU_CLR CPU_PSW_S g);
               g = set_r reg3 (regs g reg2) g
           in Ret0 (cpu\<lparr>reg := add_pc 2 g\<rparr>))"

definition op_exec_hsw_12 :: "'b TargetCoreType \<Rightarrow> 'b TargetCoreType outcome" where
  "op_exec_hsw_12 cpu =
     (let d = type12 (decoded_code cpu);
          reg2 = ucast (t12_reg2 d) :: u32;
          reg3 = ucast (t12_reg3 d) :: u32;
          g = reg cpu
      in let result_half_up = drop_bit 16 (regs g reg2 AND 0xFFFF0000);
               result_half_dw = push_bit 16 (regs g reg2 AND 0x0000FFFF);
               result = result_half_dw OR result_half_up;
               g = (if result_half_dw = 0 \<or> result_half_up = 0 then CPU_SET CPU_PSW_CY g else CPU_CLR CPU_PSW_CY g);
               g = CPU_CLR CPU_PSW_OV g;
               g = (if result = 0 then CPU_SET CPU_PSW_Z g else CPU_CLR CPU_PSW_Z g);
               g = (if result AND 0x80000000 = 0x80000000 then CPU_SET CPU_PSW_S g else CPU_CLR CPU_PSW_S g);
               g = set_r reg3 result g
           in Ret0 (cpu\<lparr>reg := add_pc 2 g\<rparr>))"

definition op_exec_bsh_12 :: "'b TargetCoreType \<Rightarrow> 'b TargetCoreType outcome" where
  "op_exec_bsh_12 cpu =
     (let d = type12 (decoded_code cpu);
          reg2 = ucast (t12_reg2 d) :: u32;
          reg3 = ucast (t12_reg3 d) :: u32;
          g = reg cpu
      in let data_0 = regs g reg2 AND 0x000000FF;
               data_1 = drop_bit 8 (regs g reg2 AND 0x0000FF00);
               data_2 = drop_bit 16 (regs g reg2 AND 0x00FF0000);
               data_3 = drop_bit 24 (regs g reg2 AND 0xFF000000);
               result = push_bit 24 data_2 OR push_bit 16 data_3 OR push_bit 8 data_0 OR data_1;
               g = (if result AND 0x000000FF = 0 \<or> result AND 0x0000FF00 = 0 then CPU_SET CPU_PSW_CY g else CPU_CLR CPU_PSW_CY g);
               g = CPU_CLR CPU_PSW_OV g;
               g = (if result AND 0x80000000 = 0x80000000 then CPU_SET CPU_PSW_S g else CPU_CLR CPU_PSW_S g);
               g = (if result AND 0x0000FFFF = 0 then CPU_SET CPU_PSW_Z g else CPU_CLR CPU_PSW_Z g);
               g = set_r reg3 result g
           in Ret0 (cpu\<lparr>reg := add_pc 2 g\<rparr>))"

definition op_exec_bsw_12 :: "'b TargetCoreType \<Rightarrow> 'b TargetCoreType outcome" where
  "op_exec_bsw_12 cpu =
     (let d = type12 (decoded_code cpu);
          reg2 = ucast (t12_reg2 d) :: u32;
          reg3 = ucast (t12_reg3 d) :: u32;
          g = reg cpu
      in let data_0 = regs g reg2 AND 0x000000FF;
               data_1 = drop_bit 8 (regs g reg2 AND 0x0000FF00);
               data_2 = drop_bit 16 (regs g reg2 AND 0x00FF0000);
               data_3 = drop_bit 24 (regs g reg2 AND 0xFF000000);
               result = push_bit 24 data_0 OR push_bit 16 data_1 OR push_bit 8 data_2 OR data_3;
               g = (if result AND 0x000000FF = 0 \<or> result AND 0x0000FF00 = 0 \<or>
                      result AND 0x00FF0000 = 0 \<or> result AND 0xFF000000 = 0 then CPU_SET CPU_PSW_CY g else CPU_CLR CPU_PSW_CY g);
               g = CPU_CLR CPU_PSW_OV g;
               g = (if result AND 0x80000000 = 0x80000000 then CPU_SET CPU_PSW_S g else CPU_CLR CPU_PSW_S g);
               g = (if result AND 0x0000FFFF = 0 then CPU_SET CPU_PSW_Z g else CPU_CLR CPU_PSW_Z g);
               g = set_r reg3 result g
           in Ret0 (cpu\<lparr>reg := add_pc 2 g\<rparr>))"

section \<open>Saturating arithmetic\<close>

definition op_exec_satadd_1 :: "'b TargetCoreType \<Rightarrow> 'b TargetCoreType outcome" where
  "op_exec_satadd_1 cpu =
     (let d = type1 (decoded_code cpu);
          reg1 = ucast (t1_reg1 d) :: u32;
          reg2 = ucast (t1_reg2 d) :: u32;
          g = reg cpu
      in if reg1 \<ge> CPU_GREG_NUM then RetErr cpu
         else if reg2 \<ge> CPU_GREG_NUM then RetErr cpu
         else let (result, g) = op_satadd (regs g reg2) (scast (regs g reg1)) g;
               g = set_r reg2 result g
           in Ret0 (cpu\<lparr>reg := add_pc 2 g\<rparr>))"

definition op_exec_satsub_1 :: "'b TargetCoreType \<Rightarrow> 'b TargetCoreType outcome" where
  "op_exec_satsub_1 cpu =
     (let d = type1 (decoded_code cpu);
          reg1 = ucast (t1_reg1 d) :: u32;
          reg2 = ucast (t1_reg2 d) :: u32;
          g = reg cpu
      in if reg1 \<ge> CPU_GREG_NUM then RetErr cpu
         else if reg2 \<ge> CPU_GREG_NUM then RetErr cpu
         else let (result, g) = op_satadd (regs g reg2) (- scast (regs g reg1)) g;
               g = set_r reg2 result g
           in Ret0 (cpu\<lparr>reg := add_pc 2 g\<rparr>))"

definition op_exec_satsubr_1 :: "'b TargetCoreType \<Rightarrow> 'b TargetCoreType outcome" where
  "op_exec_satsubr_1 cpu =
     (let d = type1 (decoded_code cpu);
          reg1 = ucast (t1_reg1 d) :: u32;
          reg2 = ucast (t1_reg2 d) :: u32;
          g = reg cpu
      in if reg1 \<ge> CPU_GREG_NUM then RetErr cpu
         else if reg2 \<ge> CPU_GREG_NUM then RetErr cpu
         else let (result, g) = op_satadd (regs g reg1) (- scast (regs g reg2)) g;
               g = set_r reg2 result g
           in Ret0 (cpu\<lparr>reg := add_pc 2 g\<rparr>))"

definition op_exec_satadd_2 :: "'b TargetCoreType \<Rightarrow> 'b TargetCoreType outcome" where
  "op_exec_satadd_2 cpu =
     (let d = type2 (decoded_code cpu);
          reg2 = ucast (t2_reg2 d) :: u32;
          imm_data = op_sign_extend 4 (t2_imm d);
          g = reg cpu
      in if reg2 \<ge> CPU_GREG_NUM then RetErr cpu
         else let (result, g) = op_satadd (regs g reg2) (scast imm_data) g;
               g = set_r reg2 result g
           in Ret0 (cpu\<lparr>reg := add_pc 2 g\<rparr>))"

definition op_exec_satsubi :: "'b TargetCoreType \<Rightarrow> 'b TargetCoreType outcome" where
  "op_exec_satsubi cpu =
     (let d = type6 (decoded_code cpu);
          reg1 = ucast (t6_reg1 d) :: u32;
          reg2 = ucast (t6_reg2 d) :: u32;
          imm_data = op_sign_extend 15 (t6_imm d);
          g = reg cpu
      in if reg1 \<ge> CPU_GREG_NUM then RetErr cpu
         else if reg2 \<ge> CPU_GREG_NUM then RetErr cpu
         else let (result, g) = op_satadd (regs g reg1) (scast (- imm_data)) g;
               g = set_r reg2 result g
           in Ret0 (cpu\<lparr>reg := add_pc 4 g\<rparr>))"

definition op_exec_satadd_11 :: "'b TargetCoreType \<Rightarrow> 'b TargetCoreType outcome" where
  "op_exec_satadd_11 cpu =
     (let d = type11 (decoded_code cpu);
          reg1 = ucast (t11_reg1 d) :: u32;
          reg2 = ucast (t11_reg2 d) :: u32;
          reg3 = ucast (t11_reg3 d) :: u32;
          g = reg cpu
      in if reg1 \<ge> CPU_GREG_NUM then RetErr cpu
         else if reg2 \<ge> CPU_GREG_NUM then RetErr cpu
         else if reg3 \<ge> CPU_GREG_NUM then RetErr cpu
         else let (result, g) = op_satadd (regs g reg2) (scast (regs g reg1)) g;
               g = set_r reg3 result g
           in Ret0 (cpu\<lparr>reg := add_pc 4 g\<rparr>))"

definition op_exec_satsub_11 :: "'b TargetCoreType \<Rightarrow> 'b TargetCoreType outcome" where
  "op_exec_satsub_11 cpu =
     (let d = type11 (decoded_code cpu);
          reg1 = ucast (t11_reg1 d) :: u32;
          reg2 = ucast (t11_reg2 d) :: u32;
          reg3 = ucast (t11_reg3 d) :: u32;
          g = reg cpu
      in if reg1 \<ge> CPU_GREG_NUM then RetErr cpu
         else if reg2 \<ge> CPU_GREG_NUM then RetErr cpu
         else if reg3 \<ge> CPU_GREG_NUM then RetErr cpu
         else let (result, g) = op_satadd (regs g reg2) (- scast (regs g reg1)) g;
               g = set_r reg3 result g
           in Ret0 (cpu\<lparr>reg := add_pc 4 g\<rparr>))"

section \<open>Contract of the executors\<close>

text \<open>
  Each executor above writes only the registers listed, keeps every system register apart from
  the arithmetic flags, and touches nothing else of the machine.
\<close>

interpretation or_ex: alu_executor op_exec_or "\<lambda>d. {ucast (t1_reg2 (type1 d))}"
  by unfold_locales (auto simp: op_exec_or_def op_or_def Let_def chk_forms split: if_splits prod.splits)

interpretation zxb_ex: alu_executor op_exec_zxb "\<lambda>d. {ucast (t1_reg1 (type1 d))}"
  by unfold_locales (auto simp: op_exec_zxb_def Let_def chk_forms split: if_splits prod.splits)

interpretation zxh_ex: alu_executor op_exec_zxh "\<lambda>d. {ucast (t1_reg1 (type1 d))}"
  by unfold_locales (auto simp: op_exec_zxh_def Let_def chk_forms split: if_splits prod.splits)

interpretation tst_ex: alu_executor op_exec_tst "\<lambda>d. {}"
  by unfold_locales (auto simp: op_exec_tst_def op_and_def Let_def chk_forms split: if_splits prod.splits)

interpretation and_ex: alu_executor op_exec_and "\<lambda>d. {ucast (t1_reg2 (type1 d))}"
  by unfold_locales (auto simp: op_exec_and_def op_and_def Let_def chk_forms split: if_splits prod.splits)

interpretation not_ex: alu_executor op_exec_not "\<lambda>d. {ucast (t1_reg2 (type1 d))}"
  by unfold_locales (auto simp: op_exec_not_def Let_def chk_forms split: if_splits prod.splits)

interpretation xor_ex: alu_executor op_exec_xor "\<lambda>d. {ucast (t1_reg2 (type1 d))}"
  by unfold_locales (auto simp: op_exec_xor_def Let_def chk_forms split: if_splits prod.splits)

interpretation sxh_ex: alu_executor op_exec_sxh "\<lambda>d. {ucast (t1_reg1 (type1 d))}"
  by unfold_locales (auto simp: op_exec_sxh_def Let_def chk_forms split: if_splits prod.splits)

interpretation sxb_ex: alu_executor op_exec_sxb "\<lambda>d. {ucast (t1_reg1 (type1 d))}"
  by unfold_locales (auto simp: op_exec_sxb_def Let_def chk_forms split: if_splits prod.splits)

interpretation andi_ex: alu_executor op_exec_andi "\<lambda>d. {ucast (t6_reg2 (type6 d))}"
  by unfold_locales (auto simp: op_exec_andi_def op_andi_def Let_def chk_forms split: if_splits prod.splits)

interpretation ori_ex: alu_executor op_exec_ori "\<lambda>d. {ucast (t6_reg2 (type6 d))}"
  by unfold_locales (auto simp: op_exec_ori_def op_ori_def Let_def chk_forms split: if_splits prod.splits)

interpretation xori_ex: alu_executor op_exec_xori "\<lambda>d. {ucast (t6_reg2 (type6 d))}"
  by unfold_locales (auto simp: op_exec_xori_def op_xori_def Let_def chk_forms split: if_splits prod.splits)

interpretation shl_2_ex: alu_executor op_exec_shl_2 "\<lambda>d. {ucast (t2_reg2 (type2 d))}"
  by unfold_locales (auto simp: op_exec_shl_2_def op_chk_and_set_shl_carry_def op_chk_and_set_shr_carry_def Let_def chk_forms split: if_splits prod.splits)

interpretation shr_2_ex: alu_executor op_exec_shr_2 "\<lambda>d. {ucast (t2_reg2 (type2 d))}"
  by unfold_locales (auto simp: op_exec_shr_2_def op_chk_and_set_shl_carry_def op_chk_and_set_shr_carry_def Let_def chk_forms split: if_splits prod.splits)

interpretation sar_2_ex: alu_executor op_exec_sar_2 "\<lambda>d. {ucast (t2_reg2 (type2 d))}"
  by unfold_locales (auto simp: op_exec_sar_2_def op_chk_and_set_shl_carry_def op_chk_and_set_shr_carry_def Let_def chk_forms split: if_splits prod.splits)

interpretation shl_9_ex: alu_executor op_exec_shl_9 "\<lambda>d. {ucast (t9_reg2 (type9 d))}"
  by unfold_locales (auto simp: op_exec_shl_9_def op_chk_and_set_shl_carry_def op_chk_and_set_shr_carry_def Let_def chk_forms split: if_splits prod.splits)

interpretation shr_9_ex: alu_executor op_exec_shr_9 "\<lambda>d. {ucast (t9_reg2 (type9 d))}"
  by unfold_locales (auto simp: op_exec_shr_9_def op_chk_and_set_shl_carry_def op_chk_and_set_shr_carry_def Let_def chk_forms split: if_splits prod.splits)

interpretation sar_9_ex: alu_executor op_exec_sar_9 "\<lambda>d. {ucast (t9_reg2 (type9 d))}"
  by unfold_locales (auto simp: op_exec_sar_9_def op_chk_and_set_shl_carry_def op_chk_and_set_shr_carry_def Let_def chk_forms split: if_splits prod.splits)

interpretation shl_11_ex: alu_executor op_exec_shl_11 "\<lambda>d. {ucast (t11_reg3 (type11 d))}"
  by unfold_locales (auto simp: op_exec_shl_11_def op_chk_and_set_shl_carry_def op_chk_and_set_shr_carry_def Let_def chk_forms split: if_splits prod.splits)

interpretation shr_11_ex: alu_executor op_exec_shr_11 "\<lambda>d. {ucast (t11_reg3 (type11 d))}"
  by unfold_locales (auto simp: op_exec_shr_11_def op_chk_and_set_shl_carry_def op_chk_and_set_shr_carry_def Let_def chk_forms split: if_splits prod.splits)

interpretation sar_11_ex: alu_executor op_exec_sar_11 "\<lambda>d. {ucast (t11_reg3 (type11 d))}"
  by unfold_locales (auto simp: op_exec_sar_11_def op_chk_and_set_shl_carry_def op_chk_and_set_shr_carry_def Let_def chk_forms split: if_splits prod.splits)

interpretation hsh_12_ex: alu_executor op_exec_hsh_12 "\<lambda>d. {ucast (t12_reg3 (type12 d))}"
  by unfold_locales (auto simp: op_exec_hsh_12_def Let_def chk_forms split: if_splits prod.splits)

interpretation hsw_12_ex: alu_executor op_exec_hsw_12 "\<lambda>d. {ucast (t12_reg3 (type12 d))}"
  by unfold_locales (auto simp: op_exec_hsw_12_def Let_def chk_forms split: if_splits prod.splits)

interpretation bsh_12_ex: alu_executor op_exec_bsh_12 "\<lambda>d. {ucast (t12_reg3 (type12 d))}"
  by unfold_locales (auto simp: op_exec_bsh_12_def Let_def chk_forms split: if_splits prod.splits)

interpretation bsw_12_ex: alu_executor op_exec_bsw_12 "\<lambda>d. {ucast (t12_reg3 (type12 d))}"
  by unfold_locales (auto simp: op_exec_bsw_12_def Let_def chk_forms split: if_splits prod.splits)

interpretation satadd_1_ex: alu_executor op_exec_satadd_1 "\<lambda>d. {ucast (t1_reg2 (type1 d))}"
  by unfold_locales (auto simp: op_exec_satadd_1_def op_satadd_def Let_def chk_forms split: if_splits prod.splits)

interpretation satsub_1_ex: alu_executor op_exec_satsub_1 "\<lambda>d. {ucast (t1_reg2 (type1 d))}"
  by unfold_locales (auto simp: op_exec_satsub_1_def op_satadd_def Let_def chk_forms split: if_splits prod.splits)

interpretation satsubr_1_ex: alu_executor op_exec_satsubr_1 "\<lambda>d. {ucast (t1_reg2 (type1 d))}"
  by unfold_locales (auto simp: op_exec_satsubr_1_def op_satadd_def Let_def chk_forms split: if_splits prod.splits)

interpretation satadd_2_ex: alu_executor op_exec_satadd_2 "\<lambda>d. {ucast (t2_reg2 (type2 d))}"
  by unfold_locales (auto simp: op_exec_satadd_2_def op_satadd_def Let_def chk_forms split: if_splits prod.splits)

interpretation satsubi_ex: alu_executor op_exec_satsubi "\<lambda>d. {ucast (t6_reg2 (type6 d))}"
  by unfold_locales (auto simp: op_exec_satsubi_def op_satadd_def Let_def chk_forms split: if_splits prod.splits)

interpretation satadd_11_ex: alu_executor op_exec_satadd_11 "\<lambda>d. {ucast (t11_reg3 (type11 d))}"
  by unfold_locales (auto simp: op_exec_satadd_11_def op_satadd_def Let_def chk_forms split: if_splits prod.splits)

interpretation satsub_11_ex: alu_executor op_exec_satsub_11 "\<lambda>d. {ucast (t11_reg3 (type11 d))}"
  by unfold_locales (auto simp: op_exec_satsub_11_def op_satadd_def Let_def chk_forms split: if_splits prod.splits)

end
