(* ===== verification/Logic_Props.thy ===== *)
theory Logic_Props
  imports Exec_Logic Spec_Base
begin

text \<open>
  Correctness of the shifts, with the bit shifted out in CY, and of the saturating additions and
  subtractions.
\<close>

section \<open>Shifts\<close>

lemma and_0x1F: "unat ((x :: u32) AND 0x1F) = unat x mod 32"
proof -
  have "x AND 0x1F = take_bit 5 x" by (simp add: take_bit_eq_mask mask_eq_exp_minus_1)
  then show ?thesis by (simp add: take_bit_eq_mod unat_mod)
qed

definition shl_out :: "u32 \<Rightarrow> nat \<Rightarrow> bool" where
  "shl_out b n = (0 < n \<and> bit b (32 - n))"

definition shr_out :: "u32 \<Rightarrow> nat \<Rightarrow> bool" where
  "shr_out b n = (0 < n \<and> bit b (n - 1))"

lemma shl_carry_form:
  "unat n < 32 \<Longrightarrow> op_chk_and_set_shl_carry b n g = put_flag CPU_PSW_CY (shl_out b (unat n)) g"
  by (auto simp: op_chk_and_set_shl_carry_def shl_out_def put_flag_def and_two_power unat_sub_if'
      word_gt_0 unat_gt_0 push_bit_eq_mult)

lemma shr_carry_form:
  "unat n < 32 \<Longrightarrow> op_chk_and_set_shr_carry b n g = put_flag CPU_PSW_CY (shr_out b (unat n)) g"
  by (cases "n = 0") (auto simp: op_chk_and_set_shr_carry_def shr_out_def put_flag_def and_two_power
      unat_minus_one word_gt_0 unat_gt_0 push_bit_eq_mult)

text \<open>The register shifts use the low five bits of reg1 as the count; SHL multiplies by the
  power of two modulo 2 ^ 32, SHR and SAR divide the unsigned and the signed number rounding down;
  CY is the last bit shifted out, OV is cleared, Z and S follow the result.\<close>

lemma shift_9_correct:
  fixes cpu :: "'b TargetCoreType"
  defines "r1 \<equiv> ucast (t9_gen (type9 (decoded_code cpu))) :: u32"
    and "r2 \<equiv> ucast (t9_reg2 (type9 (decoded_code cpu))) :: u32"
  defines "n \<equiv> unat (regs (reg cpu) r1) mod 32" and "b \<equiv> regs (reg cpu) r2"
  assumes "r1 < CPU_GREG_NUM" and "r2 < CPU_GREG_NUM"
  shows "returns (op_exec_shl_9 cpu) cpu (\<lambda>g. wrote r2 (regs g r2) 4 (reg cpu) g \<and>
            uint (regs g r2) = (uint b * 2 ^ n) mod 2 ^ 32 \<and> alu_post (regs g r2) (shl_out b n) False g) \<and>
         returns (op_exec_shr_9 cpu) cpu (\<lambda>g. wrote r2 (regs g r2) 4 (reg cpu) g \<and>
            uint (regs g r2) = uint b div 2 ^ n \<and> alu_post (regs g r2) (shr_out b n) False g) \<and>
         returns (op_exec_sar_9 cpu) cpu (\<lambda>g. wrote r2 (regs g r2) 4 (reg cpu) g \<and>
            sint (regs g r2) = sint b div 2 ^ n \<and> alu_post (regs g r2) (shr_out b n) False g)"
proof -
  let ?k = "regs (reg cpu) r1 AND 0x1F"
  have k: "unat ?k = n" "unat ?k < 32" by (simp_all add: and_0x1F n_def)
  have v: "uint (push_bit n b) = (uint b * 2 ^ n) mod 2 ^ 32" "uint (drop_bit n b) = uint b div 2 ^ n"
      "sint (signed_drop_bit n b) = sint b div 2 ^ n"
    by (simp_all only: unsigned_push_bit_eq unsigned_drop_bit_eq sint_signed_drop_bit_eq)
       (use uint_range32 [of b] in \<open>simp_all add: push_bit_eq_mult drop_bit_eq_div take_bit_eq_mod mod_pos_pos_trivial\<close>)
  have "op_exec_shl_9 cpu = Ret0 (cpu\<lparr>reg := add_pc 4 (op_chk_and_set_sign (push_bit n b)
      (op_chk_and_set_zero (push_bit n b) (put_flag CPU_PSW_CY (shl_out b n)
        (CPU_CLR CPU_PSW_OV (set_r r2 (push_bit n b) (reg cpu))))))\<rparr>)"
    and "op_exec_shr_9 cpu = Ret0 (cpu\<lparr>reg := add_pc 4 (op_chk_and_set_sign (drop_bit n b)
      (op_chk_and_set_zero (drop_bit n b) (put_flag CPU_PSW_CY (shr_out b n)
        (CPU_CLR CPU_PSW_OV (set_r r2 (drop_bit n b) (reg cpu))))))\<rparr>)"
    and "op_exec_sar_9 cpu = Ret0 (cpu\<lparr>reg := add_pc 4 (op_chk_and_set_sign (signed_drop_bit n b)
      (op_chk_and_set_zero (signed_drop_bit n b) (put_flag CPU_PSW_CY (shr_out b n)
        (CPU_CLR CPU_PSW_OV (set_r r2 (signed_drop_bit n b) (reg cpu))))))\<rparr>)"
    using assms(5,6) k unfolding op_exec_shl_9_def op_exec_shr_9_def op_exec_sar_9_def Let_def
      r1_def [symmetric] r2_def [symmetric] b_def [symmetric]
    by (simp_all add: shl_carry_form shr_carry_form chk_forms not_le)
  then show ?thesis
    using v by (simp only: returns_simps) (simp add: alu_post_def zs_post_def chk_forms)
qed

definition sample_shift :: "nat TargetCoreType" where
  "sample_shift = sample_core (blank_code\<lparr>type9 := \<lparr>t9_opcode = 0x3F, t9_sub = 0, t9_gen = 10, t9_reg2 = 11,
     t9_rfu2 = 0, t9_rfu1 = 0\<rparr>\<rparr>) ((\<lambda>_. 0)(10 := 0x24, 11 := 0xFFFFFF00)) 0 (0 :: nat)"

lemma shift_9_correct_witness:
  "returns (op_exec_sar_9 sample_shift) sample_shift (\<lambda>g. sint (regs g 11) = - 16) \<and>
   returns (op_exec_shr_9 sample_shift) sample_shift (\<lambda>g. uint (regs g 11) = 0x0FFFFFF0)"
  using shift_9_correct [of sample_shift] by (auto simp: sample_shift_def returns_def wrote_def)

text \<open>The three operand SAR shifts logically, like SHR, and all three operand shifts take Z and
  S from the register that was shifted instead of the result.\<close>

lemma shift_11_flags:
  fixes cpu :: "'b TargetCoreType"
  defines "r1 \<equiv> ucast (t11_reg1 (type11 (decoded_code cpu))) :: u32"
    and "r2 \<equiv> ucast (t11_reg2 (type11 (decoded_code cpu))) :: u32"
    and "r3 \<equiv> ucast (t11_reg3 (type11 (decoded_code cpu))) :: u32"
  defines "n \<equiv> unat (regs (reg cpu) r1) mod 32" and "b \<equiv> regs (reg cpu) r2"
  assumes "{r1, r2, r3} \<subseteq> {..<CPU_GREG_NUM}" and "r2 \<noteq> r3"
  shows "op_exec_sar_11 cpu = op_exec_shr_11 cpu \<and>
    returns (op_exec_shr_11 cpu) cpu (\<lambda>g. wrote r3 (drop_bit n b) 4 (reg cpu) g \<and>
      alu_post b (shr_out b n) False g) \<and>
    returns (op_exec_shl_11 cpu) cpu (\<lambda>g. wrote r3 (push_bit n b) 4 (reg cpu) g \<and>
      alu_post b (shl_out b n) False g)"
proof -
  let ?k = "regs (reg cpu) r1 AND 0x1F"
  have k: "unat ?k = n" "unat ?k < 32" by (simp_all add: and_0x1F n_def)
  have "op_exec_shr_11 cpu = Ret0 (cpu\<lparr>reg := add_pc 4 (op_chk_and_set_sign b
      (op_chk_and_set_zero b (put_flag CPU_PSW_CY (shr_out b n)
        (CPU_CLR CPU_PSW_OV (set_r r3 (drop_bit n b) (reg cpu))))))\<rparr>)"
    and "op_exec_shl_11 cpu = Ret0 (cpu\<lparr>reg := add_pc 4 (op_chk_and_set_sign b
      (op_chk_and_set_zero b (put_flag CPU_PSW_CY (shl_out b n)
        (CPU_CLR CPU_PSW_OV (set_r r3 (push_bit n b) (reg cpu))))))\<rparr>)"
    using assms(6,7) k unfolding op_exec_shl_11_def op_exec_shr_11_def Let_def
      r1_def [symmetric] r2_def [symmetric] r3_def [symmetric] b_def [symmetric]
    by (simp_all add: shl_carry_form shr_carry_form chk_forms not_le b_def)
  moreover have "op_exec_sar_11 cpu = op_exec_shr_11 cpu"
    by (simp add: op_exec_sar_11_def op_exec_shr_11_def)
  ultimately show ?thesis
    by (simp only: returns_simps) (simp add: alu_post_def zs_post_def chk_forms)
qed

definition sample_shift3 :: "nat TargetCoreType" where
  "sample_shift3 = sample_core (blank_code\<lparr>type11 := \<lparr>t11_opcode = 0x3F, t11_reg1 = 10, t11_reg2 = 11,
     t11_reg3 = 12, t11_sub1 = 0, t11_sub2 = 0, t11_rfu = 0\<rparr>\<rparr>)
     ((\<lambda>_. 0)(10 := 4, 11 := 0xFFFFFF00)) 0 (0 :: nat)"

lemma shift_11_flags_witness:
  "returns (op_exec_sar_11 sample_shift3) sample_shift3 (\<lambda>g. regs g 12 = 0x0FFFFFF0)"
  using shift_11_flags [of sample_shift3] by (auto simp: sample_shift3_def returns_def wrote_def)

section \<open>Saturation\<close>

definition sat_post :: "int \<Rightarrow> CpuRegisterType \<Rightarrow> CpuRegisterType \<Rightarrow> bool" where
  "sat_post k g g' \<longleftrightarrow>
     CPU_ISSET CPU_PSW_SAT g' = (CPU_ISSET CPU_PSW_SAT g \<or> \<not> in_sint32 k) \<and>
     CPU_ISSET CPU_PSW_OV g' = (\<not> in_sint32 k) \<and>
     CPU_ISSET CPU_PSW_S g' = (k < 0) \<and> CPU_ISSET CPU_PSW_Z g' = (k = 0)"

lemma sat_run:
  fixes a :: u32 and b :: u64
  assumes "\<bar>sint b\<bar> \<le> 2 ^ 32"
    and "exec = Ret0 (cpu\<lparr>reg := add_pc n (set_r r (fst (op_satadd a b (reg cpu))) (snd (op_satadd a b (reg cpu))))\<rparr>)"
  shows "returns exec cpu (\<lambda>g. wrote r (regs g r) n (reg cpu) g \<and>
    sint (regs g r) = clamp32 (sint a + sint b) \<and> sat_post (sint a + sint b) (reg cpu) g)"
  unfolding assms(2)
  using op_satadd_value [OF assms(1), of a "reg cpu"] op_satadd_flags [OF assms(1), of a "reg cpu"]
  by (simp only: returns_simps) (simp add: sat_post_def)

definition sample_sat :: "nat TargetCoreType" where
  "sample_sat = sample_core (blank_code\<lparr>type1 := \<lparr>t1_opcode = 0, t1_reg1 = 10, t1_reg2 = 11\<rparr>\<rparr>)
     ((\<lambda>_. 0)(10 := 0x7FFFFFFF, 11 := 0x7FFFFFFF)) 0 (0 :: nat)"

text \<open>C40: SATADD and SATSUB store the exact sum or difference clamped to the signed range, never
  clear SAT and set it exactly on saturation, and derive OV, S and Z from the exact value.\<close>

lemma satadd_correct:
  fixes cpu :: "'b TargetCoreType"
  defines "r1 \<equiv> ucast (t1_reg1 (type1 (decoded_code cpu))) :: u32"
    and "r2 \<equiv> ucast (t1_reg2 (type1 (decoded_code cpu))) :: u32"
  defines "a \<equiv> sint (regs (reg cpu) r1)" and "b \<equiv> sint (regs (reg cpu) r2)"
  assumes "r1 < CPU_GREG_NUM" and "r2 < CPU_GREG_NUM"
  shows "returns (op_exec_satadd_1 cpu) cpu (\<lambda>g. wrote r2 (regs g r2) 2 (reg cpu) g \<and>
            sint (regs g r2) = clamp32 (b + a) \<and> sat_post (b + a) (reg cpu) g) \<and>
         returns (op_exec_satsub_1 cpu) cpu (\<lambda>g. wrote r2 (regs g r2) 2 (reg cpu) g \<and>
            sint (regs g r2) = clamp32 (b - a) \<and> sat_post (b - a) (reg cpu) g)"
proof -
  have m: "sint (- scast (regs (reg cpu) r1) :: u64) = - a"
    using sint_range32 [of "regs (reg cpu) r1"] by (simp add: a_def sint_minus64)
  have w: "\<bar>sint (scast (regs (reg cpu) r1) :: u64)\<bar> \<le> 2 ^ 32" "\<bar>sint (- scast (regs (reg cpu) r1) :: u64)\<bar> \<le> 2 ^ 32"
    unfolding m using sint_range32 [of "regs (reg cpu) r1"] by (auto simp: a_def)
  have x: "op_exec_satadd_1 cpu = Ret0 (cpu\<lparr>reg := add_pc 2
      (set_r r2 (fst (op_satadd (regs (reg cpu) r2) (scast (regs (reg cpu) r1)) (reg cpu)))
        (snd (op_satadd (regs (reg cpu) r2) (scast (regs (reg cpu) r1)) (reg cpu))))\<rparr>)"
    "op_exec_satsub_1 cpu = Ret0 (cpu\<lparr>reg := add_pc 2
      (set_r r2 (fst (op_satadd (regs (reg cpu) r2) (- scast (regs (reg cpu) r1)) (reg cpu)))
        (snd (op_satadd (regs (reg cpu) r2) (- scast (regs (reg cpu) r1)) (reg cpu))))\<rparr>)"
    using assms by (simp_all add: op_exec_satadd_1_def op_exec_satsub_1_def Let_def not_le split_beta)
  show ?thesis
    using sat_run [OF w(1) x(1)] sat_run [OF w(2) x(2)]
    unfolding m sint_scast_32_64 a_def [symmetric] b_def [symmetric] by simp
qed

lemma satadd_correct_witness:
  "returns (op_exec_satadd_1 sample_sat) sample_sat (\<lambda>g. sint (regs g 11) = 2147483647 \<and>
     CPU_ISSET CPU_PSW_SAT g)"
  using satadd_correct [of sample_sat]
  by (auto simp: sample_sat_def returns_def wrote_def sat_post_def clamp32_def in_sint32_def)

end
