(* ===== verification/Fpu_Sys.thy ===== *)
theory Fpu_Sys
  imports Cpu_Ops
begin

text \<open>
  The system registers of the floating point unit: the accessors of
  \<^verbatim>\<open>cpu_common/cpu_fpu_ops.h\<close> that keep FPSR and its views FPST, FPCC and FPCFG together,
  and \<open>fpu_sync_sysreg\<close> of \<^verbatim>\<open>op_exec_fpu.c\<close>.
\<close>

abbreviation (input) SYS_REG_FPST :: u32 where "SYS_REG_FPST \<equiv> 8"
abbreviation (input) SYS_REG_FPCC :: u32 where "SYS_REG_FPCC \<equiv> 9"
abbreviation (input) SYS_REG_FPCFG :: u32 where "SYS_REG_FPCFG \<equiv> 10"
abbreviation (input) SYS_REG_FPEC :: u32 where "SYS_REG_FPEC \<equiv> 11"

section \<open>Bit fields\<close>

text \<open>
  The macros \<open>SYS_GET_DATAn\<close> and \<open>SYS_SET_DATAn\<close> with the field mask as an argument.
  \<open>SYS_SET_DATA8\<close> clears sixteen bits.
\<close>

definition SYS_GET_DATA :: "u8 \<Rightarrow> u32 \<Rightarrow> nat \<Rightarrow> u8" where
  "SYS_GET_DATA msk v bitpos = ucast (drop_bit bitpos v) AND msk"

definition SYS_SET_DATA :: "u32 \<Rightarrow> u32 \<Rightarrow> nat \<Rightarrow> u8 \<Rightarrow> u32" where
  "SYS_SET_DATA msk v bitpos data8 =
     (v AND NOT (push_bit bitpos msk)) OR push_bit bitpos (ucast data8)"

definition fp_reg :: "u32 \<Rightarrow> CpuRegisterType \<Rightarrow> u32" where
  "fp_reg regid g = cpu_get_sysreg2 SYS_GRP_CPU regid g"

definition set_fp_reg :: "u32 \<Rightarrow> u32 \<Rightarrow> CpuRegisterType \<Rightarrow> CpuRegisterType" where
  "set_fp_reg regid v g = cpu_set_sysreg2 SYS_GRP_CPU regid v g"

lemma fp_reg_set [simp]:
  "fp_reg r (set_fp_reg r' v g) = (if r = r' then v else fp_reg r g)"
  by (simp add: fp_reg_def set_fp_reg_def cpu_get_sysreg2_def cpu_set_sysreg2_def)

section \<open>Accessors\<close>

definition sys_set_fpsr_cc :: "u8 \<Rightarrow> CpuRegisterType \<Rightarrow> CpuRegisterType" where
  "sys_set_fpsr_cc data g =
     (let g = set_fp_reg SYS_REG_FPSR (SYS_SET_DATA 0xFFFF (fp_reg SYS_REG_FPSR g) 24 data) g
      in set_fp_reg SYS_REG_FPCC (SYS_SET_DATA 0xFFFF (fp_reg SYS_REG_FPCC g) 0 data) g)"

definition sys_get_fpsr_cc :: "CpuRegisterType \<Rightarrow> u8" where
  "sys_get_fpsr_cc g = SYS_GET_DATA 0xFF (fp_reg SYS_REG_FPSR g) 24"

definition sys_isset_fpsr_if :: "CpuRegisterType \<Rightarrow> bool" where
  "sys_isset_fpsr_if g = (fp_reg SYS_REG_FPSR g AND push_bit 22 1 \<noteq> 0)"

definition sys_set_fpsr_if :: "CpuRegisterType \<Rightarrow> CpuRegisterType" where
  "sys_set_fpsr_if g =
     (let g = set_fp_reg SYS_REG_FPSR (fp_reg SYS_REG_FPSR g OR push_bit 22 1) g
      in set_fp_reg SYS_REG_FPST (fp_reg SYS_REG_FPST g OR push_bit 5 1) g)"

definition sys_clr_fpsr_if :: "CpuRegisterType \<Rightarrow> CpuRegisterType" where
  "sys_clr_fpsr_if g =
     (let g = set_fp_reg SYS_REG_FPSR (fp_reg SYS_REG_FPSR g AND NOT (push_bit 22 1)) g
      in set_fp_reg SYS_REG_FPST (fp_reg SYS_REG_FPST g AND NOT (push_bit 5 1)) g)"

definition sys_get_fpsr_rm :: "CpuRegisterType \<Rightarrow> u8" where
  "sys_get_fpsr_rm g = SYS_GET_DATA 0x03 (fp_reg SYS_REG_FPSR g) 18"

definition sys_set_fpsr_rm :: "u8 \<Rightarrow> CpuRegisterType \<Rightarrow> CpuRegisterType" where
  "sys_set_fpsr_rm data g =
     (let g = set_fp_reg SYS_REG_FPSR (SYS_SET_DATA 0x0003 (fp_reg SYS_REG_FPSR g) 18 data) g
      in set_fp_reg SYS_REG_FPCFG (SYS_SET_DATA 0x0003 (fp_reg SYS_REG_FPCFG g) 8 data) g)"

definition sys_set_fpsr_xc :: "u8 \<Rightarrow> CpuRegisterType \<Rightarrow> CpuRegisterType" where
  "sys_set_fpsr_xc data g =
     (let g = set_fp_reg SYS_REG_FPSR (SYS_SET_DATA 0x003F (fp_reg SYS_REG_FPSR g) 10 data) g
      in set_fp_reg SYS_REG_FPST (SYS_SET_DATA 0x003F (fp_reg SYS_REG_FPST g) 8 data) g)"

definition sys_set_fpsr_xe :: "u8 \<Rightarrow> CpuRegisterType \<Rightarrow> CpuRegisterType" where
  "sys_set_fpsr_xe data g =
     (let g = set_fp_reg SYS_REG_FPSR (SYS_SET_DATA 0x001F (fp_reg SYS_REG_FPSR g) 5 data) g
      in set_fp_reg SYS_REG_FPCFG (SYS_SET_DATA 0x001F (fp_reg SYS_REG_FPCFG g) 0 data) g)"

definition sys_set_fpsr_xp :: "u8 \<Rightarrow> CpuRegisterType \<Rightarrow> CpuRegisterType" where
  "sys_set_fpsr_xp data g =
     (let g = set_fp_reg SYS_REG_FPSR (SYS_SET_DATA 0x001F (fp_reg SYS_REG_FPSR g) 0 data) g
      in set_fp_reg SYS_REG_FPST (SYS_SET_DATA 0x001F (fp_reg SYS_REG_FPST g) 0 data) g)"

definition sys_get_fpst_xc :: "CpuRegisterType \<Rightarrow> u8" where
  "sys_get_fpst_xc g = SYS_GET_DATA 0x3F (fp_reg SYS_REG_FPST g) 8"

definition sys_get_fpst_xp :: "CpuRegisterType \<Rightarrow> u8" where
  "sys_get_fpst_xp g = SYS_GET_DATA 0x1F (fp_reg SYS_REG_FPST g) 0"

definition sys_isset_fpst_if :: "CpuRegisterType \<Rightarrow> bool" where
  "sys_isset_fpst_if g = (fp_reg SYS_REG_FPST g AND push_bit 5 1 \<noteq> 0)"

definition sys_get_fpcc_cc :: "CpuRegisterType \<Rightarrow> u8" where
  "sys_get_fpcc_cc g = SYS_GET_DATA 0xFF (fp_reg SYS_REG_FPCC g) 0"

definition sys_get_fpcfg_rm :: "CpuRegisterType \<Rightarrow> u8" where
  "sys_get_fpcfg_rm g = SYS_GET_DATA 0x03 (fp_reg SYS_REG_FPCFG g) 8"

definition sys_get_fpcfg_xe :: "CpuRegisterType \<Rightarrow> u8" where
  "sys_get_fpcfg_xe g = SYS_GET_DATA 0x1F (fp_reg SYS_REG_FPCFG g) 0"

section \<open>Further accessors\<close>

text \<open>The rest of the header, which no executor uses.  \<^verbatim>\<open>fpepc\<close> is the register FEPC there.\<close>

definition sys_isset_fpsr_fn :: "CpuRegisterType \<Rightarrow> bool" where
  "sys_isset_fpsr_fn g = (fp_reg SYS_REG_FPSR g AND push_bit 23 1 \<noteq> 0)"

definition sys_set_fpsr_fn :: "CpuRegisterType \<Rightarrow> CpuRegisterType" where
  "sys_set_fpsr_fn g = set_fp_reg SYS_REG_FPSR (fp_reg SYS_REG_FPSR g OR push_bit 23 1) g"

definition sys_clr_fpsr_fn :: "CpuRegisterType \<Rightarrow> CpuRegisterType" where
  "sys_clr_fpsr_fn g = set_fp_reg SYS_REG_FPSR (fp_reg SYS_REG_FPSR g AND NOT (push_bit 23 1)) g"

definition sys_isset_fpsr_pem :: "CpuRegisterType \<Rightarrow> bool" where
  "sys_isset_fpsr_pem g = (fp_reg SYS_REG_FPSR g AND push_bit 21 1 \<noteq> 0)"

definition sys_set_fpsr_pem :: "CpuRegisterType \<Rightarrow> CpuRegisterType" where
  "sys_set_fpsr_pem g = set_fp_reg SYS_REG_FPSR (fp_reg SYS_REG_FPSR g OR push_bit 21 1) g"

definition sys_clr_fpsr_pem :: "CpuRegisterType \<Rightarrow> CpuRegisterType" where
  "sys_clr_fpsr_pem g = set_fp_reg SYS_REG_FPSR (fp_reg SYS_REG_FPSR g AND NOT (push_bit 21 1)) g"

definition sys_isset_fpsr_fs :: "CpuRegisterType \<Rightarrow> bool" where
  "sys_isset_fpsr_fs g = (fp_reg SYS_REG_FPSR g AND push_bit 17 1 \<noteq> 0)"

definition sys_set_fpsr_fs :: "CpuRegisterType \<Rightarrow> CpuRegisterType" where
  "sys_set_fpsr_fs g = set_fp_reg SYS_REG_FPSR (fp_reg SYS_REG_FPSR g OR push_bit 17 1) g"

definition sys_clr_fpsr_fs :: "CpuRegisterType \<Rightarrow> CpuRegisterType" where
  "sys_clr_fpsr_fs g = set_fp_reg SYS_REG_FPSR (fp_reg SYS_REG_FPSR g AND NOT (push_bit 17 1)) g"

definition sys_isset_fpsr_xc :: "CpuRegisterType \<Rightarrow> u8 \<Rightarrow> bool" where
  "sys_isset_fpsr_xc g data \<longleftrightarrow> SYS_GET_DATA 0x3F (fp_reg SYS_REG_FPSR g) 10 AND data \<noteq> 0"

definition sys_isset_fpsr_xe :: "CpuRegisterType \<Rightarrow> u8 \<Rightarrow> bool" where
  "sys_isset_fpsr_xe g data \<longleftrightarrow> SYS_GET_DATA 0x1F (fp_reg SYS_REG_FPSR g) 5 AND data \<noteq> 0"

definition sys_isset_fpsr_xp :: "CpuRegisterType \<Rightarrow> u8 \<Rightarrow> bool" where
  "sys_isset_fpsr_xp g data \<longleftrightarrow> SYS_GET_DATA 0x1F (fp_reg SYS_REG_FPSR g) 0 AND data \<noteq> 0"

definition sys_get_fpepc_pc :: "CpuRegisterType \<Rightarrow> u32" where
  "sys_get_fpepc_pc g = fp_reg SYS_REG_FEPC g"

definition sys_set_fpepc_pc :: "u32 \<Rightarrow> CpuRegisterType \<Rightarrow> CpuRegisterType" where
  "sys_set_fpepc_pc data g = set_fp_reg SYS_REG_FEPC (data AND 0xFFFFFFFE) g"

definition sys_isset_fpst_xc :: "CpuRegisterType \<Rightarrow> u8 \<Rightarrow> bool" where
  "sys_isset_fpst_xc g data \<longleftrightarrow> SYS_GET_DATA 0x3F (fp_reg SYS_REG_FPST g) 8 AND data \<noteq> 0"

definition sys_isset_fpst_xp :: "CpuRegisterType \<Rightarrow> u8 \<Rightarrow> bool" where
  "sys_isset_fpst_xp g data \<longleftrightarrow> SYS_GET_DATA 0x1F (fp_reg SYS_REG_FPST g) 0 AND data \<noteq> 0"

definition sys_set_fpst_if :: "CpuRegisterType \<Rightarrow> CpuRegisterType" where
  "sys_set_fpst_if g = sys_set_fpsr_if g"

definition sys_clr_fpst_if :: "CpuRegisterType \<Rightarrow> CpuRegisterType" where
  "sys_clr_fpst_if g = sys_clr_fpsr_if g"

definition sys_set_fpcc_cc :: "u8 \<Rightarrow> CpuRegisterType \<Rightarrow> CpuRegisterType" where
  "sys_set_fpcc_cc data g = sys_set_fpsr_cc data g"

definition sys_set_fpcfg_rm :: "u8 \<Rightarrow> CpuRegisterType \<Rightarrow> CpuRegisterType" where
  "sys_set_fpcfg_rm data g = sys_set_fpsr_rm data g"

definition sys_set_fpcfg_xe :: "u8 \<Rightarrow> CpuRegisterType \<Rightarrow> CpuRegisterType" where
  "sys_set_fpcfg_xe data g = sys_set_fpsr_xe data g"

definition sys_isset_fpcfg_xe :: "CpuRegisterType \<Rightarrow> u8 \<Rightarrow> bool" where
  "sys_isset_fpcfg_xe g data \<longleftrightarrow> SYS_GET_DATA 0x1F (fp_reg SYS_REG_FPCFG g) 0 AND data \<noteq> 0"

definition sys_set_fpec_fpivd :: "CpuRegisterType \<Rightarrow> CpuRegisterType" where
  "sys_set_fpec_fpivd g = set_fp_reg SYS_REG_FPEC (fp_reg SYS_REG_FPEC g OR push_bit 0 1) g"

definition sys_clr_fpec_fpivd :: "CpuRegisterType \<Rightarrow> CpuRegisterType" where
  "sys_clr_fpec_fpivd g = set_fp_reg SYS_REG_FPEC (fp_reg SYS_REG_FPEC g AND NOT (push_bit 0 1)) g"

definition sys_isset_fpec_fpivd :: "CpuRegisterType \<Rightarrow> bool" where
  "sys_isset_fpec_fpivd g = (fp_reg SYS_REG_FPEC g AND push_bit 0 1 \<noteq> 0)"

section \<open>Synchronisation\<close>

definition fpu_sync_sysreg :: "u32 \<Rightarrow> u32 \<Rightarrow> CpuRegisterType \<Rightarrow> CpuRegisterType" where
  "fpu_sync_sysreg regid selid g =
     (if selid \<noteq> SYS_GRP_CPU then g
      else if regid = SYS_REG_FPST then
        let g = sys_set_fpsr_xc (sys_get_fpst_xc g) g;
            g = sys_set_fpsr_xp (sys_get_fpst_xp g) g
        in if sys_isset_fpst_if g then sys_set_fpsr_if g else sys_clr_fpsr_if g
      else if regid = SYS_REG_FPCC then sys_set_fpsr_cc (sys_get_fpcc_cc g) g
      else if regid = SYS_REG_FPCFG then
        let g = sys_set_fpsr_rm (sys_get_fpcfg_rm g) g
        in sys_set_fpsr_xe (sys_get_fpcfg_xe g) g
      else g)"

text \<open>
  After the synchronisation the fields of FPSR are those of the view that was written, whatever
  FPSR held before.
\<close>

definition fpsr_fields_follow :: "u32 \<Rightarrow> CpuRegisterType \<Rightarrow> bool" where
  "fpsr_fields_follow regid g =
     (let fpsr = fp_reg SYS_REG_FPSR g in
      if regid = SYS_REG_FPST then
        SYS_GET_DATA 0x3F fpsr 10 = sys_get_fpst_xc g \<and> SYS_GET_DATA 0x1F fpsr 0 = sys_get_fpst_xp g \<and>
        sys_isset_fpsr_if g = sys_isset_fpst_if g
      else if regid = SYS_REG_FPCC then sys_get_fpsr_cc g = sys_get_fpcc_cc g
      else if regid = SYS_REG_FPCFG then
        sys_get_fpsr_rm g = sys_get_fpcfg_rm g \<and> SYS_GET_DATA 0x1F fpsr 5 = sys_get_fpcfg_xe g
      else True)"

lemmas fpu_defs = sys_set_fpsr_cc_def sys_get_fpsr_cc_def sys_isset_fpsr_if_def sys_set_fpsr_if_def
  sys_clr_fpsr_if_def sys_get_fpsr_rm_def sys_set_fpsr_rm_def sys_set_fpsr_xc_def
  sys_set_fpsr_xe_def sys_set_fpsr_xp_def sys_get_fpst_xc_def sys_get_fpst_xp_def
  sys_isset_fpst_if_def sys_get_fpcc_cc_def sys_get_fpcfg_rm_def sys_get_fpcfg_xe_def
  SYS_GET_DATA_def SYS_SET_DATA_def

end
