(* ===== verification/Exec_Spec.thy ===== *)
theory Exec_Spec
  imports Exec_Base Mpu Fpu_Sys
begin

text \<open>
  The special instructions of \<^verbatim>\<open>op_exec_spec.c\<close> and \<^verbatim>\<open>op_exec_spec_rh850.c\<close>: halt,
  table jump, compare and exchange, system registers, exceptions and their returns, and the
  stack frame instructions.
\<close>

section \<open>Halt, switch, compare and exchange\<close>

definition op_exec_halt :: "'b TargetCoreType \<Rightarrow> 'b TargetCoreType outcome" where
  "op_exec_halt cpu = Ret0 (cpu\<lparr>is_halt := True, reg := add_pc 4 (reg cpu)\<rparr>)"

definition op_exec_switch :: "'b bus_ops \<Rightarrow> 'b TargetCoreType \<Rightarrow> 'b TargetCoreType outcome" where
  "op_exec_switch B cpu =
     (let reg1 = ucast (t1_reg1 (type1 (decoded_code cpu))) :: u32
      in if reg1 \<ge> CPU_GREG_NUM then RetErr cpu
         else
          let reg1_data = regs (reg cpu) reg1;
              addr = (pc (reg cpu) + 2) + push_bit 1 reg1_data
          in get16 B addr cpu (\<lambda>data16 cpu.
               let tmp_pc = scast data16 :: u32;
                   tmp_pc = push_bit 1 tmp_pc;
                   next_pc = (pc (reg cpu) + 2) + tmp_pc
               in Ret0 (cpu\<lparr>reg := (reg cpu)\<lparr>pc := next_pc\<rparr>\<rparr>)))"

definition op_exec_caxi :: "'b bus_ops \<Rightarrow> 'b TargetCoreType \<Rightarrow> 'b TargetCoreType outcome" where
  "op_exec_caxi B cpu =
     (let d = type11 (decoded_code cpu);
          reg1 = ucast (t11_reg1 d) :: u32;
          reg2 = ucast (t11_reg2 d) :: u32;
          reg3 = ucast (t11_reg3 d) :: u32;
          reg1_addr = regs (reg cpu) reg1 AND 0xFFFFFFFC;
          reg2_data = regs (reg cpu) reg2;
          reg3_data = regs (reg cpu) reg3
      in get16 B reg1_addr cpu (\<lambda>token cpu.
           let result = ucast (reg2_data - scast token) :: u16;
               put_data = (if result = 0 then ucast reg3_data else token) :: u16
           in put16 B reg1_addr put_data cpu (\<lambda>cpu.
                let g = set_r reg3 (ucast token) (reg cpu);
                    g = op_chk_and_set_borrow reg2_data (scast token) g;
                    g = op_chk_and_set_overflow (ucast reg2_data) (- scast token) g;
                    g = op_chk_and_set_zero (scast result) g;
                    g = op_chk_and_set_sign (scast result) g
                in Ret0 (cpu\<lparr>reg := add_pc 4 g\<rparr>))))"

section \<open>System registers\<close>

definition sys_reg_access_has_permission :: "'b TargetCoreType \<Rightarrow> u32 \<Rightarrow> u32 \<Rightarrow> bool" where
  "sys_reg_access_has_permission cpu regid selid =
     (if selid = SYS_GRP_CPU \<and> regid = SYS_REG_PSW then True
      else if CPU_ISSET CPU_PSW_UM (reg cpu) then False
      else True)"

definition raise_PIE :: "'b TargetCoreType \<Rightarrow> 'b TargetCoreType" where
  "raise_PIE cpu = cpu\<lparr>current_code_exception :=
     \<lparr>is_code_exception = True, exception_type = ExceptionId_PIE\<rparr>\<rparr>"

definition INTCFG_ISPC :: "CpuRegisterType \<Rightarrow> bool" where
  "INTCFG_ISPC g = (cpu_get_sysreg2 SYS_GRP_2 SYS_REG_INTCFG g AND push_bit 0 1 \<noteq> 0)"

text \<open>
  The group number comes from five bits of the code, the array has \<open>SYS_GRP_NUM\<close> groups:
  a larger number addresses memory behind it.  The protection unit hook is called with the group
  in the place of the register number, as the code does.
\<close>

definition op_exec_ldsr :: "'b TargetCoreType \<Rightarrow> 'b TargetCoreType outcome" where
  "op_exec_ldsr cpu =
     (let d = type9 (decoded_code cpu);
          regid = ucast (t9_reg2 d) :: u32;
          reg2 = ucast (t9_gen d) :: u32;
          selid = ucast (t9_rfu2 d) :: u32
      in if reg2 \<ge> CPU_GREG_NUM then RetErr cpu
         else if regid \<ge> CPU_GREG_NUM then RetErr cpu
         else if \<not> sys_reg_access_has_permission cpu regid selid then Ret0 (raise_PIE cpu)
         else if selid \<ge> SYS_GRP_NUM then Fault IndexFault
         else
          let g = reg cpu;
              data = regs g reg2;
              cpu =
               (if selid = SYS_GRP_2 \<and> regid = SYS_REG_ISPR then
                  if INTCFG_ISPC g then cpu\<lparr>reg := cpu_set_sysreg2 selid regid data g\<rparr> else cpu
                else if selid = SYS_GRP_CPU \<and> regid = SYS_REG_PSW then
                  if CPU_ISSET CPU_PSW_UM g
                  then cpu\<lparr>reg := cpu_set_sysreg2 selid regid
                         (cpu_get_sysreg2 selid regid g OR (data AND 0x0000001F)) g\<rparr>
                  else cpu\<lparr>reg := cpu_set_sysreg2 selid regid data g\<rparr>
                else if selid = SYS_GRP_5 \<and> regid = SYS_REG_MCC then target_mpu_check cpu
                else if selid = SYS_GRP_5 \<or> selid = SYS_GRP_6 \<or> selid = SYS_GRP_7 then
                  let (data, cpu) = target_mpu_hook_access cpu data MPU_TARGET_ACCESS_WRITE
                                      (ucast selid) (ucast regid);
                      cpu = cpu\<lparr>reg := cpu_set_sysreg2 selid regid data (reg cpu)\<rparr>
                  in target_mpu_set_config cpu
                else cpu\<lparr>reg := cpu_set_sysreg2 selid regid data g\<rparr>);
              g = fpu_sync_sysreg regid selid (reg cpu)
          in Ret0 (cpu\<lparr>reg := add_pc 4 g\<rparr>))"

definition op_exec_stsr :: "'b TargetCoreType \<Rightarrow> 'b TargetCoreType outcome" where
  "op_exec_stsr cpu =
     (let d = type9 (decoded_code cpu);
          regid = ucast (t9_gen d) :: u32;
          reg2 = ucast (t9_reg2 d) :: u32;
          selid = ucast (t9_rfu2 d) :: u32
      in if reg2 \<ge> CPU_GREG_NUM then RetErr cpu
         else if regid \<ge> CPU_GREG_NUM then RetErr cpu
         else if \<not> sys_reg_access_has_permission cpu regid selid then Ret0 (raise_PIE cpu)
         else if selid \<ge> SYS_GRP_NUM then Fault IndexFault
         else
          let g = set_r reg2 (cpu_get_sysreg2 selid regid (reg cpu)) (reg cpu)
          in Ret0 (cpu\<lparr>reg := add_pc 4 g\<rparr>))"

definition op_exec_diei :: "'b TargetCoreType \<Rightarrow> 'b TargetCoreType outcome" where
  "op_exec_diei cpu =
     (let g = reg cpu;
          mctl = cpu_get_sysreg2 SYS_GRP_1 SYS_REG_MCTL g
      in if mctl AND push_bit 0 1 = 0 \<and> CPU_ISSET CPU_PSW_UM g then RetErr (raise_PIE cpu)
         else
          let g = (if t10_gen1 (type10 (decoded_code cpu)) = 0x04
                   then CPU_CLR CPU_PSW_ID g else CPU_SET CPU_PSW_ID g)
          in Ret0 (cpu\<lparr>reg := add_pc 4 g\<rparr>))"

definition op_exec_nop :: "'b TargetCoreType \<Rightarrow> 'b TargetCoreType outcome" where
  "op_exec_nop cpu = Ret0 (cpu\<lparr>reg := add_pc 2 (reg cpu)\<rparr>)"

definition op_exec_synce_1 :: "'b TargetCoreType \<Rightarrow> 'b TargetCoreType outcome" where
  "op_exec_synce_1 cpu = Ret0 (cpu\<lparr>reg := add_pc 2 (reg cpu)\<rparr>)"

definition op_exec_synci_1 :: "'b TargetCoreType \<Rightarrow> 'b TargetCoreType outcome" where
  "op_exec_synci_1 cpu = Ret0 (cpu\<lparr>reg := add_pc 2 (reg cpu)\<rparr>)"

definition op_exec_syncm_1 :: "'b TargetCoreType \<Rightarrow> 'b TargetCoreType outcome" where
  "op_exec_syncm_1 cpu = Ret0 (cpu\<lparr>reg := add_pc 2 (reg cpu)\<rparr>)"

definition op_exec_syncp_1 :: "'b TargetCoreType \<Rightarrow> 'b TargetCoreType outcome" where
  "op_exec_syncp_1 cpu = Ret0 (cpu\<lparr>reg := add_pc 2 (reg cpu)\<rparr>)"

section \<open>Exceptions\<close>

definition SYS_REG_EIPC_GET :: "CpuRegisterType \<Rightarrow> u32" where
  "SYS_REG_EIPC_GET g = cpu_base SYS_REG_EIPC g AND 0xFFFFFFFE"

definition SYS_REG_FEPC_GET :: "CpuRegisterType \<Rightarrow> u32" where
  "SYS_REG_FEPC_GET g = cpu_base SYS_REG_FEPC g AND 0xFFFFFFFE"

definition op_exec_feret_10 :: "'b bus_ops \<Rightarrow> 'b TargetCoreType \<Rightarrow> 'b TargetCoreType outcome" where
  "op_exec_feret_10 B cpu =
     (let g = (reg cpu)\<lparr>pc := SYS_REG_FEPC_GET (reg cpu)\<rparr>;
          g = set_cpu_base SYS_REG_PSW (cpu_base SYS_REG_FEPSW g) g;
          cpu = cpu\<lparr>reg := g\<rparr>
      in Ret0 (intc_clr_fe B (core_id cpu) cpu))"

definition op_exec_eiret_10 :: "'b bus_ops \<Rightarrow> 'b TargetCoreType \<Rightarrow> 'b TargetCoreType outcome" where
  "op_exec_eiret_10 B cpu =
     (let g = (reg cpu)\<lparr>pc := SYS_REG_EIPC_GET (reg cpu)\<rparr>;
          g = set_cpu_base SYS_REG_PSW (cpu_base SYS_REG_EIPSW g) g;
          cpu = cpu\<lparr>reg := g\<rparr>
      in Ret0 (intc_clr_ei B (core_id cpu) cpu))"

definition op_exec_reti :: "'b bus_ops \<Rightarrow> 'b TargetCoreType \<Rightarrow> 'b TargetCoreType outcome" where
  "op_exec_reti B cpu =
     (if CPU_ISSET CPU_PSW_NP (reg cpu)
      then
        let g = (reg cpu)\<lparr>pc := SYS_REG_FEPC_GET (reg cpu)\<rparr>;
            g = set_cpu_base SYS_REG_PSW (cpu_base SYS_REG_FEPSW g) g;
            cpu = cpu\<lparr>reg := g\<rparr>
        in Ret0 (intc_clr_fe B (core_id cpu) cpu)
      else
        let g = (reg cpu)\<lparr>pc := SYS_REG_EIPC_GET (reg cpu)\<rparr>;
            g = set_cpu_base SYS_REG_PSW (cpu_base SYS_REG_EIPSW g) g;
            cpu = cpu\<lparr>reg := g\<rparr>
        in Ret0 (intc_clr_ei B (core_id cpu) cpu))"

definition op_exec_trap :: "'b TargetCoreType \<Rightarrow> 'b TargetCoreType outcome" where
  "op_exec_trap cpu =
     (let vector = t10_gen2 (type10 (decoded_code cpu));
          g = reg cpu;
          sel = (if vector \<le> 0x0F then Some (0x40, 0x40 + vector)
                 else if vector \<le> 0x1F then Some (0x50, 0x50 + (0x0F AND vector))
                 else None)
      in case sel of
           None \<Rightarrow> Ret0 cpu
         | Some (new_pc, eicc) \<Rightarrow>
            (let g = set_cpu_base SYS_REG_EIPC (pc g + 4) g;
                 g = set_cpu_base SYS_REG_EIPSW (cpu_base SYS_REG_PSW g) g;
                 ecr = cpu_base SYS_REG_ECR g;
                 ecr = ecr AND 0x0000FFFF;
                 ecr = ecr OR push_bit 16 eicc;
                 g = set_cpu_base SYS_REG_ECR ecr g;
                 g = CPU_SET CPU_PSW_EP g;
                 g = CPU_SET CPU_PSW_ID g
             in Ret0 (cpu\<lparr>reg := g\<lparr>pc := new_pc\<rparr>\<rparr>)))"

definition op_exec_fetrap_1 :: "'b TargetCoreType \<Rightarrow> 'b TargetCoreType outcome" where
  "op_exec_fetrap_1 cpu =
     (let g = reg cpu;
          vector = ucast (t1_reg2 (type1 (decoded_code cpu))) :: u32;
          psw = cpu_base SYS_REG_PSW g;
          ecr = cpu_base SYS_REG_ECR g;
          fepc = pc g + 2;
          fecc = 0x30 + vector;
          ecr = ecr AND 0x0000FFFF;
          ecr = ecr OR push_bit 16 fecc;
          g = set_cpu_base SYS_REG_FEPC fepc g;
          g = set_cpu_base SYS_REG_FEIC fecc g;
          g = set_cpu_base SYS_REG_FEPSW psw g;
          g = set_cpu_base SYS_REG_ECR ecr g;
          g = CPU_SET CPU_PSW_EP g;
          g = CPU_SET CPU_PSW_ID g;
          g = CPU_SET CPU_PSW_NP g
      in Ret0 (cpu\<lparr>reg := g\<lparr>pc := 0x00000030\<rparr>\<rparr>))"

definition op_exec_syscall_10 :: "'b bus_ops \<Rightarrow> 'b TargetCoreType \<Rightarrow> 'b TargetCoreType outcome" where
  "op_exec_syscall_10 B cpu =
     (let g = reg cpu;
          d = type10 (decoded_code cpu);
          psw = cpu_base SYS_REG_PSW g;
          scbp = cpu_get_sysreg2 SYS_GRP_1 SYS_REG_SCBP g;
          sccfg_size = cpu_get_sysreg2 SYS_GRP_1 SYS_REG_SCCFG g AND 0x000000FF;
          vector8 = push_bit 5 (ucast (t10_rfu3 d)) OR t10_gen2 d;
          eipc = pc g + 4;
          eiic = 0x8000 + vector8;
          ecr = cpu_base SYS_REG_ECR g;
          ecr = ecr AND 0xFFFF0000;
          ecr = ecr OR eiic;
          g = set_cpu_base SYS_REG_EIPC eipc g;
          g = set_cpu_base SYS_REG_EIIC eiic g;
          g = set_cpu_base SYS_REG_EIPSW psw g;
          g = set_cpu_base SYS_REG_ECR ecr g;
          g = CPU_CLR CPU_PSW_UM g;
          g = CPU_SET CPU_PSW_EP g;
          g = CPU_SET CPU_PSW_ID g;
          cpu = cpu\<lparr>reg := g\<rparr>;
          addr = (if vector8 \<le> sccfg_size then scbp + push_bit 2 vector8 else scbp)
      in get32 B addr cpu (\<lambda>data cpu.
           Ret0 (cpu\<lparr>reg := (reg cpu)\<lparr>pc := scbp + data\<rparr>\<rparr>)))"

section \<open>Stack frames\<close>

text \<open>The register loop of \<open>op_exec_prepare\<close>, over the numbers it visits.\<close>

fun prepare_loop :: "'b bus_ops \<Rightarrow> nat list \<Rightarrow> 'b TargetCoreType \<Rightarrow> 'b TargetCoreType outcome" where
  "prepare_loop B [] cpu = Ret0 cpu"
| "prepare_loop B (i # is) cpu =
     (if t13_list (type13 (decoded_code cpu)) i = 0 then prepare_loop B is cpu
      else
       let addr = regs (reg cpu) CPU_REG_SP - 4;
           (has_permission, cpu) =
             target_mpu_has_permission cpu MPU_TARGET_ACCESS_WRITE addr 4
       in if \<not> has_permission then RetErr cpu
          else
           let (ok, cpu) = bus_get_pointer B (core_id cpu) addr cpu
           in if \<not> ok then RetErr cpu
              else
               let cpu = ptr_store32 B (core_id cpu) addr (regs (reg cpu) (of_nat i)) cpu;
                   cpu = cpu\<lparr>reg := set_r CPU_REG_SP addr (reg cpu),
                             real_elaps := real_elaps cpu + 1\<rparr>
               in prepare_loop B is cpu)"

definition op_exec_prepare :: "'b bus_ops \<Rightarrow> 'b TargetCoreType \<Rightarrow> 'b TargetCoreType outcome" where
  "op_exec_prepare B cpu =
     (let d = type13 (decoded_code cpu);
          subop = t13_gen d AND 0x0007;
          ff = drop_bit 3 (t13_gen d);
          imm = push_bit 2 (t13_imm d)
      in case prepare_loop B [20..<32] cpu of
           RetErr cpu \<Rightarrow> RetErr cpu
         | Fault f \<Rightarrow> Fault f
         | Ret0 cpu \<Rightarrow>
            (let cpu = cpu\<lparr>reg := set_r CPU_REG_SP (regs (reg cpu) CPU_REG_SP - imm) (reg cpu)\<rparr>
             in if subop = 1 then Ret0 (cpu\<lparr>reg := add_pc 4 (reg cpu)\<rparr>)
                else
                 let addr = pc (reg cpu) + 4
                 in getp B addr cpu (\<lambda>cpu.
                      let g = reg cpu
                      in if ff = 0b00 then Ret0 (cpu\<lparr>reg := add_pc 4 (set_r 30 (regs g CPU_REG_SP) g)\<rparr>)
                         else if ff = 0b01 then
                           Ret0 (cpu\<lparr>reg := add_pc 6 (set_r 30 (scast (ptr_load16 B (core_id cpu) addr cpu)) g)\<rparr>)
                         else if ff = 0b10 then
                           Ret0 (cpu\<lparr>reg := add_pc 6
                             (set_r 30 (push_bit 16 (ucast (ptr_load16 B (core_id cpu) addr cpu))) g)\<rparr>)
                         else if ff = 0b11 then
                           Ret0 (cpu\<lparr>reg := add_pc 8 (set_r 30 (ptr_load32 B (core_id cpu) addr cpu) g)\<rparr>)
                         else RetErr cpu)))"

fun dispose_loop :: "'b bus_ops \<Rightarrow> nat list \<Rightarrow> 'b TargetCoreType \<Rightarrow> 'b TargetCoreType outcome" where
  "dispose_loop B [] cpu = Ret0 cpu"
| "dispose_loop B (i # is) cpu =
     (if t13_list (type13 (decoded_code cpu)) i = 0 then dispose_loop B is cpu
      else
       let addr = regs (reg cpu) CPU_REG_SP;
           (has_permission, cpu) =
             target_mpu_has_permission cpu MPU_TARGET_ACCESS_READ addr 4
       in if \<not> has_permission then RetErr cpu
          else
           let (ok, cpu) = bus_get_pointer B (core_id cpu) addr cpu
           in if \<not> ok then RetErr cpu
              else
               let g = set_r (of_nat i) (ptr_load32 B (core_id cpu) addr cpu) (reg cpu);
                   cpu = cpu\<lparr>reg := set_r CPU_REG_SP (addr + 4) g,
                             real_elaps := real_elaps cpu + 1\<rparr>
               in dispose_loop B is cpu)"

definition op_exec_dispose :: "'b bus_ops \<Rightarrow> 'b TargetCoreType \<Rightarrow> 'b TargetCoreType outcome" where
  "op_exec_dispose B cpu =
     (let d = type13 (decoded_code cpu);
          reg1 = ucast (t13_gen d) :: u32;
          imm = push_bit 2 (t13_imm d);
          cpu = cpu\<lparr>real_elaps := 0\<rparr>;
          cpu = cpu\<lparr>reg := set_r CPU_REG_SP (regs (reg cpu) CPU_REG_SP + imm) (reg cpu)\<rparr>
      in case dispose_loop B (rev [20..<32]) cpu of
           RetErr cpu \<Rightarrow> RetErr cpu
         | Fault f \<Rightarrow> Fault f
         | Ret0 cpu \<Rightarrow>
            (if reg1 \<noteq> 0
             then Ret0 (cpu\<lparr>real_elaps := real_elaps cpu + 6,
                            reg := (reg cpu)\<lparr>pc := regs (reg cpu) reg1\<rparr>\<rparr>)
             else Ret0 (cpu\<lparr>real_elaps := real_elaps cpu + 2, reg := add_pc 4 (reg cpu)\<rparr>)))"

text \<open>
  The loops of \<open>op_exec_pushsp_11\<close> and \<open>op_exec_popsp_11\<close> with their 16 bit counter.  An access
  to a register number outside the array ends in \<open>IndexFault\<close>: with \<^verbatim>\<open>rh = 0\<close> the pop
  counter wraps from 0 to 65535, which still satisfies \<^verbatim>\<open>cur >= rh\<close>.
\<close>

function pushsp_loop ::
    "'b bus_ops \<Rightarrow> u16 \<Rightarrow> u16 \<Rightarrow> u32 \<Rightarrow> 'b TargetCoreType \<Rightarrow> (u32 \<times> 'b TargetCoreType) outcome" where
  "pushsp_loop B cur rt tmp_sp cpu =
     (if cur \<le> rt
      then if cur \<ge> 32 then Fault IndexFault
           else
            let tmp_sp = tmp_sp - 4 in
            case bus_put_data32 B (core_id cpu) tmp_sp (regs (reg cpu) (ucast cur)) cpu of
              (ok, cpu) \<Rightarrow>
                if \<not> ok then RetErr (tmp_sp, cpu)
                else pushsp_loop B (cur + 1) rt tmp_sp (cpu\<lparr>real_elaps := real_elaps cpu + 1\<rparr>)
      else Ret0 (tmp_sp, cpu))"
  by pat_completeness auto
termination
proof (relation "measure (\<lambda>(B, cur, rt, s, c). 33 - unat cur)", goal_cases)
  case (2 B cur rt tmp_sp cpu x y z)
  then have "cur < 32" by simp
  from unat_inc [OF this] this have "unat (cur + 1) = Suc (unat cur)" and "unat cur < 32"
    by (simp_all add: word_less_nat_alt)
  then show ?case by simp
qed simp

function popsp_loop ::
    "'b bus_ops \<Rightarrow> u16 \<Rightarrow> u16 \<Rightarrow> u32 \<Rightarrow> 'b TargetCoreType \<Rightarrow> (u32 \<times> 'b TargetCoreType) outcome" where
  "popsp_loop B cur rh tmp_sp cpu =
     (if cur \<ge> rh
      then if cur \<ge> 32 then Fault IndexFault
           else
            case bus_get_data32 B (core_id cpu) tmp_sp cpu of
              (None, cpu) \<Rightarrow> RetErr (tmp_sp, cpu)
            | (Some v, cpu) \<Rightarrow>
                popsp_loop B (cur - 1) rh (tmp_sp + 4)
                  (cpu\<lparr>reg := set_r (ucast cur) v (reg cpu), real_elaps := real_elaps cpu + 1\<rparr>)
      else Ret0 (tmp_sp, cpu))"
  by pat_completeness auto
termination
proof (relation "measure (\<lambda>(B, cur, rh, s, c). if cur < 32 then Suc (unat cur) else 0)", goal_cases)
  case (2 B cur rh tmp_sp cpu x y z)
  then have c: "cur < 32" by simp
  show ?case
  proof (cases "cur = 0")
    case True then show ?thesis by simp
  next
    case False
    then have "unat (cur - 1) = unat cur - 1" and "0 < unat cur"
      by (simp_all add: unat_minus_one unat_gt_0)
    then show ?thesis using c by (auto simp: word_less_nat_alt)
  qed
qed simp

declare pushsp_loop.simps [simp del] popsp_loop.simps [simp del]

definition op_exec_pushsp_11 :: "'b bus_ops \<Rightarrow> 'b TargetCoreType \<Rightarrow> 'b TargetCoreType outcome" where
  "op_exec_pushsp_11 B cpu =
     (let rh = t11_reg1 (type11 (decoded_code cpu));
          rt = t11_reg3 (type11 (decoded_code cpu))
      in if rh > rt then Ret0 (cpu\<lparr>reg := add_pc 4 (reg cpu)\<rparr>)
         else
          case pushsp_loop B rh rt (regs (reg cpu) CPU_REG_SP AND 0xFFFFFFFC) cpu of
            RetErr (_, cpu) \<Rightarrow> RetErr cpu
          | Fault f \<Rightarrow> Fault f
          | Ret0 (tmp_sp, cpu) \<Rightarrow>
              Ret0 (cpu\<lparr>reg := add_pc 4 (set_r CPU_REG_SP tmp_sp (reg cpu))\<rparr>))"

definition op_exec_popsp_11 :: "'b bus_ops \<Rightarrow> 'b TargetCoreType \<Rightarrow> 'b TargetCoreType outcome" where
  "op_exec_popsp_11 B cpu =
     (let rh = t11_reg1 (type11 (decoded_code cpu));
          rt = t11_reg3 (type11 (decoded_code cpu))
      in if rh > rt then Ret0 (cpu\<lparr>reg := add_pc 4 (reg cpu)\<rparr>)
         else
          case popsp_loop B rt rh (regs (reg cpu) CPU_REG_SP AND 0xFFFFFFFC) cpu of
            RetErr (_, cpu) \<Rightarrow> RetErr cpu
          | Fault f \<Rightarrow> Fault f
          | Ret0 (tmp_sp, cpu) \<Rightarrow>
              Ret0 (cpu\<lparr>reg := add_pc 4 (set_r CPU_REG_SP tmp_sp (reg cpu))\<rparr>))"

end
