(* ===== verification/Stack_Props.thy ===== *)
theory Stack_Props
  imports Exec_Spec Spec_Base
begin

text \<open>
  The instructions that save and restore register lists on the stack.  What they need of memory is
  the locale \<open>stack_ram\<close>: word accesses in a region succeed, leave the processor alone, and a
  load returns the word stored last.  Pushing a list of registers and popping it in reverse order
  is proved once, inside the locale, and used for PUSHSP with POPSP and for PREPARE with DISPOSE.
\<close>

definition apart :: "u32 \<Rightarrow> u32 \<Rightarrow> bool" where
  "apart a b \<longleftrightarrow> 4 \<le> a - b \<and> 4 \<le> b - a"

fun push_ext :: "(u32 \<Rightarrow> u32 \<Rightarrow> 'b \<Rightarrow> 'b) \<Rightarrow> u32 list \<Rightarrow> u32 \<Rightarrow> (u32 \<Rightarrow> u32) \<Rightarrow> 'b \<Rightarrow> 'b" where
  "push_ext st [] sp rf e = e"
| "push_ext st (r # rs) sp rf e = push_ext st rs (sp - 4) rf (st (sp - 4) (rf r) e)"

fun pop_regs :: "(u32 \<Rightarrow> 'b \<Rightarrow> u32) \<Rightarrow> u32 list \<Rightarrow> u32 \<Rightarrow> 'b \<Rightarrow> (u32 \<Rightarrow> u32) \<Rightarrow> u32 \<Rightarrow> u32" where
  "pop_regs ld [] sp e rf = rf"
| "pop_regs ld (r # rs) sp e rf = pop_regs ld rs (sp + 4) e (rf(r := ld sp e))"

text \<open>The words below \<open>sp\<close> that \<open>n\<close> pushes write.\<close>

definition stack_slots :: "u32 \<Rightarrow> nat \<Rightarrow> u32 set" where
  "stack_slots sp n = (\<lambda>i. sp - 4 * of_nat (Suc i)) ` {..<n}"

lemma slots_Suc: "stack_slots sp (Suc n) = insert (sp - 4) (stack_slots (sp - 4) n)"
  by (simp add: stack_slots_def lessThan_Suc_eq_insert_0 image_image algebra_simps)

lemma slots_0 [simp]: "stack_slots sp 0 = {}"
  by (simp add: stack_slots_def)

lemma slot_from_below:
  assumes "i < n"
  shows "sp - 4 * of_nat n + 4 * of_nat i \<in> stack_slots sp n"
proof -
  have "n = Suc (n - Suc i) + i" using assms by simp
  then have "(of_nat n :: u32) = of_nat (Suc (n - Suc i)) + of_nat i" by (metis of_nat_add)
  then have "sp - 4 * of_nat n + 4 * of_nat i = sp - 4 * of_nat (Suc (n - Suc i))"
    by (simp only: ring_distribs) simp
  moreover have "n - Suc i < n" using assms by simp
  ultimately show ?thesis unfolding stack_slots_def by blast
qed

text \<open>The registers of \<open>is\<close> that a format 13 list selects.\<close>

definition listed :: "OpDecodedCodeType \<Rightarrow> nat list \<Rightarrow> nat list" where
  "listed d is = filter (\<lambda>i. t13_list (type13 d) i \<noteq> 0) is"

lemma small_word_apart:
  assumes "4 \<le> k" and "k \<le> 256"
  shows "4 \<le> (of_nat k :: u32)" and "4 \<le> - (of_nat k :: u32)"
proof -
  show "4 \<le> (of_nat k :: u32)" using assms by (simp add: word_le_nat_alt unat_of_nat)
  have "- (of_nat k :: u32) = of_nat (4294967296 - k)"
    using assms by (simp add: of_nat_diff)
  moreover have "4 \<le> (of_nat (4294967296 - k) :: u32)"
    using assms by (simp add: word_le_nat_alt unat_of_nat del: of_nat_diff)
  ultimately show "4 \<le> - (of_nat k :: u32)" by (simp only:)
qed

lemma slot_apart:
  assumes "n \<le> 64" and "s \<in> stack_slots sp n"
  shows "apart sp s"
proof -
  obtain i where "i < n" and s: "s = sp - of_nat (4 * Suc i)"
    using assms(2) by (auto simp: stack_slots_def)
  then show ?thesis
    using assms(1) small_word_apart [of "4 * Suc i"] by (simp add: apart_def)
qed

lemma ucast_of_nat16: "c < 65536 \<Longrightarrow> (ucast (of_nat c :: u16) :: u32) = of_nat c"
  by (simp add: word_unat_eq_iff unsigned_ucast_eq unat_of_nat take_bit_nat_eq_self_iff)

text \<open>Clearing the low two bits, as the stack pointer is read.\<close>

lemma aligned_iff: "(x :: u32) AND 0xFFFFFFFC = x \<longleftrightarrow> uint x mod 4 = 0"
proof -
  have "(0xFFFFFFFC :: u32) = NOT (mask 2)" by (simp add: mask_eq_exp_minus_1)
  moreover have "x AND NOT (mask 2) = x \<longleftrightarrow> take_bit 2 x = 0"
    by (auto simp: bit_eq_iff bit_simps)
  moreover have "take_bit 2 x = 0 \<longleftrightarrow> uint x mod 4 = 0"
    by (simp add: word_uint_eq_iff take_bit_eq_mod uint_mod)
  ultimately show ?thesis by simp
qed

lemma aligned_sub:
  assumes "(x :: u32) AND 0xFFFFFFFC = x"
  shows "(x - 4 * y) AND 0xFFFFFFFC = x - 4 * y"
proof -
  have "uint (x - 4 * y) mod 4 = (uint x - 4 * uint y) mod 4"
    by (simp add: uint_word_ariths mod_mod_cancel mod_diff_right_eq)
  also have "\<dots> = uint x mod 4" by presburger
  finally show ?thesis using assms by (simp add: aligned_iff)
qed

lemma apart_ne:
  assumes "apart a b" and "i \<in> {0, 1, 2, 3 :: u32}" and "j \<in> {0, 1, 2, 3}"
  shows "a + i \<noteq> b + j"
proof
  assume e: "a + i = b + j"
  then have "a - b = j - i" "b - a = i - j" by (simp_all add: algebra_simps)
  then have "4 \<le> j - i" "4 \<le> i - j" using assms(1) by (simp_all add: apart_def)
  then show False using assms(2,3) by (auto simp: word_le_nat_alt)
qed

lemma push_ext_cong:
  "(\<And>r. r \<in> set rs \<Longrightarrow> rf r = rf' r) \<Longrightarrow> push_ext st rs sp rf e = push_ext st rs sp rf' e"
  by (induction rs arbitrary: sp e) auto

lemma pop_regs_other:
  "x \<notin> set rs \<Longrightarrow> pop_regs ld rs sp e (rf(x := v)) = (pop_regs ld rs sp e rf)(x := v)"
proof (induction rs arbitrary: sp rf)
  case (Cons r rs)
  then have "rf(x := v, r := ld sp e) = rf(r := ld sp e, x := v)" by (intro fun_upd_twist) auto
  moreover have "pop_regs ld rs (sp + 4) e (rf(r := ld sp e, x := v)) =
      (pop_regs ld rs (sp + 4) e (rf(r := ld sp e)))(x := v)"
    by (rule Cons.IH) (use Cons.prems in simp)
  ultimately show ?case by (simp only: pop_regs.simps)
qed simp

lemma reg_20_31:
  assumes "i \<in> {20..<32}"
  shows "(of_nat i :: u32) \<noteq> 3"
  using assms by (simp add: word_unat_eq_iff unat_of_nat)

locale stack_ram =
  fixes B :: "'b bus_ops"
    and ld :: "u32 \<Rightarrow> 'b \<Rightarrow> u32"
    and st :: "u32 \<Rightarrow> u32 \<Rightarrow> 'b \<Rightarrow> 'b"
    and ram :: "u32 set"
  assumes get32: "a \<in> ram \<Longrightarrow> bus_get_data32 B k a c = (Some (ld a (ext c)), c)"
    and put32: "a \<in> ram \<Longrightarrow> bus_put_data32 B k a v c = (True, c\<lparr>ext := st a v (ext c)\<rparr>)"
    and pointer: "a \<in> ram \<Longrightarrow> bus_get_pointer B k a c = (True, c)"
    and load: "a \<in> ram \<Longrightarrow> ptr_load32 B k a c = ld a (ext c)"
    and store: "a \<in> ram \<Longrightarrow> ptr_store32 B k a v c = c\<lparr>ext := st a v (ext c)\<rparr>"
    and ld_same: "ld a (st a v e) = v"
    and ld_other: "apart a a' \<Longrightarrow> ld a (st a' v e) = ld a e"
begin

lemma push_ext_frame:
  "(\<And>s. s \<in> stack_slots sp (length rs) \<Longrightarrow> apart a s) \<Longrightarrow> ld a (push_ext st rs sp rf e) = ld a e"
  by (induction rs arbitrary: sp e) (auto simp: slots_Suc ld_other)

lemma ld_push_ext:
  "length rs \<le> 64 \<Longrightarrow> i < length rs \<Longrightarrow>
   ld (sp - 4 * of_nat (Suc i)) (push_ext st rs sp rf e) = rf (rs ! i)"
proof (induction rs arbitrary: sp e i)
  case (Cons r rs)
  show ?case
  proof (cases i)
    case 0
    then show ?thesis
      using Cons.prems push_ext_frame [of "sp - 4" rs "sp - 4"] slot_apart [of "length rs" _ "sp - 4"]
      by (simp add: ld_same)
  next
    case (Suc j)
    then show ?thesis
      using Cons.IH [of j "sp - 4" "st (sp - 4) (rf r) e"] Cons.prems by (simp add: algebra_simps)
  qed
qed simp

lemma pop_regs_val:
  "(\<And>j. j < length rs \<Longrightarrow> ld (sp + 4 * of_nat j) e = f (rs ! j)) \<Longrightarrow>
   pop_regs ld rs sp e rf = (\<lambda>r. if r \<in> set rs then f r else rf r)"
proof (induction rs arbitrary: sp rf)
  case (Cons r rs)
  have "ld ((sp + 4) + 4 * of_nat j) e = f (rs ! j)" if "j < length rs" for j
    using Cons.prems [of "Suc j"] that by (simp add: algebra_simps)
  from Cons.IH [OF this] Cons.prems [of 0] show ?case by auto
qed simp

theorem pop_push:
  assumes "length rs \<le> 64"
  shows "pop_regs ld (rev rs) (sp - 4 * of_nat (length rs)) (push_ext st rs sp rf e) rf' =
    (\<lambda>r. if r \<in> set rs then rf r else rf' r)"
proof -
  have "ld (sp - 4 * of_nat (length rs) + 4 * of_nat j) (push_ext st rs sp rf e) = rf (rev rs ! j)"
    if j: "j < length (rev rs)" for j
  proof -
    let ?i = "length rs - Suc j"
    have "length rs = Suc ?i + j" using j by simp
    then have "(of_nat (length rs) :: u32) = of_nat (Suc ?i) + of_nat j" by (metis of_nat_add)
    then have "sp - 4 * of_nat (length rs) + 4 * of_nat j = sp - 4 * of_nat (Suc ?i)"
      by (simp only: ring_distribs) simp
    moreover have "?i < length rs" "rev rs ! j = rs ! ?i" using j by (simp_all add: rev_nth)
    ultimately show ?thesis using ld_push_ext [OF assms] by (simp only:)
  qed
  then show ?thesis by (subst pop_regs_val) auto
qed

text \<open>The two loops of PUSHSP and POPSP push and pop the register interval.\<close>

lemma pushsp_loop_run:
  "Suc t - c = n \<Longrightarrow> c \<le> Suc t \<Longrightarrow> t < 32 \<Longrightarrow> stack_slots sp n \<subseteq> ram \<Longrightarrow>
   pushsp_loop B (of_nat c) (of_nat t) sp cpu =
     Ret0 (sp - 4 * of_nat n,
           cpu\<lparr>ext := push_ext st (map of_nat [c..<Suc t]) sp (regs (reg cpu)) (ext cpu),
               real_elaps := real_elaps cpu + of_nat n\<rparr>)"
proof (induction n arbitrary: c sp cpu)
  case 0
  then have "\<not> (of_nat c :: u16) \<le> of_nat t" by (simp add: word_le_nat_alt unat_of_nat)
  with 0 show ?case by (subst pushsp_loop.simps) simp
next
  case (Suc n)
  have w: "(of_nat c :: u16) \<le> of_nat t" "\<not> 32 \<le> (of_nat c :: u16)"
    using Suc.prems by (simp_all add: word_le_nat_alt unat_of_nat)
  have u: "ucast (of_nat c :: u16) = (of_nat c :: u32)"
    using Suc.prems by (intro ucast_of_nat16) simp
  have l: "[c..<Suc t] = c # [Suc c..<Suc t]" using Suc.prems by (intro upt_conv_Cons) simp
  have r: "sp - 4 \<in> ram" "stack_slots (sp - 4) n \<subseteq> ram" using Suc.prems by (simp_all add: slots_Suc)
  have "(of_nat c :: u16) + 1 = of_nat (Suc c)" by simp
  then show ?case
    using Suc.prems w u l r Suc.IH [of "Suc c" "sp - 4"]
    by (subst pushsp_loop.simps) (simp add: put32 Let_def algebra_simps del: upt_Suc)
qed

lemma popsp_loop_run:
  "Suc c - h = n \<Longrightarrow> 1 \<le> h \<Longrightarrow> h \<le> Suc c \<Longrightarrow> c < 32 \<Longrightarrow> (\<And>i. i < n \<Longrightarrow> sp + 4 * of_nat i \<in> ram) \<Longrightarrow>
   popsp_loop B (of_nat c) (of_nat h) sp cpu =
     Ret0 (sp + 4 * of_nat n,
           cpu\<lparr>reg := (reg cpu)\<lparr>regs := pop_regs ld (map of_nat (rev [h..<Suc c])) sp (ext cpu) (regs (reg cpu))\<rparr>,
               real_elaps := real_elaps cpu + of_nat n\<rparr>)"
proof (induction n arbitrary: c sp cpu)
  case 0
  then have "\<not> (of_nat h :: u16) \<le> of_nat c" by (simp add: word_le_nat_alt unat_of_nat)
  with 0 show ?case by (subst popsp_loop.simps) simp
next
  case (Suc n)
  have w: "(of_nat h :: u16) \<le> of_nat c" "\<not> 32 \<le> (of_nat c :: u16)"
    using Suc.prems by (simp_all add: word_le_nat_alt unat_of_nat)
  have u: "ucast (of_nat c :: u16) = (of_nat c :: u32)"
    using Suc.prems by (intro ucast_of_nat16) simp
  obtain b where b: "c = Suc b" using Suc.prems by (cases c) auto
  have l: "rev [h..<Suc c] = c # rev [h..<Suc b]" using Suc.prems b by simp
  have r: "sp \<in> ram" "\<And>i. i < n \<Longrightarrow> (sp + 4) + 4 * of_nat i \<in> ram"
    using Suc.prems(5) [of 0] Suc.prems(5) [of "Suc _"] by (simp_all add: algebra_simps)
  have "(of_nat c :: u16) - 1 = of_nat b" using b by simp
  then show ?case
    using Suc.prems(1-4) w u l r Suc.IH [of b "sp + 4"] b
    by (subst popsp_loop.simps) (simp add: get32 set_r_def Let_def algebra_simps del: upt_Suc)
qed

lemma popsp_loop_wraps:
  "c < 32 \<Longrightarrow> (\<And>i. i \<le> c \<Longrightarrow> sp + 4 * of_nat i \<in> ram) \<Longrightarrow>
   popsp_loop B (of_nat c) 0 sp cpu = Fault IndexFault"
proof (induction c arbitrary: sp cpu)
  case 0
  have "popsp_loop B (0 - 1) 0 s k = Fault IndexFault" for s k by (subst popsp_loop.simps) simp
  then show ?case using 0(2) [of 0] by (subst popsp_loop.simps) (simp add: get32)
next
  case (Suc c)
  have "\<not> 32 \<le> (of_nat (Suc c) :: u16)"
    using Suc.prems by (simp add: word_le_nat_alt unat_of_nat del: of_nat_Suc)
  moreover have "(of_nat (Suc c) :: u16) - 1 = of_nat c" by simp
  moreover have "sp \<in> ram" "\<And>i. i \<le> c \<Longrightarrow> (sp + 4) + 4 * of_nat i \<in> ram"
    using Suc.prems(2) [of 0] Suc.prems(2) [of "Suc _"] by (simp_all add: algebra_simps)
  ultimately show ?case
    using Suc.prems(1) Suc.IH [of "sp + 4"] by (subst popsp_loop.simps) (simp add: get32)
qed

lemma pushsp_run:
  fixes cpu :: "'b TargetCoreType"
  defines "h \<equiv> unat (t11_reg1 (type11 (decoded_code cpu)))" and "t \<equiv> unat (t11_reg3 (type11 (decoded_code cpu)))"
  defines "sp \<equiv> regs (reg cpu) CPU_REG_SP AND 0xFFFFFFFC"
  assumes "h \<le> t" and "t < 32" and "stack_slots sp (Suc t - h) \<subseteq> ram"
  shows "op_exec_pushsp_11 B cpu = Ret0 (cpu\<lparr>
     reg := add_pc 4 (set_r CPU_REG_SP (sp - 4 * of_nat (Suc t - h)) (reg cpu)),
     ext := push_ext st (map of_nat [h..<Suc t]) sp (regs (reg cpu)) (ext cpu),
     real_elaps := real_elaps cpu + of_nat (Suc t - h)\<rparr>)"
proof -
  have n: "\<not> t11_reg3 (type11 (decoded_code cpu)) < t11_reg1 (type11 (decoded_code cpu))"
    using assms(4) by (simp add: h_def t_def word_less_nat_alt)
  have "pushsp_loop B (of_nat h) (of_nat t) sp cpu = Ret0 (sp - 4 * of_nat (Suc t - h),
      cpu\<lparr>ext := push_ext st (map of_nat [h..<Suc t]) sp (regs (reg cpu)) (ext cpu),
          real_elaps := real_elaps cpu + of_nat (Suc t - h)\<rparr>)"
    using assms(4-6) by (intro pushsp_loop_run) simp_all
  then show ?thesis
    using n unfolding op_exec_pushsp_11_def Let_def by (simp add: h_def t_def sp_def)
qed

lemma popsp_run:
  fixes cpu :: "'b TargetCoreType"
  defines "h \<equiv> unat (t11_reg1 (type11 (decoded_code cpu)))" and "t \<equiv> unat (t11_reg3 (type11 (decoded_code cpu)))"
  defines "sp \<equiv> regs (reg cpu) CPU_REG_SP AND 0xFFFFFFFC"
  assumes "1 \<le> h" and "h \<le> t" and "t < 32" and "\<And>i. i < Suc t - h \<Longrightarrow> sp + 4 * of_nat i \<in> ram"
  shows "op_exec_popsp_11 B cpu = Ret0 (cpu\<lparr>
     reg := add_pc 4 (set_r CPU_REG_SP (sp + 4 * of_nat (Suc t - h)) ((reg cpu)\<lparr>regs :=
       pop_regs ld (rev (map of_nat [h..<Suc t])) sp (ext cpu) (regs (reg cpu))\<rparr>)),
     real_elaps := real_elaps cpu + of_nat (Suc t - h)\<rparr>)"
proof -
  have n: "\<not> t11_reg3 (type11 (decoded_code cpu)) < t11_reg1 (type11 (decoded_code cpu))"
    using assms(5) by (simp add: h_def t_def word_less_nat_alt)
  have "popsp_loop B (of_nat t) (of_nat h) sp cpu = Ret0 (sp + 4 * of_nat (Suc t - h),
      cpu\<lparr>reg := (reg cpu)\<lparr>regs := pop_regs ld (map of_nat (rev [h..<Suc t])) sp (ext cpu) (regs (reg cpu))\<rparr>,
          real_elaps := real_elaps cpu + of_nat (Suc t - h)\<rparr>)"
    using assms(4-7) by (intro popsp_loop_run) simp_all
  then show ?thesis
    using n unfolding op_exec_popsp_11_def Let_def by (simp add: h_def t_def sp_def rev_map)
qed

text \<open>The two loops of PREPARE and DISPOSE, with the protection unit off.\<close>

lemma prepare_loop_run:
  "\<not> is_enable_mpu (mpu cpu) \<Longrightarrow> set is \<subseteq> {20..<32} \<Longrightarrow> n = length (listed (decoded_code cpu) is) \<Longrightarrow>
   stack_slots (regs (reg cpu) CPU_REG_SP) n \<subseteq> ram \<Longrightarrow>
   prepare_loop B is cpu = Ret0 (cpu\<lparr>
     reg := set_r CPU_REG_SP (regs (reg cpu) CPU_REG_SP - 4 * of_nat n) (reg cpu),
     ext := push_ext st (map of_nat (listed (decoded_code cpu) is)) (regs (reg cpu) CPU_REG_SP) (regs (reg cpu)) (ext cpu),
     real_elaps := real_elaps cpu + of_nat n\<rparr>)"
proof (induction "is" arbitrary: cpu n)
  case Nil
  then show ?case by (simp add: listed_def set_r_def)
next
  case (Cons i "is")
  show ?case
  proof (cases "t13_list (type13 (decoded_code cpu)) i = 0")
    case True
    then show ?thesis using Cons by (simp add: listed_def)
  next
    case False
    let ?rs = "map of_nat (listed (decoded_code cpu) is) :: u32 list" and ?sp = "regs (reg cpu) CPU_REG_SP"
    obtain m where n: "n = Suc m" "m = length (listed (decoded_code cpu) is)"
      using Cons.prems(3) False by (simp add: listed_def)
    have r: "?sp - 4 \<in> ram" "stack_slots (?sp - 4) m \<subseteq> ram" using Cons.prems(4) n by (simp_all add: slots_Suc)
    have c: "push_ext st ?rs s ((regs (reg cpu))(3 := x)) e = push_ext st ?rs s (regs (reg cpu)) e" for s x e
      using Cons.prems(2) reg_20_31 by (intro push_ext_cong) (auto simp: listed_def)
    have l: "listed (decoded_code cpu) (i # is) = i # listed (decoded_code cpu) is"
      using False by (simp add: listed_def)
    show ?thesis
      using Cons.prems(1,2) False n r c l Cons.IH [where n = m]
      by (simp add: pointer store target_mpu_has_permission_def Let_def set_r_def algebra_simps)
  qed
qed

lemma dispose_loop_run:
  "\<not> is_enable_mpu (mpu cpu) \<Longrightarrow> set is \<subseteq> {20..<32} \<Longrightarrow> n = length (listed (decoded_code cpu) is) \<Longrightarrow>
   (\<And>j. j < n \<Longrightarrow> regs (reg cpu) CPU_REG_SP + 4 * of_nat j \<in> ram) \<Longrightarrow>
   dispose_loop B is cpu = Ret0 (cpu\<lparr>
     reg := set_r CPU_REG_SP (regs (reg cpu) CPU_REG_SP + 4 * of_nat n) ((reg cpu)\<lparr>regs :=
       pop_regs ld (map of_nat (listed (decoded_code cpu) is)) (regs (reg cpu) CPU_REG_SP) (ext cpu) (regs (reg cpu))\<rparr>),
     real_elaps := real_elaps cpu + of_nat n\<rparr>)"
proof (induction "is" arbitrary: cpu n)
  case Nil
  then show ?case by (simp add: listed_def set_r_def)
next
  case (Cons i "is")
  show ?case
  proof (cases "t13_list (type13 (decoded_code cpu)) i = 0")
    case True
    then show ?thesis using Cons by (simp add: listed_def)
  next
    case False
    let ?rs = "map of_nat (listed (decoded_code cpu) is) :: u32 list" and ?sp = "regs (reg cpu) CPU_REG_SP"
    obtain m where n: "n = Suc m" "m = length (listed (decoded_code cpu) is)"
      using Cons.prems(3) False by (simp add: listed_def)
    have r: "?sp \<in> ram" "\<And>j. j < m \<Longrightarrow> (?sp + 4) + 4 * of_nat j \<in> ram"
      using Cons.prems(4) [of 0] Cons.prems(4) [of "Suc _"] n by (simp_all add: algebra_simps)
    have "3 \<notin> set ?rs" using Cons.prems(2) reg_20_31 by (auto simp: listed_def)
    then have c: "pop_regs ld ?rs s e (f(3 := x)) = (pop_regs ld ?rs s e f)(3 := x)" for s x e f
      by (rule pop_regs_other)
    have l: "listed (decoded_code cpu) (i # is) = i # listed (decoded_code cpu) is"
      using False by (simp add: listed_def)
    have i: "(of_nat i :: u32) \<noteq> 3" using Cons.prems(2) reg_20_31 by auto
    let ?c = "cpu\<lparr>reg := set_r 3 (?sp + 4) (set_r (of_nat i) (ld ?sp (ext cpu)) (reg cpu)),
        real_elaps := real_elaps cpu + 1\<rparr>"
    have "dispose_loop B (i # is) cpu = dispose_loop B is ?c"
      using Cons.prems(1) False r(1) by (simp add: pointer load target_mpu_has_permission_def Let_def)
    also have "\<dots> = Ret0 (?c\<lparr>reg := set_r 3 (regs (reg ?c) 3 + 4 * of_nat m) ((reg ?c)\<lparr>regs :=
        pop_regs ld (map of_nat (listed (decoded_code ?c) is)) (regs (reg ?c) 3) (ext ?c) (regs (reg ?c))\<rparr>),
        real_elaps := real_elaps ?c + of_nat m\<rparr>)"
      by (rule Cons.IH) (use Cons.prems(1,2) n r(2) in simp_all)
    finally have run: "dispose_loop B (i # is) cpu = Ret0 (?c\<lparr>reg := set_r 3 (regs (reg ?c) 3 + 4 * of_nat m) ((reg ?c)\<lparr>regs :=
        pop_regs ld (map of_nat (listed (decoded_code ?c) is)) (regs (reg ?c) 3) (ext ?c) (regs (reg ?c))\<rparr>),
        real_elaps := real_elaps ?c + of_nat m\<rparr>)" .
    have p: "pop_regs ld (map of_nat (listed (decoded_code ?c) is)) (regs (reg ?c) 3) (ext ?c) (regs (reg ?c)) =
        (pop_regs ld ?rs (?sp + 4) (ext cpu) ((regs (reg cpu))(of_nat i := ld ?sp (ext cpu))))(3 := ?sp + 4)"
      using c [of "?sp + 4" "ext cpu" "(regs (reg cpu))(of_nat i := ld ?sp (ext cpu))" "?sp + 4"] by simp
    show ?thesis
      unfolding run p unfolding l n(1) by (simp add: set_r_def algebra_simps)
  qed
qed

end

interpretation flat: stack_ram flat_bus "\<lambda>a m. mem_read32 m a" mem_write32 UNIV
proof
  fix a a' v and e :: memory
  assume "apart a a'"
  then have "a + i \<noteq> a' + j" if "i \<in> {0, 1, 2, 3}" "j \<in> {0, 1, 2, 3}" for i j
    using that by (rule apart_ne)
  from this [of 0 0] this [of 0 1] this [of 0 2] this [of 0 3] this [of 1 0] this [of 1 1]
    this [of 1 2] this [of 1 3] this [of 2 0] this [of 2 1] this [of 2 2] this [of 2 3]
    this [of 3 0] this [of 3 1] this [of 3 2] this [of 3 3]
  show "mem_read32 (mem_write32 a' v e) a = mem_read32 e a"
    unfolding mem_read32_def mem_write32_def by simp
qed (simp_all add: mem_read_write)


definition sample_list :: OpDecodedCodeType where
  "sample_list = blank_code\<lparr>type11 := \<lparr>t11_opcode = 0x3F, t11_reg1 = 2, t11_reg2 = 0, t11_reg3 = 5,
     t11_sub1 = 0, t11_sub2 = 0, t11_rfu = 0\<rparr>,
   type13 := \<lparr>t13_opcode = 0, t13_imm = 3, t13_list = (\<lambda>i. if i \<in> {20, 29, 31} then 1 else 0),
     t13_gen = 1, t13_rfu = 0\<rparr>\<rparr>"

definition sample_stack :: "memory TargetCoreType" where
  "sample_stack = sample_core sample_list ((\<lambda>i. i + 7)(3 := 0x1000)) 0 (\<lambda>_. 0)"

lemma sample_stack_simps [simp]:
  "decoded_code sample_stack = sample_list" "regs (reg sample_stack) = (\<lambda>i. i + 7)(3 := 0x1000)"
  "\<not> is_enable_mpu (mpu sample_stack)"
  "t11_reg1 (type11 sample_list) = 2" "t11_reg3 (type11 sample_list) = 5"
  "t13_imm (type13 sample_list) = 3" "t13_gen (type13 sample_list) = 1"
  by (simp_all add: sample_stack_def sample_list_def blank_mpu_def)

lemma flat_ram: "stack_ram flat_bus (\<lambda>a m. mem_read32 m a) mem_write32 UNIV"
  by unfold_locales


text \<open>POPSP with a register interval that starts at register 0 never stops: the counter wraps
  below zero and the loop runs out of the register array, although every load succeeds.\<close>

lemma popsp_from_zero:
  fixes cpu :: "'b TargetCoreType"
  defines "t \<equiv> t11_reg3 (type11 (decoded_code cpu))"
    and "sp \<equiv> regs (reg cpu) CPU_REG_SP AND 0xFFFFFFFC"
  assumes "stack_ram B ld st ram" and "t11_reg1 (type11 (decoded_code cpu)) = 0" and "t < 32"
    and "\<forall>i \<le> unat t. sp + 4 * of_nat i \<in> ram"
  shows "op_exec_popsp_11 B cpu = Fault IndexFault"
proof -
  have "unat t < 32" using assms(5) by (simp add: word_less_nat_alt)
  then have "popsp_loop B (of_nat (unat t)) 0 sp cpu = Fault IndexFault"
    using assms(6) by (intro stack_ram.popsp_loop_wraps [OF assms(3)]) auto
  then show ?thesis
    using assms(4) by (simp add: op_exec_popsp_11_def Let_def t_def sp_def)
qed

lemma popsp_from_zero_witness:
  "op_exec_popsp_11 flat_bus (sample_stack\<lparr>decoded_code := blank_code\<rparr>) = Fault IndexFault"
  by (rule popsp_from_zero [OF flat_ram]) (simp_all add: blank_code_def)

lemma listed_rev:
  "t13_list (type13 d) = t13_list (type13 d') \<Longrightarrow> listed d (rev is) = rev (listed d' is)"
  by (simp add: listed_def rev_filter)

text \<open>PREPARE with a register list and DISPOSE with the same list and size undo each other:
  every register has its old value, the stack pointer included, and memory outside the pushed words
  is as before.\<close>

lemma prepare_dispose_roundtrip:
  fixes cpu :: "'b TargetCoreType" and d :: OpDecodedCodeType
  defines "sp \<equiv> regs (reg cpu) CPU_REG_SP" and "n \<equiv> length (listed (decoded_code cpu) [20..<32])"
  assumes "stack_ram B ld st ram" and "\<not> is_enable_mpu (mpu cpu)" and "stack_slots sp n \<subseteq> ram"
    and "t13_gen (type13 (decoded_code cpu)) AND 0x0007 = 1" and "t13_gen (type13 d) = 0"
    and "t13_imm (type13 d) = t13_imm (type13 (decoded_code cpu))"
    and "t13_list (type13 d) = t13_list (type13 (decoded_code cpu))"
  shows "\<exists>cpu'. then_exec (op_exec_prepare B cpu) d (op_exec_dispose B) = Ret0 cpu' \<and>
      regs (reg cpu') = regs (reg cpu) \<and> sys (reg cpu') = sys (reg cpu) \<and> pc (reg cpu') = pc (reg cpu) + 8 \<and>
      (\<forall>a. (\<forall>s \<in> stack_slots sp n. apart a s) \<longrightarrow> ld a (ext cpu') = ld a (ext cpu))"
proof -
  note r = assms(3)
  let ?l = "listed (decoded_code cpu) [20..<32]" and ?imm = "push_bit 2 (t13_imm (type13 d)) :: u32"
  let ?rs = "map of_nat ?l :: u32 list"
  have len: "length ?rs = n" "n \<le> 64"
    unfolding n_def listed_def using length_filter_le [of _ "[20..<32]"] by (auto intro: order_trans)
  define cpu1 where "cpu1 = cpu\<lparr>
     reg := add_pc 4 (set_r 3 (sp - 4 * of_nat n - ?imm) (reg cpu)),
     ext := push_ext st ?rs sp (regs (reg cpu)) (ext cpu),
     real_elaps := real_elaps cpu + of_nat n, decoded_code := d\<rparr>"
  have "prepare_loop B [20..<32] cpu = Ret0 (cpu\<lparr>reg := set_r CPU_REG_SP (sp - 4 * of_nat n) (reg cpu),
     ext := push_ext st ?rs sp (regs (reg cpu)) (ext cpu), real_elaps := real_elaps cpu + of_nat n\<rparr>)"
    unfolding sp_def
    by (rule stack_ram.prepare_loop_run [OF r assms(4)]) (use assms(5) in \<open>auto simp: n_def sp_def\<close>)
  then have s1: "op_exec_prepare B cpu = Ret0 (cpu1\<lparr>decoded_code := decoded_code cpu\<rparr>)"
    using assms(6,8) by (simp add: op_exec_prepare_def Let_def cpu1_def set_r_def)
  let ?c = "cpu1\<lparr>reg := set_r 3 (sp - 4 * of_nat n) (reg cpu1), real_elaps := 0\<rparr>"
  have l: "listed (decoded_code ?c) (rev [20..<32]) = rev ?l"
    by (rule listed_rev) (use assms(9) in \<open>simp add: cpu1_def del: upt_Suc\<close>)
  have "dispose_loop B (rev [20..<32]) ?c = Ret0 (?c\<lparr>
     reg := set_r 3 (regs (reg ?c) 3 + 4 * of_nat n) ((reg ?c)\<lparr>regs :=
       pop_regs ld (map of_nat (listed (decoded_code ?c) (rev [20..<32]))) (regs (reg ?c) 3) (ext ?c) (regs (reg ?c))\<rparr>),
     real_elaps := real_elaps ?c + of_nat n\<rparr>)"
  proof (rule stack_ram.dispose_loop_run [OF r])
    show "regs (reg ?c) CPU_REG_SP + 4 * of_nat j \<in> ram" if "j < n" for j
      using slot_from_below [OF that, of sp] assms(5) by auto
    show "n = length (listed (decoded_code ?c) (rev [20..<32]))"
      by (subst l) (simp only: length_rev n_def)
  qed (use assms(4) in \<open>simp_all add: cpu1_def\<close>)
  moreover have "pop_regs ld (map of_nat (listed (decoded_code ?c) (rev [20..<32]))) (regs (reg ?c) 3) (ext ?c) (regs (reg ?c))
      = (\<lambda>i. if i \<in> set ?rs then regs (reg cpu) i else regs (reg ?c) i)"
    unfolding l rev_map [symmetric]
    using stack_ram.pop_push [OF r, of ?rs sp "regs (reg cpu)" "ext cpu" "regs (reg ?c)"] len
    by (simp add: cpu1_def)
  moreover have c: "cpu1\<lparr>real_elaps := 0, reg := set_r 3 (regs (reg (cpu1\<lparr>real_elaps := 0\<rparr>)) 3 +
      push_bit 2 (t13_imm (type13 (decoded_code cpu1)))) (reg (cpu1\<lparr>real_elaps := 0\<rparr>))\<rparr> = ?c"
    by (simp add: cpu1_def)
  moreover have "decoded_code cpu1 = d" by (simp add: cpu1_def)
  ultimately have s2: "op_exec_dispose B cpu1 = Ret0 (?c\<lparr>
     reg := add_pc 4 (set_r 3 sp ((reg ?c)\<lparr>regs := (\<lambda>i. if i \<in> set ?rs then regs (reg cpu) i else regs (reg ?c) i)\<rparr>)),
     real_elaps := of_nat n + 2\<rparr>)"
    using assms(7) by (simp add: op_exec_dispose_def Let_def del: dispose_loop.simps upt_Suc)
  let ?g = "add_pc 4 (set_r 3 sp ((reg ?c)\<lparr>regs := (\<lambda>i. if i \<in> set ?rs then regs (reg cpu) i else regs (reg ?c) i)\<rparr>))"
  have "op_exec_dispose B (cpu1\<lparr>decoded_code := decoded_code cpu, decoded_code := d\<rparr>) = op_exec_dispose B cpu1"
    by (rule arg_cong [of _ _ "op_exec_dispose B"]) (simp add: cpu1_def)
  then have e: "then_exec (op_exec_prepare B cpu) d (op_exec_dispose B) =
      Ret0 (?c\<lparr>reg := ?g, real_elaps := of_nat n + 2\<rparr>)"
    using s1 s2 by (simp only: then_exec_Ret0)
  have "\<forall>a. (\<forall>s \<in> stack_slots sp n. apart a s) \<longrightarrow> ld a (ext ?c) = ld a (ext cpu)"
    using stack_ram.push_ext_frame [OF r, of sp ?rs] len(1) by (simp add: cpu1_def)
  moreover have "regs ?g = regs (reg cpu)"
    by (rule ext) (simp add: cpu1_def sp_def del: set_map)
  moreover have "sys ?g = sys (reg cpu)" "pc ?g = pc (reg cpu) + 8" by (simp_all add: cpu1_def)
  ultimately show ?thesis
    using e by (intro exI [of _ "?c\<lparr>reg := ?g, real_elaps := of_nat n + 2\<rparr>"] conjI) simp_all
qed

lemma prepare_dispose_roundtrip_witness:
  "\<exists>cpu'. then_exec (op_exec_prepare flat_bus sample_stack)
       (sample_list\<lparr>type13 := (type13 sample_list)\<lparr>t13_gen := 0\<rparr>\<rparr>) (op_exec_dispose flat_bus) = Ret0 cpu' \<and>
     regs (reg cpu') = (\<lambda>i. i + 7)(3 := 0x1000)"
  using prepare_dispose_roundtrip [OF flat_ram, of sample_stack
    "sample_list\<lparr>type13 := (type13 sample_list)\<lparr>t13_gen := 0\<rparr>\<rparr>"] by auto

end
