(* ===== verification/Exec_Bit.thy ===== *)
theory Exec_Bit
  imports Exec_Base
begin

text \<open>
  The memory bit instructions and the bit search of \<^verbatim>\<open>op_exec_bit.c\<close>.  The bit number is
  at most 7 (three bits of the code or of a register).
\<close>

section \<open>Memory bits\<close>

text \<open>The test all of them share: Z is the complement of the bit that was in memory.\<close>

definition bit_chk_z :: "u8 \<Rightarrow> nat \<Rightarrow> CpuRegisterType \<Rightarrow> CpuRegisterType" where
  "bit_chk_z org_bit bit3 g =
     (if org_bit AND push_bit bit3 1 = push_bit bit3 1
      then CPU_CLR CPU_PSW_Z g else CPU_SET CPU_PSW_Z g)"

definition op_exec_tst1_8 :: "'b bus_ops \<Rightarrow> 'b TargetCoreType \<Rightarrow> 'b TargetCoreType outcome" where
  "op_exec_tst1_8 B cpu =
     (let d = type8 (decoded_code cpu);
          reg1 = ucast (t8_reg1 d) :: u32;
          disp16 = scast (t8_disp d) :: u32;
          bit3 = unat (t8_bit d)
      in if reg1 \<ge> CPU_GREG_NUM then RetErr cpu
         else let addr = regs (reg cpu) reg1 + disp16 in
         get8 B addr cpu (\<lambda>v cpu.
           Ret0 (cpu\<lparr>reg := add_pc 4 (bit_chk_z v bit3 (reg cpu))\<rparr>)))"

definition op_exec_set1_8 :: "'b bus_ops \<Rightarrow> 'b TargetCoreType \<Rightarrow> 'b TargetCoreType outcome" where
  "op_exec_set1_8 B cpu =
     (let d = type8 (decoded_code cpu);
          reg1 = ucast (t8_reg1 d) :: u32;
          disp16 = scast (t8_disp d) :: u32;
          bit3 = unat (t8_bit d)
      in if reg1 \<ge> CPU_GREG_NUM then RetErr cpu
         else let addr = regs (reg cpu) reg1 + disp16 in
         get8 B addr cpu (\<lambda>v cpu.
           put8 B addr (v OR push_bit bit3 1) cpu (\<lambda>cpu.
           Ret0 (cpu\<lparr>reg := add_pc 4 (bit_chk_z v bit3 (reg cpu))\<rparr>))))"

definition op_exec_clr1_8 :: "'b bus_ops \<Rightarrow> 'b TargetCoreType \<Rightarrow> 'b TargetCoreType outcome" where
  "op_exec_clr1_8 B cpu =
     (let d = type8 (decoded_code cpu);
          reg1 = ucast (t8_reg1 d) :: u32;
          disp16 = scast (t8_disp d) :: u32;
          bit3 = unat (t8_bit d)
      in if reg1 \<ge> CPU_GREG_NUM then RetErr cpu
         else let addr = regs (reg cpu) reg1 + disp16 in
         get8 B addr cpu (\<lambda>v cpu.
           put8 B addr (v AND NOT (push_bit bit3 1)) cpu (\<lambda>cpu.
           Ret0 (cpu\<lparr>reg := add_pc 4 (bit_chk_z v bit3 (reg cpu))\<rparr>))))"

definition op_exec_not1_8 :: "'b bus_ops \<Rightarrow> 'b TargetCoreType \<Rightarrow> 'b TargetCoreType outcome" where
  "op_exec_not1_8 B cpu =
     (let d = type8 (decoded_code cpu);
          reg1 = ucast (t8_reg1 d) :: u32;
          disp16 = scast (t8_disp d) :: u32;
          bit3 = unat (t8_bit d)
      in if reg1 \<ge> CPU_GREG_NUM then RetErr cpu
         else let addr = regs (reg cpu) reg1 + disp16 in
         get8 B addr cpu (\<lambda>v cpu.
           let (g, v') =
             (if v AND push_bit bit3 1 = push_bit bit3 1
              then (CPU_CLR CPU_PSW_Z (reg cpu), v AND NOT (push_bit bit3 1))
              else (CPU_SET CPU_PSW_Z (reg cpu), v OR push_bit bit3 1))
           in put8 B addr v' (cpu\<lparr>reg := g\<rparr>) (\<lambda>cpu.
           Ret0 (cpu\<lparr>reg := add_pc 4 (reg cpu)\<rparr>))))"

definition op_exec_tst1_9 :: "'b bus_ops \<Rightarrow> 'b TargetCoreType \<Rightarrow> 'b TargetCoreType outcome" where
  "op_exec_tst1_9 B cpu =
     (let d = type9 (decoded_code cpu);
          reg1 = ucast (t9_gen d) :: u32;
          reg2 = ucast (t9_reg2 d) :: u32
      in if reg1 \<ge> CPU_GREG_NUM then RetErr cpu
         else if reg2 \<ge> CPU_GREG_NUM then RetErr cpu
         else let addr = regs (reg cpu) reg1 in
         get8 B addr cpu (\<lambda>v cpu.
           let bit3 = unat (regs (reg cpu) reg2 AND 0x07) in
           Ret0 (cpu\<lparr>reg := add_pc 4 (bit_chk_z v bit3 (reg cpu))\<rparr>)))"

definition op_exec_set1_9 :: "'b bus_ops \<Rightarrow> 'b TargetCoreType \<Rightarrow> 'b TargetCoreType outcome" where
  "op_exec_set1_9 B cpu =
     (let d = type9 (decoded_code cpu);
          reg1 = ucast (t9_gen d) :: u32;
          reg2 = ucast (t9_reg2 d) :: u32
      in if reg1 \<ge> CPU_GREG_NUM then RetErr cpu
         else if reg2 \<ge> CPU_GREG_NUM then RetErr cpu
         else let addr = regs (reg cpu) reg1 in
         get8 B addr cpu (\<lambda>v cpu.
           let bit3 = unat (regs (reg cpu) reg2 AND 0x07) in
           put8 B addr (v OR push_bit bit3 1) cpu (\<lambda>cpu.
           Ret0 (cpu\<lparr>reg := add_pc 4 (bit_chk_z v bit3 (reg cpu))\<rparr>))))"

definition op_exec_clr1_9 :: "'b bus_ops \<Rightarrow> 'b TargetCoreType \<Rightarrow> 'b TargetCoreType outcome" where
  "op_exec_clr1_9 B cpu =
     (let d = type9 (decoded_code cpu);
          reg1 = ucast (t9_gen d) :: u32;
          reg2 = ucast (t9_reg2 d) :: u32
      in if reg1 \<ge> CPU_GREG_NUM then RetErr cpu
         else if reg2 \<ge> CPU_GREG_NUM then RetErr cpu
         else let addr = regs (reg cpu) reg1 in
         get8 B addr cpu (\<lambda>v cpu.
           let bit3 = unat (regs (reg cpu) reg2 AND 0x07) in
           put8 B addr (v AND NOT (push_bit bit3 1)) cpu (\<lambda>cpu.
           Ret0 (cpu\<lparr>reg := add_pc 4 (bit_chk_z v bit3 (reg cpu))\<rparr>))))"

definition op_exec_not1_9 :: "'b bus_ops \<Rightarrow> 'b TargetCoreType \<Rightarrow> 'b TargetCoreType outcome" where
  "op_exec_not1_9 B cpu =
     (let d = type9 (decoded_code cpu);
          reg1 = ucast (t9_gen d) :: u32;
          reg2 = ucast (t9_reg2 d) :: u32
      in if reg1 \<ge> CPU_GREG_NUM then RetErr cpu
         else if reg2 \<ge> CPU_GREG_NUM then RetErr cpu
         else let addr = regs (reg cpu) reg1 in
         get8 B addr cpu (\<lambda>v cpu.
           let bit3 = unat (regs (reg cpu) reg2 AND 0x07) in
           let (g, v') =
             (if v AND push_bit bit3 1 = push_bit bit3 1
              then (CPU_CLR CPU_PSW_Z (reg cpu), v AND NOT (push_bit bit3 1))
              else (CPU_SET CPU_PSW_Z (reg cpu), v OR push_bit bit3 1))
           in put8 B addr v' (cpu\<lparr>reg := g\<rparr>) (\<lambda>cpu.
           Ret0 (cpu\<lparr>reg := add_pc 4 (reg cpu)\<rparr>))))"

section \<open>Bit search\<close>

text \<open>
  \<open>schlr_search_bitval\<close> is a table of zeros and of the single bits; the loop stops at the first
  bit with the value searched for and counts the bits before it.
\<close>

definition schlr_search_bitval :: "nat \<Rightarrow> nat \<Rightarrow> u32" where
  "schlr_search_bitval search_bitval i = (if search_bitval = 0 then 0 else push_bit i 1)"

text \<open>The search loop over the bit positions in the order they are visited: found, count.\<close>

fun schlr_loop :: "u32 \<Rightarrow> nat \<Rightarrow> nat list \<Rightarrow> u32 \<Rightarrow> bool \<times> u32" where
  "schlr_loop data b [] count = (False, count)"
| "schlr_loop data b (i # is) count =
     (if data AND push_bit i 1 = schlr_search_bitval b i then (True, count)
      else schlr_loop data b is (count + 1))"

definition op_exec_schlr_9 :: "nat \<Rightarrow> bool \<Rightarrow> 'b TargetCoreType \<Rightarrow> 'b TargetCoreType outcome" where
  "op_exec_schlr_9 search_bitval search_left cpu =
     (let d = type9 (decoded_code cpu);
          reg2 = ucast (t9_reg2 d) :: u32;
          reg3 = ucast (t9_rfu2 d) :: u32;
          g = reg cpu;
          reg2_data = regs g reg2;
          (isFound, count) =
            (if search_left then schlr_loop reg2_data search_bitval (map (\<lambda>i. 31 - i) [0..<32]) 0
             else schlr_loop reg2_data search_bitval [0..<32] 0);
          g = (if count = 31 then CPU_SET CPU_PSW_CY g else CPU_SET CPU_PSW_CY g);
          g = CPU_CLR CPU_PSW_OV g;
          g = CPU_CLR CPU_PSW_S g;
          (result, g) =
            (if \<not> isFound then (0, CPU_SET CPU_PSW_Z g)
             else (count + 1, CPU_CLR CPU_PSW_Z g));
          g = set_r reg3 result g
      in Ret0 (cpu\<lparr>reg := add_pc 4 g\<rparr>))"

definition op_exec_sch0l_9 :: "'b TargetCoreType \<Rightarrow> 'b TargetCoreType outcome" where
  "op_exec_sch0l_9 cpu = op_exec_schlr_9 0 True cpu"

definition op_exec_sch1l_9 :: "'b TargetCoreType \<Rightarrow> 'b TargetCoreType outcome" where
  "op_exec_sch1l_9 cpu = op_exec_schlr_9 1 True cpu"

definition op_exec_sch0r_9 :: "'b TargetCoreType \<Rightarrow> 'b TargetCoreType outcome" where
  "op_exec_sch0r_9 cpu = op_exec_schlr_9 0 False cpu"

definition op_exec_sch1r_9 :: "'b TargetCoreType \<Rightarrow> 'b TargetCoreType outcome" where
  "op_exec_sch1r_9 cpu = op_exec_schlr_9 1 False cpu"

section \<open>Contract of the executors\<close>

text \<open>
  Each executor above writes only the registers listed, keeps every system register apart from
  the arithmetic flags, and touches nothing else of the machine.
\<close>

interpretation sch0l_9_ex: alu_executor op_exec_sch0l_9 "\<lambda>d. {ucast (t9_rfu2 (type9 d))}"
  by unfold_locales (auto simp: op_exec_sch0l_9_def op_exec_schlr_9_def Let_def chk_forms split: if_splits prod.splits)

interpretation sch1l_9_ex: alu_executor op_exec_sch1l_9 "\<lambda>d. {ucast (t9_rfu2 (type9 d))}"
  by unfold_locales (auto simp: op_exec_sch1l_9_def op_exec_schlr_9_def Let_def chk_forms split: if_splits prod.splits)

interpretation sch0r_9_ex: alu_executor op_exec_sch0r_9 "\<lambda>d. {ucast (t9_rfu2 (type9 d))}"
  by unfold_locales (auto simp: op_exec_sch0r_9_def op_exec_schlr_9_def Let_def chk_forms split: if_splits prod.splits)

interpretation sch1r_9_ex: alu_executor op_exec_sch1r_9 "\<lambda>d. {ucast (t9_rfu2 (type9 d))}"
  by unfold_locales (auto simp: op_exec_sch1r_9_def op_exec_schlr_9_def Let_def chk_forms split: if_splits prod.splits)

end
