(* ===== verification/Exec_Load.thy ===== *)
theory Exec_Load
  imports Exec_Base Mpu
begin

text \<open>
  The load instructions of \<^verbatim>\<open>op_exec_load.c\<close> and \<^verbatim>\<open>op_exec_load_rh850.c\<close>.
\<close>

section \<open>Displacements\<close>

text \<open>The 23 bit displacement of format 14 and the 16 bit ones of format 7.\<close>

definition disp14 :: "OpCodeFormatType14 \<Rightarrow> u32" where
  "disp14 d = op_sign_extend 22 (push_bit 7 (t14_disp_high d) OR t14_disp_low d)"

definition disp7_gen :: "OpCodeFormatType7 \<Rightarrow> u32" where
  "disp7_gen d = op_sign_extend 15 (push_bit 1 (t7_disp d) OR t7_gen d)"

definition disp7 :: "OpCodeFormatType7 \<Rightarrow> u32" where
  "disp7 d = op_sign_extend 15 (push_bit 1 (t7_disp d))"

section \<open>Loads\<close>

definition op_exec_sldb :: "'b bus_ops \<Rightarrow> 'b TargetCoreType \<Rightarrow> 'b TargetCoreType outcome" where
  "op_exec_sldb B cpu =
     (let d = type4_1 (decoded_code cpu);
          reg1 = CPU_REG_EP;
          reg2 = ucast (t4_1_reg2 d) :: u32
      in if reg1 \<ge> CPU_GREG_NUM then RetErr cpu
         else if reg2 \<ge> CPU_GREG_NUM then RetErr cpu
         else
          let disp = t4_1_disp d;
              disp = push_bit 1 disp OR t4_1_gen d;
              disp = op_zero_extend 7 disp;
              addr = regs (reg cpu) reg1 + disp
          in get8 B addr cpu (\<lambda>data8 cpu.
               let ret = scast data8 in
               Ret0 (cpu\<lparr>reg := add_pc 2 (set_r reg2 ret (reg cpu))\<rparr>)))"

definition op_exec_sldbu :: "'b bus_ops \<Rightarrow> 'b TargetCoreType \<Rightarrow> 'b TargetCoreType outcome" where
  "op_exec_sldbu B cpu =
     (let d = type4_2 (decoded_code cpu);
          reg1 = CPU_REG_EP;
          reg2 = ucast (t4_2_reg2 d) :: u32
      in if reg1 \<ge> CPU_GREG_NUM then RetErr cpu
         else if reg2 \<ge> CPU_GREG_NUM then RetErr cpu
         else
          let disp = t4_2_disp d;
              disp = op_zero_extend 4 disp;
              addr = regs (reg cpu) reg1 + disp
          in get8 B addr cpu (\<lambda>data8 cpu.
               let ret = ucast data8 in
               Ret0 (cpu\<lparr>reg := add_pc 2 (set_r reg2 ret (reg cpu))\<rparr>)))"

definition op_exec_sldhu :: "'b bus_ops \<Rightarrow> 'b TargetCoreType \<Rightarrow> 'b TargetCoreType outcome" where
  "op_exec_sldhu B cpu =
     (let d = type4_2 (decoded_code cpu);
          reg1 = CPU_REG_EP;
          reg2 = ucast (t4_2_reg2 d) :: u32
      in if reg1 \<ge> CPU_GREG_NUM then RetErr cpu
         else if reg2 \<ge> CPU_GREG_NUM then RetErr cpu
         else
          let disp = push_bit 1 (t4_2_disp d);
              disp = op_zero_extend 5 disp;
              addr = regs (reg cpu) reg1 + disp
          in get16 B addr cpu (\<lambda>data16 cpu.
               let ret = ucast data16 in
               Ret0 (cpu\<lparr>reg := add_pc 2 (set_r reg2 ret (reg cpu))\<rparr>)))"

definition op_exec_sldh :: "'b bus_ops \<Rightarrow> 'b TargetCoreType \<Rightarrow> 'b TargetCoreType outcome" where
  "op_exec_sldh B cpu =
     (let d = type4_1 (decoded_code cpu);
          reg1 = CPU_REG_EP;
          reg2 = ucast (t4_1_reg2 d) :: u32
      in if reg1 \<ge> CPU_GREG_NUM then RetErr cpu
         else if reg2 \<ge> CPU_GREG_NUM then RetErr cpu
         else
          let disp = t4_1_disp d;
              disp = push_bit 1 disp OR t4_1_gen d;
              disp = op_zero_extend 7 disp;
              disp = push_bit 1 disp;
              addr = regs (reg cpu) reg1 + disp
          in get16 B addr cpu (\<lambda>data16 cpu.
               let ret = scast data16 in
               Ret0 (cpu\<lparr>reg := add_pc 2 (set_r reg2 ret (reg cpu))\<rparr>)))"

definition op_exec_sldw :: "'b bus_ops \<Rightarrow> 'b TargetCoreType \<Rightarrow> 'b TargetCoreType outcome" where
  "op_exec_sldw B cpu =
     (let d = type4_1 (decoded_code cpu);
          reg1 = CPU_REG_EP;
          reg2 = ucast (t4_1_reg2 d) :: u32
      in if reg1 \<ge> CPU_GREG_NUM then RetErr cpu
         else if reg2 \<ge> CPU_GREG_NUM then RetErr cpu
         else
          let disp = t4_1_disp d;
              disp = op_zero_extend 6 disp;
              disp = push_bit 2 disp;
              addr = regs (reg cpu) reg1 + disp
          in get32 B addr cpu (\<lambda>data32 cpu.
               let ret = data32 in
               Ret0 (cpu\<lparr>reg := add_pc 2 (set_r reg2 ret (reg cpu))\<rparr>)))"

definition op_exec_ldb :: "'b bus_ops \<Rightarrow> 'b TargetCoreType \<Rightarrow> 'b TargetCoreType outcome" where
  "op_exec_ldb B cpu =
     (let d = type7 (decoded_code cpu);
          reg1 = ucast (t7_reg1 d) :: u32;
          reg2 = ucast (t7_reg2 d) :: u32
      in if reg1 \<ge> CPU_GREG_NUM then RetErr cpu
         else if reg2 \<ge> CPU_GREG_NUM then RetErr cpu
         else
          let disp = disp7_gen d;
              addr = regs (reg cpu) reg1 + disp
          in get8 B addr cpu (\<lambda>data8 cpu.
               let ret = scast data8 in
               Ret0 (cpu\<lparr>reg := add_pc 4 (set_r reg2 ret (reg cpu))\<rparr>)))"

definition op_exec_ld_b_14 :: "'b bus_ops \<Rightarrow> 'b TargetCoreType \<Rightarrow> 'b TargetCoreType outcome" where
  "op_exec_ld_b_14 B cpu =
     (let d = type14 (decoded_code cpu);
          reg1 = ucast (t14_reg1 d) :: u32;
          reg3 = ucast (t14_reg3 d) :: u32
      in if reg1 \<ge> CPU_GREG_NUM then RetErr cpu
         else if reg3 \<ge> CPU_GREG_NUM then RetErr cpu
         else
          let disp = disp14 d;
              addr = regs (reg cpu) reg1 + disp
          in get8 B addr cpu (\<lambda>data8 cpu.
               let ret = scast data8 in
               Ret0 (cpu\<lparr>reg := add_pc 6 (set_r reg3 ret (reg cpu))\<rparr>)))"

definition op_exec_ldbu :: "'b bus_ops \<Rightarrow> 'b TargetCoreType \<Rightarrow> 'b TargetCoreType outcome" where
  "op_exec_ldbu B cpu =
     (let d = type7 (decoded_code cpu);
          reg1 = ucast (t7_reg1 d) :: u32;
          reg2 = ucast (t7_reg2 d) :: u32
      in if reg1 \<ge> CPU_GREG_NUM then RetErr cpu
         else if reg2 \<ge> CPU_GREG_NUM then RetErr cpu
         else
          let disp_bit = ucast (t7_opcode d AND 0x0001);
              disp = op_sign_extend 15 (push_bit 1 (t7_disp d) OR disp_bit);
              addr = regs (reg cpu) reg1 + disp
          in get8 B addr cpu (\<lambda>data8 cpu.
               let ret = ucast data8 in
               Ret0 (cpu\<lparr>reg := add_pc 4 (set_r reg2 ret (reg cpu))\<rparr>)))"

definition op_exec_ld_bu_14 :: "'b bus_ops \<Rightarrow> 'b TargetCoreType \<Rightarrow> 'b TargetCoreType outcome" where
  "op_exec_ld_bu_14 B cpu =
     (let d = type14 (decoded_code cpu);
          reg1 = ucast (t14_reg1 d) :: u32;
          reg3 = ucast (t14_reg3 d) :: u32
      in if reg1 \<ge> CPU_GREG_NUM then RetErr cpu
         else if reg3 \<ge> CPU_GREG_NUM then RetErr cpu
         else
          let disp = disp14 d;
              addr = regs (reg cpu) reg1 + disp
          in get8 B addr cpu (\<lambda>data8 cpu.
               let ret = ucast data8 in
               Ret0 (cpu\<lparr>reg := add_pc 6 (set_r reg3 ret (reg cpu))\<rparr>)))"

definition op_exec_ldhw :: "'b bus_ops \<Rightarrow> 'b TargetCoreType \<Rightarrow> 'b TargetCoreType outcome" where
  "op_exec_ldhw B cpu =
     (let d = type7 (decoded_code cpu);
          reg1 = ucast (t7_reg1 d) :: u32;
          reg2 = ucast (t7_reg2 d) :: u32
      in if reg1 \<ge> CPU_GREG_NUM then RetErr cpu
         else if reg2 \<ge> CPU_GREG_NUM then RetErr cpu
         else if t7_gen d = 0x00
         then
          let disp = disp7 d;
              addr = regs (reg cpu) reg1 + disp
          in get16 B addr cpu (\<lambda>data16 cpu.
               let ret = scast data16 in
               Ret0 (cpu\<lparr>reg := add_pc 4 (set_r reg2 ret (reg cpu))\<rparr>))
         else
          let disp = disp7 d;
              addr = regs (reg cpu) reg1 + disp
          in get32 B addr cpu (\<lambda>data32 cpu.
               let ret = data32 in
               Ret0 (cpu\<lparr>reg := add_pc 4 (set_r reg2 ret (reg cpu))\<rparr>)))"

definition op_exec_ld_h_14 :: "'b bus_ops \<Rightarrow> 'b TargetCoreType \<Rightarrow> 'b TargetCoreType outcome" where
  "op_exec_ld_h_14 B cpu =
     (let d = type14 (decoded_code cpu);
          reg1 = ucast (t14_reg1 d) :: u32;
          reg3 = ucast (t14_reg3 d) :: u32
      in if reg1 \<ge> CPU_GREG_NUM then RetErr cpu
         else if reg3 \<ge> CPU_GREG_NUM then RetErr cpu
         else
          let disp = disp14 d;
              addr = regs (reg cpu) reg1 + disp
          in get16 B addr cpu (\<lambda>data16 cpu.
               let ret = scast data16 in
               Ret0 (cpu\<lparr>reg := add_pc 6 (set_r reg3 ret (reg cpu))\<rparr>)))"

definition op_exec_ld_w_14 :: "'b bus_ops \<Rightarrow> 'b TargetCoreType \<Rightarrow> 'b TargetCoreType outcome" where
  "op_exec_ld_w_14 B cpu =
     (let d = type14 (decoded_code cpu);
          reg1 = ucast (t14_reg1 d) :: u32;
          reg3 = ucast (t14_reg3 d) :: u32
      in if reg1 \<ge> CPU_GREG_NUM then RetErr cpu
         else if reg3 \<ge> CPU_GREG_NUM then RetErr cpu
         else
          let disp = disp14 d;
              addr = regs (reg cpu) reg1 + disp
          in get32 B addr cpu (\<lambda>data32 cpu.
               let ret = data32 in
               Ret0 (cpu\<lparr>reg := add_pc 6 (set_r reg3 ret (reg cpu))\<rparr>)))"

definition op_exec_ldhu :: "'b bus_ops \<Rightarrow> 'b TargetCoreType \<Rightarrow> 'b TargetCoreType outcome" where
  "op_exec_ldhu B cpu =
     (let d = type7 (decoded_code cpu);
          reg1 = ucast (t7_reg1 d) :: u32;
          reg2 = ucast (t7_reg2 d) :: u32
      in if reg1 \<ge> CPU_GREG_NUM then RetErr cpu
         else if reg2 \<ge> CPU_GREG_NUM then RetErr cpu
         else
          let disp = disp7 d;
              addr = regs (reg cpu) reg1 + disp
          in get16 B addr cpu (\<lambda>data16 cpu.
               let ret = ucast data16 in
               Ret0 (cpu\<lparr>reg := add_pc 4 (set_r reg2 ret (reg cpu))\<rparr>)))"

definition op_exec_ld_hu_14 :: "'b bus_ops \<Rightarrow> 'b TargetCoreType \<Rightarrow> 'b TargetCoreType outcome" where
  "op_exec_ld_hu_14 B cpu =
     (let d = type14 (decoded_code cpu);
          reg1 = ucast (t14_reg1 d) :: u32;
          reg3 = ucast (t14_reg3 d) :: u32
      in if reg1 \<ge> CPU_GREG_NUM then RetErr cpu
         else if reg3 \<ge> CPU_GREG_NUM then RetErr cpu
         else
          let disp = disp14 d;
              addr = regs (reg cpu) reg1 + disp
          in get16 B addr cpu (\<lambda>data16 cpu.
               let ret = ucast data16 in
               Ret0 (cpu\<lparr>reg := add_pc 6 (set_r reg3 ret (reg cpu))\<rparr>)))"

definition op_exec_ld_dw_14 :: "'b bus_ops \<Rightarrow> 'b TargetCoreType \<Rightarrow> 'b TargetCoreType outcome" where
  "op_exec_ld_dw_14 B cpu =
     (let d = type14 (decoded_code cpu);
          reg1 = ucast (t14_reg1 d) :: u32;
          reg3 = ucast (t14_reg3 d) :: u32
      in if reg1 \<ge> CPU_GREG_NUM then RetErr cpu
         else if reg3 \<ge> CPU_GREG_NUM then RetErr cpu
         else if reg3 mod 2 \<noteq> 0 then RetErr cpu
         else
          let disp = disp14 d;
              addr = regs (reg cpu) reg1 + disp;
              (has_permission, cpu) =
                target_mpu_has_permission cpu MPU_TARGET_ACCESS_READ addr 8
          in if \<not> has_permission then RetErr cpu
             else get32 B addr cpu (\<lambda>data32_0 cpu.
                  get32 B (addr + 4) cpu (\<lambda>data32_1 cpu.
                    let g = set_r (reg3 + 0) data32_0 (reg cpu);
                        g = set_r (reg3 + 1) data32_1 g
                    in Ret0 (cpu\<lparr>reg := add_pc 6 g\<rparr>))))"

end
