(* ===== verification/Exec_Store.thy ===== *)
theory Exec_Store
  imports Exec_Load
begin

text \<open>
  The store instructions of \<^verbatim>\<open>op_exec_store.c\<close> and \<^verbatim>\<open>op_exec_store_rh850.c\<close>.

  The macro \<open>IS_STACK_OVER\<close> (for a build that does not define \<^verbatim>\<open>SUPRESS_DETECT_ERROR\<close>)
  passes the value of \<^verbatim>\<open>(disp) == TRUE\<close> as the second argument of the checker: its closing
  parenthesis is one too late.  \<open>op_exec_st_dw_14\<close> writes the call out, with the displacement.
\<close>

definition IS_STACK_OVER :: "'b bus_ops \<Rightarrow> 'b TargetCoreType \<Rightarrow> u32 \<Rightarrow> u32 \<Rightarrow> bool" where
  "IS_STACK_OVER B cpu regN disp =
     cpu_may_store_on_stack_overflow B (regs (reg cpu) regN) (if disp = 1 then 1 else 0) cpu"

definition op_exec_sstb :: "'b bus_ops \<Rightarrow> 'b TargetCoreType \<Rightarrow> 'b TargetCoreType outcome" where
  "op_exec_sstb B cpu =
     (let d = type4_1 (decoded_code cpu);
          reg1 = CPU_REG_EP;
          reg2 = ucast (t4_1_reg2 d) :: u32
      in if reg1 \<ge> CPU_GREG_NUM then RetErr cpu
         else if reg2 \<ge> CPU_GREG_NUM then RetErr cpu
         else
          let disp = t4_1_disp d;
              disp = push_bit 1 disp OR t4_1_gen d;
              disp = op_zero_extend 7 disp;
              addr = regs (reg cpu) reg1 + disp
          in if reg1 = CPU_REG_SP \<and> IS_STACK_OVER B cpu reg1 disp then RetErr cpu
             else put8 B addr (ucast (regs (reg cpu) reg2)) cpu (\<lambda>cpu.
               Ret0 (cpu\<lparr>reg := add_pc 2 (reg cpu)\<rparr>)))"

definition op_exec_ssth :: "'b bus_ops \<Rightarrow> 'b TargetCoreType \<Rightarrow> 'b TargetCoreType outcome" where
  "op_exec_ssth B cpu =
     (let d = type4_1 (decoded_code cpu);
          reg1 = CPU_REG_EP;
          reg2 = ucast (t4_1_reg2 d) :: u32
      in if reg1 \<ge> CPU_GREG_NUM then RetErr cpu
         else if reg2 \<ge> CPU_GREG_NUM then RetErr cpu
         else
          let disp = t4_1_disp d;
              disp = push_bit 1 disp OR t4_1_gen d;
              disp = op_zero_extend 7 disp;
              disp = push_bit 1 disp;
              addr = regs (reg cpu) reg1 + disp
          in if reg1 = CPU_REG_SP \<and> IS_STACK_OVER B cpu reg1 disp then RetErr cpu
             else put16 B addr (ucast (regs (reg cpu) reg2)) cpu (\<lambda>cpu.
               Ret0 (cpu\<lparr>reg := add_pc 2 (reg cpu)\<rparr>)))"

definition op_exec_sstw :: "'b bus_ops \<Rightarrow> 'b TargetCoreType \<Rightarrow> 'b TargetCoreType outcome" where
  "op_exec_sstw B cpu =
     (let d = type4_1 (decoded_code cpu);
          reg1 = CPU_REG_EP;
          reg2 = ucast (t4_1_reg2 d) :: u32
      in if reg1 \<ge> CPU_GREG_NUM then RetErr cpu
         else if reg2 \<ge> CPU_GREG_NUM then RetErr cpu
         else
          let disp = t4_1_disp d;
              disp = op_zero_extend 6 disp;
              disp = push_bit 2 disp;
              addr = regs (reg cpu) reg1 + disp
          in if reg1 = CPU_REG_SP \<and> IS_STACK_OVER B cpu reg1 disp then RetErr cpu
             else put32 B addr (regs (reg cpu) reg2) cpu (\<lambda>cpu.
               Ret0 (cpu\<lparr>reg := add_pc 2 (reg cpu)\<rparr>)))"

definition op_exec_sthw :: "'b bus_ops \<Rightarrow> 'b TargetCoreType \<Rightarrow> 'b TargetCoreType outcome" where
  "op_exec_sthw B cpu =
     (let d = type7 (decoded_code cpu);
          reg1 = ucast (t7_reg1 d) :: u32;
          reg2 = ucast (t7_reg2 d) :: u32
      in if reg1 \<ge> CPU_GREG_NUM then RetErr cpu
         else if reg2 \<ge> CPU_GREG_NUM then RetErr cpu
         else if t7_gen d = 0x00
         then
          let disp = disp7 d;
              addr = regs (reg cpu) reg1 + disp
          in if reg1 = CPU_REG_SP \<and> IS_STACK_OVER B cpu reg1 disp then RetErr cpu
             else put16 B addr (ucast (regs (reg cpu) reg2)) cpu (\<lambda>cpu.
               Ret0 (cpu\<lparr>reg := add_pc 4 (reg cpu)\<rparr>))
         else
          let disp = disp7 d;
              addr = regs (reg cpu) reg1 + disp
          in if reg1 = CPU_REG_SP \<and> IS_STACK_OVER B cpu reg1 disp then RetErr cpu
             else put32 B addr (regs (reg cpu) reg2) cpu (\<lambda>cpu.
               Ret0 (cpu\<lparr>reg := add_pc 4 (reg cpu)\<rparr>)))"

definition op_exec_stb :: "'b bus_ops \<Rightarrow> 'b TargetCoreType \<Rightarrow> 'b TargetCoreType outcome" where
  "op_exec_stb B cpu =
     (let d = type7 (decoded_code cpu);
          reg1 = ucast (t7_reg1 d) :: u32;
          reg2 = ucast (t7_reg2 d) :: u32
      in if reg1 \<ge> CPU_GREG_NUM then RetErr cpu
         else if reg2 \<ge> CPU_GREG_NUM then RetErr cpu
         else
          let disp = disp7_gen d;
              addr = regs (reg cpu) reg1 + disp
          in if reg1 = CPU_REG_SP \<and> IS_STACK_OVER B cpu reg1 disp then RetErr cpu
             else put8 B addr (ucast (regs (reg cpu) reg2)) cpu (\<lambda>cpu.
               Ret0 (cpu\<lparr>reg := add_pc 4 (reg cpu)\<rparr>)))"

definition op_exec_st_b_14 :: "'b bus_ops \<Rightarrow> 'b TargetCoreType \<Rightarrow> 'b TargetCoreType outcome" where
  "op_exec_st_b_14 B cpu =
     (let d = type14 (decoded_code cpu);
          reg1 = ucast (t14_reg1 d) :: u32;
          reg3 = ucast (t14_reg3 d) :: u32
      in if reg1 \<ge> CPU_GREG_NUM then RetErr cpu
         else if reg3 \<ge> CPU_GREG_NUM then RetErr cpu
         else
          let disp = disp14 d;
              addr = regs (reg cpu) reg1 + disp
          in if reg1 = CPU_REG_SP \<and> IS_STACK_OVER B cpu reg1 disp then RetErr cpu
             else put8 B addr (ucast (regs (reg cpu) reg3)) cpu (\<lambda>cpu.
               Ret0 (cpu\<lparr>reg := add_pc 6 (reg cpu)\<rparr>)))"

definition op_exec_st_h_14 :: "'b bus_ops \<Rightarrow> 'b TargetCoreType \<Rightarrow> 'b TargetCoreType outcome" where
  "op_exec_st_h_14 B cpu =
     (let d = type14 (decoded_code cpu);
          reg1 = ucast (t14_reg1 d) :: u32;
          reg3 = ucast (t14_reg3 d) :: u32
      in if reg1 \<ge> CPU_GREG_NUM then RetErr cpu
         else if reg3 \<ge> CPU_GREG_NUM then RetErr cpu
         else
          let disp = disp14 d;
              addr = regs (reg cpu) reg1 + disp
          in if reg1 = CPU_REG_SP \<and> IS_STACK_OVER B cpu reg1 disp then RetErr cpu
             else put16 B addr (ucast (regs (reg cpu) reg3)) cpu (\<lambda>cpu.
               Ret0 (cpu\<lparr>reg := add_pc 6 (reg cpu)\<rparr>)))"

definition op_exec_st_w_14 :: "'b bus_ops \<Rightarrow> 'b TargetCoreType \<Rightarrow> 'b TargetCoreType outcome" where
  "op_exec_st_w_14 B cpu =
     (let d = type14 (decoded_code cpu);
          reg1 = ucast (t14_reg1 d) :: u32;
          reg3 = ucast (t14_reg3 d) :: u32
      in if reg1 \<ge> CPU_GREG_NUM then RetErr cpu
         else if reg3 \<ge> CPU_GREG_NUM then RetErr cpu
         else
          let disp = disp14 d;
              addr = regs (reg cpu) reg1 + disp
          in if reg1 = CPU_REG_SP \<and> IS_STACK_OVER B cpu reg1 disp then RetErr cpu
             else put32 B addr (regs (reg cpu) reg3) cpu (\<lambda>cpu.
               Ret0 (cpu\<lparr>reg := add_pc 6 (reg cpu)\<rparr>)))"

definition op_exec_st_dw_14 :: "'b bus_ops \<Rightarrow> 'b TargetCoreType \<Rightarrow> 'b TargetCoreType outcome" where
  "op_exec_st_dw_14 B cpu =
     (let d = type14 (decoded_code cpu);
          reg1 = ucast (t14_reg1 d) :: u32;
          reg3 = ucast (t14_reg3 d) :: u32;
          reg3plus1 = reg3 + 1
      in if reg1 \<ge> CPU_GREG_NUM then RetErr cpu
         else if reg3 \<ge> CPU_GREG_NUM then RetErr cpu
         else if reg3 mod 2 \<noteq> 0 then RetErr cpu
         else
          let disp = disp14 d;
              addr = regs (reg cpu) reg1 + disp
          in if reg1 = CPU_REG_SP \<and>
                cpu_may_store_on_stack_overflow B (regs (reg cpu) reg1) disp cpu
             then RetErr cpu
             else
              let (has_permission, cpu) =
                    target_mpu_has_permission cpu MPU_TARGET_ACCESS_WRITE addr 8
              in if \<not> has_permission then RetErr cpu
                 else put32 B addr (regs (reg cpu) reg3) cpu (\<lambda>cpu.
                      put32 B (addr + 4) (regs (reg cpu) reg3plus1) cpu (\<lambda>cpu.
                        Ret0 (cpu\<lparr>reg := add_pc 6 (reg cpu)\<rparr>))))"

end
