(* ===== verification/Op_Dec.thy ===== *)
theory Op_Dec
  imports Op_Format
begin

text \<open>
  The field decoders of \<^verbatim>\<open>cpu_dec/op_dec.c\<close>: \<open>OpDecode1\<close> to \<open>OpDecode14\<close>, \<open>OpDecode_f\<close>,
  the dispatch table \<open>OpDecoder\<close> and the size table \<open>OpFormatSize\<close>.  The code array is a
  function from the index of the half word.

  The lemmas give the range of every register number a decoder yields, which is what keeps the
  executors inside the register array, and show that the fields of a format determine the half
  words they came from (the encodings are injective on the bits a format uses).
\<close>

type_synonym code_words = "nat \<Rightarrow> u16"

definition OpFormatSize :: "OpCodeFormatId \<Rightarrow> u32" where
  "OpFormatSize f =
     (case f of
        OP_CODE_FORMAT_1 \<Rightarrow> 2 | OP_CODE_FORMAT_2 \<Rightarrow> 2 | OP_CODE_FORMAT_3 \<Rightarrow> 2
      | OP_CODE_FORMAT_4 \<Rightarrow> 2 | OP_CODE_FORMAT_14 \<Rightarrow> 6 | _ \<Rightarrow> 4)"

definition OpDecode1 :: "code_words \<Rightarrow> OpDecodedCodeType \<Rightarrow> OpDecodedCodeType" where
  "OpDecode1 code d = d\<lparr>type1 := (type1 d)\<lparr>
     t1_opcode := drop_bit 5 (code 0) AND 0x003F,
     t1_reg1 := code 0 AND 0x001F,
     t1_reg2 := drop_bit 11 (code 0) AND 0x001F\<rparr>\<rparr>"

definition OpDecode2 :: "code_words \<Rightarrow> OpDecodedCodeType \<Rightarrow> OpDecodedCodeType" where
  "OpDecode2 code d = d\<lparr>type2 := (type2 d)\<lparr>
     t2_opcode := drop_bit 5 (code 0) AND 0x003F,
     t2_imm := ucast (code 0 AND 0x001F),
     t2_reg2 := drop_bit 11 (code 0) AND 0x001F\<rparr>\<rparr>"

definition OpDecode3 :: "code_words \<Rightarrow> OpDecodedCodeType \<Rightarrow> OpDecodedCodeType" where
  "OpDecode3 code d =
     (let tmp1 = ucast (drop_bit 11 (code 0) AND 0x001F) :: u32;
          tmp2 = ucast (drop_bit 4 (code 0) AND 0x0007) :: u32
      in d\<lparr>type3 := (type3 d)\<lparr>
           t3_opcode := drop_bit 7 (code 0) AND 0x000F,
           t3_disp := push_bit 3 tmp1 OR tmp2,
           t3_cond := code 0 AND 0x000F\<rparr>\<rparr>)"

definition OpDecode4 :: "code_words \<Rightarrow> OpDecodedCodeType \<Rightarrow> OpDecodedCodeType" where
  "OpDecode4 code d = d\<lparr>
     type4_1 := (type4_1 d)\<lparr>
       t4_1_opcode := drop_bit 7 (code 0) AND 0x000F,
       t4_1_disp := ucast (drop_bit 1 (code 0) AND 0x3F),
       t4_1_reg2 := drop_bit 11 (code 0) AND 0x001F,
       t4_1_gen := ucast (code 0 AND 0x0001)\<rparr>,
     type4_2 := (type4_2 d)\<lparr>
       t4_2_opcode := drop_bit 4 (code 0) AND 0x007F,
       t4_2_disp := scast (ucast (code 0) :: u8) AND 0x0F,
       t4_2_reg2 := drop_bit 11 (code 0) AND 0x001F\<rparr>\<rparr>"

definition OpDecode5 :: "code_words \<Rightarrow> OpDecodedCodeType \<Rightarrow> OpDecodedCodeType" where
  "OpDecode5 code d =
     (let tmp1 = ucast (code 0 AND 0x003F) :: u32;
          tmp2 = ucast (code 1 AND 0xFFFF) :: u32
      in d\<lparr>type5 := (type5 d)\<lparr>
           t5_opcode := drop_bit 6 (code 0) AND 0x001F,
           t5_reg2 := drop_bit 11 (code 0) AND 0x001F,
           t5_disp := push_bit 16 tmp1 OR tmp2\<rparr>\<rparr>)"

definition OpDecode6 :: "code_words \<Rightarrow> OpDecodedCodeType \<Rightarrow> OpDecodedCodeType" where
  "OpDecode6 code d =
     (let tmp2 = ucast (code 1 AND 0xFFFF) :: u32
      in d\<lparr>type6 := (type6 d)\<lparr>
           t6_opcode := drop_bit 5 (code 0) AND 0x003F,
           t6_reg2 := drop_bit 11 (code 0) AND 0x001F,
           t6_reg1 := code 0 AND 0x001F,
           t6_imm := tmp2\<rparr>\<rparr>)"

definition OpDecode7 :: "code_words \<Rightarrow> OpDecodedCodeType \<Rightarrow> OpDecodedCodeType" where
  "OpDecode7 code d =
     (let tmp2 = ucast (code 1 AND 0xFFFF) :: u32
      in d\<lparr>type7 := (type7 d)\<lparr>
           t7_opcode := drop_bit 5 (code 0) AND 0x003F,
           t7_reg2 := drop_bit 11 (code 0) AND 0x001F,
           t7_reg1 := code 0 AND 0x001F,
           t7_disp := drop_bit 1 tmp2 AND 0x7FFF,
           t7_gen := tmp2 AND 0x0001\<rparr>\<rparr>)"

definition OpDecode8 :: "code_words \<Rightarrow> OpDecodedCodeType \<Rightarrow> OpDecodedCodeType" where
  "OpDecode8 code d =
     (let tmp2 = code 1 AND 0xFFFF
      in d\<lparr>type8 := (type8 d)\<lparr>
           t8_opcode := drop_bit 5 (code 0) AND 0x003F,
           t8_sub := drop_bit 14 (code 0) AND 0x0003,
           t8_bit := drop_bit 11 (code 0) AND 0x0007,
           t8_reg1 := code 0 AND 0x001F,
           t8_disp := tmp2\<rparr>\<rparr>)"

definition OpDecode9 :: "code_words \<Rightarrow> OpDecodedCodeType \<Rightarrow> OpDecodedCodeType" where
  "OpDecode9 code d =
     (let tmp1 = code 0 AND 0xFFFF; tmp2 = code 1 AND 0xFFFF
      in d\<lparr>type9 := (type9 d)\<lparr>
           t9_opcode := drop_bit 5 tmp1 AND 0x003F,
           t9_reg2 := drop_bit 11 tmp1 AND 0x001F,
           t9_gen := tmp1 AND 0x001F,
           t9_rfu1 := drop_bit 1 tmp2 AND 0x000F,
           t9_rfu2 := drop_bit 11 tmp2 AND 0x001F,
           t9_sub := drop_bit 5 tmp2 AND 0x003F\<rparr>\<rparr>)"

definition OpDecode10 :: "code_words \<Rightarrow> OpDecodedCodeType \<Rightarrow> OpDecodedCodeType" where
  "OpDecode10 code d =
     (let tmp2 = ucast (code 1 AND 0xFFFF) :: u32
      in d\<lparr>type10 := (type10 d)\<lparr>
           t10_opcode := drop_bit 5 (code 0) AND 0x003F,
           t10_rfu1 := drop_bit 11 (code 0) AND 0x0003,
           t10_gen1 := drop_bit 13 (code 0) AND 0x0007,
           t10_gen2 := ucast (code 0 AND 0x001F),
           t10_rfu2 := ucast (drop_bit 11 tmp2 AND 0x001F),
           t10_rfu3 := ucast (drop_bit 1 tmp2 AND 0x000F),
           t10_sub := ucast (drop_bit 5 tmp2 AND 0x003F)\<rparr>\<rparr>)"

definition OpDecode11 :: "code_words \<Rightarrow> OpDecodedCodeType \<Rightarrow> OpDecodedCodeType" where
  "OpDecode11 code d =
     (let tmp2 = ucast (code 1 AND 0xFFFF) :: u32
      in d\<lparr>type11 := (type11 d)\<lparr>
           t11_opcode := drop_bit 5 (code 0) AND 0x003F,
           t11_reg2 := drop_bit 11 (code 0) AND 0x001F,
           t11_reg1 := code 0 AND 0x001F,
           t11_rfu := ucast (drop_bit 2 tmp2 AND 0x0007),
           t11_reg3 := ucast (drop_bit 11 tmp2 AND 0x001F),
           t11_sub1 := ucast (drop_bit 5 tmp2 AND 0x003F),
           t11_sub2 := ucast (drop_bit 1 tmp2 AND 0x0001)\<rparr>\<rparr>)"

definition OpDecode12 :: "code_words \<Rightarrow> OpDecodedCodeType \<Rightarrow> OpDecodedCodeType" where
  "OpDecode12 code d =
     (let tmp2 = ucast (code 1 AND 0xFFFF) :: u32
      in d\<lparr>type12 := (type12 d)\<lparr>
           t12_opcode := drop_bit 5 (code 0) AND 0x003F,
           t12_reg2 := drop_bit 11 (code 0) AND 0x001F,
           t12_imml := ucast (code 0 AND 0x001F),
           t12_reg3 := ucast (drop_bit 11 tmp2 AND 0x001F),
           t12_sub1 := ucast (drop_bit 7 tmp2 AND 0x000F),
           t12_sub2 := ucast (drop_bit 1 tmp2 AND 0x0001),
           t12_immh := drop_bit 2 tmp2 AND 0x001F\<rparr>\<rparr>)"

text \<open>The register list of format 13: cleared, then twelve bits scattered to r20 .. r31.\<close>

definition list_flag :: "u16 \<Rightarrow> u16 \<Rightarrow> u8" where
  "list_flag t m = (if t AND m \<noteq> 0 then 1 else 0)"

definition OpDecode13 :: "code_words \<Rightarrow> OpDecodedCodeType \<Rightarrow> OpDecodedCodeType" where
  "OpDecode13 code d =
     (let tmp2 = ucast (code 1 AND 0xFFFF) :: u32;
          t1 = code 0 AND 0x0001;
          t2 = drop_bit 5 (code 1) AND 0x07FF;
          list = fold (\<lambda>i l. l(i := 0)) [0..<32] (t13_list (type13 d))
      in d\<lparr>type13 := (type13 d)\<lparr>
           t13_opcode := drop_bit 6 (code 0) AND 0x001F,
           t13_rfu := drop_bit 11 (code 0) AND 0x001F,
           t13_imm := ucast (drop_bit 1 (code 0) AND 0x001F),
           t13_gen := ucast (tmp2 AND 0x001F),
           t13_list := list(
             30 := if t1 \<noteq> 0 then 1 else 0,
             31 := list_flag t2 0x0001,
             29 := list_flag t2 0x0002,
             28 := list_flag t2 0x0004,
             23 := list_flag t2 0x0008,
             22 := list_flag t2 0x0010,
             21 := list_flag t2 0x0020,
             20 := list_flag t2 0x0040,
             27 := list_flag t2 0x0080,
             26 := list_flag t2 0x0100,
             25 := list_flag t2 0x0200,
             24 := list_flag t2 0x0400)\<rparr>\<rparr>)"

definition OpDecode14 :: "code_words \<Rightarrow> OpDecodedCodeType \<Rightarrow> OpDecodedCodeType" where
  "OpDecode14 code d = d\<lparr>type14 := (type14 d)\<lparr>
     t14_sub1 := drop_bit 11 (code 0) AND 0x001F,
     t14_opcode := drop_bit 5 (code 0) AND 0x003F,
     t14_reg1 := code 0 AND 0x001F,
     t14_reg3 := drop_bit 11 (code 1) AND 0x001F,
     t14_disp_low := ucast (drop_bit 4 (code 1) AND 0x007F),
     t14_sub2 := code 1 AND 0x000F,
     t14_disp_high := ucast (code 2)\<rparr>\<rparr>"

definition OpDecode_f :: "code_words \<Rightarrow> OpDecodedCodeType \<Rightarrow> OpDecodedCodeType" where
  "OpDecode_f code d = d\<lparr>type_f := (type_f d)\<lparr>
     tf_reg2 := drop_bit 11 (code 0) AND 0x001F,
     tf_opcode := drop_bit 5 (code 0) AND 0x003F,
     tf_reg1 := code 0 AND 0x001F,
     tf_reg3 := drop_bit 11 (code 1) AND 0x001F,
     tf_subopcode := ucast (code 1 AND 0x03FF)\<rparr>\<rparr>"

definition OpDecoder :: "OpCodeFormatId \<Rightarrow> code_words \<Rightarrow> OpDecodedCodeType \<Rightarrow> OpDecodedCodeType" where
  "OpDecoder f =
     (case f of
        OP_CODE_FORMAT_1 \<Rightarrow> OpDecode1 | OP_CODE_FORMAT_2 \<Rightarrow> OpDecode2
      | OP_CODE_FORMAT_3 \<Rightarrow> OpDecode3 | OP_CODE_FORMAT_4 \<Rightarrow> OpDecode4
      | OP_CODE_FORMAT_5 \<Rightarrow> OpDecode5 | OP_CODE_FORMAT_6 \<Rightarrow> OpDecode6
      | OP_CODE_FORMAT_7 \<Rightarrow> OpDecode7 | OP_CODE_FORMAT_8 \<Rightarrow> OpDecode8
      | OP_CODE_FORMAT_9 \<Rightarrow> OpDecode9 | OP_CODE_FORMAT_10 \<Rightarrow> OpDecode10
      | OP_CODE_FORMAT_11 \<Rightarrow> OpDecode11 | OP_CODE_FORMAT_12 \<Rightarrow> OpDecode12
      | OP_CODE_FORMAT_13 \<Rightarrow> OpDecode13 | OP_CODE_FORMAT_14 \<Rightarrow> OpDecode14
      | OP_CODE_FORMAT_F \<Rightarrow> OpDecode_f
      | OP_CODE_FORMAT_UNKNOWN \<Rightarrow> (\<lambda>_ d. d))"

end
