(* ===== verification/Op_Parse.thy ===== *)
theory Op_Parse
  imports Op_Dec Op_CodeId
begin

text \<open>
  Instruction recognition: \<^verbatim>\<open>cpu_dec/op_parse.c\<close> and the two tables of 64 parsers each of
  \<^verbatim>\<open>cpu_dec/op_parse_private.c\<close>.  A parser returns the instruction number and the format,
  or None for \<^verbatim>\<open>return -1\<close>; a chain of \<^verbatim>\<open>if (...) return 0;\<close> is a chain of
  \<open>if\<close>.  The masks \<^verbatim>\<open>(1U << 20U) | ...\<close> of the source are written as hexadecimal numbers.
\<close>

record OperationCodeType =
  format_id :: OpCodeFormatId
  code_id :: nat

definition optype :: "OpCodeFormatId \<Rightarrow> nat \<Rightarrow> OperationCodeType option" where
  "optype f c = Some \<lparr>format_id = f, code_id = c\<rparr>"

definition GET_REG1 :: "u16 \<Rightarrow> u16" where
  "GET_REG1 data = data AND 0x1F"

definition GET_REG2 :: "u16 \<Rightarrow> u16" where
  "GET_REG2 data = drop_bit 11 (data AND 0xF800)"

definition GET_REG3 :: "u16 \<Rightarrow> u16" where
  "GET_REG3 data1 = drop_bit 11 (data1 AND 0xF800)"

definition code_value :: "code_words \<Rightarrow> u32" where
  "code_value code = push_bit 16 (ucast (code 1)) OR ucast (code 0)"

section \<open>Base codes\<close>

definition op_parse_base_code_0000_00 :: "code_words \<Rightarrow> OperationCodeType option" where
  "op_parse_base_code_0000_00 code =
     (let reg1 = GET_REG1 (code 0); reg2 = GET_REG2 (code 0) in
      if reg1 = 0 \<and> reg2 = 0
      then optype OP_CODE_FORMAT_1 OpCodeId_NOP_1
      else if reg1 = 31 \<and> reg2 = 0
      then optype OP_CODE_FORMAT_1 OpCodeId_SYNCP_1
      else if reg1 = 30 \<and> reg2 = 0
      then optype OP_CODE_FORMAT_1 OpCodeId_SYNCM_1
      else if reg1 = 29 \<and> reg2 = 0
      then optype OP_CODE_FORMAT_1 OpCodeId_SYNCE_1
      else if reg1 = 28 \<and> reg2 = 0
      then optype OP_CODE_FORMAT_1 OpCodeId_SYNCI_1
      else if reg1 \<ge> 1 \<and> reg1 \<le> 27 \<and> reg2 = 0
      then optype OP_CODE_FORMAT_1 OpCodeId_MOV_1
      else if reg1 = 0 \<and> reg2 \<noteq> 0
      then optype OP_CODE_FORMAT_1 OpCodeId_MOV_1
      else if reg1 \<noteq> 0 \<and> reg2 \<noteq> 0
      then optype OP_CODE_FORMAT_1 OpCodeId_MOV_1
      else None)"

definition op_parse_base_code_0000_01 :: "code_words \<Rightarrow> OperationCodeType option" where
  "op_parse_base_code_0000_01 code =
     (if True
      then optype OP_CODE_FORMAT_1 OpCodeId_NOT_1
      else None)"

definition op_parse_base_code_0000_10 :: "code_words \<Rightarrow> OperationCodeType option" where
  "op_parse_base_code_0000_10 code =
     (let reg1 = GET_REG1 (code 0); reg2 = GET_REG2 (code 0) in
      if reg1 = 0 \<and> reg2 = 0
      then optype OP_CODE_FORMAT_1 OpCodeId_RIE_1
      else if reg1 \<noteq> 0 \<and> reg2 = 0
      then optype OP_CODE_FORMAT_1 OpCodeId_SWITCH_1
      else if reg1 = 0 \<and> reg2 = 31
      then optype OP_CODE_FORMAT_1 OpCodeId_DBTRAP_1
      else if reg1 = 0 \<and> reg2 \<ge> 1 \<and> reg2 \<le> 15
      then optype OP_CODE_FORMAT_1 OpCodeId_FETRAP_1
      else if reg1 \<noteq> 0 \<and> reg2 \<noteq> 0
      then optype OP_CODE_FORMAT_1 OpCodeId_DIVH_1
      else None)"

definition op_parse_base_code_0000_11 :: "code_words \<Rightarrow> OperationCodeType option" where
  "op_parse_base_code_0000_11 code =
     (let reg2 = GET_REG2 (code 0); value = code_value code in
      if reg2 = 0
      then optype OP_CODE_FORMAT_1 OpCodeId_JMP_1
      else if reg2 \<noteq> 0 \<and> value AND 0x10 = 0x0
      then optype OP_CODE_FORMAT_4 OpCodeId_SLD_BU_4
      else if reg2 \<noteq> 0 \<and> value AND 0x10 = 0x10
      then optype OP_CODE_FORMAT_4 OpCodeId_SLD_HU_4
      else None)"

definition op_parse_base_code_0001_00 :: "code_words \<Rightarrow> OperationCodeType option" where
  "op_parse_base_code_0001_00 code =
     (let reg2 = GET_REG2 (code 0) in
      if reg2 \<noteq> 0
      then optype OP_CODE_FORMAT_1 OpCodeId_SATSUBR_1
      else if reg2 = 0
      then optype OP_CODE_FORMAT_1 OpCodeId_ZXB_1
      else None)"

definition op_parse_base_code_0001_01 :: "code_words \<Rightarrow> OperationCodeType option" where
  "op_parse_base_code_0001_01 code =
     (let reg2 = GET_REG2 (code 0) in
      if reg2 \<noteq> 0
      then optype OP_CODE_FORMAT_1 OpCodeId_SATSUB_1
      else if reg2 = 0
      then optype OP_CODE_FORMAT_1 OpCodeId_SXB_1
      else None)"

definition op_parse_base_code_0001_10 :: "code_words \<Rightarrow> OperationCodeType option" where
  "op_parse_base_code_0001_10 code =
     (let reg2 = GET_REG2 (code 0) in
      if reg2 \<noteq> 0
      then optype OP_CODE_FORMAT_1 OpCodeId_SATADD_1
      else if reg2 = 0
      then optype OP_CODE_FORMAT_1 OpCodeId_ZXH_1
      else None)"

definition op_parse_base_code_0001_11 :: "code_words \<Rightarrow> OperationCodeType option" where
  "op_parse_base_code_0001_11 code =
     (let reg2 = GET_REG2 (code 0) in
      if reg2 \<noteq> 0
      then optype OP_CODE_FORMAT_1 OpCodeId_MULH_1
      else if reg2 = 0
      then optype OP_CODE_FORMAT_1 OpCodeId_SXH_1
      else None)"

definition op_parse_base_code_0010_00 :: "code_words \<Rightarrow> OperationCodeType option" where
  "op_parse_base_code_0010_00 code =
     (if True
      then optype OP_CODE_FORMAT_1 OpCodeId_OR_1
      else None)"

definition op_parse_base_code_0010_01 :: "code_words \<Rightarrow> OperationCodeType option" where
  "op_parse_base_code_0010_01 code =
     (if True
      then optype OP_CODE_FORMAT_1 OpCodeId_XOR_1
      else None)"

definition op_parse_base_code_0010_10 :: "code_words \<Rightarrow> OperationCodeType option" where
  "op_parse_base_code_0010_10 code =
     (if True
      then optype OP_CODE_FORMAT_1 OpCodeId_AND_1
      else None)"

definition op_parse_base_code_0010_11 :: "code_words \<Rightarrow> OperationCodeType option" where
  "op_parse_base_code_0010_11 code =
     (if True
      then optype OP_CODE_FORMAT_1 OpCodeId_TST_1
      else None)"

definition op_parse_base_code_0011_00 :: "code_words \<Rightarrow> OperationCodeType option" where
  "op_parse_base_code_0011_00 code =
     (if True
      then optype OP_CODE_FORMAT_1 OpCodeId_SUBR_1
      else None)"

definition op_parse_base_code_0011_01 :: "code_words \<Rightarrow> OperationCodeType option" where
  "op_parse_base_code_0011_01 code =
     (if True
      then optype OP_CODE_FORMAT_1 OpCodeId_SUB_1
      else None)"

definition op_parse_base_code_0011_10 :: "code_words \<Rightarrow> OperationCodeType option" where
  "op_parse_base_code_0011_10 code =
     (if True
      then optype OP_CODE_FORMAT_1 OpCodeId_ADD_1
      else None)"

definition op_parse_base_code_0011_11 :: "code_words \<Rightarrow> OperationCodeType option" where
  "op_parse_base_code_0011_11 code =
     (if True
      then optype OP_CODE_FORMAT_1 OpCodeId_CMP_1
      else None)"

definition op_parse_base_code_0100_00 :: "code_words \<Rightarrow> OperationCodeType option" where
  "op_parse_base_code_0100_00 code =
     (let reg2 = GET_REG2 (code 0) in
      if reg2 \<noteq> 0
      then optype OP_CODE_FORMAT_2 OpCodeId_MOV_2
      else if reg2 = 0
      then optype OP_CODE_FORMAT_2 OpCodeId_CALLT_2
      else None)"

definition op_parse_base_code_0100_01 :: "code_words \<Rightarrow> OperationCodeType option" where
  "op_parse_base_code_0100_01 code =
     (let reg2 = GET_REG2 (code 0) in
      if reg2 \<noteq> 0
      then optype OP_CODE_FORMAT_2 OpCodeId_SATADD_2
      else if reg2 = 0
      then optype OP_CODE_FORMAT_2 OpCodeId_CALLT_2
      else None)"

definition op_parse_base_code_0100_10 :: "code_words \<Rightarrow> OperationCodeType option" where
  "op_parse_base_code_0100_10 code =
     (if True
      then optype OP_CODE_FORMAT_2 OpCodeId_ADD_2
      else None)"

definition op_parse_base_code_0100_11 :: "code_words \<Rightarrow> OperationCodeType option" where
  "op_parse_base_code_0100_11 code =
     (if True
      then optype OP_CODE_FORMAT_2 OpCodeId_CMP_2
      else None)"

definition op_parse_base_code_0101_00 :: "code_words \<Rightarrow> OperationCodeType option" where
  "op_parse_base_code_0101_00 code =
     (if True
      then optype OP_CODE_FORMAT_2 OpCodeId_SHR_2
      else None)"

definition op_parse_base_code_0101_01 :: "code_words \<Rightarrow> OperationCodeType option" where
  "op_parse_base_code_0101_01 code =
     (if True
      then optype OP_CODE_FORMAT_2 OpCodeId_SAR_2
      else None)"

definition op_parse_base_code_0101_10 :: "code_words \<Rightarrow> OperationCodeType option" where
  "op_parse_base_code_0101_10 code =
     (if True
      then optype OP_CODE_FORMAT_2 OpCodeId_SHL_2
      else None)"

definition op_parse_base_code_0101_11 :: "code_words \<Rightarrow> OperationCodeType option" where
  "op_parse_base_code_0101_11 code =
     (let reg1 = GET_REG1 (code 0); reg2 = GET_REG2 (code 0) in
      if reg2 \<noteq> 0
      then optype OP_CODE_FORMAT_2 OpCodeId_MULH_2
      else if reg1 = 0 \<and> reg2 = 0
      then optype OP_CODE_FORMAT_6 OpCodeId_JR_6
      else if reg1 \<noteq> 0 \<and> reg2 = 0
      then optype OP_CODE_FORMAT_6 OpCodeId_JARL_6
      else None)"

definition op_parse_base_code_0110_00 :: "code_words \<Rightarrow> OperationCodeType option" where
  "op_parse_base_code_0110_00 code =
     (if True
      then optype OP_CODE_FORMAT_4 OpCodeId_SLD_B_4
      else None)"

definition op_parse_base_code_0110_01 :: "code_words \<Rightarrow> OperationCodeType option" where
  "op_parse_base_code_0110_01 code =
     (if True
      then optype OP_CODE_FORMAT_4 OpCodeId_SLD_B_4
      else None)"

definition op_parse_base_code_0110_10 :: "code_words \<Rightarrow> OperationCodeType option" where
  "op_parse_base_code_0110_10 code =
     (if True
      then optype OP_CODE_FORMAT_4 OpCodeId_SLD_B_4
      else None)"

definition op_parse_base_code_0110_11 :: "code_words \<Rightarrow> OperationCodeType option" where
  "op_parse_base_code_0110_11 code =
     (if True
      then optype OP_CODE_FORMAT_4 OpCodeId_SLD_B_4
      else None)"

definition op_parse_base_code_0111_00 :: "code_words \<Rightarrow> OperationCodeType option" where
  "op_parse_base_code_0111_00 code =
     (if True
      then optype OP_CODE_FORMAT_4 OpCodeId_SST_B_4
      else None)"

definition op_parse_base_code_0111_01 :: "code_words \<Rightarrow> OperationCodeType option" where
  "op_parse_base_code_0111_01 code =
     (if True
      then optype OP_CODE_FORMAT_4 OpCodeId_SST_B_4
      else None)"

definition op_parse_base_code_0111_10 :: "code_words \<Rightarrow> OperationCodeType option" where
  "op_parse_base_code_0111_10 code =
     (if True
      then optype OP_CODE_FORMAT_4 OpCodeId_SST_B_4
      else None)"

definition op_parse_base_code_0111_11 :: "code_words \<Rightarrow> OperationCodeType option" where
  "op_parse_base_code_0111_11 code =
     (if True
      then optype OP_CODE_FORMAT_4 OpCodeId_SST_B_4
      else None)"

definition op_parse_base_code_1000_00 :: "code_words \<Rightarrow> OperationCodeType option" where
  "op_parse_base_code_1000_00 code =
     (if True
      then optype OP_CODE_FORMAT_4 OpCodeId_SLD_H_4
      else None)"

definition op_parse_base_code_1000_01 :: "code_words \<Rightarrow> OperationCodeType option" where
  "op_parse_base_code_1000_01 code =
     (if True
      then optype OP_CODE_FORMAT_4 OpCodeId_SLD_H_4
      else None)"

definition op_parse_base_code_1000_10 :: "code_words \<Rightarrow> OperationCodeType option" where
  "op_parse_base_code_1000_10 code =
     (if True
      then optype OP_CODE_FORMAT_4 OpCodeId_SLD_H_4
      else None)"

definition op_parse_base_code_1000_11 :: "code_words \<Rightarrow> OperationCodeType option" where
  "op_parse_base_code_1000_11 code =
     (if True
      then optype OP_CODE_FORMAT_4 OpCodeId_SLD_H_4
      else None)"

definition op_parse_base_code_1001_00 :: "code_words \<Rightarrow> OperationCodeType option" where
  "op_parse_base_code_1001_00 code =
     (if True
      then optype OP_CODE_FORMAT_4 OpCodeId_SST_H_4
      else None)"

definition op_parse_base_code_1001_01 :: "code_words \<Rightarrow> OperationCodeType option" where
  "op_parse_base_code_1001_01 code =
     (if True
      then optype OP_CODE_FORMAT_4 OpCodeId_SST_H_4
      else None)"

definition op_parse_base_code_1001_10 :: "code_words \<Rightarrow> OperationCodeType option" where
  "op_parse_base_code_1001_10 code =
     (if True
      then optype OP_CODE_FORMAT_4 OpCodeId_SST_H_4
      else None)"

definition op_parse_base_code_1001_11 :: "code_words \<Rightarrow> OperationCodeType option" where
  "op_parse_base_code_1001_11 code =
     (if True
      then optype OP_CODE_FORMAT_4 OpCodeId_SST_H_4
      else None)"

definition op_parse_base_code_1010_00 :: "code_words \<Rightarrow> OperationCodeType option" where
  "op_parse_base_code_1010_00 code =
     (let value = code_value code in
      if value AND 0x1 = 0x0
      then optype OP_CODE_FORMAT_4 OpCodeId_SLD_W_4
      else if value AND 0x1 = 0x1
      then optype OP_CODE_FORMAT_4 OpCodeId_SST_W_4
      else None)"

definition op_parse_base_code_1010_01 :: "code_words \<Rightarrow> OperationCodeType option" where
  "op_parse_base_code_1010_01 code =
     (let value = code_value code in
      if value AND 0x1 = 0x0
      then optype OP_CODE_FORMAT_4 OpCodeId_SLD_W_4
      else if value AND 0x1 = 0x1
      then optype OP_CODE_FORMAT_4 OpCodeId_SST_W_4
      else None)"

definition op_parse_base_code_1010_10 :: "code_words \<Rightarrow> OperationCodeType option" where
  "op_parse_base_code_1010_10 code =
     (let value = code_value code in
      if value AND 0x1 = 0x0
      then optype OP_CODE_FORMAT_4 OpCodeId_SLD_W_4
      else if value AND 0x1 = 0x1
      then optype OP_CODE_FORMAT_4 OpCodeId_SST_W_4
      else None)"

definition op_parse_base_code_1010_11 :: "code_words \<Rightarrow> OperationCodeType option" where
  "op_parse_base_code_1010_11 code =
     (let value = code_value code in
      if value AND 0x1 = 0x0
      then optype OP_CODE_FORMAT_4 OpCodeId_SLD_W_4
      else if value AND 0x1 = 0x1
      then optype OP_CODE_FORMAT_4 OpCodeId_SST_W_4
      else None)"

definition op_parse_base_code_1011_00 :: "code_words \<Rightarrow> OperationCodeType option" where
  "op_parse_base_code_1011_00 code =
     (if True
      then optype OP_CODE_FORMAT_3 OpCodeId_Bcond_3
      else None)"

definition op_parse_base_code_1011_01 :: "code_words \<Rightarrow> OperationCodeType option" where
  "op_parse_base_code_1011_01 code =
     (if True
      then optype OP_CODE_FORMAT_3 OpCodeId_Bcond_3
      else None)"

definition op_parse_base_code_1011_10 :: "code_words \<Rightarrow> OperationCodeType option" where
  "op_parse_base_code_1011_10 code =
     (if True
      then optype OP_CODE_FORMAT_3 OpCodeId_Bcond_3
      else None)"

definition op_parse_base_code_1011_11 :: "code_words \<Rightarrow> OperationCodeType option" where
  "op_parse_base_code_1011_11 code =
     (if True
      then optype OP_CODE_FORMAT_3 OpCodeId_Bcond_3
      else None)"

definition op_parse_base_code_1100_00 :: "code_words \<Rightarrow> OperationCodeType option" where
  "op_parse_base_code_1100_00 code =
     (if True
      then optype OP_CODE_FORMAT_6 OpCodeId_ADDI_6
      else None)"

definition op_parse_base_code_1100_01 :: "code_words \<Rightarrow> OperationCodeType option" where
  "op_parse_base_code_1100_01 code =
     (let reg2 = GET_REG2 (code 0) in
      if reg2 \<noteq> 0
      then optype OP_CODE_FORMAT_6 OpCodeId_MOVEA_6
      else if reg2 = 0
      then optype OP_CODE_FORMAT_6 OpCodeId_MOV_6
      else None)"

definition op_parse_base_code_1100_10 :: "code_words \<Rightarrow> OperationCodeType option" where
  "op_parse_base_code_1100_10 code =
     (let reg2 = GET_REG2 (code 0) in
      if reg2 \<noteq> 0
      then optype OP_CODE_FORMAT_6 OpCodeId_MOVHI_6
      else if reg2 = 0
      then optype OP_CODE_FORMAT_13 OpCodeId_DISPOSE_13
      else None)"

definition op_parse_base_code_1100_11 :: "code_words \<Rightarrow> OperationCodeType option" where
  "op_parse_base_code_1100_11 code =
     (let reg2 = GET_REG2 (code 0) in
      if reg2 \<noteq> 0
      then optype OP_CODE_FORMAT_6 OpCodeId_SATSUBI_6
      else if reg2 = 0
      then optype OP_CODE_FORMAT_13 OpCodeId_DISPOSE_13
      else None)"

definition op_parse_base_code_1101_00 :: "code_words \<Rightarrow> OperationCodeType option" where
  "op_parse_base_code_1101_00 code =
     (if True
      then optype OP_CODE_FORMAT_6 OpCodeId_ORI_6
      else None)"

definition op_parse_base_code_1101_01 :: "code_words \<Rightarrow> OperationCodeType option" where
  "op_parse_base_code_1101_01 code =
     (if True
      then optype OP_CODE_FORMAT_6 OpCodeId_XORI_6
      else None)"

definition op_parse_base_code_1101_10 :: "code_words \<Rightarrow> OperationCodeType option" where
  "op_parse_base_code_1101_10 code =
     (if True
      then optype OP_CODE_FORMAT_6 OpCodeId_ANDI_6
      else None)"

definition op_parse_base_code_1101_11 :: "code_words \<Rightarrow> OperationCodeType option" where
  "op_parse_base_code_1101_11 code =
     (let reg2 = GET_REG2 (code 0); value = code_value code in
      if reg2 \<noteq> 0
      then optype OP_CODE_FORMAT_6 OpCodeId_MULHI_6
      else if reg2 = 0 \<and> value AND 0x10000 = 0x0
      then optype OP_CODE_FORMAT_6 OpCodeId_JMP_6
      else if reg2 = 0 \<and> value AND 0x10000 = 0x10000
      then optype OP_CODE_FORMAT_7 OpCodeId_LOOP_7
      else None)"

definition op_parse_base_code_1110_00 :: "code_words \<Rightarrow> OperationCodeType option" where
  "op_parse_base_code_1110_00 code =
     (if True
      then optype OP_CODE_FORMAT_7 OpCodeId_LD_B_7
      else None)"

definition op_parse_base_code_1110_01 :: "code_words \<Rightarrow> OperationCodeType option" where
  "op_parse_base_code_1110_01 code =
     (let value = code_value code in
      if value AND 0x10000 = 0x0
      then optype OP_CODE_FORMAT_7 OpCodeId_LD_H_7
      else if value AND 0x10000 = 0x10000
      then optype OP_CODE_FORMAT_7 OpCodeId_LD_W_7
      else None)"

definition op_parse_base_code_1110_10 :: "code_words \<Rightarrow> OperationCodeType option" where
  "op_parse_base_code_1110_10 code =
     (if True
      then optype OP_CODE_FORMAT_7 OpCodeId_ST_B_7
      else None)"

definition op_parse_base_code_1110_11 :: "code_words \<Rightarrow> OperationCodeType option" where
  "op_parse_base_code_1110_11 code =
     (let value = code_value code in
      if value AND 0x10000 = 0x0
      then optype OP_CODE_FORMAT_7 OpCodeId_ST_H_7
      else if value AND 0x10000 = 0x10000
      then optype OP_CODE_FORMAT_7 OpCodeId_ST_W_7
      else None)"

definition op_parse_base_code_1111_00 :: "code_words \<Rightarrow> OperationCodeType option" where
  "op_parse_base_code_1111_00 code =
     (let reg2 = GET_REG2 (code 0); value = code_value code in
      if reg2 = 0 \<and> value AND 0xF0020 = 0x50000
      then optype OP_CODE_FORMAT_14 OpCodeId_LD_B_14
      else if reg2 = 0 \<and> value AND 0xF0020 = 0x70000
      then optype OP_CODE_FORMAT_14 OpCodeId_LD_H_14
      else if reg2 = 0 \<and> value AND 0xF0020 = 0x90000
      then optype OP_CODE_FORMAT_14 OpCodeId_LD_W_14
      else if reg2 = 0 \<and> value AND 0xF0020 = 0xD0000
      then optype OP_CODE_FORMAT_14 OpCodeId_ST_B_14
      else if reg2 = 0 \<and> value AND 0xF0020 = 0xF0000
      then optype OP_CODE_FORMAT_14 OpCodeId_ST_W_14
      else if reg2 = 0 \<and> value AND 0x10000 = 0x0
      then optype OP_CODE_FORMAT_5 OpCodeId_JR_5
      else if reg2 \<noteq> 0 \<and> value AND 0x10000 = 0x0
      then optype OP_CODE_FORMAT_5 OpCodeId_JARL_5
      else if reg2 \<noteq> 0 \<and> value AND 0x10000 = 0x10000
      then optype OP_CODE_FORMAT_7 OpCodeId_LD_BU_7
      else if reg2 = 0 \<and> value AND 0x70000 = 0x30000
      then optype OP_CODE_FORMAT_13 OpCodeId_PREPARE_13
      else if reg2 = 0 \<and> value AND 0xF0000 = 0x10000
      then optype OP_CODE_FORMAT_13 OpCodeId_PREPARE_13
      else None)"

definition op_parse_base_code_1111_01 :: "code_words \<Rightarrow> OperationCodeType option" where
  "op_parse_base_code_1111_01 code =
     (let reg2 = GET_REG2 (code 0); value = code_value code in
      if reg2 = 0 \<and> value AND 0xF0020 = 0x50020
      then optype OP_CODE_FORMAT_14 OpCodeId_LD_BU_14
      else if reg2 = 0 \<and> value AND 0xF0020 = 0x70020
      then optype OP_CODE_FORMAT_14 OpCodeId_LD_HU_14
      else if reg2 = 0 \<and> value AND 0xF0020 = 0xD0020
      then optype OP_CODE_FORMAT_14 OpCodeId_ST_H_14
      else if reg2 = 0 \<and> value AND 0xF0020 = 0x90020
      then optype OP_CODE_FORMAT_14 OpCodeId_LD_DW_14
      else if reg2 = 0 \<and> value AND 0xF0020 = 0xF0020
      then optype OP_CODE_FORMAT_14 OpCodeId_ST_DW_14
      else if reg2 = 0 \<and> value AND 0x10000 = 0x0
      then optype OP_CODE_FORMAT_5 OpCodeId_JR_5
      else if reg2 \<noteq> 0 \<and> value AND 0x10000 = 0x0
      then optype OP_CODE_FORMAT_5 OpCodeId_JARL_5
      else if reg2 \<noteq> 0 \<and> value AND 0x10000 = 0x10000
      then optype OP_CODE_FORMAT_7 OpCodeId_LD_BU_7
      else if reg2 = 0 \<and> value AND 0x70000 = 0x30000
      then optype OP_CODE_FORMAT_13 OpCodeId_PREPARE_13
      else if reg2 = 0 \<and> value AND 0xF0000 = 0x10000
      then optype OP_CODE_FORMAT_13 OpCodeId_PREPARE_13
      else None)"

definition op_parse_base_code_1111_10 :: "code_words \<Rightarrow> OperationCodeType option" where
  "op_parse_base_code_1111_10 code =
     (let value = code_value code in
      if value AND 0xC000 = 0x0
      then optype OP_CODE_FORMAT_8 OpCodeId_SET1_8
      else if value AND 0xC000 = 0x4000
      then optype OP_CODE_FORMAT_8 OpCodeId_NOT1_8
      else if value AND 0xC000 = 0x8000
      then optype OP_CODE_FORMAT_8 OpCodeId_CLR1_8
      else if value AND 0xC000 = 0xC000
      then optype OP_CODE_FORMAT_8 OpCodeId_TST1_8
      else None)"

definition op_parse_base_code_1111_11 :: "code_words \<Rightarrow> OperationCodeType option" where
  "op_parse_base_code_1111_11 code =
     (let reg2 = GET_REG2 (code 0); value = code_value code in
      if reg2 \<noteq> 0 \<and> value AND 0x10000 = 0x10000
      then optype OP_CODE_FORMAT_7 OpCodeId_LD_HU_7
      else if reg2 = 0 \<and> value AND 0x10000 = 0x10000
      then optype OP_CODE_FORMAT_7 OpCodeId_Bcond_7
      else None)"

section \<open>Extended codes\<close>

definition op_parse_extend_code_0000_00 :: "code_words \<Rightarrow> OperationCodeType option" where
  "op_parse_extend_code_0000_00 code =
     (let value = code_value code in
      if value AND 0x10 = 0x0
      then optype OP_CODE_FORMAT_9 OpCodeId_SETF_9
      else if value AND 0x10 = 0x10
      then optype OP_CODE_FORMAT_10 OpCodeId_RIE_10
      else None)"

definition op_parse_extend_code_0000_01 :: "code_words \<Rightarrow> OperationCodeType option" where
  "op_parse_extend_code_0000_01 code =
     (if True
      then optype OP_CODE_FORMAT_9 OpCodeId_LDSR_9
      else None)"

definition op_parse_extend_code_0000_10 :: "code_words \<Rightarrow> OperationCodeType option" where
  "op_parse_extend_code_0000_10 code =
     (if True
      then optype OP_CODE_FORMAT_9 OpCodeId_STSR_9
      else None)"

definition op_parse_extend_code_0000_11 :: "code_words \<Rightarrow> OperationCodeType option" where
  "op_parse_extend_code_0000_11 code =
     (None)"

definition op_parse_extend_code_0001_00 :: "code_words \<Rightarrow> OperationCodeType option" where
  "op_parse_extend_code_0001_00 code =
     (let value = code_value code in
      if value AND 0x100000 = 0x100000
      then optype OP_CODE_FORMAT_9 OpCodeId_BINS_9
      else if value AND 0x120000 = 0x0
      then optype OP_CODE_FORMAT_9 OpCodeId_SHR_9
      else if value AND 0x120000 = 0x20000
      then optype OP_CODE_FORMAT_11 OpCodeId_SHR_11
      else None)"

definition op_parse_extend_code_0001_01 :: "code_words \<Rightarrow> OperationCodeType option" where
  "op_parse_extend_code_0001_01 code =
     (let value = code_value code in
      if value AND 0x100000 = 0x100000
      then optype OP_CODE_FORMAT_9 OpCodeId_BINS_9
      else if value AND 0x120000 = 0x0
      then optype OP_CODE_FORMAT_9 OpCodeId_SAR_9
      else if value AND 0x120000 = 0x20000
      then optype OP_CODE_FORMAT_11 OpCodeId_SAR_11
      else None)"

definition op_parse_extend_code_0001_10 :: "code_words \<Rightarrow> OperationCodeType option" where
  "op_parse_extend_code_0001_10 code =
     (let value = code_value code in
      if value AND 0x100000 = 0x100000
      then optype OP_CODE_FORMAT_9 OpCodeId_BINS_9
      else if value AND 0x160000 = 0x0
      then optype OP_CODE_FORMAT_9 OpCodeId_SHL_9
      else if value AND 0x160000 = 0x20000
      then optype OP_CODE_FORMAT_11 OpCodeId_SHL_11
      else if value AND 0x140000 = 0x40000
      then optype OP_CODE_FORMAT_7 OpCodeId_ROTL_7
      else None)"

definition op_parse_extend_code_0001_11 :: "code_words \<Rightarrow> OperationCodeType option" where
  "op_parse_extend_code_0001_11 code =
     (let value = code_value code in
      if value AND 0x60000 = 0x0
      then optype OP_CODE_FORMAT_9 OpCodeId_SET1_9
      else if value AND 0x60000 = 0x20000
      then optype OP_CODE_FORMAT_9 OpCodeId_NOT1_9
      else if value AND 0x60000 = 0x40000
      then optype OP_CODE_FORMAT_9 OpCodeId_CLR1_9
      else if value AND 0xE0000 = 0x60000
      then optype OP_CODE_FORMAT_9 OpCodeId_TST1_9
      else if value AND 0xE0000 = 0xE0000
      then optype OP_CODE_FORMAT_11 OpCodeId_CAXI_11
      else None)"

definition op_parse_extend_code_0010_00 :: "code_words \<Rightarrow> OperationCodeType option" where
  "op_parse_extend_code_0010_00 code =
     (if True
      then optype OP_CODE_FORMAT_10 OpCodeId_TRAP_10
      else None)"

definition op_parse_extend_code_0010_01 :: "code_words \<Rightarrow> OperationCodeType option" where
  "op_parse_extend_code_0010_01 code =
     (let value = code_value code in
      if value AND 0x800 = 0x0
      then optype OP_CODE_FORMAT_10 OpCodeId_HALT_10
      else if value AND 0x800 = 0x800
      then optype OP_CODE_FORMAT_10 OpCodeId_SNOOZE_10
      else None)"

definition op_parse_extend_code_0010_10 :: "code_words \<Rightarrow> OperationCodeType option" where
  "op_parse_extend_code_0010_10 code =
     (let value = code_value code in
      if value AND 0xE0000 = 0x0
      then optype OP_CODE_FORMAT_10 OpCodeId_RETI_10
      else if value AND 0xE0000 = 0x80000
      then optype OP_CODE_FORMAT_10 OpCodeId_EIRET_10
      else if value AND 0xE0000 = 0xA0000
      then optype OP_CODE_FORMAT_10 OpCodeId_FERET_10
      else if value AND 0xE0000 = 0x40000
      then optype OP_CODE_FORMAT_10 OpCodeId_CTRET_10
      else None)"

definition op_parse_extend_code_0010_11 :: "code_words \<Rightarrow> OperationCodeType option" where
  "op_parse_extend_code_0010_11 code =
     (let value = code_value code in
      if value AND 0xF800 = 0x0
      then optype OP_CODE_FORMAT_10 OpCodeId_DI_10
      else if value AND 0xF800 = 0x4000
      then optype OP_CODE_FORMAT_11 OpCodeId_PUSHSP_11
      else if value AND 0xF800 = 0x6000
      then optype OP_CODE_FORMAT_11 OpCodeId_POPSP_11
      else if value AND 0xF800 = 0x8000
      then optype OP_CODE_FORMAT_10 OpCodeId_EI_10
      else if value AND 0xF800 = 0xD000
      then optype OP_CODE_FORMAT_10 OpCodeId_SYSCALL_10
      else if value AND 0xF800 = 0xC000
      then optype OP_CODE_FORMAT_11 OpCodeId_JARL_11
      else None)"

definition op_parse_extend_code_0011_00 :: "code_words \<Rightarrow> OperationCodeType option" where
  "op_parse_extend_code_0011_00 code =
     (None)"

definition op_parse_extend_code_0011_01 :: "code_words \<Rightarrow> OperationCodeType option" where
  "op_parse_extend_code_0011_01 code =
     (None)"

definition op_parse_extend_code_0011_10 :: "code_words \<Rightarrow> OperationCodeType option" where
  "op_parse_extend_code_0011_10 code =
     (None)"

definition op_parse_extend_code_0011_11 :: "code_words \<Rightarrow> OperationCodeType option" where
  "op_parse_extend_code_0011_11 code =
     (None)"

definition op_parse_extend_code_0100_00 :: "code_words \<Rightarrow> OperationCodeType option" where
  "op_parse_extend_code_0100_00 code =
     (if True
      then optype OP_CODE_FORMAT_9 OpCodeId_SASF_9
      else None)"

definition op_parse_extend_code_0100_01 :: "code_words \<Rightarrow> OperationCodeType option" where
  "op_parse_extend_code_0100_01 code =
     (let value = code_value code in
      if value AND 0x20000 = 0x0
      then optype OP_CODE_FORMAT_11 OpCodeId_MUL_11
      else if value AND 0x20000 = 0x20000
      then optype OP_CODE_FORMAT_11 OpCodeId_MULU_11
      else None)"

definition op_parse_extend_code_0100_10 :: "code_words \<Rightarrow> OperationCodeType option" where
  "op_parse_extend_code_0100_10 code =
     (let value = code_value code in
      if value AND 0x20000 = 0x0
      then optype OP_CODE_FORMAT_12 OpCodeId_MUL_12
      else if value AND 0x20000 = 0x20000
      then optype OP_CODE_FORMAT_12 OpCodeId_MULU_12
      else None)"

definition op_parse_extend_code_0100_11 :: "code_words \<Rightarrow> OperationCodeType option" where
  "op_parse_extend_code_0100_11 code =
     (let value = code_value code in
      if value AND 0x20000 = 0x0
      then optype OP_CODE_FORMAT_12 OpCodeId_MUL_12
      else if value AND 0x20000 = 0x20000
      then optype OP_CODE_FORMAT_12 OpCodeId_MULU_12
      else None)"

definition op_parse_extend_code_0101_00 :: "code_words \<Rightarrow> OperationCodeType option" where
  "op_parse_extend_code_0101_00 code =
     (let value = code_value code in
      if value AND 0x20000 = 0x0
      then optype OP_CODE_FORMAT_11 OpCodeId_DIVH_11
      else if value AND 0x20000 = 0x20000
      then optype OP_CODE_FORMAT_11 OpCodeId_DIVHU_11
      else None)"

definition op_parse_extend_code_0101_01 :: "code_words \<Rightarrow> OperationCodeType option" where
  "op_parse_extend_code_0101_01 code =
     (None)"

definition op_parse_extend_code_0101_10 :: "code_words \<Rightarrow> OperationCodeType option" where
  "op_parse_extend_code_0101_10 code =
     (let value = code_value code in
      if value AND 0x20000 = 0x0
      then optype OP_CODE_FORMAT_11 OpCodeId_DIV_11
      else if value AND 0x20000 = 0x20000
      then optype OP_CODE_FORMAT_11 OpCodeId_DIVU_11
      else None)"

definition op_parse_extend_code_0101_11 :: "code_words \<Rightarrow> OperationCodeType option" where
  "op_parse_extend_code_0101_11 code =
     (let value = code_value code in
      if value AND 0x20000 = 0x0
      then optype OP_CODE_FORMAT_11 OpCodeId_DIVQ_11
      else if value AND 0x20000 = 0x20000
      then optype OP_CODE_FORMAT_11 OpCodeId_DIVQU_11
      else None)"

definition op_parse_extend_code_0110_00 :: "code_words \<Rightarrow> OperationCodeType option" where
  "op_parse_extend_code_0110_00 code =
     (if True
      then optype OP_CODE_FORMAT_12 OpCodeId_CMOV_12
      else None)"

definition op_parse_extend_code_0110_01 :: "code_words \<Rightarrow> OperationCodeType option" where
  "op_parse_extend_code_0110_01 code =
     (if True
      then optype OP_CODE_FORMAT_11 OpCodeId_CMOV_11
      else None)"

definition op_parse_extend_code_0110_10 :: "code_words \<Rightarrow> OperationCodeType option" where
  "op_parse_extend_code_0110_10 code =
     (let value = code_value code in
      if value AND 0x60000 = 0x0
      then optype OP_CODE_FORMAT_12 OpCodeId_BSW_12
      else if value AND 0x60000 = 0x20000
      then optype OP_CODE_FORMAT_12 OpCodeId_BSH_12
      else if value AND 0x60000 = 0x40000
      then optype OP_CODE_FORMAT_12 OpCodeId_HSW_12
      else if value AND 0x60000 = 0x60000
      then optype OP_CODE_FORMAT_12 OpCodeId_HSH_12
      else None)"

definition op_parse_extend_code_0110_11 :: "code_words \<Rightarrow> OperationCodeType option" where
  "op_parse_extend_code_0110_11 code =
     (let value = code_value code in
      if value AND 0x1E0000 = 0x180000
      then optype OP_CODE_FORMAT_7 OpCodeId_LDL_W_7
      else if value AND 0x1E0000 = 0x0
      then optype OP_CODE_FORMAT_9 OpCodeId_SCH0R_9
      else if value AND 0x1E0000 = 0x20000
      then optype OP_CODE_FORMAT_9 OpCodeId_SCH1R_9
      else if value AND 0x1E0000 = 0x1A0000
      then optype OP_CODE_FORMAT_7 OpCodeId_STC_W_7
      else if value AND 0x1E0000 = 0x40000
      then optype OP_CODE_FORMAT_9 OpCodeId_SCH0L_9
      else if value AND 0x1E0000 = 0x60000
      then optype OP_CODE_FORMAT_9 OpCodeId_SCH1L_9
      else None)"

definition op_parse_extend_code_0111_00 :: "code_words \<Rightarrow> OperationCodeType option" where
  "op_parse_extend_code_0111_00 code =
     (let value = code_value code in
      if value AND 0x1E0000 = 0x1A0000
      then optype OP_CODE_FORMAT_11 OpCodeId_SATSUB_11
      else if value AND 0x1E0000 \<noteq> 0x1A0000
      then optype OP_CODE_FORMAT_11 OpCodeId_SBF_11
      else None)"

definition op_parse_extend_code_0111_01 :: "code_words \<Rightarrow> OperationCodeType option" where
  "op_parse_extend_code_0111_01 code =
     (let value = code_value code in
      if value AND 0x1E0000 = 0x1A0000
      then optype OP_CODE_FORMAT_11 OpCodeId_SATADD_11
      else if value AND 0x1E0000 \<noteq> 0x1A0000
      then optype OP_CODE_FORMAT_11 OpCodeId_ADF_11
      else None)"

definition op_parse_extend_code_0111_10 :: "code_words \<Rightarrow> OperationCodeType option" where
  "op_parse_extend_code_0111_10 code =
     (if True
      then optype OP_CODE_FORMAT_11 OpCodeId_MAC_11
      else None)"

definition op_parse_extend_code_0111_11 :: "code_words \<Rightarrow> OperationCodeType option" where
  "op_parse_extend_code_0111_11 code =
     (if True
      then optype OP_CODE_FORMAT_11 OpCodeId_MACU_11
      else None)"

definition op_parse_extend_code_1000_00 :: "code_words \<Rightarrow> OperationCodeType option" where
  "op_parse_extend_code_1000_00 code =
     (let reg3 = GET_REG3 (code 1); value = code_value code in
      if reg3 \<noteq> 0 \<and> value AND 0x100000 = 0x0
      then optype OP_CODE_FORMAT_F OpCodeId_CMOVF_S_F
      else if reg3 \<noteq> 0 \<and> value AND 0x100000 = 0x100000
      then optype OP_CODE_FORMAT_F OpCodeId_CMOVF_D_F
      else if reg3 = 0 \<and> value AND 0x100000 = 0x0
      then optype OP_CODE_FORMAT_F OpCodeId_TRFSR_F
      else None)"

definition op_parse_extend_code_1000_01 :: "code_words \<Rightarrow> OperationCodeType option" where
  "op_parse_extend_code_1000_01 code =
     (let value = code_value code in
      if value AND 0x100000 = 0x0
      then optype OP_CODE_FORMAT_F OpCodeId_CMPF_S_F
      else if value AND 0x100000 = 0x100000
      then optype OP_CODE_FORMAT_F OpCodeId_CMPF_D_F
      else None)"

definition op_parse_extend_code_1000_10 :: "code_words \<Rightarrow> OperationCodeType option" where
  "op_parse_extend_code_1000_10 code =
     (let value = code_value code in
      if value AND 0x1E001F = 0x80000
      then optype OP_CODE_FORMAT_F OpCodeId_ABSF_S_F
      else if value AND 0x1E001F = 0x180000
      then optype OP_CODE_FORMAT_F OpCodeId_ABSF_D_F
      else if value AND 0x1E001F = 0x40002
      then optype OP_CODE_FORMAT_F OpCodeId_CEILF_SL_F
      else if value AND 0x1E001F = 0x140002
      then optype OP_CODE_FORMAT_F OpCodeId_CEILF_DL_F
      else if value AND 0x1E001F = 0x40012
      then optype OP_CODE_FORMAT_F OpCodeId_CEILF_SUL_F
      else if value AND 0x1E001F = 0x140012
      then optype OP_CODE_FORMAT_F OpCodeId_CEILF_DUL_F
      else if value AND 0x1E001F = 0x12
      then optype OP_CODE_FORMAT_F OpCodeId_CEILF_SUW_F
      else if value AND 0x1E001F = 0x100012
      then optype OP_CODE_FORMAT_F OpCodeId_CEILF_DUW_F
      else if value AND 0x1E001F = 0x2
      then optype OP_CODE_FORMAT_F OpCodeId_CEILF_SW_F
      else if value AND 0x1E001F = 0x100002
      then optype OP_CODE_FORMAT_F OpCodeId_CEILF_DW_F
      else if value AND 0x1E001F = 0x20002
      then optype OP_CODE_FORMAT_F OpCodeId_CVTF_HS_F
      else if value AND 0x1E001F = 0x20001
      then optype OP_CODE_FORMAT_F OpCodeId_CVTF_LS_F
      else if value AND 0x1E001F = 0x40004
      then optype OP_CODE_FORMAT_F OpCodeId_CVTF_SL_F
      else if value AND 0x1E001F = 0x20003
      then optype OP_CODE_FORMAT_F OpCodeId_CVTF_SH_F
      else if value AND 0x1E001F = 0x40014
      then optype OP_CODE_FORMAT_F OpCodeId_CVTF_SUL_F
      else if value AND 0x1E001F = 0x14
      then optype OP_CODE_FORMAT_F OpCodeId_CVTF_SUW_F
      else if value AND 0x1E001F = 0x4
      then optype OP_CODE_FORMAT_F OpCodeId_CVTF_SW_F
      else if value AND 0x1E001F = 0x20011
      then optype OP_CODE_FORMAT_F OpCodeId_CVTF_ULS_F
      else if value AND 0x1E001F = 0x20010
      then optype OP_CODE_FORMAT_F OpCodeId_CVTF_UWS_F
      else if value AND 0x1E001F = 0x20000
      then optype OP_CODE_FORMAT_F OpCodeId_CVTF_WS_F
      else if value AND 0x1E001F = 0x120001
      then optype OP_CODE_FORMAT_F OpCodeId_CVTF_LD_F
      else if value AND 0x1E001F = 0x140004
      then optype OP_CODE_FORMAT_F OpCodeId_CVTF_DL_F
      else if value AND 0x1E001F = 0x140014
      then optype OP_CODE_FORMAT_F OpCodeId_CVTF_DUL_F
      else if value AND 0x1E001F = 0x100014
      then optype OP_CODE_FORMAT_F OpCodeId_CVTF_DUW_F
      else if value AND 0x1E001F = 0x100004
      then optype OP_CODE_FORMAT_F OpCodeId_CVTF_DW_F
      else if value AND 0x1E001F = 0x120011
      then optype OP_CODE_FORMAT_F OpCodeId_CVTF_ULD_F
      else if value AND 0x1E001F = 0x120010
      then optype OP_CODE_FORMAT_F OpCodeId_CVTF_UWD_F
      else if value AND 0x1E001F = 0x120000
      then optype OP_CODE_FORMAT_F OpCodeId_CVTF_WD_F
      else if value AND 0x1E001F = 0x40003
      then optype OP_CODE_FORMAT_F OpCodeId_FLOORF_SL_F
      else if value AND 0x1E001F = 0x40013
      then optype OP_CODE_FORMAT_F OpCodeId_FLOORF_SUL_F
      else if value AND 0x1E001F = 0x13
      then optype OP_CODE_FORMAT_F OpCodeId_FLOORF_SUW_F
      else if value AND 0x1E001F = 0x3
      then optype OP_CODE_FORMAT_F OpCodeId_FLOORF_SW_F
      else if value AND 0x1E001F = 0x140003
      then optype OP_CODE_FORMAT_F OpCodeId_FLOORF_DL_F
      else if value AND 0x1E001F = 0x140013
      then optype OP_CODE_FORMAT_F OpCodeId_FLOORF_DUL_F
      else if value AND 0x1E001F = 0x100013
      then optype OP_CODE_FORMAT_F OpCodeId_FLOORF_DUW_F
      else if value AND 0x1E001F = 0x100003
      then optype OP_CODE_FORMAT_F OpCodeId_FLOORF_DW_F
      else if value AND 0x1E001F = 0x80001
      then optype OP_CODE_FORMAT_F OpCodeId_NEGF_S_F
      else if value AND 0x1E001F = 0x180001
      then optype OP_CODE_FORMAT_F OpCodeId_NEGF_D_F
      else if value AND 0x1E001F = 0xE0001
      then optype OP_CODE_FORMAT_F OpCodeId_RECIPF_S_F
      else if value AND 0x1E001F = 0x1E0001
      then optype OP_CODE_FORMAT_F OpCodeId_RECIPF_D_F
      else if value AND 0x1E001F = 0x40000
      then optype OP_CODE_FORMAT_F OpCodeId_ROUNDF_SL_F
      else if value AND 0x1E001F = 0x40010
      then optype OP_CODE_FORMAT_F OpCodeId_ROUNDF_SUL_F
      else if value AND 0x1E001F = 0x10
      then optype OP_CODE_FORMAT_F OpCodeId_ROUNDF_SUW_F
      else if value AND 0x1E001F = 0x0
      then optype OP_CODE_FORMAT_F OpCodeId_ROUNDF_SW_F
      else if value AND 0x1E001F = 0xE0002
      then optype OP_CODE_FORMAT_F OpCodeId_RSQRTF_S_F
      else if value AND 0x1E001F = 0x1E0002
      then optype OP_CODE_FORMAT_F OpCodeId_RSQRTF_D_F
      else if value AND 0x1E001F = 0xE0000
      then optype OP_CODE_FORMAT_F OpCodeId_SQRTF_S_F
      else if value AND 0x1E001F = 0x1E0000
      then optype OP_CODE_FORMAT_F OpCodeId_SQRTF_D_F
      else if value AND 0x1E001F = 0x120003
      then optype OP_CODE_FORMAT_F OpCodeId_CVTF_DS_F
      else if value AND 0x1E001F = 0x120002
      then optype OP_CODE_FORMAT_F OpCodeId_CVTF_SD_F
      else if value AND 0x1E001F = 0x40001
      then optype OP_CODE_FORMAT_F OpCodeId_TRNCF_SL_F
      else if value AND 0x1E001F = 0x40011
      then optype OP_CODE_FORMAT_F OpCodeId_TRNCF_SUL_F
      else if value AND 0x1E001F = 0x11
      then optype OP_CODE_FORMAT_F OpCodeId_TRNCF_SUW_F
      else if value AND 0x1E001F = 0x1
      then optype OP_CODE_FORMAT_F OpCodeId_TRNCF_SW_F
      else if value AND 0x1E001F = 0x140001
      then optype OP_CODE_FORMAT_F OpCodeId_TRNCF_DL_F
      else if value AND 0x1E001F = 0x140011
      then optype OP_CODE_FORMAT_F OpCodeId_TRNCF_DUL_F
      else if value AND 0x1E001F = 0x100011
      then optype OP_CODE_FORMAT_F OpCodeId_TRNCF_DUW_F
      else if value AND 0x1E001F = 0x100001
      then optype OP_CODE_FORMAT_F OpCodeId_TRNCF_DW_F
      else if value AND 0x1E001F = 0x120003
      then optype OP_CODE_FORMAT_F OpCodeId_CVTF_DS_F
      else if value AND 0x1E001F = 0x120002
      then optype OP_CODE_FORMAT_F OpCodeId_CVTF_SD_F
      else None)"

definition op_parse_extend_code_1000_11 :: "code_words \<Rightarrow> OperationCodeType option" where
  "op_parse_extend_code_1000_11 code =
     (let value = code_value code in
      if value AND 0x1E0000 = 0x0
      then optype OP_CODE_FORMAT_F OpCodeId_ADDF_S_F
      else if value AND 0x1E0000 = 0x100000
      then optype OP_CODE_FORMAT_F OpCodeId_ADDF_D_F
      else if value AND 0x1E0000 = 0xE0000
      then optype OP_CODE_FORMAT_F OpCodeId_DIVF_S_F
      else if value AND 0x1E0000 = 0x1E0000
      then optype OP_CODE_FORMAT_F OpCodeId_DIVF_D_F
      else if value AND 0x1E0000 = 0x80000
      then optype OP_CODE_FORMAT_F OpCodeId_MAXF_S_F
      else if value AND 0x1E0000 = 0x180000
      then optype OP_CODE_FORMAT_F OpCodeId_MAXF_D_F
      else if value AND 0x1E0000 = 0xA0000
      then optype OP_CODE_FORMAT_F OpCodeId_MINF_S_F
      else if value AND 0x1E0000 = 0x1A0000
      then optype OP_CODE_FORMAT_F OpCodeId_MINF_D_F
      else if value AND 0x1E0000 = 0x40000
      then optype OP_CODE_FORMAT_F OpCodeId_MULF_S_F
      else if value AND 0x1E0000 = 0x20000
      then optype OP_CODE_FORMAT_F OpCodeId_SUBF_S_F
      else if value AND 0x1E0000 = 0x120000
      then optype OP_CODE_FORMAT_F OpCodeId_SUBF_D_F
      else if value AND 0x1E0000 = 0x140000
      then optype OP_CODE_FORMAT_F OpCodeId_MULF_D_F
      else if value AND 0x1E0000 = 0x140000
      then optype OP_CODE_FORMAT_F OpCodeId_MULF_D_F
      else None)"

definition op_parse_extend_code_1001_00 :: "code_words \<Rightarrow> OperationCodeType option" where
  "op_parse_extend_code_1001_00 code =
     (None)"

definition op_parse_extend_code_1001_01 :: "code_words \<Rightarrow> OperationCodeType option" where
  "op_parse_extend_code_1001_01 code =
     (None)"

definition op_parse_extend_code_1001_10 :: "code_words \<Rightarrow> OperationCodeType option" where
  "op_parse_extend_code_1001_10 code =
     (None)"

definition op_parse_extend_code_1001_11 :: "code_words \<Rightarrow> OperationCodeType option" where
  "op_parse_extend_code_1001_11 code =
     (let value = code_value code in
      if value AND 0x1E0000 = 0x0
      then optype OP_CODE_FORMAT_F OpCodeId_FMAF_S_F
      else if value AND 0x1E0000 = 0x20000
      then optype OP_CODE_FORMAT_F OpCodeId_FMSF_S_F
      else if value AND 0x1E0000 = 0x40000
      then optype OP_CODE_FORMAT_F OpCodeId_FNMAF_S_F
      else if value AND 0x1E0000 = 0x60000
      then optype OP_CODE_FORMAT_F OpCodeId_FNMSF_S_F
      else None)"

definition op_parse_extend_code_1010_00 :: "code_words \<Rightarrow> OperationCodeType option" where
  "op_parse_extend_code_1010_00 code =
     (if True
      then optype OP_CODE_FORMAT_F OpCodeId_MADDF_S_F
      else None)"

definition op_parse_extend_code_1010_01 :: "code_words \<Rightarrow> OperationCodeType option" where
  "op_parse_extend_code_1010_01 code =
     (if True
      then optype OP_CODE_FORMAT_F OpCodeId_MSUBF_S_F
      else None)"

definition op_parse_extend_code_1010_10 :: "code_words \<Rightarrow> OperationCodeType option" where
  "op_parse_extend_code_1010_10 code =
     (if True
      then optype OP_CODE_FORMAT_F OpCodeId_NMADDF_S_F
      else None)"

definition op_parse_extend_code_1010_11 :: "code_words \<Rightarrow> OperationCodeType option" where
  "op_parse_extend_code_1010_11 code =
     (if True
      then optype OP_CODE_FORMAT_F OpCodeId_NMSUBF_S_F
      else None)"

definition op_parse_extend_code_1011_00 :: "code_words \<Rightarrow> OperationCodeType option" where
  "op_parse_extend_code_1011_00 code =
     (if True
      then optype OP_CODE_FORMAT_F OpCodeId_MADDF_S_F
      else None)"

definition op_parse_extend_code_1011_01 :: "code_words \<Rightarrow> OperationCodeType option" where
  "op_parse_extend_code_1011_01 code =
     (if True
      then optype OP_CODE_FORMAT_F OpCodeId_MSUBF_S_F
      else None)"

definition op_parse_extend_code_1011_10 :: "code_words \<Rightarrow> OperationCodeType option" where
  "op_parse_extend_code_1011_10 code =
     (if True
      then optype OP_CODE_FORMAT_F OpCodeId_NMADDF_S_F
      else None)"

definition op_parse_extend_code_1011_11 :: "code_words \<Rightarrow> OperationCodeType option" where
  "op_parse_extend_code_1011_11 code =
     (if True
      then optype OP_CODE_FORMAT_F OpCodeId_NMSUBF_S_F
      else None)"

definition op_parse_extend_code_1100_00 :: "code_words \<Rightarrow> OperationCodeType option" where
  "op_parse_extend_code_1100_00 code =
     (None)"

definition op_parse_extend_code_1100_01 :: "code_words \<Rightarrow> OperationCodeType option" where
  "op_parse_extend_code_1100_01 code =
     (None)"

definition op_parse_extend_code_1100_10 :: "code_words \<Rightarrow> OperationCodeType option" where
  "op_parse_extend_code_1100_10 code =
     (None)"

definition op_parse_extend_code_1100_11 :: "code_words \<Rightarrow> OperationCodeType option" where
  "op_parse_extend_code_1100_11 code =
     (None)"

definition op_parse_extend_code_1101_00 :: "code_words \<Rightarrow> OperationCodeType option" where
  "op_parse_extend_code_1101_00 code =
     (None)"

definition op_parse_extend_code_1101_01 :: "code_words \<Rightarrow> OperationCodeType option" where
  "op_parse_extend_code_1101_01 code =
     (None)"

definition op_parse_extend_code_1101_10 :: "code_words \<Rightarrow> OperationCodeType option" where
  "op_parse_extend_code_1101_10 code =
     (None)"

definition op_parse_extend_code_1101_11 :: "code_words \<Rightarrow> OperationCodeType option" where
  "op_parse_extend_code_1101_11 code =
     (None)"

definition op_parse_extend_code_1110_00 :: "code_words \<Rightarrow> OperationCodeType option" where
  "op_parse_extend_code_1110_00 code =
     (None)"

definition op_parse_extend_code_1110_01 :: "code_words \<Rightarrow> OperationCodeType option" where
  "op_parse_extend_code_1110_01 code =
     (None)"

definition op_parse_extend_code_1110_10 :: "code_words \<Rightarrow> OperationCodeType option" where
  "op_parse_extend_code_1110_10 code =
     (None)"

definition op_parse_extend_code_1110_11 :: "code_words \<Rightarrow> OperationCodeType option" where
  "op_parse_extend_code_1110_11 code =
     (None)"

definition op_parse_extend_code_1111_00 :: "code_words \<Rightarrow> OperationCodeType option" where
  "op_parse_extend_code_1111_00 code =
     (None)"

definition op_parse_extend_code_1111_01 :: "code_words \<Rightarrow> OperationCodeType option" where
  "op_parse_extend_code_1111_01 code =
     (None)"

definition op_parse_extend_code_1111_10 :: "code_words \<Rightarrow> OperationCodeType option" where
  "op_parse_extend_code_1111_10 code =
     (None)"

definition op_parse_extend_code_1111_11 :: "code_words \<Rightarrow> OperationCodeType option" where
  "op_parse_extend_code_1111_11 code =
     (None)"

section \<open>Tables and dispatch\<close>

definition op_parse_base_code_table :: "(code_words \<Rightarrow> OperationCodeType option) list" where
  "op_parse_base_code_table =
    [op_parse_base_code_0000_00,
     op_parse_base_code_0000_01,
     op_parse_base_code_0000_10,
     op_parse_base_code_0000_11,
     op_parse_base_code_0001_00,
     op_parse_base_code_0001_01,
     op_parse_base_code_0001_10,
     op_parse_base_code_0001_11,
     op_parse_base_code_0010_00,
     op_parse_base_code_0010_01,
     op_parse_base_code_0010_10,
     op_parse_base_code_0010_11,
     op_parse_base_code_0011_00,
     op_parse_base_code_0011_01,
     op_parse_base_code_0011_10,
     op_parse_base_code_0011_11,
     op_parse_base_code_0100_00,
     op_parse_base_code_0100_01,
     op_parse_base_code_0100_10,
     op_parse_base_code_0100_11,
     op_parse_base_code_0101_00,
     op_parse_base_code_0101_01,
     op_parse_base_code_0101_10,
     op_parse_base_code_0101_11,
     op_parse_base_code_0110_00,
     op_parse_base_code_0110_01,
     op_parse_base_code_0110_10,
     op_parse_base_code_0110_11,
     op_parse_base_code_0111_00,
     op_parse_base_code_0111_01,
     op_parse_base_code_0111_10,
     op_parse_base_code_0111_11,
     op_parse_base_code_1000_00,
     op_parse_base_code_1000_01,
     op_parse_base_code_1000_10,
     op_parse_base_code_1000_11,
     op_parse_base_code_1001_00,
     op_parse_base_code_1001_01,
     op_parse_base_code_1001_10,
     op_parse_base_code_1001_11,
     op_parse_base_code_1010_00,
     op_parse_base_code_1010_01,
     op_parse_base_code_1010_10,
     op_parse_base_code_1010_11,
     op_parse_base_code_1011_00,
     op_parse_base_code_1011_01,
     op_parse_base_code_1011_10,
     op_parse_base_code_1011_11,
     op_parse_base_code_1100_00,
     op_parse_base_code_1100_01,
     op_parse_base_code_1100_10,
     op_parse_base_code_1100_11,
     op_parse_base_code_1101_00,
     op_parse_base_code_1101_01,
     op_parse_base_code_1101_10,
     op_parse_base_code_1101_11,
     op_parse_base_code_1110_00,
     op_parse_base_code_1110_01,
     op_parse_base_code_1110_10,
     op_parse_base_code_1110_11,
     op_parse_base_code_1111_00,
     op_parse_base_code_1111_01,
     op_parse_base_code_1111_10,
     op_parse_base_code_1111_11]"

definition op_parse_extend_code_table :: "(code_words \<Rightarrow> OperationCodeType option) list" where
  "op_parse_extend_code_table =
    [op_parse_extend_code_0000_00,
     op_parse_extend_code_0000_01,
     op_parse_extend_code_0000_10,
     op_parse_extend_code_0000_11,
     op_parse_extend_code_0001_00,
     op_parse_extend_code_0001_01,
     op_parse_extend_code_0001_10,
     op_parse_extend_code_0001_11,
     op_parse_extend_code_0010_00,
     op_parse_extend_code_0010_01,
     op_parse_extend_code_0010_10,
     op_parse_extend_code_0010_11,
     op_parse_extend_code_0011_00,
     op_parse_extend_code_0011_01,
     op_parse_extend_code_0011_10,
     op_parse_extend_code_0011_11,
     op_parse_extend_code_0100_00,
     op_parse_extend_code_0100_01,
     op_parse_extend_code_0100_10,
     op_parse_extend_code_0100_11,
     op_parse_extend_code_0101_00,
     op_parse_extend_code_0101_01,
     op_parse_extend_code_0101_10,
     op_parse_extend_code_0101_11,
     op_parse_extend_code_0110_00,
     op_parse_extend_code_0110_01,
     op_parse_extend_code_0110_10,
     op_parse_extend_code_0110_11,
     op_parse_extend_code_0111_00,
     op_parse_extend_code_0111_01,
     op_parse_extend_code_0111_10,
     op_parse_extend_code_0111_11,
     op_parse_extend_code_1000_00,
     op_parse_extend_code_1000_01,
     op_parse_extend_code_1000_10,
     op_parse_extend_code_1000_11,
     op_parse_extend_code_1001_00,
     op_parse_extend_code_1001_01,
     op_parse_extend_code_1001_10,
     op_parse_extend_code_1001_11,
     op_parse_extend_code_1010_00,
     op_parse_extend_code_1010_01,
     op_parse_extend_code_1010_10,
     op_parse_extend_code_1010_11,
     op_parse_extend_code_1011_00,
     op_parse_extend_code_1011_01,
     op_parse_extend_code_1011_10,
     op_parse_extend_code_1011_11,
     op_parse_extend_code_1100_00,
     op_parse_extend_code_1100_01,
     op_parse_extend_code_1100_10,
     op_parse_extend_code_1100_11,
     op_parse_extend_code_1101_00,
     op_parse_extend_code_1101_01,
     op_parse_extend_code_1101_10,
     op_parse_extend_code_1101_11,
     op_parse_extend_code_1110_00,
     op_parse_extend_code_1110_01,
     op_parse_extend_code_1110_10,
     op_parse_extend_code_1110_11,
     op_parse_extend_code_1111_00,
     op_parse_extend_code_1111_01,
     op_parse_extend_code_1111_10,
     op_parse_extend_code_1111_11]"

definition GET_VALUE_BIT_10_7 :: "u16 \<Rightarrow> u16" where
  "GET_VALUE_BIT_10_7 data = drop_bit 7 (data AND 0x780)"

definition GET_VALUE_BIT_6_5 :: "u16 \<Rightarrow> u16" where
  "GET_VALUE_BIT_6_5 data = drop_bit 5 (data AND 0x60)"

definition GET_VALUE_BIT_26_23 :: "u32 \<Rightarrow> u16" where
  "GET_VALUE_BIT_26_23 data = ucast (drop_bit 23 (data AND 0x7800000))"

definition GET_VALUE_BIT_22_21 :: "u32 \<Rightarrow> u16" where
  "GET_VALUE_BIT_22_21 data = ucast (drop_bit 21 (data AND 0x600000))"

definition OP_PARSE_TABLE_INDEX :: "u16 \<Rightarrow> u16 \<Rightarrow> nat" where
  "OP_PARSE_TABLE_INDEX base_id sub_id = unat (push_bit 2 base_id OR sub_id)"

definition is_extend_code :: "code_words \<Rightarrow> bool" where
  "is_extend_code code \<longleftrightarrow>
     code 0 AND 0x7E0 = 0x7E0 \<and> code_value code AND 0x10000 = 0"

definition op_parse_type :: "code_words \<Rightarrow> OperationCodeType option" where
  "op_parse_type code =
     (let value = code_value code in
      if is_extend_code code
      then (op_parse_extend_code_table !
              OP_PARSE_TABLE_INDEX (GET_VALUE_BIT_26_23 value) (GET_VALUE_BIT_22_21 value)) code
      else (op_parse_base_code_table !
              OP_PARSE_TABLE_INDEX (GET_VALUE_BIT_10_7 (code 0)) (GET_VALUE_BIT_6_5 (code 0))) code)"

definition op_parse ::
    "code_words \<Rightarrow> OpDecodedCodeType \<Rightarrow> (OperationCodeType \<times> OpDecodedCodeType) option" where
  "op_parse code d =
     (case op_parse_type code of
        None \<Rightarrow> None
      | Some t \<Rightarrow> Some (t, OpDecoder (format_id t) code d))"

end
