(* ===== verification/Cpu_Step.thy ===== *)
theory Cpu_Step
  imports Exec_Arith Exec_Logic Exec_Bit Exec_Store Exec_Spec Op_Parse
begin

text \<open>
  The execution table of \<^verbatim>\<open>cpu_exec/op_exec.c\<close> (with the macros of \<^verbatim>\<open>op_exec.h\<close>) and the
  step of a core: \<^verbatim>\<open>cpu_supply_clock\<close>, reset and exception hooks of
  \<^verbatim>\<open>cpu/config/cpu_config.c\<close>.

  The state \<open>CpuCoreType\<close> is one core with its cycle counter, the instruction cache and the
  static decode buffer.  Which addresses have a cache region is decided by the emulator core
  (\<^verbatim>\<open>virtual_cpu_get_cached_code\<close>): it is the argument \<open>has_cache\<close>; since an entry is indexed
  by \<^verbatim>\<open>pc - code_start_addr\<close>, the cache is a function of the program counter.  The floating
  point executors are the argument \<open>fpu\<close>; the theory \<open>Fpu_Table\<close> gives its value.
\<close>

section \<open>Execution table\<close>

text \<open>Base cycles, in the order of the instruction numbers.\<close>

definition op_exec_clocks :: "u32 list" where
  "op_exec_clocks =
    [7, 7, 1, 1, 7, 7, 1, 1, 1, 1, 1, 1, 1, 4, 4, 10, 4, 7, 7, 7,
     7, 7, 7, 7, 7, 4, 4, 1, 1, 7, 7, 1, 1, 7, 7, 7, 7, 7, 7, 7,
     7, 7, 7, 7, 7, 7, 7, 7, 7, 7, 7, 7, 7, 7, 7, 7, 3, 3, 2, 19,
     20, 20, 36, 19, 19, 19, 19, 19, 3, 7, 7, 7, 7, 7, 7, 7, 7, 7, 7, 7,
     7, 7, 7, 7, 1, 1, 1, 4, 4, 3, 4, 5, 4, 4, 2, 3, 3, 3, 3, 3,
     3, 3, 3, 3, 3, 3, 3, 4, 3, 3, 7, 7, 7, 7, 7, 1, 1, 1, 1, 1,
     7, 3, 3, 8, 7, 3, 3, 3, 3, 3, 7, 7, 7, 7, 1, 1, 4, 4, 1, 1,
     2, 2, 2, 32, 16, 7, 7, 7, 1, 7, 7, 7, 7, 42, 20, 1, 1, 1, 1, 1,
     1, 1, 1, 1, 1, 1, 1, 1, 1, 1, 1, 4, 4, 1, 1, 1, 1, 1, 1, 1,
     3, 3, 3, 3, 3, 10, 36, 20, 1, 1, 1, 2, 1, 1, 1, 1, 1, 1, 1, 1,
     1, 7, 7, 1, 8, 1, 1, 10, 10, 10, 10, 10, 7, 1, 7, 7, 7, 7, 7, 7,
     7, 7, 1, 4, 4, 1, 1, 1, 1]"

text \<open>The instructions whose table entry is \<^verbatim>\<open>NULL\<close>.\<close>

definition op_exec_null :: "nat list" where
  "op_exec_null =
    [OpCodeId_CALLT_2, OpCodeId_CEILF_SL_F, OpCodeId_CEILF_SUL_F, OpCodeId_CEILF_SUW_F,
     OpCodeId_CEILF_SW_F, OpCodeId_CTRET_10, OpCodeId_CVTF_HS_F, OpCodeId_CVTF_SH_F,
     OpCodeId_CVTF_SL_F, OpCodeId_CVTF_SUL_F, OpCodeId_DBTRAP_1, OpCodeId_FLOORF_SL_F,
     OpCodeId_FLOORF_SUW_F, OpCodeId_FLOORF_SW_F, OpCodeId_RECIPF_S_F, OpCodeId_RIE_1,
     OpCodeId_RIE_10, OpCodeId_ROUNDF_SL_F, OpCodeId_ROUNDF_SUL_F, OpCodeId_ROUNDF_SUW_F,
     OpCodeId_ROUNDF_SW_F, OpCodeId_RSQRTF_S_F, OpCodeId_SNOOZE_10, OpCodeId_SQRTF_S_F,
     OpCodeId_TRNCF_SL_F]"

definition op_exec_rows :: "'b bus_ops \<Rightarrow> (nat \<times> ('b TargetCoreType \<Rightarrow> 'b TargetCoreType outcome)) list" where
  "op_exec_rows B =
    [(OpCodeId_ADD_1, op_exec_add_1),
     (OpCodeId_ADD_2, op_exec_add_2),
     (OpCodeId_ADDI_6, op_exec_addi),
     (OpCodeId_ADF_11, op_exec_adf_11),
     (OpCodeId_AND_1, op_exec_and),
     (OpCodeId_ANDI_6, op_exec_andi),
     (OpCodeId_BINS_9, op_exec_bins_9),
     (OpCodeId_BSH_12, op_exec_bsh_12),
     (OpCodeId_BSW_12, op_exec_bsw_12),
     (OpCodeId_Bcond_3, op_exec_bcond_3),
     (OpCodeId_Bcond_7, op_exec_bcond_7),
     (OpCodeId_CAXI_11, op_exec_caxi B),
     (OpCodeId_CLR1_8, op_exec_clr1_8 B),
     (OpCodeId_CLR1_9, op_exec_clr1_9 B),
     (OpCodeId_CMOV_12, op_exec_cmov_12),
     (OpCodeId_CMOV_11, op_exec_cmov_11),
     (OpCodeId_CMP_1, op_exec_cmp_1),
     (OpCodeId_CMP_2, op_exec_cmp_2),
     (OpCodeId_DI_10, op_exec_diei),
     (OpCodeId_DISPOSE_13, op_exec_dispose B),
     (OpCodeId_DIV_11, op_exec_div),
     (OpCodeId_DIVH_1, op_exec_divh_1),
     (OpCodeId_DIVH_11, op_exec_divh_11),
     (OpCodeId_DIVHU_11, op_exec_divhu),
     (OpCodeId_DIVQ_11, op_exec_div),
     (OpCodeId_DIVQU_11, op_exec_divqu_11),
     (OpCodeId_DIVU_11, op_exec_divu),
     (OpCodeId_EI_10, op_exec_diei),
     (OpCodeId_EIRET_10, op_exec_eiret_10 B),
     (OpCodeId_FERET_10, op_exec_feret_10 B),
     (OpCodeId_FETRAP_1, op_exec_fetrap_1),
     (OpCodeId_HALT_10, op_exec_halt),
     (OpCodeId_HSH_12, op_exec_hsh_12),
     (OpCodeId_HSW_12, op_exec_hsw_12),
     (OpCodeId_JARL_6, op_exec_jarl_6 B),
     (OpCodeId_JARL_5, op_exec_jr),
     (OpCodeId_JARL_11, op_exec_jarl_11),
     (OpCodeId_JMP_1, op_exec_jmp),
     (OpCodeId_JMP_6, op_exec_jmp_6 B),
     (OpCodeId_JR_6, op_exec_jr_6 B),
     (OpCodeId_JR_5, op_exec_jr),
     (OpCodeId_LDL_W_7, op_exec_ldhw B),
     (OpCodeId_LDSR_9, op_exec_ldsr),
     (OpCodeId_LD_B_7, op_exec_ldb B),
     (OpCodeId_LD_B_14, op_exec_ld_b_14 B),
     (OpCodeId_LD_BU_7, op_exec_ldbu B),
     (OpCodeId_LD_BU_14, op_exec_ld_bu_14 B),
     (OpCodeId_LD_DW_14, op_exec_ld_dw_14 B),
     (OpCodeId_LD_H_7, op_exec_ldhw B),
     (OpCodeId_LD_H_14, op_exec_ld_h_14 B),
     (OpCodeId_LD_HU_14, op_exec_ld_hu_14 B),
     (OpCodeId_LD_HU_7, op_exec_ldhu B),
     (OpCodeId_LD_W_7, op_exec_ldhw B),
     (OpCodeId_LD_W_14, op_exec_ld_w_14 B),
     (OpCodeId_LOOP_7, op_exec_loop_7),
     (OpCodeId_MAC_11, op_exec_mac_11),
     (OpCodeId_MACU_11, op_exec_macu_11),
     (OpCodeId_MOV_1, op_exec_mov_1),
     (OpCodeId_MOV_2, op_exec_mov_2),
     (OpCodeId_MOV_6, op_exec_mov_6 B),
     (OpCodeId_MOVEA_6, op_exec_movea),
     (OpCodeId_MOVHI_6, op_exec_movhi),
     (OpCodeId_MUL_11, op_exec_mul),
     (OpCodeId_MUL_12, op_exec_mul_12),
     (OpCodeId_MULH_1, op_exec_mulh_1),
     (OpCodeId_MULH_2, op_exec_mulh_2),
     (OpCodeId_MULHI_6, op_exec_mulhi),
     (OpCodeId_MULU_11, op_exec_mulu),
     (OpCodeId_MULU_12, op_exec_mulu_12),
     (OpCodeId_NOP_1, op_exec_nop),
     (OpCodeId_NOT_1, op_exec_not),
     (OpCodeId_NOT1_8, op_exec_not1_8 B),
     (OpCodeId_NOT1_9, op_exec_not1_9 B),
     (OpCodeId_OR_1, op_exec_or),
     (OpCodeId_ORI_6, op_exec_ori),
     (OpCodeId_POPSP_11, op_exec_popsp_11 B),
     (OpCodeId_PREPARE_13, op_exec_prepare B),
     (OpCodeId_PUSHSP_11, op_exec_pushsp_11 B),
     (OpCodeId_RETI_10, op_exec_reti B),
     (OpCodeId_ROTL_7, op_exec_rotl_7),
     (OpCodeId_SAR_2, op_exec_sar_2),
     (OpCodeId_SAR_9, op_exec_sar_9),
     (OpCodeId_SAR_11, op_exec_sar_11),
     (OpCodeId_SASF_9, op_exec_sasf_9),
     (OpCodeId_SATADD_1, op_exec_satadd_1),
     (OpCodeId_SATADD_2, op_exec_satadd_2),
     (OpCodeId_SATADD_11, op_exec_satadd_11),
     (OpCodeId_SATSUB_1, op_exec_satsub_1),
     (OpCodeId_SATSUB_11, op_exec_satsub_11),
     (OpCodeId_SATSUBI_6, op_exec_satsubi),
     (OpCodeId_SATSUBR_1, op_exec_satsubr_1),
     (OpCodeId_SBF_11, op_exec_sbf_11),
     (OpCodeId_SCH0L_9, op_exec_sch0l_9),
     (OpCodeId_SCH0R_9, op_exec_sch0r_9),
     (OpCodeId_SCH1L_9, op_exec_sch1l_9),
     (OpCodeId_SCH1R_9, op_exec_sch1r_9),
     (OpCodeId_SET1_8, op_exec_set1_8 B),
     (OpCodeId_SET1_9, op_exec_set1_9 B),
     (OpCodeId_SETF_9, op_exec_setf),
     (OpCodeId_SHL_2, op_exec_shl_2),
     (OpCodeId_SHL_9, op_exec_shl_9),
     (OpCodeId_SHL_11, op_exec_shl_11),
     (OpCodeId_SHR_2, op_exec_shr_2),
     (OpCodeId_SHR_9, op_exec_shr_9),
     (OpCodeId_SHR_11, op_exec_shr_11),
     (OpCodeId_SLD_B_4, op_exec_sldb B),
     (OpCodeId_SLD_BU_4, op_exec_sldbu B),
     (OpCodeId_SLD_H_4, op_exec_sldh B),
     (OpCodeId_SLD_HU_4, op_exec_sldhu B),
     (OpCodeId_SLD_W_4, op_exec_sldw B),
     (OpCodeId_SST_B_4, op_exec_sstb B),
     (OpCodeId_SST_H_4, op_exec_ssth B),
     (OpCodeId_SST_W_4, op_exec_sstw B),
     (OpCodeId_STC_W_7, op_exec_sthw B),
     (OpCodeId_STSR_9, op_exec_stsr),
     (OpCodeId_ST_B_7, op_exec_stb B),
     (OpCodeId_ST_B_14, op_exec_st_b_14 B),
     (OpCodeId_ST_DW_14, op_exec_st_dw_14 B),
     (OpCodeId_ST_H_7, op_exec_sthw B),
     (OpCodeId_ST_H_14, op_exec_st_h_14 B),
     (OpCodeId_ST_W_7, op_exec_sthw B),
     (OpCodeId_ST_W_14, op_exec_st_w_14 B),
     (OpCodeId_SUB_1, op_exec_sub),
     (OpCodeId_SUBR_1, op_exec_subr),
     (OpCodeId_SWITCH_1, op_exec_switch B),
     (OpCodeId_SXB_1, op_exec_sxb),
     (OpCodeId_SXH_1, op_exec_sxh),
     (OpCodeId_SYNCE_1, op_exec_synce_1),
     (OpCodeId_SYNCI_1, op_exec_synci_1),
     (OpCodeId_SYNCM_1, op_exec_syncm_1),
     (OpCodeId_SYNCP_1, op_exec_syncp_1),
     (OpCodeId_SYSCALL_10, op_exec_syscall_10 B),
     (OpCodeId_TRAP_10, op_exec_trap),
     (OpCodeId_TST_1, op_exec_tst),
     (OpCodeId_TST1_8, op_exec_tst1_8 B),
     (OpCodeId_TST1_9, op_exec_tst1_9 B),
     (OpCodeId_XOR_1, op_exec_xor),
     (OpCodeId_XORI_6, op_exec_xori),
     (OpCodeId_ZXB_1, op_exec_zxb),
     (OpCodeId_ZXH_1, op_exec_zxh)]"

text \<open>Every other number below \<open>OpCodeId_Num\<close> belongs to the floating point unit.\<close>

definition op_exec_table :: "'b bus_ops \<Rightarrow> (nat \<Rightarrow> 'b TargetCoreType \<Rightarrow> 'b TargetCoreType outcome) \<Rightarrow>
    nat \<Rightarrow> ('b TargetCoreType \<Rightarrow> 'b TargetCoreType outcome) option" where
  "op_exec_table B fpu c =
     (if c \<in> set op_exec_null then None
      else case map_of (op_exec_rows B) c of Some f \<Rightarrow> Some f | None \<Rightarrow> Some (fpu c))"

section \<open>State of a core\<close>

record CachedOperationCode =
  cached_exec :: bool
  cached_code_id :: nat
  cached_decoded :: OpDecodedCodeType

record 'b CpuCoreType =
  core :: "'b TargetCoreType"
  elaps :: u64
  code_cache :: "u32 \<Rightarrow> CachedOperationCode"
  static_decoded_code :: OpDecodedCodeType

datatype Std_ReturnType =
    STD_E_OK | STD_E_INVALID | STD_E_DECODE | STD_E_SEGV | STD_E_EXEC | STD_E_BUS | STD_MINUS_1

text \<open>
  \<open>STD_E_BUS\<close> is the error \<open>bus_get_pointer\<close> reported, \<open>STD_MINUS_1\<close> the plain
  \<^verbatim>\<open>return -1\<close>.
\<close>

datatype 's step_result = Returned Std_ReturnType 's | Crashed host_fault

definition cpu_has_permission ::
    "'b TargetCoreType \<Rightarrow> TargetMpuAccessType \<Rightarrow> u32 \<Rightarrow> u32 \<Rightarrow> bool \<times> 'b TargetCoreType" where
  "cpu_has_permission cpu at addr sz = target_mpu_has_permission cpu at addr sz"

text \<open>What the step does when the protection unit has recorded an error.\<close>

definition record_exception ::
    "nat \<Rightarrow> ExceptionIdType \<Rightarrow> 'b TargetCoreType \<Rightarrow> 'b TargetCoreType" where
  "record_exception c e cpu =
     cpu\<lparr>mpu := (mpu cpu)\<lparr>excption_error_info :=
           (excption_error_info (mpu cpu))\<lparr>op_codeid := c\<rparr>\<rparr>,
         current_code_exception := \<lparr>is_code_exception = True, exception_type = e\<rparr>\<rparr>"

definition mpu_error :: "'b TargetCoreType \<Rightarrow> bool" where
  "mpu_error cpu = is_error_occurred (excption_error_info (mpu cpu))"

text \<open>
  The part both paths of the step share: set the cycles, run the executor, look at the error
  flag, then at the return value, then count the cycles.
\<close>

definition exec_and_account ::
    "nat \<Rightarrow> ('b TargetCoreType \<Rightarrow> 'b TargetCoreType outcome) \<Rightarrow> 'b CpuCoreType \<Rightarrow>
     'b CpuCoreType step_result" where
  "exec_and_account c f st =
     (let cpu = (core st)\<lparr>real_elaps := op_exec_clocks ! c\<rparr>;
          finish = (\<lambda>ok cpu.
            if mpu_error cpu
            then Returned STD_MINUS_1 (st\<lparr>core := record_exception c ExceptionId_MDP cpu\<rparr>)
            else if \<not> ok then Returned STD_E_EXEC (st\<lparr>core := cpu\<rparr>)
            else Returned STD_E_OK
                   (st\<lparr>core := cpu, elaps := elaps st + ucast (real_elaps cpu)\<rparr>))
      in case f cpu of
           Fault h \<Rightarrow> Crashed h
         | RetErr cpu \<Rightarrow> finish False cpu
         | Ret0 cpu \<Rightarrow> finish True cpu)"

definition fetch_code :: "'b bus_ops \<Rightarrow> 'b TargetCoreType \<Rightarrow> code_words" where
  "fetch_code B cpu = (\<lambda>i. ptr_load16 B (core_id cpu) (pc (reg cpu) + 2 * of_nat i) cpu)"

definition put_decoded :: "bool \<Rightarrow> u32 \<Rightarrow> OpDecodedCodeType \<Rightarrow> 'b CpuCoreType \<Rightarrow> 'b CpuCoreType" where
  "put_decoded use_cache a d st =
     (if use_cache
      then st\<lparr>code_cache := (code_cache st)(a := (code_cache st a)\<lparr>cached_decoded := d\<rparr>)\<rparr>
      else st\<lparr>static_decoded_code := d\<rparr>)\<lparr>core := (core st)\<lparr>decoded_code := d\<rparr>\<rparr>"

definition cpu_supply_clock_not_cached ::
    "'b bus_ops \<Rightarrow> (nat \<Rightarrow> 'b TargetCoreType \<Rightarrow> 'b TargetCoreType outcome) \<Rightarrow> bool \<Rightarrow>
     'b CpuCoreType \<Rightarrow> 'b CpuCoreType step_result" where
  "cpu_supply_clock_not_cached B fpu use_cache st =
     (let a = pc (reg (core st));
          d = (if use_cache then cached_decoded (code_cache st a) else static_decoded_code st);
          st = st\<lparr>core := (core st)\<lparr>decoded_code := d\<rparr>\<rparr>;
          (ok, cpu) = bus_get_pointer B (core_id (core st)) (pc (reg (core st))) (core st);
          st = st\<lparr>core := cpu\<rparr>
      in if \<not> ok then Returned STD_E_BUS st
         else case op_parse (fetch_code B (core st)) d of
           None \<Rightarrow> Returned STD_E_DECODE st
         | Some (ot, d) \<Rightarrow>
            (let st = put_decoded use_cache a d st;
                 (permission, cpu) =
                   cpu_has_permission (core st) MPU_TARGET_ACCESS_EXEC (pc (reg (core st)))
                     (OpFormatSize (type_id d));
                 st = st\<lparr>core := cpu\<rparr>
             in if \<not> permission then
                  if mpu_error (core st)
                  then Returned STD_MINUS_1
                         (st\<lparr>core := record_exception (code_id ot) ExceptionId_MIP (core st)\<rparr>)
                  else Returned STD_E_SEGV st
                else case op_exec_table B fpu (code_id ot) of
                  None \<Rightarrow> Returned STD_E_EXEC st
                | Some f \<Rightarrow>
                   (case exec_and_account (code_id ot) f st of
                      Returned STD_E_OK st \<Rightarrow>
                        Returned STD_E_OK
                          (if use_cache
                           then st\<lparr>code_cache := (code_cache st)(a := (code_cache st a)
                                  \<lparr>cached_code_id := code_id ot, cached_exec := True\<rparr>)\<rparr>
                           else st)
                    | r \<Rightarrow> r)))"

definition clear_r0 :: "'b CpuCoreType \<Rightarrow> 'b CpuCoreType" where
  "clear_r0 st = st\<lparr>core := (core st)\<lparr>reg := set_r 0 0 (reg (core st))\<rparr>\<rparr>"

text \<open>
  The build defines \<^verbatim>\<open>DISABLE_MEMPROTECT\<close>, so the cached path has no permission check.
  The cache stores the table entry of the instruction number next to it, so a cached entry never
  has the \<^verbatim>\<open>NULL\<close> executor; the branch for it is not reached (lemma \<open>cache_ok_step\<close>).
\<close>

definition cpu_supply_clock ::
    "'b bus_ops \<Rightarrow> (nat \<Rightarrow> 'b TargetCoreType \<Rightarrow> 'b TargetCoreType outcome) \<Rightarrow> (u32 \<Rightarrow> bool) \<Rightarrow>
     'b CpuCoreType \<Rightarrow> 'b CpuCoreType step_result" where
  "cpu_supply_clock B fpu has_cache st =
     (if fatal_error (core st) then Returned STD_E_INVALID st
      else if is_halt (core st) then Returned STD_E_OK st
      else
       let st = clear_r0 st;
           a = pc (reg (core st))
       in if \<not> has_cache a \<or> \<not> cached_exec (code_cache st a) then
            (case cpu_supply_clock_not_cached B fpu (has_cache a) st of
               Returned STD_E_OK st \<Rightarrow> Returned STD_E_OK (clear_r0 st)
             | r \<Rightarrow> r)
          else
            let e = code_cache st a;
                st = st\<lparr>core := (core st)\<lparr>decoded_code := cached_decoded e\<rparr>\<rparr>
            in case op_exec_table B fpu (cached_code_id e) of
                 None \<Rightarrow> Returned STD_E_EXEC st
               | Some f \<Rightarrow>
                  (case exec_and_account (cached_code_id e) f st of
                     Returned STD_E_OK st \<Rightarrow> Returned STD_E_OK (clear_r0 st)
                   | r \<Rightarrow> r))"

section \<open>Reset and exceptions\<close>

definition cpu_is_halt :: "'b CpuCoreType \<Rightarrow> bool" where
  "cpu_is_halt st = is_halt (core st)"

text \<open>
  \<open>private_cpu_reset\<close> clears the registers of the current group through \<open>cpu_get_sysreg\<close> and
  leaves the general registers above \<open>r0\<close> alone.
\<close>

abbreviation (input) PLLS :: u32 where "PLLS \<equiv> 0xfff89004"

definition private_cpu_reset :: "'b bus_ops \<Rightarrow> 'b TargetCoreType \<Rightarrow> 'b TargetCoreType" where
  "private_cpu_reset B cpu =
     (let g = (reg cpu)\<lparr>pc := 0\<rparr>;
          g = set_r 0 0 g;
          g = g\<lparr>sys := (sys g)\<lparr>current_grp := SYS_GRP_CPU, current_bnk := SYS_GRP_CPU_BNK_0\<rparr>\<rparr>;
          g = fold (\<lambda>regId g. set_sys_cell (current_grp (sys g)) (current_bnk (sys g)) (of_nat regId) 0 g)
                [0..<32] g;
          g = set_cpu_base SYS_REG_PSW 0x20 g;
          g = set_cpu_base SYS_REG_FPSR (push_bit 17 1) g;
          g = cpu_set_sysreg2 SYS_GRP_2 SYS_REG_HTCFG0 (push_bit 16 (core_id cpu + 1) OR 0x8000) g;
          cpu = snd (bus_put_data32 B 0 PLLS 0x00000004 (cpu\<lparr>reg := g\<rparr>))
      in cpu\<lparr>is_halt := False,
             current_code_exception :=
               \<lparr>is_code_exception = False, exception_type = ExceptionId_Num\<rparr>\<rparr>)"

definition cpu_reset :: "'b bus_ops \<Rightarrow> 'b CpuCoreType \<Rightarrow> 'b CpuCoreType" where
  "cpu_reset B st =
     (let cpu = private_cpu_reset B (core st);
          cpu = target_mpu_init cpu
      in st\<lparr>core := cpu\<lparr>fatal_error := False,
             current_code_exception :=
               \<lparr>is_code_exception = False, exception_type = ExceptionId_Num\<rparr>\<rparr>\<rparr>)"

text \<open>\<open>raise\<close> is \<open>intc_raise_exception\<close> of the interrupt controller.\<close>

definition cpu_illegal_access ::
    "(ExceptionIdType \<Rightarrow> 'b TargetCoreType \<Rightarrow> 'b TargetCoreType) \<Rightarrow> 'b TargetCoreType \<Rightarrow>
     bool \<times> 'b TargetCoreType" where
  "cpu_illegal_access raise cpu =
     (if \<not> is_code_exception (current_code_exception cpu) then (False, cpu)
      else
       let cpu =
         (case exception_type (current_code_exception cpu) of
            ExceptionId_PIE \<Rightarrow> raise ExceptionId_PIE cpu
          | ExceptionId_MDP \<Rightarrow> target_mpu_set_error (raise ExceptionId_MDP cpu)
          | ExceptionId_MIP \<Rightarrow> target_mpu_set_error (raise ExceptionId_MIP cpu)
          | _ \<Rightarrow> cpu)
       in (True, set_error_occurred False
             (cpu\<lparr>current_code_exception :=
                \<lparr>is_code_exception = False, exception_type = ExceptionId_Num\<rparr>\<rparr>)))"

definition cpu_illegal_opcode_trap :: "'b TargetCoreType \<Rightarrow> 'b TargetCoreType" where
  "cpu_illegal_opcode_trap cpu =
     (let g = reg cpu;
          g = set_cpu_base SYS_REG_EIPC (pc g - 4) g;
          g = set_cpu_base SYS_REG_EIPSW (cpu_base SYS_REG_PSW g) g;
          ecr = cpu_base SYS_REG_ECR g;
          ecr = ecr AND 0x00FF;
          ecr = ecr OR push_bit 16 0x60;
          g = set_cpu_base SYS_REG_ECR ecr g;
          g = CPU_SET CPU_PSW_NP g;
          g = CPU_SET CPU_PSW_EP g;
          g = CPU_SET CPU_PSW_ID g
      in cpu\<lparr>reg := g\<lparr>pc := 0x60\<rparr>\<rparr>)"

end
