(* ===== verification/Exec_Frames.thy ===== *)
theory Exec_Frames
  imports Cpu_Step Spec_Base
begin

text \<open>
  What an executor may change of the registers, over the whole execution table: the contract
  \<open>reg_executor\<close> (the unprivileged system state and every register outside a write set stay),
  the contract \<open>quiet_bus\<close> of a bus that does not touch the registers, and from both the two
  safety properties of the table: user code cannot change privileged state, and no executor
  writes outside the register array.
\<close>

section \<open>The contracts\<close>

definition framed :: "u32 set \<Rightarrow> 'b TargetCoreType \<Rightarrow> 'b TargetCoreType \<Rightarrow> bool" where
  "framed W cpu cpu' \<longleftrightarrow> priv_same (reg cpu) (reg cpu') \<and>
     (\<forall>i. i \<notin> W \<longrightarrow> regs (reg cpu') i = regs (reg cpu) i) \<and> decoded_code cpu' = decoded_code cpu"

definition same_regs :: "'b TargetCoreType \<Rightarrow> 'b TargetCoreType \<Rightarrow> bool" where
  "same_regs cpu cpu' \<longleftrightarrow> reg cpu' = reg cpu \<and> decoded_code cpu' = decoded_code cpu"

text \<open>\<open>ends P out\<close>: if the executor returns, with or without an error, the state satisfies \<open>P\<close>.\<close>

definition ends :: "('s \<Rightarrow> bool) \<Rightarrow> 's outcome \<Rightarrow> bool" where
  "ends P out \<longleftrightarrow> (case out of Ret0 s \<Rightarrow> P s | RetErr s \<Rightarrow> P s | Fault _ \<Rightarrow> True)"

lemma ends_simps [simp]:
  "ends P (Ret0 s) = P s" "ends P (RetErr s) = P s" "ends P (Fault h)"
  by (simp_all add: ends_def)

lemma ends_mono: "ends P out \<Longrightarrow> (\<And>s. P s \<Longrightarrow> Q s) \<Longrightarrow> ends Q out"
  by (cases out) auto

text \<open>What a decoder guarantees: every register number is below 32.\<close>

definition decoded_ok :: "OpDecodedCodeType \<Rightarrow> bool" where
  "decoded_ok d \<longleftrightarrow>
     t1_reg1 (type1 d) < 32 \<and> t1_reg2 (type1 d) < 32 \<and> t2_reg2 (type2 d) < 32 \<and>
     t4_1_reg2 (type4_1 d) < 32 \<and> t4_2_reg2 (type4_2 d) < 32 \<and> t5_reg2 (type5 d) < 32 \<and>
     t6_reg1 (type6 d) < 32 \<and> t6_reg2 (type6 d) < 32 \<and> t7_reg1 (type7 d) < 32 \<and>
     t7_reg2 (type7 d) < 32 \<and> t8_reg1 (type8 d) < 32 \<and> t9_gen (type9 d) < 32 \<and>
     t9_reg2 (type9 d) < 32 \<and> t9_rfu2 (type9 d) < 32 \<and> t11_reg1 (type11 d) < 32 \<and>
     t11_reg2 (type11 d) < 32 \<and> t11_reg3 (type11 d) < 32 \<and> t11_rfu (type11 d) < 8 \<and>
     t11_sub2 (type11 d) < 2 \<and> t12_reg2 (type12 d) < 32 \<and> t12_reg3 (type12 d) < 32 \<and>
     t14_reg1 (type14 d) < 32 \<and> t14_reg3 (type14 d) < 32"

text \<open>The safety of an executor: as user code, and within the register array.\<close>

definition user_safe :: "('b TargetCoreType \<Rightarrow> 'b TargetCoreType outcome) \<Rightarrow> bool" where
  "user_safe exec \<longleftrightarrow> (\<forall>cpu. CPU_ISSET CPU_PSW_UM (reg cpu) \<longrightarrow>
     current_bnk (sys (reg cpu)) = SYS_GRP_CPU_BNK_0 \<longrightarrow>
     ends (\<lambda>c. priv_same (reg cpu) (reg c)) (exec cpu))"

definition array_safe :: "('b TargetCoreType \<Rightarrow> 'b TargetCoreType outcome) \<Rightarrow> bool" where
  "array_safe exec \<longleftrightarrow> (\<forall>cpu. decoded_ok (decoded_code cpu) \<longrightarrow>
     ends (\<lambda>c. \<forall>i. CPU_GREG_NUM \<le> i \<longrightarrow> regs (reg c) i = regs (reg cpu) i) (exec cpu))"

locale reg_executor =
  fixes exec :: "'b TargetCoreType \<Rightarrow> 'b TargetCoreType outcome"
    and wr :: "OpDecodedCodeType \<Rightarrow> u32 set"
  assumes frame: "ends (framed (wr (decoded_code cpu)) cpu) (exec cpu)"
begin

lemma confined:
  assumes "exec cpu = Ret0 cpu' \<or> exec cpu = RetErr cpu'"
  shows "priv_same (reg cpu) (reg cpu')"
  using frame [of cpu] assms by (auto simp: framed_def)

lemma user_safe: "user_safe exec"
  unfolding user_safe_def using ends_mono [OF frame] by (auto simp: framed_def)

lemma array_safe:
  assumes "\<And>d. decoded_ok d \<Longrightarrow> wr d \<subseteq> {..<CPU_GREG_NUM}"
  shows "array_safe exec"
  unfolding array_safe_def
proof (intro allI impI)
  fix cpu :: "'b TargetCoreType"
  assume "decoded_ok (decoded_code cpu)"
  then have "wr (decoded_code cpu) \<subseteq> {..<CPU_GREG_NUM}" by (rule assms)
  then have "framed (wr (decoded_code cpu)) cpu c \<Longrightarrow>
      \<forall>i. CPU_GREG_NUM \<le> i \<longrightarrow> regs (reg c) i = regs (reg cpu) i" for c
    unfolding framed_def by (meson lessThan_iff not_le subsetD)
  then show "ends (\<lambda>c. \<forall>i. CPU_GREG_NUM \<le> i \<longrightarrow> regs (reg c) i = regs (reg cpu) i) (exec cpu)"
    using frame [of cpu] by (rule ends_mono [rotated])
qed

end

text \<open>Every register executor satisfies it.\<close>

sublocale alu_executor \<subseteq> reg_executor exec wr
proof
  fix cpu :: "'b TargetCoreType"
  show "ends (framed (wr (decoded_code cpu)) cpu) (exec cpu)"
  proof (cases "exec cpu")
    case (Ret0 c)
    note r = ret0 [OF this]
    have "c = cpu\<lparr>reg := reg c\<rparr>" using r by blast
    then have "decoded_code c = decoded_code cpu"
      by (metis TargetCoreType.select_convs(5) TargetCoreType.surjective TargetCoreType.update_convs(3))
    then show ?thesis using Ret0 r by (simp add: framed_def)
  next
    case (RetErr c)
    then show ?thesis using reterr [OF RetErr] by (simp add: framed_def)
  qed simp
qed

locale quiet_bus =
  fixes B :: "'b bus_ops"
  assumes get_data8: "same_regs c (snd (bus_get_data8 B k a c))"
    and get_data16: "same_regs c (snd (bus_get_data16 B k a c))"
    and get_data32: "same_regs c (snd (bus_get_data32 B k a c))"
    and put_data8: "same_regs c (snd (bus_put_data8 B k a v8 c))"
    and put_data16: "same_regs c (snd (bus_put_data16 B k a v16 c))"
    and put_data32: "same_regs c (snd (bus_put_data32 B k a v32 c))"
    and get_pointer: "same_regs c (snd (bus_get_pointer B k a c))"
    and store32: "same_regs c (ptr_store32 B k a v32 c)"
    and clr_ei: "regs (reg (intc_clr_ei B k c)) = regs (reg c)"
    and clr_fe: "regs (reg (intc_clr_fe B k c)) = regs (reg c)"
begin

text \<open>Rules for the accesses: the continuation sees the same registers.\<close>

lemma ends_get8:
  "(\<And>c. same_regs cpu c \<Longrightarrow> P c) \<Longrightarrow> (\<And>v c. same_regs cpu c \<Longrightarrow> ends P (k v c)) \<Longrightarrow> ends P (get8 B a cpu k)"
  using get_data8 [of cpu "core_id cpu" a]
  by (auto simp: get8_def split: prod.splits option.splits)

lemma ends_get16:
  "(\<And>c. same_regs cpu c \<Longrightarrow> P c) \<Longrightarrow> (\<And>v c. same_regs cpu c \<Longrightarrow> ends P (k v c)) \<Longrightarrow> ends P (get16 B a cpu k)"
  using get_data16 [of cpu "core_id cpu" a]
  by (auto simp: get16_def split: prod.splits option.splits)

lemma ends_get32:
  "(\<And>c. same_regs cpu c \<Longrightarrow> P c) \<Longrightarrow> (\<And>v c. same_regs cpu c \<Longrightarrow> ends P (k v c)) \<Longrightarrow> ends P (get32 B a cpu k)"
  using get_data32 [of cpu "core_id cpu" a]
  by (auto simp: get32_def split: prod.splits option.splits)

lemma ends_put8:
  "(\<And>c. same_regs cpu c \<Longrightarrow> P c) \<Longrightarrow> (\<And>c. same_regs cpu c \<Longrightarrow> ends P (k c)) \<Longrightarrow> ends P (put8 B a v cpu k)"
  using put_data8 [of cpu "core_id cpu" a v] by (auto simp: put8_def split: prod.splits)

lemma ends_put16:
  "(\<And>c. same_regs cpu c \<Longrightarrow> P c) \<Longrightarrow> (\<And>c. same_regs cpu c \<Longrightarrow> ends P (k c)) \<Longrightarrow> ends P (put16 B a v cpu k)"
  using put_data16 [of cpu "core_id cpu" a v] by (auto simp: put16_def split: prod.splits)

lemma ends_put32:
  "(\<And>c. same_regs cpu c \<Longrightarrow> P c) \<Longrightarrow> (\<And>c. same_regs cpu c \<Longrightarrow> ends P (k c)) \<Longrightarrow> ends P (put32 B a v cpu k)"
  using put_data32 [of cpu "core_id cpu" a v] by (auto simp: put32_def split: prod.splits)

lemma ends_getp:
  "(\<And>c. same_regs cpu c \<Longrightarrow> P c) \<Longrightarrow> (\<And>c. same_regs cpu c \<Longrightarrow> ends P (k c)) \<Longrightarrow> ends P (getp B a cpu k)"
  using get_pointer [of cpu "core_id cpu" a] by (auto simp: getp_def split: prod.splits)

lemmas ends_intros = ends_get8 ends_get16 ends_get32 ends_put8 ends_put16 ends_put32 ends_getp

end

interpretation flat_quiet: quiet_bus flat_bus
  by unfold_locales (simp_all add: same_regs_def)


section \<open>Executors that use the bus\<close>

lemma same_regsD: "same_regs cpu c \<Longrightarrow> reg c = reg cpu \<and> decoded_code c = decoded_code cpu"
  by (simp add: same_regs_def)

lemma has_permission_same: "target_mpu_has_permission cpu at a s = (p, c) \<Longrightarrow> same_regs cpu c"
  by (auto simp: target_mpu_has_permission_def target_mpu_has_permission_set_error_def Let_def
      set_error_occurred_def same_regs_def split: if_splits)

lemma framed_same [simp]: "same_regs cpu c \<Longrightarrow> framed W cpu c"
  by (simp add: framed_def same_regs_def)

lemma same_regs_trans: "same_regs a b \<Longrightarrow> same_regs b c \<Longrightarrow> same_regs a c"
  by (simp add: same_regs_def)

lemma same_regs_refl [simp, intro]: "same_regs c c"
  by (simp add: same_regs_def)

lemma priv_same_overflow [simp]: "priv_same a (op_chk_and_set_overflow x y g) = priv_same a g"
  by (simp add: op_chk_and_set_overflow_def Let_def put_flag_if)

lemmas frame_simps = same_regs_def framed_def chk_forms bit_chk_z_def op_exec_parse_jmp_addr_fmt6_def
  Let_def

lemma sldb_frame:
  assumes "quiet_bus B" shows "reg_executor (op_exec_sldb B) (\<lambda>d. {ucast (t4_1_reg2 (type4_1 d))})"
  unfolding op_exec_sldb_def
  by unfold_locales (auto intro!: quiet_bus.ends_intros [OF assms] dest!: has_permission_same
      simp: frame_simps split: prod.splits)

lemma sldbu_frame:
  assumes "quiet_bus B" shows "reg_executor (op_exec_sldbu B) (\<lambda>d. {ucast (t4_2_reg2 (type4_2 d))})"
  unfolding op_exec_sldbu_def
  by unfold_locales (auto intro!: quiet_bus.ends_intros [OF assms] dest!: has_permission_same
      simp: frame_simps split: prod.splits)

lemma sldhu_frame:
  assumes "quiet_bus B" shows "reg_executor (op_exec_sldhu B) (\<lambda>d. {ucast (t4_2_reg2 (type4_2 d))})"
  unfolding op_exec_sldhu_def
  by unfold_locales (auto intro!: quiet_bus.ends_intros [OF assms] dest!: has_permission_same
      simp: frame_simps split: prod.splits)

lemma sldh_frame:
  assumes "quiet_bus B" shows "reg_executor (op_exec_sldh B) (\<lambda>d. {ucast (t4_1_reg2 (type4_1 d))})"
  unfolding op_exec_sldh_def
  by unfold_locales (auto intro!: quiet_bus.ends_intros [OF assms] dest!: has_permission_same
      simp: frame_simps split: prod.splits)

lemma sldw_frame:
  assumes "quiet_bus B" shows "reg_executor (op_exec_sldw B) (\<lambda>d. {ucast (t4_1_reg2 (type4_1 d))})"
  unfolding op_exec_sldw_def
  by unfold_locales (auto intro!: quiet_bus.ends_intros [OF assms] dest!: has_permission_same
      simp: frame_simps split: prod.splits)

lemma ldb_frame:
  assumes "quiet_bus B" shows "reg_executor (op_exec_ldb B) (\<lambda>d. {ucast (t7_reg2 (type7 d))})"
  unfolding op_exec_ldb_def
  by unfold_locales (auto intro!: quiet_bus.ends_intros [OF assms] dest!: has_permission_same
      simp: frame_simps split: prod.splits)

lemma ldbu_frame:
  assumes "quiet_bus B" shows "reg_executor (op_exec_ldbu B) (\<lambda>d. {ucast (t7_reg2 (type7 d))})"
  unfolding op_exec_ldbu_def
  by unfold_locales (auto intro!: quiet_bus.ends_intros [OF assms] dest!: has_permission_same
      simp: frame_simps split: prod.splits)

lemma ldhw_frame:
  assumes "quiet_bus B" shows "reg_executor (op_exec_ldhw B) (\<lambda>d. {ucast (t7_reg2 (type7 d))})"
  unfolding op_exec_ldhw_def
  by unfold_locales (auto intro!: quiet_bus.ends_intros [OF assms] dest!: has_permission_same
      simp: frame_simps split: prod.splits)

lemma ldhu_frame:
  assumes "quiet_bus B" shows "reg_executor (op_exec_ldhu B) (\<lambda>d. {ucast (t7_reg2 (type7 d))})"
  unfolding op_exec_ldhu_def
  by unfold_locales (auto intro!: quiet_bus.ends_intros [OF assms] dest!: has_permission_same
      simp: frame_simps split: prod.splits)

lemma ld_b_14_frame:
  assumes "quiet_bus B" shows "reg_executor (op_exec_ld_b_14 B) (\<lambda>d. {ucast (t14_reg3 (type14 d))})"
  unfolding op_exec_ld_b_14_def
  by unfold_locales (auto intro!: quiet_bus.ends_intros [OF assms] dest!: has_permission_same
      simp: frame_simps split: prod.splits)

lemma ld_bu_14_frame:
  assumes "quiet_bus B" shows "reg_executor (op_exec_ld_bu_14 B) (\<lambda>d. {ucast (t14_reg3 (type14 d))})"
  unfolding op_exec_ld_bu_14_def
  by unfold_locales (auto intro!: quiet_bus.ends_intros [OF assms] dest!: has_permission_same
      simp: frame_simps split: prod.splits)

lemma ld_h_14_frame:
  assumes "quiet_bus B" shows "reg_executor (op_exec_ld_h_14 B) (\<lambda>d. {ucast (t14_reg3 (type14 d))})"
  unfolding op_exec_ld_h_14_def
  by unfold_locales (auto intro!: quiet_bus.ends_intros [OF assms] dest!: has_permission_same
      simp: frame_simps split: prod.splits)

lemma ld_hu_14_frame:
  assumes "quiet_bus B" shows "reg_executor (op_exec_ld_hu_14 B) (\<lambda>d. {ucast (t14_reg3 (type14 d))})"
  unfolding op_exec_ld_hu_14_def
  by unfold_locales (auto intro!: quiet_bus.ends_intros [OF assms] dest!: has_permission_same
      simp: frame_simps split: prod.splits)

lemma ld_w_14_frame:
  assumes "quiet_bus B" shows "reg_executor (op_exec_ld_w_14 B) (\<lambda>d. {ucast (t14_reg3 (type14 d))})"
  unfolding op_exec_ld_w_14_def
  by unfold_locales (auto intro!: quiet_bus.ends_intros [OF assms] dest!: has_permission_same
      simp: frame_simps split: prod.splits)

lemma mov_6_frame:
  assumes "quiet_bus B" shows "reg_executor (op_exec_mov_6 B) (\<lambda>d. {ucast (t6_reg1 (type6 d))})"
  unfolding op_exec_mov_6_def
  by unfold_locales (auto intro!: quiet_bus.ends_intros [OF assms] dest!: has_permission_same
      simp: frame_simps split: prod.splits)

lemma jarl_6_frame:
  assumes "quiet_bus B" shows "reg_executor (op_exec_jarl_6 B) (\<lambda>d. {ucast (t6_reg1 (type6 d))})"
  unfolding op_exec_jarl_6_def
  by unfold_locales (auto intro!: quiet_bus.ends_intros [OF assms] dest!: has_permission_same
      simp: frame_simps split: prod.splits)

lemma caxi_frame:
  assumes "quiet_bus B" shows "reg_executor (op_exec_caxi B) (\<lambda>d. {ucast (t11_reg3 (type11 d))})"
  unfolding op_exec_caxi_def
  by unfold_locales (auto intro!: quiet_bus.ends_intros [OF assms] dest!: has_permission_same
      simp: frame_simps split: prod.splits)

lemma ld_dw_14_frame:
  assumes "quiet_bus B" shows "reg_executor (op_exec_ld_dw_14 B) (\<lambda>d. (let r = ucast (t14_reg3 (type14 d)) in if r mod 2 = 0 then {r, r + 1} else {}))"
  unfolding op_exec_ld_dw_14_def
  by unfold_locales (auto intro!: quiet_bus.ends_intros [OF assms] dest!: has_permission_same
      simp: frame_simps split: prod.splits)

lemma sstb_frame:
  assumes "quiet_bus B" shows "reg_executor (op_exec_sstb B) (\<lambda>d. {})"
  unfolding op_exec_sstb_def
  by unfold_locales (auto intro!: quiet_bus.ends_intros [OF assms] dest!: has_permission_same
      simp: frame_simps split: prod.splits)

lemma ssth_frame:
  assumes "quiet_bus B" shows "reg_executor (op_exec_ssth B) (\<lambda>d. {})"
  unfolding op_exec_ssth_def
  by unfold_locales (auto intro!: quiet_bus.ends_intros [OF assms] dest!: has_permission_same
      simp: frame_simps split: prod.splits)

lemma sstw_frame:
  assumes "quiet_bus B" shows "reg_executor (op_exec_sstw B) (\<lambda>d. {})"
  unfolding op_exec_sstw_def
  by unfold_locales (auto intro!: quiet_bus.ends_intros [OF assms] dest!: has_permission_same
      simp: frame_simps split: prod.splits)

lemma sthw_frame:
  assumes "quiet_bus B" shows "reg_executor (op_exec_sthw B) (\<lambda>d. {})"
  unfolding op_exec_sthw_def
  by unfold_locales (auto intro!: quiet_bus.ends_intros [OF assms] dest!: has_permission_same
      simp: frame_simps split: prod.splits)

lemma stb_frame:
  assumes "quiet_bus B" shows "reg_executor (op_exec_stb B) (\<lambda>d. {})"
  unfolding op_exec_stb_def
  by unfold_locales (auto intro!: quiet_bus.ends_intros [OF assms] dest!: has_permission_same
      simp: frame_simps split: prod.splits)

lemma st_b_14_frame:
  assumes "quiet_bus B" shows "reg_executor (op_exec_st_b_14 B) (\<lambda>d. {})"
  unfolding op_exec_st_b_14_def
  by unfold_locales (auto intro!: quiet_bus.ends_intros [OF assms] dest!: has_permission_same
      simp: frame_simps split: prod.splits)

lemma st_h_14_frame:
  assumes "quiet_bus B" shows "reg_executor (op_exec_st_h_14 B) (\<lambda>d. {})"
  unfolding op_exec_st_h_14_def
  by unfold_locales (auto intro!: quiet_bus.ends_intros [OF assms] dest!: has_permission_same
      simp: frame_simps split: prod.splits)

lemma st_w_14_frame:
  assumes "quiet_bus B" shows "reg_executor (op_exec_st_w_14 B) (\<lambda>d. {})"
  unfolding op_exec_st_w_14_def
  by unfold_locales (auto intro!: quiet_bus.ends_intros [OF assms] dest!: has_permission_same
      simp: frame_simps split: prod.splits)

lemma st_dw_14_frame:
  assumes "quiet_bus B" shows "reg_executor (op_exec_st_dw_14 B) (\<lambda>d. {})"
  unfolding op_exec_st_dw_14_def
  by unfold_locales (auto intro!: quiet_bus.ends_intros [OF assms] dest!: has_permission_same
      simp: frame_simps split: prod.splits)

lemma tst1_8_frame:
  assumes "quiet_bus B" shows "reg_executor (op_exec_tst1_8 B) (\<lambda>d. {})"
  unfolding op_exec_tst1_8_def
  by unfold_locales (auto intro!: quiet_bus.ends_intros [OF assms] dest!: has_permission_same
      simp: frame_simps split: prod.splits)

lemma set1_8_frame:
  assumes "quiet_bus B" shows "reg_executor (op_exec_set1_8 B) (\<lambda>d. {})"
  unfolding op_exec_set1_8_def
  by unfold_locales (auto intro!: quiet_bus.ends_intros [OF assms] dest!: has_permission_same
      simp: frame_simps split: prod.splits)

lemma clr1_8_frame:
  assumes "quiet_bus B" shows "reg_executor (op_exec_clr1_8 B) (\<lambda>d. {})"
  unfolding op_exec_clr1_8_def
  by unfold_locales (auto intro!: quiet_bus.ends_intros [OF assms] dest!: has_permission_same
      simp: frame_simps split: prod.splits)

lemma not1_8_frame:
  assumes "quiet_bus B" shows "reg_executor (op_exec_not1_8 B) (\<lambda>d. {})"
  unfolding op_exec_not1_8_def
  by unfold_locales (auto intro!: quiet_bus.ends_intros [OF assms] dest!: has_permission_same
      simp: frame_simps split: prod.splits)

lemma tst1_9_frame:
  assumes "quiet_bus B" shows "reg_executor (op_exec_tst1_9 B) (\<lambda>d. {})"
  unfolding op_exec_tst1_9_def
  by unfold_locales (auto intro!: quiet_bus.ends_intros [OF assms] dest!: has_permission_same
      simp: frame_simps split: prod.splits)

lemma set1_9_frame:
  assumes "quiet_bus B" shows "reg_executor (op_exec_set1_9 B) (\<lambda>d. {})"
  unfolding op_exec_set1_9_def
  by unfold_locales (auto intro!: quiet_bus.ends_intros [OF assms] dest!: has_permission_same
      simp: frame_simps split: prod.splits)

lemma clr1_9_frame:
  assumes "quiet_bus B" shows "reg_executor (op_exec_clr1_9 B) (\<lambda>d. {})"
  unfolding op_exec_clr1_9_def
  by unfold_locales (auto intro!: quiet_bus.ends_intros [OF assms] dest!: has_permission_same
      simp: frame_simps split: prod.splits)

lemma not1_9_frame:
  assumes "quiet_bus B" shows "reg_executor (op_exec_not1_9 B) (\<lambda>d. {})"
  unfolding op_exec_not1_9_def
  by unfold_locales (auto intro!: quiet_bus.ends_intros [OF assms] dest!: has_permission_same
      simp: frame_simps split: prod.splits)

lemma jmp_6_frame:
  assumes "quiet_bus B" shows "reg_executor (op_exec_jmp_6 B) (\<lambda>d. {})"
  unfolding op_exec_jmp_6_def
  by unfold_locales (auto intro!: quiet_bus.ends_intros [OF assms] dest!: has_permission_same
      simp: frame_simps split: prod.splits)

lemma jr_6_frame:
  assumes "quiet_bus B" shows "reg_executor (op_exec_jr_6 B) (\<lambda>d. {})"
  unfolding op_exec_jr_6_def
  by unfold_locales (auto intro!: quiet_bus.ends_intros [OF assms] dest!: has_permission_same
      simp: frame_simps split: prod.splits)

lemma switch_frame:
  assumes "quiet_bus B" shows "reg_executor (op_exec_switch B) (\<lambda>d. {})"
  unfolding op_exec_switch_def
  by unfold_locales (auto intro!: quiet_bus.ends_intros [OF assms] dest!: has_permission_same
      simp: frame_simps split: prod.splits)

interpretation stsr_ex: reg_executor op_exec_stsr "\<lambda>d. {ucast (t9_reg2 (type9 d))}"
  by unfold_locales (auto simp: op_exec_stsr_def frame_simps raise_PIE_def)

interpretation nop_ex: reg_executor op_exec_nop "\<lambda>d. {}"
  by unfold_locales (auto simp: op_exec_nop_def frame_simps raise_PIE_def)

interpretation synce_1_ex: reg_executor op_exec_synce_1 "\<lambda>d. {}"
  by unfold_locales (auto simp: op_exec_synce_1_def frame_simps raise_PIE_def)

interpretation synci_1_ex: reg_executor op_exec_synci_1 "\<lambda>d. {}"
  by unfold_locales (auto simp: op_exec_synci_1_def frame_simps raise_PIE_def)

interpretation syncm_1_ex: reg_executor op_exec_syncm_1 "\<lambda>d. {}"
  by unfold_locales (auto simp: op_exec_syncm_1_def frame_simps raise_PIE_def)

interpretation syncp_1_ex: reg_executor op_exec_syncp_1 "\<lambda>d. {}"
  by unfold_locales (auto simp: op_exec_syncp_1_def frame_simps raise_PIE_def)

interpretation halt_ex: reg_executor op_exec_halt "\<lambda>d. {}"
  by unfold_locales (auto simp: op_exec_halt_def frame_simps raise_PIE_def)

section \<open>Stack instructions\<close>

lemma framed_trans: "framed W a b \<Longrightarrow> framed W b c \<Longrightarrow> framed W a c"
  by (auto simp: framed_def intro: priv_same_trans)

lemma framed_mono: "W \<subseteq> W' \<Longrightarrow> framed W a b \<Longrightarrow> framed W' a b"
  by (auto simp: framed_def)

lemma framed_set_r:
  "same_regs cpu c \<Longrightarrow> i \<in> W \<Longrightarrow> framed W cpu (c\<lparr>reg := set_r i v (reg c), real_elaps := n\<rparr>)"
  by (simp add: framed_def same_regs_def)

lemma ends_loop:
  "framed W cpu c \<Longrightarrow> ends (framed W c) out \<Longrightarrow> ends (framed W cpu) out"
  by (erule ends_mono) (rule framed_trans)

lemma prepare_loop_framed:
  assumes "quiet_bus B"
  shows "ends (framed {3} cpu) (prepare_loop B is cpu)"
proof (induction "is" arbitrary: cpu)
  case Nil
  show ?case by simp
next
  case (Cons i "is")
  obtain p c where h: "target_mpu_has_permission cpu MPU_TARGET_ACCESS_WRITE (regs (reg cpu) 3 - 4) 4 = (p, c)"
    by fastforce
  obtain ok c' where b: "bus_get_pointer B (core_id c) (regs (reg cpu) 3 - 4) c = (ok, c')"
    by fastforce
  have c: "same_regs cpu c" using h by (rule has_permission_same)
  have c': "same_regs cpu c'"
    using quiet_bus.get_pointer [OF assms, of c "core_id c" "regs (reg cpu) 3 - 4"] c
    by (simp add: b same_regs_def)
  let ?s = "ptr_store32 B (core_id c') (regs (reg cpu) 3 - 4) (regs (reg c') (of_nat i)) c'"
  have s: "same_regs cpu ?s"
    using c' quiet_bus.store32 [OF assms] by (rule same_regs_trans)
  show ?case
    using Cons.IH [of cpu] c c'
      ends_loop [OF framed_set_r [OF s, where i = 3 and v = "regs (reg cpu) 3 - 4" and n = "real_elaps ?s + 1"] Cons.IH]
    by (simp add: h b Let_def)
qed

lemma dispose_loop_framed:
  assumes "quiet_bus B"
  shows "ends (framed ({3} \<union> of_nat ` set is) cpu) (dispose_loop B is cpu)"
    (is "ends (framed (?W is) cpu) _")
proof (induction "is" arbitrary: cpu)
  case Nil
  show ?case by simp
next
  case (Cons i "is")
  obtain p c where h: "target_mpu_has_permission cpu MPU_TARGET_ACCESS_READ (regs (reg cpu) 3) 4 = (p, c)"
    by fastforce
  obtain ok c' where b: "bus_get_pointer B (core_id c) (regs (reg cpu) 3) c = (ok, c')"
    by fastforce
  have c: "same_regs cpu c" using h by (rule has_permission_same)
  have c': "same_regs cpu c'"
    using quiet_bus.get_pointer [OF assms, of c "core_id c" "regs (reg cpu) 3"] c
    by (simp add: b same_regs_def)
  have w: "ends (framed (?W (i # is)) x) (dispose_loop B is x)" for x
    using Cons.IH [of x] by (rule ends_mono) (auto simp: framed_def)
  let ?s = "c'\<lparr>reg := set_r 3 (regs (reg cpu) 3 + 4)
      (set_r (of_nat i) (ptr_load32 B (core_id c') (regs (reg cpu) 3) c') (reg c')),
      real_elaps := real_elaps c' + 1\<rparr>"
  have "framed (?W (i # is)) cpu ?s" using c' by (simp add: framed_def same_regs_def)
  from ends_loop [OF this w] show ?case
    using w [of cpu] c c' by (simp add: h b Let_def)
qed

lemma pushsp_loop_framed:
  assumes "quiet_bus B"
  shows "ends (\<lambda>(_, c). same_regs cpu c) (pushsp_loop B cur rt s cpu)"
  using assms
proof (induction B cur rt s cpu rule: pushsp_loop.induct)
  case (1 B cur rt s cpu)
  show ?case
  proof (cases "cur \<le> rt \<and> cur < 32")
    case True
    obtain ok c where b: "bus_put_data32 B (core_id cpu) (s - 4) (regs (reg cpu) (ucast cur)) cpu = (ok, c)"
      by fastforce
    have c: "same_regs cpu c"
      using quiet_bus.put_data32 [OF 1(2), of cpu "core_id cpu" "s - 4" "regs (reg cpu) (ucast cur)"]
      by (simp add: b)
    have "ok \<Longrightarrow> ends (\<lambda>(_, c'). same_regs (c\<lparr>real_elaps := real_elaps c + 1\<rparr>) c')
        (pushsp_loop B (cur + 1) rt (s - 4) (c\<lparr>real_elaps := real_elaps c + 1\<rparr>))"
      using True 1(2) by (intro 1(1) [OF _ _ refl b [symmetric]]) (auto simp: not_le)
    then have "ok \<Longrightarrow> ends (\<lambda>(_, c'). same_regs cpu c')
        (pushsp_loop B (cur + 1) rt (s - 4) (c\<lparr>real_elaps := real_elaps c + 1\<rparr>))"
      by (rule ends_mono) (use c in \<open>auto simp: same_regs_def\<close>)
    then show ?thesis
      using True c by (subst pushsp_loop.simps) (simp add: b not_le Let_def)
  next
    case False
    then show ?thesis by (subst pushsp_loop.simps) (simp add: not_less)
  qed
qed

lemma popsp_loop_framed:
  assumes "quiet_bus B"
  shows "ends (\<lambda>(_, c). framed {..<CPU_GREG_NUM} cpu c) (popsp_loop B cur rh s cpu)"
  using assms
proof (induction B cur rh s cpu rule: popsp_loop.induct)
  case (1 B cur rh s cpu)
  show ?case
  proof (cases "rh \<le> cur \<and> cur < 32")
    case True
    obtain v c where b: "bus_get_data32 B (core_id cpu) s cpu = (v, c)" by fastforce
    have c: "same_regs cpu c"
      using quiet_bus.get_data32 [OF 1(2), of cpu "core_id cpu" s] by (simp add: b)
    show ?thesis
    proof (cases v)
      case None
      then show ?thesis using True c by (subst popsp_loop.simps) (simp add: b not_le)
    next
      case (Some x)
      let ?c = "c\<lparr>reg := set_r (ucast cur) x (reg c), real_elaps := real_elaps c + 1\<rparr>"
      have u: "(ucast cur :: u32) < 32" using True by (simp add: ucast_u16_less)
      have "ends (\<lambda>(_, c'). framed {..<CPU_GREG_NUM} ?c c') (popsp_loop B (cur - 1) rh (s + 4) ?c)"
        using True 1(2) by (intro 1(1) [OF _ _ b [symmetric] Some]) (auto simp: not_le)
      moreover have "framed {..<CPU_GREG_NUM} cpu ?c" using c u by (intro framed_set_r) simp_all
      ultimately have "ends (\<lambda>(_, c'). framed {..<CPU_GREG_NUM} cpu c') (popsp_loop B (cur - 1) rh (s + 4) ?c)"
        by (elim ends_mono) (auto intro: framed_trans)
      then show ?thesis using True by (subst popsp_loop.simps) (simp add: b Some not_le)
    qed
  next
    case False
    then show ?thesis by (subst popsp_loop.simps) (simp add: not_less)
  qed
qed

lemma prepare_frame:
  assumes "quiet_bus B" shows "reg_executor (op_exec_prepare B) (\<lambda>d. {3, 30})"
proof
  fix cpu :: "'a TargetCoreType"
  note l = prepare_loop_framed [OF assms, of cpu "[20..<32]"]
  show "ends (framed {3, 30} cpu) (op_exec_prepare B cpu)"
  proof (cases "prepare_loop B [20..<32] cpu")
    case (Ret0 c)
    let ?c = "c\<lparr>reg := set_r CPU_REG_SP (regs (reg c) CPU_REG_SP - push_bit 2 (t13_imm (type13 (decoded_code cpu)))) (reg c)\<rparr>"
    have f: "framed {3, 30} cpu ?c" using l Ret0 by (auto simp: framed_def)
    have g: "ends (framed {3, 30} cpu) (getp B a ?c k)"
      if "\<And>c'. same_regs ?c c' \<Longrightarrow> ends (framed {3, 30} cpu) (k c')" for a k
      using that f by (intro quiet_bus.ends_getp [OF assms]) (auto simp: framed_def same_regs_def)
    show ?thesis
      using f unfolding op_exec_prepare_def Let_def Ret0 outcome.case
      by (auto intro!: g) (auto simp: framed_def same_regs_def)
  qed (use l in \<open>auto simp: op_exec_prepare_def Let_def framed_def simp del: prepare_loop.simps upt_Suc\<close>)
qed

lemma dispose_frame:
  assumes "quiet_bus B" shows "reg_executor (op_exec_dispose B) (\<lambda>d. {..<CPU_GREG_NUM})"
proof
  fix cpu :: "'a TargetCoreType"
  let ?d = "cpu\<lparr>real_elaps := 0, reg := set_r CPU_REG_SP (regs (reg cpu) CPU_REG_SP +
      push_bit 2 (t13_imm (type13 (decoded_code cpu)))) (reg cpu)\<rparr>"
  have w: "{3} \<union> of_nat ` set (rev [20..<32]) \<subseteq> {..<CPU_GREG_NUM}" by simp
  have "framed {..<CPU_GREG_NUM} cpu ?d" by (simp add: framed_def)
  then have "\<And>c. framed ({3} \<union> of_nat ` set (rev [20..<32])) ?d c \<Longrightarrow> framed {..<CPU_GREG_NUM} cpu c"
    using framed_trans framed_mono [OF w] by blast
  then have l: "ends (framed {..<CPU_GREG_NUM} cpu) (dispose_loop B (rev [20..<32]) ?d)"
    using dispose_loop_framed [OF assms, of "rev [20..<32]" ?d] by (rule ends_mono [rotated])
  then show "ends (framed {..<CPU_GREG_NUM} cpu) (op_exec_dispose B cpu)"
    by (cases "dispose_loop B (rev [20..<32]) ?d")
       (auto simp: op_exec_dispose_def Let_def framed_def simp del: dispose_loop.simps upt_Suc)
qed

lemma pushsp_frame:
  assumes "quiet_bus B" shows "reg_executor (op_exec_pushsp_11 B) (\<lambda>d. {3})"
proof
  fix cpu :: "'a TargetCoreType"
  let ?d = "type11 (decoded_code cpu)"
  show "ends (framed {3} cpu) (op_exec_pushsp_11 B cpu)"
    using pushsp_loop_framed [OF assms, of cpu "t11_reg1 ?d" "t11_reg3 ?d" "regs (reg cpu) 3 AND 0xFFFFFFFC"]
    by (cases "pushsp_loop B (t11_reg1 ?d) (t11_reg3 ?d) (regs (reg cpu) 3 AND 0xFFFFFFFC) cpu")
       (auto simp: op_exec_pushsp_11_def Let_def framed_def same_regs_def)
qed

lemma popsp_frame:
  assumes "quiet_bus B" shows "reg_executor (op_exec_popsp_11 B) (\<lambda>d. {..<CPU_GREG_NUM})"
proof
  fix cpu :: "'a TargetCoreType"
  let ?d = "type11 (decoded_code cpu)"
  show "ends (framed {..<CPU_GREG_NUM} cpu) (op_exec_popsp_11 B cpu)"
    using popsp_loop_framed [OF assms, of cpu "t11_reg3 ?d" "t11_reg1 ?d" "regs (reg cpu) 3 AND 0xFFFFFFFC"]
    by (cases "popsp_loop B (t11_reg3 ?d) (t11_reg1 ?d) (regs (reg cpu) 3 AND 0xFFFFFFFC) cpu")
       (auto simp: op_exec_popsp_11_def Let_def framed_def)
qed

section \<open>System register and exception instructions\<close>

lemma ucast_lt32:
  "x < 32 \<Longrightarrow> (ucast (x :: u16) :: u32) < 32"
  by (simp add: ucast_u16_less)

lemma decoded_ok_regs [simp]:
  assumes "decoded_ok d"
  shows "(ucast (t1_reg1 (type1 d)) :: u32) < 32" "(ucast (t1_reg2 (type1 d)) :: u32) < 32"
    "(ucast (t2_reg2 (type2 d)) :: u32) < 32" "(ucast (t4_1_reg2 (type4_1 d)) :: u32) < 32"
    "(ucast (t4_2_reg2 (type4_2 d)) :: u32) < 32" "(ucast (t5_reg2 (type5 d)) :: u32) < 32"
    "(ucast (t6_reg1 (type6 d)) :: u32) < 32" "(ucast (t6_reg2 (type6 d)) :: u32) < 32"
    "(ucast (t7_reg1 (type7 d)) :: u32) < 32" "(ucast (t7_reg2 (type7 d)) :: u32) < 32"
    "(ucast (t9_reg2 (type9 d)) :: u32) < 32" "(ucast (t9_rfu2 (type9 d)) :: u32) < 32"
    "(ucast (t11_reg2 (type11 d)) :: u32) < 32" "(ucast (t11_reg3 (type11 d)) :: u32) < 32"
    "(ucast (t12_reg2 (type12 d)) :: u32) < 32" "(ucast (t12_reg3 (type12 d)) :: u32) < 32"
    "(ucast (t14_reg3 (type14 d)) :: u32) < 32"
  using assms by (simp_all add: decoded_ok_def ucast_lt32)

lemma or_low_bits: "(x OR (y AND 31)) AND - 32 = x AND (- 32 :: u32)"
proof -
  have n: "- 32 = NOT (31 :: u32)" by simp
  have "(y AND 31) AND NOT 31 = 0" by (simp add: and.assoc)
  then show ?thesis unfolding n by (rule mask_keep(1))
qed

lemma ldsr_user_safe: "user_safe op_exec_ldsr"
  unfolding user_safe_def op_exec_ldsr_def sys_reg_access_has_permission_def Let_def raise_PIE_def
    fpu_sync_sysreg_def cpu_set_sysreg2_def cpu_get_sysreg2_def
  by (auto simp: priv_same_def cpu_base_def or_low_bits)

lemma hook_access_regs:
  "target_mpu_hook_access cpu v at r n = (v', c) \<Longrightarrow> regs (reg c) = regs (reg cpu)"
proof -
  have "regs (fold (\<lambda>i g. let selid = mpu_region_selid i; regid = mpu_region_base i + 2;
           w = cpu_get_sysreg2 selid regid g
       in if data AND push_bit i 1 \<noteq> 0 then cpu_set_sysreg2 selid regid (w OR push_bit 7 1) g
          else cpu_set_sysreg2 selid regid (w AND NOT (push_bit 7 1)) g) is g) = regs g" for data :: u32 and "is" g
    by (induction "is" arbitrary: g) (simp_all add: Let_def cpu_set_sysreg2_def)
  then show "target_mpu_hook_access cpu v at r n = (v', c) \<Longrightarrow> regs (reg c) = regs (reg cpu)"
    by (auto simp: target_mpu_hook_access_def mpu_hook_access_def mpu_hook_access_write_def
        mpu_hook_access_write_mprc_def mpu_hook_access_write_mpta_def Let_def cpu_set_sysreg2_def
        split: if_splits)
qed

lemma fpu_sync_regs: "regs (fpu_sync_sysreg r s g) = regs g"
  by (simp add: fpu_sync_sysreg_def fpu_defs set_fp_reg_def cpu_set_sysreg2_def Let_def)

lemma ldsr_array_safe: "array_safe op_exec_ldsr"
  unfolding array_safe_def op_exec_ldsr_def Let_def
  by (auto simp: raise_PIE_def fpu_sync_regs cpu_set_sysreg2_def target_mpu_check_def mpu_check_def
      target_mpu_set_config_def mpu_set_config_def Let_def dest: hook_access_regs split: prod.splits)

lemma exception_array_safe:
  "array_safe op_exec_diei" "array_safe op_exec_trap" "array_safe op_exec_fetrap_1"
  by (simp_all add: array_safe_def op_exec_diei_def op_exec_trap_def op_exec_fetrap_1_def Let_def
      raise_PIE_def CPU_SET_def CPU_CLR_def split: option.splits)

lemma return_array_safe:
  assumes "quiet_bus B"
  shows "array_safe (op_exec_eiret_10 B)" "array_safe (op_exec_feret_10 B)" "array_safe (op_exec_reti B)"
  using quiet_bus.clr_ei [OF assms] quiet_bus.clr_fe [OF assms]
  by (simp_all add: array_safe_def op_exec_eiret_10_def op_exec_feret_10_def op_exec_reti_def Let_def)

lemma syscall_array_safe:
  assumes "quiet_bus B" shows "array_safe (op_exec_syscall_10 B)"
  unfolding array_safe_def op_exec_syscall_10_def Let_def
  by (auto intro!: quiet_bus.ends_get32 [OF assms] simp: same_regs_def CPU_SET_def CPU_CLR_def)

section \<open>The whole table\<close>

text \<open>The instructions that enter or leave an exception or change the interrupt mask.\<close>

definition exception_ids :: "nat set" where
  "exception_ids = {OpCodeId_DI_10, OpCodeId_EI_10, OpCodeId_EIRET_10, OpCodeId_FERET_10,
     OpCodeId_FETRAP_1, OpCodeId_RETI_10, OpCodeId_SYSCALL_10, OpCodeId_TRAP_10}"

lemmas user_safe_facts = ldsr_user_safe
  add_1_ex.user_safe add_2_ex.user_safe addi_ex.user_safe adf_11_ex.user_safe and_ex.user_safe
  andi_ex.user_safe bcond_3_ex.user_safe bcond_7_ex.user_safe bins_9_ex.user_safe
  bsh_12_ex.user_safe bsw_12_ex.user_safe cmov_11_ex.user_safe cmov_12_ex.user_safe
  cmp_1_ex.user_safe cmp_2_ex.user_safe div_ex.user_safe divh_1_ex.user_safe divh_11_ex.user_safe
  divhu_ex.user_safe divqu_11_ex.user_safe divu_ex.user_safe halt_ex.user_safe hsh_12_ex.user_safe
  hsw_12_ex.user_safe jarl_11_ex.user_safe jmp_ex.user_safe jr_ex.user_safe loop_7_ex.user_safe
  mac_11_ex.user_safe macu_11_ex.user_safe mov_1_ex.user_safe mov_2_ex.user_safe movea_ex.user_safe
  movhi_ex.user_safe mul_ex.user_safe mul_12_ex.user_safe mulh_1_ex.user_safe mulh_2_ex.user_safe
  mulhi_ex.user_safe mulu_ex.user_safe mulu_12_ex.user_safe nop_ex.user_safe not_ex.user_safe
  or_ex.user_safe ori_ex.user_safe rotl_7_ex.user_safe sar_11_ex.user_safe sar_2_ex.user_safe
  sar_9_ex.user_safe sasf_9_ex.user_safe satadd_1_ex.user_safe satadd_11_ex.user_safe
  satadd_2_ex.user_safe satsub_1_ex.user_safe satsub_11_ex.user_safe satsubi_ex.user_safe
  satsubr_1_ex.user_safe sbf_11_ex.user_safe sch0l_9_ex.user_safe sch0r_9_ex.user_safe
  sch1l_9_ex.user_safe sch1r_9_ex.user_safe setf_ex.user_safe shl_11_ex.user_safe shl_2_ex.user_safe
  shl_9_ex.user_safe shr_11_ex.user_safe shr_2_ex.user_safe shr_9_ex.user_safe stsr_ex.user_safe
  sub_ex.user_safe subr_ex.user_safe sxb_ex.user_safe sxh_ex.user_safe synce_1_ex.user_safe
  synci_1_ex.user_safe syncm_1_ex.user_safe syncp_1_ex.user_safe tst_ex.user_safe xor_ex.user_safe
  xori_ex.user_safe zxb_ex.user_safe zxh_ex.user_safe reg_executor.user_safe [OF caxi_frame]
  reg_executor.user_safe [OF clr1_8_frame] reg_executor.user_safe [OF clr1_9_frame]
  reg_executor.user_safe [OF dispose_frame] reg_executor.user_safe [OF jarl_6_frame]
  reg_executor.user_safe [OF jmp_6_frame] reg_executor.user_safe [OF jr_6_frame]
  reg_executor.user_safe [OF ld_b_14_frame] reg_executor.user_safe [OF ld_bu_14_frame]
  reg_executor.user_safe [OF ld_dw_14_frame] reg_executor.user_safe [OF ld_h_14_frame]
  reg_executor.user_safe [OF ld_hu_14_frame] reg_executor.user_safe [OF ld_w_14_frame]
  reg_executor.user_safe [OF ldb_frame] reg_executor.user_safe [OF ldbu_frame]
  reg_executor.user_safe [OF ldhu_frame] reg_executor.user_safe [OF ldhw_frame]
  reg_executor.user_safe [OF mov_6_frame] reg_executor.user_safe [OF not1_8_frame]
  reg_executor.user_safe [OF not1_9_frame] reg_executor.user_safe [OF popsp_frame]
  reg_executor.user_safe [OF prepare_frame] reg_executor.user_safe [OF pushsp_frame]
  reg_executor.user_safe [OF set1_8_frame] reg_executor.user_safe [OF set1_9_frame]
  reg_executor.user_safe [OF sldb_frame] reg_executor.user_safe [OF sldbu_frame]
  reg_executor.user_safe [OF sldh_frame] reg_executor.user_safe [OF sldhu_frame]
  reg_executor.user_safe [OF sldw_frame] reg_executor.user_safe [OF sstb_frame]
  reg_executor.user_safe [OF ssth_frame] reg_executor.user_safe [OF sstw_frame]
  reg_executor.user_safe [OF st_b_14_frame] reg_executor.user_safe [OF st_dw_14_frame]
  reg_executor.user_safe [OF st_h_14_frame] reg_executor.user_safe [OF st_w_14_frame]
  reg_executor.user_safe [OF stb_frame] reg_executor.user_safe [OF sthw_frame]
  reg_executor.user_safe [OF switch_frame] reg_executor.user_safe [OF tst1_8_frame]
  reg_executor.user_safe [OF tst1_9_frame]

lemmas array_safe_facts = ldsr_array_safe exception_array_safe return_array_safe syscall_array_safe
  add_1_ex.array_safe add_2_ex.array_safe addi_ex.array_safe adf_11_ex.array_safe and_ex.array_safe
  andi_ex.array_safe bcond_3_ex.array_safe bcond_7_ex.array_safe bins_9_ex.array_safe
  bsh_12_ex.array_safe bsw_12_ex.array_safe cmov_11_ex.array_safe cmov_12_ex.array_safe
  cmp_1_ex.array_safe cmp_2_ex.array_safe div_ex.array_safe divh_1_ex.array_safe
  divh_11_ex.array_safe divhu_ex.array_safe divqu_11_ex.array_safe divu_ex.array_safe
  halt_ex.array_safe hsh_12_ex.array_safe hsw_12_ex.array_safe jarl_11_ex.array_safe
  jmp_ex.array_safe jr_ex.array_safe loop_7_ex.array_safe mac_11_ex.array_safe macu_11_ex.array_safe
  mov_1_ex.array_safe mov_2_ex.array_safe movea_ex.array_safe movhi_ex.array_safe mul_ex.array_safe
  mul_12_ex.array_safe mulh_1_ex.array_safe mulh_2_ex.array_safe mulhi_ex.array_safe
  mulu_ex.array_safe mulu_12_ex.array_safe nop_ex.array_safe not_ex.array_safe or_ex.array_safe
  ori_ex.array_safe rotl_7_ex.array_safe sar_11_ex.array_safe sar_2_ex.array_safe
  sar_9_ex.array_safe sasf_9_ex.array_safe satadd_1_ex.array_safe satadd_11_ex.array_safe
  satadd_2_ex.array_safe satsub_1_ex.array_safe satsub_11_ex.array_safe satsubi_ex.array_safe
  satsubr_1_ex.array_safe sbf_11_ex.array_safe sch0l_9_ex.array_safe sch0r_9_ex.array_safe
  sch1l_9_ex.array_safe sch1r_9_ex.array_safe setf_ex.array_safe shl_11_ex.array_safe
  shl_2_ex.array_safe shl_9_ex.array_safe shr_11_ex.array_safe shr_2_ex.array_safe
  shr_9_ex.array_safe stsr_ex.array_safe sub_ex.array_safe subr_ex.array_safe sxb_ex.array_safe
  sxh_ex.array_safe synce_1_ex.array_safe synci_1_ex.array_safe syncm_1_ex.array_safe
  syncp_1_ex.array_safe tst_ex.array_safe xor_ex.array_safe xori_ex.array_safe zxb_ex.array_safe
  zxh_ex.array_safe reg_executor.array_safe [OF caxi_frame]
  reg_executor.array_safe [OF clr1_8_frame] reg_executor.array_safe [OF clr1_9_frame]
  reg_executor.array_safe [OF dispose_frame] reg_executor.array_safe [OF jarl_6_frame]
  reg_executor.array_safe [OF jmp_6_frame] reg_executor.array_safe [OF jr_6_frame]
  reg_executor.array_safe [OF ld_b_14_frame] reg_executor.array_safe [OF ld_bu_14_frame]
  reg_executor.array_safe [OF ld_dw_14_frame] reg_executor.array_safe [OF ld_h_14_frame]
  reg_executor.array_safe [OF ld_hu_14_frame] reg_executor.array_safe [OF ld_w_14_frame]
  reg_executor.array_safe [OF ldb_frame] reg_executor.array_safe [OF ldbu_frame]
  reg_executor.array_safe [OF ldhu_frame] reg_executor.array_safe [OF ldhw_frame]
  reg_executor.array_safe [OF mov_6_frame] reg_executor.array_safe [OF not1_8_frame]
  reg_executor.array_safe [OF not1_9_frame] reg_executor.array_safe [OF popsp_frame]
  reg_executor.array_safe [OF prepare_frame] reg_executor.array_safe [OF pushsp_frame]
  reg_executor.array_safe [OF set1_8_frame] reg_executor.array_safe [OF set1_9_frame]
  reg_executor.array_safe [OF sldb_frame] reg_executor.array_safe [OF sldbu_frame]
  reg_executor.array_safe [OF sldh_frame] reg_executor.array_safe [OF sldhu_frame]
  reg_executor.array_safe [OF sldw_frame] reg_executor.array_safe [OF sstb_frame]
  reg_executor.array_safe [OF ssth_frame] reg_executor.array_safe [OF sstw_frame]
  reg_executor.array_safe [OF st_b_14_frame] reg_executor.array_safe [OF st_dw_14_frame]
  reg_executor.array_safe [OF st_h_14_frame] reg_executor.array_safe [OF st_w_14_frame]
  reg_executor.array_safe [OF stb_frame] reg_executor.array_safe [OF sthw_frame]
  reg_executor.array_safe [OF switch_frame] reg_executor.array_safe [OF tst1_8_frame]
  reg_executor.array_safe [OF tst1_9_frame]

lemma table_user_safe:
  assumes "quiet_bus B"
  shows "list_all (\<lambda>(c, f). c \<in> exception_ids \<or> user_safe f) (op_exec_rows B)"
  unfolding op_exec_rows_def exception_ids_def
  by (simp only: list.pred_inject prod.case) (simp add: user_safe_facts assms)

lemma word_cases8: "x < 8 \<Longrightarrow> x = 0 \<or> x = 1 \<or> x = 2 \<or> x = 3 \<or> x = 4 \<or> x = 5 \<or> x = 6 \<or> x = (7 :: u16)"
  by (rule u16_less_16 [of x]) (auto simp: word_less_nat_alt)

lemma and_31_less: "(x AND 31 :: u32) < 32"
proof -
  have "x AND 31 = take_bit 5 x" by (simp add: take_bit_eq_mask mask_eq_exp_minus_1)
  then show ?thesis by (simp add: word_less_nat_alt take_bit_eq_mod unat_mod)
qed

lemma even_pair_less: "x < 32 \<Longrightarrow> x mod 2 = 0 \<Longrightarrow> x + 1 < (32 :: u32)"
proof -
  assume "x < 32" "x mod 2 = 0"
  then have "unat x < 32" "unat (x mod 2) = 0" by (simp_all only: word_less_nat_alt) simp_all
  then have "unat x < 32" "unat x mod 2 = 0" by (simp_all add: unat_mod)
  then have "unat x < 31" by presburger
  then show "x + 1 < 32" by (simp add: word_less_nat_alt unat_word_ariths)
qed

lemma mac_regs:
  assumes "decoded_ok d"
  shows "push_bit 1 (push_bit 1 (ucast (t11_rfu (type11 d))) OR ucast (t11_sub2 (type11 d))) < (32 :: u32)"
    "push_bit 1 (push_bit 1 (ucast (t11_rfu (type11 d))) OR ucast (t11_sub2 (type11 d))) + 1 < (32 :: u32)"
proof -
  have "t11_rfu (type11 d) < 8" "t11_sub2 (type11 d) < 8"
    using assms by (auto simp: decoded_ok_def word_less_nat_alt)
  moreover have "t11_sub2 (type11 d) < 2" using assms by (simp add: decoded_ok_def)
  ultimately show "push_bit 1 (push_bit 1 (ucast (t11_rfu (type11 d))) OR ucast (t11_sub2 (type11 d))) < (32 :: u32)"
    "push_bit 1 (push_bit 1 (ucast (t11_rfu (type11 d))) OR ucast (t11_sub2 (type11 d))) + 1 < (32 :: u32)"
    using word_cases8 [of "t11_rfu (type11 d)"] word_cases8 [of "t11_sub2 (type11 d)"] by auto
qed

lemma wide_array_safe:
  "array_safe op_exec_mac_11" "array_safe op_exec_macu_11" "array_safe op_exec_rotl_7"
  by (rule mac_11_ex.array_safe macu_11_ex.array_safe rotl_7_ex.array_safe,
      simp only: insert_subset lessThan_iff mac_regs and_31_less empty_subsetI simp_thms)+

lemma ld_dw_array_safe:
  assumes "quiet_bus B" shows "array_safe (op_exec_ld_dw_14 B)"
  by (rule reg_executor.array_safe [OF ld_dw_14_frame [OF assms]])
     (simp add: Let_def even_pair_less del: mod_0_imp_dvd)

lemma table_array_safe:
  assumes "quiet_bus B"
  shows "list_all (\<lambda>(c, f). array_safe f) (op_exec_rows B)"
  unfolding op_exec_rows_def
  by (simp only: list.pred_inject prod.case) (simp add: array_safe_facts assms wide_array_safe ld_dw_array_safe)

end
