(* ===== verification/Dec_Props.thy ===== *)
theory Dec_Props
  imports Exec_Frames
begin

text \<open>
  The decoder: the half words can be read back from the decoded fields, every register number a
  decoder yields is below 32, the parser gives each instruction the format its executor reads,
  and parsing again into the same buffer changes nothing.
\<close>

section \<open>Reading the half words back\<close>

lemma and_masks:
  "(x :: u16) AND 0x0003 = take_bit 2 x" "x AND 0x0007 = take_bit 3 x"
  "x AND 0x000F = take_bit 4 x" "x AND 0x001F = take_bit 5 x" "x AND 0x003F = take_bit 6 x"
  "x AND 0x007F = take_bit 7 x" "x AND 0x03FF = take_bit 10 x" "x AND 0x07FF = take_bit 11 x" "x AND 0xFFFF = x"
  "(y :: u32) AND 0x0007 = take_bit 3 y" "y AND 0x000F = take_bit 4 y"
  "y AND 0x001F = take_bit 5 y" "y AND 0x003F = take_bit 6 y" "y AND 0x7FFF = take_bit 15 y"
proof -
  have "x AND 0xFFFF = take_bit 16 x" by (simp add: take_bit_eq_mask mask_eq_exp_minus_1)
  then show "x AND 0xFFFF = x" by (simp add: take_bit_word_eq_self)
qed (simp_all add: take_bit_eq_mask mask_eq_exp_minus_1)

text \<open>Two words are equal if their sixteen bits are.\<close>

lemma word16_eqI:
  fixes x y :: u16
  assumes "\<And>n. n \<in> {0, 1, 2, 3, 4, 5, 6, 7, 8, 9, 10, 11, 12, 13, 14, 15} \<Longrightarrow> bit x n = bit y n"
  shows "x = y"
proof (rule bit_word_eqI)
  fix n :: nat
  assume "n < LENGTH(16)"
  then have "n \<in> {0, 1, 2, 3, 4, 5, 6, 7, 8, 9, 10, 11, 12, 13, 14, 15}" 
    unfolding insert_iff empty_iff len_num1 len_bit0 by presburger
  then show "bit x n = bit y n" by (rule assms)
qed

lemma not_bit_high: "16 \<le> n \<Longrightarrow> \<not> bit (x :: u16) n"
  using bit_imp_le_length [of x n] by auto

lemma bit_sucs: "bit x (Suc (Suc 0)) = bit x 2" "bit x (Suc (Suc (Suc 0))) = bit x 3"
  by (simp_all add: numeral_2_eq_2 numeral_3_eq_3)

text \<open>Testing a single bit with a mask.\<close>

lemma and_single_bit:
  fixes x :: u16
  shows "x AND 0x0001 = 0 \<longleftrightarrow> \<not> bit x 0" "x AND 0x0002 = 0 \<longleftrightarrow> \<not> bit x 1"
    "x AND 0x0004 = 0 \<longleftrightarrow> \<not> bit x 2" "x AND 0x0008 = 0 \<longleftrightarrow> \<not> bit x 3"
    "x AND 0x0010 = 0 \<longleftrightarrow> \<not> bit x 4" "x AND 0x0020 = 0 \<longleftrightarrow> \<not> bit x 5"
    "x AND 0x0040 = 0 \<longleftrightarrow> \<not> bit x 6" "x AND 0x0080 = 0 \<longleftrightarrow> \<not> bit x 7"
    "x AND 0x0100 = 0 \<longleftrightarrow> \<not> bit x 8" "x AND 0x0200 = 0 \<longleftrightarrow> \<not> bit x 9"
    "x AND 0x0400 = 0 \<longleftrightarrow> \<not> bit x 10"
  using and_exp_eq_0_iff_not_bit [of x 0] and_exp_eq_0_iff_not_bit [of x 1]
    and_exp_eq_0_iff_not_bit [of x 2] and_exp_eq_0_iff_not_bit [of x 3]
    and_exp_eq_0_iff_not_bit [of x 4] and_exp_eq_0_iff_not_bit [of x 5]
    and_exp_eq_0_iff_not_bit [of x 6] and_exp_eq_0_iff_not_bit [of x 7]
    and_exp_eq_0_iff_not_bit [of x 8] and_exp_eq_0_iff_not_bit [of x 9]
    and_exp_eq_0_iff_not_bit [of x 10]
  by (simp_all del: bit_0)

lemmas field_simps16 = and_masks Let_def bit_simps bit_sucs not_bit_high

definition encode1 :: "OpCodeFormatType1 \<Rightarrow> u16 list" where
  "encode1 t =
     [push_bit 11 (t1_reg2 t) OR push_bit 5 (t1_opcode t) OR t1_reg1 t]"

definition encode2 :: "OpCodeFormatType2 \<Rightarrow> u16 list" where
  "encode2 t =
     [push_bit 11 (t2_reg2 t) OR push_bit 5 (t2_opcode t) OR ucast (t2_imm t)]"

definition encode3 :: "OpCodeFormatType3 \<Rightarrow> u16 list" where
  "encode3 t =
     [push_bit 11 (ucast (drop_bit 3 (t3_disp t))) OR push_bit 7 (t3_opcode t) OR
      push_bit 4 (ucast (take_bit 3 (t3_disp t))) OR t3_cond t]"

definition encode4_1 :: "OpCodeFormatType4_1 \<Rightarrow> u16 list" where
  "encode4_1 t =
     [push_bit 11 (t4_1_reg2 t) OR push_bit 7 (t4_1_opcode t) OR push_bit 1 (ucast (t4_1_disp t)) OR
      ucast (t4_1_gen t)]"

definition encode4_2 :: "OpCodeFormatType4_2 \<Rightarrow> u16 list" where
  "encode4_2 t =
     [push_bit 11 (t4_2_reg2 t) OR push_bit 4 (t4_2_opcode t) OR ucast (t4_2_disp t)]"

definition encode5 :: "OpCodeFormatType5 \<Rightarrow> u16 list" where
  "encode5 t =
     [push_bit 11 (t5_reg2 t) OR push_bit 6 (t5_opcode t) OR ucast (drop_bit 16 (t5_disp t)),
      ucast (t5_disp t)]"

definition encode6 :: "OpCodeFormatType6 \<Rightarrow> u16 list" where
  "encode6 t =
     [push_bit 11 (t6_reg2 t) OR push_bit 5 (t6_opcode t) OR t6_reg1 t,
      ucast (t6_imm t)]"

definition encode7 :: "OpCodeFormatType7 \<Rightarrow> u16 list" where
  "encode7 t =
     [push_bit 11 (t7_reg2 t) OR push_bit 5 (t7_opcode t) OR t7_reg1 t,
      push_bit 1 (ucast (t7_disp t)) OR ucast (t7_gen t)]"

definition encode8 :: "OpCodeFormatType8 \<Rightarrow> u16 list" where
  "encode8 t =
     [push_bit 14 (t8_sub t) OR push_bit 11 (t8_bit t) OR push_bit 5 (t8_opcode t) OR t8_reg1 t,
      t8_disp t]"

definition encode9 :: "OpCodeFormatType9 \<Rightarrow> u16 list" where
  "encode9 t =
     [push_bit 11 (t9_reg2 t) OR push_bit 5 (t9_opcode t) OR t9_gen t,
      push_bit 11 (t9_rfu2 t) OR push_bit 5 (t9_sub t) OR push_bit 1 (t9_rfu1 t)]"

definition encode10 :: "OpCodeFormatType10 \<Rightarrow> u16 list" where
  "encode10 t =
     [push_bit 13 (t10_gen1 t) OR push_bit 11 (t10_rfu1 t) OR push_bit 5 (t10_opcode t) OR ucast (t10_gen2 t),
      push_bit 11 (t10_rfu2 t) OR push_bit 5 (t10_sub t) OR push_bit 1 (t10_rfu3 t)]"

definition encode11 :: "OpCodeFormatType11 \<Rightarrow> u16 list" where
  "encode11 t =
     [push_bit 11 (t11_reg2 t) OR push_bit 5 (t11_opcode t) OR t11_reg1 t,
      push_bit 11 (t11_reg3 t) OR push_bit 5 (t11_sub1 t) OR push_bit 2 (t11_rfu t) OR
      push_bit 1 (t11_sub2 t)]"

definition encode12 :: "OpCodeFormatType12 \<Rightarrow> u16 list" where
  "encode12 t =
     [push_bit 11 (t12_reg2 t) OR push_bit 5 (t12_opcode t) OR ucast (t12_imml t),
      push_bit 11 (t12_reg3 t) OR push_bit 7 (t12_sub1 t) OR push_bit 2 (ucast (t12_immh t)) OR
      push_bit 1 (t12_sub2 t)]"

definition encode13 :: "OpCodeFormatType13 \<Rightarrow> u16 list" where
  "encode13 t =
     [push_bit 11 (t13_rfu t) OR push_bit 6 (t13_opcode t) OR push_bit 1 (ucast (t13_imm t)) OR
      ucast (t13_list t 30),
      push_bit 5 (ucast (t13_list t 31)) OR push_bit 6 (ucast (t13_list t 29)) OR push_bit 7
      (ucast (t13_list t 28)) OR push_bit 8 (ucast (t13_list t 23)) OR push_bit 9 (ucast
      (t13_list t 22)) OR push_bit 10 (ucast (t13_list t 21)) OR push_bit 11 (ucast (t13_list t
      20)) OR push_bit 12 (ucast (t13_list t 27)) OR push_bit 13 (ucast (t13_list t 26)) OR
      push_bit 14 (ucast (t13_list t 25)) OR push_bit 15 (ucast (t13_list t 24)) OR t13_gen t]"

definition encode14 :: "OpCodeFormatType14 \<Rightarrow> u16 list" where
  "encode14 t =
     [push_bit 11 (t14_sub1 t) OR push_bit 5 (t14_opcode t) OR t14_reg1 t,
      push_bit 11 (t14_reg3 t) OR push_bit 4 (ucast (t14_disp_low t)) OR t14_sub2 t,
      ucast (t14_disp_high t)]"

definition encode_f :: "OpCodeFormatType_f \<Rightarrow> u16 list" where
  "encode_f t =
     [push_bit 11 (tf_reg2 t) OR push_bit 5 (tf_opcode t) OR tf_reg1 t,
      push_bit 11 (tf_reg3 t) OR ucast (tf_subopcode t)]"

lemma encode1_decode: "encode1 (type1 (OpDecode1 code d)) = [code 0]"
  unfolding encode1_def OpDecode1_def list.inject
  by (intro conjI refl; (rule word16_eqI, elim insertE emptyE)?)
     (simp_all add: field_simps16 list_flag_def and_single_bit del: bit_0 push_bit_Suc drop_bit_Suc)

lemma encode2_decode: "encode2 (type2 (OpDecode2 code d)) = [code 0]"
  unfolding encode2_def OpDecode2_def list.inject
  by (intro conjI refl; (rule word16_eqI, elim insertE emptyE)?)
     (simp_all add: field_simps16 list_flag_def and_single_bit del: bit_0 push_bit_Suc drop_bit_Suc)

lemma encode3_decode: "encode3 (type3 (OpDecode3 code d)) = [code 0]"
  unfolding encode3_def OpDecode3_def list.inject
  by (intro conjI refl; (rule word16_eqI, elim insertE emptyE)?)
     (simp_all add: field_simps16 list_flag_def and_single_bit del: bit_0 push_bit_Suc drop_bit_Suc)

lemma encode4_1_decode: "encode4_1 (type4_1 (OpDecode4 code d)) = [code 0]"
  unfolding encode4_1_def OpDecode4_def list.inject
  by (intro conjI refl; (rule word16_eqI, elim insertE emptyE)?)
     (simp_all add: field_simps16 list_flag_def and_single_bit del: bit_0 push_bit_Suc drop_bit_Suc)

lemma encode4_2_decode: "encode4_2 (type4_2 (OpDecode4 code d)) = [code 0]"
  unfolding encode4_2_def OpDecode4_def list.inject
  by (intro conjI refl; (rule word16_eqI, elim insertE emptyE)?)
     (simp_all add: field_simps16 list_flag_def and_single_bit del: bit_0 push_bit_Suc drop_bit_Suc)

lemma encode5_decode: "encode5 (type5 (OpDecode5 code d)) = [code 0, code 1]"
  unfolding encode5_def OpDecode5_def list.inject
  by (intro conjI refl; (rule word16_eqI, elim insertE emptyE)?)
     (simp_all add: field_simps16 list_flag_def and_single_bit del: bit_0 push_bit_Suc drop_bit_Suc)

lemma encode6_decode: "encode6 (type6 (OpDecode6 code d)) = [code 0, code 1]"
  unfolding encode6_def OpDecode6_def list.inject
  by (intro conjI refl; (rule word16_eqI, elim insertE emptyE)?)
     (simp_all add: field_simps16 list_flag_def and_single_bit del: bit_0 push_bit_Suc drop_bit_Suc)

lemma encode7_decode: "encode7 (type7 (OpDecode7 code d)) = [code 0, code 1]"
  unfolding encode7_def OpDecode7_def list.inject
  by (intro conjI refl; (rule word16_eqI, elim insertE emptyE)?)
     (simp_all add: field_simps16 list_flag_def and_single_bit del: bit_0 push_bit_Suc drop_bit_Suc)

lemma encode8_decode: "encode8 (type8 (OpDecode8 code d)) = [code 0, code 1]"
  unfolding encode8_def OpDecode8_def list.inject
  by (intro conjI refl; (rule word16_eqI, elim insertE emptyE)?)
     (simp_all add: field_simps16 list_flag_def and_single_bit del: bit_0 push_bit_Suc drop_bit_Suc)

lemma encode9_decode: "encode9 (type9 (OpDecode9 code d)) = [code 0, code 1 AND 0xFFFE]"
  unfolding encode9_def OpDecode9_def list.inject
  by (intro conjI refl; (rule word16_eqI, elim insertE emptyE)?)
     (simp_all add: field_simps16 list_flag_def and_single_bit del: bit_0 push_bit_Suc drop_bit_Suc)

lemma encode10_decode: "encode10 (type10 (OpDecode10 code d)) = [code 0, code 1 AND 0xFFFE]"
  unfolding encode10_def OpDecode10_def list.inject
  by (intro conjI refl; (rule word16_eqI, elim insertE emptyE)?)
     (simp_all add: field_simps16 list_flag_def and_single_bit del: bit_0 push_bit_Suc drop_bit_Suc)

lemma encode11_decode: "encode11 (type11 (OpDecode11 code d)) = [code 0, code 1 AND 0xFFFE]"
  unfolding encode11_def OpDecode11_def list.inject
  by (intro conjI refl; (rule word16_eqI, elim insertE emptyE)?)
     (simp_all add: field_simps16 list_flag_def and_single_bit del: bit_0 push_bit_Suc drop_bit_Suc)

lemma encode12_decode: "encode12 (type12 (OpDecode12 code d)) = [code 0, code 1 AND 0xFFFE]"
  unfolding encode12_def OpDecode12_def list.inject
  by (intro conjI refl; (rule word16_eqI, elim insertE emptyE)?)
     (simp_all add: field_simps16 list_flag_def and_single_bit del: bit_0 push_bit_Suc drop_bit_Suc)

lemma encode13_decode: "encode13 (type13 (OpDecode13 code d)) = [code 0, code 1]"
  unfolding encode13_def OpDecode13_def list.inject
  by (intro conjI refl; (rule word16_eqI, elim insertE emptyE)?)
     (simp_all add: field_simps16 list_flag_def and_single_bit del: bit_0 push_bit_Suc drop_bit_Suc)

lemma encode14_decode: "encode14 (type14 (OpDecode14 code d)) = [code 0, code 1, code 2]"
  unfolding encode14_def OpDecode14_def list.inject
  by (intro conjI refl; (rule word16_eqI, elim insertE emptyE)?)
     (simp_all add: field_simps16 list_flag_def and_single_bit del: bit_0 push_bit_Suc drop_bit_Suc)

lemma encode_f_decode: "encode_f (type_f (OpDecode_f code d)) = [code 0, code 1 AND 0xFBFF]"
  unfolding encode_f_def OpDecode_f_def list.inject
  by (intro conjI refl; (rule word16_eqI, elim insertE emptyE)?)
     (simp_all add: field_simps16 list_flag_def and_single_bit del: bit_0 push_bit_Suc drop_bit_Suc)

text \<open>All formats: the half words a decoder read, up to the bits the format does not use.\<close>

definition encode :: "OpCodeFormatId \<Rightarrow> OpDecodedCodeType \<Rightarrow> u16 list" where
  "encode f d =
     (case f of
        OP_CODE_FORMAT_1 \<Rightarrow> encode1 (type1 d) | OP_CODE_FORMAT_2 \<Rightarrow> encode2 (type2 d)
      | OP_CODE_FORMAT_3 \<Rightarrow> encode3 (type3 d) | OP_CODE_FORMAT_4 \<Rightarrow> encode4_1 (type4_1 d)
      | OP_CODE_FORMAT_5 \<Rightarrow> encode5 (type5 d) | OP_CODE_FORMAT_6 \<Rightarrow> encode6 (type6 d)
      | OP_CODE_FORMAT_7 \<Rightarrow> encode7 (type7 d) | OP_CODE_FORMAT_8 \<Rightarrow> encode8 (type8 d)
      | OP_CODE_FORMAT_9 \<Rightarrow> encode9 (type9 d) | OP_CODE_FORMAT_10 \<Rightarrow> encode10 (type10 d)
      | OP_CODE_FORMAT_11 \<Rightarrow> encode11 (type11 d) | OP_CODE_FORMAT_12 \<Rightarrow> encode12 (type12 d)
      | OP_CODE_FORMAT_13 \<Rightarrow> encode13 (type13 d) | OP_CODE_FORMAT_14 \<Rightarrow> encode14 (type14 d)
      | OP_CODE_FORMAT_F \<Rightarrow> encode_f (type_f d) | OP_CODE_FORMAT_UNKNOWN \<Rightarrow> [])"

definition used_bits :: "OpCodeFormatId \<Rightarrow> nat \<Rightarrow> u16" where
  "used_bits f i =
     (if i = 1 \<and> f \<in> {OP_CODE_FORMAT_9, OP_CODE_FORMAT_10, OP_CODE_FORMAT_11, OP_CODE_FORMAT_12}
      then 0xFFFE
      else if i = 1 \<and> f = OP_CODE_FORMAT_F then 0xFBFF
      else 0xFFFF)"

lemma upt_small: "[0..<Suc 0] = [0]" "[0..<2] = [0, Suc 0]" "[0..<3] = [0, Suc 0, 2]"
  by (simp_all add: upt_rec)

lemma encode_decode:
  "f \<noteq> OP_CODE_FORMAT_UNKNOWN \<Longrightarrow> encode f (OpDecoder f code d) =
    map (\<lambda>i. code i AND used_bits f i) [0..<unat (OpFormatSize f) div 2]"
  by (cases f) (simp_all add: encode_def OpDecoder_def OpFormatSize_def used_bits_def upt_small and_masks
      encode1_decode encode2_decode encode3_decode encode4_1_decode encode5_decode encode6_decode
      encode7_decode encode8_decode encode9_decode encode10_decode encode11_decode encode12_decode
      encode13_decode encode14_decode encode_f_decode)



section \<open>Parsing\<close>

text \<open>The format each instruction number is decoded in, from the suffix of its name.\<close>

definition op_code_format :: "OpCodeFormatId list" where
  "op_code_format =
   [OP_CODE_FORMAT_F, OP_CODE_FORMAT_F, OP_CODE_FORMAT_1, OP_CODE_FORMAT_2, OP_CODE_FORMAT_F,
    OP_CODE_FORMAT_F, OP_CODE_FORMAT_6, OP_CODE_FORMAT_11, OP_CODE_FORMAT_1, OP_CODE_FORMAT_6,
    OP_CODE_FORMAT_9, OP_CODE_FORMAT_12, OP_CODE_FORMAT_12, OP_CODE_FORMAT_3, OP_CODE_FORMAT_7,
    OP_CODE_FORMAT_2, OP_CODE_FORMAT_11, OP_CODE_FORMAT_F, OP_CODE_FORMAT_F, OP_CODE_FORMAT_F,
    OP_CODE_FORMAT_F, OP_CODE_FORMAT_F, OP_CODE_FORMAT_F, OP_CODE_FORMAT_F, OP_CODE_FORMAT_F,
    OP_CODE_FORMAT_8, OP_CODE_FORMAT_9, OP_CODE_FORMAT_12, OP_CODE_FORMAT_11, OP_CODE_FORMAT_F,
    OP_CODE_FORMAT_F, OP_CODE_FORMAT_1, OP_CODE_FORMAT_2, OP_CODE_FORMAT_F, OP_CODE_FORMAT_F,
    OP_CODE_FORMAT_10, OP_CODE_FORMAT_F, OP_CODE_FORMAT_F, OP_CODE_FORMAT_F, OP_CODE_FORMAT_F,
    OP_CODE_FORMAT_F, OP_CODE_FORMAT_F, OP_CODE_FORMAT_F, OP_CODE_FORMAT_F, OP_CODE_FORMAT_F,
    OP_CODE_FORMAT_F, OP_CODE_FORMAT_F, OP_CODE_FORMAT_F, OP_CODE_FORMAT_F, OP_CODE_FORMAT_F,
    OP_CODE_FORMAT_F, OP_CODE_FORMAT_F, OP_CODE_FORMAT_F, OP_CODE_FORMAT_F, OP_CODE_FORMAT_F,
    OP_CODE_FORMAT_F, OP_CODE_FORMAT_1, OP_CODE_FORMAT_10, OP_CODE_FORMAT_13, OP_CODE_FORMAT_11,
    OP_CODE_FORMAT_F, OP_CODE_FORMAT_F, OP_CODE_FORMAT_1, OP_CODE_FORMAT_11, OP_CODE_FORMAT_11,
    OP_CODE_FORMAT_11, OP_CODE_FORMAT_11, OP_CODE_FORMAT_11, OP_CODE_FORMAT_10, OP_CODE_FORMAT_10,
    OP_CODE_FORMAT_10, OP_CODE_FORMAT_1, OP_CODE_FORMAT_F, OP_CODE_FORMAT_F, OP_CODE_FORMAT_F,
    OP_CODE_FORMAT_F, OP_CODE_FORMAT_F, OP_CODE_FORMAT_F, OP_CODE_FORMAT_F, OP_CODE_FORMAT_F,
    OP_CODE_FORMAT_F, OP_CODE_FORMAT_F, OP_CODE_FORMAT_F, OP_CODE_FORMAT_F, OP_CODE_FORMAT_10,
    OP_CODE_FORMAT_12, OP_CODE_FORMAT_12, OP_CODE_FORMAT_6, OP_CODE_FORMAT_5, OP_CODE_FORMAT_11,
    OP_CODE_FORMAT_1, OP_CODE_FORMAT_6, OP_CODE_FORMAT_6, OP_CODE_FORMAT_5, OP_CODE_FORMAT_7,
    OP_CODE_FORMAT_9, OP_CODE_FORMAT_7, OP_CODE_FORMAT_14, OP_CODE_FORMAT_7, OP_CODE_FORMAT_14,
    OP_CODE_FORMAT_14, OP_CODE_FORMAT_7, OP_CODE_FORMAT_14, OP_CODE_FORMAT_14, OP_CODE_FORMAT_7,
    OP_CODE_FORMAT_7, OP_CODE_FORMAT_14, OP_CODE_FORMAT_7, OP_CODE_FORMAT_11, OP_CODE_FORMAT_11,
    OP_CODE_FORMAT_F, OP_CODE_FORMAT_F, OP_CODE_FORMAT_F, OP_CODE_FORMAT_F, OP_CODE_FORMAT_F,
    OP_CODE_FORMAT_1, OP_CODE_FORMAT_2, OP_CODE_FORMAT_6, OP_CODE_FORMAT_6, OP_CODE_FORMAT_6,
    OP_CODE_FORMAT_F, OP_CODE_FORMAT_11, OP_CODE_FORMAT_12, OP_CODE_FORMAT_F, OP_CODE_FORMAT_F,
    OP_CODE_FORMAT_1, OP_CODE_FORMAT_2, OP_CODE_FORMAT_6, OP_CODE_FORMAT_11, OP_CODE_FORMAT_12,
    OP_CODE_FORMAT_F, OP_CODE_FORMAT_F, OP_CODE_FORMAT_F, OP_CODE_FORMAT_F, OP_CODE_FORMAT_1,
    OP_CODE_FORMAT_1, OP_CODE_FORMAT_8, OP_CODE_FORMAT_9, OP_CODE_FORMAT_1, OP_CODE_FORMAT_6,
    OP_CODE_FORMAT_11, OP_CODE_FORMAT_13, OP_CODE_FORMAT_11, OP_CODE_FORMAT_F, OP_CODE_FORMAT_F,
    OP_CODE_FORMAT_10, OP_CODE_FORMAT_1, OP_CODE_FORMAT_10, OP_CODE_FORMAT_7, OP_CODE_FORMAT_F,
    OP_CODE_FORMAT_F, OP_CODE_FORMAT_F, OP_CODE_FORMAT_F, OP_CODE_FORMAT_F, OP_CODE_FORMAT_F,
    OP_CODE_FORMAT_2, OP_CODE_FORMAT_9, OP_CODE_FORMAT_11, OP_CODE_FORMAT_9, OP_CODE_FORMAT_1,
    OP_CODE_FORMAT_2, OP_CODE_FORMAT_11, OP_CODE_FORMAT_1, OP_CODE_FORMAT_11, OP_CODE_FORMAT_6,
    OP_CODE_FORMAT_1, OP_CODE_FORMAT_11, OP_CODE_FORMAT_9, OP_CODE_FORMAT_9, OP_CODE_FORMAT_9,
    OP_CODE_FORMAT_9, OP_CODE_FORMAT_8, OP_CODE_FORMAT_9, OP_CODE_FORMAT_9, OP_CODE_FORMAT_2,
    OP_CODE_FORMAT_9, OP_CODE_FORMAT_11, OP_CODE_FORMAT_2, OP_CODE_FORMAT_9, OP_CODE_FORMAT_11,
    OP_CODE_FORMAT_4, OP_CODE_FORMAT_4, OP_CODE_FORMAT_4, OP_CODE_FORMAT_4, OP_CODE_FORMAT_4,
    OP_CODE_FORMAT_10, OP_CODE_FORMAT_F, OP_CODE_FORMAT_F, OP_CODE_FORMAT_4, OP_CODE_FORMAT_4,
    OP_CODE_FORMAT_4, OP_CODE_FORMAT_7, OP_CODE_FORMAT_9, OP_CODE_FORMAT_7, OP_CODE_FORMAT_14,
    OP_CODE_FORMAT_14, OP_CODE_FORMAT_7, OP_CODE_FORMAT_14, OP_CODE_FORMAT_7, OP_CODE_FORMAT_14,
    OP_CODE_FORMAT_1, OP_CODE_FORMAT_F, OP_CODE_FORMAT_F, OP_CODE_FORMAT_1, OP_CODE_FORMAT_1,
    OP_CODE_FORMAT_1, OP_CODE_FORMAT_1, OP_CODE_FORMAT_1, OP_CODE_FORMAT_1, OP_CODE_FORMAT_1,
    OP_CODE_FORMAT_1, OP_CODE_FORMAT_10, OP_CODE_FORMAT_10, OP_CODE_FORMAT_F, OP_CODE_FORMAT_F,
    OP_CODE_FORMAT_F, OP_CODE_FORMAT_F, OP_CODE_FORMAT_F, OP_CODE_FORMAT_F, OP_CODE_FORMAT_F,
    OP_CODE_FORMAT_F, OP_CODE_FORMAT_F, OP_CODE_FORMAT_1, OP_CODE_FORMAT_8, OP_CODE_FORMAT_9,
    OP_CODE_FORMAT_1, OP_CODE_FORMAT_6, OP_CODE_FORMAT_1, OP_CODE_FORMAT_1]"

definition typed_result :: "OperationCodeType option \<Rightarrow> bool" where
  "typed_result r = (case r of None \<Rightarrow> True
     | Some t \<Rightarrow> code_id t < OpCodeId_Num \<and> format_id t = op_code_format ! code_id t)"

lemma typed_intros:
  "typed_result None"
  "c < OpCodeId_Num \<Longrightarrow> op_code_format ! c = f \<Longrightarrow> typed_result (optype f c)"
  "typed_result x \<Longrightarrow> typed_result y \<Longrightarrow> typed_result (if b then x else y)"
  by (simp_all add: typed_result_def optype_def)

lemmas base_code_defs =
  op_parse_base_code_0000_00_def op_parse_base_code_0000_01_def op_parse_base_code_0000_10_def
  op_parse_base_code_0000_11_def op_parse_base_code_0001_00_def op_parse_base_code_0001_01_def
  op_parse_base_code_0001_10_def op_parse_base_code_0001_11_def op_parse_base_code_0010_00_def
  op_parse_base_code_0010_01_def op_parse_base_code_0010_10_def op_parse_base_code_0010_11_def
  op_parse_base_code_0011_00_def op_parse_base_code_0011_01_def op_parse_base_code_0011_10_def
  op_parse_base_code_0011_11_def op_parse_base_code_0100_00_def op_parse_base_code_0100_01_def
  op_parse_base_code_0100_10_def op_parse_base_code_0100_11_def op_parse_base_code_0101_00_def
  op_parse_base_code_0101_01_def op_parse_base_code_0101_10_def op_parse_base_code_0101_11_def
  op_parse_base_code_0110_00_def op_parse_base_code_0110_01_def op_parse_base_code_0110_10_def
  op_parse_base_code_0110_11_def op_parse_base_code_0111_00_def op_parse_base_code_0111_01_def
  op_parse_base_code_0111_10_def op_parse_base_code_0111_11_def op_parse_base_code_1000_00_def
  op_parse_base_code_1000_01_def op_parse_base_code_1000_10_def op_parse_base_code_1000_11_def
  op_parse_base_code_1001_00_def op_parse_base_code_1001_01_def op_parse_base_code_1001_10_def
  op_parse_base_code_1001_11_def op_parse_base_code_1010_00_def op_parse_base_code_1010_01_def
  op_parse_base_code_1010_10_def op_parse_base_code_1010_11_def op_parse_base_code_1011_00_def
  op_parse_base_code_1011_01_def op_parse_base_code_1011_10_def op_parse_base_code_1011_11_def
  op_parse_base_code_1100_00_def op_parse_base_code_1100_01_def op_parse_base_code_1100_10_def
  op_parse_base_code_1100_11_def op_parse_base_code_1101_00_def op_parse_base_code_1101_01_def
  op_parse_base_code_1101_10_def op_parse_base_code_1101_11_def op_parse_base_code_1110_00_def
  op_parse_base_code_1110_01_def op_parse_base_code_1110_10_def op_parse_base_code_1110_11_def
  op_parse_base_code_1111_00_def op_parse_base_code_1111_01_def op_parse_base_code_1111_10_def
  op_parse_base_code_1111_11_def

lemmas extend_code_defs =
  op_parse_extend_code_0000_00_def op_parse_extend_code_0000_01_def op_parse_extend_code_0000_10_def
  op_parse_extend_code_0000_11_def op_parse_extend_code_0001_00_def op_parse_extend_code_0001_01_def
  op_parse_extend_code_0001_10_def op_parse_extend_code_0001_11_def op_parse_extend_code_0010_00_def
  op_parse_extend_code_0010_01_def op_parse_extend_code_0010_10_def op_parse_extend_code_0010_11_def
  op_parse_extend_code_0011_00_def op_parse_extend_code_0011_01_def op_parse_extend_code_0011_10_def
  op_parse_extend_code_0011_11_def op_parse_extend_code_0100_00_def op_parse_extend_code_0100_01_def
  op_parse_extend_code_0100_10_def op_parse_extend_code_0100_11_def op_parse_extend_code_0101_00_def
  op_parse_extend_code_0101_01_def op_parse_extend_code_0101_10_def op_parse_extend_code_0101_11_def
  op_parse_extend_code_0110_00_def op_parse_extend_code_0110_01_def op_parse_extend_code_0110_10_def
  op_parse_extend_code_0110_11_def op_parse_extend_code_0111_00_def op_parse_extend_code_0111_01_def
  op_parse_extend_code_0111_10_def op_parse_extend_code_0111_11_def op_parse_extend_code_1000_00_def
  op_parse_extend_code_1000_01_def op_parse_extend_code_1000_10_def op_parse_extend_code_1000_11_def
  op_parse_extend_code_1001_00_def op_parse_extend_code_1001_01_def op_parse_extend_code_1001_10_def
  op_parse_extend_code_1001_11_def op_parse_extend_code_1010_00_def op_parse_extend_code_1010_01_def
  op_parse_extend_code_1010_10_def op_parse_extend_code_1010_11_def op_parse_extend_code_1011_00_def
  op_parse_extend_code_1011_01_def op_parse_extend_code_1011_10_def op_parse_extend_code_1011_11_def
  op_parse_extend_code_1100_00_def op_parse_extend_code_1100_01_def op_parse_extend_code_1100_10_def
  op_parse_extend_code_1100_11_def op_parse_extend_code_1101_00_def op_parse_extend_code_1101_01_def
  op_parse_extend_code_1101_10_def op_parse_extend_code_1101_11_def op_parse_extend_code_1110_00_def
  op_parse_extend_code_1110_01_def op_parse_extend_code_1110_10_def op_parse_extend_code_1110_11_def
  op_parse_extend_code_1111_00_def op_parse_extend_code_1111_01_def op_parse_extend_code_1111_10_def
  op_parse_extend_code_1111_11_def

lemma base_typed: "list_all (\<lambda>p. \<forall>code. typed_result (p code)) op_parse_base_code_table"
  unfolding op_parse_base_code_table_def list.pred_inject base_code_defs Let_def
  by (intro conjI allI TrueI typed_intros) (simp_all add: op_code_format_def)

lemma extend_typed: "list_all (\<lambda>p. \<forall>code. typed_result (p code)) op_parse_extend_code_table"
  unfolding op_parse_extend_code_table_def list.pred_inject extend_code_defs Let_def
  by (intro conjI allI TrueI typed_intros) (simp_all add: op_code_format_def)

text \<open>The indices of the two tables are six bit numbers.\<close>

lemma base_index:
  "push_bit 2 (GET_VALUE_BIT_10_7 w) OR GET_VALUE_BIT_6_5 w = take_bit 6 (drop_bit 5 w)"
  unfolding GET_VALUE_BIT_10_7_def GET_VALUE_BIT_6_5_def
  by (rule word16_eqI, elim insertE emptyE) (simp_all add: field_simps16 del: bit_0 push_bit_Suc drop_bit_Suc)

lemma extend_index:
  "push_bit 2 (GET_VALUE_BIT_26_23 v) OR GET_VALUE_BIT_22_21 v = take_bit 6 (ucast (drop_bit 21 v))"
  unfolding GET_VALUE_BIT_26_23_def GET_VALUE_BIT_22_21_def
  by (rule word16_eqI, elim insertE emptyE) (simp_all add: field_simps16 del: bit_0 push_bit_Suc drop_bit_Suc)

lemma take_bit_6_less: "unat (take_bit 6 (x :: u16)) < 64"
  by (simp add: take_bit_eq_mod unat_mod)

lemma table_lengths: "length op_parse_base_code_table = 64" "length op_parse_extend_code_table = 64"
  by (simp_all add: op_parse_base_code_table_def op_parse_extend_code_table_def)

lemma op_parse_type_typed: "typed_result (op_parse_type code)"
proof -
  have "OP_PARSE_TABLE_INDEX (GET_VALUE_BIT_10_7 w) (GET_VALUE_BIT_6_5 w) < length op_parse_base_code_table"
    "OP_PARSE_TABLE_INDEX (GET_VALUE_BIT_26_23 v) (GET_VALUE_BIT_22_21 v) < length op_parse_extend_code_table" for w v
    unfolding OP_PARSE_TABLE_INDEX_def base_index extend_index table_lengths by (rule take_bit_6_less)+
  then show ?thesis
    using base_typed extend_typed by (simp add: op_parse_type_def Let_def list_all_length)
qed

text \<open>Format 13 clears its register list before it sets it.\<close>

definition set_list :: "code_words \<Rightarrow> (nat \<Rightarrow> u8) \<Rightarrow> nat \<Rightarrow> u8" where
  "set_list code l = (fold (\<lambda>i l. l(i := 0)) [0..<32] l)(
    30 := if code 0 AND 0x0001 \<noteq> 0 then 1 else 0,
    31 := list_flag (drop_bit 5 (code 1) AND 0x07FF) 0x0001,
    29 := list_flag (drop_bit 5 (code 1) AND 0x07FF) 0x0002,
    28 := list_flag (drop_bit 5 (code 1) AND 0x07FF) 0x0004,
    23 := list_flag (drop_bit 5 (code 1) AND 0x07FF) 0x0008,
    22 := list_flag (drop_bit 5 (code 1) AND 0x07FF) 0x0010,
    21 := list_flag (drop_bit 5 (code 1) AND 0x07FF) 0x0020,
    20 := list_flag (drop_bit 5 (code 1) AND 0x07FF) 0x0040,
    27 := list_flag (drop_bit 5 (code 1) AND 0x07FF) 0x0080,
    26 := list_flag (drop_bit 5 (code 1) AND 0x07FF) 0x0100,
    25 := list_flag (drop_bit 5 (code 1) AND 0x07FF) 0x0200,
    24 := list_flag (drop_bit 5 (code 1) AND 0x07FF) 0x0400)"

lemma set_list_again: "set_list code (set_list code l) = set_list code l"
proof -
  have f: "fold (\<lambda>i l. l(i := 0)) is l = (\<lambda>i. if i \<in> set is then 0 else l i)" for "is" and l :: "nat \<Rightarrow> u8"
    by (induction "is" arbitrary: l) (auto simp: fun_eq_iff)
  show ?thesis by (rule ext) (simp add: set_list_def f)
qed

lemma decode13_again: "OpDecode13 code (OpDecode13 code d) = OpDecode13 code d"
proof -
  have "OpDecode13 code d = d\<lparr>type13 := (type13 d)\<lparr>
      t13_opcode := drop_bit 6 (code 0) AND 0x001F, t13_rfu := drop_bit 11 (code 0) AND 0x001F,
      t13_imm := ucast (drop_bit 1 (code 0) AND 0x001F),
      t13_gen := ucast ((ucast (code 1 AND 0xFFFF) :: u32) AND 0x001F),
      t13_list := set_list code (t13_list (type13 d))\<rparr>\<rparr>" for d
    unfolding OpDecode13_def Let_def set_list_def by (rule refl)
  then show ?thesis by (simp add: set_list_again)
qed

lemma decode_again: "OpDecoder f code (OpDecoder f code d) = OpDecoder f code d"
  by (cases f) (simp_all add: OpDecoder_def decode13_again OpDecode1_def OpDecode2_def OpDecode3_def
      OpDecode4_def OpDecode5_def OpDecode6_def OpDecode7_def OpDecode8_def OpDecode9_def
      OpDecode10_def OpDecode11_def OpDecode12_def OpDecode14_def OpDecode_f_def Let_def)

text \<open>C32: The parser and the executors agree: whatever the half words and the old contents of the
  buffer, parsing looks inside its tables, gives an instruction number below \<open>OpCodeId_Num\<close> with
  the format its name (and so its executor) says, depends on the half words alone, and parsing again
  into the result changes nothing, so a cached decoding equals a fresh one.\<close>

lemma op_parse_agrees:
  assumes "op_parse code d = Some (t, d')"
  shows "code_id t < OpCodeId_Num \<and> format_id t = op_code_format ! code_id t \<and>
    op_parse_type code = Some t \<and> op_parse code d' = Some (t, d') \<and>
    encode (format_id t) d' = encode (format_id t) (OpDecoder (format_id t) code blank_code)"
proof -
  have t: "op_parse_type code = Some t" and d': "d' = OpDecoder (format_id t) code d"
    using assms by (auto simp: op_parse_def split: option.splits)
  have "encode (format_id t) (OpDecoder (format_id t) code x) =
      encode (format_id t) (OpDecoder (format_id t) code y)" for x y
  proof (cases "format_id t = OP_CODE_FORMAT_UNKNOWN")
    case False
    then show ?thesis by (simp add: encode_decode)
  qed (simp add: encode_def)
  then show ?thesis
    using op_parse_type_typed [of code] t d' by (simp add: typed_result_def op_parse_def decode_again)
qed

text \<open>\<open>ADD r10, r11\<close>.\<close>

definition sample_words :: code_words where
  "sample_words = (\<lambda>_. 0)(0 := 0x59CA)"

lemma op_parse_sample:
  "op_parse sample_words d = Some (\<lparr>format_id = OP_CODE_FORMAT_1, code_id = OpCodeId_ADD_1\<rparr>,
     d\<lparr>type1 := (type1 d)\<lparr>t1_opcode := 0xE, t1_reg1 := 10, t1_reg2 := 11\<rparr>\<rparr>)"
proof -
  have "op_parse_type sample_words = Some \<lparr>format_id = OP_CODE_FORMAT_1, code_id = OpCodeId_ADD_1\<rparr>"
    by (simp add: op_parse_type_def is_extend_code_def code_value_def sample_words_def
        OP_PARSE_TABLE_INDEX_def GET_VALUE_BIT_10_7_def GET_VALUE_BIT_6_5_def
        op_parse_base_code_table_def base_code_defs optype_def)
  then show ?thesis
    by (simp add: op_parse_def OpDecoder_def OpDecode1_def sample_words_def)
qed

lemma op_parse_agrees_witness:
  "op_parse sample_words (snd (the (op_parse sample_words blank_code))) = op_parse sample_words blank_code \<and>
   op_code_format ! OpCodeId_ADD_1 = OP_CODE_FORMAT_1"
  using op_parse_agrees [OF op_parse_sample [of blank_code]] by (simp add: op_parse_sample)

section \<open>Register numbers\<close>

lemma take_bit_16_less:
  "take_bit 5 (x :: u16) < 32" "take_bit 3 x < 8" "take_bit 1 x < 2"
  by (simp_all add: word_less_nat_alt take_bit_eq_mod unat_mod)

lemma decoded_ok_step:
  assumes "decoded_ok d"
  shows "decoded_ok (OpDecoder f code d)"
proof -
  have "(ucast (take_bit 5 (drop_bit k (ucast (x :: u16) :: u32))) :: u16) < 32"
    "(ucast (take_bit 3 (drop_bit k (ucast (x :: u16) :: u32))) :: u16) < 8"
    "(ucast ((drop_bit k (ucast (x :: u16)) :: u32) AND 1) :: u16) < 2" for k x
    by (simp_all add: word_less_nat_alt unsigned_ucast_eq take_bit_eq_mod unat_mod and_one_eq)
  then show ?thesis
    using assms by (cases f) (simp_all add: OpDecoder_def decoded_ok_def OpDecode1_def OpDecode2_def
        OpDecode3_def OpDecode4_def OpDecode5_def OpDecode6_def OpDecode7_def OpDecode8_def OpDecode9_def
        OpDecode10_def OpDecode11_def OpDecode12_def OpDecode13_def OpDecode14_def OpDecode_f_def Let_def
        and_masks take_bit_16_less)
qed

lemma op_parse_decoded_ok:
  "op_parse code d = Some (t, d') \<Longrightarrow> decoded_ok d \<Longrightarrow> decoded_ok d'"
  by (auto simp: op_parse_def decoded_ok_step split: option.splits)

lemma decoded_ok_blank: "decoded_ok blank_code"
  by (simp add: decoded_ok_def blank_code_def)

end
