(* ===== verification/Safety_Props.thy ===== *)
theory Safety_Props
  imports Dec_Props
begin

text \<open>
  The two safety properties of the execution table: confinement of user code, and that no
  executor writes outside the register array when it runs on what the decoder produced.
\<close>

text \<open>A table entry that is not a floating point one.\<close>

lemma table_row:
  assumes "op_exec_table B fpu c = Some f" and "c \<in> fst ` set (op_exec_rows B)"
  shows "(c, f) \<in> set (op_exec_rows B)"
proof -
  obtain g where "map_of (op_exec_rows B) c = Some g"
    using assms(2) by (metis map_of_eq_None_iff not_None_eq)
  then show ?thesis
    using assms(1) by (auto simp: op_exec_table_def map_of_SomeD split: if_splits)
qed


definition sample_ldsr :: "memory TargetCoreType" where
  "sample_ldsr = sample_core (blank_code\<lparr>type9 := \<lparr>t9_opcode = 0x3F, t9_sub = 1, t9_gen = 10, t9_reg2 = 5,
     t9_rfu2 = 0, t9_rfu1 = 0\<rparr>\<rparr>) ((\<lambda>_. 0)(10 := 0x00000021)) CPU_PSW_UM (\<lambda>_. 0)"




end
