(* ===== verification/Fpu_Lib.thy ===== *)
theory Fpu_Lib
  imports Fpu_Sys
begin

text \<open>
  Reading and writing the bit fields of the floating point system registers.
\<close>

section \<open>Bit fields\<close>

lemma bit_set_data:
  "bit (SYS_SET_DATA (mask w) v p d) n \<longleftrightarrow>
     bit v n \<and> \<not> (p \<le> n \<and> n - p < w) \<or> p \<le> n \<and> n < 32 \<and> bit d (n - p)"
  unfolding SYS_SET_DATA_def
  by (auto simp: bit_simps dest: bit_imp_le_length)

lemma bit_get_data:
  "bit (SYS_GET_DATA (mask w) v p) n \<longleftrightarrow> n < 8 \<and> n < w \<and> bit v (p + n)"
  unfolding SYS_GET_DATA_def by (auto simp: bit_simps)

lemma field_masks:
  "(0xFFFF :: u32) = mask 16" "(0xFF :: u8) = mask 8" "(0x3F :: u32) = mask 6" "(0x3F :: u8) = mask 6"
  "(0x1F :: u32) = mask 5" "(0x1F :: u8) = mask 5" "(0x03 :: u32) = mask 2" "(0x03 :: u8) = mask 2"
  by (simp_all add: mask_eq_exp_minus_1)

text \<open>Writing back the field a view shows does not change the view.\<close>

lemma set_get_data:
  "w \<le> 8 \<Longrightarrow> p + w \<le> 32 \<Longrightarrow> SYS_SET_DATA (mask w) v p (SYS_GET_DATA (mask w) v p) = v"
  by (rule bit_word_eqI) (auto simp: bit_set_data bit_get_data)

text \<open>Reading the field written gives the value, and fields that do not meet are independent.\<close>

lemma get_set_same:
  "w \<le> w' \<Longrightarrow> w \<le> 8 \<Longrightarrow> p + w \<le> 32 \<Longrightarrow>
     SYS_GET_DATA (mask w) (SYS_SET_DATA (mask w') v p (SYS_GET_DATA (mask w) x q)) p = SYS_GET_DATA (mask w) x q"
  by (rule bit_word_eqI) (auto simp: bit_set_data bit_get_data)

lemma get_set_other:
  "p + w \<le> q \<or> q + w' \<le> p \<and> q + 8 \<le> p \<Longrightarrow>
     SYS_GET_DATA (mask w) (SYS_SET_DATA (mask w') v q d) p = SYS_GET_DATA (mask w) v p"
  by (rule bit_word_eqI) (auto simp: bit_set_data bit_get_data dest: bit_imp_le_length)

lemma get_set_data:
  "w \<le> w' \<Longrightarrow> w \<le> 8 \<Longrightarrow> p + w \<le> 32 \<Longrightarrow>
     SYS_GET_DATA (mask w) (SYS_SET_DATA (mask w') v p d) p = d AND mask w"
  by (rule bit_word_eqI) (auto simp: bit_set_data bit_get_data bit_simps)

lemma get_flag_other:
  "p + w \<le> q \<or> q < p \<Longrightarrow> SYS_GET_DATA (mask w) (set_bit q v) p = SYS_GET_DATA (mask w) v p"
  "p + w \<le> q \<or> q < p \<Longrightarrow> SYS_GET_DATA (mask w) (unset_bit q v) p = SYS_GET_DATA (mask w) v p"
  by (rule bit_word_eqI; auto simp: bit_get_data bit_simps)+

lemma flag_bit: "(v AND push_bit q 1 \<noteq> 0) = bit (v :: u32) q"
  by (simp add: and_exp_eq_0_iff_not_bit)

lemma flag_set: "q < 32 \<Longrightarrow> bit (set_bit q v :: u32) q" "\<not> bit (unset_bit q v :: u32) q"
  by (simp_all add: bit_simps)

lemmas view_defs = sys_set_fpsr_cc_def sys_get_fpsr_cc_def sys_isset_fpsr_if_def sys_set_fpsr_if_def
  sys_clr_fpsr_if_def sys_get_fpsr_rm_def sys_set_fpsr_rm_def sys_set_fpsr_xc_def
  sys_set_fpsr_xe_def sys_set_fpsr_xp_def sys_get_fpst_xc_def sys_get_fpst_xp_def
  sys_isset_fpst_if_def sys_get_fpcc_cc_def sys_get_fpcfg_rm_def sys_get_fpcfg_xe_def

end
