(* ===== verification/Spec_Props.thy ===== *)
theory Spec_Props
  imports Exec_Spec Spec_Base Fpu_Lib
begin

text \<open>
  System registers and exceptions: what LDSR stores STSR reads back, access from user mode is
  refused, the floating point status register follows its views, exception entry and return undo
  each other, and writing the region enable register does not reach the regions.
\<close>

text \<open>The synchronisation makes FPSR follow the view that was written.\<close>

lemma sync_follows: "fpsr_fields_follow regid (fpu_sync_sysreg regid 0 g)"
  unfolding fpsr_fields_follow_def fpu_sync_sysreg_def view_defs field_masks Let_def flag_bit
    set_bit_eq_or [symmetric] unset_bit_eq_and_not [symmetric]
  by (simp add: get_set_same get_set_other get_flag_other flag_set set_get_data)

lemma sync_view:
  assumes "regid \<noteq> SYS_REG_FPCC"
  shows "fp_reg regid (fpu_sync_sysreg regid selid g) = fp_reg regid g"
proof -
  have "bit v 5 \<Longrightarrow> set_bit 5 v = v" "\<not> bit v 5 \<Longrightarrow> unset_bit 5 v = v" for v :: u32
    by (rule bit_word_eqI; auto simp: bit_simps)+
  then show ?thesis
    using assms unfolding fpu_sync_sysreg_def view_defs field_masks Let_def flag_bit
      set_bit_eq_or [symmetric] unset_bit_eq_and_not [symmetric]
    by (simp add: set_get_data)
qed

lemma sync_frame:
  "selid \<noteq> 0 \<Longrightarrow> fpu_sync_sysreg regid selid g = g"
  "current_bnk (sys (fpu_sync_sysreg regid selid g)) = current_bnk (sys g)"
  "regs (fpu_sync_sysreg regid selid g) = regs g" "pc (fpu_sync_sysreg regid selid g) = pc g"
  "regid = SYS_REG_PSW \<Longrightarrow> fpu_sync_sysreg regid selid g = g"
  by (simp_all add: fpu_sync_sysreg_def fpu_defs set_fp_reg_def cpu_set_sysreg2_def Let_def)

lemma fp_reg_add_pc [simp]: "fp_reg r (add_pc n g) = fp_reg r g"
  by (simp add: fp_reg_def cpu_get_sysreg2_def)

lemma follow_add_pc: "fpsr_fields_follow r (add_pc n g) = fpsr_fields_follow r g"
  by (simp add: fpsr_fields_follow_def view_defs)

text \<open>The plain branch of LDSR: a supervisor write to a group that has no hook.\<close>

lemma ldsr_plain:
  fixes cpu :: "'b TargetCoreType"
  defines "regid \<equiv> ucast (t9_reg2 (type9 (decoded_code cpu))) :: u32"
    and "r \<equiv> ucast (t9_gen (type9 (decoded_code cpu))) :: u32"
    and "selid \<equiv> ucast (t9_rfu2 (type9 (decoded_code cpu))) :: u32"
  assumes "r < CPU_GREG_NUM" and "regid < CPU_GREG_NUM" and "selid \<in> {0, 1, 2, 3, 4}"
    and "\<not> (selid = SYS_GRP_2 \<and> regid = SYS_REG_ISPR)" and "\<not> CPU_ISSET CPU_PSW_UM (reg cpu)"
  shows "op_exec_ldsr cpu = Ret0 (cpu\<lparr>reg := add_pc 4 (fpu_sync_sysreg regid selid
    (cpu_set_sysreg2 selid regid (regs (reg cpu) r) (reg cpu)))\<rparr>)"
proof -
  have s: "(8 \<le> selid) = False" "selid \<noteq> 5" "selid \<noteq> 6" "selid \<noteq> 7"
    using assms(6) by (auto simp: word_le_nat_alt)
  then show ?thesis
    using assms(4,5,7,8) unfolding op_exec_ldsr_def Let_def regid_def [symmetric] r_def [symmetric]
      selid_def [symmetric] sys_reg_access_has_permission_def
    by (auto simp: not_le s)
qed

lemma stsr_plain:
  fixes cpu :: "'b TargetCoreType"
  defines "regid \<equiv> ucast (t9_gen (type9 (decoded_code cpu))) :: u32"
    and "r \<equiv> ucast (t9_reg2 (type9 (decoded_code cpu))) :: u32"
    and "selid \<equiv> ucast (t9_rfu2 (type9 (decoded_code cpu))) :: u32"
  assumes "r < CPU_GREG_NUM" and "regid < CPU_GREG_NUM" and "selid \<in> {0, 1, 2, 3, 4}"
    and "selid = 0 \<and> regid = SYS_REG_PSW \<or> \<not> CPU_ISSET CPU_PSW_UM (reg cpu)"
  shows "op_exec_stsr cpu =
    Ret0 (cpu\<lparr>reg := add_pc 4 (set_r r (cpu_get_sysreg2 selid regid (reg cpu)) (reg cpu))\<rparr>)"
proof -
  have s: "(8 \<le> selid) = False" using assms(6) by (auto simp: word_le_nat_alt)
  show ?thesis
    using assms(4,5,7) unfolding op_exec_stsr_def Let_def regid_def [symmetric] r_def [symmetric]
      selid_def [symmetric] sys_reg_access_has_permission_def
    by (auto simp: not_le s)
qed

lemma sync_psw: "cpu_base SYS_REG_PSW (fpu_sync_sysreg regid selid g) = cpu_base SYS_REG_PSW g"
  by (simp add: fpu_sync_sysreg_def fpu_defs set_fp_reg_def cpu_set_sysreg2_def cpu_base_def Let_def)

text \<open>What LDSR writes to a system register STSR reads back into any general register, in
  supervisor mode, for every register of the groups without a protection unit hook, except ISPR and
  FPCC; no other general register changes.\<close>

lemma ldsr_stsr_roundtrip:
  fixes cpu :: "'b TargetCoreType" and d :: OpDecodedCodeType
  defines "regid \<equiv> ucast (t9_reg2 (type9 (decoded_code cpu))) :: u32"
    and "r \<equiv> ucast (t9_gen (type9 (decoded_code cpu))) :: u32"
    and "selid \<equiv> ucast (t9_rfu2 (type9 (decoded_code cpu))) :: u32"
    and "r' \<equiv> ucast (t9_reg2 (type9 d)) :: u32"
  assumes "{r, r', regid} \<subseteq> {..<CPU_GREG_NUM}" and "selid \<in> {0, 1, 2, 3, 4}"
    and "(selid, regid) \<notin> {(SYS_GRP_2, SYS_REG_ISPR), (SYS_GRP_CPU, SYS_REG_FPCC)}"
    and "\<not> CPU_ISSET CPU_PSW_UM (reg cpu)"
    and "ucast (t9_gen (type9 d)) = regid" and "ucast (t9_rfu2 (type9 d)) = selid"
  shows "\<exists>cpu'. then_exec (op_exec_ldsr cpu) d op_exec_stsr = Ret0 cpu' \<and>
    regs (reg cpu') = (regs (reg cpu))(r' := regs (reg cpu) r) \<and> pc (reg cpu') = pc (reg cpu) + 8"
proof -
  let ?g = "cpu_set_sysreg2 selid regid (regs (reg cpu) r) (reg cpu)"
  let ?c = "cpu\<lparr>reg := add_pc 4 (fpu_sync_sysreg regid selid ?g)\<rparr>"
  have 1: "op_exec_ldsr cpu = Ret0 ?c"
    using assms(5-8) unfolding regid_def r_def selid_def by (intro ldsr_plain) auto
  have v: "cpu_get_sysreg2 selid regid (fpu_sync_sysreg regid selid ?g) = regs (reg cpu) r"
  proof (cases "selid = 0")
    case True
    then show ?thesis
      using assms(7) sync_view [of regid selid ?g] by (simp add: fp_reg_def cpu_get_sysreg2_def cpu_set_sysreg2_def)
  qed (simp add: sync_frame cpu_get_sysreg2_def cpu_set_sysreg2_def)
  have "selid = 0 \<and> regid = SYS_REG_PSW \<or> \<not> CPU_ISSET CPU_PSW_UM (reg ?c)"
    using assms(8) by (cases "selid = 0 \<and> regid = SYS_REG_PSW")
       (simp_all add: CPU_ISSET_def sync_psw, auto simp: cpu_base_def cpu_set_sysreg2_def)
  then have "op_exec_stsr (?c\<lparr>decoded_code := d\<rparr>) =
      Ret0 (?c\<lparr>decoded_code := d, reg := add_pc 4 (set_r r' (regs (reg cpu) r) (reg ?c))\<rparr>)"
    using assms(5,6,9,10) v stsr_plain [of "?c\<lparr>decoded_code := d\<rparr>"]
    by (simp add: r'_def cpu_get_sysreg2_def sync_frame)
  then show ?thesis
    using 1 by (simp add: sync_frame cpu_set_sysreg2_def)
qed

definition sample_sysreg :: "nat TargetCoreType" where
  "sample_sysreg = sample_core (blank_code\<lparr>type9 := \<lparr>t9_opcode = 0x3F, t9_sub = 1, t9_gen = 10, t9_reg2 = 28,
     t9_rfu2 = 0, t9_rfu1 = 0\<rparr>\<rparr>) ((\<lambda>_. 0)(10 := 0xABCD)) 0 (0 :: nat)"

lemma ldsr_stsr_roundtrip_witness:
  "\<exists>cpu'. then_exec (op_exec_ldsr sample_sysreg) (blank_code\<lparr>type9 := \<lparr>t9_opcode = 0x3F, t9_sub = 2, t9_gen = 28,
      t9_reg2 = 11, t9_rfu2 = 0, t9_rfu1 = 0\<rparr>\<rparr>) op_exec_stsr = Ret0 cpu' \<and> regs (reg cpu') 11 = 0xABCD"
  using ldsr_stsr_roundtrip [of sample_sysreg "blank_code\<lparr>type9 := \<lparr>t9_opcode = 0x3F, t9_sub = 2, t9_gen = 28,
      t9_reg2 = 11, t9_rfu2 = 0, t9_rfu1 = 0\<rparr>\<rparr>"]
  by (auto simp: sample_sysreg_def CPU_ISSET_def)

text \<open>In user mode LDSR and STSR of every system register but the PSW only record the privilege
  exception: no register changes and the program counter stays on the instruction, although the
  executor reports success.\<close>

lemma sysreg_refused:
  fixes cpu :: "'b TargetCoreType"
  assumes "CPU_ISSET CPU_PSW_UM (reg cpu)" and "t9_reg2 (type9 (decoded_code cpu)) < 32"
    and "t9_gen (type9 (decoded_code cpu)) < 32"
  shows "((t9_rfu2 (type9 (decoded_code cpu)), t9_reg2 (type9 (decoded_code cpu))) \<noteq> (0, 5) \<longrightarrow>
           op_exec_ldsr cpu = Ret0 (cpu\<lparr>current_code_exception :=
             \<lparr>is_code_exception = True, exception_type = ExceptionId_PIE\<rparr>\<rparr>)) \<and>
         ((t9_rfu2 (type9 (decoded_code cpu)), t9_gen (type9 (decoded_code cpu))) \<noteq> (0, 5) \<longrightarrow>
           op_exec_stsr cpu = Ret0 (cpu\<lparr>current_code_exception :=
             \<lparr>is_code_exception = True, exception_type = ExceptionId_PIE\<rparr>\<rparr>))"
proof -
  have u: "ucast x < (32 :: u32) \<longleftrightarrow> x < 32" "32 \<le> (ucast x :: u32) \<longleftrightarrow> \<not> x < 32" "ucast x = (0 :: u32) \<longleftrightarrow> x = 0" "ucast x = (5 :: u32) \<longleftrightarrow> x = 5" for x :: u16
    by (simp_all only: ucast_u16_eq ucast_u16_less not_less [symmetric])
  show ?thesis
    using assms by (auto simp: op_exec_ldsr_def op_exec_stsr_def Let_def sys_reg_access_has_permission_def
        not_le u raise_PIE_def)
qed

lemma sysreg_refused_witness:
  "op_exec_stsr (sample_core (blank_code\<lparr>type9 := \<lparr>t9_opcode = 0x3F, t9_sub = 2, t9_gen = 0, t9_reg2 = 11,
     t9_rfu2 = 0, t9_rfu1 = 0\<rparr>\<rparr>) (\<lambda>_. 0) CPU_PSW_UM (0 :: nat)) =
   Ret0 ((sample_core (blank_code\<lparr>type9 := \<lparr>t9_opcode = 0x3F, t9_sub = 2, t9_gen = 0, t9_reg2 = 11,
     t9_rfu2 = 0, t9_rfu1 = 0\<rparr>\<rparr>) (\<lambda>_. 0) CPU_PSW_UM (0 :: nat))
     \<lparr>current_code_exception := \<lparr>is_code_exception = True, exception_type = ExceptionId_PIE\<rparr>\<rparr>)"
  using sysreg_refused [of "sample_core (blank_code\<lparr>type9 := \<lparr>t9_opcode = 0x3F, t9_sub = 2, t9_gen = 0,
     t9_reg2 = 11, t9_rfu2 = 0, t9_rfu1 = 0\<rparr>\<rparr>) (\<lambda>_. 0) CPU_PSW_UM (0 :: nat)"]
  by (simp add: CPU_ISSET_def)

text \<open>A supervisor write of a floating point view register (FPST, FPCC or FPCFG) by LDSR makes the
  fields of FPSR those of the view, whatever FPSR held.\<close>

lemma ldsr_fpsr_follows:
  fixes cpu :: "'b TargetCoreType"
  assumes "t9_rfu2 (type9 (decoded_code cpu)) = 0" and "ucast (t9_reg2 (type9 (decoded_code cpu))) = regid"
    and "regid \<in> {SYS_REG_FPST, SYS_REG_FPCC, SYS_REG_FPCFG}"
    and "ucast (t9_gen (type9 (decoded_code cpu))) < CPU_GREG_NUM" and "\<not> CPU_ISSET CPU_PSW_UM (reg cpu)"
  shows "returns (op_exec_ldsr cpu) cpu (\<lambda>g. fpsr_fields_follow regid g \<and> regs g = regs (reg cpu) \<and>
    pc g = pc (reg cpu) + 4)"
proof -
  have "regid < CPU_GREG_NUM" using assms(3) by auto
  then have "op_exec_ldsr cpu = Ret0 (cpu\<lparr>reg := add_pc 4 (fpu_sync_sysreg regid 0
      (cpu_set_sysreg2 0 regid (regs (reg cpu) (ucast (t9_gen (type9 (decoded_code cpu))))) (reg cpu)))\<rparr>)"
    using ldsr_plain [of cpu] assms by simp
  then show ?thesis by (simp add: follow_add_pc sync_follows sync_frame cpu_set_sysreg2_def)
qed

definition sample_fpst :: "nat TargetCoreType" where
  "sample_fpst = sample_core (blank_code\<lparr>type9 := \<lparr>t9_opcode = 0x3F, t9_sub = 1, t9_gen = 10, t9_reg2 = 8,
     t9_rfu2 = 0, t9_rfu1 = 0\<rparr>\<rparr>) ((\<lambda>_. 0)(10 := 0x3F20)) 0 (0 :: nat)"

lemma ldsr_fpsr_follows_witness:
  "returns (op_exec_ldsr sample_fpst) sample_fpst (\<lambda>g. fpsr_fields_follow SYS_REG_FPST g)"
  using ldsr_fpsr_follows [of sample_fpst SYS_REG_FPST]
  by (auto simp: sample_fpst_def CPU_ISSET_def returns_def)

section \<open>Exception entry and return\<close>

lemma cpu_base_set_pc [simp]: "cpu_base i (g\<lparr>pc := x\<rparr>) = cpu_base i g"
  by (simp add: cpu_base_def get_sys_cell_def)

text \<open>A handler entered by TRAP that returns with EIRET, and one entered by FETRAP that returns with
  FERET, resume behind the trapping instruction with the old PSW and every general register, provided
  clearing the interrupt state leaves the program counter, the PSW and the registers alone.\<close>

lemma trap_return:
  fixes cpu :: "'b TargetCoreType"
  assumes "\<And>k c. pc (reg (intc_clr_ei B k c)) = pc (reg c) \<and> regs (reg (intc_clr_ei B k c)) = regs (reg c) \<and>
      cpu_base SYS_REG_PSW (reg (intc_clr_ei B k c)) = cpu_base SYS_REG_PSW (reg c)"
    and "\<And>k c. pc (reg (intc_clr_fe B k c)) = pc (reg c) \<and> regs (reg (intc_clr_fe B k c)) = regs (reg c) \<and>
      cpu_base SYS_REG_PSW (reg (intc_clr_fe B k c)) = cpu_base SYS_REG_PSW (reg c)"
    and "t10_gen2 (type10 (decoded_code cpu)) \<le> 0x1F" and "pc (reg cpu) AND 1 = 0"
  shows "(\<exists>cpu'. then_exec (op_exec_trap cpu) d (op_exec_eiret_10 B) = Ret0 cpu' \<and>
       pc (reg cpu') = pc (reg cpu) + 4 \<and> regs (reg cpu') = regs (reg cpu) \<and>
       cpu_base SYS_REG_PSW (reg cpu') = cpu_base SYS_REG_PSW (reg cpu)) \<and>
     (\<exists>cpu'. then_exec (op_exec_fetrap_1 cpu) d (op_exec_feret_10 B) = Ret0 cpu' \<and>
       pc (reg cpu') = pc (reg cpu) + 2 \<and> regs (reg cpu') = regs (reg cpu) \<and>
       cpu_base SYS_REG_PSW (reg cpu') = cpu_base SYS_REG_PSW (reg cpu))"
proof -
  have "bit x 0 = False \<Longrightarrow> x AND 0xFFFFFFFE = x" for x :: u32
  proof -
    assume b: "bit x 0 = False"
    have "x AND NOT 1 = x"
    proof (rule bit_word_eqI)
      show "bit (x AND NOT 1) n = bit x n" if "n < LENGTH(32)" for n
        using b that by (cases n) (auto simp: bit_simps)
    qed
    moreover have "NOT 1 = (0xFFFFFFFE :: u32)" by simp
    ultimately show "x AND 0xFFFFFFFE = x" by metis
  qed
  moreover have "bit (pc (reg cpu) + 4) 0 = False" "bit (pc (reg cpu) + 2) 0 = False"
    using assms(4) by (simp_all add: bit_0 and_one_eq odd_iff_mod_2_eq_one)
  ultimately have e: "(pc (reg cpu) + 4) AND 0xFFFFFFFE = pc (reg cpu) + 4"
      "(pc (reg cpu) + 2) AND 0xFFFFFFFE = pc (reg cpu) + 2" by blast+
  then show ?thesis 
    using assms by (auto simp: op_exec_trap_def op_exec_eiret_10_def op_exec_fetrap_1_def op_exec_feret_10_def
      Let_def SYS_REG_EIPC_GET_def SYS_REG_FEPC_GET_def CPU_SET_def)
qed

definition sample_trap :: "memory TargetCoreType" where
  "sample_trap = sample_core (blank_code\<lparr>type10 := \<lparr>t10_opcode = 0x3F, t10_gen1 = 0, t10_gen2 = 3,
     t10_sub = 8, t10_rfu1 = 0, t10_rfu2 = 0, t10_rfu3 = 0\<rparr>\<rparr>) (\<lambda>_. 7) 0x9 (\<lambda>_. 0)"

lemma trap_return_witness:
  "\<exists>cpu'. then_exec (op_exec_trap sample_trap) blank_code (op_exec_eiret_10 flat_bus) = Ret0 cpu' \<and>
     pc (reg cpu') = 4 \<and> cpu_base SYS_REG_PSW (reg cpu') = 0x9"
  using trap_return [of flat_bus sample_trap blank_code] by (auto simp: sample_trap_def)

section \<open>Protection registers\<close>

text \<open>The hook call of LDSR passes the group where the hook expects the register number.\<close>

lemma hook_swapped:
  "mpu_hook_access_write data 5 1 g = g"
  by (simp add: mpu_hook_access_write_def)

lemma region_cells_distinct:
  assumes "i < 16" and "j < 16" and "i \<noteq> j"
  shows "\<not> (mpu_region_selid i = mpu_region_selid j \<and> mpu_region_base i + 2 = mpu_region_base j + 2)"
proof
  assume e: "mpu_region_selid i = mpu_region_selid j \<and> mpu_region_base i + 2 = mpu_region_base j + 2"
  have u: "unat (mpu_region_base k) = (if k < 8 then k else k - 8) * 4" if "k < 16" for k
  proof -
    have "(if k < 8 then k - 0 else k - 8) * 4 < 2 ^ 32" using that by auto
    then show ?thesis
      unfolding mpu_region_base_def unsigned_of_nat len_num1 len_bit0
      by (subst take_bit_nat_eq_self) auto
  qed
  have "(if i < 8 then i else i - 8) = (if j < 8 then j else j - 8)"
    using e u [OF assms(1)] u [OF assms(2)] by simp
  then show False using e assms by (auto simp: mpu_region_selid_def split: if_splits)
qed

definition mprc_step :: "u32 \<Rightarrow> nat \<Rightarrow> CpuRegisterType \<Rightarrow> CpuRegisterType" where
  "mprc_step data index g =
     (let v = cpu_get_sysreg2 (mpu_region_selid index) (mpu_region_base index + 2) g
      in cpu_set_sysreg2 (mpu_region_selid index) (mpu_region_base index + 2)
           (if bit data index then set_bit 7 v else unset_bit 7 v) g)"

lemma mprc_as_steps: "mpu_hook_access_write_mprc data g = fold (mprc_step data) [0..<TARGET_MPU_CONFIG_NUM] g"
proof -
  have "(\<lambda>index g. let selid = mpu_region_selid index; regid = mpu_region_base index + 2;
           v = cpu_get_sysreg2 selid regid g
       in if data AND push_bit index 1 \<noteq> 0 then cpu_set_sysreg2 selid regid (v OR push_bit 7 1) g
          else cpu_set_sysreg2 selid regid (v AND NOT (push_bit 7 1)) g) = mprc_step data"
    by (intro ext) (simp add: mprc_step_def Let_def flag_bit set_bit_eq_or unset_bit_eq_and_not
        del: push_bit_of_1)
  then show ?thesis by (simp only: mpu_hook_access_write_mprc_def)
qed

lemma mprc_fold:
  assumes "distinct is" and "set is \<subseteq> {..<16}" and "i < 16"
  shows "cpu_get_sysreg2 (mpu_region_selid i) (mpu_region_base i + 2) (fold (mprc_step data) is g) =
    (let v = cpu_get_sysreg2 (mpu_region_selid i) (mpu_region_base i + 2) g
     in if i \<in> set is then (if bit data i then set_bit 7 v else unset_bit 7 v) else v)"
  using assms(1,2)
proof (induction "is" arbitrary: g)
  case (Cons j "is")
  have "cpu_get_sysreg2 (mpu_region_selid i) (mpu_region_base i + 2) (mprc_step data j g) =
    (let v = cpu_get_sysreg2 (mpu_region_selid i) (mpu_region_base i + 2) g
     in if i = j then (if bit data i then set_bit 7 v else unset_bit 7 v) else v)"
    using region_cells_distinct [of i j] assms(3) Cons.prems
    by (auto simp: mprc_step_def Let_def cpu_get_sysreg2_def cpu_set_sysreg2_def)
  then show ?case
    using Cons by (cases "i = j") (simp_all add: Let_def)
qed simp

text \<open>The hook of the region enable register is right: called with the register number and the
  group in the order of its parameters it makes the enable bits of the sixteen attribute registers
  the low sixteen bits of the value.  But LDSR calls it with the two swapped: a supervisor write of
  that register leaves every region as it was.\<close>

lemma mprc_write_not_propagated:
  fixes cpu :: "'b TargetCoreType"
  assumes "t9_rfu2 (type9 (decoded_code cpu)) = 5" and "t9_reg2 (type9 (decoded_code cpu)) = 1"
    and "ucast (t9_gen (type9 (decoded_code cpu))) < CPU_GREG_NUM" and "\<not> CPU_ISSET CPU_PSW_UM (reg cpu)"
  shows "(\<forall>i < TARGET_MPU_CONFIG_NUM. is_enable (mpu_region_config
           (reg (snd (target_mpu_hook_access cpu data MPU_TARGET_ACCESS_WRITE 1 5))) i) = bit data i) \<and>
     (\<exists>cpu'. op_exec_ldsr cpu = Ret0 cpu' \<and>
       permission_region (mpu cpu') = map (mpu_region_config (reg cpu)) [0..<TARGET_MPU_CONFIG_NUM] \<and>
       cpu_get_sysreg2 SYS_GRP_5 SYS_REG_MPRC (reg cpu') =
         regs (reg cpu) (ucast (t9_gen (type9 (decoded_code cpu)))))"
  (is "?hook \<and> ?ldsr")

proof
  have b: "sysreg_is_bit_set v 0x80 = bit v 7" for v
  proof -
    have "v AND 2 ^ 7 = (if bit v 7 then 2 ^ 7 else 0)"
      by (rule bit_word_eqI) (auto simp: bit_simps simp del: power_numeral)
    then have "v AND 0x80 = (if bit v 7 then 0x80 else 0)" by simp
    then show ?thesis by (simp add: sysreg_is_bit_set_def)
  qed
  show ?hook
    by (simp add: mprc_fold lessThan_atLeast0 target_mpu_hook_access_def mpu_hook_access_def mpu_hook_access_write_def mprc_as_steps
        mpu_region_config_def Let_def b bit_simps del: upt_Suc)
  let ?d = "regs (reg cpu) (ucast (t9_gen (type9 (decoded_code cpu))))"
  have "mpu_region_config (cpu_set_sysreg2 5 1 v g) i = mpu_region_config g i" for v g i
    by (auto simp: mpu_region_config_def Let_def cpu_get_sysreg2_def cpu_set_sysreg2_def mpu_region_selid_def)
  then show ?ldsr
    using assms
    by (simp add: op_exec_ldsr_def Let_def sys_reg_access_has_permission_def ucast_u16_eq not_le
        target_mpu_hook_access_def mpu_hook_access_def hook_swapped target_mpu_set_config_def
        mpu_set_config_def fpu_sync_sysreg_def cpu_get_sysreg2_def cpu_set_sysreg2_def del: upt_Suc)
qed

lemma mprc_write_not_propagated_witness:
  "\<exists>cpu'. op_exec_ldsr (sample_core (blank_code\<lparr>type9 := \<lparr>t9_opcode = 0x3F, t9_sub = 1, t9_gen = 10, t9_reg2 = 1,
       t9_rfu2 = 5, t9_rfu1 = 0\<rparr>\<rparr>) (\<lambda>_. 0xFFFF) 0 (0 :: nat)) = Ret0 cpu' \<and>
     \<not> is_enable (permission_region (mpu cpu') ! 3)"
proof -
  let ?c = "sample_core (blank_code\<lparr>type9 := \<lparr>t9_opcode = 0x3F, t9_sub = 1, t9_gen = 10, t9_reg2 = 1,
       t9_rfu2 = 5, t9_rfu1 = 0\<rparr>\<rparr>) (\<lambda>_. 0xFFFF) 0 (0 :: nat)"
  obtain cpu' where "op_exec_ldsr ?c = Ret0 cpu'"
      and "permission_region (mpu cpu') = map (mpu_region_config (reg ?c)) [0..<TARGET_MPU_CONFIG_NUM]"
    using mprc_write_not_propagated [of ?c] by (auto simp: CPU_ISSET_def)
  then show ?thesis
    by (simp add: mpu_region_config_def Let_def sysreg_is_bit_set_def cpu_get_sysreg2_def get_sys_cell_def
        sample_core_def mpu_region_selid_def)
qed

end
