(* ===== verification/Mpu_Props.thy ===== *)
theory Mpu_Props
  imports Exec_Spec Spec_Base
begin

text \<open>
  The protection unit against its specification: an access is a set of byte addresses, a region a
  set of byte addresses with rights, and a check grants exactly the accesses the regions cover.
\<close>

section \<open>Byte addresses\<close>

text \<open>The bytes an access touches, and the ones a region covers.\<close>

definition bytes_at :: "u32 \<Rightarrow> u32 \<Rightarrow> u32 set" where
  "bytes_at addr sz = {x. unat addr \<le> unat x \<and> unat x < unat addr + unat sz}"

definition covers :: "TargetMpuConfigType \<Rightarrow> u32 \<Rightarrow> bool" where
  "covers c x \<longleftrightarrow> addr_start c \<le> x \<and> x \<le> addr_end c"

text \<open>The regions in force: enabled, not empty, applied to the current address space, and with the
  right asked for in the current mode.\<close>

definition in_force :: "'b TargetCoreType \<Rightarrow> TargetMpuAccessType \<Rightarrow> TargetMpuConfigType \<Rightarrow> bool" where
  "in_force cpu at c \<longleftrightarrow>
     is_enable c \<and> addr_start c \<le> addr_end c \<and> is_enable_apply_config c \<and>
     ucast (cfg_asid c) = cpu_get_sysreg2 SYS_GRP_2 SYS_REG_ASID (reg cpu) \<and>
     (let acc = if CPU_ISSET CPU_PSW_UM (reg cpu) then is_enable_access_um c else is_enable_access_sv c
      in at = MPU_TARGET_ACCESS_READ \<and> acc_read acc \<or> at = MPU_TARGET_ACCESS_WRITE \<and> acc_write acc \<or>
         at = MPU_TARGET_ACCESS_EXEC \<and> acc_exec acc)"

lemma enable_region_config_spec:
  "set (enable_region_config cpu at) = {c \<in> set (permission_region (mpu cpu)). in_force cpu at c}"
  by (cases at) (auto simp: enable_region_config_def in_force_def mpu_is_enable_protection_region_def
      mpu_is_apply_protection_region_def mpu_has_permission_access_type_def Let_def not_less
      split: if_splits)

lemma mdp_iff:
  assumes "0 < sz" and "unat addr + unat sz \<le> 2 ^ 32"
  shows "mpu_has_permission_access_region_mdp addr sz cs \<longleftrightarrow>
    (\<exists>c \<in> set cs. \<forall>x \<in> bytes_at addr sz. covers c x)"
proof -
  have s: "unat sz \<noteq> 0" using assms(1) by (simp add: word_less_nat_alt)
  have "unat (sz - 1) = unat sz - 1" using assms(1) by (intro unat_minus_one) auto
  then have "unat (addr + (sz - 1)) = (unat addr + (unat sz - 1)) mod 2 ^ 32"
    by (simp only: unat_word_ariths(1)) simp
  also have "\<dots> = unat addr + (unat sz - 1)" using assms(2) s by (intro mod_less) linarith
  finally have l: "unat (addr + sz - 1) = unat addr + unat sz - 1" using s by (simp add: add_diff_eq)
  have "addr_start c \<le> addr \<and> addr + sz - 1 \<le> addr_end c \<longleftrightarrow> (\<forall>x \<in> bytes_at addr sz. covers c x)" for c
  proof
    assume "addr_start c \<le> addr \<and> addr + sz - 1 \<le> addr_end c"
    then show "\<forall>x \<in> bytes_at addr sz. covers c x"
      using l s by (auto simp: bytes_at_def covers_def word_le_nat_alt)
  next
    assume a: "\<forall>x \<in> bytes_at addr sz. covers c x"
    have "addr \<in> bytes_at addr sz" "addr + sz - 1 \<in> bytes_at addr sz"
      using l s by (auto simp: bytes_at_def)
    then show "addr_start c \<le> addr \<and> addr + sz - 1 \<le> addr_end c" using a by (auto simp: covers_def)
  qed
  then show ?thesis by (induction cs) auto
qed

lemma mip_loop_iff:
  "mip_loop a e cs \<longleftrightarrow> (\<forall>x. a \<le> x \<and> x < e \<longrightarrow> (\<exists>c \<in> set cs. covers c x))"
proof (induction a e cs rule: mip_loop.induct)
  case (1 a e cs)
  show ?case
  proof (cases "a < e")
    case True
    have "a \<le> x \<and> x < e \<longleftrightarrow> x = a \<or> a + 1 \<le> x \<and> x < e" for x
      using unat_inc [OF True] True by (auto simp: word_le_nat_alt word_less_nat_alt word_unat_eq_iff)
    then show ?thesis
      using True 1 by (subst mip_loop.simps) (auto simp: list_ex_iff covers_def)
  next
    case False
    then show ?thesis by (subst mip_loop.simps) (auto dest: le_less_trans)
  qed
qed

lemma mip_iff:
  assumes "unat addr + unat sz < 2 ^ 32"
  shows "mpu_has_permission_access_region_mip addr sz cs \<longleftrightarrow>
    (\<forall>x \<in> bytes_at addr sz. \<exists>c \<in> set cs. covers c x)"
proof -
  have "unat (addr + sz) = unat addr + unat sz"
    using assms by (simp add: unat_word_ariths)
  then have "a \<le> x \<and> x < addr + sz \<longleftrightarrow> x \<in> bytes_at addr sz" if "a = addr" for x a
    using that by (auto simp: bytes_at_def word_le_nat_alt word_less_nat_alt)
  then show ?thesis
    by (simp add: mpu_has_permission_access_region_mip_def mip_loop_iff Ball_def)
qed

section \<open>The check\<close>


definition sample_region :: TargetMpuConfigType where
  "sample_region = \<lparr>addr_start = 0x1000, addr_end = 0x1FFF, is_enable = True,
     is_enable_access_sv = blank_access, is_enable_access_um = blank_access\<lparr>acc_read := True\<rparr>,
     is_enable_apply_config = True, cfg_asid = 0\<rparr>"

definition sample_guarded :: "memory TargetCoreType" where
  "sample_guarded = (sample_core blank_code (\<lambda>_. 0) CPU_PSW_UM (\<lambda>_. 0))\<lparr>mpu := blank_mpu\<lparr>
     is_enable_mpu := True, permission_region := [sample_region]\<rparr>\<rparr>"

lemma sample_guarded_simps [simp]:
  "is_enable_mpu (mpu sample_guarded)" "CPU_ISSET CPU_PSW_UM (reg sample_guarded)"
  "permission_region (mpu sample_guarded) = [sample_region]"
  "in_force sample_guarded MPU_TARGET_ACCESS_READ sample_region"
  by (simp_all add: sample_guarded_def CPU_ISSET_def sample_core_def cpu_base_def get_sys_cell_def in_force_def
      sample_region_def cpu_get_sysreg2_def blank_access_def)


text \<open>An instruction fetch whose last byte address reaches the end of the address space is granted
  without looking at any region, because the end of the byte loop wraps around to a small number.\<close>

lemma exec_wrap_granted:
  assumes "2 ^ 32 \<le> unat addr + unat sz"
  shows "fst (target_mpu_has_permission cpu MPU_TARGET_ACCESS_EXEC addr sz)"
proof -
  have r: "unat addr < 2 ^ 32" "unat sz < 2 ^ 32"
    using unsigned_less [of addr] unsigned_less [of sz] by simp_all
  have "unat (addr + sz) = (unat addr + unat sz) mod 2 ^ 32" by (simp only: unat_word_ariths(1)) simp
  also have "\<dots> = unat addr + unat sz - 2 ^ 32"
    using assms r by (subst le_mod_geq) (auto intro!: mod_less)
  finally have "unat (addr + sz) < unat addr" using assms r by linarith
  then have "\<not> addr < addr + sz" by (simp add: word_less_nat_alt)
  then have "mpu_has_permission_access_region MPU_TARGET_ACCESS_EXEC addr sz cs" for cs
    by (simp add: mpu_has_permission_access_region_def mpu_has_permission_access_region_mip_def)
       (subst mip_loop.simps, simp)
  then show ?thesis by (simp add: target_mpu_has_permission_def)
qed

lemma exec_wrap_granted_witness:
  "fst (target_mpu_has_permission sample_guarded MPU_TARGET_ACCESS_EXEC 0xFFFFFFFE 4)"
  by (rule exec_wrap_granted) simp

section \<open>The check instruction\<close>

text \<open>After the check instruction the register MCR holds 0 or 1, although it has seven result bits:
  they cannot be told apart.\<close>

lemma mcr_zero_or_one:
  "cpu_get_sysreg2 SYS_GRP_2 SYS_REG_MCR (reg (target_mpu_check cpu)) \<in> {0, 1}"
proof -
  have b: "set_mcr_bit b n \<in> {0, 1}" for b n by (simp add: set_mcr_bit_def)
  have o: "x \<in> {0, 1} \<Longrightarrow> y \<in> {0, 1} \<Longrightarrow> x OR y \<in> {0, 1}" for x y :: u32 by auto
  have r: "reg (c\<lparr>reg := cpu_set_sysreg2 s i v g\<rparr>) = cpu_set_sysreg2 s i v g"
    "cpu_get_sysreg2 s i (cpu_set_sysreg2 s i v g) = v" for c :: "'a TargetCoreType" and s i v g
    by (simp_all add: cpu_get_sysreg2_def cpu_set_sysreg2_def)
  show ?thesis
    unfolding target_mpu_check_def mpu_check_def Let_def case_prod_beta r by (intro o b)
qed

end
