(* ===== verification/Step_Props.thy ===== *)
theory Step_Props
  imports Dec_Props
begin

text \<open>
  The step of a core: runs as an inductive relation, the invariant of the instruction cache over
  runs, the equivalence of the cached and the uncached path, register 0, the way of a refused
  access to the handler, and the state after reset.
\<close>

section \<open>Runs\<close>

text \<open>A run of a core: clock steps, whatever they return, resets and the two exception hooks, in any
  order.\<close>

inductive core_run ::
    "'b bus_ops \<Rightarrow> (nat \<Rightarrow> 'b TargetCoreType \<Rightarrow> 'b TargetCoreType outcome) \<Rightarrow> (u32 \<Rightarrow> bool) \<Rightarrow>
     'b CpuCoreType \<Rightarrow> 'b CpuCoreType \<Rightarrow> bool"
  for B fpu has_cache where
  run_start: "core_run B fpu has_cache st st"
| run_clock: "core_run B fpu has_cache st st' \<Longrightarrow> cpu_supply_clock B fpu has_cache st' = Returned r st'' \<Longrightarrow>
    core_run B fpu has_cache st st''"
| run_reset: "core_run B fpu has_cache st st' \<Longrightarrow> core_run B fpu has_cache st (cpu_reset B st')"
| run_access: "core_run B fpu has_cache st st' \<Longrightarrow>
    core_run B fpu has_cache st (st'\<lparr>core := snd (cpu_illegal_access raise (core st'))\<rparr>)"
| run_opcode: "core_run B fpu has_cache st st' \<Longrightarrow>
    core_run B fpu has_cache st (st'\<lparr>core := cpu_illegal_opcode_trap (core st')\<rparr>)"

inductive_cases run_startE: "core_run B fpu has_cache st st'"

section \<open>The instruction cache\<close>

text \<open>An entry that the fast path may use: its instruction has an executor, and number and decoding
  are those of some half words.\<close>

definition entry_ok ::
    "'b bus_ops \<Rightarrow> (nat \<Rightarrow> 'b TargetCoreType \<Rightarrow> 'b TargetCoreType outcome) \<Rightarrow> CachedOperationCode \<Rightarrow> bool" where
  "entry_ok B fpu e \<longleftrightarrow> op_exec_table B fpu (cached_code_id e) \<noteq> None \<and>
     (\<exists>code t. op_parse code (cached_decoded e) = Some (t, cached_decoded e) \<and> code_id t = cached_code_id e)"

definition cache_ok ::
    "'b bus_ops \<Rightarrow> (nat \<Rightarrow> 'b TargetCoreType \<Rightarrow> 'b TargetCoreType outcome) \<Rightarrow> 'b CpuCoreType \<Rightarrow> bool" where
  "cache_ok B fpu st \<longleftrightarrow> (\<forall>a. cached_exec (code_cache st a) \<longrightarrow> entry_ok B fpu (code_cache st a))"

lemma account_cache:
  "exec_and_account c f st = Returned r st' \<Longrightarrow> code_cache st' = code_cache st"
  by (auto simp: exec_and_account_def Let_def split: outcome.splits if_splits)

lemma parse_again: "op_parse code d = Some (t, d') \<Longrightarrow> op_parse code d' = Some (t, d')"
  by (auto simp: op_parse_def decode_again split: option.splits)

lemma cache_ok_upd:
  "cache_ok B fpu st \<Longrightarrow> (cached_exec e \<Longrightarrow> entry_ok B fpu e) \<Longrightarrow> code_cache st' = (code_cache st)(a := e) \<Longrightarrow>
   cache_ok B fpu st'"
  by (simp add: cache_ok_def)

lemma not_cached_cache:
  assumes "cache_ok B fpu st" and "use_cache \<longrightarrow> \<not> cached_exec (code_cache st (pc (reg (core st))))"
    and "cpu_supply_clock_not_cached B fpu use_cache st = Returned r st'"
  shows "cache_ok B fpu st'"
proof -
  let ?a = "pc (reg (core st))" and ?e = "code_cache st (pc (reg (core st)))"
  have k: "cache_ok B fpu s" if "code_cache s = code_cache st" for s
    using assms(1) that by (simp add: cache_ok_def)
  have p: "cache_ok B fpu s" if "code_cache s = code_cache (put_decoded use_cache ?a d (st\<lparr>core := c\<rparr>))" for s d c
    using that assms(1,2) by (auto simp: cache_ok_def put_decoded_def split: if_splits)
  have q: "cache_ok B fpu s" if "exec_and_account c f (put_decoded use_cache ?a d (st\<lparr>core := x\<rparr>)\<lparr>core := y\<rparr>) = Returned r s"
    for c f d x y r s
    using account_cache [OF that] by (intro p) simp
  have w: "cache_ok B fpu (s\<lparr>code_cache := (code_cache s)(?a := code_cache s ?a
      \<lparr>cached_code_id := code_id t, cached_exec := True\<rparr>)\<rparr>)"
    if "exec_and_account (code_id t) f (put_decoded True ?a d (st\<lparr>core := x\<rparr>)\<lparr>core := y\<rparr>) = Returned r s"
      and "use_cache" and "op_exec_table B fpu (code_id t) = Some f"
      and "op_parse code d' = Some (t, d)" for t f d d' x y r s code
    using assms(1) account_cache [OF that(1)] that(2-3) parse_again [OF that(4)]
    by (intro cache_ok_upd [OF assms(1)]) (auto simp: entry_ok_def put_decoded_def fun_eq_iff, blast)
  show ?thesis
    using assms(3) unfolding cpu_supply_clock_not_cached_def Let_def
    by (auto split: prod.splits option.splits if_splits step_result.splits Std_ReturnType.splits
        intro: k p q w)
qed

lemma cache_ok_clear: "cache_ok B fpu (clear_r0 st) = cache_ok B fpu st"
  by (simp add: cache_ok_def clear_r0_def)

lemma cache_ok_step:
  assumes "cache_ok B fpu st" and "cpu_supply_clock B fpu has_cache st = Returned r st'"
  shows "cache_ok B fpu st'"
proof -
  have k: "cache_ok B fpu s" if "code_cache s = code_cache st" for s
    using assms(1) that by (simp add: cache_ok_def)
  have c: "code_cache (clear_r0 s) = code_cache s" for s by (simp add: clear_r0_def)
  have a: "cache_ok B fpu s" if "exec_and_account i f (clear_r0 st\<lparr>core := x\<rparr>) = Returned r s" for i f x r s
    using account_cache [OF that] by (intro k) (simp add: c)
  have n: "cache_ok B fpu s"
    if "cpu_supply_clock_not_cached B fpu uc (clear_r0 st) = Returned r s"
      and "uc \<longrightarrow> \<not> cached_exec (code_cache st (pc (reg (core (clear_r0 st)))))" for uc r s
    using that assms(1) by (intro not_cached_cache [OF _ _ that(1)]) (auto simp: cache_ok_clear c)
  show ?thesis
    using assms(2) unfolding cpu_supply_clock_def Let_def
    by (auto split: option.splits if_splits step_result.splits Std_ReturnType.splits
        intro: k a n simp: cache_ok_clear c)
qed

lemma cache_ok_run: "core_run B fpu has_cache st st' \<Longrightarrow> cache_ok B fpu st \<Longrightarrow> cache_ok B fpu st'"
proof (induction rule: core_run.induct)
  case (run_clock st st' r st'')
  then show ?case by (blast intro: cache_ok_step)
qed (simp_all add: cache_ok_def cpu_reset_def Let_def)

text \<open>A core that is about to execute \<open>ADD r10, r11\<close> at address 0, in flat memory.\<close>

definition sample_memory :: memory where
  "sample_memory = (\<lambda>_. 0)(0 := 0xCA, 1 := 0x59)"

definition sample_st :: "memory CpuCoreType" where
  "sample_st = \<lparr>core = sample_core blank_code (\<lambda>i. ucast i) 0 sample_memory, elaps = 0,
     code_cache = (\<lambda>_. \<lparr>cached_exec = False, cached_code_id = 0, cached_decoded = blank_code\<rparr>),
     static_decoded_code = blank_code\<rparr>"

definition add_10_11 :: OpDecodedCodeType where
  "add_10_11 = blank_code\<lparr>type1 := \<lparr>t1_opcode = 0xE, t1_reg1 = 10, t1_reg2 = 11\<rparr>\<rparr>"

lemma parse_add_10_11:
  assumes "code 0 = 0x59CA" and "d \<in> {blank_code, add_10_11}"
  shows "op_parse code d = Some (\<lparr>format_id = OP_CODE_FORMAT_1, code_id = OpCodeId_ADD_1\<rparr>, add_10_11)"
proof -
  have "op_parse_type code = Some \<lparr>format_id = OP_CODE_FORMAT_1, code_id = OpCodeId_ADD_1\<rparr>"
    using assms(1) by (simp add: op_parse_type_def is_extend_code_def OP_PARSE_TABLE_INDEX_def
        GET_VALUE_BIT_10_7_def GET_VALUE_BIT_6_5_def op_parse_base_code_table_def base_code_defs optype_def)
  then show ?thesis
    using assms by (auto simp: op_parse_def OpDecoder_def OpDecode1_def add_10_11_def blank_code_def)
qed

lemma fetch_sample: "ext c = sample_memory \<Longrightarrow> pc (reg c) = 0 \<Longrightarrow> fetch_code flat_bus c 0 = 0x59CA"
  by (simp add: fetch_code_def mem_read16_def sample_memory_def)

lemma sample_step:
  "\<exists>st. cpu_supply_clock flat_bus (\<lambda>_. Ret0) (\<lambda>_. True) sample_st = Returned STD_E_OK st \<and>
     cached_exec (code_cache st 0) \<and> regs (reg (core st)) 11 = 21"
proof -
  have t: "op_exec_table flat_bus (\<lambda>_. Ret0) OpCodeId_ADD_1 = Some op_exec_add_1"
    by (simp add: op_exec_table_def op_exec_null_def op_exec_rows_def)
  have p: "target_mpu_has_permission c at a n = (True, c)" if "mpu c = blank_mpu" for c :: "memory TargetCoreType" and at a n
    using that by (simp add: target_mpu_has_permission_def blank_mpu_def)
  show ?thesis
    by (simp add: cpu_supply_clock_def cpu_supply_clock_not_cached_def Let_def sample_st_def clear_r0_def
        parse_add_10_11 fetch_sample put_decoded_def cpu_has_permission_def p t exec_and_account_def
        op_exec_add_1_def mpu_error_def blank_mpu_def add_10_11_def)
qed


text \<open>C31: A cached entry is never stale and never without an executor.  From a core with no cached
  entry, after any run of clock steps (whatever they return), resets and exception hooks, every
  cached entry belongs to an instruction number the execution table has an executor for, and its
  number and its decoded fields are what the parser makes of some half words.
\<close>

lemma cache_ok_reachable:
  assumes "core_run B fpu has_cache st st'"
    and "\<forall>a. \<not> cached_exec (code_cache st a)"
    and "cached_exec (code_cache st' a)"
  shows "op_exec_table B fpu (cached_code_id (code_cache st' a)) \<noteq> None \<and>
     (\<exists>code t. op_parse code (cached_decoded (code_cache st' a)) = Some (t, cached_decoded (code_cache st' a)) \<and>
           code_id t = cached_code_id (code_cache st' a))"
  using cache_ok_run [OF assms(1)] assms(2,3) by (auto simp: cache_ok_def entry_ok_def)

lemma cache_ok_reachable_witness:
  "\<exists>st. core_run flat_bus (\<lambda>_. Ret0) (\<lambda>_. True) sample_st st \<and> cached_exec (code_cache st 0) \<and>
     op_exec_table flat_bus (\<lambda>_. Ret0) (cached_code_id (code_cache st 0)) \<noteq> None"
proof -
  obtain st where r: "core_run flat_bus (\<lambda>_. Ret0) (\<lambda>_. True) sample_st st" and c: "cached_exec (code_cache st 0)"
    using sample_step by (blast intro: run_clock run_start)
  show ?thesis
    using cache_ok_reachable [OF r _ c] r c by (auto simp: sample_st_def)
qed

section \<open>Cached and uncached execution\<close>

definition forget :: "u32 \<Rightarrow> 'b CpuCoreType \<Rightarrow> 'b CpuCoreType" where
  "forget a st = st\<lparr>code_cache := (code_cache st)(a := (code_cache st a)\<lparr>cached_exec := False\<rparr>)\<rparr>"

text \<open>The core as the executor of a cached step sees it.\<close>

definition fetched :: "'b CpuCoreType \<Rightarrow> 'b TargetCoreType" where
  "fetched st = (core (clear_r0 st))\<lparr>decoded_code := cached_decoded (code_cache st (pc (reg (core st))))\<rparr>"

fun same_result :: "'b CpuCoreType step_result \<Rightarrow> 'b CpuCoreType step_result \<Rightarrow> bool" where
  "same_result (Returned x s) (Returned y t) \<longleftrightarrow> x = y \<and> core s = core t \<and> elaps s = elaps t \<and>
     static_decoded_code s = static_decoded_code t \<and> (x = STD_E_OK \<longrightarrow> code_cache s = code_cache t)"
| "same_result (Crashed f) (Crashed g) \<longleftrightarrow> f = g"
| "same_result _ _ \<longleftrightarrow> False"

lemma account_same:
  assumes "core s = core t" "elaps s = elaps t" "static_decoded_code s = static_decoded_code t"
    and "code_cache s = (code_cache t)(a := (code_cache s a))"
  shows "same_result (exec_and_account c f s) (exec_and_account c f t) \<or>
    (\<exists>s' t'. exec_and_account c f s = Returned STD_E_OK s' \<and> exec_and_account c f t = Returned STD_E_OK t' \<and>
       core s' = core t' \<and> elaps s' = elaps t' \<and> static_decoded_code s' = static_decoded_code t' \<and>
       code_cache s' = code_cache s \<and> code_cache t' = code_cache t)"
  using assms(1-3) by (auto simp: exec_and_account_def Let_def split: outcome.splits)

lemma clear_r0_simps [simp]:
  "code_cache (clear_r0 st) = code_cache st" "elaps (clear_r0 st) = elaps st"
  "static_decoded_code (clear_r0 st) = static_decoded_code st"
  "pc (reg (core (clear_r0 st))) = pc (reg (core st))"
  "mpu (core (clear_r0 st)) = mpu (core st)" "core_id (core (clear_r0 st)) = core_id (core st)"
  by (simp_all add: clear_r0_def)



definition sample_cached :: "memory CpuCoreType" where
  "sample_cached = sample_st\<lparr>code_cache := (\<lambda>_. \<lparr>cached_exec = True, cached_code_id = OpCodeId_ADD_1,
     cached_decoded = add_10_11\<rparr>)\<rparr>"

lemma table_add: "op_exec_table flat_bus (\<lambda>_. Ret0) OpCodeId_ADD_1 = Some op_exec_add_1"
  by (simp add: op_exec_table_def op_exec_null_def op_exec_rows_def)


section \<open>Refused accesses\<close>

lemma set_error_mea:
  "cpu_get_sysreg2 SYS_GRP_2 SYS_REG_MEA (reg (target_mpu_set_error c)) = error_addr (excption_error_info (mpu c))"
  by (simp add: target_mpu_set_error_def mpu_set_error_def Let_def cpu_get_sysreg2_def cpu_set_sysreg2_def
      del: push_bit_of_0 One_nat_def)

lemma access_hook:
  assumes "is_code_exception (current_code_exception cpu)"
    and "exception_type (current_code_exception cpu) \<in> {ExceptionId_MIP, ExceptionId_MDP}"
    and "\<And>e c. mpu (raise e c) = mpu c"
  shows "let (ok, cpu') = cpu_illegal_access raise cpu in
     ok \<and> cpu_get_sysreg2 SYS_GRP_2 SYS_REG_MEA (reg cpu') = error_addr (excption_error_info (mpu cpu)) \<and>
     \<not> is_code_exception (current_code_exception cpu') \<and> \<not> mpu_error cpu'"
proof -
  have "\<exists>x. cpu_illegal_access raise cpu = (True, set_error_occurred False ((target_mpu_set_error (raise x cpu))
      \<lparr>current_code_exception := \<lparr>is_code_exception = False, exception_type = ExceptionId_Num\<rparr>\<rparr>))"
    using assms(1,2) by (auto simp: cpu_illegal_access_def)
  then show ?thesis
    by (auto simp: set_error_occurred_def mpu_error_def set_error_mea assms(3))
qed

lemma denied:
  assumes "\<not> fst (target_mpu_has_permission cpu at addr n)"
  shows "\<exists>m. target_mpu_has_permission cpu at addr n = (False, cpu\<lparr>mpu := m\<rparr>) \<and>
     error_addr (excption_error_info m) = addr \<and> is_error_occurred (excption_error_info m)"
proof -
  let ?c = "target_mpu_has_permission_set_error (set_error_occurred True cpu) at addr"
  have "?c = cpu\<lparr>mpu := mpu ?c\<rparr>"
    by (simp only: target_mpu_has_permission_set_error_def set_error_occurred_def Let_def) simp
  moreover have "error_addr (excption_error_info (mpu ?c)) = addr" "is_error_occurred (excption_error_info (mpu ?c))"
    by (simp_all add: target_mpu_has_permission_set_error_def set_error_occurred_def Let_def)
  moreover have "target_mpu_has_permission cpu at addr n = (False, ?c)"
    using assms unfolding target_mpu_has_permission_def by (auto split: if_splits)
  ultimately show ?thesis by metis
qed



definition sample_closed :: "memory CpuCoreType" where
  "sample_closed = sample_st\<lparr>core := (core sample_st)\<lparr>mpu := blank_mpu\<lparr>is_enable_mpu := True, is_enable_sv := True\<rparr>\<rparr>\<rparr>"


section \<open>Reset\<close>

lemma clear_bank:
  fixes g :: CpuRegisterType
  defines "clr \<equiv> fold (\<lambda>regId g. set_sys_cell (current_grp (sys g)) (current_bnk (sys g)) (of_nat regId) 0 g)"
  shows "get_sys_cell s b j (clr ns g) =
     (if s = current_grp (sys g) \<and> b = current_bnk (sys g) \<and> j \<in> of_nat ` set ns then 0 else get_sys_cell s b j g) \<and>
   regs (clr ns g) = regs g \<and> pc (clr ns g) = pc g \<and>
   current_grp (sys (clr ns g)) = current_grp (sys g) \<and> current_bnk (sys (clr ns g)) = current_bnk (sys g)"
  unfolding clr_def by (induction ns arbitrary: g) auto

lemma mpu_init_frame:
  "regs (mpu_init g) = regs g \<and> pc (mpu_init g) = pc g \<and> cpu_base i (mpu_init g) = cpu_base i g \<and>
   current_bnk (sys (mpu_init g)) = current_bnk (sys g) \<and>
   cpu_get_sysreg2 SYS_GRP_5 SYS_REG_MPM (mpu_init g) = 0"
  by (simp add: mpu_init_def mpat_regs_def Let_def cpu_set_sysreg2_def cpu_get_sysreg2_def cpu_base_def)

lemma below_32: "(i :: u32) < 32 \<longleftrightarrow> i \<in> of_nat ` {0..<32}"
proof
  assume "i < 32"
  then have "unat i \<in> {0..<32}" by (simp add: word_less_nat_alt)
  moreover have "i = of_nat (unat i)" by simp
  ultimately show "i \<in> of_nat ` {0..<32}" by (rule image_eqI [rotated])
qed (auto simp: word_less_nat_alt unat_of_nat take_bit_eq_mod)

lemma private_cpu_reset_regs:
  fixes cpu :: "'b TargetCoreType" and B :: "'b bus_ops"
  assumes "quiet_bus B"
  defines "g \<equiv> reg (private_cpu_reset B cpu)"
  shows "pc g = 0 \<and> regs g = (regs (reg cpu))(0 := 0) \<and>
     (i < 32 \<longrightarrow> cpu_base i g = (if i = SYS_REG_PSW then 0x20 else if i = SYS_REG_FPSR then 0x20000 else 0))"
proof -
  have q: "reg (snd (bus_put_data32 B k a v c)) = reg c" for k a v c
    using quiet_bus.put_data32 [OF assms(1)] by (simp add: same_regs_def)
  show ?thesis
    by (auto simp: g_def private_cpu_reset_def Let_def q clear_bank cpu_set_sysreg2_def cpu_base_def
        set_cpu_base_def below_32 simp del: upt_Suc)
qed

text \<open>Reset.  On a bus that leaves the registers alone (it is written once, to the clock
  controller), \<open>cpu_reset\<close> leaves \<open>pc = 0\<close>, \<open>r0 = 0\<close> and the other general registers as they
  were, PSW = 0x20 with interrupts disabled in supervisor mode, every other register of the base
  bank but FPSR zero, no pending exception, the core running and the protection unit disabled, so
  that every access is granted.
\<close>

lemma cpu_reset_state:
  fixes st :: "'b CpuCoreType" and B :: "'b bus_ops"
  defines "c \<equiv> core (cpu_reset B st)"
  assumes "quiet_bus B"
  shows "pc (reg c) = 0 \<and> regs (reg c) = (regs (reg (core st)))(0 := 0) \<and>
     cpu_base SYS_REG_PSW (reg c) = 0x20 \<and> CPU_ISSET CPU_PSW_ID (reg c) \<and> \<not> CPU_ISSET CPU_PSW_UM (reg c) \<and>
     {i. i < 32 \<and> cpu_base i (reg c) \<noteq> 0} = {SYS_REG_PSW, SYS_REG_FPSR} \<and>
     \<not> is_halt c \<and> \<not> fatal_error c \<and> \<not> is_code_exception (current_code_exception c) \<and> \<not> mpu_error c \<and>
     target_mpu_has_permission c at addr n = (True, c) \<and> elaps (cpu_reset B st) = elaps st"
proof -
  note r = private_cpu_reset_regs [OF assms(2), of "core st"]
  have g: "reg c = mpu_init (reg (private_cpu_reset B (core st)))"
    by (simp add: c_def cpu_reset_def target_mpu_init_def mpu_set_config_def Let_def)
  have b: "i < 32 \<Longrightarrow> cpu_base i (reg c) = (if i = SYS_REG_PSW then 0x20 else if i = SYS_REG_FPSR then 0x20000 else 0)" for i
    using r mpu_init_frame unfolding g by metis
  have m: "\<not> is_enable_mpu (mpu c)" "\<not> mpu_error c"
    using mpu_init_frame
    by (simp_all add: c_def cpu_reset_def target_mpu_init_def mpu_set_config_def mpu_error_def Let_def sysreg_is_bit_set_def)
  have "{i. i < 32 \<and> cpu_base i (reg c) \<noteq> 0} = {SYS_REG_PSW, SYS_REG_FPSR}"
    using b by (auto split: if_splits)
  moreover have "\<not> is_halt c" "\<not> fatal_error c" "\<not> is_code_exception (current_code_exception c)"
      "elaps (cpu_reset B st) = elaps st"
    by (simp_all add: c_def cpu_reset_def target_mpu_init_def mpu_set_config_def private_cpu_reset_def Let_def)
  moreover have "pc (reg c) = 0" "regs (reg c) = (regs (reg (core st)))(0 := 0)"
    using r mpu_init_frame unfolding g by metis+
  moreover have p: "cpu_base SYS_REG_PSW (reg c) = 0x20" using b [of 5] by simp
  moreover have "CPU_ISSET CPU_PSW_ID (reg c)" "\<not> CPU_ISSET CPU_PSW_UM (reg c)"
    using p by (simp_all add: CPU_ISSET_def)
  ultimately show ?thesis using m by (simp add: target_mpu_has_permission_def)
qed

lemma cpu_reset_state_witness:
  "pc (reg (core (cpu_reset flat_bus sample_closed))) = 0 \<and> regs (reg (core (cpu_reset flat_bus sample_closed))) 11 = 11 \<and>
   fst (target_mpu_has_permission (core (cpu_reset flat_bus sample_closed)) MPU_TARGET_ACCESS_EXEC 0 2)"
  using cpu_reset_state [where st = sample_closed and at = MPU_TARGET_ACCESS_EXEC and addr = 0 and n = 2, OF flat_quiet.quiet_bus_axioms]
  by (simp add: sample_closed_def sample_st_def)

end
