(* ===== verification/Intc_Regs.thy ===== *)
theory Intc_Regs
  imports Mpu
begin

text \<open>
  The interrupt controller: its data (\<^verbatim>\<open>device/intc/intc.h\<close>, \<^verbatim>\<open>intc_target.h\<close>,
  \<^verbatim>\<open>rh850f1k/intc_config.h\<close>), the exception table and the register operations
  \<^verbatim>\<open>intc_control_register_op\<close> of \<^verbatim>\<open>rh850f1k/intc_config.c\<close>.

  The list library (\<^verbatim>\<open>list.h\<close>) and the memory functions \<^verbatim>\<open>device_get_data16\<close>,
  \<^verbatim>\<open>mpu_get_pointer\<close> and \<^verbatim>\<open>mpu_get_data32\<close> belong to the emulator core: they are the
  fields of the records \<open>list_ops\<close> and \<open>mem_ops\<close>.  A request entry is a cell of \<open>entries\<close>
  (its address is the number), so a list is a list of addresses and an entry stays readable after
  it has left its list.  The registers are in the memory map, so the reads whose error the code only
  asserts return a value.
\<close>

section \<open>Data\<close>

abbreviation (input) SYS_REG_RBASE :: u32 where "SYS_REG_RBASE \<equiv> 2"
abbreviation (input) SYS_REG_EBASE :: u32 where "SYS_REG_EBASE \<equiv> 3"
abbreviation (input) SYS_REG_INTBP :: u32 where "SYS_REG_INTBP \<equiv> 4"
abbreviation (input) SYS_REG_PMR :: u32 where "SYS_REG_PMR \<equiv> 11"
abbreviation (input) SYS_REG_ICSR :: u32 where "SYS_REG_ICSR \<equiv> 12"

abbreviation (input) IntcPriorityLevel_Num :: nat where "IntcPriorityLevel_Num \<equiv> 16"
abbreviation (input) IntcPriorityDegree_Num :: u32 where "IntcPriorityDegree_Num \<equiv> 16"
abbreviation (input) TNUM_INT :: nat where "TNUM_INT \<equiv> 358"
abbreviation (input) INTC_IMR_NUM :: nat where "INTC_IMR_NUM \<equiv> 11"

datatype ExceptionLevelType = ExceptionLevel_FE | ExceptionLevel_EI | ExceptionLevel_RESET

datatype ExceptionUpdatePswOpType =
  ExceptionUpdatePswOp_CLR | ExceptionUpdatePswOp_SET | ExceptionUpdatePswOp_SAVE

record ExceptionType =
  priority_level :: nat
  degree_custom :: u32
  handler_addr :: u32
  handler_code :: u32
  handler_is_rbase :: bool
  exc_level :: ExceptionLevelType
  cond_ID :: bool
  cond_NP :: bool
  info_UM :: ExceptionUpdatePswOpType
  info_ID :: ExceptionUpdatePswOpType
  info_NP :: ExceptionUpdatePswOpType
  info_EP :: ExceptionUpdatePswOpType

datatype ExceptionRequestStatusType =
    ExceptionRequestStatus_PENDING | ExceptionRequestStatus_RUNNABLE
  | ExceptionRequestStatus_RUNNING | ExceptionRequestStatus_WAITING

text \<open>The field \<^verbatim>\<open>req\<close> always points to \<open>exception_config[exno]\<close>; it is read through \<open>exno\<close>.\<close>

record ExceptionRequestDataType =
  status :: ExceptionRequestStatusType
  coreId :: nat
  exno :: ExceptionIdType
  intno :: u32
  priority_degree :: u32

record ExceptionControllerType =
  current_exception :: "nat option"
  exception_queue :: "nat \<Rightarrow> nat list"
  user_queue :: "nat list"
  entries :: "nat \<Rightarrow> ExceptionRequestDataType"

record ('b, 'm) IntcState =
  cpus :: "nat \<Rightarrow> 'b TargetCoreType"
  intc_control :: "nat \<Rightarrow> ExceptionControllerType"
  icmem :: 'm

record 'm mem_ops =
  device_get_data16 :: "u32 \<Rightarrow> 'm \<Rightarrow> u16"
  mpu_pointer_ok :: "nat \<Rightarrow> u32 \<Rightarrow> 'm \<Rightarrow> bool"
  ptr_get8 :: "nat \<Rightarrow> u32 \<Rightarrow> 'm \<Rightarrow> u8"
  ptr_put8 :: "nat \<Rightarrow> u32 \<Rightarrow> u8 \<Rightarrow> 'm \<Rightarrow> 'm"
  ptr_get16 :: "nat \<Rightarrow> u32 \<Rightarrow> 'm \<Rightarrow> u16"
  ptr_put16 :: "nat \<Rightarrow> u32 \<Rightarrow> u16 \<Rightarrow> 'm \<Rightarrow> 'm"
  ptr_get32 :: "nat \<Rightarrow> u32 \<Rightarrow> 'm \<Rightarrow> u32"
  ptr_put32 :: "nat \<Rightarrow> u32 \<Rightarrow> u32 \<Rightarrow> 'm \<Rightarrow> 'm"
  mpu_get_data32 :: "nat \<Rightarrow> u32 \<Rightarrow> 'm \<Rightarrow> u32 option"

record list_ops =
  ListEntry_Alloc :: "nat set \<Rightarrow> nat"
  ListEntry_AddEntry :: "nat \<Rightarrow> nat list \<Rightarrow> nat list"
  ListEntry_RemoveEntry :: "nat \<Rightarrow> nat list \<Rightarrow> nat list"

definition upd_cpu :: "nat \<Rightarrow> ('b TargetCoreType \<Rightarrow> 'b TargetCoreType) \<Rightarrow>
    ('b, 'm) IntcState \<Rightarrow> ('b, 'm) IntcState" where
  "upd_cpu k f s = s\<lparr>cpus := (cpus s)(k := f (cpus s k))\<rparr>"

definition upd_ctrl :: "nat \<Rightarrow> (ExceptionControllerType \<Rightarrow> ExceptionControllerType) \<Rightarrow>
    ('b, 'm) IntcState \<Rightarrow> ('b, 'm) IntcState" where
  "upd_ctrl k f s = s\<lparr>intc_control := (intc_control s)(k := f (intc_control s k))\<rparr>"

section \<open>The exception table\<close>

definition fe_abort :: "nat \<Rightarrow> u32 \<Rightarrow> u32 \<Rightarrow> u32 \<Rightarrow> bool \<Rightarrow> ExceptionUpdatePswOpType \<Rightarrow> ExceptionType" where
  "fe_abort level degree addr code np ep =
     \<lparr>priority_level = level, degree_custom = degree, handler_addr = addr, handler_code = code,
      handler_is_rbase = True, exc_level = ExceptionLevel_FE, cond_ID = True, cond_NP = np,
      info_UM = ExceptionUpdatePswOp_CLR, info_ID = ExceptionUpdatePswOp_SET,
      info_NP = ExceptionUpdatePswOp_SET, info_EP = ep\<rparr>"

definition ei_entry :: "nat \<Rightarrow> u32 \<Rightarrow> u32 \<Rightarrow> u32 \<Rightarrow> bool \<Rightarrow> ExceptionUpdatePswOpType \<Rightarrow> ExceptionType" where
  "ei_entry level degree addr code cond ep =
     \<lparr>priority_level = level, degree_custom = degree, handler_addr = addr, handler_code = code,
      handler_is_rbase = True, exc_level = ExceptionLevel_EI, cond_ID = cond, cond_NP = cond,
      info_UM = ExceptionUpdatePswOp_CLR, info_ID = ExceptionUpdatePswOp_SET,
      info_NP = ExceptionUpdatePswOp_SAVE, info_EP = ep\<rparr>"

text \<open>The rows of the table in the order of the exception numbers; the array has no row for
  \<open>ExceptionId_Num\<close>.\<close>

fun exception_config :: "ExceptionIdType \<Rightarrow> ExceptionType" where
  "exception_config ExceptionId_RESET =
     \<lparr>priority_level = 0, degree_custom = 0, handler_addr = 0x00, handler_code = 0x00,
      handler_is_rbase = False, exc_level = ExceptionLevel_RESET, cond_ID = True, cond_NP = True,
      info_UM = ExceptionUpdatePswOp_CLR, info_ID = ExceptionUpdatePswOp_SET,
      info_NP = ExceptionUpdatePswOp_CLR, info_EP = ExceptionUpdatePswOp_CLR\<rparr>"
| "exception_config ExceptionId_FENMI = fe_abort 2 0 0xE0 0xE0 True ExceptionUpdatePswOp_CLR"
| "exception_config ExceptionId_SYSERR1 = fe_abort 2 1 0x10 0x10 True ExceptionUpdatePswOp_SET"
| "exception_config ExceptionId_FEINT = fe_abort 2 2 0xF0 0xF0 False ExceptionUpdatePswOp_CLR"
| "exception_config ExceptionId_FPI = ei_entry 3 0 0x70 0x72 False ExceptionUpdatePswOp_SET"
| "exception_config ExceptionId_UserIntr = ei_entry 3 0 0x100 0x1000 False ExceptionUpdatePswOp_CLR"
| "exception_config ExceptionId_MIP = fe_abort 9 0 0x90 0x90 True ExceptionUpdatePswOp_SET"
| "exception_config ExceptionId_SYSERR2 = fe_abort 9 2 0x10 0x10 True ExceptionUpdatePswOp_SET"
| "exception_config ExceptionId_RIE = fe_abort 9 3 0x60 0x60 True ExceptionUpdatePswOp_SET"
| "exception_config ExceptionId_UCPOP = fe_abort 9 4 0x80 0x80 True ExceptionUpdatePswOp_SET"
| "exception_config ExceptionId_PIE = fe_abort 9 5 0xA0 0xA0 True ExceptionUpdatePswOp_SET"
| "exception_config ExceptionId_MAE = fe_abort 10 0 0xC0 0xC0 True ExceptionUpdatePswOp_SET"
| "exception_config ExceptionId_MDP = fe_abort 10 0 0x90 0x91 True ExceptionUpdatePswOp_SET"
| "exception_config ExceptionId_FPP = ei_entry 10 0 0x70 0x71 True ExceptionUpdatePswOp_SET"
| "exception_config ExceptionId_SYSCALL = ei_entry 11 0 0x40 0x8000 True ExceptionUpdatePswOp_SET"
| "exception_config ExceptionId_FETRAP = fe_abort 11 0 0x30 0x31 True ExceptionUpdatePswOp_SET"
| "exception_config ExceptionId_TRAP0 = ei_entry 11 0 0x40 0x40 True ExceptionUpdatePswOp_SET"
| "exception_config ExceptionId_TRAP1 = ei_entry 11 0 0x50 0x50 True ExceptionUpdatePswOp_SET"

section \<open>The interrupt control registers\<close>

definition IC_ADDRESS :: "u32 \<Rightarrow> u32" where
  "IC_ADDRESS n = (if n \<le> 31 then 0xFFFEEA00 + n * 2 else 0xFFFFB040 + (n - 32) * 2)"

definition IMR_ADDRESS :: "u32 \<Rightarrow> u32" where
  "IMR_ADDRESS n = (if n \<le> 31 then 0xFFFEEAF0 else 0xFFFFB400 + (n div 32) * 4)"

definition IC_GET_PRIODEGREE :: "u16 \<Rightarrow> u32" where "IC_GET_PRIODEGREE v = ucast (v AND 0x000F)"
definition IC_ISSET_TABLEREF :: "u16 \<Rightarrow> bool" where "IC_ISSET_TABLEREF v = (v AND push_bit 6 1 \<noteq> 0)"
definition IC_ISSET_INTMASK :: "u16 \<Rightarrow> bool" where "IC_ISSET_INTMASK v = (v AND push_bit 7 1 \<noteq> 0)"
definition IC_ISSET_INTREQ :: "u16 \<Rightarrow> bool" where "IC_ISSET_INTREQ v = (v AND push_bit 12 1 \<noteq> 0)"
definition IC_SET_INTMASK :: "u16 \<Rightarrow> u16" where "IC_SET_INTMASK v = v OR push_bit 7 1"
definition IC_CLR_INTMASK :: "u16 \<Rightarrow> u16" where "IC_CLR_INTMASK v = v AND NOT (push_bit 7 1)"
definition IC_SET_INTREQ :: "u16 \<Rightarrow> u16" where "IC_SET_INTREQ v = v OR push_bit 12 1"
definition IC_CLR_INTREQ :: "u16 \<Rightarrow> u16" where "IC_CLR_INTREQ v = v AND NOT (push_bit 12 1)"

definition intc_is_devsetting_tableref :: "'m mem_ops \<Rightarrow> u32 \<Rightarrow> ('b, 'm) IntcState \<Rightarrow> bool" where
  "intc_is_devsetting_tableref M n s = IC_ISSET_TABLEREF (device_get_data16 M (IC_ADDRESS n) (icmem s))"

definition intc_get_user_intr_priority_degree :: "'m mem_ops \<Rightarrow> u32 \<Rightarrow> ('b, 'm) IntcState \<Rightarrow> u32" where
  "intc_get_user_intr_priority_degree M n s =
     IC_GET_PRIODEGREE (device_get_data16 M (IC_ADDRESS n) (icmem s))"

definition intc_get_user_intr_priority_degree_default :: "u32 \<Rightarrow> u32" where
  "intc_get_user_intr_priority_degree_default n = n"

definition intc_is_user_intr_masked :: "'m mem_ops \<Rightarrow> u32 \<Rightarrow> ('b, 'm) IntcState \<Rightarrow> bool" where
  "intc_is_user_intr_masked M n s = IC_ISSET_INTMASK (device_get_data16 M (IC_ADDRESS n) (icmem s))"

definition intc_set_user_intr_reqflag :: "'m mem_ops \<Rightarrow> nat \<Rightarrow> u32 \<Rightarrow> bool \<Rightarrow>
    ('b, 'm) IntcState \<Rightarrow> ('b, 'm) IntcState" where
  "intc_set_user_intr_reqflag M k n flag s =
     (let v = ptr_get16 M k (IC_ADDRESS n) (icmem s)
      in s\<lparr>icmem := ptr_put16 M k (IC_ADDRESS n) (if flag then IC_SET_INTREQ v else IC_CLR_INTREQ v) (icmem s)\<rparr>)"

definition intc_isset_user_intr_reqflag :: "'m mem_ops \<Rightarrow> u32 \<Rightarrow> ('b, 'm) IntcState \<Rightarrow> bool" where
  "intc_isset_user_intr_reqflag M n s = IC_ISSET_INTREQ (device_get_data16 M (IC_ADDRESS n) (icmem s))"

definition intc_reset_registers :: "'m mem_ops \<Rightarrow> nat \<Rightarrow> ('b, 'm) IntcState \<Rightarrow> ('b, 'm) IntcState" where
  "intc_reset_registers M k s =
     (let m = fold (\<lambda>ino. ptr_put16 M k (IC_ADDRESS (of_nat ino)) 0x008F) [0..<TNUM_INT] (icmem s)
      in s\<lparr>icmem := fold (\<lambda>imr_no. ptr_put32 M k (IMR_ADDRESS (of_nat (imr_no * 32))) 0xFFFFFFFF)
            [0..<INTC_IMR_NUM] m\<rparr>)"

section \<open>Priorities and service state\<close>

definition intc_get_exception_priority_level :: "ExceptionIdType \<Rightarrow> nat" where
  "intc_get_exception_priority_level e = priority_level (exception_config e)"

definition intc_get_exception_priority_degree :: "'m mem_ops \<Rightarrow> ExceptionIdType \<Rightarrow> u32 \<Rightarrow>
    ('b, 'm) IntcState \<Rightarrow> u32" where
  "intc_get_exception_priority_degree M e n s =
     (if e = ExceptionId_UserIntr
      then push_bit 16 (intc_get_user_intr_priority_degree M n s) OR
           push_bit 0 (intc_get_user_intr_priority_degree_default n)
      else push_bit 16 (degree_custom (exception_config e)) OR 0xFFFF)"

text \<open>The loop both priority register readers share: the lowest bit set, \<open>IntcPriorityDegree_Num\<close> if
  there is none.\<close>

definition lowest_degree :: "u32 \<Rightarrow> u32" where
  "lowest_degree v = (case find (\<lambda>d. v AND push_bit d 1 \<noteq> 0) [0..<16] of
     Some d \<Rightarrow> of_nat d | None \<Rightarrow> IntcPriorityDegree_Num)"

definition intc_get_current_user_intr_priority_degree :: "nat \<Rightarrow> ('b, 'm) IntcState \<Rightarrow> u32" where
  "intc_get_current_user_intr_priority_degree k s =
     lowest_degree (cpu_get_sysreg2 SYS_GRP_2 SYS_REG_ISPR (reg (cpus s k)))"

definition intc_get_mask_priority_degree :: "nat \<Rightarrow> ('b, 'm) IntcState \<Rightarrow> u32" where
  "intc_get_mask_priority_degree k s =
     lowest_degree (cpu_get_sysreg2 SYS_GRP_2 SYS_REG_PMR (reg (cpus s k)))"

definition put_sysreg2 :: "u32 \<Rightarrow> u32 \<Rightarrow> u32 \<Rightarrow> 'b TargetCoreType \<Rightarrow> 'b TargetCoreType" where
  "put_sysreg2 selid regid v cpu = cpu\<lparr>reg := cpu_set_sysreg2 selid regid v (reg cpu)\<rparr>"

definition intc_set_current_user_intr_priority_degree :: "'m mem_ops \<Rightarrow> nat \<Rightarrow> u32 \<Rightarrow> bool \<Rightarrow>
    ('b, 'm) IntcState \<Rightarrow> ('b, 'm) IntcState" where
  "intc_set_current_user_intr_priority_degree M k n flag s =
     (let g = reg (cpus s k);
          ispr = cpu_get_sysreg2 SYS_GRP_2 SYS_REG_ISPR g
      in if cpu_get_sysreg2 SYS_GRP_2 SYS_REG_INTCFG g AND push_bit 0 1 \<noteq> 0 then s
         else if flag then
           upd_cpu k (put_sysreg2 SYS_GRP_2 SYS_REG_ISPR
             (ispr OR push_bit (unat (intc_get_user_intr_priority_degree M n s)) 1)) s
         else if \<not> CPU_ISSET CPU_PSW_EP g then
           (case find (\<lambda>d. ispr AND push_bit d 1 \<noteq> 0) [0..<16] of
              Some d \<Rightarrow> upd_cpu k (put_sysreg2 SYS_GRP_2 SYS_REG_ISPR (ispr AND NOT (push_bit d 1))) s
            | None \<Rightarrow> s)
         else s)"

definition intc_set_user_intr_state_priority_degree_masked :: "nat \<Rightarrow> bool \<Rightarrow>
    ('b, 'm) IntcState \<Rightarrow> ('b, 'm) IntcState" where
  "intc_set_user_intr_state_priority_degree_masked k flag s =
     (let icsr = cpu_get_sysreg2 SYS_GRP_2 SYS_REG_ICSR (reg (cpus s k))
      in upd_cpu k (put_sysreg2 SYS_GRP_2 SYS_REG_ICSR
           (if flag then icsr OR 0x0001 else icsr AND 0xFFFFFFFE)) s)"

section \<open>Handler address and cause code\<close>

datatype HandlerAddressRefMethodType =
    HandlerAddressRefMethod_RBASE_RINT0 | HandlerAddressRefMethod_RBASE_RINT1
  | HandlerAddressRefMethod_EBASE_RINT0 | HandlerAddressRefMethod_EBASE_RINT1
  | HandlerAddressRefMethod_TABLE

definition CPU_ISSET_RBASE_RINT :: "CpuRegisterType \<Rightarrow> bool" where
  "CPU_ISSET_RBASE_RINT g = (cpu_get_sysreg2 SYS_GRP_1 SYS_REG_RBASE g AND push_bit 0 1 \<noteq> 0)"
definition CPU_ISSET_EBASE_RINT :: "CpuRegisterType \<Rightarrow> bool" where
  "CPU_ISSET_EBASE_RINT g = (cpu_get_sysreg2 SYS_GRP_1 SYS_REG_EBASE g AND push_bit 0 1 \<noteq> 0)"
definition CPU_RBASE_ADDR :: "CpuRegisterType \<Rightarrow> u32" where
  "CPU_RBASE_ADDR g = cpu_get_sysreg2 SYS_GRP_1 SYS_REG_RBASE g AND NOT (push_bit 0 1)"
definition CPU_EBASE_ADDR :: "CpuRegisterType \<Rightarrow> u32" where
  "CPU_EBASE_ADDR g = cpu_get_sysreg2 SYS_GRP_1 SYS_REG_EBASE g AND NOT (push_bit 0 1)"
definition CPU_INTBP_ADDR :: "CpuRegisterType \<Rightarrow> u32" where
  "CPU_INTBP_ADDR g = cpu_get_sysreg2 SYS_GRP_1 SYS_REG_INTBP g"

definition intc_get_addr_refmethod :: "'m mem_ops \<Rightarrow> nat \<Rightarrow> u32 \<Rightarrow> ('b, 'm) IntcState \<Rightarrow>
    HandlerAddressRefMethodType" where
  "intc_get_addr_refmethod M k n s =
     (let g = reg (cpus s k);
          is_ebase = CPU_ISSET CPU_PSW_EBV g;
          is_rint = (if is_ebase then CPU_ISSET_EBASE_RINT g else CPU_ISSET_RBASE_RINT g)
      in if is_rint then
           if is_ebase then HandlerAddressRefMethod_EBASE_RINT1 else HandlerAddressRefMethod_RBASE_RINT1
         else if \<not> intc_is_devsetting_tableref M n s then
           if is_ebase then HandlerAddressRefMethod_EBASE_RINT0 else HandlerAddressRefMethod_RBASE_RINT0
         else HandlerAddressRefMethod_TABLE)"

definition intc_get_handler_addr_rbase :: "'m mem_ops \<Rightarrow> nat \<Rightarrow> ExceptionIdType \<Rightarrow> u32 \<Rightarrow> bool \<Rightarrow>
    ('b, 'm) IntcState \<Rightarrow> u32" where
  "intc_get_handler_addr_rbase M k e n is_rint s =
     (let base_addr = CPU_RBASE_ADDR (reg (cpus s k)) + handler_addr (exception_config e)
      in if e = ExceptionId_UserIntr then
           if is_rint then base_addr
           else base_addr + intc_get_user_intr_priority_degree M n s * 16
         else base_addr)"

definition intc_get_handler_addr_ebase :: "'m mem_ops \<Rightarrow> nat \<Rightarrow> ExceptionIdType \<Rightarrow> u32 \<Rightarrow> bool \<Rightarrow>
    ('b, 'm) IntcState \<Rightarrow> u32" where
  "intc_get_handler_addr_ebase M k e n is_rint s =
     (let base_addr = CPU_EBASE_ADDR (reg (cpus s k)) + handler_addr (exception_config e)
      in if e = ExceptionId_UserIntr then
           if is_rint then base_addr
           else base_addr + intc_get_user_intr_priority_degree M n s * 16
         else if handler_is_rbase (exception_config e)
         then CPU_RBASE_ADDR (reg (cpus s k)) + handler_addr (exception_config e)
         else base_addr)"

text \<open>\<open>None\<close> is the failed assertion \<^verbatim>\<open>exno == ExceptionId_UserIntr\<close>.\<close>

definition intc_get_handler_addr_intbp :: "'m mem_ops \<Rightarrow> nat \<Rightarrow> ExceptionIdType \<Rightarrow> u32 \<Rightarrow>
    ('b, 'm) IntcState \<Rightarrow> (u32 \<times> ('b, 'm) IntcState) option" where
  "intc_get_handler_addr_intbp M k e n s =
     (let base_addr = CPU_INTBP_ADDR (reg (cpus s k)) + n * 4
      in if e \<noteq> ExceptionId_UserIntr then None
         else case mpu_get_data32 M k base_addr (icmem s) of
             None \<Rightarrow> Some (pc (reg (cpus s k)), upd_cpu k (\<lambda>cpu. cpu\<lparr>fatal_error := True\<rparr>) s)
           | Some data \<Rightarrow> Some (data, s))"

definition intc_get_exception_handler_addr :: "'m mem_ops \<Rightarrow> nat \<Rightarrow> ExceptionIdType \<Rightarrow> u32 \<Rightarrow>
    ('b, 'm) IntcState \<Rightarrow> (u32 \<times> ('b, 'm) IntcState) option" where
  "intc_get_exception_handler_addr M k e n s =
     (case intc_get_addr_refmethod M k n s of
        HandlerAddressRefMethod_RBASE_RINT0 \<Rightarrow> Some (intc_get_handler_addr_rbase M k e n False s, s)
      | HandlerAddressRefMethod_RBASE_RINT1 \<Rightarrow> Some (intc_get_handler_addr_rbase M k e n True s, s)
      | HandlerAddressRefMethod_EBASE_RINT0 \<Rightarrow> Some (intc_get_handler_addr_ebase M k e n False s, s)
      | HandlerAddressRefMethod_EBASE_RINT1 \<Rightarrow> Some (intc_get_handler_addr_ebase M k e n True s, s)
      | HandlerAddressRefMethod_TABLE \<Rightarrow> intc_get_handler_addr_intbp M k e n s)"

text \<open>
  The macro \<^verbatim>\<open>INTC_GET_EXCEPTION_CODE_MPU_SET(r, o)\<close> is \<^verbatim>\<open>(r) ? (1U << (o)):(0U << (o))\<close>
  without outer parentheses, so \<^verbatim>\<open>M(ms) | M(bl) | M(rmw)\<close> is a chain of conditionals.
\<close>

definition intc_get_exception_code_mpu :: "nat \<Rightarrow> ('b, 'm) IntcState \<Rightarrow> u32" where
  "intc_get_exception_code_mpu k s =
     (let i = intc_error_info (excption_error_info (mpu (cpus s k)));
          wdata32 = (if is_ms_error i then push_bit 24 1
                     else if is_bl_error i then push_bit 23 1
                     else if is_rmw_error i then push_bit 22 1 else push_bit 22 0) :: u32;
          wdata32 = wdata32 OR
            (if is_sv_mode i
             then if access_type i = MPU_TARGET_ACCESS_READ then push_bit 19 1 else push_bit 20 1
             else if access_type i = MPU_TARGET_ACCESS_READ then push_bit 16 1 else push_bit 17 1)
      in wdata32 OR
           (if exception_error_code i = TARGET_MPU_EXCEPTION_ERROR_CODE_MIP then 0x90 else 0x91))"

definition intc_get_exception_code :: "nat \<Rightarrow> ExceptionIdType \<Rightarrow> u32 \<Rightarrow> ('b, 'm) IntcState \<Rightarrow> u32" where
  "intc_get_exception_code k e n s =
     (if e = ExceptionId_UserIntr then handler_code (exception_config e) + n
      else if e = ExceptionId_MIP \<or> e = ExceptionId_MDP then intc_get_exception_code_mpu k s
      else handler_code (exception_config e))"

end
