(* ===== verification/Intc.thy ===== *)
theory Intc
  imports Intc_Regs
begin

text \<open>
  The interrupt controller: requests, selection and exception entry of \<^verbatim>\<open>device/intc/intc.c\<close>
  and \<^verbatim>\<open>intc_user.c\<close>, the register write hooks of \<^verbatim>\<open>rh850f1k/intc_config.c\<close> and the
  bus operations of \<^verbatim>\<open>intc_target.c\<close>.

  The build defines \<^verbatim>\<open>CPUEMU_CLOCK_BUG_FIX\<close>, \<^verbatim>\<open>USER_INTR_PMR_BUGFIX\<close> and
  \<^verbatim>\<open>FIX_INTR_CPU_RCV_CLR\<close>.  A failed \<^verbatim>\<open>ASSERT\<close> is the value \<open>None\<close>.
\<close>

section \<open>Requests\<close>

definition in_use :: "ExceptionControllerType \<Rightarrow> nat set" where
  "in_use c = set (user_queue c) \<union> (\<Union>level<IntcPriorityLevel_Num. set (exception_queue c level)) \<union>
     set_option (current_exception c)"

text \<open>\<open>ListEntry_Alloc\<close> with the initialisation that follows it.\<close>

definition alloc_entry :: "list_ops \<Rightarrow> ExceptionRequestDataType \<Rightarrow> ExceptionControllerType \<Rightarrow>
    nat \<times> ExceptionControllerType" where
  "alloc_entry L d c =
     (let i = ListEntry_Alloc L (in_use c) in (i, c\<lparr>entries := (entries c)(i := d)\<rparr>))"

definition add_exception :: "list_ops \<Rightarrow> nat \<Rightarrow> ExceptionRequestDataType \<Rightarrow> ExceptionControllerType \<Rightarrow>
    ExceptionControllerType" where
  "add_exception L level d c =
     (let (i, c) = alloc_entry L d c
      in c\<lparr>exception_queue := (exception_queue c)(level := ListEntry_AddEntry L i (exception_queue c level))\<rparr>)"

definition add_user :: "list_ops \<Rightarrow> ExceptionRequestDataType \<Rightarrow> ExceptionControllerType \<Rightarrow>
    ExceptionControllerType" where
  "add_user L d c =
     (let (i, c) = alloc_entry L d c in c\<lparr>user_queue := ListEntry_AddEntry L i (user_queue c)\<rparr>)"

definition remove_exception :: "list_ops \<Rightarrow> nat \<Rightarrow> nat \<Rightarrow> ExceptionControllerType \<Rightarrow>
    ExceptionControllerType" where
  "remove_exception L level i c =
     c\<lparr>exception_queue := (exception_queue c)(level := ListEntry_RemoveEntry L i (exception_queue c level))\<rparr>"

definition set_status :: "nat \<Rightarrow> ExceptionRequestStatusType \<Rightarrow> ExceptionControllerType \<Rightarrow>
    ExceptionControllerType" where
  "set_status i x c = c\<lparr>entries := (entries c)(i := (entries c i)\<lparr>status := x\<rparr>)\<rparr>"

definition intc_raise_exception :: "'m mem_ops \<Rightarrow> list_ops \<Rightarrow> nat \<Rightarrow> ExceptionIdType \<Rightarrow>
    ('b, 'm) IntcState \<Rightarrow> ('b, 'm) IntcState" where
  "intc_raise_exception M L k e s =
     (let level = intc_get_exception_priority_level e;
          d = \<lparr>status = ExceptionRequestStatus_RUNNABLE, coreId = k, exno = e, intno = 0,
               priority_degree = intc_get_exception_priority_degree M e 0 s\<rparr>
      in upd_cpu k (\<lambda>cpu. cpu\<lparr>is_halt := False\<rparr>) (upd_ctrl k (add_exception L level d) s))"

definition intc_clear_fe :: "list_ops \<Rightarrow> nat \<Rightarrow> ('b, 'm) IntcState \<Rightarrow> ('b, 'm) IntcState" where
  "intc_clear_fe L k s =
     (case current_exception (intc_control s k) of
        None \<Rightarrow> s
      | Some i \<Rightarrow>
         (let level = intc_get_exception_priority_level (exno (entries (intc_control s k) i))
          in upd_ctrl k (\<lambda>c. (remove_exception L level i c)\<lparr>current_exception := None\<rparr>) s))"

definition intc_clear_ei :: "'m mem_ops \<Rightarrow> list_ops \<Rightarrow> nat \<Rightarrow> ('b, 'm) IntcState \<Rightarrow> ('b, 'm) IntcState" where
  "intc_clear_ei M L k s =
     (case current_exception (intc_control s k) of
        None \<Rightarrow> s
      | Some i \<Rightarrow>
         (let e = entries (intc_control s k) i;
              s = (if exno e = ExceptionId_UserIntr
                   then intc_set_current_user_intr_priority_degree M k (intno e) False s else s);
              level = intc_get_exception_priority_level (exno e)
          in upd_ctrl k (\<lambda>c. (remove_exception L level i c)\<lparr>current_exception := None\<rparr>) s))"

section \<open>User interrupts\<close>

definition common_raise_user_intr :: "'m mem_ops \<Rightarrow> list_ops \<Rightarrow> u32 \<Rightarrow> nat \<Rightarrow>
    ('b, 'm) IntcState \<Rightarrow> ('b, 'm) IntcState" where
  "common_raise_user_intr M L n k s =
     (if intc_isset_user_intr_reqflag M n s then s
      else
       let d = \<lparr>status = ExceptionRequestStatus_PENDING, coreId = k, exno = ExceptionId_UserIntr,
                intno = n, priority_degree = intc_get_exception_priority_degree M ExceptionId_UserIntr n s\<rparr>
       in intc_set_user_intr_reqflag M k n True (upd_ctrl k (add_user L d) s))"

definition intc_cpu_trigger_interrupt :: "'m mem_ops \<Rightarrow> list_ops \<Rightarrow> nat \<Rightarrow> u32 \<Rightarrow>
    ('b, 'm) IntcState \<Rightarrow> ('b, 'm) IntcState" where
  "intc_cpu_trigger_interrupt M L k n s = common_raise_user_intr M L n (if k = 0 then 1 else 0) s"

definition intc_raise_intr :: "'m mem_ops \<Rightarrow> list_ops \<Rightarrow> nat \<Rightarrow> u32 \<Rightarrow>
    ('b, 'm) IntcState \<Rightarrow> ('b, 'm) IntcState" where
  "intc_raise_intr M L core_num n s = fold (common_raise_user_intr M L n) [0..<core_num] s"

text \<open>The loop of \<^verbatim>\<open>judge_mask_and_priority_UserIntr\<close>: the smallest degree among the requests
  that are not masked, the first of equals.\<close>

fun user_search :: "'m mem_ops \<Rightarrow> ('b, 'm) IntcState \<Rightarrow> ExceptionControllerType \<Rightarrow> nat list \<Rightarrow>
    u32 \<Rightarrow> nat option \<Rightarrow> nat option" where
  "user_search M s c [] mindegree candidate = candidate"
| "user_search M s c (i # is) mindegree candidate =
     (if intc_is_user_intr_masked M (intno (entries c i)) s then user_search M s c is mindegree candidate
      else if priority_degree (entries c i) < mindegree
      then user_search M s c is (priority_degree (entries c i)) (Some i)
      else user_search M s c is mindegree candidate)"

definition judge_mask_and_priority_UserIntr :: "'m mem_ops \<Rightarrow> nat \<Rightarrow> ('b, 'm) IntcState \<Rightarrow>
    nat option \<times> ('b, 'm) IntcState" where
  "judge_mask_and_priority_UserIntr M k s =
     (let c = intc_control s k
      in case user_search M s c (user_queue c) 0xFFFFFFFF None of
           None \<Rightarrow> (None, s)
         | Some i \<Rightarrow>
             if status (entries c i) = ExceptionRequestStatus_RUNNABLE then (None, s)
             else (Some i, upd_cpu k (\<lambda>cpu. cpu\<lparr>is_halt := False\<rparr>) s))"

definition is_cpu_mask_UserIntr :: "'m mem_ops \<Rightarrow> ExceptionRequestDataType \<Rightarrow> ('b, 'm) IntcState \<Rightarrow>
    bool \<times> ('b, 'm) IntcState" where
  "is_cpu_mask_UserIntr M e s =
     (let intr_level = intc_get_user_intr_priority_degree M (intno e) s;
          mask_level = intc_get_mask_priority_degree (coreId e) s
      in if mask_level \<le> intr_level
         then (True, intc_set_user_intr_state_priority_degree_masked (coreId e) True s)
         else (False, s))"

definition judge_cpu_mask_UserIntr :: "'m mem_ops \<Rightarrow> list_ops \<Rightarrow> nat \<Rightarrow> nat \<Rightarrow>
    ('b, 'm) IntcState \<Rightarrow> ('b, 'm) IntcState option" where
  "judge_cpu_mask_UserIntr M L k i s =
     (let e = entries (intc_control s k) i
      in if status e \<noteq> ExceptionRequestStatus_PENDING then None
         else
          let curr_level = intc_get_current_user_intr_priority_degree (coreId e) s;
              intr_level = intc_get_user_intr_priority_degree M (intno e) s;
              mask_level = intc_get_mask_priority_degree (coreId e) s
          in if curr_level \<le> intr_level then Some s
             else if mask_level \<le> intr_level
             then Some (intc_set_user_intr_state_priority_degree_masked (coreId e) True s)
             else
              let s = intc_set_user_intr_state_priority_degree_masked (coreId e) False s;
                  level = priority_level (exception_config (exno e));
                  s = upd_ctrl k (set_status i ExceptionRequestStatus_RUNNABLE) s
              in Some (upd_ctrl (coreId e)
                   (add_exception L level (e\<lparr>status := ExceptionRequestStatus_RUNNABLE\<rparr>)) s))"

definition judge_pending_UserIntr :: "'m mem_ops \<Rightarrow> list_ops \<Rightarrow> nat \<Rightarrow>
    ('b, 'm) IntcState \<Rightarrow> ('b, 'm) IntcState option" where
  "judge_pending_UserIntr M L k s =
     (case judge_mask_and_priority_UserIntr M k s of
        (None, s) \<Rightarrow> Some s
      | (Some i, s) \<Rightarrow> judge_cpu_mask_UserIntr M L k i s)"

text \<open>The removed entry is read once more after it has been freed.\<close>

definition hook_UserIntr_Raised :: "'m mem_ops \<Rightarrow> list_ops \<Rightarrow> ExceptionRequestDataType \<Rightarrow>
    ('b, 'm) IntcState \<Rightarrow> ('b, 'm) IntcState" where
  "hook_UserIntr_Raised M L e s =
     (let k = coreId e;
          c = intc_control s k;
          found = find (\<lambda>i. intno (entries c i) = intno e) (user_queue c);
          s = (case found of None \<Rightarrow> s
               | Some i \<Rightarrow> upd_ctrl k (\<lambda>c. c\<lparr>user_queue := ListEntry_RemoveEntry L i (user_queue c)\<rparr>) s);
          s = intc_set_current_user_intr_priority_degree M k (intno e) True s
      in case found of None \<Rightarrow> s
         | Some i \<Rightarrow> intc_set_user_intr_reqflag M (coreId (entries c i)) (intno (entries c i)) False s)"

section \<open>Selection and entry\<close>

definition can_raise_Exception :: "ExceptionRequestDataType \<Rightarrow> ('b, 'm) IntcState \<Rightarrow>
    bool \<times> ('b, 'm) IntcState" where
  "can_raise_Exception e s =
     (let cpu = cpus s (coreId e);
          cfg = exception_config (exno e)
      in if \<not> cond_NP cfg \<and> CPU_ISSET CPU_PSW_NP (reg cpu) then (False, s)
         else if \<not> cond_ID cfg \<and> CPU_ISSET CPU_PSW_ID (reg cpu) then
           if is_halt cpu then (True, upd_cpu (coreId e) (\<lambda>cpu. cpu\<lparr>is_halt := False\<rparr>) s)
           else (False, s)
         else (True, s))"

definition update_psw :: "u32 \<Rightarrow> ExceptionUpdatePswOpType \<Rightarrow> CpuRegisterType \<Rightarrow> CpuRegisterType" where
  "update_psw m x g =
     (case x of ExceptionUpdatePswOp_SET \<Rightarrow> CPU_SET m g
      | ExceptionUpdatePswOp_CLR \<Rightarrow> CPU_CLR m g
      | ExceptionUpdatePswOp_SAVE \<Rightarrow> g)"

definition enter_regs :: "ExceptionType \<Rightarrow> u32 \<Rightarrow> CpuRegisterType \<Rightarrow> CpuRegisterType" where
  "enter_regs cfg code g =
     (let g = (if exc_level cfg = ExceptionLevel_FE then
                 let g = set_cpu_base SYS_REG_FEPC (pc g) g;
                     g = set_cpu_base SYS_REG_FEPSW (cpu_base SYS_REG_PSW g) g
                 in set_cpu_base SYS_REG_FEIC code g
               else
                 let g = set_cpu_base SYS_REG_EIPC (pc g) g;
                     g = set_cpu_base SYS_REG_EIPSW (cpu_base SYS_REG_PSW g) g
                 in set_cpu_base SYS_REG_EIIC ((cpu_base SYS_REG_EIIC g AND 0xFFFF0000) OR code) g);
          g = update_psw CPU_PSW_ID (info_ID cfg) g;
          g = update_psw CPU_PSW_NP (info_NP cfg) g;
          g = update_psw CPU_PSW_EP (info_EP cfg) g
      in update_psw CPU_PSW_UM (info_UM cfg) g)"

definition raise_Exception :: "'m mem_ops \<Rightarrow> list_ops \<Rightarrow> nat \<Rightarrow> nat \<Rightarrow> ('b, 'm) IntcState \<Rightarrow>
    ('b, 'm) IntcState option" where
  "raise_Exception M L core i s =
     (let e = entries (intc_control s core) i;
          k = coreId e;
          cfg = exception_config (exno e)
      in if current_exception (intc_control s k) \<noteq> Some i \<or> status e \<noteq> ExceptionRequestStatus_RUNNING
         then None
         else
          let s = (if exno e = ExceptionId_UserIntr then hook_UserIntr_Raised M L e s else s);
              code = intc_get_exception_code k (exno e)
                (if exc_level cfg = ExceptionLevel_FE then 0 else intno e) s;
              s = upd_cpu k (\<lambda>cpu. cpu\<lparr>reg := enter_regs cfg code (reg cpu)\<rparr>) s
          in case intc_get_exception_handler_addr M k (exno e) (intno e) s of
               None \<Rightarrow> None
             | Some (a, s) \<Rightarrow> Some (upd_cpu k (\<lambda>cpu. cpu\<lparr>reg := (reg cpu)\<lparr>pc := a\<rparr>, is_halt := False\<rparr>) s))"

text \<open>The inner loop of \<^verbatim>\<open>judge_pending_Exception\<close> over one queue; a masked user interrupt
  leaves a mark in ICSR and is skipped.\<close>

fun queue_search :: "'m mem_ops \<Rightarrow> ExceptionControllerType \<Rightarrow> nat list \<Rightarrow>
    nat option \<Rightarrow> u32 \<Rightarrow> ('b, 'm) IntcState \<Rightarrow> nat option \<times> u32 \<times> ('b, 'm) IntcState" where
  "queue_search M c [] candidate mindegree s = (candidate, mindegree, s)"
| "queue_search M c (i # is) candidate mindegree s =
     (let e = entries c i;
          (masked, s) = (if exno e = ExceptionId_UserIntr then is_cpu_mask_UserIntr M e s else (False, s))
      in if masked then queue_search M c is candidate mindegree s
         else if priority_degree e < mindegree then queue_search M c is (Some i) (priority_degree e) s
         else queue_search M c is candidate mindegree s)"

fun level_search :: "'m mem_ops \<Rightarrow> ExceptionControllerType \<Rightarrow> nat list \<Rightarrow>
    nat option \<Rightarrow> u32 \<Rightarrow> ('b, 'm) IntcState \<Rightarrow> nat option \<times> ('b, 'm) IntcState" where
  "level_search M c [] candidate mindegree s = (candidate, s)"
| "level_search M c (level # levels) candidate mindegree s =
     (case queue_search M c (exception_queue c level) candidate mindegree s of
        (candidate, mindegree, s) \<Rightarrow>
          if candidate = current_exception c then level_search M c levels candidate mindegree s
          else if candidate \<noteq> None then (candidate, s)
          else level_search M c levels candidate mindegree s)"

definition judge_pending_Exception :: "'m mem_ops \<Rightarrow> nat \<Rightarrow> ('b, 'm) IntcState \<Rightarrow>
    nat option \<times> ('b, 'm) IntcState" where
  "judge_pending_Exception M k s =
     (let c = intc_control s k;
          current = current_exception c;
          (current_level, mindegree) =
            (case current of None \<Rightarrow> (IntcPriorityLevel_Num - 1, 0xFFFFFFFF)
             | Some i \<Rightarrow> (intc_get_exception_priority_level (exno (entries c i)), priority_degree (entries c i)));
          (candidate, s) = level_search M c [0..<Suc current_level] current mindegree s
      in case candidate of
           None \<Rightarrow> (None, s)
         | Some i \<Rightarrow>
             if candidate = current then (None, s)
             else if status (entries c i) = ExceptionRequestStatus_WAITING then
               (None, upd_ctrl k (\<lambda>c. (set_status i ExceptionRequestStatus_RUNNING c)
                   \<lparr>current_exception := Some i\<rparr>) s)
             else
              let s = (case current of None \<Rightarrow> s
                       | Some j \<Rightarrow> upd_ctrl k (set_status j ExceptionRequestStatus_WAITING) s);
                  (ok, s) = can_raise_Exception (entries (intc_control s k) i) s
              in if ok then
                   let s = upd_ctrl k (\<lambda>c. (set_status i ExceptionRequestStatus_RUNNING c)
                         \<lparr>current_exception := Some i\<rparr>) s;
                       e = entries (intc_control s k) i
                   in (Some i, if exno e = ExceptionId_UserIntr
                               then intc_set_user_intr_state_priority_degree_masked (coreId e) False s else s)
                 else (None, s))"

section \<open>The clock of the device\<close>

text \<open>One core; then all cores in order.  The result also says whether \<^verbatim>\<open>intclock\<close> is counted.\<close>

definition intc_core_clock :: "'m mem_ops \<Rightarrow> list_ops \<Rightarrow> nat \<Rightarrow> ('b, 'm) IntcState \<Rightarrow>
    ('b, 'm) IntcState option" where
  "intc_core_clock M L k s =
     (case judge_pending_UserIntr M L k s of
        None \<Rightarrow> None
      | Some s \<Rightarrow>
         (case judge_pending_Exception M k s of
            (None, s) \<Rightarrow> Some s
          | (Some i, s) \<Rightarrow> raise_Exception M L k i s))"

fun intc_cores_clock :: "'m mem_ops \<Rightarrow> list_ops \<Rightarrow> nat list \<Rightarrow> ('b, 'm) IntcState \<Rightarrow>
    ('b, 'm) IntcState option" where
  "intc_cores_clock M L [] s = Some s"
| "intc_cores_clock M L (k # ks) s =
     (case intc_core_clock M L k s of None \<Rightarrow> None | Some s \<Rightarrow> intc_cores_clock M L ks s)"

definition device_supply_clock_intc :: "'m mem_ops \<Rightarrow> list_ops \<Rightarrow> nat \<Rightarrow> ('b, 'm) IntcState \<Rightarrow>
    (bool \<times> ('b, 'm) IntcState) option" where
  "device_supply_clock_intc M L core_num s =
     (case intc_cores_clock M L [0..<core_num] s of
        None \<Rightarrow> None
      | Some s \<Rightarrow> Some (list_ex (\<lambda>k. current_exception (intc_control s k) \<noteq> None) [0..<core_num], s))"

definition device_init_intc_UserIntr :: "ExceptionControllerType \<Rightarrow> ExceptionControllerType" where
  "device_init_intc_UserIntr c = c\<lparr>user_queue := []\<rparr>"

definition device_init_intc :: "'m mem_ops \<Rightarrow> nat \<Rightarrow> ('b, 'm) IntcState \<Rightarrow> ('b, 'm) IntcState" where
  "device_init_intc M core_num s =
     fold (\<lambda>k s.
       let s = intc_reset_registers M k s
       in upd_ctrl k (\<lambda>c.
            let c = device_init_intc_UserIntr (c\<lparr>current_exception := None\<rparr>)
            in c\<lparr>exception_queue := (\<lambda>level. if level < IntcPriorityLevel_Num then []
                   else exception_queue c level)\<rparr>) s)
       [0..<core_num] s"

section \<open>Register write hooks\<close>

datatype intc_err = INTC_OK | INTC_PERM | INTC_INVALID | INTC_POINTER

definition refuse_user :: "nat \<Rightarrow> ('b, 'm) IntcState \<Rightarrow> ('b, 'm) IntcState" where
  "refuse_user k s = upd_cpu k (\<lambda>cpu. cpu\<lparr>current_code_exception :=
     \<lparr>is_code_exception = True, exception_type = ExceptionId_PIE\<rparr>\<rparr>) s"

definition intc2_conv_imraddr2imrno :: "u32 \<Rightarrow> u8" where
  "intc2_conv_imraddr2imrno a = ucast ((a - 0xFFFFB400) div 4)"

definition in_range :: "u32 \<Rightarrow> u32 \<Rightarrow> u32 \<Rightarrow> bool" where
  "in_range a lo hi = (lo \<le> a \<and> hi \<ge> a)"

fun imr_loop :: "'m mem_ops \<Rightarrow> nat \<Rightarrow> (u32 \<times> bool) list \<Rightarrow> 'm \<Rightarrow> intc_err \<times> 'm" where
  "imr_loop M k [] m = (INTC_OK, m)"
| "imr_loop M k ((n, b) # xs) m =
     (if \<not> mpu_pointer_ok M k (IC_ADDRESS n) m then (INTC_POINTER, m)
      else
       let v = ptr_get16 M k (IC_ADDRESS n) m
       in imr_loop M k xs (ptr_put16 M k (IC_ADDRESS n) (if b then IC_SET_INTMASK v else IC_CLR_INTMASK v) m))"

definition intc_hook_update_imr :: "'m mem_ops \<Rightarrow> nat \<Rightarrow> u32 \<Rightarrow> u8 list \<Rightarrow> ('b, 'm) IntcState \<Rightarrow>
    intc_err \<times> ('b, 'm) IntcState" where
  "intc_hook_update_imr M k regaddr data s =
     (if CPU_ISSET CPU_PSW_UM (reg (cpus s k)) then (INTC_PERM, refuse_user k s)
      else
       let (imr_no, index) =
             (if in_range regaddr 0xFFFEEAF0 0xFFFEEAF3
              then (0, ucast ((regaddr - 0xFFFEEAF0) * 8))
              else let imr_no = intc2_conv_imraddr2imrno regaddr
                   in (imr_no, ucast ((regaddr - (0xFFFFB400 + ucast imr_no * 4)) * 8))) :: u8 \<times> u8;
           work = concat (map (\<lambda>byte. map (\<lambda>n.
             (ucast imr_no * 32 + of_nat (byte * 8 + n) + ucast index,
              data ! byte AND push_bit n 1 \<noteq> 0)) [0..<8]) [0..<length data]);
           (err, m) = imr_loop M k work (icmem s)
       in (err, s\<lparr>icmem := m\<rparr>))"

definition ic_addr2intno :: "u32 \<Rightarrow> u32" where
  "ic_addr2intno regaddr =
     (if 0xFFFEEA00 \<le> regaddr \<and> IC_ADDRESS 31 \<ge> regaddr then (regaddr - 0xFFFEEA00) div 2
      else (regaddr - 0xFFFFB040) div 2 + 32)"

text \<open>The mask register is accessed through a \<^verbatim>\<open>uint8 *\<close>.\<close>

definition intc_hook_update_ic_lowerbit :: "'m mem_ops \<Rightarrow> nat \<Rightarrow> u32 \<Rightarrow> u16 \<Rightarrow> ('b, 'm) IntcState \<Rightarrow>
    intc_err \<times> ('b, 'm) IntcState" where
  "intc_hook_update_ic_lowerbit M k regaddr data s =
     (let n = ic_addr2intno regaddr;
          a = IMR_ADDRESS n
      in if \<not> mpu_pointer_ok M k a (icmem s) then (INTC_POINTER, s)
         else
          let v = ucast (ptr_get8 M k a (icmem s)) :: u32;
              b = push_bit (unat (n mod 32)) 1;
              v = (if IC_ISSET_INTMASK data then v OR b else v AND NOT b)
          in (INTC_OK, s\<lparr>icmem := ptr_put8 M k a (ucast v) (icmem s)\<rparr>))"

text \<open>Clearing a request removes it from the user queue, and the first exception entry in order of
  the levels that belongs to the register and waits to be raised.\<close>

definition intc_hook_update_ic_upperbit :: "'m mem_ops \<Rightarrow> list_ops \<Rightarrow> nat \<Rightarrow> nat \<Rightarrow> u32 \<Rightarrow> u16 \<Rightarrow>
    ('b, 'm) IntcState \<Rightarrow> ('b, 'm) IntcState" where
  "intc_hook_update_ic_upperbit M L core_num k regaddr data s =
     (if IC_ISSET_INTREQ data then intc_raise_intr M L core_num (ic_addr2intno regaddr) s
      else
       upd_ctrl k (\<lambda>c.
         let c = (case find (\<lambda>i. IC_ADDRESS (intno (entries c i)) = regaddr) (user_queue c) of
                    None \<Rightarrow> c
                  | Some i \<Rightarrow> c\<lparr>user_queue := ListEntry_RemoveEntry L i (user_queue c)\<rparr>);
             hit = (\<lambda>i. IC_ADDRESS (intno (entries c i)) = regaddr \<and>
                        status (entries c i) = ExceptionRequestStatus_RUNNABLE)
         in case find (\<lambda>level. list_ex hit (exception_queue c level)) [0..<IntcPriorityLevel_Num] of
              None \<Rightarrow> c
            | Some level \<Rightarrow>
               (case find hit (exception_queue c level) of
                  None \<Rightarrow> c
                | Some i \<Rightarrow> remove_exception L level i c)) s)"

definition intc_hook_update_ic_reg8 :: "'m mem_ops \<Rightarrow> list_ops \<Rightarrow> nat \<Rightarrow> nat \<Rightarrow> u32 \<Rightarrow> u8 \<Rightarrow>
    ('b, 'm) IntcState \<Rightarrow> intc_err \<times> ('b, 'm) IntcState" where
  "intc_hook_update_ic_reg8 M L core_num k regaddr data s =
     (if CPU_ISSET CPU_PSW_UM (reg (cpus s k)) then (INTC_PERM, refuse_user k s)
      else if regaddr mod 2 = 1 then
        (INTC_OK, intc_hook_update_ic_upperbit M L core_num k (regaddr - 1) (push_bit 8 (ucast data)) s)
      else intc_hook_update_ic_lowerbit M k regaddr (ucast data) s)"

definition intc_hook_update_ic_reg16 :: "'m mem_ops \<Rightarrow> list_ops \<Rightarrow> nat \<Rightarrow> nat \<Rightarrow> u32 \<Rightarrow> u16 \<Rightarrow>
    ('b, 'm) IntcState \<Rightarrow> intc_err \<times> ('b, 'm) IntcState" where
  "intc_hook_update_ic_reg16 M L core_num k regaddr data s =
     (if CPU_ISSET CPU_PSW_UM (reg (cpus s k)) then (INTC_PERM, refuse_user k s)
      else
       let (_, s) = intc_hook_update_ic_lowerbit M k regaddr data s
       in (INTC_OK, intc_hook_update_ic_upperbit M L core_num k regaddr data s))"

definition is_ic_addr :: "u32 \<Rightarrow> bool" where
  "is_ic_addr a = (in_range a 0xFFFEEA00 0xFFFEEA3F \<or> in_range a 0xFFFFB040 0xFFFFB2CB)"

definition is_imr_addr :: "u32 \<Rightarrow> bool" where
  "is_imr_addr a = (in_range a 0xFFFEEAF0 0xFFFEEAF3 \<or> in_range a 0xFFFFB400 0xFFFFB42F)"

definition intc_hook_update_reg8 :: "'m mem_ops \<Rightarrow> list_ops \<Rightarrow> nat \<Rightarrow> nat \<Rightarrow> u32 \<Rightarrow> u8 \<Rightarrow>
    ('b, 'm) IntcState \<Rightarrow> intc_err \<times> ('b, 'm) IntcState" where
  "intc_hook_update_reg8 M L core_num k regaddr data s =
     (if is_ic_addr regaddr then intc_hook_update_ic_reg8 M L core_num k regaddr data s
      else if is_imr_addr regaddr then intc_hook_update_imr M k regaddr [data] s
      else (INTC_OK, s))"

definition intc_hook_update_reg16 :: "'m mem_ops \<Rightarrow> list_ops \<Rightarrow> nat \<Rightarrow> nat \<Rightarrow> u32 \<Rightarrow> u16 \<Rightarrow>
    ('b, 'm) IntcState \<Rightarrow> intc_err \<times> ('b, 'm) IntcState" where
  "intc_hook_update_reg16 M L core_num k regaddr data s =
     (if is_ic_addr regaddr then
        if regaddr mod 2 \<noteq> 0 then (INTC_INVALID, s)
        else intc_hook_update_ic_reg16 M L core_num k regaddr data s
      else if is_imr_addr regaddr then
        if regaddr mod 2 \<noteq> 0 then (INTC_INVALID, s)
        else intc_hook_update_imr M k regaddr [ucast data, ucast (drop_bit 8 data)] s
      else (INTC_OK, s))"

definition intc_hook_update_reg32 :: "'m mem_ops \<Rightarrow> nat \<Rightarrow> u32 \<Rightarrow> u32 \<Rightarrow>
    ('b, 'm) IntcState \<Rightarrow> intc_err \<times> ('b, 'm) IntcState" where
  "intc_hook_update_reg32 M k regaddr data s =
     (if is_imr_addr regaddr then
        if regaddr mod 4 \<noteq> 0 then (INTC_INVALID, s)
        else intc_hook_update_imr M k regaddr
          [ucast data, ucast (drop_bit 8 data), ucast (drop_bit 16 data), ucast (drop_bit 24 data)] s
      else (INTC_OK, s))"

section \<open>Bus operations\<close>

text \<open>
  A write runs the hook and stores the data when it succeeds.  The store is the one of the pointers:
  the byte of core \<open>k\<close> at \<open>addr\<close> is \<^verbatim>\<open>region->data[(addr - start) + k * size]\<close> in both.
\<close>

definition intc_put_data8 :: "'m mem_ops \<Rightarrow> list_ops \<Rightarrow> nat \<Rightarrow> nat \<Rightarrow> u32 \<Rightarrow> u8 \<Rightarrow>
    ('b, 'm) IntcState \<Rightarrow> intc_err \<times> ('b, 'm) IntcState" where
  "intc_put_data8 M L core_num k addr data s =
     (case intc_hook_update_reg8 M L core_num k addr data s of
        (INTC_OK, s) \<Rightarrow> (INTC_OK, s\<lparr>icmem := ptr_put8 M k addr data (icmem s)\<rparr>)
      | r \<Rightarrow> r)"

definition intc_put_data16 :: "'m mem_ops \<Rightarrow> list_ops \<Rightarrow> nat \<Rightarrow> nat \<Rightarrow> u32 \<Rightarrow> u16 \<Rightarrow>
    ('b, 'm) IntcState \<Rightarrow> intc_err \<times> ('b, 'm) IntcState" where
  "intc_put_data16 M L core_num k addr data s =
     (case intc_hook_update_reg16 M L core_num k addr data s of
        (INTC_OK, s) \<Rightarrow> (INTC_OK, s\<lparr>icmem := ptr_put16 M k addr data (icmem s)\<rparr>)
      | r \<Rightarrow> r)"

definition intc_put_data32 :: "'m mem_ops \<Rightarrow> nat \<Rightarrow> u32 \<Rightarrow> u32 \<Rightarrow>
    ('b, 'm) IntcState \<Rightarrow> intc_err \<times> ('b, 'm) IntcState" where
  "intc_put_data32 M k addr data s =
     (case intc_hook_update_reg32 M k addr data s of
        (INTC_OK, s) \<Rightarrow> (INTC_OK, s\<lparr>icmem := ptr_put32 M k addr data (icmem s)\<rparr>)
      | r \<Rightarrow> r)"

definition intc_get_data8 :: "'m mem_ops \<Rightarrow> nat \<Rightarrow> u32 \<Rightarrow> ('b, 'm) IntcState \<Rightarrow> u8" where
  "intc_get_data8 M k addr s = ptr_get8 M k addr (icmem s)"

definition intc_get_data16 :: "'m mem_ops \<Rightarrow> nat \<Rightarrow> u32 \<Rightarrow> ('b, 'm) IntcState \<Rightarrow> u16" where
  "intc_get_data16 M k addr s = ptr_get16 M k addr (icmem s)"

definition intc_get_data32 :: "'m mem_ops \<Rightarrow> nat \<Rightarrow> u32 \<Rightarrow> ('b, 'm) IntcState \<Rightarrow> u32" where
  "intc_get_data32 M k addr s = ptr_get32 M k addr (icmem s)"

text \<open>The interrupt entry of \<^verbatim>\<open>device.c\<close>.\<close>

definition device_raise_int :: "'m mem_ops \<Rightarrow> list_ops \<Rightarrow> nat \<Rightarrow> u16 \<Rightarrow>
    ('b, 'm) IntcState \<Rightarrow> ('b, 'm) IntcState" where
  "device_raise_int M L core_num n s = intc_raise_intr M L core_num (ucast n) s"

end
