(* ===== verification/Intc_Inv.thy ===== *)
theory Intc_Inv
  imports Intc Exec_Frames
begin

text \<open>
  The library of the interrupt controller: the search for the smallest key (locale
  \<open>min_search\<close>, interpreted on both searches of the code), the choice of the exception, and
  the invariant \<open>ctrl_ok\<close> with its preservation by every operation.
\<close>

section \<open>Selecting the smallest key\<close>

definition first_min :: "('i \<Rightarrow> bool) \<Rightarrow> ('i \<Rightarrow> u32) \<Rightarrow> 'i list \<Rightarrow> 'i \<Rightarrow> bool" where
  "first_min skip key is i \<longleftrightarrow> (\<exists>xs ys. is = xs @ i # ys \<and> \<not> skip i \<and>
     (\<forall>j\<in>set xs. \<not> skip j \<longrightarrow> key i < key j) \<and> (\<forall>j\<in>set ys. \<not> skip j \<longrightarrow> key i \<le> key j))"

lemma first_min_least: "first_min skip key is i \<Longrightarrow> j \<in> set is \<Longrightarrow> \<not> skip j \<Longrightarrow> key i \<le> key j"
  unfolding first_min_def by (auto, metis less_imp_le)

lemma first_min_mem: "first_min skip key is i \<Longrightarrow> i \<in> set is \<and> \<not> skip i"
  unfolding first_min_def by auto

text \<open>The search both judging functions run over a queue: skip some entries, keep the first one with
  the smallest key below a bound.\<close>

locale min_search =
  fixes skip :: "'i \<Rightarrow> bool" and key :: "'i \<Rightarrow> u32" and pick :: "'i list \<Rightarrow> u32 \<Rightarrow> 'i option \<Rightarrow> 'i option"
  assumes nil: "pick [] m c = c"
    and cons: "pick (i # is) m c =
      (if skip i then pick is m c else if key i < m then pick is (key i) (Some i) else pick is m c)"
begin

lemma pick_spec:
  "(\<forall>i\<in>set is. \<not> skip i \<longrightarrow> m \<le> key i) \<and> pick is m c = c \<or>
   (\<exists>i. first_min skip key is i \<and> key i < m \<and> pick is m c = Some i)"
proof (induction "is" arbitrary: m c)
  case Nil
  then show ?case by (simp add: nil)
next
  case (Cons i "is")
  have shift: "first_min skip key (i # is) j" if "first_min skip key is j" and s: "skip i \<or> key j < key i" for j
  proof -
    note f = that(1)
    obtain xs ys where "is = xs @ j # ys" "\<not> skip j" "\<forall>l\<in>set xs. \<not> skip l \<longrightarrow> key j < key l"
        "\<forall>l\<in>set ys. \<not> skip l \<longrightarrow> key j \<le> key l"
      using f unfolding first_min_def by blast
    then show ?thesis
      using s unfolding first_min_def by (intro exI [of _ "i # xs"] exI [of _ ys]) auto
  qed
  have front: "first_min skip key (i # is) i" if "\<not> skip i" "\<forall>j\<in>set is. \<not> skip j \<longrightarrow> key i \<le> key j"
    unfolding first_min_def using that by (intro exI [of _ "[]"] exI [of _ "is"]) auto
  consider (skip) "skip i" | (less) "\<not> skip i" "key i < m" | (ge) "\<not> skip i" "\<not> key i < m" by blast
  then show ?case
  proof cases
    case skip
    then show ?thesis using Cons.IH [of m c] shift by (auto simp: cons)
  next
    case less
    from Cons.IH [of "key i" "Some i"] show ?thesis
    proof
      assume "(\<forall>j\<in>set is. \<not> skip j \<longrightarrow> key i \<le> key j) \<and> pick is (key i) (Some i) = Some i"
      then show ?thesis using less front by (auto simp: cons)
    next
      assume "\<exists>j. first_min skip key is j \<and> key j < key i \<and> pick is (key i) (Some i) = Some j"
      then show ?thesis using less shift by (auto simp: cons intro: less_trans)
    qed
  next
    case ge
    from Cons.IH [of m c] show ?thesis
    proof
      assume "(\<forall>j\<in>set is. \<not> skip j \<longrightarrow> m \<le> key j) \<and> pick is m c = c"
      then show ?thesis using ge by (auto simp: cons)
    next
      assume "\<exists>j. first_min skip key is j \<and> key j < m \<and> pick is m c = Some j"
      then show ?thesis using ge shift by (force simp: cons)
    qed
  qed
qed

end

interpretation user_search: min_search
  "\<lambda>i. intc_is_user_intr_masked M (intno (entries c i)) s" "\<lambda>i. priority_degree (entries c i)"
  "user_search M s c" for M s c
  by unfold_locales simp_all

text \<open>Whether the search of the exception queues skips an entry; the marks it leaves in ICSR do not
  matter.\<close>

definition pmr_masked :: "'m mem_ops \<Rightarrow> ExceptionRequestDataType \<Rightarrow> ('b, 'm) IntcState \<Rightarrow> bool" where
  "pmr_masked M e s \<longleftrightarrow> exno e = ExceptionId_UserIntr \<and>
     intc_get_mask_priority_degree (coreId e) s \<le> intc_get_user_intr_priority_degree M (intno e) s"

text \<open>\<open>icsr_only s s'\<close>: the states agree but for the register ICSR.\<close>

definition icsr_core :: "'b TargetCoreType \<Rightarrow> 'b TargetCoreType \<Rightarrow> bool" where
  "icsr_core c c' \<longleftrightarrow> (\<exists>g. c' = c\<lparr>reg := g\<rparr> \<and> pc g = pc (reg c) \<and> regs g = regs (reg c) \<and>
     current_bnk (sys g) = current_bnk (sys (reg c)) \<and>
     (\<forall>x b i. (x, i) \<noteq> (SYS_GRP_2, SYS_REG_ICSR) \<longrightarrow> get_sys_cell x b i g = get_sys_cell x b i (reg c)))"

definition icsr_only :: "('b, 'm) IntcState \<Rightarrow> ('b, 'm) IntcState \<Rightarrow> bool" where
  "icsr_only s s' \<longleftrightarrow> intc_control s' = intc_control s \<and> icmem s' = icmem s \<and>
     (\<forall>k. icsr_core (cpus s k) (cpus s' k))"

lemma icsr_core_refl: "icsr_core c c"
  unfolding icsr_core_def by (rule exI [of _ "reg c"]) (cases c, simp)

lemma icsr_core_trans: "icsr_core a b \<Longrightarrow> icsr_core b c \<Longrightarrow> icsr_core a c"
  unfolding icsr_core_def by (elim exE conjE) (intro exI conjI, auto)

lemma icsr_core_put: "icsr_core c (put_sysreg2 SYS_GRP_2 SYS_REG_ICSR v c)"
  unfolding icsr_core_def put_sysreg2_def cpu_set_sysreg2_def
  by (rule exI, rule conjI, rule refl) simp

lemma icsr_refl: "icsr_only s s"
  by (simp add: icsr_only_def icsr_core_refl)

lemma icsr_trans: "icsr_only a b \<Longrightarrow> icsr_only b c \<Longrightarrow> icsr_only a c"
  by (simp add: icsr_only_def) (metis icsr_core_trans)

lemma icsr_mark: "icsr_only s (intc_set_user_intr_state_priority_degree_masked k b s)"
  by (simp add: icsr_only_def intc_set_user_intr_state_priority_degree_masked_def Let_def upd_cpu_def
      icsr_core_refl icsr_core_put)

lemma icsr_cell: "icsr_only s s' \<Longrightarrow> (x, i) \<noteq> (SYS_GRP_2, SYS_REG_ICSR) \<Longrightarrow>
    cpu_get_sysreg2 x i (reg (cpus s' k)) = cpu_get_sysreg2 x i (reg (cpus s k))"
  unfolding icsr_only_def icsr_core_def cpu_get_sysreg2_def
  by (metis TargetCoreType.select_convs(3) TargetCoreType.surjective TargetCoreType.update_convs(3))

lemma icsr_masked: "icsr_only s s' \<Longrightarrow> pmr_masked M e s' = pmr_masked M e s"
  using icsr_cell [of s s' 2 11] unfolding pmr_masked_def intc_get_mask_priority_degree_def
    intc_get_user_intr_priority_degree_def by (simp add: icsr_only_def)

lemma cpu_mask_masked:
  "exno e = ExceptionId_UserIntr \<Longrightarrow>
   fst (is_cpu_mask_UserIntr M e s) = pmr_masked M e s \<and> icsr_only s (snd (is_cpu_mask_UserIntr M e s))"
  by (simp add: is_cpu_mask_UserIntr_def pmr_masked_def Let_def icsr_mark icsr_refl)

text \<open>The search of a queue, with the state threaded through, is the pure search.\<close>

fun pure_search :: "'m mem_ops \<Rightarrow> ExceptionControllerType \<Rightarrow> ('b, 'm) IntcState \<Rightarrow> nat list \<Rightarrow>
    u32 \<Rightarrow> nat option \<Rightarrow> nat option" where
  "pure_search M c s [] m cand = cand"
| "pure_search M c s (i # is) m cand =
     (if pmr_masked M (entries c i) s then pure_search M c s is m cand
      else if priority_degree (entries c i) < m then pure_search M c s is (priority_degree (entries c i)) (Some i)
      else pure_search M c s is m cand)"

interpretation queue_search: min_search
  "\<lambda>i. pmr_masked M (entries c i) s" "\<lambda>i. priority_degree (entries c i)" "pure_search M c s" for M c s
  by unfold_locales simp_all

lemma queue_search_pure:
  "icsr_only s s' \<Longrightarrow> \<exists>m' t. queue_search M c is cand m s' = (pure_search M c s is m cand, m', t) \<and>
     icsr_only s t \<and> (pure_search M c s is m cand = cand \<and> m' = m \<or>
       (\<exists>i. pure_search M c s is m cand = Some i \<and> m' = priority_degree (entries c i) \<and> m' < m))"
proof (induction "is" arbitrary: cand m s')
  case Nil
  then show ?case by simp
next
  case (Cons i "is")
  let ?e = "entries c i"
  let ?r = "if exno ?e = ExceptionId_UserIntr then is_cpu_mask_UserIntr M ?e s' else (False, s')"
  obtain b t where r: "?r = (b, t)" by (cases ?r) auto
  have b: "b = pmr_masked M ?e s"
    using r cpu_mask_masked [of ?e M s'] icsr_masked [OF Cons.prems, of M ?e]
    by (cases "exno ?e = ExceptionId_UserIntr") (auto simp: pmr_masked_def)
  have t: "icsr_only s t"
    using r cpu_mask_masked [of ?e M s'] Cons.prems
    by (cases "exno ?e = ExceptionId_UserIntr") (auto intro: icsr_trans)
  show ?case
    using Cons.IH [OF t, of cand m] Cons.IH [OF t, of "Some i" "priority_degree ?e"]
    by (simp only: queue_search.simps Let_def r prod.case pure_search.simps b split: if_split) (auto intro: less_trans)
qed

section \<open>The invariant\<close>

text \<open>The documented behaviour of the list library: an allocated entry is in no list, adding and
  removing change the set of a list by that entry.\<close>

definition lists_ok :: "list_ops \<Rightarrow> bool" where
  "lists_ok L \<longleftrightarrow> (\<forall>U. finite U \<longrightarrow> ListEntry_Alloc L U \<notin> U) \<and>
     (\<forall>i xs. distinct xs \<and> i \<notin> set xs \<longrightarrow>
        distinct (ListEntry_AddEntry L i xs) \<and> set (ListEntry_AddEntry L i xs) = insert i (set xs)) \<and>
     (\<forall>i xs. distinct xs \<longrightarrow>
        distinct (ListEntry_RemoveEntry L i xs) \<and> set (ListEntry_RemoveEntry L i xs) = set xs - {i})"

text \<open>The lists of a core hold distinct entries of that core, each exception queue those of its
  level; a user request waits to be judged or has been passed on; the current exception is in its
  queue and runs, or has been interrupted.\<close>

definition ctrl_ok :: "nat \<Rightarrow> ExceptionControllerType \<Rightarrow> bool" where
  "ctrl_ok k c \<longleftrightarrow> distinct (user_queue c) \<and>
     (\<forall>l<16. distinct (exception_queue c l)) \<and>
     (\<forall>l<16. \<forall>i\<in>set (exception_queue c l). i \<notin> set (user_queue c) \<and> coreId (entries c i) = k \<and>
        intc_get_exception_priority_level (exno (entries c i)) = l \<and>
        status (entries c i) \<noteq> ExceptionRequestStatus_PENDING \<and>
        (exno (entries c i) \<noteq> ExceptionId_UserIntr \<longrightarrow> intno (entries c i) = 0)) \<and>
     (\<forall>i\<in>set (user_queue c). coreId (entries c i) = k \<and> exno (entries c i) = ExceptionId_UserIntr \<and>
        status (entries c i) \<in> {ExceptionRequestStatus_PENDING, ExceptionRequestStatus_RUNNABLE}) \<and>
     (\<forall>i. current_exception c = Some i \<longrightarrow>
        intc_get_exception_priority_level (exno (entries c i)) < 16 \<and>
        i \<in> set (exception_queue c (intc_get_exception_priority_level (exno (entries c i)))) \<and>
        status (entries c i) \<in> {ExceptionRequestStatus_RUNNING, ExceptionRequestStatus_WAITING})"

lemma level_less_16: "e \<noteq> ExceptionId_Num \<Longrightarrow> intc_get_exception_priority_level e < 16"
  by (cases e) (simp_all add: intc_get_exception_priority_level_def fe_abort_def ei_entry_def)

lemma finite_in_use: "finite (in_use c)"
  by (simp add: in_use_def)

lemma alloc_fresh:
  assumes "lists_ok L"
  shows "ListEntry_Alloc L (in_use c) \<notin> set (user_queue c)"
    and "l < 16 \<Longrightarrow> ListEntry_Alloc L (in_use c) \<notin> set (exception_queue c l)"
    and "current_exception c \<noteq> Some (ListEntry_Alloc L (in_use c))"
proof -
  have "ListEntry_Alloc L (in_use c) \<notin> in_use c"
    using assms finite_in_use unfolding lists_ok_def by blast
  then show "ListEntry_Alloc L (in_use c) \<notin> set (user_queue c)"
    and "l < 16 \<Longrightarrow> ListEntry_Alloc L (in_use c) \<notin> set (exception_queue c l)"
    and "current_exception c \<noteq> Some (ListEntry_Alloc L (in_use c))"
    unfolding in_use_def by auto
qed

lemma add_exception_ok:
  assumes "lists_ok L" and "ctrl_ok k c" and "coreId d = k" and "intc_get_exception_priority_level (exno d) = l"
    and "l < 16" and "status d = ExceptionRequestStatus_RUNNABLE"
    and "exno d \<noteq> ExceptionId_UserIntr \<longrightarrow> intno d = 0"
  shows "ctrl_ok k (add_exception L l d c)"
proof -
  let ?i = "ListEntry_Alloc L (in_use c)"
  note fresh = alloc_fresh [OF assms(1), where c = c]
  have "distinct (exception_queue c l)" using assms(2,5) by (simp add: ctrl_ok_def)
  then have a: "distinct (ListEntry_AddEntry L ?i (exception_queue c l))"
      "set (ListEntry_AddEntry L ?i (exception_queue c l)) = insert ?i (set (exception_queue c l))"
    using assms(1,5) fresh(2) unfolding lists_ok_def by blast+
  show ?thesis
    using assms(2-7) a fresh unfolding ctrl_ok_def add_exception_def alloc_entry_def Let_def
    by (auto split: if_splits)
qed

lemma add_user_ok:
  assumes "lists_ok L" and "ctrl_ok k c" and "coreId d = k" and "exno d = ExceptionId_UserIntr"
    and "status d = ExceptionRequestStatus_PENDING"
  shows "ctrl_ok k (add_user L d c)"
proof -
  let ?i = "ListEntry_Alloc L (in_use c)"
  note fresh = alloc_fresh [OF assms(1), where c = c]
  have "distinct (user_queue c)" using assms(2) by (simp add: ctrl_ok_def)
  then have a: "distinct (ListEntry_AddEntry L ?i (user_queue c))"
      "set (ListEntry_AddEntry L ?i (user_queue c)) = insert ?i (set (user_queue c))"
    using assms(1) fresh(1) unfolding lists_ok_def by blast+
  show ?thesis
    using assms(2-5) a fresh unfolding ctrl_ok_def add_user_def alloc_entry_def Let_def
    by (auto split: if_splits)
qed

lemma remove_ok:
  assumes "lists_ok L"
  shows "distinct xs \<Longrightarrow> distinct (ListEntry_RemoveEntry L i xs)"
    and "distinct xs \<Longrightarrow> set (ListEntry_RemoveEntry L i xs) = set xs - {i}"
  using assms unfolding lists_ok_def by blast+

lemma remove_exception_ok:
  assumes "lists_ok L" and "ctrl_ok k c" and "current_exception c \<noteq> Some i"
  shows "ctrl_ok k (remove_exception L l i c)"
  using assms(2,3) remove_ok [OF assms(1)] unfolding ctrl_ok_def remove_exception_def
  by (auto split: if_splits)

lemma end_exception_ok:
  assumes "lists_ok L" and "ctrl_ok k c"
  shows "ctrl_ok k ((remove_exception L l i c)\<lparr>current_exception := None\<rparr>)"
  using assms(2) remove_ok [OF assms(1)] unfolding ctrl_ok_def remove_exception_def
  by (auto split: if_splits)

lemma remove_user_ok:
  assumes "lists_ok L" and "ctrl_ok k c"
  shows "ctrl_ok k (c\<lparr>user_queue := ListEntry_RemoveEntry L i (user_queue c)\<rparr>)"
  using assms(2) remove_ok [OF assms(1)] unfolding ctrl_ok_def
  by (auto split: if_splits)


section \<open>The operations keep the invariant\<close>

lemma control_simps [simp]:
  "intc_control (upd_cpu k f s) = intc_control s"
  "intc_control (upd_ctrl k h s) = (intc_control s)(k := h (intc_control s k))"
  "icmem (upd_cpu k f s) = icmem s" "icmem (upd_ctrl k h s) = icmem s"
  "cpus (upd_ctrl k h s) = cpus s" "cpus (upd_cpu k f s) = (cpus s)(k := f (cpus s k))"
  by (simp_all add: upd_cpu_def upd_ctrl_def)

lemma register_control [simp]:
  "intc_control (intc_set_user_intr_reqflag M k n b s) = intc_control s"
  "intc_control (intc_set_user_intr_state_priority_degree_masked k b s) = intc_control s"
  "intc_control (intc_set_current_user_intr_priority_degree M k n b s) = intc_control s"
  "intc_control (intc_reset_registers M k s) = intc_control s"
  "intc_control (snd (is_cpu_mask_UserIntr M e s)) = intc_control s"
  "intc_control (snd (can_raise_Exception e s)) = intc_control s"
  by (simp_all add: intc_set_user_intr_reqflag_def intc_set_user_intr_state_priority_degree_masked_def
      intc_set_current_user_intr_priority_degree_def intc_reset_registers_def is_cpu_mask_UserIntr_def
      can_raise_Exception_def Let_def split: option.split)

definition intc_inv :: "nat \<Rightarrow> ('b, 'm) IntcState \<Rightarrow> bool" where
  "intc_inv n s \<longleftrightarrow> (\<forall>k<n. ctrl_ok k (intc_control s k))"

lemma inv_same: "intc_inv n s \<Longrightarrow> intc_control s' = intc_control s \<Longrightarrow> intc_inv n s'"
  by (simp add: intc_inv_def)

lemma raise_exception_inv:
  "lists_ok L \<Longrightarrow> e \<noteq> ExceptionId_Num \<Longrightarrow> intc_inv n s \<Longrightarrow> intc_inv n (intc_raise_exception M L k e s)"
  by (auto intro: add_exception_ok level_less_16 simp: intc_raise_exception_def Let_def intc_inv_def)

lemma common_raise_inv:
  "lists_ok L \<Longrightarrow> intc_inv n s \<Longrightarrow> intc_inv n (common_raise_user_intr M L i k s)"
  by (cases "intc_isset_user_intr_reqflag M i s")
    (auto simp: common_raise_user_intr_def Let_def intc_inv_def intro: add_user_ok)

lemma raise_intr_inv:
  assumes "lists_ok L" and "intc_inv n s"
  shows "intc_inv n (intc_raise_intr M L core_num i s)"
proof -
  have "intc_inv n (fold (common_raise_user_intr M L i) ks s)" for ks
    using assms by (induction ks arbitrary: s) (simp_all add: common_raise_inv)
  then show ?thesis by (simp add: intc_raise_intr_def)
qed

lemma clr_inv:
  assumes "lists_ok L" and "intc_inv n s"
  shows "intc_inv n (intc_clear_fe L k s)" and "intc_inv n (intc_clear_ei M L k s)"
  using assms(2) by (auto simp: intc_clear_fe_def intc_clear_ei_def Let_def intc_inv_def split: option.split
      intro: end_exception_ok [OF assms(1)])

lemma user_search_mem: "user_search M s c is 0xFFFFFFFF None = Some i \<Longrightarrow> i \<in> set is"
  using user_search.pick_spec [of "is" M c s "0xFFFFFFFF" None] by (auto dest: first_min_mem)

lemma judge_user_inv:
  assumes "lists_ok L" and "intc_inv n s" and "k < n"
  shows "\<exists>s'. judge_pending_UserIntr M L k s = Some s' \<and> intc_inv n s'"
proof -
  let ?c = "intc_control s k"
  have ok: "ctrl_ok k ?c" using assms(2,3) by (simp add: intc_inv_def)
  show ?thesis
  proof (cases "judge_mask_and_priority_UserIntr M k s")
    case (Pair r s1)
    have c1: "intc_control s1 = intc_control s"
      using Pair by (auto simp: judge_mask_and_priority_UserIntr_def Let_def split: option.splits if_splits)
    then have inv1: "intc_inv n s1" using assms(2) by (rule inv_same [rotated])
    show ?thesis
    proof (cases r)
      case None
      then show ?thesis using Pair inv1 by (simp add: judge_pending_UserIntr_def)
    next
      case (Some i)
      have i: "i \<in> set (user_queue ?c)" "status (entries ?c i) \<noteq> ExceptionRequestStatus_RUNNABLE"
        using Pair Some by (auto simp: judge_mask_and_priority_UserIntr_def Let_def
            split: option.splits if_splits dest: user_search_mem)
      then have e: "coreId (entries ?c i) = k" "exno (entries ?c i) = ExceptionId_UserIntr"
          "status (entries ?c i) = ExceptionRequestStatus_PENDING"
        using ok by (auto simp: ctrl_ok_def)
      have st: "ctrl_ok k (set_status i ExceptionRequestStatus_RUNNABLE ?c)"
        using ok i(1) by (auto simp: ctrl_ok_def set_status_def)
      have lv: "priority_level (exception_config ExceptionId_UserIntr) = 3" by (simp add: ei_entry_def)
      have ad: "ctrl_ok k (add_exception L 3 (entries ?c i\<lparr>status := ExceptionRequestStatus_RUNNABLE\<rparr>)
          (set_status i ExceptionRequestStatus_RUNNABLE ?c))"
        by (rule add_exception_ok [OF assms(1) st]) (simp_all add: e intc_get_exception_priority_level_def ei_entry_def)
      show ?thesis
        using Pair Some e assms(2) ad lv
        by (auto simp: judge_pending_UserIntr_def judge_cpu_mask_UserIntr_def Let_def c1 intc_inv_def)
    qed
  qed
qed


section \<open>The choice of the exception\<close>

text \<open>\<open>chosen\<close>: at the first of the levels that has an eligible entry below the bound, the first
  smallest.  \<open>none_below\<close>: no level has one.\<close>

definition none_below :: "'m mem_ops \<Rightarrow> ExceptionControllerType \<Rightarrow> ('b, 'm) IntcState \<Rightarrow> u32 \<Rightarrow> nat \<Rightarrow> bool" where
  "none_below M c s m l \<longleftrightarrow>
     (\<forall>j\<in>set (exception_queue c l). \<not> pmr_masked M (entries c j) s \<longrightarrow> m \<le> priority_degree (entries c j))"

definition chosen :: "'m mem_ops \<Rightarrow> ExceptionControllerType \<Rightarrow> ('b, 'm) IntcState \<Rightarrow> u32 \<Rightarrow> nat \<Rightarrow> nat \<Rightarrow> bool" where
  "chosen M c s m l i \<longleftrightarrow> i \<in> set (exception_queue c l) \<and> \<not> pmr_masked M (entries c i) s \<and>
     priority_degree (entries c i) < m \<and>
     (\<forall>j\<in>set (exception_queue c l). \<not> pmr_masked M (entries c j) s \<longrightarrow>
        priority_degree (entries c i) \<le> priority_degree (entries c j))"

lemma level_search_spec:
  assumes "icsr_only s s'" and "\<forall>i. current_exception c = Some i \<longrightarrow> m \<le> priority_degree (entries c i)"
  shows "\<exists>t. icsr_only s t \<and>
     ((\<forall>l\<in>set ls. none_below M c s m l) \<and> level_search M c ls (current_exception c) m s' = (current_exception c, t) \<or>
      (\<exists>l i. l \<in> set ls \<and> chosen M c s m l i \<and> (\<forall>l'\<in>set (takeWhile (\<lambda>x. x \<noteq> l) ls). none_below M c s m l') \<and>
         current_exception c \<noteq> Some i \<and> level_search M c ls (current_exception c) m s' = (Some i, t)))"
  using assms(1)
proof (induction ls arbitrary: s')
  case Nil
  then show ?case by (intro exI [of _ s']) simp
next
  case (Cons l ls)
  let ?q = "exception_queue c l" and ?cur = "current_exception c"
  obtain m' t where q: "queue_search M c ?q ?cur m s' = (pure_search M c s ?q m ?cur, m', t)" "icsr_only s t"
      and m': "pure_search M c s ?q m ?cur = ?cur \<and> m' = m \<or>
        (\<exists>i. pure_search M c s ?q m ?cur = Some i \<and> m' = priority_degree (entries c i) \<and> m' < m)"
    using queue_search_pure [OF Cons.prems] by blast
  from queue_search.pick_spec [of ?q M c s m ?cur] show ?case
  proof
    assume none: "(\<forall>i\<in>set ?q. \<not> pmr_masked M (entries c i) s \<longrightarrow> m \<le> priority_degree (entries c i)) \<and>
        pure_search M c s ?q m ?cur = ?cur"
    have nb: "none_below M c s m l" using none by (simp add: none_below_def)
    have e: "level_search M c (l # ls) ?cur m s' = level_search M c ls ?cur m' t"
      using none q(1) by simp
    have eq: "m' = m" using m' none assms(2) by (auto simp: not_le)
    from Cons.IH [OF q(2)] show ?thesis
    proof (elim exE conjE disjE)
      fix u
      assume "icsr_only s u" "\<forall>l\<in>set ls. none_below M c s m l" "level_search M c ls ?cur m t = (?cur, u)"
      then show ?thesis using nb e eq by (intro exI [of _ u]) auto
    next
      fix u l' i
      assume "icsr_only s u" "l' \<in> set ls" "chosen M c s m l' i"
        "\<forall>x\<in>set (takeWhile (\<lambda>x. x \<noteq> l') ls). none_below M c s m x" "?cur \<noteq> Some i"
        "level_search M c ls ?cur m t = (Some i, u)"
      then show ?thesis
        using nb e eq by (intro exI [of _ u] conjI disjI2 exI [of _ l'] exI [of _ i]) auto
    qed
  next
    assume "\<exists>i. first_min (\<lambda>i. pmr_masked M (entries c i) s) (\<lambda>i. priority_degree (entries c i)) ?q i \<and> priority_degree (entries c i) < m \<and>
        pure_search M c s ?q m ?cur = Some i"
    then obtain i where i: "first_min (\<lambda>i. pmr_masked M (entries c i) s) (\<lambda>i. priority_degree (entries c i)) ?q i" "priority_degree (entries c i) < m"
        "pure_search M c s ?q m ?cur = Some i" by blast
    have ne: "?cur \<noteq> Some i" using assms(2) i(2) by auto
    have ch: "chosen M c s m l i"
      using i(2) first_min_mem [OF i(1)] first_min_least [OF i(1)]
      by (auto simp: chosen_def)
    show ?thesis
      using ch ne q i(3) by (intro exI [of _ t] conjI disjI2 exI [of _ l] exI [of _ i]) auto
  qed
qed


text \<open>What the PSW permits: \<open>can_raise_Exception\<close> without its effect on a halted core.\<close>

definition psw_permits :: "ExceptionRequestDataType \<Rightarrow> 'b TargetCoreType \<Rightarrow> bool" where
  "psw_permits e cpu \<longleftrightarrow>
     (CPU_ISSET CPU_PSW_NP (reg cpu) \<longrightarrow> cond_NP (exception_config (exno e))) \<and>
     (CPU_ISSET CPU_PSW_ID (reg cpu) \<longrightarrow> cond_ID (exception_config (exno e)) \<or> is_halt cpu)"

lemma can_raise_permits: "fst (can_raise_Exception e s) = psw_permits e (cpus s (coreId e))"
  by (simp add: can_raise_Exception_def psw_permits_def Let_def)

lemma permits_icsr: "icsr_only s t \<Longrightarrow> psw_permits e (cpus t k) = psw_permits e (cpus s k)"
proof -
  assume "icsr_only s t"
  then have "icsr_core (cpus s k) (cpus t k)" by (simp add: icsr_only_def)
  then obtain g where g: "cpus t k = (cpus s k)\<lparr>reg := g\<rparr>"
      "\<And>x b i. (x, i) \<noteq> (SYS_GRP_2, SYS_REG_ICSR) \<longrightarrow> get_sys_cell x b i g = get_sys_cell x b i (reg (cpus s k))"
    unfolding icsr_core_def by blast
  from g(2) [of 0 5 0] have "CPU_ISSET m g = CPU_ISSET m (reg (cpus s k))" for m
    by (simp add: CPU_ISSET_def cpu_base_def)
  then show ?thesis by (simp add: psw_permits_def g(1))
qed

text \<open>The bound and the last level of the search.\<close>

definition search_top :: "ExceptionControllerType \<Rightarrow> nat" where
  "search_top c = (case current_exception c of None \<Rightarrow> 15
     | Some j \<Rightarrow> intc_get_exception_priority_level (exno (entries c j)))"

definition search_bound :: "ExceptionControllerType \<Rightarrow> u32" where
  "search_bound c = (case current_exception c of None \<Rightarrow> 0xFFFFFFFF | Some j \<Rightarrow> priority_degree (entries c j))"

lemma takeWhile_upt: "l \<le> n \<Longrightarrow> set (takeWhile (\<lambda>x. x \<noteq> l) [0..<Suc n]) = {..<l}"
proof -
  assume "l \<le> n"
  then have "[0..<Suc n] = [0..<l] @ l # [Suc l..<Suc n]" by (metis le_imp_less_Suc upt_add_eq_append upt_rec zero_le le_add_diff_inverse less_imp_le)
  moreover have "takeWhile (\<lambda>x. x \<noteq> l) ([0..<l] @ l # [Suc l..<Suc n]) = [0..<l]"
    by (subst takeWhile_append2) (simp_all del: upt_Suc)
  ultimately show ?thesis by (simp add: atLeast0LessThan del: upt_Suc)
qed

lemma judge_search:
  fixes s :: "('b, 'm) IntcState" and k :: nat and M :: "'m mem_ops"
  defines "c \<equiv> intc_control s k"
  obtains (none) t where "icsr_only s t" "\<And>l. l \<le> search_top c \<Longrightarrow> none_below M c s (search_bound c) l"
      "judge_pending_Exception M k s = (None, t)"
  | (some) t l i where "icsr_only s t" "l \<le> search_top c" "chosen M c s (search_bound c) l i"
      "\<And>l'. l' < l \<Longrightarrow> none_below M c s (search_bound c) l'" "current_exception c \<noteq> Some i"
      "level_search M c [0..<Suc (search_top c)] (current_exception c) (search_bound c) s = (Some i, t)"
proof -
  have b: "\<forall>i. current_exception c = Some i \<longrightarrow> search_bound c \<le> priority_degree (entries c i)"
    by (simp add: search_bound_def)
  have sp: "(case current_exception c of None \<Rightarrow> (IntcPriorityLevel_Num - 1, 0xFFFFFFFF)
       | Some i \<Rightarrow> (intc_get_exception_priority_level (exno (entries c i)), priority_degree (entries c i))) =
       (search_top c, search_bound c)"
    by (simp add: search_top_def search_bound_def split: option.split)
  from level_search_spec [where c = c and s = s and s' = s and M = M and m = "search_bound c"
      and ls = "[0..<Suc (search_top c)]", OF icsr_refl b] show ?thesis
  proof (elim exE conjE disjE)
    fix t
    assume t: "icsr_only s t" "\<forall>l\<in>set [0..<Suc (search_top c)]. none_below M c s (search_bound c) l"
      "level_search M c [0..<Suc (search_top c)] (current_exception c) (search_bound c) s = (current_exception c, t)"
    have "judge_pending_Exception M k s = (None, t)"
      using t(3) unfolding judge_pending_Exception_def c_def [symmetric] Let_def sp prod.case
      by (simp del: upt_Suc split: option.split)
    then show thesis using t(1,2) none by (simp del: upt_Suc)
  next
    fix t l i
    assume "icsr_only s t" "l \<in> set [0..<Suc (search_top c)]" "chosen M c s (search_bound c) l i"
      "\<forall>l'\<in>set (takeWhile (\<lambda>x. x \<noteq> l) [0..<Suc (search_top c)]). none_below M c s (search_bound c) l'"
      "current_exception c \<noteq> Some i"
      "level_search M c [0..<Suc (search_top c)] (current_exception c) (search_bound c) s = (Some i, t)"
    then show thesis using some [of t l i] takeWhile_upt [of l "search_top c"] by (simp del: upt_Suc)
  qed
qed


definition preempt :: "ExceptionControllerType \<Rightarrow> ExceptionControllerType" where
  "preempt c = (case current_exception c of None \<Rightarrow> c
     | Some j \<Rightarrow> set_status j ExceptionRequestStatus_WAITING c)"

definition enter :: "nat \<Rightarrow> ExceptionControllerType \<Rightarrow> ExceptionControllerType" where
  "enter i c = (set_status i ExceptionRequestStatus_RUNNING c)\<lparr>current_exception := Some i\<rparr>"

lemma entries_preempt: "current_exception c \<noteq> Some i \<Longrightarrow> entries (preempt c) i = entries c i"
  by (auto simp: preempt_def set_status_def split: option.split)

lemma judge_some:
  fixes s :: "('b, 'm) IntcState" and k i :: nat
  defines "c \<equiv> intc_control s k"
  defines "e \<equiv> entries c i"
  assumes "icsr_only s t" and "current_exception c \<noteq> Some i"
    and "level_search M c [0..<Suc (search_top c)] (current_exception c) (search_bound c) s = (Some i, t)"
  shows "\<exists>u. judge_pending_Exception M k s =
      (if status e \<noteq> ExceptionRequestStatus_WAITING \<and> psw_permits e (cpus s (coreId e)) then Some i else None, u) \<and>
    intc_control u = (intc_control s)(k :=
      if status e = ExceptionRequestStatus_WAITING then enter i c
      else if psw_permits e (cpus s (coreId e)) then enter i (preempt c) else preempt c)"
proof -
  have sp: "(case current_exception c of None \<Rightarrow> (IntcPriorityLevel_Num - 1, 0xFFFFFFFF)
       | Some i \<Rightarrow> (intc_get_exception_priority_level (exno (entries c i)), priority_degree (entries c i))) =
       (search_top c, search_bound c)"
    by (simp add: search_top_def search_bound_def split: option.split)
  let ?w = "case current_exception c of None \<Rightarrow> t
      | Some j \<Rightarrow> upd_ctrl k (set_status j ExceptionRequestStatus_WAITING) t"
  have t: "intc_control t = intc_control s" using assms(3) by (simp add: icsr_only_def)
  have w: "intc_control ?w = (intc_control s)(k := preempt c)" "cpus ?w = cpus t"
    by (auto simp: preempt_def c_def t split: option.split)
  have e: "entries (intc_control ?w k) i = e"
    using entries_preempt [OF assms(4)] by (simp add: w(1) e_def)
  obtain ok v where cr: "can_raise_Exception e ?w = (ok, v)" by (cases "can_raise_Exception e ?w") auto
  have ok: "ok = psw_permits e (cpus s (coreId e))"
    using cr can_raise_permits [of e ?w] permits_icsr [OF assms(3)] by (simp add: w(2))
  have v: "intc_control v = (intc_control s)(k := preempt c)"
    using cr register_control(6) [of e ?w] w(1) by simp
  have ne: "current_exception c \<noteq> Some i" by (rule assms(4))
  have j: "judge_pending_Exception M k s =
      (if Some i = current_exception c then (None, t)
       else if status e = ExceptionRequestStatus_WAITING then (None, upd_ctrl k (enter i) t)
       else if ok then
         (Some i, let s = upd_ctrl k (enter i) v; e = entries (intc_control s k) i
                  in if exno e = ExceptionId_UserIntr
                     then intc_set_user_intr_state_priority_degree_masked (coreId e) False s else s)
       else (None, v))"
    unfolding judge_pending_Exception_def c_def [symmetric] Let_def sp prod.case assms(5)
    using e cr by (simp add: e_def enter_def [abs_def] split: option.split)
  show ?thesis
    using ne unfolding j Let_def by (auto simp: ok [symmetric] v t c_def fun_eq_iff)
qed


lemma preempt_ok: "ctrl_ok k c \<Longrightarrow> ctrl_ok k (preempt c)"
  by (auto simp: preempt_def set_status_def ctrl_ok_def split: option.split)

lemma enter_ok:
  assumes "ctrl_ok k c" and "l < 16" and "i \<in> set (exception_queue c l)"
  shows "ctrl_ok k (enter i c)"
  using assms by (auto simp: enter_def set_status_def ctrl_ok_def) metis

lemma preempt_queue [simp]: "exception_queue (preempt c) = exception_queue c"
  by (simp add: preempt_def set_status_def split: option.split)

lemma search_top_16: "ctrl_ok k c \<Longrightarrow> l \<le> search_top c \<Longrightarrow> l < 16"
  by (auto simp: search_top_def ctrl_ok_def split: option.splits)

lemma judge_inv:
  assumes "intc_inv n s" and "k < n" and "judge_pending_Exception M k s = (r, u)"
  shows "intc_inv n u" and "r = Some i \<Longrightarrow> current_exception (intc_control u k) = Some i \<and>
      status (entries (intc_control u k) i) = ExceptionRequestStatus_RUNNING \<and>
      coreId (entries (intc_control u k) i) = k \<and> 
      (exno (entries (intc_control u k) i) \<noteq> ExceptionId_UserIntr \<longrightarrow> intno (entries (intc_control u k) i) = 0)"
proof -
  let ?c = "intc_control s k"
  have ok: "ctrl_ok k ?c" using assms(1,2) by (simp add: intc_inv_def)
  have "intc_inv n u \<and> (\<forall>i. r = Some i \<longrightarrow> current_exception (intc_control u k) = Some i \<and>
      status (entries (intc_control u k) i) = ExceptionRequestStatus_RUNNING \<and>
      coreId (entries (intc_control u k) i) = k \<and>
      (exno (entries (intc_control u k) i) \<noteq> ExceptionId_UserIntr \<longrightarrow> intno (entries (intc_control u k) i) = 0))"
  proof (cases rule: judge_search [of s k M])
    case (none t)
    then show ?thesis using assms(1,3) inv_same [of n s t] by (simp add: icsr_only_def)
  next
    case (some t l j)
    have q: "l < 16" "j \<in> set (exception_queue ?c l)"
      using some(2,3) search_top_16 [OF ok] by (auto simp: chosen_def)
    then have f: "coreId (entries ?c j) = k" "exno (entries ?c j) \<noteq> ExceptionId_UserIntr \<longrightarrow> intno (entries ?c j) = 0"
      using ok by (auto simp: ctrl_ok_def)
    obtain u' where u: "judge_pending_Exception M k s =
        (if status (entries ?c j) \<noteq> ExceptionRequestStatus_WAITING \<and> psw_permits (entries ?c j) (cpus s (coreId (entries ?c j)))
         then Some j else None, u')"
      "intc_control u' = (intc_control s)(k :=
        if status (entries ?c j) = ExceptionRequestStatus_WAITING then enter j ?c
        else if psw_permits (entries ?c j) (cpus s (coreId (entries ?c j))) then enter j (preempt ?c) else preempt ?c)"
      using judge_some [OF some(1,5,6)] by blast
    have "ctrl_ok k (enter j ?c)" "ctrl_ok k (preempt ?c)" "ctrl_ok k (enter j (preempt ?c))"
      using enter_ok [OF ok q] preempt_ok [OF ok] enter_ok [OF preempt_ok [OF ok] q(1)] q(2) by simp_all
    then have "intc_inv n u'" using assms(1) u(2) by (simp add: intc_inv_def)
    then show ?thesis
      using assms(3) u f entries_preempt [OF some(5)] by (auto simp: enter_def set_status_def split: if_splits)
  qed
  then show "intc_inv n u" and "r = Some i \<Longrightarrow> current_exception (intc_control u k) = Some i \<and>
      status (entries (intc_control u k) i) = ExceptionRequestStatus_RUNNING \<and>
      coreId (entries (intc_control u k) i) = k \<and>
      (exno (entries (intc_control u k) i) \<noteq> ExceptionId_UserIntr \<longrightarrow> intno (entries (intc_control u k) i) = 0)"
    by blast+
qed

lemma hook_raised_inv: "lists_ok L \<Longrightarrow> intc_inv n s \<Longrightarrow> intc_inv n (hook_UserIntr_Raised M L e s)"
  by (auto simp: hook_UserIntr_Raised_def Let_def intc_inv_def intro: remove_user_ok split: option.split)

lemma handler_addr_control:
  "intc_get_exception_handler_addr M k e n s = Some (a, t) \<Longrightarrow> intc_control t = intc_control s"
  by (auto simp: intc_get_exception_handler_addr_def intc_get_handler_addr_intbp_def Let_def
      split: HandlerAddressRefMethodType.splits option.splits if_splits)

lemma raise_inv:
  assumes "lists_ok L" and "intc_inv n s" and "raise_Exception M L k i s = Some t"
  shows "intc_inv n t"
proof -
  let ?e = "entries (intc_control s k) i"
  let ?s1 = "if exno ?e = ExceptionId_UserIntr then hook_UserIntr_Raised M L ?e s else s"
  have s1: "intc_inv n ?s1" using hook_raised_inv assms(1,2) by auto
  have "\<exists>f g a u. intc_get_exception_handler_addr M (coreId ?e) (exno ?e) (intno ?e) (upd_cpu (coreId ?e) f ?s1) = Some (a, u) \<and>
      t = upd_cpu (coreId ?e) g u"
    using assms(3) unfolding raise_Exception_def Let_def
    by (auto split: if_splits option.splits prod.splits)
  then have "intc_control t = intc_control ?s1" by (auto dest!: handler_addr_control)
  then show ?thesis using s1 by (rule inv_same [rotated])
qed

lemma core_clock_inv:
  assumes "lists_ok L" and "intc_inv n s" and "k < n" and "intc_core_clock M L k s = Some t"
  shows "intc_inv n t"
proof -
  obtain s1 where s1: "judge_pending_UserIntr M L k s = Some s1" "intc_inv n s1"
    using judge_user_inv [OF assms(1-3)] by blast
  obtain r u where u: "judge_pending_Exception M k s1 = (r, u)" by (cases "judge_pending_Exception M k s1") auto
  show ?thesis
    using assms(4) s1(1) u judge_inv(1) [OF s1(2) assms(3) u] raise_inv [OF assms(1), of n u M k]
    by (auto simp: intc_core_clock_def split: option.splits)
qed

lemma cores_clock_inv:
  "lists_ok L \<Longrightarrow> intc_inv n s \<Longrightarrow> set ks \<subseteq> {..<n} \<Longrightarrow> intc_cores_clock M L ks s = Some t \<Longrightarrow> intc_inv n t"
  by (induction ks arbitrary: s) (auto split: option.splits dest: core_clock_inv)


lemma imr_hook_control [simp]: "intc_control (snd (intc_hook_update_imr M k a d s)) = intc_control s"
  by (simp add: intc_hook_update_imr_def refuse_user_def Let_def split: prod.split)

lemma lower_hook_control [simp]: "intc_control (snd (intc_hook_update_ic_lowerbit M k a d s)) = intc_control s"
  by (simp add: intc_hook_update_ic_lowerbit_def Let_def)

lemma upper_hook_inv:
  assumes "lists_ok L" and "intc_inv n s"
  shows "intc_inv n (intc_hook_update_ic_upperbit M L core_num k a d s)"
proof (cases "IC_ISSET_INTREQ d")
  case True
  then show ?thesis using raise_intr_inv [OF assms] by (simp add: intc_hook_update_ic_upperbit_def)
next
  case False
  let ?c = "intc_control s k"
  let ?c1 = "case find (\<lambda>i. IC_ADDRESS (intno (entries ?c i)) = a) (user_queue ?c) of None \<Rightarrow> ?c
      | Some i \<Rightarrow> ?c\<lparr>user_queue := ListEntry_RemoveEntry L i (user_queue ?c)\<rparr>"
  have c1: "k < n \<Longrightarrow> ctrl_ok k ?c1"
    using assms(2) remove_user_ok [OF assms(1)] by (auto simp: intc_inv_def split: option.split)
  have rm: "k < n \<Longrightarrow> ctrl_ok k (remove_exception L l i ?c1)"
    if "find (\<lambda>i. P i \<and> status (entries ?c1 i) = ExceptionRequestStatus_RUNNABLE) xs = Some i" for l i P xs
  proof -
    assume "k < n"
    have "status (entries ?c1 i) = ExceptionRequestStatus_RUNNABLE"
      using that by (auto simp: find_Some_iff)
    then have "current_exception ?c1 \<noteq> Some i" using c1 [OF \<open>k < n\<close>] by (auto simp: ctrl_ok_def)
    then show "ctrl_ok k (remove_exception L l i ?c1)" by (rule remove_exception_ok [OF assms(1) c1 [OF \<open>k < n\<close>]])
  qed
  show ?thesis
    using assms(2) c1 rm unfolding intc_hook_update_ic_upperbit_def Let_def
    by (auto simp: False intc_inv_def split: option.split)
qed

lemma inv_icmem: "intc_inv n (t\<lparr>icmem := m\<rparr>) = intc_inv n t"
  by (simp add: intc_inv_def)

lemma put_data_inv:
  assumes "lists_ok L" and "intc_inv n s"
  shows "intc_inv n (snd (intc_put_data8 M L core_num k a v8 s))"
    and "intc_inv n (snd (intc_put_data16 M L core_num k a v16 s))"
    and "intc_inv n (snd (intc_put_data32 M k a v32 s))"
proof -
  have r: "intc_inv n (refuse_user k s)" using assms(2) by (simp add: intc_inv_def refuse_user_def)
  have lo: "intc_inv n (snd (intc_hook_update_ic_lowerbit M k a d s))" for d
    using assms(2) by (rule inv_same) simp
  have im: "intc_inv n (snd (intc_hook_update_imr M k a d s))" for d
    using assms(2) by (rule inv_same) simp
  note up = upper_hook_inv [OF assms(1) lo] upper_hook_inv [OF assms]
  have h8: "intc_inv n (snd (intc_hook_update_reg8 M L core_num k a v8 s))"
    using r lo im up assms(2)
    by (simp add: intc_hook_update_reg8_def intc_hook_update_ic_reg8_def)
  have h16: "intc_inv n (snd (intc_hook_update_reg16 M L core_num k a v16 s))"
    using r lo im up assms(2)
    by (simp add: intc_hook_update_reg16_def intc_hook_update_ic_reg16_def case_prod_beta Let_def)
  have h32: "intc_inv n (snd (intc_hook_update_reg32 M k a v32 s))"
    using im assms(2) by (simp add: intc_hook_update_reg32_def)
  show "intc_inv n (snd (intc_put_data8 M L core_num k a v8 s))"
    using h8 by (auto simp: intc_put_data8_def inv_icmem split: prod.split intc_err.split)
  show "intc_inv n (snd (intc_put_data16 M L core_num k a v16 s))"
    using h16 by (auto simp: intc_put_data16_def inv_icmem split: prod.split intc_err.split)
  show "intc_inv n (snd (intc_put_data32 M k a v32 s))"
    using h32 by (auto simp: intc_put_data32_def inv_icmem split: prod.split intc_err.split)
qed

section \<open>Runs of the controller\<close>

text \<open>From the initialised controller: requests of every kind, ends of exceptions, register writes and
  clocks in any order, with any change of the cores and of the register memory in between (the guest
  program runs).\<close>

inductive intc_run :: "'m mem_ops \<Rightarrow> list_ops \<Rightarrow> nat \<Rightarrow> ('b, 'm) IntcState \<Rightarrow> bool" for M L n where
  run_init: "intc_run M L n (device_init_intc M n s)"
| run_exception: "intc_run M L n s \<Longrightarrow> e \<noteq> ExceptionId_Num \<Longrightarrow> intc_run M L n (intc_raise_exception M L k e s)"
| run_intr: "intc_run M L n s \<Longrightarrow> intc_run M L n (intc_raise_intr M L n i s)"
| run_trigger: "intc_run M L n s \<Longrightarrow> intc_run M L n (intc_cpu_trigger_interrupt M L k i s)"
| run_clear_fe: "intc_run M L n s \<Longrightarrow> intc_run M L n (intc_clear_fe L k s)"
| run_clear_ei: "intc_run M L n s \<Longrightarrow> intc_run M L n (intc_clear_ei M L k s)"
| run_put8: "intc_run M L n s \<Longrightarrow> intc_run M L n (snd (intc_put_data8 M L n k a v8 s))"
| run_put16: "intc_run M L n s \<Longrightarrow> intc_run M L n (snd (intc_put_data16 M L n k a v16 s))"
| run_put32: "intc_run M L n s \<Longrightarrow> intc_run M L n (snd (intc_put_data32 M k a v32 s))"
| run_clock: "intc_run M L n s \<Longrightarrow> device_supply_clock_intc M L n s = Some (b, s') \<Longrightarrow> intc_run M L n s'"
| run_guest: "intc_run M L n s \<Longrightarrow> intc_run M L n (s\<lparr>cpus := c, icmem := m\<rparr>)"

lemma init_inv:
  fixes s :: "('b, 'm) IntcState" and M :: "'m mem_ops"
  shows "intc_inv n (device_init_intc M n s)"
proof -
  let ?f = "\<lambda>k s. let s = intc_reset_registers M k s
       in upd_ctrl k (\<lambda>c. let c = device_init_intc_UserIntr (c\<lparr>current_exception := None\<rparr>)
            in c\<lparr>exception_queue := (\<lambda>level. if level < IntcPriorityLevel_Num then []
                   else exception_queue c level)\<rparr>) s"
  have "(\<forall>k\<in>set ks. ctrl_ok k (intc_control (fold ?f ks s) k)) \<and>
      (\<forall>k. k \<notin> set ks \<longrightarrow> intc_control (fold ?f ks s) k = intc_control s k)" if "distinct ks" for ks and s :: "('b, 'm) IntcState"
    using that
  proof (induction ks arbitrary: s)
    case (Cons k ks)
    have "ctrl_ok k (intc_control (?f k s) k)" "j \<noteq> k \<Longrightarrow> intc_control (?f k s) j = intc_control s j" for j
      by (simp_all add: ctrl_ok_def device_init_intc_UserIntr_def Let_def)
    then show ?case using Cons.IH [of "?f k s"] Cons.prems by (auto simp: fold_Cons)
  qed simp
  from this [of "[0..<n]" s] show ?thesis by (simp add: intc_inv_def device_init_intc_def)
qed

lemma run_inv:
  assumes "intc_run M L n s" and "lists_ok L"
  shows "intc_inv n s"
  using assms(1)
proof (induction rule: intc_run.induct)
  case (run_trigger s k i)
  then show ?case by (simp add: intc_cpu_trigger_interrupt_def common_raise_inv [OF assms(2)])
next
  case (run_clock s b s')
  then show ?case using cores_clock_inv [OF assms(2), of n s "[0..<n]" M s']
    by (auto simp: device_supply_clock_intc_def atLeast0LessThan split: option.splits)
next
  case (run_guest s c m)
  then show ?case by (simp add: intc_inv_def)
qed (use assms(2) in \<open>auto intro: init_inv raise_exception_inv raise_intr_inv clr_inv put_data_inv\<close>)

end
