(* ===== verification/Intc_Props.thy ===== *)
theory Intc_Props
  imports Intc_Inv
begin

text \<open>
  Properties of the interrupt controller: its invariant, its assertions, the choice of the exception,
  entry and return, and the mask registers.
\<close>

section \<open>Lists and register memory for the examples\<close>

definition sample_lists :: list_ops where
  "sample_lists = \<lparr>ListEntry_Alloc = (\<lambda>U. Suc (Max (insert 0 U))),
     ListEntry_AddEntry = (\<lambda>i xs. xs @ [i]), ListEntry_RemoveEntry = (\<lambda>i xs. filter (\<lambda>j. j \<noteq> i) xs)\<rparr>"

lemma sample_lists_ok: "lists_ok sample_lists"
proof -
  have "Suc (Max (insert 0 U)) \<notin> U" if f: "finite U" for U :: "nat set"
  proof
    assume "Suc (Max (insert 0 U)) \<in> U"
    then have "Suc (Max (insert 0 U)) \<le> Max (insert 0 U)" using f by (intro Max_ge) auto
    then show False by simp
  qed
  then show ?thesis by (auto simp: lists_ok_def sample_lists_def)
qed

text \<open>Register memory of each core as a function from addresses to bytes.\<close>

definition reg_memory :: "(nat \<Rightarrow> memory) mem_ops" where
  "reg_memory = \<lparr>device_get_data16 = (\<lambda>a m. mem_read16 (m 0) a), mpu_pointer_ok = (\<lambda>_ _ _. True),
     ptr_get8 = (\<lambda>k a m. m k a), ptr_put8 = (\<lambda>k a v m. m(k := (m k)(a := v))),
     ptr_get16 = (\<lambda>k a m. mem_read16 (m k) a), ptr_put16 = (\<lambda>k a v m. m(k := mem_write16 a v (m k))),
     ptr_get32 = (\<lambda>k a m. mem_read32 (m k) a), ptr_put32 = (\<lambda>k a v m. m(k := mem_write32 a v (m k))),
     mpu_get_data32 = (\<lambda>k a m. Some (mem_read32 (m k) a))\<rparr>"

lemma reg_memory_simps [simp]:
  "device_get_data16 reg_memory a m = mem_read16 (m 0) a"
  "mpu_pointer_ok reg_memory k a m"
  "ptr_get16 reg_memory k a m = mem_read16 (m k) a"
  "ptr_put16 reg_memory k a v m = m(k := mem_write16 a v (m k))"
  "ptr_get8 reg_memory k a m = m k a"
  "ptr_put8 reg_memory k a w m = m(k := (m k)(a := w))"
  by (simp_all add: reg_memory_def)

definition sample_boot :: "(memory, nat \<Rightarrow> memory) IntcState" where
  "sample_boot = \<lparr>cpus = (\<lambda>_. sample_core blank_code (\<lambda>i. ucast i) 0 (\<lambda>_. 0)),
     intc_control = (\<lambda>_. \<lparr>current_exception = None, exception_queue = (\<lambda>_. []), user_queue = [],
        entries = (\<lambda>_. \<lparr>status = ExceptionRequestStatus_PENDING, coreId = 0, exno = ExceptionId_RESET,
          intno = 0, priority_degree = 0\<rparr>)\<rparr>),
     icmem = (\<lambda>_ _. 0)\<rparr>"

definition sample_ready :: "(memory, nat \<Rightarrow> memory) IntcState" where
  "sample_ready = (device_init_intc reg_memory 1 sample_boot)\<lparr>cpus := cpus sample_boot, icmem := \<lambda>_ _. 0\<rparr>"

lemma ready_control: "intc_control sample_ready = intc_control sample_boot"
  by (auto simp: sample_ready_def device_init_intc_def device_init_intc_UserIntr_def sample_boot_def Let_def
      cong: if_cong)

lemma ready_simps [simp]: "cpus sample_ready = cpus sample_boot" "icmem sample_ready = (\<lambda>_ _. 0)"
  by (simp_all add: sample_ready_def)

lemma run_ready: "intc_run reg_memory L 1 sample_ready"
  unfolding sample_ready_def by (intro run_guest run_init)

section \<open>The invariant\<close>




section \<open>The assertions\<close>

lemma judge_user_icmem: "judge_pending_UserIntr M L k s = Some t \<Longrightarrow> icmem t = icmem s"
  by (auto simp: judge_pending_UserIntr_def judge_mask_and_priority_UserIntr_def judge_cpu_mask_UserIntr_def
      intc_set_user_intr_state_priority_degree_masked_def Let_def split: option.splits if_splits)

lemma can_raise_icmem: "icmem (snd (can_raise_Exception e s)) = icmem s"
  by (simp add: can_raise_Exception_def Let_def)

lemma judge_icmem:
  assumes "judge_pending_Exception M k s = (r, u)"
  shows "icmem u = icmem s"
proof (cases rule: judge_search [of s k M])
  case (none t)
  then show ?thesis using assms by (simp add: icsr_only_def)
next
  case (some t l i)
  have t: "icmem t = icmem s" using some(1) by (simp add: icsr_only_def)
  have sp: "(case current_exception (intc_control s k) of None \<Rightarrow> (IntcPriorityLevel_Num - 1, 0xFFFFFFFF)
       | Some i \<Rightarrow> (intc_get_exception_priority_level (exno (entries (intc_control s k) i)),
           priority_degree (entries (intc_control s k) i))) =
       (search_top (intc_control s k), search_bound (intc_control s k))"
    by (simp add: search_top_def search_bound_def split: option.split)
  show ?thesis
    using assms t unfolding judge_pending_Exception_def Let_def sp prod.case some(6)
    by (auto simp: intc_set_user_intr_state_priority_degree_masked_def Let_def
        dest!: arg_cong [where f = "\<lambda>x. icmem (snd x)"] simp del: upt_Suc
        simp: can_raise_icmem split: option.splits if_splits prod.splits)
qed


lemma raise_defined:
  fixes s :: "('b, 'm) IntcState"
  assumes "current_exception (intc_control s k) = Some i"
    and "status (entries (intc_control s k) i) = ExceptionRequestStatus_RUNNING"
    and "coreId (entries (intc_control s k) i) = k"
    and "exno (entries (intc_control s k) i) \<noteq> ExceptionId_UserIntr \<Longrightarrow>
      intno (entries (intc_control s k) i) = 0 \<and> \<not> intc_is_devsetting_tableref M 0 s"
  shows "raise_Exception M L k i s \<noteq> None"
proof -
  let ?e = "entries (intc_control s k) i"
  have h: "intc_get_exception_handler_addr M k (exno ?e) (intno ?e) (upd_cpu k f t) \<noteq> None"
    if "exno ?e \<noteq> ExceptionId_UserIntr \<Longrightarrow> icmem t = icmem s" for f and t :: "('b, 'm) IntcState"
  proof (cases "exno ?e = ExceptionId_UserIntr")
    case True
    then show ?thesis
      by (simp add: intc_get_exception_handler_addr_def intc_get_handler_addr_intbp_def Let_def
          split: HandlerAddressRefMethodType.split option.split)
  next
    case False
    then have "intc_get_addr_refmethod M k (intno ?e) (upd_cpu k f t) \<noteq> HandlerAddressRefMethod_TABLE"
      using assms(4) that by (simp add: intc_get_addr_refmethod_def intc_is_devsetting_tableref_def Let_def)
    then show ?thesis
      by (simp add: intc_get_exception_handler_addr_def split: HandlerAddressRefMethodType.split)
  qed
  have "intc_get_exception_handler_addr M k (exno ?e) (intno ?e)
      (upd_cpu k f (if exno ?e = ExceptionId_UserIntr then hook_UserIntr_Raised M L ?e s else s)) \<noteq> None" for f
    by (rule h) simp
  moreover have "(case x of None \<Rightarrow> None | Some (a, t) \<Rightarrow> Some (F a t)) \<noteq> None" if "x \<noteq> None"
    for x :: "(u32 \<times> ('b, 'm) IntcState) option" and F :: "u32 \<Rightarrow> ('b, 'm) IntcState \<Rightarrow> ('b, 'm) IntcState"
    using that by (cases x) auto
  ultimately show ?thesis
    unfolding raise_Exception_def Let_def assms(1-3) by simp
qed

lemma core_clock_some:
  fixes s :: "('b, 'm) IntcState"
  assumes "intc_inv n s" and "lists_ok L" and "k < n" and "\<not> intc_is_devsetting_tableref M 0 s"
  shows "intc_core_clock M L k s \<noteq> None"
proof -
  obtain t where t: "judge_pending_UserIntr M L k s = Some t" "intc_inv n t"
    using judge_user_inv [OF assms(2,1,3)] by blast
  obtain r u where u: "judge_pending_Exception M k t = (r, u)" by (cases "judge_pending_Exception M k t") auto
  have m: "icmem u = icmem s" using judge_icmem [OF u] judge_user_icmem [OF t(1)] by simp
  have "raise_Exception M L k i u \<noteq> None" if "r = Some i" for i
    using judge_inv(2) [OF t(2) assms(3) u that] assms(4)
    by (intro raise_defined) (auto simp: intc_is_devsetting_tableref_def m)
  then show ?thesis using t(1) u by (auto simp: intc_core_clock_def split: option.split)
qed



section \<open>The choice of the exception\<close>

text \<open>C4: The controller enters the right exception.  If it enters one, then that one is, at the
  first level with an eligible entry below the bound, an entry of least degree; no earlier level has
  an eligible entry below the bound; the PSW permits it; and it is now current and running.  If it
  enters none, then no level has an eligible entry below the bound, or the chosen one had been
  interrupted and is current again, or the PSW does not permit it and the current one stays.  (The
  bound and the last level are those of the current exception; a user interrupt masked by PMR is
  not eligible.)\<close>

lemma exception_choice:
  fixes s :: "('b, 'm) IntcState" and k :: nat and M :: "'m mem_ops"
  defines "c \<equiv> intc_control s k"
  defines "best \<equiv> \<lambda>l i. l \<le> search_top c \<and> chosen M c s (search_bound c) l i \<and>
      (\<forall>l'<l. none_below M c s (search_bound c) l')"
    and "now \<equiv> \<lambda>u :: ('b, 'm) IntcState. current_exception (intc_control u k)"
  shows "\<exists>u. (\<exists>l i. judge_pending_Exception M k s = (Some i, u) \<and> best l i \<and> now u = Some i \<and>
        psw_permits (entries c i) (cpus s (coreId (entries c i))) \<and>
        status (entries (intc_control u k) i) = ExceptionRequestStatus_RUNNING) \<or>
     judge_pending_Exception M k s = (None, u) \<and>
       ((\<forall>l\<in>{..search_top c}. none_below M c s (search_bound c) l) \<and> now u = now s \<or>
        (\<exists>l i. best l i \<and> status (entries c i) = ExceptionRequestStatus_WAITING \<and> now u = Some i) \<or>
        (\<exists>l i. best l i \<and> \<not> psw_permits (entries c i) (cpus s (coreId (entries c i))) \<and> now u = now s))"
proof (cases rule: judge_search [of s k M])
  case (none t)
  then show ?thesis by (auto simp: c_def now_def icsr_only_def)
next
  case (some t l i)
  then have b: "best l i" by (simp add: best_def c_def)
  note j = judge_some [OF some(1,5,6), folded c_def]
  have p: "current_exception (preempt c) = current_exception c"
    by (simp add: preempt_def set_status_def split: option.split)
  show ?thesis
    using j b p unfolding now_def
    by (cases "status (entries c i) = ExceptionRequestStatus_WAITING";
        cases "psw_permits (entries c i) (cpus s (coreId (entries c i)))")
      (fastforce simp: enter_def set_status_def c_def)+
qed


definition sample_mip :: "(memory, nat \<Rightarrow> memory) IntcState" where
  "sample_mip = intc_raise_exception reg_memory sample_lists 0 ExceptionId_MIP sample_ready"

lemma sample_mip_simps [simp]:
  "current_exception (intc_control sample_mip 0) = None"
  "exception_queue (intc_control sample_mip 0) l = (if l = 9 then [Suc 0] else [])"
  "entries (intc_control sample_mip 0) (Suc 0) = \<lparr>status = ExceptionRequestStatus_RUNNABLE, coreId = 0,
     exno = ExceptionId_MIP, intno = 0, priority_degree = 0xFFFF\<rparr>"
  by (simp_all add: sample_mip_def intc_raise_exception_def intc_get_exception_priority_level_def fe_abort_def
      Let_def add_exception_def alloc_entry_def sample_lists_def in_use_def ready_control sample_boot_def
      intc_get_exception_priority_degree_def)

lemma exception_choice_witness:
  "\<exists>u. judge_pending_Exception reg_memory 0 sample_mip = (Some 1, u) \<and>
     current_exception (intc_control u 0) = Some 1"
proof -
  have top: "search_top (intc_control sample_mip 0) = 15" "search_bound (intc_control sample_mip 0) = 0xFFFFFFFF"
    by (simp_all add: search_top_def search_bound_def)
  have m: "\<not> pmr_masked reg_memory (entries (intc_control sample_mip 0) 1) sample_mip"
    by (simp add: pmr_masked_def)
  have n: "\<not> none_below reg_memory (intc_control sample_mip 0) sample_mip 0xFFFFFFFF 9"
    using m by (simp add: none_below_def)
  have c: "i = 1" if "chosen reg_memory (intc_control sample_mip 0) sample_mip x l i" for x l i
    using that by (auto simp: chosen_def split: if_splits)
  have p: "psw_permits (entries (intc_control sample_mip 0) 1) cpu" for cpu :: "memory TargetCoreType"
    by (simp add: psw_permits_def fe_abort_def)
  have e: "status (entries (intc_control sample_mip 0) 1) \<noteq> ExceptionRequestStatus_WAITING" by simp
  have "(9::nat) \<in> {..15}" by simp
  with exception_choice [of reg_memory 0 sample_mip] n c p e show ?thesis
    unfolding top by (elim exE disjE conjE) (blast | metis)+
qed

section \<open>Degrees and levels\<close>

text \<open>The bound of the search is the degree of the current exception even for the levels above
  it.  So while a user interrupt of the highest priority runs, a non maskable interrupt (a request of
  a higher level) is not entered: its degree is not smaller.\<close>

lemma nmi_waits:
  fixes s :: "('b, 'm) IntcState" and k :: nat
  defines "c \<equiv> intc_control s k"
  assumes "lists_ok L" and "ctrl_ok k c" and "current_exception c = Some j"
    and "exno (entries c j) = ExceptionId_UserIntr" and "priority_degree (entries c j) \<le> 0xFFFF"
    and "\<forall>l\<le>3. none_below M c s (priority_degree (entries c j)) l"
  shows "fst (judge_pending_Exception M k (intc_raise_exception M L k ExceptionId_FENMI s)) = None"
proof -
  let ?s = "intc_raise_exception M L k ExceptionId_FENMI s"
  let ?c = "intc_control ?s k" and ?i = "ListEntry_Alloc L (in_use c)"
  note fresh = alloc_fresh [OF assms(2), where c = c]
  have cur: "current_exception ?c = Some j" "entries ?c j = entries c j"
    using assms(4) fresh(3)
    by (auto simp: intc_raise_exception_def Let_def add_exception_def alloc_entry_def c_def)
  have q: "set (exception_queue ?c l) \<subseteq> insert ?i (set (exception_queue c l))" if "l < 16" for l
  proof -
    have "distinct (exception_queue c l)" using assms(3) that by (simp add: ctrl_ok_def)
    then have "set (ListEntry_AddEntry L ?i (exception_queue c l)) = insert ?i (set (exception_queue c l))"
      using assms(2) fresh(2) [OF that] unfolding lists_ok_def by blast
    then show ?thesis
      by (auto simp: intc_raise_exception_def Let_def add_exception_def alloc_entry_def c_def)
  qed
  have e: "entries ?c i = (if i = ?i then \<lparr>status = ExceptionRequestStatus_RUNNABLE, coreId = k,
      exno = ExceptionId_FENMI, intno = 0, priority_degree = 0xFFFF\<rparr> else entries c i)" for i
    by (simp add: intc_raise_exception_def Let_def add_exception_def alloc_entry_def c_def
        intc_get_exception_priority_degree_def fe_abort_def)
  have pm: "pmr_masked M d ?s = pmr_masked M d s" for d
    by (simp add: pmr_masked_def intc_get_mask_priority_degree_def intc_get_user_intr_priority_degree_def
        intc_raise_exception_def Let_def)
  have nb: "none_below M ?c ?s (priority_degree (entries c j)) l" if "l \<le> 3" for l
    using q [of l] assms(6,7) that unfolding none_below_def pm e by fastforce
  have top: "search_top ?c = 3" "search_bound ?c = priority_degree (entries c j)"
    using assms(5) by (simp_all add: search_top_def search_bound_def cur intc_get_exception_priority_level_def ei_entry_def)
  show ?thesis
  proof (cases rule: judge_search [of ?s k M])
    case (some t l i)
    have "l \<le> 3" using some(2) top(1) by simp
    then have "none_below M ?c ?s (search_bound ?c) l" using nb top(2) by simp
    then show ?thesis using some(3) by (auto simp: chosen_def none_below_def not_le [symmetric])
  qed simp
qed


definition sample_serving :: "(memory, nat \<Rightarrow> memory) IntcState" where
  "sample_serving = sample_boot\<lparr>intc_control := (\<lambda>_. \<lparr>current_exception = Some 1,
     exception_queue = (\<lambda>l. if l = 3 then [1] else []), user_queue = [],
     entries = (\<lambda>_. \<lparr>status = ExceptionRequestStatus_RUNNING, coreId = 0, exno = ExceptionId_UserIntr,
       intno = 5, priority_degree = 5\<rparr>)\<rparr>)\<rparr>"

lemma nmi_waits_witness:
  "fst (judge_pending_Exception reg_memory 0
     (intc_raise_exception reg_memory sample_lists 0 ExceptionId_FENMI sample_serving)) = None"
  by (rule nmi_waits [where j = 1, OF sample_lists_ok])
    (simp_all add: sample_serving_def ctrl_ok_def none_below_def intc_get_exception_priority_level_def ei_entry_def)

section \<open>Entry and return\<close>

lemma update_psw_put: "update_psw m x g = (case x of ExceptionUpdatePswOp_SET \<Rightarrow> put_flag m True g
    | ExceptionUpdatePswOp_CLR \<Rightarrow> put_flag m False g | ExceptionUpdatePswOp_SAVE \<Rightarrow> g)"
  by (simp add: update_psw_def put_flag_def split: ExceptionUpdatePswOpType.split)

lemma config_psw:
  assumes "e \<noteq> ExceptionId_Num"
  shows "info_ID (exception_config e) = ExceptionUpdatePswOp_SET" and
    "info_UM (exception_config e) = ExceptionUpdatePswOp_CLR"
  using assms by (cases e; simp add: fe_abort_def ei_entry_def)+

lemma enter_regs_saved:
  "regs (enter_regs cfg code g) = regs g"
  "exc_level cfg = ExceptionLevel_FE \<Longrightarrow> cpu_base SYS_REG_FEPC (enter_regs cfg code g) = pc g \<and>
     cpu_base SYS_REG_FEPSW (enter_regs cfg code g) = cpu_base SYS_REG_PSW g"
  "exc_level cfg \<noteq> ExceptionLevel_FE \<Longrightarrow> cpu_base SYS_REG_EIPC (enter_regs cfg code g) = pc g \<and>
     cpu_base SYS_REG_EIPSW (enter_regs cfg code g) = cpu_base SYS_REG_PSW g"
  by (simp_all add: enter_regs_def Let_def update_psw_put split: ExceptionUpdatePswOpType.split)

lemma enter_regs_mode:
  assumes "info_ID cfg = ExceptionUpdatePswOp_SET" and "info_UM cfg = ExceptionUpdatePswOp_CLR"
  shows "CPU_ISSET CPU_PSW_ID (enter_regs cfg code g)" and "\<not> CPU_ISSET CPU_PSW_UM (enter_regs cfg code g)"
  using assms by (auto simp: enter_regs_def Let_def update_psw_put split: ExceptionUpdatePswOpType.split)


lemma put_sysreg2_base [simp]:
  "cpu_base i (cpu_set_sysreg2 SYS_GRP_2 x v g) = cpu_base i g"
  "pc (cpu_set_sysreg2 y x v g) = pc g" "regs (cpu_set_sysreg2 y x v g) = regs g"
  by (simp_all add: cpu_base_def cpu_set_sysreg2_def)

definition same_base :: "'b TargetCoreType \<Rightarrow> 'b TargetCoreType \<Rightarrow> bool" where
  "same_base c c' \<longleftrightarrow> pc (reg c') = pc (reg c) \<and> regs (reg c') = regs (reg c) \<and>
     (\<forall>i. cpu_base i (reg c') = cpu_base i (reg c))"

lemma hook_same_base: "same_base (cpus s k) (cpus (hook_UserIntr_Raised M L e s) k)"
  by (auto simp: same_base_def hook_UserIntr_Raised_def Let_def intc_set_user_intr_reqflag_def put_sysreg2_def
      intc_set_current_user_intr_priority_degree_def split: option.split)

lemma handler_addr_cpu:
  "intc_get_exception_handler_addr M k e n s = Some (a, t) \<Longrightarrow> reg (cpus t j) = reg (cpus s j)"
  by (auto simp: intc_get_exception_handler_addr_def intc_get_handler_addr_intbp_def Let_def
      split: HandlerAddressRefMethodType.splits option.splits if_splits)

lemma raise_regs:
  fixes s :: "('b, 'm) IntcState" and i k :: nat
  defines "e \<equiv> entries (intc_control s k) i"
  assumes "raise_Exception M L k i s = Some t" and "coreId e = k"
  shows "\<exists>c code a. same_base (cpus s k) c \<and>
    reg (cpus t k) = (enter_regs (exception_config (exno e)) code (reg c))\<lparr>pc := a\<rparr>"
proof -
  let ?s1 = "if exno e = ExceptionId_UserIntr then hook_UserIntr_Raised M L e s else s"
  have "same_base (cpus s k) (cpus ?s1 k)"
    using hook_same_base [of s k M L e] by (simp add: same_base_def)
  moreover obtain code a u where
    h: "intc_get_exception_handler_addr M k (exno e) (intno e)
      (upd_cpu k (\<lambda>cpu. cpu\<lparr>reg := enter_regs (exception_config (exno e)) code (reg cpu)\<rparr>) ?s1) = Some (a, u)"
    and t: "t = upd_cpu k (\<lambda>cpu. cpu\<lparr>reg := (reg cpu)\<lparr>pc := a\<rparr>, is_halt := False\<rparr>) u"
    using assms(2,3) unfolding raise_Exception_def Let_def e_def
    by (auto split: option.splits prod.splits if_splits)
  moreover have "reg (cpus t k) = (enter_regs (exception_config (exno e)) code (reg (cpus ?s1 k)))\<lparr>pc := a\<rparr>"
    using handler_addr_cpu [OF h, of k] by (simp add: t)
  ultimately show ?thesis by blast
qed

lemma even_masked: "x AND 1 = 0 \<Longrightarrow> x AND 0xFFFFFFFE = (x :: u32)"
proof -
  assume b: "x AND 1 = 0"
  have "x AND NOT 1 = x"
  proof (rule bit_word_eqI)
    fix n
    have "\<not> bit x 0" using b by (simp add: and_one_eq bit_0 odd_iff_mod_2_eq_one)
    then show "bit (x AND NOT 1) n = bit x n" if "n < LENGTH(32)"
      using that by (cases n) (auto simp: bit_simps)
  qed
  moreover have "NOT 1 = (0xFFFFFFFE :: u32)" by simp
  ultimately show ?thesis by metis
qed

text \<open>C7: Entry and return.  After the controller has entered an exception, the core runs in
  supervisor mode with interrupts disabled; and the return instruction of the exception's kind
  (FERET or EIRET), executed in this state on a bus whose end-of-exception call leaves program
  counter, PSW and general registers alone, resumes at the interrupted instruction with the old PSW
  and registers.\<close>

lemma entry_return:
  fixes s t :: "('b, 'm) IntcState" and i k :: nat
  defines "e \<equiv> entries (intc_control s k) i"
  assumes "raise_Exception M L k i s = Some t" and "exno e \<noteq> ExceptionId_Num" and "coreId e = k"
    and "pc (reg (cpus s k)) AND 1 = 0"
    and "\<And>c x. same_base c (intc_clr_ei B x c)" and "\<And>c x. same_base c (intc_clr_fe B x c)"
  shows "CPU_ISSET CPU_PSW_ID (reg (cpus t k)) \<and> \<not> CPU_ISSET CPU_PSW_UM (reg (cpus t k)) \<and>
    (\<exists>c. (if exc_level (exception_config (exno e)) = ExceptionLevel_FE then op_exec_feret_10 B else op_exec_eiret_10 B)
        (cpus t k) = Ret0 c \<and>
      pc (reg c) = pc (reg (cpus s k)) \<and> regs (reg c) = regs (reg (cpus s k)) \<and>
      cpu_base SYS_REG_PSW (reg c) = cpu_base SYS_REG_PSW (reg (cpus s k)))"
proof -
  let ?cfg = "exception_config (exno e)"
  obtain c code a where c: "same_base (cpus s k) c" and r: "reg (cpus t k) = (enter_regs ?cfg code (reg c))\<lparr>pc := a\<rparr>"
    using raise_regs [OF assms(2)] assms(4) unfolding e_def by blast
  have base: "cpu_base x (g\<lparr>pc := p\<rparr>) = cpu_base x g" for x p g by (simp add: cpu_base_def get_sys_cell_def)
  have flag: "CPU_ISSET x (g\<lparr>pc := p\<rparr>) = CPU_ISSET x g" for x p g by (simp add: CPU_ISSET_def base)
  have mode: "CPU_ISSET CPU_PSW_ID (reg (cpus t k)) \<and> \<not> CPU_ISSET CPU_PSW_UM (reg (cpus t k))"
    using enter_regs_mode [OF config_psw [OF assms(3)]] by (simp add: r flag)
  have clr: "pc (reg (intc_clr_ei B x u)) = pc (reg u)" "regs (reg (intc_clr_ei B x u)) = regs (reg u)"
      "cpu_base y (reg (intc_clr_ei B x u)) = cpu_base y (reg u)"
      "pc (reg (intc_clr_fe B x u)) = pc (reg u)" "regs (reg (intc_clr_fe B x u)) = regs (reg u)"
      "cpu_base y (reg (intc_clr_fe B x u)) = cpu_base y (reg u)" for x y u
    using assms(6,7) by (simp_all add: same_base_def)
  have s: "pc (reg c) = pc (reg (cpus s k))" "regs (reg c) = regs (reg (cpus s k))"
      "cpu_base y (reg c) = cpu_base y (reg (cpus s k))" for y
    using c by (simp_all add: same_base_def)
  have "\<exists>c'. (if exc_level ?cfg = ExceptionLevel_FE then op_exec_feret_10 B else op_exec_eiret_10 B) (cpus t k) = Ret0 c' \<and>
      pc (reg c') = pc (reg c) AND 0xFFFFFFFE \<and> regs (reg c') = regs (reg c) \<and>
      cpu_base SYS_REG_PSW (reg c') = cpu_base SYS_REG_PSW (reg c)"
    by (simp add: op_exec_feret_10_def op_exec_eiret_10_def SYS_REG_EIPC_GET_def SYS_REG_FEPC_GET_def Let_def
        clr r base enter_regs_saved)
  then show ?thesis using mode even_masked [OF assms(5)] by (simp add: s)
qed


lemma entry_return_witness:
  "\<exists>t. raise_Exception reg_memory sample_lists 0 1 sample_serving = Some t \<and>
     (\<exists>c. op_exec_eiret_10 flat_bus (cpus t 0) = Ret0 c \<and> pc (reg c) = 0 \<and> cpu_base SYS_REG_PSW (reg c) = 0)"
proof -
  have d: "raise_Exception reg_memory sample_lists 0 1 sample_serving \<noteq> None"
    by (rule raise_defined) (simp_all add: sample_serving_def)
  then obtain t where t: "raise_Exception reg_memory sample_lists 0 1 sample_serving = Some t" by blast
  have e: "entries (intc_control sample_serving 0) 1 = \<lparr>status = ExceptionRequestStatus_RUNNING, coreId = 0,
      exno = ExceptionId_UserIntr, intno = 5, priority_degree = 5\<rparr>"
    by (simp add: sample_serving_def)
  have b: "pc (reg (cpus sample_serving 0)) = 0" "cpu_base SYS_REG_PSW (reg (cpus sample_serving 0)) = 0"
    by (simp_all add: sample_serving_def sample_boot_def)
  show ?thesis
    using entry_return [where i = 1 and k = 0 and B = flat_bus, OF t] t
    by (auto simp: e b ei_entry_def same_base_def simp del: One_nat_def)
qed

section \<open>The mask registers\<close>

text \<open>The register memory keeps the control registers of different interrupts and the mask registers
  apart.\<close>

definition ic_memory_ok :: "'m mem_ops \<Rightarrow> nat \<Rightarrow> bool" where
  "ic_memory_ok M k \<longleftrightarrow> (\<forall>n m. n < 358 \<longrightarrow> mpu_pointer_ok M k (IC_ADDRESS n) m \<and>
     (\<forall>n' v. n' < 358 \<longrightarrow> ptr_get16 M k (IC_ADDRESS n) (ptr_put16 M k (IC_ADDRESS n') v m) =
        (if n = n' then v else ptr_get16 M k (IC_ADDRESS n) m)) \<and>
     (\<forall>r v. r < 12 \<longrightarrow> ptr_get16 M k (IC_ADDRESS n) (ptr_put32 M k (0xFFFFB400 + r * 4) v m) =
        ptr_get16 M k (IC_ADDRESS n) m))"

lemma mask_bit [simp]: "IC_ISSET_INTMASK (IC_SET_INTMASK v)" "\<not> IC_ISSET_INTMASK (IC_CLR_INTMASK v)"
proof -
  have b: "IC_ISSET_INTMASK w = bit w 7" for w
    unfolding IC_ISSET_INTMASK_def bit_iff_and_push_bit_not_eq_0 ..
  show "IC_ISSET_INTMASK (IC_SET_INTMASK v)" "\<not> IC_ISSET_INTMASK (IC_CLR_INTMASK v)"
    by (simp_all add: b IC_SET_INTMASK_def IC_CLR_INTMASK_def bit_simps)
qed

lemma imr_loop_spec:
  assumes "ic_memory_ok M k" and "distinct (map fst xs)" and "\<forall>n\<in>set (map fst xs). n < 358"
  shows "\<exists>m'. imr_loop M k xs m = (INTC_OK, m') \<and>
     (\<forall>(n, b)\<in>set xs. IC_ISSET_INTMASK (ptr_get16 M k (IC_ADDRESS n) m') = b) \<and>
     (\<forall>n<358. n \<notin> set (map fst xs) \<longrightarrow> ptr_get16 M k (IC_ADDRESS n) m' = ptr_get16 M k (IC_ADDRESS n) m)"
  using assms(2,3)
proof (induction xs arbitrary: m)
  case (Cons x xs)
  obtain n b where x: "x = (n, b)" by (cases x)
  let ?v = "ptr_get16 M k (IC_ADDRESS n) m"
  let ?m = "ptr_put16 M k (IC_ADDRESS n) (if b then IC_SET_INTMASK ?v else IC_CLR_INTMASK ?v) m"
  have n: "n < 358" "n \<notin> set (map fst xs)" using Cons.prems by (auto simp: x)
  obtain m' where m': "imr_loop M k xs ?m = (INTC_OK, m')"
      "\<forall>(n, b)\<in>set xs. IC_ISSET_INTMASK (ptr_get16 M k (IC_ADDRESS n) m') = b"
      "\<forall>n<358. n \<notin> set (map fst xs) \<longrightarrow> ptr_get16 M k (IC_ADDRESS n) m' = ptr_get16 M k (IC_ADDRESS n) ?m"
    using Cons.IH [of ?m] Cons.prems by auto
  have g: "j < 358 \<Longrightarrow> ptr_get16 M k (IC_ADDRESS j) ?m =
      (if j = n then (if b then IC_SET_INTMASK ?v else IC_CLR_INTMASK ?v) else ptr_get16 M k (IC_ADDRESS j) m)" for j
    using assms(1) n(1) unfolding ic_memory_ok_def by auto
  have p: "mpu_pointer_ok M k (IC_ADDRESS n) m" using assms(1) n(1) by (simp add: ic_memory_ok_def)
  have "IC_ISSET_INTMASK (ptr_get16 M k (IC_ADDRESS n) m') = b"
    using m'(3) n g [OF n(1)] by simp
  then show ?case
    using m' g p by (intro exI [of _ m']) (auto simp: x Let_def)
qed simp


lemma imr_number:
  assumes "r \<le> 11"
  shows "intc2_conv_imraddr2imrno (0xFFFFB400 + r * 4) = ucast r" and "ucast (ucast r :: u8) = (r :: u32)"
proof -
  have u: "unat r \<le> 11" using assms by (simp add: word_le_nat_alt)
  have "unat (r * 4) = unat r * 4" using u by (simp add: unat_word_ariths(2))
  then have "unat (r * 4 div 4) = unat r" by (simp add: unat_div_distrib)
  then have "r * 4 div 4 = r" by (simp only: word_unat_eq_iff)
  then show "intc2_conv_imraddr2imrno (0xFFFFB400 + r * 4) = ucast r"
    by (simp add: intc2_conv_imraddr2imrno_def)
  have "unat (ucast (ucast r :: u8) :: u32) = unat r"
    using u by (simp add: unsigned_ucast_eq unsigned_take_bit_eq take_bit_nat_eq_self)
  then show "ucast (ucast r :: u8) = (r :: u32)" by (simp only: word_unat_eq_iff)
qed

definition imr_work :: "u32 \<Rightarrow> u32 \<Rightarrow> (u32 \<times> bool) list" where
  "imr_work r v = map (\<lambda>b. (r * 32 + of_nat b, bit v b)) [0..<32]"

lemma imr_hook_work:
  assumes "r \<le> 11" and "\<not> CPU_ISSET CPU_PSW_UM (reg (cpus s k))"
  shows "intc_hook_update_imr M k (0xFFFFB400 + r * 4)
      [ucast v, ucast (drop_bit 8 v), ucast (drop_bit 16 v), ucast (drop_bit 24 v)] s =
    (case imr_loop M k (imr_work r v) (icmem s) of (err, m) \<Rightarrow> (err, s\<lparr>icmem := m\<rparr>))"
proof -
  have ge: "\<not> in_range (0xFFFFB400 + r * 4) 0xFFFEEAF0 0xFFFEEAF3"
  proof -
    have u: "unat r \<le> 11" using assms(1) by (simp add: word_le_nat_alt)
    then have "unat (0xFFFFB400 + r * 4) = 0xFFFFB400 + unat r * 4"
      by (simp add: unat_word_ariths)
    then show ?thesis by (simp add: in_range_def word_le_nat_alt)
  qed
  have b: "(x AND push_bit n 1 \<noteq> 0) = bit x n" for x :: u8 and n by (simp only: bit_iff_and_push_bit_not_eq_0)
  let ?d = "[ucast v, ucast (drop_bit 8 v), ucast (drop_bit 16 v), ucast (drop_bit 24 v)] :: u8 list"
  have w: "concat (map (\<lambda>byte. map (\<lambda>n. (r * 32 + of_nat (byte * 8 + n) +
        ucast (ucast (((0xFFFFB400 + r * 4) - (0xFFFFB400 + r * 4)) * 8) :: u8),
        ?d ! byte AND push_bit n 1 \<noteq> 0)) [0..<8]) [0..<length ?d]) = imr_work r v"
    unfolding b by (simp add: imr_work_def upt_rec bit_simps) (simp add: numeral_eq_Suc)
  show ?thesis
    unfolding intc_hook_update_imr_def Let_def
    by (simp only: assms(2) if_False ge prod.case imr_number [OF assms(1)] w)
qed


lemma imr_work_range:
  assumes "r \<le> 10"
  shows "distinct (map fst (imr_work r v))" and "\<forall>n\<in>set (map fst (imr_work r v)). n < 358"
    and "b < 32 \<Longrightarrow> (r * 32 + of_nat b, bit v b) \<in> set (imr_work r v)"
    and "n \<in> set (map fst (imr_work r v)) \<longleftrightarrow> n div 32 = r"
proof -
  have u: "unat r \<le> 10" using assms by (simp add: word_le_nat_alt)
  have n: "unat (r * 32 + of_nat b) = unat r * 32 + b" if "b < 32" for b
    using u that by (simp add: unat_word_ariths unat_of_nat)
  have w: "set (map fst (imr_work r v)) = (\<lambda>b. r * 32 + of_nat b) ` {..<32}"
    by (simp add: imr_work_def atLeast0LessThan image_image)
  show "distinct (map fst (imr_work r v))"
  proof -
    have "unat (of_nat b :: u32) = b" if "b < 32" for b using that by (simp add: unat_of_nat)
    then have "x = y" if "x < 32" "y < 32" "(of_nat x :: u32) = of_nat y" for x y using that by metis
    then show ?thesis by (auto simp: imr_work_def distinct_map inj_on_def)
  qed
  show "\<forall>n\<in>set (map fst (imr_work r v)). n < 358"
    unfolding w using n u by (auto simp: word_less_nat_alt)
  show "b < 32 \<Longrightarrow> (r * 32 + of_nat b, bit v b) \<in> set (imr_work r v)"
    by (auto simp: imr_work_def)
  show "n \<in> set (map fst (imr_work r v)) \<longleftrightarrow> n div 32 = r"
  proof
    assume "n \<in> set (map fst (imr_work r v))"
    then obtain b where b: "b < 32" "n = r * 32 + of_nat b" unfolding w by auto
    have "unat (n div 32) = unat r" using n [OF b(1)] b by (simp add: unat_div_distrib)
    then show "n div 32 = r" by (simp only: word_unat_eq_iff)
  next
    assume d: "n div 32 = r"
    have "unat r = unat n div 32" using d by (auto simp: unat_div_distrib)
    then have "unat n = unat (r * 32 + of_nat (unat n mod 32))" using n [of "unat n mod 32"] by simp
    then have "n = r * 32 + of_nat (unat n mod 32)" by (simp only: word_unat_eq_iff)
    then show "n \<in> set (map fst (imr_work r v))" unfolding w by (intro image_eqI [of _ _ "unat n mod 32"]) auto
  qed
qed

text \<open>A word written to a mask register of the second controller masks exactly the interrupts
  whose bits are set, of the thirty two that belong to it, and leaves the control registers of all
  other interrupts alone.\<close>

lemma mask_register_write:
  assumes "ic_memory_ok M k" and "r \<le> 10" and "\<not> CPU_ISSET CPU_PSW_UM (reg (cpus s k))"
  shows "\<exists>s'. intc_put_data32 M k (0xFFFFB400 + r * 4) v s = (INTC_OK, s') \<and>
     (\<forall>b<32. IC_ISSET_INTMASK (ptr_get16 M k (IC_ADDRESS (r * 32 + of_nat b)) (icmem s')) = bit v b) \<and>
     (\<forall>n<358. n div 32 \<noteq> r \<longrightarrow> ptr_get16 M k (IC_ADDRESS n) (icmem s') = ptr_get16 M k (IC_ADDRESS n) (icmem s))"
proof -
  let ?a = "0xFFFFB400 + r * 4"
  have u: "unat r \<le> 10" using assms(2) by (simp add: word_le_nat_alt)
  have ua: "unat ?a = 0xFFFFB400 + unat r * 4" using u by (simp add: unat_word_ariths)
  have r11: "r \<le> 11" "r < 12" using u by (simp_all add: word_le_nat_alt word_less_nat_alt)
  have a: "is_imr_addr ?a" using u by (simp add: is_imr_addr_def in_range_def word_le_nat_alt ua)
  have al: "?a mod 4 = 0"
  proof -
    have "unat (?a mod 4) = 0" by (simp add: unat_mod_distrib ua mod_add_left_eq [symmetric])
    then show ?thesis by (simp only: word_unat_eq_iff unat_0)
  qed
  obtain m where m: "imr_loop M k (imr_work r v) (icmem s) = (INTC_OK, m)"
      "\<forall>(n, b)\<in>set (imr_work r v). IC_ISSET_INTMASK (ptr_get16 M k (IC_ADDRESS n) m) = b"
      "\<forall>n<358. n \<notin> set (map fst (imr_work r v)) \<longrightarrow> ptr_get16 M k (IC_ADDRESS n) m = ptr_get16 M k (IC_ADDRESS n) (icmem s)"
    using imr_loop_spec [OF assms(1) imr_work_range(1,2) [OF assms(2)]] by blast
  have p: "intc_put_data32 M k ?a v s = (INTC_OK, s\<lparr>icmem := ptr_put32 M k ?a v m\<rparr>)"
    using a al imr_hook_work [OF r11(1) assms(3), of M v] m(1)
    by (simp add: intc_put_data32_def intc_hook_update_reg32_def)
  have g: "n < 358 \<Longrightarrow> ptr_get16 M k (IC_ADDRESS n) (ptr_put32 M k ?a v m) = ptr_get16 M k (IC_ADDRESS n) m" for n
    using assms(1) r11(2) unfolding ic_memory_ok_def by blast
  have b: "IC_ISSET_INTMASK (ptr_get16 M k (IC_ADDRESS (r * 32 + of_nat b)) m) = bit v b" "r * 32 + of_nat b < 358"
    if "b < 32" for b
    using m(2) imr_work_range(2,3) [OF assms(2), where v = v] that by force+
  show ?thesis
    using p g b m(3) imr_work_range(4) [OF assms(2), where v = v]
    by (intro exI [of _ "s\<lparr>icmem := ptr_put32 M k ?a v m\<rparr>"]) auto
qed

text \<open>A write of the mask bit of a control register is mirrored in the mask register only for the
  interrupts whose number is below eight modulo thirty two; for all others the hook stores back the
  byte it has read, because it goes through a pointer to a byte.\<close>

lemma mask_not_mirrored:
  fixes s :: "('b, 'm) IntcState" and M :: "'m mem_ops" and k :: nat
  defines "byte \<equiv> \<lambda>n. ptr_get8 M k (IMR_ADDRESS n) (icmem s)"
  assumes "n < 358" and "ic_addr2intno a = n" and "mpu_pointer_ok M k (IMR_ADDRESS n) (icmem s)"
  shows "intc_hook_update_ic_lowerbit M k a data s = (INTC_OK, s\<lparr>icmem := ptr_put8 M k (IMR_ADDRESS n)
     (if 8 \<le> n mod 32 then byte n
      else if IC_ISSET_INTMASK data then set_bit (unat (n mod 32)) (byte n) else unset_bit (unat (n mod 32)) (byte n)) (icmem s)\<rparr>)"
proof -
  have u: "unat (n mod 32) < 32" by (simp add: unat_mod_distrib)
  have le: "8 \<le> n mod 32 \<longleftrightarrow> 8 \<le> unat (n mod 32)" by (simp add: word_le_nat_alt)
  have set: "ucast ((ucast b :: u32) OR push_bit m 1) = (if 8 \<le> m then b else set_bit m b)" for b :: u8 and m
    by (rule bit_word_eqI) (auto simp: bit_simps)
  have clr: "ucast ((ucast b :: u32) AND NOT (push_bit m 1)) = (if 8 \<le> m then b else unset_bit m b)" for b :: u8 and m
    by (rule bit_word_eqI) (auto simp: bit_simps)
  show ?thesis
    using assms(3,4) unfolding intc_hook_update_ic_lowerbit_def Let_def le byte_def
    by (simp only: if_True if_False simp_thms set clr if_distrib [where f = "\<lambda>x. ucast (x :: u32) :: u8"] split: if_split) auto
qed

lemma ic_address_unat:
  assumes "n < 358"
  shows "unat (IC_ADDRESS n) = (if unat n \<le> 31 then 0xFFFEEA00 + unat n * 2 else 0xFFFFB000 + unat n * 2)"
proof -
  have u: "unat n < 358" using assms by (simp add: word_less_nat_alt)
  show ?thesis
  proof (cases "n \<le> 31")
    case True
    then have "unat n \<le> 31" by (simp add: word_le_nat_alt)
    then show ?thesis using True by (simp add: IC_ADDRESS_def unat_word_ariths)
  next
    case False
    then have f: "\<not> unat n \<le> 31" by (simp add: word_le_nat_alt)
    then have l: "32 \<le> n" "32 \<le> unat n" by (simp_all add: word_le_nat_alt)
    then have "unat (n - 32) = unat n - 32" by (simp add: unat_sub)
    then have "unat (IC_ADDRESS n) = 0xFFFFB040 + (unat n - 32) * 2"
      using False u l(2) by (simp add: IC_ADDRESS_def unat_word_ariths)
    moreover have "0xFFFFB040 + (unat n - 32) * 2 = 0xFFFFB000 + unat n * 2" using l(2) by linarith
    ultimately show ?thesis using f by simp
  qed
qed

lemma mem_write16_other: "a \<noteq> b \<Longrightarrow> a \<noteq> b + 1 \<Longrightarrow> a + 1 \<noteq> b \<Longrightarrow> mem_read16 (mem_write16 b v m) a = mem_read16 m a"
  by (auto simp: mem_read16_def mem_write16_def)


lemma ic_address_parity: "n < 358 \<Longrightarrow> even (unat (IC_ADDRESS n)) \<and> unat (IC_ADDRESS n) < 0xFFFFB400"
  by (simp add: ic_address_unat word_less_nat_alt)

lemma ic_address_inj: "n < 358 \<Longrightarrow> n' < 358 \<Longrightarrow> IC_ADDRESS n = IC_ADDRESS n' \<Longrightarrow> n = n'"
  using ic_address_unat [of n] ic_address_unat [of n']
  by (auto simp: word_less_nat_alt word_unat_eq_iff split: if_splits)

lemma reg_memory_ok: "ic_memory_ok reg_memory k"
proof -
  have s1: "unat (x + 1) = Suc (unat x)" if "unat x < 0xFFFFFFFF" for x :: u32
    using that by (simp add: unat_word_ariths)
  have rw: "mem_read16 (mem_write16 (IC_ADDRESS n') v m) (IC_ADDRESS n) = (if n = n' then v else mem_read16 m (IC_ADDRESS n))"
    if "n < 358" "n' < 358" for n n' v m
  proof (cases "n = n'")
    case False
    have "IC_ADDRESS n \<noteq> IC_ADDRESS n'" using ic_address_inj that False by blast
    moreover have "odd (unat (IC_ADDRESS n' + 1))" "odd (unat (IC_ADDRESS n + 1))"
      using ic_address_parity [OF that(1)] ic_address_parity [OF that(2)] s1 [of "IC_ADDRESS n"] s1 [of "IC_ADDRESS n'"]
      by simp_all
    then have "IC_ADDRESS n \<noteq> IC_ADDRESS n' + 1" "IC_ADDRESS n + 1 \<noteq> IC_ADDRESS n'"
      using ic_address_parity [OF that(1)] ic_address_parity [OF that(2)] by metis+
    ultimately show ?thesis using False mem_write16_other by simp
  qed (simp add: mem_read_write)
  have r32: "mem_read16 (mem_write32 (0xFFFFB400 + r * 4) v m) (IC_ADDRESS n) = mem_read16 m (IC_ADDRESS n)"
    if "n < 358" "r < 12" for n r v m
  proof -
    have u: "unat r < 12" using that(2) by (simp add: word_less_nat_alt)
    have b: "unat (0xFFFFB400 + r * 4 + c) = 0xFFFFB400 + unat r * 4 + unat c" if "c \<in> {0, 1, 2, 3}" for c
      using u that by (auto simp: unat_word_ariths)
    have "IC_ADDRESS n \<noteq> 0xFFFFB400 + r * 4 + c \<and> IC_ADDRESS n + 1 \<noteq> 0xFFFFB400 + r * 4 + c" if "c \<in> {0, 1, 2, 3}" for c
      using b [OF that] ic_address_parity [OF \<open>n < 358\<close>] s1 [of "IC_ADDRESS n"]
      by (auto simp: word_unat_eq_iff)
    from this [of 0] this [of 1] this [of 2] this [of 3] show ?thesis
      by (simp add: mem_read16_def mem_write32_def)
  qed
  show ?thesis
    unfolding ic_memory_ok_def using rw r32 by (auto simp: reg_memory_def)
qed

lemma mask_register_write_witness:
  "\<exists>s'. intc_put_data32 reg_memory 0 0xFFFFB404 0x10 sample_ready = (INTC_OK, s') \<and>
     IC_ISSET_INTMASK (ptr_get16 reg_memory 0 (IC_ADDRESS 36) (icmem s')) \<and>
     \<not> IC_ISSET_INTMASK (ptr_get16 reg_memory 0 (IC_ADDRESS 37) (icmem s'))"
proof -
  have um: "\<not> CPU_ISSET CPU_PSW_UM (reg (cpus sample_ready 0))"
    by (simp add: sample_boot_def CPU_ISSET_def)
  obtain s' where s': "intc_put_data32 reg_memory 0 (0xFFFFB400 + 1 * 4) 0x10 sample_ready = (INTC_OK, s')"
      and b: "\<forall>b<32. IC_ISSET_INTMASK (ptr_get16 reg_memory 0 (IC_ADDRESS (1 * 32 + of_nat b)) (icmem s')) = bit (0x10 :: u32) b"
    using mask_register_write [OF reg_memory_ok _ um, where r = 1 and v = "0x10"] by auto
  have "IC_ISSET_INTMASK (ptr_get16 reg_memory 0 (IC_ADDRESS (1 * 32 + of_nat 4)) (icmem s'))"
      "\<not> IC_ISSET_INTMASK (ptr_get16 reg_memory 0 (IC_ADDRESS (1 * 32 + of_nat 5)) (icmem s'))"
    using b [rule_format, of 4] b [rule_format, of 5] by (simp_all del: reg_memory_simps)
  then show ?thesis using s' by (intro exI [of _ s']) (simp del: reg_memory_simps)
qed

lemma mask_not_mirrored_witness:
  "intc_hook_update_ic_lowerbit reg_memory 0 (IC_ADDRESS 40) 0x80 sample_ready =
     (INTC_OK, sample_ready\<lparr>icmem := ptr_put8 reg_memory 0 (IMR_ADDRESS 40)
        (ptr_get8 reg_memory 0 (IMR_ADDRESS 40) (icmem sample_ready)) (icmem sample_ready)\<rparr>)"
  using mask_not_mirrored [where M = reg_memory and k = 0 and n = 40 and s = sample_ready and a = "IC_ADDRESS 40" and data = "0x80"]
  by (simp add: ic_addr2intno_def IC_ADDRESS_def)

end
