(* ===== verification/Can_State.thy ===== *)
theory Can_State
  imports Prelude
begin

text \<open>
  The data of the CAN controller: messages, receive and transmit buffers, the FIFO buffers, the
  transmit queue and history, the reception rules and the mode registers, as can_data.h,
  can_buffer.h, can_fifo.h, can_tx_queue.h, can_tx_history.h, can_rule.h, can_mode_channel.h and
  can_mode_global.h declare them.  A nested struct is flattened, the prefix of a field names the
  struct it stands in.  An array is a function of the index; that the code stays inside the
  declared bounds is a theorem of \<open>Can_Props\<close>, not an assumption.

  A transmit/receive FIFO keeps its messages in a union of two arrays.  The layout of the union
  is the compiler's, so its storage is a value of an abstract type with the accesses as
  parameters (\<open>can_env\<close>), as are the values of variables the code reads uninitialised.
\<close>

datatype can_err = E_OK | E_PERM | E_LIMIT | E_NOENT | E_INVALID

record CanDataType =
  d_ide :: bool
  d_rtr :: bool
  d_dlc :: u8
  d_label :: u16
  d_id :: u32
  d_data :: "u8 list"

record CanRxBufferType =
  rb_ide :: bool
  rb_rtr :: bool
  rb_id :: u32
  rb_dlc :: u8
  rb_label :: u16
  rb_body :: "u8 list"

record CanRxBufferControlType =
  rx_buffer_num :: u8
  rx_msgin_flag :: "nat \<Rightarrow> u32"
  rx_buf :: "nat \<Rightarrow> CanRxBufferType"

record CanTxBufferType =
  tb_req_tx :: bool
  tb_result :: u8
  tb_sending :: bool
  tb_ide :: bool
  tb_rtr :: bool
  tb_id :: u32
  tb_dlc :: u8
  tb_label :: u16
  tb_body :: "u8 list"

record CanTxBufferControlType =
  tx_intr_enable :: "nat \<Rightarrow> u32"
  tx_buf :: "nat \<Rightarrow> nat \<Rightarrow> CanTxBufferType"

record CanFifoControlType =
  fc_count :: u32
  fc_roff :: u32
  fc_woff :: u32

record CanRxFifoBufferType =
  rf_intr_timing_cnt :: u8
  rf_everytime :: bool
  rf_quelen :: u8
  rf_enable_intr :: bool
  rf_enable_fifo :: bool
  rf_intr :: bool
  rf_lost :: bool
  rf_full :: bool
  rf_empty :: bool
  rf_control :: CanFifoControlType
  rf_buffer :: "nat \<Rightarrow> CanRxBufferType"

record 'u CanTxRxFifoBufferType =
  cf_tx_bufno :: u32
  cf_mode :: u8
  cf_intr_timing_cnt :: u8
  cf_everytime :: bool
  cf_quelen :: u16
  cf_enable_tx_intr :: bool
  cf_enable_rx_intr :: bool
  cf_enable_fifo :: bool
  cf_tx_intr :: bool
  cf_rx_intr :: bool
  cf_lost :: bool
  cf_full :: bool
  cf_empty :: bool
  cf_control :: CanFifoControlType
  cf_buffer :: 'u

record CanTxQueueDataType =
  tq_req :: bool
  tq_msg :: CanDataType

record CanTxQueueType =
  tq_intr_factor :: bool
  tq_enable_intr :: bool
  tq_quelen :: u8
  tq_enable_queue :: bool
  tq_intr_req :: bool
  tq_is_full :: bool
  tq_is_empty :: bool
  tq_reqbufnum :: u8
  tq_data :: "nat \<Rightarrow> CanTxQueueDataType"

record CanTxHistoryDataType =
  hd_label :: u8
  hd_bufno :: u8
  hd_buftype :: u8

record CanTxHistoryType =
  th_select_tx_buffer :: bool
  th_select_intr_factor :: bool
  th_enable_intr :: bool
  th_enable_history :: bool
  th_intr :: bool
  th_ovr :: bool
  th_full :: bool
  th_empty :: bool
  th_control :: CanFifoControlType
  th_buffer :: "nat \<Rightarrow> CanTxHistoryDataType"

record CanRxRuleType =
  id_ide :: bool
  id_rtr :: bool
  id_canid :: u32
  mask_ide :: bool
  mask_rtr :: bool
  mask_canid :: u32
  fb_dlc :: u8
  fb_label :: u16
  fb_enable_rxbuffer :: bool
  fb_rxbuffer_number :: u8
  ff_txrx_fifo :: u32
  ff_rx_fifo :: u8

record CanRxRuleTableType =
  rt_enable_write :: bool
  rt_page_number :: u8
  rt_page :: "nat \<Rightarrow> nat \<Rightarrow> CanRxRuleType"

text \<open>
  The rules of a channel are pointers into the rule table: the page and the index in the page.
\<close>

record CanRxChannelRuleType =
  cr_rule_num :: u32
  cr_rule :: "nat \<Rightarrow> nat \<times> nat"

datatype ChannelModeType =
  ChannelMode_STOP | ChannelMode_RESET | ChannelMode_WAIT | ChannelMode_COMM

datatype ChannelModeCommType = ChannelModeComm_IDLE | ChannelModeComm_RX | ChannelModeComm_TX

record CanModeChannelType =
  cm_cid :: u32
  cm_mode :: ChannelModeType
  cm_comm_mode :: ChannelModeCommType
  cm_stop :: bool
  cm_select_mode :: u8
  cs_can_comm :: bool
  cs_receiving :: bool
  cs_sending :: bool
  cs_mode_stop :: bool
  cs_mode_wait :: bool
  cs_mode_reset :: bool

datatype GlobalModeType = GlobalMode_STOP | GlobalMode_RESET | GlobalMode_RUN | GlobalMode_TEST

record CanModeGlobalType =
  gm_mode :: GlobalModeType
  gc_enable_dlc_check :: bool
  gc_enable_tx_bufno_first :: bool
  gt_enable_tx_history :: bool
  gt_enable_dlc_error :: bool
  gt_enable_fifo_msglost :: bool
  gt_stop :: bool
  gt_select_mode :: u8
  gs_GSLPSTS :: bool
  gs_GHLTSTS :: bool
  gs_GRSTSTS :: bool
  gs_dlc_error :: bool
  gm_channel :: "nat \<Rightarrow> CanModeChannelType"

text \<open>
  The transmission in progress of a channel: the two function pointers of the C struct name the
  buffer, the FIFO or the queue, or are null.
\<close>

datatype tx_source = Src_NULL | Src_txbuffer | Src_txrxfifo | Src_txque

record CanTxReqType =
  tr_bufidx :: u32
  tr_txdata :: CanDataType
  tr_history :: CanTxHistoryDataType
  tr_get_txdata :: tx_source
  tr_notify_txdone :: tx_source

text \<open>
  The whole controller.  The last fields are the static variables of the register mapping and
  the memory behind the registers, by the offset from the base address.
\<close>

record 'u CanState =
  can_mode_global :: CanModeGlobalType
  can_rx_fifo_control :: "nat \<Rightarrow> CanRxFifoBufferType"
  can_txrx_fifo_control :: "nat \<Rightarrow> nat \<Rightarrow> 'u CanTxRxFifoBufferType"
  can_rx_buffer_control :: CanRxBufferControlType
  can_tx_buffer_control :: CanTxBufferControlType
  can_tx_queue :: "nat \<Rightarrow> CanTxQueueType"
  can_tx_history :: "nat \<Rightarrow> CanTxHistoryType"
  can_rx_number :: "nat \<Rightarrow> u32"
  can_rx_rule_table :: CanRxRuleTableType
  can_rx_channel_rule :: "nat \<Rightarrow> CanRxChannelRuleType"
  can_tx_control :: "nat \<Rightarrow> CanTxReqType"
  txrx_tx_fifodata :: CanDataType
  old_gslpr :: u32
  old_gmdc :: u32
  old_cslpr :: u32
  old_chmdc :: u32
  memory_data_CAN :: "u32 \<Rightarrow> u8"

record 'u can_env =
  get_rx :: "'u \<Rightarrow> nat \<Rightarrow> CanRxBufferType"
  put_rx :: "'u \<Rightarrow> nat \<Rightarrow> CanRxBufferType \<Rightarrow> 'u"
  get_tx :: "'u \<Rightarrow> nat \<Rightarrow> CanTxBufferType"
  put_tx :: "'u \<Rightarrow> nat \<Rightarrow> CanTxBufferType \<Rightarrow> 'u"
  zero_union :: 'u
  uninit_data :: u32
  uninit_history :: CanTxHistoryDataType

text \<open>The sizes of can_config.h.\<close>

definition CAN_CHANNEL_NUM :: nat where [simp]: "CAN_CHANNEL_NUM = 6"
definition CAN_RX_PAGE_RULE_NUM :: nat where [simp]: "CAN_RX_PAGE_RULE_NUM = 16"
definition CAN_RX_RULE_TABLE_PAGE_NUM :: nat where [simp]: "CAN_RX_RULE_TABLE_PAGE_NUM = 24"
definition CAN_RX_BUFFER_NUM :: nat where [simp]: "CAN_RX_BUFFER_NUM = 96"
definition CAN_RX_MSGIN_FLAG_NUM :: nat where [simp]: "CAN_RX_MSGIN_FLAG_NUM = 3"
definition CAN_RX_FIFO_QUEUE_MAX :: nat where [simp]: "CAN_RX_FIFO_QUEUE_MAX = 128"
definition CAN_RX_FIFO_NUM :: nat where [simp]: "CAN_RX_FIFO_NUM = 8"
definition CAN_TX_CHANNEL_BUFFER_NUM :: nat where [simp]: "CAN_TX_CHANNEL_BUFFER_NUM = 16"
definition CAN_TX_BUFFER_FLAG_NUM :: nat where [simp]: "CAN_TX_BUFFER_FLAG_NUM = 3"
definition CAN_TXRX_CHANNEL_FIFO_NUM :: nat where [simp]: "CAN_TXRX_CHANNEL_FIFO_NUM = 3"
definition CAN_TX_HISTORY_BUFFER_NUM :: u32 where [simp]: "CAN_TX_HISTORY_BUFFER_NUM = 16"
definition CAN_TX_HISTORY_INTR_BUFNUM :: u32 where [simp]: "CAN_TX_HISTORY_INTR_BUFNUM = 12"

text \<open>Updates of one element of the state's arrays.\<close>

definition upd_chan :: "nat \<Rightarrow> (CanModeChannelType \<Rightarrow> CanModeChannelType) \<Rightarrow>
    'u CanState \<Rightarrow> 'u CanState" where
  "upd_chan i f = can_mode_global_update (gm_channel_update (\<lambda>a. a(i := f (a i))))"

definition upd_rxfifo :: "nat \<Rightarrow> (CanRxFifoBufferType \<Rightarrow> CanRxFifoBufferType) \<Rightarrow>
    'u CanState \<Rightarrow> 'u CanState" where
  "upd_rxfifo x f = can_rx_fifo_control_update (\<lambda>a. a(x := f (a x)))"

definition upd_txrxfifo :: "nat \<Rightarrow> nat \<Rightarrow>
    ('u CanTxRxFifoBufferType \<Rightarrow> 'u CanTxRxFifoBufferType) \<Rightarrow> 'u CanState \<Rightarrow> 'u CanState" where
  "upd_txrxfifo c k f = can_txrx_fifo_control_update (\<lambda>a. a(c := (a c)(k := f (a c k))))"

definition upd_txbuf :: "nat \<Rightarrow> nat \<Rightarrow> (CanTxBufferType \<Rightarrow> CanTxBufferType) \<Rightarrow>
    'u CanState \<Rightarrow> 'u CanState" where
  "upd_txbuf c b f =
     can_tx_buffer_control_update (tx_buf_update (\<lambda>a. a(c := (a c)(b := f (a c b)))))"

definition upd_txque :: "nat \<Rightarrow> (CanTxQueueType \<Rightarrow> CanTxQueueType) \<Rightarrow>
    'u CanState \<Rightarrow> 'u CanState" where
  "upd_txque c f = can_tx_queue_update (\<lambda>a. a(c := f (a c)))"

definition upd_txhl :: "nat \<Rightarrow> (CanTxHistoryType \<Rightarrow> CanTxHistoryType) \<Rightarrow>
    'u CanState \<Rightarrow> 'u CanState" where
  "upd_txhl c f = can_tx_history_update (\<lambda>a. a(c := f (a c)))"

definition upd_txreq :: "nat \<Rightarrow> (CanTxReqType \<Rightarrow> CanTxReqType) \<Rightarrow>
    'u CanState \<Rightarrow> 'u CanState" where
  "upd_txreq c f = can_tx_control_update (\<lambda>a. a(c := f (a c)))"

lemmas can_upds = upd_chan_def upd_rxfifo_def upd_txrxfifo_def upd_txbuf_def upd_txque_def
  upd_txhl_def upd_txreq_def

end
