(* ===== verification/Can_Fifo.thy ===== *)
theory Can_Fifo
  imports Can_State
begin

text \<open>
  The message stores of the CAN controller: can_buffer.c, can_fifo.c, can_tx_queue.c and
  can_tx_history.c.  A function of the C code that works on one element of an array is a
  function of the element, lifted to the state where the code names the array.
\<close>

section \<open>Copying messages\<close>

definition can_rxbuffer_set_data :: "CanDataType \<Rightarrow> CanRxBufferType \<Rightarrow> CanRxBufferType" where
  "can_rxbuffer_set_data d b = b\<lparr>rb_id := d_id d, rb_ide := d_ide d, rb_rtr := d_rtr d,
     rb_label := d_label d, rb_dlc := d_dlc d, rb_body := d_data d\<rparr>"

definition can_rxbuffer_ref_data :: "CanRxBufferType \<Rightarrow> CanDataType" where
  "can_rxbuffer_ref_data b = \<lparr>d_ide = rb_ide b, d_rtr = rb_rtr b, d_dlc = rb_dlc b,
     d_label = rb_label b, d_id = rb_id b, d_data = rb_body b\<rparr>"

definition can_txbuffer_set_data :: "CanDataType \<Rightarrow> CanTxBufferType \<Rightarrow> CanTxBufferType" where
  "can_txbuffer_set_data d b = b\<lparr>tb_id := d_id d, tb_ide := d_ide d, tb_rtr := d_rtr d,
     tb_dlc := d_dlc d, tb_label := d_label d, tb_body := d_data d\<rparr>"

definition can_txbuffer_ref_data :: "CanTxBufferType \<Rightarrow> CanDataType" where
  "can_txbuffer_ref_data b = \<lparr>d_ide = tb_ide b, d_rtr = tb_rtr b, d_dlc = tb_dlc b,
     d_label = tb_label b, d_id = tb_id b, d_data = tb_body b\<rparr>"

lemma rx_ref_set [simp]: "can_rxbuffer_ref_data (can_rxbuffer_set_data d b) = d"
  by (simp add: can_rxbuffer_ref_data_def can_rxbuffer_set_data_def)

lemma tx_ref_set [simp]: "can_txbuffer_ref_data (can_txbuffer_set_data d b) = d"
  by (simp add: can_txbuffer_ref_data_def can_txbuffer_set_data_def)

section \<open>Buffers\<close>

definition can_rxbuffer_put_rxdata :: "nat \<Rightarrow> CanDataType \<Rightarrow> 'u CanState \<Rightarrow> can_err \<times> 'u CanState"
  where
  "can_rxbuffer_put_rxdata q d S = (E_OK, S\<lparr>can_rx_buffer_control :=
     let c = can_rx_buffer_control S in
     c\<lparr>rx_msgin_flag := (rx_msgin_flag c)(q div 32 :=
          rx_msgin_flag c (q div 32) OR push_bit (q mod 32) 1),
       rx_buf := (rx_buf c)(q := can_rxbuffer_set_data d (rx_buf c q))\<rparr>\<rparr>)"

definition can_rxbuffer_get_rxdata :: "nat \<Rightarrow> 'u CanState \<Rightarrow> CanDataType" where
  "can_rxbuffer_get_rxdata q S = can_rxbuffer_ref_data (rx_buf (can_rx_buffer_control S) q)"

definition can_txbuffer_put_txdata :: "nat \<Rightarrow> nat \<Rightarrow> CanDataType \<Rightarrow> 'u CanState \<Rightarrow> 'u CanState" where
  "can_txbuffer_put_txdata cid b d = upd_txbuf cid b (can_txbuffer_set_data d)"

abbreviation txbuf :: "'u CanState \<Rightarrow> nat \<Rightarrow> nat \<Rightarrow> CanTxBufferType" where
  "txbuf S \<equiv> tx_buf (can_tx_buffer_control S)"

definition can_txbuffer_get_txdata :: "nat \<Rightarrow> nat \<Rightarrow> 'u CanState \<Rightarrow>
    (can_err \<times> CanDataType option) \<times> 'u CanState" where
  "can_txbuffer_get_txdata cid b S =
     ((E_OK, Some (can_txbuffer_ref_data (txbuf S cid b))),
      upd_txbuf cid b (\<lambda>t. t\<lparr>tb_sending := True\<rparr>) S)"

definition can_txbuffer_peek_txdata :: "nat \<Rightarrow> nat \<Rightarrow> 'u CanState \<Rightarrow> can_err \<times> CanDataType option"
  where
  "can_txbuffer_peek_txdata cid b S =
     (if tb_req_tx (txbuf S cid b) then (E_OK, Some (can_txbuffer_ref_data (txbuf S cid b)))
      else (E_NOENT, None))"

definition CAN_TX_BUFFER_RESULT_OK :: u8 where [simp]: "CAN_TX_BUFFER_RESULT_OK = 2"

definition can_txbuffer_notify_txdone :: "nat \<Rightarrow> nat \<Rightarrow> 'u CanState \<Rightarrow> can_err \<times> 'u CanState" where
  "can_txbuffer_notify_txdone cid b S =
     (E_OK, if tb_req_tx (txbuf S cid b) then
        upd_txbuf cid b (\<lambda>t. t\<lparr>tb_result := CAN_TX_BUFFER_RESULT_OK, tb_sending := False,
                               tb_req_tx := False\<rparr>) S
      else S)"

section \<open>FIFO buffers\<close>

definition can_fifo_quelen :: "nat \<Rightarrow> u32" where
  "can_fifo_quelen i = [0, 4, 8, 16, 32, 48, 64, 128] ! i"

definition CAN_FIFO_CLEAR :: CanFifoControlType where
  "CAN_FIFO_CLEAR = \<lparr>fc_count = 0, fc_roff = 0, fc_woff = 0\<rparr>"

text \<open>The steps of the write and the read offset, the same in every FIFO.\<close>

definition fifo_step_put :: "u32 \<Rightarrow> CanFifoControlType \<Rightarrow> CanFifoControlType" where
  "fifo_step_put cap c = \<lparr>fc_count = fc_count c + 1, fc_roff = fc_roff c,
     fc_woff = (if fc_woff c + 1 \<ge> cap then 0 else fc_woff c + 1)\<rparr>"

definition fifo_step_next :: "u32 \<Rightarrow> CanFifoControlType \<Rightarrow> CanFifoControlType" where
  "fifo_step_next cap c = \<lparr>fc_count = fc_count c - 1,
     fc_roff = (if fc_roff c + 1 \<ge> cap then 0 else fc_roff c + 1), fc_woff = fc_woff c\<rparr>"

record CanFifoRxInterruptParamType =
  ip_enable_intr :: bool
  ip_everytime :: bool
  ip_timing_cnt :: u32
  ip_quelen_max :: u32

definition can_fifo_rx_interrupt_occured ::
    "CanFifoControlType \<Rightarrow> CanFifoRxInterruptParamType \<Rightarrow> bool" where
  "can_fifo_rx_interrupt_occured c p =
     (if \<not> ip_enable_intr p then False
      else if ip_everytime p then True
      else fc_count c \<ge> (if ip_timing_cnt p = 7 then ip_quelen_max p
                         else (ip_quelen_max p * (ip_timing_cnt p + 1)) div 8))"

abbreviation rf_cap :: "CanRxFifoBufferType \<Rightarrow> u32" where
  "rf_cap f \<equiv> can_fifo_quelen (unat (rf_quelen f))"

definition rxfifo_put :: "CanDataType \<Rightarrow> CanRxFifoBufferType \<Rightarrow> can_err \<times> CanRxFifoBufferType" where
  "rxfifo_put d f =
     (if \<not> rf_enable_fifo f then (E_PERM, f)
      else if fc_count (rf_control f) \<ge> rf_cap f then (E_LIMIT, f\<lparr>rf_lost := True\<rparr>)
      else
        let w = unat (fc_woff (rf_control f));
            c = fifo_step_put (rf_cap f) (rf_control f);
            p = \<lparr>ip_enable_intr = rf_enable_fifo f, ip_everytime = rf_everytime f,
                 ip_timing_cnt = ucast (rf_intr_timing_cnt f), ip_quelen_max = rf_cap f\<rparr> in
        (E_OK, f\<lparr>rf_buffer := (rf_buffer f)(w := can_rxbuffer_set_data d (rf_buffer f w)),
           rf_control := c, rf_full := (fc_count c \<ge> rf_cap f \<or> rf_full f), rf_empty := False,
           rf_intr := (can_fifo_rx_interrupt_occured c p \<or> rf_intr f)\<rparr>))"

definition rxfifo_next :: "CanRxFifoBufferType \<Rightarrow> can_err \<times> CanRxFifoBufferType" where
  "rxfifo_next f =
     (if \<not> rf_enable_fifo f then (E_PERM, f)
      else if fc_count (rf_control f) = 0 then (E_NOENT, f)
      else
        let c = fifo_step_next (rf_cap f) (rf_control f) in
        (E_OK, f\<lparr>rf_control := c, rf_full := (rf_full f \<and> \<not> fc_count c < rf_cap f),
           rf_empty := (fc_count c \<le> 0 \<or> rf_empty f)\<rparr>))"

definition rxfifo_peek :: "CanRxFifoBufferType \<Rightarrow> can_err \<times> CanDataType option" where
  "rxfifo_peek f =
     (if \<not> rf_enable_fifo f then (E_PERM, None)
      else if fc_count (rf_control f) = 0 then (E_NOENT, None)
      else (E_OK, Some (can_rxbuffer_ref_data (rf_buffer f (unat (fc_roff (rf_control f)))))))"

definition can_rxfifo_put_rxdata :: "nat \<Rightarrow> CanDataType \<Rightarrow> 'u CanState \<Rightarrow> can_err \<times> 'u CanState" where
  "can_rxfifo_put_rxdata x d S = (let (e, f) = rxfifo_put d (can_rx_fifo_control S x) in
     (e, upd_rxfifo x (\<lambda>_. f) S))"

definition can_rxfifo_next_rxdata :: "nat \<Rightarrow> 'u CanState \<Rightarrow> can_err \<times> 'u CanState" where
  "can_rxfifo_next_rxdata x S = (let (e, f) = rxfifo_next (can_rx_fifo_control S x) in
     (e, upd_rxfifo x (\<lambda>_. f) S))"

definition can_rxfifo_peek_rxdata :: "nat \<Rightarrow> 'u CanState \<Rightarrow> can_err \<times> CanDataType option" where
  "can_rxfifo_peek_rxdata x S = rxfifo_peek (can_rx_fifo_control S x)"

definition can_rxfifo_clear :: "nat \<Rightarrow> 'u CanState \<Rightarrow> 'u CanState" where
  "can_rxfifo_clear x = upd_rxfifo x (\<lambda>f. f\<lparr>rf_control := CAN_FIFO_CLEAR\<rparr>)"

section \<open>Transmit/receive FIFO buffers\<close>

definition CAN_TXRX_FIFO_MODE_RX :: u8 where [simp]: "CAN_TXRX_FIFO_MODE_RX = 0"
definition CAN_TXRX_FIFO_MODE_TX :: u8 where [simp]: "CAN_TXRX_FIFO_MODE_TX = 1"

abbreviation cf_cap :: "'u CanTxRxFifoBufferType \<Rightarrow> u32" where
  "cf_cap f \<equiv> can_fifo_quelen (unat (cf_quelen f))"

definition txrxfifo_put_rx :: "'u can_env \<Rightarrow> CanDataType \<Rightarrow> 'u CanTxRxFifoBufferType \<Rightarrow>
    can_err \<times> 'u CanTxRxFifoBufferType" where
  "txrxfifo_put_rx U d f =
     (if cf_mode f = CAN_TXRX_FIFO_MODE_TX then (E_PERM, f)
      else if \<not> cf_enable_fifo f then (E_PERM, f)
      else if fc_count (cf_control f) \<ge> cf_cap f then (E_LIMIT, f\<lparr>cf_lost := True\<rparr>)
      else
        let w = unat (fc_woff (cf_control f));
            c = fifo_step_put (cf_cap f) (cf_control f);
            p = \<lparr>ip_enable_intr = cf_enable_fifo f, ip_everytime = cf_everytime f,
                 ip_timing_cnt = ucast (cf_intr_timing_cnt f), ip_quelen_max = cf_cap f\<rparr> in
        (E_OK, f\<lparr>cf_buffer := put_rx U (cf_buffer f) w
                   (can_rxbuffer_set_data d (get_rx U (cf_buffer f) w)),
           cf_control := c, cf_full := (fc_count c \<ge> cf_cap f \<or> cf_full f), cf_empty := False,
           cf_rx_intr := (can_fifo_rx_interrupt_occured c p \<or> cf_rx_intr f)\<rparr>))"

definition txrxfifo_peek_rx :: "'u can_env \<Rightarrow> 'u CanTxRxFifoBufferType \<Rightarrow>
    can_err \<times> CanDataType option" where
  "txrxfifo_peek_rx U f =
     (if cf_mode f = CAN_TXRX_FIFO_MODE_TX then (E_PERM, None)
      else if \<not> cf_enable_fifo f then (E_PERM, None)
      else if fc_count (cf_control f) = 0 then (E_NOENT, None)
      else (E_OK, Some (can_rxbuffer_ref_data
              (get_rx U (cf_buffer f) (unat (fc_roff (cf_control f)))))))"

definition txrxfifo_next_rx :: "'u CanTxRxFifoBufferType \<Rightarrow> can_err \<times> 'u CanTxRxFifoBufferType" where
  "txrxfifo_next_rx f =
     (if cf_mode f = CAN_TXRX_FIFO_MODE_TX then (E_PERM, f)
      else if \<not> cf_enable_fifo f then (E_PERM, f)
      else if fc_count (cf_control f) = 0 then (E_NOENT, f)
      else
        let c = fifo_step_next (cf_cap f) (cf_control f) in
        (E_OK, f\<lparr>cf_control := c, cf_full := (cf_full f \<and> \<not> fc_count c < cf_cap f),
           cf_empty := (fc_count c \<le> 0 \<or> cf_empty f)\<rparr>))"

definition txrxfifo_put_tx :: "'u can_env \<Rightarrow> CanDataType \<Rightarrow> 'u CanTxRxFifoBufferType \<Rightarrow>
    can_err \<times> 'u CanTxRxFifoBufferType" where
  "txrxfifo_put_tx U d f =
     (if cf_mode f \<noteq> CAN_TXRX_FIFO_MODE_TX then (E_PERM, f)
      else if \<not> cf_enable_fifo f then (E_PERM, f)
      else if fc_count (cf_control f) \<ge> cf_cap f then (E_LIMIT, f\<lparr>cf_lost := True\<rparr>)
      else
        let w = unat (fc_woff (cf_control f)); c = fifo_step_put (cf_cap f) (cf_control f) in
        (E_OK, f\<lparr>cf_buffer := put_tx U (cf_buffer f) w
                   (can_txbuffer_set_data d (get_tx U (cf_buffer f) w)),
           cf_control := c, cf_full := (fc_count c \<ge> cf_cap f \<or> cf_full f),
           cf_empty := False\<rparr>))"

definition txrxfifo_peek_tx :: "'u can_env \<Rightarrow> 'u CanTxRxFifoBufferType \<Rightarrow>
    can_err \<times> CanDataType option" where
  "txrxfifo_peek_tx U f =
     (if cf_mode f \<noteq> CAN_TXRX_FIFO_MODE_TX then (E_PERM, None)
      else if \<not> cf_enable_fifo f then (E_PERM, None)
      else if fc_count (cf_control f) = 0 then (E_NOENT, None)
      else (E_OK, Some (can_txbuffer_ref_data
              (get_tx U (cf_buffer f) (unat (fc_roff (cf_control f)))))))"

text \<open>Unlike the reading side, taking a message for transmission leaves the empty flag alone.\<close>

definition txrxfifo_get_tx :: "'u can_env \<Rightarrow> 'u CanTxRxFifoBufferType \<Rightarrow>
    (can_err \<times> CanDataType option) \<times> 'u CanTxRxFifoBufferType" where
  "txrxfifo_get_tx U f =
     (if fst (txrxfifo_peek_tx U f) \<noteq> E_OK then (txrxfifo_peek_tx U f, f)
      else
        let c = fifo_step_next (cf_cap f) (cf_control f) in
        (txrxfifo_peek_tx U f,
         f\<lparr>cf_control := c, cf_full := (cf_full f \<and> \<not> fc_count c < cf_cap f)\<rparr>))"

definition txrxfifo_txdone :: "'u CanTxRxFifoBufferType \<Rightarrow> 'u CanTxRxFifoBufferType" where
  "txrxfifo_txdone f0 =
     (let f1 = (if cf_everytime f0 \<or> fc_count (cf_control f0) \<le> 0
                then f0\<lparr>cf_tx_intr := True\<rparr> else f0);
          f2 = (if cf_enable_fifo f1 then f1 else f1\<lparr>cf_control := CAN_FIFO_CLEAR\<rparr>) in
      if fc_count (cf_control f2) \<le> 0 then f2\<lparr>cf_empty := True\<rparr> else f2)"

definition can_txrxfifo_put_rxdata :: "'u can_env \<Rightarrow> nat \<Rightarrow> nat \<Rightarrow> CanDataType \<Rightarrow> 'u CanState \<Rightarrow>
    can_err \<times> 'u CanState" where
  "can_txrxfifo_put_rxdata U cid k d S =
     (let (e, f) = txrxfifo_put_rx U d (can_txrx_fifo_control S cid k) in
      (e, upd_txrxfifo cid k (\<lambda>_. f) S))"

definition can_txrxfifo_peek_rxdata :: "'u can_env \<Rightarrow> nat \<Rightarrow> nat \<Rightarrow> 'u CanState \<Rightarrow>
    can_err \<times> CanDataType option" where
  "can_txrxfifo_peek_rxdata U cid k S = txrxfifo_peek_rx U (can_txrx_fifo_control S cid k)"

definition can_txrxfifo_next_rxdata :: "nat \<Rightarrow> nat \<Rightarrow> 'u CanState \<Rightarrow> can_err \<times> 'u CanState" where
  "can_txrxfifo_next_rxdata cid k S =
     (let (e, f) = txrxfifo_next_rx (can_txrx_fifo_control S cid k) in
      (e, upd_txrxfifo cid k (\<lambda>_. f) S))"

definition can_txrxfifo_put_txdata :: "'u can_env \<Rightarrow> nat \<Rightarrow> nat \<Rightarrow> CanDataType \<Rightarrow> 'u CanState \<Rightarrow>
    can_err \<times> 'u CanState" where
  "can_txrxfifo_put_txdata U cid k d S =
     (let (e, f) = txrxfifo_put_tx U d (can_txrx_fifo_control S cid k) in
      (e, upd_txrxfifo cid k (\<lambda>_. f) S))"

definition can_txrxfifo_get_txdata :: "'u can_env \<Rightarrow> nat \<Rightarrow> nat \<Rightarrow> 'u CanState \<Rightarrow>
    (can_err \<times> CanDataType option) \<times> 'u CanState" where
  "can_txrxfifo_get_txdata U cid k S =
     (let (r, f) = txrxfifo_get_tx U (can_txrx_fifo_control S cid k) in
      (r, upd_txrxfifo cid k (\<lambda>_. f) S))"

definition can_txrxfifo_peek_txdata :: "'u can_env \<Rightarrow> nat \<Rightarrow> nat \<Rightarrow> 'u CanState \<Rightarrow>
    can_err \<times> CanDataType option" where
  "can_txrxfifo_peek_txdata U cid k S = txrxfifo_peek_tx U (can_txrx_fifo_control S cid k)"

definition can_txrxfifo_notify_txdone :: "nat \<Rightarrow> nat \<Rightarrow> 'u CanState \<Rightarrow> can_err \<times> 'u CanState" where
  "can_txrxfifo_notify_txdone cid k S = (E_OK, upd_txrxfifo cid k txrxfifo_txdone S)"

definition can_txrxfifo_clear :: "nat \<Rightarrow> nat \<Rightarrow> 'u CanState \<Rightarrow> 'u CanState" where
  "can_txrxfifo_clear cid k = upd_txrxfifo cid k (\<lambda>f. f\<lparr>cf_control := CAN_FIFO_CLEAR\<rparr>)"

section \<open>Transmit queue\<close>

definition can_txque_peek_txdata :: "nat \<Rightarrow> nat \<Rightarrow> 'u CanState \<Rightarrow> can_err \<times> CanDataType option" where
  "can_txque_peek_txdata cid b S =
     (let q = can_tx_queue S cid in
      if \<not> tq_enable_queue q then (E_INVALID, None)
      else if tq_quelen q = 0 then (E_INVALID, None)
      else if \<not> tq_req (tq_data q b) then (E_NOENT, None)
      else (E_OK, Some (tq_msg (tq_data q b))))"

text \<open>
  The search for a free slot: downwards from the last buffer, \<open>count\<close> slots at most; the index
  where it stops, or none.
\<close>

fun txque_search :: "(nat \<Rightarrow> CanTxQueueDataType) \<Rightarrow> nat \<Rightarrow> nat \<Rightarrow> nat option" where
  "txque_search slots 0 bufno = None"
| "txque_search slots (Suc count) bufno =
     (if \<not> tq_req (slots bufno) then Some bufno
      else txque_search slots count (bufno - 1))"

definition txque_put :: "CanDataType \<Rightarrow> CanTxQueueType \<Rightarrow> CanTxQueueType" where
  "txque_put d q =
     (if \<not> tq_enable_queue q then q
      else if tq_quelen q = 0 then q
      else
        let maxquelen = tq_quelen q + 1 in
        if tq_reqbufnum q \<ge> maxquelen then q
        else
          let q1 = q\<lparr>tq_reqbufnum := tq_reqbufnum q + 1\<rparr> in
          case txque_search (tq_data q1) (unat maxquelen) 15 of
            None \<Rightarrow> q1
          | Some b \<Rightarrow> q1\<lparr>tq_data := (tq_data q1)(b := \<lparr>tq_req = True, tq_msg = d\<rparr>),
                         tq_is_full := (tq_reqbufnum q1 \<ge> maxquelen \<or> tq_is_full q1),
                         tq_is_empty := False\<rparr>)"

definition can_txque_put_txdata :: "nat \<Rightarrow> 'u CanState \<Rightarrow> 'u CanState" where
  "can_txque_put_txdata cid S =
     upd_txque cid (txque_put (can_txbuffer_ref_data (txbuf S cid 15))) S"

definition can_txque_get_txdata :: "nat \<Rightarrow> nat \<Rightarrow> 'u CanState \<Rightarrow> can_err \<times> CanDataType option" where
  "can_txque_get_txdata cid b S = can_txque_peek_txdata cid b S"

definition txque_txdone :: "nat \<Rightarrow> CanTxQueueType \<Rightarrow> CanTxQueueType" where
  "txque_txdone b q =
     (if \<not> tq_req (tq_data q b) then q
      else
        let n = tq_reqbufnum q - 1; e = (n \<le> 0 \<or> tq_is_empty q) in
        q\<lparr>tq_reqbufnum := n, tq_data := (tq_data q)(b := (tq_data q b)\<lparr>tq_req := False\<rparr>),
          tq_is_full := False, tq_is_empty := e,
          tq_intr_req := (tq_intr_factor q \<or> e \<or> tq_intr_req q)\<rparr>)"

definition can_txque_notify_txdone :: "nat \<Rightarrow> nat \<Rightarrow> 'u CanState \<Rightarrow> can_err \<times> 'u CanState" where
  "can_txque_notify_txdone cid b S = (E_OK, upd_txque cid (txque_txdone b) S)"

section \<open>Transmit history\<close>

definition txhl_put :: "CanTxHistoryDataType \<Rightarrow> CanTxHistoryType \<Rightarrow> can_err \<times> CanTxHistoryType" where
  "txhl_put d h =
     (if \<not> th_enable_history h then (E_INVALID, h)
      else if fc_count (th_control h) \<ge> CAN_TX_HISTORY_BUFFER_NUM
      then (E_LIMIT, h\<lparr>th_ovr := True\<rparr>)
      else
        let c = fifo_step_put CAN_TX_HISTORY_BUFFER_NUM (th_control h) in
        (E_OK, h\<lparr>th_buffer := (th_buffer h)(unat (fc_woff (th_control h)) := d), th_control := c,
           th_intr := (th_select_intr_factor h \<or> fc_count c = CAN_TX_HISTORY_INTR_BUFNUM \<or> th_intr h),
           th_full := (fc_count c \<ge> CAN_TX_HISTORY_BUFFER_NUM \<or> th_full h), th_empty := False\<rparr>))"

definition txhl_next :: "CanTxHistoryType \<Rightarrow> can_err \<times> CanTxHistoryType" where
  "txhl_next h =
     (if \<not> th_enable_history h then (E_INVALID, h)
      else if fc_count (th_control h) \<le> 0 then (E_NOENT, h)
      else
        let c = fifo_step_next CAN_TX_HISTORY_BUFFER_NUM (th_control h) in
        (E_OK, h\<lparr>th_control := c, th_empty := (fc_count c \<le> 0 \<or> th_empty h),
                 th_full := False\<rparr>))"

definition txhl_peek :: "CanTxHistoryType \<Rightarrow> can_err \<times> CanTxHistoryDataType option" where
  "txhl_peek h =
     (if \<not> th_enable_history h then (E_INVALID, None)
      else if fc_count (th_control h) \<le> 0 then (E_NOENT, None)
      else (E_OK, Some (th_buffer h (unat (fc_roff (th_control h))))))"

definition can_txhl_put_thldata :: "nat \<Rightarrow> CanTxHistoryDataType \<Rightarrow> 'u CanState \<Rightarrow>
    can_err \<times> 'u CanState" where
  "can_txhl_put_thldata cid d S = (let (e, h) = txhl_put d (can_tx_history S cid) in
     (e, upd_txhl cid (\<lambda>_. h) S))"

definition can_txhl_next_thldata :: "nat \<Rightarrow> 'u CanState \<Rightarrow> can_err \<times> 'u CanState" where
  "can_txhl_next_thldata cid S = (let (e, h) = txhl_next (can_tx_history S cid) in
     (e, upd_txhl cid (\<lambda>_. h) S))"

definition can_txhl_peek_thldata :: "nat \<Rightarrow> 'u CanState \<Rightarrow> can_err \<times> CanTxHistoryDataType option"
  where
  "can_txhl_peek_thldata cid S = txhl_peek (can_tx_history S cid)"

end
