(* ===== verification/Can_Mode.thy ===== *)
theory Can_Mode
  imports Can_Fifo
begin

text \<open>
  The reset functions of the register mapping (can_register_reset_*) and the mode machines of
  the controller and its channels, can_mode_global.c and can_mode_channel.c.  A channel event
  takes the index of the channel: every caller passes \<^verbatim>\<open>&can_mode_global.channel[i]\<close>, and the reset
  inside it goes through the channel's own number, so both names of the object are kept.
  A loop over an array whose rounds do not depend on each other is the function that gives each
  element its new value.
\<close>

datatype CanRegisterResetType = MCU_RESET | GLOBAL_RESET | CHANNEL_RESET

section \<open>Resets\<close>

definition CAN_MODE_RESET :: u8 where [simp]: "CAN_MODE_RESET = 1"
definition CAN_MODE_WAIT :: u8 where [simp]: "CAN_MODE_WAIT = 2"
definition CAN_MODE_COMM :: u8 where [simp]: "CAN_MODE_COMM = 0"

definition can_register_reset_global :: "CanRegisterResetType \<Rightarrow> 'u CanState \<Rightarrow> 'u CanState" where
  "can_register_reset_global t = can_mode_global_update (\<lambda>g. case t of
     MCU_RESET \<Rightarrow> g\<lparr>gc_enable_dlc_check := False, gc_enable_tx_bufno_first := False,
       gt_enable_fifo_msglost := False, gt_enable_dlc_error := False, gt_stop := True,
       gt_select_mode := CAN_MODE_RESET, gm_mode := GlobalMode_STOP, gs_GSLPSTS := True,
       gs_GHLTSTS := False, gs_GRSTSTS := True\<rparr>
   | GLOBAL_RESET \<Rightarrow> g\<lparr>gs_dlc_error := False, gs_GHLTSTS := False\<rparr>
   | CHANNEL_RESET \<Rightarrow> g)"

definition can_register_reset_channel :: "CanRegisterResetType \<Rightarrow> nat \<Rightarrow> 'u CanState \<Rightarrow> 'u CanState"
  where
  "can_register_reset_channel t cid = upd_chan cid (\<lambda>c. case t of
     MCU_RESET \<Rightarrow> c\<lparr>cm_cid := of_nat cid, cm_stop := True, cm_select_mode := CAN_MODE_RESET,
       cm_mode := ChannelMode_STOP, cm_comm_mode := ChannelModeComm_IDLE, cs_can_comm := False,
       cs_receiving := False, cs_sending := False, cs_mode_stop := True, cs_mode_wait := False,
       cs_mode_reset := True\<rparr>
   | GLOBAL_RESET \<Rightarrow> c
   | CHANNEL_RESET \<Rightarrow> c\<lparr>cm_mode := ChannelMode_STOP, cm_select_mode := CAN_MODE_RESET,
       cs_can_comm := False, cs_receiving := False, cs_sending := False,
       cs_mode_wait := False\<rparr>)"

definition can_register_reset_fifo_status :: "CanRegisterResetType \<Rightarrow> 'u CanState \<Rightarrow> 'u CanState"
  where "can_register_reset_fifo_status t S = S"

definition zero_rule :: CanRxRuleType where
  "zero_rule = \<lparr>id_ide = False, id_rtr = False, id_canid = 0, mask_ide = False, mask_rtr = False,
     mask_canid = 0, fb_dlc = 0, fb_label = 0, fb_enable_rxbuffer = False,
     fb_rxbuffer_number = 0, ff_txrx_fifo = 0, ff_rx_fifo = 0\<rparr>"

definition can_register_reset_rx_rule :: "CanRegisterResetType \<Rightarrow> 'u CanState \<Rightarrow> 'u CanState" where
  "can_register_reset_rx_rule t S = (case t of
     MCU_RESET \<Rightarrow> S\<lparr>
       can_rx_rule_table := (let r = can_rx_rule_table S in
         r\<lparr>rt_enable_write := False, rt_page_number := 0,
           rt_page := \<lambda>p i. if p < CAN_RX_RULE_TABLE_PAGE_NUM \<and> i < CAN_RX_PAGE_RULE_NUM
             then zero_rule else rt_page r p i\<rparr>),
       can_rx_number := \<lambda>c. if c < CAN_CHANNEL_NUM then 0 else can_rx_number S c\<rparr>
   | _ \<Rightarrow> S)"

definition zero_rxbuf :: CanRxBufferType where
  "zero_rxbuf = \<lparr>rb_ide = False, rb_rtr = False, rb_id = 0, rb_dlc = 0, rb_label = 0,
     rb_body = replicate 8 0\<rparr>"

definition can_register_reset_rx_buffer :: "CanRegisterResetType \<Rightarrow> 'u CanState \<Rightarrow> 'u CanState" where
  "can_register_reset_rx_buffer t = can_rx_buffer_control_update (\<lambda>c.
     let fl = (\<lambda>i. if i < CAN_RX_MSGIN_FLAG_NUM then 0 else rx_msgin_flag c i) in
     case t of
       MCU_RESET \<Rightarrow> c\<lparr>rx_buffer_num := 0, rx_msgin_flag := fl,
         rx_buf := \<lambda>i. if i < CAN_RX_BUFFER_NUM then zero_rxbuf else rx_buf c i\<rparr>
     | GLOBAL_RESET \<Rightarrow> c\<lparr>rx_msgin_flag := fl\<rparr>
     | CHANNEL_RESET \<Rightarrow> c)"

text \<open>
  What the two resets of a receive FIFO share: switched off, emptied, its flags reset.
\<close>

definition rxfifo_off :: "CanRxFifoBufferType \<Rightarrow> CanRxFifoBufferType" where
  "rxfifo_off f = f\<lparr>rf_enable_fifo := False, rf_control := CAN_FIFO_CLEAR, rf_intr := False,
     rf_lost := False, rf_full := False, rf_empty := True\<rparr>"

definition can_register_reset_rx_fifo :: "CanRegisterResetType \<Rightarrow> 'u CanState \<Rightarrow> 'u CanState" where
  "can_register_reset_rx_fifo t = can_rx_fifo_control_update (\<lambda>a i.
     if i < CAN_RX_FIFO_NUM then
       (case t of
          MCU_RESET \<Rightarrow> (rxfifo_off (a i))\<lparr>rf_intr_timing_cnt := 0, rf_everytime := False,
            rf_quelen := 0, rf_enable_intr := False,
            rf_buffer := \<lambda>j. if j < CAN_RX_FIFO_QUEUE_MAX then zero_rxbuf else rf_buffer (a i) j\<rparr>
        | GLOBAL_RESET \<Rightarrow> rxfifo_off (a i)
        | CHANNEL_RESET \<Rightarrow> a i)
     else a i)"

definition txbuf_idle :: "CanTxBufferType \<Rightarrow> CanTxBufferType" where
  "txbuf_idle b = b\<lparr>tb_req_tx := False, tb_result := 0, tb_sending := False\<rparr>"

definition can_register_reset_tx_buffer :: "CanRegisterResetType \<Rightarrow> 'u CanState \<Rightarrow> 'u CanState" where
  "can_register_reset_tx_buffer t = can_tx_buffer_control_update (\<lambda>c.
     case t of
       MCU_RESET \<Rightarrow> c\<lparr>tx_buf := \<lambda>cid b.
           if cid < CAN_CHANNEL_NUM \<and> b < CAN_TX_CHANNEL_BUFFER_NUM
           then (txbuf_idle (tx_buf c cid b))\<lparr>tb_ide := False, tb_rtr := False, tb_id := 0,
                  tb_dlc := 0, tb_body := replicate 8 0\<rparr>
           else tx_buf c cid b,
         tx_intr_enable := \<lambda>i. if i < CAN_TX_BUFFER_FLAG_NUM then 0 else tx_intr_enable c i\<rparr>
     | GLOBAL_RESET \<Rightarrow> c
     | CHANNEL_RESET \<Rightarrow> c\<lparr>tx_buf := \<lambda>cid b.
           if cid < CAN_CHANNEL_NUM \<and> b < CAN_TX_CHANNEL_BUFFER_NUM
           then txbuf_idle (tx_buf c cid b) else tx_buf c cid b\<rparr>)"

definition can_register_reset_tx_buffer_channel :: "nat \<Rightarrow> 'u CanState \<Rightarrow> 'u CanState" where
  "can_register_reset_tx_buffer_channel ch = can_tx_buffer_control_update (tx_buf_update (\<lambda>a cid b.
     if cid = ch \<and> b < CAN_TX_CHANNEL_BUFFER_NUM then txbuf_idle (a cid b) else a cid b))"

definition can_register_reset_tx_buffer_status :: "CanRegisterResetType \<Rightarrow> 'u CanState \<Rightarrow> 'u CanState"
  where "can_register_reset_tx_buffer_status t S = S"

definition txrxfifo_off :: "'u CanTxRxFifoBufferType \<Rightarrow> 'u CanTxRxFifoBufferType" where
  "txrxfifo_off f = f\<lparr>cf_enable_fifo := False, cf_control := CAN_FIFO_CLEAR, cf_tx_intr := False,
     cf_rx_intr := False, cf_lost := False, cf_full := False, cf_empty := True\<rparr>"

definition zero_data :: CanDataType where
  "zero_data = \<lparr>d_ide = False, d_rtr = False, d_dlc = 0, d_label = 0, d_id = 0,
     d_data = replicate 8 0\<rparr>"

definition can_register_reset_txrx_fifo :: "'u can_env \<Rightarrow> CanRegisterResetType \<Rightarrow> 'u CanState \<Rightarrow>
    'u CanState" where
  "can_register_reset_txrx_fifo U t S = S\<lparr>txrx_tx_fifodata := zero_data,
     can_txrx_fifo_control := \<lambda>cid k.
       let f = can_txrx_fifo_control S cid k in
       if cid < CAN_CHANNEL_NUM \<and> k < CAN_TXRX_CHANNEL_FIFO_NUM then
         (if t = MCU_RESET
          then (txrxfifo_off f)\<lparr>cf_tx_bufno := 0, cf_mode := 0, cf_intr_timing_cnt := 0,
            cf_everytime := False, cf_quelen := 0, cf_enable_tx_intr := False,
            cf_enable_rx_intr := False, cf_buffer := zero_union U\<rparr>
          else txrxfifo_off f)
       else f\<rparr>"

definition can_register_reset_txrx_fifo_channel :: "nat \<Rightarrow> 'u CanState \<Rightarrow> 'u CanState" where
  "can_register_reset_txrx_fifo_channel ch = can_txrx_fifo_control_update (\<lambda>a cid k.
     if cid = ch \<and> k < CAN_TXRX_CHANNEL_FIFO_NUM then txrxfifo_off (a cid k) else a cid k)"

definition can_register_reset_tx_queue :: "CanRegisterResetType \<Rightarrow> 'u CanState \<Rightarrow> 'u CanState" where
  "can_register_reset_tx_queue t = can_tx_queue_update (\<lambda>a cid.
     if t = MCU_RESET \<and> cid < CAN_CHANNEL_NUM then (a cid)\<lparr>tq_is_empty := True\<rparr> else a cid)"

definition can_register_reset_tx_history :: "CanRegisterResetType \<Rightarrow> 'u CanState \<Rightarrow> 'u CanState" where
  "can_register_reset_tx_history t = can_tx_history_update (\<lambda>a cid.
     if t = MCU_RESET \<and> cid < CAN_CHANNEL_NUM then (a cid)\<lparr>th_empty := True\<rparr> else a cid)"

section \<open>Channel modes\<close>

definition can_mode_channel_reset :: "nat \<Rightarrow> 'u CanState \<Rightarrow> 'u CanState" where
  "can_mode_channel_reset cid S =
     can_register_reset_txrx_fifo_channel cid (can_register_reset_tx_buffer_channel cid
       (can_register_reset_channel CHANNEL_RESET cid S))"

definition CAN_MODE_CHANNEL_COMM_MODE_SET_IDLE :: "CanModeChannelType \<Rightarrow> CanModeChannelType" where
  "CAN_MODE_CHANNEL_COMM_MODE_SET_IDLE c = c\<lparr>cm_comm_mode := ChannelModeComm_IDLE,
     cs_can_comm := True, cs_sending := False, cs_receiving := False, cs_mode_stop := False,
     cs_mode_wait := False, cs_mode_reset := False\<rparr>"

definition CAN_MODE_CHANNEL_COMM_MODE_SET_RX :: "CanModeChannelType \<Rightarrow> CanModeChannelType" where
  "CAN_MODE_CHANNEL_COMM_MODE_SET_RX c = c\<lparr>cm_comm_mode := ChannelModeComm_RX,
     cs_can_comm := True, cs_sending := False, cs_receiving := True, cs_mode_stop := False,
     cs_mode_wait := False, cs_mode_reset := False\<rparr>"

definition CAN_MODE_CHANNEL_COMM_MODE_SET_TX :: "CanModeChannelType \<Rightarrow> CanModeChannelType" where
  "CAN_MODE_CHANNEL_COMM_MODE_SET_TX c = c\<lparr>cm_comm_mode := ChannelModeComm_TX,
     cs_can_comm := True, cs_sending := True, cs_receiving := False, cs_mode_stop := False,
     cs_mode_wait := False, cs_mode_reset := False\<rparr>"

datatype CanModeChannelEventType =
    CanModeChannelEvent_CLR_STOP | CanModeChannelEvent_SET_STOP | CanModeChannelEvent_SET_COMM
  | CanModeChannelEvent_SET_RESET | CanModeChannelEvent_SET_WAIT | CanModeChannelEvent_COMM_TX_START
  | CanModeChannelEvent_COMM_TX_DONE | CanModeChannelEvent_COMM_RX_START
  | CanModeChannelEvent_COMM_RX_DONE

abbreviation chan :: "'u CanState \<Rightarrow> nat \<Rightarrow> CanModeChannelType" where
  "chan S \<equiv> gm_channel (can_mode_global S)"

text \<open>The status of a channel that waits, as three of the handlers write it.\<close>

definition enter_wait :: "CanModeChannelType \<Rightarrow> CanModeChannelType" where
  "enter_wait c = c\<lparr>cm_mode := ChannelMode_WAIT, cs_can_comm := False, cs_receiving := False,
     cs_sending := False, cs_mode_stop := False, cs_mode_reset := False, cs_mode_wait := True\<rparr>"

definition enter_reset :: "CanModeChannelType \<Rightarrow> CanModeChannelType" where
  "enter_reset c = c\<lparr>cm_mode := ChannelMode_RESET, cs_can_comm := False, cs_receiving := False,
     cs_sending := False, cs_mode_stop := False, cs_mode_reset := True, cs_mode_wait := False\<rparr>"

definition can_mode_channel_event_clr_stop :: "nat \<Rightarrow> 'u CanState \<Rightarrow> 'u CanState" where
  "can_mode_channel_event_clr_stop i S =
     (case cm_mode (chan S i) of
        ChannelMode_STOP \<Rightarrow>
          upd_chan i enter_reset
            (can_mode_channel_reset (unat (cm_cid (chan S i))) (upd_chan i (cm_stop_update (\<lambda>_. False)) S))
      | _ \<Rightarrow> S)"

definition can_mode_channel_event_set_stop :: "nat \<Rightarrow> 'u CanState \<Rightarrow> 'u CanState" where
  "can_mode_channel_event_set_stop i S =
     (case cm_mode (chan S i) of
        ChannelMode_RESET \<Rightarrow> upd_chan i (\<lambda>c. c\<lparr>cm_stop := True, cm_mode := ChannelMode_STOP,
          cs_can_comm := False, cs_receiving := False, cs_sending := False, cs_mode_stop := True,
          cs_mode_reset := True, cs_mode_wait := False\<rparr>) S
      | _ \<Rightarrow> S)"

definition can_mode_channel_event_set_comm :: "nat \<Rightarrow> 'u CanState \<Rightarrow> 'u CanState" where
  "can_mode_channel_event_set_comm i S =
     (if cm_mode (chan S i) \<in> {ChannelMode_RESET, ChannelMode_WAIT}
      then upd_chan i (\<lambda>c. CAN_MODE_CHANNEL_COMM_MODE_SET_IDLE
             (c\<lparr>cm_mode := ChannelMode_COMM, cm_select_mode := CAN_MODE_COMM\<rparr>)) S
      else S)"

definition can_mode_channel_event_set_wait :: "nat \<Rightarrow> 'u CanState \<Rightarrow> 'u CanState" where
  "can_mode_channel_event_set_wait i S =
     (if cm_mode (chan S i) \<in> {ChannelMode_RESET, ChannelMode_COMM}
      then upd_chan i (\<lambda>c. let c1 = c\<lparr>cm_select_mode := CAN_MODE_WAIT\<rparr> in
             if cm_comm_mode c1 = ChannelModeComm_IDLE then enter_wait c1 else c1) S
      else S)"

definition can_mode_channel_event_set_reset :: "nat \<Rightarrow> 'u CanState \<Rightarrow> 'u CanState" where
  "can_mode_channel_event_set_reset i S =
     (if cm_mode (chan S i) \<in> {ChannelMode_COMM, ChannelMode_WAIT}
      then upd_chan i (\<lambda>c. enter_reset (CAN_MODE_CHANNEL_COMM_MODE_SET_IDLE c))
             (can_mode_channel_reset (unat (cm_cid (chan S i)))
               (upd_chan i (cm_select_mode_update (\<lambda>_. CAN_MODE_RESET)) S))
      else S)"

definition can_mode_channel_event_comm_tx_start :: "nat \<Rightarrow> 'u CanState \<Rightarrow> 'u CanState" where
  "can_mode_channel_event_comm_tx_start i S =
     (if cm_mode (chan S i) = ChannelMode_COMM \<and> cm_comm_mode (chan S i) = ChannelModeComm_IDLE
      then upd_chan i CAN_MODE_CHANNEL_COMM_MODE_SET_TX S else S)"

definition comm_done :: "CanModeChannelType \<Rightarrow> CanModeChannelType" where
  "comm_done c = (let c1 = CAN_MODE_CHANNEL_COMM_MODE_SET_IDLE c in
     if cm_select_mode c1 = CAN_MODE_WAIT then enter_wait c1 else c1)"

definition can_mode_channel_event_comm_tx_done :: "nat \<Rightarrow> 'u CanState \<Rightarrow> 'u CanState" where
  "can_mode_channel_event_comm_tx_done i S =
     (if cm_mode (chan S i) = ChannelMode_COMM \<and> cm_comm_mode (chan S i) = ChannelModeComm_TX
      then upd_chan i comm_done S else S)"

definition can_mode_channel_event_comm_rx_start :: "nat \<Rightarrow> 'u CanState \<Rightarrow> 'u CanState" where
  "can_mode_channel_event_comm_rx_start i S =
     (if cm_mode (chan S i) = ChannelMode_COMM \<and> cm_comm_mode (chan S i) = ChannelModeComm_IDLE
      then upd_chan i CAN_MODE_CHANNEL_COMM_MODE_SET_RX S else S)"

definition can_mode_channel_event_comm_rx_done :: "nat \<Rightarrow> 'u CanState \<Rightarrow> 'u CanState" where
  "can_mode_channel_event_comm_rx_done i S =
     (if cm_mode (chan S i) = ChannelMode_COMM \<and> cm_comm_mode (chan S i) = ChannelModeComm_RX
      then upd_chan i comm_done S else S)"

fun can_mode_channel_event :: "nat \<Rightarrow> CanModeChannelEventType \<Rightarrow> 'u CanState \<Rightarrow> 'u CanState" where
  "can_mode_channel_event i CanModeChannelEvent_CLR_STOP = can_mode_channel_event_clr_stop i"
| "can_mode_channel_event i CanModeChannelEvent_SET_STOP = can_mode_channel_event_set_stop i"
| "can_mode_channel_event i CanModeChannelEvent_SET_COMM = can_mode_channel_event_set_comm i"
| "can_mode_channel_event i CanModeChannelEvent_SET_RESET = can_mode_channel_event_set_reset i"
| "can_mode_channel_event i CanModeChannelEvent_SET_WAIT = can_mode_channel_event_set_wait i"
| "can_mode_channel_event i CanModeChannelEvent_COMM_TX_START = can_mode_channel_event_comm_tx_start i"
| "can_mode_channel_event i CanModeChannelEvent_COMM_TX_DONE = can_mode_channel_event_comm_tx_done i"
| "can_mode_channel_event i CanModeChannelEvent_COMM_RX_START = can_mode_channel_event_comm_rx_start i"
| "can_mode_channel_event i CanModeChannelEvent_COMM_RX_DONE = can_mode_channel_event_comm_rx_done i"

section \<open>Global modes\<close>

datatype CanModeGlobalEventType =
    CanModeGlobalEvent_CLR_STOP | CanModeGlobalEvent_SET_STOP | CanModeGlobalEvent_SET_RUN
  | CanModeGlobalEvent_SET_RESET | CanModeGlobalEvent_SET_TEST

definition all_channels :: "CanModeChannelEventType \<Rightarrow> 'u CanState \<Rightarrow> 'u CanState" where
  "all_channels ev = fold (\<lambda>i. can_mode_channel_event i ev) [0..<CAN_CHANNEL_NUM]"

fun can_mode_global_channel_event :: "CanModeGlobalEventType \<Rightarrow> 'u CanState \<Rightarrow> 'u CanState" where
  "can_mode_global_channel_event CanModeGlobalEvent_CLR_STOP S = S"
| "can_mode_global_channel_event CanModeGlobalEvent_SET_STOP S =
     all_channels CanModeChannelEvent_SET_STOP S"
| "can_mode_global_channel_event CanModeGlobalEvent_SET_RUN S = S"
| "can_mode_global_channel_event CanModeGlobalEvent_SET_RESET S =
     all_channels CanModeChannelEvent_SET_RESET S"
| "can_mode_global_channel_event CanModeGlobalEvent_SET_TEST S =
     all_channels CanModeChannelEvent_SET_WAIT S"

definition can_mode_globa_reset :: "'u can_env \<Rightarrow> 'u CanState \<Rightarrow> 'u CanState" where
  "can_mode_globa_reset U S =
     can_register_reset_txrx_fifo U GLOBAL_RESET (can_register_reset_tx_buffer_status GLOBAL_RESET
       (can_register_reset_tx_buffer GLOBAL_RESET (can_register_reset_rx_fifo GLOBAL_RESET
         (can_register_reset_rx_buffer GLOBAL_RESET (can_register_reset_rx_rule GLOBAL_RESET
           (can_register_reset_fifo_status GLOBAL_RESET
             (fold (can_register_reset_channel GLOBAL_RESET) [0..<CAN_CHANNEL_NUM]
               (can_register_reset_global GLOBAL_RESET S))))))))"

abbreviation upd_global :: "(CanModeGlobalType \<Rightarrow> CanModeGlobalType) \<Rightarrow> 'u CanState \<Rightarrow> 'u CanState"
  where "upd_global f S \<equiv> S\<lparr>can_mode_global := f (can_mode_global S)\<rparr>"

abbreviation gmode :: "'u CanState \<Rightarrow> GlobalModeType" where
  "gmode S \<equiv> gm_mode (can_mode_global S)"

definition can_mode_global_event_clr_stop :: "'u can_env \<Rightarrow> 'u CanState \<Rightarrow> 'u CanState" where
  "can_mode_global_event_clr_stop U S =
     (if gmode S = GlobalMode_STOP then
        upd_global (\<lambda>g. g\<lparr>gm_mode := GlobalMode_RESET, gs_GSLPSTS := False, gs_GHLTSTS := False,
            gs_GRSTSTS := True\<rparr>)
          (can_mode_globa_reset U (can_mode_global_channel_event CanModeGlobalEvent_CLR_STOP
            (upd_global (\<lambda>g. g\<lparr>gt_stop := False\<rparr>) S)))
      else S)"

definition can_mode_global_event_set_stop :: "'u CanState \<Rightarrow> 'u CanState" where
  "can_mode_global_event_set_stop S =
     (if gmode S = GlobalMode_RESET then
        upd_global (\<lambda>g. g\<lparr>gm_mode := GlobalMode_STOP, gs_GSLPSTS := True, gs_GHLTSTS := False,
            gs_GRSTSTS := True\<rparr>)
          (can_mode_global_channel_event CanModeGlobalEvent_SET_STOP
            (upd_global (\<lambda>g. g\<lparr>gt_stop := True\<rparr>) S))
      else S)"

definition can_mode_global_event_set_run :: "'u CanState \<Rightarrow> 'u CanState" where
  "can_mode_global_event_set_run S =
     (if gmode S \<in> {GlobalMode_TEST, GlobalMode_RESET} then
        upd_global (\<lambda>g. g\<lparr>gm_mode := GlobalMode_RUN, gs_GSLPSTS := False, gs_GHLTSTS := False,
            gs_GRSTSTS := False\<rparr>)
          (can_mode_global_channel_event CanModeGlobalEvent_SET_RUN
            (upd_global (\<lambda>g. g\<lparr>gt_select_mode := CAN_MODE_COMM\<rparr>) S))
      else S)"

definition can_mode_global_event_set_reset :: "'u can_env \<Rightarrow> 'u CanState \<Rightarrow> 'u CanState" where
  "can_mode_global_event_set_reset U S =
     (if gmode S \<in> {GlobalMode_RUN, GlobalMode_TEST} then
        upd_global (\<lambda>g. g\<lparr>gm_mode := GlobalMode_RESET, gs_GSLPSTS := False, gs_GHLTSTS := False,
            gs_GRSTSTS := True\<rparr>)
          (can_mode_globa_reset U (can_mode_global_channel_event CanModeGlobalEvent_SET_RESET
            (upd_global (\<lambda>g. g\<lparr>gt_select_mode := CAN_MODE_RESET\<rparr>) S)))
      else S)"

definition can_mode_global_event_set_test :: "'u CanState \<Rightarrow> 'u CanState" where
  "can_mode_global_event_set_test S =
     (if gmode S \<in> {GlobalMode_RESET, GlobalMode_RUN} then
        upd_global (\<lambda>g. g\<lparr>gm_mode := GlobalMode_TEST, gs_GSLPSTS := False, gs_GHLTSTS := True,
            gs_GRSTSTS := False\<rparr>)
          (can_mode_global_channel_event CanModeGlobalEvent_SET_TEST
            (upd_global (\<lambda>g. g\<lparr>gt_select_mode := CAN_MODE_WAIT\<rparr>) S))
      else S)"

fun can_mode_global_event :: "'u can_env \<Rightarrow> CanModeGlobalEventType \<Rightarrow> 'u CanState \<Rightarrow> 'u CanState" where
  "can_mode_global_event U CanModeGlobalEvent_CLR_STOP = can_mode_global_event_clr_stop U"
| "can_mode_global_event U CanModeGlobalEvent_SET_STOP = can_mode_global_event_set_stop"
| "can_mode_global_event U CanModeGlobalEvent_SET_RUN = can_mode_global_event_set_run"
| "can_mode_global_event U CanModeGlobalEvent_SET_RESET = can_mode_global_event_set_reset U"
| "can_mode_global_event U CanModeGlobalEvent_SET_TEST = can_mode_global_event_set_test"

definition can_mode_global_is_msglost :: "'u CanState \<Rightarrow> bool" where
  "can_mode_global_is_msglost S =
     (list_ex (\<lambda>cid. list_ex (\<lambda>bid. cf_lost (can_txrx_fifo_control S cid bid))
                [0..<CAN_TXRX_CHANNEL_FIFO_NUM]) [0..<CAN_CHANNEL_NUM] \<or>
      list_ex (\<lambda>x. rf_lost (can_rx_fifo_control S x)) [0..<CAN_RX_FIFO_NUM])"

end
