(* ===== verification/Device_Clock.thy ===== *)
theory Device_Clock
  imports Prelude
begin

text \<open>
  The clock handed to every device: the fields of \<^verbatim>\<open>DeviceClockType\<close> the devices read and write.
  \<open>dc_min_intr_interval\<close> is what a device offers as the number of ticks the emulator may skip while
  the processor is halted.
\<close>

record DeviceClockType =
  dc_clock :: u64
  dc_intclock :: u64
  dc_min_intr_interval :: u64
  dc_can_skip_clock :: bool
  dc_is_halt :: bool

end
