(* ===== verification/Can_Core.thy ===== *)
theory Can_Core
  imports Can_Mode Device_Clock
begin

text \<open>
  Reception, transmission and interrupts of the CAN controller: can_rx.c, can_tx.c,
  can_interrupt.c and the clock and reset functions of can.c.  The bus is the table of function
  pointers of canbus/can_bus.h over a state of its own; an interrupt is the number handed to
  \<^verbatim>\<open>device_raise_int\<close>, so the interrupt pass is the list of the numbers it raises, in order.
\<close>

record 'x CanBusOperationType =
  rx_is_arrived :: "nat \<Rightarrow> 'x \<Rightarrow> bool \<times> 'x"
  rx_receive :: "nat \<Rightarrow> 'x \<Rightarrow> CanDataType \<times> 'x"
  tx_start_send :: "nat \<Rightarrow> CanDataType \<Rightarrow> 'x \<Rightarrow> can_err \<times> 'x"
  tx_is_done :: "nat \<Rightarrow> 'x \<Rightarrow> bool"

section \<open>Reception\<close>

text \<open>The rule pointers of the channels, laid out one after the other over the pages.\<close>

definition can_rx_update_channel :: "'u CanState \<Rightarrow> nat \<Rightarrow> u32 \<times> (nat \<Rightarrow> CanRxChannelRuleType) \<Rightarrow>
    u32 \<times> (nat \<Rightarrow> CanRxChannelRuleType)" where
  "can_rx_update_channel S cid = (\<lambda>(rid, tab).
     let n = can_rx_number S cid in
     (rid + n,
      tab(cid := \<lparr>cr_rule_num = n,
        cr_rule = \<lambda>count. if count < unat n
          then (unat ((rid + of_nat count) div 16), unat ((rid + of_nat count) mod 16))
          else cr_rule (tab cid) count\<rparr>)))"

definition can_rx_update_rule_table :: "'u CanState \<Rightarrow> 'u CanState" where
  "can_rx_update_rule_table S = S\<lparr>can_rx_channel_rule :=
     snd (fold (can_rx_update_channel S) [0..<CAN_CHANNEL_NUM] (0, can_rx_channel_rule S))\<rparr>"

definition can_rx_proc_filter_acceptance :: "CanRxRuleType \<Rightarrow> CanDataType \<Rightarrow> bool" where
  "can_rx_proc_filter_acceptance r d =
     (if mask_ide r \<and> id_ide r \<noteq> d_ide d then False
      else if mask_rtr r \<and> id_rtr r \<noteq> d_rtr d then False
      else if mask_canid r \<noteq> 0 \<and> id_canid r AND mask_canid r \<noteq> d_id d AND mask_canid r then False
      else True)"

definition can_rx_proc_filter_dlc :: "CanRxRuleType \<Rightarrow> CanDataType \<Rightarrow> 'u CanState \<Rightarrow>
    bool \<times> 'u CanState" where
  "can_rx_proc_filter_dlc r d S =
     (if \<not> gc_enable_dlc_check (can_mode_global S) then (True, S)
      else if fb_dlc r \<noteq> 0 then
        (if d_dlc d < fb_dlc r then (False, upd_global (\<lambda>g. g\<lparr>gs_dlc_error := True\<rparr>) S)
         else (True, S))
      else (True, S))"

definition can_rx_proc_filter :: "CanRxRuleType \<Rightarrow> CanDataType \<Rightarrow> 'u CanState \<Rightarrow>
    bool \<times> 'u CanState" where
  "can_rx_proc_filter r d S =
     (if \<not> can_rx_proc_filter_acceptance r d then (False, S) else can_rx_proc_filter_dlc r d S)"

definition CAN_TXRXFIFO_BITMASK :: "nat \<Rightarrow> nat \<Rightarrow> u32" where
  "CAN_TXRXFIFO_BITMASK cid bid = push_bit (3 * cid + bid) 1"

text \<open>
  The message after routing carries the label of the rule, and the next rule sees that message.
\<close>

definition can_rx_proc_routing :: "'u can_env \<Rightarrow> nat \<Rightarrow> CanRxRuleType \<Rightarrow> CanDataType \<Rightarrow> 'u CanState \<Rightarrow>
    CanDataType \<times> 'u CanState" where
  "can_rx_proc_routing U cid r d0 S0 =
     (let d = d0\<lparr>d_label := fb_label r\<rparr>;
          S1 = (if fb_enable_rxbuffer r
                then snd (can_rxbuffer_put_rxdata (unat (fb_rxbuffer_number r)) d S0) else S0);
          S2 = (if ff_rx_fifo r \<noteq> 0
                then fold (\<lambda>x S. if push_bit x 1 AND (ucast (ff_rx_fifo r) :: u32) \<noteq> 0
                                 then snd (can_rxfifo_put_rxdata x d S) else S)
                       [0..<CAN_RX_FIFO_NUM] S1
                else S1);
          S3 = (if ff_txrx_fifo r \<noteq> 0
                then fold (\<lambda>k S. if CAN_TXRXFIFO_BITMASK cid k AND ff_txrx_fifo r \<noteq> 0
                                 then snd (can_txrxfifo_put_rxdata U cid k d S) else S)
                       [0..<CAN_TXRX_CHANNEL_FIFO_NUM] S2
                else S2) in
      (d, S3))"

definition can_rx_proc_one :: "'u can_env \<Rightarrow> nat \<Rightarrow> CanRxRuleType \<Rightarrow> CanDataType \<times> 'u CanState \<Rightarrow>
    CanDataType \<times> 'u CanState" where
  "can_rx_proc_one U cid r = (\<lambda>(d, S).
     let (ok, S1) = can_rx_proc_filter r d S in
     if \<not> ok then (d, S1) else can_rx_proc_routing U cid r d S1)"

definition channel_rule :: "'u CanState \<Rightarrow> nat \<Rightarrow> nat \<Rightarrow> CanRxRuleType" where
  "channel_rule S cid count =
     (let (p, i) = cr_rule (can_rx_channel_rule S cid) count in rt_page (can_rx_rule_table S) p i)"

text \<open>All rules of the channel, against the message and the tables as they are then.\<close>

definition can_rx_rules :: "'u can_env \<Rightarrow> nat \<Rightarrow> CanDataType \<Rightarrow> 'u CanState \<Rightarrow> 'u CanState" where
  "can_rx_rules U cid d S =
     snd (fold (\<lambda>count (d, S). can_rx_proc_one U cid (channel_rule S cid count) (d, S))
            [0..<unat (cr_rule_num (can_rx_channel_rule S cid))] (d, S))"

definition can_rx_channel :: "'u can_env \<Rightarrow> 'x CanBusOperationType \<Rightarrow> nat \<Rightarrow> 'u CanState \<times> 'x \<Rightarrow>
    'u CanState \<times> 'x" where
  "can_rx_channel U B cid = (\<lambda>(S, X0).
     let (arrived, X) = rx_is_arrived B cid X0 in
     if \<not> arrived then (S, X)
     else if cm_mode (chan S cid) \<noteq> ChannelMode_COMM then (S, X)
     else
       let S1 = can_mode_channel_event cid CanModeChannelEvent_COMM_RX_START S in
       if cm_comm_mode (chan S1 cid) \<noteq> ChannelModeComm_RX then (S1, X)
       else
         let (d, X1) = rx_receive B cid X in
         (can_mode_channel_event cid CanModeChannelEvent_COMM_RX_DONE (can_rx_rules U cid d S1), X1))"

definition can_rx_proc :: "'u can_env \<Rightarrow> 'x CanBusOperationType \<Rightarrow> 'u CanState \<times> 'x \<Rightarrow>
    'u CanState \<times> 'x" where
  "can_rx_proc U B SX =
     (if gmode (fst SX) \<noteq> GlobalMode_RUN then SX
      else fold (can_rx_channel U B) [0..<CAN_CHANNEL_NUM] SX)"

section \<open>Transmission\<close>

definition CAN_TX_BUFFER_ID :: "u32 \<Rightarrow> u32 \<Rightarrow> u32" where
  "CAN_TX_BUFFER_ID cid bufno = cid * 16 + bufno"

definition CAN_TX_HISTORY_BUFTYPE_BUFFER :: u8 where [simp]: "CAN_TX_HISTORY_BUFTYPE_BUFFER = 1"
definition CAN_TX_HISTORY_BUFTYPE_FIFO :: u8 where [simp]: "CAN_TX_HISTORY_BUFTYPE_FIFO = 2"
definition CAN_TX_HISTORY_BUFTYPE_QUEUE :: u8 where [simp]: "CAN_TX_HISTORY_BUFTYPE_QUEUE = 4"

text \<open>
  What both selections leave for the send: the element, the buffer type and number of the
  history, the two function pointers, and the label of the message still in \<open>txdata\<close>.
\<close>

definition set_txreq :: "u32 \<Rightarrow> u8 \<Rightarrow> u32 \<Rightarrow> tx_source \<Rightarrow> CanTxReqType \<Rightarrow> CanTxReqType" where
  "set_txreq idx ty no src t = t\<lparr>tr_bufidx := idx,
     tr_history := \<lparr>hd_label = ucast (d_label (tr_txdata t)), hd_bufno = ucast no, hd_buftype = ty\<rparr>,
     tr_get_txdata := src, tr_notify_txdone := src\<rparr>"

text \<open>
  The lowest buffer number.  A linked FIFO is compared by the global number of its buffer and
  remembered by the number inside the channel; behind the loop the FIFO index is the bound.
\<close>

definition prio_bufno_fifo :: "'u CanState \<Rightarrow> nat \<Rightarrow> nat \<Rightarrow> u32 \<times> bool \<Rightarrow> u32 \<times> bool" where
  "prio_bufno_fifo S cid k = (\<lambda>(m, is_buf).
     let f = can_txrx_fifo_control S cid k in
     if cf_mode f \<noteq> CAN_TXRX_FIFO_MODE_TX then (m, is_buf)
     else if fc_count (cf_control f) \<le> 0 then (m, is_buf)
     else if CAN_TX_BUFFER_ID (of_nat cid) (cf_tx_bufno f) < m then (cf_tx_bufno f, False)
     else (m, is_buf))"

definition can_tx_select_buffer_prio_bufno :: "nat \<Rightarrow> 'u CanState \<Rightarrow> can_err \<times> 'u CanState" where
  "can_tx_select_buffer_prio_bufno cid S =
     (let none = CAN_TX_BUFFER_ID 6 16;
          m0 = (case List.find (\<lambda>b. tb_req_tx (txbuf S cid b)) [0..<CAN_TX_CHANNEL_BUFFER_NUM] of
                  Some b \<Rightarrow> CAN_TX_BUFFER_ID (of_nat cid) (of_nat b)
                | None \<Rightarrow> none);
          (m, is_buf) = fold (prio_bufno_fifo S cid) [0..<CAN_TXRX_CHANNEL_FIFO_NUM] (m0, True) in
      if m = none then (E_NOENT, S)
      else if is_buf then
        (E_OK, upd_txreq cid (set_txreq (m mod 16) CAN_TX_HISTORY_BUFTYPE_BUFFER m Src_txbuffer) S)
      else
        (E_OK, upd_txreq cid
          (set_txreq (m mod 16) CAN_TX_HISTORY_BUFTYPE_FIFO (of_nat cid * 3 + 3) Src_txrxfifo) S))"

definition can_get_check_id :: "CanDataType \<Rightarrow> u32" where
  "can_get_check_id d =
     (let stdid = d_id d AND 0x7FF; extid = d_id d AND 0x1FFFF800 in
      if d_ide d then
        (let c = stdid OR push_bit 11 1 OR push_bit 12 1 OR push_bit 13 extid in
         if d_rtr d then c OR push_bit 31 1 else c)
      else (if d_rtr d then stdid OR push_bit 11 1 else stdid))"

text \<open>One candidate of the standard selection: its message if it has one, its index and type.\<close>

definition prio_step :: "(can_err \<times> CanDataType option) \<Rightarrow> u32 \<Rightarrow> u8 \<Rightarrow>
    u32 \<times> u32 \<times> u8 \<Rightarrow> u32 \<times> u32 \<times> u8" where
  "prio_step r bufno ty = (\<lambda>(min_id, candidate, cty).
     case r of
       (E_OK, Some d) \<Rightarrow>
         if can_get_check_id d < min_id then (can_get_check_id d, bufno, ty)
         else (min_id, candidate, cty)
     | _ \<Rightarrow> (min_id, candidate, cty))"

definition can_tx_candidates :: "'u can_env \<Rightarrow> nat \<Rightarrow> 'u CanState \<Rightarrow>
    ((can_err \<times> CanDataType option) \<times> u32 \<times> u8) list" where
  "can_tx_candidates U cid S =
     map (\<lambda>b. (can_txbuffer_peek_txdata cid b S, of_nat b, CAN_TX_HISTORY_BUFTYPE_BUFFER))
       [0..<CAN_TX_CHANNEL_BUFFER_NUM] @
     map (\<lambda>k. (can_txrxfifo_peek_txdata U cid k S, of_nat k, CAN_TX_HISTORY_BUFTYPE_FIFO))
       [0..<CAN_TXRX_CHANNEL_FIFO_NUM] @
     (if tq_enable_queue (can_tx_queue S cid)
      then map (\<lambda>b. (can_txque_peek_txdata cid b S, of_nat b, CAN_TX_HISTORY_BUFTYPE_QUEUE))
             [0..<CAN_TX_CHANNEL_BUFFER_NUM]
      else [])"

definition can_tx_select_buffer_prio_standard :: "'u can_env \<Rightarrow> nat \<Rightarrow> 'u CanState \<Rightarrow>
    can_err \<times> 'u CanState" where
  "can_tx_select_buffer_prio_standard U cid S =
     (let (min_id, cand, ty) =
            fold (\<lambda>(r, b, t). prio_step r b t) (can_tx_candidates U cid S) (- 1, - 1, - 1) in
      if min_id = - 1 then (E_NOENT, S)
      else if ty = CAN_TX_HISTORY_BUFTYPE_BUFFER then
        (E_OK, upd_txreq cid (set_txreq cand CAN_TX_HISTORY_BUFTYPE_BUFFER
          (CAN_TX_BUFFER_ID (of_nat cid) cand) Src_txbuffer) S)
      else if ty = CAN_TX_HISTORY_BUFTYPE_FIFO then
        (E_OK, upd_txreq cid (set_txreq cand CAN_TX_HISTORY_BUFTYPE_FIFO
          (of_nat cid * 3 + cand) Src_txrxfifo) S)
      else
        (E_OK, upd_txreq cid (set_txreq cand CAN_TX_HISTORY_BUFTYPE_QUEUE
          (CAN_TX_BUFFER_ID (of_nat cid) cand) Src_txque) S))"

definition can_tx_select_buffer :: "'u can_env \<Rightarrow> nat \<Rightarrow> 'u CanState \<Rightarrow> can_err \<times> 'u CanState" where
  "can_tx_select_buffer U cid S0 =
     (let S = upd_txreq cid (\<lambda>t. t\<lparr>tr_get_txdata := Src_NULL, tr_notify_txdone := Src_NULL\<rparr>) S0 in
      if gc_enable_tx_bufno_first (can_mode_global S) then can_tx_select_buffer_prio_bufno cid S
      else can_tx_select_buffer_prio_standard U cid S)"

text \<open>
  The calls through the function pointers; a call through a null pointer is \<open>None\<close>.
\<close>

definition call_get_txdata :: "'u can_env \<Rightarrow> tx_source \<Rightarrow> nat \<Rightarrow> nat \<Rightarrow> 'u CanState \<Rightarrow>
    ((can_err \<times> CanDataType option) \<times> 'u CanState) option" where
  "call_get_txdata U src cid b S = (case src of
     Src_NULL \<Rightarrow> None
   | Src_txbuffer \<Rightarrow> Some (can_txbuffer_get_txdata cid b S)
   | Src_txrxfifo \<Rightarrow> Some (can_txrxfifo_get_txdata U cid b S)
   | Src_txque \<Rightarrow> Some (can_txque_get_txdata cid b S, S))"

definition call_notify_txdone :: "tx_source \<Rightarrow> nat \<Rightarrow> nat \<Rightarrow> 'u CanState \<Rightarrow>
    (can_err \<times> 'u CanState) option" where
  "call_notify_txdone src cid b S = (case src of
     Src_NULL \<Rightarrow> None
   | Src_txbuffer \<Rightarrow> Some (can_txbuffer_notify_txdone cid b S)
   | Src_txrxfifo \<Rightarrow> Some (can_txrxfifo_notify_txdone cid b S)
   | Src_txque \<Rightarrow> Some (can_txque_notify_txdone cid b S))"

definition can_tx_send :: "'u can_env \<Rightarrow> 'x CanBusOperationType \<Rightarrow> nat \<Rightarrow> 'u CanState \<times> 'x \<Rightarrow>
    ('u CanState \<times> 'x) option" where
  "can_tx_send U B cid = (\<lambda>(S, X).
     let t = can_tx_control S cid in
     case call_get_txdata U (tr_get_txdata t) cid (unat (tr_bufidx t)) S of
       None \<Rightarrow> None
     | Some ((e, d), S1) \<Rightarrow>
         if e \<noteq> E_OK then Some (S1, X)
         else
           let S2 = (case d of Some m \<Rightarrow> upd_txreq cid (\<lambda>t. t\<lparr>tr_txdata := m\<rparr>) S1 | None \<Rightarrow> S1);
               (e2, X1) = tx_start_send B cid (tr_txdata (can_tx_control S2 cid)) X in
           if e2 \<noteq> E_OK then Some (S2, X1)
           else Some (snd (can_txhl_put_thldata cid (tr_history (can_tx_control S2 cid)) S2), X1))"

definition can_tx_channel :: "'u can_env \<Rightarrow> 'x CanBusOperationType \<Rightarrow> nat \<Rightarrow> 'u CanState \<times> 'x \<Rightarrow>
    ('u CanState \<times> 'x) option" where
  "can_tx_channel U B cid = (\<lambda>(S, X).
     if cm_mode (chan S cid) \<noteq> ChannelMode_COMM then Some (S, X)
     else if cm_comm_mode (chan S cid) \<noteq> ChannelModeComm_IDLE then Some (S, X)
     else
       let (e, S1) = can_tx_select_buffer U cid S in
       if e \<noteq> E_OK then Some (S1, X)
       else
         let S2 = can_mode_channel_event cid CanModeChannelEvent_COMM_TX_START S1 in
         if cm_comm_mode (chan S2 cid) \<noteq> ChannelModeComm_TX then Some (S2, X)
         else can_tx_send U B cid (S2, X))"

text \<open>A pass over the channels that stops at a crash.\<close>

fun each_channel :: "(nat \<Rightarrow> 's \<Rightarrow> 's option) \<Rightarrow> nat list \<Rightarrow> 's \<Rightarrow> 's option" where
  "each_channel f [] s = Some s"
| "each_channel f (c # cs) s = (case f c s of None \<Rightarrow> None | Some s1 \<Rightarrow> each_channel f cs s1)"

definition can_tx_proc :: "'u can_env \<Rightarrow> 'x CanBusOperationType \<Rightarrow> 'u CanState \<times> 'x \<Rightarrow>
    ('u CanState \<times> 'x) option" where
  "can_tx_proc U B SX =
     (if gmode (fst SX) \<noteq> GlobalMode_RUN then Some SX
      else each_channel (can_tx_channel U B) [0..<CAN_CHANNEL_NUM] SX)"

definition can_tx_done_channel :: "'x CanBusOperationType \<Rightarrow> nat \<Rightarrow> 'u CanState \<times> 'x \<Rightarrow>
    ('u CanState \<times> 'x) option" where
  "can_tx_done_channel B cid = (\<lambda>(S, X).
     if cm_mode (chan S cid) \<noteq> ChannelMode_COMM then Some (S, X)
     else if cm_comm_mode (chan S cid) \<noteq> ChannelModeComm_TX then Some (S, X)
     else if \<not> tx_is_done B cid X then Some (S, X)
     else
       let t = can_tx_control S cid in
       case call_notify_txdone (tr_notify_txdone t) cid (unat (tr_bufidx t)) S of
         None \<Rightarrow> None
       | Some (e, S1) \<Rightarrow>
           if e = E_OK then
             Some (can_mode_channel_event cid CanModeChannelEvent_COMM_TX_DONE
               (upd_txreq cid (\<lambda>t. t\<lparr>tr_get_txdata := Src_NULL, tr_notify_txdone := Src_NULL\<rparr>) S1), X)
           else Some (S1, X))"

definition can_tx_done :: "'x CanBusOperationType \<Rightarrow> 'u CanState \<times> 'x \<Rightarrow>
    ('u CanState \<times> 'x) option" where
  "can_tx_done B SX =
     (if gmode (fst SX) \<noteq> GlobalMode_RUN then Some SX
      else each_channel (can_tx_done_channel B) [0..<CAN_CHANNEL_NUM] SX)"

section \<open>Interrupts\<close>

definition CAN_GLOBAL_ERROR_INTNO :: u16 where [simp]: "CAN_GLOBAL_ERROR_INTNO = 22"
definition CAN_GLOBAL_RXFIFO_INTNO :: u16 where [simp]: "CAN_GLOBAL_RXFIFO_INTNO = 23"

definition txrxfifo_rxdone_intno :: "nat \<Rightarrow> u16" where
  "txrxfifo_rxdone_intno cid = [25, 114, 218, 221, 273, 288] ! cid"

definition txdone_intno :: "nat \<Rightarrow> u16" where
  "txdone_intno cid = [26, 115, 219, 222, 274, 289] ! cid"

definition can_intr_global_dlcerr_check :: "'u CanState \<Rightarrow> bool" where
  "can_intr_global_dlcerr_check S =
     (gt_enable_dlc_error (can_mode_global S) \<and> gs_dlc_error (can_mode_global S))"

definition can_intr_global_msglost_check :: "'u CanState \<Rightarrow> bool" where
  "can_intr_global_msglost_check S =
     (gt_enable_fifo_msglost (can_mode_global S) \<and> can_mode_global_is_msglost S)"

definition can_intr_glerror_check :: "'u CanState \<Rightarrow> bool" where
  "can_intr_glerror_check S =
     (if can_intr_global_dlcerr_check S then True else can_intr_global_msglost_check S)"

definition can_intr_rxfifo_check :: "'u CanState \<Rightarrow> bool" where
  "can_intr_rxfifo_check S =
     list_ex (\<lambda>x. rf_enable_intr (can_rx_fifo_control S x) \<and> rf_intr (can_rx_fifo_control S x))
       [0..<CAN_RX_FIFO_NUM]"

definition can_intr_global_run :: "'u CanState \<Rightarrow> u16 list" where
  "can_intr_global_run S =
     (if can_intr_glerror_check S then [CAN_GLOBAL_ERROR_INTNO] else []) @
     (if can_intr_rxfifo_check S then [CAN_GLOBAL_RXFIFO_INTNO] else [])"

definition can_intr_txrxfifo_run :: "nat \<Rightarrow> 'u CanState \<Rightarrow> u16 list" where
  "can_intr_txrxfifo_run cid S =
     (if list_ex (\<lambda>k. cf_enable_rx_intr (can_txrx_fifo_control S cid k) \<and>
                      cf_rx_intr (can_txrx_fifo_control S cid k)) [0..<CAN_TXRX_CHANNEL_FIFO_NUM]
      then [txrxfifo_rxdone_intno cid] else [])"

definition can_intr_tx_buffer_check :: "nat \<Rightarrow> 'u CanState \<Rightarrow> bool" where
  "can_intr_tx_buffer_check cid S =
     (if list_ex (\<lambda>b. tx_intr_enable (can_tx_buffer_control S) ((cid * 16 + b) div 32) AND
                        push_bit ((cid * 16 + b) mod 32) 1 \<noteq> 0 \<and>
                      tb_result (txbuf S cid b) AND 2 \<noteq> 0) [0..<CAN_TX_CHANNEL_BUFFER_NUM]
      then True
      else tq_enable_intr (can_tx_queue S cid) \<and> tq_intr_req (can_tx_queue S cid))"

definition can_intr_tx_fifo_check :: "nat \<Rightarrow> 'u CanState \<Rightarrow> bool" where
  "can_intr_tx_fifo_check cid S =
     list_ex (\<lambda>k. cf_enable_tx_intr (can_txrx_fifo_control S cid k) \<and>
                  cf_tx_intr (can_txrx_fifo_control S cid k)) [0..<CAN_TXRX_CHANNEL_FIFO_NUM]"

definition can_intr_tx_run :: "nat \<Rightarrow> 'u CanState \<Rightarrow> u16 list" where
  "can_intr_tx_run cid S =
     (if can_intr_tx_buffer_check cid S then [txdone_intno cid]
      else if can_intr_tx_fifo_check cid S then [txdone_intno cid]
      else if th_enable_intr (can_tx_history S cid) \<and> th_intr (can_tx_history S cid)
      then [txdone_intno cid] else [])"

definition can_intr_run :: "'u CanState \<Rightarrow> u16 list" where
  "can_intr_run S = can_intr_global_run S @
     concat (map (\<lambda>cid. can_intr_txrxfifo_run cid S @ can_intr_tx_run cid S) [0..<CAN_CHANNEL_NUM])"

section \<open>Reset and clock\<close>

definition can_reset :: "'u can_env \<Rightarrow> 'u CanState \<Rightarrow> 'u CanState" where
  "can_reset U S =
     can_register_reset_tx_history MCU_RESET (can_register_reset_tx_queue MCU_RESET
       (can_register_reset_txrx_fifo U MCU_RESET (can_register_reset_tx_buffer_status MCU_RESET
         (can_register_reset_tx_buffer MCU_RESET (can_register_reset_rx_fifo MCU_RESET
           (can_register_reset_rx_buffer MCU_RESET (can_register_reset_rx_rule MCU_RESET
             (can_register_reset_fifo_status MCU_RESET
               (fold (can_register_reset_channel MCU_RESET) [0..<CAN_CHANNEL_NUM]
                 (can_register_reset_global MCU_RESET S))))))))))"

definition can_rx_init :: "'u CanState \<Rightarrow> 'u CanState" where
  "can_rx_init S = can_rx_update_rule_table S"

text \<open>
  The clock of the device: every \<open>fd\<close> ticks one pass, with the interrupts it raises; between the
  passes it offers the ticks up to the next one.  A divider of 0 traps.
\<close>

definition can_interval :: "u32 \<Rightarrow> DeviceClockType \<Rightarrow> DeviceClockType" where
  "can_interval fd C =
     (let next_clock = ((dc_clock C + ucast (fd - 1)) div ucast fd) * ucast fd;
          interval = next_clock - dc_clock C in
      if interval < dc_min_intr_interval C
      then C\<lparr>dc_min_intr_interval := (if interval = 0 then 1 else interval)\<rparr> else C)"

definition device_supply_clock_can :: "'u can_env \<Rightarrow> 'x CanBusOperationType \<Rightarrow> u32 \<Rightarrow>
    DeviceClockType \<Rightarrow> 'u CanState \<times> 'x \<Rightarrow>
    (DeviceClockType \<times> ('u CanState \<times> 'x) \<times> u16 list) option" where
  "device_supply_clock_can U B fd C SX =
     (if fd = 0 then None
      else if dc_clock C mod ucast fd = 0 then
        (case can_tx_proc U B (can_rx_proc U B SX) of
           None \<Rightarrow> None
         | Some SX1 \<Rightarrow>
             (case can_tx_done B SX1 of
                None \<Rightarrow> None
              | Some SX2 \<Rightarrow> Some (C, SX2, can_intr_run (fst SX2))))
      else Some (can_interval fd C, SX, []))"

end
