(* ===== verification/Can_Ros.thy ===== *)
theory Can_Ros
  imports Can_Core
begin

text \<open>
  The ROS implementation of the CAN bus, canbus/can_bus_impl_ros.c: a ring buffer of received
  frames per channel, filled by the topic callback and drained by the controller, and the search
  for the topic a frame is published on.  The ROS library is a parameter: the topic an incoming
  callback is for, and the effect of a publication on a state of its own.  Parsing the device
  configuration (\<^verbatim>\<open>sscanf\<close>, \<^verbatim>\<open>malloc\<close>) is not modelled; its result is the topic tables.
\<close>

record CanBusRosRxBufferType =
  rr_count :: u32
  rr_roff :: u32
  rr_woff :: u32
  rr_bufferp :: "nat \<Rightarrow> CanDataType"

record CanBusRosTopicType =
  tp_cid :: u32
  tp_ide :: u32
  tp_rtr :: u32
  tp_dlc :: u32
  tp_canid :: u32

record 'p RosBusState =
  rx_queue_max :: u32
  can_bus_ros_rx_buffer :: "nat \<Rightarrow> CanBusRosRxBufferType"
  can_bus_ros_pub_topic :: "CanBusRosTopicType list"
  can_bus_ros_sub_topic :: "(u32 option \<times> CanBusRosTopicType) list"
  ros_published :: 'p

definition can_bus_ros_rx_is_arrived :: "nat \<Rightarrow> 'p RosBusState \<Rightarrow> bool" where
  "can_bus_ros_rx_is_arrived cid X = (rr_count (can_bus_ros_rx_buffer X cid) > 0)"

definition ros_put :: "u32 \<Rightarrow> CanDataType \<Rightarrow> CanBusRosRxBufferType \<Rightarrow> bool \<times> CanBusRosRxBufferType" where
  "ros_put cap d r =
     (if rr_count r \<ge> cap then (False, r)
      else (True, r\<lparr>rr_bufferp := (rr_bufferp r)(unat (rr_woff r) := d), rr_count := rr_count r + 1,
             rr_woff := (if rr_woff r + 1 \<ge> cap then 0 else rr_woff r + 1)\<rparr>))"

definition ros_get :: "u32 \<Rightarrow> CanBusRosRxBufferType \<Rightarrow> CanDataType option \<times> CanBusRosRxBufferType" where
  "ros_get cap r =
     (if rr_count r \<le> 0 then (None, r)
      else (Some (rr_bufferp r (unat (rr_roff r))), r\<lparr>rr_count := rr_count r - 1,
             rr_roff := (if rr_roff r + 1 \<ge> cap then 0 else rr_roff r + 1)\<rparr>))"

definition can_bus_ros_rx_buffer_put :: "nat \<Rightarrow> CanDataType \<Rightarrow> 'p RosBusState \<Rightarrow> bool \<times> 'p RosBusState"
  where
  "can_bus_ros_rx_buffer_put cid d X =
     (let (ok, r) = ros_put (rx_queue_max X) d (can_bus_ros_rx_buffer X cid) in
      (ok, X\<lparr>can_bus_ros_rx_buffer := (can_bus_ros_rx_buffer X)(cid := r)\<rparr>))"

definition can_bus_ros_rx_buffer_get :: "nat \<Rightarrow> 'p RosBusState \<Rightarrow>
    CanDataType option \<times> 'p RosBusState" where
  "can_bus_ros_rx_buffer_get cid X =
     (let (d, r) = ros_get (rx_queue_max X) (can_bus_ros_rx_buffer X cid) in
      (d, X\<lparr>can_bus_ros_rx_buffer := (can_bus_ros_rx_buffer X)(cid := r)\<rparr>))"

text \<open>
  The callback of a subscribed topic: at most eight bytes are copied; the label and the bytes
  not copied keep what the local variable held, \<open>junk\<close>.
\<close>

definition topic_callback :: "CanDataType \<Rightarrow> u32 \<Rightarrow> u8 list \<Rightarrow> 'p RosBusState \<Rightarrow> 'p RosBusState" where
  "topic_callback junk topic_id bytes X =
     (case List.find (\<lambda>(sub, t). sub = Some topic_id) (can_bus_ros_sub_topic X) of
        None \<Rightarrow> X
      | Some (_, t) \<Rightarrow>
          let c = min (length bytes) 8;
              d = junk\<lparr>d_ide := (tp_ide t \<noteq> 0), d_rtr := (tp_rtr t \<noteq> 0), d_dlc := ucast (tp_dlc t),
                    d_id := tp_canid t, d_data := take c bytes @ drop c (d_data junk)\<rparr> in
          snd (can_bus_ros_rx_buffer_put (unat (tp_cid t)) d X))"

definition topic_matches :: "u32 \<Rightarrow> CanDataType \<Rightarrow> CanBusRosTopicType \<Rightarrow> bool" where
  "topic_matches cid d t = (tp_cid t = cid \<and> tp_ide t = of_bool (d_ide d) \<and>
     tp_rtr t = of_bool (d_rtr d) \<and> tp_dlc t = ucast (d_dlc d) \<and> tp_canid t = d_id d)"

fun first_index :: "('a \<Rightarrow> bool) \<Rightarrow> 'a list \<Rightarrow> nat option" where
  "first_index P [] = None"
| "first_index P (x # xs) = (if P x then Some 0 else map_option Suc (first_index P xs))"

definition can_bus_operation_impl_ros_tx_start_send :: "(nat \<Rightarrow> u8 list \<Rightarrow> u8 \<Rightarrow> 'p \<Rightarrow> 'p) \<Rightarrow> nat \<Rightarrow>
    CanDataType \<Rightarrow> 'p RosBusState \<Rightarrow> can_err \<times> 'p RosBusState" where
  "can_bus_operation_impl_ros_tx_start_send publish cid d X =
     (case first_index (topic_matches (of_nat cid) d) (can_bus_ros_pub_topic X) of
        None \<Rightarrow> (E_NOENT, X)
      | Some i \<Rightarrow> (E_OK, X\<lparr>ros_published := publish i (d_data d) (d_dlc d) (ros_published X)\<rparr>))"

definition can_bus_operation_impl_ros_tx_is_done :: "nat \<Rightarrow> 'p RosBusState \<Rightarrow> bool" where
  "can_bus_operation_impl_ros_tx_is_done cid X = True"

text \<open>The table of the bus operations; a failing receive leaves the caller's variable, \<open>junk\<close>.\<close>

definition can_bus_operation_impl_ros :: "(nat \<Rightarrow> u8 list \<Rightarrow> u8 \<Rightarrow> 'p \<Rightarrow> 'p) \<Rightarrow> CanDataType \<Rightarrow>
    'p RosBusState CanBusOperationType" where
  "can_bus_operation_impl_ros publish junk = \<lparr>
     rx_is_arrived = (\<lambda>cid X. (can_bus_ros_rx_is_arrived cid X, X)),
     rx_receive = (\<lambda>cid X. let (d, X1) = can_bus_ros_rx_buffer_get cid X in
       (case d of Some m \<Rightarrow> m | None \<Rightarrow> junk, X1)),
     tx_start_send = can_bus_operation_impl_ros_tx_start_send publish,
     tx_is_done = can_bus_operation_impl_ros_tx_is_done\<rparr>"

end
