(* ===== verification/Queue_Lib.thy ===== *)
theory Queue_Lib
  imports Can_Ros
begin

text \<open>
  Bounded queues and the ring buffers that implement them.  The abstract machine works on a list
  of at most \<open>cap\<close> elements; the locale \<open>queue_impl\<close> is the contract of an implementation, one step
  at a time, and carries it over to any sequence of operations; the locale \<open>ring_store\<close> is the
  array behind a ring buffer, with the two facts every ring of the code rests on.
\<close>

section \<open>The abstract queue\<close>

datatype 'e queue_op = Q_put 'e | Q_next | Q_peek | Q_get

type_synonym 'e queue_res = "can_err \<times> 'e option"

fun q_step :: "nat \<Rightarrow> 'e queue_op \<Rightarrow> 'e list \<Rightarrow> 'e queue_res \<times> 'e list" where
  "q_step cap (Q_put x) q = (if length q < cap then ((E_OK, None), q @ [x]) else ((E_LIMIT, None), q))"
| "q_step cap Q_next [] = ((E_NOENT, None), [])"
| "q_step cap Q_next (y # q) = ((E_OK, None), q)"
| "q_step cap Q_peek [] = ((E_NOENT, None), [])"
| "q_step cap Q_peek (y # q) = ((E_OK, Some y), y # q)"
| "q_step cap Q_get [] = ((E_NOENT, None), [])"
| "q_step cap Q_get (y # q) = ((E_OK, Some y), q)"

fun run_ops :: "('o \<Rightarrow> 's \<Rightarrow> 'r \<times> 's) \<Rightarrow> 'o list \<Rightarrow> 's \<Rightarrow> 'r list \<times> 's" where
  "run_ops step [] s = ([], s)"
| "run_ops step (x # xs) s =
     (let (r, s1) = step x s; (rs, s2) = run_ops step xs s1 in (r # rs, s2))"

lemma q_step_length:
  "length q \<le> cap \<Longrightarrow> length (snd (q_step cap x q)) \<le> cap"
  by (cases x; cases q) auto

text \<open>Nothing is lost or reordered: what a run takes out and leaves is what it was given.\<close>

fun taken :: "'e queue_op list \<Rightarrow> 'e queue_res list \<Rightarrow> 'e list" where
  "taken (Q_get # xs) ((E_OK, Some y) # rs) = y # taken xs rs"
| "taken (x # xs) (r # rs) = taken xs rs"
| "taken _ _ = []"

fun accepted :: "'e queue_op list \<Rightarrow> 'e queue_res list \<Rightarrow> 'e list" where
  "accepted (Q_put y # xs) ((E_OK, _) # rs) = y # accepted xs rs"
| "accepted (x # xs) (r # rs) = accepted xs rs"
| "accepted _ _ = []"

lemma q_run_fifo:
  assumes "Q_next \<notin> set xs" "run_ops (q_step cap) xs q = (rs, q')"
  shows "q @ accepted xs rs = taken xs rs @ q'"
  using assms
proof (induction xs arbitrary: q rs)
  case (Cons x xs)
  obtain r q1 rs1 where s: "q_step cap x q = (r, q1)" "run_ops (q_step cap) xs q1 = (rs1, q')"
      "rs = r # rs1"
    using Cons.prems(2) by (auto split: prod.splits)
  have n: "Q_next \<notin> set xs" "x \<noteq> Q_next" using Cons.prems(1) by auto
  note IH = Cons.IH [OF n(1) s(2)]
  show ?case
    using s IH n(2) by (cases x; cases q) (auto split: if_splits)
qed simp

section \<open>Implementations\<close>

locale queue_impl =
  fixes step :: "'e queue_op \<Rightarrow> 's \<Rightarrow> 'e queue_res \<times> 's"
    and sup :: "'e queue_op \<Rightarrow> bool"
    and ok :: "'s \<Rightarrow> bool"
    and abs :: "'s \<Rightarrow> 'e list"
    and cap :: "'s \<Rightarrow> nat"
  assumes simulates: "ok s \<Longrightarrow> sup x \<Longrightarrow> step x s = (r, s') \<Longrightarrow> q_step (cap s) x (abs s) = (r, abs s')"
    and keeps: "ok s \<Longrightarrow> sup x \<Longrightarrow> step x s = (r, s') \<Longrightarrow> ok s' \<and> cap s' = cap s"
begin

lemma run_simulates:
  assumes "ok s" "\<forall>x \<in> set xs. sup x" "run_ops step xs s = (rs, s')"
  shows "run_ops (q_step (cap s)) xs (abs s) = (rs, abs s') \<and> ok s' \<and> cap s' = cap s"
  using assms
proof (induction xs arbitrary: s rs)
  case (Cons x xs)
  obtain r s1 rs1 where s: "step x s = (r, s1)" "run_ops step xs s1 = (rs1, s')" "rs = r # rs1"
    using Cons.prems(3) by (auto split: prod.splits)
  have x: "sup x" "\<forall>x \<in> set xs. sup x" using Cons.prems(2) by auto
  have k: "ok s1" "cap s1 = cap s" using keeps [OF Cons.prems(1) x(1) s(1)] by auto
  have "run_ops (q_step (cap s1)) xs (abs s1) = (rs1, abs s') \<and> ok s' \<and> cap s' = cap s1"
    by (rule Cons.IH [OF k(1) x(2) s(2)])
  then show ?case using k(2) s(3) simulates [OF Cons.prems(1) x(1) s(1)] by simp
qed simp

end

section \<open>Rings\<close>

definition ring_ok :: "u32 \<Rightarrow> CanFifoControlType \<Rightarrow> bool" where
  "ring_ok n c \<longleftrightarrow> 0 < n \<and> fc_count c \<le> n \<and> fc_roff c < n \<and>
     unat (fc_woff c) = (unat (fc_roff c) + unat (fc_count c)) mod unat n"

definition ring_list :: "('b \<Rightarrow> nat \<Rightarrow> 'e) \<Rightarrow> u32 \<Rightarrow> 'b \<Rightarrow> CanFifoControlType \<Rightarrow> 'e list" where
  "ring_list get n b c =
     map (\<lambda>i. get b ((unat (fc_roff c) + i) mod unat n)) [0..<unat (fc_count c)]"

lemma ring_length [simp]: "length (ring_list get n b c) = unat (fc_count c)"
  by (simp add: ring_list_def)

lemma ring_empty_iff: "ring_list get n b c = [] \<longleftrightarrow> fc_count c = 0"
  by (simp add: ring_list_def unat_eq_0)

lemma wrap_nat:
  fixes x n :: u32
  assumes "x < n"
  shows "unat (if x + 1 \<ge> n then 0 else x + 1) = Suc (unat x) mod unat n"
proof -
  have s: "unat (x + 1) = Suc (unat x)" by (rule unat_inc [OF assms])
  have l: "unat x < unat n" using assms by (simp add: word_less_nat_alt)
  show ?thesis
  proof (cases "x + 1 \<ge> n")
    case True
    then have "unat n \<le> Suc (unat x)" using s by (simp add: word_le_nat_alt)
    then have "Suc (unat x) = unat n" using l by simp
    then show ?thesis using True by simp
  next
    case False
    then have "Suc (unat x) < unat n" using s by (simp add: word_le_nat_alt)
    then show ?thesis using False s by simp
  qed
qed

lemma fifo_control_eq:
  "fc_count c = a \<Longrightarrow> fc_roff c = b \<Longrightarrow> fc_woff c = d \<Longrightarrow>
   c = \<lparr>fc_count = a, fc_roff = b, fc_woff = d\<rparr>"
  by (cases c) simp

lemma ring_ok_clear: "0 < n \<Longrightarrow> ring_ok n CAN_FIFO_CLEAR"
  by (simp add: ring_ok_def CAN_FIFO_CLEAR_def)

lemma ring_ok_woff: "ring_ok n c \<Longrightarrow> fc_woff c < n"
  unfolding ring_ok_def by (simp add: word_less_nat_alt)

lemma ring_put_ok:
  assumes "ring_ok n c" "\<not> fc_count c \<ge> n"
  shows "ring_ok n (fifo_step_put n c)"
proof -
  have c: "fc_count c < n" using assms by (auto simp: ring_ok_def)
  have k: "unat (fc_count c + 1) = Suc (unat (fc_count c))" by (rule unat_inc [OF c])
  have w: "unat (if fc_woff c + 1 \<ge> n then 0 else fc_woff c + 1) = Suc (unat (fc_woff c)) mod unat n"
    by (rule wrap_nat [OF ring_ok_woff [OF assms(1)]])
  have "fc_count c + 1 \<le> n" using c k by (simp add: word_le_nat_alt word_less_nat_alt)
  then show ?thesis
    using assms(1) w k unfolding ring_ok_def fifo_step_put_def
    by (simp add: mod_Suc_eq cong: if_cong)
qed

lemma unat_dec:
  assumes "(a :: u32) \<noteq> 0"
  shows "unat a = Suc (unat (a - 1))"
proof -
  have "1 \<le> a" using assms by (simp add: word_le_nat_alt unat_gt_0 Suc_leI)
  then have "unat (a - 1) = unat a - 1" by (simp add: unat_sub)
  then show ?thesis using assms by (simp add: unat_gt_0)
qed

lemma ring_next_ok:
  assumes "ring_ok n c" "fc_count c \<noteq> 0"
  shows "ring_ok n (fifo_step_next n c)"
proof -
  have r: "fc_roff c < n" using assms by (auto simp: ring_ok_def)
  have k: "unat (fc_count c) = Suc (unat (fc_count c - 1))" by (rule unat_dec [OF assms(2)])
  have w: "unat (if fc_roff c + 1 \<ge> n then 0 else fc_roff c + 1) = Suc (unat (fc_roff c)) mod unat n"
    by (rule wrap_nat [OF r])
  have nz: "0 < unat n" using r by (simp add: word_less_nat_alt)
  have "(if fc_roff c + 1 \<ge> n then 0 else fc_roff c + 1) < n"
    unfolding word_less_nat_alt w using nz by simp
  moreover have "fc_count c - 1 \<le> n"
    using assms(1) k by (simp add: ring_ok_def word_le_nat_alt)
  moreover have "(unat (if fc_roff c + 1 \<ge> n then 0 else fc_roff c + 1) + unat (fc_count c - 1)) mod unat n
      = (unat (fc_roff c) + unat (fc_count c)) mod unat n"
    unfolding w k by (simp add: mod_add_left_eq)
  ultimately show ?thesis
    using assms(1) unfolding ring_ok_def fifo_step_next_def by (simp cong: if_cong)
qed

locale ring_store =
  fixes get :: "'b \<Rightarrow> nat \<Rightarrow> 'e" and put :: "'b \<Rightarrow> nat \<Rightarrow> 'e \<Rightarrow> 'b" and bound :: nat
  assumes get_put: "i < bound \<Longrightarrow> j < bound \<Longrightarrow> get (put b i x) j = (if j = i then x else get b j)"
begin

lemma list_put:
  assumes r: "ring_ok n c" and f: "\<not> fc_count c \<ge> n" and b: "unat n \<le> bound"
  shows "ring_list get n (put a (unat (fc_woff c)) x) (fifo_step_put n c) = ring_list get n a c @ [x]"
proof -
  let ?n = "unat n" and ?r = "unat (fc_roff c)" and ?k = "unat (fc_count c)"
  have c: "fc_count c < n" using f by auto
  have k: "unat (fc_count c + 1) = Suc ?k" by (rule unat_inc [OF c])
  have w: "unat (fc_woff c) = (?r + ?k) mod ?n" using r by (simp add: ring_ok_def)
  have n0: "0 < ?n" using r by (simp add: ring_ok_def word_less_nat_alt)
  have kn: "?k < ?n" using c by (simp add: word_less_nat_alt)
  have in_b: "y mod ?n < bound" for y using n0 b by (meson mod_less_divisor less_le_trans)
  have new: "(?r + i) mod ?n \<noteq> (?r + ?k) mod ?n" if "i < ?k" for i
  proof
    assume "(?r + i) mod ?n = (?r + ?k) mod ?n"
    then have "?n dvd (?r + ?k) - (?r + i)" by (metis mod_eq_dvd_iff_nat that less_imp_le nat_add_left_cancel_le)
    then have "?n dvd ?k - i" by simp
    then show False using that kn by (simp add: dvd_imp_le nat_dvd_not_less)
  qed
  show ?thesis
    unfolding ring_list_def fifo_step_put_def
    by (simp add: k w get_put [OF in_b in_b] new cong: if_cong)
qed

lemma list_next:
  assumes r: "ring_ok n c" and f: "fc_count c \<noteq> 0"
  shows "ring_list get n a c = get a (unat (fc_roff c)) # ring_list get n a (fifo_step_next n c)"
proof -
  let ?n = "unat n" and ?r = "unat (fc_roff c)" and ?k = "unat (fc_count c - 1)"
  have k: "unat (fc_count c) = Suc ?k" by (rule unat_dec [OF f])
  have rn: "fc_roff c < n" using r by (simp add: ring_ok_def)
  have w: "unat (if fc_roff c + 1 \<ge> n then 0 else fc_roff c + 1) = Suc ?r mod ?n"
    by (rule wrap_nat [OF rn])
  have r0: "?r mod ?n = ?r" using rn by (simp add: word_less_nat_alt)
  have "map (\<lambda>i. get a ((?r + i) mod ?n)) [0..<Suc ?k]
      = get a ?r # map (\<lambda>i. get a ((Suc ?r + i) mod ?n)) [0..<?k]"
    by (simp add: r0 map_upt_Suc del: upt_Suc)
  then show ?thesis
    unfolding ring_list_def fifo_step_next_def k
    by (simp add: w mod_add_left_eq cong: if_cong)
qed

end

end
