(* ===== verification/Can_Queues.thy ===== *)
theory Can_Queues
  imports Queue_Lib
begin

text \<open>
  The rings of the CAN code as implementations of the bounded queue: the receive FIFO buffers,
  both sides of the transmit/receive FIFO buffers, the transmit history and the receive buffer of
  the ROS bus.  Each has its step function over the code's own operations, the condition under
  which it works, and an interpretation of \<open>queue_impl\<close>.
\<close>

section \<open>Stores\<close>

interpretation rx_store: ring_store "\<lambda>b i. can_rxbuffer_ref_data (b i)"
    "\<lambda>b i d. b(i := can_rxbuffer_set_data d (b i))" 128
  by unfold_locales simp

interpretation plain_store: ring_store "\<lambda>(b :: nat \<Rightarrow> 'e) i. b i" "\<lambda>b i d. b(i := d)" bound
  for bound
  by unfold_locales simp

text \<open>
  What C guarantees of the two views of the union: reading an element back gives what was stored,
  and a store leaves the other elements of the view alone.
\<close>

definition union_ok :: "'u can_env \<Rightarrow> bool" where
  "union_ok U \<longleftrightarrow> (\<forall>b i j x. i < 128 \<longrightarrow> j < 128 \<longrightarrow>
       get_rx U (put_rx U b i x) j = (if j = i then x else get_rx U b j)) \<and>
     (\<forall>b i j x. i < 128 \<longrightarrow> j < 128 \<longrightarrow>
       get_tx U (put_tx U b i x) j = (if j = i then x else get_tx U b j))"

lemma union_rx_store: "union_ok U \<Longrightarrow> ring_store (\<lambda>b i. can_rxbuffer_ref_data (get_rx U b i))
    (\<lambda>b i d. put_rx U b i (can_rxbuffer_set_data d (get_rx U b i))) 128"
  by unfold_locales (simp add: union_ok_def)

lemma union_tx_store: "union_ok U \<Longrightarrow> ring_store (\<lambda>b i. can_txbuffer_ref_data (get_tx U b i))
    (\<lambda>b i d. put_tx U b i (can_txbuffer_set_data d (get_tx U b i))) 128"
  by unfold_locales (simp add: union_ok_def)

lemma quelen_range:
  assumes "i \<in> {1..7}"
  shows "0 < can_fifo_quelen i" "can_fifo_quelen i \<le> 128"
proof -
  have "i \<in> {1, 2, 3, 4, 5, 6, 7}" using assms by auto
  then show "0 < can_fifo_quelen i" "can_fifo_quelen i \<le> 128"
    by (auto simp: can_fifo_quelen_def nth_Cons')
qed

lemma cap_bound: "i \<in> {1..7} \<Longrightarrow> unat (can_fifo_quelen i) \<le> 128"
  using quelen_range(2) [of i] by (simp add: word_le_nat_alt)

lemma not_ge_iff: "(\<not> unat a < unat n) = ((n :: u32) \<le> a)"
  by (simp add: word_le_nat_alt not_less)

lemma full_after_put:
  "ring_ok n c \<Longrightarrow> \<not> n \<le> fc_count c \<Longrightarrow>
   (n \<le> fc_count (fifo_step_put n c)) = (fc_count (fifo_step_put n c) = n)"
  using ring_put_ok [of n c] by (auto simp: ring_ok_def)

lemma count_after_put [simp]: "ring_ok n c \<Longrightarrow> \<not> n \<le> fc_count c \<Longrightarrow> fc_count (fifo_step_put n c) \<noteq> 0"
  using unat_inc [of "fc_count c" n] by (auto simp: fifo_step_put_def not_le simp flip: unat_eq_0)

lemma count_after_next:
  "ring_ok n c \<Longrightarrow> fc_count c \<noteq> 0 \<Longrightarrow> fc_count (fifo_step_next n c) < n"
  using unat_dec [of "fc_count c"]
  by (simp add: ring_ok_def fifo_step_next_def word_less_nat_alt word_le_nat_alt)

section \<open>Receive FIFO buffers\<close>

definition rx_step :: "nat \<Rightarrow> CanDataType queue_op \<Rightarrow> 'u CanState \<Rightarrow> CanDataType queue_res \<times> 'u CanState"
  where
  "rx_step x q S = (case q of
     Q_put d \<Rightarrow> (let (e, S1) = can_rxfifo_put_rxdata x d S in ((e, None), S1))
   | Q_next \<Rightarrow> (let (e, S1) = can_rxfifo_next_rxdata x S in ((e, None), S1))
   | Q_peek \<Rightarrow> (can_rxfifo_peek_rxdata x S, S)
   | Q_get \<Rightarrow> ((E_INVALID, None), S))"

definition rx_ok :: "CanRxFifoBufferType \<Rightarrow> bool" where
  "rx_ok f \<longleftrightarrow> rf_enable_fifo f \<and> unat (rf_quelen f) \<in> {1..7} \<and> ring_ok (rf_cap f) (rf_control f) \<and>
     rf_full f = (fc_count (rf_control f) = rf_cap f) \<and> rf_empty f = (fc_count (rf_control f) = 0)"

definition rx_list :: "CanRxFifoBufferType \<Rightarrow> CanDataType list" where
  "rx_list f = ring_list (\<lambda>b i. can_rxbuffer_ref_data (b i)) (rf_cap f) (rf_buffer f) (rf_control f)"

definition is_rx_op :: "'e queue_op \<Rightarrow> bool" where "is_rx_op q = (q \<noteq> Q_get)"

lemma rx_put:
  assumes "rx_ok f" "rxfifo_put d f = (e, g)"
  shows "q_step (unat (rf_cap f)) (Q_put d) (rx_list f) = ((e, None), rx_list g) \<and> rx_ok g \<and>
    rf_cap g = rf_cap f"
proof (cases "rf_cap f \<le> fc_count (rf_control f)")
  case True
  then show ?thesis using assms by (auto simp: rxfifo_put_def rx_ok_def rx_list_def not_ge_iff)
next
  case False
  have r: "ring_ok (rf_cap f) (rf_control f)" "rf_enable_fifo f"
      "unat (rf_quelen f) \<in> {1..7}" using assms(1) by (auto simp: rx_ok_def)
  then have g: "e = E_OK" "rf_quelen g = rf_quelen f" "rf_enable_fifo g"
    "rf_control g = fifo_step_put (rf_cap f) (rf_control f)"
    "rf_buffer g = (rf_buffer f)(unat (fc_woff (rf_control f)) :=
       can_rxbuffer_set_data d (rf_buffer f (unat (fc_woff (rf_control f)))))"
    "rf_full g = (rf_cap f \<le> fc_count (rf_control g) \<or> rf_full f)" "\<not> rf_empty g"
    using False assms(2) by (auto simp: rxfifo_put_def Let_def)
  show ?thesis
    using assms(1) False r g ring_put_ok [OF r(1) False] full_after_put [OF r(1) False]
      rx_store.list_put [OF r(1) False cap_bound [OF r(3)], of "rf_buffer f" d]
    by (auto simp: rx_ok_def rx_list_def word_le_nat_alt)
qed

lemma rx_next:
  assumes "rx_ok f" "rxfifo_next f = (e, g)"
  shows "q_step (unat (rf_cap f)) Q_next (rx_list f) = ((e, None), rx_list g) \<and> rx_ok g \<and>
    rf_cap g = rf_cap f"
proof (cases "fc_count (rf_control f) = 0")
  case True
  then show ?thesis using assms by (auto simp: rxfifo_next_def rx_ok_def rx_list_def ring_list_def)
next
  case False
  have r: "ring_ok (rf_cap f) (rf_control f)" "rf_enable_fifo f" using assms(1) by (auto simp: rx_ok_def)
  then have g: "e = E_OK" "rf_quelen g = rf_quelen f" "rf_enable_fifo g"
    "rf_control g = fifo_step_next (rf_cap f) (rf_control f)" "rf_buffer g = rf_buffer f"
    "rf_full g = (rf_full f \<and> \<not> fc_count (rf_control g) < rf_cap f)"
    "rf_empty g = (fc_count (rf_control g) \<le> 0 \<or> rf_empty f)"
    using False assms(2) by (auto simp: rxfifo_next_def Let_def)
  show ?thesis
    using assms(1) False r g ring_next_ok [OF r(1) False] count_after_next [OF r(1) False]
      rx_store.list_next [OF r(1) False, of "rf_buffer f"]
    by (auto simp: rx_ok_def rx_list_def)
qed

lemma rx_peek:
  assumes "rx_ok f"
  shows "q_step n Q_peek (rx_list f) = (rxfifo_peek f, rx_list f)"
proof (cases "fc_count (rf_control f) = 0")
  case True
  then show ?thesis using assms by (simp add: rxfifo_peek_def rx_ok_def rx_list_def ring_list_def)
next
  case False
  have r: "ring_ok (rf_cap f) (rf_control f)" "rf_enable_fifo f" using assms(1) by (auto simp: rx_ok_def)
  show ?thesis
    using False r rx_store.list_next [OF r(1) False, of "rf_buffer f"]
    by (simp add: rxfifo_peek_def rx_list_def)
qed

interpretation rxq: queue_impl "rx_step x" is_rx_op "\<lambda>S. rx_ok (can_rx_fifo_control S x)"
    "\<lambda>S. rx_list (can_rx_fifo_control S x)" "\<lambda>S. unat (rf_cap (can_rx_fifo_control S x))"
  for x
proof unfold_locales
  fix S S' :: "'u CanState" and q r
  assume s: "rx_ok (can_rx_fifo_control S x)" "is_rx_op q" "rx_step x q S = (r, S')"
  have "q_step (unat (rf_cap (can_rx_fifo_control S x))) q (rx_list (can_rx_fifo_control S x)) =
      (r, rx_list (can_rx_fifo_control S' x)) \<and> rx_ok (can_rx_fifo_control S' x) \<and>
      rf_cap (can_rx_fifo_control S' x) = rf_cap (can_rx_fifo_control S x)"
  proof (cases q)
    case (Q_put d)
    obtain e g where "rxfifo_put d (can_rx_fifo_control S x) = (e, g)" by fastforce
    then show ?thesis using s(3) Q_put rx_put [OF s(1)]
      by (auto simp: rx_step_def can_rxfifo_put_rxdata_def upd_rxfifo_def)
  next
    case Q_next
    obtain e g where "rxfifo_next (can_rx_fifo_control S x) = (e, g)" by fastforce
    then show ?thesis using s(3) Q_next rx_next [OF s(1)]
      by (auto simp: rx_step_def can_rxfifo_next_rxdata_def upd_rxfifo_def)
  next
    case Q_peek
    then show ?thesis using s rx_peek [OF s(1)] by (auto simp: rx_step_def can_rxfifo_peek_rxdata_def)
  qed (use s(2) in \<open>simp add: is_rx_op_def\<close>)
  then show "q_step (unat (rf_cap (can_rx_fifo_control S x))) q (rx_list (can_rx_fifo_control S x)) =
      (r, rx_list (can_rx_fifo_control S' x))"
    and "rx_ok (can_rx_fifo_control S' x) \<and>
      unat (rf_cap (can_rx_fifo_control S' x)) = unat (rf_cap (can_rx_fifo_control S x))"
    by simp_all
qed

section \<open>Transmit/receive FIFO buffers\<close>

definition cf_rx_step :: "'u can_env \<Rightarrow> nat \<Rightarrow> nat \<Rightarrow> CanDataType queue_op \<Rightarrow> 'u CanState \<Rightarrow>
    CanDataType queue_res \<times> 'u CanState" where
  "cf_rx_step U cid k q S = (case q of
     Q_put d \<Rightarrow> (let (e, S1) = can_txrxfifo_put_rxdata U cid k d S in ((e, None), S1))
   | Q_next \<Rightarrow> (let (e, S1) = can_txrxfifo_next_rxdata cid k S in ((e, None), S1))
   | Q_peek \<Rightarrow> (can_txrxfifo_peek_rxdata U cid k S, S)
   | Q_get \<Rightarrow> ((E_INVALID, None), S))"

definition cf_tx_step :: "'u can_env \<Rightarrow> nat \<Rightarrow> nat \<Rightarrow> CanDataType queue_op \<Rightarrow> 'u CanState \<Rightarrow>
    CanDataType queue_res \<times> 'u CanState" where
  "cf_tx_step U cid k q S = (case q of
     Q_put d \<Rightarrow> (let (e, S1) = can_txrxfifo_put_txdata U cid k d S in ((e, None), S1))
   | Q_next \<Rightarrow> ((E_INVALID, None), S)
   | Q_peek \<Rightarrow> (can_txrxfifo_peek_txdata U cid k S, S)
   | Q_get \<Rightarrow> can_txrxfifo_get_txdata U cid k S)"

definition cf_ok :: "bool \<Rightarrow> 'u CanTxRxFifoBufferType \<Rightarrow> bool" where
  "cf_ok tx f \<longleftrightarrow> (cf_mode f = CAN_TXRX_FIFO_MODE_TX) = tx \<and> cf_enable_fifo f \<and>
     unat (cf_quelen f) \<in> {1..7} \<and> ring_ok (cf_cap f) (cf_control f) \<and>
     cf_full f = (fc_count (cf_control f) = cf_cap f) \<and>
     (\<not> tx \<longrightarrow> cf_empty f = (fc_count (cf_control f) = 0))"

definition cf_rx_list :: "'u can_env \<Rightarrow> 'u CanTxRxFifoBufferType \<Rightarrow> CanDataType list" where
  "cf_rx_list U f =
     ring_list (\<lambda>b i. can_rxbuffer_ref_data (get_rx U b i)) (cf_cap f) (cf_buffer f) (cf_control f)"

definition cf_tx_list :: "'u can_env \<Rightarrow> 'u CanTxRxFifoBufferType \<Rightarrow> CanDataType list" where
  "cf_tx_list U f =
     ring_list (\<lambda>b i. can_txbuffer_ref_data (get_tx U b i)) (cf_cap f) (cf_buffer f) (cf_control f)"

definition is_tx_op :: "'e queue_op \<Rightarrow> bool" where "is_tx_op q = (q \<noteq> Q_next)"

lemma cf_rx_put:
  assumes U: "union_ok U" and f: "cf_ok False f" "txrxfifo_put_rx U d f = (e, g)"
  shows "q_step (unat (cf_cap f)) (Q_put d) (cf_rx_list U f) = ((e, None), cf_rx_list U g) \<and>
    cf_ok False g \<and> cf_cap g = cf_cap f"
proof (cases "cf_cap f \<le> fc_count (cf_control f)")
  case True
  then show ?thesis using f by (auto simp: txrxfifo_put_rx_def cf_ok_def cf_rx_list_def not_ge_iff)
next
  case False
  have r: "ring_ok (cf_cap f) (cf_control f)" "cf_enable_fifo f" "cf_mode f \<noteq> CAN_TXRX_FIFO_MODE_TX"
    "unat (cf_quelen f) \<in> {1..7}"
    using f(1) by (auto simp: cf_ok_def)
  then have g: "e = E_OK" "cf_quelen g = cf_quelen f" "cf_enable_fifo g" "cf_mode g = cf_mode f"
    "cf_control g = fifo_step_put (cf_cap f) (cf_control f)"
    "cf_buffer g = put_rx U (cf_buffer f) (unat (fc_woff (cf_control f)))
       (can_rxbuffer_set_data d (get_rx U (cf_buffer f) (unat (fc_woff (cf_control f)))))"
    "cf_full g = (cf_cap f \<le> fc_count (cf_control g) \<or> cf_full f)" "\<not> cf_empty g"
    using False f(2) by (auto simp: txrxfifo_put_rx_def Let_def)
  show ?thesis
    using f(1) False r g ring_put_ok [OF r(1) False] full_after_put [OF r(1) False]
      ring_store.list_put [OF union_rx_store [OF U] r(1) False cap_bound [OF r(4)], of "cf_buffer f" d]
    by (auto simp: cf_ok_def cf_rx_list_def word_le_nat_alt)
qed

lemma cf_rx_next:
  assumes U: "union_ok U" and f: "cf_ok False f" "txrxfifo_next_rx f = (e, g)"
  shows "q_step (unat (cf_cap f)) Q_next (cf_rx_list U f) = ((e, None), cf_rx_list U g) \<and>
    cf_ok False g \<and> cf_cap g = cf_cap f"
proof (cases "fc_count (cf_control f) = 0")
  case True
  then show ?thesis using f by (auto simp: txrxfifo_next_rx_def cf_ok_def cf_rx_list_def ring_list_def)
next
  case False
  have r: "ring_ok (cf_cap f) (cf_control f)" "cf_enable_fifo f" "cf_mode f \<noteq> CAN_TXRX_FIFO_MODE_TX"
    "unat (cf_quelen f) \<in> {1..7}"
    using f(1) by (auto simp: cf_ok_def)
  then have g: "e = E_OK" "cf_quelen g = cf_quelen f" "cf_enable_fifo g" "cf_mode g = cf_mode f"
    "cf_control g = fifo_step_next (cf_cap f) (cf_control f)" "cf_buffer g = cf_buffer f"
    "cf_full g = (cf_full f \<and> \<not> fc_count (cf_control g) < cf_cap f)"
    "cf_empty g = (fc_count (cf_control g) \<le> 0 \<or> cf_empty f)"
    using False f(2) by (auto simp: txrxfifo_next_rx_def Let_def)
  show ?thesis
    using f(1) False r g ring_next_ok [OF r(1) False] count_after_next [OF r(1) False]
      ring_store.list_next [OF union_rx_store [OF U] r(1) False, of "cf_buffer f"]
    by (auto simp: cf_ok_def cf_rx_list_def)
qed

lemma cf_rx_peek:
  assumes U: "union_ok U" and f: "cf_ok False f"
  shows "q_step n Q_peek (cf_rx_list U f) = (txrxfifo_peek_rx U f, cf_rx_list U f)"
proof (cases "fc_count (cf_control f) = 0")
  case True
  then show ?thesis using f by (simp add: txrxfifo_peek_rx_def cf_ok_def cf_rx_list_def ring_list_def)
next
  case False
  have r: "ring_ok (cf_cap f) (cf_control f)" "cf_enable_fifo f" "cf_mode f \<noteq> CAN_TXRX_FIFO_MODE_TX"
    using f by (auto simp: cf_ok_def)
  show ?thesis
    using False r ring_store.list_next [OF union_rx_store [OF U] r(1) False, of "cf_buffer f"]
    by (simp add: txrxfifo_peek_rx_def cf_rx_list_def)
qed

lemma cf_tx_put:
  assumes U: "union_ok U" and f: "cf_ok True f" "txrxfifo_put_tx U d f = (e, g)"
  shows "q_step (unat (cf_cap f)) (Q_put d) (cf_tx_list U f) = ((e, None), cf_tx_list U g) \<and>
    cf_ok True g \<and> cf_cap g = cf_cap f"
proof (cases "cf_cap f \<le> fc_count (cf_control f)")
  case True
  then show ?thesis using f by (auto simp: txrxfifo_put_tx_def cf_ok_def cf_tx_list_def not_ge_iff)
next
  case False
  have r: "ring_ok (cf_cap f) (cf_control f)" "cf_enable_fifo f" "cf_mode f = CAN_TXRX_FIFO_MODE_TX"
    "unat (cf_quelen f) \<in> {1..7}"
    using f(1) by (auto simp: cf_ok_def)
  then have g: "e = E_OK" "cf_quelen g = cf_quelen f" "cf_enable_fifo g" "cf_mode g = cf_mode f"
    "cf_control g = fifo_step_put (cf_cap f) (cf_control f)"
    "cf_buffer g = put_tx U (cf_buffer f) (unat (fc_woff (cf_control f)))
       (can_txbuffer_set_data d (get_tx U (cf_buffer f) (unat (fc_woff (cf_control f)))))"
    "cf_full g = (cf_cap f \<le> fc_count (cf_control g) \<or> cf_full f)"
    using False f(2) by (auto simp: txrxfifo_put_tx_def Let_def)
  show ?thesis
    using f(1) False r g ring_put_ok [OF r(1) False] full_after_put [OF r(1) False]
      ring_store.list_put [OF union_tx_store [OF U] r(1) False cap_bound [OF r(4)], of "cf_buffer f" d]
    by (auto simp: cf_ok_def cf_tx_list_def word_le_nat_alt)
qed

lemma cf_tx_peek:
  assumes U: "union_ok U" and f: "cf_ok True f"
  shows "q_step n Q_peek (cf_tx_list U f) = (txrxfifo_peek_tx U f, cf_tx_list U f)"
proof (cases "fc_count (cf_control f) = 0")
  case True
  then show ?thesis using f by (simp add: txrxfifo_peek_tx_def cf_ok_def cf_tx_list_def ring_list_def)
next
  case False
  have r: "ring_ok (cf_cap f) (cf_control f)" "cf_enable_fifo f" "cf_mode f = CAN_TXRX_FIFO_MODE_TX"
    using f by (auto simp: cf_ok_def)
  show ?thesis
    using False r ring_store.list_next [OF union_tx_store [OF U] r(1) False, of "cf_buffer f"]
    by (simp add: txrxfifo_peek_tx_def cf_tx_list_def)
qed

lemma cf_tx_get:
  assumes U: "union_ok U" and f: "cf_ok True f" "txrxfifo_get_tx U f = (r, g)"
  shows "q_step (unat (cf_cap f)) Q_get (cf_tx_list U f) = (r, cf_tx_list U g) \<and>
    cf_ok True g \<and> cf_cap g = cf_cap f"
proof (cases "fc_count (cf_control f) = 0")
  case True
  then show ?thesis
    using f by (auto simp: txrxfifo_get_tx_def txrxfifo_peek_tx_def cf_ok_def cf_tx_list_def ring_list_def)
next
  case False
  have r: "ring_ok (cf_cap f) (cf_control f)" "cf_enable_fifo f" "cf_mode f = CAN_TXRX_FIFO_MODE_TX"
    using f(1) by (auto simp: cf_ok_def)
  then have g: "r = txrxfifo_peek_tx U f" "cf_quelen g = cf_quelen f" "cf_enable_fifo g"
    "cf_mode g = cf_mode f" "cf_control g = fifo_step_next (cf_cap f) (cf_control f)"
    "cf_buffer g = cf_buffer f" "cf_full g = (cf_full f \<and> \<not> fc_count (cf_control g) < cf_cap f)"
    using False f(2) by (auto simp: txrxfifo_get_tx_def txrxfifo_peek_tx_def Let_def)
  show ?thesis
    using f(1) False r g ring_next_ok [OF r(1) False] count_after_next [OF r(1) False]
      ring_store.list_next [OF union_tx_store [OF U] r(1) False, of "cf_buffer f"]
    by (auto simp: cf_ok_def cf_tx_list_def txrxfifo_peek_tx_def)
qed

lemma cf_rx_impl:
  fixes U :: "'u can_env"
  assumes U: "union_ok U"
  shows "queue_impl (cf_rx_step U cid k) is_rx_op (\<lambda>S. cf_ok False (can_txrx_fifo_control S cid k))
    (\<lambda>S. cf_rx_list U (can_txrx_fifo_control S cid k))
    (\<lambda>S. unat (cf_cap (can_txrx_fifo_control S cid k)))"
proof unfold_locales
  fix S S' :: "'u CanState" and q r
  let ?f = "can_txrx_fifo_control S cid k" and ?g = "can_txrx_fifo_control S' cid k"
  assume s: "cf_ok False ?f" "is_rx_op q" "cf_rx_step U cid k q S = (r, S')"
  have "q_step (unat (cf_cap ?f)) q (cf_rx_list U ?f) = (r, cf_rx_list U ?g) \<and> cf_ok False ?g \<and>
      cf_cap ?g = cf_cap ?f"
  proof (cases q)
    case (Q_put d)
    obtain e g where "txrxfifo_put_rx U d ?f = (e, g)" by fastforce
    then show ?thesis using s(3) Q_put cf_rx_put [OF U s(1)]
      by (auto simp: cf_rx_step_def can_txrxfifo_put_rxdata_def upd_txrxfifo_def)
  next
    case Q_next
    obtain e g where "txrxfifo_next_rx ?f = (e, g)" by fastforce
    then show ?thesis using s(3) Q_next cf_rx_next [OF U s(1)]
      by (auto simp: cf_rx_step_def can_txrxfifo_next_rxdata_def upd_txrxfifo_def)
  next
    case Q_peek
    then show ?thesis using s cf_rx_peek [OF U s(1)]
      by (auto simp: cf_rx_step_def can_txrxfifo_peek_rxdata_def)
  qed (use s(2) in \<open>simp add: is_rx_op_def\<close>)
  then show "q_step (unat (cf_cap ?f)) q (cf_rx_list U ?f) = (r, cf_rx_list U ?g)"
    and "cf_ok False ?g \<and> unat (cf_cap ?g) = unat (cf_cap ?f)" by simp_all
qed

lemma cf_tx_impl:
  fixes U :: "'u can_env"
  assumes U: "union_ok U"
  shows "queue_impl (cf_tx_step U cid k) is_tx_op (\<lambda>S. cf_ok True (can_txrx_fifo_control S cid k))
    (\<lambda>S. cf_tx_list U (can_txrx_fifo_control S cid k))
    (\<lambda>S. unat (cf_cap (can_txrx_fifo_control S cid k)))"
proof unfold_locales
  fix S S' :: "'u CanState" and q r
  let ?f = "can_txrx_fifo_control S cid k" and ?g = "can_txrx_fifo_control S' cid k"
  assume s: "cf_ok True ?f" "is_tx_op q" "cf_tx_step U cid k q S = (r, S')"
  have "q_step (unat (cf_cap ?f)) q (cf_tx_list U ?f) = (r, cf_tx_list U ?g) \<and> cf_ok True ?g \<and>
      cf_cap ?g = cf_cap ?f"
  proof (cases q)
    case (Q_put d)
    obtain e g where "txrxfifo_put_tx U d ?f = (e, g)" by fastforce
    then show ?thesis using s(3) Q_put cf_tx_put [OF U s(1)]
      by (auto simp: cf_tx_step_def can_txrxfifo_put_txdata_def upd_txrxfifo_def)
  next
    case Q_get
    obtain e g where "txrxfifo_get_tx U ?f = (e, g)" by fastforce
    then show ?thesis using s(3) Q_get cf_tx_get [OF U s(1)]
      by (auto simp: cf_tx_step_def can_txrxfifo_get_txdata_def upd_txrxfifo_def)
  next
    case Q_peek
    then show ?thesis using s cf_tx_peek [OF U s(1)]
      by (auto simp: cf_tx_step_def can_txrxfifo_peek_txdata_def)
  qed (use s(2) in \<open>simp add: is_tx_op_def\<close>)
  then show "q_step (unat (cf_cap ?f)) q (cf_tx_list U ?f) = (r, cf_tx_list U ?g)"
    and "cf_ok True ?g \<and> unat (cf_cap ?g) = unat (cf_cap ?f)" by simp_all
qed

section \<open>Transmit history\<close>

definition th_step :: "nat \<Rightarrow> CanTxHistoryDataType queue_op \<Rightarrow> 'u CanState \<Rightarrow>
    CanTxHistoryDataType queue_res \<times> 'u CanState" where
  "th_step cid q S = (case q of
     Q_put d \<Rightarrow> (let (e, S1) = can_txhl_put_thldata cid d S in ((e, None), S1))
   | Q_next \<Rightarrow> (let (e, S1) = can_txhl_next_thldata cid S in ((e, None), S1))
   | Q_peek \<Rightarrow> (can_txhl_peek_thldata cid S, S)
   | Q_get \<Rightarrow> ((E_INVALID, None), S))"

definition th_ok :: "CanTxHistoryType \<Rightarrow> bool" where
  "th_ok h \<longleftrightarrow> th_enable_history h \<and> ring_ok 16 (th_control h) \<and>
     th_full h = (fc_count (th_control h) = 16) \<and> th_empty h = (fc_count (th_control h) = 0)"

definition th_list :: "CanTxHistoryType \<Rightarrow> CanTxHistoryDataType list" where
  "th_list h = ring_list (\<lambda>b i. b i) 16 (th_buffer h) (th_control h)"

lemma th_put:
  assumes h: "th_ok h" "txhl_put d h = (e, g)"
  shows "q_step 16 (Q_put d) (th_list h) = ((e, None), th_list g) \<and> th_ok g"
proof (cases "16 \<le> fc_count (th_control h)")
  case True
  then have "\<not> unat (fc_count (th_control h)) < 16" by (simp add: word_le_nat_alt)
  then show ?thesis using True h by (auto simp: txhl_put_def th_ok_def th_list_def)
next
  case False
  have r: "ring_ok 16 (th_control h)" "th_enable_history h" using h(1) by (auto simp: th_ok_def)
  then have g: "e = E_OK" "th_enable_history g" "th_control g = fifo_step_put 16 (th_control h)"
    "th_buffer g = (th_buffer h)(unat (fc_woff (th_control h)) := d)"
    "th_full g = (16 \<le> fc_count (th_control g) \<or> th_full h)" "\<not> th_empty g"
    using False h(2) by (auto simp: txhl_put_def Let_def)
  have "unat (fc_count (th_control h)) < 16" using False by (simp add: word_le_nat_alt)
  then show ?thesis
    using h(1) False r g ring_put_ok [OF r(1) False] full_after_put [OF r(1) False]
      plain_store.list_put [OF r(1) False, of 128 "th_buffer h" d]
    by (auto simp: th_ok_def th_list_def)
qed

lemma th_next:
  assumes h: "th_ok h" "txhl_next h = (e, g)"
  shows "q_step 16 Q_next (th_list h) = ((e, None), th_list g) \<and> th_ok g"
proof (cases "fc_count (th_control h) = 0")
  case True
  then show ?thesis using h by (auto simp: txhl_next_def th_ok_def th_list_def ring_list_def)
next
  case False
  have r: "ring_ok 16 (th_control h)" "th_enable_history h" using h(1) by (auto simp: th_ok_def)
  then have g: "e = E_OK" "th_enable_history g" "th_control g = fifo_step_next 16 (th_control h)"
    "th_buffer g = th_buffer h" "\<not> th_full g"
    "th_empty g = (fc_count (th_control g) \<le> 0 \<or> th_empty h)"
    using False h(2) by (auto simp: txhl_next_def Let_def)
  show ?thesis
    using h(1) False r g ring_next_ok [OF r(1) False] count_after_next [OF r(1) False]
      plain_store.list_next [OF r(1) False, of "th_buffer h"]
    by (auto simp: th_ok_def th_list_def)
qed

lemma th_peek:
  assumes "th_ok h"
  shows "q_step n Q_peek (th_list h) = (txhl_peek h, th_list h)"
proof (cases "fc_count (th_control h) = 0")
  case True
  then show ?thesis using assms by (simp add: txhl_peek_def th_ok_def th_list_def ring_list_def)
next
  case False
  have r: "ring_ok 16 (th_control h)" "th_enable_history h" using assms by (auto simp: th_ok_def)
  show ?thesis
    using False r plain_store.list_next [OF r(1) False, of "th_buffer h"]
    by (simp add: txhl_peek_def th_list_def)
qed

interpretation thq: queue_impl "th_step cid" is_rx_op "\<lambda>S. th_ok (can_tx_history S cid)"
    "\<lambda>S. th_list (can_tx_history S cid)" "\<lambda>S. 16"
  for cid
proof unfold_locales
  fix S S' :: "'u CanState" and q r
  let ?f = "can_tx_history S cid" and ?g = "can_tx_history S' cid"
  assume s: "th_ok ?f" "is_rx_op q" "th_step cid q S = (r, S')"
  have "q_step 16 q (th_list ?f) = (r, th_list ?g) \<and> th_ok ?g"
  proof (cases q)
    case (Q_put d)
    obtain e g where "txhl_put d ?f = (e, g)" by fastforce
    then show ?thesis using s(3) Q_put th_put [OF s(1)]
      by (auto simp: th_step_def can_txhl_put_thldata_def upd_txhl_def)
  next
    case Q_next
    obtain e g where "txhl_next ?f = (e, g)" by fastforce
    then show ?thesis using s(3) Q_next th_next [OF s(1)]
      by (auto simp: th_step_def can_txhl_next_thldata_def upd_txhl_def)
  next
    case Q_peek
    then show ?thesis using s th_peek [OF s(1)] by (auto simp: th_step_def can_txhl_peek_thldata_def)
  qed (use s(2) in \<open>simp add: is_rx_op_def\<close>)
  then show "q_step 16 q (th_list ?f) = (r, th_list ?g)" and "th_ok ?g \<and> (16::nat) = 16" by simp_all
qed

section \<open>ROS receive buffer\<close>

text \<open>The ring of the ROS bus has its offsets in a record of its own; its size is configured.\<close>

definition rr_control :: "CanBusRosRxBufferType \<Rightarrow> CanFifoControlType" where
  "rr_control r = \<lparr>fc_count = rr_count r, fc_roff = rr_roff r, fc_woff = rr_woff r\<rparr>"

definition ros_step :: "nat \<Rightarrow> CanDataType queue_op \<Rightarrow> 'p RosBusState \<Rightarrow>
    CanDataType queue_res \<times> 'p RosBusState" where
  "ros_step cid q X = (case q of
     Q_put d \<Rightarrow> (let (ok, X1) = can_bus_ros_rx_buffer_put cid d X in
       ((if ok then E_OK else E_LIMIT, None), X1))
   | Q_get \<Rightarrow> (let (d, X1) = can_bus_ros_rx_buffer_get cid X in
       ((if d = None then E_NOENT else E_OK, d), X1))
   | _ \<Rightarrow> ((E_INVALID, None), X))"

definition ros_ok :: "nat \<Rightarrow> 'p RosBusState \<Rightarrow> bool" where
  "ros_ok cid X \<longleftrightarrow> ring_ok (rx_queue_max X) (rr_control (can_bus_ros_rx_buffer X cid))"

definition ros_list :: "nat \<Rightarrow> 'p RosBusState \<Rightarrow> CanDataType list" where
  "ros_list cid X = ring_list (\<lambda>b i. b i) (rx_queue_max X)
     (rr_bufferp (can_bus_ros_rx_buffer X cid)) (rr_control (can_bus_ros_rx_buffer X cid))"

definition is_ros_op :: "'e queue_op \<Rightarrow> bool" where
  "is_ros_op q = (q \<noteq> Q_next \<and> q \<noteq> Q_peek)"

lemma ros_put:
  assumes r: "ring_ok n (rr_control r)" and p: "ros_put n d r = (ok, r')"
  shows "q_step (unat n) (Q_put d) (ring_list (\<lambda>b i. b i) n (rr_bufferp r) (rr_control r)) =
     ((if ok then E_OK else E_LIMIT, None), ring_list (\<lambda>b i. b i) n (rr_bufferp r') (rr_control r'))
     \<and> ring_ok n (rr_control r')"
proof (cases "n \<le> rr_count r")
  case True
  then show ?thesis using r p by (auto simp: ros_put_def rr_control_def word_le_nat_alt)
next
  case False
  then have f: "\<not> n \<le> fc_count (rr_control r)" by (simp add: rr_control_def)
  have "rr_control r' = fifo_step_put n (rr_control r)" "ok"
    "rr_bufferp r' = (rr_bufferp r)(unat (fc_woff (rr_control r)) := d)"
    using False p by (auto simp: ros_put_def rr_control_def fifo_step_put_def)
  then show ?thesis
    using f ring_put_ok [OF r f] plain_store.list_put [OF r f order_refl, of "rr_bufferp r" d]
    by (simp add: word_le_nat_alt)
qed

lemma ros_get:
  assumes r: "ring_ok n (rr_control r)" and p: "ros_get n r = (d, r')"
  shows "q_step (unat n) Q_get (ring_list (\<lambda>b i. b i) n (rr_bufferp r) (rr_control r)) =
     ((if d = None then E_NOENT else E_OK, d), ring_list (\<lambda>b i. b i) n (rr_bufferp r') (rr_control r'))
     \<and> ring_ok n (rr_control r')"
proof (cases "rr_count r = 0")
  case True
  then show ?thesis using r p by (auto simp: ros_get_def rr_control_def ring_list_def)
next
  case False
  then have f: "fc_count (rr_control r) \<noteq> 0" by (simp add: rr_control_def)
  have "rr_control r' = fifo_step_next n (rr_control r)" "rr_bufferp r' = rr_bufferp r"
    "d = Some (rr_bufferp r (unat (fc_roff (rr_control r))))"
    using False p by (auto simp: ros_get_def rr_control_def fifo_step_next_def)
  then show ?thesis
    using ring_next_ok [OF r f] plain_store.list_next [OF r f, of "rr_bufferp r"] by simp
qed

interpretation rosq: queue_impl "ros_step cid" is_ros_op "ros_ok cid" "ros_list cid"
    "\<lambda>X. unat (rx_queue_max X)"
  for cid
proof unfold_locales
  fix X X' :: "'p RosBusState" and q r
  assume s: "ros_ok cid X" "is_ros_op q" "ros_step cid q X = (r, X')"
  have "q_step (unat (rx_queue_max X)) q (ros_list cid X) = (r, ros_list cid X') \<and> ros_ok cid X' \<and>
      rx_queue_max X' = rx_queue_max X"
  proof (cases q)
    case (Q_put d)
    obtain ok b where b: "ros_put (rx_queue_max X) d (can_bus_ros_rx_buffer X cid) = (ok, b)" by fastforce
    then have "r = (if ok then E_OK else E_LIMIT, None)" "rx_queue_max X' = rx_queue_max X"
      "can_bus_ros_rx_buffer X' cid = b"
      using s(3) Q_put by (auto simp: ros_step_def can_bus_ros_rx_buffer_put_def)
    then show ?thesis using s(1) Q_put ros_put [OF _ b] by (simp add: ros_ok_def ros_list_def)
  next
    case Q_get
    obtain d b where b: "ros_get (rx_queue_max X) (can_bus_ros_rx_buffer X cid) = (d, b)" by fastforce
    then have "r = (if d = None then E_NOENT else E_OK, d)" "rx_queue_max X' = rx_queue_max X"
      "can_bus_ros_rx_buffer X' cid = b"
      using s(3) Q_get by (auto simp: ros_step_def can_bus_ros_rx_buffer_get_def)
    then show ?thesis using s(1) Q_get ros_get [OF _ b] by (simp add: ros_ok_def ros_list_def)
  qed (use s(2) in \<open>simp_all add: is_ros_op_def\<close>)
  then show "q_step (unat (rx_queue_max X)) q (ros_list cid X) = (r, ros_list cid X')"
    and "ros_ok cid X' \<and> unat (rx_queue_max X') = unat (rx_queue_max X)" by simp_all
qed

end
