(* ===== verification/Can_Reg.thy ===== *)
theory Can_Reg
  imports Can_Core
begin

text \<open>
  The registers of the CAN controller, first part: the memory behind them
  (mapping/can_register_memory.c), the bit macros of mapping/can_register.h, and the registers of
  the channels, the global modes and the reception rules
  (mapping/can_register_mapping_io_channel.c, _io_global.c, _io_rx_rule.c).  An access first
  goes to the memory; a write handler then reads the register from there and updates the model,
  a read handler stores the model's value there for the access to return.
\<close>

datatype CanRegisterIoType = CanRegisterIo_Read | CanRegisterIo_Write

section \<open>Memory and bit macros\<close>

definition RSCANn_base :: u32 where "RSCANn_base = 0xFFD00000"

definition can_register_read_data8 :: "u32 \<Rightarrow> 'u CanState \<Rightarrow> u8" where
  "can_register_read_data8 a S = memory_data_CAN S (a - RSCANn_base)"

definition can_register_read_data16 :: "u32 \<Rightarrow> 'u CanState \<Rightarrow> u16" where
  "can_register_read_data16 a S =
     ucast (can_register_read_data8 a S) OR push_bit 8 (ucast (can_register_read_data8 (a + 1) S))"

definition can_register_read_data32 :: "u32 \<Rightarrow> 'u CanState \<Rightarrow> u32" where
  "can_register_read_data32 a S =
     ucast (can_register_read_data8 a S) OR push_bit 8 (ucast (can_register_read_data8 (a + 1) S)) OR
     push_bit 16 (ucast (can_register_read_data8 (a + 2) S)) OR
     push_bit 24 (ucast (can_register_read_data8 (a + 3) S))"

definition can_register_write_data8 :: "u32 \<Rightarrow> u8 \<Rightarrow> 'u CanState \<Rightarrow> 'u CanState" where
  "can_register_write_data8 a v = memory_data_CAN_update (\<lambda>m. m(a - RSCANn_base := v))"

definition can_register_write_data16 :: "u32 \<Rightarrow> u16 \<Rightarrow> 'u CanState \<Rightarrow> 'u CanState" where
  "can_register_write_data16 a v S =
     can_register_write_data8 (a + 1) (ucast (drop_bit 8 v)) (can_register_write_data8 a (ucast v) S)"

definition can_register_write_data32 :: "u32 \<Rightarrow> u32 \<Rightarrow> 'u CanState \<Rightarrow> 'u CanState" where
  "can_register_write_data32 a v S =
     can_register_write_data8 (a + 3) (ucast (drop_bit 24 v))
       (can_register_write_data8 (a + 2) (ucast (drop_bit 16 v))
         (can_register_write_data8 (a + 1) (ucast (drop_bit 8 v))
           (can_register_write_data8 a (ucast v) S)))"

definition CAN_REG_UPDATE_REG_BIT :: "bool \<Rightarrow> nat \<Rightarrow> 'a::len word \<Rightarrow> 'a word" where
  "CAN_REG_UPDATE_REG_BIT flag bits d =
     (if flag then d OR push_bit bits 1 else d AND NOT (push_bit bits 1))"

definition CAN_REG_UPDATE_MODEL_FLAG :: "'a::len word \<Rightarrow> nat \<Rightarrow> bool" where
  "CAN_REG_UPDATE_MODEL_FLAG d bits = (d AND push_bit bits 1 \<noteq> 0)"

definition CAN_DATA_IS_BITSET :: "u32 \<Rightarrow> nat \<Rightarrow> bool" where
  "CAN_DATA_IS_BITSET d bits = (push_bit bits d \<noteq> 0)"

definition CAN_REG_GET_ALIGNED_ADDR :: "u32 \<Rightarrow> u32" where
  "CAN_REG_GET_ALIGNED_ADDR a = a AND 0xFFFFFFFC"

definition CAN_REG_GROUP_INDEX :: "u32 \<Rightarrow> u32 \<Rightarrow> u32 \<Rightarrow> nat" where
  "CAN_REG_GROUP_INDEX a start unit = unat ((CAN_REG_GET_ALIGNED_ADDR a - start) div unit)"

definition CAN_REG_INDEX :: "u32 \<Rightarrow> u32 \<Rightarrow> u32 \<Rightarrow> nat" where
  "CAN_REG_INDEX a start unit = unat ((a - start) div unit)"

text \<open>A register by its offset from the base; a write of the word an access is in.\<close>

abbreviation can_reg :: "u32 \<Rightarrow> u32" where "can_reg off \<equiv> RSCANn_base + off"

abbreviation read_reg :: "u32 \<Rightarrow> 'u CanState \<Rightarrow> u32" where
  "read_reg a S \<equiv> can_register_read_data32 (CAN_REG_GET_ALIGNED_ADDR a) S"

abbreviation write_reg :: "u32 \<Rightarrow> u32 \<Rightarrow> 'u CanState \<Rightarrow> 'u CanState" where
  "write_reg a v S \<equiv> can_register_write_data32 (CAN_REG_GET_ALIGNED_ADDR a) v S"

text \<open>The byte \<open>i\<close> of a register and the register made of four bytes, through a byte pointer.\<close>

definition reg_byte :: "u32 \<Rightarrow> nat \<Rightarrow> u8" where
  "reg_byte d i = ucast (drop_bit (8 * i) d)"

definition reg_bytes :: "u8 list \<Rightarrow> u32" where
  "reg_bytes bs = ucast (bs ! 0) OR push_bit 8 (ucast (bs ! 1)) OR push_bit 16 (ucast (bs ! 2)) OR
     push_bit 24 (ucast (bs ! 3))"

section \<open>Channel registers\<close>

definition can_register_mapping_io_RSCANnCmCFG :: "CanRegisterIoType \<Rightarrow> u32 \<Rightarrow> 'u CanState \<Rightarrow>
    'u CanState" where
  "can_register_mapping_io_RSCANnCmCFG io a S = S"

definition can_register_mapping_io_RSCANnCmCTR :: "CanRegisterIoType \<Rightarrow> u32 \<Rightarrow> 'u CanState \<Rightarrow>
    'u CanState" where
  "can_register_mapping_io_RSCANnCmCTR io a S =
     (let i = CAN_REG_GROUP_INDEX a (can_reg 0x0004) 16;
          d = read_reg a S;
          cslpr = drop_bit 2 d AND 1;
          chmdc = d AND 3;
          S1 = (if io = CanRegisterIo_Write then
                  (let Sa = (if cslpr \<noteq> old_cslpr S then
                               (if cslpr \<noteq> 0
                                then can_mode_channel_event i CanModeChannelEvent_SET_STOP S
                                else can_mode_channel_event i CanModeChannelEvent_CLR_STOP S)
                             else S);
                       Sb = (if chmdc \<noteq> old_chmdc Sa then
                               (if chmdc = ucast CAN_MODE_COMM
                                then can_mode_channel_event i CanModeChannelEvent_SET_COMM Sa
                                else if chmdc = ucast CAN_MODE_RESET
                                then can_mode_channel_event i CanModeChannelEvent_SET_RESET Sa
                                else if chmdc = ucast CAN_MODE_WAIT
                                then can_mode_channel_event i CanModeChannelEvent_SET_WAIT Sa
                                else Sa)
                             else Sa) in
                   Sb\<lparr>old_chmdc := chmdc, old_cslpr := cslpr\<rparr>)
                else S);
          d1 = CAN_REG_UPDATE_REG_BIT (cm_stop (chan S1 i)) 2 d AND NOT 3
                 OR ucast (cm_select_mode (chan S1 i)) in
      write_reg a d1 S1)"

definition can_register_mapping_io_RSCANnCmSTS :: "CanRegisterIoType \<Rightarrow> u32 \<Rightarrow> 'u CanState \<Rightarrow>
    'u CanState" where
  "can_register_mapping_io_RSCANnCmSTS io a S =
     (let c = chan S (CAN_REG_GROUP_INDEX a (can_reg 0x0008) 16) in
      if io = CanRegisterIo_Read then
        write_reg a
          (CAN_REG_UPDATE_REG_BIT (cs_mode_reset c) 0 (CAN_REG_UPDATE_REG_BIT (cs_mode_wait c) 1
            (CAN_REG_UPDATE_REG_BIT (cs_mode_stop c) 2 (CAN_REG_UPDATE_REG_BIT (cs_sending c) 5
              (CAN_REG_UPDATE_REG_BIT (cs_receiving c) 6
                (CAN_REG_UPDATE_REG_BIT (cs_can_comm c) 7 0)))))) S
      else S)"

definition can_register_mapping_io_RSCANnCmERFL :: "CanRegisterIoType \<Rightarrow> u32 \<Rightarrow> 'u CanState \<Rightarrow>
    'u CanState" where
  "can_register_mapping_io_RSCANnCmERFL io a S = S"

definition can_register_mapping_io_CHANNEL :: "CanRegisterIoType \<Rightarrow> u32 \<Rightarrow> 'u CanState \<Rightarrow>
    'u CanState" where
  "can_register_mapping_io_CHANNEL io a S =
     (let k = CAN_REG_GET_ALIGNED_ADDR a AND 0xF in
      if k = 0 then can_register_mapping_io_RSCANnCmCFG io a S
      else if k = 4 then can_register_mapping_io_RSCANnCmCTR io a S
      else if k = 8 then can_register_mapping_io_RSCANnCmSTS io a S
      else if k = 0xC then can_register_mapping_io_RSCANnCmERFL io a S
      else S)"

section \<open>Global registers\<close>

definition can_register_mapping_io_RSCANnGCFG :: "CanRegisterIoType \<Rightarrow> u32 \<Rightarrow> 'u CanState \<Rightarrow>
    'u CanState" where
  "can_register_mapping_io_RSCANnGCFG io a S =
     (if io = CanRegisterIo_Read then S
      else
        let d = can_register_read_data32 (can_reg 0x0084) S in
        upd_global (\<lambda>g. g\<lparr>gc_enable_dlc_check := CAN_REG_UPDATE_MODEL_FLAG d 1,
          gc_enable_tx_bufno_first := CAN_REG_UPDATE_MODEL_FLAG d 0\<rparr>) S)"

definition can_register_mapping_io_RSCANnGCTR :: "'u can_env \<Rightarrow> CanRegisterIoType \<Rightarrow> u32 \<Rightarrow>
    'u CanState \<Rightarrow> 'u CanState" where
  "can_register_mapping_io_RSCANnGCTR U io a S =
     (let d = can_register_read_data32 (can_reg 0x0088) S;
          gslpr = drop_bit 2 d AND 1;
          gmdc = d AND 3;
          S1 = (if io = CanRegisterIo_Write then
                  (let S0 = upd_global (\<lambda>g. g\<lparr>gt_enable_tx_history := CAN_REG_UPDATE_MODEL_FLAG d 10,
                              gt_enable_fifo_msglost := CAN_REG_UPDATE_MODEL_FLAG d 9,
                              gt_enable_dlc_error := CAN_REG_UPDATE_MODEL_FLAG d 8\<rparr>) S;
                       Sa = (if gslpr \<noteq> old_gslpr S0 then
                               (if gslpr \<noteq> 0
                                then can_mode_global_event U CanModeGlobalEvent_SET_STOP S0
                                else can_mode_global_event U CanModeGlobalEvent_CLR_STOP S0)
                             else S0);
                       Sb = (if gmdc \<noteq> old_gmdc Sa then
                               (if gmdc = ucast CAN_MODE_COMM
                                then can_mode_global_event U CanModeGlobalEvent_SET_RUN Sa
                                else if gmdc = ucast CAN_MODE_RESET
                                then can_mode_global_event U CanModeGlobalEvent_SET_RESET Sa
                                else if gmdc = ucast CAN_MODE_WAIT
                                then can_mode_global_event U CanModeGlobalEvent_SET_TEST Sa
                                else Sa)
                             else Sa) in
                   Sb\<lparr>old_gmdc := gmdc, old_gslpr := gslpr\<rparr>)
                else S);
          d1 = CAN_REG_UPDATE_REG_BIT (gt_stop (can_mode_global S1)) 2 d AND NOT 3
                 OR ucast (gt_select_mode (can_mode_global S1)) in
      can_register_write_data32 (can_reg 0x0088) d1 S1)"

definition can_register_mapping_io_RSCANnGSTS :: "CanRegisterIoType \<Rightarrow> u32 \<Rightarrow> 'u CanState \<Rightarrow>
    'u CanState" where
  "can_register_mapping_io_RSCANnGSTS io a S =
     (let g = can_mode_global S in
      if io = CanRegisterIo_Read then
        can_register_write_data32 (can_reg 0x008C)
          (CAN_REG_UPDATE_REG_BIT (gs_GSLPSTS g) 2 (CAN_REG_UPDATE_REG_BIT (gs_GHLTSTS g) 1
            (CAN_REG_UPDATE_REG_BIT (gs_GRSTSTS g) 0 0))) S
      else S)"

definition can_register_mapping_io_RSCANnGERFL :: "CanRegisterIoType \<Rightarrow> u32 \<Rightarrow> 'u CanState \<Rightarrow>
    'u CanState" where
  "can_register_mapping_io_RSCANnGERFL io a S =
     (let d = can_register_read_data32 (can_reg 0x0090) S in
      if io = CanRegisterIo_Read then
        (let d1 = CAN_REG_UPDATE_REG_BIT (can_mode_global_is_msglost S) 1
                    (CAN_REG_UPDATE_REG_BIT (gs_dlc_error (can_mode_global S)) 0 d);
             d2 = (if list_ex (\<lambda>i. th_ovr (can_tx_history S i)) [0..<CAN_CHANNEL_NUM]
                   then d1 OR push_bit 2 1 else d1) in
         can_register_write_data32 (can_reg 0x0090) d2 S)
      else if d AND 1 = 0 then upd_global (\<lambda>g. g\<lparr>gs_dlc_error := False\<rparr>) S
      else S)"

definition can_register_mapping_io_RSCANnGTINTSTS_is_tx_intr :: "nat \<Rightarrow> 'u CanState \<Rightarrow> bool" where
  "can_register_mapping_io_RSCANnGTINTSTS_is_tx_intr cid S =
     list_ex (\<lambda>b. CAN_DATA_IS_BITSET (tx_intr_enable (can_tx_buffer_control S) ((cid * 16 + b) div 32))
                    ((cid * 16 + b) mod 32) \<and>
                  tb_result (txbuf S cid b) AND 0x10 \<noteq> 0) [0..<CAN_TX_CHANNEL_BUFFER_NUM]"

definition can_register_mappin_io_RSCANnGTINTSTS_is_CFTIFm :: "nat \<Rightarrow> 'u CanState \<Rightarrow> bool" where
  "can_register_mappin_io_RSCANnGTINTSTS_is_CFTIFm cid S =
     list_ex (\<lambda>k. cf_enable_tx_intr (can_txrx_fifo_control S cid k) \<and>
                  cf_tx_intr (can_txrx_fifo_control S cid k)) [0..<CAN_TXRX_CHANNEL_FIFO_NUM]"

definition can_register_mappin_io_RSCANnGTINTSTS_is_TQIFm :: "nat \<Rightarrow> 'u CanState \<Rightarrow> bool" where
  "can_register_mappin_io_RSCANnGTINTSTS_is_TQIFm cid S =
     list_ex (\<lambda>b. tq_enable_intr (can_tx_queue S cid) \<and> tq_intr_req (can_tx_queue S cid))
       [0..<CAN_TXRX_CHANNEL_FIFO_NUM]"

definition can_register_mappin_io_RSCANnGTINTSTS_is_THIFm :: "nat \<Rightarrow> 'u CanState \<Rightarrow> bool" where
  "can_register_mappin_io_RSCANnGTINTSTS_is_THIFm cid S =
     (if \<not> th_enable_intr (can_tx_history S cid) then False
      else if th_intr (can_tx_history S cid) then False
      else False)"

text \<open>The four flags of channel \<open>cid\<close>, in the byte \<open>pos\<close> of the register.\<close>

definition gtintsts_byte :: "'u CanState \<Rightarrow> nat \<Rightarrow> nat \<Rightarrow> u32 \<Rightarrow> u32" where
  "gtintsts_byte S pos cid d =
     CAN_REG_UPDATE_REG_BIT (can_register_mappin_io_RSCANnGTINTSTS_is_THIFm cid S) (8 * pos + 4)
      (CAN_REG_UPDATE_REG_BIT (can_register_mappin_io_RSCANnGTINTSTS_is_TQIFm cid S) (8 * pos + 2)
       (CAN_REG_UPDATE_REG_BIT (can_register_mappin_io_RSCANnGTINTSTS_is_CFTIFm cid S) (8 * pos + 3)
        (CAN_REG_UPDATE_REG_BIT (can_register_mapping_io_RSCANnGTINTSTS_is_tx_intr cid S) (8 * pos) d)))"

definition can_register_mapping_io_RSCANnGTINTSTS0 :: "CanRegisterIoType \<Rightarrow> u32 \<Rightarrow> 'u CanState \<Rightarrow>
    'u CanState" where
  "can_register_mapping_io_RSCANnGTINTSTS0 io a S =
     (let d = can_register_read_data32 (can_reg 0x0460) S in
      if io = CanRegisterIo_Read then
        can_register_write_data32 (can_reg 0x0460)
          (fold (\<lambda>c. gtintsts_byte S c c) [0, 1, 2, 3] d) S
      else S)"

definition can_register_mapping_io_RSCANnGTINTSTS1 :: "CanRegisterIoType \<Rightarrow> u32 \<Rightarrow> 'u CanState \<Rightarrow>
    'u CanState" where
  "can_register_mapping_io_RSCANnGTINTSTS1 io a S =
     (let d = can_register_read_data32 (can_reg 0x0464) S in
      if io = CanRegisterIo_Read then
        can_register_write_data32 (can_reg 0x0464)
          (fold (\<lambda>c. gtintsts_byte S (c - 4) c) [4, 5] d) S
      else S)"

section \<open>Reception rules\<close>

definition can_register_mapping_io_RSCANnGAFLECTR :: "CanRegisterIoType \<Rightarrow> u32 \<Rightarrow> 'u CanState \<Rightarrow>
    'u CanState" where
  "can_register_mapping_io_RSCANnGAFLECTR io a S =
     (if io = CanRegisterIo_Read then S
      else
        let d = can_register_read_data32 (can_reg 0x0098) S in
        S\<lparr>can_rx_rule_table := (can_rx_rule_table S)\<lparr>
            rt_enable_write := CAN_REG_UPDATE_MODEL_FLAG d 8,
            rt_page_number := ucast (d AND 0x1F)\<rparr>\<rparr>)"

definition can_register_mapping_io_RSCANnGAFLCFG0 :: "CanRegisterIoType \<Rightarrow> u32 \<Rightarrow> 'u CanState \<Rightarrow>
    'u CanState" where
  "can_register_mapping_io_RSCANnGAFLCFG0 io a S =
     (if io = CanRegisterIo_Read then S
      else
        let d = can_register_read_data32 (can_reg 0x009C) S in
        can_rx_update_rule_table (S\<lparr>can_rx_number := (can_rx_number S)(0 := ucast (reg_byte d 3),
          1 := ucast (reg_byte d 2), 2 := ucast (reg_byte d 1), 3 := ucast (reg_byte d 0))\<rparr>))"

definition can_register_mapping_io_RSCANnGAFLCFG1 :: "CanRegisterIoType \<Rightarrow> u32 \<Rightarrow> 'u CanState \<Rightarrow>
    'u CanState" where
  "can_register_mapping_io_RSCANnGAFLCFG1 io a S =
     (if io = CanRegisterIo_Read then S
      else
        let d = can_register_read_data32 (can_reg 0x00A0) S in
        can_rx_update_rule_table (S\<lparr>can_rx_number := (can_rx_number S)(4 := ucast (reg_byte d 3),
          5 := ucast (reg_byte d 2))\<rparr>))"

text \<open>The rule a register of the table belongs to: the page in force, the index in the window.\<close>

definition upd_rule :: "nat \<Rightarrow> (CanRxRuleType \<Rightarrow> CanRxRuleType) \<Rightarrow> 'u CanState \<Rightarrow> 'u CanState" where
  "upd_rule i f = can_rx_rule_table_update (\<lambda>r. let p = unat (rt_page_number r) in
     r\<lparr>rt_page := (rt_page r)(p := (rt_page r p)(i := f (rt_page r p i)))\<rparr>)"

definition can_register_mapping_io_RSCANnGAFLIDj :: "CanRegisterIoType \<Rightarrow> u32 \<Rightarrow> 'u CanState \<Rightarrow>
    'u CanState" where
  "can_register_mapping_io_RSCANnGAFLIDj io a S =
     (if io = CanRegisterIo_Read then S
      else
        let d = read_reg a S in
        upd_rule (CAN_REG_GROUP_INDEX a (can_reg 0x0500) 16)
          (\<lambda>r. r\<lparr>id_ide := CAN_REG_UPDATE_MODEL_FLAG d 31, id_rtr := CAN_REG_UPDATE_MODEL_FLAG d 30,
                 id_canid := d AND 0x1FFFFFFF\<rparr>) S)"

definition can_register_mapping_io_RSCANnGAFLMj :: "CanRegisterIoType \<Rightarrow> u32 \<Rightarrow> 'u CanState \<Rightarrow>
    'u CanState" where
  "can_register_mapping_io_RSCANnGAFLMj io a S =
     (if io = CanRegisterIo_Read then S
      else
        let d = read_reg a S in
        upd_rule (CAN_REG_GROUP_INDEX a (can_reg 0x0504) 16)
          (\<lambda>r. r\<lparr>mask_ide := CAN_REG_UPDATE_MODEL_FLAG d 31,
                 mask_rtr := CAN_REG_UPDATE_MODEL_FLAG d 30, mask_canid := d AND 0x1FFFFFFF\<rparr>) S)"

definition can_register_mapping_io_RSCANnGAFLP0j :: "CanRegisterIoType \<Rightarrow> u32 \<Rightarrow> 'u CanState \<Rightarrow>
    'u CanState" where
  "can_register_mapping_io_RSCANnGAFLP0j io a S =
     (if io = CanRegisterIo_Read then S
      else
        let d = read_reg a S in
        upd_rule (CAN_REG_GROUP_INDEX a (can_reg 0x0508) 16)
          (\<lambda>r. r\<lparr>fb_dlc := ucast (drop_bit 28 d), fb_label := ucast (drop_bit 16 d AND 0xFFF),
                 fb_enable_rxbuffer := CAN_REG_UPDATE_MODEL_FLAG d 15,
                 fb_rxbuffer_number := ucast (drop_bit 8 d AND 0x7F)\<rparr>) S)"

definition can_register_mapping_io_RSCANnGAFLP1j :: "CanRegisterIoType \<Rightarrow> u32 \<Rightarrow> 'u CanState \<Rightarrow>
    'u CanState" where
  "can_register_mapping_io_RSCANnGAFLP1j io a S =
     (if io = CanRegisterIo_Read then S
      else
        let d = read_reg a S in
        upd_rule (CAN_REG_GROUP_INDEX a (can_reg 0x050C) 16)
          (\<lambda>r. r\<lparr>ff_txrx_fifo := drop_bit 8 d AND 0x3FFFF, ff_rx_fifo := ucast (d AND 0xFF)\<rparr>) S)"

definition can_register_mapping_io_RX_RULE :: "CanRegisterIoType \<Rightarrow> u32 \<Rightarrow> 'u CanState \<Rightarrow>
    'u CanState" where
  "can_register_mapping_io_RX_RULE io a S =
     (let k = CAN_REG_GET_ALIGNED_ADDR a AND 0xF in
      if k = 0 then can_register_mapping_io_RSCANnGAFLIDj io a S
      else if k = 4 then can_register_mapping_io_RSCANnGAFLMj io a S
      else if k = 8 then can_register_mapping_io_RSCANnGAFLP0j io a S
      else if k = 0xC then can_register_mapping_io_RSCANnGAFLP1j io a S
      else S)"

end
