(* ===== verification/Can_Map.thy ===== *)
theory Can_Map
  imports Can_Reg
begin

text \<open>
  The registers of the CAN controller, second part: buffers, FIFO buffers, their collected status,
  transmit queue and history (the remaining mapping/can_register_mapping_io_*.c), the table that
  finds the handler of an address (can_register_mapping.c, can_register_mapping_io_table.c) and
  the bus operations of can.c.
\<close>

section \<open>Receive buffers\<close>

definition can_register_mapping_io_RSCANnRMNB :: "CanRegisterIoType \<Rightarrow> u32 \<Rightarrow> 'u CanState \<Rightarrow>
    'u CanState" where
  "can_register_mapping_io_RSCANnRMNB io a S =
     (if io = CanRegisterIo_Read then S
      else S\<lparr>can_rx_buffer_control := (can_rx_buffer_control S)\<lparr>
             rx_buffer_num := ucast (can_register_read_data32 (can_reg 0x00A4) S AND 0xFF)\<rparr>\<rparr>)"

definition can_register_mapping_io_RSCANnRMNDy :: "CanRegisterIoType \<Rightarrow> u32 \<Rightarrow> 'u CanState \<Rightarrow>
    'u CanState" where
  "can_register_mapping_io_RSCANnRMNDy io a S =
     (let i = CAN_REG_GROUP_INDEX a (can_reg 0x00A8) 4; c = can_rx_buffer_control S in
      if io = CanRegisterIo_Read then write_reg a (rx_msgin_flag c i) S
      else S\<lparr>can_rx_buffer_control := c\<lparr>rx_msgin_flag := (rx_msgin_flag c)(i := read_reg a S)\<rparr>\<rparr>)"

text \<open>The registers of a message, the same for every kind of buffer.\<close>

definition id_reg :: "CanDataType \<Rightarrow> u32" where
  "id_reg d = CAN_REG_UPDATE_REG_BIT (d_rtr d) 30 (CAN_REG_UPDATE_REG_BIT (d_ide d) 31 0) OR d_id d"

definition ptr_reg :: "CanDataType \<Rightarrow> u32" where
  "ptr_reg d = push_bit 28 (ucast (d_dlc d)) OR push_bit 16 (ucast (d_label d))"

definition df0_reg :: "CanDataType \<Rightarrow> u32" where
  "df0_reg d = reg_bytes [d_data d ! 0, d_data d ! 1, d_data d ! 2, d_data d ! 3]"

definition df1_reg :: "CanDataType \<Rightarrow> u32" where
  "df1_reg d = reg_bytes [d_data d ! 4, d_data d ! 5, d_data d ! 6, d_data d ! 7]"

definition rxbuf_reg :: "(CanDataType \<Rightarrow> u32) \<Rightarrow> u32 \<Rightarrow> CanRegisterIoType \<Rightarrow> u32 \<Rightarrow> 'u CanState \<Rightarrow>
    'u CanState" where
  "rxbuf_reg reg start io a S =
     (if io = CanRegisterIo_Read
      then write_reg a (reg (can_rxbuffer_get_rxdata (CAN_REG_GROUP_INDEX a start 16) S)) S
      else S)"

definition can_register_mapping_io_RSCANnRMIDq :: "CanRegisterIoType \<Rightarrow> u32 \<Rightarrow> 'u CanState \<Rightarrow>
    'u CanState" where
  "can_register_mapping_io_RSCANnRMIDq = rxbuf_reg id_reg (can_reg 0x0600)"

definition can_register_mapping_io_RSCANnRMPTRq :: "CanRegisterIoType \<Rightarrow> u32 \<Rightarrow> 'u CanState \<Rightarrow>
    'u CanState" where
  "can_register_mapping_io_RSCANnRMPTRq = rxbuf_reg ptr_reg (can_reg 0x0604)"

definition can_register_mapping_io_RSCANnRMDF0q :: "CanRegisterIoType \<Rightarrow> u32 \<Rightarrow> 'u CanState \<Rightarrow>
    'u CanState" where
  "can_register_mapping_io_RSCANnRMDF0q = rxbuf_reg df0_reg (can_reg 0x0608)"

definition can_register_mapping_io_RSCANnRMDF1q :: "CanRegisterIoType \<Rightarrow> u32 \<Rightarrow> 'u CanState \<Rightarrow>
    'u CanState" where
  "can_register_mapping_io_RSCANnRMDF1q = rxbuf_reg df1_reg (can_reg 0x060C)"

definition can_register_mapping_io_RX_BUFFER :: "CanRegisterIoType \<Rightarrow> u32 \<Rightarrow> 'u CanState \<Rightarrow>
    'u CanState" where
  "can_register_mapping_io_RX_BUFFER io a S =
     (let k = CAN_REG_GET_ALIGNED_ADDR a AND 0xF in
      if k = 0 then can_register_mapping_io_RSCANnRMIDq io a S
      else if k = 4 then can_register_mapping_io_RSCANnRMPTRq io a S
      else if k = 8 then can_register_mapping_io_RSCANnRMDF0q io a S
      else if k = 0xC then can_register_mapping_io_RSCANnRMDF1q io a S
      else S)"

section \<open>Receive FIFO buffers\<close>

definition can_register_mapping_io_RSCANnRFCCx :: "CanRegisterIoType \<Rightarrow> u32 \<Rightarrow> 'u CanState \<Rightarrow>
    'u CanState" where
  "can_register_mapping_io_RSCANnRFCCx io a S =
     (if io = CanRegisterIo_Read then S
      else
        let i = CAN_REG_GROUP_INDEX a (can_reg 0x00B8) 4; d = read_reg a S in
        upd_rxfifo i (\<lambda>f. let f1 = f\<lparr>rf_intr_timing_cnt := ucast (drop_bit 13 d AND 3),
              rf_everytime := CAN_REG_UPDATE_MODEL_FLAG d 12,
              rf_quelen := ucast (drop_bit 8 d AND 7),
              rf_enable_intr := CAN_REG_UPDATE_MODEL_FLAG d 1,
              rf_enable_fifo := CAN_REG_UPDATE_MODEL_FLAG d 0\<rparr> in
            if \<not> rf_enable_fifo f1
            then f1\<lparr>rf_control := CAN_FIFO_CLEAR, rf_empty := True, rf_full := False\<rparr> else f1) S)"

definition can_register_mapping_io_RSCANnRFSTSx :: "CanRegisterIoType \<Rightarrow> u32 \<Rightarrow> 'u CanState \<Rightarrow>
    'u CanState" where
  "can_register_mapping_io_RSCANnRFSTSx io a S =
     (let i = CAN_REG_GROUP_INDEX a (can_reg 0x00D8) 4; f = can_rx_fifo_control S i in
      if io = CanRegisterIo_Read then
        write_reg a (CAN_REG_UPDATE_REG_BIT (rf_empty f) 0 (CAN_REG_UPDATE_REG_BIT (rf_full f) 1
          (CAN_REG_UPDATE_REG_BIT (rf_lost f) 2 (CAN_REG_UPDATE_REG_BIT (rf_intr f) 3
            (push_bit 8 (fc_count (rf_control f))))))) S
      else
        let d = read_reg a S in
        upd_rxfifo i (\<lambda>f. f\<lparr>rf_intr := (rf_intr f \<and> d AND push_bit 3 1 \<noteq> 0),
                            rf_lost := (rf_lost f \<and> d AND push_bit 2 1 \<noteq> 0)\<rparr>) S)"

definition can_register_mapping_io_RSCANnRFPCTRx :: "CanRegisterIoType \<Rightarrow> u32 \<Rightarrow> 'u CanState \<Rightarrow>
    'u CanState" where
  "can_register_mapping_io_RSCANnRFPCTRx io a S =
     (if io = CanRegisterIo_Read then S
      else
        let i = CAN_REG_GROUP_INDEX a (can_reg 0x00F8) 4; d = read_reg a S in
        write_reg a 0 (if d AND 0xFF = 0xFF then snd (can_rxfifo_next_rxdata i S) else S))"

text \<open>
  The window on the oldest message of a FIFO: \<open>dflt\<close> is what the register holds when there is none.
\<close>

definition rxfifo_reg :: "(CanDataType \<Rightarrow> u32) \<Rightarrow> u32 \<Rightarrow> u32 \<Rightarrow> CanRegisterIoType \<Rightarrow> u32 \<Rightarrow>
    'u CanState \<Rightarrow> 'u CanState" where
  "rxfifo_reg reg dflt start io a S =
     (if io = CanRegisterIo_Read then
        write_reg a (case can_rxfifo_peek_rxdata (CAN_REG_GROUP_INDEX a start 16) S of
            (E_OK, Some d) \<Rightarrow> reg d
          | _ \<Rightarrow> dflt) S
      else S)"

definition can_register_mapping_io_RSCANnRFIDx :: "CanRegisterIoType \<Rightarrow> u32 \<Rightarrow> 'u CanState \<Rightarrow>
    'u CanState" where
  "can_register_mapping_io_RSCANnRFIDx = rxfifo_reg id_reg 0 (can_reg 0x0E00)"

definition can_register_mapping_io_RSCANnRFPTRx :: "CanRegisterIoType \<Rightarrow> u32 \<Rightarrow> 'u CanState \<Rightarrow>
    'u CanState" where
  "can_register_mapping_io_RSCANnRFPTRx = rxfifo_reg ptr_reg 0 (can_reg 0x0E04)"

definition can_register_mapping_io_RSCANnRFDF0x :: "CanRegisterIoType \<Rightarrow> u32 \<Rightarrow> 'u CanState \<Rightarrow>
    'u CanState" where
  "can_register_mapping_io_RSCANnRFDF0x = rxfifo_reg df0_reg 0 (can_reg 0x0E08)"

definition can_register_mapping_io_RSCANnRFDF1x :: "'u can_env \<Rightarrow> CanRegisterIoType \<Rightarrow> u32 \<Rightarrow>
    'u CanState \<Rightarrow> 'u CanState" where
  "can_register_mapping_io_RSCANnRFDF1x U = rxfifo_reg df1_reg (uninit_data U) (can_reg 0x0E0C)"

definition can_register_mapping_io_RX_FIFO :: "'u can_env \<Rightarrow> CanRegisterIoType \<Rightarrow> u32 \<Rightarrow>
    'u CanState \<Rightarrow> 'u CanState" where
  "can_register_mapping_io_RX_FIFO U io a S =
     (let k = CAN_REG_GET_ALIGNED_ADDR a AND 0xF in
      if k = 0 then can_register_mapping_io_RSCANnRFIDx io a S
      else if k = 4 then can_register_mapping_io_RSCANnRFPTRx io a S
      else if k = 8 then can_register_mapping_io_RSCANnRFDF0x io a S
      else if k = 0xC then can_register_mapping_io_RSCANnRFDF1x U io a S
      else S)"

section \<open>Transmit/receive FIFO buffers\<close>

definition can_register_mapping_io_RSCANnCFCCk :: "CanRegisterIoType \<Rightarrow> u32 \<Rightarrow> 'u CanState \<Rightarrow>
    'u CanState" where
  "can_register_mapping_io_RSCANnCFCCk io a S =
     (if io = CanRegisterIo_Read then S
      else
        let i = CAN_REG_GROUP_INDEX a (can_reg 0x0118) 4; cid = i div 3; bid = i mod 3;
            d = read_reg a S; bufno = drop_bit 20 d AND 0xF in
        upd_txrxfifo cid bid (\<lambda>f. let f1 = f\<lparr>cf_tx_bufno := bufno,
              cf_mode := ucast (drop_bit 16 d AND 3),
              cf_intr_timing_cnt := ucast (drop_bit 13 d AND 7),
              cf_everytime := CAN_REG_UPDATE_MODEL_FLAG d 12,
              cf_quelen := ucast (drop_bit 8 d AND 7),
              cf_enable_tx_intr := CAN_REG_UPDATE_MODEL_FLAG d 2,
              cf_enable_rx_intr := CAN_REG_UPDATE_MODEL_FLAG d 1,
              cf_enable_fifo := CAN_REG_UPDATE_MODEL_FLAG d 0\<rparr> in
            if \<not> cf_enable_fifo f1
            then f1\<lparr>cf_control := CAN_FIFO_CLEAR, cf_empty := True, cf_full := False\<rparr> else f1)
          (upd_txbuf cid (unat bufno) (tb_req_tx_update (\<lambda>_. False)) S))"

definition can_register_mapping_io_RSCANnCFSTSk :: "CanRegisterIoType \<Rightarrow> u32 \<Rightarrow> 'u CanState \<Rightarrow>
    'u CanState" where
  "can_register_mapping_io_RSCANnCFSTSk io a S =
     (let i = CAN_REG_GROUP_INDEX a (can_reg 0x0178) 4; cid = i div 3; bid = i mod 3;
          f = can_txrx_fifo_control S cid bid in
      if io = CanRegisterIo_Read then
        write_reg a (CAN_REG_UPDATE_REG_BIT (cf_empty f) 0 (CAN_REG_UPDATE_REG_BIT (cf_full f) 1
          (CAN_REG_UPDATE_REG_BIT (cf_lost f) 2 (CAN_REG_UPDATE_REG_BIT (cf_rx_intr f) 3
            (CAN_REG_UPDATE_REG_BIT (cf_tx_intr f) 4 (push_bit 8 (fc_count (cf_control f)))))))) S
      else
        let d = read_reg a S in
        upd_txrxfifo cid bid (\<lambda>f. f\<lparr>cf_tx_intr := CAN_REG_UPDATE_MODEL_FLAG d 4,
          cf_rx_intr := CAN_REG_UPDATE_MODEL_FLAG d 3, cf_lost := CAN_REG_UPDATE_MODEL_FLAG d 2\<rparr>) S)"

definition can_register_mapping_io_RSCANnCFPCTRk :: "'u can_env \<Rightarrow> CanRegisterIoType \<Rightarrow> u32 \<Rightarrow>
    'u CanState \<Rightarrow> 'u CanState" where
  "can_register_mapping_io_RSCANnCFPCTRk U io a S =
     (if io = CanRegisterIo_Read then S
      else
        let i = CAN_REG_GROUP_INDEX a (can_reg 0x01D8) 4; cid = i div 3; bid = i mod 3;
            d = read_reg a S in
        write_reg a 0
          (if d AND 0xFF = 0xFF then
             (if cf_mode (can_txrx_fifo_control S cid bid) = CAN_TXRX_FIFO_MODE_TX
              then (snd (can_txrxfifo_put_txdata U cid bid (txrx_tx_fifodata S) S))
                     \<lparr>txrx_tx_fifodata := zero_data\<rparr>
              else snd (can_txrxfifo_next_rxdata cid bid S))
           else S))"

text \<open>
  The message registers: a read in receive mode shows the oldest message, a write in transmit
  mode fills the message under construction.
\<close>

definition txrxfifo_reg :: "'u can_env \<Rightarrow> (CanDataType \<Rightarrow> u32) \<Rightarrow> (u32 \<Rightarrow> CanDataType \<Rightarrow> CanDataType) \<Rightarrow>
    u32 \<Rightarrow> CanRegisterIoType \<Rightarrow> u32 \<Rightarrow> 'u CanState \<Rightarrow> 'u CanState" where
  "txrxfifo_reg U reg fill start io a S =
     (let i = CAN_REG_GROUP_INDEX a start 16; cid = i div 3; bid = i mod 3;
          m = cf_mode (can_txrx_fifo_control S cid bid) in
      if io = CanRegisterIo_Read then
        (if m = CAN_TXRX_FIFO_MODE_RX then
           write_reg a (case can_txrxfifo_peek_rxdata U cid bid S of
               (E_OK, Some d) \<Rightarrow> reg d
             | _ \<Rightarrow> 0) S
         else S)
      else if m = CAN_TXRX_FIFO_MODE_TX
      then S\<lparr>txrx_tx_fifodata := fill (read_reg a S) (txrx_tx_fifodata S)\<rparr>
      else S)"

text \<open>The format and remote bits of a written identifier go to a local variable and are lost.\<close>

definition can_register_mapping_io_RSCANnCFIDk :: "'u can_env \<Rightarrow> CanRegisterIoType \<Rightarrow> u32 \<Rightarrow>
    'u CanState \<Rightarrow> 'u CanState" where
  "can_register_mapping_io_RSCANnCFIDk U =
     txrxfifo_reg U id_reg (\<lambda>d m. m\<lparr>d_id := d AND 0x1FFFFFFF\<rparr>) (can_reg 0x0E80)"

definition can_register_mapping_io_RSCANnCFPTRk :: "'u can_env \<Rightarrow> CanRegisterIoType \<Rightarrow> u32 \<Rightarrow>
    'u CanState \<Rightarrow> 'u CanState" where
  "can_register_mapping_io_RSCANnCFPTRk U =
     txrxfifo_reg U ptr_reg (\<lambda>d m. m\<lparr>d_dlc := ucast (drop_bit 28 d AND 0xF),
       d_label := ucast (drop_bit 16 d AND 0xFFF)\<rparr>) (can_reg 0x0E84)"

definition fill_bytes :: "nat \<Rightarrow> u32 \<Rightarrow> u8 list \<Rightarrow> u8 list" where
  "fill_bytes k d bs = bs[k := reg_byte d 0, k + 1 := reg_byte d 1, k + 2 := reg_byte d 2,
     k + 3 := reg_byte d 3]"

definition can_register_mapping_io_RSCANnCFDF0k :: "'u can_env \<Rightarrow> CanRegisterIoType \<Rightarrow> u32 \<Rightarrow>
    'u CanState \<Rightarrow> 'u CanState" where
  "can_register_mapping_io_RSCANnCFDF0k U =
     txrxfifo_reg U df0_reg (\<lambda>d. d_data_update (fill_bytes 0 d)) (can_reg 0x0E88)"

definition can_register_mapping_io_RSCANnCFDF1k :: "'u can_env \<Rightarrow> CanRegisterIoType \<Rightarrow> u32 \<Rightarrow>
    'u CanState \<Rightarrow> 'u CanState" where
  "can_register_mapping_io_RSCANnCFDF1k U =
     txrxfifo_reg U df1_reg (\<lambda>d. d_data_update (fill_bytes 4 d)) (can_reg 0x0E8C)"

definition can_register_mapping_io_TXRX_FIFO :: "'u can_env \<Rightarrow> CanRegisterIoType \<Rightarrow> u32 \<Rightarrow>
    'u CanState \<Rightarrow> 'u CanState" where
  "can_register_mapping_io_TXRX_FIFO U io a S =
     (let k = CAN_REG_GET_ALIGNED_ADDR a AND 0xF in
      if k = 0 then can_register_mapping_io_RSCANnCFIDk U io a S
      else if k = 4 then can_register_mapping_io_RSCANnCFPTRk U io a S
      else if k = 8 then can_register_mapping_io_RSCANnCFDF0k U io a S
      else if k = 0xC then can_register_mapping_io_RSCANnCFDF1k U io a S
      else S)"

section \<open>Collected FIFO status\<close>

definition txrx_flags :: "('u CanTxRxFifoBufferType \<Rightarrow> bool) \<Rightarrow> 'u CanState \<Rightarrow> u32" where
  "txrx_flags flag S =
     fold (\<lambda>k. CAN_REG_UPDATE_REG_BIT (flag (can_txrx_fifo_control S (k div 3) (k mod 3))) k)
       [0..<18] 0"

definition rx_flags :: "(CanRxFifoBufferType \<Rightarrow> bool) \<Rightarrow> 'u CanState \<Rightarrow> u32" where
  "rx_flags flag S =
     fold (\<lambda>x. CAN_REG_UPDATE_REG_BIT (flag (can_rx_fifo_control S x)) x) [0..<CAN_RX_FIFO_NUM] 0"

definition fifo_flags_reg :: "('u CanTxRxFifoBufferType \<Rightarrow> bool) \<Rightarrow> (CanRxFifoBufferType \<Rightarrow> bool) \<Rightarrow>
    CanRegisterIoType \<Rightarrow> u32 \<Rightarrow> 'u CanState \<Rightarrow> 'u CanState" where
  "fifo_flags_reg cf rf io a S =
     (if io = CanRegisterIo_Read
      then write_reg a (push_bit 8 (txrx_flags cf S) OR rx_flags rf S) S else S)"

definition can_register_mapping_io_RSCANnFESTS :: "CanRegisterIoType \<Rightarrow> u32 \<Rightarrow> 'u CanState \<Rightarrow>
    'u CanState" where
  "can_register_mapping_io_RSCANnFESTS = fifo_flags_reg cf_empty rf_empty"

definition can_register_mapping_io_RSCANnFFSTS :: "CanRegisterIoType \<Rightarrow> u32 \<Rightarrow> 'u CanState \<Rightarrow>
    'u CanState" where
  "can_register_mapping_io_RSCANnFFSTS = fifo_flags_reg cf_full rf_full"

definition can_register_mapping_io_RSCANnFMSTS :: "CanRegisterIoType \<Rightarrow> u32 \<Rightarrow> 'u CanState \<Rightarrow>
    'u CanState" where
  "can_register_mapping_io_RSCANnFMSTS = fifo_flags_reg cf_lost rf_lost"

definition can_register_mapping_io_RSCANnRFISTS :: "CanRegisterIoType \<Rightarrow> u32 \<Rightarrow> 'u CanState \<Rightarrow>
    'u CanState" where
  "can_register_mapping_io_RSCANnRFISTS io a S =
     (if io = CanRegisterIo_Read then write_reg a (rx_flags rf_intr S) S else S)"

definition can_register_mapping_io_RSCANnCFRISTS :: "CanRegisterIoType \<Rightarrow> u32 \<Rightarrow> 'u CanState \<Rightarrow>
    'u CanState" where
  "can_register_mapping_io_RSCANnCFRISTS io a S =
     (if io = CanRegisterIo_Read then write_reg a (txrx_flags cf_rx_intr S) S else S)"

definition can_register_mapping_io_RSCANnCFTISTS :: "CanRegisterIoType \<Rightarrow> u32 \<Rightarrow> 'u CanState \<Rightarrow>
    'u CanState" where
  "can_register_mapping_io_RSCANnCFTISTS io a S =
     (if io = CanRegisterIo_Read then write_reg a (txrx_flags cf_tx_intr S) S else S)"

section \<open>Transmit buffers\<close>

definition can_register_mapping_io_RSCANnTMCp :: "CanRegisterIoType \<Rightarrow> u32 \<Rightarrow> 'u CanState \<Rightarrow>
    'u CanState" where
  "can_register_mapping_io_RSCANnTMCp io a S =
     (let i = CAN_REG_INDEX a (can_reg 0x0250) 1; cid = i div 16; bid = i mod 16 in
      if io = CanRegisterIo_Read then
        can_register_write_data8 a (CAN_REG_UPDATE_REG_BIT (tb_req_tx (txbuf S cid bid)) 0 0) S
      else
        let d = can_register_read_data8 a S in
        upd_txbuf cid bid (\<lambda>t. t\<lparr>tb_req_tx := CAN_REG_UPDATE_MODEL_FLAG d 0\<rparr>) S)"

definition can_register_mapping_io_RSCANnTMSTSp :: "CanRegisterIoType \<Rightarrow> u32 \<Rightarrow> 'u CanState \<Rightarrow>
    'u CanState" where
  "can_register_mapping_io_RSCANnTMSTSp io a S =
     (let i = CAN_REG_INDEX a (can_reg 0x02D0) 1; cid = i div 16; bid = i mod 16;
          t = txbuf S cid bid in
      if io = CanRegisterIo_Read then
        can_register_write_data8 a (CAN_REG_UPDATE_REG_BIT (tb_sending t) 0
          (CAN_REG_UPDATE_REG_BIT (tb_req_tx t) 3 0 OR push_bit 1 (tb_result t))) S
      else
        let d = can_register_read_data8 a S in
        upd_txbuf cid bid (\<lambda>t. t\<lparr>tb_result := drop_bit 1 d AND 3\<rparr>) S)"

definition txbuf_reg :: "(CanDataType \<Rightarrow> u32) \<Rightarrow> (u32 \<Rightarrow> CanTxBufferType \<Rightarrow> CanTxBufferType) \<Rightarrow> u32 \<Rightarrow>
    CanRegisterIoType \<Rightarrow> u32 \<Rightarrow> 'u CanState \<Rightarrow> 'u CanState" where
  "txbuf_reg reg fill start io a S =
     (let i = CAN_REG_GROUP_INDEX a start 16; cid = i div 16; bid = i mod 16 in
      if io = CanRegisterIo_Read
      then write_reg a (reg (can_txbuffer_ref_data (txbuf S cid bid))) S
      else upd_txbuf cid bid (fill (read_reg a S)) S)"

definition can_register_mapping_io_RSCANnTMIDp :: "CanRegisterIoType \<Rightarrow> u32 \<Rightarrow> 'u CanState \<Rightarrow>
    'u CanState" where
  "can_register_mapping_io_RSCANnTMIDp =
     txbuf_reg id_reg (\<lambda>d t. t\<lparr>tb_ide := CAN_REG_UPDATE_MODEL_FLAG d 31,
       tb_rtr := CAN_REG_UPDATE_MODEL_FLAG d 30, tb_id := d AND 0x1FFFFFFF\<rparr>) (can_reg 0x1000)"

definition can_register_mapping_io_RSCANnTMPTRp :: "CanRegisterIoType \<Rightarrow> u32 \<Rightarrow> 'u CanState \<Rightarrow>
    'u CanState" where
  "can_register_mapping_io_RSCANnTMPTRp =
     txbuf_reg ptr_reg (\<lambda>d t. t\<lparr>tb_dlc := ucast (drop_bit 28 d AND 0xF),
       tb_label := ucast (drop_bit 16 d AND 0xFF)\<rparr>) (can_reg 0x1004)"

definition can_register_mapping_io_RSCANnTMDF0p :: "CanRegisterIoType \<Rightarrow> u32 \<Rightarrow> 'u CanState \<Rightarrow>
    'u CanState" where
  "can_register_mapping_io_RSCANnTMDF0p =
     txbuf_reg df0_reg (\<lambda>d. tb_body_update (fill_bytes 0 d)) (can_reg 0x1008)"

definition can_register_mapping_io_RSCANnTMDF1p :: "CanRegisterIoType \<Rightarrow> u32 \<Rightarrow> 'u CanState \<Rightarrow>
    'u CanState" where
  "can_register_mapping_io_RSCANnTMDF1p =
     txbuf_reg df1_reg (\<lambda>d. tb_body_update (fill_bytes 4 d)) (can_reg 0x100C)"

definition can_register_mapping_io_TX_BUFFER :: "CanRegisterIoType \<Rightarrow> u32 \<Rightarrow> 'u CanState \<Rightarrow>
    'u CanState" where
  "can_register_mapping_io_TX_BUFFER io a S =
     (let k = CAN_REG_GET_ALIGNED_ADDR a AND 0xF in
      if k = 0 then can_register_mapping_io_RSCANnTMIDp io a S
      else if k = 4 then can_register_mapping_io_RSCANnTMPTRp io a S
      else if k = 8 then can_register_mapping_io_RSCANnTMDF0p io a S
      else if k = 0xC then can_register_mapping_io_RSCANnTMDF1p io a S
      else S)"

definition can_register_mapping_io_RSCANnTMIECy :: "CanRegisterIoType \<Rightarrow> u32 \<Rightarrow> 'u CanState \<Rightarrow>
    'u CanState" where
  "can_register_mapping_io_RSCANnTMIECy io a S =
     (let i = CAN_REG_GROUP_INDEX a (can_reg 0x0390) 4; c = can_tx_buffer_control S in
      if io = CanRegisterIo_Read then write_reg a (tx_intr_enable c i) S
      else S\<lparr>can_tx_buffer_control := c\<lparr>tx_intr_enable := (tx_intr_enable c)(i := read_reg a S)\<rparr>\<rparr>)"

text \<open>The flags of the 32 buffers of two channels, in one register.\<close>

definition txbuf_flags_reg :: "(CanTxBufferType \<Rightarrow> bool) \<Rightarrow> u32 \<Rightarrow> CanRegisterIoType \<Rightarrow> u32 \<Rightarrow>
    'u CanState \<Rightarrow> 'u CanState" where
  "txbuf_flags_reg flag start io a S =
     (let i = CAN_REG_GROUP_INDEX a start 4 in
      if io = CanRegisterIo_Read then
        write_reg a (fold (\<lambda>p. CAN_REG_UPDATE_REG_BIT
          (flag (txbuf S (i * 2 + p div 16) (p mod 16))) p) [0..<32] 0) S
      else S)"

definition can_register_mapping_io_RSCANnTMTRSTSy :: "CanRegisterIoType \<Rightarrow> u32 \<Rightarrow> 'u CanState \<Rightarrow>
    'u CanState" where
  "can_register_mapping_io_RSCANnTMTRSTSy = txbuf_flags_reg tb_req_tx (can_reg 0x0350)"

definition can_register_mapping_io_RSCANnTMTCSTSy :: "CanRegisterIoType \<Rightarrow> u32 \<Rightarrow> 'u CanState \<Rightarrow>
    'u CanState" where
  "can_register_mapping_io_RSCANnTMTCSTSy =
     txbuf_flags_reg (\<lambda>t. tb_result t AND CAN_TX_BUFFER_RESULT_OK \<noteq> 0) (can_reg 0x0370)"

section \<open>Transmit queue\<close>

definition can_register_mapping_io_RSCANnTXQCCm :: "CanRegisterIoType \<Rightarrow> u32 \<Rightarrow> 'u CanState \<Rightarrow>
    'u CanState" where
  "can_register_mapping_io_RSCANnTXQCCm io a S =
     (if io = CanRegisterIo_Read then S
      else
        let d = read_reg a S in
        upd_txque (CAN_REG_GROUP_INDEX a (can_reg 0x03A0) 4) (\<lambda>q. q\<lparr>
          tq_intr_factor := CAN_REG_UPDATE_MODEL_FLAG d 13,
          tq_enable_intr := CAN_REG_UPDATE_MODEL_FLAG d 12,
          tq_enable_queue := CAN_REG_UPDATE_MODEL_FLAG d 0,
          tq_quelen := ucast (drop_bit 8 d AND 0xF)\<rparr>) S)"

definition can_register_mapping_io_RSCANnTXQSTSm :: "CanRegisterIoType \<Rightarrow> u32 \<Rightarrow> 'u CanState \<Rightarrow>
    'u CanState" where
  "can_register_mapping_io_RSCANnTXQSTSm io a S =
     (let i = CAN_REG_GROUP_INDEX a (can_reg 0x03C0) 4; q = can_tx_queue S i in
      if io = CanRegisterIo_Read then
        write_reg a (CAN_REG_UPDATE_REG_BIT (tq_is_empty q) 0 (CAN_REG_UPDATE_REG_BIT (tq_is_full q) 1
          (CAN_REG_UPDATE_REG_BIT (tq_intr_req q) 2 0))) S
      else
        let d = read_reg a S in
        upd_txque i (\<lambda>q. q\<lparr>tq_intr_req := (tq_intr_req q \<and> d AND push_bit 2 1 \<noteq> 0)\<rparr>) S)"

definition can_register_mapping_io_RSCANnTXQPCTRm :: "CanRegisterIoType \<Rightarrow> u32 \<Rightarrow> 'u CanState \<Rightarrow>
    'u CanState" where
  "can_register_mapping_io_RSCANnTXQPCTRm io a S =
     (if io = CanRegisterIo_Read then S
      else
        let i = CAN_REG_GROUP_INDEX a (can_reg 0x03E0) 4; d = read_reg a S in
        write_reg a 0 (if d AND 0xFF = 0xFF then can_txque_put_txdata i S else S))"

section \<open>Transmit history\<close>

definition can_register_mapping_io_RSCANnTHLCCm :: "CanRegisterIoType \<Rightarrow> u32 \<Rightarrow> 'u CanState \<Rightarrow>
    'u CanState" where
  "can_register_mapping_io_RSCANnTHLCCm io a S =
     (if io = CanRegisterIo_Read then S
      else
        let d = read_reg a S in
        upd_txhl (CAN_REG_GROUP_INDEX a (can_reg 0x0400) 4) (\<lambda>h. h\<lparr>
          th_select_tx_buffer := CAN_REG_UPDATE_MODEL_FLAG d 10,
          th_select_intr_factor := CAN_REG_UPDATE_MODEL_FLAG d 9,
          th_enable_intr := CAN_REG_UPDATE_MODEL_FLAG d 8,
          th_enable_history := CAN_REG_UPDATE_MODEL_FLAG d 0\<rparr>) S)"

definition can_register_mapping_io_RSCANnTHLSTSm :: "CanRegisterIoType \<Rightarrow> u32 \<Rightarrow> 'u CanState \<Rightarrow>
    'u CanState" where
  "can_register_mapping_io_RSCANnTHLSTSm io a S =
     (let i = CAN_REG_GROUP_INDEX a (can_reg 0x0420) 4; h = can_tx_history S i in
      if io = CanRegisterIo_Read then
        write_reg a (CAN_REG_UPDATE_REG_BIT (th_empty h) 0 (CAN_REG_UPDATE_REG_BIT (th_full h) 1
          (CAN_REG_UPDATE_REG_BIT (th_ovr h) 2 (CAN_REG_UPDATE_REG_BIT (th_intr h) 3
            (push_bit 8 (fc_count (th_control h))))))) S
      else
        let d = read_reg a S in
        upd_txhl i (\<lambda>h. h\<lparr>th_intr := (th_intr h \<and> d AND push_bit 3 1 \<noteq> 0),
                          th_ovr := (th_ovr h \<and> d AND push_bit 2 1 \<noteq> 0)\<rparr>) S)"

definition can_register_mapping_io_RSCANnTHLPCTRm :: "CanRegisterIoType \<Rightarrow> u32 \<Rightarrow> 'u CanState \<Rightarrow>
    'u CanState" where
  "can_register_mapping_io_RSCANnTHLPCTRm io a S =
     (if io = CanRegisterIo_Read then S
      else
        let i = CAN_REG_GROUP_INDEX a (can_reg 0x0440) 4; d = read_reg a S in
        write_reg a 0 (if d AND 0xFF = 0xFF then snd (can_txhl_next_thldata i S) else S))"

definition can_register_mapping_io_RSCANnTHLACCm :: "'u can_env \<Rightarrow> CanRegisterIoType \<Rightarrow> u32 \<Rightarrow>
    'u CanState \<Rightarrow> 'u CanState" where
  "can_register_mapping_io_RSCANnTHLACCm U io a S =
     (if io = CanRegisterIo_Read then
        let h = (case can_txhl_peek_thldata (CAN_REG_GROUP_INDEX a (can_reg 0x1800) 4) S of
                   (_, Some h) \<Rightarrow> h
                 | (_, None) \<Rightarrow> uninit_history U) in
        write_reg a (push_bit 8 (ucast (hd_label h)) OR push_bit 3 (ucast (hd_bufno h)) OR
          ucast (hd_buftype h)) S
      else S)"

section \<open>The mapping table\<close>

record 'u CanRegisterMappingType =
  start_address :: u32
  register_unit_size :: u32
  register_group_size :: u32
  map_io :: "CanRegisterIoType \<Rightarrow> u32 \<Rightarrow> 'u CanState \<Rightarrow> 'u CanState"

definition map_row :: "u32 \<times> u32 \<times> u32 \<times> (CanRegisterIoType \<Rightarrow> u32 \<Rightarrow> 'u CanState \<Rightarrow> 'u CanState) \<Rightarrow>
    'u CanRegisterMappingType" where
  "map_row = (\<lambda>(off, unit, group, f). \<lparr>start_address = can_reg off, register_unit_size = unit,
     register_group_size = group, map_io = f\<rparr>)"

definition can_reigster_mapping_table :: "'u can_env \<Rightarrow> 'u CanRegisterMappingType list" where
  "can_reigster_mapping_table U = map map_row
    [(0x0000, 4, 16 * 6, can_register_mapping_io_CHANNEL),
     (0x0084, 4, 0, can_register_mapping_io_RSCANnGCFG),
     (0x0088, 4, 0, can_register_mapping_io_RSCANnGCTR U),
     (0x008C, 4, 0, can_register_mapping_io_RSCANnGSTS),
     (0x0090, 4, 0, can_register_mapping_io_RSCANnGERFL),
     (0x0460, 4, 0, can_register_mapping_io_RSCANnGTINTSTS0),
     (0x0464, 4, 0, can_register_mapping_io_RSCANnGTINTSTS1),
     (0x0098, 4, 0, can_register_mapping_io_RSCANnGAFLECTR),
     (0x009C, 4, 0, can_register_mapping_io_RSCANnGAFLCFG0),
     (0x00A0, 4, 0, can_register_mapping_io_RSCANnGAFLCFG1),
     (0x0500, 4, 16 * 16, can_register_mapping_io_RX_RULE),
     (0x00A4, 4, 0, can_register_mapping_io_RSCANnRMNB),
     (0x00A8, 4, 4 * 3, can_register_mapping_io_RSCANnRMNDy),
     (0x0600, 4, 16 * 96, can_register_mapping_io_RX_BUFFER),
     (0x00B8, 4, 4 * 8, can_register_mapping_io_RSCANnRFCCx),
     (0x00D8, 4, 4 * 8, can_register_mapping_io_RSCANnRFSTSx),
     (0x00F8, 4, 4 * 8, can_register_mapping_io_RSCANnRFPCTRx),
     (0x0E00, 4, 16 * 8, can_register_mapping_io_RX_FIFO U),
     (0x0118, 4, 4 * (6 * 3), can_register_mapping_io_RSCANnCFCCk),
     (0x0178, 4, 4 * (6 * 3), can_register_mapping_io_RSCANnCFSTSk),
     (0x01D8, 4, 4 * (6 * 3), can_register_mapping_io_RSCANnCFPCTRk U),
     (0x0E80, 4, 16 * (6 * 3), can_register_mapping_io_TXRX_FIFO U),
     (0x0238, 4, 0, can_register_mapping_io_RSCANnFESTS),
     (0x023C, 4, 0, can_register_mapping_io_RSCANnFFSTS),
     (0x0240, 4, 0, can_register_mapping_io_RSCANnFMSTS),
     (0x0244, 4, 0, can_register_mapping_io_RSCANnRFISTS),
     (0x0248, 4, 0, can_register_mapping_io_RSCANnCFRISTS),
     (0x024C, 4, 0, can_register_mapping_io_RSCANnCFTISTS),
     (0x0250, 1, 1 * 96, can_register_mapping_io_RSCANnTMCp),
     (0x02D0, 1, 1 * 96, can_register_mapping_io_RSCANnTMSTSp),
     (0x1000, 4, 16 * 96, can_register_mapping_io_TX_BUFFER),
     (0x0390, 4, 4 * 3, can_register_mapping_io_RSCANnTMIECy),
     (0x0350, 4, 4 * 3, can_register_mapping_io_RSCANnTMTRSTSy),
     (0x0370, 4, 4 * 3, can_register_mapping_io_RSCANnTMTCSTSy),
     (0x03A0, 4, 4 * 6, can_register_mapping_io_RSCANnTXQCCm),
     (0x03C0, 4, 4 * 6, can_register_mapping_io_RSCANnTXQSTSm),
     (0x03E0, 4, 4 * 6, can_register_mapping_io_RSCANnTXQPCTRm),
     (0x0400, 4, 4 * 6, can_register_mapping_io_RSCANnTHLCCm),
     (0x0420, 4, 4 * 6, can_register_mapping_io_RSCANnTHLSTSm),
     (0x0440, 4, 4 * 6, can_register_mapping_io_RSCANnTHLPCTRm),
     (0x1800, 4, 4 * 6, can_register_mapping_io_RSCANnTHLACCm U)]"

definition map_end :: "'u CanRegisterMappingType \<Rightarrow> u32" where
  "map_end m = (if register_group_size m \<noteq> 0 then start_address m + register_group_size m
                else start_address m + register_unit_size m)"

definition search_map :: "'u can_env \<Rightarrow> u32 \<Rightarrow> 'u CanRegisterMappingType option" where
  "search_map U a =
     List.find (\<lambda>m. \<not> a < start_address m \<and> \<not> a \<ge> map_end m) (can_reigster_mapping_table U)"

definition can_register_mapping_write_data :: "'u can_env \<Rightarrow> u32 \<Rightarrow> 'u CanState \<Rightarrow> 'u CanState" where
  "can_register_mapping_write_data U a S = (case search_map U a of
     None \<Rightarrow> S | Some m \<Rightarrow> map_io m CanRegisterIo_Write a S)"

definition can_register_mapping_read_data :: "'u can_env \<Rightarrow> u32 \<Rightarrow> 'u CanState \<Rightarrow> 'u CanState" where
  "can_register_mapping_read_data U a S = (case search_map U a of
     None \<Rightarrow> S | Some m \<Rightarrow> map_io m CanRegisterIo_Read a S)"

section \<open>Bus operations\<close>

text \<open>
  The region of the controller starts at the base address and its data is the memory above
  (src/cpu/config/rh850f1k/mpu_config.c), so the offset of an access is the same.
\<close>

definition can_get_data8 :: "'u can_env \<Rightarrow> u32 \<Rightarrow> 'u CanState \<Rightarrow> u8 \<times> 'u CanState" where
  "can_get_data8 U a S = (let S1 = can_register_mapping_read_data U a S in
     (can_register_read_data8 a S1, S1))"

definition can_get_data16 :: "'u can_env \<Rightarrow> u32 \<Rightarrow> 'u CanState \<Rightarrow> u16 \<times> 'u CanState" where
  "can_get_data16 U a S = (let S1 = can_register_mapping_read_data U a S in
     (can_register_read_data16 a S1, S1))"

definition can_get_data32 :: "'u can_env \<Rightarrow> u32 \<Rightarrow> 'u CanState \<Rightarrow> u32 \<times> 'u CanState" where
  "can_get_data32 U a S = (let S1 = can_register_mapping_read_data U a S in
     (can_register_read_data32 a S1, S1))"

definition can_put_data8 :: "'u can_env \<Rightarrow> u32 \<Rightarrow> u8 \<Rightarrow> 'u CanState \<Rightarrow> 'u CanState" where
  "can_put_data8 U a v S = can_register_mapping_write_data U a (can_register_write_data8 a v S)"

definition can_put_data16 :: "'u can_env \<Rightarrow> u32 \<Rightarrow> u16 \<Rightarrow> 'u CanState \<Rightarrow> 'u CanState" where
  "can_put_data16 U a v S = can_register_mapping_write_data U a (can_register_write_data16 a v S)"

definition can_put_data32 :: "'u can_env \<Rightarrow> u32 \<Rightarrow> u32 \<Rightarrow> 'u CanState \<Rightarrow> 'u CanState" where
  "can_put_data32 U a v S = can_register_mapping_write_data U a (can_register_write_data32 a v S)"

end
