(* ===== verification/Can_Inv.thy ===== *)
theory Can_Inv
  imports Can_Queues Can_Map
begin

text \<open>
  The invariant of the CAN controller over its register accesses and clock passes: the status
  flags of the modes say the mode, the offsets of every ring stay inside its array and a channel
  that transmits has somebody to notify.  Each operation of the code has its preservation lemma,
  collected in \<open>can_keeps\<close>.
\<close>

named_theorems can_keeps \<open>operations that keep the invariant of the CAN controller\<close>

section \<open>The invariant\<close>

definition status_flags :: "CanModeChannelType \<Rightarrow> bool \<Rightarrow> bool \<Rightarrow> bool \<Rightarrow> bool \<Rightarrow> bool \<Rightarrow> bool \<Rightarrow> bool" where
  "status_flags c cc r t s w rs \<longleftrightarrow> cs_can_comm c = cc \<and> cs_receiving c = r \<and> cs_sending c = t \<and>
     cs_mode_stop c = s \<and> cs_mode_wait c = w \<and> cs_mode_reset c = rs"

definition chan_ok :: "nat \<Rightarrow> CanModeChannelType \<Rightarrow> bool" where
  "chan_ok i c \<longleftrightarrow> unat (cm_cid c) = i \<and> cm_stop c = (cm_mode c = ChannelMode_STOP) \<and>
     (case cm_mode c of
        ChannelMode_STOP \<Rightarrow> cm_comm_mode c = ChannelModeComm_IDLE \<and> cm_select_mode c = 1 \<and>
          status_flags c False False False True False True
      | ChannelMode_RESET \<Rightarrow> cm_comm_mode c = ChannelModeComm_IDLE \<and> cm_select_mode c = 1 \<and>
          status_flags c False False False False False True
      | ChannelMode_WAIT \<Rightarrow> cm_comm_mode c = ChannelModeComm_IDLE \<and> cm_select_mode c = 2 \<and>
          status_flags c False False False False True False
      | ChannelMode_COMM \<Rightarrow>
          (cm_select_mode c = 0 \<or> cm_select_mode c = 2 \<and> cm_comm_mode c \<noteq> ChannelModeComm_IDLE) \<and>
          status_flags c True (cm_comm_mode c = ChannelModeComm_RX)
            (cm_comm_mode c = ChannelModeComm_TX) False False False)"

definition gflags :: "CanModeGlobalType \<Rightarrow> GlobalModeType \<times> bool \<times> bool \<times> bool \<times> bool \<times> u8" where
  "gflags g = (gm_mode g, gt_stop g, gs_GSLPSTS g, gs_GHLTSTS g, gs_GRSTSTS g, gt_select_mode g)"

definition global_ok :: "GlobalModeType \<times> bool \<times> bool \<times> bool \<times> bool \<times> u8 \<Rightarrow> bool" where
  "global_ok = (\<lambda>(m, stop, sl, hl, rs, sel).
     stop = (m = GlobalMode_STOP) \<and> sl = (m = GlobalMode_STOP) \<and> hl = (m = GlobalMode_TEST) \<and>
     rs = (m \<in> {GlobalMode_STOP, GlobalMode_RESET}) \<and>
     sel = (case m of GlobalMode_RUN \<Rightarrow> 0 | GlobalMode_TEST \<Rightarrow> 2 | _ \<Rightarrow> 1))"

definition off_ok :: "u32 \<Rightarrow> CanFifoControlType \<Rightarrow> bool" where
  "off_ok n c \<longleftrightarrow> fc_roff c < n \<and> fc_woff c < n"

definition rx_off :: "CanRxFifoBufferType \<Rightarrow> bool" where
  "rx_off f \<longleftrightarrow> unat (rf_quelen f) < 8 \<and> off_ok 128 (rf_control f)"

definition cf_off :: "'u CanTxRxFifoBufferType \<Rightarrow> bool" where
  "cf_off f \<longleftrightarrow> unat (cf_quelen f) < 8 \<and> off_ok 128 (cf_control f)"

definition tx_ok :: "CanModeChannelType \<Rightarrow> CanTxReqType \<Rightarrow> bool" where
  "tx_ok c t \<longleftrightarrow> (cm_comm_mode c = ChannelModeComm_TX \<longrightarrow> tr_notify_txdone t \<noteq> Src_NULL)"

text \<open>
  The condition on the global flags is a parameter: the handlers of the global mode pass through
  states that meet none.
\<close>

definition can_inv :: "(GlobalModeType \<times> bool \<times> bool \<times> bool \<times> bool \<times> u8 \<Rightarrow> bool) \<Rightarrow>
    'u CanState \<Rightarrow> bool" where
  "can_inv Q S \<longleftrightarrow> Q (gflags (can_mode_global S)) \<and>
     (\<forall>i < 6. chan_ok i (chan S i)) \<and> (\<forall>i < 6. tx_ok (chan S i) (can_tx_control S i)) \<and>
     (\<forall>x < 8. rx_off (can_rx_fifo_control S x)) \<and>
     (\<forall>i < 6. \<forall>k < 3. cf_off (can_txrx_fifo_control S i k)) \<and>
     (\<forall>i < 6. off_ok 16 (th_control (can_tx_history S i)))"

lemma can_invI:
  assumes "can_inv Q S" "can_mode_global S' = can_mode_global S" "can_tx_control S' = can_tx_control S"
    "can_rx_fifo_control S' = can_rx_fifo_control S" "can_txrx_fifo_control S' = can_txrx_fifo_control S"
    "can_tx_history S' = can_tx_history S"
  shows "can_inv Q S'"
  using assms by (simp add: can_inv_def)

section \<open>Rings\<close>

lemma step_bound:
  fixes x :: u32
  assumes "x < n" "cap \<le> n"
  shows "(if x + 1 \<ge> cap then 0 else x + 1) < n"
  using assms by (auto intro: order.strict_trans2 le_less_trans [OF word_zero_le])

lemma off_put: "off_ok n c \<Longrightarrow> cap \<le> n \<Longrightarrow> off_ok n (fifo_step_put cap c)"
  using step_bound by (auto simp: off_ok_def fifo_step_put_def)

lemma off_next: "off_ok n c \<Longrightarrow> cap \<le> n \<Longrightarrow> off_ok n (fifo_step_next cap c)"
  using step_bound by (auto simp: off_ok_def fifo_step_next_def)

lemma off_clear [simp]: "0 < n \<Longrightarrow> off_ok n CAN_FIFO_CLEAR"
  by (simp add: off_ok_def CAN_FIFO_CLEAR_def)

lemma quelen_max: "i < 8 \<Longrightarrow> can_fifo_quelen i \<le> 128"
  using quelen_range(2) [of i] by (cases "i = 0") (auto simp: can_fifo_quelen_def)

lemma rx_off_put: "rx_off f \<Longrightarrow> rx_off (snd (rxfifo_put d f))"
  using off_put [OF _ quelen_max] by (auto simp: rx_off_def rxfifo_put_def Let_def)

lemma rx_off_next: "rx_off f \<Longrightarrow> rx_off (snd (rxfifo_next f))"
  using off_next [OF _ quelen_max] by (auto simp: rx_off_def rxfifo_next_def Let_def)

lemma cf_off_put_rx: "cf_off f \<Longrightarrow> cf_off (snd (txrxfifo_put_rx U d f))"
  using off_put [OF _ quelen_max] by (auto simp: cf_off_def txrxfifo_put_rx_def Let_def)

lemma cf_off_put_tx: "cf_off f \<Longrightarrow> cf_off (snd (txrxfifo_put_tx U d f))"
  using off_put [OF _ quelen_max] by (auto simp: cf_off_def txrxfifo_put_tx_def Let_def)

lemma cf_off_next_rx: "cf_off f \<Longrightarrow> cf_off (snd (txrxfifo_next_rx f))"
  using off_next [OF _ quelen_max] by (auto simp: cf_off_def txrxfifo_next_rx_def Let_def)

lemma cf_off_get_tx: "cf_off f \<Longrightarrow> cf_off (snd (txrxfifo_get_tx U f))"
  using off_next [OF _ quelen_max] by (auto simp: cf_off_def txrxfifo_get_tx_def Let_def)

lemma cf_off_txdone: "cf_off f \<Longrightarrow> cf_off (txrxfifo_txdone f)"
  by (auto simp: cf_off_def txrxfifo_txdone_def Let_def)

lemma th_off_put: "off_ok 16 (th_control h) \<Longrightarrow> off_ok 16 (th_control (snd (txhl_put d h)))"
  by (auto simp: txhl_put_def Let_def intro: off_put)

lemma th_off_next: "off_ok 16 (th_control h) \<Longrightarrow> off_ok 16 (th_control (snd (txhl_next h)))"
  by (auto simp: txhl_next_def Let_def intro: off_next)

section \<open>Updates of one element\<close>

lemma inv_upd_rxfifo:
  "can_inv Q S \<Longrightarrow> (\<And>f. rx_off f \<Longrightarrow> rx_off (g f)) \<Longrightarrow> can_inv Q (upd_rxfifo x g S)"
  by (simp add: can_inv_def upd_rxfifo_def)

lemma inv_upd_txrxfifo:
  "can_inv Q S \<Longrightarrow> (\<And>f. cf_off f \<Longrightarrow> cf_off (g f)) \<Longrightarrow> can_inv Q (upd_txrxfifo i k g S)"
  by (simp add: can_inv_def upd_txrxfifo_def)

lemma inv_upd_txhl:
  "can_inv Q S \<Longrightarrow> (\<And>h. off_ok 16 (th_control h) \<Longrightarrow> off_ok 16 (th_control (g h))) \<Longrightarrow>
   can_inv Q (upd_txhl i g S)"
  by (simp add: can_inv_def upd_txhl_def)

lemma inv_upd_txbuf [can_keeps]: "can_inv Q S \<Longrightarrow> can_inv Q (upd_txbuf i b g S)"
  by (rule can_invI) (simp_all add: upd_txbuf_def)

lemma inv_upd_txque [can_keeps]: "can_inv Q S \<Longrightarrow> can_inv Q (upd_txque i g S)"
  by (rule can_invI) (simp_all add: upd_txque_def)

lemma inv_upd_rule [can_keeps]: "can_inv Q S \<Longrightarrow> can_inv Q (upd_rule i g S)"
  by (rule can_invI) (simp_all add: upd_rule_def)

lemma inv_upd_chan:
  "can_inv Q S \<Longrightarrow> chan_ok i (g (chan S i)) \<Longrightarrow> tx_ok (g (chan S i)) (can_tx_control S i) \<Longrightarrow>
   can_inv Q (upd_chan i g S)"
  by (simp add: can_inv_def upd_chan_def gflags_def)

lemma inv_upd_txreq:
  "can_inv Q S \<Longrightarrow> tx_ok (chan S i) (g (can_tx_control S i)) \<Longrightarrow> can_inv Q (upd_txreq i g S)"
  by (simp add: can_inv_def upd_txreq_def)

lemma snd_upd: "snd (let (e, f) = p in (e, g f)) = g (snd p)"
  by (cases p) simp

lemma inv_ops [can_keeps]:
  assumes "can_inv Q S"
  shows "can_inv Q (snd (can_rxbuffer_put_rxdata q d S))"
    "can_inv Q (snd (can_rxfifo_put_rxdata x d S))" "can_inv Q (snd (can_rxfifo_next_rxdata x S))"
    "can_inv Q (snd (can_txrxfifo_put_rxdata U i k d S))" "can_inv Q (snd (can_txrxfifo_next_rxdata i k S))"
    "can_inv Q (snd (can_txrxfifo_put_txdata U i k d S))" "can_inv Q (snd (can_txrxfifo_get_txdata U i k S))"
    "can_inv Q (snd (can_txrxfifo_notify_txdone i k S))" "can_inv Q (snd (can_txhl_put_thldata i t S))"
    "can_inv Q (snd (can_txhl_next_thldata i S))" "can_inv Q (can_txque_put_txdata i S)"
    "can_inv Q (snd (can_txbuffer_get_txdata i b S))" "can_inv Q (snd (can_txbuffer_notify_txdone i b S))"
    "can_inv Q (snd (can_txque_notify_txdone i b S))"
proof -
  show "can_inv Q (snd (can_rxbuffer_put_rxdata q d S))"
    by (rule can_invI [OF assms]) (simp_all add: can_rxbuffer_put_rxdata_def)
  show "can_inv Q (snd (can_rxfifo_put_rxdata x d S))"
    using assms unfolding can_rxfifo_put_rxdata_def snd_upd
    by (simp add: can_inv_def upd_rxfifo_def rx_off_put)
  show "can_inv Q (snd (can_rxfifo_next_rxdata x S))"
    using assms unfolding can_rxfifo_next_rxdata_def snd_upd
    by (simp add: can_inv_def upd_rxfifo_def rx_off_next)
  show "can_inv Q (snd (can_txrxfifo_put_rxdata U i k d S))"
    using assms unfolding can_txrxfifo_put_rxdata_def snd_upd
    by (simp add: can_inv_def upd_txrxfifo_def cf_off_put_rx)
  show "can_inv Q (snd (can_txrxfifo_next_rxdata i k S))"
    using assms unfolding can_txrxfifo_next_rxdata_def snd_upd
    by (simp add: can_inv_def upd_txrxfifo_def cf_off_next_rx)
  show "can_inv Q (snd (can_txrxfifo_put_txdata U i k d S))"
    using assms unfolding can_txrxfifo_put_txdata_def snd_upd
    by (simp add: can_inv_def upd_txrxfifo_def cf_off_put_tx)
  show "can_inv Q (snd (can_txrxfifo_get_txdata U i k S))"
    using assms unfolding can_txrxfifo_get_txdata_def snd_upd
    by (simp add: can_inv_def upd_txrxfifo_def cf_off_get_tx)
  show "can_inv Q (snd (can_txrxfifo_notify_txdone i k S))"
    using assms by (simp add: can_txrxfifo_notify_txdone_def inv_upd_txrxfifo cf_off_txdone)
  show "can_inv Q (snd (can_txhl_put_thldata i t S))"
    using assms unfolding can_txhl_put_thldata_def snd_upd
    by (simp add: can_inv_def upd_txhl_def th_off_put)
  show "can_inv Q (snd (can_txhl_next_thldata i S))"
    using assms unfolding can_txhl_next_thldata_def snd_upd
    by (simp add: can_inv_def upd_txhl_def th_off_next)
qed (use assms in \<open>simp_all add: can_txque_put_txdata_def can_txbuffer_get_txdata_def
  can_txbuffer_notify_txdone_def can_txque_notify_txdone_def inv_upd_txque inv_upd_txbuf\<close>)

lemma inv_fold:
  "can_inv Q S \<Longrightarrow> (\<And>x S. x \<in> set xs \<Longrightarrow> can_inv Q S \<Longrightarrow> can_inv Q (f x S)) \<Longrightarrow> can_inv Q (fold f xs S)"
  by (induction xs arbitrary: S) auto

section \<open>Channel events\<close>

lemma chan_upd [simp]: "chan (upd_chan i g S) = (chan S)(i := g (chan S i))"
  by (simp add: upd_chan_def)

lemma tx_ok_idle: "cm_comm_mode c \<noteq> ChannelModeComm_TX \<Longrightarrow> tx_ok c t"
  by (simp add: tx_ok_def)

lemma chan_at: "can_inv Q S \<Longrightarrow> i < 6 \<Longrightarrow> chan_ok i (chan S i)"
  by (simp add: can_inv_def)

text \<open>The reset of a channel, with an update of the channel before and after it.\<close>

lemma channel_reset_inv:
  assumes S: "can_inv Q S" and i: "i < 6"
    and ok: "\<And>c. c = g1 (chan S i) \<Longrightarrow> chan_ok i (g2 (c\<lparr>cm_mode := ChannelMode_STOP,
        cm_select_mode := 1, cs_can_comm := False, cs_receiving := False, cs_sending := False,
        cs_mode_wait := False\<rparr>)) \<and>
      cm_comm_mode (g2 (c\<lparr>cm_mode := ChannelMode_STOP, cm_select_mode := 1, cs_can_comm := False,
        cs_receiving := False, cs_sending := False, cs_mode_wait := False\<rparr>)) = ChannelModeComm_IDLE"
  shows "can_inv Q (upd_chan i g2 (can_mode_channel_reset i (upd_chan i g1 S)))"
  using S i ok [OF refl]
  by (auto simp: can_inv_def can_mode_channel_reset_def can_register_reset_txrx_fifo_channel_def
      can_register_reset_tx_buffer_channel_def can_register_reset_channel_def upd_chan_def
      gflags_def tx_ok_def cf_off_def txrxfifo_off_def)

lemma event_clr_stop:
  assumes "can_inv Q S" "i < 6"
  shows "can_inv Q (can_mode_channel_event_clr_stop i S)"
proof (cases "cm_mode (chan S i) = ChannelMode_STOP")
  case True
  have c: "unat (cm_cid (chan S i)) = i" using chan_at [OF assms] by (simp add: chan_ok_def)
  have "can_inv Q (upd_chan i enter_reset (can_mode_channel_reset i (upd_chan i (cm_stop_update (\<lambda>_. False)) S)))"
    using chan_at [OF assms] True
    by (intro channel_reset_inv [OF assms]) (simp add: chan_ok_def status_flags_def enter_reset_def)
  then show ?thesis by (simp add: can_mode_channel_event_clr_stop_def True c)
qed (use assms(1) in \<open>auto simp: can_mode_channel_event_clr_stop_def split: ChannelModeType.splits\<close>)

lemma event_set_reset:
  assumes "can_inv Q S" "i < 6"
  shows "can_inv Q (can_mode_channel_event_set_reset i S)"
proof (cases "cm_mode (chan S i) \<in> {ChannelMode_COMM, ChannelMode_WAIT}")
  case True
  have c: "unat (cm_cid (chan S i)) = i" using chan_at [OF assms] by (simp add: chan_ok_def)
  have "can_inv Q (upd_chan i (\<lambda>c. enter_reset (CAN_MODE_CHANNEL_COMM_MODE_SET_IDLE c))
      (can_mode_channel_reset i (upd_chan i (cm_select_mode_update (\<lambda>_. CAN_MODE_RESET)) S)))"
    using chan_at [OF assms] True
    by (intro channel_reset_inv [OF assms])
      (auto simp: chan_ok_def status_flags_def enter_reset_def CAN_MODE_CHANNEL_COMM_MODE_SET_IDLE_def)
  then show ?thesis using True by (simp add: can_mode_channel_event_set_reset_def c)
qed (use assms(1) in \<open>simp add: can_mode_channel_event_set_reset_def\<close>)

lemma event_simple:
  assumes "can_inv Q S" "i < 6"
  shows "can_inv Q (can_mode_channel_event_set_stop i S)" "can_inv Q (can_mode_channel_event_set_comm i S)"
    "can_inv Q (can_mode_channel_event_set_wait i S)" "can_inv Q (can_mode_channel_event_comm_tx_done i S)"
    "can_inv Q (can_mode_channel_event_comm_rx_start i S)" "can_inv Q (can_mode_channel_event_comm_rx_done i S)"
proof -
  note c = chan_at [OF assms]
  have t: "tx_ok (chan S i) (can_tx_control S i)" using assms by (simp add: can_inv_def)
  note d = chan_ok_def status_flags_def tx_ok_def enter_wait_def comm_done_def Let_def
    CAN_MODE_CHANNEL_COMM_MODE_SET_IDLE_def CAN_MODE_CHANNEL_COMM_MODE_SET_RX_def
  show "can_inv Q (can_mode_channel_event_set_stop i S)"
    using assms(1) c t unfolding can_mode_channel_event_set_stop_def
    by (auto intro!: inv_upd_chan simp: d split: ChannelModeType.splits)
  show "can_inv Q (can_mode_channel_event_set_comm i S)"
    using assms(1) c t unfolding can_mode_channel_event_set_comm_def
    by (auto intro!: inv_upd_chan simp: d)
  show "can_inv Q (can_mode_channel_event_set_wait i S)"
    using assms(1) c t unfolding can_mode_channel_event_set_wait_def
    by (auto intro!: inv_upd_chan simp: d)
  show "can_inv Q (can_mode_channel_event_comm_tx_done i S)"
    using assms(1) c t unfolding can_mode_channel_event_comm_tx_done_def
    by (auto intro!: inv_upd_chan simp: d)
  show "can_inv Q (can_mode_channel_event_comm_rx_start i S)"
    using assms(1) c t unfolding can_mode_channel_event_comm_rx_start_def
    by (auto intro!: inv_upd_chan simp: d)
  show "can_inv Q (can_mode_channel_event_comm_rx_done i S)"
    using assms(1) c t unfolding can_mode_channel_event_comm_rx_done_def
    by (auto intro!: inv_upd_chan simp: d)
qed

lemma event_keeps [can_keeps]:
  "can_inv Q S \<Longrightarrow> i < 6 \<Longrightarrow> ev \<noteq> CanModeChannelEvent_COMM_TX_START \<Longrightarrow>
   can_inv Q (can_mode_channel_event i ev S)"
  by (cases ev) (simp_all add: event_simple event_clr_stop event_set_reset)

text \<open>The start of a transmission needs a request with somebody to notify.\<close>

lemma event_tx_start:
  assumes "can_inv Q S" "i < 6" "tr_notify_txdone (can_tx_control S i) \<noteq> Src_NULL"
  shows "can_inv Q (can_mode_channel_event i CanModeChannelEvent_COMM_TX_START S)"
  using assms(1,3) chan_at [OF assms(1,2)]
  by (auto intro!: inv_upd_chan simp: can_mode_channel_event_comm_tx_start_def chan_ok_def
      status_flags_def tx_ok_def CAN_MODE_CHANNEL_COMM_MODE_SET_TX_def)

end
