(* ===== verification/Can_Run.thy ===== *)
theory Can_Run
  imports Can_Inv
begin

text \<open>
  The invariant over the register handlers and the bus accesses, and where the index of a
  register lies.
\<close>

section \<open>Register addresses\<close>

lemma aligned_unat: "unat (CAN_REG_GET_ALIGNED_ADDR a) = unat a div 4 * 4"
proof -
  have n: "(0xFFFFFFFC :: u32) = NOT (mask 2)" by (simp add: mask_eq_exp_minus_1)
  have "(a AND mask 2) + (a AND NOT (mask 2)) = a"
    by (subst disjunctive_add) (auto simp: bit_simps bit_eq_iff)
  then have e: "CAN_REG_GET_ALIGNED_ADDR a = a - take_bit 2 a"
    by (simp add: CAN_REG_GET_ALIGNED_ADDR_def n take_bit_eq_mask algebra_simps flip: n)
  have t: "unat (take_bit 2 a) = unat a mod 4"
    by (simp add: take_bit_eq_mod unat_mod)
  have "take_bit 2 a \<le> a" by (simp add: word_le_nat_alt t)
  then show ?thesis
    by (simp add: e unat_sub t minus_mod_eq_div_mult)
qed
lemma reg_unat:
  assumes "can_reg off \<le> a" "unat off mod 4 = 0" "unat off < 0x8000"
  shows "CAN_REG_GROUP_INDEX a (can_reg off) u = ((unat a - 0xFFD00000 - unat off) div 4 * 4) div unat u"
proof -
  have b: "unat (can_reg off) = 0xFFD00000 + unat off"
    using assms(3) by (simp add: RSCANn_base_def unat_word_ariths)
  have l: "0xFFD00000 + unat off \<le> unat a" using assms(1) b by (simp add: word_le_nat_alt)
  obtain q where q: "unat off = 4 * q" using assms(2) by auto
  define n where "n = 0x3FF40000 + q"
  obtain r where r: "unat a = 4 * n + r"
    using l q le_iff_add [of "0xFFD00000 + unat off" "unat a"] by (auto simp: n_def)
  have o: "0xFFD00000 + unat off = 4 * n" by (simp add: q n_def)
  have al: "unat a div 4 * 4 = 4 * n + r div 4 * 4" by (simp add: r)
  have "can_reg off \<le> CAN_REG_GET_ALIGNED_ADDR a"
    unfolding word_le_nat_alt aligned_unat b o al by simp
  then have "unat (CAN_REG_GET_ALIGNED_ADDR a - can_reg off) = r div 4 * 4"
    using unat_sub [of "can_reg off" "CAN_REG_GET_ALIGNED_ADDR a"]
    unfolding aligned_unat b o al by simp
  also have "\<dots> = (unat a - 0xFFD00000 - unat off) div 4 * 4"
    using r o by (simp add: diff_diff_left)
  finally show ?thesis by (simp add: CAN_REG_GROUP_INDEX_def unat_div)
qed

lemma group16:
  assumes a: "can_reg off \<le> a" "unat a < 0xFFD00000 + unat off + 16 * n"
    and o: "16 dvd unat off" "unat off < 0x4000"
    and r: "CAN_REG_GET_ALIGNED_ADDR a AND 0xF = r" "off' = off + r"
  shows "CAN_REG_GROUP_INDEX a (can_reg off') 16 < n"
proof -
  have b: "unat (can_reg off) = 0xFFD00000 + unat off"
    using o(2) by (simp add: RSCANn_base_def unat_word_ariths)
  have "CAN_REG_GET_ALIGNED_ADDR a AND 0xF = take_bit 4 (CAN_REG_GET_ALIGNED_ADDR a)"
    by (simp add: take_bit_eq_mask mask_eq_exp_minus_1)
  also have "\<dots> = CAN_REG_GET_ALIGNED_ADDR a mod 16" by (simp add: take_bit_eq_mod)
  finally have r': "unat r = (unat a div 4 * 4) mod 16"
    using r(1) by (simp add: unat_mod flip: aligned_unat)
  obtain p where p: "unat off = 16 * p" using o(1) by auto
  obtain x where x: "unat a = 16 * (0xFFD0000 + p) + x"
    using a(1) b p le_iff_add [of "unat (can_reg off)" "unat a"] by (auto simp: word_le_nat_alt)
  have rx: "unat r = (x div 4 * 4) mod 16"
  proof -
    have "(16 * m + x) div 4 * 4 = 16 * m + x div 4 * 4" for m by presburger
    then have "unat a div 4 * 4 = 16 * (0xFFD0000 + p) + x div 4 * 4" unfolding x .
    then show ?thesis unfolding r' by (metis mod_mult_self4)
  qed
  have xn: "x < 16 * n" using a(2) p x by simp
  have rl: "unat r < 16" by (simp add: rx)
  have o': "unat off' = 16 * p + unat r"
    using p rl o(2) by (simp add: r(2) unat_word_ariths)
  have ge: "unat r \<le> x" using rx by presburger
  have "can_reg off' \<le> a"
    unfolding word_le_nat_alt using o' x ge rl o(2) p
    by (simp add: RSCANn_base_def unat_word_ariths)
  moreover have "unat off' mod 4 = 0" using o' rx by presburger
  moreover have "unat off' < 0x8000" using o' rl p o(2) by simp
  ultimately have "CAN_REG_GROUP_INDEX a (can_reg off') 16
      = ((unat a - 0xFFD00000 - unat off') div 4 * 4) div unat (16 :: u32)"
    by (rule reg_unat)
  also have "unat a - 0xFFD00000 - unat off' = x - unat r" by (simp add: x o')
  also have "((x - unat r) div 4 * 4) div unat (16 :: u32) < n"
  proof -
    have "(x - unat r) div 4 * 4 < 16 * n" using xn by presburger
    then show ?thesis by (simp add: less_mult_imp_div_less mult.commute)
  qed
  finally show ?thesis .
qed

section \<open>Register handlers\<close>

lemma inv_write [can_keeps]:
  assumes "can_inv Q S"
  shows "can_inv Q (can_register_write_data8 a v S)" "can_inv Q (can_register_write_data16 a v16 S)"
    "can_inv Q (can_register_write_data32 a v32 S)"
proof -
  have 8: "can_inv Q (can_register_write_data8 a v S)" if "can_inv Q S" for a v and S :: "'a CanState"
    by (rule can_invI [OF that]) (simp_all add: can_register_write_data8_def)
  show "can_inv Q (can_register_write_data8 a v S)" by (rule 8 [OF assms])
  show "can_inv Q (can_register_write_data16 a v16 S)"
    unfolding can_register_write_data16_def by (intro 8 assms)
  show "can_inv Q (can_register_write_data32 a v32 S)"
    unfolding can_register_write_data32_def by (intro 8 assms)
qed

lemma inv_other [can_keeps]:
  assumes "can_inv Q S"
  shows "can_inv Q (S\<lparr>can_rx_rule_table := x1\<rparr>)" "can_inv Q (S\<lparr>can_rx_number := x2\<rparr>)"
    "can_inv Q (S\<lparr>can_rx_buffer_control := x3\<rparr>)" "can_inv Q (S\<lparr>txrx_tx_fifodata := x4\<rparr>)"
    "can_inv Q (S\<lparr>can_tx_buffer_control := x5\<rparr>)" "can_inv Q (S\<lparr>can_rx_channel_rule := x6\<rparr>)"
    "can_inv Q (S\<lparr>old_chmdc := x7, old_cslpr := x8\<rparr>)" "can_inv Q (S\<lparr>old_gmdc := x7, old_gslpr := x8\<rparr>)"
    "can_inv Q (can_rx_update_rule_table S)"
  using assms by (simp_all add: can_inv_def can_rx_update_rule_table_def)

lemma inv_upd_global:
  "can_inv Q S \<Longrightarrow> Q' (gflags (g (can_mode_global S))) \<Longrightarrow> gm_channel (g (can_mode_global S)) = chan S \<Longrightarrow>
   can_inv Q' (upd_global g S)"
  by (simp add: can_inv_def)

lemma inv_all_channels:
  "can_inv Q S \<Longrightarrow> ev \<noteq> CanModeChannelEvent_COMM_TX_START \<Longrightarrow> can_inv Q (all_channels ev S)"
  unfolding all_channels_def by (rule inv_fold) (auto intro: event_keeps)

text \<open>What the handlers of the global mode set first: the stop bit and the selected mode.\<close>

definition sel_is :: "bool \<Rightarrow> u8 \<Rightarrow> GlobalModeType \<times> bool \<times> bool \<times> bool \<times> bool \<times> u8 \<Rightarrow> bool" where
  "sel_is b m = (\<lambda>(_, st, _, _, _, sel). st = b \<and> sel = m)"

lemma inv_globa_reset:
  fixes U :: "'u can_env"
  assumes "can_inv (sel_is b m) S"
  shows "can_inv (sel_is b m) (can_mode_globa_reset U S)"
proof -
  have i: "can_register_reset_channel GLOBAL_RESET c T = T" for c and T :: "'u CanState"
    by (auto simp: can_register_reset_channel_def upd_chan_def
        intro!: CanState.equality CanModeGlobalType.equality)
  have r: "fold (can_register_reset_channel GLOBAL_RESET) xs T = T" for xs and T :: "'u CanState"
    by (induction xs) (simp_all add: i)
  show ?thesis
    using assms
    by (simp add: can_inv_def can_mode_globa_reset_def r can_register_reset_global_def gflags_def
        can_register_reset_fifo_status_def can_register_reset_rx_rule_def sel_is_def
        can_register_reset_rx_buffer_def can_register_reset_rx_fifo_def can_register_reset_tx_buffer_def
        can_register_reset_tx_buffer_status_def can_register_reset_txrx_fifo_def rx_off_def cf_off_def
        rxfifo_off_def txrxfifo_off_def Let_def)
qed

lemma inv_global_last:
  "can_inv (sel_is b m) S \<Longrightarrow> gm_channel (f (can_mode_global S)) = chan S \<Longrightarrow>
   (sel_is b m (gflags (can_mode_global S)) \<Longrightarrow> global_ok (gflags (f (can_mode_global S)))) \<Longrightarrow>
   can_inv global_ok (upd_global f S)"
  by (simp add: can_inv_def)

lemma inv_global_event [can_keeps]:
  fixes U :: "'u can_env"
  assumes S: "can_inv global_ok S"
  shows "can_inv global_ok (can_mode_global_event U ev S)"
proof -
  have o: "global_ok (gflags (can_mode_global S))" using S by (simp add: can_inv_def)
  note d = gflags_def global_ok_def sel_is_def
  have st: "can_inv (sel_is b 1) (upd_global (\<lambda>g. g\<lparr>gt_stop := b\<rparr>) S)"
    if "gmode S \<in> {GlobalMode_STOP, GlobalMode_RESET}" for b
    by (rule inv_upd_global [OF S]) (use o that in \<open>auto simp: d\<close>)
  have sel: "can_inv (sel_is False m) (upd_global (\<lambda>g. g\<lparr>gt_select_mode := m\<rparr>) S)"
    if "gmode S \<noteq> GlobalMode_STOP" for m
    by (rule inv_upd_global [OF S]) (use o that in \<open>auto simp: d\<close>)
  show ?thesis
  proof (cases ev)
    case CanModeGlobalEvent_CLR_STOP
    then show ?thesis using S
      by (auto simp: can_mode_global_event_clr_stop_def
          intro!: inv_global_last [OF inv_globa_reset [OF st]]) (simp_all add: d)
  next
    case CanModeGlobalEvent_SET_STOP
    then show ?thesis using S
      by (auto simp: can_mode_global_event_set_stop_def
          intro!: inv_global_last [OF inv_all_channels [OF st]]) (simp_all add: d)
  next
    case CanModeGlobalEvent_SET_RUN
    have "can_inv global_ok (can_mode_global_event_set_run S)"
    proof (cases "gmode S \<in> {GlobalMode_TEST, GlobalMode_RESET}")
      case True
      then have "gmode S \<noteq> GlobalMode_STOP" by auto
      note run = inv_global_last [OF sel [OF this], where m = CAN_MODE_COMM and
        f = "\<lambda>g. g\<lparr>gm_mode := GlobalMode_RUN, gs_GSLPSTS := False, gs_GHLTSTS := False,
          gs_GRSTSTS := False\<rparr>"]
      show ?thesis unfolding can_mode_global_event_set_run_def if_P [OF True]
          can_mode_global_channel_event.simps
        by (rule run) (simp_all add: d)
    qed (use S in \<open>simp add: can_mode_global_event_set_run_def\<close>)
    then show ?thesis by (simp add: CanModeGlobalEvent_SET_RUN)
  next
    case CanModeGlobalEvent_SET_RESET
    then show ?thesis using S
      by (auto simp: can_mode_global_event_set_reset_def
          intro!: inv_global_last [OF inv_globa_reset [OF inv_all_channels [OF sel]]]) (simp_all add: d)
  next
    case CanModeGlobalEvent_SET_TEST
    then show ?thesis using S
      by (auto simp: can_mode_global_event_set_test_def
          intro!: inv_global_last [OF inv_all_channels [OF sel]]) (simp_all add: d)
  qed
qed

lemma inv_cond [can_keeps]:
  "can_inv Q S \<Longrightarrow> can_inv Q T \<Longrightarrow> can_inv Q (if b then S else T)"
  by simp

text \<open>The handlers that only touch the memory, configuration bits or buffers.\<close>

lemmas io_plain_defs = can_register_mapping_io_RSCANnCmCFG_def can_register_mapping_io_RSCANnCmSTS_def
  can_register_mapping_io_RSCANnCmERFL_def can_register_mapping_io_RSCANnGSTS_def
  can_register_mapping_io_RSCANnGTINTSTS0_def can_register_mapping_io_RSCANnGTINTSTS1_def
  can_register_mapping_io_RSCANnGAFLECTR_def can_register_mapping_io_RSCANnGAFLCFG0_def
  can_register_mapping_io_RSCANnGAFLCFG1_def can_register_mapping_io_RX_RULE_def
  can_register_mapping_io_RSCANnGAFLIDj_def can_register_mapping_io_RSCANnGAFLMj_def
  can_register_mapping_io_RSCANnGAFLP0j_def can_register_mapping_io_RSCANnGAFLP1j_def
  can_register_mapping_io_RSCANnRMNB_def can_register_mapping_io_RSCANnRMNDy_def
  can_register_mapping_io_RX_BUFFER_def rxbuf_reg_def can_register_mapping_io_RSCANnRMIDq_def
  can_register_mapping_io_RSCANnRMPTRq_def can_register_mapping_io_RSCANnRMDF0q_def
  can_register_mapping_io_RSCANnRMDF1q_def can_register_mapping_io_RX_FIFO_def rxfifo_reg_def
  can_register_mapping_io_RSCANnRFIDx_def can_register_mapping_io_RSCANnRFPTRx_def
  can_register_mapping_io_RSCANnRFDF0x_def can_register_mapping_io_RSCANnRFDF1x_def
  can_register_mapping_io_TXRX_FIFO_def txrxfifo_reg_def can_register_mapping_io_RSCANnCFIDk_def
  can_register_mapping_io_RSCANnCFPTRk_def can_register_mapping_io_RSCANnCFDF0k_def
  can_register_mapping_io_RSCANnCFDF1k_def fifo_flags_reg_def can_register_mapping_io_RSCANnFESTS_def
  can_register_mapping_io_RSCANnFFSTS_def can_register_mapping_io_RSCANnFMSTS_def
  can_register_mapping_io_RSCANnRFISTS_def can_register_mapping_io_RSCANnCFRISTS_def
  can_register_mapping_io_RSCANnCFTISTS_def can_register_mapping_io_RSCANnTMCp_def
  can_register_mapping_io_RSCANnTMSTSp_def can_register_mapping_io_TX_BUFFER_def txbuf_reg_def
  can_register_mapping_io_RSCANnTMIDp_def can_register_mapping_io_RSCANnTMPTRp_def
  can_register_mapping_io_RSCANnTMDF0p_def can_register_mapping_io_RSCANnTMDF1p_def
  can_register_mapping_io_RSCANnTMIECy_def txbuf_flags_reg_def
  can_register_mapping_io_RSCANnTMTRSTSy_def can_register_mapping_io_RSCANnTMTCSTSy_def
  can_register_mapping_io_RSCANnTXQCCm_def can_register_mapping_io_RSCANnTXQSTSm_def
  can_register_mapping_io_RSCANnTXQPCTRm_def can_register_mapping_io_RSCANnTHLACCm_def
  can_register_mapping_io_RSCANnRFPCTRx_def can_register_mapping_io_RSCANnTHLPCTRm_def
  can_register_mapping_io_RSCANnCFPCTRk_def

lemma io_plain:
  assumes "can_inv Q S"
  shows "can_inv Q (can_register_mapping_io_RSCANnGSTS io a S)"
    "can_inv Q (can_register_mapping_io_RSCANnGTINTSTS0 io a S)"
    "can_inv Q (can_register_mapping_io_RSCANnGTINTSTS1 io a S)"
    "can_inv Q (can_register_mapping_io_RSCANnGAFLECTR io a S)"
    "can_inv Q (can_register_mapping_io_RSCANnGAFLCFG0 io a S)"
    "can_inv Q (can_register_mapping_io_RSCANnGAFLCFG1 io a S)"
    "can_inv Q (can_register_mapping_io_RX_RULE io a S)"
    "can_inv Q (can_register_mapping_io_RSCANnRMNB io a S)"
    "can_inv Q (can_register_mapping_io_RSCANnRMNDy io a S)"
    "can_inv Q (can_register_mapping_io_RX_BUFFER io a S)"
    "can_inv Q (can_register_mapping_io_RSCANnRFPCTRx io a S)"
    "can_inv Q (can_register_mapping_io_RX_FIFO U io a S)"
    "can_inv Q (can_register_mapping_io_RSCANnCFPCTRk U io a S)"
    "can_inv Q (can_register_mapping_io_TXRX_FIFO U io a S)"
    "can_inv Q (can_register_mapping_io_RSCANnFESTS io a S)"
    "can_inv Q (can_register_mapping_io_RSCANnFFSTS io a S)"
    "can_inv Q (can_register_mapping_io_RSCANnFMSTS io a S)"
    "can_inv Q (can_register_mapping_io_RSCANnRFISTS io a S)"
    "can_inv Q (can_register_mapping_io_RSCANnCFRISTS io a S)"
    "can_inv Q (can_register_mapping_io_RSCANnCFTISTS io a S)"
    "can_inv Q (can_register_mapping_io_RSCANnTMCp io a S)"
    "can_inv Q (can_register_mapping_io_RSCANnTMSTSp io a S)"
    "can_inv Q (can_register_mapping_io_TX_BUFFER io a S)"
    "can_inv Q (can_register_mapping_io_RSCANnTMIECy io a S)"
    "can_inv Q (can_register_mapping_io_RSCANnTMTRSTSy io a S)"
    "can_inv Q (can_register_mapping_io_RSCANnTMTCSTSy io a S)"
    "can_inv Q (can_register_mapping_io_RSCANnTXQCCm io a S)"
    "can_inv Q (can_register_mapping_io_RSCANnTXQSTSm io a S)"
    "can_inv Q (can_register_mapping_io_RSCANnTXQPCTRm io a S)"
    "can_inv Q (can_register_mapping_io_RSCANnTHLPCTRm io a S)"
    "can_inv Q (can_register_mapping_io_RSCANnTHLACCm U io a S)"
  unfolding io_plain_defs Let_def by (intro can_keeps assms)+

lemma unat_and_7: "unat (ucast (x AND 7 :: u32) :: 'a::len word) < 8"
proof -
  have "x AND 7 = take_bit 3 x" by (simp add: take_bit_eq_mask mask_eq_exp_minus_1)
  then have "unat (x AND 7) < 8" by (simp add: take_bit_eq_mod unat_mod)
  then show ?thesis
    by (metis le_less_trans unsigned_ucast_eq take_bit_nat_less_eq_self)
qed

lemma io_status:
  assumes "can_inv Q S"
  shows "can_inv Q (can_register_mapping_io_RSCANnGCFG io a S)"
    "can_inv Q (can_register_mapping_io_RSCANnGERFL io a S)"
    "can_inv Q (can_register_mapping_io_RSCANnRFCCx io a S)"
    "can_inv Q (can_register_mapping_io_RSCANnRFSTSx io a S)"
    "can_inv Q (can_register_mapping_io_RSCANnCFCCk io a S)"
    "can_inv Q (can_register_mapping_io_RSCANnCFSTSk io a S)"
    "can_inv Q (can_register_mapping_io_RSCANnTHLCCm io a S)"
    "can_inv Q (can_register_mapping_io_RSCANnTHLSTSm io a S)"
proof -
  show "can_inv Q (can_register_mapping_io_RSCANnGCFG io a S)"
    using assms by (simp add: can_register_mapping_io_RSCANnGCFG_def can_inv_def gflags_def Let_def)
  have e: "can_inv Q (upd_global (\<lambda>g. g\<lparr>gs_dlc_error := b\<rparr>) S)" for b
    using assms by (simp add: can_inv_def gflags_def)
  show "can_inv Q (can_register_mapping_io_RSCANnGERFL io a S)"
    unfolding can_register_mapping_io_RSCANnGERFL_def Let_def by (intro can_keeps e assms)
  show "can_inv Q (can_register_mapping_io_RSCANnRFCCx io a S)"
    unfolding can_register_mapping_io_RSCANnRFCCx_def Let_def
    by (intro can_keeps inv_upd_rxfifo assms) (auto simp: rx_off_def unat_and_7)
  show "can_inv Q (can_register_mapping_io_RSCANnRFSTSx io a S)"
    unfolding can_register_mapping_io_RSCANnRFSTSx_def Let_def
    by (intro can_keeps inv_upd_rxfifo assms) (auto simp: rx_off_def)
  show "can_inv Q (can_register_mapping_io_RSCANnCFCCk io a S)"
    unfolding can_register_mapping_io_RSCANnCFCCk_def Let_def
    by (intro can_keeps inv_upd_txrxfifo assms) (auto simp: cf_off_def unat_and_7)
  show "can_inv Q (can_register_mapping_io_RSCANnCFSTSk io a S)"
    unfolding can_register_mapping_io_RSCANnCFSTSk_def Let_def
    by (intro can_keeps inv_upd_txrxfifo assms) (auto simp: cf_off_def)
  show "can_inv Q (can_register_mapping_io_RSCANnTHLCCm io a S)"
    unfolding can_register_mapping_io_RSCANnTHLCCm_def Let_def
    by (intro can_keeps inv_upd_txhl assms) auto
  show "can_inv Q (can_register_mapping_io_RSCANnTHLSTSm io a S)"
    unfolding can_register_mapping_io_RSCANnTHLSTSm_def Let_def
    by (intro can_keeps inv_upd_txhl assms) auto
qed

lemma io_GCTR:
  assumes "can_inv global_ok S"
  shows "can_inv global_ok (can_register_mapping_io_RSCANnGCTR U io a S)"
proof -
  have e: "can_inv global_ok (upd_global (\<lambda>g. g\<lparr>gt_enable_tx_history := b,
      gt_enable_fifo_msglost := c, gt_enable_dlc_error := d\<rparr>) S)" for b c d
    using assms by (simp add: can_inv_def gflags_def)
  show ?thesis
    unfolding can_register_mapping_io_RSCANnGCTR_def Let_def by (intro can_keeps e assms)
qed

lemma io_CHANNEL:
  assumes S: "can_inv Q S" and a: "can_reg 0 \<le> a" "a < can_reg 96"
  shows "can_inv Q (can_register_mapping_io_CHANNEL io a S)"
proof -
  have an: "unat a < 0xFFD00000 + unat (0 :: u32) + 16 * 6"
    using a(2) by (simp add: word_less_nat_alt RSCANn_base_def)
  have "can_inv Q (can_register_mapping_io_RSCANnCmCTR io a S)"
    if k: "CAN_REG_GET_ALIGNED_ADDR a AND 0xF = 4"
  proof -
    have i: "CAN_REG_GROUP_INDEX a (can_reg 4) 16 < 6"
      by (rule group16 [OF a(1) an _ _ k]) simp_all
    show ?thesis
      unfolding can_register_mapping_io_RSCANnCmCTR_def Let_def by (intro can_keeps S i) simp_all
  qed
  moreover have "can_inv Q (can_register_mapping_io_RSCANnCmSTS io a S)"
    unfolding can_register_mapping_io_RSCANnCmSTS_def Let_def by (intro can_keeps S)
  ultimately show ?thesis
    using S by (simp add: can_register_mapping_io_CHANNEL_def Let_def
        can_register_mapping_io_RSCANnCmCFG_def can_register_mapping_io_RSCANnCmERFL_def)
qed

section \<open>Bus accesses\<close>

definition row_keeps :: "'u CanRegisterMappingType \<Rightarrow> bool" where
  "row_keeps m \<longleftrightarrow> (\<forall>io a S. start_address m \<le> a \<longrightarrow> a < map_end m \<longrightarrow>
     can_inv global_ok S \<longrightarrow> can_inv global_ok (map_io m io a S))"

lemma row_keepsI:
  "(\<And>io a S. can_inv global_ok S \<Longrightarrow> can_inv global_ok (f io a S)) \<Longrightarrow>
   row_keeps (map_row (off, u, g, f))"
  by (simp add: row_keeps_def map_row_def)

lemma row_keeps_channel: "row_keeps (map_row (0x0000, 4, 16 * 6, can_register_mapping_io_CHANNEL))"
  by (auto simp: row_keeps_def map_row_def map_end_def intro!: io_CHANNEL)

lemma table_keeps: "list_all row_keeps (can_reigster_mapping_table U)"
  unfolding can_reigster_mapping_table_def list.map list.pred_inject(2)
  by (intro conjI row_keeps_channel row_keepsI io_plain io_status io_GCTR) simp_all

lemma inv_access [can_keeps]:
  assumes "can_inv global_ok S"
  shows "can_inv global_ok (can_register_mapping_write_data U a S)"
    "can_inv global_ok (can_register_mapping_read_data U a S)"
proof -
  have k: "can_inv global_ok (map_io m io a S)" if m: "search_map U a = Some m" for m io
  proof -
    have "m \<in> set (can_reigster_mapping_table U)" "start_address m \<le> a" "a < map_end m"
      using m by (auto simp: search_map_def find_Some_iff)
    then show ?thesis
      using table_keeps [of U] assms by (auto simp: list_all_iff row_keeps_def)
  qed
  show "can_inv global_ok (can_register_mapping_write_data U a S)"
    "can_inv global_ok (can_register_mapping_read_data U a S)"
    using assms k by (auto simp: can_register_mapping_write_data_def
        can_register_mapping_read_data_def split: option.split)
qed

lemma inv_bus [can_keeps]:
  assumes "can_inv global_ok S"
  shows "can_inv global_ok (can_put_data8 U a v8 S)" "can_inv global_ok (can_put_data16 U a v16 S)"
    "can_inv global_ok (can_put_data32 U a v32 S)" "can_inv global_ok (snd (can_get_data8 U a S))"
    "can_inv global_ok (snd (can_get_data16 U a S))" "can_inv global_ok (snd (can_get_data32 U a S))"
  unfolding can_put_data8_def can_put_data16_def can_put_data32_def can_get_data8_def
    can_get_data16_def can_get_data32_def Let_def snd_conv
  by (intro can_keeps assms)+

end
