(* ===== verification/Can_Pass_Inv.thy ===== *)
theory Can_Pass_Inv
  imports Can_Run
begin

text \<open>
  The invariant over the reception and transmission passes: every call through the function
  pointers of a transmission finds one.
\<close>

section \<open>Reception\<close>

lemma inv_rx_one:
  assumes "can_inv Q S"
  shows "can_inv Q (snd (can_rx_proc_one U cid r (d, S)))"
proof -
  have f: "can_inv Q (snd (can_rx_proc_filter r d S))"
    using assms by (simp add: can_rx_proc_filter_def can_rx_proc_filter_dlc_def inv_upd_global
        can_inv_def gflags_def)
  have "can_inv Q (snd (can_rx_proc_routing U cid r d T))" if "can_inv Q T" for T :: "'a CanState"
    unfolding can_rx_proc_routing_def Let_def snd_conv
    by (intro inv_cond inv_fold inv_ops that) assumption+
  then show ?thesis
    using f by (auto simp: can_rx_proc_one_def dest: sym split: prod.split)
qed

lemma inv_rx_rules: "can_inv Q S \<Longrightarrow> can_inv Q (can_rx_rules U cid d S)"
proof -
  have "can_inv Q (snd (fold (\<lambda>count (d, S). can_rx_proc_one U cid (channel_rule S cid count) (d, S))
      xs (d, S)))" if "can_inv Q S" for xs d S
    using that
  proof (induction xs arbitrary: d S)
    case (Cons x xs)
    obtain d1 S1 where e: "can_rx_proc_one U cid (channel_rule S cid x) (d, S) = (d1, S1)"
      by fastforce
    then have "can_inv Q S1"
      using inv_rx_one [OF Cons.prems, of U cid "channel_rule S cid x" d] by simp
    then show ?case by (simp add: e Cons.IH)
  qed simp
  then show "can_inv Q S \<Longrightarrow> can_inv Q (can_rx_rules U cid d S)"
    by (simp add: can_rx_rules_def)
qed

lemma inv_rx_channel:
  "can_inv Q (fst SX) \<Longrightarrow> cid < 6 \<Longrightarrow> can_inv Q (fst (can_rx_channel U B cid SX))"
  by (cases SX) (auto simp: can_rx_channel_def Let_def intro!: event_simple inv_rx_rules
      split: prod.split)

lemma inv_rx_proc: "can_inv Q (fst SX) \<Longrightarrow> can_inv Q (fst (can_rx_proc U B SX))"
proof -
  have "can_inv Q (fst (fold (can_rx_channel U B) xs SX))"
    if "can_inv Q (fst SX)" "set xs \<subseteq> {..<6}" for xs and SX :: "'a CanState \<times> 'b"
    using that by (induction xs arbitrary: SX) (simp_all add: inv_rx_channel)
  then show "can_inv Q (fst SX) \<Longrightarrow> can_inv Q (fst (can_rx_proc U B SX))"
    by (cases SX) (simp add: can_rx_proc_def lessThan_atLeast0)
qed

section \<open>Transmission\<close>

lemma event_tx_control [simp]: "can_tx_control (can_mode_channel_event i ev S) = can_tx_control S"
  by (cases ev) (auto simp: can_mode_channel_event_clr_stop_def can_mode_channel_event_set_stop_def
      can_mode_channel_event_set_comm_def can_mode_channel_event_set_wait_def
      can_mode_channel_event_set_reset_def can_mode_channel_event_comm_tx_start_def
      can_mode_channel_event_comm_tx_done_def can_mode_channel_event_comm_rx_start_def
      can_mode_channel_event_comm_rx_done_def can_mode_channel_reset_def upd_chan_def
      can_register_reset_txrx_fifo_channel_def can_register_reset_tx_buffer_channel_def
      can_register_reset_channel_def split: ChannelModeType.split)

text \<open>A selected request can be sent and notified, and its channel was idle.\<close>

definition req_set :: "CanTxReqType \<Rightarrow> bool" where
  "req_set t \<longleftrightarrow> tr_get_txdata t \<noteq> Src_NULL \<and> tr_notify_txdone t \<noteq> Src_NULL"

lemma req_set_txreq: "src \<noteq> Src_NULL \<Longrightarrow> req_set (set_txreq idx ty no src t)"
  by (simp add: req_set_def set_txreq_def)

definition selects :: "nat \<Rightarrow> 'u CanState \<Rightarrow> can_err \<times> 'u CanState \<Rightarrow> bool" where
  "selects cid S r \<longleftrightarrow> r = (E_NOENT, S) \<or> (\<exists>g. r = (E_OK, upd_txreq cid g S) \<and> (\<forall>t. req_set (g t)))"

lemma selects_intros:
  "selects cid S (E_NOENT, S)"
  "src \<noteq> Src_NULL \<Longrightarrow> selects cid S (E_OK, upd_txreq cid (set_txreq idx ty no src) S)"
  "selects cid S r \<Longrightarrow> selects cid S r' \<Longrightarrow> selects cid S (if b then r else r')"
  using req_set_txreq by (auto simp: selects_def)

lemma selects_bufno: "selects cid S (can_tx_select_buffer_prio_bufno cid S)"
  unfolding can_tx_select_buffer_prio_bufno_def Let_def
  by (auto split: prod.split intro!: selects_intros)

lemma selects_standard: "selects cid S (can_tx_select_buffer_prio_standard U cid S)"
  unfolding can_tx_select_buffer_prio_standard_def Let_def
  by (auto split: prod.split intro!: selects_intros)

lemma select_cases:
  obtains g where "can_tx_select_buffer U cid S = (E_NOENT, upd_txreq cid g S)"
  | g where "can_tx_select_buffer U cid S = (E_OK, upd_txreq cid g S)" "\<And>t. req_set (g t)"
proof -
  let ?f = "\<lambda>t. t\<lparr>tr_get_txdata := Src_NULL, tr_notify_txdone := Src_NULL\<rparr>"
  have u: "upd_txreq cid g (upd_txreq cid ?f S) = upd_txreq cid (\<lambda>t. g (?f t)) S" for g
    by (simp add: upd_txreq_def comp_def)
  have "selects cid (upd_txreq cid ?f S) (can_tx_select_buffer U cid S)"
    by (simp add: can_tx_select_buffer_def Let_def selects_bufno selects_standard)
  then show ?thesis
    using that(1) [of ?f] that(2) by (auto simp: selects_def u)
qed

lemma send_ok:
  assumes "can_inv Q S" "req_set (can_tx_control S cid)"
  shows "\<exists>S' X'. can_tx_send U B cid (S, X) = Some (S', X') \<and> can_inv Q S'"
proof -
  let ?t = "can_tx_control S cid"
  obtain e d S1 where g: "call_get_txdata U (tr_get_txdata ?t) cid (unat (tr_bufidx ?t)) S = Some ((e, d), S1)"
      and i: "can_inv Q S1"
    using assms inv_ops [OF assms(1)]
    by (cases "tr_get_txdata ?t") (auto simp: req_set_def call_get_txdata_def prod_eq_iff)
  have "can_inv Q (upd_txreq cid (\<lambda>t. t\<lparr>tr_txdata := m\<rparr>) S1)" for m
    using i by (auto simp: can_inv_def upd_txreq_def tx_ok_def)
  then show ?thesis
    using i g by (auto simp: can_tx_send_def Let_def intro!: inv_ops split: prod.split option.split)
qed

lemma tx_channel_ok:
  assumes "can_inv Q S" "cid < 6"
  shows "\<exists>S' X'. can_tx_channel U B cid (S, X) = Some (S', X') \<and> can_inv Q S'"
proof (cases "cm_mode (chan S cid) = ChannelMode_COMM \<and> cm_comm_mode (chan S cid) = ChannelModeComm_IDLE")
  case True
  have k: "can_inv Q (upd_txreq cid g S)" for g
    by (rule inv_upd_txreq [OF assms(1)]) (simp add: tx_ok_def True)
  show ?thesis
  proof (rule select_cases [of U cid S])
    fix g assume "can_tx_select_buffer U cid S = (E_NOENT, upd_txreq cid g S)"
    then show ?thesis using True k by (simp add: can_tx_channel_def)
  next
    fix g assume s: "can_tx_select_buffer U cid S = (E_OK, upd_txreq cid g S)" "\<And>t. req_set (g t)"
    let ?T = "can_mode_channel_event cid CanModeChannelEvent_COMM_TX_START (upd_txreq cid g S)"
    have r: "req_set (can_tx_control ?T cid)"
      unfolding event_tx_control by (simp add: upd_txreq_def s(2))
    have "can_inv Q ?T"
      by (intro event_tx_start k assms(2)) (simp add: upd_txreq_def s(2) [unfolded req_set_def])
    then show ?thesis
      using True s(1) send_ok [OF _ r, of Q U B X] by (simp add: can_tx_channel_def Let_def)
  qed
qed (use assms in \<open>auto simp: can_tx_channel_def\<close>)

lemma each_channel_ok:
  "P s \<Longrightarrow> (\<And>c s. c \<in> set cs \<Longrightarrow> P s \<Longrightarrow> \<exists>s'. f c s = Some s' \<and> P s') \<Longrightarrow>
   \<exists>s'. each_channel f cs s = Some s' \<and> P s'"
proof (induction cs arbitrary: s)
  case (Cons c cs)
  obtain s1 where "f c s = Some s1" "P s1" using Cons.prems by fastforce
  then show ?case using Cons.IH [of s1] Cons.prems(2) by simp
qed simp

lemma tx_done_channel_ok:
  assumes "can_inv Q S" "cid < 6"
  shows "\<exists>S' X'. can_tx_done_channel B cid (S, X) = Some (S', X') \<and> can_inv Q S'"
proof (cases "cm_mode (chan S cid) = ChannelMode_COMM \<and> cm_comm_mode (chan S cid) = ChannelModeComm_TX")
  case True
  let ?t = "can_tx_control S cid"
  have n: "tr_notify_txdone ?t \<noteq> Src_NULL" using True assms by (simp add: can_inv_def tx_ok_def)
  obtain e S1 where g: "call_notify_txdone (tr_notify_txdone ?t) cid (unat (tr_bufidx ?t)) S = Some (e, S1)"
      and i: "can_inv Q S1" and c: "chan S1 = chan S"
    using n inv_ops [OF assms(1)]
    by (cases "tr_notify_txdone ?t") (auto simp: call_notify_txdone_def prod_eq_iff
        can_txbuffer_notify_txdone_def can_txrxfifo_notify_txdone_def can_txque_notify_txdone_def
        upd_txbuf_def upd_txrxfifo_def upd_txque_def)
  have "can_inv Q (can_mode_channel_event cid CanModeChannelEvent_COMM_TX_DONE (upd_txreq cid h S1))" for h
  proof -
    have x: "can_mode_channel_event cid CanModeChannelEvent_COMM_TX_DONE (upd_txreq cid h S1) =
        upd_txreq cid h (can_mode_channel_event cid CanModeChannelEvent_COMM_TX_DONE S1)"
      using True c by (simp add: can_mode_channel_event_comm_tx_done_def upd_txreq_def upd_chan_def)
    show ?thesis unfolding x
      by (intro inv_upd_txreq event_keeps i assms(2))
        (use True c in \<open>simp_all add: can_mode_channel_event_comm_tx_done_def comm_done_def Let_def
          enter_wait_def CAN_MODE_CHANNEL_COMM_MODE_SET_IDLE_def tx_ok_def\<close>)
  qed
  then show ?thesis
    using True g i assms by (simp add: can_tx_done_channel_def Let_def)
qed (use assms in \<open>auto simp: can_tx_done_channel_def\<close>)

section \<open>The clock\<close>

lemma inv_clock:
  assumes "can_inv Q S" "fd \<noteq> 0"
  shows "\<exists>C' S' X' is. device_supply_clock_can U B fd C (S, X) = Some (C', (S', X'), is) \<and> can_inv Q S'"
proof (cases "dc_clock C mod ucast fd = 0")
  case True
  let ?P = "\<lambda>SX. can_inv Q (fst SX)"
  have 1: "?P (can_rx_proc U B (S, X))" using assms by (simp add: inv_rx_proc)
  have "\<exists>s'. each_channel (can_tx_channel U B) [0..<6] s = Some s' \<and> ?P s'" if "?P s" for s
    by (rule each_channel_ok [where P = ?P, OF that]) (use tx_channel_ok in fastforce)
  then obtain SX1 where 2: "can_tx_proc U B (can_rx_proc U B (S, X)) = Some SX1" "?P SX1"
    using 1 unfolding can_tx_proc_def CAN_CHANNEL_NUM_def
    by (cases "gmode (fst (can_rx_proc U B (S, X))) = GlobalMode_RUN") (fastforce simp del: split_paired_Ex)+
  have "\<exists>s'. each_channel (can_tx_done_channel B) [0..<6] s = Some s' \<and> ?P s'" if "?P s" for s
    by (rule each_channel_ok [where P = ?P, OF that]) (use tx_done_channel_ok in fastforce)
  then obtain SX2 where 3: "can_tx_done B SX1 = Some SX2" "?P SX2"
    using 2(2) unfolding can_tx_done_def CAN_CHANNEL_NUM_def
    by (cases "gmode (fst SX1) = GlobalMode_RUN") (fastforce simp del: split_paired_Ex)+
  then show ?thesis
    using True 2 assms(2) by (cases SX2) (simp add: device_supply_clock_can_def)
qed (use assms in \<open>simp add: device_supply_clock_can_def\<close>)

section \<open>Runs\<close>

text \<open>The static variables of the controller when the program starts, with the values C gives them.\<close>

definition zero_fifo :: CanFifoControlType where
  "zero_fifo = \<lparr>fc_count = 0, fc_roff = 0, fc_woff = 0\<rparr>"

definition zero_channel :: CanModeChannelType where
  "zero_channel = \<lparr>cm_cid = 0, cm_mode = ChannelMode_STOP, cm_comm_mode = ChannelModeComm_IDLE,
     cm_stop = False, cm_select_mode = 0, cs_can_comm = False, cs_receiving = False,
     cs_sending = False, cs_mode_stop = False, cs_mode_wait = False, cs_mode_reset = False\<rparr>"

definition zero_txbuf :: CanTxBufferType where
  "zero_txbuf = \<lparr>tb_req_tx = False, tb_result = 0, tb_sending = False, tb_ide = False,
     tb_rtr = False, tb_id = 0, tb_dlc = 0, tb_label = 0, tb_body = replicate 8 0\<rparr>"

definition zero_rxfifo :: CanRxFifoBufferType where
  "zero_rxfifo = \<lparr>rf_intr_timing_cnt = 0, rf_everytime = False, rf_quelen = 0,
     rf_enable_intr = False, rf_enable_fifo = False, rf_intr = False, rf_lost = False,
     rf_full = False, rf_empty = False, rf_control = zero_fifo, rf_buffer = (\<lambda>_. zero_rxbuf)\<rparr>"

definition zero_txrxfifo :: "'u can_env \<Rightarrow> 'u CanTxRxFifoBufferType" where
  "zero_txrxfifo U = \<lparr>cf_tx_bufno = 0, cf_mode = 0, cf_intr_timing_cnt = 0, cf_everytime = False,
     cf_quelen = 0, cf_enable_tx_intr = False, cf_enable_rx_intr = False, cf_enable_fifo = False,
     cf_tx_intr = False, cf_rx_intr = False, cf_lost = False, cf_full = False, cf_empty = False,
     cf_control = zero_fifo, cf_buffer = zero_union U\<rparr>"

definition zero_txque :: CanTxQueueType where
  "zero_txque = \<lparr>tq_intr_factor = False, tq_enable_intr = False, tq_quelen = 0,
     tq_enable_queue = False, tq_intr_req = False, tq_is_full = False, tq_is_empty = False,
     tq_reqbufnum = 0, tq_data = (\<lambda>_. \<lparr>tq_req = False, tq_msg = zero_data\<rparr>)\<rparr>"

definition zero_history :: CanTxHistoryDataType where
  "zero_history = \<lparr>hd_label = 0, hd_bufno = 0, hd_buftype = 0\<rparr>"

definition zero_txhl :: CanTxHistoryType where
  "zero_txhl = \<lparr>th_select_tx_buffer = False, th_select_intr_factor = False, th_enable_intr = False,
     th_enable_history = False, th_intr = False, th_ovr = False, th_full = False, th_empty = False,
     th_control = zero_fifo, th_buffer = (\<lambda>_. zero_history)\<rparr>"

definition can_zero :: "'u can_env \<Rightarrow> 'u CanState" where
  "can_zero U = \<lparr>can_mode_global = \<lparr>gm_mode = GlobalMode_STOP, gc_enable_dlc_check = False,
       gc_enable_tx_bufno_first = False, gt_enable_tx_history = False, gt_enable_dlc_error = False,
       gt_enable_fifo_msglost = False, gt_stop = False, gt_select_mode = 0, gs_GSLPSTS = False,
       gs_GHLTSTS = False, gs_GRSTSTS = False, gs_dlc_error = False,
       gm_channel = (\<lambda>_. zero_channel)\<rparr>,
     can_rx_fifo_control = (\<lambda>_. zero_rxfifo), can_txrx_fifo_control = (\<lambda>_ _. zero_txrxfifo U),
     can_rx_buffer_control = \<lparr>rx_buffer_num = 0, rx_msgin_flag = (\<lambda>_. 0), rx_buf = (\<lambda>_. zero_rxbuf)\<rparr>,
     can_tx_buffer_control = \<lparr>tx_intr_enable = (\<lambda>_. 0), tx_buf = (\<lambda>_ _. zero_txbuf)\<rparr>,
     can_tx_queue = (\<lambda>_. zero_txque), can_tx_history = (\<lambda>_. zero_txhl), can_rx_number = (\<lambda>_. 0),
     can_rx_rule_table = \<lparr>rt_enable_write = False, rt_page_number = 0, rt_page = (\<lambda>_ _. zero_rule)\<rparr>,
     can_rx_channel_rule = (\<lambda>_. \<lparr>cr_rule_num = 0, cr_rule = (\<lambda>_. (0, 0))\<rparr>),
     can_tx_control = (\<lambda>_. \<lparr>tr_bufidx = 0, tr_txdata = zero_data, tr_history = zero_history,
       tr_get_txdata = Src_NULL, tr_notify_txdone = Src_NULL\<rparr>),
     txrx_tx_fifodata = zero_data, old_gslpr = 1, old_gmdc = 1, old_cslpr = 1, old_chmdc = 1,
     memory_data_CAN = (\<lambda>_. 0)\<rparr>"

definition can_boot :: "'u can_env \<Rightarrow> 'u CanState" where
  "can_boot U = can_rx_init (can_reset U (can_zero U))"

lemma reset_channels:
  fixes S :: "'u CanState"
  shows "fold (can_register_reset_channel MCU_RESET) [0..<n] S =
    can_mode_global_update (gm_channel_update (\<lambda>a i. if i < n then (a i)\<lparr>cm_cid := of_nat i,
      cm_stop := True, cm_select_mode := 1, cm_mode := ChannelMode_STOP,
      cm_comm_mode := ChannelModeComm_IDLE, cs_can_comm := False, cs_receiving := False,
      cs_sending := False, cs_mode_stop := True, cs_mode_wait := False, cs_mode_reset := True\<rparr>
      else a i)) S"
  by (induction n) (auto simp: can_register_reset_channel_def upd_chan_def fun_eq_iff less_Suc_eq
      intro!: CanState.equality CanModeGlobalType.equality CanModeChannelType.equality)

lemma boot_inv: "can_inv global_ok (can_boot U)"
  by (auto simp: can_boot_def can_rx_init_def can_rx_update_rule_table_def can_reset_def reset_channels
      can_register_reset_global_def can_register_reset_fifo_status_def can_register_reset_rx_rule_def
      can_register_reset_rx_buffer_def can_register_reset_rx_fifo_def can_register_reset_tx_buffer_def
      can_register_reset_tx_buffer_status_def can_register_reset_txrx_fifo_def
      can_register_reset_tx_queue_def can_register_reset_tx_history_def can_inv_def gflags_def
      global_ok_def chan_ok_def status_flags_def tx_ok_def rx_off_def cf_off_def rxfifo_off_def
      txrxfifo_off_def can_zero_def zero_txhl_def zero_fifo_def off_ok_def CAN_FIFO_CLEAR_def Let_def
      unsigned_of_nat take_bit_eq_mod)

text \<open>
  What the machine does with the controller: accesses of any address and value, clock passes, and
  a bus that changes as it likes in between.
\<close>

datatype can_access =
    Put8 u32 u8 | Put16 u32 u16 | Put32 u32 u32 | Get8 u32 | Get16 u32 | Get32 u32

fun can_access_step :: "'u can_env \<Rightarrow> can_access \<Rightarrow> 'u CanState \<Rightarrow> 'u CanState" where
  "can_access_step U (Put8 a v) S = can_put_data8 U a v S"
| "can_access_step U (Put16 a v) S = can_put_data16 U a v S"
| "can_access_step U (Put32 a v) S = can_put_data32 U a v S"
| "can_access_step U (Get8 a) S = snd (can_get_data8 U a S)"
| "can_access_step U (Get16 a) S = snd (can_get_data16 U a S)"
| "can_access_step U (Get32 a) S = snd (can_get_data32 U a S)"

inductive can_run :: "'u can_env \<Rightarrow> 'x CanBusOperationType \<Rightarrow> 'u CanState \<Rightarrow> bool" for U B where
  boot: "can_run U B (can_boot U)"
| access: "can_run U B S \<Longrightarrow> can_run U B (can_access_step U x S)"
| clock: "can_run U B S \<Longrightarrow> fd \<noteq> 0 \<Longrightarrow>
    device_supply_clock_can U B fd C (S, X) = Some (C', (S', X'), ints) \<Longrightarrow> can_run U B S'"

lemma can_run_inv: "can_run U B S \<Longrightarrow> can_inv global_ok S"
proof (induction rule: can_run.induct)
  case boot
  show ?case by (rule boot_inv)
next
  case (access S x)
  then show ?case by (cases x) (simp_all add: inv_bus)
next
  case (clock S fd C X C' S' X' ints)
  then show ?case using inv_clock [OF clock.IH, of fd U B C X] by auto
qed

end
