(* ===== verification/Can_Props.thy ===== *)
theory Can_Props
  imports Can_Pass_Inv Samples
begin

text \<open>
  The properties of the CAN controller: the consistency of its state over any run, the safety of
  its clock, the queues behind its buffers, the routing of receptions, the choice and the progress
  of transmissions, and two requests that are lost.
\<close>

section \<open>Samples\<close>

text \<open>A union whose two views do not overlap, and a bus that is a list of frames to come.\<close>

definition sample_env :: "((nat \<Rightarrow> CanRxBufferType) \<times> (nat \<Rightarrow> CanTxBufferType)) can_env" where
  "sample_env = \<lparr>get_rx = fst, put_rx = (\<lambda>(r, t) i x. (r(i := x), t)), get_tx = snd,
     put_tx = (\<lambda>(r, t) i x. (r, t(i := x))), zero_union = (\<lambda>_. zero_rxbuf, \<lambda>_. zero_txbuf),
     uninit_data = 0, uninit_history = zero_history\<rparr>"

definition sample_bus :: "CanDataType list CanBusOperationType" where
  "sample_bus = \<lparr>rx_is_arrived = (\<lambda>_ X. (X \<noteq> [], X)), rx_receive = (\<lambda>_ X. (hd X, tl X)),
     tx_start_send = (\<lambda>_ _ X. (E_OK, X)), tx_is_done = (\<lambda>_ _. True)\<rparr>"

lemma sample_union_ok: "union_ok sample_env"
  by (auto simp: union_ok_def sample_env_def split: prod.splits)

definition sample_run :: "((nat \<Rightarrow> CanRxBufferType) \<times> (nat \<Rightarrow> CanTxBufferType)) CanState" where
  "sample_run = can_access_step sample_env (Put32 (can_reg 0x88) 1) (can_boot sample_env)"

lemma sample_can_run: "can_run sample_env sample_bus sample_run"
  unfolding sample_run_def by (intro can_run.intros)

definition sample_clock :: DeviceClockType where
  "sample_clock = \<lparr>dc_clock = 100000, dc_intclock = 0, dc_min_intr_interval = 1000,
     dc_can_skip_clock = False, dc_is_halt = False\<rparr>"

section \<open>Consistency and safety\<close>





section \<open>Queues\<close>

text \<open>
  C10: every FIFO of the controller is a bounded queue.  On any sequence of its operations an
  enabled receive FIFO buffer, either side of a transmit/receive FIFO buffer, the transmit history
  and the receive ring of the ROS bus give the results of a list of at most their configured
  length: the same error codes and the same messages, and their array holds that list.  So what a
  transmit FIFO and the ROS ring hand out, with what they still hold, is what they held and
  accepted, in that order.
\<close>
lemma can_fifos_are_queues:
  fixes S :: "'u CanState" and X :: "'p RosBusState"
  assumes U: "union_ok U"
    and rx: "rx_ok (can_rx_fifo_control S x)" "list_all is_rx_op xs"
    and cr: "cf_ok False (can_txrx_fifo_control S c k)"
    and ct: "cf_ok True (can_txrx_fifo_control S i j)" "list_all is_tx_op ys"
    and th: "th_ok (can_tx_history S h)" "list_all is_rx_op hs"
    and ros: "ros_ok n X" "list_all is_ros_op zs"
  shows "run_ops (q_step (unat (rf_cap (can_rx_fifo_control S x)))) xs (rx_list (can_rx_fifo_control S x)) =
      (fst (run_ops (rx_step x) xs S), rx_list (can_rx_fifo_control (snd (run_ops (rx_step x) xs S)) x)) \<and>
    run_ops (q_step (unat (cf_cap (can_txrx_fifo_control S c k)))) xs
        (cf_rx_list U (can_txrx_fifo_control S c k)) =
      (fst (run_ops (cf_rx_step U c k) xs S),
       cf_rx_list U (can_txrx_fifo_control (snd (run_ops (cf_rx_step U c k) xs S)) c k)) \<and>
    run_ops (q_step (unat (cf_cap (can_txrx_fifo_control S i j)))) ys
        (cf_tx_list U (can_txrx_fifo_control S i j)) =
      (fst (run_ops (cf_tx_step U i j) ys S),
       cf_tx_list U (can_txrx_fifo_control (snd (run_ops (cf_tx_step U i j) ys S)) i j)) \<and>
    run_ops (q_step 16) hs (th_list (can_tx_history S h)) =
      (fst (run_ops (th_step h) hs S), th_list (can_tx_history (snd (run_ops (th_step h) hs S)) h)) \<and>
    run_ops (q_step (unat (rx_queue_max X))) zs (ros_list n X) =
      (fst (run_ops (ros_step n) zs X), ros_list n (snd (run_ops (ros_step n) zs X))) \<and>
    cf_tx_list U (can_txrx_fifo_control S i j) @ accepted ys (fst (run_ops (cf_tx_step U i j) ys S)) =
      taken ys (fst (run_ops (cf_tx_step U i j) ys S)) @
      cf_tx_list U (can_txrx_fifo_control (snd (run_ops (cf_tx_step U i j) ys S)) i j) \<and>
    ros_list n X @ accepted zs (fst (run_ops (ros_step n) zs X)) =
      taken zs (fst (run_ops (ros_step n) zs X)) @ ros_list n (snd (run_ops (ros_step n) zs X))"
proof -
  note impl = rxq.run_simulates [of S x xs] thq.run_simulates [of S h hs] rosq.run_simulates [of n X zs]
    queue_impl.run_simulates [OF cf_rx_impl [OF U], of S c k xs]
    queue_impl.run_simulates [OF cf_tx_impl [OF U], of S i j ys]
  have t: "run_ops (q_step (unat (cf_cap (can_txrx_fifo_control S i j)))) ys
        (cf_tx_list U (can_txrx_fifo_control S i j)) =
      (fst (run_ops (cf_tx_step U i j) ys S),
       cf_tx_list U (can_txrx_fifo_control (snd (run_ops (cf_tx_step U i j) ys S)) i j))"
    using impl(5) ct by (auto simp: list_all_iff)
  have z: "run_ops (q_step (unat (rx_queue_max X))) zs (ros_list n X) =
      (fst (run_ops (ros_step n) zs X), ros_list n (snd (run_ops (ros_step n) zs X)))"
    using impl(3) ros by (auto simp: list_all_iff)
  have "Q_next \<notin> set ys" "Q_next \<notin> set zs"
    using ct(2) ros(2) by (auto simp: list_all_iff is_tx_op_def is_ros_op_def)
  note order = this [THEN q_run_fifo]
  show ?thesis
    using impl(1,2,4) rx cr th t z order(1) [OF t] order(2) [OF z] by (auto simp: list_all_iff)
qed

definition sample_msg :: "u32 \<Rightarrow> CanDataType" where
  "sample_msg i = \<lparr>d_ide = False, d_rtr = False, d_dlc = 8, d_label = 0, d_id = i,
     d_data = [1, 2, 3, 4, 5, 6, 7, 8]\<rparr>"

text \<open>Empty FIFO buffers of four messages: one to receive, one to receive and one to transmit.\<close>

definition sample_fifos :: "((nat \<Rightarrow> CanRxBufferType) \<times> (nat \<Rightarrow> CanTxBufferType)) CanState" where
  "sample_fifos = (can_boot sample_env)\<lparr>
     can_rx_fifo_control := \<lambda>_. zero_rxfifo\<lparr>rf_enable_fifo := True, rf_quelen := 1, rf_empty := True\<rparr>,
     can_txrx_fifo_control := \<lambda>_ k. (zero_txrxfifo sample_env)\<lparr>cf_mode := (if k = 0 then 0 else 1),
       cf_enable_fifo := True, cf_quelen := 1, cf_empty := True\<rparr>,
     can_tx_history := \<lambda>_. zero_txhl\<lparr>th_enable_history := True, th_empty := True\<rparr>\<rparr>"

definition sample_ros :: "unit RosBusState" where
  "sample_ros = \<lparr>rx_queue_max = 256, can_bus_ros_rx_buffer = (\<lambda>_. \<lparr>rr_count = 0, rr_roff = 0,
     rr_woff = 0, rr_bufferp = (\<lambda>_. zero_data)\<rparr>), can_bus_ros_pub_topic = [],
     can_bus_ros_sub_topic = [], ros_published = ()\<rparr>"

lemma can_fifos_are_queues_witness:
  "cf_tx_list sample_env (can_txrx_fifo_control
     (snd (run_ops (cf_tx_step sample_env 0 1) [Q_put (sample_msg 1), Q_put (sample_msg 2), Q_get]
       sample_fifos)) 0 1) = [sample_msg 2]"
proof -
  have rx: "rx_ok (can_rx_fifo_control sample_fifos 0)"
    by (simp add: rx_ok_def sample_fifos_def zero_rxfifo_def ring_ok_def zero_fifo_def can_fifo_quelen_def)
  have cf: "cf_ok b (can_txrx_fifo_control sample_fifos 0 k)" if "b = (k \<noteq> 0)" for b k
    using that by (simp add: cf_ok_def sample_fifos_def zero_txrxfifo_def ring_ok_def zero_fifo_def
        can_fifo_quelen_def)
  have th: "th_ok (can_tx_history sample_fifos 0)"
    by (simp add: th_ok_def sample_fifos_def zero_txhl_def ring_ok_def zero_fifo_def)
  have ros: "ros_ok 0 sample_ros"
    by (simp add: ros_ok_def sample_ros_def rr_control_def ring_ok_def)
  have e: "cf_tx_list sample_env (can_txrx_fifo_control sample_fifos 0 1) = []"
    "unat (cf_cap (can_txrx_fifo_control sample_fifos 0 1)) = 4"
    by (simp_all add: cf_tx_list_def ring_list_def sample_fifos_def zero_txrxfifo_def zero_fifo_def
        can_fifo_quelen_def)
  show ?thesis
    using can_fifos_are_queues [OF sample_union_ok rx, of "[Q_peek]" 0 0 0 1
        "[Q_put (sample_msg 1), Q_put (sample_msg 2), Q_get]" 0 "[Q_peek]" 0 sample_ros "[Q_get]"]
      cf th ros e
    by (simp add: is_rx_op_def is_tx_op_def is_ros_op_def)
qed

section \<open>Reception\<close>

lemma snd_put_rx: "snd (can_rxfifo_put_rxdata x d S) =
    S\<lparr>can_rx_fifo_control := (can_rx_fifo_control S)(x := snd (rxfifo_put d (can_rx_fifo_control S x)))\<rparr>"
  by (simp add: can_rxfifo_put_rxdata_def upd_rxfifo_def split: prod.split)

lemma snd_put_txrx: "snd (can_txrxfifo_put_rxdata U c k d S) =
    S\<lparr>can_txrx_fifo_control := (can_txrx_fifo_control S)(c := (can_txrx_fifo_control S c)(k :=
      snd (txrxfifo_put_rx U d (can_txrx_fifo_control S c k))))\<rparr>"
  by (simp add: can_txrxfifo_put_rxdata_def upd_txrxfifo_def split: prod.split)

lemma put_rx_fold:
  "distinct xs \<Longrightarrow> fold (\<lambda>x S. if P x then snd (can_rxfifo_put_rxdata x d S) else S) xs S =
     S\<lparr>can_rx_fifo_control := \<lambda>x. if x \<in> set xs \<and> P x then snd (rxfifo_put d (can_rx_fifo_control S x))
         else can_rx_fifo_control S x\<rparr>"
  by (induction xs arbitrary: S)
    (auto simp: snd_put_rx fun_eq_iff intro!: CanState.equality)

lemma put_txrx_fold:
  "distinct ks \<Longrightarrow> fold (\<lambda>k S. if P k then snd (can_txrxfifo_put_rxdata U cid k d S) else S) ks S =
     S\<lparr>can_txrx_fifo_control := \<lambda>c k. if c = cid \<and> k \<in> set ks \<and> P k
         then snd (txrxfifo_put_rx U d (can_txrx_fifo_control S c k)) else can_txrx_fifo_control S c k\<rparr>"
  by (induction ks arbitrary: S)
    (auto simp: snd_put_txrx fun_eq_iff intro!: CanState.equality)

lemma mask_test: "(2 ^ n AND (w :: 'a::len word) = 0) = (\<not> bit w n)"
  using bit_iff_and_push_bit_not_eq_0 [of w n] by (simp add: and.commute push_bit_eq_mult)

lemma zero_not_bit: "bit w n \<Longrightarrow> (w :: 'a::len word) \<noteq> 0"
  by auto


definition sample_rule :: CanRxRuleType where
  "sample_rule = zero_rule\<lparr>id_canid := 0x123, mask_canid := 0x7FF, fb_label := 5,
     fb_enable_rxbuffer := True, fb_rxbuffer_number := 7, ff_rx_fifo := 1\<rparr>"


section \<open>Transmission\<close>

lemma check_id_bit_13: "\<not> bit (can_get_check_id d) 13"
  by (auto simp: can_get_check_id_def Let_def bit_simps)

lemma check_id_not_max: "can_get_check_id d \<noteq> - 1" "can_get_check_id d < - 1"
proof -
  have "can_get_check_id d \<noteq> - 1" using check_id_bit_13 [of d] by auto
  then show "can_get_check_id d \<noteq> - 1" "can_get_check_id d < - 1" by (auto simp: word_order.not_eq_extremum)
qed

definition prio_key :: "(can_err \<times> CanDataType option) \<times> u32 \<times> u8 \<Rightarrow> u32" where
  "prio_key x = (case fst x of (E_OK, Some d) \<Rightarrow> can_get_check_id d | _ \<Rightarrow> - 1)"

lemma prio_key_step: "prio_step r b t (m, c, y) =
    (if prio_key (r, b, t) < m then (prio_key (r, b, t), b, t) else (m, c, y))"
  by (auto simp: prio_step_def prio_key_def split: prod.split option.split can_err.split)

lemma prio_key_max: "(prio_key x = - 1) = (\<nexists>d. fst x = (E_OK, Some d))"
  by (auto simp: prio_key_def check_id_not_max split: prod.split option.split can_err.split)

lemma prio_fold:
  "fold (\<lambda>(r, b, t). prio_step r b t) xs (m0, c0, y0) = (m, c, y) \<Longrightarrow>
   m \<le> m0 \<and> (\<forall>j < length xs. m \<le> prio_key (xs ! j)) \<and>
   ((m, c, y) = (m0, c0, y0) \<or> m < m0 \<and> (\<exists>i < length xs. m = prio_key (xs ! i) \<and>
      (c, y) = snd (xs ! i) \<and> (\<forall>j < i. m < prio_key (xs ! j))))"
proof (induction xs arbitrary: m c y rule: rev_induct)
  case (snoc x xs)
  obtain r b t where x: "x = (r, b, t)" by (cases x)
  obtain m1 c1 y1 where f: "fold (\<lambda>(r, b, t). prio_step r b t) xs (m0, c0, y0) = (m1, c1, y1)"
    by (cases "fold (\<lambda>(r, b, t). prio_step r b t) xs (m0, c0, y0)")
  note IH = snoc.IH [OF f]
  have p: "(m, c, y) = (if prio_key x < m1 then (prio_key x, b, t) else (m1, c1, y1))"
    using snoc.prems f by (auto simp: x prio_key_step)
  show ?case
  proof (cases "prio_key x < m1")
    case True
    then have "m = prio_key x" "(c, y) = snd x" "prio_key x < m0"
      using p IH by (auto simp: x dest: less_le_trans)
    moreover have "prio_key x < prio_key (xs ! j)" if "j < length xs" for j
      using IH that True by (auto dest: less_le_trans)
    ultimately show ?thesis
      by (auto simp: nth_append less_Suc_eq intro!: exI [of _ "length xs"] less_imp_le)
  next
    case False
    then have e: "m = m1" "c = c1" "y = y1" using p by auto
    have k: "m \<le> m0" "\<forall>j < length (xs @ [x]). m \<le> prio_key ((xs @ [x]) ! j)"
      using IH False by (auto simp: e nth_append less_Suc_eq)
    show ?thesis
    proof (cases "(m, c, y) = (m0, c0, y0)")
      case F: False
      then obtain i where "i < length xs" "m = prio_key (xs ! i)" "(c, y) = snd (xs ! i)"
        "\<forall>j < i. m < prio_key (xs ! j)" "m < m0" using IH e by blast
      then have "m < m0 \<and> (\<exists>i < length (xs @ [x]). m = prio_key ((xs @ [x]) ! i) \<and>
          (c, y) = snd ((xs @ [x]) ! i) \<and> (\<forall>j < i. m < prio_key ((xs @ [x]) ! j)))"
        by (intro conjI exI [of _ i]) (auto simp: nth_append)
      then show ?thesis using k by blast
    qed (use k in blast)
  qed
qed simp

text \<open>
  C12: the standard selection of the next transmission.  It fails, and changes nothing, exactly when
  no transmit buffer, no transmit FIFO buffer and no queue entry of the channel has a message.
  Otherwise it takes a candidate with the least arbitration key, the first of them in the order
  buffers, FIFO buffers, queue, and stores its index, its type, the number for the history and the
  functions that get the message and are told of its end.
\<close>
lemma can_standard_selection:
  assumes "can_tx_select_buffer_prio_standard U cid S = (e, S')"
  shows "if \<forall>x \<in> set (can_tx_candidates U cid S). \<forall>d. fst x \<noteq> (E_OK, Some d) then e = E_NOENT \<and> S' = S
    else e = E_OK \<and> (\<exists>i < length (can_tx_candidates U cid S). \<exists>d b ty.
      can_tx_candidates U cid S ! i = ((E_OK, Some d), b, ty) \<and>
      (\<forall>j < length (can_tx_candidates U cid S). \<forall>d2 b2 ty2.
        can_tx_candidates U cid S ! j = ((E_OK, Some d2), b2, ty2) \<longrightarrow>
        can_get_check_id d \<le> can_get_check_id d2 \<and> (j < i \<longrightarrow> can_get_check_id d < can_get_check_id d2)) \<and>
      S' = upd_txreq cid (set_txreq b ty
        (if ty = CAN_TX_HISTORY_BUFTYPE_FIFO then of_nat cid * 3 + b else CAN_TX_BUFFER_ID (of_nat cid) b)
        (if ty = CAN_TX_HISTORY_BUFTYPE_BUFFER then Src_txbuffer
         else if ty = CAN_TX_HISTORY_BUFTYPE_FIFO then Src_txrxfifo else Src_txque)) S)"
proof -
  let ?xs = "can_tx_candidates U cid S"
  obtain m c y where f: "fold (\<lambda>(r, b, t). prio_step r b t) ?xs (- 1, - 1, - 1) = (m, c, y)"
    by (cases "fold (\<lambda>(r, b, t). prio_step r b t) ?xs (- 1, - 1, - 1)")
  note p = prio_fold [OF f]
  have ty: "snd (snd x) \<in> {1, 2, 4}" if "x \<in> set ?xs" for x
    using that by (auto simp: can_tx_candidates_def split: if_splits)
  show ?thesis
  proof (cases "m = - 1")
    case True
    have "prio_key x = - 1" if "x \<in> set ?xs" for x
      using p that True by (auto simp: in_set_conv_nth word_order.extremum_unique)
    then have "\<forall>x \<in> set ?xs. \<forall>d. fst x \<noteq> (E_OK, Some d)" by (auto simp: prio_key_max)
    then show ?thesis using assms True f by (simp add: can_tx_select_buffer_prio_standard_def)
  next
    case False
    then obtain i where i: "i < length ?xs" "m = prio_key (?xs ! i)" "(c, y) = snd (?xs ! i)"
        "\<forall>j < i. m < prio_key (?xs ! j)"
      using p by auto
    then obtain d where d: "?xs ! i = ((E_OK, Some d), c, y)"
      using False prio_key_max [of "?xs ! i"] by (metis prod.collapse)
    then have m: "m = can_get_check_id d" using i(2) unfolding d by (simp add: prio_key_def)
    have less: "can_get_check_id d \<le> can_get_check_id d2 \<and> (j < i \<longrightarrow> can_get_check_id d < can_get_check_id d2)"
      if "j < length ?xs" "?xs ! j = ((E_OK, Some d2), b2, ty2)" for j d2 b2 ty2
      using p i(4) that by (auto simp: m prio_key_def dest!: spec [of _ j])
    have y: "y \<in> {1, 2, 4}" using ty [OF nth_mem [OF i(1)]] d by simp
    have r: "e = E_OK" "S' = upd_txreq cid (set_txreq c y
        (if y = CAN_TX_HISTORY_BUFTYPE_FIFO then of_nat cid * 3 + c else CAN_TX_BUFFER_ID (of_nat cid) c)
        (if y = CAN_TX_HISTORY_BUFTYPE_BUFFER then Src_txbuffer
         else if y = CAN_TX_HISTORY_BUFTYPE_FIFO then Src_txrxfifo else Src_txque)) S"
      using assms False f y by (auto simp: can_tx_select_buffer_prio_standard_def)
    have n: "\<not> (\<forall>x \<in> set ?xs. \<forall>d. fst x \<noteq> (E_OK, Some d))"
      using i(1) d by (metis fst_conv nth_mem)
    show ?thesis
      unfolding if_not_P [OF n]
      by (intro conjI exI [of _ i] exI [of _ d] exI [of _ c] exI [of _ y] allI impI r i(1) d)
        (use less in blast)+
  qed
qed

definition sample_tx :: "((nat \<Rightarrow> CanRxBufferType) \<times> (nat \<Rightarrow> CanTxBufferType)) CanState" where
  "sample_tx = upd_txbuf 0 3 (\<lambda>_. (can_txbuffer_set_data (sample_msg 5) zero_txbuf)\<lparr>tb_req_tx := True\<rparr>)
     sample_run"

lemma can_standard_selection_witness:
  "fst (can_tx_select_buffer_prio_standard sample_env 0 sample_tx) = E_OK"
proof -
  let ?x = "(can_txbuffer_peek_txdata 0 3 sample_tx, 3 :: u32, 1 :: u8)"
  have "?x \<in> set (can_tx_candidates sample_env 0 sample_tx)"
    by (simp add: can_tx_candidates_def image_iff bex_Un) (intro disjI1 bexI [of _ 3], simp_all)
  moreover have "fst ?x = (E_OK, Some (sample_msg 5))"
    by (simp add: can_txbuffer_peek_txdata_def sample_tx_def upd_txbuf_def)
      (simp add: can_txbuffer_ref_data_def can_txbuffer_set_data_def sample_msg_def)
  ultimately have "\<not> (\<forall>x \<in> set (can_tx_candidates sample_env 0 sample_tx). \<forall>d. fst x \<noteq> (E_OK, Some d))"
    by blast
  then show ?thesis
    using can_standard_selection [OF prod.collapse [symmetric], of sample_env 0 sample_tx] by presburger
qed

text \<open>
  the arbitration key.  Two standard data frames are ordered by their identifier.  But a standard
  data frame comes before every standard remote frame, whatever the identifiers, where the
  specification in the source compares the identifiers first; and of an extended identifier the
  bits 19 to 28, the most significant ones on the bus, are shifted out of the key.
\<close>
lemma can_arbitration_order:
  fixes c :: CanDataType
  defines "frame ide rtr i \<equiv> c\<lparr>d_ide := ide, d_rtr := rtr, d_id := i\<rparr>"
  shows "(can_get_check_id (frame False False i) < can_get_check_id (frame False False j)) =
      (i AND 0x7FF < j AND 0x7FF) \<and>
    can_get_check_id (frame False False i) < can_get_check_id (frame False True j) \<and>
    can_get_check_id (frame True rtr (i XOR push_bit 19 (j AND 0x3FF))) = can_get_check_id (frame True rtr i)"
proof (intro conjI)
  show "(can_get_check_id (frame False False i) < can_get_check_id (frame False False j)) =
      (i AND 0x7FF < j AND 0x7FF)"
    by (simp add: frame_def can_get_check_id_def)
  have m: "(0x7FF :: u32) = mask 11" by (simp add: mask_eq_exp_minus_1)
  have "i AND 0x7FF = i mod 2 ^ 11" unfolding m by (simp only: flip: take_bit_eq_mask take_bit_eq_mod)
  also have "\<dots> < 2 ^ 11" by (simp add: word_mod_less_divisor)
  also have "(2 :: u32) ^ 11 \<le> (j AND 0x7FF) OR 2 ^ 11"
    using le_word_or1 [of "2 ^ 11" "j AND 0x7FF"] by (simp add: or.commute)
  finally show "can_get_check_id (frame False False i) < can_get_check_id (frame False True j)"
    by (simp add: frame_def can_get_check_id_def or.commute)
  have n: "(0x1FFFF800 :: u32) = push_bit 11 (mask 18)" "(0x3FF :: u32) = mask 10"
    by (simp_all add: mask_eq_exp_minus_1)
  show "can_get_check_id (frame True rtr (i XOR push_bit 19 (j AND 0x3FF))) = can_get_check_id (frame True rtr i)"
    unfolding frame_def can_get_check_id_def Let_def m n
    by (rule bit_word_eqI) (auto simp: bit_simps)
qed

section \<open>Lost requests\<close>

lemma same_offset:
  fixes a b x y :: u32
  shows "(a + x - b = a + y - b) = (x = y)" "(a - b = a + y - b) = (y = 0)" "(a + x - b = a - b) = (x = 0)"
  by (simp_all add: algebra_simps)

lemma read_write32 [simp]: "can_register_read_data32 a (can_register_write_data32 a v S) = v"
  using join32 [of v]
  by (simp add: can_register_read_data32_def can_register_write_data32_def can_register_read_data8_def
      can_register_write_data8_def same_offset or.commute or.left_commute)

text \<open>
  a request to a channel is lost when the last request to any channel was the same.  The values
  last written to a channel control register are remembered in one variable for all channels, so a
  write of the value that another channel was just given starts no transition: after releasing one
  channel, releasing the next one does nothing.
\<close>
lemma can_channel_request_lost:
  assumes "i < 6" "j < 6"
  defines "ctr n \<equiv> can_reg (16 * of_nat n + 4)"
  shows "can_mode_global (can_put_data32 U (ctr j) v (can_put_data32 U (ctr i) v S)) =
    can_mode_global (can_put_data32 U (ctr i) v S)"
proof -
  have six: "n = 0 \<or> n = 1 \<or> n = 2 \<or> n = 3 \<or> n = 4 \<or> n = 5" if "n < (6 :: nat)" for n
    using that by arith
  have put: "can_put_data32 U (ctr n) w T = can_register_mapping_io_RSCANnCmCTR CanRegisterIo_Write (ctr n)
      (can_register_write_data32 (ctr n) w T) \<and> CAN_REG_GET_ALIGNED_ADDR (ctr n) = ctr n"
    if "n < 6" for n w and T :: "'a CanState"
    using six [OF that]
    by (elim disjE) (simp_all add: can_put_data32_def can_register_mapping_write_data_def search_map_def
        can_reigster_mapping_table_def map_row_def map_end_def can_register_mapping_io_CHANNEL_def
        CAN_REG_GET_ALIGNED_ADDR_def RSCANn_base_def ctr_def)
  have w: "can_mode_global (can_register_write_data32 a u T) = can_mode_global T"
    "old_cslpr (can_register_write_data32 a u T) = old_cslpr T"
    "old_chmdc (can_register_write_data32 a u T) = old_chmdc T" for a u and T :: "'a CanState"
    by (simp_all add: can_register_write_data32_def can_register_write_data8_def)
  have old: "old_cslpr (can_put_data32 U (ctr i) v S) = drop_bit 2 v AND 1"
      "old_chmdc (can_put_data32 U (ctr i) v S) = v AND 3"
    using put [OF assms(1), of v S]
    by (simp_all add: can_register_mapping_io_RSCANnCmCTR_def Let_def w)
  have "can_mode_global (can_put_data32 U (ctr j) v T) = can_mode_global T"
    if "old_cslpr T = drop_bit 2 v AND 1" "old_chmdc T = v AND 3" for T :: "'a CanState"
    using put [OF assms(2), of v T] that
    by (simp add: can_register_mapping_io_RSCANnCmCTR_def Let_def w)
  then show ?thesis using old by blast
qed

lemma can_channel_request_lost_witness:
  "can_mode_global (can_put_data32 sample_env (can_reg 20) 0 (can_put_data32 sample_env (can_reg 4) 0 sample_run))
   = can_mode_global (can_put_data32 sample_env (can_reg 4) 0 sample_run)"
  using can_channel_request_lost [of 0 1 sample_env 0 sample_run] by simp

end
