(* ===== verification/Per_Region.thy ===== *)
theory Per_Region
  imports Prelude
begin

text \<open>
  The part of a memory region the peripheral handlers see: its first address, its mask and the
  bytes of \<^verbatim>\<open>region->data\<close>.  An access is the pointer cast of the source, little endian and at
  any alignment; an access past the bytes of the region is undefined behaviour and the result
  is \<open>None\<close>.
\<close>

record MpuAddressRegionType =
  rg_start :: u32
  rg_mask :: u32
  rg_data :: "u8 list"

definition rg_off :: "MpuAddressRegionType \<Rightarrow> u32 \<Rightarrow> nat" where
  "rg_off r addr = unat (addr - rg_start r)"

definition rg_get8 :: "MpuAddressRegionType \<Rightarrow> u32 \<Rightarrow> u8 option" where
  "rg_get8 r addr = (let off = rg_off r addr in
     if off < length (rg_data r) then Some (rg_data r ! off) else None)"

definition rg_get16 :: "MpuAddressRegionType \<Rightarrow> u32 \<Rightarrow> u16 option" where
  "rg_get16 r addr = (let off = rg_off r addr in
     if off + 1 < length (rg_data r)
     then Some (word_rcat [rg_data r ! (off + 1), rg_data r ! off]) else None)"

definition rg_get32 :: "MpuAddressRegionType \<Rightarrow> u32 \<Rightarrow> u32 option" where
  "rg_get32 r addr = (let off = rg_off r addr in
     if off + 3 < length (rg_data r)
     then Some (word_rcat [rg_data r ! (off + 3), rg_data r ! (off + 2), rg_data r ! (off + 1), rg_data r ! off])
     else None)"

definition rg_put8 :: "MpuAddressRegionType \<Rightarrow> u32 \<Rightarrow> u8 \<Rightarrow> MpuAddressRegionType option" where
  "rg_put8 r addr v = (let off = rg_off r addr in
     if off < length (rg_data r) then Some (r\<lparr>rg_data := (rg_data r)[off := v]\<rparr>) else None)"

definition rg_put16 :: "MpuAddressRegionType \<Rightarrow> u32 \<Rightarrow> u16 \<Rightarrow> MpuAddressRegionType option" where
  "rg_put16 r addr v = (let off = rg_off r addr in
     if off + 1 < length (rg_data r)
     then Some (r\<lparr>rg_data := (rg_data r)[off := ucast v, off + 1 := ucast (drop_bit 8 v)]\<rparr>) else None)"

definition rg_put32 :: "MpuAddressRegionType \<Rightarrow> u32 \<Rightarrow> u32 \<Rightarrow> MpuAddressRegionType option" where
  "rg_put32 r addr v = (let off = rg_off r addr in
     if off + 3 < length (rg_data r)
     then Some (r\<lparr>rg_data := (rg_data r)[off := ucast v, off + 1 := ucast (drop_bit 8 v),
        off + 2 := ucast (drop_bit 16 v), off + 3 := ucast (drop_bit 24 v)]\<rparr>) else None)"

lemma rg_off_eq_iff [simp]: "rg_off r a = rg_off r b \<longleftrightarrow> a = b"
  unfolding rg_off_def by (simp only: word_unat_eq_iff [symmetric]) simp

lemma rg_off_data [simp]: "rg_off (r\<lparr>rg_data := d\<rparr>) a = rg_off r a"
  by (cases r) (simp only: rg_off_def MpuAddressRegionType.simps)

lemma rg_put8_some: "rg_put8 r a v = Some r' \<longleftrightarrow>
   rg_off r a < length (rg_data r) \<and> r' = r\<lparr>rg_data := (rg_data r)[rg_off r a := v]\<rparr>"
  by (auto simp: rg_put8_def Let_def)

lemma rg_put_get8: "rg_put8 r a v = Some r' \<Longrightarrow> rg_get8 r' a = Some v"
  by (simp add: rg_put8_some rg_get8_def)

lemma rg_put_get8_other: "rg_put8 r a v = Some r' \<Longrightarrow> b \<noteq> a \<Longrightarrow> rg_get8 r' b = rg_get8 r b"
  by (auto simp: rg_put8_some rg_get8_def Let_def nth_list_update)

end
