(* ===== verification/Per_Timer.thy ===== *)
theory Per_Timer
  imports Per_Region Device_Clock
begin

text \<open>
  The TAUJ timers of timer.c: the table of two units with two channels each, the clock tick, the
  interval a halted processor may skip, and the register handlers.  The build defines
  \<^verbatim>\<open>CPUEMU_CLOCK_BUG_FIX\<close>, so the second version of each conditional part is the code.  A division
  by a clock divider of zero is undefined behaviour: the tick is \<open>None\<close>.  The tick returns the
  interrupt numbers it raises, in order: the device reads nothing back from
  \<^verbatim>\<open>device_raise_int\<close>.
\<close>

datatype TimerStateType = TIMER_STATE_STOP | TIMER_STATE_READY | TIMER_STATE_RUNNING

datatype TimerModeType = TIMER_MODE_FREERUN | TIMER_MODE_INTERVAL

record TimerDeviceType =
  tm_cnt :: u32
  tm_reg_cnt :: u32
  tm_state :: TimerStateType
  tm_mode :: TimerModeType
  tm_compare0 :: u32
  tm_compare0_intno :: u32
  tm_start_clock :: u64
  tm_fd :: u32

type_synonym timer_table = "nat \<Rightarrow> nat \<Rightarrow> TimerDeviceType"

definition TAUJ_UNIT_NUM :: nat where "TAUJ_UNIT_NUM = 2"
definition TAUJ_CH_NUM :: nat where "TAUJ_CH_NUM = 2"

definition TAUJ_INTNO :: "nat \<Rightarrow> nat \<Rightarrow> u32" where
  "TAUJ_INTNO n ch = (if n = 0 then 80 + of_nat ch else 168 + of_nat ch)"

definition TAUJ_BASE :: "nat \<Rightarrow> u32" where "TAUJ_BASE n = 0xffe50000 + of_nat n * 0x1000"
definition TAUJCDR :: "nat \<Rightarrow> nat \<Rightarrow> u32" where "TAUJCDR n ch = TAUJ_BASE n + of_nat ch * 4"
definition TAUJCNT :: "nat \<Rightarrow> nat \<Rightarrow> u32" where "TAUJCNT n ch = TAUJ_BASE n + 0x10 + of_nat ch * 4"
definition TAUJTS :: "nat \<Rightarrow> u32" where "TAUJTS n = TAUJ_BASE n + 0x54"
definition TAUJTT :: "nat \<Rightarrow> u32" where "TAUJTT n = TAUJ_BASE n + 0x58"

text \<open>The divider comes from the device configuration, 50000 when it names none.\<close>

definition device_init_timer :: "u32 option \<Rightarrow> timer_table \<Rightarrow> timer_table" where
  "device_init_timer cfg T n ch =
     (if n < TAUJ_UNIT_NUM \<and> ch < TAUJ_CH_NUM
      then \<lparr>tm_cnt = 0, tm_reg_cnt = 0xFFFFFFFF, tm_state = TIMER_STATE_STOP, tm_mode = TIMER_MODE_INTERVAL,
            tm_compare0 = 0, tm_compare0_intno = TAUJ_INTNO n ch, tm_start_clock = 0,
            tm_fd = (case cfg of Some v \<Rightarrow> v | None \<Rightarrow> 50000)\<rparr>
      else T n ch)"

definition timer_start :: "u64 \<Rightarrow> TimerDeviceType \<Rightarrow> TimerDeviceType" where
  "timer_start clk t =
     (if tm_state t = TIMER_STATE_READY
      then (let t = t\<lparr>tm_state := TIMER_STATE_RUNNING\<rparr>
            in if tm_start_clock t = 0 \<or> tm_mode t = TIMER_MODE_INTERVAL then t\<lparr>tm_start_clock := clk\<rparr> else t)
      else t)"

definition device_timer_do_update :: "u64 \<Rightarrow> TimerDeviceType \<Rightarrow> u16 list \<times> TimerDeviceType" where
  "device_timer_do_update clk t =
     (let t = timer_start clk t;
          t = t\<lparr>tm_cnt := ucast ((clk - tm_start_clock t) div ucast (tm_fd t))\<rparr>
      in if tm_state t = TIMER_STATE_RUNNING \<and> tm_mode t = TIMER_MODE_INTERVAL
         then (let t = t\<lparr>tm_reg_cnt := tm_compare0 t - tm_cnt t\<rparr>
               in if tm_compare0 t \<le> tm_cnt t
                  then ([ucast (tm_compare0_intno t)], t\<lparr>tm_state := TIMER_STATE_READY\<rparr>)
                  else ([], t))
         else ([], t))"

definition device_timer_do_calc_min_interval ::
  "TimerDeviceType \<Rightarrow> DeviceClockType \<Rightarrow> DeviceClockType" where
  "device_timer_do_calc_min_interval t d =
     (let cnt_1 = dc_clock d - tm_start_clock t;
          compare_value = ucast (tm_compare0 t) * ucast (tm_fd t);
          interval = (if cnt_1 \<le> compare_value then compare_value - cnt_1 else 1)
      in if interval < dc_min_intr_interval d
         then d\<lparr>dc_min_intr_interval := if interval = 0 then 1 else interval\<rparr>
         else d)"

definition INLINE_device_supply_clock_timer ::
  "DeviceClockType \<Rightarrow> TimerDeviceType \<Rightarrow> (u16 list \<times> TimerDeviceType \<times> DeviceClockType) option" where
  "INLINE_device_supply_clock_timer d t =
     (if tm_fd t = 0 then None
      else (let (is, t) = (if dc_clock d mod ucast (tm_fd t) = 0
                           then device_timer_do_update (dc_clock d) t else ([], t));
                d = (if dc_is_halt d \<and> tm_state t \<noteq> TIMER_STATE_STOP
                     then device_timer_do_calc_min_interval t d else d)
            in Some (is, t, d)))"

definition upd_timer :: "nat \<Rightarrow> nat \<Rightarrow> TimerDeviceType \<Rightarrow> timer_table \<Rightarrow> timer_table" where
  "upd_timer n ch t T = T(n := (T n)(ch := t))"

definition device_supply_clock_timer ::
  "DeviceClockType \<Rightarrow> timer_table \<Rightarrow> (u16 list \<times> timer_table \<times> DeviceClockType) option" where
  "device_supply_clock_timer d T =
     (case INLINE_device_supply_clock_timer d (T 0 0) of None \<Rightarrow> None
      | Some (is, t, d) \<Rightarrow>
         (let T = upd_timer 0 0 t T
          in case INLINE_device_supply_clock_timer d (T 0 1) of None \<Rightarrow> None
             | Some (js, t, d) \<Rightarrow> Some (is @ js, upd_timer 0 1 t T, d)))"

section \<open>Registers\<close>

text \<open>The units and channels in the order the loops of the handlers visit them.\<close>

definition timer_channels :: "(nat \<times> nat) list" where
  "timer_channels = List.product [0..<TAUJ_UNIT_NUM] [0..<TAUJ_CH_NUM]"

definition timer_get_data8 :: "MpuAddressRegionType \<Rightarrow> u32 \<Rightarrow> u8 option" where
  "timer_get_data8 r addr = rg_get8 r addr"

definition timer_get_data16 :: "MpuAddressRegionType \<Rightarrow> u32 \<Rightarrow> u16 option" where
  "timer_get_data16 r addr = rg_get16 r addr"

definition timer_get_data32 :: "MpuAddressRegionType \<Rightarrow> u32 \<Rightarrow> timer_table \<Rightarrow> u32 option" where
  "timer_get_data32 r addr T =
     (case rg_get32 r addr of None \<Rightarrow> None
      | Some v \<Rightarrow>
         (case List.find (\<lambda>(n, ch). addr = TAUJCNT n ch AND rg_mask r) timer_channels of
            Some (n, ch) \<Rightarrow> Some (tm_reg_cnt (T n ch))
          | None \<Rightarrow> Some v))"

text \<open>The first channel whose bit is set in the byte written to the start or the stop register.\<close>

definition first_channel :: "u8 \<Rightarrow> nat option" where
  "first_channel v = List.find (\<lambda>ch. (ucast v :: u32) AND push_bit ch 1 \<noteq> 0) [0..<TAUJ_CH_NUM]"

definition set_timer_state :: "TimerStateType \<Rightarrow> nat \<Rightarrow> nat \<Rightarrow> timer_table \<Rightarrow> timer_table" where
  "set_timer_state st n ch T = upd_timer n ch ((T n ch)\<lparr>tm_state := st\<rparr>) T"

primrec timer_units8 :: "u32 \<Rightarrow> u32 \<Rightarrow> u8 \<Rightarrow> nat list \<Rightarrow> timer_table \<Rightarrow> timer_table" where
  "timer_units8 msk addr v [] T = T"
| "timer_units8 msk addr v (n # ns) T =
     (if addr = TAUJTS n AND msk
      then (case first_channel v of
              Some ch \<Rightarrow> set_timer_state TIMER_STATE_READY n ch T
            | None \<Rightarrow> timer_units8 msk addr v ns T)
      else if addr = TAUJTT n AND msk
      then (case first_channel v of
              Some ch \<Rightarrow> set_timer_state TIMER_STATE_STOP n ch T
            | None \<Rightarrow> timer_units8 msk addr v ns T)
      else timer_units8 msk addr v ns T)"

definition timer_put_data8 ::
  "MpuAddressRegionType \<Rightarrow> u32 \<Rightarrow> u8 \<Rightarrow> timer_table \<Rightarrow> (MpuAddressRegionType \<times> timer_table) option" where
  "timer_put_data8 r addr v T =
     (case rg_put8 r addr v of None \<Rightarrow> None
      | Some r \<Rightarrow> Some (r, timer_units8 (rg_mask r) addr v [0..<TAUJ_UNIT_NUM] T))"

definition timer_put_data16 ::
  "MpuAddressRegionType \<Rightarrow> u32 \<Rightarrow> u16 \<Rightarrow> timer_table \<Rightarrow> (MpuAddressRegionType \<times> timer_table) option" where
  "timer_put_data16 r addr v T = (case rg_put16 r addr v of None \<Rightarrow> None | Some r \<Rightarrow> Some (r, T))"

definition timer_put_data32 ::
  "MpuAddressRegionType \<Rightarrow> u32 \<Rightarrow> u32 \<Rightarrow> timer_table \<Rightarrow> (MpuAddressRegionType \<times> timer_table) option" where
  "timer_put_data32 r addr v T =
     (case rg_put32 r addr v of None \<Rightarrow> None
      | Some r \<Rightarrow>
         (case List.find (\<lambda>(n, ch). addr = TAUJCDR n ch AND rg_mask r) timer_channels of
            Some (n, ch) \<Rightarrow>
              (let t = (T n ch)\<lparr>tm_compare0 := v\<rparr>;
                   t = (if tm_state t = TIMER_STATE_RUNNING then t\<lparr>tm_state := TIMER_STATE_READY\<rparr> else t)
               in Some (r, upd_timer n ch t T))
          | None \<Rightarrow> Some (r, T)))"

text \<open>\<^verbatim>\<open>get_pointer\<close> hands out the address of a byte of the region: its offset.\<close>

definition timer_get_pointer :: "MpuAddressRegionType \<Rightarrow> u32 \<Rightarrow> nat" where
  "timer_get_pointer r addr = rg_off r addr"

end
