(* ===== verification/Per_Serial.thy ===== *)
theory Per_Serial
  imports Per_Region
begin

text \<open>
  The RLIN3 serial channels of serial.c.  The operations registered for a channel
  (\<^verbatim>\<open>DeviceExSerialOpType\<close>) are a record of functions over the state \<open>'h\<close> of the host; the
  state threads the channels, the region behind the registers, the two configured times and the
  host.  A call through a null table of operations, an access past the table of channels and an
  access past the region are undefined behaviour: the result is \<open>None\<close>.  The tick returns the
  interrupt numbers it raises, in order.  The pointer to the clock kept in a channel is never
  read and is left out.
\<close>

record 'h DeviceExSerialOpType =
  op_getchar :: "u8 \<Rightarrow> 'h \<Rightarrow> u8 option \<times> 'h"
  op_putchar :: "u8 \<Rightarrow> u8 \<Rightarrow> 'h \<Rightarrow> 'h"
  op_flush :: "(u8 \<Rightarrow> 'h \<Rightarrow> 'h) option"

record 'h SerialDeviceType =
  sd_received_counter :: u32
  sd_id :: u16
  sd_rx_intno :: u16
  sd_tx_intno :: u16
  sd_send_counter :: u32
  sd_is_send_data :: bool
  sd_send_data :: u8
  sd_ops :: "'h DeviceExSerialOpType option"
  sd_start_clock :: u64
  sd_is_send_enable :: bool
  sd_is_read_enable :: bool
  sd_is_reset_mode :: bool
  sd_is_send_start_intr :: bool
  sd_is_sending :: bool
  sd_is_receiving :: bool

record 'h SerialState =
  SerialDevice :: "nat \<Rightarrow> 'h SerialDeviceType"
  serial_region :: MpuAddressRegionType
  serial_send_time :: u32
  serial_receiv_time :: u32
  serial_host :: 'h

definition UDnChannelNum :: nat where "UDnChannelNum = 4"

definition RLIN_GET_CHANNEL :: "u32 \<Rightarrow> u8" where
  "RLIN_GET_CHANNEL addr = ucast ((addr - 0xffce2000) div 0x40)"

definition RLIN3x :: "u32 \<Rightarrow> u8 \<Rightarrow> u32" where
  "RLIN3x reg ch = 0xffce2000 + 0x40 * ucast ch + reg"

definition RLIN3xLUTDRL :: "u8 \<Rightarrow> u32" where "RLIN3xLUTDRL = RLIN3x 0x24"
definition RLIN3xLST :: "u8 \<Rightarrow> u32" where "RLIN3xLST = RLIN3x 0x12"
definition RLIN3xLUOER :: "u8 \<Rightarrow> u32" where "RLIN3xLUOER = RLIN3x 0x20"
definition RLIN3x_LUOR1 :: "u8 \<Rightarrow> u32" where "RLIN3x_LUOR1 = RLIN3x 0x21"
definition RLIN3xLURDRL :: "u8 \<Rightarrow> u32" where "RLIN3xLURDRL = RLIN3x 0x26"
definition RLIN3xLMST :: "u8 \<Rightarrow> u32" where "RLIN3xLMST = RLIN3x 0x11"
definition RLIN3xLCUC :: "u8 \<Rightarrow> u32" where "RLIN3xLCUC = RLIN3x 0x0e"

text \<open>For any other number the variable the switch leaves unset is returned: \<open>None\<close>.\<close>

definition serial_rlin3x_get_rx_intno :: "u8 \<Rightarrow> u16 option" where
  "serial_rlin3x_get_rx_intno ch =
     (if ch = 0 then Some 35 else if ch = 1 then Some 122 else if ch = 2 then Some 166
      else if ch = 3 then Some 230 else if ch = 4 then Some 226 else None)"

definition serial_rlin3x_get_tx_intno :: "u8 \<Rightarrow> u16 option" where
  "serial_rlin3x_get_tx_intno ch =
     (if ch = 0 then Some 34 else if ch = 1 then Some 121 else if ch = 2 then Some 165
      else if ch = 3 then Some 229 else if ch = 4 then Some 225 else None)"

definition upd_serial ::
  "nat \<Rightarrow> ('h SerialDeviceType \<Rightarrow> 'h SerialDeviceType) \<Rightarrow> 'h SerialState \<Rightarrow> 'h SerialState" where
  "upd_serial ch f S = S\<lparr>SerialDevice := (SerialDevice S)(ch := f (SerialDevice S ch))\<rparr>"

definition device_init_serial ::
  "u32 option \<Rightarrow> u32 option \<Rightarrow> MpuAddressRegionType \<Rightarrow> 'h SerialState \<Rightarrow> 'h SerialState" where
  "device_init_serial cfg_send cfg_recv region S =
     (let S = S\<lparr>serial_send_time := case_option (serial_send_time S) id cfg_send,
                serial_receiv_time := case_option (serial_receiv_time S) id cfg_recv\<rparr>;
          S = fold (\<lambda>ch. upd_serial ch (\<lambda>d. d\<lparr>sd_id := of_nat ch,
                sd_rx_intno := the (serial_rlin3x_get_rx_intno (of_nat ch)),
                sd_tx_intno := the (serial_rlin3x_get_tx_intno (of_nat ch)),
                sd_is_send_data := False, sd_start_clock := 0, sd_ops := None,
                sd_send_counter := 0, sd_received_counter := 0, sd_is_send_enable := False,
                sd_is_read_enable := False, sd_is_reset_mode := True,
                sd_is_send_start_intr := True, sd_is_sending := False,
                sd_is_receiving := False\<rparr>)) [0..<UDnChannelNum] S
      in S\<lparr>serial_region := region\<rparr>)"

definition device_ex_serial_register_ops ::
  "u8 \<Rightarrow> 'h DeviceExSerialOpType \<Rightarrow> 'h SerialState \<Rightarrow> 'h SerialState option" where
  "device_ex_serial_register_ops ch ops S =
     (if unat ch < UDnChannelNum then Some (upd_serial (unat ch) (\<lambda>d. d\<lparr>sd_ops := Some ops\<rparr>) S) else None)"

section \<open>Registers\<close>

definition put_region8 :: "u32 \<Rightarrow> u8 \<Rightarrow> 'h SerialState \<Rightarrow> 'h SerialState option" where
  "put_region8 addr v S =
     map_option (\<lambda>r. S\<lparr>serial_region := r\<rparr>) (rg_put8 (serial_region S) addr v)"

definition serial_change_mode_reset :: "u8 \<Rightarrow> 'h SerialState \<Rightarrow> 'h SerialState option" where
  "serial_change_mode_reset ch S =
     (case put_region8 (RLIN3xLST ch) 0 S of None \<Rightarrow> None
      | Some S \<Rightarrow>
         (case put_region8 (RLIN3xLUOER ch) 0
                 (upd_serial (unat ch) (\<lambda>d. d\<lparr>sd_is_sending := False, sd_is_receiving := False\<rparr>) S) of
            None \<Rightarrow> None
          | Some S \<Rightarrow> Some (upd_serial (unat ch) (\<lambda>d. d\<lparr>sd_is_read_enable := False,
              sd_is_send_enable := False, sd_received_counter := 0, sd_send_counter := 0\<rparr>) S)))"

text \<open>
  The macros that read the two status bits expand to an unparenthesised conditional, so the
  shift applies to the zero of its last branch: \<^verbatim>\<open>(is_receiving)? (1) : (0) << 5\<close>.
\<close>

definition RLIN3x_LST :: "bool \<Rightarrow> bool \<Rightarrow> u8" where
  "RLIN3x_LST receiving sending =
     (if receiving then 1 else push_bit 5 0) OR (if sending then 1 else push_bit 4 0)"

definition serial_get_data8 :: "u32 \<Rightarrow> 'h SerialState \<Rightarrow> u8 option" where
  "serial_get_data8 addr S =
     (let ch = RLIN_GET_CHANNEL addr in
      if addr = RLIN3xLST ch
      then (if unat ch < UDnChannelNum
            then Some (RLIN3x_LST (sd_is_receiving (SerialDevice S (unat ch))) (sd_is_sending (SerialDevice S (unat ch))))
            else None)
      else rg_get8 (serial_region S) addr)"

definition serial_get_data16 :: "u32 \<Rightarrow> 'h SerialState \<Rightarrow> u16 option" where
  "serial_get_data16 addr S = rg_get16 (serial_region S) addr"

definition serial_get_data32 :: "u32 \<Rightarrow> 'h SerialState \<Rightarrow> u32 option" where
  "serial_get_data32 addr S = rg_get32 (serial_region S) addr"

definition serial_putchar :: "nat \<Rightarrow> 'h SerialState \<Rightarrow> 'h SerialState option" where
  "serial_putchar ch S =
     (let d = SerialDevice S ch in
      case sd_ops d of None \<Rightarrow> None
      | Some ops \<Rightarrow> Some (S\<lparr>serial_host := op_putchar ops (ucast (sd_id d)) (sd_send_data d) (serial_host S)\<rparr>))"

definition serial_put_data8 :: "u32 \<Rightarrow> u8 \<Rightarrow> 'h SerialState \<Rightarrow> 'h SerialState option" where
  "serial_put_data8 addr v S =
     (case put_region8 addr v S of None \<Rightarrow> None
      | Some S \<Rightarrow>
         (let ch = RLIN_GET_CHANNEL addr; i = unat ch in
          if addr = RLIN3xLUTDRL ch
          then (if i < UDnChannelNum
                then serial_putchar i (upd_serial i (\<lambda>d. d\<lparr>sd_send_data := v, sd_is_send_data := True\<rparr>) S)
                else None)
          else if addr = RLIN3xLCUC ch
          then (case put_region8 (RLIN3xLMST ch) v S of None \<Rightarrow> None
                | Some S \<Rightarrow>
                    if i < UDnChannelNum
                    then (let S = upd_serial i (\<lambda>d. d\<lparr>sd_is_reset_mode := (v = 0)\<rparr>) S in
                          if v = 0 then serial_change_mode_reset ch S else Some S)
                    else None)
          else if addr = RLIN3xLUOER ch
          then (if i < UDnChannelNum
                then Some (if sd_is_reset_mode (SerialDevice S i) then S
                           else upd_serial i (\<lambda>d. d\<lparr>sd_is_read_enable := bit v 1,
                                                     sd_is_send_enable := bit v 0\<rparr>) S)
                else None)
          else if addr = RLIN3x_LUOR1 ch
          then (if i < UDnChannelNum
                then Some (upd_serial i (\<lambda>d. d\<lparr>sd_is_send_start_intr := \<not> bit v 0\<rparr>) S)
                else None)
          else Some S))"

definition serial_put_data16 :: "u32 \<Rightarrow> u16 \<Rightarrow> 'h SerialState \<Rightarrow> 'h SerialState option" where
  "serial_put_data16 addr v S =
     (case rg_put16 (serial_region S) addr v of None \<Rightarrow> None
      | Some r \<Rightarrow>
         (let S = S\<lparr>serial_region := r\<rparr>; ch = RLIN_GET_CHANNEL addr in
          if addr = RLIN3xLUTDRL ch
          then (if unat ch < UDnChannelNum
                then Some (upd_serial (unat ch) (\<lambda>d. d\<lparr>sd_send_data := ucast v, sd_is_send_data := True\<rparr>) S)
                else None)
          else Some S))"

definition serial_put_data32 :: "u32 \<Rightarrow> u32 \<Rightarrow> 'h SerialState \<Rightarrow> 'h SerialState option" where
  "serial_put_data32 addr v S =
     map_option (\<lambda>r. S\<lparr>serial_region := r\<rparr>) (rg_put32 (serial_region S) addr v)"

definition serial_get_pointer :: "u32 \<Rightarrow> 'h SerialState \<Rightarrow> nat" where
  "serial_get_pointer addr S = rg_off (serial_region S) addr"

section \<open>The clock tick\<close>

definition serial_receive :: "nat \<Rightarrow> 'h SerialState \<Rightarrow> (u16 list \<times> 'h SerialState) option" where
  "serial_receive i S =
     (let d = SerialDevice S i in
      case sd_ops d of None \<Rightarrow> Some ([], S)
      | Some ops \<Rightarrow>
         if \<not> sd_is_read_enable d then Some ([], S)
         else if \<not> sd_is_receiving d
         then (case op_getchar ops (ucast (sd_id d)) (serial_host S) of
                 (None, h) \<Rightarrow> Some ([], S\<lparr>serial_host := h\<rparr>)
               | (Some v, h) \<Rightarrow>
                   (let S = upd_serial i (\<lambda>d. d\<lparr>sd_is_receiving := True\<rparr>) (S\<lparr>serial_host := h\<rparr>) in
                    case serial_put_data8 ((0xffce2000 + 0x40 * ucast (sd_id d) + 0x26)
                           AND rg_mask (serial_region S)) v S of
                      None \<Rightarrow> None
                    | Some S \<Rightarrow>
                        Some ([], upd_serial i (\<lambda>d. d\<lparr>sd_received_counter := serial_receiv_time S\<rparr>) S)))
         else if 0 < sd_received_counter d
         then Some ([], upd_serial i (\<lambda>d. d\<lparr>sd_received_counter := sd_received_counter d - 1\<rparr>) S)
         else Some ([sd_rx_intno d], upd_serial i (\<lambda>d. d\<lparr>sd_is_receiving := False\<rparr>) S))"

definition serial_flush :: "nat \<Rightarrow> 'h SerialState \<Rightarrow> 'h SerialState option" where
  "serial_flush i S =
     (let d = SerialDevice S i in
      case sd_ops d of None \<Rightarrow> None
      | Some ops \<Rightarrow>
         (case op_flush ops of None \<Rightarrow> Some S
          | Some f \<Rightarrow> Some (S\<lparr>serial_host := f (ucast (sd_id d)) (serial_host S)\<rparr>)))"

definition serial_send :: "nat \<Rightarrow> 'h SerialState \<Rightarrow> (u16 list \<times> 'h SerialState) option" where
  "serial_send i S =
     (if \<not> sd_is_send_enable (SerialDevice S i) then Some ([], S)
      else (let S = (if sd_is_send_data (SerialDevice S i)
                     then upd_serial i (\<lambda>d. d\<lparr>sd_is_sending := True\<rparr>) S else S);
                d = SerialDevice S i
            in if \<not> sd_is_sending d then Some ([], S)
               else if sd_send_counter d = 0
               then (case serial_flush i S of None \<Rightarrow> None
                     | Some S \<Rightarrow>
                         Some (if sd_is_send_start_intr d then [sd_tx_intno d] else [],
                           upd_serial i (\<lambda>d. d\<lparr>sd_is_send_data := False,
                             sd_send_counter := sd_send_counter d + 1\<rparr>) S))
               else if serial_send_time S \<le> sd_send_counter d
               then Some (if sd_is_send_start_intr d then [] else [sd_tx_intno d],
                      upd_serial i (\<lambda>d. d\<lparr>sd_is_sending := (sd_is_send_start_intr d \<and> sd_is_send_data d),
                        sd_send_counter := 0\<rparr>) S)
               else Some ([], upd_serial i (\<lambda>d. d\<lparr>sd_send_counter := sd_send_counter d + 1\<rparr>) S)))"

definition device_do_serial :: "nat \<Rightarrow> 'h SerialState \<Rightarrow> (u16 list \<times> 'h SerialState) option" where
  "device_do_serial i S =
     (case serial_receive i S of None \<Rightarrow> None
      | Some (is, S) \<Rightarrow>
         (case serial_send i S of None \<Rightarrow> None
          | Some (js, S) \<Rightarrow> Some (is @ js, S)))"

definition device_supply_clock_serial :: "'h SerialState \<Rightarrow> (u16 list \<times> 'h SerialState) option" where
  "device_supply_clock_serial S = device_do_serial 1 S"

end
