(* ===== verification/Per_Board.thy ===== *)
theory Per_Board
  imports Per_Region
begin

text \<open>
  The clock generator registers of clock.c and the switches of digital.c.  The clock generator
  copies a source selection to the register that shows the active one and mirrors the main
  oscillator's start and stop in its status; the switches raise an interrupt on a rising edge
  of the port the debugger writes.
\<close>

section \<open>Clock generator\<close>

definition MOSCE :: u32 where "MOSCE = 0xFFF81100"
definition MOSCS :: u32 where "MOSCS = 0xFFF81104"

definition MOSCE_ISSTOP :: "u32 \<Rightarrow> bool" where "MOSCE_ISSTOP v = (v AND 0x02 = 0x02)"
definition MOSCE_ISSTART :: "u32 \<Rightarrow> bool" where "MOSCE_ISSTART v = (v AND 0x01 = 0x01)"

definition rg_modify32 :: "u32 \<Rightarrow> (u32 \<Rightarrow> u32) \<Rightarrow> MpuAddressRegionType \<Rightarrow> MpuAddressRegionType option" where
  "rg_modify32 addr f r =
     (case rg_get32 r addr of None \<Rightarrow> None | Some v \<Rightarrow> rg_put32 r addr (f v))"

definition clock_hook_update_mosce :: "u32 \<Rightarrow> MpuAddressRegionType \<Rightarrow> MpuAddressRegionType option" where
  "clock_hook_update_mosce v r =
     (case (if MOSCE_ISSTOP v then rg_modify32 MOSCS (\<lambda>x. x AND NOT (push_bit 2 1)) r else Some r) of
        None \<Rightarrow> None
      | Some r \<Rightarrow> if MOSCE_ISSTART v then rg_modify32 MOSCS (\<lambda>x. x OR push_bit 2 1) r else Some r)"

text \<open>The selection registers with the register that shows the active selection.\<close>

definition CKSC_pairs :: "(u32 \<times> u32) list" where
  "CKSC_pairs =
    [(0xFFF8A010, 0xFFF8A018), (0xFFF8A000, 0xFFF8A008), (0xFFF8A100, 0xFFF8A108),
     (0xFFF82100, 0xFFF82108), (0xFFF82200, 0xFFF82208), (0xFFF8A400, 0xFFF8A408),
     (0xFFF8A800, 0xFFF8A808)]"

definition clock_get_data8 :: "MpuAddressRegionType \<Rightarrow> u32 \<Rightarrow> u8 option" where
  "clock_get_data8 r addr = rg_get8 r addr"

definition clock_get_data16 :: "MpuAddressRegionType \<Rightarrow> u32 \<Rightarrow> u16 option" where
  "clock_get_data16 r addr = rg_get16 r addr"

definition clock_get_data32 :: "MpuAddressRegionType \<Rightarrow> u32 \<Rightarrow> u32 option" where
  "clock_get_data32 r addr = rg_get32 r addr"

definition clock_put_data8 :: "MpuAddressRegionType \<Rightarrow> u32 \<Rightarrow> u8 \<Rightarrow> MpuAddressRegionType option" where
  "clock_put_data8 r addr v = rg_put8 r addr v"

definition clock_put_data16 :: "MpuAddressRegionType \<Rightarrow> u32 \<Rightarrow> u16 \<Rightarrow> MpuAddressRegionType option" where
  "clock_put_data16 r addr v = rg_put16 r addr v"

definition clock_put_data32 :: "MpuAddressRegionType \<Rightarrow> u32 \<Rightarrow> u32 \<Rightarrow> MpuAddressRegionType option" where
  "clock_put_data32 r addr v =
     (case rg_put32 r addr v of None \<Rightarrow> None
      | Some r \<Rightarrow>
          if addr = MOSCE then clock_hook_update_mosce v r
          else (case map_of CKSC_pairs addr of
                  Some act \<Rightarrow> rg_put8 r act (ucast v)
                | None \<Rightarrow> Some r))"

definition clock_get_pointer :: "MpuAddressRegionType \<Rightarrow> u32 \<Rightarrow> nat" where
  "clock_get_pointer r addr = rg_off r addr"

section \<open>Switches\<close>

definition DIGITAL_REGADD_DSW :: u32 where "DIGITAL_REGADD_DSW = 0xFFC10200"
definition DIGITAL_REGADD_PSW :: u32 where "DIGITAL_REGADD_PSW = 0xFFC10220"
definition DIGITAL_PSW1_INTNO :: u16 where "DIGITAL_PSW1_INTNO = 35"
definition DIGITAL_PSW2_INTNO :: u16 where "DIGITAL_PSW2_INTNO = 36"

definition DIGITAL_IS_BITSET :: "u8 \<Rightarrow> nat \<Rightarrow> bool" where
  "DIGITAL_IS_BITSET data bitoff = ((ucast data :: u32) AND push_bit bitoff 1 \<noteq> 0)"

text \<open>\<open>put\<close> is the write of a byte through the processor's bus, its status ignored.\<close>

definition device_init_digital :: "(u32 \<Rightarrow> u8 \<Rightarrow> 'b \<Rightarrow> 'b) \<Rightarrow> 'b \<Rightarrow> u8 \<times> 'b" where
  "device_init_digital put b =
     (let b = put DIGITAL_REGADD_DSW 0xff b;
          b = put (DIGITAL_REGADD_DSW + 1) 0xff b;
          b = put (DIGITAL_REGADD_DSW + 2) 0xff b;
          b = put (DIGITAL_REGADD_DSW + 2) 0xff b;
          b = put DIGITAL_REGADD_PSW 0x3 b
      in (0xff, b))"

text \<open>
  \<open>psw\<close> is the byte of the port as \<^verbatim>\<open>mpu_get_pointer\<close> finds it, \<open>None\<close> where it refuses.  The
  result is the interrupt raised and the value remembered for the next tick.
\<close>

definition device_supply_clock_digital :: "u8 option \<Rightarrow> u8 \<Rightarrow> u16 list \<times> u8" where
  "device_supply_clock_digital psw prev =
     (case psw of None \<Rightarrow> ([], prev)
      | Some data \<Rightarrow>
         (if \<not> DIGITAL_IS_BITSET prev 0 \<and> DIGITAL_IS_BITSET data 0 then [DIGITAL_PSW1_INTNO]
          else if \<not> DIGITAL_IS_BITSET prev 1 \<and> DIGITAL_IS_BITSET data 1 then [DIGITAL_PSW2_INTNO]
          else [], data))"

lemma digital_both_edges:
  "device_supply_clock_digital (Some 3) 0 = ([35], 3) \<and> device_supply_clock_digital (Some 3) 3 = ([], 3)"
  by (simp add: device_supply_clock_digital_def DIGITAL_IS_BITSET_def DIGITAL_PSW1_INTNO_def)

end
