(* ===== verification/Device.thy ===== *)
theory Device
  imports Per_Timer Per_Serial Per_Board Intc Can_Core
begin

text \<open>
  The device scheduler of device.c: one tick of the machine supplies the clock to the switches, the
  timers, the serial channels, the CAN controller where it is enabled and, last, the interrupt
  controller.  A device hands its interrupt numbers to the controller in the order it raises them;
  no device reads the controller back, so handing them over when the device is done is the code's
  order.  \<^verbatim>\<open>DEVICE_CLOCK_MAX_INTERVAL\<close> belongs to the emulator core: \<open>max_interval\<close>.  The optional
  serial FIFO and the external device of the core are not part of the build modelled here.
\<close>

record ('h, 'u, 'x, 'b, 'm) DeviceState =
  dv_digital :: u8
  dv_timer :: timer_table
  dv_serial :: "'h SerialState"
  dv_can :: "'u CanState"
  dv_bus :: 'x
  dv_intc :: "('b, 'm) IntcState"

record ('u, 'x, 'm) DeviceEnv =
  ev_mem :: "'m mem_ops"
  ev_lists :: list_ops
  ev_cores :: nat
  ev_can :: "'u can_env"
  ev_bus :: "'x CanBusOperationType"
  ev_can_fd :: u32
  enable_mros_can :: u32
  max_interval :: u64

definition raise_ints :: "('u, 'x, 'm) DeviceEnv \<Rightarrow> u16 list \<Rightarrow> ('b, 'm) IntcState \<Rightarrow> ('b, 'm) IntcState" where
  "raise_ints E is s = fold (device_raise_int (ev_mem E) (ev_lists E) (ev_cores E)) is s"

definition tick_timer :: "('u, 'x, 'm) DeviceEnv \<Rightarrow> DeviceClockType \<times> ('h, 'u, 'x, 'b, 'm) DeviceState \<Rightarrow>
    (DeviceClockType \<times> ('h, 'u, 'x, 'b, 'm) DeviceState) option" where
  "tick_timer E = (\<lambda>(d, D).
     (case device_supply_clock_timer d (dv_timer D) of None \<Rightarrow> None
      | Some (is, T, d) \<Rightarrow> Some (d, D\<lparr>dv_timer := T, dv_intc := raise_ints E is (dv_intc D)\<rparr>)))"

definition tick_serial :: "('u, 'x, 'm) DeviceEnv \<Rightarrow> DeviceClockType \<times> ('h, 'u, 'x, 'b, 'm) DeviceState \<Rightarrow>
    (DeviceClockType \<times> ('h, 'u, 'x, 'b, 'm) DeviceState) option" where
  "tick_serial E = (\<lambda>(d, D).
     (case device_supply_clock_serial (dv_serial D) of None \<Rightarrow> None
      | Some (is, S) \<Rightarrow> Some (d, D\<lparr>dv_serial := S, dv_intc := raise_ints E is (dv_intc D)\<rparr>)))"

definition tick_can :: "('u, 'x, 'm) DeviceEnv \<Rightarrow> DeviceClockType \<times> ('h, 'u, 'x, 'b, 'm) DeviceState \<Rightarrow>
    (DeviceClockType \<times> ('h, 'u, 'x, 'b, 'm) DeviceState) option" where
  "tick_can E = (\<lambda>(d, D).
     (if enable_mros_can E = 0 then Some (d, D)
      else (case device_supply_clock_can (ev_can E) (ev_bus E) (ev_can_fd E) d (dv_can D, dv_bus D) of
              None \<Rightarrow> None
            | Some (d, (S, X), is) \<Rightarrow>
                Some (d, D\<lparr>dv_can := S, dv_bus := X, dv_intc := raise_ints E is (dv_intc D)\<rparr>))))"

definition tick_intc :: "('u, 'x, 'm) DeviceEnv \<Rightarrow> DeviceClockType \<times> ('h, 'u, 'x, 'b, 'm) DeviceState \<Rightarrow>
    (DeviceClockType \<times> ('h, 'u, 'x, 'b, 'm) DeviceState) option" where
  "tick_intc E = (\<lambda>(d, D).
     (case device_supply_clock_intc (ev_mem E) (ev_lists E) (ev_cores E) (dv_intc D) of None \<Rightarrow> None
      | Some (busy, s) \<Rightarrow>
          Some (if busy then d\<lparr>dc_intclock := dc_intclock d + 1\<rparr> else d, D\<lparr>dv_intc := s\<rparr>)))"

definition tick_digital :: "('u, 'x, 'm) DeviceEnv \<Rightarrow> u8 option \<Rightarrow> ('h, 'u, 'x, 'b, 'm) DeviceState \<Rightarrow>
    ('h, 'u, 'x, 'b, 'm) DeviceState" where
  "tick_digital E psw D =
     (let (is, prev) = device_supply_clock_digital psw (dv_digital D)
      in D\<lparr>dv_digital := prev, dv_intc := raise_ints E is (dv_intc D)\<rparr>)"

definition device_supply_clock :: "('u, 'x, 'm) DeviceEnv \<Rightarrow> u8 option \<Rightarrow>
    DeviceClockType \<times> ('h, 'u, 'x, 'b, 'm) DeviceState \<Rightarrow>
    (DeviceClockType \<times> ('h, 'u, 'x, 'b, 'm) DeviceState) option" where
  "device_supply_clock E psw = (\<lambda>(d, D).
     (let d = d\<lparr>dc_min_intr_interval := max_interval E, dc_can_skip_clock := True\<rparr>;
          D = tick_digital E psw D
      in case tick_timer E (d, D) of None \<Rightarrow> None | Some (d, D) \<Rightarrow>
        (case tick_serial E (d, D) of None \<Rightarrow> None | Some (d, D) \<Rightarrow>
          (case tick_can E (d, D) of None \<Rightarrow> None | Some (d, D) \<Rightarrow> tick_intc E (d, D)))))"

section \<open>Initialisation and reset\<close>

text \<open>
  The configuration of the device file: the divider of the timers and the two serial times, each
  where it is given.  The debugger's console or the TCP server serves serial channel 1: \<open>ops\<close>.
\<close>

record 'h DeviceConfig =
  cfg_timer_fd :: "u32 option"
  cfg_send_time :: "u32 option"
  cfg_recv_time :: "u32 option"
  cfg_region :: MpuAddressRegionType
  cfg_ops :: "'h DeviceExSerialOpType"

definition device_serial_init :: "'h DeviceConfig \<Rightarrow> 'h SerialState \<Rightarrow> 'h SerialState option" where
  "device_serial_init c S =
     device_ex_serial_register_ops 1 (cfg_ops c)
       (device_init_serial (cfg_send_time c) (cfg_recv_time c) (cfg_region c) S)"

definition device_reset_clock :: "u64 \<Rightarrow> DeviceClockType \<Rightarrow> DeviceClockType" where
  "device_reset_clock mx d = d\<lparr>dc_clock := 0, dc_intclock := 0, dc_min_intr_interval := mx,
     dc_can_skip_clock := False\<rparr>"

definition device_init :: "('u, 'x, 'm) DeviceEnv \<Rightarrow> 'h DeviceConfig \<Rightarrow> (u32 \<Rightarrow> u8 \<Rightarrow> 'g \<Rightarrow> 'g) \<Rightarrow>
    ('u CanState \<Rightarrow> 'u CanState) \<Rightarrow> 'g \<Rightarrow> DeviceClockType \<times> ('h, 'u, 'x, 'b, 'm) DeviceState \<Rightarrow>
    (('g \<times> DeviceClockType) \<times> ('h, 'u, 'x, 'b, 'm) DeviceState) option" where
  "device_init E c put init_can g = (\<lambda>(d, D).
     (let d = device_reset_clock (max_interval E) d;
          D = D\<lparr>dv_intc := device_init_intc (ev_mem E) (ev_cores E) (dv_intc D),
                dv_timer := device_init_timer (cfg_timer_fd c) (dv_timer D)\<rparr>;
          (prev, g) = device_init_digital put g;
          D = D\<lparr>dv_digital := prev\<rparr>
      in case device_serial_init c (dv_serial D) of None \<Rightarrow> None
         | Some S \<Rightarrow>
            (let D = D\<lparr>dv_serial := S\<rparr>;
                 D = (if enable_mros_can E \<noteq> 0 then D\<lparr>dv_can := init_can (dv_can D)\<rparr> else D)
             in Some ((g, d), D))))"

text \<open>The reset of a running machine leaves the CAN controller, the switches and the processor's
  halt flag's owner alone; the serial channels lose their operations and channel 1 gets them back.\<close>

definition device_reset :: "('u, 'x, 'm) DeviceEnv \<Rightarrow> 'h DeviceConfig \<Rightarrow>
    DeviceClockType \<times> ('h, 'u, 'x, 'b, 'm) DeviceState \<Rightarrow>
    (DeviceClockType \<times> ('h, 'u, 'x, 'b, 'm) DeviceState) option" where
  "device_reset E c = (\<lambda>(d, D).
     (let d = (device_reset_clock (max_interval E) d)\<lparr>dc_is_halt := False\<rparr>;
          D = D\<lparr>dv_intc := device_init_intc (ev_mem E) (ev_cores E) (dv_intc D),
                dv_timer := device_init_timer (cfg_timer_fd c) (dv_timer D)\<rparr>
      in case device_serial_init c (dv_serial D) of None \<Rightarrow> None
         | Some S \<Rightarrow> Some (d, D\<lparr>dv_serial := S\<rparr>)))"

end
