(* ===== verification/Timer_Lib.thy ===== *)
theory Timer_Lib
  imports Per_Timer
begin

text \<open>
  Runs of the timers: what a tick leaves unchanged, when a timer stays quiet, and the ticks the
  emulator may skip.
\<close>

section \<open>A quiet timer\<close>

definition counting :: "TimerDeviceType \<Rightarrow> bool" where
  "counting t \<longleftrightarrow> tm_state t = TIMER_STATE_RUNNING \<and> tm_mode t = TIMER_MODE_INTERVAL"

text \<open>\<open>t'\<close> is \<open>t\<close> with the two count registers as a later tick of the same run left them.\<close>

definition same_run :: "TimerDeviceType \<Rightarrow> TimerDeviceType \<Rightarrow> bool" where
  "same_run t t' \<longleftrightarrow> tm_state t' = tm_state t \<and> tm_mode t' = tm_mode t \<and>
     tm_compare0 t' = tm_compare0 t \<and> tm_compare0_intno t' = tm_compare0_intno t \<and>
     tm_start_clock t' = tm_start_clock t \<and> tm_fd t' = tm_fd t \<and>
     (counting t \<or> tm_reg_cnt t' = tm_reg_cnt t)"

lemma same_run_refl [simp]: "same_run t t"
  by (simp add: same_run_def)

lemma same_run_fields:
  assumes "same_run t t'"
  shows "tm_state t' = tm_state t" "tm_mode t' = tm_mode t" "tm_compare0 t' = tm_compare0 t"
    "tm_compare0_intno t' = tm_compare0_intno t" "tm_start_clock t' = tm_start_clock t"
    "tm_fd t' = tm_fd t" "counting t' = counting t"
  using assms by (simp_all add: same_run_def counting_def)

definition due :: "u64 \<Rightarrow> TimerDeviceType \<Rightarrow> bool" where
  "due clk t \<longleftrightarrow> tm_compare0 t \<le> (ucast ((clk - tm_start_clock t) div ucast (tm_fd t)) :: u32)"

lemma update_counting:
  assumes "counting t"
  shows "device_timer_do_update clk t =
    (let c = ucast ((clk - tm_start_clock t) div ucast (tm_fd t));
         t' = t\<lparr>tm_cnt := c, tm_reg_cnt := tm_compare0 t - c\<rparr>
     in if due clk t then ([ucast (tm_compare0_intno t)], t'\<lparr>tm_state := TIMER_STATE_READY\<rparr>)
        else ([], t'))"
  using assms by (simp add: device_timer_do_update_def timer_start_def counting_def due_def Let_def)

lemma update_idle:
  assumes "\<not> counting t" "tm_state t \<noteq> TIMER_STATE_READY"
  shows "device_timer_do_update clk t =
    ([], t\<lparr>tm_cnt := ucast ((clk - tm_start_clock t) div ucast (tm_fd t))\<rparr>)"
  using assms by (auto simp: device_timer_do_update_def timer_start_def counting_def Let_def)

lemma update_same_run:
  assumes "same_run t t'" "tm_state t \<noteq> TIMER_STATE_READY"
  shows "device_timer_do_update clk t' = device_timer_do_update clk t"
proof (cases "counting t")
  case True
  then show ?thesis
    using assms same_run_fields [OF assms(1)] update_counting [of t clk] update_counting [of t' clk]
    by (auto simp: Let_def due_def intro!: TimerDeviceType.equality)
next
  case False
  then have "tm_reg_cnt t' = tm_reg_cnt t" using assms(1) by (simp add: same_run_def)
  then show ?thesis
    using False assms same_run_fields [OF assms(1)] update_idle [of t clk] update_idle [of t' clk]
    by (auto intro!: TimerDeviceType.equality)
qed

lemma update_quiet:
  assumes "tm_state t \<noteq> TIMER_STATE_READY" "counting t \<Longrightarrow> \<not> due clk t"
  shows "\<exists>t'. device_timer_do_update clk t = ([], t') \<and> same_run t t'"
proof (cases "counting t")
  case True
  then show ?thesis using assms(2) by (simp add: update_counting Let_def same_run_def)
next
  case False
  then show ?thesis using assms(1) by (simp add: update_idle same_run_def)
qed

lemma tick_quiet:
  assumes "tm_fd t \<noteq> 0" "tm_state t \<noteq> TIMER_STATE_READY" "counting t \<Longrightarrow> \<not> due (dc_clock d) t"
  shows "\<exists>t' d'. INLINE_device_supply_clock_timer d t = Some ([], t', d') \<and> same_run t t'"
  using assms(1) update_quiet [OF assms(2,3)]
  by (cases "dc_clock d mod ucast (tm_fd t) = 0")
    (auto simp: INLINE_device_supply_clock_timer_def Let_def)

lemma tick_same_run:
  assumes "same_run t t'" "tm_state t \<noteq> TIMER_STATE_READY" "dc_clock d' = dc_clock d"
    "INLINE_device_supply_clock_timer d t = Some (is, u, e)"
  shows "\<exists>u' e'. INLINE_device_supply_clock_timer d' t' = Some (is, u', e') \<and> same_run u u' \<and>
    (dc_clock d mod ucast (tm_fd t) = 0 \<longrightarrow> u' = u)"
  using assms same_run_fields [OF assms(1)] update_same_run [OF assms(1,2)]
  by (auto simp: INLINE_device_supply_clock_timer_def Let_def split: prod.splits if_splits)

section \<open>The interval\<close>

lemma unat_ucast_32_64 [simp]: "unat (ucast (x :: u32) :: u64) = unat x"
  by (simp only: unat_eq_nat_uint uint_ucast_32_64)

lemma period_unat: "unat (ucast (a :: u32) * ucast (b :: u32) :: u64) = unat a * unat b"
proof -
  have "unat a * unat b < 2 ^ 32 * 2 ^ 32"
    using unsigned_less [of a] unsigned_less [of b]
    by (intro mult_strict_mono) (simp_all add: unsigned_less)
  then show ?thesis by (simp add: unat_word_ariths)
qed

lemma not_due_before_period:
  assumes "tm_fd t \<noteq> 0" "unat (clk - tm_start_clock t) < unat (tm_compare0 t) * unat (tm_fd t)"
  shows "\<not> due clk t"
proof -
  let ?e = "unat (clk - tm_start_clock t)"
  have f: "0 < unat (tm_fd t)" using assms(1) by (simp add: unat_gt_0)
  have q: "?e div unat (tm_fd t) < unat (tm_compare0 t)" using assms(2) by (simp add: less_mult_imp_div_less)
  have "unat (tm_compare0 t) < 2 ^ 32" using unsigned_less [of "tm_compare0 t"] by simp
  then have "unat (ucast ((clk - tm_start_clock t) div ucast (tm_fd t)) :: u32) = ?e div unat (tm_fd t)"
    using q by (simp add: unat_div unsigned_ucast_eq take_bit_eq_mod)
  then show ?thesis using q by (simp add: due_def word_le_nat_alt)
qed

text \<open>The interval a timer that is not ready offers: no tick inside it is due.\<close>

definition safe_for :: "u64 \<Rightarrow> nat \<Rightarrow> TimerDeviceType \<Rightarrow> bool" where
  "safe_for clk m t \<longleftrightarrow> (\<forall>k. 0 < k \<longrightarrow> k < m \<longrightarrow> \<not> due (clk + of_nat k) t)"

lemma calc_safe:
  assumes "tm_fd t \<noteq> 0"
  shows "safe_for (dc_clock d) (unat (dc_min_intr_interval (device_timer_do_calc_min_interval t d))) t"
  unfolding safe_for_def
proof (intro allI impI)
  fix k
  let ?e = "dc_clock d - tm_start_clock t" and ?p = "unat (tm_compare0 t) * unat (tm_fd t)"
  let ?m = "dc_min_intr_interval (device_timer_do_calc_min_interval t d)"
  assume k: "0 < k" "k < unat ?m"
  have m: "unat ?m \<le> (if unat ?e < ?p then ?p - unat ?e else 1)"
    by (auto simp: device_timer_do_calc_min_interval_def Let_def period_unat word_le_nat_alt
        word_less_nat_alt unat_sub not_less simp flip: unat_eq_0)
  then have l: "unat ?e + k < ?p" using k by (auto split: if_splits)
  moreover have "?p < 2 ^ 64"
  proof -
    have "unat (ucast (tm_compare0 t) * ucast (tm_fd t) :: u64) < 2 ^ LENGTH(64)" by (rule unsigned_less)
    then show ?thesis by (simp add: period_unat)
  qed
  ultimately have "unat (?e + of_nat k) = unat ?e + k"
    by (simp add: unat_word_ariths unsigned_of_nat take_bit_eq_mod)
  then have "unat (dc_clock d + of_nat k - tm_start_clock t) = unat ?e + k" by (simp add: algebra_simps)
  then show "\<not> due (dc_clock d + of_nat k) t" using not_due_before_period [OF assms] l by simp
qed

section \<open>The two supplied timers\<close>

text \<open>\<open>supply_timers n d T\<close> supplies the \<open>n\<close> ticks after the one at \<open>d\<close>, one by one; the result is what
  they raised and the timers they leave.\<close>

definition later :: "nat \<Rightarrow> DeviceClockType \<Rightarrow> DeviceClockType" where
  "later k d = d\<lparr>dc_clock := dc_clock d + of_nat k\<rparr>"

lemma later_clock [simp]: "dc_clock (later k d) = dc_clock d + of_nat k"
  by (simp add: later_def)

primrec supply_timers :: "nat \<Rightarrow> DeviceClockType \<Rightarrow> timer_table \<Rightarrow> (u16 list \<times> timer_table) option" where
  "supply_timers 0 d T = Some ([], T)"
| "supply_timers (Suc k) d T =
     (case supply_timers k d T of None \<Rightarrow> None
      | Some (is, T) \<Rightarrow>
         (case device_supply_clock_timer (later (Suc k) d) T of None \<Rightarrow> None
          | Some (js, T, _) \<Rightarrow> Some (is @ js, T)))"

definition same_runs :: "timer_table \<Rightarrow> timer_table \<Rightarrow> bool" where
  "same_runs T T' \<longleftrightarrow> (\<forall>n ch. if n = 0 \<and> ch < TAUJ_CH_NUM then same_run (T n ch) (T' n ch) else T' n ch = T n ch)"

lemma upd_timer_apply [simp]: "upd_timer n ch t T m k = (if m = n \<and> k = ch then t else T m k)"
  by (auto simp: upd_timer_def)

lemma supply_defined:
  assumes "tm_fd (T 0 0) \<noteq> 0" "tm_fd (T 0 1) \<noteq> 0"
  shows "\<exists>is T' d'. device_supply_clock_timer d T = Some (is, T', d')"
  using assms
  by (auto simp: device_supply_clock_timer_def INLINE_device_supply_clock_timer_def Let_def split: prod.split)

lemma less_two: "(ch < (2 :: nat)) = (ch = 0 \<or> ch = 1)"
  by auto

lemma timers_quiet:
  assumes "\<forall>ch < TAUJ_CH_NUM. tm_fd (T 0 ch) \<noteq> 0 \<and> tm_state (T 0 ch) \<noteq> TIMER_STATE_READY \<and>
      (counting (T 0 ch) \<longrightarrow> \<not> due (dc_clock d) (T 0 ch))"
  shows "\<exists>T' d'. device_supply_clock_timer d T = Some ([], T', d') \<and> same_runs T T'"
proof -
  have t: "tm_fd (T 0 ch) \<noteq> 0" "tm_state (T 0 ch) \<noteq> TIMER_STATE_READY"
      "counting (T 0 ch) \<Longrightarrow> \<not> due (dc_clock d) (T 0 ch)" if "ch = 0 \<or> ch = 1" for ch
    using assms that by (auto simp: TAUJ_CH_NUM_def)
  obtain t0 d0 where 0: "INLINE_device_supply_clock_timer d (T 0 0) = Some ([], t0, d0)" "same_run (T 0 0) t0"
    using tick_quiet [of "T 0 0" d] t by blast
  have "dc_clock d0 = dc_clock d"
    using 0(1) by (auto simp: INLINE_device_supply_clock_timer_def device_timer_do_calc_min_interval_def Let_def
        split: prod.splits if_splits)
  then obtain t1 d1 where 1: "INLINE_device_supply_clock_timer d0 (T 0 1) = Some ([], t1, d1)" "same_run (T 0 1) t1"
    using tick_quiet [of "T 0 1" d0] t by auto
  show ?thesis
    using 0 1 by (auto simp: device_supply_clock_timer_def Let_def same_runs_def less_two TAUJ_CH_NUM_def)
qed

definition ready_for :: "u64 \<Rightarrow> nat \<Rightarrow> timer_table \<Rightarrow> bool" where
  "ready_for clk m T \<longleftrightarrow> (\<forall>ch < TAUJ_CH_NUM. tm_fd (T 0 ch) \<noteq> 0 \<and>
     tm_state (T 0 ch) \<noteq> TIMER_STATE_READY \<and> (counting (T 0 ch) \<longrightarrow> safe_for clk m (T 0 ch)))"

lemma due_same_run: "same_run t t' \<Longrightarrow> due clk t' = due clk t"
  by (simp add: due_def same_run_fields)

lemma same_run_trans: "same_run t u \<Longrightarrow> same_run u v \<Longrightarrow> same_run t v"
  by (auto simp: same_run_def counting_def)

lemma same_runs_trans: "same_runs T U \<Longrightarrow> same_runs U V \<Longrightarrow> same_runs T V"
  unfolding same_runs_def by (metis same_run_trans)

lemma same_runs_channel: "same_runs T U \<Longrightarrow> ch < TAUJ_CH_NUM \<Longrightarrow> same_run (T 0 ch) (U 0 ch)"
  unfolding same_runs_def by metis

lemma ready_for_same_runs:
  assumes "same_runs T U" "ready_for clk m T"
  shows "ready_for clk m U"
  unfolding ready_for_def
proof (intro allI impI)
  fix ch assume c: "ch < TAUJ_CH_NUM"
  note r = same_runs_channel [OF assms(1) c]
  show "tm_fd (U 0 ch) \<noteq> 0 \<and> tm_state (U 0 ch) \<noteq> TIMER_STATE_READY \<and>
      (counting (U 0 ch) \<longrightarrow> safe_for clk m (U 0 ch))"
    using assms(2) c same_run_fields [OF r] due_same_run [OF r] by (simp add: ready_for_def safe_for_def)
qed

lemma timers_stay_quiet:
  assumes "ready_for (dc_clock d) m T" "k < m"
  shows "\<exists>T'. supply_timers k d T = Some ([], T') \<and> same_runs T T'"
  using assms(2)
proof (induction k)
  case 0
  show ?case by (simp add: same_runs_def)
next
  case (Suc k)
  then obtain T1 where 1: "supply_timers k d T = Some ([], T1)" "same_runs T T1" by auto
  have "ready_for (dc_clock d) m T1" by (rule ready_for_same_runs [OF 1(2) assms(1)])
  then have "\<forall>ch < TAUJ_CH_NUM. tm_fd (T1 0 ch) \<noteq> 0 \<and> tm_state (T1 0 ch) \<noteq> TIMER_STATE_READY \<and>
      (counting (T1 0 ch) \<longrightarrow> \<not> due (dc_clock (later (Suc k) d)) (T1 0 ch))"
    using Suc.prems by (auto simp: ready_for_def safe_for_def simp del: of_nat_Suc)
  from timers_quiet [where T = T1, OF this] obtain T2 d2 where
    "device_supply_clock_timer (later (Suc k) d) T1 = Some ([], T2, d2)" "same_runs T1 T2" by blast
  then show ?case using 1 same_runs_trans [OF 1(2)] by auto
qed

lemma timers_same_run:
  assumes "same_runs T T'" "\<forall>ch < TAUJ_CH_NUM. tm_state (T 0 ch) \<noteq> TIMER_STATE_READY"
    "device_supply_clock_timer d T = Some (is, U, e)" "d' = d"
  shows "\<exists>U' e'. device_supply_clock_timer d' T' = Some (is, U', e') \<and> same_runs U U' \<and>
    (\<forall>ch < TAUJ_CH_NUM. dc_clock d mod ucast (tm_fd (T 0 ch)) = 0 \<longrightarrow> U' 0 ch = U 0 ch)"
proof -
  have r: "same_run (T 0 ch) (T' 0 ch)" "tm_state (T 0 ch) \<noteq> TIMER_STATE_READY" if "ch = 0 \<or> ch = 1" for ch
    using same_runs_channel [OF assms(1)] assms(2) that by (auto simp: TAUJ_CH_NUM_def)
  obtain is0 t0 d0 is1 t1 d1 where
    0: "INLINE_device_supply_clock_timer d (T 0 0) = Some (is0, t0, d0)" and
    1: "INLINE_device_supply_clock_timer d0 (T 0 1) = Some (is1, t1, d1)" and
    u: "is = is0 @ is1" "U = upd_timer 0 1 t1 (upd_timer 0 0 t0 T)"
    using assms(3) by (auto simp: device_supply_clock_timer_def Let_def split: option.splits)
  have c: "dc_clock e = dc_clock f" if "INLINE_device_supply_clock_timer f t = Some (js, t', e)" for e f t js t'
    using that by (auto simp: INLINE_device_supply_clock_timer_def device_timer_do_calc_min_interval_def Let_def
        split: prod.splits if_splits)
  obtain u0 e0 where 2: "INLINE_device_supply_clock_timer d (T' 0 0) = Some (is0, u0, e0)" "same_run t0 u0"
      "dc_clock d mod ucast (tm_fd (T 0 0)) = 0 \<longrightarrow> u0 = t0"
    using tick_same_run [OF r refl 0] by auto
  have d0: "dc_clock d0 = dc_clock d" "dc_clock e0 = dc_clock d0" using c [OF 0] c [OF 2(1)] by auto
  obtain u1 e1 where 3: "INLINE_device_supply_clock_timer e0 (T' 0 1) = Some (is1, u1, e1)" "same_run t1 u1"
      "dc_clock d mod ucast (tm_fd (T 0 1)) = 0 \<longrightarrow> u1 = t1"
    using tick_same_run [OF r d0(2) 1] d0(1) by auto
  have "T' m k = T m k" if "\<not> (m = 0 \<and> k < TAUJ_CH_NUM)" for m k
    using assms(1) that unfolding same_runs_def by metis
  then have "same_runs U (upd_timer 0 1 u1 (upd_timer 0 0 u0 T'))"
    using 2(2) 3(2) by (auto simp: u same_runs_def less_two TAUJ_CH_NUM_def)
  then show ?thesis
    using 2 3 by (simp add: assms(4) device_supply_clock_timer_def Let_def u less_two TAUJ_CH_NUM_def)
qed

lemma safe_for_mono: "safe_for clk m t \<Longrightarrow> m' \<le> m \<Longrightarrow> safe_for clk m' t"
  by (auto simp: safe_for_def)

lemma calc_lowers: "dc_min_intr_interval (device_timer_do_calc_min_interval t d) \<le> dc_min_intr_interval d"
  by (auto simp: device_timer_do_calc_min_interval_def Let_def word_less_nat_alt word_le_nat_alt
      simp flip: unat_eq_0)

lemma tick_interval:
  assumes "INLINE_device_supply_clock_timer d t = Some (is, t', d')"
  shows "dc_clock d' = dc_clock d" "dc_is_halt d' = dc_is_halt d"
    "dc_min_intr_interval d' \<le> dc_min_intr_interval d" "tm_fd t' = tm_fd t" "tm_fd t \<noteq> 0"
    "dc_is_halt d \<Longrightarrow> tm_state t' \<noteq> TIMER_STATE_STOP \<Longrightarrow> d' = device_timer_do_calc_min_interval t' d"
  using assms calc_lowers [of t' d]
  by (auto simp: INLINE_device_supply_clock_timer_def device_timer_do_update_def timer_start_def Let_def
      device_timer_do_calc_min_interval_def split: prod.splits if_splits)

lemma tick_safe:
  assumes "INLINE_device_supply_clock_timer d t = Some (is, t', d')" "dc_is_halt d" "counting t'"
  shows "safe_for (dc_clock d) (unat (dc_min_intr_interval d')) t'"
proof -
  have "d' = device_timer_do_calc_min_interval t' d" "tm_fd t' \<noteq> 0"
    using tick_interval [OF assms(1)] assms(2,3) by (auto simp: counting_def)
  then show ?thesis using calc_safe [of t' d] by simp
qed

text \<open>What the emulator may skip after the tick at \<open>d\<close>.\<close>

lemma interval_is_safe:
  assumes "device_supply_clock_timer d T = Some (is, T', d')" "dc_is_halt d"
    "\<forall>ch < TAUJ_CH_NUM. tm_state (T' 0 ch) \<noteq> TIMER_STATE_READY"
  shows "ready_for (dc_clock d) (unat (dc_min_intr_interval d')) T'"
proof -
  obtain is0 t0 d0 is1 t1 where
    0: "INLINE_device_supply_clock_timer d (T 0 0) = Some (is0, t0, d0)" and
    1: "INLINE_device_supply_clock_timer d0 (T 0 1) = Some (is1, t1, d')" and
    u: "T' = upd_timer 0 1 t1 (upd_timer 0 0 t0 T)"
    using assms(1) by (auto simp: device_supply_clock_timer_def Let_def split: option.splits)
  note i0 = tick_interval [OF 0] and i1 = tick_interval [OF 1]
  have "safe_for (dc_clock d) (unat (dc_min_intr_interval d')) t0" if "counting t0"
    using safe_for_mono [OF tick_safe [OF 0 assms(2) that]] i1(3) by (simp add: word_le_nat_alt)
  moreover have "safe_for (dc_clock d) (unat (dc_min_intr_interval d')) t1" if "counting t1"
    using tick_safe [OF 1 _ that] i0 assms(2) by simp
  ultimately show ?thesis
    using i0 i1 assms(3) unfolding ready_for_def less_two TAUJ_CH_NUM_def by (auto simp: u)
qed

section \<open>The period of an interval timer\<close>

lemma later_later [simp]: "later a (later b d) = later (b + a) d"
  by (simp add: later_def algebra_simps)

lemma later_0 [simp]: "later 0 d = d"
  by (simp add: later_def)

lemma supply_append:
  "supply_timers a d T = Some (is, T1) \<Longrightarrow>
   supply_timers (a + b) d T = map_option (\<lambda>(js, T2). (is @ js, T2)) (supply_timers b (later a d) T1)"
  by (induction b) (auto split: option.splits)

lemma on_beat: "dc_clock d mod ucast (tm_fd t) = 0 \<longleftrightarrow> unat (dc_clock d) mod unat (tm_fd t) = 0"
  by (simp add: unat_mod flip: unat_eq_0)

text \<open>Channel 0 alone: channel 1 is stopped, so a tick is channel 0's.\<close>

definition alone :: "timer_table \<Rightarrow> bool" where
  "alone T \<longleftrightarrow> tm_state (T 0 1) = TIMER_STATE_STOP \<and> tm_fd (T 0 1) \<noteq> 0"

lemma tick_alone:
  assumes "alone T" "INLINE_device_supply_clock_timer d (T 0 0) = Some (is, t, d0)"
  shows "\<exists>T' d'. device_supply_clock_timer d T = Some (is, T', d') \<and> T' 0 0 = t \<and> alone T'"
proof -
  obtain t1 d1 where "INLINE_device_supply_clock_timer d0 (T 0 1) = Some ([], t1, d1)" "same_run (T 0 1) t1"
    using tick_quiet [of "T 0 1" d0] assms(1) by (auto simp: alone_def counting_def)
  then show ?thesis
    using assms by (auto simp: device_supply_clock_timer_def Let_def alone_def same_run_def)
qed

lemma silent_run:
  assumes "alone T" "P (T 0 0)"
    "\<And>k t. 0 < k \<Longrightarrow> k \<le> m \<Longrightarrow> P t \<Longrightarrow> \<exists>t' d'. INLINE_device_supply_clock_timer (later k d) t = Some ([], t', d') \<and> P t'"
    "n \<le> m"
  shows "\<exists>T'. supply_timers n d T = Some ([], T') \<and> alone T' \<and> P (T' 0 0)"
  using assms(4)
proof (induction n)
  case 0
  show ?case using assms by simp
next
  case (Suc n)
  then obtain T1 where 1: "supply_timers n d T = Some ([], T1)" "alone T1" "P (T1 0 0)" by auto
  obtain t' d' where "INLINE_device_supply_clock_timer (later (Suc n) d) (T1 0 0) = Some ([], t', d')" "P t'"
    using assms(3) [OF _ Suc.prems 1(3)] by auto
  then show ?case using tick_alone [OF 1(2)] 1(1) by fastforce
qed

text \<open>The timer \<open>t\<close>'s configuration, running since \<open>c\<close>.\<close>

definition runs_from :: "TimerDeviceType \<Rightarrow> u64 \<Rightarrow> TimerDeviceType \<Rightarrow> bool" where
  "runs_from t c u \<longleftrightarrow> counting u \<and> tm_start_clock u = c \<and> tm_compare0 u = tm_compare0 t \<and>
     tm_fd u = tm_fd t \<and> tm_compare0_intno u = tm_compare0_intno t"

definition waits_for :: "TimerDeviceType \<Rightarrow> TimerDeviceType \<Rightarrow> bool" where
  "waits_for t u \<longleftrightarrow> tm_state u = TIMER_STATE_READY \<and> tm_mode u = TIMER_MODE_INTERVAL \<and>
     tm_compare0 u = tm_compare0 t \<and> tm_fd u = tm_fd t \<and> tm_compare0_intno u = tm_compare0_intno t"

lemma due_at:
  assumes "tm_fd t \<noteq> 0" "tm_start_clock t = c" "unat c + x < 2 ^ 64" "x div unat (tm_fd t) < 2 ^ 32"
  shows "due (c + of_nat x) t = (unat (tm_compare0 t) \<le> x div unat (tm_fd t))"
proof -
  have "unat (of_nat x :: u64) = x" using assms(3) by (simp add: unsigned_of_nat take_bit_eq_mod)
  then have "unat (ucast (of_nat x div ucast (tm_fd t) :: u64) :: u32) = x div unat (tm_fd t)"
    using assms(4) by (simp add: unat_div unsigned_ucast_eq take_bit_eq_mod)
  then show ?thesis using assms(2) by (simp add: due_def word_le_nat_alt)
qed

lemma tick_raises:
  assumes "runs_from t c u" "tm_fd u \<noteq> 0" "dc_clock d mod ucast (tm_fd u) = 0" "due (dc_clock d) u"
  shows "\<exists>u' d'. INLINE_device_supply_clock_timer d u = Some ([ucast (tm_compare0_intno t)], u', d') \<and> waits_for t u'"
  using assms by (auto simp: INLINE_device_supply_clock_timer_def update_counting runs_from_def Let_def
      waits_for_def counting_def)

lemma tick_waits:
  assumes "waits_for t u" "tm_fd u \<noteq> 0" "dc_clock d mod ucast (tm_fd u) \<noteq> 0"
  shows "\<exists>u' d'. INLINE_device_supply_clock_timer d u = Some ([], u', d') \<and> waits_for t u'"
  using assms by (auto simp: INLINE_device_supply_clock_timer_def Let_def)

lemma tick_restarts:
  assumes "waits_for t u" "tm_fd u \<noteq> 0" "dc_clock d mod ucast (tm_fd u) = 0" "tm_compare0 u \<noteq> 0"
  shows "\<exists>u' d'. INLINE_device_supply_clock_timer d u = Some ([], u', d') \<and> runs_from t (dc_clock d) u'"
  using assms by (auto simp: INLINE_device_supply_clock_timer_def device_timer_do_update_def timer_start_def
      Let_def waits_for_def runs_from_def counting_def)

lemma one_period:
  fixes d :: DeviceClockType and T :: timer_table and t :: TimerDeviceType
  defines "c \<equiv> dc_clock d" and "f \<equiv> unat (tm_fd t)" and "n \<equiv> unat (tm_compare0 t)"
  assumes "alone T" "runs_from t c (T 0 0)" "f \<noteq> 0" "n \<noteq> 0" "unat c mod f = 0" "unat c + (n + 1) * f < 2 ^ 64"
  shows "\<exists>T'. supply_timers ((n + 1) * f) d T = Some ([ucast (tm_compare0_intno t)], T') \<and> alone T' \<and>
    runs_from t (c + of_nat ((n + 1) * f)) (T' 0 0)"
proof -
  have n32: "n < 2 ^ 32" unfolding n_def using unsigned_less [of "tm_compare0 t"] by simp
  have fz: "tm_fd t \<noteq> 0" using assms(6) by (auto simp: f_def)
  have nf: "n * f = Suc (n * f - 1)" "f = Suc (f - 1)" using assms(6,7) by simp_all
  have clk: "unat (c + of_nat x) = unat c + x" if "x \<le> (n + 1) * f" for x
    using that assms(9) by (simp add: unat_word_ariths unsigned_of_nat take_bit_eq_mod)
  have beat: "(c + of_nat x) mod ucast (tm_fd t) = 0 \<longleftrightarrow> x mod f = 0" if "x \<le> (n + 1) * f" for x
    using clk [OF that] assms(8) on_beat [of "later x d" t]
    by (simp add: c_def f_def mod_add_left_eq [symmetric, of "unat (dc_clock d)"])
  have due: "due (c + of_nat x) u \<longleftrightarrow> n \<le> x div f" if "runs_from t c u" "x \<le> n * f" for u x
  proof -
    have "x div f \<le> n" using div_le_mono [OF that(2), of f] assms(6) by simp
    then show ?thesis
      using due_at [of u c x] that fz n32 assms(9) unfolding runs_from_def f_def n_def by simp
  qed
  have quiet: "\<exists>u' d'. INLINE_device_supply_clock_timer (later k d) u = Some ([], u', d') \<and> runs_from t c u'"
    if "0 < k" "k \<le> n * f - 1" "runs_from t c u" for k u
  proof -
    have "k < n * f" using that nf(1) by linarith
    then have "\<not> due (c + of_nat k) u" using due [OF that(3), of k] by (simp add: less_mult_imp_div_less not_le)
    then show ?thesis
      using tick_quiet [of u "later k d"] that(3) fz by (auto simp: runs_from_def counting_def same_run_def c_def)
  qed
  obtain T1 where 1: "supply_timers (n * f - 1) d T = Some ([], T1)" "alone T1" "runs_from t c (T1 0 0)"
    using silent_run [where P = "runs_from t c", OF assms(4,5) quiet order_refl] by blast
  have fd1: "tm_fd (T1 0 0) = tm_fd t" using 1(3) by (simp add: runs_from_def)
  obtain u2 d2 where "INLINE_device_supply_clock_timer (later (n * f) d) (T1 0 0) =
      Some ([ucast (tm_compare0_intno t)], u2, d2)" "waits_for t u2"
    using tick_raises [OF 1(3), of "later (n * f) d"] due [OF 1(3), of "n * f"] beat [of "n * f"] fz fd1 assms(6)
    by (auto simp: c_def)
  from tick_alone [OF 1(2) this(1)] this(2) nf(1) 1(1) obtain T2 where
    2: "supply_timers (n * f) d T = Some ([ucast (tm_compare0_intno t)], T2)" "alone T2" "waits_for t (T2 0 0)"
    by (metis (mono_tags, lifting) append_Nil case_prod_conv option.case(2) supply_timers.simps(2))
  let ?e = "later (n * f) d"
  have off: "\<exists>u' d'. INLINE_device_supply_clock_timer (later k ?e) u = Some ([], u', d') \<and> waits_for t u'"
    if "0 < k" "k \<le> f - 1" "waits_for t u" for k u
    using tick_waits [OF that(3), of "later (n * f + k) d"] beat [of "n * f + k"] that fz nf(2)
    by (auto simp: waits_for_def c_def)
  obtain T3 where 3: "supply_timers (f - 1) ?e T2 = Some ([], T3)" "alone T3" "waits_for t (T3 0 0)"
    using silent_run [where P = "waits_for t", OF 2(2,3) off order_refl] by blast
  have w: "tm_fd (T3 0 0) = tm_fd t" "tm_compare0 (T3 0 0) = tm_compare0 t" using 3(3) by (auto simp: waits_for_def)
  have e4: "dc_clock (later f ?e) = c + of_nat ((n + 1) * f)" by (simp add: c_def algebra_simps)
  have nz: "tm_compare0 t \<noteq> 0" using assms(7) by (auto simp: n_def)
  obtain u4 d4 where "INLINE_device_supply_clock_timer (later f ?e) (T3 0 0) = Some ([], u4, d4)"
      "runs_from t (c + of_nat ((n + 1) * f)) u4"
    using tick_restarts [OF 3(3), of "later f ?e"] beat [OF order_refl] w fz nz unfolding e4 by auto
  from tick_alone [OF 3(2) this(1)] this(2) nf(2) 3(1) obtain T4 where
    4: "supply_timers f ?e T2 = Some ([], T4)" "alone T4" "runs_from t (c + of_nat ((n + 1) * f)) (T4 0 0)"
    by (metis (mono_tags, lifting) append_Nil case_prod_conv option.case(2) supply_timers.simps(2))
  have "(n + 1) * f = n * f + f" by simp
  then show ?thesis using supply_append [OF 2(1), of f] 4 by (metis append_Nil2 case_prod_conv option.simps(9))
qed

lemma periods:
  assumes "alone T" "runs_from t (dc_clock d) (T 0 0)" "unat (dc_clock d) mod unat (tm_fd t) = 0"
    "tm_fd t \<noteq> 0" "tm_compare0 t \<noteq> 0"
    "unat (dc_clock d) + m * ((unat (tm_compare0 t) + 1) * unat (tm_fd t)) < 2 ^ 64"
  shows "\<exists>T'. supply_timers (m * ((unat (tm_compare0 t) + 1) * unat (tm_fd t))) d T =
    Some (replicate m (ucast (tm_compare0_intno t)), T')"
  using assms
proof (induction m arbitrary: d T)
  case (Suc m)
  let ?p = "(unat (tm_compare0 t) + 1) * unat (tm_fd t)"
  have z: "unat (tm_fd t) \<noteq> 0" "unat (tm_compare0 t) \<noteq> 0" using Suc.prems(4,5) by (simp_all add: unat_eq_0)
  have b: "unat (dc_clock d) + ?p < 2 ^ 64" using Suc.prems(6) by simp
  obtain T1 where 1: "supply_timers ?p d T = Some ([ucast (tm_compare0_intno t)], T1)" "alone T1"
      "runs_from t (dc_clock (later ?p d)) (T1 0 0)"
    using one_period [OF Suc.prems(1,2) z Suc.prems(3) b] by (auto simp: later_def)
  have clk: "unat (dc_clock (later ?p d)) = unat (dc_clock d) + ?p"
    using b by (simp add: unat_word_ariths unsigned_of_nat take_bit_eq_mod)
  have m: "unat (dc_clock (later ?p d)) mod unat (tm_fd t) = 0"
    unfolding clk using Suc.prems(3) unfolding mod_eq_0_iff_dvd by (intro dvd_add) simp_all
  have "\<exists>T'. supply_timers (m * ?p) (later ?p d) T1 = Some (replicate m (ucast (tm_compare0_intno t)), T')"
    by (rule Suc.IH [OF 1(2,3) m Suc.prems(4,5)]) (use clk Suc.prems(6) in simp)
  moreover have "Suc m * ?p = ?p + m * ?p" by simp
  ultimately show ?case using supply_append [OF 1(1), of "m * ?p"] by auto
qed simp

end
