(* ===== verification/Serial_Lib.thy ===== *)
theory Serial_Lib
  imports Per_Serial
begin

text \<open>
  Runs of serial channel 1: what its ticks keep, and the life of a transmission.
\<close>

section \<open>A set up channel\<close>

text \<open>The region of mpu_config and channel 1 as \<^verbatim>\<open>device_serial_init\<close> leaves them.\<close>

definition serial_ready :: "'h SerialState \<Rightarrow> bool" where
  "serial_ready S \<longleftrightarrow> rg_start (serial_region S) = 0xffce2000 \<and> rg_mask (serial_region S) = 0xFFFFFFFF \<and>
     length (rg_data (serial_region S)) = 0x180 \<and> sd_id (SerialDevice S 1) = 1 \<and>
     sd_rx_intno (SerialDevice S 1) = 122 \<and> sd_tx_intno (SerialDevice S 1) = 121 \<and>
     sd_ops (SerialDevice S 1) \<noteq> None"

lemma upd_serial_simps [simp]:
  "SerialDevice (upd_serial i f S) j = (if j = i then f (SerialDevice S i) else SerialDevice S j)"
  "serial_region (upd_serial i f S) = serial_region S"
  "serial_send_time (upd_serial i f S) = serial_send_time S"
  "serial_receiv_time (upd_serial i f S) = serial_receiv_time S"
  "serial_host (upd_serial i f S) = serial_host S"
  by (simp_all add: upd_serial_def)

lemma put_received:
  assumes "serial_ready S"
  shows "serial_put_data8 0xffce2066 v S = Some (S\<lparr>serial_region :=
    (serial_region S)\<lparr>rg_data := (rg_data (serial_region S))[0x66 := v]\<rparr>\<rparr>)"
  using assms
  by (simp add: serial_put_data8_def put_region8_def rg_put8_def rg_off_def serial_ready_def Let_def
      RLIN_GET_CHANNEL_def RLIN3xLUTDRL_def RLIN3xLCUC_def RLIN3xLUOER_def RLIN3x_LUOR1_def RLIN3x_def)

text \<open>The sending half of a channel.\<close>

definition same_sender :: "'h SerialDeviceType \<Rightarrow> 'h SerialDeviceType \<Rightarrow> bool" where
  "same_sender d e \<longleftrightarrow> sd_send_counter e = sd_send_counter d \<and> sd_is_send_data e = sd_is_send_data d \<and>
     sd_is_send_enable e = sd_is_send_enable d \<and> sd_is_send_start_intr e = sd_is_send_start_intr d \<and>
     sd_is_sending e = sd_is_sending d"

lemma receive_keeps:
  assumes "serial_ready S"
  shows "\<exists>is S'. serial_receive 1 S = Some (is, S') \<and> serial_ready S' \<and> set is \<subseteq> {122} \<and>
    same_sender (SerialDevice S 1) (SerialDevice S' 1) \<and> serial_send_time S' = serial_send_time S"
proof -
  obtain ops where o: "sd_ops (SerialDevice S 1) = Some ops" using assms by (auto simp: serial_ready_def)
  obtain r h where g: "op_getchar ops 1 (serial_host S) = (r, h)" by (cases "op_getchar ops 1 (serial_host S)")
  let ?S = "upd_serial 1 (\<lambda>d. d\<lparr>sd_is_receiving := True\<rparr>) (S\<lparr>serial_host := h\<rparr>)"
  have "serial_ready ?S" using assms by (simp add: serial_ready_def)
  note p = put_received [OF this]
  show ?thesis
    using assms o g p
    by (cases r) (auto simp: serial_receive_def serial_ready_def same_sender_def Let_def)
qed

section \<open>The life of a transmission\<close>

primrec supply_serial :: "nat \<Rightarrow> 'h SerialState \<Rightarrow> (u16 list \<times> 'h SerialState) option" where
  "supply_serial 0 S = Some ([], S)"
| "supply_serial (Suc n) S =
     (case supply_serial n S of None \<Rightarrow> None
      | Some (is, S) \<Rightarrow> map_option (\<lambda>(js, S). (is @ js, S)) (device_supply_clock_serial S))"

text \<open>The interrupts of a transmission among those of a run.\<close>

definition tx_ints :: "u16 list \<Rightarrow> u16 list" where
  "tx_ints is = [i \<leftarrow> is. i = 121]"

lemma tx_ints_append [simp]: "tx_ints (is @ js) = tx_ints is @ tx_ints js"
  by (simp add: tx_ints_def)

definition sends :: "bool \<Rightarrow> u32 \<Rightarrow> bool \<Rightarrow> u32 \<Rightarrow> bool \<Rightarrow> 'h SerialState \<Rightarrow> bool" where
  "sends mode time data count busy S \<longleftrightarrow> serial_ready S \<and> serial_send_time S = time \<and>
     sd_is_send_enable (SerialDevice S 1) \<and> sd_is_send_start_intr (SerialDevice S 1) = mode \<and>
     sd_is_send_data (SerialDevice S 1) = data \<and> sd_send_counter (SerialDevice S 1) = count \<and>
     sd_is_sending (SerialDevice S 1) = busy"

text \<open>One tick of the sender: start, wait, end.\<close>

lemma serial_tick:
  assumes "sends mode time data count busy S"
    "\<And>S'. sends mode time data count busy S' \<Longrightarrow> \<exists>U. serial_send 1 S' = Some (js, U) \<and> Q U"
  shows "\<exists>is U. device_supply_clock_serial S = Some (is, U) \<and> tx_ints is = tx_ints js \<and> Q U"
proof -
  have r: "serial_ready S" using assms(1) by (simp add: sends_def)
  obtain "is" S' where 1: "serial_receive 1 S = Some (is, S')" "serial_ready S'" "set is \<subseteq> {122}"
      "same_sender (SerialDevice S 1) (SerialDevice S' 1)" "serial_send_time S' = serial_send_time S"
    using receive_keeps [OF r] by blast
  have "sends mode time data count busy S'" using assms(1) 1 by (simp add: sends_def same_sender_def)
  then obtain U where "serial_send 1 S' = Some (js, U)" "Q U" using assms(2) by blast
  moreover have "tx_ints is = []" using 1(3) by (auto simp: tx_ints_def filter_empty_conv)
  ultimately show ?thesis using 1(1) by (simp add: device_supply_clock_serial_def device_do_serial_def)
qed

lemma send_start:
  assumes "sends mode time True 0 busy S"
  shows "\<exists>U. serial_send 1 S = Some (if mode then [121] else [], U) \<and> sends mode time False 1 True U"
  using assms
  by (auto simp: sends_def serial_send_def serial_flush_def serial_ready_def Let_def split: option.splits)

lemma send_wait:
  assumes "sends mode time data count True S" "count \<noteq> 0" "count < time"
  shows "\<exists>U. serial_send 1 S = Some ([], U) \<and> sends mode time data (count + 1) True U"
  using assms by (auto simp: sends_def serial_send_def serial_ready_def Let_def)

lemma send_end:
  assumes "sends mode time data count True S" "count \<noteq> 0" "time \<le> count"
  shows "\<exists>U. serial_send 1 S = Some (if mode then [] else [121], U) \<and> sends mode time data 0 (mode \<and> data) U"
  using assms by (auto simp: sends_def serial_send_def serial_ready_def Let_def)

lemma sending_run:
  assumes "sends mode time True 0 False S" "1 \<le> n" "n \<le> max 1 (unat time)"
  shows "\<exists>is U. supply_serial n S = Some (is, U) \<and> tx_ints is = (if mode then [121] else []) \<and>
    sends mode time False (of_nat n) True U"
  using assms(2,3)
proof (induction n)
  case (Suc n)
  show ?case
  proof (cases "n = 0")
    case True
    then show ?thesis using serial_tick [OF assms(1) send_start] by (auto simp: tx_ints_def)
  next
    case False
    have n: "n < unat time" using Suc.prems False by (auto simp: max_def split: if_splits)
    obtain "is" U where 1: "supply_serial n S = Some (is, U)" "tx_ints is = (if mode then [121] else [])"
        "sends mode time False (of_nat n) True U"
      using Suc.IH False n by (auto simp: max_def)
    have "unat time < 2 ^ 32" using unsigned_less [of time] by simp
    then have c: "unat (of_nat n :: u32) = n" using n by (simp add: unsigned_of_nat take_bit_eq_mod)
    have nz: "(of_nat n :: u32) \<noteq> 0" using c False by (metis unat_0)
    have lt: "of_nat n < time" using c n by (simp add: word_less_nat_alt)
    have "\<exists>js V. device_supply_clock_serial U = Some (js, V) \<and> tx_ints js = tx_ints [] \<and>
        sends mode time False (of_nat n + 1) True V"
      by (rule serial_tick [OF 1(3)]) (rule send_wait [OF _ nz lt])
    then show ?thesis using 1 by (auto simp: add.commute) (simp_all add: tx_ints_def)
  qed
qed simp

lemma sending_done:
  assumes "sends mode time True 0 False S"
  shows "\<exists>is U. supply_serial (max 1 (unat time) + 1) S = Some (is, U) \<and> tx_ints is = [121] \<and>
    sends mode time False 0 False U"
proof -
  let ?n = "max 1 (unat time)"
  obtain "is" U where 1: "supply_serial ?n S = Some (is, U)" "tx_ints is = (if mode then [121] else [])"
      "sends mode time False (of_nat ?n) True U"
    using sending_run [OF assms, of ?n] by auto
  have "unat time < 2 ^ 32" using unsigned_less [of time] by simp
  then have c: "unat (of_nat ?n :: u32) = ?n" by (simp add: unsigned_of_nat take_bit_eq_mod max_def)
  have nz: "(of_nat ?n :: u32) \<noteq> 0" using c by (metis max.cobounded1 not_one_le_zero unat_0)
  have le: "time \<le> of_nat ?n" unfolding word_le_nat_alt c by simp
  have "\<exists>js V. device_supply_clock_serial U = Some (js, V) \<and> tx_ints js = tx_ints (if mode then [] else [121]) \<and>
      sends mode time False 0 (mode \<and> False) V"
    by (rule serial_tick [OF 1(3)]) (rule send_end [OF _ nz le])
  then show ?thesis using 1 by (auto simp: tx_ints_def)
qed

end
