(* ===== verification/Device_Inv.thy ===== *)
theory Device_Inv
  imports Device Timer_Lib Serial_Lib Intc_Props Can_Pass_Inv
begin

text \<open>
  The composed devices: the table reference bit of interrupt 0 survives every tick, the interrupt
  controller's clock returns for all cores, and the invariant of a machine that runs.
\<close>

section \<open>The table reference bit\<close>

text \<open>
  What the memory behind the interrupt control registers promises: a register written through one
  core's pointer reads back where core 0 reads the same cell, and every other one is untouched.
\<close>

definition ic_memory :: "'m mem_ops \<Rightarrow> bool" where
  "ic_memory M \<longleftrightarrow> (\<forall>k n v m. let read = device_get_data16 M (IC_ADDRESS 0);
       m' = ptr_put16 M k (IC_ADDRESS n) v m
     in read m' = read m \<or> read m' = v \<and> ptr_get16 M k (IC_ADDRESS n) m = read m)"

lemma tableref_bit: "IC_ISSET_TABLEREF v = bit v 6"
  by (simp add: IC_ISSET_TABLEREF_def and_exp_eq_0_iff_not_bit [of v 6, simplified])

lemma intreq_tableref [simp]:
  "IC_ISSET_TABLEREF (IC_SET_INTREQ v) = IC_ISSET_TABLEREF v"
  "IC_ISSET_TABLEREF (IC_CLR_INTREQ v) = IC_ISSET_TABLEREF v"
  by (simp_all add: tableref_bit IC_SET_INTREQ_def IC_CLR_INTREQ_def bit_or_iff bit_and_iff bit_not_iff
      bit_push_bit_iff bit_1_iff bit_numeral_rec)

lemma tableref_upd [simp]:
  "intc_is_devsetting_tableref M n (upd_ctrl k f s) = intc_is_devsetting_tableref M n s"
  "intc_is_devsetting_tableref M n (upd_cpu k g s) = intc_is_devsetting_tableref M n s"
  by (simp_all add: intc_is_devsetting_tableref_def)

lemma reqflag_tableref:
  assumes "ic_memory M"
  shows "intc_is_devsetting_tableref M 0 (intc_set_user_intr_reqflag M k n b s) = intc_is_devsetting_tableref M 0 s"
  using assms [unfolded ic_memory_def Let_def, rule_format, of k n
      "if b then IC_SET_INTREQ (ptr_get16 M k (IC_ADDRESS n) (icmem s))
       else IC_CLR_INTREQ (ptr_get16 M k (IC_ADDRESS n) (icmem s))" "icmem s"]
  by (auto simp: intc_is_devsetting_tableref_def intc_set_user_intr_reqflag_def Let_def)

lemma tableref_icmem: "icmem s = icmem t \<Longrightarrow> intc_is_devsetting_tableref M n s = intc_is_devsetting_tableref M n t"
  by (simp add: intc_is_devsetting_tableref_def)

lemma common_raise_tableref:
  "ic_memory M \<Longrightarrow>
   intc_is_devsetting_tableref M 0 (common_raise_user_intr M L n k s) = intc_is_devsetting_tableref M 0 s"
  by (simp add: common_raise_user_intr_def Let_def reqflag_tableref)

lemma raise_ints_tableref:
  assumes "ic_memory (ev_mem E)"
  shows "intc_is_devsetting_tableref (ev_mem E) 0 (raise_ints E is s) = intc_is_devsetting_tableref (ev_mem E) 0 s"
proof -
  let ?T = "intc_is_devsetting_tableref (ev_mem E) 0"
  have 1: "?T (fold (common_raise_user_intr (ev_mem E) L n) ks s) = ?T s" for L n ks s
    by (induction ks arbitrary: s) (simp_all add: common_raise_tableref [OF assms])
  show ?thesis
    by (induction "is" arbitrary: s)
      (simp_all add: raise_ints_def device_raise_int_def intc_raise_intr_def 1)
qed

lemma set_degree_icmem [simp]: "icmem (intc_set_current_user_intr_priority_degree M k n b s) = icmem s"
  by (simp add: intc_set_current_user_intr_priority_degree_def Let_def split: option.split)

lemma set_degree_tableref [simp]:
  "intc_is_devsetting_tableref M m (intc_set_current_user_intr_priority_degree M k n b s) =
   intc_is_devsetting_tableref M m s"
  by (simp add: intc_is_devsetting_tableref_def)

lemma raise_tableref:
  fixes s :: "('b, 'm) IntcState"
  assumes "ic_memory M" "raise_Exception M L k i s = Some u"
  shows "intc_is_devsetting_tableref M 0 u = intc_is_devsetting_tableref M 0 s"
proof -
  have addr: "icmem u = icmem t" if "intc_get_exception_handler_addr M c e n t = Some (a, u)" for c e n a and t u :: "('b, 'm) IntcState"
    using that
    by (auto simp: intc_get_exception_handler_addr_def intc_get_handler_addr_intbp_def Let_def
        split: HandlerAddressRefMethodType.splits option.splits if_splits)
  have addr2: "intc_is_devsetting_tableref M 0 u = intc_is_devsetting_tableref M 0 t"
    if "intc_get_exception_handler_addr M c e n t = Some (a, u)" for c e n a and t u :: "('b, 'm) IntcState"
    by (rule tableref_icmem [OF addr [OF that]])
  have hook: "intc_is_devsetting_tableref M 0 (hook_UserIntr_Raised M L e t) = intc_is_devsetting_tableref M 0 t" for e and t :: "('b, 'm) IntcState"
    by (auto simp: hook_UserIntr_Raised_def Let_def reqflag_tableref [OF assms(1)] intro: tableref_icmem split: option.split)
  show ?thesis
    using assms(2) hook
    by (auto simp: raise_Exception_def Let_def dest!: addr2 split: option.splits if_splits)
qed

lemma core_clock_tableref:
  assumes "ic_memory M" "intc_core_clock M L k s = Some u"
  shows "intc_is_devsetting_tableref M 0 u = intc_is_devsetting_tableref M 0 s"
proof -
  obtain t where t: "judge_pending_UserIntr M L k s = Some t"
    using assms(2) by (auto simp: intc_core_clock_def split: option.splits)
  obtain r v where v: "judge_pending_Exception M k t = (r, v)" by (cases "judge_pending_Exception M k t") auto
  have "intc_is_devsetting_tableref M 0 v = intc_is_devsetting_tableref M 0 s"
    by (rule tableref_icmem) (simp add: judge_icmem [OF v] judge_user_icmem [OF t])
  then show ?thesis
    using assms(2) t v by (cases r) (auto simp: intc_core_clock_def raise_tableref [OF assms(1)])
qed

lemma cores_clock_some:
  assumes "intc_inv n s" "lists_ok L" "ic_memory M" "\<not> intc_is_devsetting_tableref M 0 s" "set ks \<subseteq> {..<n}"
  shows "intc_cores_clock M L ks s \<noteq> None"
  using assms(1,4,5)
proof (induction ks arbitrary: s)
  case (Cons k ks)
  have k: "k < n" using Cons.prems(3) by simp
  obtain t where t: "intc_core_clock M L k s = Some t"
    using core_clock_some [OF Cons.prems(1) assms(2) k Cons.prems(2)] by blast
  have "intc_inv n t" by (rule core_clock_inv [OF assms(2) Cons.prems(1) k t])
  then show ?case using Cons.IH [of t] Cons.prems core_clock_tableref [OF assms(3) t] t by simp
qed simp

section \<open>Runs of the machine\<close>

text \<open>
  The devices of a machine from power on: resets, ticks with any value at the switches and any clock,
  register writes of the timers and the serial channels that hit a channel, accesses of the CAN
  controller, and whatever may happen to the interrupt controller in between.
\<close>

inductive dev_run :: "('u, 'x, 'm) DeviceEnv \<Rightarrow> 'h DeviceConfig \<Rightarrow> ('h, 'u, 'x, 'b, 'm) DeviceState \<Rightarrow> bool"
  for E c where
  boot: "device_init E c put (\<lambda>_. can_boot (ev_can E)) (g :: 'm) dD = Some (gd, D) \<Longrightarrow> dev_run E c D"
| reset: "dev_run E c D \<Longrightarrow> device_reset E c (d, D) = Some (d', D') \<Longrightarrow> dev_run E c D'"
| tick: "dev_run E c D \<Longrightarrow> device_supply_clock E psw (d, D) = Some (d', D') \<Longrightarrow> dev_run E c D'"
| timer8: "dev_run E c D \<Longrightarrow> timer_put_data8 r a v8 (dv_timer D) = Some (r', T) \<Longrightarrow>
    dev_run E c (D\<lparr>dv_timer := T\<rparr>)"
| timer32: "dev_run E c D \<Longrightarrow> timer_put_data32 r a v32 (dv_timer D) = Some (r', T) \<Longrightarrow>
    dev_run E c (D\<lparr>dv_timer := T\<rparr>)"
| serial8: "dev_run E c D \<Longrightarrow> serial_put_data8 a v8 (dv_serial D) = Some S \<Longrightarrow>
    dev_run E c (D\<lparr>dv_serial := S\<rparr>)"
| serial16: "dev_run E c D \<Longrightarrow> serial_put_data16 a v16 (dv_serial D) = Some S \<Longrightarrow>
    dev_run E c (D\<lparr>dv_serial := S\<rparr>)"
| serial32: "dev_run E c D \<Longrightarrow> serial_put_data32 a v32 (dv_serial D) = Some S \<Longrightarrow>
    dev_run E c (D\<lparr>dv_serial := S\<rparr>)"
| can: "dev_run E c D \<Longrightarrow> dev_run E c (D\<lparr>dv_can := can_access_step (ev_can E) x (dv_can D)\<rparr>)"
| intc: "dev_run E c D \<Longrightarrow> intc_run (ev_mem E) (ev_lists E) (ev_cores E) s \<Longrightarrow>
    dev_run E c (D\<lparr>dv_intc := s\<rparr>)"

text \<open>The device file sets no divider to zero; the region is the one of mpu_config.h.\<close>

definition config_ok :: "('u, 'x, 'm) DeviceEnv \<Rightarrow> 'h DeviceConfig \<Rightarrow> bool" where
  "config_ok E c \<longleftrightarrow> cfg_timer_fd c \<noteq> Some 0 \<and> ev_can_fd E \<noteq> 0 \<and>
     rg_start (cfg_region c) = 0xffce2000 \<and> rg_mask (cfg_region c) = 0xFFFFFFFF \<and>
     length (rg_data (cfg_region c)) = 0x180"

definition timers_ok :: "timer_table \<Rightarrow> bool" where
  "timers_ok T \<longleftrightarrow> (\<forall>n < 2. \<forall>ch < 2. tm_fd (T n ch) \<noteq> 0)"

definition dev_inv :: "('u, 'x, 'm) DeviceEnv \<Rightarrow> ('h, 'u, 'x, 'b, 'm) DeviceState \<Rightarrow> bool" where
  "dev_inv E D \<longleftrightarrow> timers_ok (dv_timer D) \<and> serial_ready (dv_serial D) \<and>
     (enable_mros_can E \<noteq> 0 \<longrightarrow> can_run (ev_can E) (ev_bus E) (dv_can D)) \<and>
     intc_run (ev_mem E) (ev_lists E) (ev_cores E) (dv_intc D)"

section \<open>The timers' dividers\<close>

lemma init_timers_ok: "cfg \<noteq> Some 0 \<Longrightarrow> timers_ok (device_init_timer cfg T)"
  by (auto simp: timers_ok_def device_init_timer_def TAUJ_UNIT_NUM_def TAUJ_CH_NUM_def split: option.split)

lemma upd_timer_ok: "timers_ok T \<Longrightarrow> tm_fd t \<noteq> 0 \<Longrightarrow> timers_ok (upd_timer n ch t T)"
  by (simp add: timers_ok_def)

lemma set_state_ok: "timers_ok T \<Longrightarrow> timers_ok (set_timer_state st n ch T)"
  by (simp add: timers_ok_def set_timer_state_def)

lemma timer_put_ok:
  assumes "timers_ok T"
  shows "timer_put_data8 r a v T = Some (r', T') \<Longrightarrow> timers_ok T'"
    and "timer_put_data32 r a w T = Some (r', T') \<Longrightarrow> timers_ok T'"
proof -
  have "timers_ok (timer_units8 m a v ns T)" for m ns
    by (induction ns) (auto simp: assms set_state_ok split: option.split)
  then show "timer_put_data8 r a v T = Some (r', T') \<Longrightarrow> timers_ok T'"
    by (auto simp: timer_put_data8_def split: option.splits)
  show "timer_put_data32 r a w T = Some (r', T') \<Longrightarrow> timers_ok T'"
    using assms by (auto simp: timer_put_data32_def timers_ok_def Let_def split: option.splits if_splits)
qed

lemma tick_timers:
  assumes "timers_ok T"
  shows "\<exists>is T' d'. device_supply_clock_timer d T = Some (is, T', d') \<and> timers_ok T'"
proof -
  have z: "tm_fd (T 0 0) \<noteq> 0" "tm_fd (T 0 1) \<noteq> 0" using assms by (simp_all add: timers_ok_def)
  have s: "\<exists>is t' d'. INLINE_device_supply_clock_timer d t = Some (is, t', d') \<and> tm_fd t' \<noteq> 0" if "tm_fd t \<noteq> 0" for d t
  proof -
    have "INLINE_device_supply_clock_timer d t \<noteq> None"
      using that by (simp add: INLINE_device_supply_clock_timer_def case_prod_beta Let_def)
    then obtain "is" t' d' where "INLINE_device_supply_clock_timer d t = Some (is, t', d')" by auto
    then show ?thesis using tick_interval(4) that by fastforce
  qed
  obtain i0 t0 d0 where 0: "INLINE_device_supply_clock_timer d (T 0 0) = Some (i0, t0, d0)" "tm_fd t0 \<noteq> 0"
    using s [OF z(1)] by blast
  obtain i1 t1 d1 where 1: "INLINE_device_supply_clock_timer d0 (T 0 1) = Some (i1, t1, d1)" "tm_fd t1 \<noteq> 0"
    using s [OF z(2)] by blast
  show ?thesis
    using 0 1 assms by (simp add: device_supply_clock_timer_def Let_def upd_timer_ok)
qed

section \<open>The serial channel\<close>

lemma serial_init_ready:
  assumes "config_ok E c" "device_serial_init c S = Some S'"
  shows "serial_ready S'"
proof -
  have "[0..<UDnChannelNum] = [0, 1, 2, 3]" by (simp add: UDnChannelNum_def upt_conv_Cons)
  then show ?thesis
    using assms
    by (auto simp: device_serial_init_def device_ex_serial_register_ops_def device_init_serial_def Let_def
        serial_ready_def config_ok_def serial_rlin3x_get_rx_intno_def serial_rlin3x_get_tx_intno_def split: if_splits)
qed

lemma ready_upd:
  "serial_ready S \<Longrightarrow> (\<And>d. sd_id (f d) = sd_id d \<and> sd_rx_intno (f d) = sd_rx_intno d \<and>
     sd_tx_intno (f d) = sd_tx_intno d \<and> sd_ops (f d) = sd_ops d) \<Longrightarrow> serial_ready (upd_serial i f S)"
  by (cases "i = 1") (simp_all add: serial_ready_def)

lemma ready_host: "serial_ready (S\<lparr>serial_host := h\<rparr>) = serial_ready S"
  by (simp add: serial_ready_def)

lemma ready_put: "serial_ready S \<Longrightarrow> put_region8 a v S = Some S' \<Longrightarrow> serial_ready S'"
  by (auto simp: put_region8_def rg_put8_some serial_ready_def)

lemma ready_putchar: "serial_ready S \<Longrightarrow> serial_putchar i S = Some S' \<Longrightarrow> serial_ready S'"
  by (auto simp: serial_putchar_def Let_def ready_host split: option.splits)

lemma ready_reset: "serial_ready S \<Longrightarrow> serial_change_mode_reset ch S = Some S' \<Longrightarrow> serial_ready S'"
  by (auto simp: serial_change_mode_reset_def intro!: ready_upd elim!: ready_put [rotated] split: option.splits)

lemma serial_put8_ready:
  assumes "serial_ready S" "serial_put_data8 a v S = Some S'"
  shows "serial_ready S'"
proof -
  obtain S1 where 1: "put_region8 a v S = Some S1" using assms(2) by (auto simp: serial_put_data8_def split: option.splits)
  have r: "serial_ready S1" by (rule ready_put [OF assms(1) 1])
  show ?thesis
    using assms(2) r unfolding serial_put_data8_def 1 option.case Let_def
    by (auto split: if_splits option.splits intro!: ready_upd
        elim!: ready_putchar [rotated] ready_reset [rotated] ready_put [OF r])
qed

lemma serial_put_ready:
  assumes "serial_ready S"
  shows "serial_put_data16 a v S = Some S' \<Longrightarrow> serial_ready S'"
    and "serial_put_data32 a w S = Some S' \<Longrightarrow> serial_ready S'"
  using assms
  by (auto simp: serial_put_data16_def serial_put_data32_def rg_put16_def rg_put32_def Let_def serial_ready_def
      split: option.splits if_splits)

lemma serial_send_some: "serial_ready S \<Longrightarrow> \<exists>is S'. serial_send 1 S = Some (is, S') \<and> serial_ready S'"
  by (auto simp: serial_send_def serial_flush_def serial_ready_def Let_def split: option.splits)

lemma serial_tick_some:
  assumes "serial_ready S"
  shows "\<exists>is S'. device_supply_clock_serial S = Some (is, S') \<and> serial_ready S'"
proof -
  obtain "is" S1 where 1: "serial_receive 1 S = Some (is, S1)" "serial_ready S1" using receive_keeps [OF assms] by blast
  then show ?thesis
    using serial_send_some [OF 1(2)] by (auto simp: device_supply_clock_serial_def device_do_serial_def)
qed

section \<open>The invariant and the total tick\<close>

lemma raise_ints_run:
  "intc_run (ev_mem E) (ev_lists E) (ev_cores E) s \<Longrightarrow>
   intc_run (ev_mem E) (ev_lists E) (ev_cores E) (raise_ints E is s)"
  by (induction "is" arbitrary: s) (simp_all add: raise_ints_def device_raise_int_def run_intr)

text \<open>One tick, whatever the switches and the clock: it returns, and the invariant holds again.\<close>

lemma tick_inv:
  fixes D :: "('h, 'u, 'x, 'b, 'm) DeviceState"
  assumes "dev_inv E D" "config_ok E c"
  shows "\<exists>d' D'. dev_inv E D' \<and> (ic_memory (ev_mem E) \<longrightarrow>
      intc_is_devsetting_tableref (ev_mem E) 0 (dv_intc D') = intc_is_devsetting_tableref (ev_mem E) 0 (dv_intc D)) \<and>
    device_supply_clock E psw (d, D) = tick_intc E (d', D')"
proof -
  let ?I = "\<lambda>D1 :: ('h, 'u, 'x, 'b, 'm) DeviceState. dev_inv E D1 \<and> (ic_memory (ev_mem E) \<longrightarrow>
      intc_is_devsetting_tableref (ev_mem E) 0 (dv_intc D1) = intc_is_devsetting_tableref (ev_mem E) 0 (dv_intc D))"
  let ?d = "d\<lparr>dc_min_intr_interval := max_interval E, dc_can_skip_clock := True\<rparr>"
  have 0: "?I (tick_digital E psw D)"
    using assms(1) by (auto simp: tick_digital_def dev_inv_def raise_ints_run raise_ints_tableref Let_def split: prod.split)
  have timer: "\<exists>e D2. tick_timer E (e0, D1) = Some (e, D2) \<and> ?I D2" if "?I D1" for e0 D1
    using that tick_timers [of "dv_timer D1" e0]
    by (auto simp: tick_timer_def dev_inv_def raise_ints_run raise_ints_tableref)
  have serial: "\<exists>e D2. tick_serial E (e0, D1) = Some (e, D2) \<and> ?I D2" if "?I D1" for e0 D1
    using that serial_tick_some [of "dv_serial D1"]
    by (auto simp: tick_serial_def dev_inv_def raise_ints_run raise_ints_tableref)
  have can: "\<exists>e D2. tick_can E (e0, D1) = Some (e, D2) \<and> ?I D2" if I: "?I D1" for e0 D1
  proof (cases "enable_mros_can E = 0")
    case False
    then have r: "can_run (ev_can E) (ev_bus E) (dv_can D1)" using I by (simp add: dev_inv_def)
    have fd: "ev_can_fd E \<noteq> 0" using assms(2) by (simp add: config_ok_def)
    obtain e S X "is" where t:
      "device_supply_clock_can (ev_can E) (ev_bus E) (ev_can_fd E) e0 (dv_can D1, dv_bus D1) = Some (e, (S, X), is)"
      using inv_clock [OF can_run_inv [OF r] fd, of "ev_can E" "ev_bus E" e0 "dv_bus D1"] by auto
    have "can_run (ev_can E) (ev_bus E) S" by (rule can_run.clock [OF r fd t])
    then show ?thesis
      using I False t by (auto simp: tick_can_def dev_inv_def raise_ints_run raise_ints_tableref)
  qed (use I in \<open>simp add: tick_can_def\<close>)
  obtain e1 D1 where 1: "tick_timer E (?d, tick_digital E psw D) = Some (e1, D1)" "?I D1" using timer [OF 0] by blast
  obtain e2 D2 where 2: "tick_serial E (e1, D1) = Some (e2, D2)" "?I D2" using serial [OF 1(2)] by blast
  obtain e3 D3 where 3: "tick_can E (e2, D2) = Some (e3, D3)" "?I D3" using can [OF 2(2)] by blast
  show ?thesis using 1 2 3 by (auto simp: device_supply_clock_def Let_def)
qed

lemma tick_intc_inv: "dev_inv E D \<Longrightarrow> tick_intc E (d, D) = Some (d', D') \<Longrightarrow> dev_inv E D'"
  by (auto simp: tick_intc_def dev_inv_def split: option.splits intro: run_clock)

lemma dev_run_inv:
  assumes "dev_run E c D" "config_ok E c"
  shows "dev_inv E D"
  using assms(1)
proof (induction rule: dev_run.induct)
  case (boot put g dD gd D)
  then show ?case
    using assms(2)
    by (auto simp: device_init_def dev_inv_def Let_def config_ok_def init_timers_ok serial_init_ready [OF assms(2)]
        split: prod.splits option.splits if_splits intro: run_init can_run.boot)
next
  case (reset D d d' D')
  then show ?case
    using assms(2)
    by (auto simp: device_reset_def dev_inv_def Let_def config_ok_def init_timers_ok serial_init_ready [OF assms(2)]
        split: option.splits intro: run_init)
next
  case (tick D psw d d' D')
  then show ?case using tick_inv [OF _ assms(2), of D psw d] tick_intc_inv by fastforce
next
  case (can D x)
  then show ?case by (simp add: dev_inv_def can_run.access)
qed (auto simp: dev_inv_def dest: timer_put_ok serial_put8_ready serial_put_ready)

lemma tick_total:
  assumes "dev_run E c D" "config_ok E c" "lists_ok (ev_lists E)" "ic_memory (ev_mem E)"
    "\<not> intc_is_devsetting_tableref (ev_mem E) 0 (dv_intc D)"
  shows "device_supply_clock E psw (d, D) \<noteq> None"
proof -
  obtain d' D' where t: "dev_inv E D'"
      "\<not> intc_is_devsetting_tableref (ev_mem E) 0 (dv_intc D')"
      "device_supply_clock E psw (d, D) = tick_intc E (d', D')"
    using tick_inv [OF dev_run_inv [OF assms(1,2)] assms(2), of psw d] assms(4,5) by auto
  have "intc_run (ev_mem E) (ev_lists E) (ev_cores E) (dv_intc D')" using t(1) by (simp add: dev_inv_def)
  from run_inv [OF this assms(3)] have "intc_cores_clock (ev_mem E) (ev_lists E) [0..<ev_cores E] (dv_intc D') \<noteq> None"
    by (rule cores_clock_some [OF _ assms(3,4) t(2)]) auto
  then show ?thesis using t(3) by (auto simp: tick_intc_def device_supply_clock_intc_def)
qed

end
