(* ===== verification/Dbg_Serial.thy ===== *)
theory Dbg_Serial
  imports Queue_Lib
begin

text \<open>
  The debugger's side of a serial channel, dbg_target_serial.c and dbg_target_serial_tcp.c: the
  ring of characters typed at the debugger, the two caches in front of the files a channel may be
  redirected to, and the transfer between a TCP connection and its queue.  The host's files, the
  queue and the connection are parameters.  \<open>None\<close> is a run that stops: \<^verbatim>\<open>exit(1)\<close> or undefined
  behaviour.
\<close>

section \<open>The ring of typed characters\<close>

definition DBG_SERIAL_CHANNEL_NUM :: u8 where "DBG_SERIAL_CHANNEL_NUM = 4"
definition DBG_SERIAL_BUFFER_SIZE :: u32 where "DBG_SERIAL_BUFFER_SIZE = 1024"

record DbgSerialFifoType =
  df_count :: u32
  df_write_off :: u32
  df_read_off :: u32
  df_buffer :: "nat \<Rightarrow> u8"

type_synonym dbg_fifos = "nat \<Rightarrow> DbgSerialFifoType"

definition dbg_serial_in :: "u8 \<Rightarrow> u8 \<Rightarrow> dbg_fifos \<Rightarrow> can_err \<times> dbg_fifos" where
  "dbg_serial_in channel v F =
     (if DBG_SERIAL_CHANNEL_NUM \<le> channel then (E_INVALID, F)
      else (let f = F (unat channel) in
            if DBG_SERIAL_BUFFER_SIZE \<le> df_count f then (E_LIMIT, F)
            else (let w = df_write_off f + 1;
                      f = \<lparr>df_count = df_count f + 1,
                           df_write_off = (if DBG_SERIAL_BUFFER_SIZE \<le> w then 0 else w),
                           df_read_off = df_read_off f,
                           df_buffer = (df_buffer f)(unat (df_write_off f) := v)\<rparr>
                  in (E_OK, F(unat channel := f)))))"

definition dbg_serial_getchar :: "u8 \<Rightarrow> dbg_fifos \<Rightarrow> u8 option \<times> dbg_fifos" where
  "dbg_serial_getchar channel F =
     (if DBG_SERIAL_CHANNEL_NUM \<le> channel then (None, F)
      else (let f = F (unat channel) in
            if df_count f = 0 then (None, F)
            else (let r = df_read_off f + 1
                  in (Some (df_buffer f (unat (df_read_off f))),
                      F(unat channel := f\<lparr>df_count := df_count f - 1,
                          df_read_off := (if DBG_SERIAL_BUFFER_SIZE \<le> r then 0 else r)\<rparr>)))))"

text \<open>The output goes to the debugger's standard output for channel 0 and to its error output
  for the others.\<close>

definition dbg_serial_putchar :: "u8 \<Rightarrow> u8 \<Rightarrow> u8 list \<times> u8 list \<Rightarrow> u8 list \<times> u8 list" where
  "dbg_serial_putchar channel v = (\<lambda>(out, err). if channel = 0 then (out @ [v], err) else (out, err @ [v]))"

section \<open>Files\<close>

text \<open>The host: the configured directory and the system calls; a failing call is a negative
  number in the code and \<open>None\<close> or \<open>False\<close> here.\<close>

record 'h file_host =
  h_path :: "'h \<Rightarrow> string option"
  h_open_w :: "string \<Rightarrow> 'h \<Rightarrow> int \<times> 'h"
  h_open_r :: "string \<Rightarrow> 'h \<Rightarrow> int \<times> 'h"
  h_fstat :: "int \<Rightarrow> 'h \<Rightarrow> int option"
  h_lseek :: "int \<Rightarrow> int \<Rightarrow> 'h \<Rightarrow> bool \<times> 'h"
  h_write :: "int \<Rightarrow> u8 list \<Rightarrow> 'h \<Rightarrow> nat option \<times> 'h"
  h_read :: "int \<Rightarrow> nat \<Rightarrow> 'h \<Rightarrow> u8 list option \<times> 'h"
  h_close :: "int \<Rightarrow> 'h \<Rightarrow> bool \<times> 'h"

record SerialFileType =
  sf_isset :: int
  sf_path :: string
  sf_fd :: int
  sf_off :: int

definition SERIAL_IN_FILENAME :: string where "SERIAL_IN_FILENAME = ''serial_out.txt''"
definition SERIAL_OUT_FILENAME :: string where "SERIAL_OUT_FILENAME = ''serial_in.txt''"

text \<open>A missing directory leaves the pointer the code measures unset; the path has 4096 bytes.\<close>

definition file_pathset :: "'h file_host \<Rightarrow> string \<Rightarrow> 'h \<Rightarrow> SerialFileType \<Rightarrow> SerialFileType option" where
  "file_pathset H filename h f =
     (if 0 \<le> sf_isset f then Some f
      else (case h_path H h of None \<Rightarrow> None
            | Some path \<Rightarrow>
                (let full = (if path = [] then filename else path @ ''/'' @ filename) in
                 if length full \<le> 4096 then Some (f\<lparr>sf_isset := 1, sf_path := full\<rparr>) else None)))"

definition my_file_open :: "'h file_host \<Rightarrow> (string \<Rightarrow> 'h \<Rightarrow> int \<times> 'h) \<Rightarrow> string \<Rightarrow> SerialFileType \<Rightarrow> 'h \<Rightarrow>
    (SerialFileType \<times> 'h) option" where
  "my_file_open H open_op filename f h =
     (if 0 \<le> sf_fd f then Some (f, h)
      else (case file_pathset H filename h f of None \<Rightarrow> None
            | Some f \<Rightarrow>
                (let (d, h) = open_op (sf_path f) h in
                 if d < 0 then None
                 else (case h_fstat H d h of None \<Rightarrow> None
                       | Some sz \<Rightarrow> Some (f\<lparr>sf_fd := d, sf_off := sz\<rparr>, h)))))"

definition my_file_wopen :: "'h file_host \<Rightarrow> SerialFileType \<Rightarrow> 'h \<Rightarrow> (SerialFileType \<times> 'h) option" where
  "my_file_wopen H = my_file_open H (h_open_w H) SERIAL_OUT_FILENAME"

definition my_file_ropen :: "'h file_host \<Rightarrow> SerialFileType \<Rightarrow> 'h \<Rightarrow> (SerialFileType \<times> 'h) option" where
  "my_file_ropen H = my_file_open H (h_open_r H) SERIAL_IN_FILENAME"

definition DBG_SERIAL_CACHE_BUFFER_SIZE :: nat where "DBG_SERIAL_CACHE_BUFFER_SIZE = 1024"

record DbgSerialCacheBufferType =
  cb_count :: u32
  cb_off :: u32
  cb_rcheck_count :: u32
  cb_wcheck_count :: u32
  cb_buffer :: "u8 list"

text \<open>Whether a flush goes to the file: never when nothing is cached; fewer than 128 bytes wait
  for 10000 calls.\<close>

definition flush_due :: "DbgSerialCacheBufferType \<Rightarrow> bool \<times> DbgSerialCacheBufferType" where
  "flush_due b =
     (if cb_count b = 0 then (False, b)
      else if cb_count b < 128
      then (let b = b\<lparr>cb_wcheck_count := cb_wcheck_count b + 1\<rparr> in
            if cb_wcheck_count b < 10000 then (False, b) else (True, b\<lparr>cb_wcheck_count := 0\<rparr>))
      else (True, b))"

definition file_cache_flush :: "'h file_host \<Rightarrow> DbgSerialCacheBufferType \<Rightarrow> SerialFileType \<Rightarrow> 'h \<Rightarrow>
    (DbgSerialCacheBufferType \<times> SerialFileType \<times> 'h) option" where
  "file_cache_flush H b w h =
     (let (due, b) = flush_due b in
      if \<not> due then Some (b, w, h)
      else (case my_file_wopen H w h of None \<Rightarrow> None
            | Some (w, h) \<Rightarrow>
               (if h_fstat H (sf_fd w) h = None then None
                else (let (ok, h) = h_lseek H (sf_fd w) (sf_off w) h in
                  if \<not> ok then None
                  else (let (n, h) = h_write H (sf_fd w) (take (unat (cb_count b)) (cb_buffer b)) h in
                    if n \<noteq> Some (unat (cb_count b)) then None
                    else (let b = b\<lparr>cb_count := 0, cb_off := 0\<rparr>;
                              (ok, h) = h_close H (sf_fd w) h
                          in if \<not> ok then None
                             else Some (b, w\<lparr>sf_off := sf_off w + 1, sf_fd := - 1\<rparr>, h)))))))"

definition file_cache_write :: "'h file_host \<Rightarrow> u8 \<Rightarrow> DbgSerialCacheBufferType \<Rightarrow> SerialFileType \<Rightarrow> 'h \<Rightarrow>
    (DbgSerialCacheBufferType \<times> SerialFileType \<times> 'h) option" where
  "file_cache_write H c b w h =
     (let off = cb_off b in
      case (if unat (cb_count b) = DBG_SERIAL_CACHE_BUFFER_SIZE then file_cache_flush H b w h
            else Some (b, w, h)) of
        None \<Rightarrow> None
      | Some (b, w, h) \<Rightarrow>
          if unat off < DBG_SERIAL_CACHE_BUFFER_SIZE
          then Some (b\<lparr>cb_buffer := (cb_buffer b)[unat off := c], cb_count := cb_count b + 1,
                        cb_off := cb_off b + 1\<rparr>, w, h)
          else None)"

definition file_cache_read :: "DbgSerialCacheBufferType \<Rightarrow> (u8 option \<times> DbgSerialCacheBufferType) option" where
  "file_cache_read b =
     (let off = cb_off b in
      if cb_count b = 0 then Some (None, b)
      else if unat off < DBG_SERIAL_CACHE_BUFFER_SIZE
      then Some (Some (cb_buffer b ! unat off), b\<lparr>cb_count := cb_count b - 1, cb_off := cb_off b + 1\<rparr>)
      else None)"

definition store_bytes :: "nat \<Rightarrow> u8 list \<Rightarrow> u8 list \<Rightarrow> u8 list" where
  "store_bytes off xs buf = take off buf @ xs @ drop (off + length xs) buf"

definition file_cache_load :: "'h file_host \<Rightarrow> DbgSerialCacheBufferType \<Rightarrow> SerialFileType \<Rightarrow> 'h \<Rightarrow>
    (can_err \<times> DbgSerialCacheBufferType \<times> SerialFileType \<times> 'h) option" where
  "file_cache_load H b r h =
     (if 0 < cb_count b then Some (E_OK, b, r, h)
      else (let b = b\<lparr>cb_rcheck_count := cb_rcheck_count b + 1\<rparr> in
        if cb_rcheck_count b < 100 then Some (E_NOENT, b, r, h)
        else (let b = b\<lparr>cb_rcheck_count := 0\<rparr> in
          case my_file_ropen H r h of None \<Rightarrow> None
          | Some (r, h) \<Rightarrow>
            (case h_fstat H (sf_fd r) h of None \<Rightarrow> None
             | Some sz \<Rightarrow>
               if sz \<le> sf_off r then Some (E_NOENT, b, r, h)
               else (let fread_size = sz - sf_off r;
                         (ok, h) = h_lseek H (sf_fd r) (sf_off r) h in
                 if \<not> ok then None
                 else (let b = (if DBG_SERIAL_CACHE_BUFFER_SIZE \<le> unat (cb_off b) then b\<lparr>cb_off := 0\<rparr> else b);
                           off = unat (cb_off b);
                           cache_size = DBG_SERIAL_CACHE_BUFFER_SIZE - off;
                           read_size = min (nat fread_size) cache_size in
                   if read_size = 0 then Some (E_NOENT, b, r, h)
                   else (case h_read H (sf_fd r) read_size h of
                           (None, h) \<Rightarrow> None
                         | (Some xs, h) \<Rightarrow>
                             if xs = [] then None
                             else Some (E_OK, b\<lparr>cb_buffer := store_bytes off xs (cb_buffer b),
                                    cb_count := cb_count b + of_nat (length xs)\<rparr>,
                                  r\<lparr>sf_off := sf_off r + int (length xs)\<rparr>, h))))))))"

text \<open>The two files serve all channels, each channel has its own caches.\<close>

record SerialFiles =
  in_file :: SerialFileType
  out_file :: SerialFileType
  write_cache :: "nat \<Rightarrow> DbgSerialCacheBufferType"
  read_cache :: "nat \<Rightarrow> DbgSerialCacheBufferType"

definition dbg_serial_getchar_file :: "u8 \<Rightarrow> SerialFiles \<Rightarrow> (u8 option \<times> SerialFiles) option" where
  "dbg_serial_getchar_file channel S =
     (if channel < DBG_SERIAL_CHANNEL_NUM
      then map_option (\<lambda>(c, b). (c, S\<lparr>read_cache := (read_cache S)(unat channel := b)\<rparr>))
             (file_cache_read (read_cache S (unat channel)))
      else None)"

definition dbg_serial_putchar_file :: "'h file_host \<Rightarrow> u8 \<Rightarrow> u8 \<Rightarrow> SerialFiles \<Rightarrow> 'h \<Rightarrow>
    (SerialFiles \<times> 'h) option" where
  "dbg_serial_putchar_file H channel c S h =
     (if channel < DBG_SERIAL_CHANNEL_NUM
      then map_option (\<lambda>(b, w, h). (S\<lparr>write_cache := (write_cache S)(unat channel := b), out_file := w\<rparr>, h))
             (file_cache_write H c (write_cache S (unat channel)) (out_file S) h)
      else None)"

definition dbg_serial_flush_file :: "'h file_host \<Rightarrow> u8 \<Rightarrow> SerialFiles \<Rightarrow> 'h \<Rightarrow>
    (SerialFiles \<times> 'h) option" where
  "dbg_serial_flush_file H channel S h =
     (if channel < DBG_SERIAL_CHANNEL_NUM
      then (case file_cache_flush H (write_cache S (unat channel)) (out_file S) h of None \<Rightarrow> None
            | Some (b, w, h) \<Rightarrow>
               (let S = S\<lparr>write_cache := (write_cache S)(unat channel := b), out_file := w\<rparr> in
                case file_cache_load H (read_cache S (unat channel)) (in_file S) h of None \<Rightarrow> None
                | Some (_, b, r, h) \<Rightarrow>
                    Some (S\<lparr>read_cache := (read_cache S)(unat channel := b), in_file := r\<rparr>, h)))
      else None)"

section \<open>TCP\<close>

text \<open>
  \<open>add\<close> is the queue's \<^verbatim>\<open>comm_fifo_buffer_add\<close>: it is offered bytes and says whether it succeeded and
  how many it took.  The loop that hands over what a receive delivered offers the whole size again
  after a partial success, from the new offset: bytes of the receive buffer behind the message, \<open>None\<close>
  where that leaves the buffer.  The loop may not end, so it has fuel.
\<close>

fun dbg_serial_do_transfer :: "(u8 list \<Rightarrow> 'q \<Rightarrow> nat \<times> 'q) \<Rightarrow> nat \<Rightarrow> u8 list \<Rightarrow> nat \<Rightarrow> nat \<Rightarrow> 'q \<Rightarrow> 'q option" where
  "dbg_serial_do_transfer add 0 buf sz off q = None"
| "dbg_serial_do_transfer add (Suc fuel) buf sz off q =
     (if length buf < off + sz then None
      else (let (res, q) = add (take sz (drop off buf)) q;
                off = off + res
            in if off < sz then dbg_serial_do_transfer add fuel buf sz off q else Some q))"

text \<open>Reading skips carriage returns; \<open>get\<close> takes one byte out of the queue, \<open>None\<close> when it is
  empty.\<close>

partial_function (option) dbg_serial_getchar_tcp :: "('q \<Rightarrow> u8 option \<times> 'q) \<Rightarrow> 'q \<Rightarrow> (u8 option \<times> 'q) option" where
  "dbg_serial_getchar_tcp get q =
     (case get q of
        (None, q) \<Rightarrow> Some (None, q)
      | (Some c, q) \<Rightarrow> if c = 13 then dbg_serial_getchar_tcp get q else Some (Some c, q))"

definition dbg_serial_putchar_tcp :: "bool \<Rightarrow> (u8 \<Rightarrow> 'x \<Rightarrow> bool \<times> 'x) \<Rightarrow> u8 \<Rightarrow> 'x \<Rightarrow> bool \<times> 'x" where
  "dbg_serial_putchar_tcp connected send v x = (if connected then send v x else (False, x))"

end
