(* ===== verification/Dbg_Queue.thy ===== *)
theory Dbg_Queue
  imports Dbg_Serial Can_Queues
begin

text \<open>
  The ring of characters typed at the debugger implements the bounded queue.
\<close>

definition dbg_control :: "DbgSerialFifoType \<Rightarrow> CanFifoControlType" where
  "dbg_control f = \<lparr>fc_count = df_count f, fc_roff = df_read_off f, fc_woff = df_write_off f\<rparr>"

definition dbg_ok :: "u8 \<Rightarrow> dbg_fifos \<Rightarrow> bool" where
  "dbg_ok ch F \<longleftrightarrow> ch < DBG_SERIAL_CHANNEL_NUM \<and> ring_ok DBG_SERIAL_BUFFER_SIZE (dbg_control (F (unat ch)))"

definition dbg_abs :: "u8 \<Rightarrow> dbg_fifos \<Rightarrow> u8 list" where
  "dbg_abs ch F = ring_list (\<lambda>b i. b i) DBG_SERIAL_BUFFER_SIZE (df_buffer (F (unat ch))) (dbg_control (F (unat ch)))"

definition dbg_step :: "u8 \<Rightarrow> u8 queue_op \<Rightarrow> dbg_fifos \<Rightarrow> u8 queue_res \<times> dbg_fifos" where
  "dbg_step ch q F = (case q of
     Q_put v \<Rightarrow> (let (e, F) = dbg_serial_in ch v F in ((e, None), F))
   | Q_get \<Rightarrow> (let (r, F) = dbg_serial_getchar ch F in ((if r = None then E_NOENT else E_OK, r), F))
   | _ \<Rightarrow> ((E_INVALID, None), F))"

fun dbg_sup :: "u8 queue_op \<Rightarrow> bool" where
  "dbg_sup (Q_put _) = True"
| "dbg_sup Q_get = True"
| "dbg_sup _ = False"

lemma dbg_put:
  assumes "dbg_ok ch F"
  shows "dbg_serial_in ch v F = (if DBG_SERIAL_BUFFER_SIZE \<le> fc_count (dbg_control (F (unat ch))) then (E_LIMIT, F)
    else (E_OK, F(unat ch := \<lparr>df_count = fc_count (fifo_step_put DBG_SERIAL_BUFFER_SIZE (dbg_control (F (unat ch)))),
      df_write_off = fc_woff (fifo_step_put DBG_SERIAL_BUFFER_SIZE (dbg_control (F (unat ch)))),
      df_read_off = df_read_off (F (unat ch)),
      df_buffer = (df_buffer (F (unat ch)))(unat (fc_woff (dbg_control (F (unat ch)))) := v)\<rparr>)))"
  using assms by (simp add: dbg_serial_in_def dbg_ok_def dbg_control_def fifo_step_put_def Let_def linorder_not_le [symmetric])

lemma dbg_get:
  assumes "dbg_ok ch F"
  shows "dbg_serial_getchar ch F = (if fc_count (dbg_control (F (unat ch))) = 0 then (None, F)
    else (Some (df_buffer (F (unat ch)) (unat (fc_roff (dbg_control (F (unat ch)))))),
      F(unat ch := (F (unat ch))\<lparr>
        df_count := fc_count (fifo_step_next DBG_SERIAL_BUFFER_SIZE (dbg_control (F (unat ch)))),
        df_read_off := fc_roff (fifo_step_next DBG_SERIAL_BUFFER_SIZE (dbg_control (F (unat ch))))\<rparr>)))"
  using assms by (simp add: dbg_serial_getchar_def dbg_ok_def dbg_control_def fifo_step_next_def Let_def linorder_not_le [symmetric])

lemma dbg_queue:
  assumes "dbg_ok ch F" "dbg_sup q" "dbg_step ch q F = (r, F')"
  shows "q_step 1024 q (dbg_abs ch F) = (r, dbg_abs ch F') \<and> dbg_ok ch F'"
proof -
  let ?n = DBG_SERIAL_BUFFER_SIZE and ?f = "F (unat ch)"
  let ?c = "dbg_control ?f"
  have n: "unat ?n = 1024" by (simp add: DBG_SERIAL_BUFFER_SIZE_def)
  have ok: "ring_ok ?n ?c" "ch < DBG_SERIAL_CHANNEL_NUM" using assms(1) by (auto simp: dbg_ok_def)
  have len: "(length (dbg_abs ch F) < 1024) = (\<not> ?n \<le> fc_count ?c)"
    using n by (simp add: dbg_abs_def word_le_nat_alt not_le)
  show ?thesis
  proof (cases q)
    case (Q_put v)
    show ?thesis
    proof (cases "?n \<le> fc_count ?c")
      case False
      have p: "ring_ok ?n (fifo_step_put ?n ?c)" by (rule ring_put_ok [OF ok(1) False])
      have l: "ring_list (\<lambda>b i. b i) ?n ((df_buffer ?f)(unat (fc_woff ?c) := v)) (fifo_step_put ?n ?c) =
          dbg_abs ch F @ [v]"
        unfolding dbg_abs_def by (rule plain_store.list_put [OF ok(1) False order_refl])
      have F': "r = (E_OK, None)" "dbg_control (F' (unat ch)) = fifo_step_put ?n ?c"
          "df_buffer (F' (unat ch)) = (df_buffer ?f)(unat (fc_woff ?c) := v)"
        using assms(3) False Q_put dbg_put [OF assms(1), of v]
        by (auto simp: dbg_step_def dbg_control_def fifo_step_put_def)
      then show ?thesis using False Q_put len p l ok(2) by (simp add: dbg_ok_def dbg_abs_def)
    qed (use assms(1,3) Q_put dbg_put [OF assms(1), of v] len in \<open>auto simp: dbg_step_def\<close>)
  next
    case Q_get
    show ?thesis
    proof (cases "fc_count ?c = 0")
      case True
      then have "dbg_abs ch F = []" by (simp add: dbg_abs_def ring_empty_iff)
      then show ?thesis using assms(1,3) Q_get True dbg_get [OF assms(1)] by (auto simp: dbg_step_def)
    next
      case False
      have p: "ring_ok ?n (fifo_step_next ?n ?c)" by (rule ring_next_ok [OF ok(1) False])
      have l: "dbg_abs ch F = df_buffer ?f (unat (fc_roff ?c)) #
          ring_list (\<lambda>b i. b i) ?n (df_buffer ?f) (fifo_step_next ?n ?c)"
        unfolding dbg_abs_def by (rule plain_store.list_next [OF ok(1) False])
      have F': "r = (E_OK, Some (df_buffer ?f (unat (fc_roff ?c))))"
          "dbg_control (F' (unat ch)) = fifo_step_next ?n ?c" "df_buffer (F' (unat ch)) = df_buffer ?f"
        using assms(3) False Q_get dbg_get [OF assms(1)]
        by (auto simp: dbg_step_def dbg_control_def fifo_step_next_def)
      have "dbg_abs ch F' = ring_list (\<lambda>b i. b i) ?n (df_buffer ?f) (fifo_step_next ?n ?c)"
        using F' by (simp add: dbg_abs_def)
      then show ?thesis unfolding l Q_get using F' p ok(2) by (simp add: dbg_ok_def)
    qed
  qed (use assms(2) in auto)
qed

interpretation dbgq: queue_impl "dbg_step ch" dbg_sup "dbg_ok ch" "dbg_abs ch" "\<lambda>_. 1024"
  for ch
  by unfold_locales (auto dest: dbg_queue)

lemma dbg_start_ok: "ch < DBG_SERIAL_CHANNEL_NUM \<Longrightarrow>
    df_count (F (unat ch)) = 0 \<Longrightarrow> df_read_off (F (unat ch)) = 0 \<Longrightarrow> df_write_off (F (unat ch)) = 0 \<Longrightarrow>
    dbg_ok ch F \<and> dbg_abs ch F = []"
  by (simp add: dbg_ok_def dbg_abs_def dbg_control_def ring_ok_def ring_list_def DBG_SERIAL_BUFFER_SIZE_def)

text \<open>
  The transfer of a message of \<open>sz\<close> bytes needs no more than \<open>sz\<close> rounds when the queue takes at least
  one byte each time and the receive buffer is twice as long.
\<close>

lemma transfer_returns:
  assumes "\<And>bs q. bs \<noteq> [] \<Longrightarrow> 0 < fst (add bs q) \<and> fst (add bs q) \<le> length bs"
    and "2 * sz \<le> length buf" and "off < sz" and "sz - off \<le> fuel"
  shows "\<exists>q'. dbg_serial_do_transfer add fuel buf sz off q = Some q'"
  using assms(3,4)
proof (induction fuel arbitrary: off q)
  case (Suc fuel)
  let ?bs = "take sz (drop off buf)"
  obtain res q1 where a: "add ?bs q = (res, q1)" by fastforce
  have "length ?bs = sz" using Suc.prems(1) assms(2) by simp
  then have "0 < res" using assms(1) [of ?bs q] a Suc.prems(1) by auto
  moreover have "off + sz \<le> length buf" using Suc.prems(1) assms(2) by linarith
  ultimately show ?case using Suc.IH [of "off + res" q1] Suc.prems a by (simp add: Let_def)
qed simp

end
