(* ===== verification/Device_Props.thy ===== *)
theory Device_Props
  imports Device_Inv Can_Props Dbg_Queue
begin

text \<open>
  Properties of the peripherals and of the scheduler: the tick of the composed devices returns, the
  ticks a halted processor skips, the period of a timer, the life of a serial transmission, the
  interrupt numbers shared between the cores, and the debugger's end of a serial channel.
\<close>

section \<open>A sample machine\<close>

lemma and_all32: "x AND 4294967295 = (x :: u32)"
proof -
  have "(4294967295 :: u32) = - 1" by simp
  then show ?thesis by (simp only: and.right_neutral)
qed

lemma reg_memory_ic: "ic_memory reg_memory"
proof -
  have ev: "even (IC_ADDRESS n)" for n by (simp add: IC_ADDRESS_def)
  have ne: "a \<noteq> b + 1" if "even a" "even b" for a b :: u32 using that by auto
  have "mem_read16 (mem_write16 (IC_ADDRESS n) v m) (IC_ADDRESS 0) =
      (if IC_ADDRESS n = IC_ADDRESS 0 then v else mem_read16 m (IC_ADDRESS 0))" for n v m
    using ne [OF ev ev, of 0 n] ne [OF ev ev, of n 0]
    by (simp add: mem_write16_other mem_read_write eq_commute [of _ "IC_ADDRESS n"])
  then show ?thesis by (simp add: ic_memory_def Let_def)
qed

text \<open>A machine with one core, the CAN controller on, and a console that never has input.\<close>

definition sample_machine :: "((nat \<Rightarrow> CanRxBufferType) \<times> (nat \<Rightarrow> CanTxBufferType), CanDataType list, nat \<Rightarrow> memory) DeviceEnv" where
  "sample_machine = \<lparr>ev_mem = reg_memory, ev_lists = sample_lists, ev_cores = 1, ev_can = sample_env,
     ev_bus = sample_bus, ev_can_fd = 50000, enable_mros_can = 1, max_interval = 1000\<rparr>"

definition sample_console :: "u8 list DeviceExSerialOpType" where
  "sample_console = \<lparr>op_getchar = (\<lambda>_ h. (None, h)), op_putchar = (\<lambda>_ v h. h @ [v]), op_flush = None\<rparr>"

definition sample_config :: "u8 list DeviceConfig" where
  "sample_config = \<lparr>cfg_timer_fd = None, cfg_send_time = None, cfg_recv_time = None,
     cfg_region = \<lparr>rg_start = 0xffce2000, rg_mask = 0xFFFFFFFF, rg_data = replicate 0x180 0\<rparr>,
     cfg_ops = sample_console\<rparr>"

definition sample_off :: "(u8 list, (nat \<Rightarrow> CanRxBufferType) \<times> (nat \<Rightarrow> CanTxBufferType), CanDataType list, memory, nat \<Rightarrow> memory) DeviceState" where
  "sample_off = \<lparr>dv_digital = 0,
     dv_timer = (\<lambda>_ _. \<lparr>tm_cnt = 0, tm_reg_cnt = 0, tm_state = TIMER_STATE_STOP, tm_mode = TIMER_MODE_INTERVAL,
        tm_compare0 = 0, tm_compare0_intno = 0, tm_start_clock = 0, tm_fd = 1\<rparr>),
     dv_serial = \<lparr>SerialDevice = (\<lambda>_. \<lparr>sd_received_counter = 0, sd_id = 0, sd_rx_intno = 0, sd_tx_intno = 0,
          sd_send_counter = 0, sd_is_send_data = False, sd_send_data = 0, sd_ops = None, sd_start_clock = 0,
          sd_is_send_enable = False, sd_is_read_enable = False, sd_is_reset_mode = False,
          sd_is_send_start_intr = False, sd_is_sending = False, sd_is_receiving = False\<rparr>),
        serial_region = cfg_region sample_config, serial_send_time = 100, serial_receiv_time = 100,
        serial_host = []\<rparr>,
     dv_can = can_zero sample_env, dv_bus = [], dv_intc = sample_boot\<rparr>"

definition sample_on :: "(u8 list, (nat \<Rightarrow> CanRxBufferType) \<times> (nat \<Rightarrow> CanTxBufferType), CanDataType list, memory, nat \<Rightarrow> memory) DeviceState" where
  "sample_on = (snd (the (device_init sample_machine sample_config (\<lambda>_ _ g. g) (\<lambda>_. can_boot sample_env)
     (icmem sample_boot) (sample_clock, sample_off))))\<lparr>dv_intc := sample_ready\<rparr>"

lemma device_init_some: "device_init E c put init_can g dD \<noteq> None"
  by (simp add: device_init_def device_serial_init_def device_ex_serial_register_ops_def UDnChannelNum_def
      Let_def split: prod.split)

lemma sample_on_run: "dev_run sample_machine sample_config sample_on"
proof -
  obtain x where x: "device_init sample_machine sample_config (\<lambda>_ _ g. g) (\<lambda>_. can_boot sample_env) (icmem sample_boot)
      (sample_clock, sample_off) = Some x"
    using device_init_some [of sample_machine sample_config "\<lambda>_ _ g. g" "\<lambda>_. can_boot sample_env"
        "icmem sample_boot" "(sample_clock, sample_off)"] by auto
  have "dev_run sample_machine sample_config (snd x)"
    by (rule dev_run.boot [of _ _ "\<lambda>_ _ g. g" "icmem sample_boot" "(sample_clock, sample_off)" "fst x"])
      (use x in \<open>simp add: sample_machine_def\<close>)
  then show ?thesis
    unfolding sample_on_def x option.sel
    by (rule dev_run.intc) (use run_ready [of sample_lists] in \<open>simp add: sample_machine_def\<close>)
qed

lemma sample_config_ok: "config_ok sample_machine sample_config"
  by (simp add: config_ok_def sample_machine_def sample_config_def)

section \<open>The scheduler\<close>




definition sample_timer :: TimerDeviceType where
  "sample_timer = \<lparr>tm_cnt = 0, tm_reg_cnt = 0, tm_state = TIMER_STATE_RUNNING, tm_mode = TIMER_MODE_INTERVAL,
     tm_compare0 = 3, tm_compare0_intno = 80, tm_start_clock = 20, tm_fd = 10\<rparr>"

definition sample_timers :: timer_table where
  "sample_timers n ch = (if ch = 0 then sample_timer else sample_timer\<lparr>tm_state := TIMER_STATE_STOP\<rparr>)"


text \<open>
  C23: An interval timer interrupts for ever, once every \<open>compare + 1\<close> periods of its divider.  With
  the other channel stopped, a timer of compare value \<open>n > 0\<close> and divider \<open>f > 0\<close> that runs since a
  clock that is a multiple of \<open>f\<close> raises its own interrupt exactly \<open>m\<close> times in the next
  \<open>m * (n + 1) * f\<close> ticks, for every \<open>m\<close> whose ticks do not overflow the clock.
\<close>
lemma timer_period:
  assumes "alone T" "runs_from t (dc_clock d) (T 0 0)" "unat (dc_clock d) mod unat (tm_fd t) = 0"
    "tm_fd t \<noteq> 0" "tm_compare0 t \<noteq> 0"
    "unat (dc_clock d) + m * ((unat (tm_compare0 t) + 1) * unat (tm_fd t)) < 2 ^ 64"
  shows "\<exists>T'. supply_timers (m * ((unat (tm_compare0 t) + 1) * unat (tm_fd t))) d T =
    Some (replicate m (ucast (tm_compare0_intno t)), T')"
  by (rule periods [OF assms])

lemma timer_period_witness:
  "\<exists>T'. supply_timers 200 (sample_clock\<lparr>dc_clock := 20\<rparr>) sample_timers = Some (replicate 5 80, T')"
  using timer_period [of sample_timers sample_timer "sample_clock\<lparr>dc_clock := 20\<rparr>" 5]
  by (simp add: alone_def runs_from_def counting_def sample_timers_def sample_timer_def)

text \<open>
  The start register starts one channel.  A byte written to it makes the first channel whose bit
  is set wait for its start and leaves every other timer alone, whatever bits are set with it; the
  documentation of the register gives each channel its bit.
\<close>
lemma timer_start_first_channel:
  assumes "rg_mask r = 0xFFFFFFFF" "rg_off r (TAUJTS 0) < length (rg_data r)" "bit v 0"
  shows "\<exists>r'. timer_put_data8 r (TAUJTS 0) v T = Some (r', upd_timer 0 0 ((T 0 0)\<lparr>tm_state := TIMER_STATE_READY\<rparr>) T)"
proof -
  have "bit (ucast v :: u32) 0" using assms(3) by (simp add: bit_ucast_iff)
  then have "(ucast v :: u32) AND 1 \<noteq> 0" by (simp add: bit_0 and_one_eq mod2_eq_if)
  then show ?thesis
    using assms by (simp add: timer_put_data8_def and_all32 rg_put8_def TAUJ_UNIT_NUM_def TAUJ_CH_NUM_def upt_conv_Cons
        first_channel_def set_timer_state_def Let_def)
qed

text \<open>A timer that waits for its start offers the interval of its previous run: here a halted processor
  may skip 995 ticks and so the clock 10, at which the timer would start.\<close>

lemma waiting_timer_start_skipped:
  "\<exists>t d'. INLINE_device_supply_clock_timer (sample_clock\<lparr>dc_clock := 5, dc_is_halt := True\<rparr>)
      (sample_timer\<lparr>tm_state := TIMER_STATE_READY, tm_start_clock := 0, tm_compare0 := 100\<rparr>) = Some ([], t, d') \<and>
     tm_state t = TIMER_STATE_READY \<and> dc_min_intr_interval d' = 995"
  by (simp add: INLINE_device_supply_clock_timer_def sample_clock_def sample_timer_def Let_def
      device_timer_do_calc_min_interval_def)

section \<open>Serial channels\<close>


definition sample_serial :: "u8 list SerialState" where
  "sample_serial = upd_serial 1 (\<lambda>d. d\<lparr>sd_is_send_enable := True\<rparr>)
     (the (device_serial_init sample_config (dv_serial sample_off)))"

lemma sample_serial_facts:
  "serial_ready sample_serial" "sd_ops (SerialDevice sample_serial 1) = Some sample_console"
  "sd_is_send_enable (SerialDevice sample_serial 1)" "\<not> sd_is_sending (SerialDevice sample_serial 1)"
  "sd_send_counter (SerialDevice sample_serial 1) = 0" "serial_send_time sample_serial = 100"
  "serial_host sample_serial = []"
proof -
  have u: "[0..<UDnChannelNum] = [0, 1, 2, 3]" by (simp add: UDnChannelNum_def upt_conv_Cons)
  obtain S where S: "device_serial_init sample_config (dv_serial sample_off) = Some S"
    by (simp add: device_serial_init_def device_ex_serial_register_ops_def UDnChannelNum_def)
  have f: "sd_ops (SerialDevice S 1) = Some sample_console" "\<not> sd_is_sending (SerialDevice S 1)"
      "sd_send_counter (SerialDevice S 1) = 0" "serial_send_time S = 100" "serial_host S = []"
    using S by (auto simp: device_serial_init_def device_ex_serial_register_ops_def device_init_serial_def Let_def u
        sample_config_def sample_off_def split: if_splits)
  show "serial_ready sample_serial" "sd_ops (SerialDevice sample_serial 1) = Some sample_console"
    "sd_is_send_enable (SerialDevice sample_serial 1)" "\<not> sd_is_sending (SerialDevice sample_serial 1)"
    "sd_send_counter (SerialDevice sample_serial 1) = 0" "serial_send_time sample_serial = 100"
    "serial_host sample_serial = []"
    using serial_init_ready [OF sample_config_ok S] f by (auto simp: sample_serial_def S intro: ready_upd)
qed


lemma timer_start_first_channel_witness:
  "\<exists>r'. timer_put_data8 \<lparr>rg_start = 0xffe50000, rg_mask = 0xFFFFFFFF, rg_data = replicate 0x1100 0\<rparr> (TAUJTS 0) 3
     sample_timers = Some (r', upd_timer 0 0 (sample_timer\<lparr>tm_state := TIMER_STATE_READY\<rparr>) sample_timers)"
  using timer_start_first_channel [of "\<lparr>rg_start = 0xffe50000, rg_mask = 0xFFFFFFFF, rg_data = replicate 0x1100 0\<rparr>" 3
      sample_timers]
  by (simp add: rg_off_def TAUJTS_def TAUJ_BASE_def sample_timers_def bit_0)

text \<open>
  The status register of a channel shows one bit for both directions.  Reading it gives 1 while
  the channel sends or receives and 0 otherwise; bits 4 and 5, where the header places the two
  states, are never set.
\<close>
lemma serial_status_bits:
  assumes "unat ch < UDnChannelNum"
  shows "serial_get_data8 (RLIN3xLST ch) S = Some (if sd_is_receiving (SerialDevice S (unat ch)) \<or>
    sd_is_sending (SerialDevice S (unat ch)) then 1 else 0)"
proof -
  have "ch \<in> {0, 1, 2, 3}" using assms by (auto simp: UDnChannelNum_def word_unat_eq_iff)
  then have "RLIN_GET_CHANNEL (RLIN3xLST ch) = ch"
    by (auto simp: RLIN_GET_CHANNEL_def RLIN3xLST_def RLIN3x_def)
  then show ?thesis using assms by (simp add: serial_get_data8_def RLIN3x_LST_def)
qed

lemma serial_status_bits_witness: "serial_get_data8 (RLIN3xLST 1) sample_serial = Some 0 \<or>
    serial_get_data8 (RLIN3xLST 1) sample_serial = Some 1"
  using serial_status_bits [of 1 sample_serial] by (simp add: UDnChannelNum_def)

section \<open>Interrupts for two cores\<close>

text \<open>
  C25: An interrupt of a device reaches the first core only.  On a machine with two cores the request
  is queued for core 0, and the request flag this sets, which is read through core 0 for every core,
  makes the controller skip core 1: its queue is untouched.
\<close>
lemma intr_reaches_one_core:
  fixes s :: "('b, 'm) IntcState" and i :: u16
  assumes "\<And>v m. device_get_data16 M (IC_ADDRESS (ucast i)) (ptr_put16 M 0 (IC_ADDRESS (ucast i)) v m) = v"
  shows "device_raise_int M L 2 i s = common_raise_user_intr M L (ucast i) 0 s \<and>
    intc_control (device_raise_int M L 2 i s) 1 = intc_control s 1 \<and>
    intc_isset_user_intr_reqflag M (ucast i) (device_raise_int M L 2 i s)"
proof -
  let ?s = "common_raise_user_intr M L (ucast i) 0 s"
  have "IC_ISSET_INTREQ (IC_SET_INTREQ v)" for v
    using and_exp_eq_0_iff_not_bit [of "IC_SET_INTREQ v" 12]
    by (simp add: IC_ISSET_INTREQ_def IC_SET_INTREQ_def bit_or_iff bit_push_bit_iff bit_1_iff bit_numeral_rec)
  then have f: "intc_isset_user_intr_reqflag M (ucast i) ?s"
    by (simp add: common_raise_user_intr_def intc_isset_user_intr_reqflag_def intc_set_user_intr_reqflag_def
        Let_def assms)
  moreover have "intc_control ?s 1 = intc_control s 1"
    by (simp add: common_raise_user_intr_def intc_set_user_intr_reqflag_def upd_ctrl_def Let_def)
  moreover have "[0..<2] = [0, Suc 0]" by (simp add: upt_conv_Cons)
  ultimately show ?thesis
    by (simp add: device_raise_int_def intc_raise_intr_def)
      (simp add: common_raise_user_intr_def [of _ _ _ "Suc 0"])
qed

lemma intr_reaches_one_core_witness:
  "intc_control (device_raise_int reg_memory sample_lists 2 80 sample_ready) 1 = intc_control sample_ready 1"
  by (rule intr_reaches_one_core [THEN conjunct2, THEN conjunct1]) (simp add: mem_read_write)

section \<open>The debugger's end\<close>

text \<open>
  C26: Characters typed at the debugger reach the guest in order and none is lost.  On any sequence of
  typed characters and reads of a channel the ring gives the results of a list of at most 1024
  characters: the same error when it is full, the same characters; what is read, with what is still
  waiting, is what was waiting and accepted, in that order.
\<close>
lemma typed_characters_in_order:
  assumes "dbg_ok ch F" "\<forall>x \<in> set xs. dbg_sup x" "run_ops (dbg_step ch) xs F = (rs, F')"
  shows "run_ops (q_step 1024) xs (dbg_abs ch F) = (rs, dbg_abs ch F') \<and>
    dbg_abs ch F @ accepted xs rs = taken xs rs @ dbg_abs ch F'"
proof -
  have r: "run_ops (q_step 1024) xs (dbg_abs ch F) = (rs, dbg_abs ch F')"
    using dbgq.run_simulates [OF assms] by simp
  have "Q_next \<notin> set xs" using assms(2) by auto
  from q_run_fifo [OF this r] r show ?thesis by simp
qed

lemma typed_characters_in_order_witness:
  "\<exists>rs F'. run_ops (dbg_step 1) [Q_put 65, Q_put 66, Q_get]
     (\<lambda>_. \<lparr>df_count = 0, df_write_off = 0, df_read_off = 0, df_buffer = \<lambda>_. 0\<rparr>) = (rs, F') \<and>
     rs = [(E_OK, None), (E_OK, None), (E_OK, Some 65)] \<and> dbg_abs 1 F' = [66]"
proof -
  let ?F = "\<lambda>_ :: nat. \<lparr>df_count = 0, df_write_off = 0, df_read_off = 0, df_buffer = \<lambda>_ :: nat. 0 :: u8\<rparr>"
  obtain rs F' where r: "run_ops (dbg_step 1) [Q_put 65, Q_put 66, Q_get] ?F = (rs, F')" by fastforce
  have ok: "dbg_ok 1 ?F" "dbg_abs 1 ?F = []"
    using dbg_start_ok [of 1 ?F] by (simp_all add: DBG_SERIAL_CHANNEL_NUM_def)
  show ?thesis using typed_characters_in_order [OF ok(1) _ r] r by (simp add: ok(2))
qed

definition pop_queue :: "u8 list \<Rightarrow> u8 option \<times> u8 list" where
  "pop_queue xs = (case xs of [] \<Rightarrow> (None, []) | x # xs \<Rightarrow> (Some x, xs))"

text \<open>
  C28: Reading a character from a TCP connection ends.  For a queue that holds any list of bytes the
  loop returns the first byte that is not a carriage return, or nothing when there is none, and
  leaves the bytes behind it.
\<close>
lemma getchar_tcp_ends:
  "dbg_serial_getchar_tcp pop_queue xs = Some (pop_queue (dropWhile (\<lambda>c. c = 13) xs))"
  by (induction xs) (simp_all add: pop_queue_def dbg_serial_getchar_tcp.simps)

primrec cache_writes :: "'h file_host \<Rightarrow> u8 list \<Rightarrow> DbgSerialCacheBufferType \<Rightarrow> SerialFileType \<Rightarrow> 'h \<Rightarrow>
    (DbgSerialCacheBufferType \<times> SerialFileType \<times> 'h) option" where
  "cache_writes H [] b w h = Some (b, w, h)"
| "cache_writes H (c # cs) b w h =
     (case file_cache_write H c b w h of None \<Rightarrow> None | Some (b, w, h) \<Rightarrow> cache_writes H cs b w h)"

lemma cache_fills:
  assumes "cb_count b = of_nat k" "cb_off b = of_nat k" "k + length cs \<le> 1024"
  shows "\<exists>b'. cache_writes H cs b w h = Some (b', w, h) \<and> cb_count b' = of_nat (k + length cs) \<and>
    cb_off b' = of_nat (k + length cs)"
  using assms
proof (induction cs arbitrary: b k)
  case (Cons c cs)
  have u: "unat (of_nat k :: u32) = k" "k < 1024" using Cons.prems(3) by (simp_all add: unsigned_of_nat take_bit_eq_mod)
  have e: "(of_nat k :: u32) + 1 = of_nat (Suc k)" by simp
  obtain b1 where b1: "file_cache_write H c b w h = Some (b1, w, h)" "cb_count b1 = of_nat (Suc k)"
      "cb_off b1 = of_nat (Suc k)"
    using Cons.prems(1,2) u by (simp add: file_cache_write_def DBG_SERIAL_CACHE_BUFFER_SIZE_def e del: of_nat_Suc)
  show ?case using Cons.IH [OF b1(2,3)] Cons.prems(3) b1(1) by simp
qed simp

text \<open>
  C27: The write cache overruns.  From an empty cache 1024 bytes are kept without touching the file;
  the next write flushes the cache but stores its byte at the offset taken before the flush, one past
  the end of the buffer, whatever the file does.
\<close>
lemma write_cache_overruns:
  assumes "cb_count b = 0" "cb_off b = 0" "length cs = 1024"
  shows "\<exists>b'. cache_writes H cs b w h = Some (b', w, h) \<and> file_cache_write H c b' w h = None"
proof -
  obtain b' where b': "cache_writes H cs b w h = Some (b', w, h)" "cb_off b' = 1024"
    using cache_fills [of b 0 cs H w h] assms by auto
  then have "file_cache_write H c b' w h = None"
    by (simp add: file_cache_write_def DBG_SERIAL_CACHE_BUFFER_SIZE_def split: option.split)
  then show ?thesis using b'(1) by blast
qed

definition sample_files :: "unit file_host" where
  "sample_files = \<lparr>h_path = (\<lambda>_. Some []), h_open_w = (\<lambda>_ h. (3, h)), h_open_r = (\<lambda>_ h. (4, h)),
     h_fstat = (\<lambda>_ _. Some 0), h_lseek = (\<lambda>_ _ h. (True, h)), h_write = (\<lambda>_ xs h. (Some (length xs), h)),
     h_read = (\<lambda>_ n h. (Some (replicate n 0), h)), h_close = (\<lambda>_ h. (True, h))\<rparr>"

definition sample_cache :: DbgSerialCacheBufferType where
  "sample_cache = \<lparr>cb_count = 0, cb_off = 0, cb_rcheck_count = 0, cb_wcheck_count = 0,
     cb_buffer = replicate 1024 0\<rparr>"

definition sample_closed :: SerialFileType where
  "sample_closed = \<lparr>sf_isset = - 1, sf_path = [], sf_fd = - 1, sf_off = 0\<rparr>"

lemma write_cache_overruns_witness:
  "\<exists>b'. cache_writes sample_files (replicate 1024 65) sample_cache sample_closed () = Some (b', sample_closed, ()) \<and>
     file_cache_write sample_files 65 b' sample_closed () = None"
  by (rule write_cache_overruns) (simp_all add: sample_cache_def)

end
