(* ===== verification/Ieee.thy ===== *)
theory Ieee
  imports Prelude "HOL-Library.Log_Nat"
begin

text \<open>
  The floating point arithmetic of the C language that \<^verbatim>\<open>op_exec_fpu.c\<close> uses: the operators on
  \<^verbatim>\<open>float\<close> and \<^verbatim>\<open>double\<close>, the conversions, and \<^verbatim>\<open>fmaf\<close>, \<^verbatim>\<open>sqrt\<close>, \<^verbatim>\<open>trunc\<close>, \<^verbatim>\<open>floorf\<close> of
  \<^verbatim>\<open>math.h\<close>, as the arithmetic of IEEE 754 on bit patterns (annex F of the C standard, every
  operation evaluated in its own type), with the rounding mode and the exception flags of
  \<^verbatim>\<open>fenv.h\<close>.

  An operation first computes its exact result, a significand times a power of two, and then
  rounds it to the format.  A quotient or square root is not a binary fraction; its significand
  gets one more bit that says whether something was cut off, far enough to the right that
  rounding cannot tell the difference.

  What the standards leave to the host is the record \<open>host_fp\<close>, an argument of every operation.
\<close>

section \<open>Formats and values\<close>

datatype ff = Single | Double

fun mbits :: "ff \<Rightarrow> nat" where
  "mbits Single = 23"
| "mbits Double = 52"

fun ebits :: "ff \<Rightarrow> nat" where
  "ebits Single = 8"
| "ebits Double = 11"

text \<open>The exponent of the unit in the last place of the smallest numbers.\<close>

definition emin :: "ff \<Rightarrow> int" where
  "emin F = 2 - 2 ^ (ebits F - 1) - int (mbits F)"

definition inf_bits :: "ff \<Rightarrow> nat" where
  "inf_bits F = (2 ^ ebits F - 1) * 2 ^ mbits F"

definition sign_bits :: "ff \<Rightarrow> bool \<Rightarrow> nat" where
  "sign_bits F s = (if s then 2 ^ (mbits F + ebits F) else 0)"

lemma format_simps [simp]:
  "emin Single = -149" "emin Double = -1074"
  "inf_bits Single = 0x7F800000" "inf_bits Double = 0x7FF0000000000000"
  "sign_bits F False = 0" "sign_bits Single True = 0x80000000"
  "sign_bits Double True = 0x8000000000000000"
  by (simp_all add: emin_def inf_bits_def sign_bits_def)

text \<open>
  \<open>FFin s m e\<close> is the number \<open>m * 2 ^ e\<close>, negated if \<open>s\<close>; \<open>FNan True\<close> is a signalling one.
\<close>

datatype fdata = FNan bool | FInf bool | FFin bool nat int

definition unpack :: "ff \<Rightarrow> nat \<Rightarrow> fdata" where
  "unpack F v =
     (let s = odd (v div 2 ^ (mbits F + ebits F));
          e = v div 2 ^ mbits F mod 2 ^ ebits F;
          m = v mod 2 ^ mbits F
      in if e = 2 ^ ebits F - 1 then if m = 0 then FInf s else FNan (m < 2 ^ (mbits F - 1))
         else if e = 0 then FFin s m (emin F)
         else FFin s (2 ^ mbits F + m) (emin F + int e - 1))"

section \<open>The floating point environment\<close>

datatype fe_round = FE_TONEAREST | FE_UPWARD | FE_DOWNWARD | FE_TOWARDZERO

datatype fe_flag = FE_DIVBYZERO | FE_INEXACT | FE_INVALID | FE_OVERFLOW | FE_UNDERFLOW

datatype fp_op =
    OpAdd | OpSub | OpMul | OpDiv | OpFma | OpSqrt | OpTrunc | OpFloor | OpNarrow | OpWiden

datatype int_target = SInt32 | UInt32 | SInt64 | UInt64

text \<open>
  \<open>h_nan\<close> is the pattern of the result that is no number, from the operation, its format and the
  operands; \<open>h_cast\<close> is the value of a cast of a number the integer type does not hold, which C
  leaves undefined; \<open>h_tiny_before\<close>, whether underflow is detected before or after rounding;
  \<open>h_fma_invalid\<close>, whether \<^verbatim>\<open>fma(inf, 0, nan)\<close> raises the invalid flag; \<open>h_int_inexact\<close>,
  whether \<^verbatim>\<open>trunc\<close> and \<^verbatim>\<open>floor\<close> raise the inexact flag.
\<close>

record host_fp =
  h_nan :: "fp_op \<Rightarrow> ff \<Rightarrow> nat list \<Rightarrow> nat"
  h_cast :: "int_target \<Rightarrow> ff \<Rightarrow> nat \<Rightarrow> int"
  h_tiny_before :: bool
  h_fma_invalid :: bool
  h_int_inexact :: bool

section \<open>Rounding\<close>

text \<open>The integer next to \<open>m / 2 ^ d\<close>, for a number of sign \<open>s\<close>, and whether it differs.\<close>

definition round_at :: "fe_round \<Rightarrow> bool \<Rightarrow> nat \<Rightarrow> nat \<Rightarrow> nat \<times> bool" where
  "round_at r s m d =
     (let q = m div 2 ^ d;
          x = m mod 2 ^ d;
          up = (case r of
                  FE_TONEAREST \<Rightarrow> 2 ^ d < 2 * x \<or> 2 * x = 2 ^ d \<and> odd q
                | FE_UPWARD \<Rightarrow> \<not> s \<and> x \<noteq> 0
                | FE_DOWNWARD \<Rightarrow> s \<and> x \<noteq> 0
                | FE_TOWARDZERO \<Rightarrow> False)
      in (if up then q + 1 else q, x \<noteq> 0))"

text \<open>\<open>m * 2 ^ e\<close> as a multiple of \<open>2 ^ q\<close>.\<close>

definition round_to :: "fe_round \<Rightarrow> bool \<Rightarrow> nat \<Rightarrow> int \<Rightarrow> int \<Rightarrow> nat \<times> bool" where
  "round_to r s m e q =
     (if q \<le> e then (m * 2 ^ nat (e - q), False) else round_at r s m (nat (q - e)))"

definition overflow_bits :: "ff \<Rightarrow> fe_round \<Rightarrow> bool \<Rightarrow> nat" where
  "overflow_bits F r s =
     (if r = FE_TONEAREST \<or> r = FE_UPWARD \<and> \<not> s \<or> r = FE_DOWNWARD \<and> s then inf_bits F
      else inf_bits F - 1)"

text \<open>The exponent of the last place of a result with all its bits, if the range had no end.\<close>

definition last_place :: "ff \<Rightarrow> nat \<Rightarrow> int \<Rightarrow> int" where
  "last_place F m e = e + int (floorlog 2 m) - int (mbits F) - 1"

definition is_tiny :: "host_fp \<Rightarrow> ff \<Rightarrow> fe_round \<Rightarrow> bool \<Rightarrow> nat \<Rightarrow> int \<Rightarrow> bool" where
  "is_tiny h F r s m e =
     (let q = last_place F m e
      in q < emin F \<and>
         (h_tiny_before h \<or>
          \<not> (q = emin F - 1 \<and> fst (round_to r s m e q) = 2 ^ (mbits F + 1))))"

definition fround :: "host_fp \<Rightarrow> ff \<Rightarrow> fe_round \<Rightarrow> bool \<Rightarrow> nat \<Rightarrow> int \<Rightarrow> nat \<times> fe_flag set" where
  "fround h F r s m e =
     (if m = 0 then (sign_bits F s, {})
      else
        let q = max (last_place F m e) (emin F);
            (k, inexact) = round_to r s m e q;
            v = nat (q - emin F) * 2 ^ mbits F + k
        in if inf_bits F \<le> v
           then (sign_bits F s + overflow_bits F r s, {FE_OVERFLOW, FE_INEXACT})
           else (sign_bits F s + v,
                 (if inexact then {FE_INEXACT} else {}) \<union>
                 (if inexact \<and> is_tiny h F r s m e then {FE_UNDERFLOW} else {})))"

section \<open>Exact results\<close>

datatype exact = XNan | XInvalid | XInf bool | XDivZero bool | XFin bool nat int

definition snan_flag :: "fdata list \<Rightarrow> fe_flag set" where
  "snan_flag xs = (if FNan True \<in> set xs then {FE_INVALID} else {})"

text \<open>The result of an operation with the operands \<open>vs\<close> of the format \<open>G\<close>.\<close>

definition deliver ::
    "host_fp \<Rightarrow> ff \<Rightarrow> fe_round \<Rightarrow> fp_op \<Rightarrow> ff \<Rightarrow> nat list \<Rightarrow> exact \<Rightarrow> nat \<times> fe_flag set" where
  "deliver h F r op G vs x =
     (case x of
        XNan \<Rightarrow> (h_nan h op F vs, snan_flag (map (unpack G) vs))
      | XInvalid \<Rightarrow> (h_nan h op F vs, {FE_INVALID})
      | XInf s \<Rightarrow> (sign_bits F s + inf_bits F, {})
      | XDivZero s \<Rightarrow> (sign_bits F s + inf_bits F, {FE_DIVBYZERO})
      | XFin s m e \<Rightarrow> fround h F r s m e)"

fun neg_data :: "fdata \<Rightarrow> fdata" where
  "neg_data (FNan q) = FNan q"
| "neg_data (FInf s) = FInf (\<not> s)"
| "neg_data (FFin s m e) = FFin (\<not> s) m e"

text \<open>The sum of two numbers; a zero that comes from cancellation is negative when rounding down.\<close>

definition sum_fin :: "fe_round \<Rightarrow> bool \<Rightarrow> nat \<Rightarrow> int \<Rightarrow> bool \<Rightarrow> nat \<Rightarrow> int \<Rightarrow> exact" where
  "sum_fin r s m e t n f =
     (let g = min e f;
          a = m * 2 ^ nat (e - g);
          b = n * 2 ^ nat (f - g)
      in if s = t then XFin s (a + b) g
         else if a = b then XFin (r = FE_DOWNWARD) 0 g
         else if b < a then XFin s (a - b) g
         else XFin t (b - a) g)"

fun x_add :: "fe_round \<Rightarrow> fdata \<Rightarrow> fdata \<Rightarrow> exact" where
  "x_add r (FNan _) _ = XNan"
| "x_add r _ (FNan _) = XNan"
| "x_add r (FInf s) (FInf t) = (if s = t then XInf s else XInvalid)"
| "x_add r (FInf s) (FFin _ _ _) = XInf s"
| "x_add r (FFin _ _ _) (FInf t) = XInf t"
| "x_add r (FFin s m e) (FFin t n f) = sum_fin r s m e t n f"

fun x_mul :: "fdata \<Rightarrow> fdata \<Rightarrow> exact" where
  "x_mul (FNan _) _ = XNan"
| "x_mul _ (FNan _) = XNan"
| "x_mul (FInf s) (FInf t) = XInf (s \<noteq> t)"
| "x_mul (FInf s) (FFin t n _) = (if n = 0 then XInvalid else XInf (s \<noteq> t))"
| "x_mul (FFin s m _) (FInf t) = (if m = 0 then XInvalid else XInf (s \<noteq> t))"
| "x_mul (FFin s m e) (FFin t n f) = XFin (s \<noteq> t) (m * n) (e + f)"

definition jam :: "nat \<Rightarrow> bool \<Rightarrow> nat" where
  "jam q rest = 2 * q + (if rest then 1 else 0)"

fun x_div :: "ff \<Rightarrow> fdata \<Rightarrow> fdata \<Rightarrow> exact" where
  "x_div F (FNan _) _ = XNan"
| "x_div F _ (FNan _) = XNan"
| "x_div F (FInf s) (FInf t) = XInvalid"
| "x_div F (FInf s) (FFin t _ _) = XInf (s \<noteq> t)"
| "x_div F (FFin s _ _) (FInf t) = XFin (s \<noteq> t) 0 0"
| "x_div F (FFin s m e) (FFin t n f) =
     (if n = 0 then if m = 0 then XInvalid else XDivZero (s \<noteq> t)
      else let k = mbits F + 4 + floorlog 2 n;
               a = m * 2 ^ k
           in XFin (s \<noteq> t) (jam (a div n) (a mod n \<noteq> 0)) (e - f - int k - 1))"

text \<open>The product first, exactly, then the sum.\<close>

definition x_fma :: "bool \<Rightarrow> fe_round \<Rightarrow> fdata \<Rightarrow> fdata \<Rightarrow> fdata \<Rightarrow> exact" where
  "x_fma raise_inv r a b c =
     (case x_mul a b of
        XFin s m e \<Rightarrow> x_add r (FFin s m e) c
      | XInf s \<Rightarrow> x_add r (FInf s) c
      | XInvalid \<Rightarrow> (case c of FNan _ \<Rightarrow> if raise_inv then XInvalid else XNan | _ \<Rightarrow> XInvalid)
      | x \<Rightarrow> x)"

text \<open>The integer square root, two bits at a time.\<close>

fun isqrt :: "nat \<Rightarrow> nat" where
  "isqrt n =
     (if n = 0 then 0
      else let q = 2 * isqrt (n div 4) in if (q + 1) * (q + 1) \<le> n then q + 1 else q)"

declare isqrt.simps [simp del]

fun x_sqrt :: "ff \<Rightarrow> fdata \<Rightarrow> exact" where
  "x_sqrt F (FNan _) = XNan"
| "x_sqrt F (FInf s) = (if s then XInvalid else XInf False)"
| "x_sqrt F (FFin s m e) =
     (if m = 0 then XFin s 0 0
      else if s then XInvalid
      else let k = 2 * (mbits F + 4) + (if even e then 0 else 1);
               a = m * 2 ^ k;
               q = isqrt a
           in XFin False (jam q (q * q \<noteq> a)) ((e - int k) div 2 - 1))"

text \<open>The integer below in absolute value, and whether there is a fraction.\<close>

definition int_part :: "nat \<Rightarrow> int \<Rightarrow> nat" where
  "int_part m e = (if 0 \<le> e then m * 2 ^ nat e else m div 2 ^ nat (- e))"

definition has_frac :: "nat \<Rightarrow> int \<Rightarrow> bool" where
  "has_frac m e \<longleftrightarrow> e < 0 \<and> m mod 2 ^ nat (- e) \<noteq> 0"

fun x_trunc :: "fdata \<Rightarrow> exact" where
  "x_trunc (FNan _) = XNan"
| "x_trunc (FInf s) = XInf s"
| "x_trunc (FFin s m e) = XFin s (int_part m e) 0"

fun x_floor :: "fdata \<Rightarrow> exact" where
  "x_floor (FNan _) = XNan"
| "x_floor (FInf s) = XInf s"
| "x_floor (FFin s m e) = XFin s (int_part m e + (if s \<and> has_frac m e then 1 else 0)) 0"

fun x_same :: "fdata \<Rightarrow> exact" where
  "x_same (FNan _) = XNan"
| "x_same (FInf s) = XInf s"
| "x_same (FFin s m e) = XFin s m e"

section \<open>Comparison\<close>

definition signed_at :: "int \<Rightarrow> bool \<Rightarrow> nat \<Rightarrow> int \<Rightarrow> int" where
  "signed_at g s m e = (if s then - 1 else 1) * int (m * 2 ^ nat (e - g))"

fun data_less :: "fdata \<Rightarrow> fdata \<Rightarrow> bool" where
  "data_less (FInf s) (FInf t) = (s \<and> \<not> t)"
| "data_less (FInf s) (FFin _ _ _) = s"
| "data_less (FFin _ _ _) (FInf t) = (\<not> t)"
| "data_less (FFin s m e) (FFin t n f) =
     (signed_at (min e f) s m e < signed_at (min e f) t n f)"
| "data_less _ _ = False"

fun data_eq :: "fdata \<Rightarrow> fdata \<Rightarrow> bool" where
  "data_eq (FInf s) (FInf t) = (s = t)"
| "data_eq (FFin s m e) (FFin t n f) =
     (signed_at (min e f) s m e = signed_at (min e f) t n f)"
| "data_eq _ _ = False"

section \<open>Conversion to integers\<close>

fun in_range :: "int_target \<Rightarrow> int \<Rightarrow> bool" where
  "in_range SInt32 i = (- (2 ^ 31) \<le> i \<and> i < 2 ^ 31)"
| "in_range UInt32 i = (0 \<le> i \<and> i < 2 ^ 32)"
| "in_range SInt64 i = (- (2 ^ 63) \<le> i \<and> i < 2 ^ 63)"
| "in_range UInt64 i = (0 \<le> i \<and> i < 2 ^ 64)"

definition cast_int :: "host_fp \<Rightarrow> ff \<Rightarrow> int_target \<Rightarrow> nat \<Rightarrow> int \<times> fe_flag set" where
  "cast_int h F t v =
     (case unpack F v of
        FFin s m e \<Rightarrow>
          let i = (if s then - 1 else 1) * int (int_part m e)
          in if in_range t i then (i, if has_frac m e then {FE_INEXACT} else {})
             else (h_cast h t F v, {FE_INVALID})
      | _ \<Rightarrow> (h_cast h t F v, {FE_INVALID}))"

definition of_integer :: "host_fp \<Rightarrow> ff \<Rightarrow> fe_round \<Rightarrow> int \<Rightarrow> nat \<times> fe_flag set" where
  "of_integer h F r i = fround h F r (i < 0) (nat \<bar>i\<bar>) 0"

section \<open>The operators on bit patterns\<close>

definition to_word :: "nat \<times> fe_flag set \<Rightarrow> 'a::len word \<times> fe_flag set" where
  "to_word p = (of_nat (fst p), snd p)"

definition data_of :: "ff \<Rightarrow> 'a::len word \<Rightarrow> fdata" where
  "data_of F w = unpack F (unat w)"

definition c_add :: "host_fp \<Rightarrow> ff \<Rightarrow> fe_round \<Rightarrow> 'a::len word \<Rightarrow> 'a word \<Rightarrow> 'a word \<times> fe_flag set" where
  "c_add h F r a b =
     to_word (deliver h F r OpAdd F [unat a, unat b] (x_add r (data_of F a) (data_of F b)))"

definition c_sub :: "host_fp \<Rightarrow> ff \<Rightarrow> fe_round \<Rightarrow> 'a::len word \<Rightarrow> 'a word \<Rightarrow> 'a word \<times> fe_flag set" where
  "c_sub h F r a b =
     to_word (deliver h F r OpSub F [unat a, unat b] (x_add r (data_of F a) (neg_data (data_of F b))))"

definition c_mul :: "host_fp \<Rightarrow> ff \<Rightarrow> fe_round \<Rightarrow> 'a::len word \<Rightarrow> 'a word \<Rightarrow> 'a word \<times> fe_flag set" where
  "c_mul h F r a b =
     to_word (deliver h F r OpMul F [unat a, unat b] (x_mul (data_of F a) (data_of F b)))"

definition c_div :: "host_fp \<Rightarrow> ff \<Rightarrow> fe_round \<Rightarrow> 'a::len word \<Rightarrow> 'a word \<Rightarrow> 'a word \<times> fe_flag set" where
  "c_div h F r a b =
     to_word (deliver h F r OpDiv F [unat a, unat b] (x_div F (data_of F a) (data_of F b)))"

definition c_fma ::
    "host_fp \<Rightarrow> ff \<Rightarrow> fe_round \<Rightarrow> 'a::len word \<Rightarrow> 'a word \<Rightarrow> 'a word \<Rightarrow> 'a word \<times> fe_flag set" where
  "c_fma h F r a b c =
     to_word (deliver h F r OpFma F [unat a, unat b, unat c]
       (x_fma (h_fma_invalid h) r (data_of F a) (data_of F b) (data_of F c)))"

definition c_sqrt :: "host_fp \<Rightarrow> ff \<Rightarrow> fe_round \<Rightarrow> 'a::len word \<Rightarrow> 'a word \<times> fe_flag set" where
  "c_sqrt h F r a = to_word (deliver h F r OpSqrt F [unat a] (x_sqrt F (data_of F a)))"

definition int_flag :: "host_fp \<Rightarrow> fdata \<Rightarrow> fe_flag set" where
  "int_flag h x =
     (case x of FFin s m e \<Rightarrow> if h_int_inexact h \<and> has_frac m e then {FE_INEXACT} else {} | _ \<Rightarrow> {})"

definition c_trunc :: "host_fp \<Rightarrow> ff \<Rightarrow> fe_round \<Rightarrow> 'a::len word \<Rightarrow> 'a word \<times> fe_flag set" where
  "c_trunc h F r a =
     (let (v, fl) = to_word (deliver h F r OpTrunc F [unat a] (x_trunc (data_of F a)))
      in (v, fl \<union> int_flag h (data_of F a)))"

definition c_floor :: "host_fp \<Rightarrow> ff \<Rightarrow> fe_round \<Rightarrow> 'a::len word \<Rightarrow> 'a word \<times> fe_flag set" where
  "c_floor h F r a =
     (let (v, fl) = to_word (deliver h F r OpFloor F [unat a] (x_floor (data_of F a)))
      in (v, fl \<union> int_flag h (data_of F a)))"

definition c_narrow :: "host_fp \<Rightarrow> fe_round \<Rightarrow> u64 \<Rightarrow> u32 \<times> fe_flag set" where
  "c_narrow h r a =
     to_word (deliver h Single r OpNarrow Double [unat a] (x_same (data_of Double a)))"

definition c_widen :: "host_fp \<Rightarrow> fe_round \<Rightarrow> u32 \<Rightarrow> u64 \<times> fe_flag set" where
  "c_widen h r a =
     to_word (deliver h Double r OpWiden Single [unat a] (x_same (data_of Single a)))"

definition c_of_int :: "host_fp \<Rightarrow> ff \<Rightarrow> fe_round \<Rightarrow> int \<Rightarrow> 'a::len word \<times> fe_flag set" where
  "c_of_int h F r i = to_word (of_integer h F r i)"

definition c_cast :: "host_fp \<Rightarrow> ff \<Rightarrow> int_target \<Rightarrow> 'a::len word \<Rightarrow> int \<times> fe_flag set" where
  "c_cast h F t a = cast_int h F t (unat a)"

definition c_less :: "ff \<Rightarrow> 'a::len word \<Rightarrow> 'a word \<Rightarrow> bool" where
  "c_less F a b = data_less (data_of F a) (data_of F b)"

definition c_eq :: "ff \<Rightarrow> 'a::len word \<Rightarrow> 'a word \<Rightarrow> bool" where
  "c_eq F a b = data_eq (data_of F a) (data_of F b)"

definition c_neg :: "ff \<Rightarrow> 'a::len word \<Rightarrow> 'a word" where
  "c_neg F a = a XOR of_nat (sign_bits F True)"

end
