(* ===== verification/Fpu_Ops.thy ===== *)
theory Fpu_Ops
  imports Fpu_Sys Ieee Exec_Base
begin

text \<open>
  What the floating point executors share: the macros and unions of
  \<^verbatim>\<open>cpu_common/cpu_fpu_ops.h\<close> and the static functions at the head of
  \<^verbatim>\<open>cpu_exec/op_exec_fpu.c\<close>.

  The union \<open>FloatBinaryDataType\<close> is its bit pattern, a \<open>u32\<close>; \<open>DoubleBinaryDataType\<close> keeps the
  two words of its pattern, the low one first, as on a little endian host.
\<close>

section \<open>Bit patterns\<close>

type_synonym FloatBinaryDataType = u32

record DoubleBinaryDataType =
  binary0 :: u32
  binary1 :: u32

definition d_data :: "DoubleBinaryDataType \<Rightarrow> u64" where
  "d_data x = push_bit 32 (ucast (binary1 x)) OR ucast (binary0 x)"

definition d_of :: "u64 \<Rightarrow> DoubleBinaryDataType" where
  "d_of v = \<lparr>binary0 = ucast v, binary1 = ucast (drop_bit 32 v)\<rparr>"

definition FLOAT_SIGN_BIT_PTRN :: u32 where
  "FLOAT_SIGN_BIT_PTRN = push_bit 31 1"

definition GET_FLOAT_SIGN_BIT_VALUE :: "FloatBinaryDataType \<Rightarrow> u32" where
  "GET_FLOAT_SIGN_BIT_VALUE x = (if FLOAT_SIGN_BIT_PTRN AND x \<noteq> 0 then 1 else 0)"

definition FLOAT_SIGN_BIT_SET :: "FloatBinaryDataType \<Rightarrow> FloatBinaryDataType" where
  "FLOAT_SIGN_BIT_SET x = x OR FLOAT_SIGN_BIT_PTRN"

definition FLOAT_SIGN_BIT_CLR :: "FloatBinaryDataType \<Rightarrow> FloatBinaryDataType" where
  "FLOAT_SIGN_BIT_CLR x = x AND NOT FLOAT_SIGN_BIT_PTRN"

definition GET_DOUBLE_SIGN_BIT_VALUE :: "DoubleBinaryDataType \<Rightarrow> u32" where
  "GET_DOUBLE_SIGN_BIT_VALUE x = (if FLOAT_SIGN_BIT_PTRN AND binary1 x \<noteq> 0 then 1 else 0)"

definition DOUBLE_SIGN_BIT_SET :: "DoubleBinaryDataType \<Rightarrow> DoubleBinaryDataType" where
  "DOUBLE_SIGN_BIT_SET x = x\<lparr>binary1 := binary1 x OR FLOAT_SIGN_BIT_PTRN\<rparr>"

definition DOUBLE_SIGN_BIT_CLR :: "DoubleBinaryDataType \<Rightarrow> DoubleBinaryDataType" where
  "DOUBLE_SIGN_BIT_CLR x = x\<lparr>binary1 := binary1 x AND NOT FLOAT_SIGN_BIT_PTRN\<rparr>"

definition GET_FLOAT_EXP_VALUE :: "FloatBinaryDataType \<Rightarrow> u16" where
  "GET_FLOAT_EXP_VALUE x = ucast (drop_bit 23 (0x7F800000 AND x))"

definition GET_FLOAT_MANTISSA_VALUE :: "FloatBinaryDataType \<Rightarrow> u32" where
  "GET_FLOAT_MANTISSA_VALUE x = drop_bit 0 (0x007FFFFF AND x)"

text \<open>The exponent mask has ten bits and the mask of the upper mantissa word 23.\<close>

definition GET_DOUBLE_EXP_VALUE :: "DoubleBinaryDataType \<Rightarrow> u16" where
  "GET_DOUBLE_EXP_VALUE x = ucast (drop_bit 20 (0x7FE00000 AND binary1 x))"

definition GET_DOUBLE_MANTISSA1_VALUE :: "DoubleBinaryDataType \<Rightarrow> u32" where
  "GET_DOUBLE_MANTISSA1_VALUE x = drop_bit 0 (0x007FFFFF AND binary1 x)"

definition GET_DOUBLE_MANTISSA0_VALUE :: "DoubleBinaryDataType \<Rightarrow> u32" where
  "GET_DOUBLE_MANTISSA0_VALUE x = drop_bit 0 (0xFFFFFFFF AND binary0 x)"

definition FLOAT_IS_ZERO :: "FloatBinaryDataType \<Rightarrow> bool" where
  "FLOAT_IS_ZERO x \<longleftrightarrow> GET_FLOAT_EXP_VALUE x = 0 \<and> GET_FLOAT_MANTISSA_VALUE x = 0"

definition FLOAT_IS_SBNORM :: "FloatBinaryDataType \<Rightarrow> bool" where
  "FLOAT_IS_SBNORM x \<longleftrightarrow> GET_FLOAT_EXP_VALUE x = 0 \<and> GET_FLOAT_MANTISSA_VALUE x \<noteq> 0"

definition FLOAT_IS_INF :: "FloatBinaryDataType \<Rightarrow> bool" where
  "FLOAT_IS_INF x \<longleftrightarrow> GET_FLOAT_EXP_VALUE x = 255 \<and> GET_FLOAT_MANTISSA_VALUE x = 0"

definition FLOAT_IS_NAN :: "FloatBinaryDataType \<Rightarrow> bool" where
  "FLOAT_IS_NAN x \<longleftrightarrow> GET_FLOAT_EXP_VALUE x = 255 \<and> GET_FLOAT_MANTISSA_VALUE x \<noteq> 0"

definition FLOAT_IS_PLUS :: "FloatBinaryDataType \<Rightarrow> bool" where
  "FLOAT_IS_PLUS x \<longleftrightarrow> GET_FLOAT_SIGN_BIT_VALUE x = 0"

definition FLOAT_IS_MINUS :: "FloatBinaryDataType \<Rightarrow> bool" where
  "FLOAT_IS_MINUS x \<longleftrightarrow> GET_FLOAT_SIGN_BIT_VALUE x = 1"

definition DOUBLE_IS_ZERO :: "DoubleBinaryDataType \<Rightarrow> bool" where
  "DOUBLE_IS_ZERO x \<longleftrightarrow> GET_DOUBLE_EXP_VALUE x = 0 \<and> GET_DOUBLE_MANTISSA0_VALUE x = 0 \<and>
     GET_DOUBLE_MANTISSA1_VALUE x = 0"

definition DOUBLE_IS_SBNORM :: "DoubleBinaryDataType \<Rightarrow> bool" where
  "DOUBLE_IS_SBNORM x \<longleftrightarrow> GET_DOUBLE_EXP_VALUE x = 0 \<and>
     (GET_DOUBLE_MANTISSA0_VALUE x \<noteq> 0 \<or> GET_DOUBLE_MANTISSA1_VALUE x \<noteq> 0)"

definition DOUBLE_IS_INF :: "DoubleBinaryDataType \<Rightarrow> bool" where
  "DOUBLE_IS_INF x \<longleftrightarrow> GET_DOUBLE_EXP_VALUE x = 2047 \<and> GET_DOUBLE_MANTISSA0_VALUE x = 0 \<and>
     GET_DOUBLE_MANTISSA1_VALUE x = 0"

definition DOUBLE_IS_NAN :: "DoubleBinaryDataType \<Rightarrow> bool" where
  "DOUBLE_IS_NAN x \<longleftrightarrow> GET_DOUBLE_EXP_VALUE x = 2047 \<and>
     (GET_DOUBLE_MANTISSA0_VALUE x \<noteq> 0 \<or> GET_DOUBLE_MANTISSA1_VALUE x \<noteq> 0)"

definition DOUBLE_IS_PLUS :: "DoubleBinaryDataType \<Rightarrow> bool" where
  "DOUBLE_IS_PLUS x \<longleftrightarrow> GET_DOUBLE_SIGN_BIT_VALUE x = 0"

definition DOUBLE_IS_MINUS :: "DoubleBinaryDataType \<Rightarrow> bool" where
  "DOUBLE_IS_MINUS x \<longleftrightarrow> GET_DOUBLE_SIGN_BIT_VALUE x = 1"

definition FLOAT_SET_SIGN_REVERSE :: "FloatBinaryDataType \<Rightarrow> FloatBinaryDataType" where
  "FLOAT_SET_SIGN_REVERSE x =
     (if FLOAT_IS_PLUS x then FLOAT_SIGN_BIT_SET x else FLOAT_SIGN_BIT_CLR x)"

definition DOUBLE_SET_SIGN_REVERSE :: "DoubleBinaryDataType \<Rightarrow> DoubleBinaryDataType" where
  "DOUBLE_SET_SIGN_REVERSE x =
     (if DOUBLE_IS_PLUS x then DOUBLE_SIGN_BIT_SET x else DOUBLE_SIGN_BIT_CLR x)"

definition float_is_qnan :: "FloatBinaryDataType \<Rightarrow> bool" where
  "float_is_qnan x \<longleftrightarrow> FLOAT_IS_NAN x \<and> x AND push_bit 22 1 \<noteq> 0"

definition float_is_snan :: "FloatBinaryDataType \<Rightarrow> bool" where
  "float_is_snan x \<longleftrightarrow> FLOAT_IS_NAN x \<and> \<not> x AND push_bit 22 1 \<noteq> 0"

definition float_get_qnan :: FloatBinaryDataType where
  "float_get_qnan = 0x7FFFFFFF"

definition float_get_snan :: FloatBinaryDataType where
  "float_get_snan = 0x7FFFFFFF AND NOT (push_bit 22 1)"

definition double_is_qnan :: "DoubleBinaryDataType \<Rightarrow> bool" where
  "double_is_qnan x \<longleftrightarrow> DOUBLE_IS_NAN x \<and> binary1 x AND push_bit 19 1 \<noteq> 0"

definition double_is_snan :: "DoubleBinaryDataType \<Rightarrow> bool" where
  "double_is_snan x \<longleftrightarrow> DOUBLE_IS_NAN x \<and> \<not> binary1 x AND push_bit 19 1 \<noteq> 0"

definition double_get_qnan :: DoubleBinaryDataType where
  "double_get_qnan = \<lparr>binary0 = 0xFFFFFFFF, binary1 = 0x7FFFFFFF\<rparr>"

definition double_get_snan :: DoubleBinaryDataType where
  "double_get_snan = \<lparr>binary0 = 0xFFFFFFFF, binary1 = 0x7FFFFFFF AND NOT (push_bit 19 1)\<rparr>"

definition op_absf_s :: "FloatBinaryDataType \<Rightarrow> FloatBinaryDataType" where
  "op_absf_s x = x AND NOT FLOAT_SIGN_BIT_PTRN"

section \<open>Raising exceptions\<close>

abbreviation (input) SYS_FPSR_EXPR_I :: u8 where "SYS_FPSR_EXPR_I \<equiv> 1"
abbreviation (input) SYS_FPSR_EXPR_U :: u8 where "SYS_FPSR_EXPR_U \<equiv> 2"
abbreviation (input) SYS_FPSR_EXPR_O :: u8 where "SYS_FPSR_EXPR_O \<equiv> 4"
abbreviation (input) SYS_FPSR_EXPR_Z :: u8 where "SYS_FPSR_EXPR_Z \<equiv> 8"
abbreviation (input) SYS_FPSR_EXPR_V :: u8 where "SYS_FPSR_EXPR_V \<equiv> 16"

definition sys_set_fpst_xc :: "u8 \<Rightarrow> CpuRegisterType \<Rightarrow> CpuRegisterType" where
  "sys_set_fpst_xc data g = sys_set_fpsr_xc data g"

definition sys_set_fpst_xp :: "u8 \<Rightarrow> CpuRegisterType \<Rightarrow> CpuRegisterType" where
  "sys_set_fpst_xp data g = sys_set_fpsr_xp data g"

text \<open>The two statements with which the code records an exception, in every place it does.\<close>

definition fpu_raise :: "u8 \<Rightarrow> CpuRegisterType \<Rightarrow> CpuRegisterType" where
  "fpu_raise e g =
     (let g = sys_set_fpst_xc (sys_get_fpst_xc g OR e) g
      in sys_set_fpst_xp (sys_get_fpst_xp g OR e) g)"

section \<open>Around an operation\<close>

datatype FpuConfigRoundingType =
    FpuRounding_RN | FpuRounding_RU | FpuRounding_RD | FpuRounding_RZ

record FpuConfigSettingType =
  is_FPSR_FS :: bool
  round_type :: FpuConfigRoundingType

text \<open>
  The mode is a field of two bits, the enumeration has the values 0x00, 0x01, 0x10 and 0x11.
  The structure \<^verbatim>\<open>FloatExceptionType\<close> that the functions also fill is local to each executor and
  never read.
\<close>

definition prepare_float_op :: "CpuRegisterType \<Rightarrow> FpuConfigSettingType" where
  "prepare_float_op g =
     (let cfg = sys_get_fpsr_rm g in
      \<lparr>is_FPSR_FS = True,
       round_type =
         (if cfg = 0x00 then FpuRounding_RN
          else if cfg = 0x01 then FpuRounding_RZ
          else if cfg = 0x10 then FpuRounding_RU
          else if cfg = 0x11 then FpuRounding_RD
          else FpuRounding_RN)\<rparr>)"

text \<open>The argument of \<^verbatim>\<open>fesetround\<close>.\<close>

definition host_round :: "FpuConfigSettingType \<Rightarrow> fe_round" where
  "host_round cp =
     (case round_type cp of
        FpuRounding_RN \<Rightarrow> FE_TONEAREST | FpuRounding_RU \<Rightarrow> FE_UPWARD
      | FpuRounding_RD \<Rightarrow> FE_DOWNWARD | FpuRounding_RZ \<Rightarrow> FE_TOWARDZERO)"

definition end_float_op :: "fe_flag set \<Rightarrow> CpuRegisterType \<Rightarrow> CpuRegisterType" where
  "end_float_op fl g =
     (if fl = {} then g
      else
        let g = if FE_DIVBYZERO \<in> fl then fpu_raise SYS_FPSR_EXPR_Z g else g;
            g = if FE_INEXACT \<in> fl then fpu_raise SYS_FPSR_EXPR_I g else g;
            g = if FE_INVALID \<in> fl then fpu_raise SYS_FPSR_EXPR_V g else g;
            g = if FE_OVERFLOW \<in> fl then fpu_raise SYS_FPSR_EXPR_O g else g
        in if FE_UNDERFLOW \<in> fl then fpu_raise SYS_FPSR_EXPR_U g else g)"

text \<open>
  The code between \<open>prepare_float_op\<close>, which clears the flags of the host, and \<open>end_float_op\<close>: a
  function of the setting and the registers to a result, the flags it raised and the registers.
\<close>

definition float_op ::
    "(FpuConfigSettingType \<Rightarrow> CpuRegisterType \<Rightarrow> 'r \<times> fe_flag set \<times> CpuRegisterType) \<Rightarrow>
     CpuRegisterType \<Rightarrow> 'r \<times> CpuRegisterType" where
  "float_op body g =
     (let (result_data, fl, g) = body (prepare_float_op g) g
      in (result_data, end_float_op fl g))"

definition set_subnormal_operand :: "FpuConfigSettingType \<Rightarrow> FloatBinaryDataType \<Rightarrow> FloatBinaryDataType" where
  "set_subnormal_operand cp operand =
     (if \<not> FLOAT_IS_SBNORM operand then operand
      else if \<not> is_FPSR_FS cp then operand
      else if FLOAT_IS_MINUS operand then FLOAT_SIGN_BIT_SET 0
      else 0)"

definition set_subnormal_result :: "FpuConfigSettingType \<Rightarrow> FloatBinaryDataType \<Rightarrow> FloatBinaryDataType" where
  "set_subnormal_result cp result =
     (if \<not> FLOAT_IS_SBNORM result then result
      else if \<not> is_FPSR_FS cp then result
      else case round_type cp of
             FpuRounding_RN \<Rightarrow> 0
           | FpuRounding_RZ \<Rightarrow> 0
           | FpuRounding_RU \<Rightarrow> if FLOAT_IS_MINUS result then FLOAT_SIGN_BIT_SET 0 else 0x00800000
           | FpuRounding_RD \<Rightarrow> if FLOAT_IS_MINUS result then FLOAT_SIGN_BIT_SET 0x00800000 else 0)"

definition set_subnormal_operand_double ::
    "FpuConfigSettingType \<Rightarrow> DoubleBinaryDataType \<Rightarrow> DoubleBinaryDataType" where
  "set_subnormal_operand_double cp operand =
     (if \<not> DOUBLE_IS_SBNORM operand then operand
      else if \<not> is_FPSR_FS cp then operand
      else if DOUBLE_IS_MINUS operand then DOUBLE_SIGN_BIT_SET \<lparr>binary0 = 0, binary1 = 0\<rparr>
      else \<lparr>binary0 = 0, binary1 = 0\<rparr>)"

definition set_subnormal_result_double ::
    "FpuConfigSettingType \<Rightarrow> DoubleBinaryDataType \<Rightarrow> DoubleBinaryDataType" where
  "set_subnormal_result_double cp result =
     (if \<not> DOUBLE_IS_SBNORM result then result
      else if \<not> is_FPSR_FS cp then result
      else case round_type cp of
             FpuRounding_RN \<Rightarrow> \<lparr>binary0 = 0, binary1 = 0\<rparr>
           | FpuRounding_RZ \<Rightarrow> \<lparr>binary0 = 0, binary1 = 0\<rparr>
           | FpuRounding_RU \<Rightarrow>
               if DOUBLE_IS_MINUS result then DOUBLE_SIGN_BIT_SET \<lparr>binary0 = 0, binary1 = 0\<rparr>
               else d_of 0x0010000000000000
           | FpuRounding_RD \<Rightarrow>
               if DOUBLE_IS_MINUS result then DOUBLE_SIGN_BIT_SET (d_of 0x0010000000000000)
               else \<lparr>binary0 = 0, binary1 = 0\<rparr>)"

section \<open>Around an instruction\<close>

text \<open>
  Every executor checks some register numbers, changes registers and moves on by four bytes.
\<close>

definition fpu_instr ::
    "u32 list \<Rightarrow> (CpuRegisterType \<Rightarrow> CpuRegisterType) \<Rightarrow> 'b TargetCoreType \<Rightarrow>
     'b TargetCoreType outcome" where
  "fpu_instr checked f cpu =
     (if \<exists>r\<in>set checked. CPU_GREG_NUM \<le> r then RetErr cpu
      else Ret0 (cpu\<lparr>reg := add_pc 4 (f (reg cpu))\<rparr>))"

definition f_reg1 :: "'b TargetCoreType \<Rightarrow> u32" where
  "f_reg1 cpu = ucast (tf_reg1 (type_f (decoded_code cpu)))"

definition f_reg2 :: "'b TargetCoreType \<Rightarrow> u32" where
  "f_reg2 cpu = ucast (tf_reg2 (type_f (decoded_code cpu)))"

definition f_reg3 :: "'b TargetCoreType \<Rightarrow> u32" where
  "f_reg3 cpu = ucast (tf_reg3 (type_f (decoded_code cpu)))"

definition f_fcbit :: "'b TargetCoreType \<Rightarrow> u32" where
  "f_fcbit cpu = drop_bit 1 (tf_subopcode (type_f (decoded_code cpu)) AND 0x0000000F)"

definition f_reg4 :: "'b TargetCoreType \<Rightarrow> u32" where
  "f_reg4 cpu =
     (let subopcode = tf_subopcode (type_f (decoded_code cpu))
      in (subopcode AND 0x1e) OR (drop_bit 7 subopcode AND 1))"

definition get_pair :: "u32 \<Rightarrow> CpuRegisterType \<Rightarrow> DoubleBinaryDataType" where
  "get_pair r g = \<lparr>binary0 = regs g r, binary1 = regs g (r + 1)\<rparr>"

definition set_pair :: "u32 \<Rightarrow> DoubleBinaryDataType \<Rightarrow> CpuRegisterType \<Rightarrow> CpuRegisterType" where
  "set_pair r x g = set_r (r + 1) (binary1 x) (set_r r (binary0 x) g)"

end
