(* ===== verification/Exec_Fpu_S.thy ===== *)
theory Exec_Fpu_S
  imports Fpu_Ops
begin

text \<open>
  The single precision instructions of \<^verbatim>\<open>op_exec_fpu.c\<close>: arithmetic, fused operations,
  comparison and selection.  The operands of an operator are in the order of the source.
\<close>

section \<open>Arithmetic\<close>

definition op_exec_absf_s_F :: "'b TargetCoreType \<Rightarrow> 'b TargetCoreType outcome" where
  "op_exec_absf_s_F cpu =
     (let reg2 = f_reg2 cpu; reg3 = f_reg3 cpu in
      fpu_instr [reg2, reg3] (\<lambda>g. set_r reg3 (op_absf_s (regs g reg2)) g) cpu)"

definition op_exec_addf_s_F :: "host_fp \<Rightarrow> 'b TargetCoreType \<Rightarrow> 'b TargetCoreType outcome" where
  "op_exec_addf_s_F h cpu =
     (let reg1 = f_reg1 cpu; reg2 = f_reg2 cpu; reg3 = f_reg3 cpu in
      fpu_instr [reg1, reg2, reg3] (\<lambda>g.
        let (result_data, g) = float_op (\<lambda>cp g.
              let reg1_data = set_subnormal_operand cp (regs g reg1);
                  reg2_data = set_subnormal_operand cp (regs g reg2);
                  (result_data, fl) = c_add h Single (host_round cp) reg1_data reg2_data
              in (set_subnormal_result cp result_data, fl, g)) g
        in set_r reg3 result_data g) cpu)"

definition op_exec_mulf_s_F :: "host_fp \<Rightarrow> 'b TargetCoreType \<Rightarrow> 'b TargetCoreType outcome" where
  "op_exec_mulf_s_F h cpu =
     (let reg1 = f_reg1 cpu; reg2 = f_reg2 cpu; reg3 = f_reg3 cpu in
      fpu_instr [reg1, reg2, reg3] (\<lambda>g.
        let (result_data, g) = float_op (\<lambda>cp g.
              let reg1_data = set_subnormal_operand cp (regs g reg1);
                  reg2_data = set_subnormal_operand cp (regs g reg2);
                  (result_data, fl) = c_mul h Single (host_round cp) reg1_data reg2_data
              in (set_subnormal_result cp result_data, fl, g)) g
        in set_r reg3 result_data g) cpu)"

definition op_exec_divf_s_F :: "host_fp \<Rightarrow> 'b TargetCoreType \<Rightarrow> 'b TargetCoreType outcome" where
  "op_exec_divf_s_F h cpu =
     (let reg1 = f_reg1 cpu; reg2 = f_reg2 cpu; reg3 = f_reg3 cpu in
      fpu_instr [reg1, reg2, reg3] (\<lambda>g.
        let (result_data, g) = float_op (\<lambda>cp g.
              let reg1_data = set_subnormal_operand cp (regs g reg1);
                  reg2_data = set_subnormal_operand cp (regs g reg2);
                  (result_data, fl) = c_div h Single (host_round cp) reg2_data reg1_data
              in (set_subnormal_result cp result_data, fl, g)) g
        in set_r reg3 result_data g) cpu)"

definition op_exec_subf_s_F :: "host_fp \<Rightarrow> 'b TargetCoreType \<Rightarrow> 'b TargetCoreType outcome" where
  "op_exec_subf_s_F h cpu =
     (let reg1 = f_reg1 cpu; reg2 = f_reg2 cpu; reg3 = f_reg3 cpu in
      fpu_instr [reg1, reg2, reg3] (\<lambda>g.
        let (result_data, g) = float_op (\<lambda>cp g.
              let reg1_data = set_subnormal_operand cp (regs g reg1);
                  reg2_data = set_subnormal_operand cp (regs g reg2);
                  (result_data, fl) = c_sub h Single (host_round cp) reg2_data reg1_data
              in (set_subnormal_result cp result_data, fl, g)) g
        in set_r reg3 result_data g) cpu)"

definition op_exec_maxf_s_F :: "'b TargetCoreType \<Rightarrow> 'b TargetCoreType outcome" where
  "op_exec_maxf_s_F cpu =
     (let reg1 = f_reg1 cpu; reg2 = f_reg2 cpu; reg3 = f_reg3 cpu in
      fpu_instr [reg1, reg2, reg3] (\<lambda>g.
        let reg1_data = regs g reg1;
            reg2_data = regs g reg2;
            (result_data, g) =
              (if float_is_snan reg1_data \<or> float_is_snan reg2_data
               then (float_get_qnan, fpu_raise SYS_FPSR_EXPR_V g)
               else if c_less Single reg2_data reg1_data
               then (reg1_data, g) else (reg2_data, g))
        in set_r reg3 result_data g) cpu)"

definition op_exec_minf_s_F :: "'b TargetCoreType \<Rightarrow> 'b TargetCoreType outcome" where
  "op_exec_minf_s_F cpu =
     (let reg1 = f_reg1 cpu; reg2 = f_reg2 cpu; reg3 = f_reg3 cpu in
      fpu_instr [reg1, reg2, reg3] (\<lambda>g.
        let reg1_data = regs g reg1;
            reg2_data = regs g reg2;
            (result_data, g) =
              (if float_is_snan reg1_data \<or> float_is_snan reg2_data
               then (float_get_qnan, fpu_raise SYS_FPSR_EXPR_V g)
               else if c_less Single reg1_data reg2_data
               then (reg1_data, g) else (reg2_data, g))
        in set_r reg3 result_data g) cpu)"

definition op_exec_negf_s_F :: "'b TargetCoreType \<Rightarrow> 'b TargetCoreType outcome" where
  "op_exec_negf_s_F cpu =
     (let reg2 = f_reg2 cpu; reg3 = f_reg3 cpu in
      fpu_instr [reg2, reg3] (\<lambda>g. set_r reg3 (c_neg Single (regs g reg2)) g) cpu)"

section \<open>Comparison and selection\<close>

text \<open>Whether the condition bit \<open>fcbit\<close> is set in \<open>data\<close>, and the new value of \<open>data\<close>.\<close>

definition cc_isset :: "u8 \<Rightarrow> u32 \<Rightarrow> bool" where
  "cc_isset data fcbit \<longleftrightarrow> ucast data AND push_bit (unat fcbit) (1 :: u32) \<noteq> 0"

definition cc_put :: "bool \<Rightarrow> u32 \<Rightarrow> u8 \<Rightarrow> u8" where
  "cc_put b fcbit data =
     (if b then data OR ucast (push_bit (unat fcbit) (1 :: u32))
      else data AND NOT (ucast (push_bit (unat fcbit) (1 :: u32))))"

definition op_exec_cmovf_s_F :: "'b TargetCoreType \<Rightarrow> 'b TargetCoreType outcome" where
  "op_exec_cmovf_s_F cpu =
     (let reg1 = f_reg1 cpu; reg2 = f_reg2 cpu; reg3 = f_reg3 cpu in
      fpu_instr [reg1, reg2, reg3] (\<lambda>g.
        set_r reg3 (if cc_isset (sys_get_fpsr_cc g) (f_fcbit cpu) then regs g reg1 else regs g reg2) g)
        cpu)"

definition op_exec_trfsr_F :: "'b TargetCoreType \<Rightarrow> 'b TargetCoreType outcome" where
  "op_exec_trfsr_F cpu =
     fpu_instr [] (\<lambda>g. put_flag CPU_PSW_Z (cc_isset (sys_get_fpsr_cc g) (f_fcbit cpu)) g) cpu"

text \<open>
  The last part of a comparison, from the three outcomes to the condition bit: \<open>less\<close> is bit 2 of
  \<^verbatim>\<open>result_data\<close>, \<open>equal\<close> bit 1 and \<open>unordered\<close> bit 0.
\<close>

definition cmpf_result :: "bool \<Rightarrow> bool \<Rightarrow> bool \<Rightarrow> u32 \<Rightarrow> u32 \<Rightarrow> CpuRegisterType \<Rightarrow> CpuRegisterType" where
  "cmpf_result result_less result_equal result_unordered fcond fcbit g =
     (let result_data = (if result_less then 4 else 0) OR (if result_equal then 2 else 0) OR
            (if result_unordered then 1 else 0)
      in sys_set_fpsr_cc
           (cc_put (result_data AND (fcond AND 0x00000007) \<noteq> 0) fcbit (sys_get_fpsr_cc g)) g)"

definition op_exec_cmpf_s_F :: "'b TargetCoreType \<Rightarrow> 'b TargetCoreType outcome" where
  "op_exec_cmpf_s_F cpu =
     (let reg1 = f_reg1 cpu; reg2 = f_reg2 cpu; fcond = f_reg3 cpu; fcbit = f_fcbit cpu in
      fpu_instr [reg1, reg2] (\<lambda>g.
        let reg1_data = regs g reg1;
            reg2_data = regs g reg2
        in if FLOAT_IS_NAN reg1_data \<or> FLOAT_IS_NAN reg2_data then
             let g = (if fcond AND 0x00000008 \<noteq> 0 then fpu_raise SYS_FPSR_EXPR_V g else g)
             in cmpf_result False False True fcond fcbit g
           else
             cmpf_result (c_less Single reg2_data reg1_data) (c_eq Single reg2_data reg1_data) False
               fcond fcbit g) cpu)"

section \<open>Multiplication with addition\<close>

text \<open>The third operand of the fused operations is not flushed.\<close>

definition op_exec_fmaf_s_F :: "host_fp \<Rightarrow> 'b TargetCoreType \<Rightarrow> 'b TargetCoreType outcome" where
  "op_exec_fmaf_s_F h cpu =
     (let reg1 = f_reg1 cpu; reg2 = f_reg2 cpu; reg3 = f_reg3 cpu in
      fpu_instr [reg1, reg2, reg3] (\<lambda>g.
        let (result_data, g) = float_op (\<lambda>cp g.
              let reg1_data = set_subnormal_operand cp (regs g reg1);
                  reg2_data = set_subnormal_operand cp (regs g reg2);
                  (result_data, fl) =
                    c_fma h Single (host_round cp) reg2_data reg1_data (regs g reg3)
              in (set_subnormal_result cp result_data, fl, g)) g
        in set_r reg3 result_data g) cpu)"

definition op_exec_fmsf_s_F :: "host_fp \<Rightarrow> 'b TargetCoreType \<Rightarrow> 'b TargetCoreType outcome" where
  "op_exec_fmsf_s_F h cpu =
     (let reg1 = f_reg1 cpu; reg2 = f_reg2 cpu; reg3 = f_reg3 cpu in
      fpu_instr [reg1, reg2, reg3] (\<lambda>g.
        let (result_data, g) = float_op (\<lambda>cp g.
              let reg1_data = set_subnormal_operand cp (regs g reg1);
                  reg2_data = set_subnormal_operand cp (regs g reg2);
                  (result_data, fl) =
                    c_fma h Single (host_round cp) reg2_data reg1_data (c_neg Single (regs g reg3))
              in (set_subnormal_result cp result_data, fl, g)) g
        in set_r reg3 result_data g) cpu)"

definition op_exec_fnmaf_s_F :: "host_fp \<Rightarrow> 'b TargetCoreType \<Rightarrow> 'b TargetCoreType outcome" where
  "op_exec_fnmaf_s_F h cpu =
     (let reg1 = f_reg1 cpu; reg2 = f_reg2 cpu; reg3 = f_reg3 cpu in
      fpu_instr [reg1, reg2, reg3] (\<lambda>g.
        let (result_data, g) = float_op (\<lambda>cp g.
              let reg1_data = set_subnormal_operand cp (regs g reg1);
                  reg2_data = set_subnormal_operand cp (regs g reg2);
                  (result_data, fl) =
                    c_fma h Single (host_round cp) reg2_data reg1_data (regs g reg3);
                  result_data = FLOAT_SET_SIGN_REVERSE result_data
              in (set_subnormal_result cp result_data, fl, g)) g
        in set_r reg3 result_data g) cpu)"

definition op_exec_fnmsf_s_F :: "host_fp \<Rightarrow> 'b TargetCoreType \<Rightarrow> 'b TargetCoreType outcome" where
  "op_exec_fnmsf_s_F h cpu =
     (let reg1 = f_reg1 cpu; reg2 = f_reg2 cpu; reg3 = f_reg3 cpu in
      fpu_instr [reg1, reg2, reg3] (\<lambda>g.
        let (result_data, g) = float_op (\<lambda>cp g.
              let reg1_data = set_subnormal_operand cp (regs g reg1);
                  reg2_data = set_subnormal_operand cp (regs g reg2);
                  (result_data, fl) =
                    c_fma h Single (host_round cp) reg2_data reg1_data (c_neg Single (regs g reg3));
                  result_data = FLOAT_SET_SIGN_REVERSE result_data
              in (set_subnormal_result cp result_data, fl, g)) g
        in set_r reg3 result_data g) cpu)"

text \<open>The others round the product and then the sum.\<close>

definition op_exec_maddf_s_F :: "host_fp \<Rightarrow> 'b TargetCoreType \<Rightarrow> 'b TargetCoreType outcome" where
  "op_exec_maddf_s_F h cpu =
     (let reg1 = f_reg1 cpu; reg2 = f_reg2 cpu; reg3 = f_reg3 cpu; reg4 = f_reg4 cpu in
      fpu_instr [reg1, reg2, reg3, reg4] (\<lambda>g.
        let (result_data, g) = float_op (\<lambda>cp g.
              let reg1_data = set_subnormal_operand cp (regs g reg1);
                  reg2_data = set_subnormal_operand cp (regs g reg2);
                  reg3_data = set_subnormal_operand cp (regs g reg3);
                  (prod, fl) = c_mul h Single (host_round cp) reg2_data reg1_data;
                  (total, fl') = c_add h Single (host_round cp) prod reg3_data;
                  result_data = total
              in (set_subnormal_result cp result_data, fl \<union> fl', g)) g
        in set_r reg4 result_data g) cpu)"

definition op_exec_msubf_s_F :: "host_fp \<Rightarrow> 'b TargetCoreType \<Rightarrow> 'b TargetCoreType outcome" where
  "op_exec_msubf_s_F h cpu =
     (let reg1 = f_reg1 cpu; reg2 = f_reg2 cpu; reg3 = f_reg3 cpu; reg4 = f_reg4 cpu in
      fpu_instr [reg1, reg2, reg3, reg4] (\<lambda>g.
        let (result_data, g) = float_op (\<lambda>cp g.
              let reg1_data = set_subnormal_operand cp (regs g reg1);
                  reg2_data = set_subnormal_operand cp (regs g reg2);
                  reg3_data = set_subnormal_operand cp (regs g reg3);
                  (prod, fl) = c_mul h Single (host_round cp) reg2_data reg1_data;
                  (total, fl') = c_sub h Single (host_round cp) prod reg3_data;
                  result_data = total
              in (set_subnormal_result cp result_data, fl \<union> fl', g)) g
        in set_r reg4 result_data g) cpu)"

definition op_exec_nmaddf_s_F :: "host_fp \<Rightarrow> 'b TargetCoreType \<Rightarrow> 'b TargetCoreType outcome" where
  "op_exec_nmaddf_s_F h cpu =
     (let reg1 = f_reg1 cpu; reg2 = f_reg2 cpu; reg3 = f_reg3 cpu; reg4 = f_reg4 cpu in
      fpu_instr [reg1, reg2, reg3, reg4] (\<lambda>g.
        let (result_data, g) = float_op (\<lambda>cp g.
              let reg1_data = set_subnormal_operand cp (regs g reg1);
                  reg2_data = set_subnormal_operand cp (regs g reg2);
                  reg3_data = set_subnormal_operand cp (regs g reg3);
                  (prod, fl) = c_mul h Single (host_round cp) reg2_data reg1_data;
                  (total, fl') = c_add h Single (host_round cp) prod reg3_data;
                  result_data = c_neg Single total
              in (set_subnormal_result cp result_data, fl \<union> fl', g)) g
        in set_r reg4 result_data g) cpu)"

definition op_exec_nmsubf_s_F :: "host_fp \<Rightarrow> 'b TargetCoreType \<Rightarrow> 'b TargetCoreType outcome" where
  "op_exec_nmsubf_s_F h cpu =
     (let reg1 = f_reg1 cpu; reg2 = f_reg2 cpu; reg3 = f_reg3 cpu; reg4 = f_reg4 cpu in
      fpu_instr [reg1, reg2, reg3, reg4] (\<lambda>g.
        let (result_data, g) = float_op (\<lambda>cp g.
              let reg1_data = set_subnormal_operand cp (regs g reg1);
                  reg2_data = set_subnormal_operand cp (regs g reg2);
                  reg3_data = set_subnormal_operand cp (regs g reg3);
                  (prod, fl) = c_mul h Single (host_round cp) reg2_data reg1_data;
                  (total, fl') = c_sub h Single (host_round cp) prod reg3_data;
                  result_data = c_neg Single total
              in (set_subnormal_result cp result_data, fl \<union> fl', g)) g
        in set_r reg4 result_data g) cpu)"

section \<open>Reciprocal and square root\<close>

text \<open>The sign of a zero or infinite operand is put back into the operand, not into the result.\<close>

definition op_exec_recipf_s_F :: "host_fp \<Rightarrow> 'b TargetCoreType \<Rightarrow> 'b TargetCoreType outcome" where
  "op_exec_recipf_s_F h cpu =
     (let reg2 = f_reg2 cpu; reg3 = f_reg3 cpu in
      fpu_instr [reg2, reg3] (\<lambda>g.
        let (result_data, g) = float_op (\<lambda>cp g.
              let reg2_data = regs g reg2
              in if float_is_qnan reg2_data then (float_get_qnan, {}, g)
                 else if float_is_snan reg2_data
                   then (float_get_snan, {}, fpu_raise SYS_FPSR_EXPR_V g)
                 else if FLOAT_IS_INF reg2_data then (0, {}, g)
                 else if FLOAT_IS_ZERO reg2_data
                   then (0x7F800000, {}, fpu_raise SYS_FPSR_EXPR_Z g)
                 else
                   let (result_data, fl) = c_div h Single (host_round cp) 0x3F800000 reg2_data
                   in (result_data, fl, g)) g
        in set_r reg3 result_data g) cpu)"

text \<open>The root of a \<^verbatim>\<open>float\<close> is taken in \<^verbatim>\<open>double\<close> here, and the quotient too.\<close>

definition op_exec_rsqrtf_s_F :: "host_fp \<Rightarrow> 'b TargetCoreType \<Rightarrow> 'b TargetCoreType outcome" where
  "op_exec_rsqrtf_s_F h cpu =
     (let reg2 = f_reg2 cpu; reg3 = f_reg3 cpu in
      fpu_instr [reg2, reg3] (\<lambda>g.
        let (result_data, g) = float_op (\<lambda>cp g.
              let r = host_round cp;
                  reg2_data = set_subnormal_operand cp (regs g reg2);
                  (x, fl1) = c_widen h r reg2_data;
                  (root, fl2) = c_sqrt h Double r x;
                  (quot, fl3) = c_div h Double r 0x3FF0000000000000 root;
                  (result_data, fl4) = c_narrow h r quot
              in (set_subnormal_result cp result_data, fl1 \<union> fl2 \<union> fl3 \<union> fl4, g)) g
        in set_r reg3 result_data g) cpu)"

definition op_exec_sqrtf_s_F :: "host_fp \<Rightarrow> 'b TargetCoreType \<Rightarrow> 'b TargetCoreType outcome" where
  "op_exec_sqrtf_s_F h cpu =
     (let reg2 = f_reg2 cpu; reg3 = f_reg3 cpu in
      fpu_instr [reg2, reg3] (\<lambda>g.
        let (result_data, g) = float_op (\<lambda>cp g.
              let reg2_data = set_subnormal_operand cp (regs g reg2);
                  (result_data, fl) = c_sqrt h Single (host_round cp) reg2_data
              in (set_subnormal_result cp result_data, fl, g)) g
        in set_r reg3 result_data g) cpu)"

end
