(* ===== verification/Exec_Fpu_D.thy ===== *)
theory Exec_Fpu_D
  imports Exec_Fpu_S
begin

text \<open>
  The double precision instructions of \<^verbatim>\<open>op_exec_fpu.c\<close>.  An operand is a pair of registers; only
  the number of the second is checked.
\<close>

section \<open>Arithmetic\<close>

definition op_exec_mulf_d_F :: "host_fp \<Rightarrow> 'b TargetCoreType \<Rightarrow> 'b TargetCoreType outcome" where
  "op_exec_mulf_d_F h cpu =
     (let reg1 = f_reg1 cpu; reg2 = f_reg2 cpu; reg3 = f_reg3 cpu in
      fpu_instr [reg1 + 1, reg2 + 1, reg3 + 1] (\<lambda>g.
        let (result_data, g) = float_op (\<lambda>cp g.
              let reg1_data = set_subnormal_operand_double cp (get_pair reg1 g);
                  reg2_data = set_subnormal_operand_double cp (get_pair reg2 g);
                  (result, fl) =
                    c_mul h Double (host_round cp) (d_data reg1_data) (d_data reg2_data)
              in (set_subnormal_result_double cp (d_of result), fl, g)) g
        in set_pair reg3 result_data g) cpu)"

definition op_exec_addf_d_F :: "host_fp \<Rightarrow> 'b TargetCoreType \<Rightarrow> 'b TargetCoreType outcome" where
  "op_exec_addf_d_F h cpu =
     (let reg1 = f_reg1 cpu; reg2 = f_reg2 cpu; reg3 = f_reg3 cpu in
      fpu_instr [reg1 + 1, reg2 + 1, reg3 + 1] (\<lambda>g.
        let (result_data, g) = float_op (\<lambda>cp g.
              let reg1_data = set_subnormal_operand_double cp (get_pair reg1 g);
                  reg2_data = set_subnormal_operand_double cp (get_pair reg2 g);
                  (result, fl) =
                    c_add h Double (host_round cp) (d_data reg1_data) (d_data reg2_data)
              in (set_subnormal_result_double cp (d_of result), fl, g)) g
        in set_pair reg3 result_data g) cpu)"

definition op_exec_divf_d_F :: "host_fp \<Rightarrow> 'b TargetCoreType \<Rightarrow> 'b TargetCoreType outcome" where
  "op_exec_divf_d_F h cpu =
     (let reg1 = f_reg1 cpu; reg2 = f_reg2 cpu; reg3 = f_reg3 cpu in
      fpu_instr [reg1 + 1, reg2 + 1, reg3 + 1] (\<lambda>g.
        let (result_data, g) = float_op (\<lambda>cp g.
              let reg1_data = set_subnormal_operand_double cp (get_pair reg1 g);
                  reg2_data = set_subnormal_operand_double cp (get_pair reg2 g);
                  (result, fl) =
                    c_div h Double (host_round cp) (d_data reg2_data) (d_data reg1_data)
              in (set_subnormal_result_double cp (d_of result), fl, g)) g
        in set_pair reg3 result_data g) cpu)"

definition op_exec_subf_d_F :: "host_fp \<Rightarrow> 'b TargetCoreType \<Rightarrow> 'b TargetCoreType outcome" where
  "op_exec_subf_d_F h cpu =
     (let reg1 = f_reg1 cpu; reg2 = f_reg2 cpu; reg3 = f_reg3 cpu in
      fpu_instr [reg1 + 1, reg2 + 1, reg3 + 1] (\<lambda>g.
        let (result_data, g) = float_op (\<lambda>cp g.
              let reg1_data = set_subnormal_operand_double cp (get_pair reg1 g);
                  reg2_data = set_subnormal_operand_double cp (get_pair reg2 g);
                  (result, fl) =
                    c_sub h Double (host_round cp) (d_data reg2_data) (d_data reg1_data)
              in (set_subnormal_result_double cp (d_of result), fl, g)) g
        in set_pair reg3 result_data g) cpu)"

definition op_exec_absf_d_F :: "'b TargetCoreType \<Rightarrow> 'b TargetCoreType outcome" where
  "op_exec_absf_d_F cpu =
     (let reg2 = f_reg2 cpu; reg3 = f_reg3 cpu in
      fpu_instr [reg2 + 1, reg3 + 1] (\<lambda>g.
        let (result_data, g) = float_op (\<lambda>cp g.
              let reg2_data = set_subnormal_operand_double cp (get_pair reg2 g);
                  result_data = DOUBLE_SIGN_BIT_CLR reg2_data
              in (set_subnormal_result_double cp result_data, {}, g)) g
        in set_pair reg3 result_data g) cpu)"

definition op_exec_negf_d_F :: "'b TargetCoreType \<Rightarrow> 'b TargetCoreType outcome" where
  "op_exec_negf_d_F cpu =
     (let reg2 = f_reg2 cpu; reg3 = f_reg3 cpu in
      fpu_instr [reg2 + 1, reg3 + 1] (\<lambda>g.
        let (result_data, g) = float_op (\<lambda>cp g.
              let reg2_data = get_pair reg2 g
              in if double_is_qnan reg2_data then (double_get_qnan, {}, g)
                 else if double_is_snan reg2_data
                   then (double_get_snan, {}, fpu_raise SYS_FPSR_EXPR_V g)
                 else (DOUBLE_SET_SIGN_REVERSE reg2_data, {}, g)) g
        in set_pair reg3 result_data g) cpu)"

definition op_exec_recipf_d_F :: "host_fp \<Rightarrow> 'b TargetCoreType \<Rightarrow> 'b TargetCoreType outcome" where
  "op_exec_recipf_d_F h cpu =
     (let reg2 = f_reg2 cpu; reg3 = f_reg3 cpu in
      fpu_instr [reg2 + 1, reg3 + 1] (\<lambda>g.
        let (result_data, g) = float_op (\<lambda>cp g.
              let reg2_data = get_pair reg2 g
              in if double_is_qnan reg2_data then (double_get_qnan, {}, g)
                 else if double_is_snan reg2_data
                   then (double_get_snan, {}, fpu_raise SYS_FPSR_EXPR_V g)
                 else if DOUBLE_IS_INF reg2_data then (d_of 0, {}, g)
                 else if DOUBLE_IS_ZERO reg2_data
                   then (d_of 0x7FF0000000000000, {}, fpu_raise SYS_FPSR_EXPR_Z g)
                 else
                   let (result, fl) =
                         c_div h Double (host_round cp) 0x3FF0000000000000 (d_data reg2_data)
                   in (d_of result, fl, g)) g
        in set_pair reg3 result_data g) cpu)"

definition op_exec_rsqrtf_d_F :: "host_fp \<Rightarrow> 'b TargetCoreType \<Rightarrow> 'b TargetCoreType outcome" where
  "op_exec_rsqrtf_d_F h cpu =
     (let reg2 = f_reg2 cpu; reg3 = f_reg3 cpu in
      fpu_instr [reg2 + 1, reg3 + 1] (\<lambda>g.
        let (result_data, g) = float_op (\<lambda>cp g.
              let reg2_data = set_subnormal_operand_double cp (get_pair reg2 g);
                  (root, fl) = c_sqrt h Double (host_round cp) (d_data reg2_data);
                  (quot, fl') = c_div h Double (host_round cp) 0x3FF0000000000000 root
              in (set_subnormal_result_double cp (d_of quot), fl \<union> fl', g)) g
        in set_pair reg3 result_data g) cpu)"

definition op_exec_sqrtf_d_F :: "host_fp \<Rightarrow> 'b TargetCoreType \<Rightarrow> 'b TargetCoreType outcome" where
  "op_exec_sqrtf_d_F h cpu =
     (let reg2 = f_reg2 cpu; reg3 = f_reg3 cpu in
      fpu_instr [reg2 + 1, reg3 + 1] (\<lambda>g.
        let (result_data, g) = float_op (\<lambda>cp g.
              let reg2_data = set_subnormal_operand_double cp (get_pair reg2 g);
                  (root, fl) = c_sqrt h Double (host_round cp) (d_data reg2_data)
              in (set_subnormal_result_double cp (d_of root), fl, g)) g
        in set_pair reg3 result_data g) cpu)"

section \<open>Comparison and selection\<close>

definition op_exec_cmovf_d_F :: "'b TargetCoreType \<Rightarrow> 'b TargetCoreType outcome" where
  "op_exec_cmovf_d_F cpu =
     (let reg1 = f_reg1 cpu; reg2 = f_reg2 cpu; reg3 = f_reg3 cpu in
      fpu_instr [reg1 + 1, reg2 + 1, reg3 + 1] (\<lambda>g.
        set_pair reg3
          (if cc_isset (sys_get_fpsr_cc g) (f_fcbit cpu) then get_pair reg1 g else get_pair reg2 g) g)
        cpu)"

definition op_exec_cmpf_d_F :: "'b TargetCoreType \<Rightarrow> 'b TargetCoreType outcome" where
  "op_exec_cmpf_d_F cpu =
     (let reg1 = f_reg1 cpu; reg2 = f_reg2 cpu; fcond = f_reg3 cpu; fcbit = f_fcbit cpu in
      fpu_instr [reg1 + 1, reg2 + 1] (\<lambda>g.
        let reg1_data = get_pair reg1 g;
            reg2_data = get_pair reg2 g
        in if DOUBLE_IS_NAN reg1_data \<or> DOUBLE_IS_NAN reg2_data then
             let g = (if fcond AND 0x00000008 \<noteq> 0 then fpu_raise SYS_FPSR_EXPR_V g else g)
             in cmpf_result False False True fcond fcbit g
           else
             cmpf_result (c_less Double (d_data reg2_data) (d_data reg1_data))
               (c_eq Double (d_data reg2_data) (d_data reg1_data)) False fcond fcbit g) cpu)"

text \<open>
  The comparison inside the region raises the invalid flag of the host when an operand is no
  number.  The number of the result register is not checked; with 31 the second store leaves the
  array.
\<close>

definition less_flags :: "ff \<Rightarrow> 'a::len word \<Rightarrow> 'a word \<Rightarrow> fe_flag set" where
  "less_flags F a b =
     (case (data_of F a, data_of F b) of
        (FNan _, _) \<Rightarrow> {FE_INVALID} | (_, FNan _) \<Rightarrow> {FE_INVALID} | _ \<Rightarrow> {})"

definition op_exec_maxf_d_F :: "'b TargetCoreType \<Rightarrow> 'b TargetCoreType outcome" where
  "op_exec_maxf_d_F cpu =
     (let reg1 = f_reg1 cpu; reg2 = f_reg2 cpu; reg3 = f_reg3 cpu in
      if reg1 + 1 \<ge> CPU_GREG_NUM \<or> reg2 + 1 \<ge> CPU_GREG_NUM then RetErr cpu
      else if reg3 + 1 \<ge> CPU_GREG_NUM then Fault IndexFault
      else fpu_instr [] (\<lambda>g.
        let (result_data, g) = float_op (\<lambda>cp g.
              let reg1_data = get_pair reg1 g;
                  reg2_data = get_pair reg2 g
              in if double_is_snan reg1_data \<or> double_is_snan reg2_data
                   then (double_get_qnan, {}, fpu_raise SYS_FPSR_EXPR_V g)
                 else if double_is_qnan reg1_data \<or> double_is_qnan reg2_data
                   then (double_get_qnan, {}, g)
                 else
                   (if c_less Double (d_data reg2_data) (d_data reg1_data) then reg1_data else reg2_data,
                    less_flags Double (d_data reg2_data) (d_data reg1_data), g)) g
        in set_pair reg3 result_data g) cpu)"

definition op_exec_minf_d_F :: "'b TargetCoreType \<Rightarrow> 'b TargetCoreType outcome" where
  "op_exec_minf_d_F cpu =
     (let reg1 = f_reg1 cpu; reg2 = f_reg2 cpu; reg3 = f_reg3 cpu in
      fpu_instr [reg1 + 1, reg2 + 1, reg3 + 1] (\<lambda>g.
        let reg1_data = get_pair reg1 g;
            reg2_data = get_pair reg2 g;
            (result_data, g) =
              (if double_is_snan reg1_data \<or> double_is_snan reg2_data
               then (double_get_qnan, fpu_raise SYS_FPSR_EXPR_V g)
               else if c_less Double (d_data reg1_data) (d_data reg2_data)
               then (reg1_data, g) else (reg2_data, g))
        in set_pair reg3 result_data g) cpu)"

end
