(* ===== verification/Exec_Fpu_Cvt.thy ===== *)
theory Exec_Fpu_Cvt
  imports Exec_Fpu_D
begin

text \<open>
  The conversions of \<^verbatim>\<open>op_exec_fpu.c\<close> between the two floating point formats and the integers of
  32 and 64 bits.  A 64 bit integer is a pair of registers, in one order or the other.
\<close>

section \<open>Integers to floating point\<close>

definition op_exec_cvtf_ws_F :: "host_fp \<Rightarrow> 'b TargetCoreType \<Rightarrow> 'b TargetCoreType outcome" where
  "op_exec_cvtf_ws_F h cpu =
     (let reg2 = f_reg2 cpu; reg3 = f_reg3 cpu in
      fpu_instr [reg2, reg3] (\<lambda>g.
        let (result_data, g) = float_op (\<lambda>cp g.
              let (result_data, fl) = c_of_int h Single (host_round cp) (sint (regs g reg2))
              in (set_subnormal_result cp result_data, fl, g)) g
        in set_r reg3 result_data g) cpu)"

definition op_exec_cvtf_uws_F :: "host_fp \<Rightarrow> 'b TargetCoreType \<Rightarrow> 'b TargetCoreType outcome" where
  "op_exec_cvtf_uws_F h cpu =
     (let reg2 = f_reg2 cpu; reg3 = f_reg3 cpu in
      fpu_instr [reg2, reg3] (\<lambda>g.
        let (result_data, g) = float_op (\<lambda>cp g.
              let (result_data, fl) = c_of_int h Single (host_round cp) (uint (regs g reg2))
              in (set_subnormal_result cp result_data, fl, g)) g
        in set_r reg3 result_data g) cpu)"

definition op_exec_cvtf_ls_F :: "host_fp \<Rightarrow> 'b TargetCoreType \<Rightarrow> 'b TargetCoreType outcome" where
  "op_exec_cvtf_ls_F h cpu =
     (let reg2 = f_reg2 cpu; reg3 = f_reg3 cpu in
      fpu_instr [reg2, reg2 + 1, reg3] (\<lambda>g.
        let (result_data, g) = float_op (\<lambda>cp g.
              let (result_data, fl) = c_of_int h Single (host_round cp) (sint (d_data (get_pair reg2 g)))
              in (set_subnormal_result cp result_data, fl, g)) g
        in set_r reg3 result_data g) cpu)"

definition op_exec_cvtf_uls_F :: "host_fp \<Rightarrow> 'b TargetCoreType \<Rightarrow> 'b TargetCoreType outcome" where
  "op_exec_cvtf_uls_F h cpu =
     (let reg2 = f_reg2 cpu; reg3 = f_reg3 cpu in
      fpu_instr [reg2, reg2 + 1, reg3] (\<lambda>g.
        let (result_data, g) = float_op (\<lambda>cp g.
              let (result_data, fl) = c_of_int h Single (host_round cp) (uint (d_data (get_pair reg2 g)))
              in (set_subnormal_result cp result_data, fl, g)) g
        in set_r reg3 result_data g) cpu)"

definition op_exec_cvtf_wd_F :: "host_fp \<Rightarrow> 'b TargetCoreType \<Rightarrow> 'b TargetCoreType outcome" where
  "op_exec_cvtf_wd_F h cpu =
     (let reg2 = f_reg2 cpu; reg3 = f_reg3 cpu in
      fpu_instr [reg2, reg3 + 1] (\<lambda>g.
        let (result_data, g) = float_op (\<lambda>cp g.
              let (result_data, fl) = c_of_int h Double (host_round cp) (sint (regs g reg2))
              in (set_subnormal_result_double cp (d_of result_data), fl, g)) g
        in set_pair reg3 result_data g) cpu)"

definition op_exec_cvtf_uwd_F :: "host_fp \<Rightarrow> 'b TargetCoreType \<Rightarrow> 'b TargetCoreType outcome" where
  "op_exec_cvtf_uwd_F h cpu =
     (let reg2 = f_reg2 cpu; reg3 = f_reg3 cpu in
      fpu_instr [reg2, reg3 + 1] (\<lambda>g.
        let (result_data, g) = float_op (\<lambda>cp g.
              let (result_data, fl) = c_of_int h Double (host_round cp) (uint (regs g reg2))
              in (set_subnormal_result_double cp (d_of result_data), fl, g)) g
        in set_pair reg3 result_data g) cpu)"

definition op_exec_cvtf_ld_F :: "host_fp \<Rightarrow> 'b TargetCoreType \<Rightarrow> 'b TargetCoreType outcome" where
  "op_exec_cvtf_ld_F h cpu =
     (let reg2 = f_reg2 cpu; reg3 = f_reg3 cpu in
      fpu_instr [reg2 + 1, reg3 + 1] (\<lambda>g.
        let (result_data, g) = float_op (\<lambda>cp g.
              let (result_data, fl) = c_of_int h Double (host_round cp) (sint (d_data (get_pair reg2 g)))
              in (set_subnormal_result_double cp (d_of result_data), fl, g)) g
        in set_pair reg3 result_data g) cpu)"

definition op_exec_cvtf_uld_F :: "host_fp \<Rightarrow> 'b TargetCoreType \<Rightarrow> 'b TargetCoreType outcome" where
  "op_exec_cvtf_uld_F h cpu =
     (let reg2 = f_reg2 cpu; reg3 = f_reg3 cpu in
      fpu_instr [reg2 + 1, reg3 + 1] (\<lambda>g.
        let (result_data, g) = float_op (\<lambda>cp g.
              let (result_data, fl) = c_of_int h Double (host_round cp) (uint (d_data (get_pair reg2 g)))
              in (set_subnormal_result_double cp (d_of result_data), fl, g)) g
        in set_pair reg3 result_data g) cpu)"

section \<open>Between the formats\<close>

definition op_exec_cvtf_ds_F :: "host_fp \<Rightarrow> 'b TargetCoreType \<Rightarrow> 'b TargetCoreType outcome" where
  "op_exec_cvtf_ds_F h cpu =
     (let reg2 = f_reg2 cpu; reg3 = f_reg3 cpu in
      fpu_instr [reg2, reg2 + 1, reg3] (\<lambda>g.
        let (result_data, g) = float_op (\<lambda>cp g.
              let reg2_data = set_subnormal_operand_double cp (get_pair reg2 g);
                  (result_data, fl) = c_narrow h (host_round cp) (d_data reg2_data)
              in (set_subnormal_result cp result_data, fl, g)) g
        in set_r reg3 result_data g) cpu)"

definition op_exec_cvtf_sd_F :: "host_fp \<Rightarrow> 'b TargetCoreType \<Rightarrow> 'b TargetCoreType outcome" where
  "op_exec_cvtf_sd_F h cpu =
     (let reg2 = f_reg2 cpu; reg3 = f_reg3 cpu in
      fpu_instr [reg3, reg3 + 1, reg2] (\<lambda>g.
        let (result_data, g) = float_op (\<lambda>cp g.
              let reg2_data = set_subnormal_operand cp (regs g reg2);
                  (result, fl) = c_widen h (host_round cp) reg2_data
              in (set_subnormal_result_double cp (d_of result), fl, g)) g
        in set_pair reg3 result_data g) cpu)"

section \<open>Single precision to integers\<close>

definition op_exec_cvtf_suw_F :: "host_fp \<Rightarrow> 'b TargetCoreType \<Rightarrow> 'b TargetCoreType outcome" where
  "op_exec_cvtf_suw_F h cpu =
     (let reg2 = f_reg2 cpu; reg3 = f_reg3 cpu in
      fpu_instr [reg2, reg3] (\<lambda>g.
        let (result_data, g) = float_op (\<lambda>cp g.
              let reg2_data = regs g reg2
              in if FLOAT_IS_NAN reg2_data \<or> FLOAT_IS_INF reg2_data
                 then (if FLOAT_IS_PLUS reg2_data then 0xFFFFFFFF else 0, {},
                       fpu_raise SYS_FPSR_EXPR_V g)
                 else
                   let (i, fl) = c_cast h Single UInt64 reg2_data;
                       result = (of_int i :: u64)
                   in if result > 0xFFFFFFFF then (0xFFFFFFFF, fl, fpu_raise SYS_FPSR_EXPR_V g)
                      else (ucast result, fl, g)) g
        in set_r reg3 result_data g) cpu)"

definition op_exec_cvtf_sw_F :: "host_fp \<Rightarrow> 'b TargetCoreType \<Rightarrow> 'b TargetCoreType outcome" where
  "op_exec_cvtf_sw_F h cpu =
     (let reg2 = f_reg2 cpu; reg3 = f_reg3 cpu in
      fpu_instr [reg2, reg3] (\<lambda>g.
        let (result_data, g) = float_op (\<lambda>cp g.
              let reg2_data = regs g reg2
              in if FLOAT_IS_NAN reg2_data \<or> FLOAT_IS_INF reg2_data
                 then (if FLOAT_IS_PLUS reg2_data then 0x7FFFFFFF else - 0x7FFFFFFF, {},
                       fpu_raise SYS_FPSR_EXPR_V g)
                 else
                   let (i, fl) = c_cast h Single SInt64 reg2_data;
                       result = (of_int i :: u64)
                   in if sint result < - 0x7FFFFFFF
                        then (- 0x7FFFFFFF, fl, fpu_raise SYS_FPSR_EXPR_V g)
                      else if sint result > 0x7FFFFFFF
                        then (0x7FFFFFFF, fl, fpu_raise SYS_FPSR_EXPR_V g)
                      else (ucast result, fl, g)) g
        in set_r reg3 result_data g) cpu)"

definition op_exec_trncf_sw_F :: "host_fp \<Rightarrow> 'b TargetCoreType \<Rightarrow> 'b TargetCoreType outcome" where
  "op_exec_trncf_sw_F h cpu =
     (let reg2 = f_reg2 cpu; reg3 = f_reg3 cpu in
      fpu_instr [reg2, reg3] (\<lambda>g.
        let (result_data, g) = float_op (\<lambda>cp g.
              let reg2_data = regs g reg2
              in if FLOAT_IS_NAN reg2_data \<or> FLOAT_IS_INF reg2_data
                 then (if FLOAT_IS_PLUS reg2_data then 0x7FFFFFFF else - 0x7FFFFFFF, {},
                       fpu_raise SYS_FPSR_EXPR_V g)
                 else
                   let (whole, fl) = c_trunc h Single (host_round cp) reg2_data;
                       (i, fl') = c_cast h Single SInt64 whole;
                       result = (of_int i :: u64);
                       fl = fl \<union> fl'
                   in if sint result < - 0x7FFFFFFF
                        then (- 0x7FFFFFFF, fl, fpu_raise SYS_FPSR_EXPR_V g)
                      else if sint result > 0x7FFFFFFF
                        then (0x7FFFFFFF, fl, fpu_raise SYS_FPSR_EXPR_V g)
                      else (ucast result, fl, g)) g
        in set_r reg3 result_data g) cpu)"

definition op_exec_trncf_suw_F :: "host_fp \<Rightarrow> 'b TargetCoreType \<Rightarrow> 'b TargetCoreType outcome" where
  "op_exec_trncf_suw_F h cpu =
     (let reg2 = f_reg2 cpu; reg3 = f_reg3 cpu in
      fpu_instr [reg2, reg3] (\<lambda>g.
        let (result_data, g) = float_op (\<lambda>cp g.
              let reg2_data = regs g reg2
              in if FLOAT_IS_NAN reg2_data \<or> FLOAT_IS_INF reg2_data
                 then (if FLOAT_IS_PLUS reg2_data then 0xFFFFFFFF else 0, {},
                       fpu_raise SYS_FPSR_EXPR_V g)
                 else
                   let (whole, fl) = c_trunc h Single (host_round cp) reg2_data;
                       (i, fl') = c_cast h Single UInt64 whole;
                       result = (of_int i :: u64);
                       fl = fl \<union> fl'
                   in if result > 0xFFFFFFFF then (0xFFFFFFFF, fl, fpu_raise SYS_FPSR_EXPR_V g)
                      else (ucast result, fl, g)) g
        in set_r reg3 result_data g) cpu)"

definition op_exec_floorf_suw_F :: "host_fp \<Rightarrow> 'b TargetCoreType \<Rightarrow> 'b TargetCoreType outcome" where
  "op_exec_floorf_suw_F h cpu =
     (let reg2 = f_reg2 cpu; reg3 = f_reg3 cpu in
      fpu_instr [reg2, reg3] (\<lambda>g.
        let (result_data, g) = float_op (\<lambda>cp g.
              let reg2_data = regs g reg2
              in if FLOAT_IS_NAN reg2_data \<or> FLOAT_IS_INF reg2_data
                 then (if FLOAT_IS_PLUS reg2_data then 0xFFFFFFFF else 0, {},
                       fpu_raise SYS_FPSR_EXPR_V g)
                 else
                   let (whole, fl) = c_floor h Single (host_round cp) reg2_data;
                       (i, fl') = c_cast h Single UInt64 whole;
                       result = (of_int i :: u64);
                       fl = fl \<union> fl'
                   in if result > 0xFFFFFFFF then (0xFFFFFFFF, fl, fpu_raise SYS_FPSR_EXPR_V g)
                      else (ucast result, fl, g)) g
        in set_r reg3 result_data g) cpu)"

text \<open>These two store the floating point number, not the integer.\<close>

definition op_exec_floorf_sw_F :: "host_fp \<Rightarrow> 'b TargetCoreType \<Rightarrow> 'b TargetCoreType outcome" where
  "op_exec_floorf_sw_F h cpu =
     (let reg2 = f_reg2 cpu; reg3 = f_reg3 cpu in
      fpu_instr [reg2, reg3] (\<lambda>g.
        let (result_data, g) = float_op (\<lambda>cp g.
              let reg2_data = set_subnormal_operand cp (regs g reg2);
                  (whole, fl) = c_floor h Single (host_round cp) reg2_data
              in (set_subnormal_result cp whole, fl, g)) g
        in set_r reg3 result_data g) cpu)"

definition op_exec_floorf_sl_F :: "host_fp \<Rightarrow> 'b TargetCoreType \<Rightarrow> 'b TargetCoreType outcome" where
  "op_exec_floorf_sl_F h cpu =
     (let reg2 = f_reg2 cpu; reg3 = f_reg3 cpu in
      if reg2 \<ge> CPU_GREG_NUM \<or> reg3 \<ge> CPU_GREG_NUM then RetErr cpu
      else if reg3 + 1 \<ge> CPU_GREG_NUM then Fault IndexFault
      else fpu_instr [] (\<lambda>g.
        let (result_data, g) = float_op (\<lambda>cp g.
              let reg2_data = set_subnormal_operand cp (regs g reg2);
                  (whole, fl) = c_floor h Single (host_round cp) reg2_data;
                  (result, fl') = c_widen h (host_round cp) whole
              in (set_subnormal_result_double cp (d_of result), fl \<union> fl', g)) g
        in set_pair reg3 result_data g) cpu)"

definition op_exec_trncf_sl_F :: "host_fp \<Rightarrow> 'b TargetCoreType \<Rightarrow> 'b TargetCoreType outcome" where
  "op_exec_trncf_sl_F h cpu =
     (let reg2 = f_reg2 cpu; reg3 = f_reg3 cpu in
      fpu_instr [reg2, reg3 + 1] (\<lambda>g.
        let (result_data, g) = float_op (\<lambda>cp g.
              let reg2_data = regs g reg2
              in if FLOAT_IS_NAN reg2_data
                   then (- 0x7FFFFFFFFFFFFFFF, {}, fpu_raise SYS_FPSR_EXPR_V g)
                 else if FLOAT_IS_INF reg2_data
                   then (0x7FFFFFFFFFFFFFFF, {}, fpu_raise SYS_FPSR_EXPR_V g)
                 else
                   let (whole, fl) = c_trunc h Single (host_round cp) reg2_data;
                       (i, fl') = c_cast h Single SInt64 whole
                   in (of_int i, fl \<union> fl', g)) g
        in set_pair reg3 (d_of result_data) g) cpu)"

text \<open>
  \<^verbatim>\<open>ULONG_MAX\<close> becomes 2 to the 64 when it is compared with a floating point number.
\<close>

definition op_exec_trncf_sul_F :: "host_fp \<Rightarrow> 'b TargetCoreType \<Rightarrow> 'b TargetCoreType outcome" where
  "op_exec_trncf_sul_F h cpu =
     (let reg2 = f_reg2 cpu; reg3 = f_reg3 cpu in
      fpu_instr [reg2, reg3 + 1] (\<lambda>g.
        let (result_data, g) = float_op (\<lambda>cp g.
              let reg2_data = regs g reg2
              in if FLOAT_IS_NAN reg2_data then (0, {}, fpu_raise SYS_FPSR_EXPR_V g)
                 else if FLOAT_IS_INF reg2_data
                   then (if FLOAT_IS_PLUS reg2_data then 0xFFFFFFFFFFFFFFFF else 0, {},
                         fpu_raise SYS_FPSR_EXPR_V g)
                 else if c_less Single reg2_data 0 then (0, {}, fpu_raise SYS_FPSR_EXPR_V g)
                 else if c_less Single 0x5F800000 reg2_data
                   then (0xFFFFFFFFFFFFFFFF, {}, fpu_raise SYS_FPSR_EXPR_V g)
                 else
                   let (whole, fl) = c_trunc h Single (host_round cp) reg2_data;
                       (i, fl') = c_cast h Single UInt64 whole
                   in (of_int i, fl \<union> fl', g)) g
        in set_pair reg3 (d_of result_data) g) cpu)"

definition op_exec_floorf_sul_F :: "host_fp \<Rightarrow> 'b TargetCoreType \<Rightarrow> 'b TargetCoreType outcome" where
  "op_exec_floorf_sul_F h cpu =
     (let reg2 = f_reg2 cpu; reg3 = f_reg3 cpu in
      if reg2 \<ge> CPU_GREG_NUM \<or> reg3 \<ge> CPU_GREG_NUM then RetErr cpu
      else if reg3 + 1 \<ge> CPU_GREG_NUM then Fault IndexFault
      else fpu_instr [] (\<lambda>g.
        let (result_data, g) = float_op (\<lambda>cp g.
              let reg2_data = regs g reg2
              in if FLOAT_IS_NAN reg2_data then (0, {}, fpu_raise SYS_FPSR_EXPR_V g)
                 else if FLOAT_IS_INF reg2_data
                   then (if FLOAT_IS_PLUS reg2_data then 0xFFFFFFFFFFFFFFFF else 0, {},
                         fpu_raise SYS_FPSR_EXPR_V g)
                 else if c_less Single reg2_data 0 then (0, {}, fpu_raise SYS_FPSR_EXPR_V g)
                 else if c_less Single 0x5F800000 reg2_data
                   then (0xFFFFFFFFFFFFFFFF, {}, fpu_raise SYS_FPSR_EXPR_V g)
                 else
                   let (whole, fl) = c_floor h Single (host_round cp) reg2_data;
                       (i, fl') = c_cast h Single UInt64 whole
                   in (of_int i, fl \<union> fl', g)) g
        in set_pair reg3 (d_of result_data) g) cpu)"

section \<open>Double precision to integers\<close>

text \<open>\<open>CEILF\<close> truncates; \<open>CVTF\<close> stores the upper word first.\<close>

definition op_exec_ceilf_dl_F :: "host_fp \<Rightarrow> 'b TargetCoreType \<Rightarrow> 'b TargetCoreType outcome" where
  "op_exec_ceilf_dl_F h cpu =
     (let reg2 = f_reg2 cpu; reg3 = f_reg3 cpu in
      fpu_instr [reg2 + 1, reg3 + 1] (\<lambda>g.
        let (result_data, g) = float_op (\<lambda>cp g.
              let reg2_data = set_subnormal_operand_double cp (get_pair reg2 g);
                  (i, fl) = c_cast h Double SInt64 (d_data reg2_data)
              in (of_int i, fl, g)) g
        in set_pair reg3 (d_of result_data) g) cpu)"

definition op_exec_cvtf_dl_F :: "host_fp \<Rightarrow> 'b TargetCoreType \<Rightarrow> 'b TargetCoreType outcome" where
  "op_exec_cvtf_dl_F h cpu =
     (let reg2 = f_reg2 cpu; reg3 = f_reg3 cpu in
      fpu_instr [reg2 + 1, reg3 + 1] (\<lambda>g.
        let (result_data, g) = float_op (\<lambda>cp g.
              let reg2_data = set_subnormal_operand_double cp (get_pair reg2 g);
                  (i, fl) = c_cast h Double SInt64 (d_data reg2_data)
              in (of_int i, fl, g)) g
        in set_pair reg3 \<lparr>binary0 = binary1 (d_of result_data), binary1 = binary0 (d_of result_data)\<rparr> g) cpu)"

definition op_exec_cvtf_dul_F :: "host_fp \<Rightarrow> 'b TargetCoreType \<Rightarrow> 'b TargetCoreType outcome" where
  "op_exec_cvtf_dul_F h cpu =
     (let reg2 = f_reg2 cpu; reg3 = f_reg3 cpu in
      fpu_instr [reg2 + 1, reg3 + 1] (\<lambda>g.
        let (result_data, g) = float_op (\<lambda>cp g.
              let reg2_data = set_subnormal_operand_double cp (get_pair reg2 g);
                  (i, fl) = c_cast h Double UInt64 (d_data reg2_data)
              in (of_int i, fl, g)) g
        in set_pair reg3 \<lparr>binary0 = binary1 (d_of result_data), binary1 = binary0 (d_of result_data)\<rparr> g) cpu)"

definition op_exec_cvtf_duw_F :: "host_fp \<Rightarrow> 'b TargetCoreType \<Rightarrow> 'b TargetCoreType outcome" where
  "op_exec_cvtf_duw_F h cpu =
     (let reg2 = f_reg2 cpu; reg3 = f_reg3 cpu in
      fpu_instr [reg2 + 1, reg3] (\<lambda>g.
        let (result_data, g) = float_op (\<lambda>cp g.
              let reg2_data = set_subnormal_operand_double cp (get_pair reg2 g);
                  (i, fl) = c_cast h Double UInt32 (d_data reg2_data)
              in (of_int i, fl, g)) g
        in set_r reg3 result_data g) cpu)"

definition op_exec_cvtf_dw_F :: "host_fp \<Rightarrow> 'b TargetCoreType \<Rightarrow> 'b TargetCoreType outcome" where
  "op_exec_cvtf_dw_F h cpu =
     (let reg2 = f_reg2 cpu; reg3 = f_reg3 cpu in
      fpu_instr [reg2 + 1, reg3] (\<lambda>g.
        let (result_data, g) = float_op (\<lambda>cp g.
              let reg2_data = set_subnormal_operand_double cp (get_pair reg2 g);
                  (i, fl) = c_cast h Double SInt32 (d_data reg2_data)
              in (of_int i, fl, g)) g
        in set_r reg3 result_data g) cpu)"

definition op_exec_trncf_duw_F :: "host_fp \<Rightarrow> 'b TargetCoreType \<Rightarrow> 'b TargetCoreType outcome" where
  "op_exec_trncf_duw_F h cpu =
     (let reg2 = f_reg2 cpu; reg3 = f_reg3 cpu in
      fpu_instr [reg2 + 1, reg3] (\<lambda>g.
        let (result_data, g) = float_op (\<lambda>cp g.
              let reg2_data = set_subnormal_operand_double cp (get_pair reg2 g);
                  (i, fl) = c_cast h Double UInt32 (d_data reg2_data)
              in (of_int i, fl, g)) g
        in set_r reg3 result_data g) cpu)"

definition op_exec_trncf_dw_F :: "host_fp \<Rightarrow> 'b TargetCoreType \<Rightarrow> 'b TargetCoreType outcome" where
  "op_exec_trncf_dw_F h cpu =
     (let reg2 = f_reg2 cpu; reg3 = f_reg3 cpu in
      fpu_instr [reg2 + 1, reg3] (\<lambda>g.
        let (result_data, g) = float_op (\<lambda>cp g.
              let reg2_data = set_subnormal_operand_double cp (get_pair reg2 g);
                  (i, fl) = c_cast h Double SInt32 (d_data reg2_data)
              in (of_int i, fl, g)) g
        in set_r reg3 result_data g) cpu)"

text \<open>This one does not end the region: the flags are lost.\<close>

definition op_exec_ceilf_duw_F :: "host_fp \<Rightarrow> 'b TargetCoreType \<Rightarrow> 'b TargetCoreType outcome" where
  "op_exec_ceilf_duw_F h cpu =
     (let reg2 = f_reg2 cpu; reg3 = f_reg3 cpu in
      fpu_instr [reg2 + 1, reg3] (\<lambda>g.
        let cp = prepare_float_op g;
            reg2_data = set_subnormal_operand_double cp (get_pair reg2 g);
            (whole, fl) = c_trunc h Double (host_round cp) (d_data reg2_data);
            (i, fl') = c_cast h Double SInt32 whole
        in set_r reg3 (of_int i) g) cpu)"

definition op_exec_trncf_dl_F :: "host_fp \<Rightarrow> 'b TargetCoreType \<Rightarrow> 'b TargetCoreType outcome" where
  "op_exec_trncf_dl_F h cpu =
     (let reg2 = f_reg2 cpu; reg3 = f_reg3 cpu in
      fpu_instr [reg2 + 1, reg3 + 1] (\<lambda>g.
        let (result_data, g) = float_op (\<lambda>cp g.
              let reg2_data = get_pair reg2 g
              in if DOUBLE_IS_NAN reg2_data \<or> DOUBLE_IS_INF reg2_data
                 then (if DOUBLE_IS_PLUS reg2_data then 0x7FFFFFFFFFFFFFFF else - 0x7FFFFFFFFFFFFFFF,
                       {}, fpu_raise SYS_FPSR_EXPR_V g)
                 else
                   let (whole, fl) = c_trunc h Double (host_round cp) (d_data reg2_data);
                       (i, fl') = c_cast h Double SInt64 whole;
                       result = (of_int i :: u64);
                       fl = fl \<union> fl'
                   in if sint result < - 0x7FFFFFFFFFFFFFFF
                        then (- 0x7FFFFFFFFFFFFFFF, fl, fpu_raise SYS_FPSR_EXPR_V g)
                      else if sint result > 0x7FFFFFFFFFFFFFFF
                        then (0x7FFFFFFFFFFFFFFF, fl, fpu_raise SYS_FPSR_EXPR_V g)
                      else (result, fl, g)) g
        in set_pair reg3 (d_of result_data) g) cpu)"

definition op_exec_ceilf_dul_F :: "host_fp \<Rightarrow> 'b TargetCoreType \<Rightarrow> 'b TargetCoreType outcome" where
  "op_exec_ceilf_dul_F h cpu =
     (let reg2 = f_reg2 cpu; reg3 = f_reg3 cpu in
      fpu_instr [reg2 + 1, reg3 + 1] (\<lambda>g.
        let (result_data, g) = float_op (\<lambda>cp g.
              let reg2_data = get_pair reg2 g;
                  x = d_data reg2_data
              in if DOUBLE_IS_NAN reg2_data \<or> DOUBLE_IS_INF reg2_data
                 then (if DOUBLE_IS_PLUS reg2_data \<and> DOUBLE_IS_INF reg2_data
                       then 0xFFFFFFFFFFFFFFFF else 0, {}, fpu_raise SYS_FPSR_EXPR_V g)
                 else
                   let (whole, fl) = c_trunc h Double (host_round cp) x;
                       fl = fl \<union> less_flags Double whole 0
                   in if c_less Double whole 0 then (0, fl, fpu_raise SYS_FPSR_EXPR_V g)
                      else if c_less Double 0x43F0000000000000 whole
                        then (0xFFFFFFFFFFFFFFFF, fl, fpu_raise SYS_FPSR_EXPR_V g)
                      else
                        let (i, fl') = c_cast h Double UInt64 whole
                        in (of_int i, fl \<union> fl', g)) g
        in set_pair reg3 (d_of result_data) g) cpu)"

definition op_exec_trncf_dul_F :: "host_fp \<Rightarrow> 'b TargetCoreType \<Rightarrow> 'b TargetCoreType outcome" where
  "op_exec_trncf_dul_F h cpu =
     (let reg2 = f_reg2 cpu; reg3 = f_reg3 cpu in
      fpu_instr [reg2 + 1, reg3 + 1] (\<lambda>g.
        let (result_data, g) = float_op (\<lambda>cp g.
              let reg2_data = get_pair reg2 g;
                  x = d_data reg2_data;
                  fl = less_flags Double x 0
              in if DOUBLE_IS_NAN reg2_data then (0, {}, fpu_raise SYS_FPSR_EXPR_V g)
                 else if DOUBLE_IS_INF reg2_data
                   then (if DOUBLE_IS_PLUS reg2_data then 0xFFFFFFFFFFFFFFFF else 0, {},
                         fpu_raise SYS_FPSR_EXPR_V g)
                 else if c_less Double x 0 then (0, fl, fpu_raise SYS_FPSR_EXPR_V g)
                 else if c_less Double 0x43F0000000000000 x
                   then (0xFFFFFFFFFFFFFFFF, fl, fpu_raise SYS_FPSR_EXPR_V g)
                 else
                   let (whole, fl') = c_trunc h Double (host_round cp) x;
                       (i, fl'') = c_cast h Double UInt64 whole
                   in (of_int i, fl \<union> fl' \<union> fl'', g)) g
        in set_pair reg3 (d_of result_data) g) cpu)"

section \<open>Unsupported instructions\<close>

definition op_exec_ceilf_dw_F :: "'b TargetCoreType \<Rightarrow> 'b TargetCoreType outcome" where
  "op_exec_ceilf_dw_F cpu = RetErr cpu"

definition op_exec_floorf_dl_F :: "'b TargetCoreType \<Rightarrow> 'b TargetCoreType outcome" where
  "op_exec_floorf_dl_F cpu = RetErr cpu"

definition op_exec_floorf_dul_F :: "'b TargetCoreType \<Rightarrow> 'b TargetCoreType outcome" where
  "op_exec_floorf_dul_F cpu = RetErr cpu"

definition op_exec_floorf_duw_F :: "'b TargetCoreType \<Rightarrow> 'b TargetCoreType outcome" where
  "op_exec_floorf_duw_F cpu = RetErr cpu"

definition op_exec_floorf_dw_F :: "'b TargetCoreType \<Rightarrow> 'b TargetCoreType outcome" where
  "op_exec_floorf_dw_F cpu = RetErr cpu"

definition op_exec_ceilf_sl_F :: "'b TargetCoreType \<Rightarrow> 'b TargetCoreType outcome" where
  "op_exec_ceilf_sl_F cpu = RetErr cpu"

definition op_exec_ceilf_sul_F :: "'b TargetCoreType \<Rightarrow> 'b TargetCoreType outcome" where
  "op_exec_ceilf_sul_F cpu = RetErr cpu"

definition op_exec_ceilf_suw_F :: "'b TargetCoreType \<Rightarrow> 'b TargetCoreType outcome" where
  "op_exec_ceilf_suw_F cpu = RetErr cpu"

definition op_exec_ceilf_sw_F :: "'b TargetCoreType \<Rightarrow> 'b TargetCoreType outcome" where
  "op_exec_ceilf_sw_F cpu = RetErr cpu"

definition op_exec_cvtf_sl_F :: "'b TargetCoreType \<Rightarrow> 'b TargetCoreType outcome" where
  "op_exec_cvtf_sl_F cpu = RetErr cpu"

definition op_exec_cvtf_sul_F :: "'b TargetCoreType \<Rightarrow> 'b TargetCoreType outcome" where
  "op_exec_cvtf_sul_F cpu = RetErr cpu"

end
