(* ===== verification/Fpu_Table.thy ===== *)
theory Fpu_Table
  imports Cpu_Step Exec_Fpu_Cvt
begin

text \<open>
  The floating point rows of the execution table of \<^verbatim>\<open>cpu_exec/op_exec.c\<close>.  With the macros of
  \<^verbatim>\<open>op_exec.h\<close> some executors that are written have no row; their numbers are in \<open>op_exec_null\<close>.
\<close>

definition fpu_rows :: "host_fp \<Rightarrow> (nat \<times> ('b TargetCoreType \<Rightarrow> 'b TargetCoreType outcome)) list" where
  "fpu_rows h =
    [(OpCodeId_ABSF_D_F, op_exec_absf_d_F),
     (OpCodeId_ABSF_S_F, op_exec_absf_s_F),
     (OpCodeId_ADDF_D_F, op_exec_addf_d_F h),
     (OpCodeId_ADDF_S_F, op_exec_addf_s_F h),
     (OpCodeId_CEILF_DL_F, op_exec_ceilf_dl_F h),
     (OpCodeId_CEILF_DUL_F, op_exec_ceilf_dul_F h),
     (OpCodeId_CEILF_DUW_F, op_exec_ceilf_duw_F h),
     (OpCodeId_CEILF_DW_F, op_exec_ceilf_dw_F),
     (OpCodeId_CMOVF_D_F, op_exec_cmovf_d_F),
     (OpCodeId_CMOVF_S_F, op_exec_cmovf_s_F),
     (OpCodeId_CMPF_D_F, op_exec_cmpf_d_F),
     (OpCodeId_CMPF_S_F, op_exec_cmpf_s_F),
     (OpCodeId_CVTF_DL_F, op_exec_cvtf_dl_F h),
     (OpCodeId_CVTF_DS_F, op_exec_cvtf_ds_F h),
     (OpCodeId_CVTF_DUL_F, op_exec_cvtf_dul_F h),
     (OpCodeId_CVTF_DUW_F, op_exec_cvtf_duw_F h),
     (OpCodeId_CVTF_DW_F, op_exec_cvtf_dw_F h),
     (OpCodeId_CVTF_LD_F, op_exec_cvtf_ld_F h),
     (OpCodeId_CVTF_LS_F, op_exec_cvtf_ls_F h),
     (OpCodeId_CVTF_SD_F, op_exec_cvtf_sd_F h),
     (OpCodeId_CVTF_SUW_F, op_exec_cvtf_suw_F h),
     (OpCodeId_CVTF_SW_F, op_exec_cvtf_sw_F h),
     (OpCodeId_CVTF_ULD_F, op_exec_cvtf_uld_F h),
     (OpCodeId_CVTF_ULS_F, op_exec_cvtf_uls_F h),
     (OpCodeId_CVTF_UWD_F, op_exec_cvtf_uwd_F h),
     (OpCodeId_CVTF_UWS_F, op_exec_cvtf_uws_F h),
     (OpCodeId_CVTF_WD_F, op_exec_cvtf_wd_F h),
     (OpCodeId_CVTF_WS_F, op_exec_cvtf_ws_F h),
     (OpCodeId_DIVF_D_F, op_exec_divf_d_F h),
     (OpCodeId_DIVF_S_F, op_exec_divf_s_F h),
     (OpCodeId_FLOORF_DL_F, op_exec_floorf_dl_F),
     (OpCodeId_FLOORF_DUL_F, op_exec_floorf_dul_F),
     (OpCodeId_FLOORF_DUW_F, op_exec_floorf_duw_F),
     (OpCodeId_FLOORF_DW_F, op_exec_floorf_dw_F),
     (OpCodeId_FLOORF_SUL_F, op_exec_floorf_sul_F h),
     (OpCodeId_FMAF_S_F, op_exec_fmaf_s_F h),
     (OpCodeId_FMSF_S_F, op_exec_fmsf_s_F h),
     (OpCodeId_FNMAF_S_F, op_exec_fnmaf_s_F h),
     (OpCodeId_FNMSF_S_F, op_exec_fnmsf_s_F h),
     (OpCodeId_MADDF_S_F, op_exec_maddf_s_F h),
     (OpCodeId_MAXF_D_F, op_exec_maxf_d_F),
     (OpCodeId_MAXF_S_F, op_exec_maxf_s_F),
     (OpCodeId_MINF_D_F, op_exec_minf_d_F),
     (OpCodeId_MINF_S_F, op_exec_minf_s_F),
     (OpCodeId_MSUBF_S_F, op_exec_msubf_s_F h),
     (OpCodeId_MULF_D_F, op_exec_mulf_d_F h),
     (OpCodeId_MULF_S_F, op_exec_mulf_s_F h),
     (OpCodeId_NEGF_D_F, op_exec_negf_d_F),
     (OpCodeId_NEGF_S_F, op_exec_negf_s_F),
     (OpCodeId_NMADDF_S_F, op_exec_nmaddf_s_F h),
     (OpCodeId_NMSUBF_S_F, op_exec_nmsubf_s_F h),
     (OpCodeId_RECIPF_D_F, op_exec_recipf_d_F h),
     (OpCodeId_RSQRTF_D_F, op_exec_rsqrtf_d_F h),
     (OpCodeId_SQRTF_D_F, op_exec_sqrtf_d_F h),
     (OpCodeId_SUBF_D_F, op_exec_subf_d_F h),
     (OpCodeId_SUBF_S_F, op_exec_subf_s_F h),
     (OpCodeId_TRFSR_F, op_exec_trfsr_F),
     (OpCodeId_TRNCF_DL_F, op_exec_trncf_dl_F h),
     (OpCodeId_TRNCF_DUL_F, op_exec_trncf_dul_F h),
     (OpCodeId_TRNCF_DUW_F, op_exec_trncf_duw_F h),
     (OpCodeId_TRNCF_DW_F, op_exec_trncf_dw_F h),
     (OpCodeId_TRNCF_SUL_F, op_exec_trncf_sul_F h),
     (OpCodeId_TRNCF_SUW_F, op_exec_trncf_suw_F h),
     (OpCodeId_TRNCF_SW_F, op_exec_trncf_sw_F h)]"

text \<open>
  The argument \<open>fpu\<close> of the step: the row of a number.  Every other number below \<open>OpCodeId_Num\<close>
  has a row of its own or is in \<open>op_exec_null\<close> (lemma \<open>table_complete\<close>).
\<close>

definition fpu_exec :: "host_fp \<Rightarrow> nat \<Rightarrow> 'b TargetCoreType \<Rightarrow> 'b TargetCoreType outcome" where
  "fpu_exec h c = (case map_of (fpu_rows h) c of Some f \<Rightarrow> f | None \<Rightarrow> (\<lambda>_. Fault IndexFault))"

lemma table_complete:
  fixes B :: "'b bus_ops" and h :: host_fp
  shows "c < OpCodeId_Num \<Longrightarrow>
     c \<in> set op_exec_null \<or> c \<in> fst ` set (op_exec_rows B) \<or>
     c \<in> fst ` set (fpu_rows h :: (nat \<times> ('b TargetCoreType \<Rightarrow> 'b TargetCoreType outcome)) list)"
proof -
  let ?L = "op_exec_null @ map fst (op_exec_rows B) @
    map fst (fpu_rows h :: (nat \<times> ('b TargetCoreType \<Rightarrow> 'b TargetCoreType outcome)) list)"
  have "sort (map int ?L) = [0..228]"
    unfolding op_exec_null_def op_exec_rows_def fpu_rows_def list.map fst_conv append.simps
      of_nat_numeral of_nat_0 of_nat_1
    by code_simp
  then have "set (map int ?L) = {0..228}"
    by (metis set_sort set_upto)
  then show "c < OpCodeId_Num \<Longrightarrow> ?thesis"
    by (force simp: image_iff set_eq_iff dest!: spec [of _ "int c"])
qed

end
