(* ===== verification/Fpu_Inv.thy ===== *)
theory Fpu_Inv
  imports Fpu_Table Fpu_Lib
begin

text \<open>
  What every floating point instruction keeps: the contract \<open>fpu_unit\<close> of a table of executors,
  and its proof for the rows of the execution table.
\<close>

section \<open>The registers of the unit\<close>

text \<open>FPST and FPCC show fields of FPSR: the cause and preservation bits and the condition bits.\<close>

definition fpu_coherent :: "CpuRegisterType \<Rightarrow> bool" where
  "fpu_coherent g \<longleftrightarrow>
     SYS_GET_DATA 0x3F (fp_reg SYS_REG_FPSR g) 10 = sys_get_fpst_xc g \<and>
     SYS_GET_DATA 0x1F (fp_reg SYS_REG_FPSR g) 0 = sys_get_fpst_xp g \<and>
     sys_get_fpsr_cc g = sys_get_fpcc_cc g"

text \<open>
  \<open>fpu_frame W g g'\<close>: from \<open>g\<close> to \<open>g'\<close> only the general registers in \<open>W\<close>, the flag Z of the PSW
  the and the fields of FPSR, FPST and FPCC have changed; the views still agree if they
  did, and no preservation bit has gone.
\<close>

definition fpu_frame :: "u32 set \<Rightarrow> CpuRegisterType \<Rightarrow> CpuRegisterType \<Rightarrow> bool" where
  "fpu_frame W g g' \<longleftrightarrow>
     (\<forall>i. i \<notin> W \<longrightarrow> regs g' i = regs g i) \<and> pc g' = pc g \<and>
     current_grp (sys g') = current_grp (sys g) \<and> current_bnk (sys g') = current_bnk (sys g) \<and>
     (\<forall>s b i. \<not> (s = SYS_GRP_CPU \<and> b = SYS_GRP_CPU_BNK_0 \<and> i = SYS_REG_PSW) \<longrightarrow>
        \<not> (s = SYS_GRP_CPU \<and> b = current_bnk (sys g) \<and>
           (i = SYS_REG_FPSR \<or> i = SYS_REG_FPST \<or> i = SYS_REG_FPCC)) \<longrightarrow>
        get_sys_cell s b i g' = get_sys_cell s b i g) \<and>
     cpu_base SYS_REG_PSW g' AND NOT CPU_PSW_Z = cpu_base SYS_REG_PSW g AND NOT CPU_PSW_Z \<and>
     sys_get_fpsr_rm g' = sys_get_fpsr_rm g \<and>
     (fpu_coherent g \<longrightarrow> fpu_coherent g') \<and>
     sys_get_fpst_xp g AND NOT (sys_get_fpst_xp g') = 0"

lemma fpu_frame_refl [simp]: "fpu_frame W g g"
  by (simp add: fpu_frame_def)

lemma sticky_trans: "a AND NOT b = 0 \<Longrightarrow> b AND NOT c = 0 \<Longrightarrow> a AND NOT c = (0 :: u8)"
  by (simp add: bit_eq_iff bit_simps)

lemma fpu_frame_trans: "fpu_frame W g g' \<Longrightarrow> fpu_frame W g' g'' \<Longrightarrow> fpu_frame W g g''"
  unfolding fpu_frame_def by (auto intro: sticky_trans)

lemma fp_reg_other [simp]: "fp_reg r (set_r i v g) = fp_reg r g"
  by (simp add: fp_reg_def cpu_get_sysreg2_def)

lemma fpu_views_set_r [simp]:
  "fpu_coherent (set_r i v g) = fpu_coherent g" "sys_get_fpst_xp (set_r i v g) = sys_get_fpst_xp g"
  "sys_get_fpst_xc (set_r i v g) = sys_get_fpst_xc g" "sys_get_fpsr_rm (set_r i v g) = sys_get_fpsr_rm g"
  by (simp_all add: fpu_coherent_def view_defs)

lemma fpu_frame_set_r: "fpu_frame W g g' \<Longrightarrow> i \<in> W \<Longrightarrow> fpu_frame W g (set_r i v g')"
  by (auto simp: fpu_frame_def)

lemma set_fp_reg_other [simp]:
  "regs (set_fp_reg r v g) = regs g" "pc (set_fp_reg r v g) = pc g"
  "current_grp (sys (set_fp_reg r v g)) = current_grp (sys g)"
  "current_bnk (sys (set_fp_reg r v g)) = current_bnk (sys g)"
  by (simp_all add: set_fp_reg_def cpu_set_sysreg2_def)

lemma get_sys_cell_set_fp_reg:
  "get_sys_cell s b i (set_fp_reg r v g) =
     (if s = SYS_GRP_CPU \<and> b = current_bnk (sys g) \<and> i = r then v else get_sys_cell s b i g)"
  by (auto simp add: set_fp_reg_def cpu_set_sysreg2_def)

lemma psw_set_fp_reg: "r \<noteq> SYS_REG_PSW \<Longrightarrow> cpu_base SYS_REG_PSW (set_fp_reg r v g) = cpu_base SYS_REG_PSW g"
  by (simp add: cpu_base_def get_sys_cell_set_fp_reg)

lemma sticky_or:
  "SYS_GET_DATA (mask w) v p AND (NOT (SYS_GET_DATA (mask w) v p) AND NOT e OR NOT (mask w)) = 0"
  by (rule bit_word_eqI) (auto simp: bit_get_data bit_simps)

lemma coherent_raise: "fpu_coherent g \<Longrightarrow> fpu_coherent (fpu_raise e g)"
  unfolding fpu_coherent_def fpu_raise_def sys_set_fpst_xc_def sys_set_fpst_xp_def view_defs
    field_masks Let_def
  by (simp add: get_set_data get_set_other)

lemma sticky_raise: "sys_get_fpst_xp g AND NOT (sys_get_fpst_xp (fpu_raise e g)) = 0"
  unfolding fpu_raise_def sys_set_fpst_xc_def sys_set_fpst_xp_def view_defs field_masks Let_def
  by (simp add: get_set_data get_set_other sticky_or)

lemma rm_raise: "sys_get_fpsr_rm (fpu_raise e g) = sys_get_fpsr_rm g"
  unfolding fpu_raise_def sys_set_fpst_xc_def sys_set_fpst_xp_def view_defs field_masks Let_def
  by (simp add: get_set_other)

lemma fpu_frame_raise1: "fpu_frame W g (fpu_raise e g)"
  unfolding fpu_frame_def
  by (simp add: coherent_raise sticky_raise rm_raise)
    (simp add: fpu_raise_def sys_set_fpst_xc_def sys_set_fpst_xp_def sys_set_fpsr_xc_def
      sys_set_fpsr_xp_def Let_def get_sys_cell_set_fp_reg psw_set_fp_reg)

lemma fpu_frame_raise: "fpu_frame W g g' \<Longrightarrow> fpu_frame W g (fpu_raise e g')"
  using fpu_frame_raise1 by (rule fpu_frame_trans [rotated])

lemma fpu_frame_cc: "fpu_frame W g g' \<Longrightarrow> fpu_frame W g (sys_set_fpsr_cc d g')"
proof (erule fpu_frame_trans)
  have c: "fpu_coherent g' \<Longrightarrow> fpu_coherent (sys_set_fpsr_cc d g')"
    unfolding fpu_coherent_def view_defs field_masks Let_def
    by (simp add: get_set_data get_set_other)
  have x: "sys_get_fpst_xp (sys_set_fpsr_cc d g') = sys_get_fpst_xp g'"
    "sys_get_fpsr_rm (sys_set_fpsr_cc d g') = sys_get_fpsr_rm g'"
    unfolding view_defs field_masks Let_def by (simp_all add: get_set_other)
  show "fpu_frame W g' (sys_set_fpsr_cc d g')"
    unfolding fpu_frame_def
    by (simp add: c x) (simp add: sys_set_fpsr_cc_def Let_def get_sys_cell_set_fp_reg psw_set_fp_reg)
qed

lemma fpu_frame_end: "fpu_frame W g g' \<Longrightarrow> fpu_frame W g (end_float_op fl g')"
  by (simp add: end_float_op_def Let_def fpu_frame_raise)

lemma fpu_frame_pair: "fpu_frame W g g' \<Longrightarrow> r \<in> W \<Longrightarrow> r + 1 \<in> W \<Longrightarrow> fpu_frame W g (set_pair r x g')"
  by (simp add: set_pair_def fpu_frame_set_r)

lemma fpu_frame_float_op:
  "(\<And>cp. fpu_frame W g (snd (snd (body cp g)))) \<Longrightarrow> fpu_frame W g (snd (float_op body g))"
  by (simp add: float_op_def case_prod_beta fpu_frame_end)

lemma fpu_frame_cmpf: "fpu_frame W g g' \<Longrightarrow> fpu_frame W g (cmpf_result l e u c b g')"
  by (simp add: cmpf_result_def Let_def fpu_frame_cc)

lemma fp_reg_put_flag [simp]: "r \<noteq> SYS_REG_PSW \<Longrightarrow> fp_reg r (put_flag m b g) = fp_reg r g"
  by (simp add: fp_reg_def cpu_get_sysreg2_def)

lemma fpu_frame_z: "fpu_frame W g (put_flag CPU_PSW_Z b g)"
proof -
  have "fpu_coherent (put_flag CPU_PSW_Z b g) = fpu_coherent g"
    "sys_get_fpst_xp (put_flag CPU_PSW_Z b g) = sys_get_fpst_xp g"
    "sys_get_fpsr_rm (put_flag CPU_PSW_Z b g) = sys_get_fpsr_rm g"
    by (simp_all add: fpu_coherent_def view_defs)
  then show ?thesis
    by (auto simp: fpu_frame_def bit_eq_iff bit_simps)
qed

section \<open>The contract\<close>

definition fpu_ok :: "('b TargetCoreType \<Rightarrow> 'b TargetCoreType outcome) \<Rightarrow> bool" where
  "fpu_ok f \<longleftrightarrow>
     (\<forall>cpu cpu'. f cpu = Ret0 cpu' \<longrightarrow>
        (\<exists>W g. cpu' = cpu\<lparr>reg := add_pc 4 g\<rparr> \<and> fpu_frame W (reg cpu) g \<and>
           W \<subseteq> {..<CPU_GREG_NUM} \<and> W \<subseteq> {f_reg3 cpu, f_reg3 cpu + 1, f_reg4 cpu})) \<and>
     (\<forall>cpu cpu'. f cpu = RetErr cpu' \<longrightarrow> cpu' = cpu)"

lemma f_reg3_no_wrap: "f_reg3 cpu + 1 < CPU_GREG_NUM \<Longrightarrow> f_reg3 cpu < CPU_GREG_NUM"
proof -
  have "unat (tf_reg3 (type_f (decoded_code cpu))) < 2 ^ LENGTH(16)" by (rule unsigned_less)
  then have "unat (f_reg3 cpu) < 2 ^ 16"
    unfolding f_reg3_def unsigned_ucast_eq by (simp add: take_bit_eq_mod)
  then show "f_reg3 cpu + 1 < CPU_GREG_NUM \<Longrightarrow> f_reg3 cpu < CPU_GREG_NUM"
    by (simp add: word_less_nat_alt unat_word_ariths)
qed

text \<open>The shapes of an executor, by what it writes.\<close>

lemma fpu_ok_instr:
  assumes "\<And>cpu. f cpu = fpu_instr (chk cpu) (k cpu) cpu"
    and "\<And>cpu g. fpu_frame (W cpu) g (k cpu g)"
    and "\<And>cpu. (\<forall>r\<in>set (chk cpu). r < CPU_GREG_NUM) \<Longrightarrow>
      W cpu \<subseteq> {..<CPU_GREG_NUM} \<inter> {f_reg3 cpu, f_reg3 cpu + 1, f_reg4 cpu}"
  shows "fpu_ok f"
  unfolding fpu_ok_def
proof (intro conjI allI impI)
  fix cpu cpu' :: "'a TargetCoreType"
  assume "f cpu = Ret0 cpu'"
  then have "\<forall>r\<in>set (chk cpu). r < CPU_GREG_NUM" and c: "cpu' = cpu\<lparr>reg := add_pc 4 (k cpu (reg cpu))\<rparr>"
    unfolding assms(1) fpu_instr_def by (auto split: if_splits simp: not_le)
  then show "\<exists>W g. cpu' = cpu\<lparr>reg := add_pc 4 g\<rparr> \<and> fpu_frame W (reg cpu) g \<and> W \<subseteq> {..<CPU_GREG_NUM} \<and>
      W \<subseteq> {f_reg3 cpu, f_reg3 cpu + 1, f_reg4 cpu}"
    using assms(2,3) [of cpu] by blast
next
  fix cpu cpu' :: "'a TargetCoreType"
  show "f cpu = RetErr cpu' \<Longrightarrow> cpu' = cpu"
    unfolding assms(1) fpu_instr_def by (simp split: if_splits)
qed

lemma fpu_ok_single:
  assumes "\<And>cpu. f cpu = fpu_instr (chk cpu) (k cpu) cpu"
    and "\<And>cpu g. fpu_frame {f_reg3 cpu} g (k cpu g)" and "\<And>cpu. f_reg3 cpu \<in> set (chk cpu)"
  shows "fpu_ok f"
  by (rule fpu_ok_instr [OF assms(1,2)]) (use assms(3) in auto)

lemma fpu_ok_pair:
  assumes "\<And>cpu. f cpu = fpu_instr (chk cpu) (k cpu) cpu"
    and "\<And>cpu g. fpu_frame {f_reg3 cpu, f_reg3 cpu + 1} g (k cpu g)"
    and "\<And>cpu. f_reg3 cpu + 1 \<in> set (chk cpu)"
  shows "fpu_ok f"
  by (rule fpu_ok_instr [OF assms(1,2)]) (use assms(3) f_reg3_no_wrap in auto)

lemma fpu_ok_none:
  assumes "\<And>cpu. f cpu = fpu_instr (chk cpu) (k cpu) cpu" and "\<And>cpu g. fpu_frame {} g (k cpu g)"
  shows "fpu_ok f"
  by (rule fpu_ok_instr [OF assms]) simp

lemmas fpu_frame_intros = fpu_frame_set_r fpu_frame_pair fpu_frame_float_op fpu_frame_raise
  fpu_frame_cmpf fpu_frame_z fpu_frame_refl

lemmas fpu_single_defs =
  op_exec_absf_s_F_def [unfolded Let_def]
  op_exec_addf_s_F_def [unfolded Let_def]
  op_exec_ceilf_duw_F_def [unfolded Let_def]
  op_exec_cmovf_s_F_def [unfolded Let_def]
  op_exec_cvtf_ds_F_def [unfolded Let_def]
  op_exec_cvtf_duw_F_def [unfolded Let_def]
  op_exec_cvtf_dw_F_def [unfolded Let_def]
  op_exec_cvtf_ls_F_def [unfolded Let_def]
  op_exec_cvtf_suw_F_def [unfolded Let_def]
  op_exec_cvtf_sw_F_def [unfolded Let_def]
  op_exec_cvtf_uls_F_def [unfolded Let_def]
  op_exec_cvtf_uws_F_def [unfolded Let_def]
  op_exec_cvtf_ws_F_def [unfolded Let_def]
  op_exec_divf_s_F_def [unfolded Let_def]
  op_exec_fmaf_s_F_def [unfolded Let_def]
  op_exec_fmsf_s_F_def [unfolded Let_def]
  op_exec_fnmaf_s_F_def [unfolded Let_def]
  op_exec_fnmsf_s_F_def [unfolded Let_def]
  op_exec_maxf_s_F_def [unfolded Let_def]
  op_exec_minf_s_F_def [unfolded Let_def]
  op_exec_mulf_s_F_def [unfolded Let_def]
  op_exec_negf_s_F_def [unfolded Let_def]
  op_exec_subf_s_F_def [unfolded Let_def]
  op_exec_trncf_duw_F_def [unfolded Let_def]
  op_exec_trncf_dw_F_def [unfolded Let_def]
  op_exec_trncf_suw_F_def [unfolded Let_def]
  op_exec_trncf_sw_F_def [unfolded Let_def]

lemma fpu_single_rows:
  "fpu_ok op_exec_absf_s_F"
  "fpu_ok (op_exec_addf_s_F h)"
  "fpu_ok (op_exec_ceilf_duw_F h)"
  "fpu_ok op_exec_cmovf_s_F"
  "fpu_ok (op_exec_cvtf_ds_F h)"
  "fpu_ok (op_exec_cvtf_duw_F h)"
  "fpu_ok (op_exec_cvtf_dw_F h)"
  "fpu_ok (op_exec_cvtf_ls_F h)"
  "fpu_ok (op_exec_cvtf_suw_F h)"
  "fpu_ok (op_exec_cvtf_sw_F h)"
  "fpu_ok (op_exec_cvtf_uls_F h)"
  "fpu_ok (op_exec_cvtf_uws_F h)"
  "fpu_ok (op_exec_cvtf_ws_F h)"
  "fpu_ok (op_exec_divf_s_F h)"
  "fpu_ok (op_exec_fmaf_s_F h)"
  "fpu_ok (op_exec_fmsf_s_F h)"
  "fpu_ok (op_exec_fnmaf_s_F h)"
  "fpu_ok (op_exec_fnmsf_s_F h)"
  "fpu_ok op_exec_maxf_s_F"
  "fpu_ok op_exec_minf_s_F"
  "fpu_ok (op_exec_mulf_s_F h)"
  "fpu_ok op_exec_negf_s_F"
  "fpu_ok (op_exec_subf_s_F h)"
  "fpu_ok (op_exec_trncf_duw_F h)"
  "fpu_ok (op_exec_trncf_dw_F h)"
  "fpu_ok (op_exec_trncf_suw_F h)"
  "fpu_ok (op_exec_trncf_sw_F h)"
  by (rule fpu_ok_single, rule fpu_single_defs, (auto simp: case_prod_beta intro!: fpu_frame_intros)[2])+

lemmas fpu_pair_defs =
  op_exec_absf_d_F_def [unfolded Let_def]
  op_exec_addf_d_F_def [unfolded Let_def]
  op_exec_ceilf_dl_F_def [unfolded Let_def]
  op_exec_ceilf_dul_F_def [unfolded Let_def]
  op_exec_cmovf_d_F_def [unfolded Let_def]
  op_exec_cvtf_dl_F_def [unfolded Let_def]
  op_exec_cvtf_dul_F_def [unfolded Let_def]
  op_exec_cvtf_ld_F_def [unfolded Let_def]
  op_exec_cvtf_sd_F_def [unfolded Let_def]
  op_exec_cvtf_uld_F_def [unfolded Let_def]
  op_exec_cvtf_uwd_F_def [unfolded Let_def]
  op_exec_cvtf_wd_F_def [unfolded Let_def]
  op_exec_divf_d_F_def [unfolded Let_def]
  op_exec_minf_d_F_def [unfolded Let_def]
  op_exec_mulf_d_F_def [unfolded Let_def]
  op_exec_negf_d_F_def [unfolded Let_def]
  op_exec_recipf_d_F_def [unfolded Let_def]
  op_exec_rsqrtf_d_F_def [unfolded Let_def]
  op_exec_sqrtf_d_F_def [unfolded Let_def]
  op_exec_subf_d_F_def [unfolded Let_def]
  op_exec_trncf_dl_F_def [unfolded Let_def]
  op_exec_trncf_dul_F_def [unfolded Let_def]
  op_exec_trncf_sul_F_def [unfolded Let_def]

lemma fpu_pair_rows:
  "fpu_ok op_exec_absf_d_F"
  "fpu_ok (op_exec_addf_d_F h)"
  "fpu_ok (op_exec_ceilf_dl_F h)"
  "fpu_ok (op_exec_ceilf_dul_F h)"
  "fpu_ok op_exec_cmovf_d_F"
  "fpu_ok (op_exec_cvtf_dl_F h)"
  "fpu_ok (op_exec_cvtf_dul_F h)"
  "fpu_ok (op_exec_cvtf_ld_F h)"
  "fpu_ok (op_exec_cvtf_sd_F h)"
  "fpu_ok (op_exec_cvtf_uld_F h)"
  "fpu_ok (op_exec_cvtf_uwd_F h)"
  "fpu_ok (op_exec_cvtf_wd_F h)"
  "fpu_ok (op_exec_divf_d_F h)"
  "fpu_ok op_exec_minf_d_F"
  "fpu_ok (op_exec_mulf_d_F h)"
  "fpu_ok op_exec_negf_d_F"
  "fpu_ok (op_exec_recipf_d_F h)"
  "fpu_ok (op_exec_rsqrtf_d_F h)"
  "fpu_ok (op_exec_sqrtf_d_F h)"
  "fpu_ok (op_exec_subf_d_F h)"
  "fpu_ok (op_exec_trncf_dl_F h)"
  "fpu_ok (op_exec_trncf_dul_F h)"
  "fpu_ok (op_exec_trncf_sul_F h)"
  by (rule fpu_ok_pair, rule fpu_pair_defs, (auto simp: case_prod_beta intro!: fpu_frame_intros)[2])+

lemma fpu_none_rows: "fpu_ok op_exec_cmpf_s_F" "fpu_ok op_exec_cmpf_d_F" "fpu_ok op_exec_trfsr_F"
  by (rule fpu_ok_none, rule op_exec_cmpf_s_F_def [unfolded Let_def], simp add: fpu_frame_intros,
      rule fpu_ok_none, rule op_exec_cmpf_d_F_def [unfolded Let_def], simp add: fpu_frame_intros,
      rule fpu_ok_none, rule op_exec_trfsr_F_def, simp add: fpu_frame_intros)

lemma fpu_ok_reg4:
  assumes "\<And>cpu. f cpu = fpu_instr (chk cpu) (k cpu) cpu"
    and "\<And>cpu g. fpu_frame {f_reg4 cpu} g (k cpu g)" and "\<And>cpu. f_reg4 cpu \<in> set (chk cpu)"
  shows "fpu_ok f"
  by (rule fpu_ok_instr [OF assms(1,2)]) (use assms(3) in auto)

lemmas fpu_four_defs =
  op_exec_maddf_s_F_def [unfolded Let_def]
  op_exec_msubf_s_F_def [unfolded Let_def]
  op_exec_nmaddf_s_F_def [unfolded Let_def]
  op_exec_nmsubf_s_F_def [unfolded Let_def]

lemma fpu_four_rows:
  "fpu_ok (op_exec_maddf_s_F h)"
  "fpu_ok (op_exec_msubf_s_F h)"
  "fpu_ok (op_exec_nmaddf_s_F h)"
  "fpu_ok (op_exec_nmsubf_s_F h)"
  by (rule fpu_ok_reg4, rule fpu_four_defs, (auto simp: case_prod_beta intro!: fpu_frame_intros)[2])+

lemma fpu_err_rows:
  "fpu_ok op_exec_ceilf_dw_F"
  "fpu_ok op_exec_floorf_dl_F"
  "fpu_ok op_exec_floorf_dul_F"
  "fpu_ok op_exec_floorf_duw_F"
  "fpu_ok op_exec_floorf_dw_F"
  by (simp_all add: fpu_ok_def op_exec_ceilf_dw_F_def op_exec_floorf_dl_F_def op_exec_floorf_dul_F_def op_exec_floorf_duw_F_def op_exec_floorf_dw_F_def)

lemma fpu_ok_unchecked:
  assumes "\<And>cpu. f cpu = (if A cpu then RetErr cpu
      else if f_reg3 cpu + 1 \<ge> CPU_GREG_NUM then Fault IndexFault else fpu_instr [] (k cpu) cpu)"
    and "\<And>cpu g. fpu_frame {f_reg3 cpu, f_reg3 cpu + 1} g (k cpu g)"
  shows "fpu_ok f"
  unfolding fpu_ok_def
proof (intro conjI allI impI)
  fix cpu cpu' :: "'a TargetCoreType"
  assume "f cpu = Ret0 cpu'"
  then have b: "f_reg3 cpu + 1 < CPU_GREG_NUM" and c: "cpu' = cpu\<lparr>reg := add_pc 4 (k cpu (reg cpu))\<rparr>"
    unfolding assms(1) fpu_instr_def by (auto split: if_splits simp: not_le)
  show "\<exists>W g. cpu' = cpu\<lparr>reg := add_pc 4 g\<rparr> \<and> fpu_frame W (reg cpu) g \<and> W \<subseteq> {..<CPU_GREG_NUM} \<and>
      W \<subseteq> {f_reg3 cpu, f_reg3 cpu + 1, f_reg4 cpu}"
    by (rule exI [of _ "{f_reg3 cpu, f_reg3 cpu + 1}"], rule exI [of _ "k cpu (reg cpu)"])
      (use c assms(2) b f_reg3_no_wrap [OF b] in auto)
next
  fix cpu cpu' :: "'a TargetCoreType"
  show "f cpu = RetErr cpu' \<Longrightarrow> cpu' = cpu"
    unfolding assms(1) fpu_instr_def by (simp split: if_splits)
qed

lemma fpu_unchecked_rows: "fpu_ok (op_exec_floorf_sul_F h)" "fpu_ok op_exec_maxf_d_F"
  by (rule fpu_ok_unchecked, rule op_exec_floorf_sul_F_def [unfolded Let_def],
      (auto simp: case_prod_beta intro!: fpu_frame_intros)[1],
      rule fpu_ok_unchecked, rule op_exec_maxf_d_F_def [unfolded Let_def],
      (auto simp: case_prod_beta intro!: fpu_frame_intros)[1])

lemma fpu_rows_ok: "(c, f) \<in> set (fpu_rows h) \<Longrightarrow> fpu_ok f"
proof -
  have "list_all (\<lambda>(c, f). fpu_ok f) (fpu_rows h)"
    by (simp only: fpu_rows_def list.pred_inject prod.case fpu_single_rows fpu_pair_rows fpu_none_rows
        fpu_four_rows fpu_err_rows fpu_unchecked_rows simp_thms)
  then show "(c, f) \<in> set (fpu_rows h) \<Longrightarrow> fpu_ok f" by (auto simp: list_all_iff)
qed

section \<open>The unit as the step sees it\<close>

locale fpu_unit =
  fixes unit_rows :: "(nat \<times> ('b TargetCoreType \<Rightarrow> 'b TargetCoreType outcome)) list"
  assumes rows_ok: "(c, f) \<in> set unit_rows \<Longrightarrow> fpu_ok f"
begin

lemma result:
  assumes "(c, f) \<in> set unit_rows" and "f cpu = Ret0 cpu'"
  obtains W g where "cpu' = cpu\<lparr>reg := add_pc 4 g\<rparr>" and "fpu_frame W (reg cpu) g"
    and "W \<subseteq> {..<CPU_GREG_NUM}" and "W \<subseteq> {f_reg3 cpu, f_reg3 cpu + 1, f_reg4 cpu}"
  using rows_ok [OF assms(1)] assms(2) unfolding fpu_ok_def by blast

lemma error_changes_nothing: "(c, f) \<in> set unit_rows \<Longrightarrow> f cpu = RetErr cpu' \<Longrightarrow> cpu' = cpu"
  using rows_ok unfolding fpu_ok_def by blast

lemma next_instruction: "(c, f) \<in> set unit_rows \<Longrightarrow> f cpu = Ret0 cpu' \<Longrightarrow> pc (reg cpu') = pc (reg cpu) + 4"
  by (erule (1) result) (simp add: fpu_frame_def)

lemma registers:
  assumes "(c, f) \<in> set unit_rows" and "f cpu = Ret0 cpu'"
    and "CPU_GREG_NUM \<le> i \<or> i \<notin> {f_reg3 cpu, f_reg3 cpu + 1, f_reg4 cpu}"
  shows "regs (reg cpu') i = regs (reg cpu) i"
  using assms(1,2)
proof (rule result)
  fix W g
  assume a: "cpu' = cpu\<lparr>reg := add_pc 4 g\<rparr>" "fpu_frame W (reg cpu) g" "W \<subseteq> {..<CPU_GREG_NUM}"
    "W \<subseteq> {f_reg3 cpu, f_reg3 cpu + 1, f_reg4 cpu}"
  have "i \<notin> W" using assms(3) a(3,4) by (meson lessThan_iff not_le subsetD)
  then show ?thesis using a(1,2) by (simp add: fpu_frame_def)
qed

lemma views:
  assumes "(c, f) \<in> set unit_rows" and "f cpu = Ret0 cpu'"
  shows "fpu_coherent (reg cpu) \<Longrightarrow> fpu_coherent (reg cpu')"
    and "sys_get_fpst_xp (reg cpu) AND NOT (sys_get_fpst_xp (reg cpu')) = 0"
    and "sys_get_fpsr_rm (reg cpu') = sys_get_fpsr_rm (reg cpu)"
  using assms
  by (auto elim!: result simp: fpu_frame_def fpu_coherent_def view_defs fp_reg_def cpu_get_sysreg2_def)

lemma supervisor_state:
  assumes "(c, f) \<in> set unit_rows" and "f cpu = Ret0 cpu'" and "m AND CPU_PSW_Z = 0"
  shows "CPU_ISSET m (reg cpu') = CPU_ISSET m (reg cpu)" and "cpu' = cpu\<lparr>reg := reg cpu'\<rparr>"
proof -
  have k: "m AND NOT CPU_PSW_Z = m" by (rule and_not_of_disjoint [OF assms(3)])
  have e: "x AND m = (x AND NOT CPU_PSW_Z) AND m" for x :: u32
    using k by (metis and.assoc and.commute)
  show "CPU_ISSET m (reg cpu') = CPU_ISSET m (reg cpu)"
    using assms(1,2)
  proof (rule result)
    fix W g
    assume "cpu' = cpu\<lparr>reg := add_pc 4 g\<rparr>" "fpu_frame W (reg cpu) g"
    then show ?thesis
      unfolding CPU_ISSET_def fpu_frame_def using e [of "cpu_base SYS_REG_PSW g"]
        e [of "cpu_base SYS_REG_PSW (reg cpu)"] by simp
  qed
  show "cpu' = cpu\<lparr>reg := reg cpu'\<rparr>" using assms(1,2) by (auto elim!: result)
qed

end

interpretation fpu: fpu_unit "fpu_rows h" for h :: host_fp
  by unfold_locales (rule fpu_rows_ok)

text \<open>The executor that the step finds in the table for a number of the unit is one of its rows.\<close>

lemma fpu_exec_row:
  assumes "op_exec_table B (fpu_exec h) c = Some f" and "c \<notin> fst ` set (op_exec_rows B)"
    and "c < OpCodeId_Num"
  shows "(c, f) \<in> set (fpu_rows h)"
proof -
  have n: "map_of (op_exec_rows B) c = None" using assms(2) by (simp add: map_of_eq_None_iff)
  have u: "c \<notin> set op_exec_null" using assms(1) unfolding op_exec_table_def by (simp split: if_splits)
  then have "f = fpu_exec h c" using assms(1) n unfolding op_exec_table_def by simp
  moreover have "c \<in> fst ` set (fpu_rows h :: (nat \<times> ('a TargetCoreType \<Rightarrow> 'a TargetCoreType outcome)) list)"
    using table_complete [OF assms(3)] u assms(2) by blast
  ultimately show ?thesis
    unfolding fpu_exec_def by (auto simp: map_of_eq_None_iff dest: map_of_SomeD split: option.splits)
qed

end
