(* ===== verification/Ieee_Lib.thy ===== *)
theory Ieee_Lib
  imports Ieee Complex_Main
begin

text \<open>
  Correctness of the rounding of \<open>Ieee\<close>: the pattern of a rounded number decodes to the rounded
  number, a representable number is not changed, and rounding to nearest gives a value that no
  finite number of the format beats.
\<close>

section \<open>Values\<close>

fun fval :: "fdata \<Rightarrow> real" where
  "fval (FFin s m e) = (if s then - 1 else 1) * real m * 2 powi e"
| "fval _ = 0"

fun is_finite :: "fdata \<Rightarrow> bool" where
  "is_finite (FFin _ _ _) = True"
| "is_finite _ = False"

lemma mbits_pos [simp]: "0 < mbits F" by (cases F) simp_all

lemma pow_shift: "e \<le> q \<Longrightarrow> (2 :: real) powi q = 2 powi e * 2 ^ nat (q - e)"
  by (simp add: power_int_nonneg_exp [symmetric] power_int_add [symmetric])

section \<open>Encoding\<close>

lemma unpack_encode:
  assumes "k < 2 ^ (mbits F + 1)" and "2 ^ mbits F \<le> k \<or> j = 0"
    and "j * 2 ^ mbits F + k < inf_bits F"
  shows "unpack F (sign_bits F s + (j * 2 ^ mbits F + k)) = FFin s k (emin F + int j)"
proof -
  define M where "M = (2 :: nat) ^ mbits F"
  define E where "E = (2 :: nat) ^ ebits F"
  have M: "0 < M" and E: "2 < E" unfolding M_def E_def by (cases F; simp)+
  let ?v = "j * M + k" and ?s = "sign_bits F s"
  have s: "?s = (if s then M * E else 0)" by (simp add: sign_bits_def M_def E_def power_add)
  have v: "?v < (E - 1) * M" using assms(3) by (simp add: inf_bits_def M_def E_def)
  have vq: "?v div M < E - 1" using v by (rule less_mult_imp_div_less)
  have ME: "2 ^ (mbits F + ebits F) = M * E" by (simp add: M_def E_def power_add)
  have lt: "?v < M * E" using less_le_trans [OF v mult_le_mono1 [of "E - 1" E M]] by (simp add: mult.commute)
  have sg: "odd ((?s + ?v) div (M * E)) = s"
    using lt M E unfolding s by (cases s) (simp_all add: div_add_self1)
  have "(?s + ?v) div M = (if s then E else 0) + ?v div M" using M by (simp add: s div_mult_self3 del: div_mult_self3)
  then have ex: "(?s + ?v) div M mod E = ?v div M" using vq by simp
  have mo: "(?s + ?v) mod M = ?v mod M" by (simp add: s mod_mult_self3)
  show ?thesis
  proof (cases "k < M")
    case True
    then have j: "j = 0" using assms(2) by (simp add: M_def)
    show ?thesis
      unfolding unpack_def ME M_def [symmetric] E_def [symmetric] Let_def sg ex mo
      using True E j by simp
  next
    case False
    then obtain r where r: "k = M + r" by (metis le_Suc_ex not_le)
    have rM: "r < M" using assms(1) r by (simp add: M_def)
    have e: "?v = r + (j + 1) * M" by (simp add: r)
    have d: "?v div M = j + 1" and m: "?v mod M = r"
      unfolding e using rM M div_mult_self3 [of M r "j + 1"] mod_mult_self3 [of "j + 1" M r]
      by (simp_all add: mod_mult_self1 del: div_mult_self3 mult_Suc)
    show ?thesis
      unfolding unpack_def ME M_def [symmetric] E_def [symmetric] Let_def sg ex mo d m
      using vq d r by simp
  qed
qed

lemma unpack_encode_carry:
  assumes "(j + 1) * 2 ^ mbits F + 2 ^ mbits F < inf_bits F"
  shows "unpack F (sign_bits F s + (j * 2 ^ mbits F + 2 ^ (mbits F + 1))) =
    FFin s (2 ^ mbits F) (emin F + int j + 1)"
proof -
  have e: "j * 2 ^ mbits F + 2 ^ (mbits F + 1) = (j + 1) * 2 ^ mbits F + 2 ^ mbits F" by simp
  show ?thesis
    unfolding e using unpack_encode [of "2 ^ mbits F" F "j + 1" s] assms by (simp add: add.assoc)
qed

section \<open>Rounding to a multiple\<close>

lemma round_at_nearest:
  assumes "round_at FE_TONEAREST s m d = (k, x)"
  shows "2 * \<bar>int k * 2 ^ d - int m\<bar> \<le> 2 ^ d"
proof -
  define D where "D = (2 :: nat) ^ d"
  have m: "int m = int (m div D) * int D + int (m mod D)"
    by (metis div_mult_mod_eq of_nat_add of_nat_mult)
  have D: "m mod D < D" by (simp add: D_def)
  have k: "k = (if D < 2 * (m mod D) \<or> 2 * (m mod D) = D \<and> odd (m div D) then m div D + 1 else m div D)"
    using assms by (simp add: round_at_def Let_def D_def split: if_splits)
  have "2 * \<bar>int k * int D - int m\<bar> \<le> int D"
    using D unfolding k m by (auto simp: algebra_simps)
  then show ?thesis by (simp add: D_def)
qed

lemma round_at_zero:
  "round_at FE_TOWARDZERO s m d = (k, x) \<Longrightarrow> k = m div 2 ^ d"
  by (simp add: round_at_def Let_def)

lemma round_at_between:
  "round_at r s m d = (k, x) \<Longrightarrow> m div 2 ^ d \<le> k \<and> k \<le> m div 2 ^ d + 1"
  by (auto simp: round_at_def Let_def split: if_splits)

lemma round_at_exact: "2 ^ d dvd m \<Longrightarrow> round_at r s m d = (m div 2 ^ d, False)"
  by (cases r) (auto simp: round_at_def Let_def)

lemma round_to_exact:
  assumes "q \<le> e \<or> 2 ^ nat (q - e) dvd m" and "round_to r s m e q = (k, x)"
  shows "\<not> x" and "real k * 2 powi q = real m * 2 powi e"
proof -
  show "\<not> x" using assms by (auto simp: round_to_def round_at_exact split: if_splits)
  show "real k * 2 powi q = real m * 2 powi e"
  proof (cases "q \<le> e")
    case True
    then show ?thesis using assms(2) pow_shift [OF True] by (auto simp: round_to_def)
  next
    case False
    then have d: "2 ^ nat (q - e) dvd m" using assms(1) by blast
    then have "k * 2 ^ nat (q - e) = m" using assms(2) False by (auto simp: round_to_def round_at_exact)
    then have "real k * 2 ^ nat (q - e) = real m" by (metis of_nat_mult of_nat_numeral of_nat_power)
    then show ?thesis using pow_shift [of e q] False by simp
  qed
qed

lemma round_to_nearest:
  assumes "round_to FE_TONEAREST s m e q = (k, x)"
  shows "\<bar>real k * 2 powi q - real m * 2 powi e\<bar> \<le> 2 powi q / 2"
proof (cases "q \<le> e")
  case True
  then have "real k * 2 powi q = real m * 2 powi e"
    using round_to_exact(2) assms by blast
  then show ?thesis by simp
next
  case False
  let ?D = "2 ^ nat (q - e) :: real"
  have "2 * \<bar>int k * 2 ^ nat (q - e) - int m\<bar> \<le> 2 ^ nat (q - e)"
    using round_at_nearest assms False by (simp add: round_to_def)
  then have "of_int (2 * \<bar>int k * 2 ^ nat (q - e) - int m\<bar>) \<le> (of_int (2 ^ nat (q - e)) :: real)"
    by (rule iffD2 [OF of_int_le_iff])
  then have h: "2 * \<bar>real k * ?D - real m\<bar> \<le> ?D" by simp
  have e: "real k * 2 powi q - real m * 2 powi e = (real k * ?D - real m) * 2 powi e"
    using pow_shift [of e q] False by (simp add: algebra_simps)
  have "\<bar>real k * ?D - real m\<bar> * 2 powi e \<le> ?D / 2 * 2 powi e"
    using h by (intro mult_right_mono) simp_all
  moreover have "?D / 2 * 2 powi e = 2 powi q / 2" using pow_shift [of e q] False by simp
  ultimately show ?thesis by (simp only: e abs_mult) simp
qed

section \<open>Rounding to the format\<close>

lemma round_to_bounds:
  fixes F m e
  defines "q \<equiv> max (last_place F m e) (emin F)"
  assumes m: "0 < m" and r: "round_to r s m e q = (k, x)"
  shows "k \<le> 2 ^ (mbits F + 1)" and "q = emin F \<or> 2 ^ mbits F \<le> k"
proof -
  define L where "L = floorlog 2 m"
  have L: "0 < L" "2 ^ (L - 1) \<le> m" "m < 2 ^ L"
    using floorlog_bounds [OF m, of 2] m floorlog_eq_zero_iff [of 2 m] by (auto simp: L_def)
  have lp: "last_place F m e = e + int L - int (mbits F) - 1" by (simp add: last_place_def L_def)
  have q: "last_place F m e \<le> q" "q \<noteq> emin F \<Longrightarrow> q = last_place F m e"
    by (auto simp: q_def max_def)
  have "k \<le> 2 ^ (mbits F + 1) \<and> (q \<noteq> emin F \<longrightarrow> 2 ^ mbits F \<le> k)"
  proof (cases "q \<le> e")
    case True
    then have k: "k = m * 2 ^ nat (e - q)" using r by (simp add: round_to_def)
    have n: "L + nat (e - q) \<le> mbits F + 1" using lp q(1) True by linarith
    have "k < 2 ^ (L + nat (e - q))" using L(3) by (simp add: k power_add)
    also have "\<dots> \<le> 2 ^ (mbits F + 1)" by (rule power_increasing [OF n]) simp
    finally have a: "k < 2 ^ (mbits F + 1)" .
    have "2 ^ mbits F \<le> k" if "q \<noteq> emin F"
    proof -
      have "mbits F = (L - 1) + nat (e - q)" using lp q(2) [OF that] True L(1) by linarith
      then have "2 ^ mbits F = 2 ^ (L - 1) * (2 :: nat) ^ nat (e - q)" by (metis power_add)
      then show ?thesis using L(2) by (simp add: k)
    qed
    then show ?thesis using a by simp
  next
    case False
    let ?d = "nat (q - e)"
    have k: "m div 2 ^ ?d \<le> k" "k \<le> m div 2 ^ ?d + 1"
      using round_at_between r False by (auto simp: round_to_def)
    have n: "L \<le> mbits F + 1 + ?d" using lp q(1) False by linarith
    have "m < 2 ^ (mbits F + 1 + ?d)"
      using L(3) power_increasing [OF n, of "2 :: nat"] by simp
    then have a: "m div 2 ^ ?d < 2 ^ (mbits F + 1)" by (simp add: power_add less_mult_imp_div_less)
    have "2 ^ mbits F \<le> m div 2 ^ ?d" if "q \<noteq> emin F"
    proof -
      have "mbits F + ?d = L - 1" using lp q(2) [OF that] False L(1) by linarith
      then have "2 ^ mbits F * 2 ^ ?d \<le> m" using L(2) by (metis power_add)
      then show ?thesis by (simp add: less_eq_div_iff_mult_less_eq)
    qed
    then show ?thesis using a k by linarith
  qed
  then show "k \<le> 2 ^ (mbits F + 1)" and "q = emin F \<or> 2 ^ mbits F \<le> k" by auto
qed

text \<open>What a rounded pattern decodes to, when the operation did not overflow.\<close>

lemma fround_value:
  fixes F m e
  defines "q \<equiv> max (last_place F m e) (emin F)"
  assumes m: "0 < m" and f: "fround h F r s m e = (v, fl)" and o: "FE_OVERFLOW \<notin> fl"
    and r: "round_to r s m e q = (k, x)"
  shows "is_finite (unpack F v)" and "fval (unpack F v) = (if s then - 1 else 1) * (real k * 2 powi q)"
    and "\<not> x \<Longrightarrow> fl = {}"
    and "v = sign_bits F s + (nat (q - emin F) * 2 ^ mbits F + k)"
    and "nat (q - emin F) * 2 ^ mbits F + k < inf_bits F"
proof -
  let ?j = "nat (q - emin F)"
  have j: "emin F + int ?j = q" by (simp add: q_def)
  have ov: "\<not> inf_bits F \<le> ?j * 2 ^ mbits F + k"
  proof
    assume "inf_bits F \<le> ?j * 2 ^ mbits F + k"
    then have "FE_OVERFLOW \<in> fl" using f m r by (auto simp: fround_def Let_def q_def)
    then show False using o by contradiction
  qed
  then show lt: "?j * 2 ^ mbits F + k < inf_bits F" by simp
  show v: "v = sign_bits F s + (?j * 2 ^ mbits F + k)"
    using f m r ov by (auto simp: fround_def Let_def q_def)
  show "\<not> x \<Longrightarrow> fl = {}" using f m r ov by (auto simp: fround_def Let_def q_def)
  have b: "k \<le> 2 ^ (mbits F + 1)" "?j = 0 \<or> 2 ^ mbits F \<le> k"
    using round_to_bounds [OF m r [unfolded q_def]] j by (auto simp: q_def)
  have "is_finite (unpack F v) \<and> fval (unpack F v) = (if s then - 1 else 1) * (real k * 2 powi q)"
  proof (cases "k = 2 ^ (mbits F + 1)")
    case True
    have u: "unpack F v = FFin s (2 ^ mbits F) (emin F + int ?j + 1)"
      using unpack_encode_carry [of ?j F s] lt unfolding v True by simp
    show ?thesis unfolding u j by (simp add: True power_int_add_1)
  next
    case False
    then have u: "unpack F v = FFin s k (emin F + int ?j)"
      unfolding v using b lt by (intro unpack_encode) auto
    show ?thesis unfolding u j by simp
  qed
  then show "is_finite (unpack F v)" "fval (unpack F v) = (if s then - 1 else 1) * (real k * 2 powi q)"
    by auto
qed

section \<open>Exact results\<close>

lemma fround_zero: "fround h F r s 0 e = (sign_bits F s, {})"
  by (simp add: fround_def)

lemma last_place_le: "m < 2 ^ (mbits F + 1) \<Longrightarrow> last_place F m e \<le> e"
  using floorlog_leI [of m 2 "mbits F + 1"] by (simp add: last_place_def)

lemma fround_exact:
  assumes m: "m < 2 ^ (mbits F + 1)" "0 < m" and e: "emin F \<le> e" and f: "fround h F r s m e = (v, fl)"
    and o: "FE_OVERFLOW \<notin> fl"
  shows "is_finite (unpack F v)" and "fval (unpack F v) = (if s then - 1 else 1) * (real m * 2 powi e)"
    and "fl = {}"
proof -
  let ?q = "max (last_place F m e) (emin F)"
  obtain k x where r: "round_to r s m e ?q = (k, x)" by fastforce
  have q: "?q \<le> e" using last_place_le [OF m(1)] e by simp
  have x: "\<not> x" "real k * 2 powi ?q = real m * 2 powi e"
    using round_to_exact [OF disjI1 [OF q] r] by auto
  show "is_finite (unpack F v)" "fval (unpack F v) = (if s then - 1 else 1) * (real m * 2 powi e)" "fl = {}"
    using fround_value [OF m(2) f o r] x by auto
qed

text \<open>Integers of at most \<open>mbits F + 1\<close> bits are represented exactly.\<close>

lemma fround_int:
  assumes m: "m < 2 ^ (mbits F + 1)" "0 < m"
  defines "j \<equiv> mbits F + 1 - floorlog 2 m"
  shows "fround h F r s m 0 =
      (sign_bits F s + (nat (- int j - emin F) * 2 ^ mbits F + m * 2 ^ j), {})"
    and "unpack F (sign_bits F s + (nat (- int j - emin F) * 2 ^ mbits F + m * 2 ^ j)) =
      FFin s (m * 2 ^ j) (- int j)"
    and "2 ^ mbits F \<le> m * 2 ^ j"
proof -
  let ?L = "floorlog 2 m"
  have L: "0 < ?L" "2 ^ (?L - 1) \<le> m" "m < 2 ^ ?L" "?L \<le> mbits F + 1"
    using floorlog_bounds [OF m(2), of 2] floorlog_eq_zero_iff [of 2 m] floorlog_leI [of m 2 "mbits F + 1"] m
    by auto
  have q: "last_place F m 0 = - int j" using L(4) by (simp add: last_place_def j_def)
  have en: "emin F + int j \<le> 0" by (cases F) (auto simp: j_def)
  then have mx: "max (last_place F m 0) (emin F) = - int j" unfolding q by simp
  have rt: "round_to r s m 0 (- int j) = (m * 2 ^ j, False)" by (simp add: round_to_def)
  have "mbits F = (?L - 1) + j" "?L + j = mbits F + 1" using L by (simp_all add: j_def)
  then have p: "2 ^ mbits F = 2 ^ (?L - 1) * (2 :: nat) ^ j" "2 ^ ?L * (2 :: nat) ^ j = 2 ^ (mbits F + 1)"
    by (metis power_add)+
  show lo: "2 ^ mbits F \<le> m * 2 ^ j" using L(2) by (simp add: p(1))
  have hi: "m * 2 ^ j < 2 ^ (mbits F + 1)"
    using mult_strict_right_mono [OF L(3), of "2 ^ j"] unfolding p(2) by simp
  have "nat (- int j - emin F) \<le> nat (- emin F)" by simp
  then have "nat (- int j - emin F) * 2 ^ mbits F + m * 2 ^ j < nat (- emin F) * 2 ^ mbits F + 2 ^ (mbits F + 1)"
    using hi by (intro add_le_less_mono mult_le_mono1)
  also have "\<dots> < inf_bits F" by (cases F) simp_all
  finally have lt: "nat (- int j - emin F) * 2 ^ mbits F + m * 2 ^ j < inf_bits F" .
  show "fround h F r s m 0 =
      (sign_bits F s + (nat (- int j - emin F) * 2 ^ mbits F + m * 2 ^ j), {})"
    using lt m(2) by (simp add: fround_def Let_def mx rt)
  show "unpack F (sign_bits F s + (nat (- int j - emin F) * 2 ^ mbits F + m * 2 ^ j)) =
      FFin s (m * 2 ^ j) (- int j)"
    using unpack_encode [OF hi _ lt, of s] lo en by simp
qed

section \<open>Nearest values\<close>

lemma unpack_fin:
  assumes "unpack F w = FFin t n j"
  shows "n < 2 ^ (mbits F + 1)" and "emin F \<le> j"
proof -
  have "w mod 2 ^ mbits F < 2 ^ mbits F" by simp
  then show "n < 2 ^ (mbits F + 1)"
    using assms by (auto simp: unpack_def Let_def simp del: mod_less_divisor split: if_splits)
  show "emin F \<le> j" using assms by (auto simp: unpack_def Let_def split: if_splits)
qed

text \<open>Of the multiples of a unit the nearest one is at least as near as any other.\<close>

lemma nearest_multiple:
  fixes Y u :: real
  assumes "0 < u" and "\<bar>real k * u - Y\<bar> \<le> u / 2"
  shows "\<bar>real k * u - Y\<bar> \<le> \<bar>of_int c * u - Y\<bar>"
proof (cases "c = int k")
  case False
  then have "1 \<le> \<bar>of_int c - real k\<bar>" by linarith
  then have "u \<le> \<bar>of_int c - real k\<bar> * u" using assms(1) by simp
  also have "\<dots> = \<bar>of_int c * u - real k * u\<bar>" using assms(1) by (simp add: abs_mult left_diff_distrib [symmetric])
  finally show ?thesis using assms(2) by linarith
qed simp

lemma signed_closest:
  fixes K Y y :: real
  assumes "\<bar>K - Y\<bar> \<le> Y" and "\<bar>K - Y\<bar> \<le> \<bar>y - Y\<bar>" and "0 \<le> y" and "0 \<le> Y"
  shows "\<bar>(if s then - 1 else 1) * K - (if s then - 1 else 1) * Y\<bar> \<le>
    \<bar>(if t then - 1 else 1) * y - (if s then - 1 else 1) * Y\<bar>"
  using assms by auto

lemma fround_closest:
  assumes m: "0 < m" and f: "fround h F FE_TONEAREST s m e = (v, fl)" and o: "FE_OVERFLOW \<notin> fl"
    and w: "is_finite (unpack F w)"
  defines "X \<equiv> (if s then - 1 else 1) * (real m * 2 powi e)"
  shows "\<bar>fval (unpack F v) - X\<bar> \<le> \<bar>fval (unpack F w) - X\<bar>"
proof -
  let ?q = "max (last_place F m e) (emin F)" and ?Y = "real m * 2 powi e"
  obtain k x where r: "round_to FE_TONEAREST s m e ?q = (k, x)" by fastforce
  let ?u = "2 powi ?q :: real" and ?K = "real k * 2 powi ?q"
  have v: "fval (unpack F v) = (if s then - 1 else 1) * ?K" using fround_value(2) [OF m f o r] .
  have A: "\<bar>?K - ?Y\<bar> \<le> \<bar>of_int c * ?u - ?Y\<bar>" for c
    by (rule nearest_multiple) (use round_to_nearest [OF r] in simp_all)
  have A0: "\<bar>?K - ?Y\<bar> \<le> ?Y" using A [of 0] by simp
  obtain t n j where u: "unpack F w = FFin t n j" using w by (cases "unpack F w") auto
  have nj: "n < 2 ^ (mbits F + 1)" "emin F \<le> j" using unpack_fin [OF u] .
  let ?y = "real n * 2 powi j"
  have B: "\<bar>?K - ?Y\<bar> \<le> \<bar>?y - ?Y\<bar>"
  proof (cases "?q \<le> j")
    case True
    then have "?y = of_int (int (n * 2 ^ nat (j - ?q))) * ?u" using pow_shift [OF True] by simp
    then show ?thesis using A by metis
  next
    case False
    let ?B = "2 ^ mbits F * ?u"
    have lp: "?q = last_place F m e" using False nj(2) by linarith
    have "2 ^ (floorlog 2 m - 1) \<le> m" "0 < floorlog 2 m"
      using floorlog_bounds [OF m, of 2] floorlog_eq_zero_iff [of 2 m] m by auto
    then have "real (2 ^ (floorlog 2 m - 1)) * 2 powi e \<le> ?Y"
      by (intro mult_right_mono of_nat_mono) simp_all
    moreover have "real (2 ^ (floorlog 2 m - 1)) * 2 powi e = ?B"
    proof -
      have "int (mbits F) + ?q = int (floorlog 2 m - 1) + e"
        using lp \<open>0 < floorlog 2 m\<close> unfolding last_place_def by (simp add: of_nat_diff)
      then have "(2 :: real) powi (int (floorlog 2 m - 1) + e) = 2 powi (int (mbits F) + ?q)" by simp
      then show ?thesis by (simp add: power_int_add)
    qed
    ultimately have BY: "?B \<le> ?Y" by (simp only:)
    have "real n < 2 ^ (mbits F + 1)" using nj(1) by (metis of_nat_less_iff of_nat_numeral of_nat_power)
    then have "?y < 2 ^ (mbits F + 1) * 2 powi j" by simp
    also have "\<dots> = 2 ^ mbits F * 2 powi (j + 1)" by (simp add: power_int_add_1)
    also have "\<dots> \<le> ?B"
    proof (intro mult_left_mono power_int_increasing)
      show "j + 1 \<le> ?q" using False by linarith
    qed simp_all
    finally have "?y < ?B" .
    then have "\<bar>?B - ?Y\<bar> \<le> \<bar>?y - ?Y\<bar>" using BY by linarith
    then show ?thesis using A [of "2 ^ mbits F"] by simp
  qed
  have y: "0 \<le> ?y" and Y: "0 \<le> ?Y" by simp_all
  have w': "fval (unpack F w) = (if t then - 1 else 1) * ?y" by (simp add: u)
  show ?thesis
    unfolding v w' X_def by (rule signed_closest [OF A0 B y Y])
qed

end
