(* ===== verification/Fpu_Class_Lib.thy ===== *)
theory Fpu_Class_Lib
  imports Fpu_Ops Ieee_Lib
begin

text \<open>
  The classification macros of \<^verbatim>\<open>cpu_fpu_ops.h\<close> against the format: for single precision they
  are the classes of IEEE 754; for double precision the exponent mask loses a bit.
\<close>

section \<open>Single precision\<close>

lemma unat_lt_32: "unat (w :: u32) < 2 ^ 32"
proof -
  have "unat w < 2 ^ LENGTH(32)" by (rule unsigned_less)
  then show ?thesis by simp
qed

lemma bit_unat: "bit (w :: u32) n = odd (unat w div 2 ^ n)"
proof -
  have "bit (unat w) n = bit w n" by (simp add: bit_unsigned_iff)
  then show ?thesis by (simp add: bit_iff_odd)
qed

lemma top_bit: "0 < c \<Longrightarrow> x mod (c * 2) < c \<longleftrightarrow> even (x div (c :: nat))"
  by (cases "even (x div c)") (auto simp: mod_mult2_eq odd_iff_mod_2_eq_one even_iff_mod_2_eq_zero)

lemma exp_single: "unat (GET_FLOAT_EXP_VALUE w) = unat w div 2 ^ 23 mod 2 ^ 8"
proof -
  have m: "(0x7F800000 :: u32) = push_bit 23 (mask 8)" by (simp add: mask_eq_exp_minus_1)
  have e: "GET_FLOAT_EXP_VALUE w = ucast (take_bit 8 (drop_bit 23 w))"
    unfolding GET_FLOAT_EXP_VALUE_def m by (rule bit_word_eqI) (auto simp: bit_simps)
  show ?thesis
    unfolding e unsigned_ucast_eq unsigned_take_bit_eq unsigned_drop_bit_eq
    using unat_lt_32 [of w] by (simp add: take_bit_eq_mod drop_bit_eq_div)
qed

lemma mant_single: "unat (GET_FLOAT_MANTISSA_VALUE w) = unat w mod 2 ^ 23"
proof -
  have m: "(0x007FFFFF :: u32) = mask 23" by (simp add: mask_eq_exp_minus_1)
  have "GET_FLOAT_MANTISSA_VALUE w = take_bit 23 w"
    unfolding GET_FLOAT_MANTISSA_VALUE_def m by (simp add: take_bit_eq_mask and.commute)
  then have "unat (GET_FLOAT_MANTISSA_VALUE w) = take_bit 23 (unat w)"
    by (simp only: unsigned_take_bit_eq)
  then show ?thesis by (simp only: take_bit_eq_mod)
qed

lemma class_eqs:
  "GET_FLOAT_EXP_VALUE w = 0 \<longleftrightarrow> unat w div 2 ^ 23 mod 2 ^ 8 = 0"
  "GET_FLOAT_EXP_VALUE w = 255 \<longleftrightarrow> unat w div 2 ^ 23 mod 2 ^ 8 = 2 ^ 8 - 1"
  "GET_FLOAT_MANTISSA_VALUE w = 0 \<longleftrightarrow> unat w mod 2 ^ 23 = 0"
  unfolding exp_single [symmetric] mant_single [symmetric]
  by (simp_all add: word_unat_eq_iff)

lemma sign_single: "FLOAT_IS_MINUS w = odd (unat w div 2 ^ 31)" "FLOAT_IS_PLUS w = (\<not> FLOAT_IS_MINUS w)"
proof -
  show "FLOAT_IS_MINUS w = odd (unat w div 2 ^ 31)"
    unfolding FLOAT_IS_MINUS_def GET_FLOAT_SIGN_BIT_VALUE_def FLOAT_SIGN_BIT_PTRN_def
    using and_exp_eq_0_iff_not_bit [of w 31] bit_unat [of w 31] by (simp add: and.commute)
  show "FLOAT_IS_PLUS w = (\<not> FLOAT_IS_MINUS w)"
    by (simp add: FLOAT_IS_PLUS_def FLOAT_IS_MINUS_def GET_FLOAT_SIGN_BIT_VALUE_def)
qed

lemma class_single:
  "FLOAT_IS_NAN w \<longleftrightarrow> (\<exists>q. data_of Single w = FNan q)"
  "FLOAT_IS_INF w \<longleftrightarrow> data_of Single w = FInf (FLOAT_IS_MINUS w)"
  "FLOAT_IS_ZERO w \<longleftrightarrow> data_of Single w = FFin (FLOAT_IS_MINUS w) 0 (-149)"
  "FLOAT_IS_SBNORM w \<longleftrightarrow> (\<exists>m. data_of Single w = FFin (FLOAT_IS_MINUS w) m (-149) \<and> 0 < m \<and> m < 2 ^ 23)"
  "float_is_snan w \<longleftrightarrow> data_of Single w = FNan True"
proof -
  define t e m where "t = odd (unat w div 2 ^ 31)" and "e = unat w div 2 ^ 23 mod 2 ^ 8"
    and "m = unat w mod 2 ^ 23"
  have m: "m < 2 ^ 23" unfolding m_def by (rule mod_less_divisor) simp
  have u: "data_of Single w =
     (if e = 2 ^ 8 - 1 then if m = 0 then FInf t else FNan (m < 2 ^ 22)
      else if e = 0 then FFin t m (- 149) else FFin t (2 ^ 23 + m) (- 149 + int e - 1))"
    by (simp add: data_of_def unpack_def Let_def t_def e_def m_def)
  note c = class_eqs [of w, folded e_def m_def] sign_single [of w, folded t_def]
  show "FLOAT_IS_NAN w \<longleftrightarrow> (\<exists>q. data_of Single w = FNan q)"
    unfolding FLOAT_IS_NAN_def c u by simp
  show "FLOAT_IS_INF w \<longleftrightarrow> data_of Single w = FInf (FLOAT_IS_MINUS w)"
    unfolding FLOAT_IS_INF_def c u by simp
  show "FLOAT_IS_ZERO w \<longleftrightarrow> data_of Single w = FFin (FLOAT_IS_MINUS w) 0 (-149)"
    unfolding FLOAT_IS_ZERO_def c u by simp
  show "FLOAT_IS_SBNORM w \<longleftrightarrow>
      (\<exists>n. data_of Single w = FFin (FLOAT_IS_MINUS w) n (-149) \<and> 0 < n \<and> n < 2 ^ 23)"
    unfolding FLOAT_IS_SBNORM_def c u using m by simp
  have "odd (unat w div 2 ^ 22) \<longleftrightarrow> \<not> m < 2 ^ 22"
    using top_bit [of "2 ^ 22" "unat w"] by (simp add: m_def)
  then have b: "w AND push_bit 22 1 = 0 \<longleftrightarrow> m < 2 ^ 22"
    using and_exp_eq_0_iff_not_bit [of w 22] bit_unat [of w 22] by simp
  show "float_is_snan w \<longleftrightarrow> data_of Single w = FNan True"
    unfolding float_is_snan_def FLOAT_IS_NAN_def c u b by simp
qed

section \<open>Double precision\<close>

lemma d_of_data [simp]: "d_data (d_of v) = v" "d_of (d_data x) = x"
proof -
  show "d_data (d_of v) = v"
    by (rule bit_word_eqI) (auto simp: d_data_def d_of_def bit_simps)
  have "binary0 (d_of (d_data x)) = binary0 x" "binary1 (d_of (d_data x)) = binary1 x"
    by (rule bit_word_eqI; auto simp: d_data_def d_of_def bit_simps dest: bit_imp_le_length)+
  then show "d_of (d_data x) = x" by simp
qed

lemma unat_d_data: "unat (d_data x) = unat (binary1 x) * 2 ^ 32 + unat (binary0 x)"
proof -
  have d: "push_bit 32 (ucast (binary1 x)) AND (ucast (binary0 x) :: u64) = 0"
    by (rule bit_word_eqI) (auto simp: bit_simps dest: bit_imp_le_length)
  have "unat (binary1 x) * 2 ^ 32 < 2 ^ 64" using unat_lt_32 [of "binary1 x"] by simp
  then have p: "unat (push_bit 32 (ucast (binary1 x) :: u64)) = unat (binary1 x) * 2 ^ 32"
    unfolding unsigned_push_bit_eq unsigned_ucast_eq by (simp add: push_bit_eq_mult take_bit_eq_mod)
  have "unat (d_data x) = unat (push_bit 32 (ucast (binary1 x) :: u64)) OR unat (ucast (binary0 x) :: u64)"
    by (simp add: d_data_def unsigned_or_eq)
  also have "\<dots> = unat (push_bit 32 (ucast (binary1 x) :: u64)) + unat (ucast (binary0 x) :: u64)"
    by (rule disjunctive_add_eq_or [symmetric]) (simp add: d flip: unsigned_and_eq)
  finally show ?thesis
    unfolding p using unat_lt_32 [of "binary0 x"] by (simp add: unsigned_ucast_eq take_bit_eq_mod)
qed

lemma double_exp_even: "\<not> bit (GET_DOUBLE_EXP_VALUE x) 0"
  by (simp add: GET_DOUBLE_EXP_VALUE_def bit_simps)

lemma double_never_special [simp]: "\<not> DOUBLE_IS_NAN x" "\<not> DOUBLE_IS_INF x"
  "\<not> double_is_qnan x" "\<not> double_is_snan x"
proof -
  have "GET_DOUBLE_EXP_VALUE x \<noteq> 2047"
  proof
    assume "GET_DOUBLE_EXP_VALUE x = 2047"
    then show False using double_exp_even [of x] by simp
  qed
  then show "\<not> DOUBLE_IS_NAN x" "\<not> DOUBLE_IS_INF x" "\<not> double_is_qnan x" "\<not> double_is_snan x"
    by (simp_all add: DOUBLE_IS_NAN_def DOUBLE_IS_INF_def double_is_qnan_def double_is_snan_def)
qed

text \<open>A pattern that counts as subnormal has an exponent field of 0 or 1.\<close>

lemma double_subnormal:
  assumes "DOUBLE_IS_SBNORM x"
  shows "\<exists>t n. data_of Double (d_data x) = FFin t n (-1074)"
proof -
  let ?h = "binary1 x"
  have m: "(0x7FE00000 :: u32) = push_bit 21 (mask 10)" by (simp add: mask_eq_exp_minus_1)
  have "GET_DOUBLE_EXP_VALUE x = 0" using assms by (simp add: DOUBLE_IS_SBNORM_def)
  then have z: "(ucast (drop_bit 20 (push_bit 21 (mask 10) AND ?h)) :: u16) = 0"
    unfolding GET_DOUBLE_EXP_VALUE_def m .
  have b: "\<not> bit ?h (20 + n)" if "1 \<le> n" "n < 11" for n
  proof -
    have "bit (ucast (drop_bit 20 (push_bit 21 (mask 10) AND ?h)) :: u16) n = bit ?h (20 + n)"
      using that by (auto simp: bit_simps)
    then show ?thesis unfolding z by simp
  qed
  have "take_bit 11 (drop_bit 20 ?h) = take_bit 1 (drop_bit 20 ?h)"
  proof (rule bit_word_eqI)
    fix n assume "n < LENGTH(32)"
    show "bit (take_bit 11 (drop_bit 20 ?h)) n = bit (take_bit 1 (drop_bit 20 ?h)) n"
      using b [of n] unfolding bit_take_bit_iff bit_drop_bit_eq comp_apply by (cases "1 \<le> n") auto
  qed
  then have "unat (take_bit 11 (drop_bit 20 ?h)) = unat (take_bit 1 (drop_bit 20 ?h))" by (simp only:)
  then have "take_bit 11 (unat (drop_bit 20 ?h)) = take_bit 1 (unat (drop_bit 20 ?h))"
    unfolding unsigned_take_bit_eq .
  moreover have "unat (drop_bit 20 ?h) = unat ?h div 2 ^ 20"
    unfolding unsigned_drop_bit_eq using unat_lt_32 [of ?h] by (simp add: take_bit_eq_mod drop_bit_eq_div)
  ultimately have e: "unat ?h div 2 ^ 20 mod 2 ^ 11 \<le> 1" by (simp add: take_bit_eq_mod)
  have "unat (d_data x) div 2 ^ 52 = unat ?h div 2 ^ 20"
    unfolding unat_d_data using unat_lt_32 [of "binary0 x"] by simp
  then show ?thesis
    using e by (simp add: data_of_def unpack_def Let_def)
qed

end
