(* ===== verification/Fpu_Props.thy ===== *)
theory Fpu_Props
  imports Fpu_Inv Fpu_Class_Lib Samples "HOL-Library.Code_Target_Nat"
begin

text \<open>
  The properties of the floating point unit: correct rounding of the single precision arithmetic,
  conversions between integers and double precision, comparisons, and what every instruction of
  the unit keeps.
\<close>

section \<open>Samples\<close>

text \<open>A host that gives the default NaN, and instructions over the registers 2 to 6.\<close>

definition sample_host :: host_fp where
  "sample_host = \<lparr>h_nan = (\<lambda>_ F _. inf_bits F + 2 ^ (mbits F - 1)), h_cast = (\<lambda>_ _ _. 0),
     h_tiny_before = False, h_fma_invalid = False, h_int_inexact = False\<rparr>"

definition fpu_code :: "u16 \<Rightarrow> u16 \<Rightarrow> u16 \<Rightarrow> u32 \<Rightarrow> OpDecodedCodeType" where
  "fpu_code r1 r2 r3 sub = blank_code\<lparr>type_f :=
     \<lparr>tf_reg2 = r2, tf_opcode = 63, tf_reg1 = r1, tf_reg3 = r3, tf_subopcode = sub\<rparr>\<rparr>"

lemma fpu_code_simps [simp]:
  "f_reg1 (sample_core (fpu_code r1 r2 r3 k) rf psw e) = ucast r1"
  "f_reg2 (sample_core (fpu_code r1 r2 r3 k) rf psw e) = ucast r2"
  "f_reg3 (sample_core (fpu_code r1 r2 r3 k) rf psw e) = ucast r3"
  "f_fcbit (sample_core (fpu_code r1 r2 r3 k) rf psw e) = drop_bit 1 (k AND 15)"
  "f_reg4 (sample_core (fpu_code r1 r2 r3 k) rf psw e) = (k AND 0x1e) OR (drop_bit 7 k AND 1)"
  "f_fcbit (cpu\<lparr>decoded_code := fpu_code r1 r2 r3 k\<rparr>) = drop_bit 1 (k AND 15)"
  "tf_reg2 (type_f (fpu_code r1 r2 r3 k)) = r2" "tf_reg3 (type_f (fpu_code r1 r2 r3 k)) = r3"
  by (simp_all add: f_reg1_def f_reg2_def f_reg3_def f_reg4_def f_fcbit_def fpu_code_def)

lemma sample_fp_reg [simp]: "r \<noteq> SYS_REG_PSW \<Longrightarrow> fp_reg r (reg (sample_core d rf psw e)) = 0"
  by (simp add: fp_reg_def cpu_get_sysreg2_def sample_core_def get_sys_cell_def)

lemma sample_rounding [simp]: "sys_get_fpsr_rm (reg (sample_core d rf psw e)) = 0"
  by (simp add: sys_get_fpsr_rm_def SYS_GET_DATA_def)

section \<open>The arithmetic on words\<close>

lemma fround_bound: "fst (fround h F r s m e) < 2 * 2 ^ (mbits F + ebits F)"
proof -
  have i: "inf_bits F < 2 ^ (mbits F + ebits F)" by (cases F) simp_all
  have s: "sign_bits F s \<le> 2 ^ (mbits F + ebits F)" by (simp add: sign_bits_def)
  have "sign_bits F s + b < 2 * 2 ^ (mbits F + ebits F)" if "b \<le> inf_bits F" for b
    using i s that by linarith
  note b = this this [of 0]
  have "overflow_bits F r s \<le> inf_bits F" by (simp add: overflow_bits_def)
  then show ?thesis
    unfolding fround_def Let_def using b by (auto simp: case_prod_beta not_le simp del: mult_2)
qed

lemma word_of_single: "v < 2 * 2 ^ (mbits Single + ebits Single) \<Longrightarrow> data_of Single (of_nat v :: u32) = unpack Single v"
  by (simp add: data_of_def unsigned_of_nat take_bit_eq_mod)

lemma word_of_double: "v < 2 * 2 ^ (mbits Double + ebits Double) \<Longrightarrow> data_of Double (of_nat v :: u64) = unpack Double v"
  by (simp add: data_of_def unsigned_of_nat take_bit_eq_mod)

text \<open>The exact result of a sum, difference or product of numbers.\<close>

lemma sum_fin_cases:
  fixes x :: real
  shows "(s = t \<longrightarrow> (if s then - 1 else 1) * (real (a + b) * x) =
      (if s then - 1 else 1) * (real a * x) + (if t then - 1 else 1) * (real b * x)) \<and>
    (s \<noteq> t \<longrightarrow> a = b \<longrightarrow> 0 = (if s then - 1 else 1) * (real a * x) + (if t then - 1 else 1) * (real b * x)) \<and>
    (s \<noteq> t \<longrightarrow> b < a \<longrightarrow> (if s then - 1 else 1) * (real (a - b) * x) =
      (if s then - 1 else 1) * (real a * x) + (if t then - 1 else 1) * (real b * x)) \<and>
    (s \<noteq> t \<longrightarrow> a < b \<longrightarrow> (if t then - 1 else 1) * (real (b - a) * x) =
      (if s then - 1 else 1) * (real a * x) + (if t then - 1 else 1) * (real b * x))"
  by (auto simp: of_nat_diff algebra_simps)

lemma sum_fin_value:
  "\<exists>u k g. sum_fin r s m e t n f = XFin u k g \<and>
     (if u then - 1 else 1) * (real k * 2 powi g) =
     (if s then - 1 else 1) * (real m * 2 powi e) + (if t then - 1 else 1) * (real n * 2 powi f)"
proof -
  define g where "g = min e f"
  define a where "a = m * 2 ^ nat (e - g)"
  define b where "b = n * 2 ^ nat (f - g)"
  have e: "real m * 2 powi e = real a * 2 powi g"
    using pow_shift [of g e] by (simp add: a_def g_def)
  have f: "real n * 2 powi f = real b * 2 powi g"
    using pow_shift [of g f] by (simp add: b_def g_def)
  have c: "sum_fin r s m e t n f =
      (if s = t then XFin s (a + b) g else if a = b then XFin (r = FE_DOWNWARD) 0 g
       else if b < a then XFin s (a - b) g else XFin t (b - a) g)"
    by (simp add: sum_fin_def Let_def a_def b_def g_def)
  note k = sum_fin_cases [of s t a b "2 powi g"]
  consider "s = t" | "s \<noteq> t" "a = b" | "s \<noteq> t" "b < a" | "s \<noteq> t" "a < b" by linarith
  then show ?thesis
  proof cases
    case 1
    then show ?thesis
      unfolding c e f using k by (intro exI [of _ s] exI [of _ "a + b"] exI [of _ g]) simp
  next
    case 2
    then show ?thesis
      unfolding c e f using k by (intro exI [of _ "r = FE_DOWNWARD"] exI [of _ 0] exI [of _ g]) simp
  next
    case 3
    then show ?thesis
      unfolding c e f using k by (intro exI [of _ s] exI [of _ "a - b"] exI [of _ g]) simp
  next
    case 4
    then show ?thesis
      unfolding c e f using k by (intro exI [of _ t] exI [of _ "b - a"] exI [of _ g]) simp
  qed
qed

lemma x_add_value:
  assumes "is_finite a" and "is_finite b"
  obtains s m e where "x_add r a b = XFin s m e" and "fval (FFin s m e) = fval a + fval b"
proof -
  obtain s m e t n f where ab: "a = FFin s m e" "b = FFin t n f"
    using assms by (cases a; cases b) simp_all
  obtain u k g where "sum_fin r s m e t n f = XFin u k g"
    "(if u then - 1 else 1) * (real k * 2 powi g) =
     (if s then - 1 else 1) * (real m * 2 powi e) + (if t then - 1 else 1) * (real n * 2 powi f)"
    using sum_fin_value by blast
  then show ?thesis using that [of u k g] by (simp add: ab mult.assoc)
qed

lemma x_mul_value:
  assumes "is_finite a" and "is_finite b"
  obtains s m e where "x_mul a b = XFin s m e" and "fval (FFin s m e) = fval a * fval b"
  using assms by (cases a; cases b) (auto simp: power_int_add)

lemma neg_data_value [simp]: "is_finite (neg_data a) = is_finite a" "fval (neg_data a) = - fval a"
  by (cases a; simp)+

lemma deliver_closest:
  assumes x: "x = XFin s m e" and d: "deliver h Single FE_TONEAREST op Single vs x = (v, fl)"
    and fin: "is_finite (data_of Single (of_nat v :: u32))"
    and w: "is_finite (data_of Single (w :: u32))"
  shows "\<bar>fval (data_of Single (of_nat v :: u32)) - fval (FFin s m e)\<bar> \<le>
    \<bar>fval (data_of Single w) - fval (FFin s m e)\<bar>"
proof -
  have f: "fround h Single FE_TONEAREST s m e = (v, fl)" using d by (simp add: x deliver_def)
  have u: "data_of Single (of_nat v :: u32) = unpack Single v"
    using fround_bound [of h Single FE_TONEAREST s m e] by (intro word_of_single) (simp add: f)
  show ?thesis
  proof (cases "m = 0")
    case True
    then have "v = sign_bits Single s" using f by (simp add: fround_zero)
    then show ?thesis
      using unpack_encode [of 0 Single 0 s] True u by simp
  next
    case False
    have "FE_OVERFLOW \<notin> fl"
    proof
      assume "FE_OVERFLOW \<in> fl"
      then have "v = sign_bits Single s + inf_bits Single"
        using f False by (auto simp: fround_def Let_def case_prod_beta overflow_bits_def split: if_splits)
      then have "unpack Single v = FInf s" by (cases s) (simp_all add: unpack_def Let_def)
      then show False using fin u by simp
    qed
    then show ?thesis
      using fround_closest [of m h Single s e v fl "unat w"] f False w unfolding u
      by (simp add: data_of_def mult.assoc)
  qed
qed

section \<open>The rounding mode\<close>

lemma rm_field: "sys_get_fpsr_rm g < 4"
proof -
  have "sys_get_fpsr_rm g = take_bit 2 (ucast (drop_bit 18 (fp_reg SYS_REG_FPSR g)))"
    unfolding sys_get_fpsr_rm_def SYS_GET_DATA_def field_masks by (simp add: take_bit_eq_mask)
  moreover have "take_bit 2 (x :: u8) < 4" for x
  proof -
    have "unat (take_bit 2 x) = take_bit 2 (unat x)" by (simp only: unsigned_take_bit_eq)
    then show ?thesis by (simp only: word_less_nat_alt take_bit_eq_mod) simp
  qed
  ultimately show ?thesis by simp
qed

lemma prepare_cases:
  "prepare_float_op g = \<lparr>is_FPSR_FS = True,
     round_type = if sys_get_fpsr_rm g = 1 then FpuRounding_RZ else FpuRounding_RN\<rparr>"
proof -
  have "sys_get_fpsr_rm g \<noteq> 0x10" "sys_get_fpsr_rm g \<noteq> 0x11" using rm_field [of g] by auto
  then show ?thesis by (simp add: prepare_float_op_def Let_def)
qed

lemma flush_result:
  "set_subnormal_result (prepare_float_op g) w = (if FLOAT_IS_SBNORM w then 0 else w)"
  by (simp add: prepare_cases set_subnormal_result_def)

lemma host_round_cases:
  "host_round (prepare_float_op g) = (if sys_get_fpsr_rm g = 1 then FE_TOWARDZERO else FE_TONEAREST)"
  by (simp add: prepare_cases host_round_def)

section \<open>Correct rounding\<close>

text \<open>The operands of a single precision instruction as the unit sees them.\<close>

definition operand1 :: "'b TargetCoreType \<Rightarrow> u32" where
  "operand1 cpu = set_subnormal_operand (prepare_float_op (reg cpu)) (regs (reg cpu) (f_reg1 cpu))"

definition operand2 :: "'b TargetCoreType \<Rightarrow> u32" where
  "operand2 cpu = set_subnormal_operand (prepare_float_op (reg cpu)) (regs (reg cpu) (f_reg2 cpu))"

definition single_arithmetic ::
    "host_fp \<Rightarrow> (('b TargetCoreType \<Rightarrow> 'b TargetCoreType outcome) \<times> (real \<Rightarrow> real \<Rightarrow> real)) list" where
  "single_arithmetic h =
     [(op_exec_addf_s_F h, \<lambda>x y. x + y), (op_exec_subf_s_F h, \<lambda>x y. y - x),
      (op_exec_mulf_s_F h, \<lambda>x y. x * y)]"

text \<open>
  \<open>r\<close> is the value of the format nearest to \<open>x\<close>, or the zero that a result below the least normal
  number is flushed to.
\<close>

definition rounded :: "u32 \<Rightarrow> real \<Rightarrow> bool" where
  "rounded r x \<longleftrightarrow>
     (\<forall>w :: u32. is_finite (data_of Single w) \<longrightarrow>
        \<bar>fval (data_of Single r) - x\<bar> \<le> \<bar>fval (data_of Single w) - x\<bar>) \<or>
     r = 0 \<and> \<bar>x\<bar> < 2 powi (- 126)"

lemma least_normal: "data_of Single (0x00800000 :: u32) = FFin False (2 ^ 23) (- 149)"
  "data_of Single (0x80800000 :: u32) = FFin True (2 ^ 23) (- 149)"
  by (simp_all add: data_of_def unpack_def Let_def)

lemma flush_rounded:
  assumes c: "\<And>w :: u32. is_finite (data_of Single w) \<Longrightarrow>
      \<bar>fval (data_of Single v) - x\<bar> \<le> \<bar>fval (data_of Single w) - x\<bar>"
  shows "rounded (if FLOAT_IS_SBNORM v then 0 else v) x"
proof (cases "FLOAT_IS_SBNORM v")
  case True
  then obtain m where m: "data_of Single v = FFin (FLOAT_IS_MINUS v) m (-149)" "m < 2 ^ 23"
    using class_single(4) by blast
  have p: "(2 :: real) ^ 23 * 2 powi (- 149) = 2 powi (- 126)"
    using pow_shift [of "- 149" "- 126"] by simp
  have "real m < 2 ^ 23" using m(2) by (metis of_nat_less_iff of_nat_numeral of_nat_power)
  then have "real m * 2 powi (- 149) < 2 ^ 23 * (2 :: real) powi (- 149)"
    by (rule mult_strict_right_mono) simp
  then have "\<bar>fval (data_of Single v)\<bar> < 2 powi (- 126)"
    unfolding m(1) using p by (simp add: abs_mult)
  moreover have "\<bar>fval (data_of Single v) - x\<bar> \<le> \<bar>2 powi (- 126) - x\<bar>"
    "\<bar>fval (data_of Single v) - x\<bar> \<le> \<bar>- (2 powi (- 126)) - x\<bar>"
    using c [of "0x00800000"] c [of "0x80800000"] p unfolding least_normal by simp_all
  ultimately have "\<bar>x\<bar> < 2 powi (- 126)" by linarith
  then show ?thesis using True by (simp add: rounded_def)
next
  case False
  then show ?thesis using c by (simp add: rounded_def)
qed

lemma single_result:
  "op_exec_addf_s_F h cpu = Ret0 cpu' \<Longrightarrow> regs (reg cpu') (f_reg3 cpu) =
     set_subnormal_result (prepare_float_op (reg cpu))
       (fst (c_add h Single (host_round (prepare_float_op (reg cpu))) (operand1 cpu) (operand2 cpu)))"
  "op_exec_subf_s_F h cpu = Ret0 cpu' \<Longrightarrow> regs (reg cpu') (f_reg3 cpu) =
     set_subnormal_result (prepare_float_op (reg cpu))
       (fst (c_sub h Single (host_round (prepare_float_op (reg cpu))) (operand2 cpu) (operand1 cpu)))"
  "op_exec_mulf_s_F h cpu = Ret0 cpu' \<Longrightarrow> regs (reg cpu') (f_reg3 cpu) =
     set_subnormal_result (prepare_float_op (reg cpu))
       (fst (c_mul h Single (host_round (prepare_float_op (reg cpu))) (operand1 cpu) (operand2 cpu)))"
  by (auto simp: op_exec_addf_s_F_def op_exec_subf_s_F_def op_exec_mulf_s_F_def fpu_instr_def Let_def
      float_op_def case_prod_beta operand1_def operand2_def split: if_splits)

lemma delivered_closest:
  assumes "x = XFin s m e" and "fval (FFin s m e) = y"
    and "is_finite (data_of Single (w :: u32))"
    and "is_finite (data_of Single (fst (to_word (deliver h Single FE_TONEAREST op Single vs x)) :: u32))"
  shows "\<bar>fval (data_of Single (fst (to_word (deliver h Single FE_TONEAREST op Single vs x)) :: u32)) - y\<bar>
    \<le> \<bar>fval (data_of Single w) - y\<bar>"
proof -
  obtain v fl where d: "deliver h Single FE_TONEAREST op Single vs x = (v, fl)" by fastforce
  show ?thesis
    using deliver_closest [OF assms(1) d _ assms(3)] assms(4) unfolding assms(2) by (simp add: to_word_def d)
qed

lemma single_closest:
  fixes a b w :: u32
  assumes a: "is_finite (data_of Single a)" and b: "is_finite (data_of Single b)"
    and w: "is_finite (data_of Single w)"
  defines "x \<equiv> fval (data_of Single a)" and "y \<equiv> fval (data_of Single b)"
  shows "is_finite (data_of Single (fst (c_add h Single FE_TONEAREST a b))) \<Longrightarrow>
      \<bar>fval (data_of Single (fst (c_add h Single FE_TONEAREST a b))) - (x + y)\<bar> \<le> \<bar>fval (data_of Single w) - (x + y)\<bar>"
    and "is_finite (data_of Single (fst (c_sub h Single FE_TONEAREST b a))) \<Longrightarrow>
      \<bar>fval (data_of Single (fst (c_sub h Single FE_TONEAREST b a))) - (y - x)\<bar> \<le> \<bar>fval (data_of Single w) - (y - x)\<bar>"
    and "is_finite (data_of Single (fst (c_mul h Single FE_TONEAREST a b))) \<Longrightarrow>
      \<bar>fval (data_of Single (fst (c_mul h Single FE_TONEAREST a b))) - x * y\<bar> \<le> \<bar>fval (data_of Single w) - x * y\<bar>"
proof -
  obtain s m e where "x_add FE_TONEAREST (data_of Single a) (data_of Single b) = XFin s m e"
    "fval (FFin s m e) = x + y" using x_add_value [OF a b] unfolding x_def y_def .
  then show "is_finite (data_of Single (fst (c_add h Single FE_TONEAREST a b))) \<Longrightarrow>
      \<bar>fval (data_of Single (fst (c_add h Single FE_TONEAREST a b))) - (x + y)\<bar> \<le> \<bar>fval (data_of Single w) - (x + y)\<bar>"
    unfolding c_add_def using w by (rule delivered_closest)
  have "is_finite (neg_data (data_of Single a))" using a by simp
  then obtain s m e where "x_add FE_TONEAREST (data_of Single b) (neg_data (data_of Single a)) = XFin s m e"
    "fval (FFin s m e) = y - x" using x_add_value [OF b] unfolding x_def y_def by (metis neg_data_value(2) uminus_add_conv_diff add.commute)
  then show "is_finite (data_of Single (fst (c_sub h Single FE_TONEAREST b a))) \<Longrightarrow>
      \<bar>fval (data_of Single (fst (c_sub h Single FE_TONEAREST b a))) - (y - x)\<bar> \<le> \<bar>fval (data_of Single w) - (y - x)\<bar>"
    unfolding c_sub_def using w by (rule delivered_closest)
  obtain s m e where "x_mul (data_of Single a) (data_of Single b) = XFin s m e"
    "fval (FFin s m e) = x * y" using x_mul_value [OF a b] unfolding x_def y_def .
  then show "is_finite (data_of Single (fst (c_mul h Single FE_TONEAREST a b))) \<Longrightarrow>
      \<bar>fval (data_of Single (fst (c_mul h Single FE_TONEAREST a b))) - x * y\<bar> \<le> \<bar>fval (data_of Single w) - x * y\<bar>"
    unfolding c_mul_def using w by (rule delivered_closest)
qed

text \<open>C13: ADDF.S, SUBF.S and MULF.S round correctly.  Unless the mode is to zero, the result register
  holds the single precision number that is nearest to the exact real sum, difference
  (register 2 less register 1) or product of the operands, or +0 when the exact result is below
  the least normal number in absolute value.  The operands are those after the flush to zero, and
  they and the result are no NaN or infinity.\<close>

lemma single_correctly_rounded:
  assumes "(f, op) \<in> set (single_arithmetic h)" and "f cpu = Ret0 cpu'"
    and "sys_get_fpsr_rm (reg cpu) \<noteq> 1"
    and "is_finite (data_of Single (operand1 cpu))" and "is_finite (data_of Single (operand2 cpu))"
    and "is_finite (data_of Single (regs (reg cpu') (f_reg3 cpu)))"
  shows "rounded (regs (reg cpu') (f_reg3 cpu))
    (op (fval (data_of Single (operand1 cpu))) (fval (data_of Single (operand2 cpu))))"
proof -
  have fin: "is_finite (data_of Single (v :: u32))"
    if "is_finite (data_of Single (if FLOAT_IS_SBNORM v then 0 else v))" for v
    using that class_single(4) [of v] by (auto split: if_splits)
  have r: "host_round (prepare_float_op (reg cpu)) = FE_TONEAREST" using assms(3) by (simp add: host_round_cases)
  show ?thesis
    using assms(1,2,6) unfolding single_arithmetic_def
    by (auto simp: single_result r flush_result intro!: flush_rounded single_closest assms(4,5) dest!: fin
        split del: if_split)
qed

section \<open>Integers through double precision\<close>

lemma int_part_shift: "int_part (m * 2 ^ j) (- int j) = m" "\<not> has_frac (m * 2 ^ j) (- int j)"
  by (simp_all add: int_part_def has_frac_def)

lemma of_int_double:
  fixes h :: host_fp and r :: fe_round
  assumes "\<bar>i\<bar> < 2 ^ 53"
  defines "w \<equiv> fst (c_of_int h Double r i) :: u64"
  obtains n e where "data_of Double w = FFin (i < 0) n e" and "int_part n e = nat \<bar>i\<bar>" and "\<not> has_frac n e"
    and "snd (c_of_int h Double r i :: u64 \<times> _) = {}" and "\<not> DOUBLE_IS_SBNORM (d_of w)"
proof (cases "i = 0")
  case True
  have "c_of_int h Double r 0 = (0 :: u64, {})"
    by (simp add: c_of_int_def of_integer_def to_word_def fround_zero)
  then have w: "w = 0" "snd (c_of_int h Double r 0 :: u64 \<times> _) = {}" by (simp_all add: w_def True)
  have "\<not> DOUBLE_IS_SBNORM (d_of 0)"
    by (simp add: DOUBLE_IS_SBNORM_def GET_DOUBLE_MANTISSA0_VALUE_def GET_DOUBLE_MANTISSA1_VALUE_def d_of_def)
  then show ?thesis
    by (intro that [of 0 "- 1074"]) (simp_all add: w True data_of_def unpack_def Let_def int_part_def has_frac_def)
next
  case False
  let ?m = "nat \<bar>i\<bar>" and ?j = "mbits Double + 1 - floorlog 2 (nat \<bar>i\<bar>)"
  have m: "?m < 2 ^ (mbits Double + 1)" "0 < ?m" using assms(1) False by (simp_all add: nat_less_iff)
  let ?v = "sign_bits Double (i < 0) + (nat (- int ?j - emin Double) * 2 ^ mbits Double + ?m * 2 ^ ?j)"
  note f = fround_int [OF m]
  have c: "c_of_int h Double r i = (of_nat ?v :: u64, {})"
    unfolding c_of_int_def of_integer_def to_word_def f(1) by simp
  have "?v < 2 * 2 ^ (mbits Double + ebits Double)"
    using fround_bound [of h Double r "i < 0" ?m 0] unfolding f(1) by simp
  then have "data_of Double w = unpack Double ?v" unfolding w_def c fst_conv by (rule word_of_double)
  then have d: "data_of Double w = FFin (i < 0) (?m * 2 ^ ?j) (- int ?j)" unfolding f(2) .
  have "?j \<le> 53" by simp
  then have s: "\<not> DOUBLE_IS_SBNORM (d_of w)"
    using double_subnormal [of "d_of w"] d by auto
  show ?thesis by (rule that [OF d int_part_shift _ s]) (simp add: c)
qed

lemma cast_back:
  assumes "data_of F (w :: 'a::len word) = FFin (i < 0) n e" and "int_part n e = nat \<bar>i\<bar>" and "\<not> has_frac n e"
    and "in_range t i"
  shows "c_cast h F t w = (i, {})"
proof -
  have "(if i < 0 then - 1 else 1) * int (nat \<bar>i\<bar>) = i" by auto
  then show ?thesis using assms by (simp add: c_cast_def cast_int_def data_of_def Let_def)
qed

lemma keep_double:
  "\<not> DOUBLE_IS_SBNORM x \<Longrightarrow> set_subnormal_operand_double cp x = x"
  "\<not> DOUBLE_IS_SBNORM x \<Longrightarrow> set_subnormal_result_double cp x = x"
  by (simp_all add: set_subnormal_operand_double_def set_subnormal_result_double_def)

lemma end_no_flags [simp]: "end_float_op {} g = g"
  by (simp add: end_float_op_def)

lemma get_set_pair [simp]: "get_pair r (set_pair r x g) = x"
proof -
  have "r \<noteq> r + 1" by simp
  then show ?thesis by (simp add: get_pair_def set_pair_def)
qed

text \<open>C16: A 32 bit integer survives the way through double precision: CVTF.WD into a register pair,
  then TRNCF.DW or CVTF.DW back, gives the same word, and neither instruction raises a flag or
  changes any other system register.  The second instruction is given by its decoded fields \<open>d\<close>.
\<close>

lemma int_double_roundtrip:
  fixes cpu :: "'b TargetCoreType"
  assumes f: "f = op_exec_trncf_dw_F h \<or> f = op_exec_cvtf_dw_F h"
    and r: "f_reg2 cpu < CPU_GREG_NUM" "f_reg3 cpu + 1 < CPU_GREG_NUM"
    and d: "ucast (tf_reg2 (type_f d)) = f_reg3 cpu" "(ucast (tf_reg3 (type_f d)) :: u32) < CPU_GREG_NUM"
  shows "\<exists>cpu1 cpu2. op_exec_cvtf_wd_F h cpu = Ret0 cpu1 \<and> f (cpu1\<lparr>decoded_code := d\<rparr>) = Ret0 cpu2 \<and>
    regs (reg cpu2) (ucast (tf_reg3 (type_f d))) = regs (reg cpu) (f_reg2 cpu) \<and>
    sys (reg cpu2) = sys (reg cpu)"
proof -
  let ?i = "sint (regs (reg cpu) (f_reg2 cpu))" and ?cp = "prepare_float_op (reg cpu)"
  have i: "in_range SInt32 ?i" 
    using sint_greater_eq [of "regs (reg cpu) (f_reg2 cpu)"] sint_less [of "regs (reg cpu) (f_reg2 cpu)"]
    by simp
  then have "\<bar>?i\<bar> < 2 ^ 53" by auto
  then obtain n e where n: "data_of Double (fst (c_of_int h Double (host_round ?cp) ?i) :: u64) = FFin (?i < 0) n e"
      "int_part n e = nat \<bar>?i\<bar>" "\<not> has_frac n e"
    and z: "snd (c_of_int h Double (host_round ?cp) ?i :: u64 \<times> _) = {}"
      "\<not> DOUBLE_IS_SBNORM (d_of (fst (c_of_int h Double (host_round ?cp) ?i)))"
    using of_int_double by blast
  let ?x = "d_of (fst (c_of_int h Double (host_round ?cp) ?i))"
  let ?g = "add_pc 4 (set_pair (f_reg3 cpu) ?x (reg cpu))"
  let ?c = "cpu\<lparr>reg := ?g, decoded_code := d\<rparr>"
  have one: "op_exec_cvtf_wd_F h cpu = Ret0 (cpu\<lparr>reg := ?g\<rparr>)"
    using r z unfolding op_exec_cvtf_wd_F_def
    by (simp add: fpu_instr_def float_op_def case_prod_beta keep_double not_le Let_def)
  have fr: "f_reg2 ?c = f_reg3 cpu" "f_reg3 ?c = ucast (tf_reg3 (type_f d))"
    using d by (simp_all add: f_reg2_def f_reg3_def)
  have p: "get_pair (f_reg3 cpu) ?g = ?x" by (simp add: get_pair_def set_pair_def)
  have c: "c_cast h Double SInt32 (d_data ?x) = (?i, {})"
    unfolding d_of_data by (rule cast_back [OF n i])
  have two: "f ?c = Ret0 (?c\<lparr>reg := add_pc 4 (set_r (ucast (tf_reg3 (type_f d))) (of_int ?i) ?g)\<rparr>)"
    using f
  proof
    assume "f = op_exec_trncf_dw_F h"
    then show ?thesis
      using r d(2) p z(2) c unfolding op_exec_trncf_dw_F_def Let_def fr
      by (simp add: fpu_instr_def float_op_def case_prod_beta keep_double not_le fr)
  next
    assume "f = op_exec_cvtf_dw_F h"
    then show ?thesis
      using r d(2) p z(2) c unfolding op_exec_cvtf_dw_F_def Let_def fr
      by (simp add: fpu_instr_def float_op_def case_prod_beta keep_double not_le fr)
  qed
  show ?thesis
    by (rule exI [of _ "cpu\<lparr>reg := ?g\<rparr>"],
        rule exI [of _ "?c\<lparr>reg := add_pc 4 (set_r (ucast (tf_reg3 (type_f d))) (of_int ?i) ?g)\<rparr>"])
      (use one two in \<open>simp add: set_pair_def\<close>)
qed

text \<open>The conversions between long and double do not invert each other: CVTF.LD followed by
  CVTF.DL of a 64 bit integer of less than 54 bits gives the two words in swapped order, because
  the store of the long result puts the upper word into the even register.\<close>

lemma long_conversion_swaps_words:
  fixes cpu :: "'b TargetCoreType"
  defines "x \<equiv> d_data (get_pair (f_reg2 cpu) (reg cpu))"
  assumes x: "\<bar>sint x\<bar> < 2 ^ 53"
    and r: "f_reg2 cpu + 1 < CPU_GREG_NUM" "f_reg3 cpu + 1 < CPU_GREG_NUM"
    and d: "ucast (tf_reg2 (type_f d)) = f_reg3 cpu" "(ucast (tf_reg3 (type_f d)) + 1 :: u32) < CPU_GREG_NUM"
  shows "\<exists>cpu1 cpu2. op_exec_cvtf_ld_F h cpu = Ret0 cpu1 \<and>
    op_exec_cvtf_dl_F h (cpu1\<lparr>decoded_code := d\<rparr>) = Ret0 cpu2 \<and>
    get_pair (ucast (tf_reg3 (type_f d))) (reg cpu2) =
      \<lparr>binary0 = regs (reg cpu) (f_reg2 cpu + 1), binary1 = regs (reg cpu) (f_reg2 cpu)\<rparr>"
proof -
  let ?cp = "prepare_float_op (reg cpu)"
  have i: "in_range SInt64 (sint x)" using x by auto
  obtain n e where n: "data_of Double (fst (c_of_int h Double (host_round ?cp) (sint x)) :: u64) = FFin (sint x < 0) n e"
      "int_part n e = nat \<bar>sint x\<bar>" "\<not> has_frac n e"
    and z: "snd (c_of_int h Double (host_round ?cp) (sint x) :: u64 \<times> _) = {}"
      "\<not> DOUBLE_IS_SBNORM (d_of (fst (c_of_int h Double (host_round ?cp) (sint x))))"
    using of_int_double [OF x] by blast
  let ?x = "d_of (fst (c_of_int h Double (host_round ?cp) (sint x)))"
  let ?g = "add_pc 4 (set_pair (f_reg3 cpu) ?x (reg cpu))"
  let ?c = "cpu\<lparr>reg := ?g, decoded_code := d\<rparr>"
  let ?y = "\<lparr>binary0 = binary1 (d_of x), binary1 = binary0 (d_of x)\<rparr>"
  have one: "op_exec_cvtf_ld_F h cpu = Ret0 (cpu\<lparr>reg := ?g\<rparr>)"
    using r z unfolding op_exec_cvtf_ld_F_def x_def
    by (simp add: fpu_instr_def float_op_def case_prod_beta keep_double not_le Let_def)
  have fr: "f_reg2 ?c = f_reg3 cpu" "f_reg3 ?c = ucast (tf_reg3 (type_f d))"
    using d by (simp_all add: f_reg2_def f_reg3_def)
  have p: "get_pair (f_reg3 cpu) ?g = ?x" by (simp add: get_pair_def set_pair_def)
  have c: "c_cast h Double SInt64 (d_data ?x) = (sint x, {})"
    unfolding d_of_data by (rule cast_back [OF n i])
  have two: "op_exec_cvtf_dl_F h ?c = Ret0 (?c\<lparr>reg := add_pc 4 (set_pair (ucast (tf_reg3 (type_f d))) ?y ?g)\<rparr>)"
    using r d(2) p z(2) c unfolding op_exec_cvtf_dl_F_def Let_def fr
    by (simp add: fpu_instr_def float_op_def case_prod_beta keep_double not_le fr)
  have y: "?y = \<lparr>binary0 = regs (reg cpu) (f_reg2 cpu + 1), binary1 = regs (reg cpu) (f_reg2 cpu)\<rparr>"
    unfolding x_def d_of_data by (simp add: get_pair_def)
  have "get_pair r (add_pc 4 (set_pair r v g)) = v" for r v g by (simp add: get_pair_def set_pair_def)
  then show ?thesis
    by (intro exI [of _ "cpu\<lparr>reg := ?g\<rparr>"]
        exI [of _ "?c\<lparr>reg := add_pc 4 (set_pair (ucast (tf_reg3 (type_f d))) ?y ?g)\<rparr>"])
      (use one two y in simp)
qed

section \<open>Comparison\<close>

text \<open>The order of the standard: by value, with the infinities at the ends.\<close>

fun fp_less :: "fdata \<Rightarrow> fdata \<Rightarrow> bool" where
  "fp_less (FNan _) _ = False"
| "fp_less _ (FNan _) = False"
| "fp_less (FInf s) (FInf t) = (s \<and> \<not> t)"
| "fp_less (FInf s) (FFin _ _ _) = s"
| "fp_less (FFin _ _ _) (FInf t) = (\<not> t)"
| "fp_less a b = (fval a < fval b)"

fun fp_equal :: "fdata \<Rightarrow> fdata \<Rightarrow> bool" where
  "fp_equal (FInf s) (FInf t) = (s = t)"
| "fp_equal (FFin s m e) (FFin t n f) = (fval (FFin s m e) = fval (FFin t n f))"
| "fp_equal _ _ = False"

lemma signed_at_value: "g \<le> e \<Longrightarrow> fval (FFin s m e) = of_int (signed_at g s m e) * 2 powi g"
  using pow_shift [of g e] by (simp add: signed_at_def)

lemma data_less_fp: "data_less a b = fp_less a b" "data_eq a b = fp_equal a b"
proof -
  have l: "data_less (FFin s m e) (FFin t n f) = (fval (FFin s m e) < fval (FFin t n f))"
    "data_eq (FFin s m e) (FFin t n f) = (fval (FFin s m e) = fval (FFin t n f))" for s m e t n f
    using signed_at_value [of "min e f" e s m] signed_at_value [of "min e f" f t n]
    by (simp_all del: fval.simps)
  show "data_less a b = fp_less a b" using l(1) by (cases a; cases b) simp_all
  show "data_eq a b = fp_equal a b" using l(2) by (cases a; cases b) simp_all
qed

text \<open>The condition a comparison computes: bit 2 of \<open>fcond\<close> asks for less, bit 1 for equal, bit 0 for
  unordered.\<close>

definition fp_condition :: "u32 \<Rightarrow> fdata \<Rightarrow> fdata \<Rightarrow> bool" where
  "fp_condition fcond a b \<longleftrightarrow>
     bit fcond 2 \<and> fp_less a b \<or> bit fcond 1 \<and> fp_equal a b \<or>
     bit fcond 0 \<and> ((\<exists>q. a = FNan q) \<or> (\<exists>q. b = FNan q))"

lemma fcbit_range: "unat (f_fcbit cpu) < 8"
proof -
  have "f_fcbit cpu = drop_bit 1 (take_bit 4 (tf_subopcode (type_f (decoded_code cpu))))"
    unfolding f_fcbit_def by (simp add: take_bit_eq_mask mask_eq_exp_minus_1)
  then have "unat (f_fcbit cpu) = drop_bit 1 (take_bit 4 (unat (tf_subopcode (type_f (decoded_code cpu)))))"
    by (simp only: unsigned_drop_bit_eq unsigned_take_bit_eq) (simp add: take_bit_take_bit)
  then show ?thesis by (simp add: take_bit_eq_mod drop_bit_eq_div)
qed

lemma cc_put_isset:
  assumes "unat k < 8"
  shows "cc_isset (cc_put b k v) k = b"
    and "unat k' < 8 \<Longrightarrow> k' \<noteq> k \<Longrightarrow> cc_isset (cc_put b k v) k' = cc_isset v k'"
proof -
  have i: "cc_isset d j = bit d (unat j)" if "unat j < 8" for d j
    using that by (simp add: cc_isset_def and_exp_eq_0_iff_not_bit bit_simps)
  have p: "cc_put b k v = (if b then set_bit (unat k) v else unset_bit (unat k) v)"
    using assms by (intro bit_word_eqI) (auto simp: cc_put_def bit_simps)
  show "cc_isset (cc_put b k v) k = b" unfolding i [OF assms] p using assms by (simp add: bit_simps)
  show "unat k' < 8 \<Longrightarrow> k' \<noteq> k \<Longrightarrow> cc_isset (cc_put b k v) k' = cc_isset v k'"
    unfolding p using i assms by (auto simp add: bit_simps word_unat_eq_iff)
qed

lemma cc_set_get [simp]: "sys_get_fpsr_cc (sys_set_fpsr_cc d g) = d"
proof -
  have "d AND mask 8 = d" by (rule bit_word_eqI) (auto simp: bit_simps dest: bit_imp_le_length)
  then show ?thesis unfolding view_defs field_masks Let_def by (simp add: get_set_data)
qed

lemma xp_set_cc [simp]: "sys_get_fpst_xp (sys_set_fpsr_cc d g) = sys_get_fpst_xp g"
  unfolding view_defs field_masks Let_def by simp

lemma raise_views:
  "sys_get_fpsr_cc (fpu_raise e g) = sys_get_fpsr_cc g"
  "e AND NOT 0x1F = 0 \<Longrightarrow> sys_get_fpst_xp (fpu_raise e g) = sys_get_fpst_xp g OR e"
proof -
  show "sys_get_fpsr_cc (fpu_raise e g) = sys_get_fpsr_cc g"
    unfolding fpu_raise_def sys_set_fpst_xc_def sys_set_fpst_xp_def view_defs field_masks Let_def
    by (simp add: get_set_other)
  have m: "(SYS_GET_DATA (mask 5) v p OR e) AND mask 5 = SYS_GET_DATA (mask 5) v p OR e"
    if "e AND NOT (mask 5) = 0" for v p
    using that by (intro bit_word_eqI) (auto simp: bit_eq_iff bit_get_data bit_simps)
  show "e AND NOT 0x1F = 0 \<Longrightarrow> sys_get_fpst_xp (fpu_raise e g) = sys_get_fpst_xp g OR e"
    unfolding fpu_raise_def sys_set_fpst_xc_def sys_set_fpst_xp_def view_defs field_masks Let_def
    by (simp add: get_set_data get_set_other m)
qed

text \<open>The condition bit that the last part of a comparison leaves.\<close>

lemma result_bits:
  "((if l then 4 else 0) OR (if e then 2 else 0) OR (if u then 1 else 0)) AND (c AND 7) \<noteq> (0 :: u32) \<longleftrightarrow>
   bit c 2 \<and> l \<or> bit c 1 \<and> e \<or> bit c 0 \<and> u"
proof -
  have n: "(4 :: u32) = push_bit 2 1" "(2 :: u32) = push_bit 1 1" "(7 :: u32) = mask 3"
    by (simp_all add: mask_eq_exp_minus_1)
  have "bit (4 :: u32) k \<longleftrightarrow> k = 2" "bit (2 :: u32) k \<longleftrightarrow> k = 1" "bit (7 :: u32) k \<longleftrightarrow> k < 3" for k
    unfolding n bit_push_bit_iff bit_mask_iff by (auto simp: bit_1_iff)
  then have "bit (if l then 4 else 0 :: u32) k \<longleftrightarrow> l \<and> k = 2" "bit (if e then 2 else 0 :: u32) k \<longleftrightarrow> e \<and> k = 1"
    "bit (if u then 1 else 0 :: u32) k \<longleftrightarrow> u \<and> k = 0" "bit (7 :: u32) k \<longleftrightarrow> k < 3" for k
    by (simp_all add: bit_1_iff)
  note d = this
  have "x \<noteq> (0 :: u32) \<longleftrightarrow> (\<exists>k. bit x k)" for x by (metis bit_0_eq bit_eq_iff bot_apply bot_bool_def)
  then show ?thesis by (simp only: bit_or_iff bit_and_iff d) auto
qed

lemma cmpf_condition:
  "cc_isset (sys_get_fpsr_cc (cmpf_result l e u c (f_fcbit cpu) g)) (f_fcbit cpu) \<longleftrightarrow>
     bit c 2 \<and> l \<or> bit c 1 \<and> e \<or> bit c 0 \<and> u"
  "unat k < 8 \<Longrightarrow> k \<noteq> f_fcbit cpu \<Longrightarrow>
     cc_isset (sys_get_fpsr_cc (cmpf_result l e u c (f_fcbit cpu) g)) k = cc_isset (sys_get_fpsr_cc g) k"
  "sys_get_fpst_xp (cmpf_result l e u c b g) = sys_get_fpst_xp g"
  using cc_put_isset [OF fcbit_range]
  by (simp_all only: cmpf_result_def Let_def cc_set_get xp_set_cc result_bits)

lemma views_add_pc [simp]:
  "fp_reg r (add_pc n g) = fp_reg r g" "sys_get_fpsr_cc (add_pc n g) = sys_get_fpsr_cc g"
  "sys_get_fpst_xp (add_pc n g) = sys_get_fpst_xp g"
  by (simp_all add: fp_reg_def cpu_get_sysreg2_def sys_get_fpsr_cc_def sys_get_fpst_xp_def)

lemma views_put_flag [simp]:
  "sys_get_fpsr_cc (put_flag m b g) = sys_get_fpsr_cc g"
  "sys_get_fpst_xp (put_flag m b g) = sys_get_fpst_xp g"
  by (simp_all add: sys_get_fpsr_cc_def sys_get_fpst_xp_def)

lemma cmpf_single:
  assumes "op_exec_cmpf_s_F cpu = Ret0 cpu1"
  defines "a \<equiv> data_of Single (regs (reg cpu) (f_reg2 cpu))" and "b \<equiv> data_of Single (regs (reg cpu) (f_reg1 cpu))"
  shows "cc_isset (sys_get_fpsr_cc (reg cpu1)) (f_fcbit cpu) = fp_condition (f_reg3 cpu) a b"
    and "unat k < 8 \<Longrightarrow> k \<noteq> f_fcbit cpu \<Longrightarrow>
      cc_isset (sys_get_fpsr_cc (reg cpu1)) k = cc_isset (sys_get_fpsr_cc (reg cpu)) k"
    and "sys_get_fpst_xp (reg cpu1) = sys_get_fpst_xp (reg cpu) OR
      (if ((\<exists>q. a = FNan q) \<or> (\<exists>q. b = FNan q)) \<and> bit (f_reg3 cpu) 3 then SYS_FPSR_EXPR_V else 0)"
proof -
  let ?n = "(\<exists>q. a = FNan q) \<or> (\<exists>q. b = FNan q)"
  have n: "FLOAT_IS_NAN (regs (reg cpu) (f_reg1 cpu)) \<or> FLOAT_IS_NAN (regs (reg cpu) (f_reg2 cpu)) \<longleftrightarrow> ?n"
    unfolding a_def b_def class_single(1) by blast
  have e: "f_reg3 cpu AND 0x00000008 \<noteq> 0 \<longleftrightarrow> bit (f_reg3 cpu) 3"
    using and_exp_eq_0_iff_not_bit [of "f_reg3 cpu" 3] by simp
  have r: "fp_less a b \<Longrightarrow> \<not> ?n" "fp_equal a b \<Longrightarrow> \<not> ?n" by (cases a; cases b; simp)+
  have g: "reg cpu1 = add_pc 4
     (if ?n then cmpf_result False False True (f_reg3 cpu) (f_fcbit cpu)
        (if bit (f_reg3 cpu) 3 then fpu_raise SYS_FPSR_EXPR_V (reg cpu) else reg cpu)
      else cmpf_result (fp_less a b) (fp_equal a b) False (f_reg3 cpu) (f_fcbit cpu) (reg cpu))"
    using assms(1) unfolding op_exec_cmpf_s_F_def Let_def fpu_instr_def n e
    by (auto simp: c_less_def c_eq_def data_less_fp a_def b_def split: if_splits)
  note v = cmpf_condition raise_views
  show "cc_isset (sys_get_fpsr_cc (reg cpu1)) (f_fcbit cpu) = fp_condition (f_reg3 cpu) a b"
    unfolding g using r by (simp add: v fp_condition_def) blast
  show "unat k < 8 \<Longrightarrow> k \<noteq> f_fcbit cpu \<Longrightarrow>
      cc_isset (sys_get_fpsr_cc (reg cpu1)) k = cc_isset (sys_get_fpsr_cc (reg cpu)) k"
    unfolding g by (simp add: v)
  show "sys_get_fpst_xp (reg cpu1) = sys_get_fpst_xp (reg cpu) OR
      (if ?n \<and> bit (f_reg3 cpu) 3 then SYS_FPSR_EXPR_V else 0)"
    unfolding g by (auto simp add: v)
qed

text \<open>C17: CMPF.S followed by TRFSR of the same condition bit.  The flag Z is set exactly if one of the
  relations that \<open>fcond\<close> asks for (less, equal, unordered in the sense of IEEE 754) holds between
  register 2 and register 1; the other seven condition bits stay; and the invalid operation is
  recorded exactly if an operand is a NaN and bit 3 of \<open>fcond\<close> is set.
\<close>

lemma cmpf_then_trfsr:
  fixes cpu :: "'b TargetCoreType"
  defines "a \<equiv> data_of Single (regs (reg cpu) (f_reg2 cpu))"
    and "b \<equiv> data_of Single (regs (reg cpu) (f_reg1 cpu))"
  assumes "op_exec_cmpf_s_F cpu = Ret0 cpu1"
    and "f_fcbit (cpu1\<lparr>decoded_code := d\<rparr>) = f_fcbit cpu"
  shows "\<exists>cpu2. op_exec_trfsr_F (cpu1\<lparr>decoded_code := d\<rparr>) = Ret0 cpu2 \<and>
    CPU_ISSET CPU_PSW_Z (reg cpu2) = fp_condition (f_reg3 cpu) a b \<and>
    (\<forall>k. unat k < 8 \<and> k \<noteq> f_fcbit cpu \<longrightarrow>
      cc_isset (sys_get_fpsr_cc (reg cpu2)) k = cc_isset (sys_get_fpsr_cc (reg cpu)) k) \<and>
    sys_get_fpst_xp (reg cpu2) = sys_get_fpst_xp (reg cpu) OR
      (if ((\<exists>q. a = FNan q) \<or> (\<exists>q. b = FNan q)) \<and> bit (f_reg3 cpu) 3 then SYS_FPSR_EXPR_V else 0)"
  unfolding op_exec_trfsr_F_def fpu_instr_def
  by (simp add: assms(4) cmpf_single [OF assms(3)] a_def b_def)

text \<open>C18: The comparison of double precision numbers takes no operand for a NaN, since the mask of the
  exponent misses a bit: the unordered relation is never reported, not even for NaN operands, and
  the invalid operation is never recorded.\<close>

lemma double_comparison_ignores_nan:
  fixes cpu :: "'b TargetCoreType"
  defines "a \<equiv> data_of Double (d_data (get_pair (f_reg2 cpu) (reg cpu)))"
    and "b \<equiv> data_of Double (d_data (get_pair (f_reg1 cpu) (reg cpu)))"
  assumes "op_exec_cmpf_d_F cpu = Ret0 cpu'"
  shows "(cc_isset (sys_get_fpsr_cc (reg cpu')) (f_fcbit cpu) \<longleftrightarrow>
      bit (f_reg3 cpu) 2 \<and> fp_less a b \<or> bit (f_reg3 cpu) 1 \<and> fp_equal a b) \<and>
    sys_get_fpst_xp (reg cpu') = sys_get_fpst_xp (reg cpu)"
proof -
  have "reg cpu' = add_pc 4
      (cmpf_result (fp_less a b) (fp_equal a b) False (f_reg3 cpu) (f_fcbit cpu) (reg cpu))"
    using assms(3) unfolding op_exec_cmpf_d_F_def Let_def fpu_instr_def
    by (simp add: c_less_def c_eq_def data_less_fp a_def b_def split: if_splits) (auto simp flip: a_def b_def)
  then show ?thesis by (simp add: cmpf_condition)
qed

section \<open>The unit in the step\<close>

text \<open>C14: Whatever executor the step finds in the table for a number that is not one of the integer
  instructions, it keeps FPSR in agreement with its views FPST and FPCC, takes back no preservation
  bit and leaves the rounding mode.\<close>

lemma fpu_views_agree:
  assumes "op_exec_table B (fpu_exec h) c = Some f" and "c \<notin> fst ` set (op_exec_rows B)"
    and "c < OpCodeId_Num" and "f cpu = Ret0 cpu'" and "fpu_coherent (reg cpu)"
  shows "fpu_coherent (reg cpu') \<and>
    sys_get_fpst_xp (reg cpu) AND NOT (sys_get_fpst_xp (reg cpu')) = 0 \<and>
    sys_get_fpsr_rm (reg cpu') = sys_get_fpsr_rm (reg cpu)"
  using fpu.views [OF fpu_exec_row [OF assms(1-3)] assms(4)] assms(5) by blast


section \<open>Witnesses\<close>

lemma single_correctly_rounded_witness:
  "\<exists>cpu'. op_exec_addf_s_F sample_host
      (sample_core (fpu_code 2 3 4 0) (\<lambda>i. if i = 2 then 0x3F800000 else 0x33800001) 0 ()) = Ret0 cpu' \<and>
    rounded (regs (reg cpu') 4)
      (fval (data_of Single (0x3F800000 :: u32)) + fval (data_of Single (0x33800001 :: u32)))"
proof -
  let ?cpu = "sample_core (fpu_code 2 3 4 0) (\<lambda>i. if i = 2 then 0x3F800000 else 0x33800001) 0 ()"
  obtain cpu' where c: "op_exec_addf_s_F sample_host ?cpu = Ret0 cpu'"
    unfolding op_exec_addf_s_F_def by (simp add: fpu_instr_def Let_def)
  have n: "\<not> FLOAT_IS_SBNORM 0x3F800000" "\<not> FLOAT_IS_SBNORM 0x33800001" "\<not> FLOAT_IS_SBNORM 0x3F800001"
    by code_simp+
  have o: "operand1 ?cpu = 0x3F800000" "operand2 ?cpu = 0x33800001"
    using n by (simp_all add: operand1_def operand2_def set_subnormal_operand_def)
  have a: "fst (c_add sample_host Single FE_TONEAREST 0x3F800000 (0x33800001 :: u32)) = 0x3F800001"
    by code_simp
  have "regs (reg cpu') (f_reg3 ?cpu) = 0x3F800001"
    using single_result(1) [OF c] n by (simp add: o host_round_cases flush_result a)
  then have v: "regs (reg cpu') 4 = 0x3F800001" by simp
  have f: "is_finite (data_of Single (0x3F800000 :: u32))" "is_finite (data_of Single (0x33800001 :: u32))"
    "is_finite (data_of Single (0x3F800001 :: u32))"
    by (simp_all add: data_of_def unpack_def Let_def)
  show ?thesis
    using single_correctly_rounded [of "op_exec_addf_s_F sample_host" "\<lambda>x y. x + y" sample_host ?cpu cpu'] c f v o
    by (simp add: single_arithmetic_def)
qed

lemma int_double_roundtrip_witness:
  "\<exists>cpu1 cpu2 :: unit TargetCoreType.
     op_exec_cvtf_wd_F sample_host (sample_core (fpu_code 0 2 4 0) (\<lambda>i. 0xFFFFFFF9) 0 ()) = Ret0 cpu1 \<and>
     op_exec_trncf_dw_F sample_host (cpu1\<lparr>decoded_code := fpu_code 0 4 6 0\<rparr>) = Ret0 cpu2 \<and>
     regs (reg cpu2) 6 = 0xFFFFFFF9"
  using int_double_roundtrip [of "op_exec_trncf_dw_F sample_host" sample_host
      "sample_core (fpu_code 0 2 4 0) (\<lambda>i. 0xFFFFFFF9) 0 ()" "fpu_code 0 4 6 0"]
  by auto

lemma long_conversion_swaps_words_witness:
  "\<exists>cpu1 cpu2 :: unit TargetCoreType.
     op_exec_cvtf_ld_F sample_host (sample_core (fpu_code 0 2 4 0) (\<lambda>i. if i = 3 then 1 else 7) 0 ()) = Ret0 cpu1 \<and>
     op_exec_cvtf_dl_F sample_host (cpu1\<lparr>decoded_code := fpu_code 0 4 6 0\<rparr>) = Ret0 cpu2 \<and>
     get_pair 6 (reg cpu2) = \<lparr>binary0 = 1, binary1 = 7\<rparr>"
  using long_conversion_swaps_words [of
      "sample_core (fpu_code 0 2 4 0) (\<lambda>i. if i = 3 then 1 else 7) 0 ()" "fpu_code 0 4 6 0" sample_host]
  by (auto simp: get_pair_def d_data_def)

lemma cmpf_then_trfsr_witness:
  "\<exists>cpu1 cpu2. op_exec_cmpf_s_F
      (sample_core (fpu_code 2 3 4 4) (\<lambda>i. if i = 2 then 0x40000000 else 0xBF800000) 0 ()) = Ret0 cpu1 \<and>
    op_exec_trfsr_F (cpu1\<lparr>decoded_code := fpu_code 0 0 0 4\<rparr>) = Ret0 cpu2 \<and>
    CPU_ISSET CPU_PSW_Z (reg cpu2) \<and> sys_get_fpst_xp (reg cpu2) = 0"
proof -
  let ?cpu = "sample_core (fpu_code 2 3 4 4) (\<lambda>i. if i = 2 then 0x40000000 else 0xBF800000) 0 ()"
  obtain cpu1 where c: "op_exec_cmpf_s_F ?cpu = Ret0 cpu1"
    unfolding op_exec_cmpf_s_F_def by (simp add: fpu_instr_def Let_def)
  let ?a = "data_of Single (0xBF800000 :: u32)" and ?b = "data_of Single (0x40000000 :: u32)"
  have d: "?b = FFin False (2 ^ 23) (- 22)" "?a = FFin True (2 ^ 23) (- 23)"
    by (simp_all add: data_of_def unpack_def Let_def)
  have "bit (4 :: u32) 2" by (simp add: bit_iff_odd)
  moreover have "- ((2 ^ 23) * (2 :: real) powi (- 23)) < 2 ^ 23 * 2 powi (- 22)"
    by (rule order.strict_trans [of _ 0]) simp_all
  ultimately have t: "fp_condition 4 ?a ?b" by (simp add: fp_condition_def d)
  have n: "\<And>q. ?a \<noteq> FNan q" "\<And>q. ?b \<noteq> FNan q" by (simp_all add: d)
  obtain cpu2 where "op_exec_trfsr_F (cpu1\<lparr>decoded_code := fpu_code 0 0 0 4\<rparr>) = Ret0 cpu2"
    "CPU_ISSET CPU_PSW_Z (reg cpu2) = fp_condition 4 ?a ?b" "sys_get_fpst_xp (reg cpu2) = sys_get_fpst_xp (reg ?cpu)"
    using cmpf_then_trfsr [OF c, of "fpu_code 0 0 0 4"] n by auto
  then show ?thesis using c t by (simp add: sys_get_fpst_xp_def SYS_GET_DATA_def)
qed

lemma double_comparison_ignores_nan_witness:
  "\<exists>cpu'. op_exec_cmpf_d_F
      (sample_core (fpu_code 2 4 9 4) (\<lambda>i. if i = 3 then 0x7FF80000 else 0) 0 ()) = Ret0 cpu' \<and>
    data_of Double (d_data (get_pair 2 (reg cpu'))) = FNan False \<and>
    \<not> cc_isset (sys_get_fpsr_cc (reg cpu')) 2 \<and> sys_get_fpst_xp (reg cpu') = 0"
proof -
  let ?cpu = "sample_core (fpu_code 2 4 9 4) (\<lambda>i. if i = 3 then 0x7FF80000 else 0) 0 ()"
  obtain cpu' where c: "op_exec_cmpf_d_F ?cpu = Ret0 cpu'" and r: "regs (reg cpu') = regs (reg ?cpu)"
    unfolding op_exec_cmpf_d_F_def by (simp add: fpu_instr_def Let_def cmpf_result_def sys_set_fpsr_cc_def)
  have b: "\<not> bit (9 :: u32) 2" "\<not> bit (9 :: u32) 1" by (simp_all add: bit_iff_odd)
  have "data_of Double (d_data (get_pair 2 (reg cpu'))) = FNan False"
    by (simp add: r get_pair_def d_data_def data_of_def unpack_def Let_def)
  then show ?thesis
    using double_comparison_ignores_nan [OF c] c b by (auto simp: sys_get_fpst_xp_def SYS_GET_DATA_def)
qed

lemma fpu_views_agree_witness:
  "op_exec_table flat_bus (fpu_exec sample_host) OpCodeId_NEGF_S_F = Some op_exec_negf_s_F \<and>
   (\<exists>cpu'. op_exec_negf_s_F (sample_core (fpu_code 0 3 4 0) (\<lambda>_. 0) 0 (\<lambda>_ :: u32. 0 :: u8)) = Ret0 cpu' \<and>
      fpu_coherent (reg cpu'))"
proof -
  let ?cpu = "sample_core (fpu_code 0 3 4 0) (\<lambda>_. 0) 0 (\<lambda>_. 0) :: memory TargetCoreType"
  have n: "OpCodeId_NEGF_S_F \<notin> fst ` set (op_exec_rows flat_bus)" by (simp add: op_exec_rows_def)
  have u: "OpCodeId_NEGF_S_F \<notin> set op_exec_null" by (simp add: op_exec_null_def)
  have m: "map_of (op_exec_rows flat_bus) OpCodeId_NEGF_S_F = None" using n by (simp add: map_of_eq_None_iff)
  have t: "op_exec_table flat_bus (fpu_exec sample_host) OpCodeId_NEGF_S_F = Some op_exec_negf_s_F"
    unfolding op_exec_table_def using u m by (simp add: fpu_exec_def fpu_rows_def)
  obtain cpu' where c: "op_exec_negf_s_F ?cpu = Ret0 cpu'"
    unfolding op_exec_negf_s_F_def by (simp add: fpu_instr_def Let_def)
  have "fpu_coherent (reg ?cpu)"
    by (simp add: fpu_coherent_def sys_get_fpst_xc_def sys_get_fpst_xp_def sys_get_fpsr_cc_def
        sys_get_fpcc_cc_def SYS_GET_DATA_def)
  then show ?thesis using fpu_views_agree [OF t n _ c] t c by simp
qed


end
