(* ===== verification/Can_Hako.thy ===== *)
theory Can_Hako
  imports Can_Ros
begin

text \<open>
  The Hakoniwa implementation of the CAN bus, canbus/can_bus_impl_hako.c: polling the subscribed
  channels into the receive ring of a CAN channel, and writing a frame to the channel of its topic.
  The library is a parameter, with a state of its own that also holds what other assets have
  written; the names of the asset and the robot are fixed for a process and belong to the
  operations.  A message is its fields as the code assigns and reads them.  Parsing the device
  configuration is not modelled; its result is the topic tables.  The ring is declared like the one
  of the ROS implementation.
\<close>

record HakoCan =
  hc_channel :: u32
  hc_ide :: bool
  hc_rtr :: bool
  hc_dlc :: u8
  hc_canid :: u32
  hc_data :: "u8 list"

text \<open>\<open>read_pdu\<close> is \<open>None\<close> for a return value other than zero, \<open>write_pdu\<close> only has its effect.\<close>

record 'p hako_ops =
  is_pdu_created :: "'p \<Rightarrow> bool"
  is_simulation_mode :: "'p \<Rightarrow> bool"
  is_pdu_sync_mode :: "'p \<Rightarrow> bool"
  is_pdu_dirty :: "int \<Rightarrow> 'p \<Rightarrow> bool"
  read_pdu :: "int \<Rightarrow> 'p \<Rightarrow> HakoCan option \<times> 'p"
  write_pdu :: "int \<Rightarrow> HakoCan \<Rightarrow> 'p \<Rightarrow> 'p"
  notify_read_pdu_done :: "'p \<Rightarrow> 'p"
  notify_write_pdu_done :: "'p \<Rightarrow> 'p"

record CanBusHakoTopicType =
  ht_pdu_channel :: int
  ht_cid :: u32
  ht_ide :: u32
  ht_rtr :: u32
  ht_dlc :: u32
  ht_canid :: u32

record 'p HakoBusState =
  hk_queue_max :: u32
  can_bus_hako_rx_buffer :: "nat \<Rightarrow> CanBusRosRxBufferType"
  can_bus_hako_pub_topic :: "CanBusHakoTopicType list"
  can_bus_hako_sub_topic :: "CanBusHakoTopicType list"
  hako_asset :: 'p

section \<open>The receive ring\<close>

definition can_bus_hako_rx_is_arrived :: "nat \<Rightarrow> 'p HakoBusState \<Rightarrow> bool" where
  "can_bus_hako_rx_is_arrived cid X = (rr_count (can_bus_hako_rx_buffer X cid) > 0)"

definition can_bus_hako_rx_buffer_put :: "nat \<Rightarrow> CanDataType \<Rightarrow> 'p HakoBusState \<Rightarrow> bool \<times> 'p HakoBusState"
  where
  "can_bus_hako_rx_buffer_put cid d X =
     (let (ok, r) = ros_put (hk_queue_max X) d (can_bus_hako_rx_buffer X cid) in
      (ok, X\<lparr>can_bus_hako_rx_buffer := (can_bus_hako_rx_buffer X)(cid := r)\<rparr>))"

definition can_bus_hako_rx_buffer_get :: "nat \<Rightarrow> 'p HakoBusState \<Rightarrow> CanDataType option \<times> 'p HakoBusState"
  where
  "can_bus_hako_rx_buffer_get cid X =
     (let (d, r) = ros_get (hk_queue_max X) (can_bus_hako_rx_buffer X cid) in
      (d, X\<lparr>can_bus_hako_rx_buffer := (can_bus_hako_rx_buffer X)(cid := r)\<rparr>))"

section \<open>Reception\<close>

text \<open>The local variable of the loop: the fields not assigned keep what it held, \<open>junk\<close>.\<close>

definition hako_data :: "CanDataType \<Rightarrow> HakoCan \<Rightarrow> CanDataType" where
  "hako_data junk m = junk\<lparr>d_rtr := hc_rtr m, d_ide := hc_ide m, d_dlc := hc_dlc m, d_id := hc_canid m,
     d_data := take 8 (hc_data m)\<rparr>"

definition hako_poll_one ::
    "'p hako_ops \<Rightarrow> CanDataType \<Rightarrow> nat \<Rightarrow> CanBusHakoTopicType \<Rightarrow> 'p HakoBusState \<Rightarrow> 'p HakoBusState" where
  "hako_poll_one H junk cid t X =
     (if ht_cid t \<noteq> of_nat cid then X
      else if \<not> is_pdu_dirty H (ht_pdu_channel t) (hako_asset X) then X
      else let (m, p) = read_pdu H (ht_pdu_channel t) (hako_asset X);
               X = X\<lparr>hako_asset := p\<rparr>
           in case m of
                None \<Rightarrow> X
              | Some can_msg \<Rightarrow> snd (can_bus_hako_rx_buffer_put cid (hako_data junk can_msg) X))"

definition can_bus_operation_impl_hako_rx_is_arrived ::
    "'p hako_ops \<Rightarrow> CanDataType \<Rightarrow> nat \<Rightarrow> 'p HakoBusState \<Rightarrow> bool \<times> 'p HakoBusState" where
  "can_bus_operation_impl_hako_rx_is_arrived H junk cid X =
     (let X =
        (if is_pdu_created H (hako_asset X) \<and> is_simulation_mode H (hako_asset X) then
           let X = fold (hako_poll_one H junk cid) (can_bus_hako_sub_topic X) X
           in X\<lparr>hako_asset := notify_read_pdu_done H (hako_asset X)\<rparr>
         else if is_pdu_sync_mode H (hako_asset X) then
           X\<lparr>hako_asset := notify_write_pdu_done H (hako_asset X)\<rparr>
         else X)
      in (can_bus_hako_rx_is_arrived cid X, X))"

section \<open>Transmission\<close>

definition hako_topic_matches :: "u32 \<Rightarrow> CanDataType \<Rightarrow> CanBusHakoTopicType \<Rightarrow> bool" where
  "hako_topic_matches cid d t \<longleftrightarrow> ht_cid t = cid \<and> ht_ide t = of_bool (d_ide d) \<and>
     ht_rtr t = of_bool (d_rtr d) \<and> ht_dlc t = ucast (d_dlc d) \<and> ht_canid t = d_id d"

definition can_bus_operation_impl_hako_tx_start_send ::
    "'p hako_ops \<Rightarrow> nat \<Rightarrow> CanDataType \<Rightarrow> 'p HakoBusState \<Rightarrow> can_err \<times> 'p HakoBusState" where
  "can_bus_operation_impl_hako_tx_start_send H cid d X =
     (case first_index (hako_topic_matches (of_nat cid) d) (can_bus_hako_pub_topic X) of
        None \<Rightarrow> (E_NOENT, X)
      | Some i \<Rightarrow>
          if is_simulation_mode H (hako_asset X) \<or> is_pdu_sync_mode H (hako_asset X) then
            let can_msg = \<lparr>hc_channel = of_nat cid, hc_ide = d_ide d, hc_rtr = d_rtr d, hc_dlc = d_dlc d,
                  hc_canid = d_id d, hc_data = take 8 (d_data d)\<rparr>;
                p = write_pdu H (ht_pdu_channel (can_bus_hako_pub_topic X ! i)) can_msg (hako_asset X)
            in (E_OK, X\<lparr>hako_asset := notify_write_pdu_done H p\<rparr>)
          else (E_OK, X))"

definition can_bus_operation_impl_hako_tx_is_done :: "nat \<Rightarrow> 'p HakoBusState \<Rightarrow> bool" where
  "can_bus_operation_impl_hako_tx_is_done cid X = True"

definition can_bus_operation_impl_hako ::
    "'p hako_ops \<Rightarrow> CanDataType \<Rightarrow> 'p HakoBusState CanBusOperationType" where
  "can_bus_operation_impl_hako H junk = \<lparr>
     rx_is_arrived = can_bus_operation_impl_hako_rx_is_arrived H junk,
     rx_receive = (\<lambda>cid X. let (d, X1) = can_bus_hako_rx_buffer_get cid X in
       (case d of Some m \<Rightarrow> m | None \<Rightarrow> junk, X1)),
     tx_start_send = can_bus_operation_impl_hako_tx_start_send H,
     tx_is_done = can_bus_operation_impl_hako_tx_is_done\<rparr>"

end
