(* ===== verification/Can_Bus_Props.thy ===== *)
theory Can_Bus_Props
  imports Can_Queues Can_Hako
begin

text \<open>
  What a poll of the Hakoniwa bus does to the frames that wait for the controller.
\<close>

text \<open>The messages the poll of a channel reads, in the order of the topics.\<close>

fun hako_arrivals :: "'p hako_ops \<Rightarrow> nat \<Rightarrow> CanBusHakoTopicType list \<Rightarrow> 'p \<Rightarrow> HakoCan list \<times> 'p" where
  "hako_arrivals H cid [] p = ([], p)"
| "hako_arrivals H cid (t # ts) p =
     (if ht_cid t \<noteq> of_nat cid \<or> \<not> is_pdu_dirty H (ht_pdu_channel t) p then hako_arrivals H cid ts p
      else let (m, p1) = read_pdu H (ht_pdu_channel t) p;
               (ms, p2) = hako_arrivals H cid ts p1
           in (case m of None \<Rightarrow> ms | Some x \<Rightarrow> x # ms, p2))"

text \<open>The frames that wait for a channel, oldest first.\<close>

definition hako_list :: "nat \<Rightarrow> 'p HakoBusState \<Rightarrow> CanDataType list" where
  "hako_list cid X = ring_list (\<lambda>b i. b i) (hk_queue_max X)
     (rr_bufferp (can_bus_hako_rx_buffer X cid)) (rr_control (can_bus_hako_rx_buffer X cid))"

definition hako_ok :: "nat \<Rightarrow> 'p HakoBusState \<Rightarrow> bool" where
  "hako_ok cid X \<longleftrightarrow> ring_ok (hk_queue_max X) (rr_control (can_bus_hako_rx_buffer X cid))"

lemma hako_length: "hako_ok cid X \<Longrightarrow> length (hako_list cid X) \<le> unat (hk_queue_max X)"
  by (simp add: hako_ok_def hako_list_def ring_list_def ring_ok_def word_le_nat_alt)

lemma hako_waiting: "can_bus_hako_rx_is_arrived cid X \<longleftrightarrow> hako_list cid X \<noteq> []"
  by (simp add: can_bus_hako_rx_is_arrived_def hako_list_def ring_list_def rr_control_def word_gt_0)
    (simp add: unat_gt_0)

lemma hako_put:
  assumes "hako_ok cid X" and "can_bus_hako_rx_buffer_put cid d X = (ok, Y)"
  shows "hako_list cid Y = take (unat (hk_queue_max X)) (hako_list cid X @ [d])" and "hako_ok cid Y"
    and "hako_asset Y = hako_asset X" and "hk_queue_max Y = hk_queue_max X"
    and "can_bus_hako_sub_topic Y = can_bus_hako_sub_topic X"
    and "c \<noteq> cid \<Longrightarrow> can_bus_hako_rx_buffer Y c = can_bus_hako_rx_buffer X c"
proof -
  obtain r where r: "ros_put (hk_queue_max X) d (can_bus_hako_rx_buffer X cid) = (ok, r)"
    and y: "Y = X\<lparr>can_bus_hako_rx_buffer := (can_bus_hako_rx_buffer X)(cid := r)\<rparr>"
    using assms(2) by (auto simp: can_bus_hako_rx_buffer_put_def split: prod.splits)
  note p = ros_put [OF assms(1) [unfolded hako_ok_def] r]
  show "hako_list cid Y = take (unat (hk_queue_max X)) (hako_list cid X @ [d])"
    using p hako_length [OF assms(1)] by (auto simp: y hako_list_def split: if_splits)
  show "hako_ok cid Y" "hako_asset Y = hako_asset X" "hk_queue_max Y = hk_queue_max X"
    "can_bus_hako_sub_topic Y = can_bus_hako_sub_topic X"
    "c \<noteq> cid \<Longrightarrow> can_bus_hako_rx_buffer Y c = can_bus_hako_rx_buffer X c"
    using p by (simp_all add: y hako_ok_def)
qed

lemma take_take_append: "take n (take n us @ zs) = take n (us @ zs)"
  by (cases "length us \<le> n") simp_all

lemma hako_poll_topics:
  fixes junk :: CanDataType
  assumes "hako_ok cid X" and "hako_arrivals H cid ts (hako_asset X) = (ms, p)"
  defines "Y \<equiv> fold (hako_poll_one H junk cid) ts X"
  shows "hako_list cid Y = take (unat (hk_queue_max X)) (hako_list cid X @ map (hako_data junk) ms) \<and>
    hako_ok cid Y \<and> hako_asset Y = p \<and> hk_queue_max Y = hk_queue_max X \<and>
    (\<forall>c. c \<noteq> cid \<longrightarrow> can_bus_hako_rx_buffer Y c = can_bus_hako_rx_buffer X c)"
  using assms(1,2) unfolding Y_def
proof (induction ts arbitrary: X ms)
  case Nil
  then show ?case using hako_length [of cid X] by simp
next
  case (Cons t ts)
  show ?case
  proof (cases "ht_cid t \<noteq> of_nat cid \<or> \<not> is_pdu_dirty H (ht_pdu_channel t) (hako_asset X)")
    case True
    then have "hako_poll_one H junk cid t X = X" "hako_arrivals H cid ts (hako_asset X) = (ms, p)"
      using Cons.prems(2) by (auto simp: hako_poll_one_def)
    then show ?thesis using Cons.IH [OF Cons.prems(1)] by simp
  next
    case False
    obtain m p1 where m: "read_pdu H (ht_pdu_channel t) (hako_asset X) = (m, p1)" by fastforce
    obtain ks where k: "hako_arrivals H cid ts p1 = (ks, p)" "ms = (case m of None \<Rightarrow> ks | Some x \<Rightarrow> x # ks)"
      using Cons.prems(2) False m by (auto split: prod.splits)
    let ?X = "X\<lparr>hako_asset := p1\<rparr>"
    have x: "hako_ok cid ?X" "hako_list cid ?X = hako_list cid X"
      using Cons.prems(1) by (simp_all add: hako_ok_def hako_list_def)
    show ?thesis
    proof (cases m)
      case None
      have "hako_poll_one H junk cid t X = ?X" using False m None by (simp add: hako_poll_one_def)
      then show ?thesis using Cons.IH [OF x(1), of ks] k None x(2) by simp
    next
      case (Some a)
      obtain ok Y where y: "can_bus_hako_rx_buffer_put cid (hako_data junk a) ?X = (ok, Y)" by fastforce
      note q = hako_put [OF x(1) y]
      have "hako_poll_one H junk cid t X = Y" using False m Some y by (simp add: hako_poll_one_def)
      then show ?thesis
        using Cons.IH [OF q(2), of ks] k Some q by (simp add: x(2) take_take_append del: take_append)
    qed
  qed
qed

text \<open>C20: A poll of the Hakoniwa bus appends to the frames that wait for the channel the messages that
  have arrived on its topics, in the order of the topics, as far as the ring has room; what does not
  fit is lost, although it has been read.  It reports a frame exactly if one waits, acknowledges the
  reading, and leaves the rings of the other channels.  The controller then takes the oldest frame.\<close>

lemma hako_poll_appends:
  assumes "hako_ok cid X" and "is_pdu_created H (hako_asset X)" and "is_simulation_mode H (hako_asset X)"
    and "hako_arrivals H cid (can_bus_hako_sub_topic X) (hako_asset X) = (ms, p)"
  shows "\<exists>Y. rx_is_arrived (can_bus_operation_impl_hako H junk) cid X = (hako_list cid Y \<noteq> [], Y) \<and>
    hako_list cid Y = take (unat (hk_queue_max X)) (hako_list cid X @ map (hako_data junk) ms) \<and>
    hako_asset Y = notify_read_pdu_done H p \<and>
    (\<forall>c. c \<noteq> cid \<longrightarrow> hako_list c Y = hako_list c X) \<and>
    (hako_list cid Y \<noteq> [] \<longrightarrow>
      (\<exists>Z. rx_receive (can_bus_operation_impl_hako H junk) cid Y = (hd (hako_list cid Y), Z) \<and>
        hako_list cid Z = tl (hako_list cid Y) \<and> hako_ok cid Z))"
proof -
  define W where "W = fold (hako_poll_one H junk cid) (can_bus_hako_sub_topic X) X"
  define Y where "Y = W\<lparr>hako_asset := notify_read_pdu_done H p\<rparr>"
  note w = hako_poll_topics [OF assms(1,4), of junk, folded W_def]
  have y: "hako_list c Y = hako_list c W" "hako_ok c Y = hako_ok c W" for c
    by (simp_all add: Y_def hako_list_def hako_ok_def)
  have a: "rx_is_arrived (can_bus_operation_impl_hako H junk) cid X = (hako_list cid Y \<noteq> [], Y)"
    using assms(2,3) w by (simp add: can_bus_operation_impl_hako_def
        can_bus_operation_impl_hako_rx_is_arrived_def hako_waiting Y_def W_def Let_def)
  have r: "\<exists>Z. rx_receive (can_bus_operation_impl_hako H junk) cid Y = (hd (hako_list cid Y), Z) \<and>
      hako_list cid Z = tl (hako_list cid Y) \<and> hako_ok cid Z" if n: "hako_list cid Y \<noteq> []"
  proof -
    obtain d b where g: "ros_get (hk_queue_max Y) (can_bus_hako_rx_buffer Y cid) = (d, b)" by fastforce
    have k: "hako_ok cid Y" using w y by simp
    note q = ros_get [OF k [unfolded hako_ok_def] g]
    obtain x xs where l: "hako_list cid Y = x # xs" using n by (cases "hako_list cid Y") auto
    then have d: "d = Some x" "ring_list (\<lambda>b i. b i) (hk_queue_max Y) (rr_bufferp b) (rr_control b) = xs"
      using q by (simp_all add: hako_list_def split: if_splits)
    show ?thesis
      by (rule exI [of _ "Y\<lparr>can_bus_hako_rx_buffer := (can_bus_hako_rx_buffer Y)(cid := b)\<rparr>"])
        (use g d q l in \<open>simp add: can_bus_operation_impl_hako_def can_bus_hako_rx_buffer_get_def
          hako_ok_def hako_list_def\<close>)
  qed
  have o: "\<forall>c. c \<noteq> cid \<longrightarrow> hako_list c Y = hako_list c X"
    using w unfolding y by (simp add: hako_list_def)
  show ?thesis
    by (rule exI [of _ Y]) (use a r o w y in \<open>auto simp: Y_def\<close>)
qed

text \<open>An asset with one message on channel 5, for frames of channel 0, and a ring of two frames.\<close>

definition sample_asset :: "HakoCan \<Rightarrow> bool hako_ops" where
  "sample_asset m = \<lparr>is_pdu_created = (\<lambda>_. True), is_simulation_mode = (\<lambda>_. True),
     is_pdu_sync_mode = (\<lambda>_. False), is_pdu_dirty = (\<lambda>c p. c = 5 \<and> p),
     read_pdu = (\<lambda>_ _. (Some m, False)), write_pdu = (\<lambda>_ _ p. p),
     notify_read_pdu_done = (\<lambda>p. p), notify_write_pdu_done = (\<lambda>p. p)\<rparr>"

definition sample_hako :: "CanDataType \<Rightarrow> bool HakoBusState" where
  "sample_hako d = \<lparr>hk_queue_max = 2,
     can_bus_hako_rx_buffer = (\<lambda>_. \<lparr>rr_count = 0, rr_roff = 0, rr_woff = 0, rr_bufferp = (\<lambda>_. d)\<rparr>),
     can_bus_hako_pub_topic = [],
     can_bus_hako_sub_topic =
       [\<lparr>ht_pdu_channel = 5, ht_cid = 0, ht_ide = 0, ht_rtr = 0, ht_dlc = 8, ht_canid = 256\<rparr>],
     hako_asset = True\<rparr>"

definition sample_frame :: CanDataType where
  "sample_frame = \<lparr>d_ide = False, d_rtr = False, d_dlc = 0, d_label = 0, d_id = 0, d_data = []\<rparr>"

definition sample_message :: HakoCan where
  "sample_message = \<lparr>hc_channel = 0, hc_ide = False, hc_rtr = False, hc_dlc = 8, hc_canid = 256,
     hc_data = [1, 2, 3, 4, 5, 6, 7, 8]\<rparr>"

lemma hako_poll_appends_witness:
  "\<exists>Y Z. rx_is_arrived (can_bus_operation_impl_hako (sample_asset sample_message) sample_frame) 0 (sample_hako sample_frame) = (True, Y) \<and>
    hako_list 0 Y = [hako_data sample_frame sample_message] \<and>
    rx_receive (can_bus_operation_impl_hako (sample_asset sample_message) sample_frame) 0 Y = (hako_data sample_frame sample_message, Z) \<and> hako_list 0 Z = []"
proof -
  have "hako_ok 0 (sample_hako sample_frame)" "hako_list 0 (sample_hako sample_frame) = []"
    by (simp_all add: hako_ok_def hako_list_def sample_hako_def rr_control_def ring_ok_def ring_list_def)
  moreover have "hako_arrivals (sample_asset sample_message) 0 (can_bus_hako_sub_topic (sample_hako sample_frame))
      (hako_asset (sample_hako sample_frame)) = ([sample_message], False)"
    by (simp add: sample_hako_def sample_asset_def)
  ultimately obtain Y where y: "rx_is_arrived (can_bus_operation_impl_hako (sample_asset sample_message) sample_frame) 0 (sample_hako sample_frame) =
      (hako_list 0 Y \<noteq> [], Y)" "hako_list 0 Y = take (unat (hk_queue_max (sample_hako sample_frame))) [hako_data sample_frame sample_message]"
    "hako_list 0 Y \<noteq> [] \<longrightarrow> (\<exists>Z. rx_receive (can_bus_operation_impl_hako (sample_asset sample_message) sample_frame) 0 Y =
      (hd (hako_list 0 Y), Z) \<and> hako_list 0 Z = tl (hako_list 0 Y) \<and> hako_ok 0 Z)"
    using hako_poll_appends [of 0 "sample_hako sample_frame" "sample_asset sample_message" "[sample_message]" False sample_frame]
    by (auto simp: sample_asset_def sample_hako_def)
  have "hako_list 0 Y = [hako_data sample_frame sample_message]" using y(2) by (simp add: sample_hako_def)
  then show ?thesis using y by auto
qed

end
