(* ===== verification/Cpu_Region.thy ===== *)
theory Cpu_Region
  imports Intc Cpu_Step
begin

text \<open>
  The memory mapped registers of the cores, \<^verbatim>\<open>cpu_register_operation\<close> of
  \<^verbatim>\<open>config/cpu_config.c\<close>: the general registers of the current core, the number of the core
  (PEID), the words all cores share (MEV) and the registers that interrupt the other core (MIR);
  and \<^verbatim>\<open>cpu_init\<close>.

  The bytes behind the region, \<^verbatim>\<open>region->data\<close>, are a list; an access past its end is
  undefined behaviour and the result is \<open>None\<close>.
\<close>

abbreviation (input) CPU_CONFIG_DEBUG_REGISTER_ADDR :: u32 where "CPU_CONFIG_DEBUG_REGISTER_ADDR \<equiv> 0x06FF0000"
abbreviation (input) CPU_CONFIG_ADDR_PEID :: u32 where "CPU_CONFIG_ADDR_PEID \<equiv> 0x06FF6490"
abbreviation (input) CPU_CONFIG_ADDR_MIR_0 :: u32 where "CPU_CONFIG_ADDR_MIR_0 \<equiv> 0x06FF6800"
abbreviation (input) CPU_CONFIG_ADDR_MIR_1 :: u32 where "CPU_CONFIG_ADDR_MIR_1 \<equiv> 0x06FF6804"
abbreviation (input) CPU_CONFIG_ADDR_MEV_0 :: u32 where "CPU_CONFIG_ADDR_MEV_0 \<equiv> 0x06FF6900"
abbreviation (input) CPU_CONFIG_ADDR_MEV_7 :: u32 where "CPU_CONFIG_ADDR_MEV_7 \<equiv> 0x06FF691C"
abbreviation (input) CPU_CONFIG_ADDR_MIR_0_INTNO :: u32 where "CPU_CONFIG_ADDR_MIR_0_INTNO \<equiv> 0"
abbreviation (input) CPU_CONFIG_ADDR_MIR_1_INTNO :: u32 where "CPU_CONFIG_ADDR_MIR_1_INTNO \<equiv> 1"

section \<open>State\<close>

text \<open>The machine of the interrupt controller, the current core and the bytes of the region.\<close>

record ('b, 'm) CpuRegion =
  machine :: "('b, 'm) IntcState"
  current_core :: nat
  region_data :: "u8 list"

text \<open>What the pointer \<open>get_cpu_register_addr\<close> returns points to.\<close>

datatype register_cell = CoreRegister u32 | RegionWord u32

definition get_cpu_register_addr :: "'b TargetCoreType \<Rightarrow> u32 \<Rightarrow> register_cell option" where
  "get_cpu_register_addr cpu addr =
     (let inx = (addr - CPU_CONFIG_DEBUG_REGISTER_ADDR) div 4
      in if inx \<le> 31 then Some (CoreRegister inx)
         else if addr = CPU_CONFIG_ADDR_PEID then
           Some (RegionWord ((addr - CPU_CONFIG_DEBUG_REGISTER_ADDR) * core_id cpu))
         else if addr \<ge> CPU_CONFIG_ADDR_MEV_0 \<and> addr \<le> CPU_CONFIG_ADDR_MEV_7 then
           Some (RegionWord (addr - CPU_CONFIG_DEBUG_REGISTER_ADDR))
         else if addr \<ge> CPU_CONFIG_ADDR_MIR_0 \<and> addr \<le> CPU_CONFIG_ADDR_MIR_1 then
           Some (RegionWord (addr - CPU_CONFIG_DEBUG_REGISTER_ADDR))
         else None)"

text \<open>Reading and writing the cell, the bytes little endian.\<close>

definition load_cell :: "register_cell \<Rightarrow> ('b, 'm) CpuRegion \<Rightarrow> u32 option" where
  "load_cell c r =
     (case c of
        CoreRegister i \<Rightarrow> Some (regs (reg (cpus (machine r) (current_core r))) i)
      | RegionWord w \<Rightarrow>
          let k = unat w; d = region_data r
          in if k + 3 < length d
             then Some (push_bit 24 (ucast (d ! (k + 3))) OR push_bit 16 (ucast (d ! (k + 2))) OR
                    push_bit 8 (ucast (d ! (k + 1))) OR ucast (d ! k))
             else None)"

definition store_cell :: "register_cell \<Rightarrow> u32 \<Rightarrow> ('b, 'm) CpuRegion \<Rightarrow> ('b, 'm) CpuRegion option" where
  "store_cell c v r =
     (case c of
        CoreRegister i \<Rightarrow>
          Some (r\<lparr>machine := upd_cpu (current_core r)
                 (\<lambda>cpu. cpu\<lparr>reg := set_r i v (reg cpu)\<rparr>) (machine r)\<rparr>)
      | RegionWord w \<Rightarrow>
          let k = unat w
          in if k + 3 < length (region_data r)
             then Some (r\<lparr>region_data := (region_data r)[k := ucast v, k + 1 := ucast (drop_bit 8 v),
                    k + 2 := ucast (drop_bit 16 v), k + 3 := ucast (drop_bit 24 v)]\<rparr>)
             else None)"

section \<open>Accesses\<close>

text \<open>A result \<open>Some (err, v, r)\<close> is the return value, what \<^verbatim>\<open>*data\<close> holds if it was set, the state.\<close>

definition cpu_get_data32 :: "u32 \<Rightarrow> u32 \<Rightarrow> ('b, 'm) CpuRegion \<Rightarrow>
    (Std_ReturnType \<times> u32 option \<times> ('b, 'm) CpuRegion) option" where
  "cpu_get_data32 coreid addr r =
     (case get_cpu_register_addr (cpus (machine r) (current_core r)) addr of
        None \<Rightarrow> Some (STD_E_SEGV, None, r)
      | Some p \<Rightarrow>
          (case (if addr = CPU_CONFIG_ADDR_PEID then store_cell p (coreid + 1) r else Some r) of
             None \<Rightarrow> None
           | Some r \<Rightarrow> map_option (\<lambda>v. (STD_E_OK, Some v, r)) (load_cell p r)))"

definition cpu_put_data32 :: "'m mem_ops \<Rightarrow> list_ops \<Rightarrow> u32 \<Rightarrow> u32 \<Rightarrow> u32 \<Rightarrow> ('b, 'm) CpuRegion \<Rightarrow>
    (Std_ReturnType \<times> ('b, 'm) CpuRegion) option" where
  "cpu_put_data32 M L coreid addr data r =
     (case get_cpu_register_addr (cpus (machine r) (current_core r)) addr of
        None \<Rightarrow> Some (STD_E_SEGV, r)
      | Some p \<Rightarrow>
          if addr = CPU_CONFIG_ADDR_PEID then Some (STD_E_SEGV, r)
          else if addr = CPU_CONFIG_ADDR_MIR_0 then
            Some (STD_E_OK, r\<lparr>machine :=
              intc_cpu_trigger_interrupt M L (unat coreid) CPU_CONFIG_ADDR_MIR_0_INTNO (machine r)\<rparr>)
          else if addr = CPU_CONFIG_ADDR_MIR_1 then
            Some (STD_E_OK, r\<lparr>machine :=
              intc_cpu_trigger_interrupt M L (unat coreid) CPU_CONFIG_ADDR_MIR_1_INTNO (machine r)\<rparr>)
          else map_option (\<lambda>r. (STD_E_OK, r)) (store_cell p data r))"

definition cpu_set_current_core :: "nat \<Rightarrow> ('b, 'm) CpuRegion \<Rightarrow> ('b, 'm) CpuRegion" where
  "cpu_set_current_core coreid r = r\<lparr>current_core := coreid\<rparr>"

section \<open>Getters\<close>

definition cpu_get_pc :: "'b TargetCoreType \<Rightarrow> u32" where
  "cpu_get_pc cpu = pc (reg cpu)"

definition cpu_get_ep :: "'b TargetCoreType \<Rightarrow> u32" where
  "cpu_get_ep cpu = regs (reg cpu) 30"

definition cpu_get_sp :: "'b TargetCoreType \<Rightarrow> u32" where
  "cpu_get_sp cpu = regs (reg cpu) 3"

definition cpu_get_return_addr :: "'b TargetCoreType \<Rightarrow> u32" where
  "cpu_get_return_addr cpu = regs (reg cpu) 31"

definition cpu_get_core_id :: "'b TargetCoreType \<Rightarrow> u32" where
  "cpu_get_core_id cpu = core_id cpu"

definition the_current_core :: "('b, 'm) CpuRegion \<Rightarrow> 'b TargetCoreType" where
  "the_current_core r = cpus (machine r) (current_core r)"

definition cpu_get_current_core_id :: "('b, 'm) CpuRegion \<Rightarrow> u32" where
  "cpu_get_current_core_id r = core_id (the_current_core r)"

definition cpu_get_current_core_pc :: "('b, 'm) CpuRegion \<Rightarrow> u32" where
  "cpu_get_current_core_pc r = cpu_get_pc (the_current_core r)"

definition cpu_get_current_core_register :: "u32 \<Rightarrow> ('b, 'm) CpuRegion \<Rightarrow> u32" where
  "cpu_get_current_core_register inx r = regs (reg (the_current_core r)) inx"

definition cpu_get_current_core_sp :: "('b, 'm) CpuRegion \<Rightarrow> u32" where
  "cpu_get_current_core_sp r = cpu_get_sp (the_current_core r)"

definition cpu_get_current_core_ep :: "('b, 'm) CpuRegion \<Rightarrow> u32" where
  "cpu_get_current_core_ep r = cpu_get_ep (the_current_core r)"

definition cpu_set_core_pc :: "nat \<Rightarrow> u32 \<Rightarrow> ('b, 'm) CpuRegion \<Rightarrow> ('b, 'm) CpuRegion" where
  "cpu_set_core_pc coreid a r =
     r\<lparr>machine := upd_cpu coreid (\<lambda>cpu. cpu\<lparr>reg := (reg cpu)\<lparr>pc := a\<rparr>\<rparr>) (machine r)\<rparr>"

section \<open>Initialisation\<close>

text \<open>\<open>cpu_init\<close> over the cores of a table.\<close>

definition cpu_init :: "'b bus_ops \<Rightarrow> nat \<Rightarrow> (nat \<Rightarrow> 'b CpuCoreType) \<Rightarrow> nat \<Rightarrow> 'b CpuCoreType" where
  "cpu_init B core_num cores =
     fold (\<lambda>i cores.
         let st = cores i
         in cores(i := cpu_reset B (st\<lparr>core := (core st)\<lparr>core_id := of_nat i\<rparr>\<rparr>)))
       [0..<core_num] cores"

end
