(* ===== verification/Dbg_Gdb.thy ===== *)
theory Dbg_Gdb
  imports Cpu_State
begin

text \<open>
  The register access of the remote debugger, \<^verbatim>\<open>dbg_target_cpu.c\<close>: the registers by the number
  in the protocol (the general registers, the basic system registers, the program counter), read
  and written as four bytes, little endian.  The printing functions of the file are not modelled.
\<close>

abbreviation (input) SYS_REG_NUM :: u32 where "SYS_REG_NUM \<equiv> 32"

definition ATHRILL_GDB_REG_COUNT :: u32 where
  "ATHRILL_GDB_REG_COUNT = 406"

definition dbg_target_gdb_set_pc :: "u32 \<Rightarrow> CpuRegisterType \<Rightarrow> CpuRegisterType" where
  "dbg_target_gdb_set_pc a g = g\<lparr>pc := a\<rparr>"

definition dbg_target_gdb_reg_count :: u32 where
  "dbg_target_gdb_reg_count = ATHRILL_GDB_REG_COUNT"

definition dbg_target_gdb_reg_size :: "u32 \<Rightarrow> u32" where
  "dbg_target_gdb_reg_size regno = (if regno \<ge> 374 then 8 else 4)"

text \<open>What the pointer \<open>gdb_reg_ptr\<close> returns points to.\<close>

datatype gdb_cell = GdbR u32 | GdbSys u32 | GdbPc

definition gdb_reg_ptr :: "u32 \<Rightarrow> gdb_cell option" where
  "gdb_reg_ptr regno =
     (if regno < CPU_GREG_NUM then Some (GdbR regno)
      else if regno < CPU_GREG_NUM + SYS_REG_NUM then Some (GdbSys (regno - CPU_GREG_NUM))
      else if regno = CPU_GREG_NUM + SYS_REG_NUM then Some GdbPc
      else None)"

definition gdb_load :: "gdb_cell \<Rightarrow> CpuRegisterType \<Rightarrow> u32" where
  "gdb_load c g = (case c of GdbR i \<Rightarrow> regs g i | GdbSys i \<Rightarrow> cpu_base i g | GdbPc \<Rightarrow> pc g)"

definition gdb_store :: "gdb_cell \<Rightarrow> u32 \<Rightarrow> CpuRegisterType \<Rightarrow> CpuRegisterType" where
  "gdb_store c v g =
     (case c of GdbR i \<Rightarrow> set_r i v g | GdbSys i \<Rightarrow> set_cpu_base i v g | GdbPc \<Rightarrow> g\<lparr>pc := v\<rparr>)"

text \<open>The bytes are written to the caller's array only when the register exists.\<close>

definition dbg_target_gdb_read_reg :: "u32 \<Rightarrow> CpuRegisterType \<Rightarrow> u8 list option" where
  "dbg_target_gdb_read_reg regno g =
     (case gdb_reg_ptr regno of
        None \<Rightarrow> None
      | Some value_ptr \<Rightarrow>
          let value = gdb_load value_ptr g
          in Some [ucast (value AND 0xFF), ucast (drop_bit 8 value AND 0xFF),
                   ucast (drop_bit 16 value AND 0xFF), ucast (drop_bit 24 value AND 0xFF)])"

definition dbg_target_gdb_write_reg :: "u32 \<Rightarrow> u8 list \<Rightarrow> CpuRegisterType \<Rightarrow> bool \<times> CpuRegisterType" where
  "dbg_target_gdb_write_reg regno bytes g =
     (case gdb_reg_ptr regno of
        None \<Rightarrow> (False, g)
      | Some value_ptr \<Rightarrow>
          let value = ucast (bytes ! 0) OR push_bit 8 (ucast (bytes ! 1)) OR
                push_bit 16 (ucast (bytes ! 2)) OR push_bit 24 (ucast (bytes ! 3))
          in (True, gdb_store value_ptr value g))"

section \<open>The bytes of a word\<close>

lemma bytes_of_word:
  fixes v :: u32
  shows "(ucast (ucast (v AND 0xFF) :: u8) :: u32) OR push_bit 8 (ucast (ucast (drop_bit 8 v AND 0xFF) :: u8)) OR
    push_bit 16 (ucast (ucast (drop_bit 16 v AND 0xFF) :: u8)) OR
    push_bit 24 (ucast (ucast (drop_bit 24 v AND 0xFF) :: u8)) = v"
proof -
  have m: "(0xFF :: u32) = mask 8" by (simp add: mask_eq_exp_minus_1)
  have e: "8 \<le> n \<Longrightarrow> 8 + (n - 8) = n" "16 \<le> n \<Longrightarrow> 16 + (n - 16) = n" "24 \<le> n \<Longrightarrow> 24 + (n - 24) = n" for n :: nat
    by simp_all
  show ?thesis unfolding m
  proof (rule bit_word_eqI)
    fix n
    assume n: "n < LENGTH(32)"
    consider "n < 8" | "8 \<le> n" "n < 16" | "16 \<le> n" "n < 24" | "24 \<le> n" by linarith
    then show "bit ((ucast (ucast (v AND mask 8) :: u8) :: u32) OR push_bit 8 (ucast (ucast (drop_bit 8 v AND mask 8) :: u8)) OR
        push_bit 16 (ucast (ucast (drop_bit 16 v AND mask 8) :: u8)) OR
        push_bit 24 (ucast (ucast (drop_bit 24 v AND mask 8) :: u8))) n = bit v n"
      using n by cases (simp add: bit_simps e; auto)+
  qed
qed

lemma word_of_bytes:
  fixes a b c d :: u8
  defines "v \<equiv> (ucast a :: u32) OR push_bit 8 (ucast b) OR push_bit 16 (ucast c) OR push_bit 24 (ucast d)"
  shows "ucast (v AND 0xFF) = a" "ucast (drop_bit 8 v AND 0xFF) = b"
    "ucast (drop_bit 16 v AND 0xFF) = c" "ucast (drop_bit 24 v AND 0xFF) = d"
proof -
  have m: "(0xFF :: u32) = mask 8" by (simp add: mask_eq_exp_minus_1)
  show "ucast (v AND 0xFF) = a" "ucast (drop_bit 8 v AND 0xFF) = b"
    "ucast (drop_bit 16 v AND 0xFF) = c" "ucast (drop_bit 24 v AND 0xFF) = d"
    unfolding m v_def
    by (rule bit_word_eqI; auto simp: bit_simps dest: bit_imp_le_length)+
qed

end
