(* ===== verification/Region_Props.thy ===== *)
theory Region_Props
  imports Cpu_Region Dbg_Gdb Intc_Props
begin

text \<open>
  The registers of a core as the debugger and as the guest reach them: the register access of the
  remote debugger and the words the cores share.
\<close>

section \<open>The remote debugger\<close>

lemma gdb_cells:
  "gdb_reg_ptr a = Some c \<Longrightarrow> gdb_load c (gdb_store c v g) = v"
  "gdb_reg_ptr a = Some c \<Longrightarrow> gdb_reg_ptr b = Some d \<Longrightarrow> a \<noteq> b \<Longrightarrow> gdb_load d (gdb_store c v g) = gdb_load d g"
  by (auto simp: gdb_reg_ptr_def gdb_load_def gdb_store_def cpu_base_def set_cpu_base_def get_sys_cell_def
      set_sys_cell_def split: if_splits gdb_cell.splits)

text \<open>What the remote debugger writes to a register it reads back, and the write changes no other
  register the debugger can see.  The registers are the 32 general and 32 system registers and the
  program counter; every other number is refused and changes nothing.\<close>

lemma gdb_roundtrip:
  assumes "length bytes = 4"
  shows "if regno \<le> 64
    then \<exists>g'. dbg_target_gdb_write_reg regno bytes g = (True, g') \<and>
      dbg_target_gdb_read_reg regno g' = Some bytes \<and>
      (\<forall>r. r \<noteq> regno \<longrightarrow> dbg_target_gdb_read_reg r g' = dbg_target_gdb_read_reg r g)
    else dbg_target_gdb_write_reg regno bytes g = (False, g) \<and> dbg_target_gdb_read_reg regno g = None"
proof -
  obtain a b c d where s: "bytes = [a, b, c, d]"
    using assms by (auto simp: length_Suc_conv eval_nat_numeral)
  have e: "gdb_reg_ptr regno \<noteq> None \<longleftrightarrow> regno \<le> 64"
    by (auto simp: gdb_reg_ptr_def word_less_nat_alt word_le_nat_alt word_unat_eq_iff)
  show ?thesis
  proof (cases "gdb_reg_ptr regno")
    case None
    then show ?thesis using e by (simp add: dbg_target_gdb_write_reg_def dbg_target_gdb_read_reg_def)
  next
    case (Some p)
    let ?v = "ucast a OR push_bit 8 (ucast b) OR push_bit 16 (ucast c) OR push_bit 24 (ucast d) :: u32"
    have "dbg_target_gdb_read_reg r (gdb_store p ?v g) = dbg_target_gdb_read_reg r g" if "r \<noteq> regno" for r
      using gdb_cells(2) [OF Some _ that [symmetric]]
      by (auto simp: dbg_target_gdb_read_reg_def split: option.splits)
    moreover have "dbg_target_gdb_read_reg regno (gdb_store p ?v g) = Some bytes"
      using Some unfolding dbg_target_gdb_read_reg_def
      by (simp only: option.case gdb_cells(1) [OF Some] Let_def word_of_bytes s)
    moreover have "dbg_target_gdb_write_reg regno bytes g = (True, gdb_store p ?v g)"
      using Some by (simp add: dbg_target_gdb_write_reg_def s)
    ultimately show ?thesis using e Some by auto
  qed
qed

lemma gdb_roundtrip_witness:
  "\<exists>g'. dbg_target_gdb_write_reg 64 [0x78, 0x56, 0x34, 0x12] (reg (sample_core blank_code (\<lambda>_. 0) 0 ())) = (True, g') \<and>
     dbg_target_gdb_read_reg 64 g' = Some [0x78, 0x56, 0x34, 0x12]"
  using gdb_roundtrip [of "[0x78, 0x56, 0x34, 0x12]" 64 "reg (sample_core blank_code (\<lambda>_. 0) 0 ())"] by auto

section \<open>Shared words\<close>

lemma load_store:
  assumes "store_cell p v r = Some r'"
  shows "load_cell p r' = Some v"
  using assms by (cases p) (auto simp: store_cell_def load_cell_def upd_cpu_def Let_def join32 split: if_splits)

lemma load_store_apart:
  assumes "store_cell (RegionWord a) v r = Some r'" and "unat a + 4 \<le> unat b \<or> unat b + 4 \<le> unat a"
  shows "load_cell (RegionWord b) r' = load_cell (RegionWord b) r"
  using assms by (auto simp: store_cell_def load_cell_def Let_def split: if_splits)

definition mev_addr :: "u32 \<Rightarrow> bool" where
  "mev_addr a \<longleftrightarrow> CPU_CONFIG_ADDR_MEV_0 \<le> a \<and> a \<le> CPU_CONFIG_ADDR_MEV_7"

lemma mev_cell: "mev_addr a \<Longrightarrow> get_cpu_register_addr cpu a = Some (RegionWord (a - CPU_CONFIG_DEBUG_REGISTER_ADDR))"
  and mev_other: "mev_addr a \<Longrightarrow> a \<notin> {CPU_CONFIG_ADDR_PEID, CPU_CONFIG_ADDR_MIR_0, CPU_CONFIG_ADDR_MIR_1}"
  and mev_offset: "mev_addr a \<Longrightarrow> 0x6900 \<le> unat (a - CPU_CONFIG_DEBUG_REGISTER_ADDR) \<and>
    unat (a - CPU_CONFIG_DEBUG_REGISTER_ADDR) \<le> 0x691C"
proof -
  assume a: "mev_addr a"
  then have u: "0x06FF6900 \<le> unat a" "unat a \<le> 0x06FF691C" by (simp_all add: mev_addr_def word_le_nat_alt)
  then have s: "unat (a - CPU_CONFIG_DEBUG_REGISTER_ADDR) = unat a - 0x06FF0000"
    by (subst unat_sub) (simp_all add: word_le_nat_alt)
  show "0x6900 \<le> unat (a - CPU_CONFIG_DEBUG_REGISTER_ADDR) \<and> unat (a - CPU_CONFIG_DEBUG_REGISTER_ADDR) \<le> 0x691C"
    unfolding s using u by linarith
  show o: "a \<notin> {CPU_CONFIG_ADDR_PEID, CPU_CONFIG_ADDR_MIR_0, CPU_CONFIG_ADDR_MIR_1}"
    using a by (auto simp: mev_addr_def)
  have "\<not> (a - CPU_CONFIG_DEBUG_REGISTER_ADDR) div 4 \<le> 31"
    unfolding word_le_nat_alt unat_div s using u by simp
  then show "get_cpu_register_addr cpu a = Some (RegionWord (a - CPU_CONFIG_DEBUG_REGISTER_ADDR))"
    using a o by (simp add: get_cpu_register_addr_def mev_addr_def)
qed

lemma peid_cell: "get_cpu_register_addr cpu CPU_CONFIG_ADDR_PEID = Some (RegionWord (0x6490 * core_id cpu))"
  by (simp add: get_cpu_register_addr_def)

text \<open>A machine whose cores know their numbers, with 64 KB behind the region.\<close>

definition sample_region :: "('b, 'm) IntcState \<Rightarrow> ('b, 'm) CpuRegion" where
  "sample_region s = \<lparr>machine = s\<lparr>cpus := (\<lambda>c. (cpus s c)\<lparr>core_id := (if c = 0 then 0 else 1)\<rparr>)\<rparr>,
     current_core = 0, region_data = replicate 0x10000 0\<rparr>"

text \<open>C19: The words MEV are memory the cores share, and reading the number of a core does not disturb
  them.  After core \<open>k\<close> has written one, core \<open>j\<close> reads its own number from PEID, and then
  core \<open>i\<close> reads what was written, whichever cores these are; although PEID keeps the number in the
  bytes of the region, at an offset that depends on the core.\<close>

lemma shared_words:
  assumes "mev_addr a" and "0x6920 \<le> length (region_data r)"
    and "\<And>c. c \<in> {i, j, k} \<Longrightarrow> core_id (cpus (machine r) c) \<in> {0, 1}"
  shows "\<exists>r1 r2 r3. cpu_put_data32 M L (of_nat k) a v (cpu_set_current_core k r) = Some (STD_E_OK, r1) \<and>
    cpu_get_data32 (of_nat j) CPU_CONFIG_ADDR_PEID (cpu_set_current_core j r1) =
      Some (STD_E_OK, Some (of_nat j + 1), r2) \<and>
    cpu_get_data32 (of_nat i) a (cpu_set_current_core i r2) = Some (STD_E_OK, Some v, r3) \<and>
    machine r3 = machine r"
proof -
  let ?p = "RegionWord (a - CPU_CONFIG_DEBUG_REGISTER_ADDR)"
  let ?q = "RegionWord (0x6490 * core_id (cpus (machine r) j))"
  note o = mev_offset [OF assms(1)]
  have q: "unat (0x6490 * core_id (cpus (machine r) j)) \<in> {0, 0x6490}" using assms(3) [of j] by auto
  have c: "store_cell p w (cpu_set_current_core n x) = map_option (cpu_set_current_core n) (store_cell p w x)"
    "load_cell p (cpu_set_current_core n x) = load_cell p x"
    if "p = RegionWord y" for p w n x y
    unfolding that by (simp_all add: store_cell_def load_cell_def cpu_set_current_core_def Let_def)
  obtain r1 where 1: "store_cell ?p v r = Some r1" "0x6920 \<le> length (region_data r1)" "machine r1 = machine r"
    using o assms(2) by (simp add: store_cell_def Let_def)
  obtain r2 where 2: "store_cell ?q (of_nat j + 1) r1 = Some r2" "machine r2 = machine r"
    using q 1(2,3) by (auto simp add: store_cell_def Let_def)
  have l: "load_cell ?q r2 = Some (of_nat j + 1)" by (rule load_store [OF 2(1)])
  have "load_cell ?p r2 = load_cell ?p r1" by (rule load_store_apart [OF 2(1)]) (use q o in auto)
  then have w: "load_cell ?p r2 = Some v" using load_store [OF 1(1)] by simp
  have s: "machine (cpu_set_current_core n x) = machine x" "current_core (cpu_set_current_core n x) = n" for n x
    by (simp_all add: cpu_set_current_core_def)
  have t: "cpu_set_current_core n (cpu_set_current_core m x) = cpu_set_current_core n x" for n m x
    by (simp add: cpu_set_current_core_def)
  show ?thesis
    by (rule exI [of _ "cpu_set_current_core k r1"], rule exI [of _ "cpu_set_current_core j r2"],
        rule exI [of _ "cpu_set_current_core i r2"])
      (use mev_other [OF assms(1)] in \<open>simp add: cpu_put_data32_def cpu_get_data32_def mev_cell [OF assms(1)]
        peid_cell s t c 1 2 l w\<close>)
qed

lemma shared_words_witness:
  "\<exists>r1 r2 r3. cpu_put_data32 reg_memory sample_lists 1 0x06FF6904 42 (cpu_set_current_core 1 (sample_region sample_ready)) =
      Some (STD_E_OK, r1) \<and>
    cpu_get_data32 1 CPU_CONFIG_ADDR_PEID (cpu_set_current_core 1 r1) = Some (STD_E_OK, Some 2, r2) \<and>
    cpu_get_data32 0 0x06FF6904 (cpu_set_current_core 0 r2) = Some (STD_E_OK, Some 42, r3)"
proof -
  have "core_id (cpus (machine (sample_region sample_ready)) c) \<in> {0, 1}" for c
    by (simp add: sample_region_def)
  moreover have "mev_addr 0x06FF6904" by (simp add: mev_addr_def)
  ultimately show ?thesis
    using shared_words [of "0x06FF6904" "sample_region sample_ready" 0 1 1 reg_memory sample_lists 42]
    by (auto simp: sample_region_def)
qed

end
