(* ===== verification/Mpu_Config.thy ===== *)
theory Mpu_Config
  imports Per_Board
begin

text \<open>
  The memory map of \<^verbatim>\<open>config/rh850f1k/mpu_config.c\<close> with the addresses of \<^verbatim>\<open>config/mpu_config.h\<close>: the
  regions in the order of the table, each with its first address, its size, the handlers of its
  accesses and the array behind it.  Of the array only its length is given.  The emulator core
  that looks addresses up in the map is not part of this repository.
\<close>

abbreviation (input) CPU_CONFIG_CORE_NUM :: nat where "CPU_CONFIG_CORE_NUM \<equiv> 2"

definition MPU_ADDRESS_REGION_SIZE_INX_INTC1 :: u32 where
  "MPU_ADDRESS_REGION_SIZE_INX_INTC1 = 0xFFFEEC00 - 0xFFFEEA00"
definition MPU_ADDRESS_REGION_SIZE_INX_INTC2 :: u32 where
  "MPU_ADDRESS_REGION_SIZE_INX_INTC2 = 0xFFFFC000 - 0xFFFFB000"
definition MPU_ADDRESS_REGION_SIZE_INX_SERIAL :: u32 where
  "MPU_ADDRESS_REGION_SIZE_INX_SERIAL = 0xFFCE2180 - 0xFFCE2000"
definition MPU_ADDRESS_REGION_SIZE_INX_CAN :: u32 where
  "MPU_ADDRESS_REGION_SIZE_INX_CAN = 0xFFD08000 - 0xFFD00000"
definition MPU_ADDRESS_REGION_SIZE_INX_CLOCK :: u32 where
  "MPU_ADDRESS_REGION_SIZE_INX_CLOCK = 0xFFF8A80C - 0xFFF81100"
definition MPU_ADDRESS_REGION_SIZE_INX_TIMER :: u32 where
  "MPU_ADDRESS_REGION_SIZE_INX_TIMER = 0xFFE51100 - 0xFFE50000"
definition MPU_ADDRESS_REGION_SIZE_INX_PH0 :: u32 where
  "MPU_ADDRESS_REGION_SIZE_INX_PH0 = 0xFFF8E015 - 0xFFF80000"
definition MPU_ADDRESS_REGION_SIZE_INX_PH1 :: u32 where
  "MPU_ADDRESS_REGION_SIZE_INX_PH1 = 0xFFC340A0 - 0xFFA00004"

abbreviation (input) MPU_ADDRESS_REGION_MASK_PH :: u32 where "MPU_ADDRESS_REGION_MASK_PH \<equiv> 0xFFFFFFFF"

datatype region_ops = intc_memory_operation | timer_memory_operation | serial_memory_operation
  | can_memory_operation | clock_memory_operation | default_memory_operation

record MpuMapEntry =
  me_start :: u32
  me_size :: u32
  me_mask :: u32
  me_array :: nat
  me_ops :: region_ops

text \<open>The lengths of the arrays; the one of the clock region is declared with the serial size.\<close>

definition memory_data_INTC1 :: nat where
  "memory_data_INTC1 = unat MPU_ADDRESS_REGION_SIZE_INX_INTC1 * CPU_CONFIG_CORE_NUM"
definition memory_data_INTC2 :: nat where
  "memory_data_INTC2 = unat MPU_ADDRESS_REGION_SIZE_INX_INTC2 * CPU_CONFIG_CORE_NUM"
definition memory_data_SERIAL :: nat where
  "memory_data_SERIAL = unat MPU_ADDRESS_REGION_SIZE_INX_SERIAL"
definition memory_data_CLOCK :: nat where
  "memory_data_CLOCK = unat MPU_ADDRESS_REGION_SIZE_INX_SERIAL"
definition memory_data_TIMER :: nat where
  "memory_data_TIMER = unat MPU_ADDRESS_REGION_SIZE_INX_TIMER"
definition memory_data_PH0 :: nat where
  "memory_data_PH0 = unat MPU_ADDRESS_REGION_SIZE_INX_PH0"
definition memory_data_PH1 :: nat where
  "memory_data_PH1 = unat MPU_ADDRESS_REGION_SIZE_INX_PH1"
definition memory_data_CAN :: nat where
  "memory_data_CAN = unat MPU_ADDRESS_REGION_SIZE_INX_CAN"

definition map_entry :: "u32 \<Rightarrow> u32 \<Rightarrow> nat \<Rightarrow> region_ops \<Rightarrow> MpuMapEntry" where
  "map_entry start sz n ops =
     \<lparr>me_start = start, me_size = sz, me_mask = MPU_ADDRESS_REGION_MASK_PH, me_array = n, me_ops = ops\<rparr>"

text \<open>The entry of the CAN controller is compiled for \<^verbatim>\<open>OS_LINUX\<close> only.\<close>

definition mpu_address_map :: "bool \<Rightarrow> MpuMapEntry list" where
  "mpu_address_map os_linux =
     [map_entry 0xFFFEEA00 MPU_ADDRESS_REGION_SIZE_INX_INTC1 memory_data_INTC1 intc_memory_operation,
      map_entry 0xFFFFB000 MPU_ADDRESS_REGION_SIZE_INX_INTC2 memory_data_INTC2 intc_memory_operation,
      map_entry 0xFFE50000 MPU_ADDRESS_REGION_SIZE_INX_TIMER memory_data_TIMER timer_memory_operation,
      map_entry 0xFFCE2000 MPU_ADDRESS_REGION_SIZE_INX_SERIAL memory_data_SERIAL serial_memory_operation] @
     (if os_linux
      then [map_entry 0xFFD00000 MPU_ADDRESS_REGION_SIZE_INX_CAN memory_data_CAN can_memory_operation]
      else []) @
     [map_entry 0xFFF81100 MPU_ADDRESS_REGION_SIZE_INX_CLOCK memory_data_CLOCK clock_memory_operation,
      map_entry 0xFFF80000 MPU_ADDRESS_REGION_SIZE_INX_PH0 memory_data_PH0 default_memory_operation,
      map_entry 0xFFA00004 MPU_ADDRESS_REGION_SIZE_INX_PH1 memory_data_PH1 default_memory_operation]"

text \<open>The indices under which the devices ask for their regions.\<close>

definition MPU_ADDRESS_REGION_INX :: "region_ops \<Rightarrow> nat" where
  "MPU_ADDRESS_REGION_INX ops =
     (case ops of
        intc_memory_operation \<Rightarrow> 0
      | timer_memory_operation \<Rightarrow> 2
      | serial_memory_operation \<Rightarrow> 3
      | can_memory_operation \<Rightarrow> 4
      | clock_memory_operation \<Rightarrow> 5
      | default_memory_operation \<Rightarrow> 6)"

section \<open>What the map says\<close>

text \<open>A region as its handlers see it, with the bytes \<open>d\<close> in its array.\<close>

definition region_of :: "MpuMapEntry \<Rightarrow> u8 list \<Rightarrow> MpuAddressRegionType" where
  "region_of e d = \<lparr>rg_start = me_start e, rg_mask = me_mask e, rg_data = d\<rparr>"

definition in_region :: "MpuMapEntry \<Rightarrow> u32 \<Rightarrow> bool" where
  "in_region e a \<longleftrightarrow> a - me_start e < me_size e"

lemmas map_defs = mpu_address_map_def map_entry_def memory_data_INTC1_def memory_data_INTC2_def
  memory_data_SERIAL_def memory_data_CLOCK_def memory_data_TIMER_def memory_data_PH0_def
  memory_data_PH1_def memory_data_CAN_def MPU_ADDRESS_REGION_SIZE_INX_INTC1_def
  MPU_ADDRESS_REGION_SIZE_INX_INTC2_def MPU_ADDRESS_REGION_SIZE_INX_SERIAL_def
  MPU_ADDRESS_REGION_SIZE_INX_CAN_def MPU_ADDRESS_REGION_SIZE_INX_CLOCK_def
  MPU_ADDRESS_REGION_SIZE_INX_TIMER_def MPU_ADDRESS_REGION_SIZE_INX_PH0_def
  MPU_ADDRESS_REGION_SIZE_INX_PH1_def

text \<open>The array of every region but the clock generator's holds the region.\<close>

lemma map_arrays:
  "e \<in> set (mpu_address_map os_linux) \<Longrightarrow> unat (me_size e) \<le> me_array e \<longleftrightarrow> me_ops e \<noteq> clock_memory_operation"
  by (auto simp: map_defs split: if_splits)

lemma map_clock:
  "e \<in> set (mpu_address_map os_linux) \<Longrightarrow> me_ops e = clock_memory_operation \<Longrightarrow>
     me_start e = 0xFFF81100 \<and> me_size e = 0x970C \<and> me_array e = 0x180"
  by (auto simp: map_defs split: if_splits)

text \<open>The index of a region is the one the devices use only where the CAN entry is compiled.\<close>

lemma map_indices:
  "ops \<noteq> default_memory_operation \<Longrightarrow> me_ops (mpu_address_map True ! MPU_ADDRESS_REGION_INX ops) = ops"
  "me_ops (mpu_address_map False ! MPU_ADDRESS_REGION_INX clock_memory_operation) = default_memory_operation"
  by (cases ops; simp add: mpu_address_map_def map_entry_def MPU_ADDRESS_REGION_INX_def)
    (simp add: mpu_address_map_def map_entry_def MPU_ADDRESS_REGION_INX_def)

end
