(* ===== verification/Map_Props.thy ===== *)
theory Map_Props
  imports Mpu_Config
begin

text \<open>
  The memory map: whether the arrays behind its regions are long enough for the accesses that the
  emulator core hands on, and what that means for the registers of the clock generator.
\<close>

lemma map_sizes:
  "e \<in> set (mpu_address_map os_linux) \<Longrightarrow> me_size e \<le> 0x1000000"
  by (auto simp: map_defs split: if_splits)

lemma off_plus_3:
  fixes x :: u32
  assumes "x < 0x1000000"
  shows "unat (x + 3) = unat x + 3"
proof -
  have "unat x < 0x1000000" using assms by (simp add: word_less_nat_alt)
  then show ?thesis by (subst unat_add_lem [THEN iffD1]) simp_all
qed

lemma region_offset:
  assumes "e \<in> set (mpu_address_map os_linux)" and "in_region e a"
  shows "unat (a + 3 - me_start e) = unat (a - me_start e) + 3"
proof -
  have "a - me_start e < 0x1000000"
    using assms(2) map_sizes [OF assms(1)] unfolding in_region_def by (rule less_le_trans)
  then have "unat (a - me_start e + 3) = unat (a - me_start e) + 3" by (rule off_plus_3)
  then show ?thesis by (simp add: algebra_simps)
qed

lemma access_in_array:
  "rg_put32 (region_of e d) a v = None \<longleftrightarrow> length d \<le> unat (a - me_start e) + 3"
  "rg_get32 (region_of e d) a = None \<longleftrightarrow> length d \<le> unat (a - me_start e) + 3"
  by (auto simp: rg_put32_def rg_get32_def rg_off_def region_of_def Let_def)

lemma region_access:
  assumes "e \<in> set (mpu_address_map os_linux)" and "length d = me_array e"
    and "in_region e a" and "in_region e (a + 3)"
  shows "length d \<le> unat (a - me_start e) + 3 \<longleftrightarrow>
    me_ops e = clock_memory_operation \<and> 0x180 \<le> a + 3 - me_start e"
proof (cases "me_ops e = clock_memory_operation")
  case True
  then show ?thesis
    using map_clock [OF assms(1)] region_offset [OF assms(1,3)] assms(2)
    by (simp add: word_le_nat_alt)
next
  case False
  have "unat (a + 3 - me_start e) < unat (me_size e)"
    using assms(4) by (simp add: in_region_def word_less_nat_alt)
  also have "\<dots> \<le> length d" using map_arrays [OF assms(1)] False assms(2) by simp
  finally show ?thesis using False region_offset [OF assms(1,3)] by simp
qed

lemma clock_selection_outside:
  "(sel, act) \<in> set CKSC_pairs \<Longrightarrow>
     sel - 0xFFF81100 < 0x970C \<and> 0x180 \<le> unat (sel - 0xFFF81100)"
  by (auto simp: CKSC_pairs_def)



end
