(* ===== verification/Spec2Isabelle.thy ===== *)
theory Spec2Isabelle
  imports Arith_Props Logic_Props Stack_Props Safety_Props Spec_Props Mpu_Props Step_Props Intc_Props Can_Run Can_Pass_Inv Can_Props Can_Map Can_Ros Device_Props Fpu_Props Can_Bus_Props Region_Props Map_Props
begin

text \<open>
  A verification development for the RH850/F1x target of the athrill emulator: a model of the
  processor, the interrupt controller and the devices of \<^verbatim>\<open>src/src\<close>, and what they guarantee.
  Source files are named below without that prefix.

  \<^bold>\<open>The program.\<close>  The target is a library of the emulator core, which owns the main loop, the bus, the
  memory and the debugger.  In every tick the core steps each processor core
  (\<^verbatim>\<open>cpu_supply_clock\<close>: fetch, \<^verbatim>\<open>op_parse\<close>, permission check, executor) and supplies the clock to the
  devices (\<^verbatim>\<open>device_supply_clock\<close>: switches, timers, serial channels, CAN, interrupt controller).  An
  executor changes registers, calls the bus, or records an exception in the core; the bus calls the
  register handlers of the devices; a device raises interrupt numbers, which the interrupt controller
  queues and, when it is supplied the clock, turns into an entry of a handler.

  \<^bold>\<open>Conventions.\<close>  A C integer of width \<open>w\<close> is a \<open>w word\<close>, so \<open>+\<close> wraps; \<open>sint\<close> is the signed reading.
  A struct is a record, an enum or a tagged pointer a datatype, an array a function of its index.  A
  function that changes state takes and returns it.  What C leaves undefined, an index outside an
  array or a division the host refuses, is a result of its own (\<open>Fault\<close>, \<open>Crashed\<close> or
  \<open>None\<close>), so a theorem that something returns also says that it does not happen.  The host is
  little endian with 32 bit \<^verbatim>\<open>int\<close> and 64 bit pointers; its \<^verbatim>\<open>float\<close> and \<^verbatim>\<open>double\<close> are those of IEEE 754,
  each operation evaluated in its own type.  The operations of the emulator core and of foreign
  libraries are arguments: records of functions (\<open>bus_ops\<close>, \<open>mem_ops\<close>, \<open>list_ops\<close>,
  \<open>CanBusOperationType\<close>, \<open>hako_ops\<close>, \<open>host_fp\<close>), over a state that is a type parameter.

  \<^bold>\<open>Theories of the model.\<close>

  \<^item> \<open>Prelude\<close>: integer types, result types, the collections of rewrite rules, word lemmas.
  \<^item> \<open>Op_Format\<close>, \<open>Op_Dec\<close>, \<open>Op_CodeId\<close>, \<open>Op_Parse\<close>: the instruction formats, the field decoders, the
    instruction numbers and the recognition of an instruction (\<^verbatim>\<open>cpu/cpu_dec\<close>).
  \<^item> \<open>Cpu_State\<close>, \<open>Cpu_Ops\<close>, \<open>Exec_Base\<close>: the processor state (\<^verbatim>\<open>cpu/target_cpu.h\<close>), flags and shared
    arithmetic (\<^verbatim>\<open>cpu/cpu_common\<close>), the contract of an executor and the interface to the bus.
  \<^item> \<open>Exec_Arith\<close>, \<open>Exec_Logic\<close>, \<open>Exec_Branch\<close>, \<open>Exec_Bit\<close>, \<open>Exec_Load\<close>, \<open>Exec_Store\<close>, \<open>Exec_Spec\<close>: the
    integer instructions, one function per executor of \<^verbatim>\<open>cpu/cpu_exec\<close>.
  \<^item> \<open>Fpu_Sys\<close>, \<open>Ieee\<close>, \<open>Fpu_Ops\<close>, \<open>Exec_Fpu_S\<close>, \<open>Exec_Fpu_D\<close>, \<open>Exec_Fpu_Cvt\<close>, \<open>Fpu_Table\<close>: the system registers of
    the floating point unit (\<^verbatim>\<open>cpu/cpu_common/cpu_fpu_ops.h\<close>), the floating point arithmetic of the C
    language, and the executors of \<^verbatim>\<open>cpu/cpu_exec/op_exec_fpu.c\<close> with their part of the execution table.
  \<^item> \<open>Mpu\<close>: the memory protection unit (\<^verbatim>\<open>cpu/mpu\<close>).
  \<^item> \<open>Cpu_Step\<close>, \<open>Cpu_Region\<close>: the execution table, the step of a core with and without the instruction
    cache, reset, exception hooks, and the memory mapped registers of the cores
    (\<^verbatim>\<open>cpu/cpu_exec/op_exec.c\<close>, \<^verbatim>\<open>cpu/config/cpu_config.c\<close>).  The executors of the floating point unit are an
    argument \<open>fpu\<close> of the step; its value is \<open>fpu_exec\<close> of \<open>Fpu_Table\<close>.
  \<^item> \<open>Intc_Regs\<close>, \<open>Intc\<close>: the interrupt controller (\<^verbatim>\<open>device/intc\<close>): its registers, queues and choices.
  \<^item> \<open>Can_State\<close>, \<open>Can_Fifo\<close>, \<open>Can_Mode\<close>, \<open>Can_Core\<close>, \<open>Can_Reg\<close>, \<open>Can_Map\<close>, \<open>Can_Ros\<close>, \<open>Can_Hako\<close>: the CAN
    controller, its register mapping and its two transports (\<^verbatim>\<open>device/peripheral/rh850f1k/can\<close>).
  \<^item> \<open>Per_Region\<close>, \<open>Per_Timer\<close>, \<open>Per_Serial\<close>, \<open>Per_Board\<close>, \<open>Device_Clock\<close>, \<open>Device\<close>: timers, serial channels,
    clock generator and switches, and the scheduler that composes them (\<^verbatim>\<open>device/device.c\<close>).
  \<^item> \<open>Mpu_Config\<close>: the memory map handed to the core (\<^verbatim>\<open>cpu/config/rh850f1k/mpu_config.c\<close>).
  \<^item> \<open>Dbg_Serial\<close>, \<open>Dbg_Gdb\<close>: the debugger's end of a serial channel and the register access of the
    remote debugger (\<^verbatim>\<open>debugger/executor/concrete_executor\<close>).

  \<^bold>\<open>Interfaces.\<close>  The locale \<open>alu_executor\<close> is the contract of an executor that touches registers and
  arithmetic flags only, \<open>reg_executor\<close> the weaker one of an executor that touches registers,
  \<open>quiet_bus\<close> and \<open>stack_ram\<close> what instructions need of the bus, \<open>fpu_unit\<close> the contract of a table of
  floating point executors, \<open>min_search\<close> the search for the first smallest key, \<open>ring_store\<close> the array
  behind a ring buffer and \<open>queue_impl\<close> the refinement of a bounded queue.  Each is interpreted on the
  definitions of the model, in the theory that provides them.

  \<^bold>\<open>What is proved.\<close>

  \<^item> \<open>Dec_Props\<close>: decoding loses no field, the parser is total on what it accepts and agrees with the
    formats the executors read.
  \<^item> \<open>Arith_Props\<close>, \<open>Logic_Props\<close>, \<open>Stack_Props\<close>, \<open>Spec_Props\<close> (over \<open>Spec_Base\<close>): results and flags of the
    instructions as statements about integers, faults of the divisions, round trips of the stack
    and system register instructions and of exceptions.
  \<^item> \<open>Safety_Props\<close> (over \<open>Exec_Frames\<close>): no instruction but those of the exception group leaves user
    mode, and none writes outside the register array.
  \<^item> \<open>Fpu_Props\<close> (over \<open>Fpu_Lib\<close>, \<open>Fpu_Inv\<close>, \<open>Ieee_Lib\<close>, \<open>Fpu_Class_Lib\<close>): the arithmetic rounds correctly
    in the sense of real numbers, integers survive the conversions, comparisons decide the order of
    the standard, and every executor keeps the views of FPSR in agreement.
  \<^item> \<open>Mpu_Props\<close>: the permission check against a specification over sets of addresses.
  \<^item> \<open>Step_Props\<close>: the cached and the uncached step agree, over any run.
  \<^item> \<open>Intc_Props\<close> (over \<open>Intc_Inv\<close>): the invariant of the queues, the choice of a request, entry and return.
  \<^item> \<open>Can_Props\<close>, \<open>Can_Bus_Props\<close> (over \<open>Can_Inv\<close>, \<open>Can_Run\<close>, \<open>Can_Pass_Inv\<close>, \<open>Queue_Lib\<close>, \<open>Can_Queues\<close>): the
    invariant of the controller over any run, every ring as a bounded queue, routing and selection.
  \<^item> \<open>Device_Props\<close> (over \<open>Device_Inv\<close>, \<open>Timer_Lib\<close>, \<open>Serial_Lib\<close>, \<open>Dbg_Queue\<close>): the tick of all devices returns
    in every reachable state, timers are periodic and may be skipped, transmissions complete.
  \<^item> \<open>Region_Props\<close>: the registers as the remote debugger and the other core reach them.
  \<^item> \<open>Map_Props\<close>: the arrays behind the regions of the memory map are long enough, but for the
    clock generator's.
  \<^item> \<open>Samples\<close> holds the machines on which theorems with hypotheses are instantiated.

  \<^bold>\<open>Loops.\<close>  A loop over a range is a structural recursion or a fold over that range.  Two loops have no
  bound in the source.  The reading of a character from the TCP queue is a \<open>partial_function\<close> that is
  proved to return.  The transfer of a received message, \<open>dbg_serial_do_transfer\<close>, takes fuel; as many
  rounds as the message has bytes are enough when every round makes progress (\<open>transfer_returns\<close> in
  \<open>Dbg_Queue\<close>).

  \<^bold>\<open>Not modelled.\<close>  The emulator core and the libraries (bus, memory map, lists, ROS, Hakoniwa), which are
  not in this repository and are arguments.  The debug instruction of \<^verbatim>\<open>cpu/cpu_exec/op_exec_dbg.c\<close>, whose
  file is empty.  The look-up of an address in the memory map, which the core does.  Reading the device configuration (\<^verbatim>\<open>sscanf\<close>, \<^verbatim>\<open>malloc\<close>) and creating the
  TCP server and its thread: their results are the topic tables and the connection.  Messages on the
  console, the tests, the tools and the parameter files.  The record of floating point exceptions
  that is local to an executor and that nobody reads.
\<close>

end
